(* ===== verification/Prelude.thy ===== *)
theory Prelude
  imports Complex_Main "HOL-Library.Word" "HOL-Library.Multiset"
begin

unbundle bit_operations_syntax

text \<open>
  What every component of the VaidCord model shares: the values of Python the code passes
  around, its exceptions as a sum type, insertion-ordered dictionaries, stable sorting by
  descending priority, decimal printing and parsing of integers, and big-endian byte
  strings, and reachability in transition systems with the contract of an invariant. The collections \<open>dict_simps\<close>, \<open>bytes_simps\<close> and \<open>result_simps\<close> carry the
  rewriting of the component proofs.
\<close>

named_theorems dict_simps
named_theorems bytes_simps
named_theorems result_simps

section \<open>Results and exceptions\<close>

text \<open>
  A fallible operation returns \<open>exc + 'a\<close>: \<open>Inl\<close> carries the Python exception by class
  and message, \<open>Inr\<close> the value returned.
\<close>

datatype exc =
    ValueError string
  | TypeError string
  | KeyError string
  | IndexError
  | RuntimeError string
  | AttributeError string
  | OverflowError
  | TimeoutError
  | OtherError string

type_synonym 'a result = "exc + 'a"

definition bind_result :: "'a result \<Rightarrow> ('a \<Rightarrow> 'b result) \<Rightarrow> 'b result" where
  "bind_result r f = (case r of Inl e \<Rightarrow> Inl e | Inr a \<Rightarrow> f a)"

lemma bind_result_simps [simp, result_simps]:
  "bind_result (Inl e) f = Inl e"
  "bind_result (Inr a) f = f a"
  by (simp_all add: bind_result_def)

lemma bind_result_Inr_iff [result_simps]:
  "bind_result r f = Inr b \<longleftrightarrow> (\<exists>a. r = Inr a \<and> f a = Inr b)"
  by (cases r) auto

lemma bind_result_assoc:
  "bind_result (bind_result r f) g = bind_result r (\<lambda>a. bind_result (f a) g)"
  by (cases r) auto

primrec map_result :: "('a \<Rightarrow> 'b result) \<Rightarrow> 'a list \<Rightarrow> 'b list result" where
  "map_result f [] = Inr []"
| "map_result f (x # xs) =
     bind_result (f x) (\<lambda>y. bind_result (map_result f xs) (\<lambda>ys. Inr (y # ys)))"

lemma map_result_total: "(\<And>x. x \<in> set xs \<Longrightarrow> f x = Inr (g x)) \<Longrightarrow> map_result f xs = Inr (map g xs)"
  by (induction xs) auto

section \<open>Insertion-ordered dictionaries\<close>

text \<open>
  A Python \<open>dict\<close> keeps its keys in insertion order; assigning an existing key keeps its
  place. It is an association list with distinct keys, read by \<open>map_of\<close>.
\<close>

type_synonym ('k, 'v) dict = "('k \<times> 'v) list"

definition dict_wf :: "('k, 'v) dict \<Rightarrow> bool" where
  "dict_wf d \<longleftrightarrow> distinct (map fst d)"

primrec dict_set :: "('k, 'v) dict \<Rightarrow> 'k \<Rightarrow> 'v \<Rightarrow> ('k, 'v) dict" where
  "dict_set [] k v = [(k, v)]"
| "dict_set (p # d) k v = (if fst p = k then (k, v) # d else p # dict_set d k v)"

definition dict_pop :: "('k, 'v) dict \<Rightarrow> 'k \<Rightarrow> ('k, 'v) dict" where
  "dict_pop d k = filter (\<lambda>p. fst p \<noteq> k) d"

definition dict_update :: "('k, 'v) dict \<Rightarrow> ('k, 'v) dict \<Rightarrow> ('k, 'v) dict" where
  "dict_update d e = fold (\<lambda>(k, v) d. dict_set d k v) e d"

definition dict_setdefault :: "('k, 'v) dict \<Rightarrow> 'k \<Rightarrow> 'v \<Rightarrow> ('k, 'v) dict" where
  "dict_setdefault d k v = (case map_of d k of Some _ \<Rightarrow> d | None \<Rightarrow> dict_set d k v)"

definition dict_of :: "('k \<times> 'v) list \<Rightarrow> ('k, 'v) dict" where
  "dict_of ps = fold (\<lambda>(k, v) d. dict_set d k v) ps []"

definition dict_get :: "('k, 'v) dict \<Rightarrow> 'k \<Rightarrow> 'v \<Rightarrow> 'v" where
  "dict_get d k v = (case map_of d k of Some w \<Rightarrow> w | None \<Rightarrow> v)"

lemma map_of_dict_set [simp, dict_simps]: "map_of (dict_set d k v) = (map_of d)(k \<mapsto> v)"
  by (induction d) (auto simp: fun_eq_iff)

lemma map_of_dict_pop [simp, dict_simps]: "map_of (dict_pop d k) = (map_of d)(k := None)"
  by (induction d) (auto simp: dict_pop_def fun_eq_iff)

lemma map_of_fold_dict_set:
  "map_of (fold (\<lambda>(k, v) d. dict_set d k v) e d) = map_of d ++ map_of (rev e)"
  by (induction e arbitrary: d) (auto simp: fun_eq_iff map_add_def split: option.splits)

lemma map_of_dict_of [dict_simps]: "map_of (dict_of ps) = map_of (rev ps)"
  by (simp add: dict_of_def map_of_fold_dict_set)

lemma keys_dict_set [dict_simps]: "fst ` set (dict_set d k v) = insert k (fst ` set d)"
  by (induction d) auto

lemma dict_wf_Nil [simp]: "dict_wf []"
  by (simp add: dict_wf_def)

lemma dict_wf_set [simp, intro]: "dict_wf d \<Longrightarrow> dict_wf (dict_set d k v)"
proof (induction d)
  case Nil
  then show ?case by (simp add: dict_wf_def)
next
  case (Cons p d)
  then show ?case
    using keys_dict_set [of d k v] by (auto simp: dict_wf_def)
qed

lemma dict_wf_pop [simp, intro]: "dict_wf d \<Longrightarrow> dict_wf (dict_pop d k)"
  by (auto simp: dict_wf_def dict_pop_def intro: distinct_map_filter)

lemma dict_wf_fold_set: "dict_wf d \<Longrightarrow> dict_wf (fold (\<lambda>(k, v) d. dict_set d k v) e d)"
  by (induction e arbitrary: d) auto

lemma dict_wf_update [simp, intro]: "dict_wf d \<Longrightarrow> dict_wf (dict_update d e)"
  by (simp add: dict_update_def dict_wf_fold_set)

lemma dict_wf_of [simp, intro]: "dict_wf (dict_of ps)"
  by (simp add: dict_of_def dict_wf_fold_set)

lemma map_of_rev_wf: "dict_wf d \<Longrightarrow> map_of (rev d) = map_of d"
  by (simp add: dict_wf_def map_of_inject_set rev_map [symmetric])

lemma map_of_dict_update [dict_simps]: "map_of (dict_update d e) = map_of d ++ map_of (rev e)"
  by (simp add: dict_update_def map_of_fold_dict_set)

lemma map_of_dict_update_wf: "dict_wf e \<Longrightarrow> map_of (dict_update d e) = map_of d ++ map_of e"
  by (simp add: map_of_dict_update map_of_rev_wf)

lemma dict_set_fresh: "k \<notin> fst ` set d \<Longrightarrow> dict_set d k v = d @ [(k, v)]"
  by (induction d) auto

lemma fold_dict_set_fresh:
  "distinct (map fst e) \<Longrightarrow> fst ` set e \<inter> fst ` set d = {} \<Longrightarrow>
   fold (\<lambda>(k, v) d. dict_set d k v) e d = d @ e"
proof (induction e arbitrary: d)
  case Nil
  then show ?case by simp
next
  case (Cons p e)
  obtain k v where p: "p = (k, v)" by fastforce
  from Cons.prems p have "dict_set d k v = d @ [(k, v)]"
    by (intro dict_set_fresh) auto
  with Cons.prems Cons.IH [of "d @ [(k, v)]"] p show ?case by auto
qed

lemma dict_of_wf_id: "dict_wf d \<Longrightarrow> dict_of d = d"
  using fold_dict_set_fresh [of d "[]"] by (simp add: dict_of_def dict_wf_def)

section \<open>Stable sorting by descending priority\<close>

text \<open>
  \<open>xs.sort(key=f, reverse=True)\<close>: descending, and Python keeps the original order of
  items with equal keys also under \<open>reverse\<close>.
\<close>

definition sort_desc :: "('a \<Rightarrow> int) \<Rightarrow> 'a list \<Rightarrow> 'a list" where
  "sort_desc f xs = sort_key (\<lambda>x. - f x) xs"

definition sorted_desc :: "('a \<Rightarrow> int) \<Rightarrow> 'a list \<Rightarrow> bool" where
  "sorted_desc f xs \<longleftrightarrow> sorted (map (\<lambda>x. - f x) xs)"

lemma sorted_desc_sort_desc [simp]: "sorted_desc f (sort_desc f xs)"
  by (simp add: sorted_desc_def sort_desc_def)

lemma set_sort_desc [simp]: "set (sort_desc f xs) = set xs"
  by (simp add: sort_desc_def)

lemma mset_sort_desc [simp]: "mset (sort_desc f xs) = mset xs"
  by (simp add: sort_desc_def)

lemma sort_desc_stable: "filter (\<lambda>y. f y = c) (sort_desc f xs) = filter (\<lambda>y. f y = c) xs"
proof -
  have "filter (\<lambda>y. - f y = - c) (sort_key (\<lambda>x. - f x) xs) = filter (\<lambda>y. - f y = - c) xs"
    by (rule sort_key_stable)
  then show ?thesis by (simp add: sort_desc_def)
qed

lemma sort_desc_id: "sorted_desc f xs \<Longrightarrow> sort_desc f xs = xs"
  by (simp add: sorted_desc_def sort_desc_def sort_key_id_if_sorted)


section \<open>Decimal integers\<close>

text \<open>
  \<open>str(n)\<close> and \<open>int(s)\<close> on ASCII text: \<open>int\<close> strips surrounding white space, takes an
  optional sign and allows single underscores between digits; anything else raises
  \<open>ValueError\<close>.
\<close>

definition digit_char :: "nat \<Rightarrow> char" where
  "digit_char d = char_of (48 + d)"

definition char_digit :: "char \<Rightarrow> nat option" where
  "char_digit c = (let n = of_char c :: nat in if 48 \<le> n \<and> n \<le> 57 then Some (n - 48) else None)"

fun show_nat :: "nat \<Rightarrow> string" where
  "show_nat n = (if n < 10 then [digit_char n] else show_nat (n div 10) @ [digit_char (n mod 10)])"

declare show_nat.simps [simp del]

definition show_int :: "int \<Rightarrow> string" where
  "show_int i = (if i < 0 then CHR ''-'' # show_nat (nat (- i)) else show_nat (nat i))"

definition is_space :: "char \<Rightarrow> bool" where
  "is_space c \<longleftrightarrow> (let n = of_char c :: nat in n = 32 \<or> (9 \<le> n \<and> n \<le> 13) \<or> (28 \<le> n \<and> n \<le> 31))"

definition py_strip :: "string \<Rightarrow> string" where
  "py_strip s = rev (dropWhile is_space (rev (dropWhile is_space s)))"

fun parse_digits :: "nat \<Rightarrow> string \<Rightarrow> nat option" where
  "parse_digits acc [] = Some acc"
| "parse_digits acc (c # cs) =
     (if c = CHR ''_'' then
        (case cs of
           [] \<Rightarrow> None
         | d # ds \<Rightarrow> (case char_digit d of None \<Rightarrow> None | Some k \<Rightarrow> parse_digits (acc * 10 + k) ds))
      else (case char_digit c of None \<Rightarrow> None | Some k \<Rightarrow> parse_digits (acc * 10 + k) cs))"

definition parse_nat :: "string \<Rightarrow> nat option" where
  "parse_nat s =
     (case s of
        [] \<Rightarrow> None
      | c # cs \<Rightarrow> (case char_digit c of None \<Rightarrow> None | Some k \<Rightarrow> parse_digits k cs))"

definition parse_int :: "string \<Rightarrow> int option" where
  "parse_int s =
     (case py_strip s of
        [] \<Rightarrow> None
      | c # cs \<Rightarrow>
          if c = CHR ''-'' then map_option (\<lambda>n. - int n) (parse_nat cs)
          else if c = CHR ''+'' then map_option int (parse_nat cs)
          else map_option int (parse_nat (c # cs)))"

lemma of_char_digit_char: "d < 10 \<Longrightarrow> of_char (digit_char d) = (48 + d :: nat)"
  by (simp add: digit_char_def)

lemma char_digit_digit_char [simp]: "d < 10 \<Longrightarrow> char_digit (digit_char d) = Some d"
  by (simp add: char_digit_def of_char_digit_char)

lemma digit_char_not_underscore [simp]: "d < 10 \<Longrightarrow> digit_char d \<noteq> CHR ''_''"
  using of_char_digit_char [of d] by auto

lemma digit_char_not_sign: "d < 10 \<Longrightarrow> digit_char d \<noteq> CHR ''-'' \<and> digit_char d \<noteq> CHR ''+''"
  using of_char_digit_char [of d] by auto

lemma digit_char_not_space [simp]: "d < 10 \<Longrightarrow> \<not> is_space (digit_char d)"
  by (simp add: is_space_def of_char_digit_char)

lemma show_nat_digits: "c \<in> set (show_nat n) \<Longrightarrow> \<exists>d < 10. c = digit_char d"
proof (induction n rule: show_nat.induct)
  case (1 n)
  show ?case
  proof (cases "n < 10")
    case True
    with "1.prems" show ?thesis by (auto simp: show_nat.simps [of n])
  next
    case False
    with "1.prems" have "c \<in> set (show_nat (n div 10)) \<or> c = digit_char (n mod 10)"
      by (auto simp: show_nat.simps [of n])
    with False "1.IH" show ?thesis by (auto intro: exI [of _ "n mod 10"])
  qed
qed

lemma show_nat_not_Nil [simp]: "show_nat n \<noteq> []"
  by (subst show_nat.simps) simp

lemma parse_digits_append_digit:
  "\<forall>c \<in> set s. \<exists>d < 10. c = digit_char d \<Longrightarrow> d < 10 \<Longrightarrow>
   parse_digits acc (s @ [digit_char d]) =
     (case parse_digits acc s of None \<Rightarrow> None | Some n \<Rightarrow> Some (n * 10 + d))"
  by (induction s arbitrary: acc) auto

lemma parse_nat_append_digit:
  assumes "s \<noteq> []" and "\<forall>c \<in> set s. \<exists>d < 10. c = digit_char d" and "d < 10"
  shows "parse_nat (s @ [digit_char d]) =
     (case parse_nat s of None \<Rightarrow> None | Some n \<Rightarrow> Some (n * 10 + d))"
  using assms by (cases s) (auto simp: parse_nat_def parse_digits_append_digit)

lemma parse_nat_show_nat [simp]: "parse_nat (show_nat n) = Some n"
proof (induction n rule: show_nat.induct)
  case (1 n)
  show ?case
  proof (cases "n < 10")
    case True
    then show ?thesis by (simp add: show_nat.simps [of n] parse_nat_def)
  next
    case False
    then have "parse_nat (show_nat n) = parse_nat (show_nat (n div 10) @ [digit_char (n mod 10)])"
      by (simp add: show_nat.simps [of n])
    also have "\<dots> = Some (n div 10 * 10 + n mod 10)"
      using False "1.IH" by (subst parse_nat_append_digit) (auto dest: show_nat_digits)
    finally show ?thesis by simp
  qed
qed

lemma py_strip_id: "s \<noteq> [] \<Longrightarrow> \<not> is_space (hd s) \<Longrightarrow> \<not> is_space (last s) \<Longrightarrow> py_strip s = s"
proof -
  assume ne: "s \<noteq> []" and h: "\<not> is_space (hd s)" and l: "\<not> is_space (last s)"
  have "dropWhile is_space s = s" using ne h by (cases s) auto
  moreover have "dropWhile is_space (rev s) = rev s" using ne l by (cases s rule: rev_cases) auto
  ultimately show ?thesis by (simp add: py_strip_def)
qed

lemma py_strip_show_int [simp]: "py_strip (show_int i) = show_int i"
proof (rule py_strip_id)
  show "show_int i \<noteq> []" by (simp add: show_int_def)
  show "\<not> is_space (hd (show_int i))"
    using show_nat_digits [OF hd_in_set [OF show_nat_not_Nil, of "nat i"]]
    by (cases "i < 0") (auto simp: show_int_def is_space_def [of "CHR ''-''"])
  show "\<not> is_space (last (show_int i))"
    using show_nat_digits [OF last_in_set [OF show_nat_not_Nil, of "nat i"]]
      show_nat_digits [OF last_in_set [OF show_nat_not_Nil, of "nat (- i)"]]
    by (auto simp: show_int_def)
qed

text \<open>Printing an integer and parsing it again gives it back.\<close>

lemma parse_int_show_int [simp]: "parse_int (show_int i) = Some i"
proof (cases "i < 0")
  case True
  then have "show_int i = CHR ''-'' # show_nat (nat (- i))" by (simp add: show_int_def)
  then show ?thesis
    using py_strip_show_int [of i] True by (simp add: parse_int_def)
next
  case False
  then have s: "show_int i = show_nat (nat i)" by (simp add: show_int_def)
  obtain c cs where cs: "show_nat (nat i) = c # cs" by (cases "show_nat (nat i)") auto
  then have "c \<noteq> CHR ''-'' \<and> c \<noteq> CHR ''+''"
    using show_nat_digits [of c "nat i"] digit_char_not_sign by auto
  moreover have "parse_nat (c # cs) = Some (nat i)" using cs by (metis parse_nat_show_nat)
  ultimately show ?thesis
    using py_strip_show_int [of i] False by (simp add: parse_int_def s cs)
qed

lemma show_int_inj: "show_int i = show_int j \<Longrightarrow> i = j"
  by (metis parse_int_show_int option.inject)

section \<open>Big-endian byte strings\<close>

type_synonym byte = "8 word"
type_synonym bytes = "byte list"

text \<open>\<open>n.to_bytes(k, "big")\<close> for a value that fits, and \<open>int.from_bytes(bs, "big")\<close>.\<close>

primrec be_encode :: "nat \<Rightarrow> nat \<Rightarrow> bytes" where
  "be_encode 0 n = []"
| "be_encode (Suc k) n = be_encode k (n div 256) @ [word_of_nat n]"

definition be_decode :: "bytes \<Rightarrow> nat" where
  "be_decode bs = foldl (\<lambda>a b. a * 256 + unat b) 0 bs"

lemma length_be_encode [simp, bytes_simps]: "length (be_encode k n) = k"
  by (induction k arbitrary: n) auto

lemma be_decode_Nil [simp]: "be_decode [] = 0"
  by (simp add: be_decode_def)

lemma be_decode_snoc [simp]: "be_decode (bs @ [b]) = be_decode bs * 256 + unat b"
  by (simp add: be_decode_def)

lemma unat_byte_of_nat [simp]: "unat (word_of_nat n :: byte) = n mod 256"
  by (simp add: unat_of_nat)

lemma be_decode_encode_mod: "be_decode (be_encode k n) = n mod 256 ^ k"
proof (induction k arbitrary: n)
  case 0
  then show ?case by simp
next
  case (Suc k)
  have "be_decode (be_encode (Suc k) n) = (n div 256 mod 256 ^ k) * 256 + n mod 256"
    using Suc.IH [of "n div 256"] by simp
  also have "\<dots> = n mod (256 * 256 ^ k)"
    by (simp add: mod_mult2_eq)
  finally show ?case by simp
qed

lemma be_decode_encode [bytes_simps]: "n < 256 ^ k \<Longrightarrow> be_decode (be_encode k n) = n"
  by (simp add: be_decode_encode_mod)

lemma be_decode_bound: "be_decode bs < 256 ^ length bs"
proof (induction bs rule: rev_induct)
  case Nil
  then show ?case by simp
next
  case (snoc b bs)
  have "unat b < 256" using unsigned_less [of b, where ?'a = nat] by simp
  with snoc show ?case by (simp; linarith)
qed

lemma be_encode_decode [bytes_simps]: "be_encode (length bs) (be_decode bs) = bs"
proof (induction bs rule: rev_induct)
  case Nil
  then show ?case by simp
next
  case (snoc b bs)
  have b: "unat b < 256" using unsigned_less [of b, where ?'a = nat] by simp
  then have "(be_decode bs * 256 + unat b) div 256 = be_decode bs" by simp
  moreover have "(word_of_nat (be_decode bs * 256 + unat b) :: byte) = b"
    using b by (subst word_unat_eq_iff) (simp only: unat_byte_of_nat, simp)
  ultimately show ?case using snoc by simp
qed

lemma be_encode_inj: "m < 256 ^ k \<Longrightarrow> n < 256 ^ k \<Longrightarrow> be_encode k m = be_encode k n \<Longrightarrow> m = n"
  by (metis be_decode_encode)

text \<open>\<open>int.to_bytes\<close> with its range check.\<close>

definition to_bytes_big :: "int \<Rightarrow> nat \<Rightarrow> bytes result" where
  "to_bytes_big n k =
     (if n < 0 \<or> n \<ge> 256 ^ k then Inl OverflowError else Inr (be_encode k (nat n)))"

lemma to_bytes_big_ok: "0 \<le> n \<Longrightarrow> n < 256 ^ k \<Longrightarrow> to_bytes_big n k = Inr (be_encode k (nat n))"
  by (simp add: to_bytes_big_def)

section \<open>Transition systems\<close>

inductive reachable_from :: "('s \<Rightarrow> 's \<Rightarrow> bool) \<Rightarrow> 's \<Rightarrow> 's \<Rightarrow> bool" for trans start where
  reachable_start: "reachable_from trans start start"
| reachable_next: "reachable_from trans start s \<Longrightarrow> trans s s' \<Longrightarrow> reachable_from trans start s'"

text \<open>What a component promises of its steps: an invariant that holds at the start and is kept.\<close>

locale transition_invariant =
  fixes trans :: "'s \<Rightarrow> 's \<Rightarrow> bool" and start :: 's and inv :: "'s \<Rightarrow> bool"
  assumes inv_start: "inv start"
    and inv_next: "inv s \<Longrightarrow> trans s s' \<Longrightarrow> inv s'"
begin

lemma reachable_inv: "reachable_from trans start s \<Longrightarrow> inv s"
  by (induction rule: reachable_from.induct) (auto intro: inv_start inv_next)

end

end
