(* ===== verification/PyValue.thy ===== *)
theory PyValue
  imports Prelude
begin

text \<open>
  The dynamically typed values that cross the boundary to Discord: decoded JSON, with
  Python's truth value, its \<open>int\<close>, \<open>float\<close> and iteration protocols on every branch.
\<close>

section \<open>JSON values\<close>

datatype json =
    JNull
  | JBool bool
  | JInt int
  | JFloat real
  | JStr string
  | JList "json list"
  | JDict "(string \<times> json) list"

type_synonym jdict = "(string, json) dict"

definition json_truthy :: "json \<Rightarrow> bool" where
  "json_truthy v =
     (case v of
        JNull \<Rightarrow> False
      | JBool b \<Rightarrow> b
      | JInt i \<Rightarrow> i \<noteq> 0
      | JFloat f \<Rightarrow> f \<noteq> 0
      | JStr s \<Rightarrow> s \<noteq> []
      | JList xs \<Rightarrow> xs \<noteq> []
      | JDict d \<Rightarrow> d \<noteq> [])"

text \<open>\<open>int(v)\<close>: strings are parsed, floats truncated towards zero, the rest is a TypeError.\<close>

definition py_int :: "json \<Rightarrow> int result" where
  "py_int v =
     (case v of
        JInt i \<Rightarrow> Inr i
      | JBool b \<Rightarrow> Inr (if b then 1 else 0)
      | JFloat f \<Rightarrow> Inr (if f < 0 then \<lceil>f\<rceil> else \<lfloor>f\<rfloor>)
      | JStr s \<Rightarrow> (case parse_int s of
                    None \<Rightarrow> Inl (ValueError ''invalid literal for int()'')
                  | Some i \<Rightarrow> Inr i)
      | JNull \<Rightarrow> Inl (TypeError ''int() argument'')
      | JList _ \<Rightarrow> Inl (TypeError ''int() argument'')
      | JDict _ \<Rightarrow> Inl (TypeError ''int() argument''))"

lemma py_int_simps [simp]:
  "py_int (JInt i) = Inr i"
  "py_int (JStr (show_int i)) = Inr i"
  "py_int JNull = Inl (TypeError ''int() argument'')"
  by (simp_all add: py_int_def)

text \<open>
  \<open>str(v)\<close> where the model fixes it; the text of floats and containers is left open.
\<close>

definition py_str :: "json \<Rightarrow> string option" where
  "py_str v =
     (case v of
        JNull \<Rightarrow> Some ''None''
      | JBool b \<Rightarrow> Some (if b then ''True'' else ''False'')
      | JInt i \<Rightarrow> Some (show_int i)
      | JStr s \<Rightarrow> Some s
      | _ \<Rightarrow> None)"

text \<open>\<open>d[k]\<close> raises \<open>KeyError\<close>; \<open>d.get(k, default)\<close> does not.\<close>

definition dict_index :: "(string, 'v) dict \<Rightarrow> string \<Rightarrow> 'v result" where
  "dict_index d k = (case map_of d k of None \<Rightarrow> Inl (KeyError k) | Some v \<Rightarrow> Inr v)"

definition jget :: "jdict \<Rightarrow> string \<Rightarrow> json" where
  "jget d k = dict_get d k JNull"

lemma dict_index_simps:
  "map_of d k = Some v \<Longrightarrow> dict_index d k = Inr v"
  "map_of d k = None \<Longrightarrow> dict_index d k = Inl (KeyError k)"
  by (simp_all add: dict_index_def)

text \<open>
  \<open>float(text)\<close> on decimal notation with an optional exponent; the texts of infinities and
  not-a-number are not numbers of the model.
\<close>

definition digits_or_empty :: "string \<Rightarrow> nat option" where
  "digits_or_empty s = (if s = [] then Some 0 else parse_nat s)"

definition parse_decimal :: "string \<Rightarrow> real option" where
  "parse_decimal s =
     (let whole = takeWhile (\<lambda>c. c \<noteq> CHR ''.'') s; rest = dropWhile (\<lambda>c. c \<noteq> CHR ''.'') s in
      if rest = [] then map_option real (parse_nat whole)
      else
        (let frac = tl rest in
         if whole = [] \<and> frac = [] then None
         else (case (digits_or_empty whole, digits_or_empty frac) of
                 (Some a, Some b) \<Rightarrow> Some (real a + real b / 10 ^ length (filter (\<lambda>c. c \<noteq> CHR ''_'') frac))
               | _ \<Rightarrow> None)))"

definition parse_float :: "string \<Rightarrow> real option" where
  "parse_float text =
     (let s = py_strip text;
          negative = (s \<noteq> [] \<and> hd s = CHR ''-'');
          t = (if s \<noteq> [] \<and> (hd s = CHR ''-'' \<or> hd s = CHR ''+'') then tl s else s);
          mantissa = takeWhile (\<lambda>c. c \<noteq> CHR ''e'' \<and> c \<noteq> CHR ''E'') t;
          exponent = dropWhile (\<lambda>c. c \<noteq> CHR ''e'' \<and> c \<noteq> CHR ''E'') t
      in (case (parse_decimal mantissa, if exponent = [] then Some 0 else if tl exponent = py_strip (tl exponent) then parse_int (tl exponent) else None) of
            (Some m, Some e) \<Rightarrow>
              Some ((if negative then -1 else 1) * m * (if 0 \<le> e then 10 ^ nat e else 1 / 10 ^ nat (- e)))
          | _ \<Rightarrow> None))"

definition py_float :: "json \<Rightarrow> real result" where
  "py_float v =
     (case v of
        JInt i \<Rightarrow> Inr (of_int i)
      | JBool b \<Rightarrow> Inr (if b then 1 else 0)
      | JFloat f \<Rightarrow> Inr f
      | JStr s \<Rightarrow> (case parse_float s of None \<Rightarrow> Inl (ValueError ''could not convert string to float'') | Some f \<Rightarrow> Inr f)
      | _ \<Rightarrow> Inl (TypeError ''float() argument''))"

text \<open>Iteration over a JSON value.\<close>

definition json_iter :: "json \<Rightarrow> json list result" where
  "json_iter v =
     (case v of
        JList xs \<Rightarrow> Inr xs
      | JDict d \<Rightarrow> Inr (map (\<lambda>(k, _). JStr k) d)
      | JStr s \<Rightarrow> Inr (map (\<lambda>c. JStr [c]) s)
      | _ \<Rightarrow> Inl (TypeError ''object is not iterable''))"

text \<open>\<open>v[key]\<close> and \<open>v.get(key, default)\<close> for a value that should be an object.\<close>

definition json_index :: "json \<Rightarrow> string \<Rightarrow> json result" where
  "json_index v key = (case v of JDict d \<Rightarrow> dict_index d key | _ \<Rightarrow> Inl (TypeError ''not subscriptable''))"

definition json_get :: "json \<Rightarrow> string \<Rightarrow> json \<Rightarrow> json result" where
  "json_get v key dflt = (case v of JDict d \<Rightarrow> Inr (dict_get d key dflt) | _ \<Rightarrow> Inl (AttributeError ''get''))"

end
