(* ===== verification/PermissionFlags.thy ===== *)
theory PermissionFlags
  imports PyValue
begin

unbundle bit_operations_syntax

text \<open>
  The flag words of the permission system (src/vaidcord-py/src/vaidcord/permissions.py): the
  \<open>Permissions\<close> flag enumeration with the integer semantics of Python's \<open>IntFlag\<close>
  (including how \<open>~\<close> behaves on values outside the declared flags). The locale
  \<open>flag_set\<close> is the set contract of a flag word; it is interpreted on \<open>perm_add\<close>,
  \<open>perm_remove\<close> and \<open>perm_has\<close>, and the precedence theorem of channel overwrites in
  theory Permissions rests on it.
\<close>

section \<open>The flags\<close>

datatype permission_flag =
    CREATE_INSTANT_INVITE | KICK_MEMBERS | BAN_MEMBERS | ADMINISTRATOR | MANAGE_CHANNELS
  | MANAGE_GUILD | ADD_REACTIONS | VIEW_AUDIT_LOG | PRIORITY_SPEAKER | STREAM | VIEW_CHANNEL
  | SEND_MESSAGES | SEND_TTS_MESSAGES | MANAGE_MESSAGES | EMBED_LINKS | ATTACH_FILES
  | READ_MESSAGE_HISTORY | MENTION_EVERYONE | USE_EXTERNAL_EMOJIS | VIEW_GUILD_INSIGHTS
  | CONNECT | SPEAK | MUTE_MEMBERS | DEAFEN_MEMBERS | MOVE_MEMBERS | USE_VAD | CHANGE_NICKNAME
  | MANAGE_NICKNAMES | MANAGE_ROLES | MANAGE_WEBHOOKS | MANAGE_GUILD_EXPRESSIONS
  | USE_APPLICATION_COMMANDS | REQUEST_TO_SPEAK | MANAGE_EVENTS | MANAGE_THREADS
  | CREATE_PUBLIC_THREADS | CREATE_PRIVATE_THREADS | USE_EXTERNAL_STICKERS
  | SEND_MESSAGES_IN_THREADS | USE_EMBEDDED_ACTIVITIES | MODERATE_MEMBERS
  | VIEW_CREATOR_MONETIZATION_ANALYTICS | USE_SOUNDBOARD | CREATE_GUILD_EXPRESSIONS
  | CREATE_EVENTS | USE_EXTERNAL_SOUNDS | SEND_VOICE_MESSAGES | SET_VOICE_CHANNEL_STATUS
  | SEND_POLLS | USE_EXTERNAL_APPS | PIN_MESSAGES | BYPASS_SLOWMODE

primrec flag_bit :: "permission_flag \<Rightarrow> nat" where
  "flag_bit CREATE_INSTANT_INVITE = 0"
| "flag_bit KICK_MEMBERS = 1"
| "flag_bit BAN_MEMBERS = 2"
| "flag_bit ADMINISTRATOR = 3"
| "flag_bit MANAGE_CHANNELS = 4"
| "flag_bit MANAGE_GUILD = 5"
| "flag_bit ADD_REACTIONS = 6"
| "flag_bit VIEW_AUDIT_LOG = 7"
| "flag_bit PRIORITY_SPEAKER = 8"
| "flag_bit STREAM = 9"
| "flag_bit VIEW_CHANNEL = 10"
| "flag_bit SEND_MESSAGES = 11"
| "flag_bit SEND_TTS_MESSAGES = 12"
| "flag_bit MANAGE_MESSAGES = 13"
| "flag_bit EMBED_LINKS = 14"
| "flag_bit ATTACH_FILES = 15"
| "flag_bit READ_MESSAGE_HISTORY = 16"
| "flag_bit MENTION_EVERYONE = 17"
| "flag_bit USE_EXTERNAL_EMOJIS = 18"
| "flag_bit VIEW_GUILD_INSIGHTS = 19"
| "flag_bit CONNECT = 20"
| "flag_bit SPEAK = 21"
| "flag_bit MUTE_MEMBERS = 22"
| "flag_bit DEAFEN_MEMBERS = 23"
| "flag_bit MOVE_MEMBERS = 24"
| "flag_bit USE_VAD = 25"
| "flag_bit CHANGE_NICKNAME = 26"
| "flag_bit MANAGE_NICKNAMES = 27"
| "flag_bit MANAGE_ROLES = 28"
| "flag_bit MANAGE_WEBHOOKS = 29"
| "flag_bit MANAGE_GUILD_EXPRESSIONS = 30"
| "flag_bit USE_APPLICATION_COMMANDS = 31"
| "flag_bit REQUEST_TO_SPEAK = 32"
| "flag_bit MANAGE_EVENTS = 33"
| "flag_bit MANAGE_THREADS = 34"
| "flag_bit CREATE_PUBLIC_THREADS = 35"
| "flag_bit CREATE_PRIVATE_THREADS = 36"
| "flag_bit USE_EXTERNAL_STICKERS = 37"
| "flag_bit SEND_MESSAGES_IN_THREADS = 38"
| "flag_bit USE_EMBEDDED_ACTIVITIES = 39"
| "flag_bit MODERATE_MEMBERS = 40"
| "flag_bit VIEW_CREATOR_MONETIZATION_ANALYTICS = 41"
| "flag_bit USE_SOUNDBOARD = 42"
| "flag_bit CREATE_GUILD_EXPRESSIONS = 43"
| "flag_bit CREATE_EVENTS = 44"
| "flag_bit USE_EXTERNAL_SOUNDS = 45"
| "flag_bit SEND_VOICE_MESSAGES = 46"
| "flag_bit SET_VOICE_CHANNEL_STATUS = 48"
| "flag_bit SEND_POLLS = 49"
| "flag_bit USE_EXTERNAL_APPS = 50"
| "flag_bit PIN_MESSAGES = 51"
| "flag_bit BYPASS_SLOWMODE = 52"

type_synonym permissions = int

definition flag :: "permission_flag \<Rightarrow> permissions" where
  "flag p = 2 ^ flag_bit p"

definition flags :: "permission_flag list \<Rightarrow> permissions" where
  "flags ps = fold (\<lambda>p acc. acc OR flag p) ps 0"

text \<open>The members in declaration order: what \<open>for perm in cls\<close> iterates over.\<close>

definition all_flags :: "permission_flag list" where
  "all_flags =
    [CREATE_INSTANT_INVITE, KICK_MEMBERS, BAN_MEMBERS, ADMINISTRATOR, MANAGE_CHANNELS,
     MANAGE_GUILD, ADD_REACTIONS, VIEW_AUDIT_LOG, PRIORITY_SPEAKER, STREAM, VIEW_CHANNEL,
     SEND_MESSAGES, SEND_TTS_MESSAGES, MANAGE_MESSAGES, EMBED_LINKS, ATTACH_FILES,
     READ_MESSAGE_HISTORY, MENTION_EVERYONE, USE_EXTERNAL_EMOJIS, VIEW_GUILD_INSIGHTS,
     CONNECT, SPEAK, MUTE_MEMBERS, DEAFEN_MEMBERS, MOVE_MEMBERS, USE_VAD, CHANGE_NICKNAME,
     MANAGE_NICKNAMES, MANAGE_ROLES, MANAGE_WEBHOOKS, MANAGE_GUILD_EXPRESSIONS,
     USE_APPLICATION_COMMANDS, REQUEST_TO_SPEAK, MANAGE_EVENTS, MANAGE_THREADS,
     CREATE_PUBLIC_THREADS, CREATE_PRIVATE_THREADS, USE_EXTERNAL_STICKERS,
     SEND_MESSAGES_IN_THREADS, USE_EMBEDDED_ACTIVITIES, MODERATE_MEMBERS,
     VIEW_CREATOR_MONETIZATION_ANALYTICS, USE_SOUNDBOARD, CREATE_GUILD_EXPRESSIONS,
     CREATE_EVENTS, USE_EXTERNAL_SOUNDS, SEND_VOICE_MESSAGES, SET_VOICE_CHANNEL_STATUS,
     SEND_POLLS, USE_EXTERNAL_APPS, PIN_MESSAGES, BYPASS_SLOWMODE]"

section \<open>Construction: IntFlag with the KEEP boundary\<close>

text \<open>
  \<open>Permissions(value)\<close> keeps a non-negative value, unknown bits included, and maps a
  negative one to its complement within the declared width (53 bits), or within its own
  bit length when that is larger. \<open>~p\<close> is \<open>Permissions(-p - 1)\<close>.
\<close>

definition FLAG_MASK :: int where
  "FLAG_MASK = flags all_flags"

definition ALL_BITS :: int where
  "ALL_BITS = 2 ^ 53 - 1"

fun bit_length_nat :: "nat \<Rightarrow> nat" where
  "bit_length_nat n = (if n = 0 then 0 else Suc (bit_length_nat (n div 2)))"

declare bit_length_nat.simps [simp del]

definition bit_length :: "int \<Rightarrow> nat" where
  "bit_length i = bit_length_nat (nat \<bar>i\<bar>)"

definition permissions_new :: "int \<Rightarrow> permissions" where
  "permissions_new v =
     (let v1 = (if \<not> (- ALL_BITS - 1 \<le> v \<and> v \<le> ALL_BITS) \<or> v AND (ALL_BITS XOR FLAG_MASK) \<noteq> 0
                then (if v < 0 then max (ALL_BITS + 1) (2 ^ bit_length v) + v else v)
                else v)
      in if v1 < 0 then ALL_BITS + 1 + v1 else v1)"

definition from_int :: "json \<Rightarrow> permissions result" where
  "from_int value =
     (case value of
        JStr s \<Rightarrow> bind_result (py_int (JStr s)) (\<lambda>i. Inr (permissions_new i))
      | JInt i \<Rightarrow> Inr (permissions_new i)
      | JBool b \<Rightarrow> Inr (permissions_new (if b then 1 else 0))
      | _ \<Rightarrow> Inl (ValueError ''is not a valid Permissions''))"

definition to_string :: "permissions \<Rightarrow> string" where
  "to_string p = show_int p"

definition perm_has :: "permissions \<Rightarrow> permissions \<Rightarrow> bool" where
  "perm_has p other \<longleftrightarrow> p AND other = other"

definition perm_add :: "permissions \<Rightarrow> permissions \<Rightarrow> permissions" where
  "perm_add p other = permissions_new (p OR other)"

definition perm_invert :: "permissions \<Rightarrow> permissions" where
  "perm_invert p = permissions_new (NOT p)"

definition perm_remove :: "permissions \<Rightarrow> permissions \<Rightarrow> permissions" where
  "perm_remove p other = permissions_new (p AND perm_invert other)"

definition perm_all :: permissions where
  "perm_all = permissions_new (fold (\<lambda>perm acc. acc OR flag perm) all_flags 0)"

definition perm_none :: permissions where
  "perm_none = permissions_new 0"

definition perm_default :: permissions where
  "perm_default = permissions_new (flags
     [CREATE_INSTANT_INVITE, ADD_REACTIONS, VIEW_CHANNEL, SEND_MESSAGES, SEND_TTS_MESSAGES,
      EMBED_LINKS, ATTACH_FILES, READ_MESSAGE_HISTORY, MENTION_EVERYONE, USE_EXTERNAL_EMOJIS,
      CONNECT, SPEAK, USE_VAD, CHANGE_NICKNAME, USE_APPLICATION_COMMANDS,
      USE_EXTERNAL_STICKERS, SEND_MESSAGES_IN_THREADS, USE_EMBEDDED_ACTIVITIES,
      CREATE_GUILD_EXPRESSIONS, CREATE_EVENTS, SEND_VOICE_MESSAGES, SEND_POLLS,
      USE_EXTERNAL_APPS])"

definition text_channel_permissions :: "permission_flag list" where
  "text_channel_permissions =
     [CREATE_INSTANT_INVITE, MANAGE_CHANNELS, ADD_REACTIONS, VIEW_CHANNEL, SEND_MESSAGES,
      SEND_TTS_MESSAGES, MANAGE_MESSAGES, EMBED_LINKS, ATTACH_FILES, READ_MESSAGE_HISTORY,
      MENTION_EVERYONE, USE_EXTERNAL_EMOJIS, USE_APPLICATION_COMMANDS, MANAGE_THREADS,
      CREATE_PUBLIC_THREADS, CREATE_PRIVATE_THREADS, USE_EXTERNAL_STICKERS,
      SEND_MESSAGES_IN_THREADS, USE_EMBEDDED_ACTIVITIES, MODERATE_MEMBERS,
      SEND_VOICE_MESSAGES, SEND_POLLS, USE_EXTERNAL_APPS, PIN_MESSAGES, BYPASS_SLOWMODE]"

definition voice_channel_permissions :: "permission_flag list" where
  "voice_channel_permissions =
     [CREATE_INSTANT_INVITE, MANAGE_CHANNELS, ADD_REACTIONS, VIEW_CHANNEL, SEND_MESSAGES,
      SEND_TTS_MESSAGES, MANAGE_MESSAGES, EMBED_LINKS, ATTACH_FILES, READ_MESSAGE_HISTORY,
      MENTION_EVERYONE, USE_EXTERNAL_EMOJIS, CONNECT, SPEAK, MUTE_MEMBERS, DEAFEN_MEMBERS,
      MOVE_MEMBERS, USE_VAD, USE_APPLICATION_COMMANDS, MANAGE_EVENTS, USE_EMBEDDED_ACTIVITIES,
      MODERATE_MEMBERS, USE_SOUNDBOARD, USE_EXTERNAL_SOUNDS, SEND_VOICE_MESSAGES,
      SET_VOICE_CHANNEL_STATUS, SEND_POLLS, USE_EXTERNAL_APPS, BYPASS_SLOWMODE]"

definition stage_channel_permissions :: "permission_flag list" where
  "stage_channel_permissions =
     [CREATE_INSTANT_INVITE, MANAGE_CHANNELS, ADD_REACTIONS, VIEW_CHANNEL, SEND_MESSAGES,
      SEND_TTS_MESSAGES, MANAGE_MESSAGES, EMBED_LINKS, ATTACH_FILES, READ_MESSAGE_HISTORY,
      MENTION_EVERYONE, USE_EXTERNAL_EMOJIS, STREAM, CONNECT, SPEAK, MUTE_MEMBERS,
      DEAFEN_MEMBERS, MOVE_MEMBERS, USE_VAD, REQUEST_TO_SPEAK, MANAGE_EVENTS, CREATE_EVENTS,
      USE_APPLICATION_COMMANDS, MODERATE_MEMBERS, USE_SOUNDBOARD, USE_EXTERNAL_SOUNDS,
      SEND_VOICE_MESSAGES, SEND_POLLS, USE_EXTERNAL_APPS, BYPASS_SLOWMODE]"

definition administrative_permissions :: "permission_flag list" where
  "administrative_permissions =
     [KICK_MEMBERS, BAN_MEMBERS, ADMINISTRATOR, MANAGE_CHANNELS, MANAGE_GUILD,
      MANAGE_MESSAGES, MANAGE_ROLES, MANAGE_WEBHOOKS, MANAGE_GUILD_EXPRESSIONS,
      MANAGE_THREADS, VIEW_CREATOR_MONETIZATION_ANALYTICS]"

section \<open>Flag words as sets of bits\<close>

text \<open>
  \<open>perm_wf\<close>: the value fits the declared width. \<open>perm_bits\<close> is the set of bits it has.
\<close>

definition perm_wf :: "permissions \<Rightarrow> bool" where
  "perm_wf p \<longleftrightarrow> 0 \<le> p \<and> p < 2 ^ 53"

definition perm_bits :: "permissions \<Rightarrow> nat set" where
  "perm_bits p = {i. bit p i}"

lemma FLAG_MASK_eq: "FLAG_MASK = 2 ^ 53 - 1 - 2 ^ 47"
  by (simp add: FLAG_MASK_def flags_def all_flags_def flag_def)

lemma permissions_new_nonneg [simp]: "0 \<le> v \<Longrightarrow> permissions_new v = v"
  by (auto simp: permissions_new_def Let_def)

lemma perm_wf_iff_take_bit: "perm_wf p \<longleftrightarrow> take_bit 53 p = p"
  by (auto simp: perm_wf_def take_bit_int_eq_self_iff)

lemma perm_wf_bit: "perm_wf p \<Longrightarrow> bit p i \<Longrightarrow> i < 53"
  by (metis perm_wf_iff_take_bit bit_take_bit_iff)

lemma bit_length_nat_bound: "n < 2 ^ k \<Longrightarrow> bit_length_nat n \<le> k"
proof (induction k arbitrary: n)
  case 0
  then show ?case by (simp add: bit_length_nat.simps)
next
  case (Suc k)
  then have "n div 2 < 2 ^ k" by auto
  then have "bit_length_nat (n div 2) \<le> k" by (rule Suc.IH)
  then show ?case by (simp add: bit_length_nat.simps [of n])
qed

lemma perm_invert_wf_eq:
  assumes "perm_wf p"
  shows "perm_invert p = 2 ^ 53 - 1 - p"
proof (cases "p = 2 ^ 53 - 1")
  case True
  then show ?thesis
    by (simp add: perm_invert_def permissions_new_def ALL_BITS_def FLAG_MASK_eq not_int_def Let_def)
next
  case False
  with assms have b: "0 \<le> p" "p + 1 < 2 ^ 53" by (auto simp: perm_wf_def)
  then have "bit_length (NOT p) \<le> 53"
    unfolding bit_length_def not_int_def by (intro bit_length_nat_bound) auto
  then have "(2::int) ^ bit_length (NOT p) \<le> 2 ^ 53"
    by (intro power_increasing) auto
  with b show ?thesis
    by (auto simp: perm_invert_def permissions_new_def ALL_BITS_def not_int_def Let_def max_def)
qed

lemma perm_invert_take_bit:
  assumes "perm_wf p"
  shows "perm_invert p = take_bit 53 (NOT p)"
proof -
  let ?q = "2 ^ 53 - 1 - p"
  have q: "0 \<le> ?q" "?q < 2 ^ 53" using assms by (auto simp: perm_wf_def)
  have "NOT p = ?q + (- 1) * 2 ^ 53" by (simp add: not_int_def)
  then have "take_bit 53 (NOT p) = (?q + (- 1) * 2 ^ 53) mod 2 ^ 53"
    by (simp only: take_bit_eq_mod)
  also have "\<dots> = ?q mod 2 ^ 53" by (rule mod_mult_self1)
  also have "\<dots> = ?q" using q by (rule mod_pos_pos_trivial)
  finally show ?thesis using assms by (simp add: perm_invert_wf_eq)
qed

lemma bit_perm_add [simp]:
  "0 \<le> p \<Longrightarrow> 0 \<le> q \<Longrightarrow> bit (perm_add p q) i \<longleftrightarrow> bit p i \<or> bit q i"
  by (simp add: perm_add_def bit_or_iff)

lemma bit_perm_remove:
  "0 \<le> p \<Longrightarrow> perm_wf q \<Longrightarrow> bit (perm_remove p q) i \<longleftrightarrow> bit p i \<and> i < 53 \<and> \<not> bit q i"
  by (simp add: perm_remove_def perm_invert_take_bit bit_and_iff bit_take_bit_iff bit_not_iff)

lemma perm_has_iff: "perm_has p q \<longleftrightarrow> (\<forall>i. bit q i \<longrightarrow> bit p i)"
  by (auto simp: perm_has_def bit_eq_iff bit_and_iff)

lemma bit_flag: "bit (flag f) i \<longleftrightarrow> i = flag_bit f"
  by (auto simp: flag_def bit_exp_iff)

lemma perm_wf_add: "perm_wf p \<Longrightarrow> perm_wf q \<Longrightarrow> perm_wf (perm_add p q)"
  using perm_wf_iff_take_bit [of p] perm_wf_iff_take_bit [of q] perm_wf_iff_take_bit [of "p OR q"]
  by (simp add: perm_add_def perm_wf_def)

lemma perm_wf_remove: "perm_wf p \<Longrightarrow> perm_wf q \<Longrightarrow> perm_wf (perm_remove p q)"
  by (simp add: perm_remove_def perm_invert_take_bit perm_wf_iff_take_bit)

lemma flag_bit_less: "flag_bit f < 53"
  by (cases f) auto

lemma perm_wf_flag: "perm_wf (flag f)"
  using power_strict_increasing [OF flag_bit_less, of "2 :: int" f] by (simp add: flag_def perm_wf_def)

lemma perm_all_eq: "perm_all = 2 ^ 53 - 1 - 2 ^ 47"
  using FLAG_MASK_eq by (simp add: perm_all_def FLAG_MASK_def flags_def)

lemma all_flags_complete: "f \<in> set all_flags"
  by (cases f) (simp_all add: all_flags_def)

lemma bit_fold_flags:
  "bit (fold (\<lambda>p acc. acc OR flag p) ps a) i \<longleftrightarrow> bit a i \<or> (\<exists>f \<in> set ps. i = flag_bit f)"
  by (induction ps arbitrary: a) (auto simp: bit_or_iff bit_flag)


section \<open>The contract of a flag word\<close>

text \<open>
  What the calculator relies on: flags form finite sets, \<open>add\<close> is union, \<open>remove\<close> is
  difference, \<open>has\<close> is inclusion. The lemmas of the locale are proved from these laws only.
\<close>

locale flag_set =
  fixes inv :: "'p \<Rightarrow> bool"
    and bits :: "'p \<Rightarrow> nat set"
    and none :: 'p
    and add :: "'p \<Rightarrow> 'p \<Rightarrow> 'p"
    and remove :: "'p \<Rightarrow> 'p \<Rightarrow> 'p"
    and has :: "'p \<Rightarrow> 'p \<Rightarrow> bool"
  assumes inv_none: "inv none"
    and inv_add: "inv p \<Longrightarrow> inv q \<Longrightarrow> inv (add p q)"
    and inv_remove: "inv p \<Longrightarrow> inv q \<Longrightarrow> inv (remove p q)"
    and bits_none: "bits none = {}"
    and bits_add: "inv p \<Longrightarrow> inv q \<Longrightarrow> bits (add p q) = bits p \<union> bits q"
    and bits_remove: "inv p \<Longrightarrow> inv q \<Longrightarrow> bits (remove p q) = bits p - bits q"
    and has_iff: "inv p \<Longrightarrow> inv q \<Longrightarrow> has p q \<longleftrightarrow> bits q \<subseteq> bits p"
begin

lemma deny_allow:
  assumes "inv p" and "inv deny" and "inv allow"
  shows "inv (add (remove p deny) allow) \<and>
         bits (add (remove p deny) allow) = bits p - bits deny \<union> bits allow"
  using assms by (simp add: inv_add inv_remove bits_add bits_remove)

lemma fold_add:
  assumes "inv p" and "\<forall>x \<in> set xs. inv (f x)"
  shows "inv (fold (\<lambda>x acc. add acc (f x)) xs p) \<and>
         bits (fold (\<lambda>x acc. add acc (f x)) xs p) = bits p \<union> (\<Union>x \<in> set xs. bits (f x))"
  using assms
proof (induction xs arbitrary: p)
  case Nil
  then show ?case by simp
next
  case (Cons x xs)
  then have "inv (add p (f x))" and "bits (add p (f x)) = bits p \<union> bits (f x)"
    by (simp_all add: inv_add bits_add)
  with Cons.IH [of "add p (f x)"] Cons.prems show ?case by auto
qed

lemma has_refl: "inv p \<Longrightarrow> has p p"
  by (simp add: has_iff)

lemma has_trans: "inv p \<Longrightarrow> inv q \<Longrightarrow> inv r \<Longrightarrow> has p q \<Longrightarrow> has q r \<Longrightarrow> has p r"
  by (auto simp: has_iff)

lemma has_add_iff: "inv p \<Longrightarrow> inv q \<Longrightarrow> inv r \<Longrightarrow> has p (add q r) \<longleftrightarrow> has p q \<and> has p r"
  by (auto simp: has_iff inv_add bits_add)

lemma exclusive_set:
  assumes "inv a" "inv b" "inv p" "bits a \<inter> bits b = {}"
  shows "bits (add a p) \<inter> bits (remove b p) = {}"
  using assms by (auto simp: bits_add bits_remove)

lemma exclusive_reset:
  assumes "inv a" "inv b" "inv p" "bits a \<inter> bits b = {}"
  shows "bits (remove a p) \<inter> bits (remove b p) = {}"
  using assms by (auto simp: bits_remove)

end

lemma perm_wf_nonneg: "perm_wf p \<Longrightarrow> 0 \<le> p"
  by (simp add: perm_wf_def)

interpretation perm: flag_set perm_wf perm_bits perm_none perm_add perm_remove perm_has
proof unfold_locales
  show "perm_wf perm_none" by (simp add: perm_none_def perm_wf_def)
  show "perm_bits perm_none = {}" by (simp add: perm_none_def perm_bits_def)
  fix p q
  assume p: "perm_wf p" and q: "perm_wf q"
  show "perm_wf (perm_add p q)" by (rule perm_wf_add [OF p q])
  show "perm_wf (perm_remove p q)" by (rule perm_wf_remove [OF p q])
  show "perm_bits (perm_add p q) = perm_bits p \<union> perm_bits q"
    using p q by (auto simp: perm_bits_def perm_wf_def)
  show "perm_bits (perm_remove p q) = perm_bits p - perm_bits q"
    using p q perm_wf_bit [OF p] by (auto simp: perm_bits_def bit_perm_remove perm_wf_nonneg)
  show "perm_has p q \<longleftrightarrow> perm_bits q \<subseteq> perm_bits p"
    by (auto simp: perm_bits_def perm_has_iff)
qed

lemma perm_wf_permissions_new: "0 \<le> v \<Longrightarrow> v < 2 ^ 53 \<Longrightarrow> perm_wf (permissions_new v)"
  by (simp add: perm_wf_def)

lemma perm_wf_perm_all: "perm_wf perm_all"
  by (simp add: perm_wf_def perm_all_eq)

lemma bit_perm_all: "bit perm_all i \<longleftrightarrow> (\<exists>f. i = flag_bit f)"
proof -
  have "0 \<le> FLAG_MASK" by (simp add: FLAG_MASK_eq)
  then have eq: "perm_all = fold (\<lambda>p acc. acc OR flag p) all_flags 0"
    by (simp add: perm_all_def FLAG_MASK_def flags_def)
  show ?thesis
    unfolding eq bit_fold_flags by (auto simp: all_flags_complete)
qed

lemma perm_all_has_flag [simp]: "perm_has perm_all (flag f)"
  by (auto simp: perm_has_iff bit_flag bit_perm_all)

lemma perm_has_flag: "perm_has p (flag f) \<longleftrightarrow> bit p (flag_bit f)"
  by (auto simp: perm_has_iff bit_flag)

end
