(* ===== verification/Permissions.thy ===== *)
theory Permissions
  imports PermissionFlags
begin

unbundle bit_operations_syntax

text \<open>
  Permission overwrites and the calculator of effective permissions
  (src/vaidcord-py/src/vaidcord/permissions.py, from \<open>PermissionOverwrite\<close> on). The
  calculator reads members, roles, guilds and channels by attribute and method name, so
  \<open>is_owner\<close>, \<open>get_role\<close> and \<open>is_timed_out\<close> are fields of the records. The abstract
  specification \<open>resolve_bit\<close> decides one permission at a time by the documented
  precedence; \<open>compute_overwrites\<close> refines it.
\<close>

section \<open>PermissionOverwrite\<close>

record overwrite =
  ow_id :: json
  ow_type :: json
  ow_allow :: permissions
  ow_deny :: permissions

text \<open>\<open>__post_init__\<close>: a string id becomes an integer; allow and deny pass through the enum.\<close>

definition overwrite_init ::
  "json \<Rightarrow> json \<Rightarrow> permissions \<Rightarrow> permissions \<Rightarrow> overwrite result" where
  "overwrite_init i ty al de =
     bind_result (case i of JStr s \<Rightarrow> bind_result (py_int (JStr s)) (\<lambda>n. Inr (JInt n)) | _ \<Rightarrow> Inr i)
       (\<lambda>i'. Inr \<lparr>ow_id = i', ow_type = ty,
                  ow_allow = permissions_new al, ow_deny = permissions_new de\<rparr>)"

definition overwrite_from_dict :: "jdict \<Rightarrow> overwrite result" where
  "overwrite_from_dict data =
     bind_result (dict_index data ''id'') (\<lambda>i.
     bind_result (from_int (dict_get data ''allow'' (JInt 0))) (\<lambda>al.
     bind_result (from_int (dict_get data ''deny'' (JInt 0))) (\<lambda>de.
     overwrite_init i (dict_get data ''type'' (JInt 0)) al de)))"

text \<open>\<open>to_dict\<close>; None where \<open>str(self.id)\<close> is the text of a float or a container.\<close>

definition overwrite_to_dict :: "overwrite \<Rightarrow> jdict option" where
  "overwrite_to_dict ow =
     (case py_str (ow_id ow) of
        None \<Rightarrow> None
      | Some s \<Rightarrow> Some
          [(''id'', JStr s),
           (''type'', ow_type ow),
           (''allow'', JStr (to_string (ow_allow ow))),
           (''deny'', JStr (to_string (ow_deny ow)))])"

definition set_allow :: "permissions list \<Rightarrow> overwrite \<Rightarrow> overwrite" where
  "set_allow ps ow =
     fold (\<lambda>perm ow. ow\<lparr>ow_allow := perm_add (ow_allow ow) perm,
                      ow_deny := perm_remove (ow_deny ow) perm\<rparr>) ps ow"

definition set_deny :: "permissions list \<Rightarrow> overwrite \<Rightarrow> overwrite" where
  "set_deny ps ow =
     fold (\<lambda>perm ow. ow\<lparr>ow_deny := perm_add (ow_deny ow) perm,
                      ow_allow := perm_remove (ow_allow ow) perm\<rparr>) ps ow"

definition reset_overwrite :: "permissions list \<Rightarrow> overwrite \<Rightarrow> overwrite" where
  "reset_overwrite ps ow =
     fold (\<lambda>perm ow. ow\<lparr>ow_allow := perm_remove (ow_allow ow) perm,
                      ow_deny := perm_remove (ow_deny ow) perm\<rparr>) ps ow"

section \<open>Members, guilds and channels as the calculator reads them\<close>

record role =
  role_id :: int
  role_permissions :: json

record member =
  member_id :: int
  member_roles :: "role list"
  member_timed_out :: bool

record guild =
  guild_id :: int
  guild_is_owner :: "int \<Rightarrow> bool"
  guild_get_role :: "int \<Rightarrow> role option"

text \<open>
  \<open>channel.permission_overwrites\<close> is a list of API dictionaries, or a mapping from id to
  a dictionary or to a \<open>PermissionOverwrite\<close>; a list may also hold objects.
\<close>

datatype raw_overwrite = RawDict jdict | RawObj overwrite

datatype raw_overwrites =
    NoOverwrites
  | OverwriteList "raw_overwrite list"
  | OverwriteMap "(json \<times> raw_overwrite) list"

record channel =
  channel_guild_id :: "int option"
  channel_guild :: "guild option"
  channel_overwrites :: raw_overwrites

section \<open>PermissionCalculator\<close>

definition compute_base_permissions :: "member \<Rightarrow> guild \<Rightarrow> permissions result" where
  "compute_base_permissions m g =
     (if guild_is_owner g (member_id m) then Inr perm_all
      else
        bind_result
          (case guild_get_role g (guild_id g) of
             Some r \<Rightarrow> from_int (role_permissions r)
           | None \<Rightarrow> Inr perm_default)
          (\<lambda>everyone.
        bind_result
          (fold (\<lambda>r acc. bind_result acc (\<lambda>p.
                 bind_result (from_int (role_permissions r)) (\<lambda>rp. Inr (perm_add p rp))))
             (member_roles m) (Inr everyone))
          (\<lambda>perms.
        if perm_has perms (flag ADMINISTRATOR) then Inr perm_all
        else if member_timed_out m then
          Inr (perm_add (perm_add perm_none (flag VIEW_CHANNEL)) (flag READ_MESSAGE_HISTORY))
        else Inr perms)))"

definition raw_value :: "raw_overwrite \<Rightarrow> overwrite result" where
  "raw_value r = (case r of RawObj ow \<Rightarrow> Inr ow | RawDict d \<Rightarrow> overwrite_from_dict d)"

text \<open>
  In the list case the key \<open>int(overwrite_data["id"])\<close> is evaluated before the
  \<open>isinstance\<close> test, and a \<open>PermissionOverwrite\<close> does not support indexing.
\<close>

definition list_item :: "raw_overwrite \<Rightarrow> (int \<times> overwrite) result" where
  "list_item r =
     bind_result
       (case r of
          RawObj ow \<Rightarrow> Inl (TypeError ''PermissionOverwrite object is not subscriptable'')
        | RawDict d \<Rightarrow> bind_result (dict_index d ''id'') py_int)
       (\<lambda>k. bind_result (raw_value r) (\<lambda>v. Inr (k, v)))"

definition map_item :: "json \<times> raw_overwrite \<Rightarrow> (int \<times> overwrite) result" where
  "map_item kr = bind_result (py_int (fst kr)) (\<lambda>k. bind_result (raw_value (snd kr)) (\<lambda>v. Inr (k, v)))"

definition normalize_overwrites :: "raw_overwrites \<Rightarrow> (int, overwrite) dict result" where
  "normalize_overwrites raw =
     (case raw of
        NoOverwrites \<Rightarrow> Inr []
      | OverwriteList rs \<Rightarrow> bind_result (map_result list_item rs) (\<lambda>kvs. Inr (dict_of kvs))
      | OverwriteMap krs \<Rightarrow> bind_result (map_result map_item krs) (\<lambda>kvs. Inr (dict_of kvs)))"

definition apply_overwrite :: "overwrite option \<Rightarrow> permissions \<Rightarrow> permissions" where
  "apply_overwrite ow p =
     (case ow of None \<Rightarrow> p | Some ow \<Rightarrow> perm_add (perm_remove p (ow_deny ow)) (ow_allow ow))"

definition role_overwrites :: "(int, overwrite) dict \<Rightarrow> member \<Rightarrow> overwrite list" where
  "role_overwrites ows m = List.map_filter (\<lambda>r. map_of ows (role_id r)) (member_roles m)"

definition compute_overwrites ::
  "permissions \<Rightarrow> member \<Rightarrow> channel \<Rightarrow> int option \<Rightarrow> permissions result" where
  "compute_overwrites base m ch gid =
     (if perm_has base (flag ADMINISTRATOR) then Inr perm_all
      else
        bind_result (normalize_overwrites (channel_overwrites ch)) (\<lambda>ows.
          let g = (case gid of None \<Rightarrow> channel_guild_id ch | Some _ \<Rightarrow> gid);
              everyone = (case g of None \<Rightarrow> None | Some i \<Rightarrow> map_of ows i);
              p1 = apply_overwrite everyone base;
              ros = role_overwrites ows m;
              role_allow = fold (\<lambda>ow acc. perm_add acc (ow_allow ow)) ros perm_none;
              role_deny = fold (\<lambda>ow acc. perm_add acc (ow_deny ow)) ros perm_none;
              p2 = perm_add (perm_remove p1 role_deny) role_allow
          in Inr (apply_overwrite (map_of ows (member_id m)) p2)))"

definition compute_effective_permissions ::
  "member \<Rightarrow> channel \<Rightarrow> guild option \<Rightarrow> permissions result" where
  "compute_effective_permissions m ch g =
     (case (case g of Some _ \<Rightarrow> g | None \<Rightarrow> channel_guild ch) of
        None \<Rightarrow> Inl (ValueError ''Guild context is required to compute permissions. '')
      | Some gu \<Rightarrow>
          bind_result (compute_base_permissions m gu) (\<lambda>base.
            compute_overwrites base m ch (Some (guild_id gu))))"

definition can_send_messages :: "permissions \<Rightarrow> bool" where
  "can_send_messages p = (if \<not> perm_has p (flag SEND_MESSAGES) then False else True)"

definition get_implicit_denied :: "permissions \<Rightarrow> permissions" where
  "get_implicit_denied p =
     (let d0 = perm_none;
          d1 = (if \<not> perm_has p (flag VIEW_CHANNEL) then
                  perm_add d0 (flags [SEND_MESSAGES, SEND_TTS_MESSAGES, EMBED_LINKS, ATTACH_FILES,
                    MENTION_EVERYONE, USE_EXTERNAL_EMOJIS, SEND_MESSAGES_IN_THREADS,
                    SEND_VOICE_MESSAGES, SEND_POLLS])
                else d0);
          d2 = (if \<not> perm_has p (flag SEND_MESSAGES) then
                  perm_add d1 (flags [MENTION_EVERYONE, SEND_TTS_MESSAGES, ATTACH_FILES, EMBED_LINKS])
                else d1)
      in if \<not> perm_has p (flag CONNECT) then
           perm_add d2 (flags [SPEAK, MUTE_MEMBERS, DEAFEN_MEMBERS, MOVE_MEMBERS, USE_VAD,
             USE_SOUNDBOARD, USE_EXTERNAL_SOUNDS])
         else d2)"

definition calculate_permissions :: "member \<Rightarrow> channel \<Rightarrow> guild option \<Rightarrow> permissions result" where
  "calculate_permissions m ch g = compute_effective_permissions m ch g"

definition check_permission ::
  "member \<Rightarrow> channel \<Rightarrow> permissions \<Rightarrow> guild option \<Rightarrow> bool result" where
  "check_permission m ch required g =
     bind_result (calculate_permissions m ch g) (\<lambda>eff. Inr (perm_has eff required))"


section \<open>The abstract specification: one permission at a time\<close>

text \<open>
  An overwrite allows, denies or leaves a permission alone. Member beats roles beats
  @everyone beats the base; among the roles, one that allows beats all that deny.
\<close>

datatype decision = Allowed | Denied | Inherited

definition decide_one :: "overwrite option \<Rightarrow> nat \<Rightarrow> decision" where
  "decide_one ow i =
     (case ow of
        None \<Rightarrow> Inherited
      | Some w \<Rightarrow> if bit (ow_allow w) i then Allowed else if bit (ow_deny w) i then Denied else Inherited)"

definition decide_roles :: "overwrite list \<Rightarrow> nat \<Rightarrow> decision" where
  "decide_roles ws i =
     (if \<exists>w \<in> set ws. bit (ow_allow w) i then Allowed
      else if \<exists>w \<in> set ws. bit (ow_deny w) i then Denied else Inherited)"

definition override :: "decision \<Rightarrow> bool \<Rightarrow> bool" where
  "override d b = (case d of Allowed \<Rightarrow> True | Denied \<Rightarrow> False | Inherited \<Rightarrow> b)"

definition resolve_bit ::
  "overwrite option \<Rightarrow> overwrite list \<Rightarrow> overwrite option \<Rightarrow> nat \<Rightarrow> bool \<Rightarrow> bool" where
  "resolve_bit everyone roles mem i base =
     override (decide_one mem i) (override (decide_roles roles i) (override (decide_one everyone i) base))"

definition ow_wf :: "overwrite \<Rightarrow> bool" where
  "ow_wf w \<longleftrightarrow> perm_wf (ow_allow w) \<and> perm_wf (ow_deny w)"

definition ow_exclusive :: "overwrite \<Rightarrow> bool" where
  "ow_exclusive w \<longleftrightarrow> ow_wf w \<and> perm_bits (ow_allow w) \<inter> perm_bits (ow_deny w) = {}"

section \<open>Refinement of the calculator\<close>

lemma apply_overwrite_bits:
  assumes "perm_wf p" and "\<And>w. ow = Some w \<Longrightarrow> ow_wf w"
  shows "perm_wf (apply_overwrite ow p)"
    and "bit (apply_overwrite ow p) i \<longleftrightarrow> override (decide_one ow i) (bit p i)"
proof -
  show "perm_wf (apply_overwrite ow p)"
    using assms by (auto simp: apply_overwrite_def ow_wf_def perm.deny_allow split: option.splits)
  show "bit (apply_overwrite ow p) i \<longleftrightarrow> override (decide_one ow i) (bit p i)"
  proof (cases ow)
    case None
    then show ?thesis by (simp add: apply_overwrite_def decide_one_def override_def)
  next
    case (Some w)
    then have "perm_wf (ow_deny w)" "perm_wf (ow_allow w)" using assms(2) by (auto simp: ow_wf_def)
    then have "perm_bits (apply_overwrite ow p) = perm_bits p - perm_bits (ow_deny w) \<union> perm_bits (ow_allow w)"
      using perm.deny_allow [OF assms(1)] Some by (simp add: apply_overwrite_def)
    then show ?thesis using Some by (auto simp: perm_bits_def set_eq_iff decide_one_def override_def)
  qed
qed

lemma role_step_bits:
  assumes "perm_wf p" and "\<forall>w \<in> set ws. ow_wf w"
  defines "q \<equiv> perm_add (perm_remove p (fold (\<lambda>w acc. perm_add acc (ow_deny w)) ws perm_none))
                 (fold (\<lambda>w acc. perm_add acc (ow_allow w)) ws perm_none)"
  shows "perm_wf q" and "bit q i \<longleftrightarrow> override (decide_roles ws i) (bit p i)"
proof -
  let ?d = "fold (\<lambda>w acc. perm_add acc (ow_deny w)) ws perm_none"
  let ?a = "fold (\<lambda>w acc. perm_add acc (ow_allow w)) ws perm_none"
  have d: "perm_wf ?d" "perm_bits ?d = (\<Union>w \<in> set ws. perm_bits (ow_deny w))"
    using perm.fold_add [OF perm.inv_none, of ws ow_deny] assms(2)
    by (auto simp: ow_wf_def perm.bits_none)
  have a: "perm_wf ?a" "perm_bits ?a = (\<Union>w \<in> set ws. perm_bits (ow_allow w))"
    using perm.fold_add [OF perm.inv_none, of ws ow_allow] assms(2)
    by (auto simp: ow_wf_def perm.bits_none)
  have q: "perm_wf q \<and> perm_bits q = perm_bits p - perm_bits ?d \<union> perm_bits ?a"
    unfolding q_def by (rule perm.deny_allow [OF assms(1) d(1) a(1)])
  then show "perm_wf q" by simp
  show "bit q i \<longleftrightarrow> override (decide_roles ws i) (bit p i)"
    using q d(2) a(2) by (auto simp: perm_bits_def set_eq_iff decide_roles_def override_def)
qed

lemma role_overwrites_subset: "w \<in> set (role_overwrites ows m) \<Longrightarrow> w \<in> ran (map_of ows)"
  by (auto simp: role_overwrites_def List.map_filter_def ran_def)

lemma compute_overwrites_unfold:
  assumes "\<not> perm_has base (flag ADMINISTRATOR)"
    and "normalize_overwrites (channel_overwrites ch) = Inr ows"
  shows "compute_overwrites base m ch (Some g) =
    Inr (apply_overwrite (map_of ows (member_id m))
      (perm_add
        (perm_remove (apply_overwrite (map_of ows g) base)
          (fold (\<lambda>w acc. perm_add acc (ow_deny w)) (role_overwrites ows m) perm_none))
        (fold (\<lambda>w acc. perm_add acc (ow_allow w)) (role_overwrites ows m) perm_none)))"
  using assms by (simp add: compute_overwrites_def Let_def)

lemma compute_overwrites_refines:
  assumes "\<not> perm_has base (flag ADMINISTRATOR)" and "perm_wf base"
    and "normalize_overwrites (channel_overwrites ch) = Inr ows"
    and "\<forall>w \<in> ran (map_of ows). ow_wf w"
  shows "\<exists>p. compute_overwrites base m ch (Some g) = Inr p \<and> perm_wf p \<and>
    (\<forall>i. bit p i \<longleftrightarrow> resolve_bit (map_of ows g) (role_overwrites ows m)
                        (map_of ows (member_id m)) i (bit base i))"
proof -
  have wf: "ow_wf w" if "map_of ows k = Some w" for k w
    using assms(4) that by (auto intro: ranI)
  have rwf: "\<forall>w \<in> set (role_overwrites ows m). ow_wf w"
    using assms(4) role_overwrites_subset by blast
  note s1 = apply_overwrite_bits [where ow = "map_of ows g", OF assms(2) wf]
  note s2 = role_step_bits [OF s1(1) rwf]
  note s3 = apply_overwrite_bits [where ow = "map_of ows (member_id m)", OF s2(1) wf]
  show ?thesis
    unfolding compute_overwrites_unfold [OF assms(1,3)] resolve_bit_def
    using s3(1) by (auto simp: s1(2) s2(2) s3(2))
qed


text \<open>
  C2: for a member without ADMINISTRATOR, every single permission of
  \<open>compute_overwrites\<close> is decided by the documented precedence: the member overwrite if it
  mentions the permission, else the roles (an allowing role wins), else @everyone, else the
  base permissions. The result stays within the declared flags.
\<close>

theorem compute_overwrites_precedence:
  assumes "\<not> perm_has base (flag ADMINISTRATOR)" and "perm_wf base"
    and "normalize_overwrites (channel_overwrites ch) = Inr ows"
    and "\<forall>w \<in> ran (map_of ows). ow_wf w"
  shows "\<exists>p. compute_overwrites base m ch (Some g) = Inr p \<and> perm_wf p \<and>
    (\<forall>i. bit p i \<longleftrightarrow> resolve_bit (map_of ows g) (role_overwrites ows m)
                        (map_of ows (member_id m)) i (bit base i))"
  using assms by (rule compute_overwrites_refines)

definition sample_channel :: channel where
  "sample_channel = \<lparr>channel_guild_id = Some 7, channel_guild = None,
     channel_overwrites = OverwriteList
       [RawDict [(''id'', JStr ''7''), (''deny'', JStr ''2048'')],
        RawDict [(''id'', JStr ''5''), (''type'', JInt 1), (''allow'', JStr ''2048'')]]\<rparr>"

definition sample_overwrites :: "(int, overwrite) dict" where
  "sample_overwrites =
     [(7, \<lparr>ow_id = JInt 7, ow_type = JInt 0, ow_allow = 0, ow_deny = 2048\<rparr>),
      (5, \<lparr>ow_id = JInt 5, ow_type = JInt 1, ow_allow = 2048, ow_deny = 0\<rparr>)]"

definition sample_member :: member where
  "sample_member = \<lparr>member_id = 5, member_roles = [], member_timed_out = False\<rparr>"

lemma sample_normalized: "normalize_overwrites (channel_overwrites sample_channel) = Inr sample_overwrites"
  by code_simp

theorem compute_overwrites_precedence_witness:
  "\<exists>p. compute_overwrites 2048 sample_member sample_channel (Some 7) = Inr p \<and> perm_wf p \<and>
    (\<forall>i. bit p i \<longleftrightarrow> resolve_bit (map_of sample_overwrites 7) (role_overwrites sample_overwrites sample_member)
                        (map_of sample_overwrites (member_id sample_member)) i (bit (2048 :: int) i))"
proof (rule compute_overwrites_precedence)
  show "\<not> perm_has 2048 (flag ADMINISTRATOR)" by code_simp
  show "perm_wf 2048" by (simp add: perm_wf_def)
  show "normalize_overwrites (channel_overwrites sample_channel) = Inr sample_overwrites"
    by (rule sample_normalized)
  show "\<forall>w \<in> ran (map_of sample_overwrites). ow_wf w"
    by (simp add: sample_overwrites_def ow_wf_def perm_wf_def)
qed

section \<open>Owners, administrators, time-outs\<close>

lemma compute_base_owner: "guild_is_owner g (member_id m) \<Longrightarrow> compute_base_permissions m g = Inr perm_all"
  by (simp add: compute_base_permissions_def)

lemma compute_overwrites_admin:
  "perm_has base (flag ADMINISTRATOR) \<Longrightarrow> compute_overwrites base m ch gid = Inr perm_all"
  by (simp add: compute_overwrites_def)

lemma effective_unfold:
  "compute_effective_permissions m ch (Some g) =
     bind_result (compute_base_permissions m g) (\<lambda>base. compute_overwrites base m ch (Some (guild_id g)))"
  by (simp add: compute_effective_permissions_def)

lemma fold_roles_Inr:
  assumes "\<forall>r \<in> set rs. from_int (role_permissions r) = Inr (f r)"
  shows "fold (\<lambda>r acc. bind_result acc (\<lambda>p.
           bind_result (from_int (role_permissions r)) (\<lambda>rp. Inr (perm_add p rp)))) rs (Inr p0) =
         Inr (fold (\<lambda>r acc. perm_add acc (f r)) rs p0)"
  using assms by (induction rs arbitrary: p0) auto

definition everyone_permissions :: "guild \<Rightarrow> permissions result" where
  "everyone_permissions g =
     (case guild_get_role g (guild_id g) of
        Some r \<Rightarrow> from_int (role_permissions r) | None \<Rightarrow> Inr perm_default)"

lemma compute_base_unfold:
  assumes "\<not> guild_is_owner g (member_id m)" and "everyone_permissions g = Inr e"
    and "\<forall>r \<in> set (member_roles m). from_int (role_permissions r) = Inr (f r)"
  defines "p \<equiv> fold (\<lambda>r acc. perm_add acc (f r)) (member_roles m) e"
  shows "compute_base_permissions m g =
     Inr (if perm_has p (flag ADMINISTRATOR) then perm_all
          else if member_timed_out m then
            perm_add (perm_add perm_none (flag VIEW_CHANNEL)) (flag READ_MESSAGE_HISTORY)
          else p)"
  using assms(1,2) fold_roles_Inr [OF assms(3), of e]
  by (auto simp: compute_base_permissions_def everyone_permissions_def p_def)

lemma fold_roles_bits:
  assumes "perm_wf e" and "\<forall>r \<in> set rs. perm_wf (f r)"
  shows "bit (fold (\<lambda>r acc. perm_add acc (f r)) rs e) i \<longleftrightarrow> bit e i \<or> (\<exists>r \<in> set rs. bit (f r) i)"
  using perm.fold_add [OF assms(1), of rs f] assms(2) by (auto simp: perm_bits_def set_eq_iff)

text \<open>
  The owner of the guild, and any member to whom @everyone or one of their roles gives
  ADMINISTRATOR, has every declared permission in every channel, whatever the channel's
  overwrites say (even ones that would not parse) and even while timed out.
\<close>

theorem owner_and_administrator_bypass:
  assumes "everyone_permissions g = Inr e" and "perm_wf e"
    and "\<forall>r \<in> set (member_roles m). from_int (role_permissions r) = Inr (f r) \<and> perm_wf (f r)"
    and "guild_is_owner g (member_id m) \<or> bit e (flag_bit ADMINISTRATOR) \<or>
         (\<exists>r \<in> set (member_roles m). bit (f r) (flag_bit ADMINISTRATOR))"
  shows "compute_effective_permissions m ch (Some g) = Inr perm_all \<and>
         check_permission m ch (flag p) (Some g) = Inr True"
proof -
  have "compute_base_permissions m g = Inr perm_all"
  proof (cases "guild_is_owner g (member_id m)")
    case True
    then show ?thesis by (rule compute_base_owner)
  next
    case False
    have "perm_has (fold (\<lambda>r acc. perm_add acc (f r)) (member_roles m) e) (flag ADMINISTRATOR)"
      using assms(3,4) False fold_roles_bits [OF assms(2), of "member_roles m" f]
      by (auto simp: perm_has_flag)
    then show ?thesis using compute_base_unfold [OF False assms(1), of f] assms(3) by simp
  qed
  then show ?thesis
    by (simp add: effective_unfold compute_overwrites_admin check_permission_def
        calculate_permissions_def)
qed

definition sample_guild :: guild where
  "sample_guild = \<lparr>guild_id = 7, guild_is_owner = (\<lambda>i. i = 1),
     guild_get_role = (\<lambda>i. if i = 7 then Some \<lparr>role_id = 7, role_permissions = JStr ''8''\<rparr> else None)\<rparr>"

theorem owner_and_administrator_bypass_witness:
  "compute_effective_permissions sample_member sample_channel (Some sample_guild) = Inr perm_all \<and>
   check_permission sample_member sample_channel (flag BAN_MEMBERS) (Some sample_guild) = Inr True"
proof (rule owner_and_administrator_bypass [where e = 8 and f = "\<lambda>_. 0"])
  show "everyone_permissions sample_guild = Inr 8" by code_simp
  show "perm_wf 8" by (simp add: perm_wf_def)
  show "\<forall>r \<in> set (member_roles sample_member).
          from_int (role_permissions r) = Inr 0 \<and> perm_wf 0"
    by (simp add: sample_member_def)
  show "guild_is_owner sample_guild (member_id sample_member) \<or> bit (8 :: int) (flag_bit ADMINISTRATOR) \<or>
        (\<exists>r \<in> set (member_roles sample_member). bit (0 :: int) (flag_bit ADMINISTRATOR))"
    by simp
qed

text \<open>
  A timed-out member's base permissions are exactly VIEW_CHANNEL and
  READ_MESSAGE_HISTORY, but channel overwrites are applied on top: a member overwrite that
  allows a permission gives it back, so a timed-out member can still be allowed to send.
\<close>

theorem timed_out_member_regains_by_overwrite:
  assumes "\<not> guild_is_owner g (member_id m)" and "everyone_permissions g = Inr e"
    and "\<forall>r \<in> set (member_roles m). from_int (role_permissions r) = Inr (f r)"
    and "\<not> perm_has (fold (\<lambda>r acc. perm_add acc (f r)) (member_roles m) e) (flag ADMINISTRATOR)"
    and "member_timed_out m"
    and "normalize_overwrites (channel_overwrites ch) = Inr ows"
    and "\<forall>w \<in> ran (map_of ows). ow_wf w"
    and "map_of ows (member_id m) = Some w" and "bit (ow_allow w) i"
  shows "compute_base_permissions m g = Inr (flags [VIEW_CHANNEL, READ_MESSAGE_HISTORY]) \<and>
         (\<exists>p. compute_effective_permissions m ch (Some g) = Inr p \<and> bit p i)"
proof -
  let ?b = "perm_add (perm_add perm_none (flag VIEW_CHANNEL)) (flag READ_MESSAGE_HISTORY)"
  have base: "compute_base_permissions m g = Inr ?b"
    using compute_base_unfold [OF assms(1-3)] assms(4,5) by simp
  have b: "?b = flags [VIEW_CHANNEL, READ_MESSAGE_HISTORY]" by code_simp
  have "\<not> perm_has ?b (flag ADMINISTRATOR)" by code_simp
  moreover have "perm_wf ?b" by (intro perm_wf_add perm.inv_none perm_wf_flag)
  ultimately obtain p where "compute_overwrites ?b m ch (Some (guild_id g)) = Inr p"
    and "bit p i \<longleftrightarrow> resolve_bit (map_of ows (guild_id g)) (role_overwrites ows m)
                        (map_of ows (member_id m)) i (bit ?b i)"
    using compute_overwrites_refines [OF _ _ assms(6,7)] by blast
  then show ?thesis
    using base b assms(8,9)
    by (auto simp: effective_unfold resolve_bit_def decide_one_def override_def)
qed


definition timed_out_member :: member where
  "timed_out_member = \<lparr>member_id = 5, member_roles = [], member_timed_out = True\<rparr>"

definition plain_guild :: guild where
  "plain_guild = \<lparr>guild_id = 7, guild_is_owner = (\<lambda>i. i = 1), guild_get_role = (\<lambda>_. None)\<rparr>"

theorem timed_out_member_regains_by_overwrite_witness:
  "compute_base_permissions timed_out_member plain_guild = Inr (flags [VIEW_CHANNEL, READ_MESSAGE_HISTORY]) \<and>
   (\<exists>p. compute_effective_permissions timed_out_member sample_channel (Some plain_guild) = Inr p \<and>
        bit p (flag_bit SEND_MESSAGES))"
proof (rule timed_out_member_regains_by_overwrite
    [where e = perm_default and f = "\<lambda>_. 0" and ows = sample_overwrites and w = "snd (sample_overwrites ! 1)"])
  show "\<not> guild_is_owner plain_guild (member_id timed_out_member)" by code_simp
  show "everyone_permissions plain_guild = Inr perm_default" by code_simp
  show "\<forall>r \<in> set (member_roles timed_out_member). from_int (role_permissions r) = Inr 0"
    by (simp add: timed_out_member_def)
  show "\<not> perm_has (fold (\<lambda>r acc. perm_add acc 0) (member_roles timed_out_member) perm_default)
          (flag ADMINISTRATOR)" by code_simp
  show "member_timed_out timed_out_member" by (simp add: timed_out_member_def)
  show "normalize_overwrites (channel_overwrites sample_channel) = Inr sample_overwrites"
    by (rule sample_normalized)
  show "\<forall>w \<in> ran (map_of sample_overwrites). ow_wf w"
    by (simp add: sample_overwrites_def ow_wf_def perm_wf_def)
  show "map_of sample_overwrites (member_id timed_out_member) = Some (snd (sample_overwrites ! 1))"
    by (simp add: sample_overwrites_def timed_out_member_def)
  show "bit (ow_allow (snd (sample_overwrites ! 1))) (flag_bit SEND_MESSAGES)"
    by (simp add: sample_overwrites_def)
qed

section \<open>Overwrites as values\<close>

lemma ow_exclusive_fold:
  assumes "ow_exclusive w" and "\<forall>p \<in> set ps. perm_wf p"
    and "\<And>p w. ow_exclusive w \<Longrightarrow> perm_wf p \<Longrightarrow> ow_exclusive (f p w)"
  shows "ow_exclusive (fold f ps w)"
  using assms by (induction ps arbitrary: w) auto

text \<open>
  No sequence of \<open>set_allow\<close>, \<open>set_deny\<close> and \<open>reset\<close> ever leaves a permission both
  allowed and denied, and the two words stay within the declared flags.
\<close>

theorem overwrite_edits_keep_exclusive:
  assumes "ow_exclusive w" and "\<forall>p \<in> set ps. perm_wf p"
  shows "ow_exclusive (set_allow ps w) \<and> ow_exclusive (set_deny ps w) \<and>
         ow_exclusive (reset_overwrite ps w)"
proof (intro conjI)
  show "ow_exclusive (set_allow ps w)"
    unfolding set_allow_def
    by (rule ow_exclusive_fold [OF assms])
      (auto simp: ow_exclusive_def ow_wf_def perm.inv_add perm.inv_remove perm.exclusive_set)
  show "ow_exclusive (set_deny ps w)"
    unfolding set_deny_def
    by (rule ow_exclusive_fold [OF assms])
      (use perm.exclusive_set in \<open>auto simp: ow_exclusive_def ow_wf_def perm.inv_add perm.inv_remove Int_commute\<close>)
  show "ow_exclusive (reset_overwrite ps w)"
    unfolding reset_overwrite_def
    by (rule ow_exclusive_fold [OF assms])
      (auto simp: ow_exclusive_def ow_wf_def perm.inv_remove perm.exclusive_reset)
qed

theorem overwrite_edits_keep_exclusive_witness:
  "ow_exclusive (set_allow [flag CONNECT] (snd (sample_overwrites ! 0))) \<and>
   ow_exclusive (set_deny [flag CONNECT] (snd (sample_overwrites ! 0))) \<and>
   ow_exclusive (reset_overwrite [flag CONNECT] (snd (sample_overwrites ! 0)))"
  by (rule overwrite_edits_keep_exclusive)
    (auto simp: flag_def ow_exclusive_def ow_wf_def perm_wf_def sample_overwrites_def perm_bits_def)

lemma from_int_to_string: "0 \<le> p \<Longrightarrow> from_int (JStr (to_string p)) = Inr p"
  by (simp add: from_int_def to_string_def)

text \<open>
  An overwrite printed for the API and parsed again is the same overwrite, for every
  integer id (snowflakes of any size) and every non-negative permission word, unknown
  future bits included.
\<close>

theorem overwrite_dict_roundtrip:
  assumes "ow_id w = JInt i" and "0 \<le> ow_allow w" and "0 \<le> ow_deny w"
  shows "\<exists>d. overwrite_to_dict w = Some d \<and> overwrite_from_dict d = Inr w"
proof -
  have "overwrite_to_dict w = Some
     [(''id'', JStr (show_int i)), (''type'', ow_type w),
      (''allow'', JStr (to_string (ow_allow w))), (''deny'', JStr (to_string (ow_deny w)))]"
    using assms(1) by (simp add: overwrite_to_dict_def py_str_def)
  moreover have "overwrite_from_dict
     [(''id'', JStr (show_int i)), (''type'', ow_type w),
      (''allow'', JStr (to_string (ow_allow w))), (''deny'', JStr (to_string (ow_deny w)))] = Inr w"
    using assms by (simp add: overwrite_from_dict_def overwrite_init_def dict_index_def dict_get_def
        from_int_to_string)
  ultimately show ?thesis by blast
qed

theorem overwrite_dict_roundtrip_witness:
  "\<exists>d. overwrite_to_dict (snd (sample_overwrites ! 0)) = Some d \<and>
       overwrite_from_dict d = Inr (snd (sample_overwrites ! 0))"
  by (rule overwrite_dict_roundtrip [where i = 7]) (simp_all add: sample_overwrites_def)

section \<open>Corners of the code\<close>

lemma overwrite_list_of_objects_raises:
  "normalize_overwrites (OverwriteList (RawObj w # rs)) =
     Inl (TypeError ''PermissionOverwrite object is not subscriptable'')"
  by (simp add: normalize_overwrites_def list_item_def)

lemma overwrite_map_of_objects_accepted:
  "normalize_overwrites (OverwriteMap [(JInt i, RawObj w)]) = Inr [(i, w)]"
  by (simp add: normalize_overwrites_def map_item_def raw_value_def dict_of_def)

lemma perm_remove_drops_unknown_bits:
  assumes "0 \<le> p" and "perm_wf q" and "53 \<le> i"
  shows "\<not> bit (perm_remove p q) i"
  using assms by (simp add: bit_perm_remove)

lemma flags_nonneg: "0 \<le> flags fs"
proof -
  have "0 \<le> a \<Longrightarrow> 0 \<le> fold (\<lambda>p acc. acc OR flag p) fs a" for a
    by (induction fs arbitrary: a) (auto simp: flag_def)
  then show ?thesis by (simp add: flags_def)
qed

lemma bit_flags: "bit (flags fs) i \<longleftrightarrow> (\<exists>f \<in> set fs. i = flag_bit f)"
  by (simp add: flags_def bit_fold_flags)

text \<open>
  What is implicitly denied is decided by three permissions only, and giving more
  permissions never denies more: with VIEW_CHANNEL, SEND_MESSAGES and CONNECT nothing is
  implicitly denied, and \<open>get_implicit_denied\<close> is antitone in the permission set.
\<close>

theorem implicit_denied_antitone:
  assumes "perm_wf p" and "perm_wf q" and "perm_has p q"
  shows "perm_has (get_implicit_denied q) (get_implicit_denied p) \<and>
         (perm_has p (flags [VIEW_CHANNEL, SEND_MESSAGES, CONNECT]) \<longrightarrow>
            get_implicit_denied p = perm_none)"
proof -
  have n: "0 \<le> perm_none" by (simp add: perm_none_def)
  have m: "perm_has q (flag f) \<Longrightarrow> perm_has p (flag f)" for f
    using assms(3) by (auto simp: perm_has_iff)
  have "0 \<le> perm_add a b" if "0 \<le> a" "0 \<le> b" for a b
    using that by (simp add: perm_add_def)
  note nn = this n flags_nonneg
  have "perm_has (get_implicit_denied q) (get_implicit_denied p)"
    using m [of VIEW_CHANNEL] m [of SEND_MESSAGES] m [of CONNECT]
    unfolding perm_has_iff [of "get_implicit_denied q"]
    by (auto simp: get_implicit_denied_def Let_def nn)
  moreover have "get_implicit_denied p = perm_none"
    if "perm_has p (flags [VIEW_CHANNEL, SEND_MESSAGES, CONNECT])"
  proof -
    have "perm_has p (flag VIEW_CHANNEL)" "perm_has p (flag SEND_MESSAGES)" "perm_has p (flag CONNECT)"
      using that by (auto simp: perm_has_iff bit_flags bit_flag)
    then show ?thesis by (simp add: get_implicit_denied_def)
  qed
  ultimately show ?thesis by blast
qed

theorem implicit_denied_antitone_witness:
  "perm_has (get_implicit_denied 0) (get_implicit_denied perm_all) \<and>
   get_implicit_denied perm_all = perm_none"
proof -
  have wf: "perm_wf perm_all" "perm_wf 0" "perm_has perm_all 0"
    by (simp_all add: perm_all_eq perm_wf_def perm_has_iff)
  have "perm_has perm_all (flags [VIEW_CHANNEL, SEND_MESSAGES, CONNECT])"
    unfolding perm_has_iff [of perm_all] bit_flags bit_perm_all by blast
  then show ?thesis using implicit_denied_antitone [OF wf] by blast
qed

end
