(* ===== verification/EventTypes.thy ===== *)
theory EventTypes
  imports PyValue
begin

text \<open>
  Event types (src/vaidcord-py/src/vaidcord/types/__init__.py) and how the router names
  them: \<open>_resolve_event_types\<close> and the \<open>on_*\<close> registration shortcuts of
  src/vaidcord-py/src/vaidcord/router.py. An enum member is identified by its value, so the
  aliases of \<open>EventType\<close> (MEMBER_JOIN and the like) are the member they alias.
\<close>

section \<open>ASCII case\<close>

definition upper_char :: "char \<Rightarrow> char" where
  "upper_char c = (let n = of_char c :: nat in if 97 \<le> n \<and> n \<le> 122 then char_of (n - 32) else c)"

definition lower_char :: "char \<Rightarrow> char" where
  "lower_char c = (let n = of_char c :: nat in if 65 \<le> n \<and> n \<le> 90 then char_of (n + 32) else c)"

definition py_upper :: "string \<Rightarrow> string" where
  "py_upper s = map upper_char s"

definition py_lower :: "string \<Rightarrow> string" where
  "py_lower s = map lower_char s"

lemma lower_char_idem [simp]: "lower_char (lower_char c) = lower_char c"
  by (auto simp: lower_char_def Let_def)

lemma upper_char_idem [simp]: "upper_char (upper_char c) = upper_char c"
  by (auto simp: upper_char_def Let_def)

lemma py_lower_idem [simp]: "py_lower (py_lower s) = py_lower s"
  by (simp add: py_lower_def)

lemma py_upper_idem [simp]: "py_upper (py_upper s) = py_upper s"
  by (simp add: py_upper_def)

section \<open>Enumerations\<close>

datatype event_type = Gateway string | Webhook string

text \<open>\<open>EventType\<close>: member names with their values, aliases included.\<close>

definition event_type_members :: "(string \<times> string) list" where
  "event_type_members =
   [(''HELLO'', ''HELLO''), (''READY'', ''READY''), (''RESUMED'', ''RESUMED''),
    (''RECONNECT'', ''RECONNECT''), (''RATE_LIMITED'', ''RATE_LIMITED''),
    (''INVALID_SESSION'', ''INVALID_SESSION''),
    (''APPLICATION_COMMAND_PERMISSIONS_UPDATE'', ''APPLICATION_COMMAND_PERMISSIONS_UPDATE''),
    (''AUTO_MODERATION_RULE_CREATE'', ''AUTO_MODERATION_RULE_CREATE''),
    (''AUTO_MODERATION_RULE_UPDATE'', ''AUTO_MODERATION_RULE_UPDATE''),
    (''AUTO_MODERATION_RULE_DELETE'', ''AUTO_MODERATION_RULE_DELETE''),
    (''AUTO_MODERATION_ACTION_EXECUTION'', ''AUTO_MODERATION_ACTION_EXECUTION''),
    (''CHANNEL_CREATE'', ''CHANNEL_CREATE''), (''CHANNEL_UPDATE'', ''CHANNEL_UPDATE''),
    (''CHANNEL_DELETE'', ''CHANNEL_DELETE''), (''CHANNEL_INFO'', ''CHANNEL_INFO''),
    (''CHANNEL_PINS_UPDATE'', ''CHANNEL_PINS_UPDATE''), (''THREAD_CREATE'', ''THREAD_CREATE''),
    (''THREAD_UPDATE'', ''THREAD_UPDATE''), (''THREAD_DELETE'', ''THREAD_DELETE''),
    (''THREAD_LIST_SYNC'', ''THREAD_LIST_SYNC''),
    (''THREAD_MEMBER_UPDATE'', ''THREAD_MEMBER_UPDATE''),
    (''THREAD_MEMBERS_UPDATE'', ''THREAD_MEMBERS_UPDATE''),
    (''ENTITLEMENT_CREATE'', ''ENTITLEMENT_CREATE''),
    (''ENTITLEMENT_UPDATE'', ''ENTITLEMENT_UPDATE''),
    (''ENTITLEMENT_DELETE'', ''ENTITLEMENT_DELETE''), (''GUILD_CREATE'', ''GUILD_CREATE''),
    (''GUILD_UPDATE'', ''GUILD_UPDATE''), (''GUILD_DELETE'', ''GUILD_DELETE''),
    (''GUILD_AUDIT_LOG_ENTRY_CREATE'', ''GUILD_AUDIT_LOG_ENTRY_CREATE''),
    (''GUILD_BAN_ADD'', ''GUILD_BAN_ADD''), (''GUILD_BAN_REMOVE'', ''GUILD_BAN_REMOVE''),
    (''GUILD_EMOJIS_UPDATE'', ''GUILD_EMOJIS_UPDATE''),
    (''GUILD_STICKERS_UPDATE'', ''GUILD_STICKERS_UPDATE''),
    (''GUILD_INTEGRATIONS_UPDATE'', ''GUILD_INTEGRATIONS_UPDATE''),
    (''GUILD_MEMBER_ADD'', ''GUILD_MEMBER_ADD''),
    (''GUILD_MEMBER_REMOVE'', ''GUILD_MEMBER_REMOVE''),
    (''GUILD_MEMBER_UPDATE'', ''GUILD_MEMBER_UPDATE''),
    (''GUILD_MEMBERS_CHUNK'', ''GUILD_MEMBERS_CHUNK''),
    (''GUILD_ROLE_CREATE'', ''GUILD_ROLE_CREATE''),
    (''GUILD_ROLE_UPDATE'', ''GUILD_ROLE_UPDATE''),
    (''GUILD_ROLE_DELETE'', ''GUILD_ROLE_DELETE''),
    (''GUILD_SCHEDULED_EVENT_CREATE'', ''GUILD_SCHEDULED_EVENT_CREATE''),
    (''GUILD_SCHEDULED_EVENT_UPDATE'', ''GUILD_SCHEDULED_EVENT_UPDATE''),
    (''GUILD_SCHEDULED_EVENT_DELETE'', ''GUILD_SCHEDULED_EVENT_DELETE''),
    (''GUILD_SCHEDULED_EVENT_USER_ADD'', ''GUILD_SCHEDULED_EVENT_USER_ADD''),
    (''GUILD_SCHEDULED_EVENT_USER_REMOVE'', ''GUILD_SCHEDULED_EVENT_USER_REMOVE''),
    (''GUILD_SOUNDBOARD_SOUND_CREATE'', ''GUILD_SOUNDBOARD_SOUND_CREATE''),
    (''GUILD_SOUNDBOARD_SOUND_UPDATE'', ''GUILD_SOUNDBOARD_SOUND_UPDATE''),
    (''GUILD_SOUNDBOARD_SOUND_DELETE'', ''GUILD_SOUNDBOARD_SOUND_DELETE''),
    (''GUILD_SOUNDBOARD_SOUNDS_UPDATE'', ''GUILD_SOUNDBOARD_SOUNDS_UPDATE''),
    (''SOUNDBOARD_SOUNDS'', ''SOUNDBOARD_SOUNDS''),
    (''INTEGRATION_CREATE'', ''INTEGRATION_CREATE''),
    (''INTEGRATION_UPDATE'', ''INTEGRATION_UPDATE''),
    (''INTEGRATION_DELETE'', ''INTEGRATION_DELETE''),
    (''INTERACTION_CREATE'', ''INTERACTION_CREATE''), (''INVITE_CREATE'', ''INVITE_CREATE''),
    (''INVITE_DELETE'', ''INVITE_DELETE''), (''MESSAGE_CREATE'', ''MESSAGE_CREATE''),
    (''MESSAGE_UPDATE'', ''MESSAGE_UPDATE''), (''MESSAGE_DELETE'', ''MESSAGE_DELETE''),
    (''MESSAGE_DELETE_BULK'', ''MESSAGE_DELETE_BULK''),
    (''MESSAGE_REACTION_ADD'', ''MESSAGE_REACTION_ADD''),
    (''MESSAGE_REACTION_REMOVE'', ''MESSAGE_REACTION_REMOVE''),
    (''MESSAGE_REACTION_REMOVE_ALL'', ''MESSAGE_REACTION_REMOVE_ALL''),
    (''MESSAGE_REACTION_REMOVE_EMOJI'', ''MESSAGE_REACTION_REMOVE_EMOJI''),
    (''PRESENCE_UPDATE'', ''PRESENCE_UPDATE''),
    (''STAGE_INSTANCE_CREATE'', ''STAGE_INSTANCE_CREATE''),
    (''STAGE_INSTANCE_UPDATE'', ''STAGE_INSTANCE_UPDATE''),
    (''STAGE_INSTANCE_DELETE'', ''STAGE_INSTANCE_DELETE''),
    (''SUBSCRIPTION_CREATE'', ''SUBSCRIPTION_CREATE''),
    (''SUBSCRIPTION_UPDATE'', ''SUBSCRIPTION_UPDATE''),
    (''SUBSCRIPTION_DELETE'', ''SUBSCRIPTION_DELETE''), (''TYPING_START'', ''TYPING_START''),
    (''USER_UPDATE'', ''USER_UPDATE''),
    (''VOICE_CHANNEL_EFFECT_SEND'', ''VOICE_CHANNEL_EFFECT_SEND''),
    (''VOICE_CHANNEL_START_TIME_UPDATE'', ''VOICE_CHANNEL_START_TIME_UPDATE''),
    (''VOICE_CHANNEL_STATUS_UPDATE'', ''VOICE_CHANNEL_STATUS_UPDATE''),
    (''VOICE_STATE_UPDATE'', ''VOICE_STATE_UPDATE''),
    (''VOICE_SERVER_UPDATE'', ''VOICE_SERVER_UPDATE''),
    (''WEBHOOKS_UPDATE'', ''WEBHOOKS_UPDATE''),
    (''MESSAGE_POLL_VOTE_ADD'', ''MESSAGE_POLL_VOTE_ADD''),
    (''MESSAGE_POLL_VOTE_REMOVE'', ''MESSAGE_POLL_VOTE_REMOVE''),
    (''MEMBER_JOIN'', ''GUILD_MEMBER_ADD''), (''MEMBER_LEAVE'', ''GUILD_MEMBER_REMOVE''),
    (''REACTION_ADD'', ''MESSAGE_REACTION_ADD''),
    (''REACTION_REMOVE'', ''MESSAGE_REACTION_REMOVE'')]"

definition webhook_event_type_members :: "(string \<times> string) list" where
  "webhook_event_type_members =
   [(''APPLICATION_AUTHORIZED'', ''APPLICATION_AUTHORIZED''),
    (''APPLICATION_DEAUTHORIZED'', ''APPLICATION_DEAUTHORIZED''),
    (''ENTITLEMENT_CREATE'', ''ENTITLEMENT_CREATE''),
    (''ENTITLEMENT_UPDATE'', ''ENTITLEMENT_UPDATE''),
    (''ENTITLEMENT_DELETE'', ''ENTITLEMENT_DELETE''),
    (''QUEST_USER_ENROLLMENT'', ''QUEST_USER_ENROLLMENT''),
    (''LOBBY_MESSAGE_CREATE'', ''LOBBY_MESSAGE_CREATE''),
    (''LOBBY_MESSAGE_UPDATE'', ''LOBBY_MESSAGE_UPDATE''),
    (''LOBBY_MESSAGE_DELETE'', ''LOBBY_MESSAGE_DELETE''),
    (''GAME_DIRECT_MESSAGE_CREATE'', ''GAME_DIRECT_MESSAGE_CREATE''),
    (''GAME_DIRECT_MESSAGE_UPDATE'', ''GAME_DIRECT_MESSAGE_UPDATE''),
    (''GAME_DIRECT_MESSAGE_DELETE'', ''GAME_DIRECT_MESSAGE_DELETE'')]"

definition channel_type_members :: "(string \<times> int) list" where
  "channel_type_members =
   [(''TEXT'', 0), (''DM'', 1), (''VOICE'', 2), (''GROUP_DM'', 3), (''CATEGORY'', 4),
    (''ANNOUNCEMENT'', 5), (''ANNOUNCEMENT_THREAD'', 10), (''NEWS_THREAD'', 10),
    (''PUBLIC_THREAD'', 11), (''PRIVATE_THREAD'', 12), (''STAGE'', 13), (''DIRECTORY'', 14),
    (''FORUM'', 15), (''GUILD_MEDIA'', 16), (''MEDIA'', 16)]"

section \<open>Registration shortcuts\<close>

text \<open>Each \<open>on_x\<close> method calls \<open>_event_shortcut\<close> with one event type.\<close>

definition gateway_shortcuts_1 :: "(string \<times> string) list" where
  "gateway_shortcuts_1 =
   [(''on_hello'', ''HELLO''), (''on_ready'', ''READY''), (''on_resumed'', ''RESUMED''),
    (''on_reconnect_event'', ''RECONNECT''), (''on_rate_limited'', ''RATE_LIMITED''),
    (''on_invalid_session'', ''INVALID_SESSION''),
    (''on_application_command_permissions_update'', ''APPLICATION_COMMAND_PERMISSIONS_UPDATE''),
    (''on_auto_moderation_rule_create'', ''AUTO_MODERATION_RULE_CREATE''),
    (''on_auto_moderation_rule_update'', ''AUTO_MODERATION_RULE_UPDATE''),
    (''on_auto_moderation_rule_delete'', ''AUTO_MODERATION_RULE_DELETE''),
    (''on_auto_moderation_action_execution'', ''AUTO_MODERATION_ACTION_EXECUTION''),
    (''on_channel_create'', ''CHANNEL_CREATE''), (''on_channel_update'', ''CHANNEL_UPDATE''),
    (''on_channel_delete'', ''CHANNEL_DELETE''), (''on_channel_info'', ''CHANNEL_INFO''),
    (''on_channel_pins_update'', ''CHANNEL_PINS_UPDATE''),
    (''on_thread_create'', ''THREAD_CREATE''), (''on_thread_update'', ''THREAD_UPDATE''),
    (''on_thread_delete'', ''THREAD_DELETE''), (''on_thread_list_sync'', ''THREAD_LIST_SYNC''),
    (''on_thread_member_update'', ''THREAD_MEMBER_UPDATE''),
    (''on_thread_members_update'', ''THREAD_MEMBERS_UPDATE''),
    (''on_entitlement_create'', ''ENTITLEMENT_CREATE''),
    (''on_entitlement_update'', ''ENTITLEMENT_UPDATE''),
    (''on_entitlement_delete'', ''ENTITLEMENT_DELETE''),
    (''on_guild_create'', ''GUILD_CREATE''), (''on_guild_update'', ''GUILD_UPDATE''),
    (''on_guild_delete'', ''GUILD_DELETE''),
    (''on_guild_audit_log_entry_create'', ''GUILD_AUDIT_LOG_ENTRY_CREATE''),
    (''on_guild_ban_add'', ''GUILD_BAN_ADD''), (''on_guild_ban_remove'', ''GUILD_BAN_REMOVE''),
    (''on_guild_emojis_update'', ''GUILD_EMOJIS_UPDATE''),
    (''on_guild_stickers_update'', ''GUILD_STICKERS_UPDATE''),
    (''on_guild_integrations_update'', ''GUILD_INTEGRATIONS_UPDATE''),
    (''on_guild_member_add'', ''GUILD_MEMBER_ADD''),
    (''on_guild_member_remove'', ''GUILD_MEMBER_REMOVE''),
    (''on_guild_member_update'', ''GUILD_MEMBER_UPDATE''),
    (''on_guild_members_chunk'', ''GUILD_MEMBERS_CHUNK''),
    (''on_guild_role_create'', ''GUILD_ROLE_CREATE''),
    (''on_guild_role_update'', ''GUILD_ROLE_UPDATE'')]"

definition gateway_shortcuts_2 :: "(string \<times> string) list" where
  "gateway_shortcuts_2 =
   [(''on_guild_role_delete'', ''GUILD_ROLE_DELETE''),
    (''on_guild_scheduled_event_create'', ''GUILD_SCHEDULED_EVENT_CREATE''),
    (''on_guild_scheduled_event_update'', ''GUILD_SCHEDULED_EVENT_UPDATE''),
    (''on_guild_scheduled_event_delete'', ''GUILD_SCHEDULED_EVENT_DELETE''),
    (''on_guild_scheduled_event_user_add'', ''GUILD_SCHEDULED_EVENT_USER_ADD''),
    (''on_guild_scheduled_event_user_remove'', ''GUILD_SCHEDULED_EVENT_USER_REMOVE''),
    (''on_guild_soundboard_sound_create'', ''GUILD_SOUNDBOARD_SOUND_CREATE''),
    (''on_guild_soundboard_sound_update'', ''GUILD_SOUNDBOARD_SOUND_UPDATE''),
    (''on_guild_soundboard_sound_delete'', ''GUILD_SOUNDBOARD_SOUND_DELETE''),
    (''on_guild_soundboard_sounds_update'', ''GUILD_SOUNDBOARD_SOUNDS_UPDATE''),
    (''on_soundboard_sounds'', ''SOUNDBOARD_SOUNDS''),
    (''on_integration_create'', ''INTEGRATION_CREATE''),
    (''on_integration_update'', ''INTEGRATION_UPDATE''),
    (''on_integration_delete'', ''INTEGRATION_DELETE''),
    (''on_interaction_create'', ''INTERACTION_CREATE''),
    (''on_invite_create'', ''INVITE_CREATE''), (''on_invite_delete'', ''INVITE_DELETE''),
    (''on_message_update'', ''MESSAGE_UPDATE''), (''on_message_delete'', ''MESSAGE_DELETE''),
    (''on_message_delete_bulk'', ''MESSAGE_DELETE_BULK''),
    (''on_message_reaction_add'', ''MESSAGE_REACTION_ADD''),
    (''on_message_reaction_remove'', ''MESSAGE_REACTION_REMOVE''),
    (''on_message_reaction_remove_all'', ''MESSAGE_REACTION_REMOVE_ALL''),
    (''on_message_reaction_remove_emoji'', ''MESSAGE_REACTION_REMOVE_EMOJI''),
    (''on_presence_update'', ''PRESENCE_UPDATE''),
    (''on_stage_instance_create'', ''STAGE_INSTANCE_CREATE''),
    (''on_stage_instance_update'', ''STAGE_INSTANCE_UPDATE''),
    (''on_stage_instance_delete'', ''STAGE_INSTANCE_DELETE''),
    (''on_subscription_create'', ''SUBSCRIPTION_CREATE''),
    (''on_subscription_update'', ''SUBSCRIPTION_UPDATE''),
    (''on_subscription_delete'', ''SUBSCRIPTION_DELETE''),
    (''on_typing_start'', ''TYPING_START''), (''on_user_update'', ''USER_UPDATE''),
    (''on_voice_channel_effect_send'', ''VOICE_CHANNEL_EFFECT_SEND''),
    (''on_voice_channel_start_time_update'', ''VOICE_CHANNEL_START_TIME_UPDATE''),
    (''on_voice_channel_status_update'', ''VOICE_CHANNEL_STATUS_UPDATE''),
    (''on_voice_state_update'', ''VOICE_STATE_UPDATE''),
    (''on_voice_server_update'', ''VOICE_SERVER_UPDATE''),
    (''on_webhooks_update'', ''WEBHOOKS_UPDATE''),
    (''on_message_poll_vote_add'', ''MESSAGE_POLL_VOTE_ADD''),
    (''on_message_poll_vote_remove'', ''MESSAGE_POLL_VOTE_REMOVE'')]"

definition webhook_shortcuts :: "(string \<times> string) list" where
  "webhook_shortcuts =
   [(''on_webhook_application_authorized'', ''APPLICATION_AUTHORIZED''),
    (''on_webhook_application_deauthorized'', ''APPLICATION_DEAUTHORIZED''),
    (''on_webhook_entitlement_create'', ''ENTITLEMENT_CREATE''),
    (''on_webhook_entitlement_update'', ''ENTITLEMENT_UPDATE''),
    (''on_webhook_entitlement_delete'', ''ENTITLEMENT_DELETE''),
    (''on_webhook_quest_user_enrollment'', ''QUEST_USER_ENROLLMENT''),
    (''on_webhook_lobby_message_create'', ''LOBBY_MESSAGE_CREATE''),
    (''on_webhook_lobby_message_update'', ''LOBBY_MESSAGE_UPDATE''),
    (''on_webhook_lobby_message_delete'', ''LOBBY_MESSAGE_DELETE''),
    (''on_webhook_game_direct_message_create'', ''GAME_DIRECT_MESSAGE_CREATE''),
    (''on_webhook_game_direct_message_update'', ''GAME_DIRECT_MESSAGE_UPDATE''),
    (''on_webhook_game_direct_message_delete'', ''GAME_DIRECT_MESSAGE_DELETE'')]"

text \<open>Methods that only call another registration method.\<close>

definition shortcut_aliases :: "(string \<times> string) list" where
  "shortcut_aliases =
   [(''on_message_create'', ''on_message''), (''on_resume'', ''on_resumed''),
    (''on_update_message'', ''on_message_update''),
    (''on_delete_message'', ''on_message_delete''),
    (''on_delete_message_many'', ''on_message_delete_bulk''),
    (''on_reaction'', ''on_message_reaction_add''),
    (''on_reaction_add'', ''on_message_reaction_add''),
    (''on_reaction_remove'', ''on_message_reaction_remove''),
    (''on_reaction_remove_all'', ''on_message_reaction_remove_all''),
    (''on_reaction_remove_emoji'', ''on_message_reaction_remove_emoji''),
    (''on_delete_reaction'', ''on_message_reaction_remove''),
    (''on_delete_all_reaction'', ''on_message_reaction_remove_all''),
    (''on_delete_emoji_for_reaction'', ''on_message_reaction_remove_emoji''),
    (''on_member_join'', ''on_guild_member_add''),
    (''on_member_leave'', ''on_guild_member_remove''),
    (''on_member_update'', ''on_guild_member_update''),
    (''on_guild_join'', ''on_guild_create''), (''on_guild_leave'', ''on_guild_delete''),
    (''on_typing'', ''on_typing_start''), (''on_interaction'', ''on_interaction_create''),
    (''on_poll_vote_add'', ''on_message_poll_vote_add''),
    (''on_poll_vote_remove'', ''on_message_poll_vote_remove'')]"

definition direct_shortcut :: "string \<Rightarrow> event_type option" where
  "direct_shortcut name =
     (if name = ''on_message'' then Some (Gateway ''MESSAGE_CREATE'')
      else case map_of (gateway_shortcuts_1 @ gateway_shortcuts_2) name of
             Some v \<Rightarrow> Some (Gateway v)
           | None \<Rightarrow> map_option Webhook (map_of webhook_shortcuts name))"

definition shortcut_event :: "string \<Rightarrow> event_type option" where
  "shortcut_event name =
     (case map_of shortcut_aliases name of
        Some target \<Rightarrow> direct_shortcut target
      | None \<Rightarrow> direct_shortcut name)"

section \<open>Resolving event type arguments\<close>

text \<open>An argument is an enum member, a string, or something else.\<close>

datatype event_type_arg = Member event_type | Name string | OtherArg

definition resolve_event_type :: "event_type_arg \<Rightarrow> event_type result" where
  "resolve_event_type et =
     (case et of
        Member m \<Rightarrow> Inr m
      | Name s \<Rightarrow>
          (case map_of event_type_members (py_upper s) of
             Some v \<Rightarrow> Inr (Gateway v)
           | None \<Rightarrow> (case map_of webhook_event_type_members (py_upper s) of
                       Some v \<Rightarrow> Inr (Webhook v)
                     | None \<Rightarrow> Inl (ValueError (''Unknown event type: '' @ s))))
      | OtherArg \<Rightarrow> Inl (TypeError ''Invalid event type''))"

definition resolve_event_types :: "event_type_arg list \<Rightarrow> event_type list result" where
  "resolve_event_types ets = map_result resolve_event_type ets"

lemma map_result_length: "map_result f xs = Inr ys \<Longrightarrow> length ys = length xs"
  by (induction xs arbitrary: ys) (auto simp: bind_result_Inr_iff)

lemma resolve_event_types_length: "resolve_event_types ets = Inr ts \<Longrightarrow> length ts = length ets"
  by (simp add: resolve_event_types_def map_result_length)

lemma resolve_event_type_case_insensitive:
  "resolve_event_type (Name (py_upper s)) = Inr t \<longleftrightarrow> resolve_event_type (Name s) = Inr t"
  by (simp add: resolve_event_type_def split: option.splits)

lemma resolve_members: "resolve_event_types (map Member ms) = Inr ms"
  by (induction ms) (simp_all add: resolve_event_types_def resolve_event_type_def)

end
