(* ===== verification/Router.thy ===== *)
theory Router
  imports EventTypes
begin

text \<open>
  The router registry (src/vaidcord-py/src/vaidcord/router.py): handlers, middleware,
  filters and dependencies of a router, routers included in routers, and the resolution
  caches. Routers refer to each other (parent and children), so they live in a store from
  addresses to records; user code (handlers, filters, middleware) is an opaque type \<open>'c\<close>
  and injected values an opaque type \<open>'d\<close>. Python's unbounded recursion over parents and
  children is fuel: None means that the recursion never comes back.
\<close>

section \<open>State\<close>

record 'c layer_config =
  lc_item :: 'c
  lc_priority :: int
  lc_event_types :: "event_type list option"

datatype annotation =
    AnnAny | AnnEmpty | AnnNone | AnnStr string | AnnClass string
  | AnnUnion "annotation list" | AnnGeneric string

record 'c handler_config =
  hc_handler :: 'c
  hc_event_types :: "event_type list"
  hc_filters :: "'c list"
  hc_priority :: int
  hc_accepted_kwargs :: "string list"
  hc_accepted_annotations :: "(string, annotation) dict"
  hc_pass_event :: bool

record ('c, 'd) router =
  r_name :: string
  r_handlers :: "(event_type, 'c handler_config list) dict"
  r_routers :: "nat list"
  r_parent :: "nat option"
  r_middlewares :: "'c layer_config list"
  r_outer_middlewares :: "'c layer_config list"
  r_router_filters :: "'c layer_config list"
  r_dependencies :: "(string, 'd) dict"
  r_startup_handlers :: "'c list"
  r_shutdown_handlers :: "'c list"
  r_reconnect_handlers :: "'c list"
  r_dependencies_cache :: "(string, 'd) dict option"
  r_router_filter_cache :: "(event_type, 'c layer_config list) dict"
  r_middleware_cache :: "(event_type, 'c layer_config list) dict"
  r_outer_middleware_cache :: "(event_type, 'c layer_config list) dict"

type_synonym ('c, 'd) store = "nat \<Rightarrow> ('c, 'd) router"

definition new_router :: "string \<Rightarrow> ('c, 'd) router" where
  "new_router nm =
     \<lparr>r_name = nm, r_handlers = [], r_routers = [], r_parent = None, r_middlewares = [],
      r_outer_middlewares = [], r_router_filters = [], r_dependencies = [],
      r_startup_handlers = [], r_shutdown_handlers = [], r_reconnect_handlers = [],
      r_dependencies_cache = None, r_router_filter_cache = [], r_middleware_cache = [],
      r_outer_middleware_cache = []\<rparr>"

section \<open>Cache invalidation\<close>

definition clear_caches :: "('c, 'd) router \<Rightarrow> ('c, 'd) router" where
  "clear_caches r =
     r\<lparr>r_dependencies_cache := None, r_router_filter_cache := [], r_middleware_cache := [],
       r_outer_middleware_cache := []\<rparr>"

primrec invalidate :: "nat \<Rightarrow> nat \<Rightarrow> ('c, 'd) store \<Rightarrow> ('c, 'd) store option" where
  "invalidate 0 i st = None"
| "invalidate (Suc n) i st =
     fold (\<lambda>j acc. case acc of None \<Rightarrow> None | Some s \<Rightarrow> invalidate n j s)
       (r_routers (st i)) (Some (st(i := clear_caches (st i))))"

section \<open>Registration\<close>

definition register_config :: "'c handler_config \<Rightarrow> event_type list \<Rightarrow> ('c, 'd) router \<Rightarrow> ('c, 'd) router" where
  "register_config config ets r =
     fold (\<lambda>et r. r\<lparr>r_handlers := dict_set (r_handlers r) et
                     (sort_desc hc_priority (dict_get (r_handlers r) et [] @ [config]))\<rparr>) ets r"

text \<open>The parameters of a handler as \<open>inspect.signature\<close> reports them.\<close>

datatype param_kind = POSITIONAL_ONLY | POSITIONAL_OR_KEYWORD | VAR_POSITIONAL | KEYWORD_ONLY | VAR_KEYWORD

type_synonym param = "string \<times> param_kind \<times> annotation"

definition is_event_name :: "string \<Rightarrow> bool" where
  "is_event_name n \<longleftrightarrow> n = ''event'' \<or> n = ''_event''"

definition accept_param ::
  "param \<Rightarrow> string list \<times> (string, annotation) dict \<times> bool \<Rightarrow> string list \<times> (string, annotation) dict \<times> bool" where
  "accept_param p acc =
     (case p of (n, kind, ann) \<Rightarrow> case acc of (accepted, anns, pass) \<Rightarrow>
        if is_event_name n then acc
        else if kind = POSITIONAL_OR_KEYWORD \<or> kind = KEYWORD_ONLY then
          (accepted @ [n], if ann \<noteq> AnnEmpty then dict_set anns n ann else anns, pass)
        else acc)"

fun inspect_params ::
  "bool \<Rightarrow> param list \<Rightarrow> string list \<times> (string, annotation) dict \<times> bool \<Rightarrow>
   string list \<times> (string, annotation) dict \<times> bool" where
  "inspect_params first [] acc = acc"
| "inspect_params first ((n, kind, ann) # ps) acc =
     (if first \<and> (kind = POSITIONAL_ONLY \<or> kind = POSITIONAL_OR_KEYWORD) then
        if is_event_name n \<or> ann = AnnClass ''Event'' \<or> ann = AnnStr ''Event'' then
          inspect_params False ps (fst acc, fst (snd acc), True)
        else inspect_params False ps (accept_param (n, kind, ann) acc)
      else inspect_params first ps (accept_param (n, kind, ann) acc))"

definition inspect_handler_signature ::
  "param list \<Rightarrow> string list \<times> (string, annotation) dict \<times> bool" where
  "inspect_handler_signature ps = inspect_params True ps ([], [], False)"

definition register_handler ::
  "'c \<Rightarrow> param list \<Rightarrow> event_type_arg list \<Rightarrow> 'c list \<Rightarrow> int \<Rightarrow> ('c, 'd) router \<Rightarrow> ('c, 'd) router result" where
  "register_handler h sig ets filters prio r =
     bind_result (resolve_event_types ets) (\<lambda>resolved.
       case inspect_handler_signature sig of (accepted, anns, pass) \<Rightarrow>
         Inr (register_config
           \<lparr>hc_handler = h, hc_event_types = resolved, hc_filters = filters, hc_priority = prio,
            hc_accepted_kwargs = accepted, hc_accepted_annotations = anns, hc_pass_event = pass\<rparr>
           resolved r))"

text \<open>
  The registration decorators, applied to a handler. Filters a decorator builds itself are
  user-code values, given as arguments.
\<close>

definition on_event ::
  "event_type_arg list \<Rightarrow> 'c list \<Rightarrow> int \<Rightarrow> 'c \<Rightarrow> param list \<Rightarrow> ('c, 'd) router \<Rightarrow> ('c, 'd) router result" where
  "on_event ets filters prio h sig r = register_handler h sig ets filters prio r"

definition on_gateway_event ::
  "string \<Rightarrow> 'c list \<Rightarrow> int \<Rightarrow> 'c \<Rightarrow> param list \<Rightarrow> ('c, 'd) router \<Rightarrow> ('c, 'd) router result" where
  "on_gateway_event nm filters prio h sig r = on_event [Name nm] filters prio h sig r"

definition on_message :: "'c list \<Rightarrow> int \<Rightarrow> 'c \<Rightarrow> param list \<Rightarrow> ('c, 'd) router \<Rightarrow> ('c, 'd) router result" where
  "on_message filters prio h sig r =
     register_handler h sig [Member (Gateway ''MESSAGE_CREATE'')] filters prio r"

definition on_topic_message :: "'c \<Rightarrow> 'c list \<Rightarrow> int \<Rightarrow> 'c \<Rightarrow> param list \<Rightarrow> ('c, 'd) router \<Rightarrow> ('c, 'd) router result" where
  "on_topic_message topic_filter filters prio h sig r = on_message (topic_filter # filters) prio h sig r"

definition on_guild_message :: "'c \<Rightarrow> 'c list \<Rightarrow> int \<Rightarrow> 'c \<Rightarrow> param list \<Rightarrow> ('c, 'd) router \<Rightarrow> ('c, 'd) router result" where
  "on_guild_message guild_filter filters prio h sig r = on_message (guild_filter # filters) prio h sig r"

definition on_private_message :: "'c \<Rightarrow> 'c list \<Rightarrow> int \<Rightarrow> 'c \<Rightarrow> param list \<Rightarrow> ('c, 'd) router \<Rightarrow> ('c, 'd) router result" where
  "on_private_message private_filter filters prio h sig r = on_message (private_filter # filters) prio h sig r"

definition on_command ::
  "(string list \<Rightarrow> string list \<Rightarrow> bool \<Rightarrow> 'c) \<Rightarrow> string list \<Rightarrow> string list \<Rightarrow> bool \<Rightarrow> 'c list \<Rightarrow> int \<Rightarrow>
   'c \<Rightarrow> param list \<Rightarrow> ('c, 'd) router \<Rightarrow> ('c, 'd) router result" where
  "on_command mk_filter commands prefixes ignore_case filters prio h sig r =
     (if commands = [] then Inl (ValueError ''on_command requires at least one command'')
      else on_message (mk_filter commands prefixes ignore_case # filters) prio h sig r)"

definition on_startup :: "'c \<Rightarrow> ('c, 'd) router \<Rightarrow> ('c, 'd) router" where
  "on_startup h r = r\<lparr>r_startup_handlers := r_startup_handlers r @ [h]\<rparr>"

definition on_shutdown :: "'c \<Rightarrow> ('c, 'd) router \<Rightarrow> ('c, 'd) router" where
  "on_shutdown h r = r\<lparr>r_shutdown_handlers := r_shutdown_handlers r @ [h]\<rparr>"

definition on_reconnect :: "'c \<Rightarrow> param list \<Rightarrow> ('c, 'd) router \<Rightarrow> ('c, 'd) router result" where
  "on_reconnect h sig r =
     (if sig \<noteq> [] then register_handler h sig [Member (Gateway ''RECONNECT'')] [] 0 r
      else Inr (r\<lparr>r_reconnect_handlers := r_reconnect_handlers r @ [h]\<rparr>))"

text \<open>
  \<open>emit_startup\<close>, \<open>emit_shutdown\<close>, \<open>emit_reconnect\<close>: included routers first, then the
  router's own handlers, stopping at the first exception. Running a handler is a parameter.
\<close>

primrec run_all :: "('a \<Rightarrow> 'u \<Rightarrow> (unit result) \<times> 'u) \<Rightarrow> 'a list \<Rightarrow> 'u \<Rightarrow> unit result \<times> 'u" where
  "run_all f [] u = (Inr (), u)"
| "run_all f (x # xs) u = (case f x u of (Inl e, u1) \<Rightarrow> (Inl e, u1) | (Inr _, u1) \<Rightarrow> run_all f xs u1)"

primrec emit_lifecycle ::
  "(('c, 'd) router \<Rightarrow> 'c list) \<Rightarrow> ('c \<Rightarrow> 'u \<Rightarrow> unit result \<times> 'u) \<Rightarrow> nat \<Rightarrow> ('c, 'd) store \<Rightarrow> nat \<Rightarrow> 'u \<Rightarrow> unit result \<times> 'u" where
  "emit_lifecycle own run 0 st i u = (Inl (RuntimeError ''maximum recursion depth exceeded''), u)"
| "emit_lifecycle own run (Suc n) st i u =
     (case run_all (emit_lifecycle own run n st) (r_routers (st i)) u of
        (Inl e, u1) \<Rightarrow> (Inl e, u1)
      | (Inr _, u1) \<Rightarrow> run_all run (own (st i)) u1)"

definition emit_startup :: "('c \<Rightarrow> 'u \<Rightarrow> unit result \<times> 'u) \<Rightarrow> nat \<Rightarrow> ('c, 'd) store \<Rightarrow> nat \<Rightarrow> 'u \<Rightarrow> unit result \<times> 'u" where
  "emit_startup = emit_lifecycle r_startup_handlers"

definition emit_shutdown :: "('c \<Rightarrow> 'u \<Rightarrow> unit result \<times> 'u) \<Rightarrow> nat \<Rightarrow> ('c, 'd) store \<Rightarrow> nat \<Rightarrow> 'u \<Rightarrow> unit result \<times> 'u" where
  "emit_shutdown = emit_lifecycle r_shutdown_handlers"

definition emit_reconnect :: "('c \<Rightarrow> 'u \<Rightarrow> unit result \<times> 'u) \<Rightarrow> nat \<Rightarrow> ('c, 'd) store \<Rightarrow> nat \<Rightarrow> 'u \<Rightarrow> unit result \<times> 'u" where
  "emit_reconnect = emit_lifecycle r_reconnect_handlers"

definition get_handlers :: "event_type \<Rightarrow> ('c, 'd) router \<Rightarrow> 'c handler_config list" where
  "get_handlers et r = dict_get (r_handlers r) et []"

definition clear_handlers :: "event_type option \<Rightarrow> ('c, 'd) router \<Rightarrow> ('c, 'd) router" where
  "clear_handlers et r =
     (case et of None \<Rightarrow> r\<lparr>r_handlers := []\<rparr> | Some t \<Rightarrow> r\<lparr>r_handlers := dict_pop (r_handlers r) t\<rparr>)"

text \<open>
  \<open>add_filter\<close>, \<open>add_middleware\<close>, \<open>add_outer_middleware\<close>: append, sort, invalidate. The
  result None is the unbounded recursion of the invalidation.
\<close>

definition add_filter :: "nat \<Rightarrow> nat \<Rightarrow> 'c layer_config \<Rightarrow> ('c, 'd) store \<Rightarrow> ('c, 'd) store option" where
  "add_filter n i config st =
     invalidate n i (st(i := (st i)\<lparr>r_router_filters :=
       sort_desc lc_priority (r_router_filters (st i) @ [config])\<rparr>))"

definition add_middleware :: "nat \<Rightarrow> nat \<Rightarrow> 'c layer_config \<Rightarrow> ('c, 'd) store \<Rightarrow> ('c, 'd) store option" where
  "add_middleware n i config st =
     invalidate n i (st(i := (st i)\<lparr>r_middlewares :=
       sort_desc lc_priority (r_middlewares (st i) @ [config])\<rparr>))"

definition add_outer_middleware ::
  "nat \<Rightarrow> nat \<Rightarrow> 'c layer_config \<Rightarrow> ('c, 'd) store \<Rightarrow> ('c, 'd) store option" where
  "add_outer_middleware n i config st =
     invalidate n i (st(i := (st i)\<lparr>r_outer_middlewares :=
       sort_desc lc_priority (r_outer_middlewares (st i) @ [config])\<rparr>))"

definition register_middleware ::
  "nat \<Rightarrow> nat \<Rightarrow> string \<Rightarrow> 'c layer_config \<Rightarrow> ('c, 'd) store \<Rightarrow> ('c, 'd) store option result" where
  "register_middleware n i layer config st =
     (if layer \<noteq> ''inner'' \<and> layer \<noteq> ''outer'' then Inl (ValueError ''layer must be inner or outer'')
      else if layer = ''outer'' then Inr (add_outer_middleware n i config st)
      else Inr (add_middleware n i config st))"

definition provide :: "nat \<Rightarrow> nat \<Rightarrow> string \<Rightarrow> 'd \<Rightarrow> ('c, 'd) store \<Rightarrow> ('c, 'd) store option" where
  "provide n i nm v st =
     invalidate n i (st(i := (st i)\<lparr>r_dependencies := dict_set (r_dependencies (st i)) nm v\<rparr>))"

definition link_router :: "nat \<Rightarrow> nat \<Rightarrow> ('c, 'd) store \<Rightarrow> ('c, 'd) store" where
  "link_router self child st =
     (let st1 = st(child := (st child)\<lparr>r_parent := Some self\<rparr>)
      in st1(self := (st1 self)\<lparr>r_routers := r_routers (st1 self) @ [child]\<rparr>))"

definition include_router :: "nat \<Rightarrow> nat \<Rightarrow> nat \<Rightarrow> ('c, 'd) store \<Rightarrow> ('c, 'd) store option result" where
  "include_router n self child st =
     (if child = self then Inl (ValueError ''Cannot include router into itself'')
      else if r_parent (st child) \<noteq> None then
        Inl (ValueError (''Router '' @ r_name (st child) @ '' is already included in another router''))
      else Inr (invalidate n self (link_router self child st)))"

primrec include_routers :: "nat \<Rightarrow> nat \<Rightarrow> nat list \<Rightarrow> ('c, 'd) store \<Rightarrow> ('c, 'd) store option result" where
  "include_routers n self [] st = Inr (Some st)"
| "include_routers n self (c # cs) st =
     bind_result (include_router n self c st) (\<lambda>r.
       case r of None \<Rightarrow> Inr None | Some st1 \<Rightarrow> include_routers n self cs st1)"

section \<open>Cached resolution\<close>

text \<open>
  The four \<open>_resolve_*\<close> methods share one shape: return the cached value if there is one,
  else compute it from the parent's value and the router's own entries and cache it.
\<close>

primrec resolve_via ::
  "(('c, 'd) router \<Rightarrow> 'x option) \<Rightarrow> ('x \<Rightarrow> ('c, 'd) router \<Rightarrow> ('c, 'd) router) \<Rightarrow>
   ('x option \<Rightarrow> ('c, 'd) router \<Rightarrow> 'x) \<Rightarrow> nat \<Rightarrow> nat \<Rightarrow> ('c, 'd) store \<Rightarrow> ('x \<times> ('c, 'd) store) option" where
  "resolve_via get put combine 0 i st = None"
| "resolve_via get put combine (Suc n) i st =
     (case get (st i) of
        Some x \<Rightarrow> Some (x, st)
      | None \<Rightarrow>
          (case r_parent (st i) of
             None \<Rightarrow> (let x = combine None (st i) in Some (x, st(i := put x (st i))))
           | Some p \<Rightarrow>
               (case resolve_via get put combine n p st of
                  None \<Rightarrow> None
                | Some (up, st1) \<Rightarrow>
                    (let x = combine (Some up) (st1 i) in Some (x, st1(i := put x (st1 i)))))))"

definition applies_to :: "event_type \<Rightarrow> 'c layer_config \<Rightarrow> bool" where
  "applies_to et c = (case lc_event_types c of None \<Rightarrow> True | Some ets \<Rightarrow> et \<in> set ets)"

definition combine_layer ::
  "(('c, 'd) router \<Rightarrow> 'c layer_config list) \<Rightarrow> event_type \<Rightarrow>
   'c layer_config list option \<Rightarrow> ('c, 'd) router \<Rightarrow> 'c layer_config list" where
  "combine_layer own et up r =
     filter (applies_to et) ((case up of None \<Rightarrow> [] | Some xs \<Rightarrow> xs) @ own r)"

definition combine_dependencies ::
  "(string, 'd) dict option \<Rightarrow> ('c, 'd) router \<Rightarrow> (string, 'd) dict" where
  "combine_dependencies up r =
     dict_update (case up of None \<Rightarrow> [] | Some d \<Rightarrow> dict_update [] d) (r_dependencies r)"

definition resolve_router_filter_configs ::
  "nat \<Rightarrow> event_type \<Rightarrow> nat \<Rightarrow> ('c, 'd) store \<Rightarrow> ('c layer_config list \<times> ('c, 'd) store) option" where
  "resolve_router_filter_configs n et =
     resolve_via (\<lambda>r. map_of (r_router_filter_cache r) et)
       (\<lambda>x r. r\<lparr>r_router_filter_cache := dict_set (r_router_filter_cache r) et x\<rparr>)
       (combine_layer r_router_filters et) n"

definition resolve_middleware_configs ::
  "nat \<Rightarrow> event_type \<Rightarrow> nat \<Rightarrow> ('c, 'd) store \<Rightarrow> ('c layer_config list \<times> ('c, 'd) store) option" where
  "resolve_middleware_configs n et =
     resolve_via (\<lambda>r. map_of (r_middleware_cache r) et)
       (\<lambda>x r. r\<lparr>r_middleware_cache := dict_set (r_middleware_cache r) et x\<rparr>)
       (combine_layer r_middlewares et) n"

definition resolve_outer_middleware_configs ::
  "nat \<Rightarrow> event_type \<Rightarrow> nat \<Rightarrow> ('c, 'd) store \<Rightarrow> ('c layer_config list \<times> ('c, 'd) store) option" where
  "resolve_outer_middleware_configs n et =
     resolve_via (\<lambda>r. map_of (r_outer_middleware_cache r) et)
       (\<lambda>x r. r\<lparr>r_outer_middleware_cache := dict_set (r_outer_middleware_cache r) et x\<rparr>)
       (combine_layer r_outer_middlewares et) n"

definition resolve_dependencies ::
  "nat \<Rightarrow> nat \<Rightarrow> ('c, 'd) store \<Rightarrow> ((string, 'd) dict \<times> ('c, 'd) store) option" where
  "resolve_dependencies n =
     resolve_via r_dependencies_cache (\<lambda>x r. r\<lparr>r_dependencies_cache := Some x\<rparr>)
       combine_dependencies n"

section \<open>Dependency injection\<close>

text \<open>
  \<open>isinstance(value, cls)\<close> on opaque values is a parameter; None is its TypeError.
\<close>

fun matches_annotation :: "('d \<Rightarrow> string \<Rightarrow> bool option) \<Rightarrow> 'd \<Rightarrow> annotation \<Rightarrow> bool" where
  "matches_annotation isinst v AnnAny = False"
| "matches_annotation isinst v AnnEmpty = False"
| "matches_annotation isinst v AnnNone = False"
| "matches_annotation isinst v (AnnUnion as) = (\<exists>a \<in> set as. matches_annotation isinst v a)"
| "matches_annotation isinst v (AnnGeneric c) = (isinst v c = Some True)"
| "matches_annotation isinst v (AnnStr s) = False"
| "matches_annotation isinst v (AnnClass c) = (isinst v c = Some True)"

definition build_handler_kwargs ::
  "('d \<Rightarrow> string \<Rightarrow> bool option) \<Rightarrow> (string, 'd) dict \<Rightarrow> (string, 'd) dict \<Rightarrow> (string, 'd) dict \<Rightarrow>
   string list \<Rightarrow> (string, annotation) dict \<Rightarrow> (string, 'd) dict" where
  "build_handler_kwargs isinst deps ctx fdata accepted anns =
     (let full = dict_update (dict_update (dict_of deps) ctx) fdata in
      if accepted = [] then []
      else
        fold (\<lambda>nm kwargs.
            if nm \<in> fst ` set kwargs then kwargs
            else case find (\<lambda>v. matches_annotation isinst v (dict_get anns nm AnnNone)) (map snd full) of
                   None \<Rightarrow> kwargs
                 | Some v \<Rightarrow> dict_set kwargs nm v)
          accepted (filter (\<lambda>kv. fst kv \<in> set accepted) full))"

end
