(* ===== verification/RouterResolution.thy ===== *)
theory RouterResolution
  imports Router
begin

text \<open>
  The caches of the router tree are transparent. The locale \<open>inherited_resolution\<close> is the
  contract the four \<open>_resolve_*\<close> methods share; inside it, cached resolution is proved
  equal to the cache-free \<open>chain_via\<close>, and invalidation of a subtree is proved to keep the
  caches coherent. It is interpreted on the router filters, the inner and the outer
  middleware and the dependencies.
\<close>

section \<open>Resolution without caches\<close>

primrec chain_via ::
  "('x option \<Rightarrow> ('c, 'd) router \<Rightarrow> 'x) \<Rightarrow> nat \<Rightarrow> nat \<Rightarrow> ('c, 'd) store \<Rightarrow> 'x option" where
  "chain_via combine 0 i st = None"
| "chain_via combine (Suc n) i st =
     (case r_parent (st i) of
        None \<Rightarrow> Some (combine None (st i))
      | Some p \<Rightarrow> (case chain_via combine n p st of
                    None \<Rightarrow> None
                  | Some up \<Rightarrow> Some (combine (Some up) (st i))))"

definition coherent_via ::
  "(('c, 'd) router \<Rightarrow> 'x option) \<Rightarrow> ('x option \<Rightarrow> ('c, 'd) router \<Rightarrow> 'x) \<Rightarrow> ('c, 'd) store \<Rightarrow> bool" where
  "coherent_via get combine st \<longleftrightarrow>
     (\<forall>i x. get (st i) = Some x \<longrightarrow> (\<exists>n. chain_via combine n i st = Some x))"

lemma chain_via_mono: "chain_via combine n i st = Some x \<Longrightarrow> n \<le> m \<Longrightarrow> chain_via combine m i st = Some x"
proof (induction n arbitrary: m i x)
  case 0
  then show ?case by simp
next
  case (Suc n)
  then obtain k where m: "m = Suc k" and k: "n \<le> k" by (cases m) auto
  show ?case
  proof (cases "r_parent (st i)")
    case None
    with Suc.prems m show ?thesis by simp
  next
    case (Some p)
    with Suc.prems obtain up where up: "chain_via combine n p st = Some up"
      and x: "x = combine (Some up) (st i)"
      by (auto split: option.splits)
    from Suc.IH [OF up k] Some x m show ?thesis by simp
  qed
qed

lemma chain_via_unique:
  "chain_via combine n i st = Some x \<Longrightarrow> chain_via combine m i st = Some y \<Longrightarrow> x = y"
  using chain_via_mono [of combine n i st x "max n m"] chain_via_mono [of combine m i st y "max n m"]
  by simp

lemma chain_via_cong:
  assumes "\<And>j. r_parent (st' j) = r_parent (st j)" and "\<And>u j. combine u (st' j) = combine u (st j)"
  shows "chain_via combine n i st' = chain_via combine n i st"
proof (induction n arbitrary: i)
  case 0
  then show ?case by simp
next
  case (Suc n)
  then show ?case by (simp add: assms split: option.splits)
qed

lemma resolve_via_frame:
  assumes "\<And>x r. f (put x r) = f r" and "resolve_via get put combine n i st = Some (x, st')"
  shows "f (st' j) = f (st j)"
  using assms(2)
proof (induction n arbitrary: i x st')
  case 0
  then show ?case by simp
next
  case (Suc n)
  show ?case
  proof (cases "get (st i)")
    case (Some y)
    with Suc.prems show ?thesis by simp
  next
    case None
    show ?thesis
    proof (cases "r_parent (st i)")
      case (Some p)
      with None Suc.prems obtain up st1 where
        r: "resolve_via get put combine n p st = Some (up, st1)"
        and st': "st' = st1(i := put (combine (Some up) (st1 i)) (st1 i))"
        by (auto simp: Let_def split: option.splits prod.splits)
      from Suc.IH [OF r] show ?thesis by (cases "j = i") (simp_all add: st' assms(1))
    qed (use None Suc.prems in \<open>auto simp: Let_def assms(1)\<close>)
  qed
qed

section \<open>The shape of the tree\<close>

definition child_rel :: "('c, 'd) store \<Rightarrow> (nat \<times> nat) set" where
  "child_rel st = {(i, j). j \<in> set (r_routers (st i))}"

definition tree_consistent :: "('c, 'd) store \<Rightarrow> bool" where
  "tree_consistent st \<longleftrightarrow> (\<forall>p j. j \<in> set (r_routers (st p)) \<longleftrightarrow> r_parent (st j) = Some p)"

lemma clear_caches_shape [simp]:
  "r_routers (clear_caches r) = r_routers r" "r_parent (clear_caches r) = r_parent r"
  "r_handlers (clear_caches r) = r_handlers r" "clear_caches (clear_caches r) = clear_caches r"
  by (simp_all add: clear_caches_def)

lemma child_rel_cong: "(\<And>j. r_routers (st' j) = r_routers (st j)) \<Longrightarrow> child_rel st' = child_rel st"
  by (simp add: child_rel_def)

definition cleared :: "nat set \<Rightarrow> ('c, 'd) store \<Rightarrow> ('c, 'd) store" where
  "cleared D st = (\<lambda>j. if j \<in> D then clear_caches (st j) else st j)"

lemma cleared_cleared [simp]: "cleared D (cleared E st) = cleared (D \<union> E) st"
  by (auto simp: cleared_def)

lemma child_rel_cleared [simp]: "child_rel (cleared D st) = child_rel st"
  by (rule child_rel_cong) (simp add: cleared_def)

definition descendants :: "('c, 'd) store \<Rightarrow> nat \<Rightarrow> nat set" where
  "descendants st i = {j. (i, j) \<in> (child_rel st)\<^sup>*}"

lemma descendants_cleared [simp]: "descendants (cleared D st) i = descendants st i"
  by (simp add: descendants_def)

lemma descendants_unfold: "descendants st i = insert i (\<Union>j \<in> set (r_routers (st i)). descendants st j)"
proof -
  have "(i, k) \<in> (child_rel st)\<^sup>* \<longleftrightarrow> k = i \<or> (\<exists>j. j \<in> set (r_routers (st i)) \<and> (j, k) \<in> (child_rel st)\<^sup>*)" for k
    by (auto simp: child_rel_def elim: converse_rtranclE intro: converse_rtrancl_into_rtrancl)
  then show ?thesis by (auto simp: descendants_def)
qed

text \<open>Invalidation clears exactly the router and its descendants.\<close>

lemma fold_invalidate_None:
  "fold (\<lambda>j acc. case acc of None \<Rightarrow> None | Some s \<Rightarrow> invalidate n j s) js None = None"
  by (induction js) auto

lemma fold_invalidate_cleared:
  fixes s0 s1 :: "('c, 'd) store"
  assumes "\<And>j (s :: ('c, 'd) store) s'. invalidate n j s = Some s' \<Longrightarrow> s' = cleared (descendants s j) s"
    and "fold (\<lambda>j acc. case acc of None \<Rightarrow> None | Some s \<Rightarrow> invalidate n j s) js (Some s0) = Some s1"
  shows "s1 = cleared (\<Union>j \<in> set js. descendants s0 j) s0"
  using assms(2)
proof (induction js arbitrary: s0)
  case Nil
  then show ?case by (simp add: cleared_def)
next
  case (Cons j js)
  from Cons.prems obtain s where s: "invalidate n j s0 = Some s"
    and rest: "fold (\<lambda>j acc. case acc of None \<Rightarrow> None | Some s \<Rightarrow> invalidate n j s) js (Some s) = Some s1"
    by (cases "invalidate n j s0") (auto simp: fold_invalidate_None)
  from assms(1) [OF s] Cons.IH [OF rest] show ?case by (simp add: Un_commute)
qed

lemma invalidate_cleared: "invalidate n i st = Some st' \<Longrightarrow> st' = cleared (descendants st i) st"
proof (induction n arbitrary: i st st')
  case 0
  then show ?case by simp
next
  case (Suc n)
  have c: "st(i := clear_caches (st i)) = cleared {i} st" by (auto simp: cleared_def)
  have "st' = cleared (\<Union>j \<in> set (r_routers (st i)). descendants (cleared {i} st) j) (cleared {i} st)"
    using Suc.prems unfolding invalidate.simps c by (rule fold_invalidate_cleared [rotated]) (rule Suc.IH)
  then show ?case by (simp add: descendants_unfold [of st i] Un_commute)
qed


section \<open>Enough fuel, and cycles\<close>

primrec bounded :: "nat \<Rightarrow> ('c, 'd) store \<Rightarrow> nat \<Rightarrow> bool" where
  "bounded 0 st i \<longleftrightarrow> False"
| "bounded (Suc n) st i \<longleftrightarrow> (\<forall>j \<in> set (r_routers (st i)). bounded n st j)"

lemma bounded_cleared [simp]: "bounded n (cleared D st) i = bounded n st i"
  by (induction n arbitrary: i) (auto simp: cleared_def)

lemma fold_invalidate_Some_iff:
  fixes s0 :: "('c, 'd) store"
  assumes "\<And>j (s :: ('c, 'd) store). (\<exists>s'. invalidate n j s = Some s') \<longleftrightarrow> bounded n s j"
  shows "(\<exists>s1. fold (\<lambda>j acc. case acc of None \<Rightarrow> None | Some s \<Rightarrow> invalidate n j s) js (Some s0) = Some s1)
     \<longleftrightarrow> (\<forall>j \<in> set js. bounded n s0 j)"
proof (induction js arbitrary: s0)
  case Nil
  then show ?case by simp
next
  case (Cons j js)
  show ?case
  proof (cases "invalidate n j s0")
    case None
    with assms [of j s0] show ?thesis by (simp add: fold_invalidate_None)
  next
    case (Some s)
    then have "s = cleared (descendants s0 j) s0" by (rule invalidate_cleared)
    then have "(\<forall>k \<in> set js. bounded n s k) \<longleftrightarrow> (\<forall>k \<in> set js. bounded n s0 k)" by simp
    moreover have "bounded n s0 j" using Some assms [of j s0] by auto
    ultimately show ?thesis using Some Cons.IH [of s] by simp
  qed
qed

lemma invalidate_Some_iff: "(\<exists>st'. invalidate n i st = Some st') \<longleftrightarrow> bounded n st i"
proof (induction n arbitrary: i st)
  case 0
  then show ?case by simp
next
  case (Suc n)
  have c: "st(i := clear_caches (st i)) = cleared {i} st" by (auto simp: cleared_def)
  show ?case
    unfolding invalidate.simps c by (subst fold_invalidate_Some_iff [OF Suc.IH]) simp
qed

lemma bounded_step: "bounded n st i \<Longrightarrow> (i, j) \<in> child_rel st \<Longrightarrow> \<exists>m < n. bounded m st j"
  by (cases n) (auto simp: child_rel_def)

lemma bounded_mono: "bounded n st i \<Longrightarrow> n \<le> m \<Longrightarrow> bounded m st i"
proof (induction n arbitrary: m i)
  case (Suc n)
  then obtain k where "m = Suc k" "n \<le> k" by (cases m) auto
  with Suc show ?case by auto
qed simp

lemma bounded_trancl: "(i, j) \<in> (child_rel st)\<^sup>+ \<Longrightarrow> bounded n st i \<Longrightarrow> \<exists>m < n. bounded m st j"
proof (induction rule: trancl_induct)
  case (base j)
  then show ?case by (rule bounded_step [rotated])
next
  case (step j k)
  then obtain m where "m < n" "bounded m st j" by blast
  with step.hyps(2) show ?case by (meson bounded_step order_less_trans)
qed

lemma bounded_no_cycle: "bounded n st i \<Longrightarrow> (i, i) \<notin> (child_rel st)\<^sup>+"
proof (induction n rule: less_induct)
  case (less n)
  then show ?case using bounded_trancl by blast
qed

lemma bounded_rank:
  assumes "\<And>i j. j \<in> set (r_routers (st i)) \<Longrightarrow> (depth :: nat \<Rightarrow> nat) j < depth i"
  shows "bounded (Suc (depth i)) st i"
proof (induction "depth i" arbitrary: i rule: less_induct)
  case less
  have "bounded (depth i) st j" if "j \<in> set (r_routers (st i))" for j
    using less [OF assms [OF that]] assms [OF that] bounded_mono by (metis Suc_leI)
  then show ?case by simp
qed

section \<open>The shared contract\<close>

locale inherited_resolution =
  fixes get :: "('c, 'd) router \<Rightarrow> 'x option"
    and put :: "'x \<Rightarrow> ('c, 'd) router \<Rightarrow> ('c, 'd) router"
    and combine :: "'x option \<Rightarrow> ('c, 'd) router \<Rightarrow> 'x"
  assumes get_put: "get (put x r) = Some x"
    and get_clear: "get (clear_caches r) = None"
    and put_parent: "r_parent (put x r) = r_parent r"
    and put_routers: "r_routers (put x r) = r_routers r"
    and combine_put: "combine u (put x r) = combine u r"
    and combine_clear: "combine u (clear_caches r) = combine u r"
begin

lemma chain_put: "chain_via combine n j (st(i := put x (st i))) = chain_via combine n j st"
  by (rule chain_via_cong) (auto simp: put_parent combine_put)

lemma coherent_put:
  assumes "coherent_via get combine st" and "chain_via combine n i st = Some x"
  shows "coherent_via get combine (st(i := put x (st i)))"
  using assms by (auto simp: coherent_via_def chain_put get_put)

text \<open>Cached resolution returns the cache-free chain and keeps the caches coherent.\<close>

lemma resolve_correct:
  assumes "coherent_via get combine st" and "chain_via combine n i st = Some x"
  shows "\<exists>st'. resolve_via get put combine n i st = Some (x, st') \<and> coherent_via get combine st' \<and>
    (\<forall>m j. chain_via combine m j st' = chain_via combine m j st)"
  using assms(2)
proof (induction n arbitrary: i x)
  case 0
  then show ?case by simp
next
  case (Suc n)
  show ?case
  proof (cases "get (st i)")
    case (Some y)
    with assms(1) obtain k where "chain_via combine k i st = Some y"
      by (auto simp: coherent_via_def)
    with Suc.prems have "y = x" by (rule chain_via_unique [rotated])
    with Some assms(1) show ?thesis by auto
  next
    case None
    show ?thesis
    proof (cases "r_parent (st i)")
      case None': None
      with Suc.prems have x: "x = combine None (st i)" by simp
      have "coherent_via get combine (st(i := put x (st i)))"
        using Suc.prems by (rule coherent_put [OF assms(1)])
      with None None' x show ?thesis by (auto simp: chain_put Let_def)
    next
      case (Some p)
      with Suc.prems obtain up where up: "chain_via combine n p st = Some up"
        and x: "x = combine (Some up) (st i)" by (auto split: option.splits)
      from Suc.IH [OF up] obtain st1 where
        r: "resolve_via get put combine n p st = Some (up, st1)"
        and c1: "coherent_via get combine st1"
        and ch: "\<forall>m j. chain_via combine m j st1 = chain_via combine m j st" by blast
      have f: "combine u (st1 j) = combine u (st j)" for u j
        using resolve_via_frame [where f = "combine u", OF combine_put r] .
      have "chain_via combine (Suc n) i st1 = Some x" using Suc.prems ch by metis
      then have "coherent_via get combine (st1(i := put x (st1 i)))"
        by (rule coherent_put [OF c1])
      with None Some r ch f x show ?thesis by (auto simp: chain_put Let_def)
    qed
  qed
qed

text \<open>
  Clearing the subtree below a changed router keeps the caches coherent: a router outside
  it has no changed router above it.
\<close>

lemma chain_outside:
  assumes "tree_consistent st2" and "\<And>j. j \<notin> descendants st2 i \<Longrightarrow> st2 j = st1 j"
    and "j \<notin> descendants st2 i"
  shows "chain_via combine n j (cleared (descendants st2 i) st2) = chain_via combine n j st1"
  using assms(3)
proof (induction n arbitrary: j)
  case 0
  then show ?case by simp
next
  case (Suc n)
  have st2: "st2 j = st1 j" using Suc.prems by (rule assms(2))
  have "p \<notin> descendants st2 i" if "r_parent (st1 j) = Some p" for p
  proof
    assume "p \<in> descendants st2 i"
    moreover have "(p, j) \<in> child_rel st2"
      using that st2 assms(1) by (simp add: child_rel_def tree_consistent_def)
    ultimately have "j \<in> descendants st2 i" by (auto simp: descendants_def)
    with Suc.prems show False ..
  qed
  with Suc.IH Suc.prems st2 show ?case by (auto simp: cleared_def split: option.splits)
qed

lemma invalidate_coherent:
  assumes "coherent_via get combine st1" and "tree_consistent st2"
    and "\<And>j. j \<notin> descendants st2 i \<Longrightarrow> st2 j = st1 j"
    and "invalidate n i st2 = Some st3"
  shows "coherent_via get combine st3"
proof -
  have st3: "st3 = cleared (descendants st2 i) st2" using assms(4) by (rule invalidate_cleared)
  show ?thesis
    unfolding coherent_via_def
  proof (intro allI impI)
    fix j x
    assume g: "get (st3 j) = Some x"
    have out: "j \<notin> descendants st2 i" using g by (auto simp: st3 cleared_def get_clear)
    then have "get (st1 j) = Some x" using g assms(3) by (simp add: st3 cleared_def)
    then obtain k where "chain_via combine k j st1 = Some x" using assms(1) by (auto simp: coherent_via_def)
    then show "\<exists>n. chain_via combine n j st3 = Some x"
      using chain_outside [OF assms(2,3) out] unfolding st3 by metis
  qed
qed

end


interpretation router_filters: inherited_resolution
  "\<lambda>r. map_of (r_router_filter_cache r) et"
  "\<lambda>x r. r\<lparr>r_router_filter_cache := dict_set (r_router_filter_cache r) et x\<rparr>"
  "combine_layer r_router_filters et" for et
  by unfold_locales (simp_all add: clear_caches_def combine_layer_def)

interpretation inner: inherited_resolution
  "\<lambda>r. map_of (r_middleware_cache r) et"
  "\<lambda>x r. r\<lparr>r_middleware_cache := dict_set (r_middleware_cache r) et x\<rparr>"
  "combine_layer r_middlewares et" for et
  by unfold_locales (simp_all add: clear_caches_def combine_layer_def)

interpretation outer: inherited_resolution
  "\<lambda>r. map_of (r_outer_middleware_cache r) et"
  "\<lambda>x r. r\<lparr>r_outer_middleware_cache := dict_set (r_outer_middleware_cache r) et x\<rparr>"
  "combine_layer r_outer_middlewares et" for et
  by unfold_locales (simp_all add: clear_caches_def combine_layer_def)

interpretation deps: inherited_resolution
  r_dependencies_cache "\<lambda>x r. r\<lparr>r_dependencies_cache := Some x\<rparr>" combine_dependencies
  by unfold_locales (simp_all add: clear_caches_def combine_dependencies_def)

section \<open>The invariant of the registry\<close>

definition caches_coherent :: "('c, 'd) store \<Rightarrow> bool" where
  "caches_coherent st \<longleftrightarrow>
     (\<forall>et. coherent_via (\<lambda>r. map_of (r_router_filter_cache r) et) (combine_layer r_router_filters et) st \<and>
           coherent_via (\<lambda>r. map_of (r_middleware_cache r) et) (combine_layer r_middlewares et) st \<and>
           coherent_via (\<lambda>r. map_of (r_outer_middleware_cache r) et) (combine_layer r_outer_middlewares et) st) \<and>
     coherent_via r_dependencies_cache combine_dependencies st"

text \<open>Parents and children agree and both directions are well-founded.\<close>

definition tree_wf :: "('c, 'd) store \<Rightarrow> bool" where
  "tree_wf st \<longleftrightarrow>
     tree_consistent st \<and>
     (\<exists>depth :: nat \<Rightarrow> nat. \<forall>p j. j \<in> set (r_routers (st p)) \<longrightarrow> depth j < depth p) \<and>
     (\<exists>level :: nat \<Rightarrow> nat. \<forall>p j. r_parent (st j) = Some p \<longrightarrow> level p < level j)"

definition registry_inv :: "('c, 'd) store \<Rightarrow> bool" where
  "registry_inv st \<longleftrightarrow> tree_wf st \<and> caches_coherent st"

lemma tree_wf_cong:
  assumes "\<And>j. r_parent (st' j) = r_parent (st j)" and "\<And>j. r_routers (st' j) = r_routers (st j)"
  shows "tree_wf st' = tree_wf st"
  by (simp only: tree_wf_def tree_consistent_def assms)

lemma tree_wf_cleared [simp]: "tree_wf (cleared D st) = tree_wf st"
  by (rule tree_wf_cong) (simp_all add: cleared_def)

lemma tree_wf_bounded: "tree_wf st \<Longrightarrow> \<exists>n. bounded n st i"
  unfolding tree_wf_def using bounded_rank by blast

lemma invalidate_caches_coherent:
  assumes "caches_coherent st1" and "tree_consistent st2"
    and "\<And>j. j \<notin> descendants st2 i \<Longrightarrow> st2 j = st1 j" and "invalidate n i st2 = Some st3"
  shows "caches_coherent st3"
  using assms(1)
    router_filters.invalidate_coherent [OF _ assms(2-4)] inner.invalidate_coherent [OF _ assms(2-4)]
    outer.invalidate_coherent [OF _ assms(2-4)] deps.invalidate_coherent [OF _ assms(2-4)]
  by (simp add: caches_coherent_def)

lemma self_in_descendants [simp]: "i \<in> descendants st i"
  by (simp add: descendants_def)

text \<open>
  The step all registration shares: a store whose shape is right, changed only below
  router \<open>i\<close>, is invalidated at \<open>i\<close>.
\<close>

lemma invalidate_registry_inv:
  assumes "caches_coherent st1" and "tree_wf st2"
    and "\<And>j. j \<notin> descendants st2 i \<Longrightarrow> st2 j = st1 j"
  shows "\<exists>n st3. invalidate n i st2 = Some st3"
    and "invalidate n i st2 = Some st3 \<Longrightarrow> registry_inv st3"
proof -
  show "\<exists>n st3. invalidate n i st2 = Some st3"
    using tree_wf_bounded [OF assms(2)] invalidate_Some_iff by blast
  assume i: "invalidate n i st2 = Some st3"
  have "tree_consistent st2" using assms(2) by (simp add: tree_wf_def)
  from invalidate_caches_coherent [OF assms(1) this assms(3) i] have "caches_coherent st3" .
  moreover have "tree_wf st3" using assms(2) invalidate_cleared [OF i] by simp
  ultimately show "registry_inv st3" by (simp add: registry_inv_def)
qed

lemma edit_router_inv:
  assumes inv: "registry_inv st"
    and f: "r_parent (f (st i)) = r_parent (st i)" "r_routers (f (st i)) = r_routers (st i)"
  shows "\<exists>n st'. invalidate n i (st(i := f (st i))) = Some st'"
    and "invalidate n i (st(i := f (st i))) = Some st' \<Longrightarrow> registry_inv st'"
proof -
  let ?st = "st(i := f (st i))"
  have wf: "tree_wf ?st"
    using inv f tree_wf_cong [of ?st st] by (simp add: registry_inv_def)
  have out: "?st j = st j" if "j \<notin> descendants ?st i" for j
    using that by (cases "j = i") auto
  have "caches_coherent st" using inv by (simp add: registry_inv_def)
  from invalidate_registry_inv [OF this wf out]
  show "\<exists>n st'. invalidate n i ?st = Some st'" "invalidate n i ?st = Some st' \<Longrightarrow> registry_inv st'"
    by blast+
qed

section \<open>Including a router\<close>

lemma link_router_apply:
  "self \<noteq> child \<Longrightarrow> link_router self child st =
     st(child := (st child)\<lparr>r_parent := Some self\<rparr>,
        self := (st self)\<lparr>r_routers := r_routers (st self) @ [child]\<rparr>)"
  by (simp add: link_router_def)

lemma child_rel_link:
  "self \<noteq> child \<Longrightarrow> child_rel (link_router self child st) = insert (self, child) (child_rel st)"
  by (auto simp: child_rel_def link_router_apply split: if_splits)

lemma link_tree_wf:
  assumes wf: "tree_wf st" and ne: "self \<noteq> child" and root: "r_parent (st child) = None"
    and acyclic: "self \<notin> descendants st child"
  shows "tree_wf (link_router self child st)"
proof -
  let ?st = "link_router self child st"
  have tc: "tree_consistent st" using wf by (simp add: tree_wf_def)
  have routers: "r_routers (?st p) = (if p = self then r_routers (st self) @ [child] else r_routers (st p))"
    and parent: "r_parent (?st p) = (if p = child then Some self else r_parent (st p))" for p
    using ne by (auto simp: link_router_apply)
  have "tree_consistent ?st"
    using tc root by (auto simp: tree_consistent_def routers parent)
  moreover obtain depth :: "nat \<Rightarrow> nat" where depth: "\<forall>p j. j \<in> set (r_routers (st p)) \<longrightarrow> depth j < depth p"
    using wf by (auto simp: tree_wf_def)
  define depth' where "depth' x = depth x + (if self \<in> descendants st x then depth child + 1 else 0)" for x
  have "depth' j < depth' p" if "j \<in> set (r_routers (?st p))" for p j
  proof (cases "j \<in> set (r_routers (st p))")
    case True
    then have "descendants st j \<subseteq> descendants st p" by (subst (2) descendants_unfold) auto
    moreover have "depth j < depth p" using depth True by blast
    ultimately show ?thesis by (auto simp: depth'_def)
  next
    case False
    with that have "p = self" "j = child" by (auto simp: routers split: if_splits)
    with acyclic show ?thesis by (simp add: depth'_def)
  qed
  moreover obtain level :: "nat \<Rightarrow> nat" where level: "\<forall>p j. r_parent (st j) = Some p \<longrightarrow> level p < level j"
    using wf by (auto simp: tree_wf_def)
  define level' where "level' x = level x + (if x \<in> descendants st child then level self + 1 else 0)" for x
  have "level' p < level' j" if "r_parent (?st j) = Some p" for p j
  proof (cases "j = child")
    case True
    with that acyclic show ?thesis by (simp add: parent level'_def)
  next
    case False
    with that have p: "r_parent (st j) = Some p" by (simp add: parent)
    then have "(p, j) \<in> child_rel st" using tc by (simp add: child_rel_def tree_consistent_def)
    then have "p \<in> descendants st child \<Longrightarrow> j \<in> descendants st child" by (auto simp: descendants_def)
    moreover have "level p < level j" using level p by blast
    ultimately show ?thesis by (auto simp: level'_def)
  qed
  ultimately show ?thesis unfolding tree_wf_def by blast
qed

lemma include_router_inv:
  assumes inv: "registry_inv st" and ne: "self \<noteq> child" and root: "r_parent (st child) = None"
    and acyclic: "self \<notin> descendants st child"
  shows "\<exists>n st'. include_router n self child st = Inr (Some st')"
    and "include_router n self child st = Inr (Some st') \<Longrightarrow> registry_inv st'"
proof -
  let ?st = "link_router self child st"
  have wf: "tree_wf ?st"
    using inv by (intro link_tree_wf ne root acyclic) (simp add: registry_inv_def)
  have "child \<in> descendants ?st self"
    using ne by (auto simp: descendants_def child_rel_link)
  then have out: "?st j = st j" if "j \<notin> descendants ?st self" for j
    using that ne by (auto simp: link_router_apply)
  have "caches_coherent st" using inv by (simp add: registry_inv_def)
  note step = invalidate_registry_inv [OF this wf out]
  have "include_router n self child st = Inr (invalidate n self ?st)" for n
    using ne root by (simp add: include_router_def)
  with step show "\<exists>n st'. include_router n self child st = Inr (Some st')"
    "include_router n self child st = Inr (Some st') \<Longrightarrow> registry_inv st'"
    by auto
qed

lemma include_cycle_diverges:
  assumes "self \<noteq> child" and "r_parent (st child) = None" and "self \<in> descendants st child"
  shows "include_router n self child st = Inr None"
proof -
  let ?st = "link_router self child st"
  have "(self, child) \<in> child_rel ?st" using assms(1) by (simp add: child_rel_link)
  moreover have "(child, self) \<in> (child_rel ?st)\<^sup>*"
    using assms(1,3) rtrancl_mono [of "child_rel st" "child_rel ?st"]
    by (auto simp: descendants_def child_rel_link)
  ultimately have "(self, self) \<in> (child_rel ?st)\<^sup>+" by (rule rtrancl_into_trancl2)
  then have "\<not> bounded n ?st self" using bounded_no_cycle by blast
  then have "invalidate n self ?st = None" using invalidate_Some_iff [of n self ?st] by (cases "invalidate n self ?st") auto
  with assms show ?thesis by (simp add: include_router_def)
qed


section \<open>What resolution returns\<close>

text \<open>The routers from the root of the tree down to \<open>i\<close>.\<close>

primrec root_path :: "nat \<Rightarrow> nat \<Rightarrow> ('c, 'd) store \<Rightarrow> nat list option" where
  "root_path 0 i st = None"
| "root_path (Suc n) i st =
     (case r_parent (st i) of
        None \<Rightarrow> Some [i]
      | Some p \<Rightarrow> map_option (\<lambda>path. path @ [i]) (root_path n p st))"

lemma chain_layer_path:
  "chain_via (combine_layer own et) n i st =
     map_option (\<lambda>path. filter (applies_to et) (concat (map (\<lambda>j. own (st j)) path))) (root_path n i st)"
  by (induction n arbitrary: i) (auto simp: combine_layer_def split: option.splits)

lemma chain_dependencies_path:
  "chain_via combine_dependencies n i st =
     map_option (\<lambda>path. foldl (\<lambda>d j. dict_update (dict_update [] d) (r_dependencies (st j))) [] path)
       (root_path n i st)"
  by (induction n arbitrary: i) (auto simp: combine_dependencies_def dict_update_def split: option.splits)

lemma root_path_level:
  assumes "\<forall>p j. r_parent (st j) = Some p \<longrightarrow> (level :: nat \<Rightarrow> nat) p < level j"
  shows "\<exists>path. root_path (Suc (level i)) i st = Some path"
proof -
  have "level i < n \<Longrightarrow> \<exists>path. root_path n i st = Some path" for n
  proof (induction n arbitrary: i)
    case (Suc n)
    show ?case
    proof (cases "r_parent (st i)")
      case (Some p)
      then have "level p < n" using assms Suc.prems by (meson less_le_trans less_Suc_eq_le)
      with Suc.IH Some show ?thesis by auto
    qed auto
  qed simp
  then show ?thesis by blast
qed

lemma tree_wf_root_path: "tree_wf st \<Longrightarrow> \<exists>n path. root_path n i st = Some path"
  unfolding tree_wf_def using root_path_level by blast

lemma coherent_via_frame:
  assumes "coherent_via get combine st" and "\<And>j. get (st' j) = get (st j)"
    and "\<And>j. r_parent (st' j) = r_parent (st j)" and "\<And>u j. combine u (st' j) = combine u (st j)"
  shows "coherent_via get combine st'"
  using assms(1) chain_via_cong [of st' st combine, OF assms(3,4)]
  by (simp add: coherent_via_def assms(2))

text \<open>
  Resolving one kind of entry keeps the whole registry invariant: the caches of the other
  kinds, and of the other event types, are untouched.
\<close>

definition cache_write :: "('x \<Rightarrow> ('c, 'd) router \<Rightarrow> ('c, 'd) router) \<Rightarrow> bool" where
  "cache_write put \<longleftrightarrow>
     (\<forall>x r. r_parent (put x r) = r_parent r \<and> r_routers (put x r) = r_routers r \<and>
            r_middlewares (put x r) = r_middlewares r \<and>
            r_outer_middlewares (put x r) = r_outer_middlewares r \<and>
            r_router_filters (put x r) = r_router_filters r \<and>
            r_dependencies (put x r) = r_dependencies r)"

definition untouched_or_coherent ::
  "('x \<Rightarrow> ('c, 'd) router \<Rightarrow> ('c, 'd) router) \<Rightarrow> ('c, 'd) store \<Rightarrow>
   (('c, 'd) router \<Rightarrow> 'y option) \<Rightarrow> ('y option \<Rightarrow> ('c, 'd) router \<Rightarrow> 'y) \<Rightarrow> bool" where
  "untouched_or_coherent put st' get combine \<longleftrightarrow>
     (\<forall>x r. get (put x r) = get r) \<or> coherent_via get combine st'"

lemma resolve_via_registry_inv:
  fixes st st' :: "('c, 'd) store"
  assumes inv: "registry_inv st" and r: "resolve_via g put c n i st = Some (x, st')"
    and put: "cache_write put"
    and caches:
      "\<And>t. untouched_or_coherent put st' (\<lambda>r. map_of (r_router_filter_cache r) t) (combine_layer r_router_filters t)"
      "\<And>t. untouched_or_coherent put st' (\<lambda>r. map_of (r_middleware_cache r) t) (combine_layer r_middlewares t)"
      "\<And>t. untouched_or_coherent put st' (\<lambda>r. map_of (r_outer_middleware_cache r) t) (combine_layer r_outer_middlewares t)"
      "untouched_or_coherent put st' r_dependencies_cache combine_dependencies"
  shows "registry_inv st'"
proof -
  have own: "r_parent (st' j) = r_parent (st j)" "r_routers (st' j) = r_routers (st j)"
    "r_middlewares (st' j) = r_middlewares (st j)" "r_outer_middlewares (st' j) = r_outer_middlewares (st j)"
    "r_router_filters (st' j) = r_router_filters (st j)" "r_dependencies (st' j) = r_dependencies (st j)" for j
    using put r by (auto simp: cache_write_def intro: resolve_via_frame)
  have keep: "coherent_via get combine st'"
    if u: "untouched_or_coherent put st' get combine" and old: "coherent_via get combine st"
      and comb: "\<And>u j. combine u (st' j) = combine u (st j)"
    for get :: "('c, 'd) router \<Rightarrow> 'y option" and combine
  proof (cases "\<forall>x r. get (put x r) = get r")
    case True
    then have "get (st' j) = get (st j)" for j using r by (auto intro: resolve_via_frame)
    then show ?thesis using coherent_via_frame [OF old _ own(1) comb] by simp
  next
    case False
    with u show ?thesis by (simp add: untouched_or_coherent_def)
  qed
  have coh: "caches_coherent st" and wf: "tree_wf st" using inv by (simp_all add: registry_inv_def)
  have "caches_coherent st'"
    unfolding caches_coherent_def
    using coh keep [OF caches(1)] keep [OF caches(2)] keep [OF caches(3)] keep [OF caches(4)]
    by (simp add: caches_coherent_def combine_layer_def combine_dependencies_def own)
  moreover have "tree_wf st'" using wf tree_wf_cong [of st' st] own by simp
  ultimately show ?thesis by (simp add: registry_inv_def)
qed

lemma resolve_inner_registry_inv:
  assumes inv: "registry_inv st" and path: "root_path n i st = Some path"
  shows "\<exists>st'. resolve_middleware_configs n et i st =
      Some (filter (applies_to et) (concat (map (\<lambda>j. r_middlewares (st j)) path)), st') \<and> registry_inv st'"
proof -
  let ?x = "filter (applies_to et) (concat (map (\<lambda>j. r_middlewares (st j)) path))"
  have ch: "chain_via (combine_layer r_middlewares et) n i st = Some ?x"
    using path by (simp add: chain_layer_path)
  obtain st' where r: "resolve_middleware_configs n et i st = Some (?x, st')"
    and c: "coherent_via (\<lambda>r. map_of (r_middleware_cache r) et) (combine_layer r_middlewares et) st'"
    using inner.resolve_correct [of et, OF _ ch] inv
    by (auto simp: registry_inv_def caches_coherent_def resolve_middleware_configs_def)
  have "registry_inv st'"
    by (rule resolve_via_registry_inv [OF inv r [unfolded resolve_middleware_configs_def]])
      (use c in \<open>auto simp: cache_write_def untouched_or_coherent_def\<close>)
  with r show ?thesis by blast
qed

lemma resolve_outer_registry_inv:
  assumes inv: "registry_inv st" and path: "root_path n i st = Some path"
  shows "\<exists>st'. resolve_outer_middleware_configs n et i st =
      Some (filter (applies_to et) (concat (map (\<lambda>j. r_outer_middlewares (st j)) path)), st') \<and> registry_inv st'"
proof -
  let ?x = "filter (applies_to et) (concat (map (\<lambda>j. r_outer_middlewares (st j)) path))"
  have ch: "chain_via (combine_layer r_outer_middlewares et) n i st = Some ?x"
    using path by (simp add: chain_layer_path)
  obtain st' where r: "resolve_outer_middleware_configs n et i st = Some (?x, st')"
    and c: "coherent_via (\<lambda>r. map_of (r_outer_middleware_cache r) et) (combine_layer r_outer_middlewares et) st'"
    using outer.resolve_correct [of et, OF _ ch] inv
    by (auto simp: registry_inv_def caches_coherent_def resolve_outer_middleware_configs_def)
  have "registry_inv st'"
    by (rule resolve_via_registry_inv [OF inv r [unfolded resolve_outer_middleware_configs_def]])
      (use c in \<open>auto simp: cache_write_def untouched_or_coherent_def\<close>)
  with r show ?thesis by blast
qed

lemma resolve_router_filters_registry_inv:
  assumes inv: "registry_inv st" and path: "root_path n i st = Some path"
  shows "\<exists>st'. resolve_router_filter_configs n et i st =
      Some (filter (applies_to et) (concat (map (\<lambda>j. r_router_filters (st j)) path)), st') \<and> registry_inv st'"
proof -
  let ?x = "filter (applies_to et) (concat (map (\<lambda>j. r_router_filters (st j)) path))"
  have ch: "chain_via (combine_layer r_router_filters et) n i st = Some ?x"
    using path by (simp add: chain_layer_path)
  obtain st' where r: "resolve_router_filter_configs n et i st = Some (?x, st')"
    and c: "coherent_via (\<lambda>r. map_of (r_router_filter_cache r) et) (combine_layer r_router_filters et) st'"
    using router_filters.resolve_correct [of et, OF _ ch] inv
    by (auto simp: registry_inv_def caches_coherent_def resolve_router_filter_configs_def)
  have "registry_inv st'"
    by (rule resolve_via_registry_inv [OF inv r [unfolded resolve_router_filter_configs_def]])
      (use c in \<open>auto simp: cache_write_def untouched_or_coherent_def\<close>)
  with r show ?thesis by blast
qed

lemma resolve_dependencies_registry_inv:
  assumes inv: "registry_inv st" and path: "root_path n i st = Some path"
  shows "\<exists>st'. resolve_dependencies n i st =
      Some (foldl (\<lambda>d j. dict_update (dict_update [] d) (r_dependencies (st j))) [] path, st') \<and> registry_inv st'"
proof -
  let ?x = "foldl (\<lambda>d j. dict_update (dict_update [] d) (r_dependencies (st j))) [] path"
  have ch: "chain_via combine_dependencies n i st = Some ?x"
    using path by (simp add: chain_dependencies_path)
  obtain st' where r: "resolve_dependencies n i st = Some (?x, st')"
    and c: "coherent_via r_dependencies_cache combine_dependencies st'"
    using deps.resolve_correct [OF _ ch] inv
    by (auto simp: registry_inv_def caches_coherent_def resolve_dependencies_def)
  have "registry_inv st'"
    by (rule resolve_via_registry_inv [OF inv r [unfolded resolve_dependencies_def]])
      (use c in \<open>auto simp: cache_write_def untouched_or_coherent_def\<close>)
  with r show ?thesis by blast
qed


section \<open>Properties of the registry\<close>

lemma registry_inv_new: "registry_inv (\<lambda>_. new_router nm)"
  by (auto simp: registry_inv_def tree_wf_def tree_consistent_def caches_coherent_def coherent_via_def
      new_router_def)

text \<open>
  C4: the caches of the router tree never go stale. In every registry built by the
  operations below, resolving the inner middleware, the outer middleware, the router
  filters or the dependencies of a router (cached or not) gives the entries of its
  ancestors from the root down and then its own, restricted to the event type, and leaves a
  registry with the same guarantee.
\<close>

theorem cached_resolution_is_root_to_leaf:
  assumes "registry_inv st"
  shows "\<exists>n path. root_path n i st = Some path \<and>
    (\<exists>st'. resolve_middleware_configs n et i st =
      Some (filter (applies_to et) (concat (map (\<lambda>j. r_middlewares (st j)) path)), st') \<and> registry_inv st') \<and>
    (\<exists>st'. resolve_outer_middleware_configs n et i st =
      Some (filter (applies_to et) (concat (map (\<lambda>j. r_outer_middlewares (st j)) path)), st') \<and> registry_inv st') \<and>
    (\<exists>st'. resolve_router_filter_configs n et i st =
      Some (filter (applies_to et) (concat (map (\<lambda>j. r_router_filters (st j)) path)), st') \<and> registry_inv st') \<and>
    (\<exists>st'. resolve_dependencies n i st =
      Some (foldl (\<lambda>d j. dict_update (dict_update [] d) (r_dependencies (st j))) [] path, st') \<and> registry_inv st')"
proof -
  have "tree_wf st" using assms by (simp add: registry_inv_def)
  from tree_wf_root_path [OF this] obtain n path where path: "root_path n i st = Some path" by blast
  show ?thesis
    by (intro exI [of _ n] exI [of _ path] conjI path resolve_inner_registry_inv [OF assms path]
        resolve_outer_registry_inv [OF assms path] resolve_router_filters_registry_inv [OF assms path]
        resolve_dependencies_registry_inv [OF assms path])
qed

theorem cached_resolution_is_root_to_leaf_witness:
  "\<exists>n path. root_path n 0 (\<lambda>_. new_router ''r'' :: (nat, nat) router) = Some path \<and>
    (\<exists>st'. resolve_middleware_configs n (Gateway ''READY'') 0 (\<lambda>_. new_router ''r'' :: (nat, nat) router) =
      Some (filter (applies_to (Gateway ''READY'')) (concat (map (\<lambda>j. r_middlewares (new_router ''r'' :: (nat, nat) router)) path)), st'))"
  using cached_resolution_is_root_to_leaf
    [OF registry_inv_new [of "''r''"], where i = 0 and et = "Gateway ''READY''" and ?'a = nat and ?'b = nat]
  by blast

text \<open>
  C6: every registration operation on a router keeps the registry invariant (caches and
  tree), and its invalidation of the subtree always comes to an end.
\<close>

theorem registration_keeps_registry:
  assumes "registry_inv st"
  shows "(\<exists>n st'. add_filter n i c st = Some st') \<and> (\<forall>n st'. add_filter n i c st = Some st' \<longrightarrow> registry_inv st') \<and>
    (\<exists>n st'. add_middleware n i c st = Some st') \<and> (\<forall>n st'. add_middleware n i c st = Some st' \<longrightarrow> registry_inv st') \<and>
    (\<exists>n st'. add_outer_middleware n i c st = Some st') \<and>
    (\<forall>n st'. add_outer_middleware n i c st = Some st' \<longrightarrow> registry_inv st') \<and>
    (\<exists>n st'. provide n i nm v st = Some st') \<and> (\<forall>n st'. provide n i nm v st = Some st' \<longrightarrow> registry_inv st')"
proof -
  note edit = edit_router_inv [OF assms, where i = i]
  note f1 = edit [where f = "\<lambda>r. r\<lparr>r_router_filters := sort_desc lc_priority (r_router_filters r @ [c])\<rparr>", simplified]
  note f2 = edit [where f = "\<lambda>r. r\<lparr>r_middlewares := sort_desc lc_priority (r_middlewares r @ [c])\<rparr>", simplified]
  note f3 = edit [where f = "\<lambda>r. r\<lparr>r_outer_middlewares := sort_desc lc_priority (r_outer_middlewares r @ [c])\<rparr>", simplified]
  note f4 = edit [where f = "\<lambda>r. r\<lparr>r_dependencies := dict_set (r_dependencies r) nm v\<rparr>", simplified]
  show ?thesis
    unfolding add_filter_def add_middleware_def add_outer_middleware_def provide_def
    using f1 f2 f3 f4 by blast
qed

theorem registration_keeps_registry_witness:
  "\<exists>n st'. add_middleware n 0 \<lparr>lc_item = 5, lc_priority = 1, lc_event_types = None\<rparr>
     (\<lambda>_. new_router ''r'' :: (nat, nat) router) = Some st' \<and> registry_inv st'"
  using registration_keeps_registry [OF registry_inv_new [of "''r''"], where i = 0
      and c = "\<lparr>lc_item = 5, lc_priority = 1, lc_event_types = None\<rparr>" and ?'a = nat and ?'b = nat]
  by blast

text \<open>
  C31: including a parentless router that is not an ancestor keeps the registry invariant
  and terminates; including an ancestor (possible, because only self-inclusion and a second
  parent are refused) builds a cycle, and the invalidation that follows recurses for ever.
\<close>

theorem include_router_tree_or_diverges:
  assumes "registry_inv st" and "self \<noteq> child" and "r_parent (st child) = None"
  shows "(self \<notin> descendants st child \<longrightarrow>
            (\<exists>n st'. include_router n self child st = Inr (Some st') \<and> registry_inv st')) \<and>
         (self \<in> descendants st child \<longrightarrow> (\<forall>n. include_router n self child st = Inr None))"
  using assms include_router_inv [of st self child] include_cycle_diverges [of self child st] by blast

theorem include_router_tree_or_diverges_witness:
  "\<exists>n st'. include_router n 0 1 (\<lambda>_. new_router ''r'' :: (nat, nat) router) = Inr (Some st') \<and> registry_inv st'"
proof -
  let ?st = "\<lambda>_ :: nat. new_router ''r'' :: (nat, nat) router"
  have "child_rel ?st = {}" by (simp add: child_rel_def new_router_def)
  then have "(0 :: nat) \<notin> descendants ?st 1" by (simp add: descendants_def)
  then show ?thesis
    using include_router_tree_or_diverges [OF registry_inv_new [of "''r''"], where self = 0 and child = 1
        and ?'a = nat and ?'b = nat]
    by (simp add: new_router_def)
qed

section \<open>Handler order\<close>

definition handlers_sorted :: "('c, 'd) router \<Rightarrow> bool" where
  "handlers_sorted r \<longleftrightarrow> (\<forall>et. sorted_desc hc_priority (get_handlers et r))"

lemma sort_desc_snoc:
  assumes "sorted_desc f xs"
  shows "sort_desc f (xs @ [x]) = filter (\<lambda>y. f x \<le> f y) xs @ [x] @ filter (\<lambda>y. f y < f x) xs"
  unfolding sort_desc_def
proof (rule properties_for_sort_key)
  have "filter (\<lambda>y. f y < f x) xs = filter (\<lambda>y. \<not> f x \<le> f y) xs" by (simp add: not_le)
  then show "mset (filter (\<lambda>y. f x \<le> f y) xs @ [x] @ filter (\<lambda>y. f y < f x) xs) = mset (xs @ [x])"
    by simp
next
  fix k
  consider "f k = f x" | "f k < f x" | "f x < f k" by linarith
  then show "filter (\<lambda>y. - f k = - f y) (filter (\<lambda>y. f x \<le> f y) xs @ [x] @ filter (\<lambda>y. f y < f x) xs) =
        filter (\<lambda>y. - f k = - f y) (xs @ [x])"
    by cases (auto simp: filter_empty_conv intro!: filter_cong)
next
  show "sorted (map (\<lambda>y. - f y) (filter (\<lambda>y. f x \<le> f y) xs @ [x] @ filter (\<lambda>y. f y < f x) xs))"
    using assms by (auto simp: sorted_desc_def sorted_append sorted_filter)
qed

lemma get_handlers_register_one:
  "get_handlers et' (r\<lparr>r_handlers := dict_set (r_handlers r) et (sort_desc hc_priority (dict_get (r_handlers r) et [] @ [c]))\<rparr>) =
     (if et' = et then sort_desc hc_priority (get_handlers et r @ [c]) else get_handlers et' r)"
  by (simp add: get_handlers_def dict_get_def)

lemma handlers_sorted_register_config: "handlers_sorted r \<Longrightarrow> handlers_sorted (register_config c ets r)"
proof (induction ets arbitrary: r)
  case Nil
  then show ?case by (simp add: register_config_def)
next
  case (Cons et ets)
  let ?r = "r\<lparr>r_handlers := dict_set (r_handlers r) et (sort_desc hc_priority (dict_get (r_handlers r) et [] @ [c]))\<rparr>"
  have "handlers_sorted ?r"
    using Cons.prems unfolding handlers_sorted_def get_handlers_register_one by simp
  then show ?case using Cons.IH [of ?r] by (simp add: register_config_def)
qed

lemma get_handlers_register_config:
  "distinct ets \<Longrightarrow> get_handlers et (register_config c ets r) =
     (if et \<in> set ets then sort_desc hc_priority (get_handlers et r @ [c]) else get_handlers et r)"
proof (induction ets arbitrary: r)
  case Nil
  then show ?case by (simp add: register_config_def)
next
  case (Cons t ets)
  let ?r = "r\<lparr>r_handlers := dict_set (r_handlers r) t (sort_desc hc_priority (dict_get (r_handlers r) t [] @ [c]))\<rparr>"
  have step: "register_config c (t # ets) r = register_config c ets ?r" by (simp add: register_config_def)
  show ?case unfolding step using Cons.prems Cons.IH [of ?r] by (auto simp: get_handlers_register_one)
qed

text \<open>
  The handlers of an event type are kept in descending priority, equal priorities in
  registration order: registering a handler for distinct event types inserts it, for each
  of them, after every handler of at least its priority and before all lower ones, and
  changes no other event type.
\<close>

theorem register_handler_position:
  assumes "handlers_sorted r" and "resolve_event_types ets = Inr resolved" and "distinct resolved"
    and "register_handler h sig ets filters prio r = Inr r'"
  shows "handlers_sorted r' \<and>
    (\<exists>c. hc_handler c = h \<and> hc_priority c = prio \<and> hc_filters c = filters \<and> (\<forall>et. get_handlers et r' =
      (if et \<in> set resolved
       then filter (\<lambda>y. prio \<le> hc_priority y) (get_handlers et r) @ [c] @
            filter (\<lambda>y. hc_priority y < prio) (get_handlers et r)
       else get_handlers et r)))"
proof -
  obtain accepted anns pass where sig: "inspect_handler_signature sig = (accepted, anns, pass)"
    by (cases "inspect_handler_signature sig")
  define c where "c = \<lparr>hc_handler = h, hc_event_types = resolved, hc_filters = filters, hc_priority = prio,
    hc_accepted_kwargs = accepted, hc_accepted_annotations = anns, hc_pass_event = pass\<rparr>"
  have r': "r' = register_config c resolved r"
    using assms(2,4) sig by (simp add: register_handler_def bind_result_def c_def)
  have "get_handlers et r' = (if et \<in> set resolved
       then filter (\<lambda>y. prio \<le> hc_priority y) (get_handlers et r) @ [c] @
            filter (\<lambda>y. hc_priority y < prio) (get_handlers et r)
       else get_handlers et r)" for et
    using get_handlers_register_config [OF assms(3), of et c r] assms(1)
      sort_desc_snoc [of hc_priority "get_handlers et r" c]
    by (simp add: r' handlers_sorted_def c_def)
  moreover have "handlers_sorted r'" unfolding r' by (rule handlers_sorted_register_config) (rule assms(1))
  ultimately show ?thesis by (intro conjI exI [of _ c]) (auto simp: c_def)
qed

theorem register_handler_position_witness:
  "\<exists>r'. register_handler (5 :: nat) [] [Member (Gateway ''READY'')] [] 1 (new_router ''r'' :: (nat, nat) router) = Inr r' \<and>
     handlers_sorted r'"
proof -
  let ?r = "new_router ''r'' :: (nat, nat) router"
  have "handlers_sorted ?r" by (simp add: handlers_sorted_def new_router_def get_handlers_def dict_get_def sorted_desc_def)
  moreover have "resolve_event_types [Member (Gateway ''READY'')] = Inr [Gateway ''READY'']"
    by (simp add: resolve_event_types_def resolve_event_type_def bind_result_def)
  moreover have "\<exists>r'. register_handler (5 :: nat) [] [Member (Gateway ''READY'')] [] 1 ?r = Inr r'"
    by (simp add: register_handler_def bind_result_def inspect_handler_signature_def
        resolve_event_types_def resolve_event_type_def)
  ultimately show ?thesis
    using register_handler_position [of ?r "[Member (Gateway ''READY'')]" "[Gateway ''READY'']" 5 "[]" "[]" 1]
    by auto
qed

section \<open>Lifecycle handlers\<close>

primrec lifecycle_order :: "(('c, 'd) router \<Rightarrow> 'c list) \<Rightarrow> nat \<Rightarrow> ('c, 'd) store \<Rightarrow> nat \<Rightarrow> 'c list" where
  "lifecycle_order own 0 st i = []"
| "lifecycle_order own (Suc n) st i = concat (map (lifecycle_order own n st) (r_routers (st i))) @ own (st i)"

lemma run_all_append:
  "run_all f (xs @ ys) u = (case run_all f xs u of (Inl e, u1) \<Rightarrow> (Inl e, u1) | (Inr _, u1) \<Rightarrow> run_all f ys u1)"
  by (induction xs arbitrary: u) (auto split: prod.splits sum.splits)

lemma run_all_concat:
  assumes "\<And>x u. x \<in> set xs \<Longrightarrow> g x u = run_all f (h x) u"
  shows "run_all g xs u = run_all f (concat (map h xs)) u"
  using assms by (induction xs arbitrary: u) (auto simp: run_all_append split: prod.splits sum.splits)

lemma emit_lifecycle_order:
  "bounded n st i \<Longrightarrow> emit_lifecycle own run n st i u = run_all run (lifecycle_order own n st i) u"
proof (induction n arbitrary: i u)
  case (Suc n)
  then have "run_all (emit_lifecycle own run n st) (r_routers (st i)) u =
      run_all run (concat (map (lifecycle_order own n st) (r_routers (st i)))) u"
    by (intro run_all_concat) auto
  then show ?case by (simp add: run_all_append)
qed simp

text \<open>
  On a sound registry the lifecycle notifications reach every router of the tree, the
  handlers of included routers before the router's own, and stop at the first exception:
  emitting is running one list of handlers in that order.
\<close>

theorem lifecycle_children_first:
  assumes "registry_inv st"
  shows "\<exists>n. bounded n st i \<and>
    emit_startup run n st i u = run_all run (lifecycle_order r_startup_handlers n st i) u \<and>
    emit_shutdown run n st i u = run_all run (lifecycle_order r_shutdown_handlers n st i) u \<and>
    emit_reconnect run n st i u = run_all run (lifecycle_order r_reconnect_handlers n st i) u"
proof -
  obtain n where "bounded n st i" using assms tree_wf_bounded [of st i] by (auto simp: registry_inv_def)
  then show ?thesis
    by (intro exI [of _ n]) (simp add: emit_startup_def emit_shutdown_def emit_reconnect_def emit_lifecycle_order)
qed

theorem lifecycle_children_first_witness:
  "\<exists>n. bounded n (\<lambda>_ :: nat. new_router ''r'' :: (nat, nat) router) 0 \<and>
     emit_startup (\<lambda>h u. (Inr (), h # u)) n (\<lambda>_. new_router ''r'' :: (nat, nat) router) 0 [] =
       run_all (\<lambda>h u. (Inr (), h # u)) (lifecycle_order r_startup_handlers n (\<lambda>_. new_router ''r'' :: (nat, nat) router) 0) []"
  using lifecycle_children_first [OF registry_inv_new [of "''r''"], where ?'a = nat and ?'b = nat and i = 0
      and run = "\<lambda>h u. (Inr (), h # u)" and u = "[]"]
  by blast

end
