(* ===== verification/PyText.thy ===== *)
theory PyText
  imports PyValue
begin

text \<open>
  The string methods of Python that the components share: prefixes, splitting and joining, on
  white space too, and replacing a character. A string is the sequence of the bytes of its UTF-8
  encoding where an encoding matters.
\<close>

section \<open>Prefixes, splitting and joining\<close>

definition starts_with :: "string \<Rightarrow> string \<Rightarrow> bool" where
  "starts_with s p \<longleftrightarrow> take (length p) s = p"

definition ends_with :: "string \<Rightarrow> string \<Rightarrow> bool" where
  "ends_with s p \<longleftrightarrow> starts_with (rev s) (rev p)"

fun py_split :: "char \<Rightarrow> string \<Rightarrow> string list" where
  "py_split c [] = [[]]"
| "py_split c (x # s) =
     (if x = c then [] # py_split c s
      else case py_split c s of [] \<Rightarrow> [[x]] | w # ws \<Rightarrow> (x # w) # ws)"

primrec py_join :: "char \<Rightarrow> string list \<Rightarrow> string" where
  "py_join c [] = []"
| "py_join c (w # ws) = (if ws = [] then w else w @ c # py_join c ws)"

lemma py_split_not_Nil [simp]: "py_split c s \<noteq> []"
  by (induction s) (auto split: list.splits)

lemma py_join_split [simp]: "py_join c (py_split c s) = s"
proof (induction s)
  case (Cons x s)
  then show ?case by (cases "py_split c s") auto
qed simp

lemma py_split_word: "c \<notin> set w \<Longrightarrow> py_split c w = [w]"
  by (induction w) auto

lemma py_split_append: "c \<notin> set w \<Longrightarrow> py_split c (w @ c # s) = w # py_split c s"
  by (induction w) auto

lemma py_split_nth: "w \<in> set (py_split c s) \<Longrightarrow> c \<notin> set w"
proof (induction s arbitrary: w)
  case (Cons x s)
  then show ?case by (cases "py_split c s") (auto split: if_splits)
qed simp

lemma py_split_join: "ws \<noteq> [] \<Longrightarrow> list_all (\<lambda>w. c \<notin> set w) ws \<Longrightarrow> py_split c (py_join c ws) = ws"
  by (induction ws) (auto simp: py_split_word py_split_append)

text \<open>\<open>s.split()\<close>: the maximal runs without white space.\<close>

function py_words :: "string \<Rightarrow> string list" where
  "py_words [] = []"
| "py_words (c # s) =
     (if is_space c then py_words s
      else (c # takeWhile (\<lambda>x. \<not> is_space x) s) # py_words (dropWhile (\<lambda>x. \<not> is_space x) s))"
  by pat_completeness auto
termination by (relation "measure length") (auto simp: less_Suc_eq_le length_dropWhile_le)

lemma py_words_word: "w \<noteq> [] \<Longrightarrow> list_all (\<lambda>x. \<not> is_space x) w \<Longrightarrow> py_words w = [w]"
proof (cases w)
  case (Cons a v)
  assume "list_all (\<lambda>x. \<not> is_space x) w"
  then have d: "takeWhile (\<lambda>x. \<not> is_space x) v = v" "dropWhile (\<lambda>x. \<not> is_space x) v = []" "\<not> is_space a"
    using Cons by (auto simp: list_all_iff takeWhile_eq_all_conv dropWhile_eq_Nil_conv)
  then show ?thesis by (simp add: Cons d)
qed simp

lemma py_words_cons:
  assumes "w \<noteq> []" and "list_all (\<lambda>x. \<not> is_space x) w" and "is_space c"
  shows "py_words (w @ c # s) = w # py_words s"
proof -
  obtain a v where w: "w = a # v" using assms(1) by (cases w) auto
  have d: "takeWhile (\<lambda>x. \<not> is_space x) (v @ c # s) = v" "dropWhile (\<lambda>x. \<not> is_space x) (v @ c # s) = c # s"
    using assms(2,3) w by (auto simp: list_all_iff takeWhile_append dropWhile_append)
  then show ?thesis using assms(2,3) by (simp add: w d)
qed

lemma py_words_join:
  "list_all (\<lambda>w. w \<noteq> [] \<and> list_all (\<lambda>x. \<not> is_space x) w) ws \<Longrightarrow> py_words (py_join (CHR '' '') ws) = ws"
proof (induction ws)
  case (Cons w ws)
  have "is_space (CHR '' '')" by (simp add: is_space_def)
  then show ?case using Cons by (simp add: py_words_word py_words_cons)
qed simp

text \<open>\<open>s.replace(c, r)\<close> for a single character \<open>c\<close>.\<close>

definition replace_char :: "char \<Rightarrow> string \<Rightarrow> string \<Rightarrow> string" where
  "replace_char c r s = concat (map (\<lambda>x. if x = c then r else [x]) s)"

lemma replace_char_simps [simp]:
  "replace_char c r [] = []"
  "replace_char c r (x # s) = (if x = c then r @ replace_char c r s else x # replace_char c r s)"
  "replace_char c r (s @ t) = replace_char c r s @ replace_char c r t"
  by (simp_all add: replace_char_def)

lemma replace_char_id [simp]: "c \<notin> set s \<Longrightarrow> replace_char c r s = s"
  by (induction s) auto

end
