(* ===== verification/Filters.thy ===== *)
theory Filters
  imports EventTypes PyText
begin

text \<open>
  The filter system (src/vaidcord-py/src/vaidcord/filters: base.py, magic.py, builtin.py)
  and the message filters of router.py. Dynamic values are a datatype with Python's truth
  value, equality, ordering and containment; a filter is a program on an event address and
  a world that may raise. Pure filters are functions of the event object.
\<close>

section \<open>Dynamic values\<close>

text \<open>
  \<open>VInst\<close> is an instance of a dataclass with its attributes, \<open>VEnum\<close> a member of an
  enumeration (class, name, value), \<open>VRef\<close> any other object, by identity.
\<close>

datatype pval =
    VNone
  | VBool bool
  | VInt int
  | VStr string
  | VList "pval list"
  | VDict "(string \<times> pval) list"
  | VInst string "(string \<times> pval) list"
  | VEnum string string pval
  | VRef nat

type_synonym vdict = "(string, pval) dict"

definition truthy :: "pval \<Rightarrow> bool" where
  "truthy v =
     (case v of
        VNone \<Rightarrow> False
      | VBool b \<Rightarrow> b
      | VInt i \<Rightarrow> i \<noteq> 0
      | VStr s \<Rightarrow> s \<noteq> []
      | VList xs \<Rightarrow> xs \<noteq> []
      | VDict d \<Rightarrow> d \<noteq> []
      | _ \<Rightarrow> True)"

definition num_of :: "pval \<Rightarrow> int option" where
  "num_of v = (case v of VInt i \<Rightarrow> Some i | VBool b \<Rightarrow> Some (if b then 1 else 0) | _ \<Rightarrow> None)"

text \<open>\<open>==\<close>: bools are integers, dicts ignore their order, dataclasses compare their fields.\<close>

fun py_eq :: "pval \<Rightarrow> pval \<Rightarrow> bool" where
  "py_eq (VList xs) (VList ys) = list_all2 py_eq xs ys"
| "py_eq (VDict d) (VDict e) \<longleftrightarrow>
     length d = length e \<and>
     (\<forall>kv \<in> set d. case map_of e (fst kv) of None \<Rightarrow> False | Some u \<Rightarrow> py_eq (snd kv) u)"
| "py_eq (VInst c d) (VInst c' e) \<longleftrightarrow>
     c = c' \<and> length d = length e \<and>
     (\<forall>kv \<in> set d. case map_of e (fst kv) of None \<Rightarrow> False | Some u \<Rightarrow> py_eq (snd kv) u)"
| "py_eq v w = (case num_of v of Some i \<Rightarrow> num_of w = Some i | None \<Rightarrow> v = w)"

definition hashable :: "pval \<Rightarrow> bool" where
  "hashable v = (case v of VList _ \<Rightarrow> False | VDict _ \<Rightarrow> False | VInst _ _ \<Rightarrow> False | _ \<Rightarrow> True)"

fun str_less :: "string \<Rightarrow> string \<Rightarrow> bool" where
  "str_less [] [] = False"
| "str_less [] (_ # _) = True"
| "str_less (_ # _) [] = False"
| "str_less (c # s) (d # t) =
     (if c = d then str_less s t else (of_char c :: nat) < of_char d)"

fun py_less :: "pval \<Rightarrow> pval \<Rightarrow> bool result" where
  "py_less (VStr s) (VStr t) = Inr (str_less s t)"
| "py_less (VList []) (VList ys) = Inr (ys \<noteq> [])"
| "py_less (VList (x # xs)) (VList []) = Inr False"
| "py_less (VList (x # xs)) (VList (y # ys)) =
     (if py_eq x y then py_less (VList xs) (VList ys) else py_less x y)"
| "py_less v w =
     (case num_of v of
        Some i \<Rightarrow> (case num_of w of Some j \<Rightarrow> Inr (i < j) | None \<Rightarrow> Inl (TypeError ''unorderable''))
      | None \<Rightarrow> Inl (TypeError ''unorderable''))"

definition py_le :: "pval \<Rightarrow> pval \<Rightarrow> bool result" where
  "py_le v w = bind_result (py_less v w) (\<lambda>b. Inr (b \<or> py_eq v w))"

definition in_set :: "pval \<Rightarrow> pval list \<Rightarrow> bool result" where
  "in_set v vs = (if hashable v then Inr (\<exists>u \<in> set vs. py_eq v u) else Inl (TypeError ''unhashable type''))"

fun is_infix :: "string \<Rightarrow> string \<Rightarrow> bool" where
  "is_infix p [] = (p = [])"
| "is_infix p (c # s) = (take (length p) (c # s) = p \<or> is_infix p s)"

text \<open>\<open>x in container\<close>.\<close>

definition py_contains :: "pval \<Rightarrow> pval \<Rightarrow> bool result" where
  "py_contains x container =
     (case container of
        VStr s \<Rightarrow> (case x of VStr p \<Rightarrow> Inr (is_infix p s) | _ \<Rightarrow> Inl (TypeError ''requires string as left operand''))
      | VList xs \<Rightarrow> Inr (\<exists>y \<in> set xs. py_eq x y)
      | VDict d \<Rightarrow> in_set x (map (\<lambda>kv. VStr (fst kv)) d)
      | _ \<Rightarrow> Inl (TypeError ''argument is not iterable''))"

section \<open>Filter programs\<close>

datatype exn = StopPropagation | RecursionError | Exc exc | BaseExc string

text \<open>\<open>except Exception\<close>: everything but cancellation and interpreter exits.\<close>

definition is_exception :: "exn \<Rightarrow> bool" where
  "is_exception x = (case x of BaseExc _ \<Rightarrow> False | _ \<Rightarrow> True)"

type_synonym 'w fout = "(exn + pval) \<times> 'w"
type_synonym 'w filter_fun = "nat \<Rightarrow> 'w \<Rightarrow> 'w fout"

definition bind_fout :: "'w fout \<Rightarrow> (pval \<Rightarrow> 'w \<Rightarrow> 'w fout) \<Rightarrow> 'w fout" where
  "bind_fout r k = (case r of (Inl x, w) \<Rightarrow> (Inl x, w) | (Inr v, w) \<Rightarrow> k v w)"

lemma bind_fout_simps [simp]:
  "bind_fout (Inl x, w) k = (Inl x, w)"
  "bind_fout (Inr v, w) k = k v w"
  by (simp_all add: bind_fout_def)

text \<open>
  A filter object: its hash identity (None when unhashable), the parameter names of its
  signature (None when \<open>inspect.signature\<close> raises), and what a call does in each of the
  three call styles. Awaiting an awaitable result is part of the call.
\<close>

datatype call_style = CallBot | CallEvent | CallPositional

record 'w filter_obj =
  fo_ident :: "nat option"
  fo_params :: "string list option"
  fo_call :: "call_style \<Rightarrow> 'w filter_fun"

definition signature_style :: "'w filter_obj \<Rightarrow> call_style" where
  "signature_style f =
     (case fo_params f of
        None \<Rightarrow> CallPositional
      | Some ps \<Rightarrow> if ''bot'' \<in> set ps then CallBot else if ''event'' \<in> set ps then CallEvent else CallPositional)"

definition cache_filter_call_style ::
  "(nat, call_style) dict \<Rightarrow> 'w filter_obj \<Rightarrow> call_style \<Rightarrow> call_style \<times> (nat, call_style) dict" where
  "cache_filter_call_style cache f s =
     (case fo_ident f of None \<Rightarrow> (s, cache) | Some i \<Rightarrow> (s, dict_set cache i s))"

definition filter_call_style ::
  "(nat, call_style) dict \<Rightarrow> 'w filter_obj \<Rightarrow> call_style \<times> (nat, call_style) dict" where
  "filter_call_style cache f =
     (case Option.bind (fo_ident f) (map_of cache) of
        Some s \<Rightarrow> (s, cache)
      | None \<Rightarrow> cache_filter_call_style cache f (signature_style f))"

definition style_cache_ok :: "(nat \<Rightarrow> 'w filter_obj) \<Rightarrow> (nat, call_style) dict \<Rightarrow> bool" where
  "style_cache_ok obj cache \<longleftrightarrow> (\<forall>i s. map_of cache i = Some s \<longrightarrow> s = signature_style (obj i))"

lemma filter_call_style_sound:
  assumes "style_cache_ok obj cache" and "\<And>i. fo_ident f = Some i \<Longrightarrow> obj i = f"
  shows "fst (filter_call_style cache f) = signature_style f"
    and "style_cache_ok obj (snd (filter_call_style cache f))"
  using assms
  by (auto simp: filter_call_style_def cache_filter_call_style_def style_cache_ok_def
      split: option.splits bind_splits)

text \<open>By the lemma above the memo table never changes the style a call uses.\<close>

definition invoke_filter_callable :: "'w filter_obj \<Rightarrow> 'w filter_fun" where
  "invoke_filter_callable f = fo_call f (signature_style f)"

definition to_pass_and_data :: "pval \<Rightarrow> bool \<times> vdict" where
  "to_pass_and_data v = (case v of VDict d \<Rightarrow> (True, d) | _ \<Rightarrow> (truthy v, []))"

definition run_filter :: "'w filter_obj \<Rightarrow> nat \<Rightarrow> 'w \<Rightarrow> (exn + bool) \<times> 'w" where
  "run_filter f e w =
     (case invoke_filter_callable f e w of
        (Inl x, w1) \<Rightarrow> (Inl x, w1)
      | (Inr v, w1) \<Rightarrow> (Inr (case v of VDict d \<Rightarrow> True | _ \<Rightarrow> truthy v), w1))"

definition run_filter_with_data :: "'w filter_obj \<Rightarrow> nat \<Rightarrow> 'w \<Rightarrow> (exn + bool \<times> vdict) \<times> 'w" where
  "run_filter_with_data f e w =
     (case invoke_filter_callable f e w of
        (Inl x, w1) \<Rightarrow> (Inl x, w1)
      | (Inr v, w1) \<Rightarrow> (Inr (to_pass_and_data v), w1))"

text \<open>\<open>FilterExpr\<close>: a callback, called with the event positionally and awaited.\<close>

definition filter_and :: "'w filter_fun \<Rightarrow> 'w filter_fun \<Rightarrow> 'w filter_fun" where
  "filter_and f g = (\<lambda>e w.
     bind_fout (f e w) (\<lambda>left w1.
       case to_pass_and_data left of (lp, ld) \<Rightarrow>
         if \<not> lp then (Inr (VBool False), w1)
         else bind_fout (g e w1) (\<lambda>right w2.
           case to_pass_and_data right of (rp, rd) \<Rightarrow>
             if \<not> rp then (Inr (VBool False), w2)
             else (let merged = dict_update (dict_of ld) rd
                   in (Inr (if merged \<noteq> [] then VDict merged else VBool True), w2)))))"

definition filter_or :: "'w filter_fun \<Rightarrow> 'w filter_fun \<Rightarrow> 'w filter_fun" where
  "filter_or f g = (\<lambda>e w.
     bind_fout (f e w) (\<lambda>left w1.
       case to_pass_and_data left of (lp, ld) \<Rightarrow>
         if lp then (Inr (if ld \<noteq> [] then VDict ld else VBool True), w1)
         else bind_fout (g e w1) (\<lambda>right w2.
           case to_pass_and_data right of (rp, rd) \<Rightarrow>
             (Inr (if rp then (if rd \<noteq> [] then VDict rd else VBool True) else VBool False), w2))))"

definition filter_not :: "'w filter_fun \<Rightarrow> 'w filter_fun" where
  "filter_not f = (\<lambda>e w. bind_fout (f e w) (\<lambda>v w1. (Inr (VBool (\<not> truthy v)), w1)))"

datatype 'w filter_like = FilterExpr "'w filter_fun" | FilterCallable "'w filter_obj"

definition as_filter :: "'w filter_like \<Rightarrow> 'w filter_fun" where
  "as_filter f = (case f of FilterExpr cb \<Rightarrow> cb | FilterCallable fo \<Rightarrow> invoke_filter_callable fo)"

definition custom_filter :: "'w filter_obj \<Rightarrow> 'w filter_fun" where
  "custom_filter f = (\<lambda>e w. case run_filter f e w of (Inl x, w1) \<Rightarrow> (Inl x, w1) | (Inr b, w1) \<Rightarrow> (Inr (VBool b), w1))"

section \<open>Paths into the event\<close>

text \<open>\<open>getattr(v, name, default)\<close>; methods of built-in types are not attributes here.\<close>

definition get_attr_default :: "pval \<Rightarrow> string \<Rightarrow> pval \<Rightarrow> pval" where
  "get_attr_default v nm d =
     (case v of
        VInst _ as \<Rightarrow> dict_get as nm d
      | VEnum _ n x \<Rightarrow> (if nm = ''name'' then VStr n else if nm = ''value'' then x else d)
      | _ \<Rightarrow> d)"

definition get_attr :: "pval \<Rightarrow> string \<Rightarrow> pval result" where
  "get_attr v nm =
     (case v of
        VInst _ as \<Rightarrow> (case map_of as nm of Some x \<Rightarrow> Inr x | None \<Rightarrow> Inl (AttributeError nm))
      | VEnum _ n x \<Rightarrow> (if nm = ''name'' then Inr (VStr n) else if nm = ''value'' then Inr x else Inl (AttributeError nm))
      | _ \<Rightarrow> Inl (AttributeError nm))"

primrec resolve_parts :: "pval \<Rightarrow> string list \<Rightarrow> pval \<Rightarrow> pval" where
  "resolve_parts d [] cur = cur"
| "resolve_parts d (part # parts) cur =
     (if cur = VNone then d
      else resolve_parts d parts
        (case cur of VDict m \<Rightarrow> dict_get m part d | _ \<Rightarrow> get_attr_default cur part d))"

definition resolve_path :: "pval \<Rightarrow> string \<Rightarrow> pval \<Rightarrow> pval" where
  "resolve_path ev path d = resolve_parts d (py_split CHR ''.'' path) ev"

text \<open>
  \<open>_MagicDataEventProxy\<close>: its own members first, then the attributes of the event, its
  context and its data.
\<close>

definition magic_data_proxy :: "pval \<Rightarrow> vdict \<Rightarrow> vdict \<Rightarrow> pval" where
  "magic_data_proxy ev ctx data =
     VInst ''_MagicDataEventProxy''
       ([(''event'', ev), (''data'', VDict data)] @
        (case ev of VInst _ as \<Rightarrow> as | _ \<Rightarrow> []) @ ctx @ data)"

section \<open>Magic filters\<close>

datatype selector = SelAny | SelAll

record magic_filter =
  mf_path :: string
  mf_selector :: "selector option"
  mf_modifier :: "(pval \<Rightarrow> pval result) option"

definition new_magic :: "string \<Rightarrow> selector option \<Rightarrow> magic_filter" where
  "new_magic path sel = \<lparr>mf_path = path, mf_selector = sel, mf_modifier = None\<rparr>"

definition magic_F :: magic_filter where
  "magic_F = new_magic [] None"

definition magic_getattr :: "magic_filter \<Rightarrow> string \<Rightarrow> magic_filter" where
  "magic_getattr mf nm =
     new_magic (if mf_path mf \<noteq> [] then mf_path mf @ ''.'' @ nm else nm) (mf_selector mf)"

datatype magic_item = ItemEllipsis | ItemFullSlice | ItemKey string

definition magic_getitem :: "magic_filter \<Rightarrow> magic_item \<Rightarrow> magic_filter" where
  "magic_getitem mf item =
     (case item of
        ItemEllipsis \<Rightarrow> new_magic (mf_path mf) (Some SelAny)
      | ItemFullSlice \<Rightarrow> new_magic (mf_path mf) (Some SelAll)
      | ItemKey k \<Rightarrow> new_magic (if mf_path mf \<noteq> [] then mf_path mf @ ''.'' @ k else k) (mf_selector mf))"

definition with_modifier :: "magic_filter \<Rightarrow> (pval \<Rightarrow> pval result) \<Rightarrow> magic_filter" where
  "with_modifier mf f = (new_magic (mf_path mf) (mf_selector mf))\<lparr>mf_modifier := Some f\<rparr>"

definition magic_extract :: "magic_filter \<Rightarrow> pval \<Rightarrow> pval" where
  "magic_extract mf ev =
     (let v = resolve_path ev (mf_path mf) VNone in
      case mf_modifier mf of
        None \<Rightarrow> v
      | Some f \<Rightarrow> (case f v of Inl _ \<Rightarrow> VNone | Inr u \<Rightarrow> u))"

text \<open>\<open>any\<close> and \<open>all\<close> stop at the first decisive element; an exception before it escapes.\<close>

primrec any_result :: "('a \<Rightarrow> bool result) \<Rightarrow> 'a list \<Rightarrow> bool result" where
  "any_result f [] = Inr False"
| "any_result f (x # xs) = bind_result (f x) (\<lambda>b. if b then Inr True else any_result f xs)"

primrec all_result :: "('a \<Rightarrow> bool result) \<Rightarrow> 'a list \<Rightarrow> bool result" where
  "all_result f [] = Inr True"
| "all_result f (x # xs) = bind_result (f x) (\<lambda>b. if b then all_result f xs else Inr False)"

definition magic_cmp :: "magic_filter \<Rightarrow> (pval \<Rightarrow> bool result) \<Rightarrow> pval \<Rightarrow> bool result" where
  "magic_cmp mf test ev =
     (let cur = magic_extract mf ev in
      case mf_selector mf of
        Some SelAny \<Rightarrow> (case cur of VList xs \<Rightarrow> any_result test xs | _ \<Rightarrow> Inr False)
      | Some SelAll \<Rightarrow> (case cur of VList xs \<Rightarrow> all_result test xs | _ \<Rightarrow> Inr False)
      | None \<Rightarrow> test cur)"

definition magic_call :: "magic_filter \<Rightarrow> pval \<Rightarrow> bool" where
  "magic_call mf ev = truthy (magic_extract mf ev)"

definition magic_eq :: "magic_filter \<Rightarrow> pval \<Rightarrow> pval \<Rightarrow> bool result" where
  "magic_eq mf v = magic_cmp mf (\<lambda>cur. Inr (py_eq cur v))"

definition magic_ne :: "magic_filter \<Rightarrow> pval \<Rightarrow> pval \<Rightarrow> bool result" where
  "magic_ne mf v = magic_cmp mf (\<lambda>cur. Inr (\<not> py_eq cur v))"

definition magic_gt :: "magic_filter \<Rightarrow> pval \<Rightarrow> pval \<Rightarrow> bool result" where
  "magic_gt mf v = magic_cmp mf (\<lambda>cur. if cur = VNone then Inr False else py_less v cur)"

definition magic_ge :: "magic_filter \<Rightarrow> pval \<Rightarrow> pval \<Rightarrow> bool result" where
  "magic_ge mf v = magic_cmp mf (\<lambda>cur. if cur = VNone then Inr False else py_le v cur)"

definition magic_lt :: "magic_filter \<Rightarrow> pval \<Rightarrow> pval \<Rightarrow> bool result" where
  "magic_lt mf v = magic_cmp mf (\<lambda>cur. if cur = VNone then Inr False else py_less cur v)"

definition magic_le :: "magic_filter \<Rightarrow> pval \<Rightarrow> pval \<Rightarrow> bool result" where
  "magic_le mf v = magic_cmp mf (\<lambda>cur. if cur = VNone then Inr False else py_le cur v)"

text \<open>\<open>set(values)\<close> raises on an unhashable value before there is a filter.\<close>

definition magic_in :: "magic_filter \<Rightarrow> pval list \<Rightarrow> (pval \<Rightarrow> bool result) result" where
  "magic_in mf vs =
     (if list_all hashable vs then Inr (magic_cmp mf (\<lambda>cur. in_set cur vs))
      else Inl (TypeError ''unhashable type''))"

definition magic_not_in :: "magic_filter \<Rightarrow> pval list \<Rightarrow> (pval \<Rightarrow> bool result) result" where
  "magic_not_in mf vs =
     (if list_all hashable vs
      then Inr (magic_cmp mf (\<lambda>cur. bind_result (in_set cur vs) (\<lambda>b. Inr (\<not> b))))
      else Inl (TypeError ''unhashable type''))"

definition magic_contains :: "magic_filter \<Rightarrow> pval \<Rightarrow> pval \<Rightarrow> bool result" where
  "magic_contains mf v = magic_cmp mf (\<lambda>cur. if cur = VNone then Inr False else py_contains v cur)"

definition str_with :: "(string \<Rightarrow> bool) \<Rightarrow> pval \<Rightarrow> bool" where
  "str_with P v = (case v of VStr s \<Rightarrow> P s | _ \<Rightarrow> False)"

definition magic_startswith :: "magic_filter \<Rightarrow> string \<Rightarrow> pval \<Rightarrow> pval" where
  "magic_startswith mf prefix ev =
     (let cur = magic_extract mf ev;
          hit = (\<lambda>v. VDict [(''startswith'', VStr prefix), (''matched_text'', v)]);
          ok = str_with (\<lambda>s. starts_with s prefix);
          single = (if ok cur then hit cur else VBool False)
      in case cur of
           VList xs \<Rightarrow>
             (case mf_selector mf of
                Some SelAny \<Rightarrow> (case find ok xs of Some x \<Rightarrow> hit x | None \<Rightarrow> VBool False)
              | Some SelAll \<Rightarrow> (if xs \<noteq> [] \<and> list_all ok xs then hit (last xs) else VBool False)
              | None \<Rightarrow> single)
         | _ \<Rightarrow> single)"

definition magic_endswith :: "magic_filter \<Rightarrow> string \<Rightarrow> pval \<Rightarrow> bool result" where
  "magic_endswith mf suffix = magic_cmp mf (\<lambda>cur. Inr (str_with (\<lambda>s. ends_with s suffix) cur))"

definition magic_exists :: "magic_filter \<Rightarrow> pval \<Rightarrow> bool result" where
  "magic_exists mf = magic_cmp mf (\<lambda>cur. Inr (cur \<noteq> VNone))"

definition magic_cast :: "magic_filter \<Rightarrow> (pval \<Rightarrow> pval result) \<Rightarrow> magic_filter" where
  "magic_cast mf caster = with_modifier mf (\<lambda>c. if c = VNone then Inr VNone else caster c)"

definition magic_lower :: "magic_filter \<Rightarrow> magic_filter" where
  "magic_lower mf = with_modifier mf (\<lambda>c. Inr (case c of VStr s \<Rightarrow> VStr (py_lower s) | _ \<Rightarrow> VNone))"

definition magic_upper :: "magic_filter \<Rightarrow> magic_filter" where
  "magic_upper mf = with_modifier mf (\<lambda>c. Inr (case c of VStr s \<Rightarrow> VStr (py_upper s) | _ \<Rightarrow> VNone))"

definition magic_len :: "magic_filter \<Rightarrow> magic_filter" where
  "magic_len mf = with_modifier mf (\<lambda>c.
     case c of
       VNone \<Rightarrow> Inr (VInt 0)
     | VStr s \<Rightarrow> Inr (VInt (int (length s)))
     | VList xs \<Rightarrow> Inr (VInt (int (length xs)))
     | VDict d \<Rightarrow> Inr (VInt (int (length d)))
     | _ \<Rightarrow> Inl (TypeError ''object has no len()''))"

text \<open>The regular expression engine is a parameter: pattern and text to the named groups.\<close>

definition magic_regex :: "(string \<Rightarrow> string \<Rightarrow> (pval \<times> vdict) option) \<Rightarrow> magic_filter \<Rightarrow> string \<Rightarrow> pval \<Rightarrow> pval" where
  "magic_regex search mf pattern ev =
     (case magic_extract mf ev of
        VStr s \<Rightarrow> (case search pattern s of
                    Some (mobj, groups) \<Rightarrow> VDict [(''regex_match'', mobj), (''regex_groups'', VDict groups)]
                  | None \<Rightarrow> VBool False)
      | _ \<Rightarrow> VBool False)"

definition magic_as :: "magic_filter \<Rightarrow> string \<Rightarrow> pval \<Rightarrow> pval" where
  "magic_as mf nm ev =
     (let cur = magic_extract mf ev in if cur \<noteq> VNone then VDict [(nm, cur)] else VBool False)"

section \<open>Built-in filters\<close>

definition command_matches :: "string list \<Rightarrow> bool \<Rightarrow> string \<Rightarrow> bool" where
  "command_matches commands ignore_case nm \<longleftrightarrow>
     (if ignore_case then py_lower nm \<in> py_lower ` set commands else nm \<in> set commands)"

definition command_name :: "string \<Rightarrow> string \<Rightarrow> string" where
  "command_name token p = takeWhile (\<lambda>c. c \<noteq> CHR ''@'') (drop (length p) token)"

definition command_filter :: "string list \<Rightarrow> string list \<Rightarrow> bool \<Rightarrow> string \<Rightarrow> pval \<Rightarrow> bool" where
  "command_filter commands prefixes ignore_case path ev =
     (case resolve_path ev path (VStr []) of
        VStr text \<Rightarrow>
          if text = [] then False
          else (let token = takeWhile (\<lambda>c. c \<noteq> CHR '' '') (py_strip text) in
                case find (starts_with token) prefixes of
                  Some p \<Rightarrow> command_matches commands ignore_case (command_name token p)
                | None \<Rightarrow> False)
      | _ \<Rightarrow> False)"

definition default_prefixes :: "string list" where
  "default_prefixes = [''/'', ''!'', ''.'']"

definition command_start_filter :: "pval \<Rightarrow> bool" where
  "command_start_filter = command_filter [''start''] default_prefixes True ''message.content''"

definition command_help_filter :: "pval \<Rightarrow> bool" where
  "command_help_filter = command_filter [''help''] default_prefixes True ''message.content''"

definition command_settings_filter :: "pval \<Rightarrow> bool" where
  "command_settings_filter = command_filter [''settings''] default_prefixes True ''message.content''"

definition regex_filter :: "(string \<Rightarrow> string \<Rightarrow> (pval \<times> vdict) option) \<Rightarrow> string \<Rightarrow> string \<Rightarrow> pval \<Rightarrow> bool" where
  "regex_filter search pattern path ev =
     (case resolve_path ev path (VStr []) of VStr s \<Rightarrow> search pattern s \<noteq> None | _ \<Rightarrow> False)"

text \<open>\<open>event.a or (event.message.b if event.message else None)\<close>.\<close>

definition own_or_message :: "pval \<Rightarrow> string \<Rightarrow> string \<Rightarrow> pval result" where
  "own_or_message ev own from_message =
     bind_result (get_attr ev own) (\<lambda>x.
       if truthy x then Inr x
       else bind_result (get_attr ev ''message'') (\<lambda>msg.
         if truthy msg then get_attr msg from_message else Inr VNone))"

definition excluded_by :: "pval list option \<Rightarrow> pval \<Rightarrow> bool result" where
  "excluded_by allowed v =
     (case allowed of None \<Rightarrow> Inr False | Some vs \<Rightarrow> bind_result (in_set v vs) (\<lambda>b. Inr (\<not> b)))"

definition user_filter :: "pval list option \<Rightarrow> pval list option \<Rightarrow> pval option \<Rightarrow> pval \<Rightarrow> bool result" where
  "user_filter user_ids usernames allow_bots ev =
     bind_result (own_or_message ev ''user'' ''author'') (\<lambda>user.
       if user = VNone then Inr False
       else
         bind_result (case user_ids of None \<Rightarrow> Inr False
                      | Some _ \<Rightarrow> bind_result (get_attr user ''id'') (excluded_by user_ids)) (\<lambda>no_id.
         if no_id then Inr False
         else bind_result (case usernames of None \<Rightarrow> Inr False
                      | Some _ \<Rightarrow> bind_result (get_attr user ''username'') (excluded_by usernames)) (\<lambda>no_name.
         if no_name then Inr False
         else bind_result (case allow_bots of None \<Rightarrow> Inr False
                      | Some b \<Rightarrow> bind_result (get_attr user ''bot'') (\<lambda>x. Inr (\<not> py_eq x b))) (\<lambda>no_bot.
         Inr (\<not> no_bot)))))"

definition bot_filter :: "pval list option \<Rightarrow> pval list option \<Rightarrow> pval \<Rightarrow> pval \<Rightarrow> bool result" where
  "bot_filter bot_ids bot_usernames ev bot_arg =
     bind_result (if truthy bot_arg then Inr bot_arg else get_attr ev ''bot'') (\<lambda>b.
       if b = VNone then Inr False
       else bind_result (excluded_by bot_ids (get_attr_default b ''id'' VNone)) (\<lambda>x.
         if x then Inr False
         else bind_result (excluded_by bot_usernames (get_attr_default b ''username'' VNone)) (\<lambda>y. Inr (\<not> y))))"

text \<open>The message filters that \<open>on_topic_message\<close> and its siblings register.\<close>

definition channel_type_name :: "pval \<Rightarrow> string \<Rightarrow> bool" where
  "channel_type_name v nm = (case v of
     VEnum c n x \<Rightarrow> c = ''ChannelType'' \<and> (case map_of channel_type_members nm of Some i \<Rightarrow> x = VInt i | None \<Rightarrow> False)
   | _ \<Rightarrow> False)"

definition channel_type_in :: "string list \<Rightarrow> pval \<Rightarrow> bool result" where
  "channel_type_in names ev =
     bind_result (own_or_message ev ''channel'' ''channel'') (\<lambda>ch.
       if ch = VNone then Inr False
       else bind_result (get_attr ch ''type'') (\<lambda>ty.
         if hashable ty then Inr (\<exists>n \<in> set names. channel_type_name ty n) else Inl (TypeError ''unhashable type'')))"

definition topic_filter :: "pval \<Rightarrow> bool result" where
  "topic_filter = channel_type_in [''PUBLIC_THREAD'', ''PRIVATE_THREAD'', ''NEWS_THREAD'', ''FORUM'', ''GUILD_MEDIA'']"

definition private_filter :: "pval \<Rightarrow> bool result" where
  "private_filter = channel_type_in [''DM'', ''GROUP_DM'']"

definition guild_filter :: "pval \<Rightarrow> bool result" where
  "guild_filter ev =
     bind_result (get_attr ev ''guild'') (\<lambda>g.
       if g \<noteq> VNone then Inr True
       else bind_result (get_attr ev ''message'') (\<lambda>msg.
         bind_result (if msg \<noteq> VNone then get_attr msg ''guild'' else Inr VNone) (\<lambda>mg.
           if mg \<noteq> VNone then Inr True
           else bind_result (get_attr ev ''data'') (\<lambda>d.
             case d of VDict kv \<Rightarrow> Inr (truthy (dict_get kv ''guild_id'' VNone))
                     | _ \<Rightarrow> Inl (AttributeError ''get'')))))"

definition chat_type_text :: "pval \<Rightarrow> string" where
  "chat_type_text x =
     (case x of VEnum _ n _ \<Rightarrow> py_lower n | VStr s \<Rightarrow> py_lower s | VInt i \<Rightarrow> show_int i | _ \<Rightarrow> [])"

datatype chat_expected = ExpList "pval list" | ExpOne pval

definition chat_type_filter :: "chat_expected \<Rightarrow> pval \<Rightarrow> bool result" where
  "chat_type_filter expected ev =
     bind_result (own_or_message ev ''channel'' ''channel'') (\<lambda>ch.
       if ch = VNone then Inr False
       else bind_result (get_attr ch ''type'') (\<lambda>ty.
         case ty of
           VEnum _ n (VInt i) \<Rightarrow>
             (case expected of
                ExpList xs \<Rightarrow> Inr (py_lower n \<in> chat_type_text ` set xs \<or> show_int i \<in> chat_type_text ` set xs)
              | ExpOne x \<Rightarrow>
                  (case x of
                     VEnum _ _ _ \<Rightarrow> Inr (py_eq ty x)
                   | VStr s \<Rightarrow> Inr (py_lower n = py_lower s \<or> show_int i = s)
                   | VInt j \<Rightarrow> Inr (py_lower n = show_int j \<or> i = j)
                   | _ \<Rightarrow> Inr False))
         | _ \<Rightarrow> Inl (AttributeError ''name'')))"

section \<open>Laws of filter expressions\<close>

text \<open>
  A filter that neither changes the world nor raises is its result; for such filters the
  operators are boolean operators on passing, with the data merged from left to right.
\<close>

definition const_filter :: "(nat \<Rightarrow> pval) \<Rightarrow> 'w filter_fun" where
  "const_filter r = (\<lambda>e w. (Inr (r e), w))"

definition passes :: "pval \<Rightarrow> bool" where
  "passes v = fst (to_pass_and_data v)"

definition data_of :: "pval \<Rightarrow> vdict" where
  "data_of v = snd (to_pass_and_data v)"

lemma passes_simps [simp]:
  "passes (VDict d)" "passes (VBool b) = b" "data_of (VDict d) = d" "data_of (VBool b) = []"
  by (simp_all add: passes_def data_of_def to_pass_and_data_def truthy_def)

lemma data_imp_passes: "data_of v \<noteq> [] \<Longrightarrow> passes v"
  by (cases v) (auto simp: passes_def data_of_def to_pass_and_data_def)

lemma filter_and_const:
  "\<exists>v. filter_and (const_filter f) (const_filter g) e w = (Inr v, w) \<and>
       passes v = (passes (f e) \<and> passes (g e)) \<and>
       (passes v \<longrightarrow> data_of v = dict_update (dict_of (data_of (f e))) (data_of (g e)))"
  by (auto simp: filter_and_def const_filter_def passes_def data_of_def to_pass_and_data_def
      truthy_def Let_def split: prod.splits pval.splits)

lemma filter_or_const:
  "\<exists>v. filter_or (const_filter f) (const_filter g) e w = (Inr v, w) \<and>
       passes v = (passes (f e) \<or> passes (g e)) \<and>
       data_of v = (if passes (f e) then data_of (f e) else data_of (g e))"
  by (auto simp: filter_or_def const_filter_def passes_def data_of_def to_pass_and_data_def
      truthy_def split: prod.splits pval.splits)

text \<open>
  Filter expressions are boolean operators on passing. A conjunction passes exactly when
  both sides do, with the data of both merged right over left; a disjunction passes when one
  does, with the data of the first that passes; a negation passes exactly when the filter
  does not, except that an empty dictionary passes both as it is and negated.
\<close>

theorem filter_expression_laws:
  "(\<exists>v. filter_and (const_filter f) (const_filter g) e w = (Inr v, w) \<and>
        passes v = (passes (f e) \<and> passes (g e)) \<and>
        (if passes v then data_of v = dict_update (dict_of (data_of (f e))) (data_of (g e)) else data_of v = [])) \<and>
   (\<exists>v. filter_or (const_filter f) (const_filter g) e w = (Inr v, w) \<and>
        passes v = (passes (f e) \<or> passes (g e)) \<and>
        data_of v = (if passes (f e) then data_of (f e) else data_of (g e))) \<and>
   (\<exists>v. filter_not (const_filter f) e w = (Inr v, w) \<and>
        passes v = (if f e = VDict [] then True else \<not> passes (f e)))"
proof -
  have "\<exists>v. filter_and (const_filter f) (const_filter g) e w = (Inr v, w) \<and>
        passes v = (passes (f e) \<and> passes (g e)) \<and>
        (if passes v then data_of v = dict_update (dict_of (data_of (f e))) (data_of (g e)) else data_of v = [])"
    using filter_and_const [of f g e w] data_imp_passes by metis
  moreover have "\<exists>v. filter_not (const_filter f) e w = (Inr v, w) \<and>
        passes v = (if f e = VDict [] then True else \<not> passes (f e))"
    by (cases "f e") (auto simp: filter_not_def const_filter_def passes_def to_pass_and_data_def truthy_def)
  ultimately show ?thesis using filter_or_const [of f g e w] by simp
qed

text \<open>
  A command filter looks at the first word of the message only: it is recognised under
  the first configured prefix it starts with, up to a bot mention, whatever follows after a
  blank.
\<close>

theorem command_filter_first_word:
  assumes "resolve_path ev path (VStr []) = VStr (p @ nm @ mention @ rest)"
    and "p \<in> set prefixes" and "p \<noteq> []" and "\<And>q. q \<in> set prefixes \<Longrightarrow> q \<noteq> p \<Longrightarrow> \<not> starts_with (p @ nm @ mention) q"
    and "CHR '' '' \<notin> set (p @ nm @ mention)" and "CHR ''@'' \<notin> set nm"
    and "mention = [] \<or> hd mention = CHR ''@''"
    and "py_strip (p @ nm @ mention @ rest) = p @ nm @ mention @ rest" and "rest = [] \<or> hd rest = CHR '' ''"
  shows "command_filter commands prefixes ignore_case path ev = command_matches commands ignore_case nm"
proof -
  let ?token = "p @ nm @ mention"
  have tok: "takeWhile (\<lambda>c. c \<noteq> CHR '' '') (p @ nm @ mention @ rest) = ?token"
  proof -
    have "takeWhile (\<lambda>c. c \<noteq> CHR '' '') (?token @ rest) = ?token @ takeWhile (\<lambda>c. c \<noteq> CHR '' '') rest"
      using assms(5) by (intro takeWhile_append2) auto
    moreover have "takeWhile (\<lambda>c. c \<noteq> CHR '' '') rest = []" using assms(9) by (cases rest) auto
    ultimately show ?thesis by simp
  qed
  have "starts_with ?token p" by (simp add: starts_with_def)
  then have found: "find (starts_with ?token) prefixes = Some p"
    using assms(2,4)
  proof (induction prefixes)
    case (Cons q qs)
    then show ?case by (cases "q = p") auto
  qed simp
  have "command_name ?token p = nm"
    unfolding command_name_def using assms(6,7) by (cases mention) (auto simp: takeWhile_append)
  then show ?thesis using assms(1,3,8) tok found by (simp add: command_filter_def Let_def)
qed

theorem command_filter_first_word_witness:
  "command_start_filter (VInst ''Event'' [(''message'', VInst ''Message'' [(''content'', VStr ''!Start@vaid now'')])])
     = command_matches [''start''] True ''Start''"
  unfolding command_start_filter_def
  by (rule command_filter_first_word [where p = "''!''" and nm = "''Start''" and mention = "''@vaid''" and rest = "'' now''"])
    (auto simp: resolve_path_def get_attr_default_def dict_get_def default_prefixes_def starts_with_def
      is_space_def py_strip_def)

end
