(* ===== verification/RouterDispatch.thy ===== *)
theory RouterDispatch
  imports RouterResolution Filters
begin

text \<open>
  Event propagation through the router tree (router.py: \<open>propagate_event\<close> and the two
  middleware executors). Events are mutable objects: they live in the world under an
  address, with the context the dispatch fills in. Handlers, filters and middleware are user
  code, given as programs on the world; a middleware is a program that takes the rest of the
  chain as an argument and may call it any number of times with any event. The interpreter's
  recursion limit is the fuel \<open>n\<close>; exceeding it raises RecursionError, as in Python. The
  loops over child routers and handlers read their lists when they start: code that edits
  the registry while it dispatches is outside the model.
\<close>

section \<open>World and programs\<close>

record event =
  ev_type :: event_type
  ev_bot :: pval
  ev_attrs :: vdict
  ev_context :: vdict

record ('c, 'u) world =
  w_store :: "('c, pval) store"
  w_events :: "nat \<Rightarrow> event"
  w_fresh :: nat
  w_user :: 'u

type_synonym ('c, 'u) out = "('c, 'u) world fout"
type_synonym ('c, 'u) next_handler = "nat \<Rightarrow> ('c, 'u) world \<Rightarrow> ('c, 'u) out"

text \<open>
  User code. A class-based middleware receives a handler that takes the event and a data
  argument it ignores, and the context of the event (which it reads in the world).
\<close>

record ('c, 'u) user_code =
  uc_is_base_middleware :: "'c \<Rightarrow> bool"
  uc_base_middleware :: "'c \<Rightarrow> (nat \<Rightarrow> vdict \<Rightarrow> ('c, 'u) world \<Rightarrow> ('c, 'u) out) \<Rightarrow> nat \<Rightarrow> vdict \<Rightarrow> ('c, 'u) world \<Rightarrow> ('c, 'u) out"
  uc_middleware :: "'c \<Rightarrow> nat \<Rightarrow> ('c, 'u) next_handler \<Rightarrow> ('c, 'u) world \<Rightarrow> ('c, 'u) out"
  uc_filter :: "'c \<Rightarrow> ('c, 'u) world filter_obj"
  uc_handler :: "'c \<Rightarrow> nat option \<Rightarrow> vdict \<Rightarrow> ('c, 'u) world \<Rightarrow> ('c, 'u) out"
  uc_isinstance :: "pval \<Rightarrow> string \<Rightarrow> bool option"

definition upd_context :: "nat \<Rightarrow> (vdict \<Rightarrow> vdict) \<Rightarrow> ('c, 'u) world \<Rightarrow> ('c, 'u) world" where
  "upd_context e f w =
     w\<lparr>w_events := (w_events w)(e := (w_events w e)\<lparr>ev_context := f (ev_context (w_events w e))\<rparr>)\<rparr>"

section \<open>Middleware chains\<close>

definition invoke_middleware ::
  "('c, 'u) user_code \<Rightarrow> 'c \<Rightarrow> nat \<Rightarrow> ('c, 'u) next_handler \<Rightarrow> ('c, 'u) world \<Rightarrow> ('c, 'u) out" where
  "invoke_middleware uc mw e nxt w =
     (if uc_is_base_middleware uc mw
      then uc_base_middleware uc mw (\<lambda>inner_event data. nxt inner_event) e (ev_context (w_events w e)) w
      else uc_middleware uc mw e nxt w)"

definition catch_stop :: "('c, 'u) out \<Rightarrow> ('c, 'u) out" where
  "catch_stop r = (case r of (Inl StopPropagation, w) \<Rightarrow> (Inr VNone, w) | _ \<Rightarrow> r)"

function call_chain ::
  "('c, 'u) user_code \<Rightarrow> 'c list \<Rightarrow> ('c, 'u) next_handler \<Rightarrow> nat \<Rightarrow> ('c, 'u) next_handler" where
  "call_chain uc chain handler i e w =
     (if length chain \<le> i then handler e w
      else catch_stop (invoke_middleware uc (chain ! i) e (\<lambda>e1. call_chain uc chain handler (i + 1) e1) w))"
  by pat_completeness auto

termination
  by (relation "measure (\<lambda>(uc, chain, handler, i, e, w). length chain - i)") auto

declare call_chain.simps [simp del]

text \<open>A resolution that exceeds the recursion limit raises.\<close>

definition with_resolved ::
  "('x \<times> ('c, pval) store) option \<Rightarrow> ('x \<Rightarrow> ('c, 'u) world \<Rightarrow> ('c, 'u) out) \<Rightarrow> ('c, 'u) world \<Rightarrow> ('c, 'u) out" where
  "with_resolved r k w =
     (case r of None \<Rightarrow> (Inl RecursionError, w) | Some (x, st) \<Rightarrow> k x (w\<lparr>w_store := st\<rparr>))"

definition execute_outer_middlewares ::
  "('c, 'u) user_code \<Rightarrow> nat \<Rightarrow> nat \<Rightarrow> nat \<Rightarrow> ('c, 'u) next_handler \<Rightarrow> ('c, 'u) world \<Rightarrow> ('c, 'u) out" where
  "execute_outer_middlewares uc rl i e handler w =
     with_resolved (resolve_outer_middleware_configs rl (ev_type (w_events w e)) i (w_store w))
       (\<lambda>configs. call_chain uc (map lc_item configs) handler 0 e) w"

definition execute_with_middlewares ::
  "('c, 'u) user_code \<Rightarrow> nat \<Rightarrow> nat \<Rightarrow> nat \<Rightarrow> ('c, 'u) next_handler \<Rightarrow> ('c, 'u) world \<Rightarrow> ('c, 'u) out" where
  "execute_with_middlewares uc rl i e handler w =
     with_resolved (resolve_middleware_configs rl (ev_type (w_events w e)) i (w_store w))
       (\<lambda>configs. call_chain uc (map lc_item configs) handler 0 e) w"

section \<open>Guarded handlers\<close>

text \<open>
  The filter loop: \<open>Inr (Some data)\<close> when every filter passed, \<open>Inr None\<close> when one did not
  or raised an Exception; a BaseException escapes.
\<close>

primrec run_filters ::
  "('c, 'u) user_code \<Rightarrow> 'c list \<Rightarrow> vdict \<Rightarrow> nat \<Rightarrow> ('c, 'u) world \<Rightarrow> (exn + vdict option) \<times> ('c, 'u) world" where
  "run_filters uc [] acc e w = (Inr (Some acc), w)"
| "run_filters uc (f # fs) acc e w =
     (case run_filter_with_data (uc_filter uc f) e w of
        (Inl x, w1) \<Rightarrow> if is_exception x then (Inr None, w1) else (Inl x, w1)
      | (Inr (passed, data), w1) \<Rightarrow>
          if passed then run_filters uc fs (dict_update acc data) e w1 else (Inr None, w1))"

text \<open>\<open>context.setdefault("filter_data", {}).update(filter_data)\<close>.\<close>

definition merge_filter_data :: "vdict \<Rightarrow> vdict \<Rightarrow> vdict result" where
  "merge_filter_data ctx data =
     (if data = [] then Inr ctx
      else case dict_get ctx ''filter_data'' (VDict []) of
             VDict d \<Rightarrow> Inr (dict_set ctx ''filter_data'' (VDict (dict_update d data)))
           | _ \<Rightarrow> Inl (AttributeError ''update''))"

definition context_filter_data :: "vdict \<Rightarrow> vdict result" where
  "context_filter_data ctx =
     (case dict_get ctx ''filter_data'' (VDict []) of VDict d \<Rightarrow> Inr d | _ \<Rightarrow> Inl (TypeError ''not a mapping''))"

definition call_handler ::
  "('c, 'u) user_code \<Rightarrow> nat \<Rightarrow> nat \<Rightarrow> 'c handler_config \<Rightarrow> nat \<Rightarrow> ('c, 'u) world \<Rightarrow> ('c, 'u) out" where
  "call_handler uc rl i config e w =
     with_resolved (resolve_dependencies rl i (w_store w)) (\<lambda>deps w1.
       let ctx = ev_context (w_events w1 e) in
       case context_filter_data ctx of
         Inl x \<Rightarrow> (Inl (Exc x), w1)
       | Inr fdata \<Rightarrow>
           (let kwargs = build_handler_kwargs (uc_isinstance uc) deps
                  (filter (\<lambda>kv. fst kv \<noteq> ''filter_data'') ctx) fdata
                  (hc_accepted_kwargs config) (hc_accepted_annotations config)
            in uc_handler uc (hc_handler config) (if hc_pass_event config then Some e else None) kwargs w1)) w"

definition guarded_handler ::
  "('c, 'u) user_code \<Rightarrow> nat \<Rightarrow> nat \<Rightarrow> nat \<Rightarrow> 'c list \<Rightarrow> 'c handler_config \<Rightarrow> ('c, 'u) next_handler" where
  "guarded_handler uc rl i skipped router_filters config e w =
     (case run_filters uc (router_filters @ hc_filters config) [] e w of
        (Inl x, w1) \<Rightarrow> (Inl x, w1)
      | (Inr None, w1) \<Rightarrow> (Inr (VRef skipped), w1)
      | (Inr (Some data), w1) \<Rightarrow>
          (case merge_filter_data (ev_context (w_events w1 e)) data of
             Inl x \<Rightarrow> (Inl (Exc x), w1)
           | Inr ctx \<Rightarrow> call_handler uc rl i config e (upd_context e (\<lambda>_. ctx) w1)))"

section \<open>Propagation\<close>

definition event_attribute_names :: "string list" where
  "event_attribute_names =
     [''message'', ''user'', ''guild'', ''channel'', ''interaction'', ''object'', ''payload'', ''ready'',
      ''resume'', ''deleted_message'', ''deleted_messages'', ''reaction'', ''typing'', ''poll_vote'']"

definition enrich_context :: "vdict \<Rightarrow> nat \<Rightarrow> event \<Rightarrow> vdict" where
  "enrich_context deps e ev =
     (let c1 = (if deps \<noteq> [] then dict_update (ev_context ev) deps else ev_context ev);
          c2 = (if ev_bot ev \<noteq> VNone then dict_set c1 ''bot'' (ev_bot ev) else c1);
          c3 = dict_setdefault c2 ''event'' (VRef e)
      in fold (\<lambda>nm c. let v = dict_get (ev_attrs ev) nm VNone in
                       if v \<noteq> VNone then dict_setdefault c nm v else c)
           event_attribute_names c3)"

text \<open>A loop over programs that stops at the first exception, threading the result.\<close>

primrec run_each :: "('a \<Rightarrow> pval \<Rightarrow> ('c, 'u) world \<Rightarrow> ('c, 'u) out) \<Rightarrow> 'a list \<Rightarrow> pval \<Rightarrow> ('c, 'u) world \<Rightarrow> ('c, 'u) out" where
  "run_each f [] r w = (Inr r, w)"
| "run_each f (x # xs) r w = bind_fout (f x r w) (\<lambda>r1 w1. run_each f xs r1 w1)"

definition run_children ::
  "(nat \<Rightarrow> ('c, 'u) world \<Rightarrow> ('c, 'u) out) \<Rightarrow> nat list \<Rightarrow> ('c, 'u) world \<Rightarrow> ('c, 'u) out" where
  "run_children propagate routers w =
     run_each (\<lambda>j r w1. bind_fout (propagate j w1) (\<lambda>v w2. (Inr (if v \<noteq> VNone then v else r), w2)))
       routers VNone w"

definition run_handlers ::
  "('c, 'u) user_code \<Rightarrow> nat \<Rightarrow> nat \<Rightarrow> nat \<Rightarrow> 'c list \<Rightarrow> 'c handler_config list \<Rightarrow> nat \<Rightarrow> pval \<Rightarrow> ('c, 'u) world \<Rightarrow> ('c, 'u) out" where
  "run_handlers uc rl i skipped router_filters handlers e r w =
     run_each (\<lambda>config r w1.
         bind_fout (execute_with_middlewares uc rl i e (guarded_handler uc rl i skipped router_filters config) w1)
           (\<lambda>v w2. (Inr (if v \<noteq> VRef skipped then v else r), w2)))
       handlers r w"

definition inner_dispatch ::
  "('c, 'u) user_code \<Rightarrow> nat \<Rightarrow> (nat \<Rightarrow> nat \<Rightarrow> ('c, 'u) world \<Rightarrow> ('c, 'u) out) \<Rightarrow> nat \<Rightarrow> nat \<Rightarrow> ('c, 'u) world \<Rightarrow> ('c, 'u) out" where
  "inner_dispatch uc rl propagate i e w =
     (let skipped = w_fresh w; w0 = w\<lparr>w_fresh := Suc skipped\<rparr> in
      bind_fout (run_children (\<lambda>j. propagate j e) (r_routers (w_store w0 i)) w0) (\<lambda>result w1.
        let et = ev_type (w_events w1 e); handlers = get_handlers et (w_store w1 i) in
        with_resolved (resolve_router_filter_configs rl et i (w_store w1)) (\<lambda>configs.
          run_handlers uc rl i skipped (map lc_item configs) handlers e result) w1))"

primrec propagate_event ::
  "('c, 'u) user_code \<Rightarrow> nat \<Rightarrow> nat \<Rightarrow> nat \<Rightarrow> nat \<Rightarrow> ('c, 'u) world \<Rightarrow> ('c, 'u) out" where
  "propagate_event uc rl 0 i e w = (Inl RecursionError, w)"
| "propagate_event uc rl (Suc n) i e w =
     with_resolved (resolve_dependencies rl i (w_store w)) (\<lambda>deps w1.
       let w2 = upd_context e (\<lambda>_. enrich_context deps e (w_events w1 e)) w1 in
       execute_outer_middlewares uc rl i e (inner_dispatch uc rl (propagate_event uc rl n) i) w2) w"

end
