(* ===== verification/DispatchLaws.thy ===== *)
theory DispatchLaws
  imports RouterDispatch
begin

text \<open>
  Laws of event propagation: middleware nests like an onion, StopPropagation stops at a
  middleware layer, filters gate handlers, results are taken from the last handler that ran,
  and the resolution caches are unobservable.
\<close>

section \<open>Middleware chains\<close>

definition layer :: "('c, 'u) user_code \<Rightarrow> 'c \<Rightarrow> ('c, 'u) next_handler \<Rightarrow> ('c, 'u) next_handler" where
  "layer uc mw nxt = (\<lambda>e w. catch_stop (invoke_middleware uc mw e nxt w))"

lemma layer_apply: "layer uc mw nxt e w = catch_stop (invoke_middleware uc mw e nxt w)"
  by (simp add: layer_def)

lemma call_chain_foldr: "call_chain uc chain handler i = foldr (layer uc) (drop i chain) handler"
proof (induction "length chain - i" arbitrary: i)
  case 0
  then show ?case by (intro ext) (simp add: call_chain.simps [of uc chain handler i])
next
  case (Suc k)
  then have i: "i < length chain" and ih: "call_chain uc chain handler (i + 1) = foldr (layer uc) (drop (i + 1) chain) handler"
    by simp_all
  have "call_chain uc chain handler i e w = layer uc (chain ! i) (call_chain uc chain handler (i + 1)) e w" for e w
    using i by (simp add: call_chain.simps [of uc chain handler i] layer_def)
  then show ?case using i ih by (intro ext) (simp add: Cons_nth_drop_Suc [symmetric])
qed

lemma catch_stop_no_stop: "fst (catch_stop r) \<noteq> Inl StopPropagation"
  by (cases r) (auto simp: catch_stop_def split: sum.splits exn.splits)

lemma catch_stop_other: "fst r \<noteq> Inl StopPropagation \<Longrightarrow> catch_stop r = r"
  by (cases r) (auto simp: catch_stop_def split: sum.splits exn.splits)

lemma call_chain_no_stop:
  "chain \<noteq> [] \<Longrightarrow> fst (call_chain uc chain handler 0 e w) \<noteq> Inl StopPropagation"
  by (cases chain) (simp_all add: call_chain_foldr layer_def catch_stop_no_stop)

text \<open>A middleware that logs, calls the rest once with the same event, and logs again.\<close>

definition wraps :: "('c, 'u) user_code \<Rightarrow> ('c \<Rightarrow> ('c, 'u) world \<Rightarrow> ('c, 'u) world) \<Rightarrow>
    ('c \<Rightarrow> ('c, 'u) world \<Rightarrow> ('c, 'u) world) \<Rightarrow> 'c \<Rightarrow> bool" where
  "wraps uc before after mw \<longleftrightarrow>
     (\<forall>e nxt w. invoke_middleware uc mw e nxt w =
        (case nxt e (before mw w) of (r, w1) \<Rightarrow> (r, after mw w1)))"

lemma onion:
  assumes "\<And>mw. mw \<in> set chain \<Longrightarrow> wraps uc before after mw"
    and "\<And>e w. fst (handler e w) \<noteq> Inl StopPropagation"
  shows "call_chain uc chain handler 0 e w =
    (case handler e (fold before chain w) of (r, w1) \<Rightarrow> (r, foldr after chain w1))"
proof -
  have "foldr (layer uc) chain handler e w =
      (case handler e (fold before chain w) of (r, w1) \<Rightarrow> (r, foldr after chain w1))"
    using assms(1)
  proof (induction chain arbitrary: w)
    case (Cons mw chain)
    obtain r w1 where h: "handler e (fold before chain (before mw w)) = (r, w1)" by fastforce
    have "foldr (layer uc) chain handler e (before mw w) = (r, foldr after chain w1)"
      using Cons.IH [of "before mw w"] Cons.prems h by simp
    then have inv: "invoke_middleware uc mw e (foldr (layer uc) chain handler) w = (r, after mw (foldr after chain w1))"
      using Cons.prems [of mw] by (simp add: wraps_def)
    have "r \<noteq> Inl StopPropagation" using assms(2) [of e "fold before chain (before mw w)"] h by simp
    moreover have "foldr (layer uc) (mw # chain) handler e w = catch_stop (invoke_middleware uc mw e (foldr (layer uc) chain handler) w)"
      by (simp add: layer_apply [of uc mw "foldr (layer uc) chain handler"])
    ultimately show ?case using inv h by (simp add: catch_stop_other)
  qed simp
  then show ?thesis by (simp add: call_chain_foldr)
qed

section \<open>Filters gate handlers\<close>

inductive filters_pass ::
  "('c, 'u) user_code \<Rightarrow> nat \<Rightarrow> 'c list \<Rightarrow> vdict \<Rightarrow> ('c, 'u) world \<Rightarrow> vdict \<Rightarrow> ('c, 'u) world \<Rightarrow> bool"
  for uc e where
  none: "filters_pass uc e [] acc w acc w"
| one: "run_filter_with_data (uc_filter uc f) e w = (Inr (True, data), w1) \<Longrightarrow>
    filters_pass uc e fs (dict_update acc data) w1 res w2 \<Longrightarrow> filters_pass uc e (f # fs) acc w res w2"

definition rejects :: "('c, 'u) user_code \<Rightarrow> nat \<Rightarrow> 'c \<Rightarrow> ('c, 'u) world \<Rightarrow> ('c, 'u) world \<Rightarrow> bool" where
  "rejects uc e f w w1 \<longleftrightarrow>
     (\<exists>data. run_filter_with_data (uc_filter uc f) e w = (Inr (False, data), w1)) \<or>
     (\<exists>x. is_exception x \<and> run_filter_with_data (uc_filter uc f) e w = (Inl x, w1))"

lemma run_filters_pass: "filters_pass uc e fs acc w res w1 \<Longrightarrow> run_filters uc (fs @ gs) acc e w = run_filters uc gs res e w1"
  by (induction rule: filters_pass.induct) simp_all

lemma run_filters_reject:
  "filters_pass uc e fs acc w res w1 \<Longrightarrow> rejects uc e f w1 w2 \<Longrightarrow> run_filters uc (fs @ f # gs) acc e w = (Inr None, w2)"
  by (auto simp: run_filters_pass rejects_def)

lemma run_filters_total:
  "(\<exists>res w1. filters_pass uc e fs acc w res w1 \<and> run_filters uc fs acc e w = (Inr (Some res), w1)) \<or>
   (\<exists>gs f hs res w1 w2. fs = gs @ f # hs \<and> filters_pass uc e gs acc w res w1 \<and> rejects uc e f w1 w2 \<and>
      run_filters uc fs acc e w = (Inr None, w2)) \<or>
   (\<exists>x w1. \<not> is_exception x \<and> run_filters uc fs acc e w = (Inl x, w1))"
proof (induction fs arbitrary: acc w)
  case Nil
  then show ?case by (auto intro: filters_pass.none)
next
  case (Cons f fs)
  obtain r w1 where r: "run_filter_with_data (uc_filter uc f) e w = (r, w1)" by fastforce
  show ?case
  proof (cases r)
    case (Inl x)
    then show ?thesis
      using r filters_pass.none [of uc e acc w] by (cases "is_exception x") (fastforce simp: rejects_def)+
  next
    case (Inr pd)
    obtain p data where pd: "pd = (p, data)" by fastforce
    show ?thesis
    proof (cases p)
      case False
      then show ?thesis using r Inr pd filters_pass.none [of uc e acc w] by (fastforce simp: rejects_def)
    next
      case True
      have step: "run_filters uc (f # fs) acc e w = run_filters uc fs (dict_update acc data) e w1"
        using r Inr pd True by simp
      have ext: "filters_pass uc e gs (dict_update acc data) w1 res w2 \<Longrightarrow> filters_pass uc e (f # gs) acc w res w2" for gs res w2
        using r Inr pd True by (auto intro: filters_pass.one)
      from Cons [of "dict_update acc data" w1] show ?thesis
        unfolding step by (elim disjE exE conjE) (blast intro: ext, metis append_Cons ext, blast)
    qed
  qed
qed

section \<open>The caches are unobservable\<close>

definition strip :: "('c, 'd) store \<Rightarrow> ('c, 'd) store" where
  "strip st = (\<lambda>i. clear_caches (st i))"

lemma clear_caches_fields [simp]:
  "r_handlers (clear_caches r) = r_handlers r" "r_middlewares (clear_caches r) = r_middlewares r"
  "r_outer_middlewares (clear_caches r) = r_outer_middlewares r"
  "r_router_filters (clear_caches r) = r_router_filters r" "r_dependencies (clear_caches r) = r_dependencies r"
  by (simp_all add: clear_caches_def)

lemma strip_eqD:
  assumes "strip st = strip st'"
  shows "r_parent (st i) = r_parent (st' i)" "r_routers (st i) = r_routers (st' i)"
    "r_handlers (st i) = r_handlers (st' i)" "r_middlewares (st i) = r_middlewares (st' i)"
    "r_outer_middlewares (st i) = r_outer_middlewares (st' i)" "r_router_filters (st i) = r_router_filters (st' i)"
    "r_dependencies (st i) = r_dependencies (st' i)"
proof -
  have eq: "clear_caches (st i) = clear_caches (st' i)" using fun_cong [OF assms, of i] by (simp add: strip_def)
  show "r_parent (st i) = r_parent (st' i)" "r_routers (st i) = r_routers (st' i)"
    "r_handlers (st i) = r_handlers (st' i)" "r_middlewares (st i) = r_middlewares (st' i)"
    "r_outer_middlewares (st i) = r_outer_middlewares (st' i)" "r_router_filters (st i) = r_router_filters (st' i)"
    "r_dependencies (st i) = r_dependencies (st' i)"
    using arg_cong [OF eq, of r_parent] arg_cong [OF eq, of r_routers] arg_cong [OF eq, of r_handlers]
      arg_cong [OF eq, of r_middlewares] arg_cong [OF eq, of r_outer_middlewares]
      arg_cong [OF eq, of r_router_filters] arg_cong [OF eq, of r_dependencies] by simp_all
qed

lemma root_path_strip_eq: "strip st = strip st' \<Longrightarrow> root_path n i st = root_path n i st'"
proof (induction n arbitrary: i)
  case (Suc n)
  show ?case using strip_eqD(1) [OF Suc.prems, of i] Suc.IH [OF Suc.prems] by (simp split: option.split)
qed simp

lemma strip_put:
  "(\<And>x r. clear_caches (put x r) = clear_caches r) \<Longrightarrow> strip (st(i := put x (st i))) = strip st"
  by (auto simp: strip_def)

lemma resolve_via_strip:
  assumes "\<And>x r. clear_caches (put x r) = clear_caches r" and "resolve_via get put combine n i st = Some (x, st')"
  shows "strip st' = strip st"
  using assms(2)
proof (induction n arbitrary: i x st')
  case (Suc n)
  show ?case
  proof (cases "get (st i)")
    case None
    show ?thesis
    proof (cases "r_parent (st i)")
      case par: None
      then show ?thesis using Suc.prems None strip_put [of put st i, OF assms(1)] by (auto simp: Let_def)
    next
      case (Some q)
      obtain up st1 where up: "resolve_via get put combine n q st = Some (up, st1)"
        using Suc.prems None Some by (auto simp: Let_def split: option.splits)
      have "strip st1 = strip st" by (rule Suc.IH [OF up])
      then show ?thesis using Suc.prems None Some up strip_put [of put st1 i, OF assms(1)] by (auto simp: Let_def)
    qed
  qed (use Suc.prems in simp)
qed simp

lemma resolve_strip:
  "resolve_middleware_configs n et i st = Some (x, st') \<Longrightarrow> strip st' = strip st"
  "resolve_outer_middleware_configs n et i st = Some (x, st') \<Longrightarrow> strip st' = strip st"
  "resolve_router_filter_configs n et i st = Some (x, st') \<Longrightarrow> strip st' = strip st"
  "resolve_dependencies n i st = Some (y, st') \<Longrightarrow> strip st' = strip st"
  unfolding resolve_middleware_configs_def resolve_outer_middleware_configs_def
    resolve_router_filter_configs_def resolve_dependencies_def
  by (erule resolve_via_strip [rotated], simp add: clear_caches_def)+

text \<open>
  Two worlds that differ in cache contents only, both with a sound registry whose routers
  are no deeper than the recursion limit.
\<close>

definition wrel :: "nat \<Rightarrow> ('c, 'u) world \<Rightarrow> ('c, 'u) world \<Rightarrow> bool" where
  "wrel rl w w' \<longleftrightarrow>
     registry_inv (w_store w) \<and> registry_inv (w_store w') \<and> (\<forall>i. root_path rl i (w_store w) \<noteq> None) \<and>
     strip (w_store w) = strip (w_store w') \<and>
     w_events w = w_events w' \<and> w_fresh w = w_fresh w' \<and> w_user w = w_user w'"

definition resp :: "nat \<Rightarrow> (('c, 'u) world \<Rightarrow> 'r \<times> ('c, 'u) world) \<Rightarrow> bool" where
  "resp rl k \<longleftrightarrow> (\<forall>w w'. wrel rl w w' \<longrightarrow> fst (k w) = fst (k w') \<and> wrel rl (snd (k w)) (snd (k w')))"

definition agrees :: "nat \<Rightarrow> (('c, pval) store \<Rightarrow> ('x \<times> ('c, pval) store) option) \<Rightarrow> ('c, 'u) world itself \<Rightarrow> bool" where
  "agrees rl R T \<longleftrightarrow> (\<forall>w w' :: ('c, 'u) world. wrel rl w w' \<longrightarrow>
     (\<exists>x st st'. R (w_store w) = Some (x, st) \<and> R (w_store w') = Some (x, st') \<and>
        wrel rl (w\<lparr>w_store := st\<rparr>) (w'\<lparr>w_store := st'\<rparr>)))"

lemma agreesI:
  fixes T :: "('c, 'u) world itself"
  assumes "\<And>st path. registry_inv st \<Longrightarrow> root_path rl i st = Some path \<Longrightarrow>
      \<exists>st'. R st = Some (val (map (\<lambda>j. own (st j)) path), st') \<and> registry_inv st'"
    and "\<And>st x st'. R st = Some (x, st') \<Longrightarrow> strip st' = strip st"
    and "\<And>st st' j. strip st = strip st' \<Longrightarrow> own (st j) = own (st' j)"
  shows "agrees rl R T"
  unfolding agrees_def
proof (intro allI impI)
  fix w w' :: "('c, 'u) world"
  assume rel: "wrel rl w w'"
  then obtain path where path: "root_path rl i (w_store w) = Some path" by (auto simp: wrel_def)
  have s: "strip (w_store w) = strip (w_store w')" using rel by (simp add: wrel_def)
  then have path': "root_path rl i (w_store w') = Some path" using path root_path_strip_eq by metis
  obtain st where st: "R (w_store w) = Some (val (map (\<lambda>j. own (w_store w j)) path), st)" "registry_inv st"
    using assms(1) [OF _ path] rel by (auto simp: wrel_def)
  obtain st' where st': "R (w_store w') = Some (val (map (\<lambda>j. own (w_store w' j)) path), st')" "registry_inv st'"
    using assms(1) [OF _ path'] rel by (auto simp: wrel_def)
  have own: "map (\<lambda>j. own (w_store w j)) path = map (\<lambda>j. own (w_store w' j)) path"
    using assms(3) [OF s] by simp
  have ss: "strip st = strip (w_store w)" "strip st' = strip (w_store w')"
    using assms(2) [OF st(1)] assms(2) [OF st'(1)] by auto
  have "wrel rl (w\<lparr>w_store := st\<rparr>) (w'\<lparr>w_store := st'\<rparr>)"
    using rel st(2) st'(2) ss root_path_strip_eq [OF ss(1)] by (simp add: wrel_def)
  then show "\<exists>x st st'. R (w_store w) = Some (x, st) \<and> R (w_store w') = Some (x, st') \<and>
        wrel rl (w\<lparr>w_store := st\<rparr>) (w'\<lparr>w_store := st'\<rparr>)"
    using st(1) st'(1) own by auto
qed

lemma agrees_resolve:
  "agrees rl (resolve_middleware_configs rl et i) T" "agrees rl (resolve_outer_middleware_configs rl et i) T"
  "agrees rl (resolve_router_filter_configs rl et i) T" "agrees rl (resolve_dependencies rl i) T"
  subgoal by (rule agreesI [where own = r_middlewares and val = "\<lambda>xs. filter (applies_to et) (concat xs)", OF resolve_inner_registry_inv])
      (auto dest: resolve_strip strip_eqD)
  subgoal by (rule agreesI [where own = r_outer_middlewares and val = "\<lambda>xs. filter (applies_to et) (concat xs)", OF resolve_outer_registry_inv])
      (auto dest: resolve_strip strip_eqD)
  subgoal by (rule agreesI [where own = r_router_filters and val = "\<lambda>xs. filter (applies_to et) (concat xs)", OF resolve_router_filters_registry_inv])
      (auto dest: resolve_strip strip_eqD)
  subgoal by (rule agreesI [where own = r_dependencies and val = "foldl (\<lambda>d own. dict_update (dict_update [] d) own) []"])
      (auto simp: foldl_map dest: resolve_dependencies_registry_inv resolve_strip strip_eqD)
  done

lemma respD: "resp rl k \<Longrightarrow> wrel rl w w' \<Longrightarrow> fst (k w) = fst (k w') \<and> wrel rl (snd (k w)) (snd (k w'))"
  by (simp add: resp_def)

lemma resp_pair:
  assumes "resp rl k" and "wrel rl w w'"
  obtains r w1 w1' where "k w = (r, w1)" "k w' = (r, w1')" "wrel rl w1 w1'"
  using respD [OF assms] by (metis prod.collapse)

lemma resp_dep:
  assumes "\<And>x. resp rl (K x)" and "\<And>w w'. wrel rl w w' \<Longrightarrow> g w = g w'"
  shows "resp rl (\<lambda>w. K (g w) w)"
  unfolding resp_def using assms(2) respD [OF assms(1)] by metis

lemma resp_step:
  assumes "resp rl k" and "\<And>w w'. wrel rl w w' \<Longrightarrow> wrel rl (u w) (u w')"
  shows "resp rl (\<lambda>w. k (u w))"
  unfolding resp_def using assms(2) respD [OF assms(1)] by blast

lemma resp_return: "resp rl (\<lambda>w. (r, w))"
  by (simp add: resp_def)

lemma resp_case:
  fixes k :: "('c, 'u) world \<Rightarrow> 'r \<times> ('c, 'u) world"
  assumes "resp rl k" and "\<And>r. resp rl (K r)"
  shows "resp rl (\<lambda>w. case k w of (r, w1) \<Rightarrow> K r w1)"
  unfolding resp_def
proof (intro allI impI)
  fix w w' :: "('c, 'u) world"
  assume "wrel rl w w'"
  then obtain r w1 w1' where "k w = (r, w1)" "k w' = (r, w1')" "wrel rl w1 w1'" using assms(1) resp_pair by metis
  then show "fst (case k w of (r, w1) \<Rightarrow> K r w1) = fst (case k w' of (r, w1) \<Rightarrow> K r w1) \<and>
      wrel rl (snd (case k w of (r, w1) \<Rightarrow> K r w1)) (snd (case k w' of (r, w1) \<Rightarrow> K r w1))"
    using respD [OF assms(2)] by simp
qed

lemma resp_bind:
  assumes "resp rl k" and "\<And>v. resp rl (f v)"
  shows "resp rl (\<lambda>w. bind_fout (k w) f)"
proof -
  have eq: "(\<lambda>w. bind_fout (k w) f) = (\<lambda>w. case k w of (r, w1) \<Rightarrow> (case r of Inl x \<Rightarrow> (\<lambda>w. (Inl x, w)) | Inr v \<Rightarrow> f v) w1)"
    by (auto simp: bind_fout_def split: prod.splits sum.splits)
  show ?thesis unfolding eq
    using assms by (intro resp_case) (auto split: sum.split intro: resp_return)
qed

lemma resp_catch: "resp rl k \<Longrightarrow> resp rl (\<lambda>w. catch_stop (k w))"
proof -
  assume k: "resp rl k"
  have eq: "(\<lambda>w. catch_stop (k w)) = (\<lambda>w. case k w of (r, w1) \<Rightarrow> (\<lambda>w. (if r = Inl StopPropagation then Inr VNone else r, w)) w1)"
    by (auto simp: catch_stop_def fun_eq_iff split: prod.splits sum.splits exn.splits)
  show ?thesis unfolding eq by (rule resp_case [OF k]) (rule resp_return)
qed

lemma resp_with:
  fixes K :: "'x \<Rightarrow> ('c, 'u) world \<Rightarrow> ('c, 'u) out"
  assumes "agrees rl R TYPE(('c, 'u) world)" and "\<And>x. resp rl (K x)"
  shows "resp rl (\<lambda>w. with_resolved (R (w_store w)) K w)"
  unfolding resp_def
proof (intro allI impI)
  fix w w' :: "('c, 'u) world"
  assume "wrel rl w w'"
  then obtain x st st' where "R (w_store w) = Some (x, st)" "R (w_store w') = Some (x, st')"
    "wrel rl (w\<lparr>w_store := st\<rparr>) (w'\<lparr>w_store := st'\<rparr>)"
    using assms(1) unfolding agrees_def by blast
  then show "fst (with_resolved (R (w_store w)) K w) = fst (with_resolved (R (w_store w')) K w') \<and>
      wrel rl (snd (with_resolved (R (w_store w)) K w)) (snd (with_resolved (R (w_store w')) K w'))"
    using respD [OF assms(2)] by (simp add: with_resolved_def)
qed

lemma wrel_events: "wrel rl w w' \<Longrightarrow> w_events w = w_events w'"
  by (simp add: wrel_def)

lemma wrel_shape:
  assumes "wrel rl w w'"
  shows "get_handlers et (w_store w i) = get_handlers et (w_store w' i)" "r_routers (w_store w i) = r_routers (w_store w' i)"
  using strip_eqD(2,3) [of "w_store w" "w_store w'" i] assms by (simp_all add: wrel_def get_handlers_def)

lemma wrel_upd_context: "wrel rl w w' \<Longrightarrow> wrel rl (upd_context e f w) (upd_context e f w')"
  by (simp add: wrel_def upd_context_def)

text \<open>User code that does not look into the caches.\<close>

definition cache_blind :: "nat \<Rightarrow> ('c, 'u) user_code \<Rightarrow> bool" where
  "cache_blind rl uc \<longleftrightarrow>
     (\<forall>mw e nxt. (\<forall>e1. resp rl (nxt e1)) \<longrightarrow> resp rl (uc_middleware uc mw e nxt)) \<and>
     (\<forall>mw e d nxt. (\<forall>e1 d1. resp rl (nxt e1 d1)) \<longrightarrow> resp rl (uc_base_middleware uc mw nxt e d)) \<and>
     (\<forall>f s e. resp rl (fo_call (uc_filter uc f) s e)) \<and>
     (\<forall>h e kw. resp rl (uc_handler uc h e kw))"

lemma resp_invoke_middleware:
  assumes "cache_blind rl uc" and "\<And>e1. resp rl (nxt e1)"
  shows "resp rl (invoke_middleware uc mw e nxt)"
proof (cases "uc_is_base_middleware uc mw")
  case True
  then have eq: "invoke_middleware uc mw e nxt =
      (\<lambda>w. uc_base_middleware uc mw (\<lambda>e1 d. nxt e1) e (ev_context (w_events w e)) w)"
    by (simp add: invoke_middleware_def fun_eq_iff)
  have "resp rl (uc_base_middleware uc mw (\<lambda>e1 d. nxt e1) e d)" for d
    using assms by (simp add: cache_blind_def)
  then show ?thesis unfolding eq
    by (rule resp_dep [where K = "\<lambda>d. uc_base_middleware uc mw (\<lambda>e1 d. nxt e1) e d"
          and g = "\<lambda>w. ev_context (w_events w e)"]) (simp add: wrel_events)
next
  case False
  then have "invoke_middleware uc mw e nxt = uc_middleware uc mw e nxt"
    by (simp add: invoke_middleware_def fun_eq_iff)
  then show ?thesis using assms by (simp add: cache_blind_def)
qed

lemma resp_call_chain:
  assumes "cache_blind rl uc" and "\<And>e1. resp rl (handler e1)"
  shows "resp rl (call_chain uc chain handler 0 e)"
proof -
  have "resp rl (foldr (layer uc) chain handler e)"
  proof (induction chain arbitrary: e)
    case Nil
    then show ?case using assms(2) by simp
  next
    case (Cons mw chain)
    have "foldr (layer uc) (mw # chain) handler e = (\<lambda>w. catch_stop (invoke_middleware uc mw e (foldr (layer uc) chain handler) w))"
      by (simp add: layer_def)
    then show ?case using resp_catch [OF resp_invoke_middleware [OF assms(1) Cons.IH, of mw e]] by simp
  qed
  then show ?thesis by (simp add: call_chain_foldr)
qed

lemma resp_executors:
  assumes "cache_blind rl uc" and "\<And>e1. resp rl (handler e1)"
  shows "resp rl (execute_outer_middlewares uc rl i e handler)" and "resp rl (execute_with_middlewares uc rl i e handler)"
proof -
  have outer: "resp rl (\<lambda>w. with_resolved (resolve_outer_middleware_configs rl et i (w_store w))
       (\<lambda>configs. call_chain uc (map lc_item configs) handler 0 e) w)" for et
    by (rule resp_with [OF agrees_resolve(2)]) (rule resp_call_chain [OF assms])
  have inner: "resp rl (\<lambda>w. with_resolved (resolve_middleware_configs rl et i (w_store w))
       (\<lambda>configs. call_chain uc (map lc_item configs) handler 0 e) w)" for et
    by (rule resp_with [OF agrees_resolve(1)]) (rule resp_call_chain [OF assms])
  show "resp rl (execute_outer_middlewares uc rl i e handler)" "resp rl (execute_with_middlewares uc rl i e handler)"
    unfolding execute_outer_middlewares_def execute_with_middlewares_def
    by (rule resp_dep [OF outer, where g = "\<lambda>w. ev_type (w_events w e)"], simp add: wrel_events)
      (rule resp_dep [OF inner, where g = "\<lambda>w. ev_type (w_events w e)"], simp add: wrel_events)
qed

lemma resp_run_filter:
  assumes "cache_blind rl uc"
  shows "resp rl (run_filter_with_data (uc_filter uc f) e)"
proof -
  have eq: "run_filter_with_data (uc_filter uc f) e =
      (\<lambda>w. case invoke_filter_callable (uc_filter uc f) e w of (r, w1) \<Rightarrow>
         (\<lambda>w1. (case r of Inl x \<Rightarrow> Inl x | Inr v \<Rightarrow> Inr (to_pass_and_data v), w1)) w1)"
    by (auto simp: run_filter_with_data_def fun_eq_iff split: prod.splits sum.splits)
  have "resp rl (invoke_filter_callable (uc_filter uc f) e)"
    using assms by (simp add: cache_blind_def invoke_filter_callable_def)
  then show ?thesis unfolding eq by (rule resp_case) (rule resp_return)
qed

lemma resp_run_filters:
  assumes "cache_blind rl uc"
  shows "resp rl (run_filters uc fs acc e)"
proof (induction fs arbitrary: acc)
  case Nil
  then show ?case using resp_return by (simp add: resp_def)
next
  case (Cons f fs)
  define K where "K = (\<lambda>r :: exn + bool \<times> vdict. case r of
      Inl x \<Rightarrow> (\<lambda>w. (if is_exception x then Inr None else Inl x, w))
    | Inr pd \<Rightarrow> if fst pd then run_filters uc fs (dict_update acc (snd pd)) e else (\<lambda>w. (Inr None, w)))"
  have eq: "run_filters uc (f # fs) acc e =
      (\<lambda>w. case run_filter_with_data (uc_filter uc f) e w of (r, w1) \<Rightarrow> K r w1)"
    by (auto simp: K_def fun_eq_iff split: prod.splits sum.splits)
  have "resp rl (K r)" for r
    using Cons by (auto simp: K_def split: sum.split intro: resp_return)
  then show ?case unfolding eq by (rule resp_case [OF resp_run_filter [OF assms]])
qed

lemma resp_call_handler:
  assumes "cache_blind rl uc"
  shows "resp rl (call_handler uc rl i config e)"
proof -
  define K where "K = (\<lambda>deps ctx. case context_filter_data ctx of
         Inl x \<Rightarrow> (\<lambda>w1. (Inl (Exc x), w1))
       | Inr fdata \<Rightarrow> uc_handler uc (hc_handler config) (if hc_pass_event config then Some e else None)
           (build_handler_kwargs (uc_isinstance uc) deps (filter (\<lambda>kv. fst kv \<noteq> ''filter_data'') ctx) fdata
                  (hc_accepted_kwargs config) (hc_accepted_annotations config)))"
  have "resp rl (K deps ctx)" for deps ctx
    using assms by (auto simp: K_def cache_blind_def split: sum.split intro: resp_return)
  then have "resp rl (\<lambda>w. K deps (ev_context (w_events w e)) w)" for deps
    by (rule resp_dep) (simp add: wrel_events)
  then have "resp rl (\<lambda>w. with_resolved (resolve_dependencies rl i (w_store w))
      (\<lambda>deps w1. K deps (ev_context (w_events w1 e)) w1) w)"
    by (rule resp_with [OF agrees_resolve(4)])
  moreover have "call_handler uc rl i config e = (\<lambda>w. with_resolved (resolve_dependencies rl i (w_store w))
      (\<lambda>deps w1. K deps (ev_context (w_events w1 e)) w1) w)"
    by (auto simp: call_handler_def K_def with_resolved_def Let_def fun_eq_iff split: option.splits sum.splits)
  ultimately show ?thesis by simp
qed

lemma resp_guarded_handler:
  assumes "cache_blind rl uc"
  shows "resp rl (guarded_handler uc rl i skipped fs config e)"
proof -
  define J where "J = (\<lambda>data ctx. case merge_filter_data ctx data of
       Inl x \<Rightarrow> (\<lambda>w1. (Inl (Exc x), w1))
     | Inr ctx \<Rightarrow> (\<lambda>w1. call_handler uc rl i config e (upd_context e (\<lambda>_. ctx) w1)))"
  define K where "K = (\<lambda>r. case r of
       Inl x \<Rightarrow> (\<lambda>w1. (Inl x, w1))
     | Inr None \<Rightarrow> (\<lambda>w1. (Inr (VRef skipped), w1))
     | Inr (Some data) \<Rightarrow> (\<lambda>w1. J data (ev_context (w_events w1 e)) w1))"
  have "resp rl (J data ctx)" for data ctx
    unfolding J_def by (auto split: sum.split intro: resp_return resp_step [OF resp_call_handler [OF assms]] wrel_upd_context)
  then have "resp rl (\<lambda>w1. J data (ev_context (w_events w1 e)) w1)" for data
    by (rule resp_dep) (simp add: wrel_events)
  then have "resp rl (K r)" for r by (auto simp: K_def split: sum.split option.split intro: resp_return)
  then have "resp rl (\<lambda>w. case run_filters uc (fs @ hc_filters config) [] e w of (r, w1) \<Rightarrow> K r w1)"
    by (rule resp_case [OF resp_run_filters [OF assms]])
  moreover have "guarded_handler uc rl i skipped fs config e =
      (\<lambda>w. case run_filters uc (fs @ hc_filters config) [] e w of (r, w1) \<Rightarrow> K r w1)"
    by (auto simp: guarded_handler_def K_def J_def fun_eq_iff split: prod.splits sum.splits option.splits)
  ultimately show ?thesis by simp
qed

lemma resp_run_each:
  assumes "\<And>x r. resp rl (f x r)"
  shows "resp rl (run_each f xs r)"
proof (induction xs arbitrary: r)
  case Nil
  then show ?case using resp_return by (simp add: resp_def)
next
  case (Cons x xs)
  have "run_each f (x # xs) r = (\<lambda>w. bind_fout (f x r w) (run_each f xs))" by (simp add: fun_eq_iff)
  then show ?case using resp_bind [OF assms Cons.IH, of x r] by simp
qed

lemma resp_run_handlers:
  assumes "cache_blind rl uc"
  shows "resp rl (run_handlers uc rl i skipped fs handlers e r)"
  unfolding run_handlers_def
  by (intro resp_run_each resp_bind resp_executors(2) [OF assms] resp_guarded_handler [OF assms] resp_return)

lemma resp_inner_dispatch:
  assumes "cache_blind rl uc" and "\<And>j e. resp rl (propagate j e)"
  shows "resp rl (inner_dispatch uc rl propagate i e)"
proof -
  define H where "H = (\<lambda>s result p w1. with_resolved (resolve_router_filter_configs rl (fst p) i (w_store w1)) (\<lambda>configs.
          run_handlers uc rl i s (map lc_item configs) (snd p) e result) w1)"
  have "resp rl (H s result p)" for s result p
    unfolding H_def by (intro resp_with [OF agrees_resolve(3)] resp_run_handlers [OF assms(1)])
  then have h: "resp rl (\<lambda>w1. H s result (ev_type (w_events w1 e), get_handlers (ev_type (w_events w1 e)) (w_store w1 i)) w1)" for s result
    by (rule resp_dep) (simp add: wrel_events wrel_shape)
  define B where "B = (\<lambda>p w. bind_fout (run_children (\<lambda>j. propagate j e) (fst p) w) (\<lambda>result w1.
     H (snd p) result (ev_type (w_events w1 e), get_handlers (ev_type (w_events w1 e)) (w_store w1 i)) w1))"
  have "resp rl (run_children (\<lambda>j. propagate j e) rs)" for rs
    unfolding run_children_def by (intro resp_run_each resp_bind assms(2) resp_return)
  then have "resp rl (B p)" for p unfolding B_def by (intro resp_bind h)
  then have "resp rl (\<lambda>w. B (r_routers (w_store w i), w_fresh w - 1) w)"
    by (rule resp_dep) (auto simp: wrel_def wrel_shape)
  then have "resp rl (\<lambda>w. B (r_routers (w_store (w\<lparr>w_fresh := Suc (w_fresh w)\<rparr>) i), w_fresh (w\<lparr>w_fresh := Suc (w_fresh w)\<rparr>) - 1) (w\<lparr>w_fresh := Suc (w_fresh w)\<rparr>))"
    by (rule resp_step) (simp add: wrel_def)
  moreover have "inner_dispatch uc rl propagate i e =
      (\<lambda>w. B (r_routers (w_store (w\<lparr>w_fresh := Suc (w_fresh w)\<rparr>) i), w_fresh (w\<lparr>w_fresh := Suc (w_fresh w)\<rparr>) - 1) (w\<lparr>w_fresh := Suc (w_fresh w)\<rparr>))"
    by (simp add: inner_dispatch_def B_def H_def Let_def fun_eq_iff)
  ultimately show ?thesis by simp
qed

lemma resp_propagate_event:
  assumes "cache_blind rl uc"
  shows "resp rl (propagate_event uc rl n i e)"
proof (induction n arbitrary: i e)
  case 0
  then show ?case using resp_return by (simp add: resp_def)
next
  case (Suc n)
  define K where "K = (\<lambda>ctx w. execute_outer_middlewares uc rl i e (inner_dispatch uc rl (propagate_event uc rl n) i) (upd_context e (\<lambda>_. ctx) w))"
  have "resp rl (K ctx)" for ctx
    unfolding K_def
    by (rule resp_step [OF resp_executors(1) [OF assms resp_inner_dispatch [OF assms Suc]]]) (rule wrel_upd_context)
  then have "resp rl (\<lambda>w. K (enrich_context deps e (w_events w e)) w)" for deps
    by (rule resp_dep) (simp add: wrel_events)
  then have "resp rl (\<lambda>w. with_resolved (resolve_dependencies rl i (w_store w)) (\<lambda>deps w. K (enrich_context deps e (w_events w e)) w) w)"
    by (rule resp_with [OF agrees_resolve(4)])
  then show ?case by (simp add: K_def Let_def resp_def)
qed

lemma registry_inv_strip: "registry_inv st \<Longrightarrow> registry_inv (strip st)"
proof -
  assume inv: "registry_inv st"
  have "strip st = cleared UNIV st" by (simp add: strip_def cleared_def)
  then have "tree_wf (strip st)" using inv by (simp add: registry_inv_def)
  then show ?thesis
    by (simp add: registry_inv_def caches_coherent_def coherent_via_def strip_def clear_caches_def)
qed

lemma strip_strip [simp]: "strip (strip st) = strip st"
  by (simp add: strip_def clear_caches_def)

section \<open>A small deployment\<close>

text \<open>
  One router with one handler, one filter and one outer middleware; user code is numbered:
  0 a handler that answers 7, 1 a handler that raises StopPropagation, 2 a filter that
  rejects, any other filter passes; every middleware calls the rest of the chain.
\<close>

definition demo_code :: "(nat, nat list) user_code" where
  "demo_code =
     \<lparr>uc_is_base_middleware = (\<lambda>_. False),
      uc_base_middleware = (\<lambda>_ nxt e d. nxt e d),
      uc_middleware = (\<lambda>_ e nxt. nxt e),
      uc_filter = (\<lambda>f. \<lparr>fo_ident = Some f, fo_params = None, fo_call = (\<lambda>_ _ w. (Inr (VBool (f \<noteq> 2)), w))\<rparr>),
      uc_handler = (\<lambda>h _ _ w. (if h = 1 then Inl StopPropagation else Inr (VInt 7), w)),
      uc_isinstance = (\<lambda>_ _. None)\<rparr>"

definition demo_router :: "nat \<Rightarrow> nat list \<Rightarrow> (nat, pval) router" where
  "demo_router h outer =
     (new_router ''demo'')\<lparr>
       r_handlers := [(Gateway ''READY'', [\<lparr>hc_handler = h, hc_event_types = [Gateway ''READY''], hc_filters = [5],
          hc_priority = 0, hc_accepted_kwargs = [], hc_accepted_annotations = [], hc_pass_event = True\<rparr>])],
       r_outer_middlewares := map (\<lambda>m. \<lparr>lc_item = m, lc_priority = 0, lc_event_types = None\<rparr>) outer\<rparr>"

definition demo_world :: "nat \<Rightarrow> nat list \<Rightarrow> (nat, nat list) world" where
  "demo_world h outer =
     \<lparr>w_store = (\<lambda>_. demo_router h outer),
      w_events = (\<lambda>_. \<lparr>ev_type = Gateway ''READY'', ev_bot = VNone, ev_attrs = [], ev_context = []\<rparr>),
      w_fresh = 0, w_user = []\<rparr>"

lemma registry_inv_demo: "registry_inv (\<lambda>_. demo_router h outer)"
  by (auto simp: registry_inv_def tree_wf_def tree_consistent_def caches_coherent_def coherent_via_def
      demo_router_def new_router_def)

lemma cache_blind_demo: "cache_blind rl demo_code"
  by (auto simp: cache_blind_def demo_code_def resp_def)

lemma demo_root_path [simp]: "root_path (Suc n) i (\<lambda>_. demo_router h outer) = Some [i]"
  by (simp add: demo_router_def new_router_def)

section \<open>Properties of dispatch\<close>

text \<open>
  The resolution caches are unobservable. Dispatching an event gives the same result and
  the same effects whatever the caches hold, as if every cache had been emptied first, and
  leaves a sound registry; for user code that does not inspect the caches and a recursion
  limit above the depth of the tree.
\<close>

theorem dispatch_ignores_caches:
  assumes "cache_blind rl uc" and "registry_inv (w_store w)" and "\<And>i. root_path rl i (w_store w) \<noteq> None"
  shows "fst (propagate_event uc rl n i e w) = fst (propagate_event uc rl n i e (w\<lparr>w_store := strip (w_store w)\<rparr>)) \<and>
    w_user (snd (propagate_event uc rl n i e w)) = w_user (snd (propagate_event uc rl n i e (w\<lparr>w_store := strip (w_store w)\<rparr>))) \<and>
    w_events (snd (propagate_event uc rl n i e w)) = w_events (snd (propagate_event uc rl n i e (w\<lparr>w_store := strip (w_store w)\<rparr>))) \<and>
    registry_inv (w_store (snd (propagate_event uc rl n i e w)))"
proof -
  have "wrel rl w (w\<lparr>w_store := strip (w_store w)\<rparr>)"
    using assms(2,3) by (simp add: wrel_def registry_inv_strip)
  from respD [OF resp_propagate_event [OF assms(1)] this, of n i e]
  show ?thesis unfolding wrel_def by (elim conjE) (intro conjI)
qed

theorem dispatch_ignores_caches_witness:
  "fst (propagate_event demo_code 1 1 0 0 (demo_world 0 [3])) =
   fst (propagate_event demo_code 1 1 0 0 ((demo_world 0 [3])\<lparr>w_store := strip (w_store (demo_world 0 [3]))\<rparr>))"
  using dispatch_ignores_caches [OF cache_blind_demo, of "demo_world 0 [3]" 1 1 0 0]
  by (simp add: demo_world_def registry_inv_demo demo_root_path [of 0, simplified])

text \<open>
  StopPropagation never leaves a router that has an outer middleware for the event type
  on the way from its root, so it cannot leave a dispatcher, which always installs one.
\<close>

theorem stop_propagation_contained:
  assumes "registry_inv (w_store w)" and "root_path rl i (w_store w) = Some path"
    and "j \<in> set path" and "c \<in> set (r_outer_middlewares (w_store w j))"
    and "applies_to (ev_type (w_events w e)) c"
  shows "fst (propagate_event uc rl n i e w) \<noteq> Inl StopPropagation"
proof (cases n)
  case (Suc m)
  obtain deps st1 where deps: "resolve_dependencies rl i (w_store w) = Some (deps, st1)" and inv: "registry_inv st1"
    using resolve_dependencies_registry_inv [OF assms(1,2)] by auto
  have s: "strip st1 = strip (w_store w)" by (rule resolve_strip(4) [OF deps])
  have path: "root_path rl i st1 = Some path" using root_path_strip_eq [OF s] assms(2) by simp
  obtain st2 where outer: "resolve_outer_middleware_configs rl (ev_type (w_events w e)) i st1 =
      Some (filter (applies_to (ev_type (w_events w e))) (concat (map (\<lambda>j. r_outer_middlewares (st1 j)) path)), st2)"
    using resolve_outer_registry_inv [OF inv path] by blast
  have "c \<in> set (filter (applies_to (ev_type (w_events w e))) (concat (map (\<lambda>j. r_outer_middlewares (st1 j)) path)))"
    using assms(3-5) strip_eqD(5) [OF s] by auto
  then have "map lc_item (filter (applies_to (ev_type (w_events w e))) (concat (map (\<lambda>j. r_outer_middlewares (st1 j)) path))) \<noteq> []"
    by (metis empty_iff empty_set map_is_Nil_conv)
  from call_chain_no_stop [OF this] show ?thesis
    using deps outer Suc
    by (simp add: with_resolved_def execute_outer_middlewares_def upd_context_def Let_def)
qed simp

theorem stop_propagation_contained_witness:
  "fst (propagate_event demo_code 1 2 0 0 (demo_world 1 [3])) \<noteq> Inl StopPropagation"
  by (rule stop_propagation_contained [where path = "[0]" and j = 0 and c = "\<lparr>lc_item = 3, lc_priority = 0, lc_event_types = None\<rparr>"])
    (simp_all add: demo_world_def registry_inv_demo demo_root_path [of 0, simplified], simp_all add: demo_router_def applies_to_def)

lemma stop_propagation_escapes_without_middleware:
  assumes "resolve_middleware_configs rl (ev_type (w_events w e)) i (w_store w) = Some ([], st)"
    and "handler e (w\<lparr>w_store := st\<rparr>) = (Inl StopPropagation, w1)"
  shows "execute_with_middlewares uc rl i e handler w = (Inl StopPropagation, w1)"
  using assms by (simp add: execute_with_middlewares_def with_resolved_def call_chain_foldr)

text \<open>
  C5: filters gate handlers. Either every router filter and every filter of the handler
  passes, in order, and the handler runs with their collected data; or some filter, after
  the ones before it passed, does not pass or raises an Exception, and nothing else happens:
  the handler is skipped in the world that filter left; or a filter raises something that is
  not an Exception, which escapes.
\<close>

theorem filters_gate_handlers:
  "(\<exists>data w1. filters_pass uc e (router_filters @ hc_filters config) [] w data w1 \<and>
      guarded_handler uc rl i skipped router_filters config e w =
        (case merge_filter_data (ev_context (w_events w1 e)) data of
           Inl x \<Rightarrow> (Inl (Exc x), w1)
         | Inr ctx \<Rightarrow> call_handler uc rl i config e (upd_context e (\<lambda>_. ctx) w1))) \<or>
   (\<exists>gs f hs data w1 w2. router_filters @ hc_filters config = gs @ f # hs \<and> filters_pass uc e gs [] w data w1 \<and>
      rejects uc e f w1 w2 \<and> guarded_handler uc rl i skipped router_filters config e w = (Inr (VRef skipped), w2)) \<or>
   (\<exists>x w1. \<not> is_exception x \<and> guarded_handler uc rl i skipped router_filters config e w = (Inl x, w1))"
  using run_filters_total [of uc e "router_filters @ hc_filters config" "[]" w]
  by (elim disjE exE conjE) (simp_all add: guarded_handler_def, blast+)



text \<open>
  The result of a router is the result of its last handler that was not skipped, also
  when that result is None, and only without such a handler the last non-None result of an
  included router.
\<close>

theorem last_handler_decides:
  assumes "\<And>c w. c \<in> set handlers \<Longrightarrow>
      \<exists>w'. execute_with_middlewares uc rl i e (guarded_handler uc rl i skipped fs c) w = (Inr (val c), w')"
    and "\<And>j w. j \<in> set routers \<Longrightarrow> \<exists>w'. propagate j w = (Inr (sub j), w')"
  shows "\<exists>w'. bind_fout (run_children propagate routers w) (run_handlers uc rl i skipped fs handlers e) =
    (Inr (last (VNone # filter (\<lambda>v. v \<noteq> VNone) (map sub routers) @ filter (\<lambda>v. v \<noteq> VRef skipped) (map val handlers))), w')"
proof -
  have each: "\<exists>w'. run_each f xs r w = (Inr (last (r # filter P (map g xs))), w')"
    if "\<And>x r w. x \<in> set xs \<Longrightarrow> \<exists>w'. f x r w = (Inr (if P (g x) then g x else r), w')"
    for f :: "'z \<Rightarrow> pval \<Rightarrow> ('a, 'b) world \<Rightarrow> ('a, 'b) out" and xs P g r w
    using that
  proof (induction xs arbitrary: r w)
    case (Cons x xs)
    obtain w1 where "f x r w = (Inr (if P (g x) then g x else r), w1)" using Cons.prems [of x r w] by auto
    then show ?case using Cons.IH [of "if P (g x) then g x else r" w1] Cons.prems by auto
  qed simp
  have "\<exists>w'. run_children propagate routers w = (Inr (last (VNone # filter (\<lambda>v. v \<noteq> VNone) (map sub routers))), w')"
    unfolding run_children_def
  proof (rule each)
    fix x r w
    assume "x \<in> set routers"
    then obtain w1 where "propagate x w = (Inr (sub x), w1)" using assms(2) by blast
    then show "\<exists>w'. bind_fout (propagate x w) (\<lambda>v w2. (Inr (if v \<noteq> VNone then v else r), w2)) =
        (Inr (if sub x \<noteq> VNone then sub x else r), w')" by simp
  qed
  then obtain w1 where w1: "run_children propagate routers w = (Inr (last (VNone # filter (\<lambda>v. v \<noteq> VNone) (map sub routers))), w1)" by blast
  let ?r = "last (VNone # filter (\<lambda>v. v \<noteq> VNone) (map sub routers))"
  have "\<exists>w'. run_handlers uc rl i skipped fs handlers e ?r w1 = (Inr (last (?r # filter (\<lambda>v. v \<noteq> VRef skipped) (map val handlers))), w')"
    unfolding run_handlers_def
  proof (rule each)
    fix x r w
    assume "x \<in> set handlers"
    then obtain w2 where "execute_with_middlewares uc rl i e (guarded_handler uc rl i skipped fs x) w = (Inr (val x), w2)"
      using assms(1) by blast
    then show "\<exists>w'. bind_fout (execute_with_middlewares uc rl i e (guarded_handler uc rl i skipped fs x) w)
        (\<lambda>v w2. (Inr (if v \<noteq> VRef skipped then v else r), w2)) = (Inr (if val x \<noteq> VRef skipped then val x else r), w')" by simp
  qed
  then show ?thesis by (auto simp: w1 last_append split: if_splits)
qed

theorem last_handler_decides_witness:
  "\<exists>w'. bind_fout (run_children (\<lambda>j w. (Inr (VInt (int j)), w)) [1, 2] (demo_world 0 [])) (run_handlers demo_code 1 0 9 [] [] 0) =
    (Inr (VInt 2), w')"
  using last_handler_decides [of "[]" demo_code 1 0 0 9 "[]" "\<lambda>_. VNone" "[1, 2]" "\<lambda>j w. (Inr (VInt (int j)), w)" "\<lambda>j. VInt (int j)" "demo_world 0 []"]
  by simp

end
