(* ===== verification/EventParser.thy ===== *)
theory EventParser
  imports Filters
begin

text \<open>
  The gateway payload parser (src/vaidcord-py/src/vaidcord/_internal/event_parser.py) and the
  models it builds (types/__init__.py). A parsed object is the list of the attributes of its
  dataclass; a parser is the table that says where each attribute comes from, evaluated in the
  order of the source, so that the first attribute that cannot be read decides the exception.
  \<open>datetime.fromisoformat\<close> and the clock are arguments.
\<close>

section \<open>Models\<close>

datatype attr =
    ANone
  | AInt int
  | AJson json
  | AInts "int list"
  | ATime real
  | AType string
  | AHost
  | AList "attr list"
  | AObj string "(string \<times> attr) list"

datatype field_source =
    ReqInt string
  | OptInt string
  | Get string json
  | GetInt string json
  | Ints string
  | Items "json \<Rightarrow> attr result" string
  | Given attr
  | Raw

record host =
  ho_guilds :: "(int, attr) dict"
  ho_channels :: "(int, attr) dict"
  ho_users :: "(int, attr) dict"
  ho_session_id :: json
  ho_sequence :: json
  ho_shard_id :: json
  ho_keep_raw_data :: bool

definition raw :: "host \<Rightarrow> json \<Rightarrow> attr" where
  "raw h data = AJson (if ho_keep_raw_data h then data else JDict [])"

definition opt_int :: "json \<Rightarrow> string \<Rightarrow> attr result" where
  "opt_int data key =
     bind_result (json_get data key JNull) (\<lambda>v.
       if json_truthy v then bind_result (json_index data key) (\<lambda>v. bind_result (py_int v) (\<lambda>i. Inr (AInt i))) else Inr ANone)"

definition eval_source :: "host \<Rightarrow> json \<Rightarrow> field_source \<Rightarrow> attr result" where
  "eval_source h data src =
     (case src of
        ReqInt key \<Rightarrow> bind_result (json_index data key) (\<lambda>v. bind_result (py_int v) (\<lambda>i. Inr (AInt i)))
      | OptInt key \<Rightarrow> opt_int data key
      | Get key dflt \<Rightarrow> bind_result (json_get data key dflt) (\<lambda>v. Inr (AJson v))
      | GetInt key dflt \<Rightarrow> bind_result (bind_result (json_get data key dflt) py_int) (\<lambda>i. Inr (AInt i))
      | Ints key \<Rightarrow>
          bind_result (bind_result (json_get data key (JList [])) json_iter) (\<lambda>xs.
          bind_result (map_result py_int xs) (\<lambda>is. Inr (AInts is)))
      | Items parse key \<Rightarrow>
          bind_result (bind_result (json_get data key (JList [])) json_iter) (\<lambda>xs.
          bind_result (map_result parse xs) (\<lambda>os. Inr (AList os)))
      | Given a \<Rightarrow> Inr a
      | Raw \<Rightarrow> Inr (raw h data))"

definition eval_fields :: "host \<Rightarrow> json \<Rightarrow> (string \<times> field_source) list \<Rightarrow> (string \<times> attr) list result" where
  "eval_fields h data spec =
     map_result (\<lambda>f. bind_result (eval_source h data (snd f)) (\<lambda>a. Inr (fst f, a))) spec"

definition build :: "host \<Rightarrow> string \<Rightarrow> (string \<times> attr) list \<Rightarrow> (string \<times> field_source) list \<Rightarrow> json \<Rightarrow> attr result" where
  "build h cls unset spec data = bind_result (eval_fields h data spec) (\<lambda>as. Inr (AObj cls (as @ unset)))"

section \<open>Users, guilds, channels\<close>

definition user_fields :: "(string \<times> field_source) list" where
  "user_fields =
     [(''id'', ReqInt ''id''), (''username'', Get ''username'' (JStr [])),
      (''discriminator'', Get ''discriminator'' (JStr ''0'')), (''global_name'', Get ''global_name'' JNull),
      (''bot'', Get ''bot'' (JBool False)), (''system'', Get ''system'' (JBool False)),
      (''avatar'', Get ''avatar'' JNull), (''banner'', Get ''banner'' JNull),
      (''accent_color'', Get ''accent_color'' JNull),
      (''avatar_decoration_data'', Get ''avatar_decoration_data'' JNull),
      (''collectibles'', Get ''collectibles'' JNull), (''primary_guild'', Get ''primary_guild'' JNull)]"

text \<open>Attributes of \<open>User\<close> that the parser leaves at their default.\<close>

definition user_unset :: "(string \<times> attr) list" where
  "user_unset = map (\<lambda>name. (name, ANone))
     [''mfa_enabled'', ''locale'', ''verified'', ''email'', ''flags'', ''premium_type'', ''public_flags'']"

definition parse_user :: "host \<Rightarrow> json \<Rightarrow> attr result" where
  "parse_user h = build h ''User'' user_unset user_fields"

definition guild_fields :: "(string \<times> field_source) list" where
  "guild_fields =
     [(''id'', ReqInt ''id''), (''name'', Get ''name'' (JStr [])), (''icon'', Get ''icon'' JNull),
      (''icon_hash'', Get ''icon_hash'' JNull), (''splash'', Get ''splash'' JNull),
      (''discovery_splash'', Get ''discovery_splash'' JNull), (''owner'', Get ''owner'' (JBool False)),
      (''owner_id'', OptInt ''owner_id''), (''permissions'', Get ''permissions'' JNull),
      (''region'', Get ''region'' JNull), (''afk_channel_id'', OptInt ''afk_channel_id''),
      (''afk_timeout'', Get ''afk_timeout'' JNull), (''widget_enabled'', Get ''widget_enabled'' JNull),
      (''widget_channel_id'', OptInt ''widget_channel_id''),
      (''verification_level'', Get ''verification_level'' JNull),
      (''default_message_notifications'', Get ''default_message_notifications'' JNull),
      (''explicit_content_filter'', Get ''explicit_content_filter'' JNull), (''roles'', Get ''roles'' (JList [])),
      (''emojis'', Get ''emojis'' (JList [])), (''features'', Get ''features'' (JList [])),
      (''mfa_level'', Get ''mfa_level'' JNull), (''application_id'', OptInt ''application_id''),
      (''system_channel_id'', OptInt ''system_channel_id''),
      (''system_channel_flags'', Get ''system_channel_flags'' JNull),
      (''rules_channel_id'', OptInt ''rules_channel_id''), (''joined_at'', Get ''joined_at'' JNull),
      (''large'', Get ''large'' JNull), (''unavailable'', Get ''unavailable'' JNull),
      (''member_count'', Get ''member_count'' JNull), (''voice_states'', Get ''voice_states'' (JList [])),
      (''members'', Get ''members'' (JList [])), (''channels'', Get ''channels'' (JList [])),
      (''threads'', Get ''threads'' (JList [])), (''presences'', Get ''presences'' (JList [])),
      (''max_presences'', Get ''max_presences'' JNull), (''max_members'', Get ''max_members'' JNull),
      (''vanity_url_code'', Get ''vanity_url_code'' JNull), (''description'', Get ''description'' JNull),
      (''banner'', Get ''banner'' JNull), (''premium_tier'', Get ''premium_tier'' JNull),
      (''premium_subscription_count'', Get ''premium_subscription_count'' JNull),
      (''preferred_locale'', Get ''preferred_locale'' JNull),
      (''public_updates_channel_id'', OptInt ''public_updates_channel_id''),
      (''max_video_channel_users'', Get ''max_video_channel_users'' JNull),
      (''approximate_member_count'', Get ''approximate_member_count'' JNull),
      (''approximate_presence_count'', Get ''approximate_presence_count'' JNull),
      (''welcome_screen'', Get ''welcome_screen'' JNull), (''nsfw_level'', Get ''nsfw_level'' JNull),
      (''stickers'', Get ''stickers'' (JList [])),
      (''premium_progress_bar_enabled'', Get ''premium_progress_bar_enabled'' JNull),
      (''safety_alerts_channel_id'', OptInt ''safety_alerts_channel_id''),
      (''incidents_data'', Get ''incidents_data'' JNull), (''raw_data'', Raw)]"

definition parse_guild :: "host \<Rightarrow> json \<Rightarrow> attr result" where
  "parse_guild h = build h ''Guild'' [] guild_fields"

text \<open>\<open>ChannelType(v)\<close> compares with Python's equality; the first name of a value is the member.\<close>

definition channel_type_of :: "json \<Rightarrow> string option" where
  "channel_type_of v =
     (case v of
        JInt i \<Rightarrow> map_option fst (find (\<lambda>m. snd m = i) channel_type_members)
      | JBool b \<Rightarrow> map_option fst (find (\<lambda>m. snd m = (if b then 1 else 0)) channel_type_members)
      | JFloat f \<Rightarrow> map_option fst (find (\<lambda>m. of_int (snd m) = f) channel_type_members)
      | _ \<Rightarrow> None)"

definition channel_fields :: "host \<Rightarrow> string \<Rightarrow> (string \<times> field_source) list" where
  "channel_fields h channel_type =
     [(''id'', ReqInt ''id''), (''type'', Given (AType channel_type)), (''guild_id'', OptInt ''guild_id''),
      (''name'', Get ''name'' JNull), (''topic'', Get ''topic'' JNull), (''position'', Get ''position'' JNull),
      (''permission_overwrites'', Get ''permission_overwrites'' (JList [])), (''nsfw'', Get ''nsfw'' (JBool False)),
      (''last_message_id'', OptInt ''last_message_id''), (''bitrate'', Get ''bitrate'' JNull),
      (''user_limit'', Get ''user_limit'' JNull), (''rate_limit_per_user'', Get ''rate_limit_per_user'' JNull),
      (''recipients'', Items (parse_user h) ''recipients''), (''icon'', Get ''icon'' JNull), (''owner_id'', OptInt ''owner_id''),
      (''application_id'', OptInt ''application_id''), (''managed'', Get ''managed'' JNull),
      (''parent_id'', OptInt ''parent_id''), (''last_pin_timestamp'', Get ''last_pin_timestamp'' JNull),
      (''rtc_region'', Get ''rtc_region'' JNull), (''video_quality_mode'', Get ''video_quality_mode'' JNull),
      (''message_count'', Get ''message_count'' JNull), (''member_count'', Get ''member_count'' JNull),
      (''thread_metadata'', Get ''thread_metadata'' (JDict [])), (''member'', Get ''member'' (JDict [])),
      (''default_auto_archive_duration'', Get ''default_auto_archive_duration'' JNull),
      (''permissions'', Get ''permissions'' JNull), (''flags'', Get ''flags'' JNull),
      (''total_message_sent'', Get ''total_message_sent'' JNull),
      (''available_tags'', Get ''available_tags'' (JList [])), (''applied_tags'', Ints ''applied_tags''),
      (''default_reaction_emoji'', Get ''default_reaction_emoji'' JNull),
      (''default_thread_rate_limit_per_user'', Get ''default_thread_rate_limit_per_user'' JNull),
      (''default_sort_order'', Get ''default_sort_order'' JNull),
      (''default_forum_layout'', Get ''default_forum_layout'' JNull), (''raw_data'', Raw)]"

definition parse_channel :: "host \<Rightarrow> json \<Rightarrow> attr result" where
  "parse_channel h data =
     bind_result (json_get data ''type'' (JInt 0)) (\<lambda>v.
       build h ''Channel'' [] (channel_fields h (case channel_type_of v of Some t \<Rightarrow> t | None \<Rightarrow> ''TEXT'')) data)"

text \<open>A \<open>Channel\<close> built from an id, a type and a guild id: all else at its default.\<close>

definition channel_defaults :: "(string \<times> attr) list" where
  "channel_defaults =
     map (\<lambda>name. (name, ANone)) [''name'', ''position''] @ [(''permission_overwrites'', AJson (JList []))] @
     map (\<lambda>name. (name, ANone)) [''topic'', ''nsfw'', ''last_message_id'', ''bitrate'', ''user_limit'', ''rate_limit_per_user''] @
     [(''recipients'', AList [])] @
     map (\<lambda>name. (name, ANone)) [''icon'', ''owner_id'', ''application_id'', ''managed'', ''parent_id'', ''last_pin_timestamp'',
       ''rtc_region'', ''video_quality_mode'', ''message_count'', ''member_count''] @
     [(''thread_metadata'', AJson (JDict [])), (''member'', AJson (JDict []))] @
     map (\<lambda>name. (name, ANone)) [''default_auto_archive_duration'', ''permissions'', ''flags'', ''total_message_sent''] @
     [(''available_tags'', AJson (JList [])), (''applied_tags'', AInts [])] @
     map (\<lambda>name. (name, ANone)) [''default_reaction_emoji'', ''default_thread_rate_limit_per_user'', ''default_sort_order'', ''default_forum_layout''] @
     [(''raw_data'', AJson (JDict []))]"

definition stub_channel :: "int \<Rightarrow> string \<Rightarrow> attr \<Rightarrow> attr" where
  "stub_channel i channel_type guild_id =
     AObj ''Channel'' ([(''id'', AInt i), (''type'', AType channel_type), (''guild_id'', guild_id)] @ channel_defaults)"

section \<open>Messages\<close>

text \<open>\<open>datetime.fromisoformat(text.replace("Z", "+00:00"))\<close>; \<open>fromiso\<close> is the library function.\<close>

definition replace_z :: "string \<Rightarrow> string" where
  "replace_z s = concat (map (\<lambda>c. if c = CHR ''Z'' then ''+00:00'' else [c]) s)"

definition parse_time :: "(string \<Rightarrow> real result) \<Rightarrow> json \<Rightarrow> attr result" where
  "parse_time fromiso v =
     (case v of
        JStr s \<Rightarrow> bind_result (fromiso (replace_z s)) (\<lambda>t. Inr (ATime t))
      | _ \<Rightarrow> Inl (AttributeError ''replace''))"

definition message_channel :: "host \<Rightarrow> json \<Rightarrow> attr result" where
  "message_channel h data =
     bind_result (json_get data ''id'' (JInt 0)) (\<lambda>own.
     bind_result (json_get data ''channel_id'' own) (\<lambda>v.
     bind_result (py_int v) (\<lambda>i.
       case map_of (ho_channels h) i of
         Some ch \<Rightarrow> Inr ch
       | None \<Rightarrow>
           bind_result (json_get data ''guild_id'' JNull) (\<lambda>g.
           bind_result (opt_int data ''guild_id'') (\<lambda>gid.
             Inr (stub_channel i (if json_truthy g then ''TEXT'' else ''DM'') gid))))))"

definition default_author :: json where
  "default_author = JDict [(''id'', JStr ''0''), (''username'', JStr []), (''discriminator'', JStr ''0'')]"

text \<open>\<open>host._guilds.get(int(data["guild_id"]))\<close> when the key is there, whatever its value.\<close>

definition cached_guild :: "host \<Rightarrow> jdict \<Rightarrow> attr result" where
  "cached_guild h d =
     (case map_of d ''guild_id'' of
        None \<Rightarrow> Inr ANone
      | Some v \<Rightarrow> bind_result (py_int v) (\<lambda>i. Inr (case map_of (ho_guilds h) i of Some g \<Rightarrow> g | None \<Rightarrow> ANone)))"

definition message_fields :: "attr \<Rightarrow> attr \<Rightarrow> attr \<Rightarrow> attr \<Rightarrow> attr \<Rightarrow> attr \<Rightarrow> attr \<Rightarrow> attr \<Rightarrow> attr \<Rightarrow> (string \<times> field_source) list" where
  "message_fields channel author timestamp edited_timestamp mentions mention_channels referenced thread guild =
     [(''id'', ReqInt ''id''), (''channel'', Given channel), (''author'', Given author),
      (''content'', Get ''content'' (JStr [])), (''timestamp'', Given timestamp),
      (''edited_timestamp'', Given edited_timestamp), (''tts'', Get ''tts'' (JBool False)),
      (''mention_everyone'', Get ''mention_everyone'' (JBool False)), (''mentions'', Given mentions),
      (''mention_roles'', Ints ''mention_roles''), (''mention_channels'', Given mention_channels),
      (''attachments'', Get ''attachments'' (JList [])), (''embeds'', Get ''embeds'' (JList [])),
      (''reactions'', Get ''reactions'' (JList [])), (''nonce'', Get ''nonce'' JNull),
      (''pinned'', Get ''pinned'' (JBool False)), (''webhook_id'', OptInt ''webhook_id''),
      (''type'', Get ''type'' JNull), (''activity'', Get ''activity'' (JDict [])),
      (''application'', Get ''application'' (JDict [])), (''application_id'', OptInt ''application_id''),
      (''message_reference'', Get ''message_reference'' (JDict [])),
      (''message_snapshots'', Get ''message_snapshots'' (JList [])), (''flags'', Get ''flags'' JNull),
      (''referenced_message'', Given referenced), (''interaction_metadata'', Get ''interaction_metadata'' (JDict [])),
      (''interaction'', Get ''interaction'' (JDict [])), (''thread'', Given thread),
      (''components'', Get ''components'' (JList [])), (''sticker_items'', Get ''sticker_items'' (JList [])),
      (''stickers'', Get ''stickers'' (JList [])), (''position'', Get ''position'' JNull),
      (''role_subscription_data'', Get ''role_subscription_data'' (JDict [])),
      (''resolved'', Get ''resolved'' (JDict [])), (''poll'', Get ''poll'' JNull), (''call'', Get ''call'' JNull),
      (''shared_client_theme'', Get ''shared_client_theme'' JNull), (''guild'', Given guild),
      (''member'', Get ''member'' (JDict [])), (''raw_data'', Raw), (''bot'', Given AHost)]"

lemma map_of_size: "map_of d k = Some v \<Longrightarrow> size v < size (JDict d)"
  by (induction d) (auto split: if_splits)

function parse_message :: "(string \<Rightarrow> real result) \<Rightarrow> real \<Rightarrow> host \<Rightarrow> json \<Rightarrow> attr result" where
  "parse_message fromiso now h data =
     (case data of
        JDict d \<Rightarrow>
          bind_result (if json_truthy (dict_get d ''timestamp'' (JStr [])) then parse_time fromiso (jget d ''timestamp'') else Inr (ATime now)) (\<lambda>timestamp.
          bind_result (if json_truthy (jget d ''edited_timestamp'') then parse_time fromiso (jget d ''edited_timestamp'') else Inr ANone) (\<lambda>edited.
          bind_result (message_channel h data) (\<lambda>channel.
          bind_result (parse_user h (if json_truthy (jget d ''author'') then jget d ''author'' else default_author)) (\<lambda>author.
          bind_result (cached_guild h d) (\<lambda>guild.
          bind_result (eval_source h data (Items (parse_user h) ''mentions'')) (\<lambda>mentions.
          bind_result (eval_source h data (Items (parse_channel h) ''mention_channels'')) (\<lambda>mention_channels.
          bind_result (case map_of d ''referenced_message'' of
                         Some (JDict r) \<Rightarrow> parse_message fromiso now h (JDict r)
                       | _ \<Rightarrow> Inr ANone) (\<lambda>referenced.
          bind_result (case map_of d ''thread'' of Some (JDict t) \<Rightarrow> parse_channel h (JDict t) | _ \<Rightarrow> Inr ANone) (\<lambda>thread.
            build h ''Message'' []
              (message_fields channel author timestamp edited mentions mention_channels referenced thread guild) data)))))))))
      | _ \<Rightarrow> Inl (AttributeError ''get''))"
  by pat_completeness auto

termination
  by (relation "measure (\<lambda>(_, _, _, data). size data)") (auto dest!: map_of_size)

definition parse_message_pin :: "(string \<Rightarrow> real result) \<Rightarrow> real \<Rightarrow> host \<Rightarrow> json \<Rightarrow> attr result" where
  "parse_message_pin fromiso now h data =
     bind_result (bind_result (json_index data ''pinned_at'') (parse_time fromiso)) (\<lambda>pinned_at.
     bind_result (bind_result (json_index data ''message'') (parse_message fromiso now h)) (\<lambda>message.
       Inr (AObj ''MessagePin'' [(''pinned_at'', pinned_at), (''message'', message), (''raw_data'', raw h data)])))"

section \<open>Events\<close>

text \<open>\<open>v[i]\<close> with an integer index.\<close>

definition json_nth :: "json \<Rightarrow> nat \<Rightarrow> json result" where
  "json_nth v i =
     (case v of
        JList xs \<Rightarrow> if i < length xs then Inr (xs ! i) else Inl IndexError
      | JStr s \<Rightarrow> if i < length s then Inr (JStr [s ! i]) else Inl IndexError
      | JDict _ \<Rightarrow> Inl (KeyError (show_nat i))
      | _ \<Rightarrow> Inl (TypeError ''not subscriptable''))"

definition parse_shard :: "json \<Rightarrow> attr result" where
  "parse_shard v =
     (if \<not> json_truthy v then Inr ANone
      else
        bind_result (bind_result (json_nth v 0) py_int) (\<lambda>a.
        bind_result (bind_result (json_nth v 1) py_int) (\<lambda>b. Inr (AInts [a, b]))))"

definition ready_fields :: "host \<Rightarrow> attr \<Rightarrow> attr \<Rightarrow> (string \<times> field_source) list" where
  "ready_fields h shard user =
     [(''version'', Get ''v'' JNull), (''user'', Given user), (''guilds'', Items (parse_guild h) ''guilds''),
      (''session_id'', Get ''session_id'' JNull), (''resume_gateway_url'', Get ''resume_gateway_url'' JNull),
      (''shard'', Given shard), (''application'', Get ''application'' JNull), (''raw_data'', Raw)]"

definition parse_ready :: "host \<Rightarrow> json \<Rightarrow> attr result" where
  "parse_ready h data =
     bind_result (bind_result (json_get data ''shard'' JNull) parse_shard) (\<lambda>shard.
     bind_result (json_get data ''user'' JNull) (\<lambda>u.
     bind_result (if json_truthy u then parse_user h u else Inr ANone) (\<lambda>user.
       build h ''Ready'' [] (ready_fields h shard user) data)))"

definition message_events :: "string list" where
  "message_events = [''MESSAGE_CREATE'', ''MESSAGE_UPDATE'']"

definition reaction_events :: "string list" where
  "reaction_events = [''MESSAGE_REACTION_ADD'', ''MESSAGE_REACTION_REMOVE'', ''MESSAGE_REACTION_REMOVE_ALL'', ''MESSAGE_REACTION_REMOVE_EMOJI'']"

definition poll_events :: "string list" where
  "poll_events = [''MESSAGE_POLL_VOTE_ADD'', ''MESSAGE_POLL_VOTE_REMOVE'']"

definition guild_events :: "string list" where
  "guild_events = [''GUILD_CREATE'', ''GUILD_UPDATE'', ''GUILD_DELETE'']"

definition channel_events :: "string list" where
  "channel_events = [''CHANNEL_CREATE'', ''CHANNEL_UPDATE'', ''CHANNEL_DELETE'', ''THREAD_CREATE'', ''THREAD_UPDATE'', ''THREAD_DELETE'']"

text \<open>The typed payload of an event and the attribute of the event that holds it.\<close>

definition typed_payload :: "(string \<Rightarrow> real result) \<Rightarrow> real \<Rightarrow> host \<Rightarrow> string \<Rightarrow> json \<Rightarrow> (string option \<times> attr) result" where
  "typed_payload fromiso now h t data =
     (let tagged = (\<lambda>slot r. bind_result r (\<lambda>a. Inr (slot, a))) in
      if t = ''READY'' then tagged (Some ''ready'') (parse_ready h data)
      else if t = ''RESUMED'' then
        Inr (Some ''resume'', AObj ''Resume'' [(''session_id'', AJson (ho_session_id h)), (''sequence'', AJson (ho_sequence h)),
          (''replayed'', AJson (JBool True)), (''raw_data'', raw h data)])
      else if t \<in> set message_events then tagged (Some ''message'') (parse_message fromiso now h data)
      else if t = ''MESSAGE_DELETE'' then
        tagged (Some ''deleted_message'') (build h ''DeletedMessage'' []
          [(''id'', ReqInt ''id''), (''channel_id'', ReqInt ''channel_id''), (''guild_id'', OptInt ''guild_id''), (''raw_data'', Raw)] data)
      else if t = ''MESSAGE_DELETE_BULK'' then
        tagged (Some ''deleted_messages'') (build h ''BulkDeletedMessages'' []
          [(''ids'', Ints ''ids''), (''channel_id'', ReqInt ''channel_id''), (''guild_id'', OptInt ''guild_id''), (''raw_data'', Raw)] data)
      else if t \<in> set reaction_events then
        tagged (Some ''reaction'') (build h ''Reaction'' []
          [(''user_id'', OptInt ''user_id''), (''channel_id'', ReqInt ''channel_id''), (''message_id'', ReqInt ''message_id''),
           (''guild_id'', OptInt ''guild_id''), (''member'', Get ''member'' JNull), (''emoji'', Get ''emoji'' (JDict [])), (''raw_data'', Raw)] data)
      else if t = ''TYPING_START'' then
        tagged (Some ''typing'') (build h ''TypingStart'' []
          [(''channel_id'', ReqInt ''channel_id''), (''user_id'', ReqInt ''user_id''),
           (''timestamp'', GetInt ''timestamp'' (JInt 0)),
           (''guild_id'', OptInt ''guild_id''), (''member'', Get ''member'' JNull), (''raw_data'', Raw)] data)
      else if t \<in> set poll_events then
        tagged (Some ''poll_vote'') (build h ''PollVote'' []
          [(''user_id'', ReqInt ''user_id''), (''channel_id'', ReqInt ''channel_id''), (''message_id'', ReqInt ''message_id''),
           (''answer_id'', ReqInt ''answer_id''), (''guild_id'', OptInt ''guild_id''), (''raw_data'', Raw)] data)
      else if t \<in> set guild_events then tagged (Some ''guild'') (parse_guild h data)
      else if t \<in> set channel_events then tagged (Some ''channel'') (parse_channel h data)
      else Inr (None, AObj ''RawGatewayEvent'' [(''type'', AType t), (''data'', raw h data), (''raw_data'', raw h data)]))"

text \<open>\<open>pe_event_id\<close> is None where the model leaves the text of \<open>str(v)\<close> open.\<close>

record parsed_event =
  pe_type :: string
  pe_data :: json
  pe_shard_id :: json
  pe_event_id :: "string option"
  pe_raw_data :: attr
  pe_interaction :: json
  pe_object :: attr
  pe_slot :: "string option"
  pe_user :: attr
  pe_guild :: attr
  pe_channel :: attr

definition attr_get :: "attr \<Rightarrow> string \<Rightarrow> attr" where
  "attr_get a name = (case a of AObj _ as \<Rightarrow> (case map_of as name of Some v \<Rightarrow> v | None \<Rightarrow> ANone) | _ \<Rightarrow> ANone)"

definition event_id_of :: "string \<Rightarrow> jdict \<Rightarrow> string option" where
  "event_id_of uuid d =
     (if json_truthy (jget d ''id'') then py_str (jget d ''id'')
      else if json_truthy (jget d ''event_id'') then py_str (jget d ''event_id'')
      else Some uuid)"

definition parse_event :: "(string \<Rightarrow> real result) \<Rightarrow> real \<Rightarrow> string \<Rightarrow> host \<Rightarrow> string \<Rightarrow> json \<Rightarrow> parsed_event result" where
  "parse_event fromiso now uuid h t data =
     (case data of
        JDict d \<Rightarrow>
          bind_result (typed_payload fromiso now h t data) (\<lambda>(slot, obj).
          let user = (if slot = Some ''ready'' then attr_get obj ''user'' else if slot = Some ''message'' then attr_get obj ''author'' else ANone);
              guild = (if slot = Some ''message'' then attr_get obj ''guild'' else if slot = Some ''guild'' then obj else ANone);
              channel = (if slot = Some ''message'' then attr_get obj ''channel'' else if slot = Some ''channel'' then obj else ANone)
          in
          bind_result (case map_of d ''user'' of Some u \<Rightarrow> parse_user h u | None \<Rightarrow> Inr user) (\<lambda>user.
          bind_result (cached_guild h d) (\<lambda>cached.
          bind_result (if jget d ''channel_id'' = JNull then Inr ANone
                       else bind_result (py_int (jget d ''channel_id'')) (\<lambda>i.
                              Inr (case map_of (ho_channels h) i of Some c \<Rightarrow> c | None \<Rightarrow> ANone))) (\<lambda>cached_channel.
            Inr \<lparr>pe_type = t, pe_data = data, pe_shard_id = ho_shard_id h, pe_event_id = event_id_of uuid d, pe_raw_data = raw h data,
                 pe_interaction = jget d ''interaction'', pe_object = obj, pe_slot = slot, pe_user = user,
                 pe_guild = (if guild = ANone then cached else guild), pe_channel = (if channel = ANone then cached_channel else channel)\<rparr>))))
      | _ \<Rightarrow> Inl (AttributeError ''get''))"

section \<open>The caches of the bot\<close>

text \<open>\<open>_handle_message_create\<close>, after \<open>_parse_event\<close>: the message is parsed again and its parts are cached.\<close>

definition obj_id :: "attr \<Rightarrow> int" where
  "obj_id a = (case attr_get a ''id'' of AInt i \<Rightarrow> i | _ \<Rightarrow> 0)"

definition handle_message_create :: "(string \<Rightarrow> real result) \<Rightarrow> real \<Rightarrow> json \<Rightarrow> host \<Rightarrow> host result" where
  "handle_message_create fromiso now data h =
     bind_result (parse_message fromiso now h data) (\<lambda>message.
     bind_result (json_get data ''author'' JNull) (\<lambda>author.
       let h1 = (if author \<noteq> JNull
                 then h\<lparr>ho_users := dict_set (ho_users h) (obj_id (attr_get message ''author'')) (attr_get message ''author'')\<rparr> else h);
           h2 = h1\<lparr>ho_channels := dict_set (ho_channels h1) (obj_id (attr_get message ''channel'')) (attr_get message ''channel'')\<rparr>
       in Inr (if attr_get message ''guild'' \<noteq> ANone
               then h2\<lparr>ho_guilds := dict_set (ho_guilds h2) (obj_id (attr_get message ''guild'')) (attr_get message ''guild'')\<rparr> else h2)))"

text \<open>The parts of \<open>_handle_ready\<close> that fill the caches.\<close>

definition cache_guild :: "attr \<Rightarrow> host \<Rightarrow> host" where
  "cache_guild g h = h\<lparr>ho_guilds := dict_set (ho_guilds h) (obj_id g) g\<rparr>"

primrec cache_guilds :: "json list \<Rightarrow> host \<Rightarrow> host result" where
  "cache_guilds [] h = Inr h"
| "cache_guilds (x # xs) h = bind_result (parse_guild h x) (\<lambda>g. cache_guilds xs (cache_guild g h))"

definition cache_ready :: "json \<Rightarrow> host \<Rightarrow> host result" where
  "cache_ready data h =
     bind_result (bind_result (json_get data ''user'' (JDict [])) (parse_user h)) (\<lambda>user.
     bind_result (bind_result (json_get data ''guilds'' (JList [])) json_iter) (\<lambda>xs.
     bind_result (cache_guilds xs (h\<lparr>ho_users := dict_set (ho_users h) (obj_id user) user\<rparr>)) (\<lambda>h1.
     bind_result (json_get data ''session_id'' JNull) (\<lambda>sid. Inr (h1\<lparr>ho_session_id := sid\<rparr>)))))"

text \<open>What one dispatch does to the caches before the handlers run.\<close>

definition dispatch_caches :: "(string \<Rightarrow> real result) \<Rightarrow> real \<Rightarrow> string \<Rightarrow> string \<Rightarrow> json \<Rightarrow> host \<Rightarrow> (parsed_event \<times> host) result" where
  "dispatch_caches fromiso now uuid t data h =
     bind_result (parse_event fromiso now uuid h t data) (\<lambda>ev.
     bind_result (if t = ''READY'' then cache_ready data h
                  else if t \<in> set message_events then handle_message_create fromiso now data h
                  else Inr h) (\<lambda>h1. Inr (ev, h1)))"

text \<open>\<open>fetch_channel\<close>, \<open>modify_channel\<close>, \<open>delete_channel\<close> and \<open>list_guild_channels\<close> on the reply of the API.\<close>

definition fetch_channel :: "json \<Rightarrow> host \<Rightarrow> host result" where
  "fetch_channel reply h =
     bind_result (parse_channel h reply) (\<lambda>ch. Inr (h\<lparr>ho_channels := dict_set (ho_channels h) (obj_id ch) ch\<rparr>))"

definition delete_channel :: "int \<Rightarrow> host \<Rightarrow> host" where
  "delete_channel i h = h\<lparr>ho_channels := dict_pop (ho_channels h) i\<rparr>"

definition list_guild_channels :: "json list \<Rightarrow> host \<Rightarrow> host result" where
  "list_guild_channels replies h =
     bind_result (map_result (parse_channel h) replies) (\<lambda>chs.
       Inr (h\<lparr>ho_channels := fold (\<lambda>ch d. dict_set d (obj_id ch) ch) chs (ho_channels h)\<rparr>))"

section \<open>Reading attributes back\<close>

lemma eval_fields_lookup:
  "eval_fields h data spec = Inr as \<Longrightarrow> map_of spec name = Some src \<Longrightarrow>
     \<exists>a. map_of as name = Some a \<and> eval_source h data src = Inr a"
proof (induction spec arbitrary: as)
  case (Cons f spec)
  then show ?case by (auto simp: eval_fields_def bind_result_Inr_iff split: if_splits)
qed simp

lemma eval_fields_names: "eval_fields h data spec = Inr as \<Longrightarrow> map fst as = map fst spec"
  by (induction spec arbitrary: as) (auto simp: eval_fields_def bind_result_Inr_iff)

lemma build_lookup:
  assumes "build h cls unset spec data = Inr a" and "map_of spec name = Some src"
  shows "eval_source h data src = Inr (attr_get a name)"
proof -
  obtain as where "eval_fields h data spec = Inr as" "a = AObj cls (as @ unset)"
    using assms(1) by (auto simp: build_def bind_result_Inr_iff)
  then show ?thesis using eval_fields_lookup [OF _ assms(2)] by (fastforce simp: attr_get_def)
qed

lemma eval_source_Given [simp]: "eval_source h data (Given a) = Inr a"
  by (simp add: eval_source_def)

lemma parse_message_parts:
  assumes "parse_message fromiso now h (JDict d) = Inr m"
  obtains channel author guild where "message_channel h (JDict d) = Inr channel" "attr_get m ''channel'' = channel"
    "parse_user h (if json_truthy (jget d ''author'') then jget d ''author'' else default_author) = Inr author" "attr_get m ''author'' = author"
    "cached_guild h d = Inr guild" "attr_get m ''guild'' = guild"
proof -
  obtain timestamp edited channel author guild mentions mention_channels referenced thread where p:
    "message_channel h (JDict d) = Inr channel"
    "parse_user h (if json_truthy (jget d ''author'') then jget d ''author'' else default_author) = Inr author"
    "cached_guild h d = Inr guild"
    "build h ''Message'' [] (message_fields channel author timestamp edited mentions mention_channels referenced thread guild) (JDict d) = Inr m"
    using assms by (subst (asm) parse_message.simps) (auto simp only: json.case bind_result_Inr_iff)
  have "attr_get m ''channel'' = channel" "attr_get m ''author'' = author" "attr_get m ''guild'' = guild"
    using build_lookup [OF p(4), of "''channel''" "Given channel"] build_lookup [OF p(4), of "''author''" "Given author"]
      build_lookup [OF p(4), of "''guild''" "Given guild"]
    by (simp_all add: message_fields_def)
  then show thesis using that p by blast
qed

declare parse_message.simps [simp del]

lemma message_id:
  assumes "parse_message fromiso now h (JDict d) = Inr m" and "map_of d ''id'' = Some v" and "py_int v = Inr i"
  shows "obj_id m = i"
proof -
  obtain timestamp edited channel author guild mentions mention_channels referenced thread where
    "build h ''Message'' [] (message_fields channel author timestamp edited mentions mention_channels referenced thread guild) (JDict d) = Inr m"
    using assms(1) by (subst (asm) parse_message.simps) (auto simp only: json.case bind_result_Inr_iff)
  from build_lookup [OF this, of "''id''" "ReqInt ''id''"] have "attr_get m ''id'' = AInt i"
    using assms(2,3) by (auto simp: message_fields_def eval_source_def json_index_def dict_index_def)
  then show ?thesis by (simp add: obj_id_def)
qed

lemma parse_message_dict: "parse_message fromiso now h data = Inr m \<Longrightarrow> \<exists>d. data = JDict d"
  by (cases data) (simp_all add: parse_message.simps)

section \<open>The channel cache\<close>

text \<open>A channel the bot has made up from a message: never a thread, a forum or a voice channel.\<close>

definition is_stub :: "attr \<Rightarrow> bool" where
  "is_stub ch \<longleftrightarrow> (\<exists>i t g. ch = stub_channel i t g \<and> t \<in> {''TEXT'', ''DM''})"

definition only_stubs :: "host \<Rightarrow> bool" where
  "only_stubs h \<longleftrightarrow> (\<forall>i ch. map_of (ho_channels h) i = Some ch \<longrightarrow> is_stub ch)"

lemma message_channel_stub: "only_stubs h \<Longrightarrow> message_channel h data = Inr ch \<Longrightarrow> is_stub ch"
  by (auto simp: message_channel_def only_stubs_def is_stub_def bind_result_Inr_iff split: option.splits if_splits)

lemma cache_guilds_channels: "cache_guilds xs h = Inr h' \<Longrightarrow> ho_channels h' = ho_channels h"
  by (induction xs arbitrary: h) (auto simp: bind_result_Inr_iff cache_guild_def)

lemma cache_ready_channels: "cache_ready data h = Inr h' \<Longrightarrow> ho_channels h' = ho_channels h"
  by (auto simp: cache_ready_def bind_result_Inr_iff dest!: cache_guilds_channels)

lemma handle_message_create_stubs:
  assumes "handle_message_create fromiso now data h = Inr h'" and "only_stubs h"
  shows "only_stubs h'"
proof -
  obtain m where m: "parse_message fromiso now h data = Inr m"
    using assms(1) by (auto simp: handle_message_create_def bind_result_Inr_iff)
  then obtain d where "data = JDict d" using parse_message_dict by blast
  then have "is_stub (attr_get m ''channel'')"
    using parse_message_parts [of fromiso now h d m] m message_channel_stub [OF assms(2)] by metis
  then show ?thesis
    using assms m by (auto simp: handle_message_create_def bind_result_Inr_iff only_stubs_def Let_def split: if_splits)
qed

definition gateway_event :: "(string \<Rightarrow> real result) \<Rightarrow> host \<Rightarrow> host \<Rightarrow> bool" where
  "gateway_event fromiso h h' \<longleftrightarrow> (\<exists>now uuid t data ev. dispatch_caches fromiso now uuid t data h = Inr (ev, h'))"

lemma dispatch_keeps_stubs: "only_stubs h \<Longrightarrow> gateway_event fromiso h h' \<Longrightarrow> only_stubs h'"
  by (auto simp: gateway_event_def dispatch_caches_def bind_result_Inr_iff only_stubs_def
      dest!: cache_ready_channels intro: handle_message_create_stubs [unfolded only_stubs_def, rule_format] split: if_splits)

section \<open>Events as the filters see them\<close>

text \<open>Floats and times are opaque objects.\<close>

fun json_value :: "json \<Rightarrow> pval" where
  "json_value JNull = VNone"
| "json_value (JBool b) = VBool b"
| "json_value (JInt i) = VInt i"
| "json_value (JFloat f) = VRef 0"
| "json_value (JStr s) = VStr s"
| "json_value (JList xs) = VList (map json_value xs)"
| "json_value (JDict d) = VDict (map (\<lambda>kv. (fst kv, json_value (snd kv))) d)"

fun attr_value :: "attr \<Rightarrow> pval" where
  "attr_value ANone = VNone"
| "attr_value (AInt i) = VInt i"
| "attr_value (AJson v) = json_value v"
| "attr_value (AInts is) = VList (map VInt is)"
| "attr_value (ATime t) = VRef 0"
| "attr_value (AType t) = VEnum ''ChannelType'' t (case map_of channel_type_members t of Some i \<Rightarrow> VInt i | None \<Rightarrow> VNone)"
| "attr_value AHost = VRef 1"
| "attr_value (AList as) = VList (map attr_value as)"
| "attr_value (AObj cls as) = VInst cls (map (\<lambda>kv. (fst kv, attr_value (snd kv))) as)"

definition event_value :: "parsed_event \<Rightarrow> pval" where
  "event_value ev =
     VInst ''Event'' [(''type'', VEnum ''EventType'' (pe_type ev) (VStr (pe_type ev))), (''data'', json_value (pe_data ev)),
       (''object'', attr_value (pe_object ev)), (''payload'', attr_value (pe_object ev)), (''raw_data'', attr_value (pe_raw_data ev)),
       (''interaction'', json_value (pe_interaction ev)), (''bot'', VRef 1), (''user'', attr_value (pe_user ev)), (''guild'', attr_value (pe_guild ev)), (''channel'', attr_value (pe_channel ev)),
       (''message'', if pe_slot ev = Some ''message'' then attr_value (pe_object ev) else VNone)]"

lemma topic_filter_stub: "pe_channel ev = ch \<Longrightarrow> is_stub ch \<Longrightarrow> topic_filter (event_value ev) = Inr False"
  by (auto simp: is_stub_def stub_channel_def topic_filter_def channel_type_in_def own_or_message_def event_value_def get_attr_def truthy_def
      channel_type_name_def channel_type_members_def hashable_def)

text \<open>An event payload that the documentation allows; \<open>user_ok\<close> and \<open>channel_ok\<close> for the objects in it.\<close>

definition int_ok :: "json \<Rightarrow> bool" where
  "int_ok v = (case py_int v of Inr _ \<Rightarrow> True | Inl _ \<Rightarrow> False)"

definition req_ok :: "jdict \<Rightarrow> string \<Rightarrow> bool" where
  "req_ok d k = (case map_of d k of Some v \<Rightarrow> int_ok v | None \<Rightarrow> False)"

definition opt_ok :: "jdict \<Rightarrow> string \<Rightarrow> bool" where
  "opt_ok d k = (json_truthy (jget d k) \<longrightarrow> int_ok (jget d k))"

definition list_ok :: "(json \<Rightarrow> bool) \<Rightarrow> jdict \<Rightarrow> string \<Rightarrow> bool" where
  "list_ok P d k = (case map_of d k of None \<Rightarrow> True | Some (JList xs) \<Rightarrow> list_all P xs | _ \<Rightarrow> False)"

text \<open>What a table needs of a payload: this follows the kinds of its entries only.\<close>

definition source_ok :: "jdict \<Rightarrow> field_source \<Rightarrow> bool" where
  "source_ok d src =
     (case src of
        ReqInt k \<Rightarrow> req_ok d k
      | OptInt k \<Rightarrow> opt_ok d k
      | GetInt k dflt \<Rightarrow> int_ok (dict_get d k dflt)
      | Ints k \<Rightarrow> list_ok int_ok d k
      | Items parse k \<Rightarrow> list_ok (\<lambda>x. \<not> isl (parse x)) d k
      | _ \<Rightarrow> True)"

lemma int_okD: "int_ok v \<Longrightarrow> \<exists>i. py_int v = Inr i"
  by (cases "py_int v") (auto simp: int_ok_def)

lemma opt_int_total: "opt_ok d k \<Longrightarrow> \<exists>a. opt_int (JDict d) k = Inr a"
  using int_okD [of "jget d k"]
  by (cases "map_of d k")
    (auto simp: opt_int_def opt_ok_def json_get_def json_index_def dict_index_def jget_def dict_get_def json_truthy_def)

lemma map_result_ok: "list_all (\<lambda>x. \<not> isl (f x)) xs \<Longrightarrow> \<exists>ys. map_result f xs = Inr ys"
proof (induction xs)
  case (Cons x xs)
  then show ?case by (cases "f x") auto
qed simp

lemma source_total: "source_ok d src \<Longrightarrow> \<exists>a. eval_source h (JDict d) src = Inr a"
proof (cases src)
  case (Ints k)
  assume "source_ok d src"
  then have "map_of d k = None \<or> (\<exists>xs. map_of d k = Some (JList xs) \<and> list_all (\<lambda>x. \<not> isl (py_int x)) xs)"
    using Ints by (auto simp: source_ok_def list_ok_def list_all_iff int_ok_def isl_def split: option.splits json.splits sum.splits)
  then show ?thesis using Ints map_result_ok [of py_int]
    by (force simp: eval_source_def json_get_def dict_get_def json_iter_def)
next
  case (Items parse k)
  assume "source_ok d src"
  then have "map_of d k = None \<or> (\<exists>xs. map_of d k = Some (JList xs) \<and> list_all (\<lambda>x. \<not> isl (parse x)) xs)"
    using Items by (auto simp: source_ok_def list_ok_def split: option.splits json.splits)
  then show ?thesis using Items map_result_ok [of parse]
    by (force simp: eval_source_def json_get_def dict_get_def json_iter_def)
qed (use opt_int_total in \<open>auto simp: source_ok_def eval_source_def req_ok_def json_index_def json_get_def dict_index_def split: option.splits dest!: int_okD\<close>)

lemma build_total:
  assumes "list_all (\<lambda>f. source_ok d (snd f)) spec"
  shows "\<exists>as. build h cls unset spec (JDict d) = Inr (AObj cls (as @ unset)) \<and> map fst as = map fst spec"
proof -
  have "\<exists>as. eval_fields h (JDict d) spec = Inr as"
    unfolding eval_fields_def
  proof (rule map_result_ok, unfold list_all_iff, rule ballI)
    fix f assume "f \<in> set spec"
    then obtain a where "eval_source h (JDict d) (snd f) = Inr a" using assms source_total by (force simp: list_all_iff)
    then show "\<not> isl (bind_result (eval_source h (JDict d) (snd f)) (\<lambda>a. Inr (fst f, a)))" by simp
  qed
  then show ?thesis using eval_fields_names by (fastforce simp: build_def)
qed

definition user_ok :: "json \<Rightarrow> bool" where
  "user_ok v = (case v of JDict d \<Rightarrow> req_ok d ''id'' | _ \<Rightarrow> False)"

definition channel_ok :: "json \<Rightarrow> bool" where
  "channel_ok v =
     (case v of
        JDict d \<Rightarrow>
          req_ok d ''id'' \<and>
          list_all (opt_ok d) [''guild_id'', ''last_message_id'', ''owner_id'', ''application_id'', ''parent_id''] \<and>
          list_ok user_ok d ''recipients'' \<and> list_ok int_ok d ''applied_tags''
      | _ \<Rightarrow> False)"

definition time_ok :: "(string \<Rightarrow> real result) \<Rightarrow> json \<Rightarrow> bool" where
  "time_ok fromiso v = (case v of JStr s \<Rightarrow> \<not> isl (fromiso (replace_z s)) | _ \<Rightarrow> False)"

definition own_part_ok :: "(string \<Rightarrow> real result) \<Rightarrow> jdict \<Rightarrow> bool" where
  "own_part_ok fromiso d \<longleftrightarrow>
     (json_truthy (jget d ''timestamp'') \<longrightarrow> time_ok fromiso (jget d ''timestamp'')) \<and>
     (json_truthy (jget d ''edited_timestamp'') \<longrightarrow> time_ok fromiso (jget d ''edited_timestamp'')) \<and>
     req_ok d ''id'' \<and> req_ok d ''channel_id'' \<and> opt_ok d ''webhook_id'' \<and> opt_ok d ''application_id'' \<and>
     (json_truthy (jget d ''author'') \<longrightarrow> user_ok (jget d ''author'')) \<and>
     (map_of d ''guild_id'' = None \<or> req_ok d ''guild_id'') \<and>
     list_ok user_ok d ''mentions'' \<and> list_ok channel_ok d ''mention_channels'' \<and> list_ok int_ok d ''mention_roles'' \<and>
     (case map_of d ''thread'' of Some (JDict t) \<Rightarrow> channel_ok (JDict t) | _ \<Rightarrow> True)"

function message_ok :: "(string \<Rightarrow> real result) \<Rightarrow> jdict \<Rightarrow> bool" where
  "message_ok fromiso d =
     (own_part_ok fromiso d \<and>
      (case map_of d ''referenced_message'' of Some (JDict r) \<Rightarrow> message_ok fromiso r | _ \<Rightarrow> True))"
  by pat_completeness auto

termination
  by (relation "measure (\<lambda>(_, d). size (JDict d))") (auto dest!: map_of_size)

declare message_ok.simps [simp del]

lemma user_total: "user_ok v \<Longrightarrow> \<exists>as. parse_user h v = Inr (AObj ''User'' as)"
  using build_total [of _ user_fields h "''User''" user_unset]
  by (fastforce simp: user_ok_def parse_user_def user_fields_def source_ok_def split: json.splits)

lemma list_ok_mono: "list_ok P d k \<Longrightarrow> (\<And>x. P x \<Longrightarrow> Q x) \<Longrightarrow> list_ok Q d k"
  by (auto simp: list_ok_def list_all_iff split: option.splits json.splits)

lemma items_total:
  assumes "list_ok P d k" and "\<And>x. P x \<Longrightarrow> \<exists>a. parse x = Inr a"
  shows "\<exists>a. eval_source h (JDict d) (Items parse k) = Inr a"
proof (rule source_total)
  have "list_ok (\<lambda>x. \<not> isl (parse x)) d k" using assms(1) by (rule list_ok_mono) (metis assms(2) sum.disc(2))
  then show "source_ok d (Items parse k)" by (simp add: source_ok_def)
qed

lemma channel_total: "channel_ok v \<Longrightarrow> \<exists>as. parse_channel h v = Inr (AObj ''Channel'' as)"
proof -
  assume "channel_ok v"
  then obtain d where d: "v = JDict d" "req_ok d ''id''"
    "list_all (opt_ok d) [''guild_id'', ''last_message_id'', ''owner_id'', ''application_id'', ''parent_id'']"
    "list_ok user_ok d ''recipients''" "list_ok int_ok d ''applied_tags''"
    by (auto simp: channel_ok_def split: json.splits)
  have "list_ok (\<lambda>x. \<not> isl (parse_user h x)) d ''recipients''"
    using d(4) by (rule list_ok_mono) (metis user_total sum.disc(2))
  then have "list_all (\<lambda>f. source_ok d (snd f)) (channel_fields h t)" for t
    using d(2,3,5) by (simp add: channel_fields_def source_ok_def)
  from build_total [OF this] show ?thesis by (fastforce simp: parse_channel_def d(1) json_get_def)
qed

lemma time_total: "time_ok fromiso v \<Longrightarrow> \<exists>a. parse_time fromiso v = Inr a"
proof -
  assume "time_ok fromiso v"
  then obtain s where "v = JStr s" "\<not> isl (fromiso (replace_z s))" by (auto simp: time_ok_def split: json.splits)
  then show ?thesis by (cases "fromiso (replace_z s)") (auto simp: parse_time_def)
qed

lemma message_channel_total:
  assumes "req_ok d ''channel_id''" and "map_of d ''guild_id'' = None \<or> req_ok d ''guild_id''"
  shows "\<exists>ch. message_channel h (JDict d) = Inr ch"
proof -
  obtain v i where v: "map_of d ''channel_id'' = Some v" "py_int v = Inr i"
    using assms(1) int_okD by (auto simp: req_ok_def split: option.splits)
  have "opt_ok d ''guild_id''"
    using assms(2) by (auto simp: req_ok_def opt_ok_def jget_def dict_get_def json_truthy_def split: option.splits)
  then obtain g where "opt_int (JDict d) ''guild_id'' = Inr g" using opt_int_total by blast
  then show ?thesis using v by (auto simp: message_channel_def json_get_def dict_get_def split: option.split)
qed

lemma cached_guild_total: "map_of d ''guild_id'' = None \<or> req_ok d ''guild_id'' \<Longrightarrow> \<exists>g. cached_guild h d = Inr g"
  by (auto simp: cached_guild_def req_ok_def split: option.splits dest!: int_okD)

lemma default_author_ok: "user_ok default_author"
proof -
  have "show_int 0 = ''0''" by code_simp
  then have "py_int (JStr ''0'') = Inr 0" using py_int_simps(2) [of 0] by simp
  then show ?thesis by (simp add: default_author_def user_ok_def req_ok_def int_ok_def)
qed

lemma thread_total:
  assumes "case map_of d ''thread'' of Some (JDict t) \<Rightarrow> channel_ok (JDict t) | _ \<Rightarrow> True"
  obtains a where "(case map_of d ''thread'' of Some (JDict t) \<Rightarrow> parse_channel h (JDict t) | _ \<Rightarrow> Inr ANone) = Inr a"
proof (cases "map_of d ''thread''")
  case (Some v)
  then show thesis using that assms channel_total by (cases v) fastforce+
qed (use that in simp)

lemma referenced_total:
  assumes "own_part_ok fromiso d"
    and "\<exists>a. (case map_of d ''referenced_message'' of Some (JDict r) \<Rightarrow> parse_message fromiso now h (JDict r) | _ \<Rightarrow> Inr ANone) = Inr a"
  shows "\<exists>as. parse_message fromiso now h (JDict d) = Inr (AObj ''Message'' as)"
proof -
  note ok = assms(1) [unfolded own_part_ok_def]
  have ts: "dict_get d ''timestamp'' (JStr []) = jget d ''timestamp'' \<or> \<not> json_truthy (dict_get d ''timestamp'' (JStr []))"
    by (cases "map_of d ''timestamp''") (simp_all add: dict_get_def jget_def json_truthy_def)
  obtain timestamp where 1: "(if json_truthy (dict_get d ''timestamp'' (JStr [])) then parse_time fromiso (jget d ''timestamp'') else Inr (ATime now)) = Inr timestamp"
  proof (cases "json_truthy (dict_get d ''timestamp'' (JStr []))")
    case True
    then have "time_ok fromiso (jget d ''timestamp'')" using ok ts by simp
    then show thesis using True that time_total by fastforce
  qed (use that in simp)
  obtain edited where 2: "(if json_truthy (jget d ''edited_timestamp'') then parse_time fromiso (jget d ''edited_timestamp'') else Inr ANone) = Inr edited"
  proof (cases "json_truthy (jget d ''edited_timestamp'')")
    case True
    then have "time_ok fromiso (jget d ''edited_timestamp'')" using ok by simp
    then show thesis using True that time_total by fastforce
  qed (use that in simp)
  obtain channel where 3: "message_channel h (JDict d) = Inr channel" using ok message_channel_total by blast
  have "user_ok (if json_truthy (jget d ''author'') then jget d ''author'' else default_author)"
    using ok default_author_ok by simp
  then obtain author where 4: "parse_user h (if json_truthy (jget d ''author'') then jget d ''author'' else default_author) = Inr author"
    using user_total by blast
  obtain guild where 5: "cached_guild h d = Inr guild" using ok cached_guild_total by blast
  obtain mentions where 6: "eval_source h (JDict d) (Items (parse_user h) ''mentions'') = Inr mentions"
    using items_total [of user_ok d "''mentions''" "parse_user h"] ok user_total by blast
  obtain mention_channels where 7: "eval_source h (JDict d) (Items (parse_channel h) ''mention_channels'') = Inr mention_channels"
    using items_total [of channel_ok d "''mention_channels''" "parse_channel h"] ok channel_total by blast
  obtain thread where 8: "(case map_of d ''thread'' of Some (JDict t) \<Rightarrow> parse_channel h (JDict t) | _ \<Rightarrow> Inr ANone) = Inr thread"
    by (rule thread_total [of d h]) (use ok in blast)
  obtain referenced where 9: "(case map_of d ''referenced_message'' of Some (JDict r) \<Rightarrow> parse_message fromiso now h (JDict r) | _ \<Rightarrow> Inr ANone) = Inr referenced"
    using assms(2) by blast
  have "list_all (\<lambda>f. source_ok d (snd f)) (message_fields channel author timestamp edited mentions mention_channels referenced thread guild)"
    using ok by (simp add: message_fields_def source_ok_def)
  from build_total [OF this] obtain as where
    "build h ''Message'' [] (message_fields channel author timestamp edited mentions mention_channels referenced thread guild) (JDict d) = Inr (AObj ''Message'' as)"
    by fastforce
  then show ?thesis by (subst parse_message.simps) (simp only: json.case bind_result_simps 1 2 3 4 5 6 7 8 9, blast)
qed

lemma message_total: "message_ok fromiso d \<Longrightarrow> \<exists>as. parse_message fromiso now h (JDict d) = Inr (AObj ''Message'' as)"
proof (induction fromiso d rule: message_ok.induct)
  case (1 fromiso d)
  have ok: "own_part_ok fromiso d" using "1.prems" by (simp add: message_ok.simps)
  have "\<exists>a. (case map_of d ''referenced_message'' of Some (JDict r) \<Rightarrow> parse_message fromiso now h (JDict r) | _ \<Rightarrow> Inr ANone) = Inr a"
  proof (cases "map_of d ''referenced_message''")
    case (Some v)
    then show ?thesis using "1.IH" "1.prems" by (cases v) (fastforce simp: message_ok.simps [of fromiso d])+
  qed simp
  with ok show ?case by (rule referenced_total)
qed

lemma typed_message:
  "t \<in> set message_events \<Longrightarrow>
     typed_payload fromiso now h t data = bind_result (parse_message fromiso now h data) (\<lambda>m. Inr (Some ''message'', m))"
  by (auto simp: typed_payload_def message_events_def)

text \<open>The channel an event refers to by \<open>channel_id\<close>, from the cache.\<close>

definition cached_channel :: "host \<Rightarrow> jdict \<Rightarrow> attr result" where
  "cached_channel h d =
     (if jget d ''channel_id'' = JNull then Inr ANone
      else bind_result (py_int (jget d ''channel_id'')) (\<lambda>i. Inr (case map_of (ho_channels h) i of Some c \<Rightarrow> c | None \<Rightarrow> ANone)))"

lemma parse_event_message:
  assumes "t \<in> set message_events" and "parse_message fromiso now h (JDict d) = Inr m"
  shows "parse_event fromiso now uuid h t (JDict d) =
    bind_result (case map_of d ''user'' of Some u \<Rightarrow> parse_user h u | None \<Rightarrow> Inr (attr_get m ''author'')) (\<lambda>user.
    bind_result (cached_guild h d) (\<lambda>cached.
    bind_result (cached_channel h d) (\<lambda>cached_ch.
      Inr \<lparr>pe_type = t, pe_data = JDict d, pe_shard_id = ho_shard_id h, pe_event_id = event_id_of uuid d, pe_raw_data = raw h (JDict d),
           pe_interaction = jget d ''interaction'', pe_object = m, pe_slot = Some ''message'', pe_user = user,
           pe_guild = (if attr_get m ''guild'' = ANone then cached else attr_get m ''guild''),
           pe_channel = (if attr_get m ''channel'' = ANone then cached_ch else attr_get m ''channel'')\<rparr>)))"
  using assms by (simp add: parse_event_def typed_message cached_channel_def Let_def)

lemma message_channel_cached:
  assumes "req_ok d ''channel_id''" and "message_channel h (JDict d) = Inr ch"
  shows "\<exists>c. cached_channel h d = Inr c \<and> (ch = ANone \<longrightarrow> c = ANone)"
proof -
  obtain v i where v: "map_of d ''channel_id'' = Some v" "py_int v = Inr i"
    using assms(1) int_okD by (auto simp: req_ok_def split: option.splits)
  then have "v \<noteq> JNull" by auto
  then show ?thesis
    using v assms(2)
    by (cases "map_of (ho_channels h) i")
      (auto simp: cached_channel_def message_channel_def jget_def dict_get_def json_get_def bind_result_Inr_iff stub_channel_def)
qed

text \<open>A message in a thread, as the gateway sends it, and a bot that has just started.\<close>

definition thread_message :: jdict where
  "thread_message = [(''id'', JInt 5), (''channel_id'', JInt 7), (''guild_id'', JInt 9), (''content'', JStr ''hi'')]"

definition new_host :: host where
  "new_host = \<lparr>ho_guilds = [], ho_channels = [], ho_users = [], ho_session_id = JNull, ho_sequence = JNull, ho_shard_id = JInt 0, ho_keep_raw_data = True\<rparr>"

lemma thread_message_ok: "message_ok fromiso thread_message"
  by (simp add: message_ok.simps own_part_ok_def thread_message_def jget_def dict_get_def json_truthy_def req_ok_def opt_ok_def list_ok_def int_ok_def)

lemma thread_message_event:
  "\<exists>ev. parse_event fromiso now uuid new_host ''MESSAGE_CREATE'' (JDict thread_message) = Inr ev"
proof -
  obtain as where m: "parse_message fromiso now new_host (JDict thread_message) = Inr (AObj ''Message'' as)"
    using message_total [OF thread_message_ok] by blast
  show ?thesis
    using parse_event_message [OF _ m, of "''MESSAGE_CREATE''" uuid]
    by (simp add: message_events_def thread_message_def cached_guild_def cached_channel_def new_host_def jget_def dict_get_def)
qed

section \<open>Properties\<close>



text \<open>
  A null guild id cannot be parsed. Whatever the type of the event and whatever else the
  payload holds, an event whose \<open>guild_id\<close> is present and null raises, although the typed
  objects treat a null id as absent.
\<close>

theorem null_guild_id_raises:
  assumes "map_of d ''guild_id'' = Some JNull"
  shows "\<exists>e. parse_event fromiso now uuid h t (JDict d) = Inl e"
proof -
  have "cached_guild h d = Inl (TypeError ''int() argument'')" using assms by (simp add: cached_guild_def)
  then show ?thesis
    by (cases "typed_payload fromiso now h t (JDict d)"; cases "case map_of d ''user'' of Some u \<Rightarrow> parse_user h u | None \<Rightarrow> Inr ANone")
      (auto simp: parse_event_def Let_def bind_result_def split: option.split sum.split prod.split)
qed

theorem null_guild_id_raises_witness:
  "\<exists>e. parse_event (\<lambda>_. Inr 0) 0 ''u'' new_host ''VOICE_STATE_UPDATE'' (JDict [(''guild_id'', JNull), (''user_id'', JInt 3)]) = Inl e"
  by (rule null_guild_id_raises) simp

interpretation stubs: transition_invariant "gateway_event fromiso" "h0\<lparr>ho_channels := []\<rparr>" only_stubs for fromiso h0
  by unfold_locales (auto simp: only_stubs_def [of "_\<lparr>ho_channels := []\<rparr>"] intro: dispatch_keeps_stubs)

text \<open>
  Handlers for threads never run on gateway events. However many events a bot has received
  since it started with an empty channel cache, its cache holds only channels made up from
  messages, and the topic filter rejects every message event: channel and thread events never
  reach the cache.
\<close>

theorem topic_filter_rejects_gateway_messages:
  assumes "reachable_from (gateway_event fromiso) (h0\<lparr>ho_channels := []\<rparr>) h" and "t \<in> set message_events"
    and "parse_event fromiso now uuid h t data = Inr ev"
  shows "topic_filter (event_value ev) = Inr False"
proof -
  obtain d where d: "data = JDict d" using assms(3) by (cases data) (simp_all add: parse_event_def)
  obtain m where m: "parse_message fromiso now h data = Inr m"
    using assms(2,3) d by (auto simp: parse_event_def typed_message bind_result_Inr_iff)
  have s: "is_stub (attr_get m ''channel'')"
    using parse_message_parts [of fromiso now h d m] m d message_channel_stub [OF stubs.reachable_inv [OF assms(1)]] by metis
  then have n: "attr_get m ''channel'' \<noteq> ANone" by (auto simp: is_stub_def stub_channel_def)
  then have "pe_channel ev = attr_get m ''channel''"
    using parse_event_message [OF assms(2) m [unfolded d], of uuid] assms(3) d by (auto simp: bind_result_Inr_iff)
  then show ?thesis using s by (rule topic_filter_stub)
qed

theorem topic_filter_rejects_gateway_messages_witness:
  "\<exists>ev. parse_event (\<lambda>_. Inr 0) 0 ''u'' new_host ''MESSAGE_CREATE'' (JDict thread_message) = Inr ev \<and> topic_filter (event_value ev) = Inr False"
proof -
  obtain ev where ev: "parse_event (\<lambda>_. Inr 0) 0 ''u'' new_host ''MESSAGE_CREATE'' (JDict thread_message) = Inr ev"
    using thread_message_event by blast
  have "new_host = new_host\<lparr>ho_channels := []\<rparr>" by (simp add: new_host_def)
  then have "reachable_from (gateway_event (\<lambda>_. Inr 0)) (new_host\<lparr>ho_channels := []\<rparr>) new_host" using reachable_start by metis
  from topic_filter_rejects_gateway_messages [OF this _ ev] ev show ?thesis by (auto simp: message_events_def)
qed

end
