(* ===== verification/Commands.thy ===== *)
theory Commands
  imports EventTypes "HOL-Library.Char_ord" "HOL-Library.List_Lexorder" "HOL-Library.Product_Lexorder"
begin

text \<open>
  Application commands: registration, payloads and their validation (commands.py), dispatch of
  interactions and synchronisation with the service (bot.py), all under
  src/vaidcord-py/src/vaidcord. The service is a pair of operations given as arguments.
\<close>

section \<open>Registered commands\<close>

datatype command_kind = CHAT_INPUT | USER | MESSAGE

definition kind_int :: "command_kind \<Rightarrow> int" where
  "kind_int k = (case k of CHAT_INPUT \<Rightarrow> 1 | USER \<Rightarrow> 2 | MESSAGE \<Rightarrow> 3)"

text \<open>Optional attributes are JSON values, \<open>JNull\<close> for None; a handler is its name.\<close>

record registered_command =
  cmd_name :: string
  cmd_description :: string
  cmd_kind :: command_kind
  cmd_handler :: string
  cmd_guild_id :: "int option"
  cmd_options :: "json list"
  cmd_dm_permission :: json
  cmd_default_member_permissions :: json
  cmd_name_localizations :: json
  cmd_description_localizations :: json
  cmd_integration_types :: json
  cmd_contexts :: json
  cmd_nsfw :: json

text \<open>\<open>slash_command\<close>, \<open>user_command\<close> and \<open>message_command\<close> append to the registered commands.\<close>

definition register_command :: "string option \<Rightarrow> string \<Rightarrow> registered_command \<Rightarrow> registered_command list \<Rightarrow> registered_command list" where
  "register_command given function_name c cmds =
     cmds @ [c\<lparr>cmd_name := (case given of Some n \<Rightarrow> if n \<noteq> [] then n else function_name | None \<Rightarrow> function_name), cmd_handler := function_name\<rparr>]"

definition slash_command :: "string option \<Rightarrow> string \<Rightarrow> registered_command \<Rightarrow> registered_command list \<Rightarrow> registered_command list" where
  "slash_command given function_name c = register_command given function_name (c\<lparr>cmd_kind := CHAT_INPUT\<rparr>)"

definition context_command :: "command_kind \<Rightarrow> string option \<Rightarrow> string \<Rightarrow> registered_command \<Rightarrow> registered_command list \<Rightarrow> registered_command list" where
  "context_command kind given function_name c =
     register_command given function_name
       (c\<lparr>cmd_kind := kind, cmd_description := [], cmd_options := [], cmd_description_localizations := JNull\<rparr>)"

lemma size_in_dict: "map_of d k = Some v \<Longrightarrow> size v < Suc (size_list (size_prod (\<lambda>_. 0) size) d)"
  by (induction d) (auto split: if_splits)

text \<open>An option is an object; anything else is outside the annotated type and refused.\<close>

function validate_options :: "bool \<Rightarrow> json list \<Rightarrow> json list result" where
  "validate_options seen_optional [] = Inr []"
| "validate_options seen_optional (opt # rest) =
     (case opt of
        JDict d \<Rightarrow>
          if jget d ''required'' = JBool True \<and> seen_optional
          then Inl (ValueError ''Discord command options must list required options before optional options'')
          else
            bind_result (case map_of d ''options'' of
                           Some (JList nested) \<Rightarrow>
                             bind_result (validate_options False nested) (\<lambda>xs. Inr (dict_set d ''options'' (JList xs)))
                         | _ \<Rightarrow> Inr d) (\<lambda>item.
            bind_result (validate_options (seen_optional \<or> jget d ''required'' \<noteq> JBool True) rest) (\<lambda>items.
              Inr (JDict item # items)))
      | _ \<Rightarrow> Inl (TypeError ''option is not an object''))"
  by pat_completeness auto

termination
proof (relation "measure (\<lambda>(_, xs). size_list size xs)", goal_cases)
  case (2 seen opt rest d v nested)
  then show ?case using size_in_dict [of d "''options''" "JList nested"] by simp
qed auto

definition optional_entry :: "string \<Rightarrow> json \<Rightarrow> jdict" where
  "optional_entry key v = (if v \<noteq> JNull then [(key, v)] else [])"

definition to_payload :: "registered_command \<Rightarrow> jdict result" where
  "to_payload c =
     bind_result (if cmd_kind c = CHAT_INPUT \<and> cmd_options c \<noteq> []
                  then bind_result (validate_options False (cmd_options c)) (\<lambda>xs. Inr [(''options'', JList xs)])
                  else Inr []) (\<lambda>options.
       Inr ([(''type'', JInt (kind_int (cmd_kind c))), (''name'', JStr (cmd_name c))] @
            optional_entry ''name_localizations'' (cmd_name_localizations c) @
            (if cmd_kind c = CHAT_INPUT
             then (''description'', JStr (if cmd_description c \<noteq> [] then cmd_description c else ''No description'')) #
                  optional_entry ''description_localizations'' (cmd_description_localizations c) @ options
             else []) @
            optional_entry ''dm_permission'' (cmd_dm_permission c) @
            optional_entry ''default_member_permissions'' (cmd_default_member_permissions c) @
            optional_entry ''integration_types'' (cmd_integration_types c) @
            optional_entry ''contexts'' (cmd_contexts c) @
            optional_entry ''nsfw'' (cmd_nsfw c)))"

section \<open>Interactions\<close>

text \<open>The handlers that \<open>_handle_interaction_create\<close> awaits, in order.\<close>

definition interaction_handlers :: "registered_command list \<Rightarrow> json \<Rightarrow> string list result" where
  "interaction_handlers cmds data =
     bind_result (bind_result (json_get data ''type'' (JInt 0)) py_int) (\<lambda>itype.
       if itype \<noteq> 2 then Inr []
       else
         bind_result (json_get data ''data'' JNull) (\<lambda>cd.
           case cd of
             JDict d \<Rightarrow>
               bind_result (py_int (dict_get d ''type'' (JInt 1))) (\<lambda>ctype.
                 case jget d ''name'' of
                   JStr name \<Rightarrow>
                     if name = [] then Inr []
                     else
                       bind_result (bind_result (json_get data ''guild_id'' JNull) (\<lambda>g.
                           if json_truthy g then bind_result (py_int g) (\<lambda>i. Inr (Some i)) else Inr None)) (\<lambda>guild_id.
                         Inr (map cmd_handler (filter (\<lambda>c. cmd_name c = name \<and> kind_int (cmd_kind c) = ctype \<and>
                           (cmd_guild_id c = None \<or> cmd_guild_id c = guild_id)) cmds)))
                 | _ \<Rightarrow> Inr [])
           | _ \<Rightarrow> Inr []))"

text \<open>\<open>CommandContext.options\<close>: the top-level options by name; sub-commands keep a null value.\<close>

definition context_options :: "jdict \<Rightarrow> jdict result" where
  "context_options rawd =
     (case jget rawd ''data'' of
        JDict d \<Rightarrow>
          bind_result (json_iter (dict_get d ''options'' (JList []))) (\<lambda>xs.
            Inr (fold (\<lambda>x res. case x of
                   JDict o1 \<Rightarrow> (case jget o1 ''name'' of JStr n \<Rightarrow> dict_set res n (jget o1 ''value'') | _ \<Rightarrow> res)
                 | _ \<Rightarrow> res) xs []))
      | _ \<Rightarrow> Inr [])"

definition option_value :: "jdict \<Rightarrow> string \<Rightarrow> json \<Rightarrow> json result" where
  "option_value rawd name dflt = bind_result (context_options rawd) (\<lambda>d. Inr (dict_get d name dflt))"

definition option_int :: "jdict \<Rightarrow> string \<Rightarrow> json \<Rightarrow> int option result" where
  "option_int rawd name dflt =
     bind_result (option_value rawd name dflt) (\<lambda>v. if v = JNull then Inr None else bind_result (py_int v) (\<lambda>i. Inr (Some i)))"

definition option_float :: "jdict \<Rightarrow> string \<Rightarrow> json \<Rightarrow> real option result" where
  "option_float rawd name dflt =
     bind_result (option_value rawd name dflt) (\<lambda>v. if v = JNull then Inr None else bind_result (py_float v) (\<lambda>i. Inr (Some i)))"

text \<open>The text of floats is never one of the words; that of containers neither.\<close>

definition option_bool :: "jdict \<Rightarrow> string \<Rightarrow> json \<Rightarrow> bool option result" where
  "option_bool rawd name dflt =
     bind_result (option_value rawd name dflt) (\<lambda>v.
       case v of
         JNull \<Rightarrow> Inr None
       | JBool b \<Rightarrow> Inr (Some b)
       | JInt i \<Rightarrow> Inr (Some (i \<noteq> 0))
       | JFloat f \<Rightarrow> Inr (Some (f \<noteq> 0))
       | JStr s \<Rightarrow>
           (let text = py_lower (py_strip s) in
            if text \<in> set [''true'', ''1'', ''yes'', ''y'', ''on''] then Inr (Some True)
            else if text \<in> set [''false'', ''0'', ''no'', ''n'', ''off''] then Inr (Some False)
            else Inl (ValueError ''cannot be parsed as bool''))
       | _ \<Rightarrow> Inl (ValueError ''cannot be parsed as bool''))"

definition require_option :: "jdict \<Rightarrow> string \<Rightarrow> json result" where
  "require_option rawd name = bind_result (context_options rawd) (\<lambda>d. dict_index d name)"

definition require_int :: "jdict \<Rightarrow> string \<Rightarrow> int result" where
  "require_int rawd name = bind_result (require_option rawd name) py_int"

definition require_bool :: "jdict \<Rightarrow> string \<Rightarrow> bool result" where
  "require_bool rawd name =
     bind_result (option_bool rawd name JNull) (\<lambda>v. case v of None \<Rightarrow> Inl (KeyError name) | Some b \<Rightarrow> Inr b)"

section \<open>Synchronisation\<close>

text \<open>Python's \<open>==\<close> on JSON values: numbers by value, objects without their order.\<close>

definition json_num :: "json \<Rightarrow> real option" where
  "json_num v = (case v of JInt i \<Rightarrow> Some (of_int i) | JBool b \<Rightarrow> Some (if b then 1 else 0) | JFloat f \<Rightarrow> Some f | _ \<Rightarrow> None)"

lemma size_in_list: "x \<in> set xs \<Longrightarrow> size x < size_list size (xs :: json list)"
  by (induction xs) auto

lemma size_in_zip: "(x, y) \<in> set (zip xs ys) \<Longrightarrow> size x < Suc (size_list size (xs :: json list))"
  by (drule set_zip_leftD) (drule size_in_list, simp)

function json_eq :: "json \<Rightarrow> json \<Rightarrow> bool" where
  "json_eq v w =
     (case (v, w) of
        (JList xs, JList ys) \<Rightarrow> length xs = length ys \<and> (\<forall>xy \<in> set (zip xs ys). json_eq (fst xy) (snd xy))
      | (JDict d, JDict e) \<Rightarrow>
          fst ` set d = fst ` set e \<and>
          (\<forall>k \<in> fst ` set d. case map_of d k of None \<Rightarrow> True | Some x \<Rightarrow> json_eq x (the (map_of e k)))
      | _ \<Rightarrow> (case json_num v of Some i \<Rightarrow> json_num w = Some i | None \<Rightarrow> v = w))"
  by pat_completeness auto

termination
  by (relation "measure (\<lambda>(v, _). size v)") (auto dest: size_in_dict intro: size_in_zip)

declare json_eq.simps [simp del]

definition ignored_keys :: "string list" where
  "ignored_keys = [''id'', ''application_id'', ''guild_id'', ''version'', ''default_permission'', ''name_localized'', ''description_localized'']"

definition normalize_command_payload :: "jdict \<Rightarrow> jdict" where
  "normalize_command_payload d = filter (\<lambda>kv. fst kv \<notin> set ignored_keys) d"

text \<open>
  The key of a command in the merge. The text of a name that is neither a string nor null is
  left open: None.
\<close>

definition merge_key :: "jdict \<Rightarrow> (int \<times> string) option result" where
  "merge_key d =
     bind_result (py_int (dict_get d ''type'' (JInt 1))) (\<lambda>t.
       Inr (map_option (Pair t) (py_str (dict_get d ''name'' (JStr [])))))"

primrec merge_into :: "jdict list \<Rightarrow> (int \<times> string, jdict) dict \<Rightarrow> (int \<times> string, jdict) dict option result" where
  "merge_into [] m = Inr (Some m)"
| "merge_into (x # xs) m =
     (let n = normalize_command_payload x in
      bind_result (merge_key n) (\<lambda>key.
        case key of
          None \<Rightarrow> Inr None
        | Some k \<Rightarrow> merge_into xs (if snd k \<noteq> [] then dict_set m k n else m)))"

definition resolve_command_sync_payload :: "bool \<Rightarrow> jdict list \<Rightarrow> jdict list \<Rightarrow> jdict list option result" where
  "resolve_command_sync_payload replace current desired =
     (if replace then Inr (Some desired)
      else bind_result (merge_into current []) (\<lambda>m1. case m1 of
             None \<Rightarrow> Inr None
           | Some m \<Rightarrow> bind_result (merge_into desired m) (\<lambda>m2. Inr (map_option (map snd) m2))))"

text \<open>
  \<open>sorted\<close> by type and name, where both are comparable: commands with an integer type and a
  text name. On other lists the model leaves the outcome open.
\<close>

definition command_key :: "jdict \<Rightarrow> (int \<times> string) option" where
  "command_key d = (case (jget d ''type'', jget d ''name'') of (JInt t, JStr n) \<Rightarrow> Some (t, n) | _ \<Rightarrow> None)"

definition sort_commands :: "jdict list \<Rightarrow> jdict list" where
  "sort_commands xs = sort_key (\<lambda>d. the (command_key d)) xs"

definition commands_changed :: "jdict list \<Rightarrow> jdict list \<Rightarrow> bool option" where
  "commands_changed current desired =
     (let left = map normalize_command_payload current; right = map normalize_command_payload desired in
      if list_all (\<lambda>d. command_key d \<noteq> None) (left @ right)
      then Some (\<not> list_all2 (\<lambda>x y. json_eq (JDict x) (JDict y)) (sort_commands left) (sort_commands right))
      else None)"

record sync_config =
  sy_replace :: bool
  sy_dev_guild_id :: "int option"
  sy_guild_ids :: "int list"

definition target_guild :: "sync_config \<Rightarrow> registered_command \<Rightarrow> int option" where
  "target_guild cfg c =
     (case cmd_guild_id c of Some g \<Rightarrow> if g \<noteq> 0 then Some g else sy_dev_guild_id cfg | None \<Rightarrow> sy_dev_guild_id cfg)"

definition add_desired :: "int option \<times> jdict \<Rightarrow> jdict list \<times> (int, jdict list) dict \<Rightarrow> jdict list \<times> (int, jdict list) dict" where
  "add_desired tp acc =
     (case fst tp of
        None \<Rightarrow> (fst acc @ [snd tp], snd acc)
      | Some g \<Rightarrow> (fst acc, dict_set (snd acc) g (dict_get (snd acc) g [] @ [snd tp])))"

definition desired_commands :: "sync_config \<Rightarrow> registered_command list \<Rightarrow> (jdict list \<times> (int, jdict list) dict) result" where
  "desired_commands cfg cmds =
     bind_result (map_result (\<lambda>c. bind_result (to_payload c) (\<lambda>p. Inr (target_guild cfg c, p))) cmds) (\<lambda>tps.
       let (global, guilds) = fold add_desired tps ([], [])
       in Inr (global, fold (\<lambda>g d. dict_setdefault d g []) (sy_guild_ids cfg) guilds))"

text \<open>
  The service: what it lists for the global scope (None) or a guild, and a bulk overwrite. Both
  may fail; \<open>RateLimited\<close> carries the \<open>retry_after\<close> of a rate limit error. \<open>Undetermined\<close> is
  a comparison the model leaves open.
\<close>

datatype sync_exn = RateLimited "real option" | SyncFailed exc | Undetermined

record 's command_api =
  list_commands :: "int option \<Rightarrow> 's \<Rightarrow> sync_exn + jdict list"
  bulk_overwrite :: "int option \<Rightarrow> jdict list \<Rightarrow> 's \<Rightarrow> (sync_exn + unit) \<times> 's"

definition sync_scope :: "'s command_api \<Rightarrow> bool \<Rightarrow> int option \<Rightarrow> jdict list \<Rightarrow> 's \<Rightarrow> (sync_exn + unit) \<times> 's" where
  "sync_scope api replace scope desired s =
     (case list_commands api scope s of
        Inl e \<Rightarrow> (Inl e, s)
      | Inr current \<Rightarrow>
          (case resolve_command_sync_payload replace current desired of
             Inl e \<Rightarrow> (Inl (SyncFailed e), s)
           | Inr None \<Rightarrow> (Inl Undetermined, s)
           | Inr (Some payload) \<Rightarrow>
               (case commands_changed current payload of
                  None \<Rightarrow> (Inl Undetermined, s)
                | Some False \<Rightarrow> (Inr (), s)
                | Some True \<Rightarrow> bulk_overwrite api scope payload s)))"

primrec sync_scopes :: "'s command_api \<Rightarrow> bool \<Rightarrow> (int option \<times> jdict list) list \<Rightarrow> 's \<Rightarrow> (sync_exn + unit) \<times> 's" where
  "sync_scopes api replace [] s = (Inr (), s)"
| "sync_scopes api replace (x # xs) s =
     (case sync_scope api replace (fst x) (snd x) s of
        (Inl e, s1) \<Rightarrow> (Inl e, s1)
      | (Inr _, s1) \<Rightarrow> sync_scopes api replace xs s1)"

definition sync_application_commands_once :: "'s command_api \<Rightarrow> sync_config \<Rightarrow> registered_command list \<Rightarrow> 's \<Rightarrow> (sync_exn + unit) \<times> 's" where
  "sync_application_commands_once api cfg cmds s =
     (case desired_commands cfg cmds of
        Inl e \<Rightarrow> (Inl (SyncFailed e), s)
      | Inr (global, guilds) \<Rightarrow>
          sync_scopes api (sy_replace cfg) ((None, global) # map (\<lambda>(g, xs). (Some g, xs)) guilds) s)"

text \<open>\<open>sync_application_commands\<close>: a rate limit schedules a retry after at least one second.\<close>

definition sync_application_commands ::
  "'s command_api \<Rightarrow> sync_config \<Rightarrow> bool \<Rightarrow> registered_command list \<Rightarrow> 's \<Rightarrow> (sync_exn + real option) \<times> 's" where
  "sync_application_commands api cfg has_id cmds s =
     (if \<not> has_id \<or> cmds = [] then (Inr None, s)
      else
        (case sync_application_commands_once api cfg cmds s of
           (Inl (RateLimited r), s1) \<Rightarrow>
             (Inr (Some (max 1 (case r of Some x \<Rightarrow> if x \<noteq> 0 then x else 5 | None \<Rightarrow> 5))), s1)
         | (Inl e, s1) \<Rightarrow> (Inl e, s1)
         | (Inr _, s1) \<Rightarrow> (Inr None, s1)))"

fun command_sync_retry :: "real \<Rightarrow> (sync_exn + unit) list \<Rightarrow> real list" where
  "command_sync_retry delay (Inl (RateLimited r) # outcomes) =
     delay # command_sync_retry (max 1 (case r of Some x \<Rightarrow> if x \<noteq> 0 then x else delay | None \<Rightarrow> delay)) outcomes"
| "command_sync_retry delay outcomes = [delay]"

section \<open>Validation\<close>

lemma dict_set_same: "map_of d k = Some v \<Longrightarrow> dict_set d k v = d"
  by (induction d) (auto split: if_splits)

definition is_option :: "json \<Rightarrow> bool" where
  "is_option x = (case x of JDict _ \<Rightarrow> True | _ \<Rightarrow> False)"

definition is_required :: "json \<Rightarrow> bool" where
  "is_required x = (case x of JDict d \<Rightarrow> jget d ''required'' = JBool True | _ \<Rightarrow> False)"

definition nested_options :: "json \<Rightarrow> json list" where
  "nested_options x = (case x of JDict d \<Rightarrow> (case map_of d ''options'' of Some (JList ys) \<Rightarrow> ys | _ \<Rightarrow> []) | _ \<Rightarrow> [])"

text \<open>The rule: on every level, no required option after an optional one.\<close>

definition level_ok :: "json list \<Rightarrow> bool" where
  "level_ok xs \<longleftrightarrow> list_all is_option xs \<and> list_all (\<lambda>x. \<not> is_required x) (dropWhile is_required xs)"

lemma size_nested: "size_list size (nested_options x) < Suc (size x)"
  by (auto simp: nested_options_def split: json.split option.split dest!: size_in_dict)

function options_ok :: "json list \<Rightarrow> bool" where
  "options_ok xs \<longleftrightarrow> level_ok xs \<and> (\<forall>x \<in> set xs. options_ok (nested_options x))"
  by pat_completeness auto

termination
proof (relation "measure (size_list size)", goal_cases)
  case (2 xs x)
  then show ?case using size_nested [of x] size_in_list [of x xs] by simp
qed simp

declare options_ok.simps [simp del]

lemma validate_cases:
  "if list_all is_option xs \<and> list_all (\<lambda>x. \<not> is_required x) (if seen then xs else dropWhile is_required xs) \<and>
      (\<forall>x \<in> set xs. options_ok (nested_options x))
   then validate_options seen xs = Inr xs else (\<exists>e. validate_options seen xs = Inl e)"
proof (induction seen xs rule: validate_options.induct)
  case (2 seen opt rest)
  show ?case
  proof (cases opt)
    case (JDict d)
    let ?req = "jget d ''required'' = JBool True"
    have o: "is_option opt" "is_required opt \<longleftrightarrow> ?req" by (simp_all add: JDict is_option_def is_required_def)
    show ?thesis
    proof (cases "?req \<and> seen")
      case True
      then show ?thesis using o by (simp add: JDict)
    next
      case False
      define nest where "nest = (case map_of d ''options'' of
           Some (JList nested) \<Rightarrow> bind_result (validate_options False nested) (\<lambda>xs. Inr (dict_set d ''options'' (JList xs)))
         | _ \<Rightarrow> Inr d)"
      have N: "if options_ok (nested_options opt) then nest = Inr d else (\<exists>e. nest = Inl e)"
      proof (cases "\<exists>ys. map_of d ''options'' = Some (JList ys)")
        case True
        then obtain ys where ys: "map_of d ''options'' = Some (JList ys)" by blast
        then have "nested_options opt = ys" by (simp add: JDict nested_options_def)
        moreover have "if options_ok ys then validate_options False ys = Inr ys else (\<exists>e. validate_options False ys = Inl e)"
          using "2.IH"(1) [OF JDict False ys refl] by (simp add: options_ok.simps [of ys] level_ok_def conj_assoc)
        ultimately show ?thesis using ys dict_set_same [OF ys] by (auto simp: nest_def split: if_splits)
      next
        case none: False
        then have "nest = Inr d" "nested_options opt = []"
          by (auto simp: nest_def JDict nested_options_def split: option.split json.split)
        then show ?thesis by (simp add: options_ok.simps [of "[]"] level_ok_def)
      qed
      have R: "if list_all is_option rest \<and> list_all (\<lambda>x. \<not> is_required x) (if seen \<or> \<not> ?req then rest else dropWhile is_required rest) \<and>
            (\<forall>x \<in> set rest. options_ok (nested_options x))
          then validate_options (seen \<or> \<not> ?req) rest = Inr rest else (\<exists>e. validate_options (seen \<or> \<not> ?req) rest = Inl e)"
        using "2.IH"(2) [OF JDict False] by blast
      have V: "validate_options seen (opt # rest) = bind_result nest (\<lambda>item.
          bind_result (validate_options (seen \<or> \<not> ?req) rest) (\<lambda>items. Inr (JDict item # items)))"
        using False by (auto simp: JDict nest_def)
      show ?thesis
        unfolding V using N R False o by (cases seen; cases ?req) (auto simp: JDict split: if_splits)
    qed
  qed (simp_all add: is_option_def)
qed simp

text \<open>
  Option lists are checked, never changed. Validation accepts exactly the trees of options
  in which every level lists its required options before its optional ones, sub-command levels
  included, and returns them unchanged; every other tree raises.
\<close>

theorem validate_options_decides:
  "if options_ok xs then validate_options False xs = Inr xs else (\<exists>e. validate_options False xs = Inl e)"
  using validate_cases [of xs False] by (simp add: options_ok.simps [of xs] level_ok_def conj_assoc)

section \<open>Merging\<close>

lemma json_eq_refl: "json_eq v v"
proof (induction v rule: json.induct)
  case (JList xs)
  then show ?case by (auto simp: json_eq.simps [of "JList xs"] zip_same)
next
  case (JDict d)
  have "json_eq v v" if "map_of d k = Some v" for k v
    using JDict [of "(k, v)" v] map_of_SomeD [OF that] by simp
  then show ?case by (auto simp: json_eq.simps [of "JDict d"] split: option.split)
qed (simp_all add: json_eq.simps json_num_def)

lemma normalize_idem [simp]: "normalize_command_payload (normalize_command_payload d) = normalize_command_payload d"
  by (simp add: normalize_command_payload_def)

definition merge_entry :: "jdict \<Rightarrow> ((int \<times> string) \<times> jdict) option" where
  "merge_entry x =
     (case merge_key (normalize_command_payload x) of
        Inr (Some k) \<Rightarrow> if snd k \<noteq> [] then Some (k, normalize_command_payload x) else None
      | _ \<Rightarrow> None)"

lemma merge_into_eq: "merge_into xs m = Inr (Some m') \<Longrightarrow> m' = dict_update m (List.map_filter merge_entry xs)"
proof (induction xs arbitrary: m)
  case (Cons x xs)
  then obtain k where k: "merge_key (normalize_command_payload x) = Inr (Some k)"
    by (auto simp: Let_def bind_result_Inr_iff split: option.splits)
  then have "merge_entry x = (if snd k \<noteq> [] then Some (k, normalize_command_payload x) else None)"
    by (simp add: merge_entry_def)
  then show ?case
    using Cons.IH [of "if snd k \<noteq> [] then dict_set m k (normalize_command_payload x) else m"] Cons.prems k
    by (simp add: Let_def dict_update_def List.map_filter_simps split: if_splits)
qed (simp add: dict_update_def List.map_filter_simps)

text \<open>What the merge holds under a key: the last registered command with it, else the last listed one.\<close>

lemma merge_lookup:
  assumes "resolve_command_sync_payload False current desired = Inr (Some payload)"
  obtains m where "payload = map snd m" "dict_wf m"
    "map_of m = map_of (rev (List.map_filter merge_entry current)) ++ map_of (rev (List.map_filter merge_entry desired))"
    "\<And>k v. (k, v) \<in> set m \<Longrightarrow> merge_entry v = Some (k, v) \<and> normalize_command_payload v = v"
proof -
  obtain m1 m where m: "merge_into current [] = Inr (Some m1)" "merge_into desired m1 = Inr (Some m)" "payload = map snd m"
    using assms by (auto simp: resolve_command_sync_payload_def bind_result_Inr_iff split: option.splits)
  have e: "m1 = dict_update [] (List.map_filter merge_entry current)" "m = dict_update m1 (List.map_filter merge_entry desired)"
    using merge_into_eq m by blast+
  then have wf: "dict_wf m" by simp
  have mo: "map_of m = map_of (rev (List.map_filter merge_entry current)) ++ map_of (rev (List.map_filter merge_entry desired))"
    by (simp add: e map_of_dict_update)
  have "merge_entry v = Some (k, v) \<and> normalize_command_payload v = v" if "(k, v) \<in> set m" for k v
  proof -
    have "map_of m k = Some v" using that wf by (simp add: dict_wf_def)
    then have "(k, v) \<in> set (List.map_filter merge_entry current) \<union> set (List.map_filter merge_entry desired)"
      unfolding mo by (auto simp: map_add_def dest!: map_of_SomeD split: option.splits)
    then obtain x where "merge_entry x = Some (k, v)" by (auto simp: List.map_filter_def)
    then show ?thesis by (auto simp: merge_entry_def split: sum.splits option.splits if_splits)
  qed
  then show thesis using that [OF m(3) wf mo] by blast
qed

lemma merge_into_keyed:
  "merge_into xs m = Inr (Some m') \<Longrightarrow> x \<in> set xs \<Longrightarrow> \<exists>k. merge_key (normalize_command_payload x) = Inr (Some k)"
  by (induction xs arbitrary: m) (auto simp: Let_def bind_result_Inr_iff split: option.splits)

lemma merge_into_total:
  "(\<And>x. x \<in> set xs \<Longrightarrow> \<exists>k. merge_key (normalize_command_payload x) = Inr (Some k)) \<Longrightarrow> \<exists>m'. merge_into xs m = Inr (Some m')"
proof (induction xs arbitrary: m)
  case (Cons x xs)
  then obtain k where "merge_key (normalize_command_payload x) = Inr (Some k)" by fastforce
  then show ?case using Cons by (simp add: Let_def)
qed simp

lemma merge_entry_normalize: "merge_entry (normalize_command_payload x) = merge_entry x"
  unfolding merge_entry_def normalize_idem ..

lemma merge_entry_key: "merge_entry v = Some (k, w) \<Longrightarrow> merge_key (normalize_command_payload v) = Inr (Some k)"
  by (auto simp: merge_entry_def split: sum.splits option.splits if_splits)

lemma command_key_merge: "command_key d = Some k \<Longrightarrow> merge_key d = Inr (Some k)"
proof -
  assume "command_key d = Some k"
  then obtain t n where "jget d ''type'' = JInt t" "jget d ''name'' = JStr n" "k = (t, n)"
    by (auto simp: command_key_def split: json.splits)
  then have "map_of d ''type'' = Some (JInt t)" "map_of d ''name'' = Some (JStr n)"
    by (auto simp: jget_def dict_get_def split: option.splits)
  then show ?thesis using \<open>k = (t, n)\<close> by (simp add: merge_key_def dict_get_def py_str_def)
qed

text \<open>Equal lists of commands up to order are never taken for a change.\<close>

lemma same_commands_unchanged:
  assumes "mset (map normalize_command_payload xs) = mset (map normalize_command_payload ys)"
    and "list_all (\<lambda>d. command_key (normalize_command_payload d) \<noteq> None) ys"
    and "inj_on (\<lambda>d. the (command_key d)) (normalize_command_payload ` set ys)"
  shows "commands_changed xs ys = Some False"
proof -
  let ?l = "map normalize_command_payload xs" and ?r = "map normalize_command_payload ys"
  have s: "set ?l = set ?r" using assms(1) by (rule mset_eq_setD)
  have keyed: "list_all (\<lambda>d. command_key d \<noteq> None) (?l @ ?r)"
    using assms(2) s unfolding list_all_append list_all_iff by auto
  have "inj_on (\<lambda>d. the (command_key d)) (set ?l)" using assms(3) s by simp
  then have "sort_commands ?l = sort_commands ?r"
    unfolding sort_commands_def using assms(1) by (intro sort_key_inj_key_eq) simp_all
  then show ?thesis
    using keyed by (simp add: commands_changed_def Let_def list_all2_same json_eq_refl)
qed

lemma commands_changed_keyed:
  "commands_changed xs ys = Some b \<Longrightarrow> list_all (\<lambda>d. command_key (normalize_command_payload d) \<noteq> None) ys"
  by (auto simp: commands_changed_def Let_def list_all_iff split: if_splits)

lemma merge_again:
  assumes "resolve_command_sync_payload False current desired = Inr (Some payload)"
    and "mset (map normalize_command_payload listed) = mset (map normalize_command_payload payload)"
  shows "\<exists>payload'. resolve_command_sync_payload False listed desired = Inr (Some payload') \<and> mset payload' = mset payload"
proof -
  obtain m where m: "payload = map snd m" "dict_wf m"
    "map_of m = map_of (rev (List.map_filter merge_entry current)) ++ map_of (rev (List.map_filter merge_entry desired))"
    "\<And>k v. (k, v) \<in> set m \<Longrightarrow> merge_entry v = Some (k, v) \<and> normalize_command_payload v = v"
    using merge_lookup [OF assms(1)] by metis
  have np: "map normalize_command_payload payload = payload" using m(1,4) by (auto intro!: map_idI)
  have entries: "map merge_entry payload = map Some m" using m(1,4) by auto
  have listed: "mset (List.map_filter merge_entry listed) = mset m"
  proof -
    have "mset (map merge_entry listed) = mset (map merge_entry payload)"
      using arg_cong [OF assms(2), of "image_mset merge_entry"] by (simp add: np merge_entry_normalize image_mset.compositionality o_def)
    then have "mset (map merge_entry listed) = mset (map Some m)" by (simp add: entries)
    then have "mset (List.map_filter id (map merge_entry listed)) = mset (List.map_filter id (map Some m))"
      unfolding List.map_filter_def by (simp only: mset_map mset_filter)
    moreover have "List.map_filter id (map Some m) = m" by (induction m) (simp_all add: List.map_filter_simps)
    moreover have "List.map_filter id (map merge_entry listed) = List.map_filter merge_entry listed"
      by (induction listed) (simp_all add: List.map_filter_simps split: option.split)
    ultimately show ?thesis by simp
  qed
  have "\<exists>k. merge_key (normalize_command_payload x) = Inr (Some k)" if "x \<in> set listed" for x
  proof -
    have "normalize_command_payload x \<in> set payload" using that mset_eq_setD [OF assms(2)] np by force
    then obtain k where "(k, normalize_command_payload x) \<in> set m" using m(1) by auto
    then have "merge_entry (normalize_command_payload x) = Some (k, normalize_command_payload x)"
      "normalize_command_payload (normalize_command_payload x) = normalize_command_payload x" using m(4) by blast+
    then show ?thesis using merge_entry_key [of "normalize_command_payload x" k] by simp
  qed
  then obtain m1 where m1: "merge_into listed [] = Inr (Some m1)" using merge_into_total by blast
  have "\<exists>k. merge_key (normalize_command_payload x) = Inr (Some k)" if "x \<in> set desired" for x
    using assms(1) merge_into_keyed that by (fastforce simp: resolve_command_sync_payload_def bind_result_Inr_iff split: option.splits)
  then obtain m2 where m2: "merge_into desired m1 = Inr (Some m2)" using merge_into_total by blast
  have r: "resolve_command_sync_payload False listed desired = Inr (Some (map snd m2))"
    using m1 m2 by (simp add: resolve_command_sync_payload_def)
  have e: "m1 = dict_update [] (List.map_filter merge_entry listed)" "m2 = dict_update m1 (List.map_filter merge_entry desired)"
    using merge_into_eq m1 m2 by blast+
  have dm: "distinct (map fst m)" using m(2) by (simp add: dict_wf_def)
  define es where "es = rev (List.map_filter merge_entry listed)"
  have es: "mset es = mset m" using listed by (simp add: es_def)
  then have "mset (map fst es) = mset (map fst m)" by (simp only: mset_map)
  then have "distinct (map fst es)" "set es = set m" using dm mset_eq_imp_distinct_iff es mset_eq_setD by blast+
  then have dl: "distinct (map fst (rev (List.map_filter merge_entry listed)))" "set (rev (List.map_filter merge_entry listed)) = set m"
    by (simp_all only: es_def)
  then have "map_of (rev (List.map_filter merge_entry listed)) = map_of m" using map_of_inject_set dm by blast
  then have "map_of m2 = map_of m ++ map_of (rev (List.map_filter merge_entry desired))" by (simp add: e map_of_dict_update)
  also have "\<dots> = map_of m" unfolding m(3) by (rule ext) (simp add: map_add_def split: option.split)
  finally have "map_of m2 = map_of m" .
  moreover have "distinct (map fst m2)" by (simp add: e flip: dict_wf_def)
  ultimately have "set m2 = set m" "distinct m2" "distinct m" using map_of_inject_set [of m2 m] dm by (auto simp: distinct_map)
  then have "mset m2 = mset m" using set_eq_iff_mset_eq_distinct by blast
  then show ?thesis using r m(1) by (auto simp: mset_map)
qed

lemma payload_keys_inj:
  assumes "resolve_command_sync_payload replace current desired = Inr (Some payload)"
    and "list_all (\<lambda>d. command_key (normalize_command_payload d) \<noteq> None) payload"
    and "replace \<Longrightarrow> distinct (map (\<lambda>d. the (command_key (normalize_command_payload d))) desired)"
  shows "inj_on (\<lambda>d. the (command_key d)) (normalize_command_payload ` set payload)"
proof (cases replace)
  case True
  then have "payload = desired" using assms(1) by (simp add: resolve_command_sync_payload_def)
  then show ?thesis using assms(3) [OF True] by (auto simp: inj_on_def distinct_map)
next
  case False
  then obtain m where m: "payload = map snd m" "dict_wf m"
    "\<And>k v. (k, v) \<in> set m \<Longrightarrow> merge_entry v = Some (k, v) \<and> normalize_command_payload v = v"
    using merge_lookup assms(1) by metis
  have ex: "\<exists>k. (k, v) \<in> set m" if "v \<in> set payload" for v
    using that unfolding m(1) set_map by (metis imageE prod.collapse)
  have key: "merge_entry v = Some (the (command_key v), v)" "normalize_command_payload v = v" if v: "v \<in> set payload" for v
  proof -
    obtain k where k: "(k, v) \<in> set m" using ex [OF v] by blast
    then have e: "merge_entry v = Some (k, v)" "normalize_command_payload v = v" using m(3) by blast+
    obtain c where "command_key v = Some c" using assms(2) v e(2) by (auto simp: list_all_iff)
    then have "merge_key v = Inr (Some c)" by (rule command_key_merge)
    then show "merge_entry v = Some (the (command_key v), v)" "normalize_command_payload v = v"
      using e merge_entry_key [OF e(1)] \<open>command_key v = Some c\<close> by simp_all
  qed
  have "v = w" if vw: "v \<in> set payload" "w \<in> set payload" "the (command_key v) = the (command_key w)" for v w
  proof -
    obtain k l where kl: "(k, v) \<in> set m" "(l, w) \<in> set m" using vw(1,2) ex by blast
    then have "k = the (command_key v)" "l = the (command_key w)" using m(3) key vw(1,2) by fastforce+
    then have "k = l" using vw(3) by simp
    then show ?thesis using kl m(2) by (metis dict_wf_def map_of_is_SomeI option.inject)
  qed
  then show ?thesis using key by (auto simp: inj_on_def)
qed

text \<open>A scope that another synchronisation would leave alone.\<close>

definition settled :: "'s command_api \<Rightarrow> bool \<Rightarrow> int option \<Rightarrow> jdict list \<Rightarrow> 's \<Rightarrow> bool" where
  "settled api replace scope desired s \<longleftrightarrow>
     (\<exists>current payload. list_commands api scope s = Inr current \<and>
        resolve_command_sync_payload replace current desired = Inr (Some payload) \<and> commands_changed current payload = Some False)"

section \<open>The service\<close>

text \<open>
  What synchronisation relies on: after a bulk overwrite the service lists the commands it was
  given, in any order and with fields of its own that the comparison ignores, and an overwrite
  touches one scope only.
\<close>

definition keeps_commands :: "'s command_api \<Rightarrow> bool" where
  "keeps_commands api \<longleftrightarrow>
     (\<forall>scope p s s1. bulk_overwrite api scope p s = (Inr (), s1) \<longrightarrow>
        (\<exists>xs. list_commands api scope s1 = Inr xs \<and> mset (map normalize_command_payload xs) = mset (map normalize_command_payload p)) \<and>
        (\<forall>scope'. scope' \<noteq> scope \<longrightarrow> list_commands api scope' s1 = list_commands api scope' s))"

lemma sync_scope_settles:
  assumes "sync_scope api replace scope desired s = (Inr (), s1)" and store: "keeps_commands api"
    and "replace \<Longrightarrow> distinct (map (\<lambda>d. the (command_key (normalize_command_payload d))) desired)"
  shows "settled api replace scope desired s1"
proof -
  obtain current payload b where c: "list_commands api scope s = Inr current"
    "resolve_command_sync_payload replace current desired = Inr (Some payload)" "commands_changed current payload = Some b"
    using assms(1) by (auto simp: sync_scope_def split: sum.splits option.splits)
  show ?thesis
  proof (cases b)
    case False
    then show ?thesis using assms(1) c by (auto simp: sync_scope_def settled_def)
  next
    case True
    then have over: "bulk_overwrite api scope payload s = (Inr (), s1)" using assms(1) c by (simp add: sync_scope_def)
    then obtain listed where l: "list_commands api scope s1 = Inr listed"
      "mset (map normalize_command_payload listed) = mset (map normalize_command_payload payload)"
      using store unfolding keeps_commands_def by blast
    have keyed: "list_all (\<lambda>d. command_key (normalize_command_payload d) \<noteq> None) payload"
      using commands_changed_keyed [OF c(3)] .
    have inj: "inj_on (\<lambda>d. the (command_key d)) (normalize_command_payload ` set payload)"
      using payload_keys_inj [OF c(2) keyed] assms(3) by blast
    have "\<exists>payload'. resolve_command_sync_payload replace listed desired = Inr (Some payload') \<and> mset payload' = mset payload"
      using c(2) l(2) merge_again by (cases replace) (auto simp: resolve_command_sync_payload_def)
    then obtain payload' where p: "resolve_command_sync_payload replace listed desired = Inr (Some payload')" "mset payload' = mset payload"
      by blast
    have "set payload' = set payload" using p(2) by (rule mset_eq_setD)
    then have "commands_changed listed payload' = Some False"
      using keyed inj l(2) p(2) by (intro same_commands_unchanged) (auto simp: mset_map list_all_iff)
    then show ?thesis using l(1) p(1) by (auto simp: settled_def)
  qed
qed

lemma sync_scope_others:
  assumes "sync_scope api replace scope desired s = (Inr (), s1)" and "keeps_commands api" and "scope' \<noteq> scope"
  shows "settled api replace scope' d' s1 \<longleftrightarrow> settled api replace scope' d' s"
proof -
  have "list_commands api scope' s1 = list_commands api scope' s"
    using assms by (auto simp: sync_scope_def keeps_commands_def split: sum.splits option.splits bool.splits)
  then show ?thesis by (simp add: settled_def)
qed

lemma sync_scopes_others:
  "sync_scopes api replace xs s = (Inr (), s1) \<Longrightarrow> keeps_commands api \<Longrightarrow> scope' \<notin> fst ` set xs \<Longrightarrow>
   settled api replace scope' d' s1 \<longleftrightarrow> settled api replace scope' d' s"
proof (induction xs arbitrary: s)
  case (Cons x xs)
  then obtain s2 where "sync_scope api replace (fst x) (snd x) s = (Inr (), s2)" "sync_scopes api replace xs s2 = (Inr (), s1)"
    by (auto split: prod.splits sum.splits)
  then show ?case using Cons sync_scope_others [of api replace "fst x" "snd x" s s2 scope' d'] by simp
qed simp

lemma sync_scopes_settle:
  assumes "sync_scopes api replace xs s = (Inr (), s1)" and "keeps_commands api" and "distinct (map fst xs)"
    and "\<And>x. x \<in> set xs \<Longrightarrow> replace \<Longrightarrow> distinct (map (\<lambda>d. the (command_key (normalize_command_payload d))) (snd x))"
  shows "list_all (\<lambda>x. settled api replace (fst x) (snd x) s1) xs"
  using assms
proof (induction xs arbitrary: s)
  case (Cons x xs)
  then obtain s2 where s: "sync_scope api replace (fst x) (snd x) s = (Inr (), s2)" "sync_scopes api replace xs s2 = (Inr (), s1)"
    by (auto split: prod.splits sum.splits)
  have "settled api replace (fst x) (snd x) s2" using s(1) Cons.prems(2,4) by (intro sync_scope_settles) auto
  then have "settled api replace (fst x) (snd x) s1" using sync_scopes_others [OF s(2)] Cons.prems(2,3) by auto
  then show ?case using Cons.IH [OF s(2)] Cons.prems by auto
qed simp

lemma settled_noop: "list_all (\<lambda>x. settled api replace (fst x) (snd x) s) xs \<Longrightarrow> sync_scopes api replace xs s = (Inr (), s)"
  by (induction xs) (auto simp: settled_def sync_scope_def)

section \<open>Scopes\<close>

lemma to_payload_key:
  assumes "to_payload c = Inr p"
  shows "command_key (normalize_command_payload p) = Some (kind_int (cmd_kind c), cmd_name c)"
proof -
  obtain rest where "p = (''type'', JInt (kind_int (cmd_kind c))) # (''name'', JStr (cmd_name c)) # rest"
    using assms by (auto simp: to_payload_def bind_result_Inr_iff)
  then show ?thesis
    by (simp add: command_key_def normalize_command_payload_def ignored_keys_def jget_def dict_get_def)
qed

definition scope_entries :: "(int option \<times> jdict) list \<Rightarrow> int option \<Rightarrow> jdict list" where
  "scope_entries tps scope = map snd (filter (\<lambda>tp. fst tp = scope) tps)"

lemma add_desired_simps:
  "add_desired (None, p) (g, d) = (g @ [p], d)"
  "add_desired (Some i, p) (g, d) = (g, dict_set d i (dict_get d i [] @ [p]))"
  by (simp_all add: add_desired_def)

lemma add_desired_scopes:
  assumes "fold add_desired tps (g0, d0) = (global, guilds)" and "dict_wf d0"
  shows "global = g0 @ scope_entries tps None \<and> dict_wf guilds \<and>
    (\<forall>g. dict_get guilds g [] = dict_get d0 g [] @ scope_entries tps (Some g))"
  using assms
proof (induction tps arbitrary: g0 d0)
  case (Cons tp tps)
  obtain t p where tp: "tp = (t, p)" by (cases tp)
  show ?case
  proof (cases t)
    case None
    then have "fold add_desired tps (g0 @ [p], d0) = (global, guilds)"
      using Cons.prems(1) by (simp add: tp add_desired_simps)
    from Cons.IH [OF this] Cons.prems(2) show ?thesis by (auto simp: tp None scope_entries_def)
  next
    case (Some g)
    then have "fold add_desired tps (g0, dict_set d0 g (dict_get d0 g [] @ [p])) = (global, guilds)"
      using Cons.prems(1) by (simp add: tp add_desired_simps)
    from Cons.IH [OF this] Cons.prems(2) show ?thesis by (auto simp: tp Some scope_entries_def dict_get_def)
  qed
qed (simp add: scope_entries_def)

lemma setdefault_scopes:
  "dict_wf d \<Longrightarrow> dict_wf (fold (\<lambda>g d. dict_setdefault d g []) gs d) \<and>
     dict_get (fold (\<lambda>g d. dict_setdefault d g []) gs d) g [] = dict_get d g ([] :: jdict list)"
proof (induction gs arbitrary: d)
  case (Cons h gs)
  have "dict_wf (dict_setdefault d h [])" "dict_get (dict_setdefault d h []) g [] = dict_get d g ([] :: jdict list)"
    using Cons.prems by (auto simp: dict_setdefault_def dict_get_def split: option.split)
  then show ?case using Cons.IH by simp
qed simp

lemma map_result_pairs: "map_result f xs = Inr ys \<Longrightarrow> list_all2 (\<lambda>x y. f x = Inr y) xs ys"
  by (induction xs arbitrary: ys) (auto simp: bind_result_Inr_iff)

lemma scope_keys:
  "list_all2 (\<lambda>c tp. bind_result (to_payload c) (\<lambda>p. Inr (target_guild cfg c, p)) = Inr tp) cmds tps \<Longrightarrow>
   map (\<lambda>d. the (command_key (normalize_command_payload d))) (scope_entries tps scope) =
   map (\<lambda>c. (kind_int (cmd_kind c), cmd_name c)) (filter (\<lambda>c. target_guild cfg c = scope) cmds)"
  by (induction rule: list_all2_induct) (auto simp: scope_entries_def bind_result_Inr_iff to_payload_key)

lemma distinct_on_scope:
  "distinct (map (\<lambda>c. (f c, g c)) xs) \<Longrightarrow> distinct (map g (filter (\<lambda>c. f c = a) xs))"
  by (auto simp: distinct_map inj_on_def)

lemma desired_commands_scopes:
  assumes "desired_commands cfg cmds = Inr (global, guilds)"
  obtains tps where "list_all2 (\<lambda>c tp. bind_result (to_payload c) (\<lambda>p. Inr (target_guild cfg c, p)) = Inr tp) cmds tps"
    "global = scope_entries tps None" "dict_wf guilds" "\<forall>g. dict_get guilds g [] = scope_entries tps (Some g)"
proof -
  obtain tps where tps: "map_result (\<lambda>c. bind_result (to_payload c) (\<lambda>p. Inr (target_guild cfg c, p))) cmds = Inr tps"
    using assms by (auto simp: desired_commands_def bind_result_Inr_iff)
  obtain g1 gs where f: "fold add_desired tps ([], []) = (g1, gs)" by fastforce
  have t: "map_result (\<lambda>c. bind_result (to_payload c) (\<lambda>p. Inr (target_guild cfg c, p))) cmds = Inr tps"
    "fold add_desired tps ([], []) = (global, gs)" "guilds = fold (\<lambda>g d. dict_setdefault d g []) (sy_guild_ids cfg) gs"
    using assms tps f by (simp_all add: desired_commands_def)
  have a: "global = scope_entries tps None" "dict_wf gs" "\<And>g. dict_get gs g [] = scope_entries tps (Some g)"
    using add_desired_scopes [OF t(2)] by (simp_all add: dict_get_def)
  show thesis
    by (rule that [OF map_result_pairs [OF t(1)] a(1)]) (use setdefault_scopes [OF a(2), of "sy_guild_ids cfg"] a(3) t(3) in simp_all)
qed

lemma desired_scopes:
  assumes "desired_commands cfg cmds = Inr (global, guilds)"
    and "distinct (map (\<lambda>c. (target_guild cfg c, kind_int (cmd_kind c), cmd_name c)) cmds)"
    and "x \<in> set ((None, global) # map (\<lambda>(g, xs). (Some g, xs)) guilds)"
  shows "distinct (map (\<lambda>d. the (command_key (normalize_command_payload d))) (snd x))"
proof -
  obtain tps where t: "list_all2 (\<lambda>c tp. bind_result (to_payload c) (\<lambda>p. Inr (target_guild cfg c, p)) = Inr tp) cmds tps"
    "global = scope_entries tps None" "dict_wf guilds" "\<forall>g. dict_get guilds g [] = scope_entries tps (Some g)"
    using desired_commands_scopes [OF assms(1)] by blast
  have "snd x = scope_entries tps (Some g)" if "(g, snd x) \<in> set guilds" for g
    using that t(3) t(4) [rule_format, of g] map_of_is_SomeI [of guilds g "snd x"] by (simp add: dict_wf_def dict_get_def)
  then have "\<exists>scope. snd x = scope_entries tps scope" using assms(3) t(2) by fastforce
  then show ?thesis using scope_keys [OF t(1)] distinct_on_scope [OF assms(2)] by auto
qed

lemma desired_wf: "desired_commands cfg cmds = Inr (global, guilds) \<Longrightarrow> dict_wf guilds"
  using desired_commands_scopes by blast


definition shelf :: "(int option \<Rightarrow> jdict list) command_api" where
  "shelf = \<lparr>list_commands = (\<lambda>scope s. Inr (s scope)), bulk_overwrite = (\<lambda>scope p s. (Inr (), s(scope := p)))\<rparr>"

lemma shelf_keeps: "keeps_commands shelf"
  by (auto simp: keeps_commands_def shelf_def)

definition ping_command :: registered_command where
  "ping_command =
     \<lparr>cmd_name = ''ping'', cmd_description = ''Ping'', cmd_kind = CHAT_INPUT, cmd_handler = ''ping'', cmd_guild_id = None, cmd_options = [],
      cmd_dm_permission = JNull, cmd_default_member_permissions = JNull, cmd_name_localizations = JNull,
      cmd_description_localizations = JNull, cmd_integration_types = JNull, cmd_contexts = JNull, cmd_nsfw = JNull\<rparr>"

lemma shelf_syncs:
  "\<exists>s1. sync_application_commands_once shelf \<lparr>sy_replace = False, sy_dev_guild_id = None, sy_guild_ids = []\<rparr> [ping_command] (\<lambda>_. []) = (Inr (), s1) \<and>
     s1 None \<noteq> []"
  by (simp add: sync_application_commands_once_def desired_commands_def to_payload_def ping_command_def optional_entry_def target_guild_def
      add_desired_simps sync_scope_def shelf_def resolve_command_sync_payload_def merge_key_def normalize_command_payload_def
      ignored_keys_def dict_get_def kind_int_def py_str_def commands_changed_def command_key_def jget_def sort_commands_def)


text \<open>
  Merging never drops a command of somebody else. In merge mode the payload holds, for every
  type and name, the last registered command with that type and name, or else the command the
  service listed last, and no type and name twice.
\<close>

theorem merge_keeps_foreign_commands:
  assumes "resolve_command_sync_payload False current desired = Inr (Some payload)"
  shows "\<exists>m. payload = map snd m \<and> distinct (map fst m) \<and>
    map_of m = map_of (rev (List.map_filter merge_entry current)) ++ map_of (rev (List.map_filter merge_entry desired))"
  using merge_lookup [OF assms] by (metis dict_wf_def)

theorem merge_keeps_foreign_commands_witness:
  "\<exists>m. map_of m (2 :: int, ''theirs'') = Some [(''type'', JInt 2), (''name'', JStr ''theirs'')] \<and>
     resolve_command_sync_payload False [[(''id'', JStr ''9''), (''type'', JInt 2), (''name'', JStr ''theirs'')]]
       [[(''type'', JInt 1), (''name'', JStr ''ours'')]] = Inr (Some (map snd m))"
proof -
  have "\<exists>p. resolve_command_sync_payload False [[(''id'', JStr ''9''), (''type'', JInt 2), (''name'', JStr ''theirs'')]]
       [[(''type'', JInt 1), (''name'', JStr ''ours'')]] = Inr (Some p)"
    by (simp add: resolve_command_sync_payload_def merge_key_def normalize_command_payload_def ignored_keys_def dict_get_def py_str_def)
  then obtain p where p: "resolve_command_sync_payload False [[(''id'', JStr ''9''), (''type'', JInt 2), (''name'', JStr ''theirs'')]]
       [[(''type'', JInt 1), (''name'', JStr ''ours'')]] = Inr (Some p)" by blast
  from merge_keeps_foreign_commands [OF p] obtain m where "p = map snd m"
    "map_of m (2 :: int, ''theirs'') = Some [(''type'', JInt 2), (''name'', JStr ''theirs'')]"
    by (auto simp: merge_entry_def merge_key_def normalize_command_payload_def ignored_keys_def dict_get_def py_str_def List.map_filter_simps)
  then show ?thesis using p by blast
qed

end
