(* ===== verification/VoiceTransport.thy ===== *)
theory VoiceTransport
  imports Prelude
begin

unbundle bit_operations_syntax

text \<open>
  The voice transport (src/vaidcord-py/src/vaidcord/voice: rtp.py, crypto.py, the codecs of
  udp.py and the RTP sender of connection.py). Bytes are 8-bit words, counters are integers
  with the masks of the source. The ciphers come from third-party packages: a record of
  functions, with their documented round trip as a hypothesis of the theorems that need it.
\<close>

section \<open>RTP packets\<close>

record rtp_packet =
  rtp_version :: nat
  rtp_padding :: bool
  rtp_extension :: bool
  rtp_marker :: bool
  rtp_payload_type :: nat
  rtp_sequence :: nat
  rtp_timestamp :: nat
  rtp_ssrc :: nat
  rtp_csrcs :: "nat list"
  rtp_header :: bytes
  rtp_payload :: bytes

definition RTP_HEADER_SIZE :: nat where
  "RTP_HEADER_SIZE = 12"

text \<open>\<open>data[a:b]\<close>.\<close>

definition slice :: "nat \<Rightarrow> nat \<Rightarrow> 'a list \<Rightarrow> 'a list" where
  "slice a b xs = take (b - a) (drop a xs)"

primrec unpack_words :: "nat \<Rightarrow> bytes \<Rightarrow> nat list" where
  "unpack_words 0 bs = []"
| "unpack_words (Suc n) bs = be_decode (take 4 bs) # unpack_words n (drop 4 bs)"

definition is_rtcp_packet :: "bytes \<Rightarrow> bool" where
  "is_rtcp_packet data \<longleftrightarrow> 2 \<le> length data \<and> 200 \<le> unat (data ! 1) \<and> unat (data ! 1) < 205"

definition parse_rtp_packet :: "bytes \<Rightarrow> rtp_packet result" where
  "parse_rtp_packet data =
     (if length data < RTP_HEADER_SIZE then Inl (ValueError ''RTP packet too short'')
      else
        (let first = data ! 0; second = data ! 1;
             csrc_count = unat (first AND 0x0F);
             extension = (first AND 0x10 \<noteq> 0);
             offset = RTP_HEADER_SIZE
         in
         if length data < offset + csrc_count * 4 then Inl (ValueError ''RTP packet truncated inside CSRC list'')
         else
           (let csrcs = unpack_words csrc_count (drop offset data);
                offset1 = offset + csrc_count * 4
            in
            if extension \<and> length data < offset1 + 4
            then Inl (ValueError ''RTP packet truncated inside extension preamble'')
            else
              (let offset2 = (if extension then offset1 + 4 else offset1) in
               Inr \<lparr>rtp_version = unat (drop_bit 6 first),
                    rtp_padding = (first AND 0x20 \<noteq> 0),
                    rtp_extension = extension,
                    rtp_marker = (second AND 0x80 \<noteq> 0),
                    rtp_payload_type = unat (second AND 0x7F),
                    rtp_sequence = be_decode (slice 2 4 data),
                    rtp_timestamp = be_decode (slice 4 8 data),
                    rtp_ssrc = be_decode (slice 8 12 data),
                    rtp_csrcs = csrcs,
                    rtp_header = take offset2 data,
                    rtp_payload = drop offset2 data\<rparr>))))"

definition strip_header_extension :: "rtp_packet \<Rightarrow> bytes \<Rightarrow> bytes" where
  "strip_header_extension packet plaintext =
     (if \<not> rtp_extension packet then plaintext
      else (let ext_words = be_decode (drop (length (rtp_header packet) - 2) (rtp_header packet))
            in drop (ext_words * 4) plaintext))"

section \<open>Transport encryption\<close>

datatype voice_mode = AeadAes256GcmRtpsize | AeadXChaCha20Poly1305Rtpsize | XSalsa20Poly1305LiteRtpsize

text \<open>
  The three primitives of \<open>cryptography\<close> and PyNaCl; decryption gives None where the library
  raises.
\<close>

record crypto_lib =
  aesgcm_encrypt :: "bytes \<Rightarrow> bytes \<Rightarrow> bytes \<Rightarrow> bytes \<Rightarrow> bytes"
  aesgcm_decrypt :: "bytes \<Rightarrow> bytes \<Rightarrow> bytes \<Rightarrow> bytes \<Rightarrow> bytes option"
  xchacha_encrypt :: "bytes \<Rightarrow> bytes \<Rightarrow> bytes \<Rightarrow> bytes \<Rightarrow> bytes"
  xchacha_decrypt :: "bytes \<Rightarrow> bytes \<Rightarrow> bytes \<Rightarrow> bytes \<Rightarrow> bytes option"
  secretbox :: "bytes \<Rightarrow> bytes \<Rightarrow> bytes \<Rightarrow> bytes"
  secretbox_open :: "bytes \<Rightarrow> bytes \<Rightarrow> bytes \<Rightarrow> bytes option"

definition crypto_sound :: "crypto_lib \<Rightarrow> bool" where
  "crypto_sound lib \<longleftrightarrow>
     (\<forall>key nonce pt ad. aesgcm_decrypt lib key nonce (aesgcm_encrypt lib key nonce pt ad) ad = Some pt) \<and>
     (\<forall>pt ad nonce key. xchacha_decrypt lib (xchacha_encrypt lib pt ad nonce key) ad nonce key = Some pt) \<and>
     (\<forall>pt nonce key. secretbox_open lib (secretbox lib pt nonce key) nonce key = Some pt)"

definition voice_mode_name :: "voice_mode \<Rightarrow> string" where
  "voice_mode_name m =
     (case m of
        AeadAes256GcmRtpsize \<Rightarrow> ''aead_aes256_gcm_rtpsize''
      | AeadXChaCha20Poly1305Rtpsize \<Rightarrow> ''aead_xchacha20_poly1305_rtpsize''
      | XSalsa20Poly1305LiteRtpsize \<Rightarrow> ''xsalsa20_poly1305_lite_rtpsize'')"

definition supported_encryption_modes :: "string list" where
  "supported_encryption_modes =
     map voice_mode_name [AeadAes256GcmRtpsize, AeadXChaCha20Poly1305Rtpsize, XSalsa20Poly1305LiteRtpsize]"

record voice_box =
  vb_mode :: voice_mode
  vb_key :: bytes

definition create_voice_box :: "string \<Rightarrow> bytes \<Rightarrow> voice_box result" where
  "create_voice_box mode key =
     (case find (\<lambda>m. voice_mode_name m = mode)
             [AeadAes256GcmRtpsize, AeadXChaCha20Poly1305Rtpsize, XSalsa20Poly1305LiteRtpsize] of
        None \<Rightarrow> Inl (RuntimeError (''Unsupported voice encryption mode: '' @ mode))
      | Some m \<Rightarrow> Inr \<lparr>vb_mode = m, vb_key = key\<rparr>)"

definition nonce_suffix :: "int \<Rightarrow> bytes" where
  "nonce_suffix counter = be_encode 4 (nat (counter mod 2 ^ 32))"

definition seal :: "crypto_lib \<Rightarrow> voice_box \<Rightarrow> bytes \<Rightarrow> bytes \<Rightarrow> int \<Rightarrow> bytes" where
  "seal lib box header plaintext counter =
     (let nonce4 = nonce_suffix counter in
      (case vb_mode box of
         AeadAes256GcmRtpsize \<Rightarrow> aesgcm_encrypt lib (vb_key box) (nonce4 @ replicate 8 0) plaintext header
       | AeadXChaCha20Poly1305Rtpsize \<Rightarrow> xchacha_encrypt lib plaintext header (nonce4 @ replicate 20 0) (vb_key box)
       | XSalsa20Poly1305LiteRtpsize \<Rightarrow> secretbox lib plaintext (nonce4 @ replicate 20 0) (vb_key box)) @ nonce4)"

definition open_sealed :: "crypto_lib \<Rightarrow> voice_box \<Rightarrow> bytes \<Rightarrow> bytes \<Rightarrow> bytes \<Rightarrow> bytes result" where
  "open_sealed lib box header ciphertext nonce4 =
     (case (case vb_mode box of
              AeadAes256GcmRtpsize \<Rightarrow> aesgcm_decrypt lib (vb_key box) (nonce4 @ replicate 8 0) ciphertext header
            | AeadXChaCha20Poly1305Rtpsize \<Rightarrow> xchacha_decrypt lib ciphertext header (nonce4 @ replicate 20 0) (vb_key box)
            | XSalsa20Poly1305LiteRtpsize \<Rightarrow> secretbox_open lib ciphertext (nonce4 @ replicate 20 0) (vb_key box)) of
        None \<Rightarrow> Inl (OtherError ''VoiceDecryptionError'')
      | Some pt \<Rightarrow> Inr pt)"

definition open_packet :: "crypto_lib \<Rightarrow> voice_box \<Rightarrow> bytes \<Rightarrow> (rtp_packet \<times> bytes) result" where
  "open_packet lib box data =
     bind_result (parse_rtp_packet data) (\<lambda>packet.
       let payload = rtp_payload packet in
       if length payload < 4 then Inl (OtherError ''VoiceDecryptionError'')
       else
         bind_result (open_sealed lib box (rtp_header packet) (take (length payload - 4) payload) (drop (length payload - 4) payload))
           (\<lambda>plaintext. Inr (packet, strip_header_extension packet plaintext)))"

section \<open>RTP sender\<close>

record rtp_sender =
  rs_sequence :: int
  rs_timestamp :: int
  rs_nonce :: int

definition pack_uint :: "nat \<Rightarrow> int \<Rightarrow> bytes result" where
  "pack_uint k n = (if 0 \<le> n \<and> n < 256 ^ k then Inr (be_encode k (nat n)) else Inl (OtherError ''struct.error''))"

definition build_rtp_packet :: "int option \<Rightarrow> rtp_sender \<Rightarrow> bytes \<Rightarrow> int \<Rightarrow> bytes result" where
  "build_rtp_packet ready_ssrc s payload payload_type =
     (case ready_ssrc of
        None \<Rightarrow> Inl (RuntimeError ''Voice connection is not ready'')
      | Some ssrc \<Rightarrow>
          bind_result (pack_uint 4 ssrc) (\<lambda>ssrc4.
            Inr ([0x80, word_of_int (payload_type mod 2 ^ 7)]
                 @ be_encode 2 (nat (rs_sequence s mod 2 ^ 16))
                 @ be_encode 4 (nat (rs_timestamp s mod 2 ^ 32))
                 @ ssrc4 @ payload)))"

definition advance_sender :: "int \<Rightarrow> rtp_sender \<Rightarrow> rtp_sender" where
  "advance_sender timestamp_step s =
     \<lparr>rs_sequence = (rs_sequence s + 1) mod 2 ^ 16,
      rs_timestamp = (rs_timestamp s + timestamp_step) mod 2 ^ 32,
      rs_nonce = (rs_nonce s + 1) mod 2 ^ 32\<rparr>"

section \<open>IP discovery\<close>

definition build_ip_discovery_packet :: "int \<Rightarrow> bytes result" where
  "build_ip_discovery_packet ssrc =
     bind_result (pack_uint 4 ssrc) (\<lambda>ssrc4.
       Inr (be_encode 2 1 @ be_encode 2 70 @ ssrc4 @ replicate 66 0))"

definition ascii_decode :: "bytes \<Rightarrow> string result" where
  "ascii_decode bs =
     (if list_all (\<lambda>b. unat b < 128) bs then Inr (map (\<lambda>b. char_of (unat b)) bs)
      else Inl (ValueError ''ascii codec''))"

definition parse_ip_discovery_response :: "bytes \<Rightarrow> (string \<times> nat) result" where
  "parse_ip_discovery_response packet =
     (if length packet < 74 then Inl (ValueError ''Voice IP discovery response must be at least 74 bytes'')
      else if be_decode (slice 0 2 packet) \<noteq> 2 \<or> be_decode (slice 2 4 packet) \<noteq> 70
      then Inl (ValueError ''Invalid voice IP discovery response header'')
      else
        bind_result (ascii_decode (takeWhile (\<lambda>b. b \<noteq> 0) (slice 8 72 packet))) (\<lambda>address.
          Inr (address, be_decode (slice 72 74 packet))))"

section \<open>Lemmas\<close>

lemma unat_byte_less: "unat (b :: byte) < 256"
  using unsigned_less [of b, where ?'a = nat] by simp

lemma slice_append: "slice (length xs) (length xs + length ys) (xs @ ys @ zs) = ys"
  by (simp add: slice_def)

lemma word_of_int_payload_type:
  "unat ((word_of_int (pt mod 2 ^ 7) :: byte) AND 0x7F) = nat (pt mod 2 ^ 7)"
  "(word_of_int (pt mod 2 ^ 7) :: byte) AND 0x80 = 0"
  "unat (word_of_int (pt mod 2 ^ 7) :: byte) = nat (pt mod 2 ^ 7)"
proof -
  let ?b = "word_of_int (pt mod 2 ^ 7) :: byte"
  have r: "0 \<le> pt mod 2 ^ 7" "pt mod 2 ^ 7 < 128" by simp_all
  show u: "unat ?b = nat (pt mod 2 ^ 7)"
  proof -
    have "uint ?b = pt mod 2 ^ 7" using r by (simp add: uint_word_of_int)
    then show ?thesis by (simp only: nat_uint_eq [symmetric])
  qed
  have m: "?b = take_bit 7 ?b"
  proof -
    have "unat (take_bit 7 ?b) = take_bit 7 (unat ?b)" by (rule unsigned_take_bit_eq)
    also have "\<dots> = unat ?b mod 2 ^ 7" by (rule take_bit_eq_mod)
    also have "\<dots> = unat ?b" using r u by (simp add: nat_less_iff)
    finally show ?thesis by (simp add: word_unat_eq_iff)
  qed
  have "?b AND 0x7F = take_bit 7 ?b" by (simp add: take_bit_eq_mask mask_numeral)
  then show "unat (?b AND 0x7F) = nat (pt mod 2 ^ 7)" using m u by simp
  have "take_bit 7 ?b AND 0x80 = 0"
    by (simp add: take_bit_eq_mask mask_numeral and.assoc)
  then show "?b AND 0x80 = 0" using m by simp
qed

lemma pack_uint_Inr: "pack_uint k n = Inr bs \<Longrightarrow> length bs = k \<and> be_decode bs = nat n \<and> 0 \<le> n"
  by (auto simp: pack_uint_def be_decode_encode nat_less_iff split: if_splits)

lemma build_rtp_packet_Inr:
  assumes "build_rtp_packet ready s payload pt = Inr data"
  obtains ssrc ssrc4 where "ready = Some ssrc" "pack_uint 4 ssrc = Inr ssrc4"
    "data = [0x80, word_of_int (pt mod 2 ^ 7)] @ be_encode 2 (nat (rs_sequence s mod 2 ^ 16))
       @ be_encode 4 (nat (rs_timestamp s mod 2 ^ 32)) @ ssrc4 @ payload"
  using assms by (auto simp: build_rtp_packet_def bind_result_Inr_iff split: option.splits)

lemma parse_built:
  assumes "build_rtp_packet ready s payload pt = Inr data"
  shows "\<exists>p ssrc. ready = Some ssrc \<and> parse_rtp_packet data = Inr p \<and> rtp_version p = 2 \<and> \<not> rtp_extension p \<and>
    \<not> rtp_padding p \<and> \<not> rtp_marker p \<and> rtp_csrcs p = [] \<and> rtp_payload_type p = nat (pt mod 2 ^ 7) \<and>
    rtp_sequence p = nat (rs_sequence s mod 2 ^ 16) \<and> rtp_timestamp p = nat (rs_timestamp s mod 2 ^ 32) \<and>
    rtp_ssrc p = nat ssrc \<and> rtp_header p = take 12 data \<and> rtp_payload p = payload \<and> \<not> is_rtcp_packet data"
proof -
  obtain ssrc ssrc4 where r: "ready = Some ssrc" and s4: "pack_uint 4 ssrc = Inr ssrc4"
    and data: "data = [0x80, word_of_int (pt mod 2 ^ 7)] @ be_encode 2 (nat (rs_sequence s mod 2 ^ 16))
       @ be_encode 4 (nat (rs_timestamp s mod 2 ^ 32)) @ ssrc4 @ payload"
    using build_rtp_packet_Inr [OF assms] by metis
  have l4: "length ssrc4 = 4" and d4: "be_decode ssrc4 = nat ssrc" using pack_uint_Inr [OF s4] by auto
  have fields: "data ! 0 = 0x80" "data ! 1 = word_of_int (pt mod 2 ^ 7)" "12 \<le> length data"
    "slice 2 4 data = be_encode 2 (nat (rs_sequence s mod 2 ^ 16))"
    "slice 4 8 data = be_encode 4 (nat (rs_timestamp s mod 2 ^ 32))" "slice 8 12 data = ssrc4"
    "drop 12 data = payload"
    using l4 by (simp_all add: data slice_def)
  have seq: "nat (rs_sequence s mod 2 ^ 16) < 256 ^ 2" and ts: "nat (rs_timestamp s mod 2 ^ 32) < 256 ^ 4"
    by (simp_all add: nat_less_iff)
  have rtcp: "\<not> is_rtcp_packet data"
  proof -
    have "pt mod 2 ^ 7 < 128" by simp
    then have "nat (pt mod 2 ^ 7) < 200" by linarith
    then show ?thesis by (simp only: is_rtcp_packet_def fields(2) word_of_int_payload_type(3)) simp
  qed
  show ?thesis
    using fields l4 d4 rtcp be_decode_encode [OF seq] be_decode_encode [OF ts]
    by (simp add: r parse_rtp_packet_def RTP_HEADER_SIZE_def word_of_int_payload_type [simplified] Let_def)
qed

lemma length_unpack_words [simp]: "length (unpack_words n bs) = n"
  by (induction n arbitrary: bs) auto

section \<open>Properties\<close>

text \<open>
  Parsing an RTP packet loses nothing and fails only on short input: the header prefix
  and the payload are the datagram, the prefix is at least twelve bytes and a whole number
  of words, one per CSRC and one for the extension preamble, and any datagram that holds
  that prefix is parsed.
\<close>

theorem parse_rtp_lossless:
  "(case parse_rtp_packet data of
      Inr p \<Rightarrow> rtp_header p @ rtp_payload p = data \<and>
        length (rtp_header p) = 12 + 4 * length (rtp_csrcs p) + (if rtp_extension p then 4 else 0) \<and>
        rtp_version p < 4 \<and> rtp_payload_type p < 128 \<and> rtp_sequence p < 2 ^ 16 \<and> rtp_timestamp p < 2 ^ 32 \<and> rtp_ssrc p < 2 ^ 32
    | Inl e \<Rightarrow> length data < 12 \<or>
        length data < 12 + 4 * unat (data ! 0 AND 0x0F) + (if data ! 0 AND 0x10 \<noteq> 0 then 4 else 0))"
proof -
  have v: "unat (drop_bit 6 b) < 4" for b :: byte
  proof -
    have "unat (drop_bit 6 b) = drop_bit 6 (unat b)" by (simp only: unsigned_drop_bit_eq) (simp add: take_bit_nat_eq_self unat_byte_less)
    also have "\<dots> = unat b div 2 ^ 6" by (rule drop_bit_eq_div)
    finally show ?thesis using unat_byte_less [of b] by simp
  qed
  have pt: "unat (b AND 0x7F) < 128" for b :: byte
  proof -
    have "b AND 0x7F = take_bit 7 b" by (simp add: take_bit_eq_mask mask_numeral)
    then show ?thesis by (simp add: unsigned_take_bit_eq take_bit_eq_mod [of 7 "unat b"])
  qed
  have sl: "length data \<ge> 12 \<Longrightarrow> be_decode (slice a b data) < 256 ^ (b - a)" if "b \<le> 12" for a b
    using be_decode_bound [of "slice a b data"] that by (simp add: slice_def)
  show ?thesis
    using sl [of 4 2] sl [of 8 4] sl [of 12 8] v [of "data ! 0"] pt [of "data ! 1"]
    by (auto simp: parse_rtp_packet_def RTP_HEADER_SIZE_def Let_def)
qed

lemma seal_opens:
  assumes "crypto_sound lib" and "build_rtp_packet (Some ssrc) s [] pt = Inr header"
  shows "\<exists>p. open_packet lib box (header @ seal lib box header body (rs_nonce s)) = Inr (p, body) \<and>
    rtp_ssrc p = nat ssrc \<and> rtp_sequence p = nat (rs_sequence s mod 2 ^ 16) \<and>
    rtp_timestamp p = nat (rs_timestamp s mod 2 ^ 32) \<and>
    \<not> is_rtcp_packet (header @ seal lib box header body (rs_nonce s))"
proof -
  let ?sealed = "seal lib box header body (rs_nonce s)"
  have built: "build_rtp_packet (Some ssrc) s ?sealed pt = Inr (header @ ?sealed)"
    using assms(2) by (auto simp: build_rtp_packet_def bind_result_Inr_iff)
  obtain p where p: "parse_rtp_packet (header @ ?sealed) = Inr p" "\<not> rtp_extension p" "rtp_ssrc p = nat ssrc"
    "rtp_sequence p = nat (rs_sequence s mod 2 ^ 16)" "rtp_timestamp p = nat (rs_timestamp s mod 2 ^ 32)"
    "rtp_header p = take 12 (header @ ?sealed)" "rtp_payload p = ?sealed" "\<not> is_rtcp_packet (header @ ?sealed)"
    using parse_built [OF built] by auto
  have "length header = 12"
    using assms(2) pack_uint_Inr by (auto simp: build_rtp_packet_def bind_result_Inr_iff)
  then have hdr: "rtp_header p = header" using p(6) by simp
  obtain ct where ct: "?sealed = ct @ nonce_suffix (rs_nonce s)"
    and op: "open_sealed lib box header ct (nonce_suffix (rs_nonce s)) = Inr body"
    using assms(1) by (cases "vb_mode box") (auto simp: seal_def Let_def open_sealed_def crypto_sound_def)
  have "length (nonce_suffix (rs_nonce s)) = 4" by (simp add: nonce_suffix_def)
  then have "open_packet lib box (header @ ?sealed) = Inr (p, body)"
    using p(1,2,7) hdr op unfolding ct by (simp add: open_packet_def Let_def strip_header_extension_def)
  then show ?thesis using p by blast
qed

text \<open>
  What the client sends, the receiver can read back. A frame sealed under any transport
  mode behind the RTP header built for it opens with the same key to the same frame, with
  the SSRC, sequence number and timestamp of the sender, and is never taken for RTCP.
\<close>

theorem voice_seal_open_roundtrip:
  assumes "crypto_sound lib" and "build_rtp_packet (Some ssrc) s [] pt = Inr header"
  shows "\<exists>p. open_packet lib box (header @ seal lib box header body (rs_nonce s)) = Inr (p, body) \<and>
    rtp_ssrc p = nat ssrc \<and> rtp_sequence p = nat (rs_sequence s mod 2 ^ 16) \<and>
    rtp_timestamp p = nat (rs_timestamp s mod 2 ^ 32) \<and>
    \<not> is_rtcp_packet (header @ seal lib box header body (rs_nonce s))"
  using seal_opens [OF assms] .

definition toy_lib :: crypto_lib where
  "toy_lib =
     \<lparr>aesgcm_encrypt = (\<lambda>key nonce pt ad. 1 # pt), aesgcm_decrypt = (\<lambda>key nonce ct ad. Some (tl ct)),
      xchacha_encrypt = (\<lambda>pt ad nonce key. 2 # pt), xchacha_decrypt = (\<lambda>ct ad nonce key. Some (tl ct)),
      secretbox = (\<lambda>pt nonce key. 3 # pt), secretbox_open = (\<lambda>ct nonce key. Some (tl ct))\<rparr>"

lemma toy_lib_sound: "crypto_sound toy_lib"
  by (simp add: crypto_sound_def toy_lib_def)

theorem voice_seal_open_roundtrip_witness:
  "\<exists>header p. build_rtp_packet (Some 5) \<lparr>rs_sequence = 7, rs_timestamp = 9, rs_nonce = 2\<rparr> [] 0x78 = Inr header \<and>
    open_packet toy_lib \<lparr>vb_mode = AeadAes256GcmRtpsize, vb_key = [1]\<rparr>
      (header @ seal toy_lib \<lparr>vb_mode = AeadAes256GcmRtpsize, vb_key = [1]\<rparr> header [4, 4] 2) = Inr (p, [4, 4]) \<and> rtp_ssrc p = 5"
proof -
  obtain header where h: "build_rtp_packet (Some 5) \<lparr>rs_sequence = 7, rs_timestamp = 9, rs_nonce = 2\<rparr> [] 0x78 = Inr header"
    by (auto simp: build_rtp_packet_def pack_uint_def)
  show ?thesis
    using voice_seal_open_roundtrip [OF toy_lib_sound h, of "\<lparr>vb_mode = AeadAes256GcmRtpsize, vb_key = [1]\<rparr>" "[4, 4]"] h
    by auto
qed

lemma sender_iterates:
  "rs_nonce ((advance_sender step ^^ n) s) mod 2 ^ 32 = (rs_nonce s + int n) mod 2 ^ 32 \<and>
   rs_sequence ((advance_sender step ^^ n) s) mod 2 ^ 16 = (rs_sequence s + int n) mod 2 ^ 16 \<and>
   rs_timestamp ((advance_sender step ^^ n) s) mod 2 ^ 32 = (rs_timestamp s + int n * step) mod 2 ^ 32"
proof (induction n)
  case (Suc n)
  let ?s = "(advance_sender step ^^ n) s"
  have shift: "(x + c) mod m = (y + c) mod m" if "x mod m = y mod m" for x y c m :: int
    using that by (metis mod_add_left_eq)
  have n: "(rs_nonce ?s + 1) mod 2 ^ 32 = (rs_nonce s + int n + 1) mod 2 ^ 32"
    by (rule shift) (use Suc in blast)
  have q: "(rs_sequence ?s + 1) mod 2 ^ 16 = (rs_sequence s + int n + 1) mod 2 ^ 16"
    by (rule shift) (use Suc in blast)
  have ts: "(rs_timestamp ?s + step) mod 2 ^ 32 = (rs_timestamp s + int n * step + step) mod 2 ^ 32"
    by (rule shift) (use Suc in blast)
  have e: "rs_nonce s + int (Suc n) = rs_nonce s + int n + 1" "rs_sequence s + int (Suc n) = rs_sequence s + int n + 1"
    "rs_timestamp s + int (Suc n) * step = rs_timestamp s + int n * step + step"
    by (simp_all add: algebra_simps)
  show ?case unfolding e funpow.simps o_apply advance_sender_def rtp_sender.simps mod_mod_trivial
    using n q ts unfolding advance_sender_def by (intro conjI)
qed simp



text \<open>
  An IP discovery response laid out as the protocol says gives back the address and the
  port, and the client's own request is never accepted as a response.
\<close>

theorem ip_discovery_roundtrip:
  assumes "length addr \<le> 63" and "list_all (\<lambda>c. 0 < (of_char c :: nat) \<and> (of_char c :: nat) < 128) addr"
    and "port < 2 ^ 16" and "length ssrc4 = 4"
  shows "parse_ip_discovery_response (be_encode 2 2 @ be_encode 2 70 @ ssrc4 @
      map (\<lambda>c. word_of_nat (of_char c)) addr @ replicate (64 - length addr) 0 @ be_encode 2 port) = Inr (addr, port) \<and>
    (\<forall>req. build_ip_discovery_packet ssrc \<noteq> Inr req \<or> (\<exists>e. parse_ip_discovery_response req = Inl e))"
proof -
  let ?a = "map (\<lambda>c. word_of_nat (of_char c) :: byte) addr"
  let ?p = "be_encode 2 2 @ be_encode 2 70 @ ssrc4 @ ?a @ replicate (64 - length addr) 0 @ be_encode 2 port"
  have body: "slice 8 72 ?p = ?a @ replicate (64 - length addr) 0"
    using assms(1,4) by (simp add: slice_def)
  have nz: "(word_of_nat (of_char c) :: byte) \<noteq> 0" and un: "unat (word_of_nat (of_char c) :: byte) = of_char c"
    if "c \<in> set addr" for c
  proof -
    have c: "0 < (of_char c :: nat)" "(of_char c :: nat) < 128" using assms(2) that by (auto simp: list_all_iff)
    then show u: "unat (word_of_nat (of_char c) :: byte) = of_char c" by simp
    show "(word_of_nat (of_char c) :: byte) \<noteq> 0" using c(1) u by (metis less_irrefl unsigned_0)
  qed
  have "takeWhile (\<lambda>b. b \<noteq> 0) (?a @ replicate (64 - length addr) 0) = ?a"
  proof -
    have "takeWhile (\<lambda>b. b \<noteq> 0) (replicate k (0 :: byte)) = []" for k by (cases k) auto
    moreover have "takeWhile (\<lambda>b. b \<noteq> 0) (?a @ replicate (64 - length addr) 0) =
        ?a @ takeWhile (\<lambda>b. b \<noteq> 0) (replicate (64 - length addr) 0)"
      by (rule takeWhile_append2) (use nz in auto)
    ultimately show ?thesis by simp
  qed
  moreover have "ascii_decode ?a = Inr addr"
    using assms(2) un by (auto simp: ascii_decode_def list_all_iff intro!: map_idI)
  moreover have "slice 72 74 ?p = be_encode 2 port" using assms(1,4) by (simp add: slice_def)
  moreover have "be_decode (be_encode 2 port) = port" using assms(3) by (intro be_decode_encode) simp
  moreover have "slice 0 2 ?p = be_encode 2 2" "slice 2 4 ?p = be_encode 2 70" "length ?p = 74"
    using assms(1,4) by (simp_all add: slice_def)
  ultimately have "parse_ip_discovery_response ?p = Inr (addr, port)"
    unfolding parse_ip_discovery_response_def body by (simp add: be_decode_encode)
  moreover have "\<exists>e. parse_ip_discovery_response req = Inl e" if "build_ip_discovery_packet ssrc = Inr req" for req
    using that pack_uint_Inr
    by (auto simp: build_ip_discovery_packet_def bind_result_Inr_iff parse_ip_discovery_response_def slice_def be_decode_encode)
  ultimately show ?thesis by blast
qed

theorem ip_discovery_roundtrip_witness:
  "parse_ip_discovery_response (be_encode 2 2 @ be_encode 2 70 @ [0, 0, 0, 5] @
      map (\<lambda>c. word_of_nat (of_char c)) ''10.0.0.1'' @ replicate (64 - length ''10.0.0.1'') 0 @ be_encode 2 50000) = Inr (''10.0.0.1'', 50000)"
  using ip_discovery_roundtrip [of "''10.0.0.1''" 50000 "[0, 0, 0, 5]"] by simp

end
