(* ===== verification/DaveController.thy ===== *)
theory DaveController
  imports PyValue
begin

text \<open>
  The DAVE protocol controller (src/vaidcord-py/src/vaidcord/voice/dave: opcodes.py,
  state.py, models.py, backend.py, controller.py). The crypto backend is an interface: a
  record of operations on its own state. Handlers return their error and the controller as
  it is when they raise.
\<close>

section \<open>Opcodes and messages\<close>

datatype dave_opcode =
    PREPARE_TRANSITION | EXECUTE_TRANSITION | TRANSITION_READY | PREPARE_EPOCH | MLS_EXTERNAL_SENDER
  | MLS_KEY_PACKAGE | MLS_PROPOSALS | MLS_COMMIT_WELCOME | MLS_ANNOUNCE_COMMIT_TRANSITION
  | MLS_WELCOME | MLS_INVALID_COMMIT_WELCOME

definition opcode_int :: "dave_opcode \<Rightarrow> int" where
  "opcode_int opc =
     (case opc of
        PREPARE_TRANSITION \<Rightarrow> 21 | EXECUTE_TRANSITION \<Rightarrow> 22 | TRANSITION_READY \<Rightarrow> 23 | PREPARE_EPOCH \<Rightarrow> 24
      | MLS_EXTERNAL_SENDER \<Rightarrow> 25 | MLS_KEY_PACKAGE \<Rightarrow> 26 | MLS_PROPOSALS \<Rightarrow> 27 | MLS_COMMIT_WELCOME \<Rightarrow> 28
      | MLS_ANNOUNCE_COMMIT_TRANSITION \<Rightarrow> 29 | MLS_WELCOME \<Rightarrow> 30 | MLS_INVALID_COMMIT_WELCOME \<Rightarrow> 31)"

definition all_opcodes :: "dave_opcode list" where
  "all_opcodes =
     [PREPARE_TRANSITION, EXECUTE_TRANSITION, TRANSITION_READY, PREPARE_EPOCH, MLS_EXTERNAL_SENDER,
      MLS_KEY_PACKAGE, MLS_PROPOSALS, MLS_COMMIT_WELCOME, MLS_ANNOUNCE_COMMIT_TRANSITION,
      MLS_WELCOME, MLS_INVALID_COMMIT_WELCOME]"

definition coerce_opcode :: "int \<Rightarrow> dave_opcode option" where
  "coerce_opcode n = find (\<lambda>opc. opcode_int opc = n) all_opcodes"

definition server_to_client :: "dave_opcode set" where
  "server_to_client = {PREPARE_TRANSITION, EXECUTE_TRANSITION, PREPARE_EPOCH, MLS_EXTERNAL_SENDER,
     MLS_PROPOSALS, MLS_ANNOUNCE_COMMIT_TRANSITION, MLS_WELCOME}"

definition client_to_server :: "dave_opcode set" where
  "client_to_server = {TRANSITION_READY, MLS_KEY_PACKAGE, MLS_COMMIT_WELCOME, MLS_INVALID_COMMIT_WELCOME}"

datatype dave_error = DaveUnsupportedError string | DavePayloadError string | DaveBackendError string | BackendRaised exc

type_synonym 'a dres = "dave_error + 'a"

record outbound =
  ob_op :: int
  ob_data :: jdict
  ob_binary :: bool

record transition =
  tr_transition_id :: json
  tr_protocol_version :: "int option"
  tr_epoch :: "int option"

text \<open>A key package or a commit as the backend returns it: payload and wire format.\<close>

type_synonym wire_message = "jdict \<times> bool"

section \<open>State\<close>

record dave_state =
  ds_seen :: bool
  ds_enabled :: bool
  ds_negotiated :: bool
  ds_protocol_version :: "int option"
  ds_epoch :: "int option"
  ds_transition_id :: json
  ds_pending_transition :: "jdict option"
  ds_pending_epoch :: "jdict option"
  ds_external_sender :: "jdict option"
  ds_key_package :: "jdict option"
  ds_commit_welcome :: "jdict option"
  ds_welcome :: "jdict option"
  ds_announced_commit_transition :: "jdict option"
  ds_proposals :: "jdict list"
  ds_invalid_commit_welcomes :: "jdict list"
  ds_last_opcode :: "dave_opcode option"

definition initial_dave_state :: dave_state where
  "initial_dave_state =
     \<lparr>ds_seen = False, ds_enabled = False, ds_negotiated = False, ds_protocol_version = None, ds_epoch = None,
      ds_transition_id = JNull, ds_pending_transition = None, ds_pending_epoch = None, ds_external_sender = None,
      ds_key_package = None, ds_commit_welcome = None, ds_welcome = None, ds_announced_commit_transition = None,
      ds_proposals = [], ds_invalid_commit_welcomes = [], ds_last_opcode = None\<rparr>"

definition version_on :: "int option \<Rightarrow> bool" where
  "version_on v \<longleftrightarrow> v \<noteq> None \<and> v \<noteq> Some 0"

definition requires_backend :: "dave_state \<Rightarrow> bool" where
  "requires_backend s \<longleftrightarrow> version_on (ds_protocol_version s) \<or> ds_pending_epoch s \<noteq> None"

definition snapshot_flags :: "dave_state \<Rightarrow> (string \<times> bool) list" where
  "snapshot_flags s =
     [(''seen'', ds_seen s), (''enabled'', ds_enabled s), (''negotiated'', ds_negotiated s),
      (''has_pending_transition'', ds_pending_transition s \<noteq> None), (''has_pending_epoch'', ds_pending_epoch s \<noteq> None),
      (''has_external_sender'', ds_external_sender s \<noteq> None), (''has_key_package'', ds_key_package s \<noteq> None),
      (''has_commit_welcome'', ds_commit_welcome s \<noteq> None), (''has_welcome'', ds_welcome s \<noteq> None)]"

section \<open>The backend interface\<close>

record 'b dave_ops =
  op_max_protocol_version :: "'b \<Rightarrow> int"
  op_prepare_transition :: "transition \<Rightarrow> 'b \<Rightarrow> unit dres \<times> 'b"
  op_execute_transition :: "transition \<Rightarrow> 'b \<Rightarrow> unit dres \<times> 'b"
  op_prepare_epoch :: "transition \<Rightarrow> 'b \<Rightarrow> wire_message option dres \<times> 'b"
  op_set_external_sender :: "jdict \<Rightarrow> 'b \<Rightarrow> unit dres \<times> 'b"
  op_handle_proposals :: "jdict \<Rightarrow> 'b \<Rightarrow> wire_message option dres \<times> 'b"
  op_handle_commit_welcome :: "jdict \<Rightarrow> 'b \<Rightarrow> unit dres \<times> 'b"
  op_handle_welcome :: "jdict \<Rightarrow> 'b \<Rightarrow> unit dres \<times> 'b"
  op_handle_invalid_commit_welcome :: "jdict \<Rightarrow> 'b \<Rightarrow> unit dres \<times> 'b"
  op_encrypt_frame :: "int \<Rightarrow> bytes \<Rightarrow> 'b \<Rightarrow> bytes dres \<times> 'b"
  op_decrypt_frame :: "int \<Rightarrow> bytes \<Rightarrow> 'b \<Rightarrow> bytes dres \<times> 'b"

definition unsupported_backend :: "'b dave_ops" where
  "unsupported_backend =
     (let no = DaveUnsupportedError ''no compatible DAVE crypto backend'' in
      \<lparr>op_max_protocol_version = (\<lambda>_. 0), op_prepare_transition = (\<lambda>_ b. (Inl no, b)),
       op_execute_transition = (\<lambda>_ b. (Inl no, b)), op_prepare_epoch = (\<lambda>_ b. (Inl no, b)),
       op_set_external_sender = (\<lambda>_ b. (Inl no, b)), op_handle_proposals = (\<lambda>_ b. (Inl no, b)),
       op_handle_commit_welcome = (\<lambda>_ b. (Inl no, b)), op_handle_welcome = (\<lambda>_ b. (Inl no, b)),
       op_handle_invalid_commit_welcome = (\<lambda>_ b. (Inl no, b)), op_encrypt_frame = (\<lambda>_ _ b. (Inl no, b)),
       op_decrypt_frame = (\<lambda>_ _ b. (Inl no, b))\<rparr>)"

section \<open>The controller\<close>

record 'b controller =
  ct_backend :: 'b
  ct_state :: dave_state
  ct_fail_fast :: bool
  ct_sent :: "outbound list"

text \<open>Handlers are programs on the controller that may raise.\<close>

type_synonym ('b, 'a) prog = "'b controller \<Rightarrow> 'a dres \<times> 'b controller"

definition ret :: "'a \<Rightarrow> ('b, 'a) prog" where
  "ret x c = (Inr x, c)"

definition andThen :: "('b, 'a) prog \<Rightarrow> ('a \<Rightarrow> ('b, 'r) prog) \<Rightarrow> ('b, 'r) prog" where
  "andThen m k c = (case m c of (Inl e, c1) \<Rightarrow> (Inl e, c1) | (Inr x, c1) \<Rightarrow> k x c1)"

definition lift_result :: "'a dres \<Rightarrow> ('b, 'a) prog" where
  "lift_result r c = (r, c)"

definition modify_state :: "(dave_state \<Rightarrow> dave_state) \<Rightarrow> ('b, unit) prog" where
  "modify_state f c = (Inr (), c\<lparr>ct_state := f (ct_state c)\<rparr>)"

definition call_backend :: "('b \<Rightarrow> 'a dres \<times> 'b) \<Rightarrow> ('b, 'a) prog" where
  "call_backend f c = (case f (ct_backend c) of (r, b) \<Rightarrow> (r, c\<lparr>ct_backend := b\<rparr>))"

definition send_payload :: "outbound \<Rightarrow> ('b, unit) prog" where
  "send_payload p c = (Inr (), c\<lparr>ct_sent := ct_sent c @ [p]\<rparr>)"

definition require_backend :: "'b dave_ops \<Rightarrow> string \<Rightarrow> ('b, unit) prog" where
  "require_backend ops source c =
     (if op_max_protocol_version ops (ct_backend c) \<le> 0 \<and> ct_fail_fast c
      then (Inl (DaveUnsupportedError source), c) else (Inr (), c))"

definition optional_int :: "json \<Rightarrow> int option dres" where
  "optional_int v =
     (if v = JNull then Inr None
      else case py_int v of Inr i \<Rightarrow> Inr (Some i) | Inl _ \<Rightarrow> Inl (DavePayloadError ''Expected integer-compatible value''))"

definition transition_from_payload :: "jdict \<Rightarrow> transition dres" where
  "transition_from_payload payload =
     (case optional_int (dict_get payload ''protocol_version'' (jget payload ''dave_protocol_version'')) of
        Inl e \<Rightarrow> Inl e
      | Inr v \<Rightarrow>
          (case optional_int (jget payload ''epoch'') of
             Inl e \<Rightarrow> Inl e
           | Inr ep \<Rightarrow> Inr \<lparr>tr_transition_id = jget payload ''transition_id'', tr_protocol_version = v, tr_epoch = ep\<rparr>))"

definition payload_dict :: "json \<Rightarrow> jdict dres" where
  "payload_dict data =
     (case data of
        JNull \<Rightarrow> Inr []
      | JDict d \<Rightarrow> Inr d
      | _ \<Rightarrow> Inl (DavePayloadError ''DAVE payload must be a mapping''))"

definition identify_fields :: "'b dave_ops \<Rightarrow> 'b controller \<Rightarrow> jdict" where
  "identify_fields ops c = [(''max_dave_protocol_version'', JInt (op_max_protocol_version ops (ct_backend c)))]"

definition handle_session_description :: "'b dave_ops \<Rightarrow> json \<Rightarrow> ('b, unit) prog" where
  "handle_session_description ops data =
     andThen (lift_result (payload_dict data)) (\<lambda>payload.
     andThen (lift_result (optional_int (jget payload ''dave_protocol_version''))) (\<lambda>v.
     andThen (modify_state (\<lambda>s. s\<lparr>ds_protocol_version := v, ds_negotiated := version_on v, ds_enabled := version_on v\<rparr>)) (\<lambda>_ c.
       if ct_fail_fast c \<and> requires_backend (ct_state c) \<and> op_max_protocol_version ops (ct_backend c) \<le> 0
       then (Inl (DaveUnsupportedError ''session_description''), c) else (Inr (), c))))"

definition send_transition_ready :: "transition \<Rightarrow> ('b, unit) prog" where
  "send_transition_ready t =
     send_payload \<lparr>ob_op = opcode_int TRANSITION_READY,
       ob_data = (if tr_transition_id t \<noteq> JNull then [(''transition_id'', tr_transition_id t)] else []), ob_binary = False\<rparr>"

definition send_wire :: "dave_opcode \<Rightarrow> wire_message option \<Rightarrow> ('b, unit) prog" where
  "send_wire opc msg =
     (case msg of
        None \<Rightarrow> ret ()
      | Some (payload, binary) \<Rightarrow> send_payload \<lparr>ob_op = opcode_int opc, ob_data = payload, ob_binary = binary\<rparr>)"

definition prepare_transition :: "'b dave_ops \<Rightarrow> jdict \<Rightarrow> ('b, unit) prog" where
  "prepare_transition ops payload =
     andThen (lift_result (transition_from_payload payload)) (\<lambda>t.
     andThen (modify_state (\<lambda>s. s\<lparr>ds_pending_transition := Some payload, ds_transition_id := tr_transition_id t,
                                ds_protocol_version := tr_protocol_version t\<rparr>)) (\<lambda>_.
       if \<not> version_on (tr_protocol_version t) then send_transition_ready t
       else
         andThen (require_backend ops ''PREPARE_TRANSITION'') (\<lambda>_.
         andThen (call_backend (op_prepare_transition ops t)) (\<lambda>_. send_transition_ready t))))"

definition execute_transition :: "'b dave_ops \<Rightarrow> jdict \<Rightarrow> ('b, unit) prog" where
  "execute_transition ops payload =
     andThen (lift_result (transition_from_payload payload)) (\<lambda>t.
     andThen (modify_state (\<lambda>s. s\<lparr>ds_transition_id := tr_transition_id t\<rparr>)) (\<lambda>_.
       if tr_protocol_version t = Some 0
       then modify_state (\<lambda>s. s\<lparr>ds_enabled := False, ds_protocol_version := Some 0\<rparr>)
       else
         andThen (require_backend ops ''EXECUTE_TRANSITION'') (\<lambda>_.
         andThen (call_backend (op_execute_transition ops t)) (\<lambda>_.
           modify_state (\<lambda>s. let v = (case tr_protocol_version t of None \<Rightarrow> ds_protocol_version s | Some i \<Rightarrow> Some i)
                             in s\<lparr>ds_protocol_version := v, ds_enabled := version_on v\<rparr>)))))"

definition prepare_epoch :: "'b dave_ops \<Rightarrow> jdict \<Rightarrow> ('b, unit) prog" where
  "prepare_epoch ops payload =
     andThen (lift_result (transition_from_payload payload)) (\<lambda>t.
     andThen (modify_state (\<lambda>s. s\<lparr>ds_pending_epoch := Some payload, ds_transition_id := tr_transition_id t,
                                ds_protocol_version := tr_protocol_version t, ds_epoch := tr_epoch t\<rparr>)) (\<lambda>_.
     andThen (require_backend ops ''PREPARE_EPOCH'') (\<lambda>_.
     andThen (call_backend (op_prepare_epoch ops t)) (\<lambda>kp.
     andThen (send_wire MLS_KEY_PACKAGE kp) (\<lambda>_. send_transition_ready t)))))"

definition handle_dave_opcode :: "'b dave_ops \<Rightarrow> dave_opcode \<Rightarrow> jdict \<Rightarrow> ('b, unit) prog" where
  "handle_dave_opcode ops opc payload =
     (case opc of
        PREPARE_TRANSITION \<Rightarrow> prepare_transition ops payload
      | EXECUTE_TRANSITION \<Rightarrow> execute_transition ops payload
      | TRANSITION_READY \<Rightarrow> ret ()
      | PREPARE_EPOCH \<Rightarrow> prepare_epoch ops payload
      | MLS_EXTERNAL_SENDER \<Rightarrow>
          andThen (modify_state (\<lambda>s. s\<lparr>ds_external_sender := Some payload\<rparr>)) (\<lambda>_.
          andThen (require_backend ops ''MLS_EXTERNAL_SENDER'') (\<lambda>_. call_backend (op_set_external_sender ops payload)))
      | MLS_KEY_PACKAGE \<Rightarrow> modify_state (\<lambda>s. s\<lparr>ds_key_package := Some payload\<rparr>)
      | MLS_PROPOSALS \<Rightarrow>
          andThen (modify_state (\<lambda>s. s\<lparr>ds_proposals := ds_proposals s @ [payload]\<rparr>)) (\<lambda>_.
          andThen (require_backend ops ''MLS_PROPOSALS'') (\<lambda>_.
          andThen (call_backend (op_handle_proposals ops payload)) (send_wire MLS_COMMIT_WELCOME)))
      | MLS_COMMIT_WELCOME \<Rightarrow>
          andThen (modify_state (\<lambda>s. s\<lparr>ds_commit_welcome := Some payload\<rparr>)) (\<lambda>_.
          andThen (require_backend ops ''MLS_COMMIT_WELCOME'') (\<lambda>_. call_backend (op_handle_commit_welcome ops payload)))
      | MLS_ANNOUNCE_COMMIT_TRANSITION \<Rightarrow> modify_state (\<lambda>s. s\<lparr>ds_announced_commit_transition := Some payload\<rparr>)
      | MLS_WELCOME \<Rightarrow>
          andThen (modify_state (\<lambda>s. s\<lparr>ds_welcome := Some payload\<rparr>)) (\<lambda>_.
          andThen (require_backend ops ''MLS_WELCOME'') (\<lambda>_. call_backend (op_handle_welcome ops payload)))
      | MLS_INVALID_COMMIT_WELCOME \<Rightarrow>
          andThen (modify_state (\<lambda>s. s\<lparr>ds_invalid_commit_welcomes := ds_invalid_commit_welcomes s @ [payload]\<rparr>)) (\<lambda>_.
          andThen (require_backend ops ''MLS_INVALID_COMMIT_WELCOME'') (\<lambda>_.
            call_backend (op_handle_invalid_commit_welcome ops payload))))"

text \<open>Everything but DaveUnsupportedError is wrapped into DaveBackendError.\<close>

definition wrap_error :: "dave_error \<Rightarrow> dave_error" where
  "wrap_error e = (case e of DaveUnsupportedError s \<Rightarrow> DaveUnsupportedError s | _ \<Rightarrow> DaveBackendError ''DAVE backend failed'')"

definition handle_gateway_payload :: "'b dave_ops \<Rightarrow> int \<Rightarrow> json \<Rightarrow> ('b, bool) prog" where
  "handle_gateway_payload ops n data =
     (case coerce_opcode n of
        None \<Rightarrow> ret False
      | Some opc \<Rightarrow>
          andThen (lift_result (payload_dict data)) (\<lambda>payload.
          andThen (modify_state (\<lambda>s. s\<lparr>ds_seen := True, ds_last_opcode := Some opc\<rparr>)) (\<lambda>_ c.
            case handle_dave_opcode ops opc payload c of
              (Inl e, c1) \<Rightarrow> (Inl (wrap_error e), c1)
            | (Inr _, c1) \<Rightarrow> (Inr True, c1))))"

definition encrypt_frame :: "'b dave_ops \<Rightarrow> int \<Rightarrow> bytes \<Rightarrow> ('b, bytes) prog" where
  "encrypt_frame ops ssrc frame c =
     (if \<not> ds_enabled (ct_state c) then (Inr frame, c) else call_backend (op_encrypt_frame ops ssrc frame) c)"

definition decrypt_frame :: "'b dave_ops \<Rightarrow> int \<Rightarrow> bytes \<Rightarrow> ('b, bytes) prog" where
  "decrypt_frame ops ssrc frame c =
     (if \<not> ds_enabled (ct_state c) then (Inr frame, c) else call_backend (op_decrypt_frame ops ssrc frame) c)"

section \<open>Lemmas\<close>

lemma coerce_opcode_iff: "coerce_opcode n = None \<longleftrightarrow> n < 21 \<or> 31 < n"
  by (simp add: coerce_opcode_def all_opcodes_def opcode_int_def) presburger

lemma coerce_opcode_int [simp]: "coerce_opcode (opcode_int opc) = Some opc"
  by (cases opc) (simp_all add: coerce_opcode_def all_opcodes_def opcode_int_def)

lemma opcode_directions: "server_to_client \<union> client_to_server = UNIV" "server_to_client \<inter> client_to_server = {}"
proof -
  have "opc \<in> server_to_client \<union> client_to_server" for opc
    by (cases opc) (simp_all add: server_to_client_def client_to_server_def)
  then show "server_to_client \<union> client_to_server = UNIV" by blast
qed (auto simp: server_to_client_def client_to_server_def)

lemma andThen_Inr_iff:
  "andThen m k c = (Inr x, c') \<longleftrightarrow> (\<exists>y c1. m c = (Inr y, c1) \<and> k y c1 = (Inr x, c'))"
  by (auto simp: andThen_def split: prod.splits sum.splits)

lemmas prog_simps = andThen_Inr_iff ret_def lift_result_def modify_state_def send_payload_def

text \<open>A program that neither switches encryption on nor changes the fail-fast mode.\<close>

definition keeps_off :: "('b, 'a) prog \<Rightarrow> bool" where
  "keeps_off m \<longleftrightarrow> (\<forall>c x c'. ct_fail_fast c \<and> \<not> ds_enabled (ct_state c) \<and> m c = (Inr x, c') \<longrightarrow>
     ct_fail_fast c' \<and> \<not> ds_enabled (ct_state c'))"

lemma keeps_off_andThen: "keeps_off m \<Longrightarrow> (\<And>x. keeps_off (k x)) \<Longrightarrow> keeps_off (andThen m k)"
  unfolding keeps_off_def andThen_Inr_iff by blast

lemma keeps_off_basic:
  "keeps_off (ret x)" "keeps_off (lift_result r)" "keeps_off (send_payload p)" "keeps_off (call_backend g)"
  "(\<And>s. ds_enabled (f s) \<Longrightarrow> ds_enabled s) \<Longrightarrow> keeps_off (modify_state f)"
  by (auto simp: keeps_off_def ret_def lift_result_def send_payload_def call_backend_def modify_state_def
      split: prod.splits)

lemma keeps_off_require: "(\<And>b. op_max_protocol_version ops b \<le> 0) \<Longrightarrow> keeps_off (andThen (require_backend ops s) k)"
  by (auto simp: keeps_off_def require_backend_def andThen_def)

lemma keeps_off_sends: "keeps_off (send_transition_ready t)" "keeps_off (send_wire opc m)"
  by (auto simp: send_transition_ready_def send_wire_def keeps_off_basic split: option.split)

lemma keeps_off_opcode:
  assumes "\<And>b. op_max_protocol_version ops b \<le> 0"
  shows "keeps_off (handle_dave_opcode ops opc payload)"
proof -
  note rules = keeps_off_andThen keeps_off_basic keeps_off_sends keeps_off_require [OF assms]
  have 1: "keeps_off (prepare_transition ops payload)" "keeps_off (prepare_epoch ops payload)"
    unfolding prepare_transition_def prepare_epoch_def by (auto intro!: rules)
  have 2: "keeps_off (execute_transition ops payload)"
    unfolding execute_transition_def by (auto intro!: rules)
  show ?thesis
    using 1 2 by (cases opc) (auto simp: handle_dave_opcode_def intro!: rules)
qed

lemma session_description_off:
  assumes "\<And>b. op_max_protocol_version ops b \<le> 0"
  shows "keeps_off (handle_session_description ops data)"
proof -
  have mx: "op_max_protocol_version ops b \<le> 0 \<longleftrightarrow> True" for b using assms by simp
  show ?thesis unfolding keeps_off_def handle_session_description_def prog_simps requires_backend_def mx
    by (auto simp: version_on_def split: if_splits)
qed

lemma gateway_payload_off:
  assumes "\<And>b. op_max_protocol_version ops b \<le> 0"
  shows "keeps_off (handle_gateway_payload ops n data)"
proof (cases "coerce_opcode n")
  case None
  then show ?thesis by (simp add: handle_gateway_payload_def keeps_off_basic)
next
  case (Some opc)
  define K where "K payload = (\<lambda>c. case handle_dave_opcode ops opc payload c of (Inl e, c1) \<Rightarrow> (Inl (wrap_error e), c1) | (Inr _, c1) \<Rightarrow> (Inr True, c1))" for payload
  have K: "keeps_off (K payload)" for payload
    unfolding keeps_off_def
  proof (intro allI impI)
    fix c x c'
    assume a: "ct_fail_fast c \<and> \<not> ds_enabled (ct_state c) \<and> K payload c = (Inr x, c')"
    obtain res c1 where h: "handle_dave_opcode ops opc payload c = (res, c1)" by fastforce
    then have "res = Inr ()" "c1 = c'" using a by (cases res; simp add: K_def)+
    then show "ct_fail_fast c' \<and> \<not> ds_enabled (ct_state c')"
      using a h keeps_off_opcode [OF assms, of opc payload] unfolding keeps_off_def by blast
  qed
  have "handle_gateway_payload ops n data = andThen (lift_result (payload_dict data)) (\<lambda>payload.
      andThen (modify_state (\<lambda>s. s\<lparr>ds_seen := True, ds_last_opcode := Some opc\<rparr>)) (\<lambda>_. K payload))"
    by (simp add: handle_gateway_payload_def Some K_def)
  then show ?thesis by (auto intro!: keeps_off_andThen keeps_off_basic K)
qed

section \<open>Runs of the protocol\<close>

text \<open>The messages a session delivers, each handled without an error.\<close>

inductive dave_run :: "'b dave_ops \<Rightarrow> 'b controller \<Rightarrow> 'b controller \<Rightarrow> bool" for ops where
  start: "dave_run ops c c"
| described: "dave_run ops c c1 \<Longrightarrow> handle_session_description ops data c1 = (Inr (), c2) \<Longrightarrow> dave_run ops c c2"
| gateway: "dave_run ops c c1 \<Longrightarrow> handle_gateway_payload ops n data c1 = (Inr x, c2) \<Longrightarrow> dave_run ops c c2"

inductive_cases dave_run_cases: "dave_run ops c c'"

lemma dave_run_off:
  assumes "dave_run ops c c'" and "\<And>b. op_max_protocol_version ops b \<le> 0" and "ct_fail_fast c" and "\<not> ds_enabled (ct_state c)"
  shows "ct_fail_fast c' \<and> \<not> ds_enabled (ct_state c')"
  using assms(1,3,4)
proof (induction rule: dave_run.induct)
  case (described c c1 data c2)
  then show ?case using session_description_off [OF assms(2)] unfolding keeps_off_def by blast
next
  case (gateway c c1 n data x c2)
  then show ?case using gateway_payload_off [OF assms(2)] unfolding keeps_off_def by blast
qed simp

section \<open>Properties\<close>



text \<open>
  Every prepared transition is acknowledged exactly once. A PREPARE_TRANSITION handled
  without an error adds one TRANSITION_READY with the transition's id to what is sent, a
  failing one adds nothing; and neither touches whether frames are encrypted.
\<close>

theorem transition_acknowledged_once:
  assumes "transition_from_payload payload = Inr t"
    and "handle_gateway_payload ops (opcode_int PREPARE_TRANSITION) (JDict payload) c = (r, c')"
  shows "ds_enabled (ct_state c') = ds_enabled (ct_state c) \<and>
    ct_sent c' = ct_sent c @ (case r of Inl _ \<Rightarrow> []
      | Inr _ \<Rightarrow> [\<lparr>ob_op = 23, ob_data = (if tr_transition_id t \<noteq> JNull then [(''transition_id'', tr_transition_id t)] else []), ob_binary = False\<rparr>])"
  using assms
  by (auto simp: handle_gateway_payload_def andThen_def lift_result_def payload_dict_def modify_state_def
      handle_dave_opcode_def prepare_transition_def send_transition_ready_def send_payload_def require_backend_def
      call_backend_def opcode_int_def [of TRANSITION_READY] split: prod.splits sum.splits if_splits)

theorem transition_acknowledged_once_witness:
  "\<exists>c'. handle_gateway_payload unsupported_backend (opcode_int PREPARE_TRANSITION)
       (JDict [(''transition_id'', JInt 4), (''protocol_version'', JInt 0)])
       \<lparr>ct_backend = (), ct_state = initial_dave_state, ct_fail_fast = True, ct_sent = []\<rparr> = (Inr True, c') \<and>
     ct_sent c' = [\<lparr>ob_op = 23, ob_data = [(''transition_id'', JInt 4)], ob_binary = False\<rparr>]"
proof -
  let ?p = "[(''transition_id'', JInt 4), (''protocol_version'', JInt 0)]"
  let ?c = "\<lparr>ct_backend = (), ct_state = initial_dave_state, ct_fail_fast = True, ct_sent = []\<rparr>"
  have t: "transition_from_payload ?p = Inr \<lparr>tr_transition_id = JInt 4, tr_protocol_version = Some 0, tr_epoch = None\<rparr>"
    by (simp add: transition_from_payload_def optional_int_def jget_def dict_get_def)
  obtain c' where h: "handle_gateway_payload unsupported_backend (opcode_int PREPARE_TRANSITION) (JDict ?p) ?c = (Inr True, c')"
    using t by (simp add: handle_gateway_payload_def andThen_def lift_result_def payload_dict_def modify_state_def
        handle_dave_opcode_def prepare_transition_def send_transition_ready_def send_payload_def version_on_def)
  show ?thesis using transition_acknowledged_once [OF t h] h by auto
qed

text \<open>
  Encryption follows the executed version. After an EXECUTE_TRANSITION handled without
  an error frames are encrypted exactly when the protocol version then in force is not zero;
  opcodes outside 21 to 31 are left to others and change nothing.
\<close>

theorem executed_transition_decides:
  assumes "handle_gateway_payload ops n (JDict payload) c = (Inr x, c')"
  shows "(if n = 22 then x \<and> ds_enabled (ct_state c') = version_on (ds_protocol_version (ct_state c')) \<and>
            (\<forall>v. jget payload ''protocol_version'' = JInt v \<longrightarrow> ds_protocol_version (ct_state c') = Some v)
          else x = (21 \<le> n \<and> n \<le> 31) \<and> (x \<or> c' = c))"
proof (cases "n = 22")
  case True
  then have op: "coerce_opcode n = Some EXECUTE_TRANSITION" by (simp add: coerce_opcode_def all_opcodes_def opcode_int_def)
  have "jget payload ''protocol_version'' = JInt v \<Longrightarrow> transition_from_payload payload = Inr t \<Longrightarrow> tr_protocol_version t = Some v" for v t
    by (auto simp: transition_from_payload_def jget_def dict_get_def optional_int_def split: sum.splits option.splits)
  note version = this
  obtain c1 where e: "execute_transition ops payload c1 = (Inr (), c')" and x: "x"
    using assms op by (auto simp: handle_gateway_payload_def prog_simps payload_dict_def handle_dave_opcode_def
        split: prod.splits sum.splits)
  obtain t where t: "transition_from_payload payload = Inr t" using e by (auto simp: execute_transition_def prog_simps)
  show ?thesis
  proof (cases "tr_protocol_version t = Some 0")
    case 0: True
    then show ?thesis using e t version [OF _ t] True x by (auto simp: execute_transition_def prog_simps version_on_def)
  next
    case False
    then obtain c2 where c2: "c' = c2\<lparr>ct_state := (let v = (case tr_protocol_version t of None \<Rightarrow> ds_protocol_version (ct_state c2) | Some i \<Rightarrow> Some i)
        in (ct_state c2)\<lparr>ds_protocol_version := v, ds_enabled := version_on v\<rparr>)\<rparr>"
      using e t by (auto simp: execute_transition_def prog_simps)
    show ?thesis using c2 version [OF _ t] True x by (auto simp: Let_def split: option.splits)
  qed
next
  case False
  note n = this
  show ?thesis
  proof (cases "coerce_opcode n")
    case None
    then show ?thesis using assms n coerce_opcode_iff [of n] by (auto simp: handle_gateway_payload_def ret_def)
  next
    case (Some opc)
    obtain res c1 where h: "handle_dave_opcode ops opc payload (c\<lparr>ct_state := (ct_state c)\<lparr>ds_seen := True, ds_last_opcode := Some opc\<rparr>\<rparr>) = (res, c1)"
      by fastforce
    then have "x" using assms Some
      by (cases res) (simp_all add: handle_gateway_payload_def andThen_def lift_result_def payload_dict_def modify_state_def)
    then show ?thesis using n Some coerce_opcode_iff [of n] by auto
  qed
qed

theorem executed_transition_decides_witness:
  "\<exists>x c'. handle_gateway_payload unsupported_backend 22 (JDict [(''protocol_version'', JInt 0)])
       \<lparr>ct_backend = (), ct_state = initial_dave_state\<lparr>ds_enabled := True\<rparr>, ct_fail_fast = True, ct_sent = []\<rparr> = (Inr x, c') \<and>
     \<not> ds_enabled (ct_state c')"
proof -
  let ?c = "\<lparr>ct_backend = (), ct_state = initial_dave_state\<lparr>ds_enabled := True\<rparr>, ct_fail_fast = True, ct_sent = []\<rparr>"
  obtain x c' where h: "handle_gateway_payload unsupported_backend 22 (JDict [(''protocol_version'', JInt 0)]) ?c = (Inr x, c')"
    by (auto simp: handle_gateway_payload_def coerce_opcode_def all_opcodes_def opcode_int_def andThen_def lift_result_def
        payload_dict_def modify_state_def handle_dave_opcode_def execute_transition_def transition_from_payload_def
        optional_int_def jget_def dict_get_def)
  show ?thesis using executed_transition_decides [OF h] h by (auto simp: jget_def dict_get_def version_on_def)
qed

lemma malformed_version_is_backend_error:
  "fst (handle_gateway_payload ops 22 (JDict [(''protocol_version'', JStr ''x'')]) c) = Inl (DaveBackendError ''DAVE backend failed'')"
proof -
  have "parse_int ''x'' = None" by code_simp
  then show ?thesis
    by (simp add: handle_gateway_payload_def coerce_opcode_def all_opcodes_def opcode_int_def andThen_def lift_result_def
        payload_dict_def modify_state_def handle_dave_opcode_def execute_transition_def transition_from_payload_def
        optional_int_def jget_def dict_get_def py_int_def wrap_error_def)
qed

end
