(* ===== verification/ErrorTypes.thy ===== *)
theory ErrorTypes
  imports EventTypes
begin

text \<open>
  The error layer (src/vaidcord-py/src/vaidcord/errors.py): the code enumerations as tables from
  member names to values, reconnect policies and descriptions of close codes, the flattening
  of Discord's nested error objects, the exception classes and the factories that choose
  them. An exception is a record of its class and fields; a field left at None is \<open>JNull\<close>.
\<close>

section \<open>Enumerations\<close>

definition gateway_opcodes :: "(string \<times> int) list" where
  "gateway_opcodes =
     [(''DISPATCH'', 0), (''HEARTBEAT'', 1), (''IDENTIFY'', 2), (''PRESENCE_UPDATE'', 3),
      (''VOICE_STATE_UPDATE'', 4), (''RESUME'', 6), (''RECONNECT'', 7), (''REQUEST_GUILD_MEMBERS'', 8),
      (''INVALID_SESSION'', 9), (''HELLO'', 10), (''HEARTBEAT_ACK'', 11), (''REQUEST_SOUNDBOARD_SOUNDS'', 31),
      (''REQUEST_CHANNEL_INFO'', 43)]"

definition gateway_close_codes :: "(string \<times> int) list" where
  "gateway_close_codes =
     [(''UNKNOWN_ERROR'', 4000), (''UNKNOWN_OPCODE'', 4001), (''DECODE_ERROR'', 4002), (''NOT_AUTHENTICATED'', 4003),
      (''AUTHENTICATION_FAILED'', 4004), (''ALREADY_AUTHENTICATED'', 4005), (''INVALID_SEQ'', 4007),
      (''RATE_LIMITED'', 4008), (''SESSION_TIMED_OUT'', 4009), (''INVALID_SHARD'', 4010),
      (''SHARDING_REQUIRED'', 4011), (''INVALID_API_VERSION'', 4012), (''INVALID_INTENT'', 4013),
      (''DISALLOWED_INTENT'', 4014)]"

text \<open>\<open>SomeEnum(value)\<close>: the member with that value, a ValueError without one.\<close>

definition enum_of :: "(string \<times> int) list \<Rightarrow> int \<Rightarrow> string option" where
  "enum_of table v = map_option fst (find (\<lambda>(_, x). x = v) table)"

definition gateway_should_reconnect :: "string \<Rightarrow> bool" where
  "gateway_should_reconnect member =
     (member \<notin> set [''AUTHENTICATION_FAILED'', ''INVALID_SHARD'', ''SHARDING_REQUIRED'', ''INVALID_API_VERSION'',
                    ''INVALID_INTENT'', ''DISALLOWED_INTENT''])"

definition gateway_close_descriptions :: "(string \<times> string) list" where
  "gateway_close_descriptions =
     [(''UNKNOWN_ERROR'', ''Unknown error. Try reconnecting?''),
      (''UNKNOWN_OPCODE'', ''You sent an invalid Gateway opcode or payload.''),
      (''DECODE_ERROR'', ''You sent an invalid payload to Discord.''),
      (''NOT_AUTHENTICATED'', ''You sent a payload prior to identifying.''),
      (''AUTHENTICATION_FAILED'', ''The account token sent is incorrect.''),
      (''ALREADY_AUTHENTICATED'', ''You sent more than one identify payload.''),
      (''INVALID_SEQ'', ''The sequence sent when resuming was invalid.''),
      (''RATE_LIMITED'', ''You're sending payloads too quickly.''),
      (''SESSION_TIMED_OUT'', ''Your session timed out.''),
      (''INVALID_SHARD'', ''You sent an invalid shard when identifying.''),
      (''SHARDING_REQUIRED'', ''The session would have handled too many guilds.''),
      (''INVALID_API_VERSION'', ''You sent an invalid version for the gateway.''),
      (''INVALID_INTENT'', ''You sent an invalid intent for a Gateway Intent.''),
      (''DISALLOWED_INTENT'', ''You sent a disallowed intent.'')]"

definition gateway_close_description :: "string \<Rightarrow> string" where
  "gateway_close_description member =
     (case map_of gateway_close_descriptions member of Some d \<Rightarrow> d | None \<Rightarrow> ''Unknown close code'')"

definition voice_gateway_opcodes :: "(string \<times> int) list" where
  "voice_gateway_opcodes =
     [(''IDENTIFY'', 0), (''SELECT_PROTOCOL'', 1), (''READY'', 2), (''HEARTBEAT'', 3), (''SESSION_DESCRIPTION'', 4),
      (''SPEAKING'', 5), (''HEARTBEAT_ACK'', 6), (''RESUME'', 7), (''HELLO'', 8), (''RESUMED'', 9),
      (''CLIENTS_CONNECT'', 11), (''CLIENT_DISCONNECT'', 13), (''DAVE_PREPARE_TRANSITION'', 21),
      (''DAVE_EXECUTE_TRANSITION'', 22), (''DAVE_TRANSITION_READY'', 23), (''DAVE_PREPARE_EPOCH'', 24),
      (''DAVE_MLS_EXTERNAL_SENDER'', 25), (''DAVE_MLS_KEY_PACKAGE'', 26), (''DAVE_MLS_PROPOSALS'', 27),
      (''DAVE_MLS_COMMIT_WELCOME'', 28), (''DAVE_MLS_ANNOUNCE_COMMIT_TRANSITION'', 29), (''DAVE_MLS_WELCOME'', 30),
      (''DAVE_MLS_INVALID_COMMIT_WELCOME'', 31)]"

definition voice_close_codes :: "(string \<times> int) list" where
  "voice_close_codes =
     [(''UNKNOWN_OPCODE'', 4001), (''DECODE_ERROR'', 4002), (''NOT_AUTHENTICATED'', 4003),
      (''AUTHENTICATION_FAILED'', 4004), (''ALREADY_AUTHENTICATED'', 4005), (''SESSION_NO_LONGER_VALID'', 4006),
      (''SESSION_TIMEOUT'', 4009), (''SERVER_NOT_FOUND'', 4011), (''UNKNOWN_PROTOCOL'', 4012),
      (''DISCONNECTED'', 4014), (''VOICE_SERVER_CRASHED'', 4015), (''UNKNOWN_ENCRYPTION_MODE'', 4016),
      (''E2EE_DAVE_REQUIRED'', 4017), (''BAD_REQUEST'', 4020), (''DISCONNECTED_RATE_LIMITED'', 4021),
      (''DISCONNECTED_CALL_TERMINATED'', 4022)]"

definition voice_should_reconnect :: "string \<Rightarrow> bool" where
  "voice_should_reconnect member =
     (member \<notin> set [''DISCONNECTED'', ''DISCONNECTED_RATE_LIMITED'', ''DISCONNECTED_CALL_TERMINATED''])"

definition voice_close_descriptions :: "(string \<times> string) list" where
  "voice_close_descriptions =
     [(''UNKNOWN_OPCODE'', ''You sent an invalid opcode.''),
      (''DECODE_ERROR'', ''You sent an invalid payload.''),
      (''NOT_AUTHENTICATED'', ''You sent a payload before identifying.''),
      (''AUTHENTICATION_FAILED'', ''The token is incorrect.''),
      (''ALREADY_AUTHENTICATED'', ''You sent more than one identify payload.''),
      (''SESSION_NO_LONGER_VALID'', ''Your session is no longer valid.''),
      (''SESSION_TIMEOUT'', ''Your session has timed out.''),
      (''SERVER_NOT_FOUND'', ''We can't find the server you're trying to connect to.''),
      (''UNKNOWN_PROTOCOL'', ''We didn't recognize your protocol.''),
      (''DISCONNECTED'', ''You were kicked or the main gateway dropped.''),
      (''VOICE_SERVER_CRASHED'', ''The server crashed. Try resuming.''),
      (''UNKNOWN_ENCRYPTION_MODE'', ''We didn't recognize your encryption.''),
      (''E2EE_DAVE_REQUIRED'', ''This channel requires E2EE via DAVE Protocol.''),
      (''BAD_REQUEST'', ''You sent a malformed request.''),
      (''DISCONNECTED_RATE_LIMITED'', ''Disconnected due to rate limit exceeded.''),
      (''DISCONNECTED_CALL_TERMINATED'', ''Call terminated (channel deleted, etc.).'')]"

definition voice_close_description :: "string \<Rightarrow> string" where
  "voice_close_description member =
     (case map_of voice_close_descriptions member of Some d \<Rightarrow> d | None \<Rightarrow> ''Unknown voice close code'')"

definition http_statuses :: "(string \<times> int) list" where
  "http_statuses =
     [(''OK'', 200), (''CREATED'', 201), (''NO_CONTENT'', 204), (''NOT_MODIFIED'', 304), (''BAD_REQUEST'', 400),
      (''UNAUTHORIZED'', 401), (''FORBIDDEN'', 403), (''NOT_FOUND'', 404), (''METHOD_NOT_ALLOWED'', 405),
      (''TOO_MANY_REQUESTS'', 429), (''GATEWAY_UNAVAILABLE'', 502), (''SERVER_ERROR'', 500)]"

definition discord_error_codes_1 :: "(string \<times> int) list" where
  "discord_error_codes_1 =
     [(''GENERAL_ERROR'', 0), (''UNKNOWN_ACCOUNT'', 10001), (''UNKNOWN_APPLICATION'', 10002),
      (''UNKNOWN_CHANNEL'', 10003), (''UNKNOWN_GUILD'', 10004), (''UNKNOWN_INTEGRATION'', 10005),
      (''UNKNOWN_INVITE'', 10006), (''UNKNOWN_MEMBER'', 10007), (''UNKNOWN_MESSAGE'', 10008),
      (''UNKNOWN_OVERWRITE'', 10009), (''UNKNOWN_PROVIDER'', 10010), (''UNKNOWN_ROLE'', 10011),
      (''UNKNOWN_TOKEN'', 10012), (''UNKNOWN_USER'', 10013), (''UNKNOWN_EMOJI'', 10014),
      (''UNKNOWN_WEBHOOK'', 10015), (''UNKNOWN_WEBHOOK_SERVICE'', 10016), (''UNKNOWN_SESSION'', 10020),
      (''UNKNOWN_ASSET'', 10021), (''UNKNOWN_BAN'', 10026), (''UNKNOWN_SKU'', 10027),
      (''UNKNOWN_STORE_LISTING'', 10028), (''UNKNOWN_ENTITLEMENT'', 10029), (''UNKNOWN_BUILD'', 10030),
      (''UNKNOWN_LOBBY'', 10031), (''UNKNOWN_BRANCH'', 10032), (''UNKNOWN_STORE_DIRECTORY_LAYOUT'', 10033),
      (''UNKNOWN_REDISTRIBUTABLE'', 10036), (''UNKNOWN_GIFT_CODE'', 10038), (''UNKNOWN_STREAM'', 10049),
      (''UNKNOWN_PREMIUM_SUBSCRIBE_COOLDOWN'', 10050), (''UNKNOWN_GUILD_TEMPLATE'', 10057),
      (''UNKNOWN_DISCOVERABLE_CATEGORY'', 10059), (''UNKNOWN_STICKER'', 10060), (''UNKNOWN_STICKER_PACK'', 10061),
      (''UNKNOWN_INTERACTION'', 10062), (''UNKNOWN_APPLICATION_COMMAND'', 10063), (''UNKNOWN_VOICE_STATE'', 10065),
      (''UNKNOWN_APPLICATION_COMMAND_PERMISSIONS'', 10066), (''UNKNOWN_STAGE_INSTANCE'', 10067),
      (''UNKNOWN_GUILD_MEMBER_VERIFICATION_FORM'', 10068), (''UNKNOWN_GUILD_WELCOME_SCREEN'', 10069),
      (''UNKNOWN_GUILD_SCHEDULED_EVENT'', 10070), (''UNKNOWN_GUILD_SCHEDULED_EVENT_USER'', 10071),
      (''UNKNOWN_TAG'', 10087), (''UNKNOWN_SOUND'', 10097), (''UNKNOWN_INVITE_TARGET_USERS_JOB'', 10124),
      (''UNKNOWN_INVITE_TARGET_USERS'', 10129), (''BOTS_CANNOT_USE_ENDPOINT'', 20001),
      (''BOT_ONLY_ENDPOINT'', 20002), (''EXPLICIT_CONTENT_CANNOT_BE_SENT'', 20009),
      (''NOT_AUTHORIZED_FOR_ACTION'', 20012), (''SLOWMODE_RATE_LIMIT'', 20016),
      (''ONLY_OWNER_CAN_PERFORM_ACTION'', 20018), (''MESSAGE_CANNOT_BE_EDITED'', 20022),
      (''UNDER_MINIMUM_AGE'', 20024), (''CHANNEL_WRITE_RATE_LIMIT'', 20028), (''GUILD_WRITE_RATE_LIMIT'', 20029),
      (''FORBIDDEN_WORDS_IN_NAMES'', 20031), (''GUILD_PREMIUM_TOO_LOW'', 20035), (''MAX_GUILDS_REACHED'', 30001),
      (''MAX_FRIENDS_REACHED'', 30002), (''MAX_PINS_REACHED'', 30003), (''MAX_RECIPIENTS_REACHED'', 30004),
      (''MAX_ROLES_REACHED'', 30005), (''MAX_WEBHOOKS_REACHED'', 30007), (''MAX_EMOJIS_REACHED'', 30008),
      (''MAX_REACTIONS_REACHED'', 30010), (''MAX_GROUP_DMS_REACHED'', 30011), (''MAX_CHANNELS_REACHED'', 30013),
      (''MAX_ATTACHMENTS_REACHED'', 30015), (''MAX_INVITES_REACHED'', 30016),
      (''MAX_ANIMATED_EMOJIS_REACHED'', 30018), (''MAX_MEMBERS_REACHED'', 30019),
      (''MAX_CATEGORIES_REACHED'', 30030), (''GUILD_ALREADY_HAS_TEMPLATE'', 30031),
      (''MAX_APPLICATION_COMMANDS_REACHED'', 30032), (''MAX_THREAD_PARTICIPANTS_REACHED'', 30033),
      (''MAX_DAILY_APP_COMMAND_CREATES_REACHED'', 30034), (''MAX_NON_MEMBER_BANS_EXCEEDED'', 30035),
      (''MAX_BAN_FETCHES_REACHED'', 30037), (''MAX_UNCOMPLETED_SCHEDULED_EVENTS_REACHED'', 30038),
      (''MAX_STICKERS_REACHED'', 30039), (''MAX_PRUNE_REQUESTS_REACHED'', 30040),
      (''MAX_WIDGET_SETTINGS_UPDATES_REACHED'', 30042), (''MAX_SOUNDBOARD_SOUNDS_REACHED'', 30045),
      (''MAX_OLD_MESSAGE_EDITS_REACHED'', 30046), (''MAX_PINNED_THREADS_IN_FORUM_REACHED'', 30047),
      (''MAX_TAGS_IN_FORUM_REACHED'', 30048), (''BITRATE_TOO_HIGH'', 30052), (''MAX_PREMIUM_EMOJIS_REACHED'', 30056),
      (''MAX_WEBHOOKS_PER_GUILD_REACHED'', 30058), (''MAX_CHANNEL_OVERWRITES_REACHED'', 30060),
      (''CHANNELS_TOO_LARGE'', 30061), (''UNAUTHORIZED'', 40001), (''ACCOUNT_VERIFICATION_REQUIRED'', 40002),
      (''OPENING_DMS_TOO_FAST'', 40003), (''SEND_MESSAGES_DISABLED'', 40004), (''REQUEST_ENTITY_TOO_LARGE'', 40005),
      (''FEATURE_TEMPORARILY_DISABLED'', 40006), (''USER_BANNED_FROM_GUILD'', 40007),
      (''CONNECTION_REVOKED'', 40012), (''ONLY_CONSUMABLE_SKUS'', 40018), (''ONLY_SANDBOX_ENTITLEMENTS'', 40019),
      (''TARGET_USER_NOT_IN_VOICE'', 40032), (''MESSAGE_ALREADY_CROSSPOSTED'', 40033),
      (''COMMAND_NAME_ALREADY_EXISTS'', 40041), (''INTERACTION_FAILED_TO_SEND'', 40043),
      (''CANNOT_SEND_IN_FORUM_CHANNEL'', 40058), (''INTERACTION_ALREADY_ACKNOWLEDGED'', 40060),
      (''TAG_NAMES_MUST_BE_UNIQUE'', 40061), (''SERVICE_RATE_LIMITED'', 40062),
      (''NO_TAGS_FOR_NON_MODERATORS'', 40066), (''TAG_REQUIRED_FOR_FORUM_POST'', 40067),
      (''ENTITLEMENT_ALREADY_GRANTED'', 40074), (''MAX_FOLLOW_UP_MESSAGES_REACHED'', 40094),
      (''CLOUDFLARE_BLOCKING'', 40333), (''MISSING_ACCESS'', 50001), (''INVALID_ACCOUNT_TYPE'', 50002),
      (''CANNOT_EXECUTE_ON_DM'', 50003), (''GUILD_WIDGET_DISABLED'', 50004),
      (''CANNOT_EDIT_MESSAGE_BY_OTHER'', 50005), (''CANNOT_SEND_EMPTY_MESSAGE'', 50006),
      (''CANNOT_MESSAGE_USER'', 50007), (''CANNOT_SEND_IN_VOICE_CHANNEL'', 50008),
      (''CHANNEL_VERIFICATION_TOO_HIGH'', 50009), (''OAUTH2_APP_HAS_NO_BOT'', 50010),
      (''OAUTH2_APPLICATION_LIMIT'', 50011), (''INVALID_OAUTH_STATE'', 50012), (''MISSING_PERMISSIONS'', 50013),
      (''INVALID_AUTH_TOKEN'', 50014), (''NOTE_TOO_LONG'', 50015), (''BULK_DELETE_AMOUNT_INVALID'', 50016),
      (''INVALID_MFA_LEVEL'', 50017)]"

definition discord_error_codes_2 :: "(string \<times> int) list" where
  "discord_error_codes_2 =
     [(''CANNOT_PIN_IN_OTHER_CHANNEL'', 50019), (''INVITE_INVALID_OR_TAKEN'', 50020),
      (''CANNOT_EXECUTE_ON_SYSTEM_MESSAGE'', 50021), (''CANNOT_EXECUTE_ON_CHANNEL_TYPE'', 50024),
      (''INVALID_OAUTH2_ACCESS_TOKEN'', 50025), (''MISSING_REQUIRED_OAUTH2_SCOPE'', 50026),
      (''INVALID_WEBHOOK_TOKEN'', 50027), (''INVALID_ROLE'', 50028), (''INVALID_RECIPIENTS'', 50033),
      (''MESSAGE_TOO_OLD_FOR_BULK_DELETE'', 50034), (''INVALID_FORM_BODY'', 50035),
      (''INVITE_ACCEPTED_BOT_NOT_IN_GUILD'', 50036), (''INVALID_ACTIVITY_ACTION'', 50039),
      (''INVALID_API_VERSION'', 50041), (''FILE_TOO_LARGE'', 50045), (''INVALID_FILE'', 50046),
      (''CANNOT_SELF_REDEEM_GIFT'', 50054), (''INVALID_GUILD'', 50055), (''INVALID_SKU'', 50057),
      (''INVALID_REQUEST_ORIGIN'', 50067), (''INVALID_MESSAGE_TYPE'', 50068), (''PAYMENT_SOURCE_REQUIRED'', 50070),
      (''CANNOT_MODIFY_SYSTEM_WEBHOOK'', 50073), (''CANNOT_DELETE_COMMUNITY_CHANNEL'', 50074),
      (''CANNOT_EDIT_STICKERS'', 50080), (''INVALID_STICKER'', 50081), (''ARCHIVED_THREAD_OPERATION'', 50083),
      (''INVALID_THREAD_NOTIFICATION_SETTINGS'', 50084), (''BEFORE_VALUE_TOO_EARLY'', 50085),
      (''COMMUNITY_CHANNELS_MUST_BE_TEXT'', 50086), (''EVENT_ENTITY_TYPE_MISMATCH'', 50091),
      (''SERVER_NOT_AVAILABLE_IN_LOCATION'', 50095), (''MONETIZATION_REQUIRED'', 50097),
      (''NEED_MORE_BOOSTS'', 50101), (''INVALID_JSON'', 50109), (''INVALID_FILE_UPLOADED'', 50110),
      (''INVALID_FILE_TYPE'', 50123), (''FILE_DURATION_EXCEEDS_MAX'', 50124), (''OWNER_CANNOT_BE_PENDING'', 50131),
      (''OWNERSHIP_CANNOT_TRANSFER_TO_BOT'', 50132), (''ASSET_RESIZE_FAILED'', 50138),
      (''CANNOT_MIX_SUBSCRIPTION_ROLES'', 50144), (''CANNOT_CONVERT_EMOJI_TYPE'', 50145),
      (''UPLOADED_FILE_NOT_FOUND'', 50146), (''INVALID_EMOJI'', 50151), (''VOICE_MESSAGES_NO_CONTENT'', 50159),
      (''VOICE_MESSAGES_SINGLE_ATTACHMENT'', 50160), (''VOICE_MESSAGES_NEED_METADATA'', 50161),
      (''VOICE_MESSAGES_CANNOT_EDIT'', 50162), (''CANNOT_DELETE_SUBSCRIPTION_INTEGRATION'', 50163),
      (''CANNOT_SEND_VOICE_MESSAGES'', 50173), (''ACCOUNT_MUST_BE_VERIFIED'', 50178),
      (''INVALID_FILE_DURATION'', 50192), (''NO_MUTUAL_GUILDS'', 50278), (''NO_PERMISSION_FOR_STICKER'', 50600),
      (''TWO_FACTOR_REQUIRED'', 60003), (''NO_USERS_WITH_DISCORD_TAG'', 80004), (''REACTION_BLOCKED'', 90001),
      (''USER_CANNOT_USE_BURST_REACTIONS'', 90002), (''INDEX_NOT_AVAILABLE'', 110000),
      (''APPLICATION_NOT_AVAILABLE'', 110001), (''API_RESOURCE_OVERLOADED'', 130000),
      (''STAGE_ALREADY_OPEN'', 150006), (''CANNOT_REPLY_WITHOUT_HISTORY'', 160002),
      (''THREAD_ALREADY_CREATED'', 160003), (''THREAD_LOCKED'', 160004), (''MAX_ACTIVE_THREADS_REACHED'', 160005),
      (''MAX_ANNOUNCEMENT_THREADS_REACHED'', 160006), (''CANNOT_FORWARD_MESSAGE'', 160014),
      (''INVALID_LOTTIE_JSON'', 170001), (''LOTTIE_CONTAINS_RASTERIZED'', 170002),
      (''STICKER_FRAMERATE_EXCEEDED'', 170003), (''STICKER_FRAME_COUNT_EXCEEDED'', 170004),
      (''LOTTIE_DIMENSIONS_EXCEEDED'', 170005), (''STICKER_FRAMERATE_INVALID'', 170006),
      (''STICKER_ANIMATION_TOO_LONG'', 170007), (''CANNOT_UPDATE_FINISHED_EVENT'', 180000),
      (''FAILED_TO_CREATE_STAGE'', 180002), (''MESSAGE_BLOCKED_BY_AUTOMOD'', 200000),
      (''TITLE_BLOCKED_BY_AUTOMOD'', 200001), (''WEBHOOK_FORUM_THREAD_NAME_REQUIRED'', 220001),
      (''WEBHOOK_FORUM_BOTH_THREAD_NAME_AND_ID'', 220002), (''WEBHOOK_ONLY_CREATE_THREADS_IN_FORUM'', 220003),
      (''WEBHOOK_SERVICES_NOT_IN_FORUM'', 220004), (''MESSAGE_BLOCKED_BY_HARMFUL_LINKS'', 240000),
      (''CANNOT_ENABLE_ONBOARDING'', 350000), (''CANNOT_UPDATE_ONBOARDING'', 350001),
      (''FILE_UPLOADS_LIMITED'', 400001), (''FAILED_TO_BAN_USERS'', 500000), (''POLL_VOTING_BLOCKED'', 520000),
      (''POLL_EXPIRED'', 520001), (''INVALID_CHANNEL_FOR_POLL'', 520002), (''CANNOT_EDIT_POLL'', 520003),
      (''CANNOT_USE_POLL_EMOJI'', 520004), (''CANNOT_EXPIRE_NON_POLL'', 520006),
      (''PROVISIONAL_ACCOUNTS_NOT_GRANTED'', 530000), (''ID_TOKEN_EXPIRED'', 530001),
      (''ID_TOKEN_ISSUER_MISMATCH'', 530002), (''ID_TOKEN_AUDIENCE_MISMATCH'', 530003),
      (''ID_TOKEN_ISSUED_TOO_LONG_AGO'', 530004), (''USERNAME_GENERATION_TIMEOUT'', 530006),
      (''INVALID_CLIENT_SECRET'', 530007)]"

definition discord_error_codes :: "(string \<times> int) list" where
  "discord_error_codes = discord_error_codes_1 @ discord_error_codes_2"

definition error_category :: "int \<Rightarrow> string" where
  "error_category code =
     (if code = 0 then ''General''
      else if 10000 \<le> code \<and> code < 20000 then ''Unknown Resource''
      else if 20000 \<le> code \<and> code < 30000 then ''Bot/User Action''
      else if 30000 \<le> code \<and> code < 40000 then ''Limit Reached''
      else if 40000 \<le> code \<and> code < 50000 then ''Unauthorized/Validation''
      else if 50000 \<le> code \<and> code < 60000 then ''Permissions''
      else if 60000 \<le> code \<and> code < 70000 then ''Two-Factor Authentication''
      else ''Other'')"

text \<open>\<open>str.title\<close> on ASCII: a letter after a non-letter is upper case, every other letter lower case.\<close>

definition is_letter :: "char \<Rightarrow> bool" where
  "is_letter c = (upper_char c \<noteq> lower_char c)"

primrec title_from :: "bool \<Rightarrow> string \<Rightarrow> string" where
  "title_from inside [] = []"
| "title_from inside (c # cs) = (if inside then lower_char c else upper_char c) # title_from (is_letter c) cs"

definition error_description :: "string \<Rightarrow> int \<Rightarrow> string" where
  "error_description name code =
     title_from False (map (\<lambda>c. if c = CHR ''_'' then CHR '' '' else c) name) @ '' ('' @ error_category code @ '')''"

definition rpc_error_codes :: "(string \<times> int) list" where
  "rpc_error_codes =
     [(''UNKNOWN_ERROR'', 1000), (''INVALID_PAYLOAD'', 4000), (''INVALID_COMMAND'', 4002), (''INVALID_GUILD'', 4003),
      (''INVALID_EVENT'', 4004), (''INVALID_CHANNEL'', 4005), (''INVALID_PERMISSIONS'', 4006),
      (''INVALID_CLIENT_ID'', 4007), (''INVALID_ORIGIN'', 4008), (''INVALID_TOKEN'', 4009), (''INVALID_USER'', 4010),
      (''OAUTH2_ERROR'', 5000), (''SELECT_CHANNEL_TIMEOUT'', 5001), (''GET_GUILD_TIMEOUT'', 5002),
      (''SELECT_VOICE_FORCE_REQUIRED'', 5003), (''CAPTURE_SHORTCUT_ALREADY_LISTENING'', 5004)]"

definition rpc_close_codes :: "(string \<times> int) list" where
  "rpc_close_codes =
     [(''INVALID_CLIENT_ID'', 4000), (''INVALID_ORIGIN'', 4001), (''RATE_LIMITED'', 4002), (''TOKEN_REVOKED'', 4003),
      (''INVALID_VERSION'', 4004), (''INVALID_ENCODING'', 4005)]"

section \<open>Exceptions\<close>

record error_details =
  ed_code :: json
  ed_message :: json
  ed_path :: "string list"

definition details_to_dict :: "error_details \<Rightarrow> jdict" where
  "details_to_dict d =
     [(''code'', ed_code d), (''message'', ed_message d), (''path'', JList (map JStr (ed_path d)))]"

datatype error_class =
    VaidCordError | DiscordAPIError | GatewayError | VoiceGatewayError | RateLimitError | AuthenticationError
  | ForbiddenError | NotFoundError | ValidationError | OAuth2Error | MockError | MissingPermissions | HierarchyError

record vaidcord_error =
  ve_class :: error_class
  ve_message :: json
  ve_code :: json
  ve_status :: "int option"
  ve_details :: "error_details list"
  ve_raw_data :: jdict
  ve_errors :: json
  ve_retry_after :: json
  ve_global_limit :: json
  ve_close_code :: "string option"

definition base_error :: "error_class \<Rightarrow> json \<Rightarrow> json \<Rightarrow> int option \<Rightarrow> error_details list \<Rightarrow> jdict \<Rightarrow> vaidcord_error" where
  "base_error cls message code status details raw =
     \<lparr>ve_class = cls, ve_message = message, ve_code = code, ve_status = status, ve_details = details, ve_raw_data = raw,
      ve_errors = JNull, ve_retry_after = JNull, ve_global_limit = JBool False, ve_close_code = None\<rparr>"

definition error_object :: "string list \<Rightarrow> json \<Rightarrow> error_details result" where
  "error_object path e =
     (case e of
        JDict d \<Rightarrow> Inr \<lparr>ed_code = dict_get d ''code'' (JStr ''UNKNOWN''), ed_message = dict_get d ''message'' (JStr ''Unknown error''), ed_path = path\<rparr>
      | _ \<Rightarrow> Inl (AttributeError ''get''))"

definition own_errors :: "string list \<Rightarrow> jdict \<Rightarrow> error_details list result" where
  "own_errors path d =
     (case map_of d ''_errors'' of
        None \<Rightarrow> Inr []
      | Some es \<Rightarrow> bind_result (json_iter es) (map_result (error_object path)))"

text \<open>
  \<open>_parse_errors\<close>: the errors of the node itself, then its members in order. A member that has
  errors of its own is not searched any deeper.
\<close>

function parse_items :: "string list \<Rightarrow> (string \<times> json) list \<Rightarrow> error_details list result" where
  "parse_items path [] = Inr []"
| "parse_items path ((key, v) # rest) =
     (if key = ''_errors'' then parse_items path rest
      else
        bind_result
          (case v of
             JDict d \<Rightarrow>
               if map_of d ''_errors'' \<noteq> None then own_errors (path @ [key]) d
               else if d = [] then Inr []
               else bind_result (own_errors (path @ [key]) d) (\<lambda>own.
                    bind_result (parse_items (path @ [key]) d) (\<lambda>nested. Inr (own @ nested)))
           | _ \<Rightarrow> Inr [])
          (\<lambda>here. bind_result (parse_items path rest) (\<lambda>later. Inr (here @ later))))"
  by pat_completeness auto
termination
  by (relation "measure (\<lambda>(_, items). size_list (size_prod (\<lambda>_. 0) size) items)") auto

definition parse_errors :: "string list \<Rightarrow> jdict \<Rightarrow> error_details list result" where
  "parse_errors path errors =
     (if errors = [] then Inr []
      else bind_result (own_errors path errors) (\<lambda>own.
           bind_result (parse_items path errors) (\<lambda>nested. Inr (own @ nested))))"

definition discord_api_error :: "json \<Rightarrow> json \<Rightarrow> int \<Rightarrow> json \<Rightarrow> jdict \<Rightarrow> vaidcord_error result" where
  "discord_api_error message code status errors raw =
     bind_result
       (if \<not> json_truthy errors then Inr []
        else (case errors of
                JDict d \<Rightarrow> parse_errors [] d
              | JList _ \<Rightarrow> Inl (AttributeError ''items'')
              | JStr _ \<Rightarrow> Inl (AttributeError ''items'')
              | _ \<Rightarrow> Inl (TypeError ''argument is not iterable'')))
       (\<lambda>details. Inr ((base_error DiscordAPIError message code (Some status) details raw)\<lparr>ve_errors := errors\<rparr>))"

definition rate_limit_error :: "json \<Rightarrow> json \<Rightarrow> json \<Rightarrow> jdict \<Rightarrow> vaidcord_error" where
  "rate_limit_error message retry_after global_limit raw =
     (base_error RateLimitError message (JInt 429) (Some 429) [] raw)\<lparr>ve_retry_after := retry_after, ve_global_limit := global_limit\<rparr>"

definition authentication_error :: "json \<Rightarrow> jdict \<Rightarrow> vaidcord_error" where
  "authentication_error message raw = base_error AuthenticationError message (JInt 401) (Some 401) [] raw"

definition forbidden_error :: "json \<Rightarrow> jdict \<Rightarrow> vaidcord_error" where
  "forbidden_error message raw = base_error ForbiddenError message (JInt 403) (Some 403) [] raw"

definition not_found_error :: "json \<Rightarrow> jdict \<Rightarrow> vaidcord_error" where
  "not_found_error message raw = base_error NotFoundError message (JInt 404) (Some 404) [] raw"

definition create_discord_error :: "int \<Rightarrow> jdict \<Rightarrow> vaidcord_error result" where
  "create_discord_error status data =
     (let code = dict_get data ''code'' (JInt status);
          message = dict_get data ''message'' (JStr ''Unknown error'');
          errors = jget data ''errors''
      in if status = 401 then Inr (authentication_error message data)
         else if status = 403 then Inr (forbidden_error message data)
         else if status = 404 then Inr (not_found_error message data)
         else if status = 429 then
           Inr (rate_limit_error message (jget data ''retry_after'') (dict_get data ''global'' (JBool False)) data)
         else if 500 \<le> status then Inr (base_error VaidCordError message code (Some status) [] data)
         else discord_api_error message code status errors data)"

definition error_code_enum :: "vaidcord_error \<Rightarrow> string option" where
  "error_code_enum e =
     (if \<not> json_truthy (ve_code e) then None
      else (case ve_code e of
              JInt c \<Rightarrow> enum_of discord_error_codes c
            | JBool True \<Rightarrow> enum_of discord_error_codes 1
            | _ \<Rightarrow> None))"

definition create_gateway_error :: "int \<Rightarrow> string option \<Rightarrow> vaidcord_error" where
  "create_gateway_error close_code message =
     (let given = (case message of Some m \<Rightarrow> m | None \<Rightarrow> []) in
      (case enum_of gateway_close_codes close_code of
         Some member \<Rightarrow>
           (base_error GatewayError (JStr (if given \<noteq> [] then given else gateway_close_description member)) (JInt close_code) None [] [])
             \<lparr>ve_close_code := Some member\<rparr>
       | None \<Rightarrow>
           base_error GatewayError (JStr (if given \<noteq> [] then given else ''Unknown gateway close code: '' @ show_int close_code)) JNull None []
             [(''close_code'', JInt close_code)]))"

definition create_voice_gateway_error :: "int \<Rightarrow> string option \<Rightarrow> vaidcord_error" where
  "create_voice_gateway_error close_code message =
     (let given = (case message of Some m \<Rightarrow> m | None \<Rightarrow> []) in
      (case enum_of voice_close_codes close_code of
         Some member \<Rightarrow>
           (base_error VoiceGatewayError (JStr (if given \<noteq> [] then given else voice_close_description member)) (JInt close_code) None [] [])
             \<lparr>ve_close_code := Some member\<rparr>
       | None \<Rightarrow>
           base_error VoiceGatewayError (JStr (if given \<noteq> [] then given else ''Unknown voice gateway close code: '' @ show_int close_code)) JNull None []
             [(''close_code'', JInt close_code)]))"

definition error_should_reconnect :: "vaidcord_error \<Rightarrow> bool" where
  "error_should_reconnect e =
     (case ve_close_code e of
        None \<Rightarrow> True
      | Some member \<Rightarrow>
          if ve_class e = VoiceGatewayError then voice_should_reconnect member else gateway_should_reconnect member)"

section \<open>Flattening nested errors\<close>

text \<open>
  The reference: every error object anywhere in the tree, with the keys that lead to it.
  \<open>error_tree_ok\<close> is the shape Discord documents: error lists hold objects, and a node below
  the root either carries errors or has members, never both.
\<close>

definition listed_errors :: "string list \<Rightarrow> json \<Rightarrow> error_details list" where
  "listed_errors path v =
     (case v of
        JList es \<Rightarrow>
          map (\<lambda>e. case e of
                 JDict d \<Rightarrow> \<lparr>ed_code = dict_get d ''code'' (JStr ''UNKNOWN''), ed_message = dict_get d ''message'' (JStr ''Unknown error''), ed_path = path\<rparr>
               | _ \<Rightarrow> \<lparr>ed_code = JNull, ed_message = JNull, ed_path = path\<rparr>) es
      | _ \<Rightarrow> [])"

function all_errors :: "string list \<Rightarrow> (string \<times> json) list \<Rightarrow> error_details list" where
  "all_errors path [] = []"
| "all_errors path ((key, v) # rest) =
     (if key = ''_errors'' then listed_errors path v else (case v of JDict d \<Rightarrow> all_errors (path @ [key]) d | _ \<Rightarrow> []))
     @ all_errors path rest"
  by pat_completeness auto
termination
  by (relation "measure (\<lambda>(_, items). size_list (size_prod (\<lambda>_. 0) size) items)") auto

definition is_object :: "json \<Rightarrow> bool" where
  "is_object v = (case v of JDict _ \<Rightarrow> True | _ \<Rightarrow> False)"

definition error_list :: "json \<Rightarrow> bool" where
  "error_list v = (case v of JList es \<Rightarrow> list_all is_object es | _ \<Rightarrow> False)"

function error_tree_ok :: "(string \<times> json) list \<Rightarrow> bool" where
  "error_tree_ok [] = True"
| "error_tree_ok ((key, v) # rest) =
     (key \<notin> fst ` set rest \<and>
      (if key = ''_errors'' then error_list v
       else (case v of JDict d \<Rightarrow> (map_of d ''_errors'' = None \<or> length d = 1) \<and> error_tree_ok d | _ \<Rightarrow> True)) \<and>
      error_tree_ok rest)"
  by pat_completeness auto
termination
  by (relation "measure (size_list (size_prod (\<lambda>_. 0) size))") auto

lemma json_iter_list: "json_iter (JList es) = Inr es"
  by (simp add: json_iter_def)

lemma error_objects: "list_all is_object es \<Longrightarrow> map_result (error_object path) es = Inr (listed_errors path (JList es))"
  by (induction es) (auto simp: error_object_def listed_errors_def is_object_def split: json.splits)

lemma error_list_objects: "error_list v \<Longrightarrow> bind_result (json_iter v) (map_result (error_object path)) = Inr (listed_errors path v)"
  by (cases v) (simp_all add: error_list_def json_iter_list error_objects)

definition own_part :: "string list \<Rightarrow> (string \<times> json) list \<Rightarrow> error_details list" where
  "own_part path items = concat (map (\<lambda>(k, v). if k = ''_errors'' then listed_errors path v else []) items)"

lemma own_part_simps [simp]:
  "own_part path [] = []"
  "own_part path ((k, v) # items) = (if k = ''_errors'' then listed_errors path v else []) @ own_part path items"
  by (simp_all add: own_part_def)

lemma own_part_absent: "''_errors'' \<notin> fst ` set items \<Longrightarrow> own_part path items = []"
  by (induction items) auto

lemma own_errors_ok: "error_tree_ok d \<Longrightarrow> own_errors path d = Inr (own_part path d)"
proof (induction d)
  case (Cons kv rest)
  then show ?case
    by (cases kv) (auto simp: own_errors_def own_part_absent error_list_objects split: if_splits)
qed (simp add: own_errors_def)

lemma only_own_errors:
  assumes "map_of d ''_errors'' \<noteq> None" and "length d = 1"
  shows "all_errors path d = own_part path d"
proof -
  obtain k v where "d = [(k, v)]" using assms(2) by (cases d) auto
  then show ?thesis using assms(1) by (simp split: if_splits)
qed

lemma parse_items_complete:
  "error_tree_ok items \<Longrightarrow>
   \<exists>ds. parse_items path items = Inr ds \<and> mset (all_errors path items) = mset ds + mset (own_part path items)"
proof (induction path items rule: all_errors.induct)
  case (2 path key v rest)
  obtain later where later: "parse_items path rest = Inr later" "mset (all_errors path rest) = mset later + mset (own_part path rest)"
    using 2 by auto
  show ?case
  proof (cases "key = ''_errors''")
    case True
    then show ?thesis using later by (simp add: ac_simps)
  next
    case False
    have "\<exists>here. parse_items path ((key, v) # rest) = Inr (here @ later) \<and>
        mset here = mset (case v of JDict d \<Rightarrow> all_errors (path @ [key]) d | _ \<Rightarrow> [])"
    proof (cases "is_object v")
      case True
      then obtain d where d: "v = JDict d" by (cases v) (auto simp: is_object_def)
      have ok: "error_tree_ok d" "map_of d ''_errors'' = None \<or> length d = 1" using 2(3) False d by auto
      then obtain ds where ds: "parse_items (path @ [key]) d = Inr ds"
        "mset (all_errors (path @ [key]) d) = mset ds + mset (own_part (path @ [key]) d)"
        using 2(1) [OF False d] by blast
      show ?thesis
        using False d later(1) ds ok(2) own_errors_ok [OF ok(1), of "path @ [key]"] only_own_errors [of d "path @ [key]"]
          own_part_absent [of d "path @ [key]"]
        by (cases "map_of d ''_errors''") (auto simp: map_of_eq_None_iff)
    next
      case nonobject: False
      then show ?thesis using False later(1) by (cases v) (simp_all add: is_object_def)
    qed
    then show ?thesis using False later(2) by (auto simp: ac_simps)
  qed
qed simp

lemma parse_errors_complete_ex: "error_tree_ok errors \<Longrightarrow> \<exists>details. parse_errors path errors = Inr details"
  using parse_items_complete [of errors path] own_errors_ok [of errors path] by (auto simp: parse_errors_def)

text \<open>
  For an error response of the documented shape, flattening finds every error object of the
  tree exactly once, each with the path of keys that leads to it, and raises nothing.
\<close>

theorem parse_errors_complete:
  assumes "error_tree_ok errors"
  shows "\<exists>details. parse_errors path errors = Inr details \<and> mset details = mset (all_errors path errors)"
proof -
  obtain ds where "parse_items path errors = Inr ds" "mset (all_errors path errors) = mset ds + mset (own_part path errors)"
    using parse_items_complete [OF assms, of path] by blast
  then show ?thesis using own_errors_ok [OF assms, of path] by (auto simp: parse_errors_def ac_simps)
qed

theorem parse_errors_complete_witness:
  "\<exists>details. parse_errors [] [(''name'', JDict [(''_errors'', JList [JDict [(''code'', JStr ''X'')]])])] = Inr details \<and>
     mset details = {#\<lparr>ed_code = JStr ''X'', ed_message = JStr ''Unknown error'', ed_path = [''name'']\<rparr>#}"
  using parse_errors_complete [of "[(''name'', JDict [(''_errors'', JList [JDict [(''code'', JStr ''X'')]])])]" "[]"]
  by (simp add: error_list_def is_object_def listed_errors_def dict_get_def)

text \<open>Outside that shape errors get lost: the members of a node that has errors of its own are skipped.\<close>

lemma errors_beside_members_lost:
  "parse_errors [] [(''a'', JDict [(''_errors'', JList []), (''b'', JDict [(''_errors'', JList [JDict []])])])] = Inr [] \<and>
   all_errors [] [(''a'', JDict [(''_errors'', JList []), (''b'', JDict [(''_errors'', JList [JDict []])])])] \<noteq> []"
  by (simp add: parse_errors_def own_errors_def json_iter_def listed_errors_def)

section \<open>Classification\<close>

lemma create_discord_error_class:
  assumes "400 \<le> status" and "error_tree_ok d" and "jget data ''errors'' = JNull \<or> jget data ''errors'' = JDict d"
  shows "\<exists>e. create_discord_error status data = Inr e \<and> ve_raw_data e = data \<and> ve_status e = Some status \<and>
    ve_message e = dict_get data ''message'' (JStr ''Unknown error'') \<and>
    ve_class e = (if status = 401 then AuthenticationError else if status = 403 then ForbiddenError
      else if status = 404 then NotFoundError else if status = 429 then RateLimitError
      else if 500 \<le> status then VaidCordError else DiscordAPIError)"
proof -
  have "\<exists>ds. (if \<not> json_truthy (jget data ''errors'') then Inr []
        else (case jget data ''errors'' of JDict d \<Rightarrow> parse_errors [] d | JList _ \<Rightarrow> Inl (AttributeError ''items'')
              | JStr _ \<Rightarrow> Inl (AttributeError ''items'') | _ \<Rightarrow> Inl (TypeError ''argument is not iterable''))) = Inr ds"
    using assms(3) parse_errors_complete_ex [OF assms(2)] by (auto simp: json_truthy_def)
  then show ?thesis
    by (auto simp: create_discord_error_def Let_def authentication_error_def forbidden_error_def not_found_error_def
        rate_limit_error_def base_error_def discord_api_error_def)
qed

end
