(* ===== verification/VoiceSession.thy ===== *)
theory VoiceSession
  imports VoiceTransport DaveController ErrorTypes
begin

text \<open>
  A voice connection (src/vaidcord-py/src/vaidcord/voice: connection.py, models.py and the
  receiver of receive.py) on top of the transport and the DAVE controller: handshake, websocket
  messages, reconnect policy, outbound and inbound audio. The connection is a record; the
  websocket is the list of payloads it delivers; the DAVE backend, the ciphers and the Opus
  decoder are arguments.
\<close>

section \<open>Models\<close>

record voice_ready =
  vr_ssrc :: int
  vr_ip :: json
  vr_port :: int
  vr_modes :: "json list"

record session_description =
  sd_mode :: json
  sd_secret_key :: bytes

definition preferred_modes :: "voice_mode list" where
  "preferred_modes = [AeadAes256GcmRtpsize, AeadXChaCha20Poly1305Rtpsize]"

definition select_mode :: "voice_mode list \<Rightarrow> voice_ready \<Rightarrow> json result" where
  "select_mode preferred r =
     (case find (\<lambda>m. JStr (voice_mode_name m) \<in> set (vr_modes r)) preferred of
        Some m \<Rightarrow> Inr (JStr (voice_mode_name m))
      | None \<Rightarrow>
          if vr_modes r \<noteq> [] then Inr (hd (vr_modes r))
          else Inl (RuntimeError ''Voice gateway did not provide encryption modes''))"

definition remove_prefix :: "string \<Rightarrow> string \<Rightarrow> string" where
  "remove_prefix p s = (if take (length p) s = p then drop (length p) s else s)"

definition websocket_url :: "string \<Rightarrow> string" where
  "websocket_url endpoint = ''wss://'' @ remove_prefix ''https://'' (remove_prefix ''wss://'' endpoint)"

section \<open>Close codes\<close>

datatype close_action = ACTION_RESUME | ACTION_REJOIN | ACTION_FATAL

definition FATAL_VOICE_CLOSE_CODES :: "int list" where
  "FATAL_VOICE_CLOSE_CODES = [4001, 4002, 4003, 4004, 4005, 4011, 4012, 4014, 4016, 4017]"

definition REJOIN_VOICE_CLOSE_CODES :: "int list" where
  "REJOIN_VOICE_CLOSE_CODES = [4006, 4009]"

definition classify_voice_close_code :: "int option \<Rightarrow> close_action" where
  "classify_voice_close_code code =
     (case code of
        None \<Rightarrow> ACTION_RESUME
      | Some c \<Rightarrow>
          if c \<in> set FATAL_VOICE_CLOSE_CODES then ACTION_FATAL
          else if c \<in> set REJOIN_VOICE_CLOSE_CODES then ACTION_REJOIN
          else ACTION_RESUME)"

section \<open>State\<close>

text \<open>
  \<open>vc_dave\<close> is the DAVE controller; what it wants to send (\<open>ct_sent\<close>) is the queue
  \<open>_dave_outbound\<close>. \<open>vc_ws\<close>: None before the first websocket, otherwise whether it is open.
  \<open>vc_ws_sent\<close> and \<open>vc_udp_sent\<close> record what was written, \<open>vc_speaking\<close> the calls of the
  speaking hooks.
\<close>

datatype speaking_event = SpeakingStart int int | SpeakingStop int | SpeakingUpdate int int int

datatype ws_write = WsJson int json | WsBytes

record 'b voice_connection =
  vc_guild_id :: int
  vc_user_id :: int
  vc_session_id :: json
  vc_token :: json
  vc_ready :: "voice_ready option"
  vc_session_description :: "session_description option"
  vc_udp :: bool
  vc_ws :: "bool option"
  vc_heartbeat_interval :: "real option"
  vc_last_sequence :: int
  vc_last_heartbeat_sent_at :: "real option"
  vc_latency :: real
  vc_rtp :: rtp_sender
  vc_voice_box :: "voice_box option"
  vc_ssrc_map :: "(int, int) dict"
  vc_closing :: bool
  vc_resumed :: bool
  vc_listening :: bool
  vc_dave :: "'b controller"
  vc_ws_sent :: "ws_write list"
  vc_udp_sent :: "bytes list"
  vc_speaking :: "speaking_event list"

datatype voice_exn = PyExn exc | DaveExn dave_error

type_synonym 'a vres = "voice_exn + 'a"

type_synonym ('b, 'a) vprog = "'b voice_connection \<Rightarrow> 'a vres \<times> 'b voice_connection"

definition vret :: "'a \<Rightarrow> ('b, 'a) vprog" where
  "vret x c = (Inr x, c)"

definition vbind :: "('b, 'a) vprog \<Rightarrow> ('a \<Rightarrow> ('b, 'r) vprog) \<Rightarrow> ('b, 'r) vprog" where
  "vbind m k c = (case m c of (Inl e, c1) \<Rightarrow> (Inl e, c1) | (Inr x, c1) \<Rightarrow> k x c1)"

definition vlift :: "'a result \<Rightarrow> ('b, 'a) vprog" where
  "vlift r c = ((case r of Inl e \<Rightarrow> Inl (PyExn e) | Inr x \<Rightarrow> Inr x), c)"

definition vmodify :: "('b voice_connection \<Rightarrow> 'b voice_connection) \<Rightarrow> ('b, unit) vprog" where
  "vmodify f c = (Inr (), f c)"

definition vraise :: "exc \<Rightarrow> ('b, 'a) vprog" where
  "vraise e c = (Inl (PyExn e), c)"

definition on_dave :: "('b, 'a) prog \<Rightarrow> ('b, 'a) vprog" where
  "on_dave p c =
     (case p (vc_dave c) of
        (Inl e, d) \<Rightarrow> (Inl (DaveExn e), c\<lparr>vc_dave := d\<rparr>)
      | (Inr x, d) \<Rightarrow> (Inr x, c\<lparr>vc_dave := d\<rparr>))"

section \<open>Websocket output\<close>

definition ws_send :: "int \<Rightarrow> json \<Rightarrow> ('b, unit) vprog" where
  "ws_send opc data c =
     (if vc_ws c = Some True then (Inr (), c\<lparr>vc_ws_sent := vc_ws_sent c @ [WsJson opc data]\<rparr>)
      else (Inl (PyExn (RuntimeError ''Voice websocket is not connected'')), c))"

definition voice_identify :: "'b dave_ops \<Rightarrow> bool \<Rightarrow> int \<Rightarrow> ('b, unit) vprog" where
  "voice_identify ops has_backend max_version c =
     ws_send 0
       (JDict (dict_update
          (dict_update
            [(''server_id'', JStr (show_int (vc_guild_id c))), (''user_id'', JStr (show_int (vc_user_id c))),
             (''session_id'', vc_session_id c), (''token'', vc_token c)]
            (identify_fields ops (vc_dave c)))
          (if has_backend \<and> max_version > 0
           then [(''max_dave_protocol_version'', JInt (min max_version (op_max_protocol_version ops (ct_backend (vc_dave c)))))]
           else []))) c"

definition voice_resume :: "('b, unit) vprog" where
  "voice_resume c =
     ws_send 7
       (JDict [(''server_id'', JStr (show_int (vc_guild_id c))), (''session_id'', vc_session_id c), (''token'', vc_token c),
               (''seq_ack'', JInt (if 0 \<le> vc_last_sequence c then vc_last_sequence c else -1))]) c"

definition select_protocol :: "json \<Rightarrow> int \<Rightarrow> json \<Rightarrow> ('b, unit) vprog" where
  "select_protocol address port mode =
     ws_send 1 (JDict [(''protocol'', JStr ''udp''),
       (''data'', JDict [(''address'', address), (''port'', JInt port), (''mode'', mode)])])"

definition set_speaking :: "int \<Rightarrow> int \<Rightarrow> ('b, unit) vprog" where
  "set_speaking speaking delay c =
     (case vc_ready c of
        None \<Rightarrow> (Inl (PyExn (RuntimeError ''Voice connection is not ready'')), c)
      | Some r \<Rightarrow> ws_send 5 (JDict [(''speaking'', JInt speaking), (''delay'', JInt delay), (''ssrc'', JInt (vr_ssrc r))]) c)"

definition flush_one :: "outbound \<Rightarrow> ('b, unit) vprog" where
  "flush_one o1 c =
     (if ob_binary o1
      then (if vc_ws c = Some True then (Inr (), c\<lparr>vc_ws_sent := vc_ws_sent c @ [WsBytes]\<rparr>)
            else (Inl (PyExn (RuntimeError ''Voice websocket is not connected'')), c))
      else ws_send (ob_op o1) (JDict (ob_data o1)) c)"

text \<open>\<open>_flush_dave_outbound\<close> pops an entry before it sends it.\<close>

primrec flush_queue :: "outbound list \<Rightarrow> ('b, unit) vprog" where
  "flush_queue [] c = (Inr (), c\<lparr>vc_dave := (vc_dave c)\<lparr>ct_sent := []\<rparr>\<rparr>)"
| "flush_queue (o1 # rest) c =
     (case flush_one o1 (c\<lparr>vc_dave := (vc_dave c)\<lparr>ct_sent := rest\<rparr>\<rparr>) of
        (Inl e, c1) \<Rightarrow> (Inl e, c1)
      | (Inr _, c1) \<Rightarrow> flush_queue rest c1)"

definition flush_dave_outbound :: "('b, unit) vprog" where
  "flush_dave_outbound c = flush_queue (ct_sent (vc_dave c)) c"

section \<open>Websocket input\<close>

definition map_ssrc :: "int \<Rightarrow> int \<Rightarrow> 'b voice_connection \<Rightarrow> 'b voice_connection" where
  "map_ssrc ssrc user c =
     (let is_new = (map_of (vc_ssrc_map c) ssrc \<noteq> Some user);
          c1 = c\<lparr>vc_ssrc_map := dict_set (vc_ssrc_map c) ssrc user\<rparr>
      in if is_new \<and> vc_listening c then c1\<lparr>vc_speaking := vc_speaking c1 @ [SpeakingStart user ssrc]\<rparr> else c1)"

definition forget_user :: "int \<Rightarrow> 'b voice_connection \<Rightarrow> 'b voice_connection" where
  "forget_user user c =
     (let c1 = c\<lparr>vc_ssrc_map := filter (\<lambda>(_, u). u \<noteq> user) (vc_ssrc_map c)\<rparr>
      in if vc_listening c then c1\<lparr>vc_speaking := vc_speaking c1 @ [SpeakingStop user]\<rparr> else c1)"

definition handle_speaking :: "json \<Rightarrow> ('b, unit) vprog" where
  "handle_speaking data =
     vbind (vlift (json_get data ''ssrc'' JNull)) (\<lambda>ssrc.
     vbind (vlift (json_get data ''user_id'' JNull)) (\<lambda>user.
       if ssrc = JNull \<or> user = JNull then vret ()
       else
         vbind (vlift (bind_result (json_get data ''speaking'' (JInt 0)) py_int)) (\<lambda>speaking.
         vbind (vlift (py_int ssrc)) (\<lambda>s.
         vbind (vlift (py_int user)) (\<lambda>u.
           vmodify (\<lambda>c. let c1 = map_ssrc s u c in c1\<lparr>vc_speaking := vc_speaking c1 @ [SpeakingUpdate u s speaking]\<rparr>))))))"

text \<open>\<open>bytes(value)\<close>: a list of integers below 256, or a count of zero bytes.\<close>

definition byte_of_json :: "json \<Rightarrow> byte result" where
  "byte_of_json v =
     (case v of
        JInt i \<Rightarrow> if 0 \<le> i \<and> i < 256 then Inr (word_of_int i) else Inl (ValueError ''bytes must be in range(0, 256)'')
      | JBool b \<Rightarrow> Inr (if b then 1 else 0)
      | _ \<Rightarrow> Inl (TypeError ''cannot be interpreted as an integer''))"

definition py_bytes :: "json \<Rightarrow> bytes result" where
  "py_bytes v =
     (case v of
        JInt i \<Rightarrow> if 0 \<le> i then Inr (replicate (nat i) 0) else Inl (ValueError ''negative count'')
      | JBool b \<Rightarrow> Inr (if b then [0] else [])
      | JList xs \<Rightarrow> map_result byte_of_json xs
      | JDict d \<Rightarrow> if d = [] then Inr [] else Inl (TypeError ''cannot be interpreted as an integer'')
      | _ \<Rightarrow> Inl (TypeError ''cannot convert to bytes''))"

definition receive_ready :: "json \<Rightarrow> ('b, unit) vprog" where
  "receive_ready data =
     vbind (vlift (bind_result (json_index data ''ssrc'') py_int)) (\<lambda>ssrc.
     vbind (vlift (json_index data ''ip'')) (\<lambda>ip.
     vbind (vlift (bind_result (json_index data ''port'') py_int)) (\<lambda>port.
     vbind (vlift (bind_result (json_get data ''modes'' (JList [])) json_iter)) (\<lambda>modes.
       vmodify (\<lambda>c. c\<lparr>vc_ready := Some \<lparr>vr_ssrc = ssrc, vr_ip = ip, vr_port = port, vr_modes = modes\<rparr>, vc_udp := True\<rparr>)))))"

definition receive_description :: "'b dave_ops \<Rightarrow> json \<Rightarrow> ('b, unit) vprog" where
  "receive_description ops data =
     vbind (on_dave (handle_session_description ops data)) (\<lambda>_.
     vbind (vlift (json_index data ''mode'')) (\<lambda>mode.
     vbind (vlift (bind_result (json_index data ''secret_key'') py_bytes)) (\<lambda>key.
       vmodify (\<lambda>c. c\<lparr>vc_session_description := Some \<lparr>sd_mode = mode, sd_secret_key = key\<rparr>, vc_voice_box := None\<rparr>))))"

definition handle_ws_payload :: "'b dave_ops \<Rightarrow> real \<Rightarrow> jdict \<Rightarrow> ('b, unit) vprog" where
  "handle_ws_payload ops now payload =
     vbind (case map_of payload ''seq'' of
              None \<Rightarrow> vret ()
            | Some v \<Rightarrow> vbind (vlift (py_int v)) (\<lambda>n. vmodify (\<lambda>c. c\<lparr>vc_last_sequence := n\<rparr>))) (\<lambda>_.
     vbind (vlift (py_int (dict_get payload ''op'' (JInt (-1))))) (\<lambda>opc.
       let d = jget payload ''d''; data = (if json_truthy d then d else JDict []) in
       if opc = 8 then
         vbind (vlift (bind_result (json_index data ''heartbeat_interval'') py_float)) (\<lambda>i.
           vmodify (\<lambda>c. c\<lparr>vc_heartbeat_interval := Some (i / 1000)\<rparr>))
       else if opc = 6 then
         vmodify (\<lambda>c. case vc_last_heartbeat_sent_at c of None \<Rightarrow> c | Some t \<Rightarrow> c\<lparr>vc_latency := now - t\<rparr>)
       else if opc = 2 then receive_ready data
       else if opc = 4 then receive_description ops data
       else if opc = 5 then handle_speaking data
       else if opc = 9 then vmodify (\<lambda>c. c\<lparr>vc_resumed := True\<rparr>)
       else if opc = 12 then
         vbind (vlift (json_get data ''user_id'' JNull)) (\<lambda>user.
         vbind (vlift (json_get data ''audio_ssrc'' JNull)) (\<lambda>ssrc.
           if user \<noteq> JNull \<and> json_truthy ssrc
           then vbind (vlift (py_int ssrc)) (\<lambda>s. vbind (vlift (py_int user)) (\<lambda>u. vmodify (map_ssrc s u)))
           else vret ()))
       else if opc = 13 then
         vbind (vlift (json_get data ''user_id'' JNull)) (\<lambda>user.
           if user \<noteq> JNull then vbind (vlift (py_int user)) (\<lambda>u. vmodify (forget_user u)) else vret ())
       else if 21 \<le> opc \<and> opc \<le> 31 then
         vbind (on_dave (handle_gateway_payload ops opc data)) (\<lambda>_. flush_dave_outbound)
       else vret ()))"

text \<open>Binary frames: a sequence number, an opcode and a body; DAVE errors are swallowed.\<close>

definition handle_binary_payload :: "'b dave_ops \<Rightarrow> bytes \<Rightarrow> 'b voice_connection \<Rightarrow> 'b voice_connection" where
  "handle_binary_payload ops data c =
     (if length data < 3 then c
      else
        (let c1 = c\<lparr>vc_last_sequence := int (be_decode (take 2 data))\<rparr>
         in snd (on_dave (handle_gateway_payload ops (int (unat (data ! 2)))
                  (JDict [(''binary'', JList (map (\<lambda>b. JInt (int (unat b))) (drop 3 data)))])) c1)))"

section \<open>Handshake\<close>

text \<open>
  \<open>_receive_until\<close> over the payloads the websocket still delivers in time; after them it is
  closed with a code, or the surrounding \<open>wait_for\<close> times out.
\<close>

datatype ws_end = WsClosed "int option" | WsTimeout

primrec receive_until ::
  "'b dave_ops \<Rightarrow> real \<Rightarrow> ('b voice_connection \<Rightarrow> bool) \<Rightarrow> ws_end \<Rightarrow> jdict list \<Rightarrow> 'b voice_connection \<Rightarrow>
   jdict list vres \<times> 'b voice_connection" where
  "receive_until ops now finished ending [] c =
     (if finished c then (Inr [], c)
      else if vc_ws c = None then (Inl (PyExn (RuntimeError ''Voice websocket is not connected'')), c)
      else if ending = WsTimeout then (Inl (PyExn TimeoutError), c)
      else if ending = WsClosed (Some 4017) then (Inl (DaveExn (DaveUnsupportedError ''close 4017'')), c\<lparr>vc_ws := map_option (\<lambda>_. False) (vc_ws c)\<rparr>)
      else (Inl (PyExn (RuntimeError ''Voice websocket closed before handshake finished'')), c\<lparr>vc_ws := map_option (\<lambda>_. False) (vc_ws c)\<rparr>))"
| "receive_until ops now finished ending (p # ps) c =
     (if finished c then (Inr (p # ps), c)
      else if vc_ws c = None then (Inl (PyExn (RuntimeError ''Voice websocket is not connected'')), c)
      else (case handle_ws_payload ops now p c of
              (Inl e, c1) \<Rightarrow> (Inl e, c1)
            | (Inr _, c1) \<Rightarrow> receive_until ops now finished ending ps c1))"

text \<open>The outcome of opening a websocket comes from the network: None, or the exception raised.\<close>

definition open_voice_ws :: "exc option \<Rightarrow> ('b, unit) vprog" where
  "open_voice_ws opened c =
     (case opened of
        Some e \<Rightarrow> (Inl (PyExn e), c\<lparr>vc_ws := map_option (\<lambda>_. False) (vc_ws c)\<rparr>)
      | None \<Rightarrow> (Inr (), c\<lparr>vc_ws := Some True\<rparr>))"

text \<open>UDP connection and IP discovery; the discovered address is an answer of the network.\<close>

definition establish_udp_transport :: "voice_mode list \<Rightarrow> (json \<times> int) result \<Rightarrow> ('b, unit) vprog" where
  "establish_udp_transport preferred discovered c =
     (case vc_ready c of
        None \<Rightarrow> (Inl (PyExn (RuntimeError ''Voice READY payload not received'')), c)
      | Some r \<Rightarrow>
          vbind (vlift discovered) (\<lambda>(address, port).
          vbind (vlift (select_mode preferred r)) (\<lambda>mode. select_protocol address port mode)) (c\<lparr>vc_udp := True\<rparr>))"

definition fresh_session ::
  "'b dave_ops \<Rightarrow> bool \<Rightarrow> int \<Rightarrow> voice_mode list \<Rightarrow> real \<Rightarrow> (json \<times> int) result \<Rightarrow> ws_end \<Rightarrow> jdict list \<Rightarrow> ('b, jdict list) vprog" where
  "fresh_session ops has_backend max_version preferred now discovered ending ps =
     vbind (voice_identify ops has_backend max_version) (\<lambda>_.
     vbind (receive_until ops now (\<lambda>c. vc_ready c \<noteq> None) ending ps) (\<lambda>ps1.
     vbind (establish_udp_transport preferred discovered) (\<lambda>_.
       receive_until ops now (\<lambda>c. vc_session_description c \<noteq> None) ending ps1)))"

definition voice_connect ::
  "'b dave_ops \<Rightarrow> bool \<Rightarrow> int \<Rightarrow> voice_mode list \<Rightarrow> real \<Rightarrow> exc option \<Rightarrow> (json \<times> int) result \<Rightarrow> ws_end \<Rightarrow> jdict list \<Rightarrow> ('b, jdict list) vprog" where
  "voice_connect ops has_backend max_version preferred now opened discovered ending ps =
     vbind (vmodify (\<lambda>c. c\<lparr>vc_closing := False\<rparr>)) (\<lambda>_.
     vbind (open_voice_ws opened) (\<lambda>_. fresh_session ops has_backend max_version preferred now discovered ending ps))"

definition reconnect_transport ::
  "'b dave_ops \<Rightarrow> bool \<Rightarrow> int \<Rightarrow> voice_mode list \<Rightarrow> real \<Rightarrow> exc option \<Rightarrow> (json \<times> int) result \<Rightarrow> ws_end \<Rightarrow> jdict list \<Rightarrow> bool \<Rightarrow> ('b, jdict list) vprog" where
  "reconnect_transport ops has_backend max_version preferred now opened discovered ending ps resume =
     vbind (open_voice_ws opened) (\<lambda>_ c.
       if resume \<and> json_truthy (vc_session_id c)
       then vbind voice_resume (\<lambda>_.
              receive_until ops now (\<lambda>c. vc_resumed c \<or> vc_ready c \<noteq> None) ending ps) (c\<lparr>vc_resumed := False\<rparr>)
       else fresh_session ops has_backend max_version preferred now discovered ending ps
              (c\<lparr>vc_ready := None, vc_session_description := None, vc_voice_box := None\<rparr>))"

text \<open>What the network does to one attempt: the websocket, the discovered address, the payloads and their end.\<close>

type_synonym attempt_net = "exc option \<times> (json \<times> int) result \<times> ws_end \<times> jdict list"

text \<open>\<open>joined\<close> is what \<open>manager.request_join\<close> returned: a session id and a token, or its exception.\<close>

definition voice_rejoin ::
  "'b dave_ops \<Rightarrow> bool \<Rightarrow> int \<Rightarrow> voice_mode list \<Rightarrow> real \<Rightarrow> (json \<times> json) result \<Rightarrow> attempt_net \<Rightarrow> ('b, jdict list) vprog" where
  "voice_rejoin ops has_backend max_version preferred now joined net =
     (case net of (opened, discovered, ending, ps) \<Rightarrow>
        vbind (vlift joined) (\<lambda>(session, token).
        vbind (vmodify (\<lambda>c. c\<lparr>vc_session_id := session, vc_token := token, vc_udp := False\<rparr>)) (\<lambda>_.
          reconnect_transport ops has_backend max_version preferred now opened discovered ending ps False)))"

text \<open>A failed resume falls back to a fresh identify.\<close>

definition attempt_reconnect ::
  "'b dave_ops \<Rightarrow> bool \<Rightarrow> int \<Rightarrow> voice_mode list \<Rightarrow> real \<Rightarrow> (json \<times> json) result \<Rightarrow> close_action \<Rightarrow> attempt_net \<Rightarrow> attempt_net \<Rightarrow>
   ('b, jdict list) vprog" where
  "attempt_reconnect ops has_backend max_version preferred now joined action net net2 c =
     (if action = ACTION_REJOIN then voice_rejoin ops has_backend max_version preferred now joined net c
      else
        (case net of (opened, discovered, ending, ps) \<Rightarrow>
           (case reconnect_transport ops has_backend max_version preferred now opened discovered ending ps True c of
              (Inr rest, c1) \<Rightarrow> (Inr rest, c1)
            | (Inl _, c1) \<Rightarrow>
                (case net2 of (opened, discovered, ending, ps) \<Rightarrow>
                   reconnect_transport ops has_backend max_version preferred now opened discovered ending ps False c1))))"

definition migrate_to ::
  "'b dave_ops \<Rightarrow> bool \<Rightarrow> int \<Rightarrow> voice_mode list \<Rightarrow> real \<Rightarrow> json \<Rightarrow> attempt_net \<Rightarrow> ('b, jdict list) vprog" where
  "migrate_to ops has_backend max_version preferred now token net =
     (case net of (opened, discovered, ending, ps) \<Rightarrow>
        vbind (vmodify (\<lambda>c. c\<lparr>vc_token := token, vc_udp := False\<rparr>)) (\<lambda>_.
          reconnect_transport ops has_backend max_version preferred now opened discovered ending ps False))"

definition close_connection :: "'b voice_connection \<Rightarrow> 'b voice_connection" where
  "close_connection c =
     c\<lparr>vc_closing := True, vc_listening := False, vc_heartbeat_interval := None, vc_udp := False,
       vc_ws := map_option (\<lambda>_. False) (vc_ws c)\<rparr>"

text \<open>
  The control flow of \<open>_read_loop\<close>. A round is given by whether iterating the websocket raised,
  whether the connection was closed meanwhile, the close code, and the exception of
  \<open>_attempt_reconnect\<close>, if any. The result lists the pauses before the rounds that follow and
  says whether the loop gave up on a fatal code.
\<close>

type_synonym reader_round = "bool \<times> bool \<times> int option \<times> exc option"

fun read_loop :: "real \<Rightarrow> reader_round list \<Rightarrow> real list \<times> bool" where
  "read_loop backoff [] = ([], False)"
| "read_loop backoff ((crashed, closing, close_code, attempt) # rounds) =
     (let b = (if crashed then backoff else 1) in
      if closing then ([], False)
      else if classify_voice_close_code close_code = ACTION_FATAL then ([], True)
      else (case attempt of
              None \<Rightarrow> read_loop 1 rounds
            | Some _ \<Rightarrow> (case read_loop (min (b * 2) 30) rounds of (pauses, fatal) \<Rightarrow> (b # pauses, fatal))))"

section \<open>Outbound audio\<close>

definition transport_box :: "session_description \<Rightarrow> voice_box result" where
  "transport_box sd =
     (case sd_mode sd of
        JStr m \<Rightarrow> create_voice_box m (sd_secret_key sd)
      | _ \<Rightarrow> Inl (RuntimeError ''Unsupported voice encryption mode''))"

definition encrypt_voice_payload :: "crypto_lib \<Rightarrow> bytes \<Rightarrow> bytes \<Rightarrow> ('b, bytes) vprog" where
  "encrypt_voice_payload lib header payload c =
     (case vc_session_description c of
        None \<Rightarrow> (Inr payload, c)
      | Some sd \<Rightarrow>
          (case vc_voice_box c of
             Some box \<Rightarrow> (Inr (seal lib box header payload (rs_nonce (vc_rtp c))), c)
           | None \<Rightarrow>
               (case transport_box sd of
                  Inl e \<Rightarrow> (Inl (PyExn e), c)
                | Inr box \<Rightarrow> (Inr (seal lib box header payload (rs_nonce (vc_rtp c))), c\<lparr>vc_voice_box := Some box\<rparr>))))"

text \<open>\<open>sent\<close> is the exception of the UDP socket, if it raises one.\<close>

definition send_audio_frame ::
  "'b dave_ops \<Rightarrow> crypto_lib \<Rightarrow> exc option \<Rightarrow> bytes \<Rightarrow> int \<Rightarrow> int \<Rightarrow> bool \<Rightarrow> ('b, unit) vprog" where
  "send_audio_frame ops lib sent payload timestamp_step payload_type encrypt c =
     (if \<not> vc_udp c then (Inl (PyExn (RuntimeError ''Voice UDP transport is not connected'')), c)
      else
        vbind (vlift (build_rtp_packet (map_option vr_ssrc (vc_ready c)) (vc_rtp c) [] payload_type)) (\<lambda>header.
        vbind (case vc_ready c of
                 Some r \<Rightarrow> on_dave (encrypt_frame ops (vr_ssrc r) payload)
               | None \<Rightarrow> vret payload) (\<lambda>body.
        vbind (if encrypt then encrypt_voice_payload lib header body else vret body) (\<lambda>sealed.
        vbind (case sent of Some e \<Rightarrow> vraise e | None \<Rightarrow> vret ()) (\<lambda>_.
          vmodify (\<lambda>c. c\<lparr>vc_udp_sent := vc_udp_sent c @ [header @ sealed], vc_rtp := advance_sender timestamp_step (vc_rtp c)\<rparr>))))) c)"

definition SILENCE_FRAME :: bytes where
  "SILENCE_FRAME = [0xF8, 0xFF, 0xFE]"

primrec send_frames :: "'b dave_ops \<Rightarrow> crypto_lib \<Rightarrow> exc option \<Rightarrow> bytes \<Rightarrow> int \<Rightarrow> int \<Rightarrow> nat \<Rightarrow> ('b, unit) vprog" where
  "send_frames ops lib sent frame step ptype 0 = vret ()"
| "send_frames ops lib sent frame step ptype (Suc n) =
     vbind (send_audio_frame ops lib sent frame step ptype True) (\<lambda>_. send_frames ops lib sent frame step ptype n)"

definition send_silence_frames :: "'b dave_ops \<Rightarrow> crypto_lib \<Rightarrow> exc option \<Rightarrow> int \<Rightarrow> bytes \<Rightarrow> int \<Rightarrow> int \<Rightarrow> ('b, unit) vprog" where
  "send_silence_frames ops lib sent frames frame step ptype = send_frames ops lib sent frame step ptype (nat frames)"

text \<open>
  \<open>stream_audio\<close>: every frame comes with the exception its UDP send raises, if any; empty
  frames are skipped. The \<open>finally\<close> block plays five silence frames and stops speaking even
  after an exception, and an exception of its own replaces the earlier one.
\<close>

primrec stream_frames :: "'b dave_ops \<Rightarrow> crypto_lib \<Rightarrow> int \<Rightarrow> int \<Rightarrow> (bytes \<times> exc option) list \<Rightarrow> ('b, nat) vprog" where
  "stream_frames ops lib step ptype [] = vret 0"
| "stream_frames ops lib step ptype (f # fs) =
     (if fst f = [] then stream_frames ops lib step ptype fs
      else
        vbind (send_audio_frame ops lib (snd f) (fst f) step ptype True) (\<lambda>_.
        vbind (stream_frames ops lib step ptype fs) (\<lambda>n. vret (n + 1))))"

definition stream_audio ::
  "'b dave_ops \<Rightarrow> crypto_lib \<Rightarrow> int \<Rightarrow> int \<Rightarrow> bool \<Rightarrow> exc option \<Rightarrow> (bytes \<times> exc option) list \<Rightarrow> ('b, nat) vprog" where
  "stream_audio ops lib step ptype speaking silence_sent fs =
     vbind (if speaking then set_speaking 1 0 else vret ()) (\<lambda>_ c.
       case stream_frames ops lib step ptype fs c of
         (x, c1) \<Rightarrow>
           (if \<not> speaking then (x, c1)
            else
              (case vbind (send_silence_frames ops lib silence_sent 5 SILENCE_FRAME 960 0x78) (\<lambda>_. set_speaking 0 0) c1 of
                 (Inl e, c2) \<Rightarrow> (Inl e, c2)
               | (Inr _, c2) \<Rightarrow> (x, c2))))"

section \<open>Inbound audio\<close>

text \<open>\<open>running\<close>: the task of the present receiver has not ended.\<close>

definition listen :: "bool \<Rightarrow> ('b, unit) vprog" where
  "listen running c =
     (if vc_listening c \<and> running then (Inl (PyExn (RuntimeError ''Already listening; call stop_listening() first'')), c)
      else if \<not> vc_udp c then (Inl (PyExn (RuntimeError ''Voice UDP transport is not connected'')), c)
      else (Inr (), c\<lparr>vc_listening := True\<rparr>))"

definition stop_listening :: "'b voice_connection \<Rightarrow> 'b voice_connection" where
  "stop_listening c = c\<lparr>vc_listening := False\<rparr>"

record voice_frame =
  vf_ssrc :: nat
  vf_user_id :: "int option"
  vf_sequence :: nat
  vf_timestamp :: nat
  vf_opus :: bytes
  vf_pcm :: "bytes option"

text \<open>A decoder is given by the packets it has decoded; \<open>decode\<close> maps them to the samples of the last one.\<close>

record receiver =
  rc_decoders :: "(nat, bytes list) dict"
  rc_received_frames :: nat
  rc_dropped_packets :: nat
  rc_written :: "voice_frame list"

definition handle_datagram ::
  "'b dave_ops \<Rightarrow> crypto_lib \<Rightarrow> (bytes list \<Rightarrow> bytes result) \<Rightarrow> bool \<Rightarrow> bytes \<Rightarrow> receiver \<Rightarrow> 'b voice_connection \<Rightarrow>
   unit vres \<times> receiver \<times> 'b voice_connection" where
  "handle_datagram ops lib decode wants_opus data rc c =
     (if length data < 12 \<or> is_rtcp_packet data then (Inr (), rc, c)
      else
        (case vc_voice_box c of
           None \<Rightarrow> (Inr (), rc, c)
         | Some box \<Rightarrow>
             (case open_packet lib box data of
                Inl e \<Rightarrow> (Inl (PyExn e), rc, c)
              | Inr (packet, payload) \<Rightarrow>
                  if payload = [] then (Inr (), rc, c)
                  else
                    (case on_dave (decrypt_frame ops (int (rtp_ssrc packet)) payload) c of
                       (Inl e, c1) \<Rightarrow> (Inl e, rc, c1)
                     | (Inr media, c1) \<Rightarrow>
                         (let user = map_of (vc_ssrc_map c1) (int (rtp_ssrc packet));
                              write = (\<lambda>pcm rc. rc\<lparr>rc_received_frames := rc_received_frames rc + 1,
                                rc_written := rc_written rc @ [\<lparr>vf_ssrc = rtp_ssrc packet, vf_user_id = user, vf_sequence = rtp_sequence packet,
                                   vf_timestamp = rtp_timestamp packet, vf_opus = media, vf_pcm = pcm\<rparr>]\<rparr>)
                          in if wants_opus then (Inr (), write None rc, c1)
                             else if media = SILENCE_FRAME then (Inr (), rc, c1)
                             else
                               (let hist = dict_get (rc_decoders rc) (rtp_ssrc packet) [] @ [media];
                                    rc1 = rc\<lparr>rc_decoders := dict_set (rc_decoders rc) (rtp_ssrc packet) hist\<rparr>
                                in (case decode hist of
                                      Inl e \<Rightarrow> (Inl (PyExn e), rc1, c1)
                                    | Inr pcm \<Rightarrow> (Inr (), write (Some pcm) rc1, c1))))))))"

text \<open>One datagram in the loop of the receiver: every exception counts a dropped packet.\<close>

definition receive_datagram ::
  "'b dave_ops \<Rightarrow> crypto_lib \<Rightarrow> (bytes list \<Rightarrow> bytes result) \<Rightarrow> bool \<Rightarrow> bytes \<Rightarrow> receiver \<Rightarrow> 'b voice_connection \<Rightarrow>
   receiver \<times> 'b voice_connection" where
  "receive_datagram ops lib decode wants_opus data rc c =
     (case handle_datagram ops lib decode wants_opus data rc c of
        (Inr _, rc1, c1) \<Rightarrow> (rc1, c1)
      | (Inl _, rc1, c1) \<Rightarrow> (rc1\<lparr>rc_dropped_packets := rc_dropped_packets rc1 + 1\<rparr>, c1))"

section \<open>Properties kept by a connection\<close>

text \<open>
  A property of the transport: it depends on the two handshake payloads, the sockets and the
  voice box only, and survives a new READY and a new session description. Every payload of the
  websocket keeps such a property.
\<close>

definition same_transport :: "'b voice_connection \<Rightarrow> 'b voice_connection \<Rightarrow> bool" where
  "same_transport c c' \<longleftrightarrow>
     vc_voice_box c' = vc_voice_box c \<and> vc_session_description c' = vc_session_description c \<and>
     vc_ready c' = vc_ready c \<and> vc_udp c' = vc_udp c \<and> vc_ws c' = vc_ws c \<and> vc_closing c' = vc_closing c"

definition vkeeps :: "('b voice_connection \<Rightarrow> bool) \<Rightarrow> ('b, 'a) vprog \<Rightarrow> bool" where
  "vkeeps P m \<longleftrightarrow> (\<forall>c. P c \<longrightarrow> P (snd (m c)))"

lemma vkeeps_vret [intro]: "vkeeps P (vret x)"
  by (simp add: vkeeps_def vret_def)

lemma vkeeps_vlift [intro]: "vkeeps P (vlift r)"
  by (simp add: vkeeps_def vlift_def)

lemma vkeeps_vraise [intro]: "vkeeps P (vraise e)"
  by (simp add: vkeeps_def vraise_def)

lemma vkeeps_vbind [intro]: "vkeeps P m \<Longrightarrow> (\<And>x. vkeeps P (k x)) \<Longrightarrow> vkeeps P (vbind m k)"
  by (auto simp: vkeeps_def vbind_def split: prod.split sum.split)

lemma vkeeps_vmodify [intro]: "(\<And>c. P c \<Longrightarrow> P (f c)) \<Longrightarrow> vkeeps P (vmodify f)"
  by (simp add: vkeeps_def vmodify_def)

locale transport_property =
  fixes P :: "'b voice_connection \<Rightarrow> bool"
  assumes unchanged: "same_transport c c' \<Longrightarrow> P c \<Longrightarrow> P c'"
    and described: "P c \<Longrightarrow> P (c\<lparr>vc_session_description := Some sd, vc_voice_box := None\<rparr>)"
    and readied: "P c \<Longrightarrow> P (c\<lparr>vc_ready := Some r, vc_udp := True\<rparr>)"
begin

lemma keeps_same: "(\<And>c. same_transport c (snd (m c))) \<Longrightarrow> vkeeps P m"
  by (auto simp: vkeeps_def intro: unchanged)

lemma keeps_vmodify: "(\<And>c. same_transport c (f c)) \<Longrightarrow> vkeeps P (vmodify f)"
  by (rule keeps_same) (simp add: vmodify_def)

lemma keeps_on_dave: "vkeeps P (on_dave p)"
  by (rule keeps_same) (simp add: on_dave_def same_transport_def split: prod.split sum.split)

lemma keeps_ws_send: "vkeeps P (ws_send opc data)"
  by (rule keeps_same) (simp add: ws_send_def same_transport_def)

lemma keeps_flush: "vkeeps P flush_dave_outbound"
proof -
  have one: "same_transport c (snd (flush_one o1 c))" for o1 c
    by (simp add: flush_one_def ws_send_def same_transport_def)
  have "same_transport c (snd (flush_queue q c))" for q c
  proof (induction q arbitrary: c)
    case (Cons o1 q)
    obtain x c1 where "flush_one o1 (c\<lparr>vc_dave := (vc_dave c)\<lparr>ct_sent := q\<rparr>\<rparr>) = (x, c1)" by fastforce
    then show ?case
      using one [of "c\<lparr>vc_dave := (vc_dave c)\<lparr>ct_sent := q\<rparr>\<rparr>" o1] Cons.IH [of c1] by (cases x) (simp_all add: same_transport_def)
  qed (simp add: same_transport_def)
  then show ?thesis by (intro keeps_same) (simp add: flush_dave_outbound_def)
qed

lemma keeps_receive_description: "vkeeps P (receive_description ops data)"
  unfolding receive_description_def
  by (intro vkeeps_vbind vkeeps_vlift keeps_on_dave vkeeps_vmodify described)

lemma keeps_handle_ws_payload: "vkeeps P (handle_ws_payload ops now payload)"
proof -
  have seq: "vkeeps P (case map_of payload ''seq'' of None \<Rightarrow> vret ()
      | Some v \<Rightarrow> vbind (vlift (py_int v)) (\<lambda>n. vmodify (\<lambda>c. c\<lparr>vc_last_sequence := n\<rparr>)))"
    by (cases "map_of payload ''seq''") (simp_all add: vkeeps_vret vkeeps_vbind vkeeps_vlift keeps_vmodify same_transport_def)
  have maps: "vkeeps P (vmodify (map_ssrc s u))" "vkeeps P (vmodify (forget_user u))" for s u
    by (rule keeps_vmodify, simp add: map_ssrc_def forget_user_def Let_def same_transport_def)+
  have ready: "vkeeps P (receive_ready data)" for data
    unfolding receive_ready_def by (intro vkeeps_vbind vkeeps_vlift vkeeps_vmodify readied)
  have speaking: "vkeeps P (handle_speaking data)" for data
    unfolding handle_speaking_def
    by (simp add: vkeeps_vret vkeeps_vbind vkeeps_vlift keeps_vmodify map_ssrc_def Let_def same_transport_def)
  show ?thesis
    unfolding handle_ws_payload_def Let_def
    by (intro vkeeps_vbind seq vkeeps_vlift)
      (simp add: vkeeps_vbind vkeeps_vlift vkeeps_vret keeps_vmodify maps ready speaking keeps_receive_description
        keeps_on_dave keeps_flush same_transport_def split: option.split)
qed

lemma keeps_received:
  assumes "receive_until ops now finished ending ps c = (Inr rest, c')" and "P c"
  shows "finished c' \<and> P c'"
  using assms
proof (induction ps arbitrary: c)
  case (Cons p ps)
  obtain x c1 where x: "handle_ws_payload ops now p c = (x, c1)" by fastforce
  then have "P c1" using keeps_handle_ws_payload Cons.prems(2) unfolding vkeeps_def by (metis snd_conv)
  then show ?case using Cons x by (cases x) (auto split: if_splits)
qed (auto split: if_splits)

end

text \<open>A property of the transport key only: sockets and READY do not matter, and a fresh session may begin.\<close>

locale key_property =
  fixes P :: "'b voice_connection \<Rightarrow> bool"
  assumes frame: "vc_voice_box c' = vc_voice_box c \<Longrightarrow> vc_session_description c' = vc_session_description c \<Longrightarrow> P c \<Longrightarrow> P c'"
    and key_described: "P c \<Longrightarrow> P (c\<lparr>vc_session_description := Some sd, vc_voice_box := None\<rparr>)"
    and fresh: "P c \<Longrightarrow> P (c\<lparr>vc_ready := None, vc_session_description := None, vc_voice_box := None\<rparr>)"

sublocale key_property \<subseteq> transport_property P
proof unfold_locales
  fix c r assume c: "P c"
  show "P (c\<lparr>vc_ready := Some r, vc_udp := True\<rparr>)" by (rule frame [OF _ _ c]) simp_all
qed (auto simp: same_transport_def intro: frame key_described)

context key_property
begin

lemma keeps_frame: "(\<And>c. vc_voice_box (snd (m c)) = vc_voice_box c \<and> vc_session_description (snd (m c)) = vc_session_description c) \<Longrightarrow> vkeeps P m"
  by (auto simp: vkeeps_def intro: frame)

lemma keeps_update: "(\<And>c. vc_voice_box (f c) = vc_voice_box c \<and> vc_session_description (f c) = vc_session_description c) \<Longrightarrow> vkeeps P (vmodify f)"
  by (rule keeps_frame) (simp add: vmodify_def)

lemma keeps_receive_until: "vkeeps P (receive_until ops now finished ending ps)"
proof -
  have "P c \<Longrightarrow> P (snd (receive_until ops now finished ending ps c))" for c
  proof (induction ps arbitrary: c)
    case Nil
    then show ?case by (auto intro: frame)
  next
    case (Cons p ps)
    obtain x c1 where "handle_ws_payload ops now p c = (x, c1)" by fastforce
    moreover have "P c1" using keeps_handle_ws_payload [of ops now p] Cons.prems calculation by (auto simp: vkeeps_def)
    ultimately show ?case using Cons by (cases x) simp_all
  qed
  then show ?thesis by (simp add: vkeeps_def)
qed

lemma keeps_fresh_session: "vkeeps P (fresh_session ops hb mv preferred now discovered ending ps)"
proof -
  have udp: "vkeeps P (establish_udp_transport preferred discovered)"
    by (rule keeps_frame)
      (simp add: establish_udp_transport_def vbind_def vlift_def select_protocol_def ws_send_def split: option.split sum.split prod.split)
  have identify: "vkeeps P (voice_identify ops hb mv)"
    by (rule keeps_frame) (simp add: voice_identify_def ws_send_def)
  show ?thesis unfolding fresh_session_def by (intro vkeeps_vbind identify keeps_receive_until udp)
qed

lemma keeps_open: "vkeeps P (open_voice_ws opened)"
  by (rule keeps_frame) (simp add: open_voice_ws_def split: option.split)

lemma keeps_connect: "vkeeps P (voice_connect ops hb mv preferred now opened discovered ending ps)"
  unfolding voice_connect_def by (intro vkeeps_vbind keeps_open keeps_fresh_session keeps_update) simp

lemma keeps_reconnect: "vkeeps P (reconnect_transport ops hb mv preferred now opened discovered ending ps resume)"
proof -
  have resume: "vkeeps P (vbind voice_resume (\<lambda>_. receive_until ops now (\<lambda>c. vc_resumed c \<or> vc_ready c \<noteq> None) ending ps))"
    by (intro vkeeps_vbind keeps_receive_until) (rule keeps_frame, simp add: voice_resume_def ws_send_def)
  show ?thesis
    unfolding reconnect_transport_def
  proof (intro vkeeps_vbind keeps_open)
    fix x :: unit
    show "vkeeps P (\<lambda>c. if resume \<and> json_truthy (vc_session_id c)
       then vbind voice_resume (\<lambda>_. receive_until ops now (\<lambda>c. vc_resumed c \<or> vc_ready c \<noteq> None) ending ps) (c\<lparr>vc_resumed := False\<rparr>)
       else fresh_session ops hb mv preferred now discovered ending ps
              (c\<lparr>vc_ready := None, vc_session_description := None, vc_voice_box := None\<rparr>))"
      unfolding vkeeps_def
    proof (intro allI impI)
      fix c assume c: "P c"
      have "P (c\<lparr>vc_resumed := False\<rparr>)" by (rule frame [OF _ _ c]) simp_all
      then show "P (snd (if resume \<and> json_truthy (vc_session_id c)
         then vbind voice_resume (\<lambda>_. receive_until ops now (\<lambda>c. vc_resumed c \<or> vc_ready c \<noteq> None) ending ps) (c\<lparr>vc_resumed := False\<rparr>)
         else fresh_session ops hb mv preferred now discovered ending ps
                (c\<lparr>vc_ready := None, vc_session_description := None, vc_voice_box := None\<rparr>)))"
        using resume keeps_fresh_session fresh [OF c] by (simp add: vkeeps_def)
    qed
  qed
qed

lemma keeps_binary: "P c \<Longrightarrow> P (handle_binary_payload ops data c)"
proof -
  assume c: "P c"
  have "P (c\<lparr>vc_last_sequence := n\<rparr>)" for n by (rule frame [OF _ _ c]) simp_all
  then show ?thesis
    using c by (simp add: handle_binary_payload_def Let_def keeps_on_dave [unfolded vkeeps_def, rule_format])
qed

end

section \<open>Steps of a connection\<close>

text \<open>
  Everything that can happen to a connection, in any order. \<open>sends\<close> says whether frames are
  sent at all.
\<close>

inductive voice_step ::
  "'b dave_ops \<Rightarrow> crypto_lib \<Rightarrow> bool \<Rightarrow> 'b voice_connection \<Rightarrow> 'b voice_connection \<Rightarrow> bool" for ops lib sends where
  step_connect: "voice_step ops lib sends c (snd (voice_connect ops hb mv preferred now opened discovered ending ps c))"
| step_reconnect: "voice_step ops lib sends c (snd (attempt_reconnect ops hb mv preferred now joined action net net2 c))"
| step_migrate: "voice_step ops lib sends c (snd (migrate_to ops hb mv preferred now token net c))"
| step_payload: "voice_step ops lib sends c (snd (handle_ws_payload ops now payload c))"
| step_binary: "voice_step ops lib sends c (handle_binary_payload ops data c)"
| step_speaking: "voice_step ops lib sends c (snd (set_speaking flags delay c))"
| step_listen: "voice_step ops lib sends c (snd (listen running c))"
| step_stop_listening: "voice_step ops lib sends c (stop_listening c)"
| step_datagram: "voice_step ops lib sends c (snd (receive_datagram ops lib decode wants_opus data rc c))"
| step_close: "voice_step ops lib sends c (close_connection c)"
| step_send: "sends \<Longrightarrow> voice_step ops lib sends c (snd (send_audio_frame ops lib sent payload step ptype encrypt c))"
| step_stream: "sends \<Longrightarrow> voice_step ops lib sends c (snd (stream_audio ops lib step ptype speaking silence_sent fs c))"

context key_property
begin

lemma keeps_rejoin: "vkeeps P (voice_rejoin ops hb mv preferred now joined net)"
  unfolding voice_rejoin_def by (cases net) (auto intro!: vkeeps_vbind vkeeps_vlift keeps_update keeps_reconnect)

lemma keeps_attempt: "vkeeps P (attempt_reconnect ops hb mv preferred now joined action net net2)"
proof -
  obtain o1 d1 e1 p1 o2 d2 e2 p2 where n: "net = (o1, d1, e1, p1)" "net2 = (o2, d2, e2, p2)"
    by (cases net, cases net2) auto
  have "P (snd (attempt_reconnect ops hb mv preferred now joined action net net2 c))" if c: "P c" for c
  proof -
    obtain x c1 where x: "reconnect_transport ops hb mv preferred now o1 d1 e1 p1 True c = (x, c1)" by fastforce
    then have "P c1" using keeps_reconnect c unfolding vkeeps_def by (metis snd_conv)
    then show ?thesis
      using x c keeps_rejoin keeps_reconnect unfolding vkeeps_def
      by (cases x) (simp_all add: attempt_reconnect_def n)
  qed
  then show ?thesis by (simp add: vkeeps_def)
qed

lemma keeps_migrate: "vkeeps P (migrate_to ops hb mv preferred now token net)"
  unfolding migrate_to_def by (cases net) (auto intro!: vkeeps_vbind keeps_update keeps_reconnect)

lemma keeps_speaking: "vkeeps P (set_speaking flags delay)"
  by (rule keeps_frame) (simp add: set_speaking_def ws_send_def split: option.split)

lemma keeps_datagram: "P c \<Longrightarrow> P (snd (receive_datagram ops lib decode wants_opus data rc c))"
proof -
  assume c: "P c"
  have d: "vc_voice_box (snd (on_dave q c)) = vc_voice_box c \<and> vc_session_description (snd (on_dave q c)) = vc_session_description c" for q :: "('b, bytes) prog"
    by (simp add: on_dave_def split: prod.split sum.split)
  have "vc_voice_box (snd (snd (handle_datagram ops lib decode wants_opus data rc c))) = vc_voice_box c \<and>
    vc_session_description (snd (snd (handle_datagram ops lib decode wants_opus data rc c))) = vc_session_description c"
  proof -
    obtain x c1 where x: "on_dave (decrypt_frame ops (int (rtp_ssrc (fst (projr (open_packet lib (the (vc_voice_box c)) data)))))
        (snd (projr (open_packet lib (the (vc_voice_box c)) data)))) c = (x, c1)" by fastforce
    then have e: "vc_voice_box c1 = vc_voice_box c" "vc_session_description c1 = vc_session_description c"
      using d by (metis snd_conv)+
    show ?thesis
      using x e by (cases x) (auto simp: handle_datagram_def Let_def split: option.split sum.split)
  qed
  then have "P (snd (snd (handle_datagram ops lib decode wants_opus data rc c)))" using c by (blast intro: frame)
  then show ?thesis by (auto simp: receive_datagram_def split: prod.splits sum.splits)
qed

end

text \<open>A property of the transport key that sending a frame keeps as well holds along every run.\<close>

locale sending_property = key_property P for P :: "'b voice_connection \<Rightarrow> bool" +
  fixes sends :: bool
  assumes sealed: "sends \<Longrightarrow> P c \<Longrightarrow> P (snd (encrypt_voice_payload lib header payload c))"
begin

lemma keeps_send: "sends \<Longrightarrow> vkeeps P (send_audio_frame ops lib sent payload step ptype encrypt)"
proof -
  assume s: sends
  have dave: "vkeeps P (case r of Some r \<Rightarrow> on_dave (encrypt_frame ops (vr_ssrc r) payload) | None \<Rightarrow> vret payload)" for r
    by (cases r) (simp_all add: keeps_on_dave vkeeps_vret)
  have seal: "vkeeps P (if encrypt then encrypt_voice_payload lib header body else vret body)" for header body
    using sealed [OF s] by (simp add: vkeeps_def vret_def)
  have udp: "vkeeps P (case sent of Some e \<Rightarrow> vraise e | None \<Rightarrow> vret ())"
    by (cases sent) (simp_all add: vkeeps_vret vkeeps_vraise)
  have adv: "vkeeps P (vmodify (\<lambda>c. c\<lparr>vc_udp_sent := vc_udp_sent c @ [header @ body], vc_rtp := advance_sender step (vc_rtp c)\<rparr>))"
    for header body
    by (rule keeps_update) simp
  have "vkeeps P (vbind (vlift (build_rtp_packet (map_option vr_ssrc r) rtp [] ptype)) (\<lambda>header.
        vbind (case r of Some r \<Rightarrow> on_dave (encrypt_frame ops (vr_ssrc r) payload) | None \<Rightarrow> vret payload) (\<lambda>body.
        vbind (if encrypt then encrypt_voice_payload lib header body else vret body) (\<lambda>sealed.
        vbind (case sent of Some e \<Rightarrow> vraise e | None \<Rightarrow> vret ()) (\<lambda>_.
          vmodify (\<lambda>c. c\<lparr>vc_udp_sent := vc_udp_sent c @ [header @ sealed], vc_rtp := advance_sender step (vc_rtp c)\<rparr>))))))"
    for r rtp
    by (intro vkeeps_vbind vkeeps_vlift dave seal udp adv)
  then have chain: "P c \<Longrightarrow> P (snd (vbind (vlift (build_rtp_packet (map_option vr_ssrc r) rtp [] ptype)) (\<lambda>header.
        vbind (case r of Some r \<Rightarrow> on_dave (encrypt_frame ops (vr_ssrc r) payload) | None \<Rightarrow> vret payload) (\<lambda>body.
        vbind (if encrypt then encrypt_voice_payload lib header body else vret body) (\<lambda>sealed.
        vbind (case sent of Some e \<Rightarrow> vraise e | None \<Rightarrow> vret ()) (\<lambda>_.
          vmodify (\<lambda>c. c\<lparr>vc_udp_sent := vc_udp_sent c @ [header @ sealed], vc_rtp := advance_sender step (vc_rtp c)\<rparr>))))) c))"
    for c r rtp
    unfolding vkeeps_def by blast
  show ?thesis
    unfolding vkeeps_def
  proof (intro allI impI)
    fix c assume c: "P c"
    show "P (snd (send_audio_frame ops lib sent payload step ptype encrypt c))"
      using c chain [OF c, of "vc_ready c" "vc_rtp c"] by (cases "vc_udp c") (simp_all add: send_audio_frame_def)
  qed
qed

lemma keeps_stream: "sends \<Longrightarrow> vkeeps P (stream_audio ops lib step ptype speaking silence_sent fs)"
proof -
  assume s: sends
  note rules = vkeeps_vbind vkeeps_vret keeps_send [OF s] keeps_speaking
  have frames: "vkeeps P (stream_frames ops lib step ptype fs)"
    by (induction fs) (auto intro!: rules)
  have "vkeeps P (send_frames ops lib silence_sent f st pt n)" for f st pt n
    by (induction n) (auto intro!: rules)
  then have closing: "vkeeps P (vbind (send_silence_frames ops lib silence_sent 5 SILENCE_FRAME 960 0x78) (\<lambda>_. set_speaking 0 0))"
    by (simp add: send_silence_frames_def rules)
  have "vkeeps P (\<lambda>c. case stream_frames ops lib step ptype fs c of
         (x, c1) \<Rightarrow>
           (if \<not> speaking then (x, c1)
            else
              (case vbind (send_silence_frames ops lib silence_sent 5 SILENCE_FRAME 960 0x78) (\<lambda>_. set_speaking 0 0) c1 of
                 (Inl e, c2) \<Rightarrow> (Inl e, c2)
               | (Inr _, c2) \<Rightarrow> (x, c2))))"
    unfolding vkeeps_def
  proof (intro allI impI)
    fix c assume "P c"
    obtain x c1 where x: "stream_frames ops lib step ptype fs c = (x, c1)" by fastforce
    obtain y c2 where y: "vbind (send_silence_frames ops lib silence_sent 5 SILENCE_FRAME 960 0x78) (\<lambda>_. set_speaking 0 0) c1 = (y, c2)"
      by fastforce
    have "P c1" "P c2"
      using frames closing \<open>P c\<close> x y unfolding vkeeps_def by (metis snd_conv)+
    then show "P (snd (case stream_frames ops lib step ptype fs c of
         (x, c1) \<Rightarrow>
           (if \<not> speaking then (x, c1)
            else
              (case vbind (send_silence_frames ops lib silence_sent 5 SILENCE_FRAME 960 0x78) (\<lambda>_. set_speaking 0 0) c1 of
                 (Inl e, c2) \<Rightarrow> (Inl e, c2)
               | (Inr _, c2) \<Rightarrow> (x, c2)))))"
      using x y by (cases y) simp_all
  qed
  then show ?thesis unfolding stream_audio_def by (intro vkeeps_vbind) (auto intro: rules)
qed

lemma keeps_step: "P c \<Longrightarrow> voice_step ops lib sends c c' \<Longrightarrow> P c'"
proof -
  assume c: "P c" and st: "voice_step ops lib sends c c'"
  have "P (snd (listen running c))" "P (stop_listening c)" "P (close_connection c)" for running
    by (rule frame [OF _ _ c]; simp add: listen_def stop_listening_def close_connection_def)+
  note direct = this keeps_binary [OF c] keeps_datagram [OF c]
  show ?thesis
    using st
  proof cases
    case step_send
    then show ?thesis using keeps_send c by (simp add: vkeeps_def)
  next
    case step_stream
    then show ?thesis using keeps_stream c by (simp add: vkeeps_def)
  qed (use c direct keeps_connect keeps_attempt keeps_migrate keeps_handle_ws_payload keeps_speaking in \<open>simp_all add: vkeeps_def\<close>)
qed

lemma keeps_run: "reachable_from (voice_step ops lib sends) start c \<Longrightarrow> P start \<Longrightarrow> P c"
  by (induction rule: reachable_from.induct) (auto intro: keeps_step)

end

section \<open>Properties\<close>

definition box_current :: "'b voice_connection \<Rightarrow> bool" where
  "box_current c \<longleftrightarrow>
     (case vc_voice_box c of
        None \<Rightarrow> True
      | Some box \<Rightarrow> map_option transport_box (vc_session_description c) = Some (Inr box))"

interpretation key_current: sending_property box_current True
proof unfold_locales
  fix c :: "'b voice_connection" and lib header payload
  show "box_current c \<Longrightarrow> box_current (snd (encrypt_voice_payload lib header payload c))"
    by (cases "vc_voice_box c"; cases "vc_session_description c")
      (simp_all add: encrypt_voice_payload_def box_current_def split: sum.split)
qed (auto simp: box_current_def split: option.splits)

interpretation never_sent: sending_property "\<lambda>c. vc_voice_box c = None" False
  by unfold_locales auto

lemma vbind_Inr_iff: "vbind m k c = (Inr y, c') \<longleftrightarrow> (\<exists>x c1. m c = (Inr x, c1) \<and> k x c1 = (Inr y, c'))"
  by (auto simp: vbind_def split: prod.splits sum.splits)

lemma vlift_Inr_iff: "vlift r c = (Inr x, c') \<longleftrightarrow> r = Inr x \<and> c' = c"
  by (auto simp: vlift_def split: sum.splits)

lemma frame_on_wire:
  assumes "send_audio_frame ops lib None payload step pt True s = (Inr (), s')" and "box_current s"
    and "vc_session_description s = Some sd" and "transport_box sd = Inr box"
  obtains r header body d where "vc_ready s = Some r"
    "build_rtp_packet (Some (vr_ssrc r)) (vc_rtp s) [] pt = Inr header"
    "encrypt_frame ops (vr_ssrc r) payload (vc_dave s) = (Inr body, d)"
    "vc_udp_sent s' = vc_udp_sent s @ [header @ seal lib box header body (rs_nonce (vc_rtp s))]"
    "vc_rtp s' = advance_sender step (vc_rtp s)"
proof -
  obtain header where h: "build_rtp_packet (map_option vr_ssrc (vc_ready s)) (vc_rtp s) [] pt = Inr header"
    using assms(1) by (auto simp: send_audio_frame_def vbind_Inr_iff vlift_Inr_iff split: if_splits)
  then obtain r where r: "vc_ready s = Some r" by (cases "vc_ready s") (auto simp: build_rtp_packet_def)
  obtain body d where e: "encrypt_frame ops (vr_ssrc r) payload (vc_dave s) = (Inr body, d)"
    using assms(1) r h
    by (auto simp: send_audio_frame_def vbind_Inr_iff vlift_Inr_iff on_dave_def split: if_splits prod.splits sum.splits)
  have "vc_voice_box s = None \<or> vc_voice_box s = Some box"
    using assms(2,3,4) by (cases "vc_voice_box s") (auto simp: box_current_def)
  then have "vc_udp_sent s' = vc_udp_sent s @ [header @ seal lib box header body (rs_nonce (vc_rtp s))] \<and>
      vc_rtp s' = advance_sender step (vc_rtp s)"
    using assms(1,3,4) r h e
    by (auto simp: send_audio_frame_def vbind_def vlift_def on_dave_def encrypt_voice_payload_def vret_def vmodify_def split: if_splits)
  then show thesis using that r h e by simp
qed

lemma datagram_delivered:
  assumes "open_packet lib box data = Inr (p, body)" and "body \<noteq> []" and "12 \<le> length data" and "\<not> is_rtcp_packet data"
    and "vc_voice_box c = Some box" and "decrypt_frame ops (int (rtp_ssrc p)) body (vc_dave c) = (Inr media, d)"
  shows "handle_datagram ops lib decode True data rc c =
    (Inr (), rc\<lparr>rc_received_frames := rc_received_frames rc + 1,
      rc_written := rc_written rc @ [\<lparr>vf_ssrc = rtp_ssrc p, vf_user_id = map_of (vc_ssrc_map c) (int (rtp_ssrc p)),
        vf_sequence = rtp_sequence p, vf_timestamp = rtp_timestamp p, vf_opus = media, vf_pcm = None\<rparr>]\<rparr>, c\<lparr>vc_dave := d\<rparr>)"
  using assms by (simp add: handle_datagram_def on_dave_def Let_def)

lemma header_length: "build_rtp_packet (Some ssrc) s [] pt = Inr header \<Longrightarrow> length header = 12 \<and> 0 \<le> ssrc"
  by (auto simp: build_rtp_packet_def bind_result_Inr_iff pack_uint_def split: if_splits)

text \<open>A frame sent by one client reaches the sink of another that has the same session key.\<close>

lemma frame_delivered:
  assumes "crypto_sound lib" and "send_audio_frame ops lib None payload step pt True s = (Inr (), s')" and "box_current s"
    and "vc_session_description s = Some sd" and "transport_box sd = Inr box" and "vc_voice_box c = Some box"
    and "\<And>r body d. vc_ready s = Some r \<Longrightarrow> encrypt_frame ops (vr_ssrc r) payload (vc_dave s) = (Inr body, d) \<Longrightarrow>
      body \<noteq> [] \<and> fst (decrypt_frame ops' (vr_ssrc r) body (vc_dave c)) = Inr payload"
  shows "\<exists>r data c'. vc_ready s = Some r \<and> vc_udp_sent s' = vc_udp_sent s @ [data] \<and>
    handle_datagram ops' lib decode True data rc c =
      (Inr (), rc\<lparr>rc_received_frames := rc_received_frames rc + 1,
        rc_written := rc_written rc @ [\<lparr>vf_ssrc = nat (vr_ssrc r), vf_user_id = map_of (vc_ssrc_map c) (vr_ssrc r),
          vf_sequence = nat (rs_sequence (vc_rtp s) mod 2 ^ 16), vf_timestamp = nat (rs_timestamp (vc_rtp s) mod 2 ^ 32),
          vf_opus = payload, vf_pcm = None\<rparr>]\<rparr>, c')"
proof -
  obtain r header body d where w: "vc_ready s = Some r"
    "build_rtp_packet (Some (vr_ssrc r)) (vc_rtp s) [] pt = Inr header"
    "encrypt_frame ops (vr_ssrc r) payload (vc_dave s) = (Inr body, d)"
    "vc_udp_sent s' = vc_udp_sent s @ [header @ seal lib box header body (rs_nonce (vc_rtp s))]"
    using frame_on_wire [OF assms(2-5)] by metis
  let ?data = "header @ seal lib box header body (rs_nonce (vc_rtp s))"
  obtain p where p: "open_packet lib box ?data = Inr (p, body)" "rtp_ssrc p = nat (vr_ssrc r)"
    "rtp_sequence p = nat (rs_sequence (vc_rtp s) mod 2 ^ 16)" "rtp_timestamp p = nat (rs_timestamp (vc_rtp s) mod 2 ^ 32)"
    "\<not> is_rtcp_packet ?data"
    using seal_opens [OF assms(1) w(2)] by blast
  have h: "length header = 12" "0 \<le> vr_ssrc r" using header_length [OF w(2)] by auto
  have b: "body \<noteq> []" and dec: "fst (decrypt_frame ops' (vr_ssrc r) body (vc_dave c)) = Inr payload"
    using assms(7) [OF w(1,3)] by auto
  obtain d' where d': "decrypt_frame ops' (int (rtp_ssrc p)) body (vc_dave c) = (Inr payload, d')"
    using dec h(2) p(2) by (metis int_nat_eq prod.collapse)
  have "12 \<le> length ?data" using h(1) by simp
  from datagram_delivered [OF p(1) b this p(5) assms(6) d', of decode rc] show ?thesis
    using w(1,4) h(2) p(2-4) by auto
qed

interpretation ws_kept: transport_property "\<lambda>c. vc_ws c = Some True \<and> \<not> vc_closing c"
  by unfold_locales (auto simp: same_transport_def)

interpretation online_kept: transport_property "\<lambda>c. vc_ready c \<noteq> None \<and> vc_udp c \<and> vc_ws c = Some True \<and> \<not> vc_closing c"
  by unfold_locales (auto simp: same_transport_def)

lemma udp_established:
  assumes "establish_udp_transport preferred discovered c = (Inr (), c')" and "vc_ws c = Some True" and "\<not> vc_closing c"
  shows "vc_ready c' \<noteq> None \<and> vc_udp c' \<and> vc_ws c' = Some True \<and> \<not> vc_closing c'"
  using assms
  by (auto simp: establish_udp_transport_def vbind_Inr_iff vlift_Inr_iff select_protocol_def ws_send_def split: option.splits)

lemma fresh_session_online:
  assumes "fresh_session ops hb mv preferred now discovered ending ps c = (Inr rest, c')"
    and "vc_ws c = Some True" and "\<not> vc_closing c"
  shows "vc_ready c' \<noteq> None \<and> vc_session_description c' \<noteq> None \<and> vc_udp c' \<and> vc_ws c' = Some True \<and> \<not> vc_closing c'"
proof -
  obtain c1 c2 c3 ps1 where s: "voice_identify ops hb mv c = (Inr (), c1)"
    "receive_until ops now (\<lambda>c. vc_ready c \<noteq> None) ending ps c1 = (Inr ps1, c2)"
    "establish_udp_transport preferred discovered c2 = (Inr (), c3)"
    "receive_until ops now (\<lambda>c. vc_session_description c \<noteq> None) ending ps1 c3 = (Inr rest, c')"
    using assms(1) by (auto simp: fresh_session_def vbind_Inr_iff)
  have "vc_ws c1 = Some True \<and> \<not> vc_closing c1" using s(1) assms(2,3) by (auto simp: voice_identify_def ws_send_def)
  then have "vc_ws c2 = Some True \<and> \<not> vc_closing c2" using ws_kept.keeps_received [OF s(2)] by blast
  then have "vc_ready c3 \<noteq> None \<and> vc_udp c3 \<and> vc_ws c3 = Some True \<and> \<not> vc_closing c3" using udp_established [OF s(3)] by blast
  then show ?thesis using online_kept.keeps_received [OF s(4)] by blast
qed

lemma resume_not_awaited:
  assumes "vc_ready c \<noteq> None" and "json_truthy (vc_session_id c)"
  shows "\<exists>c'. reconnect_transport ops hb mv preferred now None discovered ending ps True c = (Inr ps, c') \<and> \<not> vc_resumed c'"
  using assms by (cases ps)
    (simp_all add: reconnect_transport_def vbind_def open_voice_ws_def voice_resume_def ws_send_def)

lemma plaintext_before_description:
  assumes "vc_session_description c = None" and "\<not> ds_enabled (ct_state (vc_dave c))" and "vc_udp c"
    and "vc_ready c = Some r" and "build_rtp_packet (Some (vr_ssrc r)) (vc_rtp c) [] pt = Inr header"
  shows "vc_udp_sent (snd (send_audio_frame ops lib None payload step pt True c)) = vc_udp_sent c @ [header @ payload]"
  using assms
  by (simp add: send_audio_frame_def vbind_def vlift_def on_dave_def encrypt_frame_def encrypt_voice_payload_def vret_def vmodify_def)

lemma close_code_policies_differ:
  "map snd (filter (\<lambda>(name, code). (classify_voice_close_code (Some code) = ACTION_FATAL) = voice_should_reconnect name) voice_close_codes) =
     [4001, 4002, 4003, 4004, 4005, 4011, 4012, 4016, 4017, 4021, 4022]"
  by (simp add: voice_close_codes_def voice_should_reconnect_def classify_voice_close_code_def FATAL_VOICE_CLOSE_CODES_def
      REJOIN_VOICE_CLOSE_CODES_def)

lemma backoff_never_grows: "list_all (\<lambda>(crashed, _). \<not> crashed) rounds \<Longrightarrow> set (fst (read_loop backoff rounds)) \<subseteq> {1}"
proof (induction rounds arbitrary: backoff)
  case (Cons a rounds)
  then show ?case by (cases a) (auto simp: Let_def case_prod_beta split: option.splits if_splits)
qed simp

text \<open>
  A connection without DAVE, and a server that greets it: READY, then a session description.
\<close>

definition demo_connection :: "unit voice_connection" where
  "demo_connection =
     \<lparr>vc_guild_id = 1, vc_user_id = 2, vc_session_id = JStr ''s'', vc_token = JStr ''t'', vc_ready = None,
      vc_session_description = None, vc_udp = False, vc_ws = None, vc_heartbeat_interval = None, vc_last_sequence = -1,
      vc_last_heartbeat_sent_at = None, vc_latency = 0, vc_rtp = \<lparr>rs_sequence = 0, rs_timestamp = 0, rs_nonce = 0\<rparr>,
      vc_voice_box = None, vc_ssrc_map = [], vc_closing = False, vc_resumed = False, vc_listening = False,
      vc_dave = \<lparr>ct_backend = (), ct_state = initial_dave_state, ct_fail_fast = True, ct_sent = []\<rparr>,
      vc_ws_sent = [], vc_udp_sent = [], vc_speaking = []\<rparr>"

definition demo_payloads :: "jdict list" where
  "demo_payloads =
     [[(''op'', JInt 2), (''d'', JDict [(''ssrc'', JInt 5), (''ip'', JStr ''h''), (''port'', JInt 9),
        (''modes'', JList [JStr ''aead_aes256_gcm_rtpsize''])])],
      [(''op'', JInt 4), (''d'', JDict [(''mode'', JStr ''aead_aes256_gcm_rtpsize''), (''secret_key'', JList [JInt 7])])]]"

lemma demo_connects:
  "\<exists>c'. voice_connect unsupported_backend False 0 preferred_modes 0 None (Inr (JStr ''me'', 4)) (WsClosed None) demo_payloads demo_connection = (Inr [], c')"
  by (simp add: voice_connect_def demo_connection_def demo_payloads_def vbind_def vmodify_def open_voice_ws_def fresh_session_def
      voice_identify_def ws_send_def handle_ws_payload_def vret_def vlift_def jget_def dict_get_def json_truthy_def
      receive_ready_def receive_description_def json_index_def json_get_def json_iter_def dict_index_def py_bytes_def byte_of_json_def
      on_dave_def handle_session_description_def andThen_def lift_result_def payload_dict_def optional_int_def modify_state_def
      version_on_def requires_backend_def initial_dave_state_def establish_udp_transport_def select_mode_def preferred_modes_def
      select_protocol_def voice_mode_name_def)

text \<open>
  A voice connection that reports success is usable. When \<open>connect\<close> returns, whatever the
  server sent meanwhile, READY and a session description have arrived, the UDP transport is
  there and the websocket is open.
\<close>

theorem voice_connect_online:
  assumes "voice_connect ops hb mv preferred now opened discovered ending ps c = (Inr rest, c')"
  shows "vc_ready c' \<noteq> None \<and> vc_session_description c' \<noteq> None \<and> vc_udp c' \<and> vc_ws c' = Some True \<and> \<not> vc_closing c'"
proof -
  obtain c1 where "fresh_session ops hb mv preferred now discovered ending ps c1 = (Inr rest, c')"
    "vc_ws c1 = Some True" "\<not> vc_closing c1"
    using assms by (auto simp: voice_connect_def vbind_Inr_iff vmodify_def open_voice_ws_def split: option.splits)
  then show ?thesis by (rule fresh_session_online)
qed

theorem voice_connect_online_witness:
  "\<exists>c'. voice_connect unsupported_backend False 0 preferred_modes 0 None (Inr (JStr ''me'', 4)) (WsClosed None) demo_payloads demo_connection = (Inr [], c') \<and>
     vc_session_description c' \<noteq> None \<and> vc_ws c' = Some True"
  using demo_connects voice_connect_online by blast

text \<open>
  C9: the transport key is always the current one. However connects, resumes, rejoins,
  migrations, websocket payloads, received datagrams and sent frames interleave, a cached voice
  box is the one that the present session description gives.
\<close>

theorem transport_key_current:
  assumes "reachable_from (voice_step ops lib True) start c" and "vc_voice_box start = None"
  shows "case vc_voice_box c of
      None \<Rightarrow> True
    | Some box \<Rightarrow> map_option transport_box (vc_session_description c) = Some (Inr box)"
  using key_current.keeps_run [OF assms(1)] assms(2) by (simp add: box_current_def)

definition described_connection :: "unit voice_connection" where
  "described_connection = demo_connection\<lparr>vc_ready := Some \<lparr>vr_ssrc = 5, vr_ip = JStr ''h'', vr_port = 9, vr_modes = []\<rparr>, vc_udp := True,
     vc_session_description := Some \<lparr>sd_mode = JStr ''aead_aes256_gcm_rtpsize'', sd_secret_key = [7]\<rparr>\<rparr>"

lemma described_sends:
  "\<exists>s'. send_audio_frame unsupported_backend toy_lib None [1, 2] 960 0x78 True described_connection = (Inr (), s') \<and>
     vc_voice_box s' = Some \<lparr>vb_mode = AeadAes256GcmRtpsize, vb_key = [7]\<rparr>"
  by (simp add: send_audio_frame_def described_connection_def demo_connection_def vbind_def vlift_def build_rtp_packet_def pack_uint_def
      on_dave_def encrypt_frame_def initial_dave_state_def encrypt_voice_payload_def transport_box_def create_voice_box_def
      voice_mode_name_def vret_def vmodify_def)

theorem transport_key_current_witness:
  "\<exists>c. reachable_from (voice_step unsupported_backend toy_lib True) described_connection c \<and> vc_voice_box c \<noteq> None \<and>
     (case vc_voice_box c of
        None \<Rightarrow> True
      | Some box \<Rightarrow> map_option transport_box (vc_session_description c) = Some (Inr box))"
proof -
  obtain c where c: "send_audio_frame unsupported_backend toy_lib None [1, 2] 960 0x78 True described_connection = (Inr (), c)"
    "vc_voice_box c = Some \<lparr>vb_mode = AeadAes256GcmRtpsize, vb_key = [7]\<rparr>"
    using described_sends by blast
  have "voice_step unsupported_backend toy_lib True described_connection c"
    using c(1) by (metis step_send snd_conv)
  then have r: "reachable_from (voice_step unsupported_backend toy_lib True) described_connection c"
    by (blast intro: reachable_start reachable_next)
  have "vc_voice_box described_connection = None" by (simp add: described_connection_def demo_connection_def)
  from transport_key_current [OF r this] show ?thesis using r c(2) by auto
qed

text \<open>
  A client that only listens hears nothing. Until the connection has sent a frame of its
  own after the session description, it has no voice box, and every datagram is dropped without
  even being counted, although the key is known.
\<close>

theorem listening_needs_sending:
  assumes "reachable_from (voice_step ops lib False) start c" and "vc_voice_box start = None"
  shows "receive_datagram ops lib decode wants_opus data rc c = (rc, c)"
  using never_sent.keeps_run [OF assms] by (simp add: receive_datagram_def handle_datagram_def)

theorem listening_needs_sending_witness:
  "vc_session_description described_connection \<noteq> None \<and>
   receive_datagram unsupported_backend toy_lib (\<lambda>_. Inr []) True (replicate 40 0x80)
     \<lparr>rc_decoders = [], rc_received_frames = 0, rc_dropped_packets = 0, rc_written = []\<rparr> described_connection =
   (\<lparr>rc_decoders = [], rc_received_frames = 0, rc_dropped_packets = 0, rc_written = []\<rparr>, described_connection)"
proof -
  have "vc_voice_box described_connection = None" by (simp add: described_connection_def demo_connection_def)
  from listening_needs_sending [OF reachable_start this] show ?thesis
    by (simp add: described_connection_def)
qed

end
