(* ===== verification/VoiceManager.thy ===== *)
theory VoiceManager
  imports VoiceSession
begin

text \<open>
  The voice manager of a bot (\<open>VoiceManager\<close> in src/vaidcord-py/src/vaidcord/voice/connection.py):
  the gateway events it collects, joining and leaving a channel, and its table of connections.
\<close>

section \<open>State\<close>

record voice_state =
  vs_guild_id :: int
  vs_channel_id :: "int option"
  vs_user_id :: "int option"
  vs_session_id :: json

record voice_server =
  sv_guild_id :: int
  sv_token :: json
  sv_endpoint :: json

text \<open>
  Connections are objects: \<open>vm_connections\<close> holds their identities and \<open>vm_objects\<close> their
  state. \<open>vm_waiters\<close> tells for each guild whether its event is set, \<open>vm_sent\<close> lists the
  payloads given to the gateway and \<open>vm_migrations\<close> the migration tasks created.
\<close>

record 'b voice_manager =
  vm_states :: "(int, voice_state) dict"
  vm_servers :: "(int, voice_server) dict"
  vm_waiters :: "(int, bool) dict"
  vm_connections :: "(int, nat) dict"
  vm_objects :: "(nat, 'b voice_connection) dict"
  vm_sent :: "json list"
  vm_migrations :: "(nat \<times> voice_server) list"

definition new_manager :: "'b voice_manager" where
  "new_manager = \<lparr>vm_states = [], vm_servers = [], vm_waiters = [], vm_connections = [], vm_objects = [], vm_sent = [], vm_migrations = []\<rparr>"

definition manager_get :: "int \<Rightarrow> 'b voice_manager \<Rightarrow> nat option" where
  "manager_get guild_id vm = map_of (vm_connections vm) guild_id"

section \<open>Gateway events\<close>

definition set_event :: "int \<Rightarrow> bool \<Rightarrow> 'b voice_manager \<Rightarrow> 'b voice_manager" where
  "set_event guild_id b vm = vm\<lparr>vm_waiters := dict_set (vm_waiters vm) guild_id b\<rparr>"

definition event_is_set :: "int \<Rightarrow> 'b voice_manager \<Rightarrow> bool" where
  "event_is_set guild_id vm = dict_get (vm_waiters vm) guild_id False"

definition maybe_int :: "json \<Rightarrow> int option result" where
  "maybe_int v = (if json_truthy v then bind_result (py_int v) (\<lambda>i. Inr (Some i)) else Inr None)"

definition parse_voice_state :: "jdict \<Rightarrow> voice_state result" where
  "parse_voice_state data =
     bind_result (bind_result (dict_index data ''guild_id'') py_int) (\<lambda>guild.
     bind_result (maybe_int (jget data ''channel_id'')) (\<lambda>channel.
     bind_result (maybe_int (jget data ''user_id'')) (\<lambda>user.
       Inr \<lparr>vs_guild_id = guild, vs_channel_id = channel, vs_user_id = user, vs_session_id = jget data ''session_id''\<rparr>)))"

definition parse_voice_server :: "jdict \<Rightarrow> voice_server result" where
  "parse_voice_server data =
     bind_result (bind_result (dict_index data ''guild_id'') py_int) (\<lambda>guild.
     bind_result (dict_index data ''token'') (\<lambda>token.
     bind_result (dict_index data ''endpoint'') (\<lambda>endpoint.
       Inr \<lparr>sv_guild_id = guild, sv_token = token, sv_endpoint = endpoint\<rparr>)))"

definition is_connected :: "'b voice_connection \<Rightarrow> bool" where
  "is_connected c \<longleftrightarrow> vc_ws c = Some True \<and> \<not> vc_closing c"

definition handle_gateway_event :: "string \<Rightarrow> jdict \<Rightarrow> 'b voice_manager \<Rightarrow> unit result \<times> 'b voice_manager" where
  "handle_gateway_event event_type data vm =
     (if event_type = ''VOICE_STATE_UPDATE'' \<and> json_truthy (jget data ''session_id'')
      then
        (case parse_voice_state data of
           Inl e \<Rightarrow> (Inl e, vm)
         | Inr s \<Rightarrow> (Inr (), set_event (vs_guild_id s) True (vm\<lparr>vm_states := dict_set (vm_states vm) (vs_guild_id s) s\<rparr>)))
      else if event_type = ''VOICE_SERVER_UPDATE''
      then
        (case parse_voice_server data of
           Inl e \<Rightarrow> (Inl e, vm)
         | Inr s \<Rightarrow>
             (let vm1 = set_event (sv_guild_id s) True (vm\<lparr>vm_servers := dict_set (vm_servers vm) (sv_guild_id s) s\<rparr>)
              in (Inr (),
                  (case manager_get (sv_guild_id s) vm of
                     None \<Rightarrow> vm1
                   | Some n \<Rightarrow>
                       (case map_of (vm_objects vm) n of
                          Some c \<Rightarrow> if is_connected c then vm1\<lparr>vm_migrations := vm_migrations vm @ [(n, s)]\<rparr> else vm1
                        | None \<Rightarrow> vm1)))))
      else (Inr (), vm))"

section \<open>Joining and leaving\<close>

definition voice_state_payload :: "int \<Rightarrow> json \<Rightarrow> bool \<Rightarrow> bool \<Rightarrow> json" where
  "voice_state_payload guild_id channel self_mute self_deaf =
     JDict [(''op'', JInt 4),
            (''d'', JDict [(''guild_id'', JStr (show_int guild_id)), (''channel_id'', channel),
                           (''self_mute'', JBool self_mute), (''self_deaf'', JBool self_deaf)])]"

text \<open>
  One round of the waiting loop: whether the deadline has passed when it is tested, and the
  gateway events handled before the wait ends. The wait ends with the guild's event or, when it
  is not set, by the timeout.
\<close>

type_synonym join_round = "bool \<times> (string \<times> jdict) list"

definition deliver :: "(string \<times> jdict) list \<Rightarrow> 'b voice_manager \<Rightarrow> 'b voice_manager" where
  "deliver events vm = fold (\<lambda>(t, d) vm. snd (handle_gateway_event t d vm)) events vm"

text \<open>None: the rounds given end while the loop still waits.\<close>

fun await_join :: "int \<Rightarrow> join_round list \<Rightarrow> 'b voice_manager \<Rightarrow> (voice_state \<times> voice_server) result option \<times> 'b voice_manager" where
  "await_join guild_id [] vm = (None, vm)"
| "await_join guild_id ((expired, events) # rounds) vm =
     (if expired then (Some (Inl TimeoutError), vm)
      else
        (case (map_of (vm_states vm) guild_id, map_of (vm_servers vm) guild_id) of
           (Some s, Some v) \<Rightarrow> (Some (Inr (s, v)), vm)
         | _ \<Rightarrow>
             (let vm1 = deliver events vm in
              if event_is_set guild_id vm1 then await_join guild_id rounds (set_event guild_id False vm1)
              else (Some (Inl TimeoutError), vm1))))"

text \<open>\<open>sent\<close> is what \<open>send_payload\<close> raises, if the gateway is not connected.\<close>

definition send_voice_state :: "exc option \<Rightarrow> json \<Rightarrow> 'b voice_manager \<Rightarrow> unit result \<times> 'b voice_manager" where
  "send_voice_state sent payload vm = (case sent of Some e \<Rightarrow> (Inl e, vm) | None \<Rightarrow> (Inr (), vm\<lparr>vm_sent := vm_sent vm @ [payload]\<rparr>))"

definition request_join ::
  "exc option \<Rightarrow> int \<Rightarrow> int \<Rightarrow> bool \<Rightarrow> bool \<Rightarrow> join_round list \<Rightarrow> 'b voice_manager \<Rightarrow>
   (voice_state \<times> voice_server) result option \<times> 'b voice_manager" where
  "request_join sent guild_id channel_id self_mute self_deaf rounds vm =
     (let vm1 = set_event guild_id False (vm\<lparr>vm_states := dict_pop (vm_states vm) guild_id, vm_servers := dict_pop (vm_servers vm) guild_id\<rparr>)
      in (case send_voice_state sent (voice_state_payload guild_id (JStr (show_int channel_id)) self_mute self_deaf) vm1 of
            (Inl e, vm2) \<Rightarrow> (Some (Inl e), vm2)
          | (Inr _, vm2) \<Rightarrow> await_join guild_id rounds vm2))"

definition request_leave :: "exc option \<Rightarrow> int \<Rightarrow> 'b voice_manager \<Rightarrow> unit result \<times> 'b voice_manager" where
  "request_leave sent guild_id vm = send_voice_state sent (voice_state_payload guild_id JNull False False) vm"

section \<open>Connections\<close>

definition new_voice_connection :: "'b controller \<Rightarrow> int \<Rightarrow> int \<Rightarrow> voice_state \<Rightarrow> voice_server \<Rightarrow> 'b voice_connection" where
  "new_voice_connection dave guild_id user_id s v =
     \<lparr>vc_guild_id = guild_id, vc_user_id = user_id, vc_session_id = vs_session_id s, vc_token = sv_token v, vc_ready = None,
      vc_session_description = None, vc_udp = False, vc_ws = None, vc_heartbeat_interval = None, vc_last_sequence = -1,
      vc_last_heartbeat_sent_at = None, vc_latency = 0, vc_rtp = \<lparr>rs_sequence = 0, rs_timestamp = 0, rs_nonce = 0\<rparr>,
      vc_voice_box = None, vc_ssrc_map = [], vc_closing = False, vc_resumed = False, vc_listening = False, vc_dave = dave,
      vc_ws_sent = [], vc_udp_sent = [], vc_speaking = []\<rparr>"

definition fresh_object :: "'b voice_manager \<Rightarrow> nat" where
  "fresh_object vm = Suc (fold max (map fst (vm_objects vm)) 0)"

definition close_object :: "nat \<Rightarrow> 'b voice_manager \<Rightarrow> 'b voice_manager" where
  "close_object n vm =
     (case map_of (vm_objects vm) n of
        Some c \<Rightarrow> vm\<lparr>vm_objects := dict_set (vm_objects vm) n (close_connection c)\<rparr>
      | None \<Rightarrow> vm)"

text \<open>\<open>connecting\<close> is the run of \<open>VoiceConnection.connect\<close> (\<open>voice_connect\<close>) on the new connection.\<close>

definition manager_connect ::
  "'b controller \<Rightarrow> ('b, jdict list) vprog \<Rightarrow> exc option \<Rightarrow> int \<Rightarrow> int \<Rightarrow> int \<Rightarrow> bool \<Rightarrow> bool \<Rightarrow> join_round list \<Rightarrow>
   'b voice_manager \<Rightarrow> nat vres option \<times> 'b voice_manager" where
  "manager_connect dave connecting sent guild_id channel_id user_id self_mute self_deaf rounds vm =
     (let vm0 = (case manager_get guild_id vm of Some n \<Rightarrow> close_object n vm | None \<Rightarrow> vm) in
      case request_join sent guild_id channel_id self_mute self_deaf rounds vm0 of
        (None, vm1) \<Rightarrow> (None, vm1)
      | (Some (Inl e), vm1) \<Rightarrow> (Some (Inl (PyExn e)), vm1)
      | (Some (Inr (s, v)), vm1) \<Rightarrow>
          (let n = fresh_object vm1; vm2 = vm1\<lparr>vm_connections := dict_set (vm_connections vm1) guild_id n\<rparr> in
           case connecting (new_voice_connection dave guild_id user_id s v) of
             (Inl e, c) \<Rightarrow>
               (Some (Inl e), vm2\<lparr>vm_connections := dict_pop (vm_connections vm2) guild_id, vm_objects := dict_set (vm_objects vm2) n c\<rparr>)
           | (Inr _, c) \<Rightarrow> (Some (Inr n), vm2\<lparr>vm_objects := dict_set (vm_objects vm2) n c\<rparr>)))"

definition manager_disconnect :: "exc option \<Rightarrow> int \<Rightarrow> 'b voice_manager \<Rightarrow> unit result \<times> 'b voice_manager" where
  "manager_disconnect sent guild_id vm =
     (let current = manager_get guild_id vm in
      case request_leave sent guild_id (vm\<lparr>vm_connections := dict_pop (vm_connections vm) guild_id\<rparr>) of
        (Inl e, vm1) \<Rightarrow> (Inl e, vm1)
      | (Inr _, vm1) \<Rightarrow> (Inr (), case current of Some n \<Rightarrow> close_object n vm1 | None \<Rightarrow> vm1))"

definition forget_connection :: "int \<Rightarrow> nat \<Rightarrow> 'b voice_manager \<Rightarrow> 'b voice_manager" where
  "forget_connection guild_id n vm =
     (if manager_get guild_id vm = Some n then vm\<lparr>vm_connections := dict_pop (vm_connections vm) guild_id\<rparr> else vm)"

text \<open>\<open>VoiceConnection.disconnect\<close>.\<close>

definition connection_disconnect :: "exc option \<Rightarrow> int \<Rightarrow> nat \<Rightarrow> 'b voice_manager \<Rightarrow> unit result \<times> 'b voice_manager" where
  "connection_disconnect sent guild_id n vm =
     (case request_leave sent guild_id (forget_connection guild_id n vm) of
        (Inl e, vm1) \<Rightarrow> (Inl e, vm1)
      | (Inr _, vm1) \<Rightarrow> (Inr (), close_object n vm1))"

text \<open>\<open>Bot.join_voice_channel\<close>: the user id is known only after READY.\<close>

definition join_voice_channel ::
  "'b controller \<Rightarrow> ('b, jdict list) vprog \<Rightarrow> exc option \<Rightarrow> int option \<Rightarrow> int \<Rightarrow> int \<Rightarrow> bool \<Rightarrow> bool \<Rightarrow> join_round list \<Rightarrow>
   'b voice_manager \<Rightarrow> nat vres option \<times> 'b voice_manager" where
  "join_voice_channel dave connecting sent user guild_id channel_id self_mute self_deaf rounds vm =
     (case user of
        None \<Rightarrow> (Some (Inl (PyExn (RuntimeError ''Bot user is not known yet; wait for READY before joining voice''))), vm)
      | Some user_id \<Rightarrow> manager_connect dave connecting sent guild_id channel_id user_id self_mute self_deaf rounds vm)"

section \<open>What a join returns\<close>

text \<open>The voice states and servers of a guild that a list of gateway events announces, in order.\<close>

fun state_updates :: "int \<Rightarrow> (string \<times> jdict) list \<Rightarrow> voice_state list" where
  "state_updates g [] = []"
| "state_updates g ((t, d) # events) =
     (if t = ''VOICE_STATE_UPDATE'' \<and> json_truthy (jget d ''session_id'')
      then (case parse_voice_state d of Inr s \<Rightarrow> if vs_guild_id s = g then [s] else [] | Inl _ \<Rightarrow> []) else [])
     @ state_updates g events"

fun server_updates :: "int \<Rightarrow> (string \<times> jdict) list \<Rightarrow> voice_server list" where
  "server_updates g [] = []"
| "server_updates g ((t, d) # events) =
     (if t = ''VOICE_SERVER_UPDATE''
      then (case parse_voice_server d of Inr s \<Rightarrow> if sv_guild_id s = g then [s] else [] | Inl _ \<Rightarrow> []) else [])
     @ server_updates g events"

definition latest :: "'a option \<Rightarrow> 'a list \<Rightarrow> 'a option" where
  "latest old xs = (if xs = [] then old else Some (List.last xs))"

lemma latest_append [simp]: "latest (latest old xs) ys = latest old (xs @ ys)"
  by (simp add: latest_def)

lemma updates_append [simp]:
  "state_updates g (xs @ ys) = state_updates g xs @ state_updates g ys"
  "server_updates g (xs @ ys) = server_updates g xs @ server_updates g ys"
  by (induction xs) auto

lemma event_effect:
  "map_of (vm_states (snd (handle_gateway_event t d vm))) g = latest (map_of (vm_states vm) g) (state_updates g [(t, d)])"
  "map_of (vm_servers (snd (handle_gateway_event t d vm))) g = latest (map_of (vm_servers vm) g) (server_updates g [(t, d)])"
proof -
  have states: "vm_states (set_event i b w) = vm_states w" "vm_servers (set_event i b w) = vm_servers w" for i b w
    by (simp_all add: set_event_def)
  consider (state) "t = ''VOICE_STATE_UPDATE''" "json_truthy (jget d ''session_id'')"
    | (server) "t = ''VOICE_SERVER_UPDATE''" | (other) "t \<noteq> ''VOICE_STATE_UPDATE'' \<or> \<not> json_truthy (jget d ''session_id'')" "t \<noteq> ''VOICE_SERVER_UPDATE''"
    by blast
  then have "map_of (vm_states (snd (handle_gateway_event t d vm))) g = latest (map_of (vm_states vm) g) (state_updates g [(t, d)]) \<and>
    map_of (vm_servers (snd (handle_gateway_event t d vm))) g = latest (map_of (vm_servers vm) g) (server_updates g [(t, d)])"
  proof cases
    case state
    then show ?thesis by (cases "parse_voice_state d") (simp_all add: handle_gateway_event_def latest_def states)
  next
    case server
    then show ?thesis
      by (cases "parse_voice_server d") (simp_all add: handle_gateway_event_def latest_def states Let_def split: option.split)
  next
    case other
    then have "handle_gateway_event t d vm = (Inr (), vm)" by (simp only: handle_gateway_event_def) auto
    then show ?thesis using other by (auto simp: latest_def)
  qed
  then show "map_of (vm_states (snd (handle_gateway_event t d vm))) g = latest (map_of (vm_states vm) g) (state_updates g [(t, d)])"
    "map_of (vm_servers (snd (handle_gateway_event t d vm))) g = latest (map_of (vm_servers vm) g) (server_updates g [(t, d)])"
    by simp_all
qed

lemma deliver_effect:
  "map_of (vm_states (deliver events vm)) g = latest (map_of (vm_states vm) g) (state_updates g events) \<and>
   map_of (vm_servers (deliver events vm)) g = latest (map_of (vm_servers vm) g) (server_updates g events)"
proof (induction events arbitrary: vm)
  case (Cons e events)
  obtain t d where e: "e = (t, d)" by fastforce
  have "deliver (e # events) vm = deliver events (snd (handle_gateway_event t d vm))" by (simp add: deliver_def e)
  moreover have "state_updates g (e # events) = state_updates g [(t, d)] @ state_updates g events"
    "server_updates g (e # events) = server_updates g [(t, d)] @ server_updates g events"
    by (simp_all add: e)
  ultimately show ?case
    using Cons [of "snd (handle_gateway_event t d vm)"] by (simp only: event_effect latest_append)
qed (simp add: deliver_def latest_def)

lemma await_join_latest:
  assumes "await_join g rounds vm = (Some (Inr (s, v)), vm')"
  shows "\<exists>n < length rounds. latest (map_of (vm_states vm) g) (state_updates g (concat (map snd (take n rounds)))) = Some s \<and>
    latest (map_of (vm_servers vm) g) (server_updates g (concat (map snd (take n rounds)))) = Some v"
  using assms
proof (induction g rounds vm rule: await_join.induct)
  case (2 g expired events rounds vm)
  show ?case
  proof (cases "\<exists>a b. map_of (vm_states vm) g = Some a \<and> map_of (vm_servers vm) g = Some b")
    case True
    then show ?thesis using "2.prems" by (auto simp: latest_def split: if_splits intro!: exI [of _ 0])
  next
    case False
    let ?vm = "set_event g False (deliver events vm)"
    have rest: "await_join g rounds ?vm = (Some (Inr (s, v)), vm')" and c: "\<not> expired" "event_is_set g (deliver events vm)"
      using "2.prems" False by (auto simp: Let_def split: if_splits option.splits)
    have "\<exists>n < length rounds. latest (map_of (vm_states ?vm) g) (state_updates g (concat (map snd (take n rounds)))) = Some s \<and>
        latest (map_of (vm_servers ?vm) g) (server_updates g (concat (map snd (take n rounds)))) = Some v"
      using "2.IH" c False rest by (cases "map_of (vm_states vm) g"; cases "map_of (vm_servers vm) g") (auto simp: Let_def)
    then obtain n where n: "n < length rounds"
      "latest (map_of (vm_states ?vm) g) (state_updates g (concat (map snd (take n rounds)))) = Some s"
      "latest (map_of (vm_servers ?vm) g) (server_updates g (concat (map snd (take n rounds)))) = Some v"
      by blast
    then show ?thesis using deliver_effect [of events vm g] by (auto simp: set_event_def intro!: exI [of _ "Suc n"])
  qed
qed simp

text \<open>
  C28: a join never uses stale data. Whatever the manager knew of the guild before, the voice state
  and the voice server that \<open>request_join\<close> returns are the latest ones announced for that guild
  by the gateway events handled after the request was sent.
\<close>

theorem join_returns_fresh:
  assumes "request_join sent g channel mute deaf rounds vm = (Some (Inr (s, v)), vm')"
  shows "\<exists>n < length rounds. latest None (state_updates g (concat (map snd (take n rounds)))) = Some s \<and>
    latest None (server_updates g (concat (map snd (take n rounds)))) = Some v"
proof -
  let ?vm = "set_event g False (vm\<lparr>vm_states := dict_pop (vm_states vm) g, vm_servers := dict_pop (vm_servers vm) g\<rparr>)"
  let ?sent = "?vm\<lparr>vm_sent := vm_sent ?vm @ [voice_state_payload g (JStr (show_int channel)) mute deaf]\<rparr>"
  have "await_join g rounds ?sent = (Some (Inr (s, v)), vm')"
    using assms by (auto simp: request_join_def send_voice_state_def Let_def split: option.splits)
  from await_join_latest [OF this] show ?thesis by (simp add: set_event_def)
qed

lemma event_is_set_simps [simp]:
  "event_is_set g (set_event h b vm) = (if g = h then b else event_is_set g vm)"
  "event_is_set g (vm\<lparr>vm_states := x\<rparr>) = event_is_set g vm" "event_is_set g (vm\<lparr>vm_servers := y\<rparr>) = event_is_set g vm"
  "event_is_set g (vm\<lparr>vm_migrations := z\<rparr>) = event_is_set g vm"
  by (simp_all add: event_is_set_def set_event_def dict_get_def)

lemma event_sets:
  "event_is_set g (snd (handle_gateway_event t d vm)) \<longleftrightarrow>
   event_is_set g vm \<or> state_updates g [(t, d)] \<noteq> [] \<or> server_updates g [(t, d)] \<noteq> []"
proof (cases "t = ''VOICE_STATE_UPDATE'' \<and> json_truthy (jget d ''session_id'')")
  case True
  then show ?thesis by (cases "parse_voice_state d") (auto simp: handle_gateway_event_def)
next
  case False
  show ?thesis unfolding handle_gateway_event_def state_updates.simps if_not_P [OF False]
    by (cases "parse_voice_server d") (simp_all add: Let_def split: option.split)
qed

lemma deliver_sets:
  "event_is_set g vm \<or> state_updates g events \<noteq> [] \<or> server_updates g events \<noteq> [] \<Longrightarrow> event_is_set g (deliver events vm)"
proof (induction events arbitrary: vm)
  case (Cons e events)
  obtain t d where e: "e = (t, d)" by fastforce
  have "event_is_set g (snd (handle_gateway_event t d vm)) \<or> state_updates g events \<noteq> [] \<or> server_updates g events \<noteq> []"
    using Cons.prems updates_append [of g "[(t, d)]" events] unfolding event_sets e by simp
  from Cons.IH [OF this] show ?case by (simp add: deliver_def e)
qed (simp add: deliver_def)

text \<open>A join returns as soon as both updates have arrived.\<close>

lemma join_completes:
  assumes "state_updates g events \<noteq> []" and "server_updates g events \<noteq> []"
  shows "\<exists>vm'. request_join None g channel mute deaf ((False, events) # (False, later) # rounds) vm =
    (Some (Inr (List.last (state_updates g events), List.last (server_updates g events))), vm')"
proof -
  let ?vm = "set_event g False (vm\<lparr>vm_states := dict_pop (vm_states vm) g, vm_servers := dict_pop (vm_servers vm) g\<rparr>)"
  define w where "w = ?vm\<lparr>vm_sent := vm_sent ?vm @ [voice_state_payload g (JStr (show_int channel)) mute deaf]\<rparr>"
  have none: "map_of (vm_states w) g = None" "map_of (vm_servers w) g = None" by (simp_all add: w_def set_event_def)
  then have "map_of (vm_states (deliver events w)) g = Some (List.last (state_updates g events))"
    "map_of (vm_servers (deliver events w)) g = Some (List.last (server_updates g events))"
    using deliver_effect [of events w g] assms by (simp_all add: latest_def)
  moreover have "event_is_set g (deliver events w)" using deliver_sets assms by blast
  moreover have "request_join None g channel mute deaf ((False, events) # (False, later) # rounds) vm =
      await_join g ((False, events) # (False, later) # rounds) w"
    by (simp only: request_join_def send_voice_state_def Let_def w_def option.case sum.case prod.case)
  ultimately show ?thesis using none by (simp add: Let_def set_event_def)
qed

definition state_event :: "int \<Rightarrow> int \<Rightarrow> string \<Rightarrow> string \<times> jdict" where
  "state_event g user session =
     (''VOICE_STATE_UPDATE'', [(''guild_id'', JInt g), (''user_id'', JInt user), (''session_id'', JStr session)])"

definition server_event :: "int \<Rightarrow> string \<Rightarrow> string \<Rightarrow> string \<times> jdict" where
  "server_event g token endpoint =
     (''VOICE_SERVER_UPDATE'', [(''guild_id'', JInt g), (''token'', JStr token), (''endpoint'', JStr endpoint)])"

lemmas event_simps =
  state_event_def server_event_def handle_gateway_event_def deliver_def parse_voice_state_def parse_voice_server_def maybe_int_def
  dict_index_def jget_def dict_get_def json_truthy_def set_event_def event_is_set_def manager_get_def

theorem join_returns_fresh_witness:
  "\<exists>s v vm'. request_join None 7 8 False False [(False, [state_event 7 1 ''a'', server_event 7 ''t'' ''e'']), (False, [])]
       (new_manager :: unit voice_manager) = (Some (Inr (s, v)), vm') \<and> vs_session_id s = JStr ''a'' \<and>
     (\<exists>n < 2. latest None (state_updates 7 (concat (map snd (take n [(False, [state_event 7 1 ''a'', server_event 7 ''t'' ''e'']), (False, [])])))) = Some s)"
proof -
  let ?rounds = "[(False, [state_event 7 1 ''a'', server_event 7 ''t'' ''e'']), (False, [])]"
  obtain s v vm' where j: "request_join None 7 8 False False ?rounds (new_manager :: unit voice_manager) = (Some (Inr (s, v)), vm')"
    "vs_session_id s = JStr ''a''"
    by (simp add: request_join_def send_voice_state_def new_manager_def event_simps dict_pop_def)
  from join_returns_fresh [OF j(1)] show ?thesis using j by (auto simp: numeral_2_eq_2)
qed

text \<open>
  A join does not check whose voice state it takes. When another member of the guild changes
  channel, mutes or leaves between the bot's own voice state and the voice server update, the
  join returns that member's session id, and the bot identifies with it.
\<close>

theorem any_member_decides_session:
  "case request_join None g channel mute deaf
      [(False, [state_event g bot_user (CHR ''s'' # own), state_event g other_user (CHR ''s'' # foreign), server_event g token endpoint]), (False, [])] vm of
     (Some (Inr (s, v)), vm') \<Rightarrow> vs_session_id s = JStr (CHR ''s'' # foreign) \<and> sv_token v = JStr token \<and>
       vc_session_id (new_voice_connection dave g bot_user s v) = JStr (CHR ''s'' # foreign)
   | _ \<Rightarrow> False"
proof -
  let ?events = "[state_event g bot_user (CHR ''s'' # own), state_event g other_user (CHR ''s'' # foreign), server_event g token endpoint]"
  have "state_updates g ?events \<noteq> []" "server_updates g ?events \<noteq> []"
    "vs_session_id (List.last (state_updates g ?events)) = JStr (CHR ''s'' # foreign)" "sv_token (List.last (server_updates g ?events)) = JStr token"
    by (simp_all add: event_simps)
  then show ?thesis
    using join_completes [of g ?events channel mute deaf "[]" "[]" vm] by (auto simp: new_voice_connection_def)
qed

section \<open>The table of connections\<close>

text \<open>Everything about the connections is left alone by a join.\<close>

definition same_table :: "'b voice_manager \<Rightarrow> 'b voice_manager \<Rightarrow> bool" where
  "same_table vm vm' \<longleftrightarrow> vm_connections vm' = vm_connections vm \<and> vm_objects vm' = vm_objects vm"

lemma event_table: "same_table vm (snd (handle_gateway_event t d vm))"
  by (auto simp: handle_gateway_event_def same_table_def set_event_def Let_def split: sum.splits option.splits)

lemma deliver_table: "same_table vm (deliver events vm)"
proof (induction events arbitrary: vm)
  case (Cons e events)
  obtain t d where "e = (t, d)" by fastforce
  then show ?case using Cons [of "snd (handle_gateway_event t d vm)"] event_table [of vm t d] by (simp add: deliver_def same_table_def)
qed (simp add: deliver_def same_table_def)

lemma await_table: "await_join g rounds vm = (r, vm') \<Longrightarrow> same_table vm vm'"
proof (induction g rounds vm arbitrary: vm' rule: await_join.induct)
  case (2 g expired events rounds vm)
  have d: "same_table vm (set_event g False (deliver events vm))" "same_table vm (deliver events vm)"
    using deliver_table [of vm events] by (simp_all add: same_table_def set_event_def)
  show ?case
  proof (cases "expired \<or> (\<exists>a b. map_of (vm_states vm) g = Some a \<and> map_of (vm_servers vm) g = Some b)")
    case True
    then show ?thesis using "2.prems" by (auto simp: same_table_def split: if_splits)
  next
    case False
    then have step: "await_join g ((expired, events) # rounds) vm =
        (if event_is_set g (deliver events vm) then await_join g rounds (set_event g False (deliver events vm))
         else (Some (Inl TimeoutError), deliver events vm))"
      by (auto simp: Let_def split: option.splits)
    show ?thesis
    proof (cases "event_is_set g (deliver events vm)")
      case True
      then have "same_table (set_event g False (deliver events vm)) vm'"
        using "2.IH" "2.prems" False step by (cases "map_of (vm_states vm) g"; cases "map_of (vm_servers vm) g") (auto simp: Let_def)
      then show ?thesis using d by (simp add: same_table_def)
    qed (use step "2.prems" d in auto)
  qed
qed (simp add: same_table_def)

lemma join_table: "request_join sent g channel mute deaf rounds vm = (r, vm') \<Longrightarrow> same_table vm vm'"
  by (auto simp: request_join_def send_voice_state_def Let_def same_table_def set_event_def split: option.splits dest!: await_table)

lemma close_object_get [simp]: "manager_get g (close_object n vm) = manager_get g vm"
  by (simp add: close_object_def manager_get_def split: option.split)

lemma fresh_object_fresh: "map_of (vm_objects vm) (fresh_object vm) = None"
proof -
  have "n \<le> fold max (map fst (vm_objects vm)) 0" if "n \<in> set (map fst (vm_objects vm))" for n
    using that Max.set_eq_fold [of 0 "map fst (vm_objects vm)"] by (metis List.finite_set Max_ge list.set_intros(2))
  then have "fresh_object vm \<notin> fst ` set (vm_objects vm)" unfolding fresh_object_def by (metis not_less_eq_eq order_refl set_map)
  then show ?thesis by (simp add: map_of_eq_None_iff)
qed

definition replaced :: "int \<Rightarrow> 'b voice_manager \<Rightarrow> 'b voice_manager" where
  "replaced g vm = (case manager_get g vm of Some n \<Rightarrow> close_object n vm | None \<Rightarrow> vm)"

lemma replaced_table:
  "vm_connections (replaced g vm) = vm_connections vm" "dom (map_of (vm_objects (replaced g vm))) = dom (map_of (vm_objects vm))"
  by (auto simp: replaced_def close_object_def dom_def split: option.splits if_splits)

text \<open>
  Connecting registers exactly one connection. If it returns, the guild's entry is a new
  object that went through a successful handshake with the joined session; if it raises, the
  guild has no connection or still the one it had; and no other guild's entry changes.
\<close>

theorem connect_outcome:
  "case manager_connect dave connecting sent g channel user mute deaf rounds vm of (r, vm') \<Rightarrow>
     (map_of (vm_connections vm'))(g := None) = (map_of (vm_connections vm))(g := None) \<and>
     (case r of
        None \<Rightarrow> manager_get g vm' = manager_get g vm
      | Some (Inr n) \<Rightarrow> manager_get g vm' = Some n \<and> map_of (vm_objects vm) n = None \<and>
          (\<exists>s v ps c. connecting (new_voice_connection dave g user s v) = (Inr ps, c) \<and> map_of (vm_objects vm') n = Some c)
      | Some (Inl e) \<Rightarrow> manager_get g vm' = None \<or> manager_get g vm' = manager_get g vm)"
proof -
  obtain j w where j: "request_join sent g channel mute deaf rounds (replaced g vm) = (j, w)" by fastforce
  have t: "vm_connections w = vm_connections vm" "dom (map_of (vm_objects w)) = dom (map_of (vm_objects vm))"
    using join_table [OF j] replaced_table [of g vm] by (simp_all add: same_table_def)
  then have g: "manager_get g w = manager_get g vm" by (simp add: manager_get_def)
  have fresh: "map_of (vm_objects vm) (fresh_object w) = None" using fresh_object_fresh [of w] t(2) by (metis domIff)
  consider "j = None" | e where "j = Some (Inl e)" | s v where "j = Some (Inr (s, v))" by (metis not_None_eq sum.exhaust surj_pair)
  then show ?thesis
  proof cases
    case (3 s v)
    obtain x c where "connecting (new_voice_connection dave g user s v) = (x, c)" by fastforce
    then show ?thesis using 3 j t fresh
      by (cases x) (auto simp: manager_connect_def replaced_def Let_def manager_get_def)
  qed (use j t g in \<open>simp_all add: manager_connect_def replaced_def Let_def\<close>)
qed

text \<open>A join that fails leaves the guild's old connection registered although it was closed.\<close>

theorem failed_join_keeps_closed_connection:
  assumes "manager_get g vm = Some n" and "map_of (vm_objects vm) n = Some c"
  shows "case manager_connect dave connecting (Some e) g channel user mute deaf rounds vm of
    (r, vm') \<Rightarrow> r = Some (Inl (PyExn e)) \<and> manager_get g vm' = Some n \<and>
      map_of (vm_objects vm') n = Some (close_connection c) \<and> \<not> is_connected (close_connection c)"
  using assms
  by (simp add: manager_connect_def request_join_def send_voice_state_def Let_def close_object_def manager_get_def set_event_def
      is_connected_def close_connection_def)

theorem disconnect_outcome:
  assumes "manager_get g vm = Some n" and "map_of (vm_objects vm) n = Some c"
  shows "case manager_disconnect None g vm of
    (r, vm') \<Rightarrow> r = Inr () \<and> manager_get g vm' = None \<and> map_of (vm_objects vm') n = Some (close_connection c) \<and>
      vm_sent vm' = vm_sent vm @ [voice_state_payload g JNull False False]"
  using assms by (simp add: manager_disconnect_def request_leave_def send_voice_state_def Let_def close_object_def manager_get_def)

text \<open>A connection that is no longer the registered one does not unregister its successor.\<close>

theorem disconnect_keeps_successor:
  assumes "manager_get g vm = Some k" and "k \<noteq> n"
  shows "manager_get g (snd (connection_disconnect sent g n vm)) = Some k"
  using assms
  by (auto simp: connection_disconnect_def forget_connection_def request_leave_def send_voice_state_def split: option.splits)
    (simp_all add: manager_get_def)

end
