(* ===== verification/VoiceReceive.thy ===== *)
theory VoiceReceive
  imports VoiceSession
begin

text \<open>
  The UDP client of a voice connection with its asyncio protocol objects
  (src/vaidcord-py/src/vaidcord/voice/udp.py), the task of the receiver that reads from it and the sinks
  (voice/receive.py). Clients and protocols are objects with an identity, kept in lists: the
  connection may get a new client while the receiver still waits on the queue of the old one.
\<close>

section \<open>The UDP client\<close>

record udp_protocol =
  up_ready :: bool
  up_closed :: bool
  up_queue :: "bytes list"
  up_error :: "exc option"
  up_open :: bool

text \<open>A client sets its transport and its protocol together; \<open>up_open\<close> is that the transport is not closing.\<close>

record udp_client =
  uc_ip :: string
  uc_port :: int
  uc_protocol :: "nat option"

record udp_net =
  un_protocols :: "udp_protocol list"
  un_clients :: "udp_client list"
  un_sent :: "(nat \<times> bytes) list"

definition new_protocol :: udp_protocol where
  "new_protocol = \<lparr>up_ready = False, up_closed = False, up_queue = [], up_error = None, up_open = True\<rparr>"

definition connection_made :: "udp_protocol \<Rightarrow> udp_protocol" where
  "connection_made p = p\<lparr>up_ready := True\<rparr>"

definition datagram_received :: "bytes \<Rightarrow> udp_protocol \<Rightarrow> udp_protocol" where
  "datagram_received data p = p\<lparr>up_queue := up_queue p @ [data]\<rparr>"

definition error_received :: "exc \<Rightarrow> udp_protocol \<Rightarrow> udp_protocol" where
  "error_received e p = p\<lparr>up_error := Some e, up_closed := True\<rparr>"

definition connection_lost :: "exc option \<Rightarrow> udp_protocol \<Rightarrow> udp_protocol" where
  "connection_lost e p = p\<lparr>up_error := e, up_closed := True\<rparr>"

definition on_protocol :: "nat \<Rightarrow> (udp_protocol \<Rightarrow> udp_protocol) \<Rightarrow> udp_net \<Rightarrow> udp_net" where
  "on_protocol p f u = u\<lparr>un_protocols := (un_protocols u)[p := f (un_protocols u ! p)]\<rparr>"

definition new_client :: "string \<Rightarrow> int \<Rightarrow> udp_net \<Rightarrow> nat \<times> udp_net" where
  "new_client ip port u =
     (length (un_clients u), u\<lparr>un_clients := un_clients u @ [\<lparr>uc_ip = ip, uc_port = port, uc_protocol = None\<rparr>]\<rparr>)"

definition udp_connected :: "nat \<Rightarrow> udp_net \<Rightarrow> bool" where
  "udp_connected n u = (case uc_protocol (un_clients u ! n) of None \<Rightarrow> False | Some p \<Rightarrow> up_open (un_protocols u ! p))"

text \<open>\<open>failed\<close>: what \<open>create_datagram_endpoint\<close> raises. It calls \<open>connection_made\<close> before it returns.\<close>

definition udp_connect :: "exc option \<Rightarrow> nat \<Rightarrow> udp_net \<Rightarrow> unit result \<times> udp_net" where
  "udp_connect failed n u =
     (if udp_connected n u then (Inr (), u)
      else
        (case failed of
           Some e \<Rightarrow> (Inl e, u)
         | None \<Rightarrow>
             (Inr (), u\<lparr>un_protocols := un_protocols u @ [connection_made new_protocol],
                un_clients := (un_clients u)[n := (un_clients u ! n)\<lparr>uc_protocol := Some (length (un_protocols u))\<rparr>]\<rparr>)))"

definition udp_send :: "exc option \<Rightarrow> nat \<Rightarrow> bytes \<Rightarrow> udp_net \<Rightarrow> unit result \<times> udp_net" where
  "udp_send failed n data u =
     (case udp_connect failed n u of
        (Inl e, u1) \<Rightarrow> (Inl e, u1)
      | (Inr _, u1) \<Rightarrow>
          (case uc_protocol (un_clients u1 ! n) of
             None \<Rightarrow> (Inl (RuntimeError ''Voice UDP transport is not connected''), u1)
           | Some p \<Rightarrow> (Inr (), u1\<lparr>un_sent := un_sent u1 @ [(p, data)]\<rparr>)))"

text \<open>
  \<open>receive\<close> up to its await: it waits on the queue of the protocol that the client has then.
  \<open>take_datagram\<close> is the other half, once the queue is not empty.
\<close>

definition start_receive :: "exc option \<Rightarrow> nat \<Rightarrow> udp_net \<Rightarrow> nat result \<times> udp_net" where
  "start_receive failed n u =
     (case udp_connect failed n u of
        (Inl e, u1) \<Rightarrow> (Inl e, u1)
      | (Inr _, u1) \<Rightarrow>
          (case uc_protocol (un_clients u1 ! n) of
             None \<Rightarrow> (Inl (RuntimeError ''Voice UDP transport is not connected''), u1)
           | Some p \<Rightarrow>
               (case up_error (un_protocols u1 ! p) of
                  Some e \<Rightarrow> (Inl e, u1)
                | None \<Rightarrow> (Inr p, u1))))"

definition take_datagram :: "nat \<Rightarrow> udp_net \<Rightarrow> (bytes \<times> udp_net) option" where
  "take_datagram p u =
     (case up_queue (un_protocols u ! p) of
        [] \<Rightarrow> None
      | d # q \<Rightarrow> Some (d, on_protocol p (\<lambda>x. x\<lparr>up_queue := q\<rparr>) u))"

text \<open>\<open>discover_ip\<close>; \<open>arrived\<close>: what came into the queue before the timeout.\<close>

definition discover_ip :: "exc option \<Rightarrow> bytes list \<Rightarrow> nat \<Rightarrow> int \<Rightarrow> udp_net \<Rightarrow> (string \<times> nat) result \<times> udp_net" where
  "discover_ip failed arrived n ssrc u =
     (case build_ip_discovery_packet ssrc of
        Inl e \<Rightarrow> (Inl e, u)
      | Inr packet \<Rightarrow>
          (case udp_send failed n packet u of
             (Inl e, u1) \<Rightarrow> (Inl e, u1)
           | (Inr _, u1) \<Rightarrow>
               (case start_receive failed n u1 of
                  (Inl e, u2) \<Rightarrow> (Inl e, u2)
                | (Inr p, u2) \<Rightarrow>
                    (let u3 = fold (\<lambda>d. on_protocol p (datagram_received d)) arrived u2 in
                     case take_datagram p u3 of
                       None \<Rightarrow> (Inl TimeoutError, u3)
                     | Some (d, u4) \<Rightarrow> (parse_ip_discovery_response d, u4)))))"

definition udp_close :: "nat \<Rightarrow> udp_net \<Rightarrow> udp_net" where
  "udp_close n u =
     (case uc_protocol (un_clients u ! n) of
        None \<Rightarrow> u
      | Some p \<Rightarrow>
          on_protocol p (\<lambda>x. x\<lparr>up_open := False\<rparr>) u
            \<lparr>un_clients := (un_clients u)[n := (un_clients u ! n)\<lparr>uc_protocol := None\<rparr>]\<rparr>)"

section \<open>The task of the receiver\<close>

datatype receive_task =
    Unstarted
  | Looping nat
  | Waiting nat nat
  | Ended "exc option"
  | Cancelled

record 'b voice_input =
  vi_net :: udp_net
  vi_udp :: "nat option"
  vi_task :: receive_task
  vi_receiver :: receiver
  vi_connection :: "'b voice_connection"

text \<open>
  The task up to its next await: \<open>_run\<close> with \<open>packets\<close> and \<open>receive\<close> unfolded. None says that it waits for a
  datagram, or that it is over. An exception of \<open>receive\<close> is not caught in the loop.
\<close>

definition receiver_turn ::
  "'b dave_ops \<Rightarrow> crypto_lib \<Rightarrow> (bytes list \<Rightarrow> bytes result) \<Rightarrow> bool \<Rightarrow> 'b voice_input \<Rightarrow> 'b voice_input option" where
  "receiver_turn ops lib decode wants_opus s =
     (case vi_task s of
        Unstarted \<Rightarrow>
          Some (s\<lparr>vi_task := (case vi_udp s of
             None \<Rightarrow> Ended (Some (RuntimeError ''Voice UDP transport is not connected'')) | Some n \<Rightarrow> Looping n)\<rparr>)
      | Looping n \<Rightarrow>
          Some (if \<not> udp_connected n (vi_net s) then s\<lparr>vi_task := Ended None\<rparr>
            else
              (case start_receive None n (vi_net s) of
                 (Inl e, u) \<Rightarrow> s\<lparr>vi_task := Ended (Some e), vi_net := u\<rparr>
               | (Inr p, u) \<Rightarrow> s\<lparr>vi_task := Waiting n p, vi_net := u\<rparr>))
      | Waiting n p \<Rightarrow>
          (case take_datagram p (vi_net s) of
             None \<Rightarrow> None
           | Some (d, u) \<Rightarrow>
               (let (rc, c) = receive_datagram ops lib decode wants_opus d (vi_receiver s) (vi_connection s) in
                Some (s\<lparr>vi_net := u, vi_task := Looping n, vi_receiver := rc, vi_connection := c\<rparr>)))
      | Ended e \<Rightarrow> None
      | Cancelled \<Rightarrow> None)"

definition receiver_running :: "receive_task \<Rightarrow> bool" where
  "receiver_running t = (case t of Unstarted \<Rightarrow> True | Looping n \<Rightarrow> True | Waiting n p \<Rightarrow> True | Ended e \<Rightarrow> False | Cancelled \<Rightarrow> False)"

text \<open>\<open>stop\<close> cancels the task and closes the decoders.\<close>

definition stop_receiver :: "'b voice_input \<Rightarrow> 'b voice_input" where
  "stop_receiver s =
     s\<lparr>vi_task := (if receiver_running (vi_task s) then Cancelled else vi_task s), vi_receiver := (vi_receiver s)\<lparr>rc_decoders := []\<rparr>\<rparr>"

text \<open>
  What happens around the task: the network, the connection that gets a new client with READY
  (the old one is not closed) or closes the one it has, \<open>discover_ip\<close> on the same queue, a stop, and any
  other change of the connection. A closed transport delivers nothing.
\<close>

datatype 'b input_event =
    Turn
  | Arrives nat bytes
  | Fails nat exc
  | Lost nat "exc option"
  | ReadyPayload string int
  | Establishes "exc option" "bytes list" int
  | CloseTransport
  | StopListening
  | ConnectionStep "'b voice_connection"

fun happen ::
  "'b dave_ops \<Rightarrow> crypto_lib \<Rightarrow> (bytes list \<Rightarrow> bytes result) \<Rightarrow> bool \<Rightarrow> 'b input_event \<Rightarrow> 'b voice_input \<Rightarrow> 'b voice_input" where
  "happen ops lib decode wants_opus Turn s = (case receiver_turn ops lib decode wants_opus s of None \<Rightarrow> s | Some s1 \<Rightarrow> s1)"
| "happen ops lib decode wants_opus (Arrives p d) s =
     (if p < length (un_protocols (vi_net s)) \<and> up_open (un_protocols (vi_net s) ! p)
      then s\<lparr>vi_net := on_protocol p (datagram_received d) (vi_net s)\<rparr> else s)"
| "happen ops lib decode wants_opus (Fails p e) s =
     (if p < length (un_protocols (vi_net s)) \<and> up_open (un_protocols (vi_net s) ! p)
      then s\<lparr>vi_net := on_protocol p (error_received e) (vi_net s)\<rparr> else s)"
| "happen ops lib decode wants_opus (Lost p e) s =
     (if p < length (un_protocols (vi_net s)) then s\<lparr>vi_net := on_protocol p (\<lambda>x. (connection_lost e x)\<lparr>up_open := False\<rparr>) (vi_net s)\<rparr> else s)"
| "happen ops lib decode wants_opus (ReadyPayload ip port) s =
     (let (n, u) = new_client ip port (vi_net s) in s\<lparr>vi_net := u, vi_udp := Some n\<rparr>)"
| "happen ops lib decode wants_opus (Establishes failed arrived ssrc) s =
     (case vi_udp s of None \<Rightarrow> s | Some n \<Rightarrow> s\<lparr>vi_net := snd (discover_ip failed arrived n ssrc (vi_net s))\<rparr>)"
| "happen ops lib decode wants_opus CloseTransport s =
     (case vi_udp s of None \<Rightarrow> s | Some n \<Rightarrow> s\<lparr>vi_net := udp_close n (vi_net s), vi_udp := None\<rparr>)"
| "happen ops lib decode wants_opus StopListening s = stop_receiver s"
| "happen ops lib decode wants_opus (ConnectionStep c) s = s\<lparr>vi_connection := c\<rparr>"

section \<open>Sinks\<close>

text \<open>The sink that keeps the samples of every user; frames without samples are ignored.\<close>

type_synonym buffer_sink = "(int option, bytes) dict"

definition buffer_write :: "voice_frame \<Rightarrow> buffer_sink \<Rightarrow> buffer_sink" where
  "buffer_write f b =
     (case vf_pcm f of
        None \<Rightarrow> b
      | Some pcm \<Rightarrow> dict_set b (vf_user_id f) (dict_get b (vf_user_id f) [] @ pcm))"

definition buffer_pcm :: "int option \<Rightarrow> buffer_sink \<Rightarrow> bytes" where
  "buffer_pcm user b = dict_get b user []"

text \<open>
  The sink with one wave file per user: the writers it has open, and the samples in the files of the
  directory. Opening a file for writing empties it.
\<close>

record wave_sink =
  ws_files :: "int option list"
  ws_disk :: "(string, bytes) dict"

definition wave_name :: "int option \<Rightarrow> string" where
  "wave_name user = (case user of Some i \<Rightarrow> ''user-'' @ show_int i @ ''.wav'' | None \<Rightarrow> ''unknown.wav'')"

definition file_for :: "int option \<Rightarrow> wave_sink \<Rightarrow> wave_sink" where
  "file_for user w =
     (if user \<in> set (ws_files w) then w
      else w\<lparr>ws_files := ws_files w @ [user], ws_disk := dict_set (ws_disk w) (wave_name user) []\<rparr>)"

definition wave_write :: "voice_frame \<Rightarrow> wave_sink \<Rightarrow> wave_sink" where
  "wave_write f w =
     (case vf_pcm f of
        None \<Rightarrow> w
      | Some pcm \<Rightarrow>
          (let w1 = file_for (vf_user_id f) w; name = wave_name (vf_user_id f) in
           w1\<lparr>ws_disk := dict_set (ws_disk w1) name (dict_get (ws_disk w1) name [] @ pcm)\<rparr>))"

definition wave_cleanup :: "wave_sink \<Rightarrow> wave_sink" where
  "wave_cleanup w = w\<lparr>ws_files := []\<rparr>"

section \<open>A receiver whose transport is closed\<close>

lemma on_protocol_simps [simp]:
  "length (un_protocols (on_protocol p f u)) = length (un_protocols u)"
  "un_clients (on_protocol p f u) = un_clients u"
  "q \<noteq> p \<Longrightarrow> un_protocols (on_protocol q f u) ! p = un_protocols u ! p"
  "p < length (un_protocols u) \<Longrightarrow> un_protocols (on_protocol p f u) ! p = f (un_protocols u ! p)"
  by (simp_all add: on_protocol_def)

text \<open>\<open>untouched p u v\<close>: the protocol object \<open>p\<close> is in \<open>v\<close> as it was in \<open>u\<close>.\<close>

definition untouched :: "nat \<Rightarrow> udp_net \<Rightarrow> udp_net \<Rightarrow> bool" where
  "untouched p u v \<longleftrightarrow> length (un_protocols u) \<le> length (un_protocols v) \<and> un_protocols v ! p = un_protocols u ! p \<and>
     length (un_clients v) = length (un_clients u)"

lemma untouched_refl [simp]: "untouched p u u"
  by (simp add: untouched_def)

lemma untouched_trans: "untouched p u v \<Longrightarrow> untouched p v w \<Longrightarrow> untouched p u w"
  by (simp add: untouched_def)

lemma connect_untouched:
  assumes "udp_connect failed n u = (x, v)" and "p < length (un_protocols u)" and "n < length (un_clients u)"
    and "\<not> up_open (un_protocols u ! p)"
  shows "untouched p u v \<and> (x = Inr () \<longrightarrow> (\<exists>q. uc_protocol (un_clients v ! n) = Some q \<and> q \<noteq> p \<and> udp_connected n v))"
  using assms
  by (cases "udp_connected n u"; cases failed)
    (auto simp: udp_connect_def untouched_def udp_connected_def nth_append connection_made_def new_protocol_def split: option.splits)

lemma connected_again: "udp_connected n u \<Longrightarrow> udp_connect failed n u = (Inr (), u)"
  by (simp add: udp_connect_def)

lemma fold_on_protocol_untouched: "q \<noteq> p \<Longrightarrow> untouched p u (fold (\<lambda>d. on_protocol q (f d)) ds u)"
proof (induction ds arbitrary: u)
  case (Cons d ds)
  from Cons.IH [of "on_protocol q (f d) u"] Cons.prems show ?case by (simp add: untouched_def)
qed simp

lemma discover_untouched:
  assumes p: "p < length (un_protocols u)" "\<not> up_open (un_protocols u ! p)" and n: "n < length (un_clients u)"
  shows "untouched p u (snd (discover_ip failed arrived n ssrc u))"
proof -
  obtain x v where v: "udp_connect failed n u = (x, v)" by fastforce
  have c: "untouched p u v \<and> (x = Inr () \<longrightarrow> (\<exists>q. uc_protocol (un_clients v ! n) = Some q \<and> q \<noteq> p \<and> udp_connected n v))"
    using connect_untouched [OF v p(1) n p(2)] .
  show ?thesis
  proof (cases x)
    case (Inl e)
    then show ?thesis using c v by (simp add: discover_ip_def udp_send_def split: sum.split)
  next
    case (Inr y)
    then obtain q where q: "uc_protocol (un_clients v ! n) = Some q" "q \<noteq> p" "udp_connected n v" using c by auto
    have again: "udp_connect failed n (v\<lparr>un_sent := un_sent v @ [(q, d)]\<rparr>) = (Inr (), v\<lparr>un_sent := un_sent v @ [(q, d)]\<rparr>)" for d
      using q(1,3) by (intro connected_again) (simp add: udp_connected_def)
    have taken: "untouched p v (snd (case take_datagram q w of None \<Rightarrow> (Inl TimeoutError, w)
        | Some (d, w1) \<Rightarrow> (parse_ip_discovery_response d, w1)))" if "untouched p v w" for w
      using that q(2) by (auto simp: take_datagram_def untouched_def split: list.split)
    have filled: "untouched p v (fold (\<lambda>d. on_protocol q (datagram_received d)) arrived (v\<lparr>un_sent := un_sent v @ [(q, d)]\<rparr>))" for d
      using fold_on_protocol_untouched [OF q(2), of "v\<lparr>un_sent := un_sent v @ [(q, d)]\<rparr>" datagram_received arrived]
      by (simp add: untouched_def)
    show ?thesis
    proof (cases "build_ip_discovery_packet ssrc")
      case (Inr packet)
      let ?w = "v\<lparr>un_sent := un_sent v @ [(q, packet)]\<rparr>"
      have start: "start_receive failed n ?w = (case up_error (un_protocols v ! q) of Some e \<Rightarrow> (Inl e, ?w) | None \<Rightarrow> (Inr q, ?w))"
        using q(1) by (simp add: start_receive_def again)
      have sent: "udp_send failed n packet u = (Inr (), ?w)" using v q(1) \<open>x = Inr y\<close> by (simp add: udp_send_def)
      have "untouched p v (snd (discover_ip failed arrived n ssrc u))"
      proof (cases "up_error (un_protocols v ! q)")
        case None
        then show ?thesis using taken [OF filled [of packet]] by (simp add: discover_ip_def Inr sent start Let_def)
      next
        case (Some e)
        then show ?thesis by (simp add: discover_ip_def Inr sent start) (simp add: untouched_def)
      qed
      then show ?thesis using c untouched_trans by blast
    qed (simp add: discover_ip_def)
  qed
qed

lemma close_protocol:
  "p < length (un_protocols u) \<Longrightarrow> un_protocols (udp_close n u) ! p = un_protocols u ! p \<or>
     un_protocols (udp_close n u) ! p = (un_protocols u ! p)\<lparr>up_open := False\<rparr>"
  by (cases "uc_protocol (un_clients u ! n) = Some p") (auto simp: udp_close_def split: option.split)

lemma close_lengths [simp]:
  "length (un_protocols (udp_close n u)) = length (un_protocols u)"
  "length (un_clients (udp_close n u)) = length (un_clients u)"
  by (simp_all add: udp_close_def split: option.split)

definition deaf :: "nat \<Rightarrow> nat \<Rightarrow> voice_frame list \<Rightarrow> 'b voice_input \<Rightarrow> bool" where
  "deaf n p w s \<longleftrightarrow>
     (vi_task s = Waiting n p \<or> vi_task s = Cancelled) \<and> rc_written (vi_receiver s) = w \<and>
     p < length (un_protocols (vi_net s)) \<and> up_queue (un_protocols (vi_net s) ! p) = [] \<and>
     \<not> up_open (un_protocols (vi_net s) ! p) \<and> (\<forall>m. vi_udp s = Some m \<longrightarrow> m < length (un_clients (vi_net s)))"

lemma deaf_on_protocol:
  assumes "deaf n p w s" and "q \<noteq> p \<or> (\<forall>x. up_queue (f x) = up_queue x \<and> up_open (f x) = False)"
  shows "deaf n p w (s\<lparr>vi_net := on_protocol q f (vi_net s)\<rparr>)"
  using assms by (cases "q = p") (auto simp: deaf_def)

lemma deaf_happen:
  assumes "deaf n p w s"
  shows "deaf n p w (happen ops lib decode wants_opus e s)"
proof (cases e)
  case Turn
  then show ?thesis using assms by (auto simp: deaf_def receiver_turn_def take_datagram_def)
next
  case (Arrives q d)
  have "q \<noteq> p" if "up_open (un_protocols (vi_net s) ! q)" using that assms by (auto simp: deaf_def)
  then show ?thesis using Arrives assms deaf_on_protocol [OF assms] by simp
next
  case (Fails q x)
  have "q \<noteq> p" if "up_open (un_protocols (vi_net s) ! q)" using that assms by (auto simp: deaf_def)
  then show ?thesis using Fails assms deaf_on_protocol [OF assms] by simp
next
  case (Lost q x)
  then show ?thesis using assms deaf_on_protocol [OF assms, of q] by (simp add: connection_lost_def)
next
  case (ReadyPayload ip port)
  then show ?thesis using assms by (auto simp: deaf_def new_client_def)
next
  case (Establishes failed arrived ssrc)
  show ?thesis
  proof (cases "vi_udp s")
    case (Some m)
    have "untouched p (vi_net s) (snd (discover_ip failed arrived m ssrc (vi_net s)))"
      using assms Some by (intro discover_untouched) (auto simp: deaf_def)
    then show ?thesis using assms Some Establishes by (auto simp: deaf_def untouched_def)
  qed (use assms Establishes in simp)
next
  case CloseTransport
  show ?thesis
  proof (cases "vi_udp s")
    case (Some m)
    have "up_queue (un_protocols (udp_close m (vi_net s)) ! p) = [] \<and> \<not> up_open (un_protocols (udp_close m (vi_net s)) ! p)"
      using close_protocol [of p "vi_net s" m] assms by (auto simp: deaf_def)
    then show ?thesis using assms Some CloseTransport by (simp add: deaf_def)
  qed (use assms CloseTransport in simp)
qed (use assms in \<open>auto simp: deaf_def stop_receiver_def receiver_running_def\<close>)

lemma deaf_run: "deaf n p w s \<Longrightarrow> deaf n p w (fold (happen ops lib decode wants_opus) es s)"
  by (induction es arbitrary: s) (auto intro: deaf_happen)

lemma waiting_happen:
  assumes "deaf n p w s" and "vi_task s = Waiting n p" and "e \<noteq> StopListening"
  shows "vi_task (happen ops lib decode wants_opus e s) = Waiting n p"
  using assms by (cases e) (auto simp: deaf_def receiver_turn_def take_datagram_def new_client_def split: option.split)

lemma waiting_run:
  "deaf n p w s \<Longrightarrow> vi_task s = Waiting n p \<Longrightarrow> StopListening \<notin> set es \<Longrightarrow>
   vi_task (fold (happen ops lib decode wants_opus) es s) = Waiting n p"
proof (induction es arbitrary: s)
  case (Cons e es)
  then have "e \<noteq> StopListening" by auto
  then show ?case using Cons waiting_happen [of n p w s e] deaf_happen [of n p w s] by simp
qed simp


text \<open>An error on the socket, such as an ICMP message, ends the task of the receiver at its next turn.\<close>

lemma socket_error_ends_receiver:
  assumes "vi_task s = Looping n" and "udp_connected n (vi_net s)" and "uc_protocol (un_clients (vi_net s) ! n) = Some p"
    and "up_error (un_protocols (vi_net s) ! p) = Some e"
  shows "vi_task (happen ops lib decode wants_opus Turn s) = Ended (Some e)"
  using assms by (simp add: receiver_turn_def start_receive_def connected_again)

section \<open>What the sinks hold\<close>

definition user_pcm :: "int option \<Rightarrow> voice_frame list \<Rightarrow> bytes" where
  "user_pcm user fs = concat (map (\<lambda>f. case vf_pcm f of None \<Rightarrow> [] | Some pcm \<Rightarrow> pcm) (filter (\<lambda>f. vf_user_id f = user) fs))"

lemma buffer_holds: "buffer_pcm user (fold buffer_write fs b) = buffer_pcm user b @ user_pcm user fs"
  by (induction fs arbitrary: b) (auto simp: buffer_pcm_def buffer_write_def user_pcm_def dict_get_def split: option.split)

lemma wave_name_inj: "wave_name u = wave_name v \<longleftrightarrow> u = v"
proof -
  have "show_int i = show_int j \<longleftrightarrow> i = j" for i j by (metis option.inject parse_int_show_int)
  then show ?thesis by (auto simp: wave_name_def split: option.split)
qed

lemma wave_write_reads:
  "dict_get (ws_disk (wave_write f w)) (wave_name user) [] =
     (if vf_user_id f = user \<and> vf_pcm f \<noteq> None
      then (if user \<in> set (ws_files w) then dict_get (ws_disk w) (wave_name user) [] else []) @ the (vf_pcm f)
      else dict_get (ws_disk w) (wave_name user) [])"
  "user \<in> set (ws_files (wave_write f w)) \<longleftrightarrow> user \<in> set (ws_files w) \<or> (vf_user_id f = user \<and> vf_pcm f \<noteq> None)"
  by (auto simp: wave_write_def file_for_def Let_def dict_get_def wave_name_inj split: option.split)

lemma wave_holds:
  assumes "\<forall>user. user \<notin> set (ws_files w) \<longrightarrow> dict_get (ws_disk w) (wave_name user) [] = []"
  shows "dict_get (ws_disk (fold wave_write fs w)) (wave_name user) [] = dict_get (ws_disk w) (wave_name user) [] @ user_pcm user fs"
  using assms
proof (induction fs arbitrary: w)
  case (Cons f fs)
  have "\<forall>user. user \<notin> set (ws_files (wave_write f w)) \<longrightarrow> dict_get (ws_disk (wave_write f w)) (wave_name user) [] = []"
    using Cons.prems by (auto simp: wave_write_reads)
  from Cons.IH [OF this] show ?case using Cons.prems by (cases "vf_pcm f") (auto simp: wave_write_reads user_pcm_def)
qed (simp add: user_pcm_def)

text \<open>A sink used for a second session of listening overwrites the files of the first.\<close>

lemma wave_reuse_overwrites:
  assumes "vf_pcm f = Some pcm"
  shows "dict_get (ws_disk (wave_write f (wave_cleanup w))) (wave_name (vf_user_id f)) [] = pcm"
  using assms by (simp add: wave_write_reads wave_cleanup_def)

section \<open>Decoding per speaker\<close>

definition receive_all ::
  "'b dave_ops \<Rightarrow> crypto_lib \<Rightarrow> (bytes list \<Rightarrow> bytes result) \<Rightarrow> bool \<Rightarrow> bytes list \<Rightarrow> 'b voice_connection \<Rightarrow>
   receiver \<times> 'b voice_connection" where
  "receive_all ops lib decode wants_opus ds c =
     fold (\<lambda>d (rc, c). receive_datagram ops lib decode wants_opus d rc c) ds
       (\<lparr>rc_decoders = [], rc_received_frames = 0, rc_dropped_packets = 0, rc_written = []\<rparr>, c)"

text \<open>The samples of a frame are what its speaker's decoder makes of it after the speaker's earlier packets.\<close>

definition decoded_in_turn :: "(bytes list \<Rightarrow> bytes result) \<Rightarrow> (nat, bytes list) dict \<Rightarrow> voice_frame \<Rightarrow> bool" where
  "decoded_in_turn decode ds f \<longleftrightarrow>
     (\<exists>h t pcm. dict_get ds (vf_ssrc f) [] = h @ vf_opus f # t \<and> decode (h @ [vf_opus f]) = Inr pcm \<and> vf_pcm f = Some pcm)"

lemma decoded_in_turn_more:
  assumes "decoded_in_turn decode ds f"
  shows "decoded_in_turn decode (dict_set ds ssrc (dict_get ds ssrc [] @ [media])) f"
proof -
  obtain h t pcm where f: "dict_get ds (vf_ssrc f) [] = h @ vf_opus f # t" "decode (h @ [vf_opus f]) = Inr pcm" "vf_pcm f = Some pcm"
    using assms by (auto simp: decoded_in_turn_def)
  show ?thesis
  proof (cases "vf_ssrc f = ssrc")
    case True
    then have "dict_get (dict_set ds ssrc (dict_get ds ssrc [] @ [media])) (vf_ssrc f) [] = h @ vf_opus f # (t @ [media])"
      using f(1) by (simp add: dict_get_def)
    then show ?thesis using f(2,3) unfolding decoded_in_turn_def by blast
  next
    case False
    then have "dict_get (dict_set ds ssrc (dict_get ds ssrc [] @ [media])) (vf_ssrc f) [] = h @ vf_opus f # t"
      using f(1) by (simp add: dict_get_def)
    then show ?thesis using f(2,3) unfolding decoded_in_turn_def by blast
  qed
qed

definition receiver_inv :: "(bytes list \<Rightarrow> bytes result) \<Rightarrow> receiver \<Rightarrow> bool" where
  "receiver_inv decode rc \<longleftrightarrow>
     list_all (decoded_in_turn decode (rc_decoders rc)) (rc_written rc) \<and> rc_received_frames rc = length (rc_written rc)"

lemma receive_keeps_inv:
  assumes "receiver_inv decode rc"
  shows "receiver_inv decode (fst (receive_datagram ops lib decode False d rc c))"
proof -
  have quiet: "receiver_inv decode (rc\<lparr>rc_dropped_packets := n\<rparr>)" for n using assms by (simp add: receiver_inv_def)
  show ?thesis
  proof (cases "length d < 12 \<or> is_rtcp_packet d \<or> vc_voice_box c = None")
    case True
    then show ?thesis using assms by (auto simp: receive_datagram_def handle_datagram_def)
  next
    case False
    then obtain box where box: "vc_voice_box c = Some box" by auto
    show ?thesis
    proof (cases "open_packet lib box d")
      case (Inl e)
      then show ?thesis using False box quiet by (simp add: receive_datagram_def handle_datagram_def)
    next
      case (Inr pp)
      obtain packet payload where pp: "pp = (packet, payload)" by fastforce
      obtain x c1 where x: "on_dave (decrypt_frame ops (int (rtp_ssrc packet)) payload) c = (x, c1)" by fastforce
      let ?hist = "\<lambda>media. dict_get (rc_decoders rc) (rtp_ssrc packet) [] @ [media]"
      let ?rc = "\<lambda>media. rc\<lparr>rc_decoders := dict_set (rc_decoders rc) (rtp_ssrc packet) (?hist media)\<rparr>"
      have fed: "receiver_inv decode (?rc media\<lparr>rc_dropped_packets := n\<rparr>)" for media n
        using assms decoded_in_turn_more by (auto simp: receiver_inv_def list_all_iff)
      have written: "receiver_inv decode (?rc media\<lparr>rc_received_frames := rc_received_frames rc + 1, rc_written := rc_written rc @ [f]\<rparr>)"
        if "vf_ssrc f = rtp_ssrc packet" "vf_opus f = media" "vf_pcm f = Some pcm" "decode (?hist media) = Inr pcm" for media f pcm
      proof -
        have "decoded_in_turn decode (dict_set (rc_decoders rc) (rtp_ssrc packet) (?hist media)) f"
          using that by (auto simp: decoded_in_turn_def dict_get_def)
        then show ?thesis using assms decoded_in_turn_more by (auto simp: receiver_inv_def list_all_iff)
      qed
      show ?thesis
        using False box Inr pp x assms quiet fed written
        by (auto simp: receive_datagram_def handle_datagram_def Let_def split: sum.split)
    qed
  qed
qed

text \<open>
  C14: speakers are decoded apart and every sink holds what they said. After any datagrams, every frame handed to the
  sink is what the decoder of its SSRC makes of it after exactly the earlier packets of that SSRC;
  the counter is the number of frames; and the buffer of each user, like the user's wave file, is the
  concatenation of the user's samples in the order of arrival.
\<close>

theorem speakers_decoded_apart:
  "let rc = fst (receive_all ops lib decode False ds c) in
   list_all (decoded_in_turn decode (rc_decoders rc)) (rc_written rc) \<and> rc_received_frames rc = length (rc_written rc) \<and>
   buffer_pcm user (fold buffer_write (rc_written rc) []) = user_pcm user (rc_written rc) \<and>
   dict_get (ws_disk (fold wave_write (rc_written rc) \<lparr>ws_files = [], ws_disk = []\<rparr>)) (wave_name user) [] = user_pcm user (rc_written rc)"
proof -
  have "receiver_inv decode rc \<Longrightarrow> receiver_inv decode (fst (fold (\<lambda>d (rc, c). receive_datagram ops lib decode False d rc c) ds (rc, c)))" for rc
  proof (induction ds arbitrary: rc c)
    case (Cons d ds)
    then show ?case using receive_keeps_inv [OF Cons.prems, of ops lib d c]
      by (cases "receive_datagram ops lib decode False d rc c") simp
  qed simp
  then have "receiver_inv decode (fst (receive_all ops lib decode False ds c))"
    by (simp add: receive_all_def receiver_inv_def)
  moreover have nil: "buffer_pcm user [] = []" by (simp add: buffer_pcm_def dict_get_def)
  ultimately show ?thesis
    using wave_holds [of "\<lparr>ws_files = [], ws_disk = []\<rparr>"]
    by (simp add: Let_def receiver_inv_def buffer_holds nil dict_get_def)
qed

definition waiting_input :: "'b voice_connection \<Rightarrow> 'b voice_input" where
  "waiting_input c =
     \<lparr>vi_net = \<lparr>un_protocols = [connection_made new_protocol], un_clients = [\<lparr>uc_ip = ''10.0.0.1'', uc_port = 5000, uc_protocol = Some 0\<rparr>],
        un_sent = []\<rparr>,
      vi_udp = Some 0, vi_task = Waiting 0 0,
      vi_receiver = \<lparr>rc_decoders = [], rc_received_frames = 0, rc_dropped_packets = 0, rc_written = []\<rparr>, vi_connection = c\<rparr>"

text \<open>A migration: the old transport closes, READY names a new server, whose datagrams then wait unread.\<close>

definition migration :: "'b input_event list" where
  "migration = [ReadyPayload ''10.0.0.2'' 5001, Establishes None [] 7, Arrives 1 (replicate 40 0x80), Turn, Turn]"


end
