(* ===== verification/AudioSources.thy ===== *)
theory AudioSources
  imports Prelude
begin

text \<open>
  Audio sources (src/vaidcord-py/src/vaidcord/voice/sources.py): PCM framing, silence, the Ogg
  demultiplexer of \<open>FFmpegOpusAudio\<close> and the volume transformer. What a stream or the ffmpeg
  process delivers is an argument.
\<close>

section \<open>PCM\<close>

definition FRAME_SIZE :: nat where
  "FRAME_SIZE = 3840"

definition FRAME_LENGTH_MS :: int where
  "FRAME_LENGTH_MS = 20"

definition pad_frame :: "bytes \<Rightarrow> bytes" where
  "pad_frame chunk = chunk @ replicate (FRAME_SIZE - length chunk) 0"

text \<open>\<open>PCMAudio.read\<close> on what is left of the stream.\<close>

definition pcm_read :: "bytes \<Rightarrow> bytes \<times> bytes" where
  "pcm_read stream =
     (let chunk = take FRAME_SIZE stream
      in (if 0 < length chunk \<and> length chunk < FRAME_SIZE then pad_frame chunk else chunk, drop FRAME_SIZE stream))"

text \<open>\<open>_read_exact\<close>: reads of the pipe until the size is reached or the pipe ends.\<close>

fun read_exact :: "nat \<Rightarrow> bytes \<Rightarrow> bytes list \<Rightarrow> bytes \<times> bytes list" where
  "read_exact n data [] = (data, [])"
| "read_exact n data (r # reads) =
     (let got = take (n - length data) r; left = drop (n - length data) r; data = data @ got
      in if left \<noteq> [] then (data, left # reads)
         else if got = [] \<or> length data \<ge> n then (data, reads) else read_exact n data reads)"

text \<open>
  \<open>_raise_if_failed\<close>: \<open>returncode\<close> is None when the process does not exit within five seconds,
  \<open>message\<close> the decoded and stripped standard error.
\<close>

definition raise_if_failed :: "bool \<Rightarrow> int option \<Rightarrow> string \<Rightarrow> exc option" where
  "raise_if_failed spawned returncode message =
     (if \<not> spawned then None
      else (case returncode of
              None \<Rightarrow> None
            | Some n \<Rightarrow> if n = 0 then None else Some (OtherError (''ffmpeg failed: '' @ (if message \<noteq> [] then message else show_int n)))))"

definition ffmpeg_pcm_read :: "exc option \<Rightarrow> bytes list \<Rightarrow> bytes result \<times> bytes list" where
  "ffmpeg_pcm_read failed reads =
     (case read_exact FRAME_SIZE [] reads of
        (chunk, rest) \<Rightarrow>
          ((if chunk = [] then (case failed of Some e \<Rightarrow> Inl e | None \<Rightarrow> Inr [])
            else Inr (if length chunk < FRAME_SIZE then pad_frame chunk else chunk)), rest))"

definition silence_frames :: "int \<Rightarrow> int" where
  "silence_frames duration_ms = max 0 duration_ms div FRAME_LENGTH_MS"

definition silence_read :: "int \<Rightarrow> bytes \<times> int" where
  "silence_read frames_left = (if frames_left \<le> 0 then ([], frames_left) else (replicate FRAME_SIZE 0, frames_left - 1))"

section \<open>Ogg pages\<close>

definition OGGS :: bytes where
  "OGGS = [0x4F, 0x67, 0x67, 0x53]"

text \<open>\<open>bytes.find\<close>.\<close>

fun find_sub :: "bytes \<Rightarrow> bytes \<Rightarrow> nat option" where
  "find_sub p [] = (if p = [] then Some 0 else None)"
| "find_sub p (x # xs) = (if take (length p) (x # xs) = p then Some 0 else map_option Suc (find_sub p xs))"

text \<open>The packets of a page body, and the packet that a trailing 255 leaves open.\<close>

fun unlace :: "bytes \<Rightarrow> bytes \<Rightarrow> bytes \<Rightarrow> bytes list \<times> bytes" where
  "unlace packet [] body = ([], packet)"
| "unlace packet (lace # lacing) body =
     (let packet = packet @ take (unat lace) body; body = drop (unat lace) body in
      if unat lace < 255 then (case unlace [] lacing body of (ps, rem) \<Rightarrow> (packet # ps, rem))
      else unlace packet lacing body)"

definition body_length :: "bytes \<Rightarrow> nat" where
  "body_length lacing = sum_list (map unat lacing)"

lemma unlace_length: "length (snd (unlace packet lacing body)) \<le> length packet + body_length lacing"
proof (induction lacing arbitrary: packet body)
  case (Cons lace lacing)
  let ?b = "drop (unat lace) body"
  have "length (snd (unlace [] lacing ?b)) \<le> body_length lacing" using Cons [of "[]" ?b] by simp
  moreover have "length (snd (unlace (packet @ take (unat lace) body) lacing ?b)) \<le> length packet + unat lace + body_length lacing"
    using Cons [of "packet @ take (unat lace) body" ?b] by simp
  ultimately show ?case by (auto simp: Let_def body_length_def case_prod_beta)
qed (simp add: body_length_def)

lemma unlace_remainder: "unlace [] lacing body = (packets, rem) \<Longrightarrow> length rem \<le> body_length lacing"
  using unlace_length [of "[]" lacing body] by simp

function parse_pages :: "bytes \<Rightarrow> bytes list \<times> bytes" where
  "parse_pages buffer =
     (case find_sub OGGS buffer of
        None \<Rightarrow> ([], if length buffer > 3 then drop (length buffer - 3) buffer else buffer)
      | Some start \<Rightarrow>
          (let b = drop start buffer in
           if length b < 27 then ([], b)
           else
             (let header_len = 27 + unat (b ! 26) in
              if length b < header_len then ([], b)
              else
                (let lacing = take (unat (b ! 26)) (drop 27 b); end_page = header_len + body_length lacing in
                 if length b < end_page then ([], b)
                 else
                   (case unlace [] lacing (take (body_length lacing) (drop header_len b)) of
                      (packets, rem) \<Rightarrow>
                        (case parse_pages (rem @ drop end_page b) of (later, rest) \<Rightarrow> (packets @ later, rest)))))))"
  by pat_completeness auto

termination
  by (relation "measure length") (auto dest!: sym [of _ "unlace _ _ _"] unlace_remainder)

declare parse_pages.simps [simp del]

section \<open>Reading packets\<close>

text \<open>
  \<open>FFmpegOpusAudio\<close>: \<open>og_chunks\<close> is what \<open>_read_exact(8192)\<close> will return, then empty reads;
  \<open>og_failed\<close> is what \<open>_raise_if_failed\<close> raises at the end.
\<close>

record ogg_source =
  og_packets :: "bytes list"
  og_buffer :: bytes
  og_skipped_headers :: nat
  og_eof :: bool
  og_chunks :: "bytes list"
  og_failed :: "exc option"

definition ogg_fill :: "ogg_source \<Rightarrow> ogg_source" where
  "ogg_fill s =
     (let chunk = (case og_chunks s of [] \<Rightarrow> [] | c # _ \<Rightarrow> c) in
      case parse_pages (og_buffer s @ chunk) of
        (packets, rest) \<Rightarrow>
          s\<lparr>og_eof := (og_eof s \<or> chunk = []), og_chunks := tl (og_chunks s), og_packets := og_packets s @ packets, og_buffer := rest\<rparr>)"

function ogg_read :: "ogg_source \<Rightarrow> bytes result \<times> ogg_source" where
  "ogg_read s =
     (case og_packets s of
        packet # rest \<Rightarrow>
          if og_skipped_headers s < 2 then ogg_read (s\<lparr>og_packets := rest, og_skipped_headers := og_skipped_headers s + 1\<rparr>)
          else (Inr packet, s\<lparr>og_packets := rest\<rparr>)
      | [] \<Rightarrow>
          if og_eof s then ((case og_failed s of Some e \<Rightarrow> Inl e | None \<Rightarrow> Inr []), s)
          else ogg_read (ogg_fill s))"
  by pat_completeness auto

termination
  by (relation "measures [\<lambda>s. if og_eof s then 0 else Suc (length (og_chunks s)), \<lambda>s. length (og_packets s)]")
    (auto simp: ogg_fill_def Let_def split: list.splits prod.splits)

declare ogg_read.simps [simp del]

section \<open>Volume\<close>

definition set_volume :: "real \<Rightarrow> real" where
  "set_volume v = max 0 (min 4 v)"

text \<open>\<open>array.array("h")\<close> on a little-endian machine, and \<open>int\<close> of the floating-point product \<open>mul\<close>.\<close>

definition sample_of :: "byte \<Rightarrow> byte \<Rightarrow> int" where
  "sample_of lo hi = signed_take_bit 15 (int (unat lo) + 256 * int (unat hi))"

definition sample_bytes :: "int \<Rightarrow> bytes" where
  "sample_bytes v = [word_of_int v, word_of_int (v div 256)]"

definition py_trunc :: "real \<Rightarrow> int" where
  "py_trunc x = (if x < 0 then \<lceil>x\<rceil> else \<lfloor>x\<rfloor>)"

definition scale_sample :: "(int \<Rightarrow> real \<Rightarrow> real) \<Rightarrow> real \<Rightarrow> int \<Rightarrow> int" where
  "scale_sample mul volume v = max (-32768) (min 32767 (py_trunc (mul v volume)))"

fun scale_frame :: "(int \<Rightarrow> real \<Rightarrow> real) \<Rightarrow> real \<Rightarrow> bytes \<Rightarrow> bytes result" where
  "scale_frame mul volume [] = Inr []"
| "scale_frame mul volume [b] = Inl (ValueError ''bytes length not a multiple of item size'')"
| "scale_frame mul volume (lo # hi # rest) =
     bind_result (scale_frame mul volume rest) (\<lambda>out. Inr (sample_bytes (scale_sample mul volume (sample_of lo hi)) @ out))"

definition volume_read :: "(int \<Rightarrow> real \<Rightarrow> real) \<Rightarrow> real \<Rightarrow> bytes \<Rightarrow> bytes result" where
  "volume_read mul volume frame = (if frame = [] \<or> volume = 1 then Inr frame else scale_frame mul volume frame)"

section \<open>Pages in pieces\<close>

definition keep_tail :: "bytes \<Rightarrow> bytes" where
  "keep_tail b = (if length b > 3 then drop (length b - 3) b else b)"

lemma keep_tail_append: "keep_tail (keep_tail x @ y) = keep_tail (x @ y)"
  by (auto simp: keep_tail_def add.commute)

lemma find_sub_fits: "find_sub p x = Some i \<Longrightarrow> i + length p \<le> length x \<and> take (length p) (drop i x) = p"
proof (induction x arbitrary: i)
  case (Cons a x)
  show ?case
  proof (cases "take (length p) (a # x) = p")
    case True
    then have "length p \<le> length (a # x)" by (metis length_take min.cobounded1)
    then show ?thesis using True Cons.prems by auto
  qed (use Cons in auto)
qed (auto split: if_splits)

lemma find_sub_append: "find_sub p x = Some i \<Longrightarrow> find_sub p (x @ y) = Some i"
proof (induction x arbitrary: i)
  case (Cons a x)
  then have "length p \<le> length (a # x)" using find_sub_fits [of p "a # x" i] by simp
  then have "take (length p) (a # x @ y) = take (length p) (a # x)" using take_append [of "length p" "a # x" y] by simp
  then show ?case using Cons by (auto split: if_splits)
qed (cases y; auto split: if_splits)

lemma find_sub_drop: "find_sub p x = Some i \<Longrightarrow> find_sub p (drop i x) = Some 0"
  using find_sub_fits [of p x i] by (cases "drop i x") auto

lemma OGGS_props [simp]: "length OGGS = 4" "OGGS \<noteq> []"
  by (simp_all add: OGGS_def)

lemma find_none_tail:
  "find_sub OGGS x = None \<Longrightarrow>
   find_sub OGGS (x @ y) = map_option (\<lambda>i. i + (length x - length (keep_tail x))) (find_sub OGGS (keep_tail x @ y))"
proof (induction x)
  case (Cons a x)
  show ?case
  proof (cases "length x \<ge> 3")
    case True
    have k: "keep_tail (a # x) = keep_tail x" using True by (auto simp: keep_tail_def drop_Cons')
    have "take 4 (a # x) \<noteq> OGGS" using Cons.prems by (auto split: if_splits)
    moreover have "take 4 (a # x @ y) = take 4 (a # x)" using True by (simp add: take_Cons')
    ultimately have "take (length OGGS) (a # x @ y) \<noteq> OGGS" by (simp only: OGGS_props not_False_eq_True)
    then have "find_sub OGGS (a # x @ y) = map_option Suc (find_sub OGGS (x @ y))" by (simp only: find_sub.simps if_False)
    also have "find_sub OGGS (x @ y) = map_option (\<lambda>i. i + (length x - length (keep_tail x))) (find_sub OGGS (keep_tail x @ y))"
      using Cons by (auto split: if_splits)
    finally have "find_sub OGGS (a # x @ y) =
        map_option (\<lambda>i. Suc (i + (length x - length (keep_tail x)))) (find_sub OGGS (keep_tail x @ y))"
      by (simp only: option.map_comp o_def)
    moreover have "length (a # x) - length (keep_tail x) = Suc (length x - length (keep_tail x))"
      using True by (simp add: keep_tail_def Suc_diff_le)
    ultimately show ?thesis by (simp only: k append_Cons add_Suc_right)
  next
    case False
    then show ?thesis by (simp add: keep_tail_def option.map_ident)
  qed
qed (simp add: keep_tail_def option.map_ident)

text \<open>A buffer that starts with a page.\<close>

definition page_lacing :: "bytes \<Rightarrow> bytes" where
  "page_lacing b = take (unat (b ! 26)) (drop 27 b)"

definition page_end :: "bytes \<Rightarrow> nat" where
  "page_end b = 27 + unat (b ! 26) + body_length (page_lacing b)"

definition page_body :: "bytes \<Rightarrow> bytes" where
  "page_body b = take (body_length (page_lacing b)) (drop (27 + unat (b ! 26)) b)"

definition complete_page :: "bytes \<Rightarrow> bool" where
  "complete_page b \<longleftrightarrow> 27 \<le> length b \<and> 27 + unat (b ! 26) \<le> length b \<and> page_end b \<le> length b"

lemma parse_none: "find_sub OGGS b = None \<Longrightarrow> parse_pages b = ([], keep_tail b)"
  by (simp add: parse_pages.simps [of b] keep_tail_def)

lemma parse_skip: "find_sub OGGS b = Some i \<Longrightarrow> parse_pages b = parse_pages (drop i b)"
  using find_sub_drop [of OGGS b i] by (simp add: parse_pages.simps [of b] parse_pages.simps [of "drop i b"])

lemma parse_incomplete: "find_sub OGGS b = Some 0 \<Longrightarrow> \<not> complete_page b \<Longrightarrow> parse_pages b = ([], b)"
  by (auto simp: parse_pages.simps [of b] complete_page_def page_end_def page_lacing_def Let_def)

lemma parse_complete:
  "find_sub OGGS b = Some 0 \<Longrightarrow> complete_page b \<Longrightarrow> unlace [] (page_lacing b) (page_body b) = (packets, rem) \<Longrightarrow>
   parse_pages b = (case parse_pages (rem @ drop (page_end b) b) of (later, rest) \<Rightarrow> (packets @ later, rest))"
  by (simp add: parse_pages.simps [of b] complete_page_def page_end_def page_lacing_def page_body_def Let_def)

lemma complete_append:
  assumes "complete_page b"
  shows "complete_page (b @ y) \<and> page_lacing (b @ y) = page_lacing b \<and> page_end (b @ y) = page_end b \<and> page_body (b @ y) = page_body b"
proof -
  have "(b @ y) ! 26 = b ! 26" using assms by (simp add: complete_page_def nth_append)
  then have "page_lacing (b @ y) = page_lacing b" using assms by (simp add: complete_page_def page_lacing_def)
  then show ?thesis using assms \<open>(b @ y) ! 26 = b ! 26\<close> by (simp add: complete_page_def page_end_def page_body_def)
qed

text \<open>
  Demultiplexing does not depend on how the stream is cut: parsing what has arrived and parsing the rest of the buffer together with what arrives later gives the packets and the
  buffer that parsing everything at once gives, for any bytes and any cut.
\<close>

lemma parse_pages_incremental:
  "parse_pages (x @ y) =
     (case parse_pages x of (ps, b) \<Rightarrow> (case parse_pages (b @ y) of (qs, rest) \<Rightarrow> (ps @ qs, rest)))"
proof (induction x rule: length_induct)
  case (1 x)
  show ?case
  proof (cases "find_sub OGGS x")
    case None
    let ?k = "keep_tail x"
    have "parse_pages (x @ y) = parse_pages (?k @ y)"
    proof (cases "find_sub OGGS (?k @ y)")
      case none: None
      then have "find_sub OGGS (x @ y) = None" using find_none_tail [OF None] by simp
      then show ?thesis using none by (simp add: parse_none keep_tail_append)
    next
      case (Some i)
      then have f: "find_sub OGGS (x @ y) = Some (i + (length x - length ?k))" using find_none_tail [OF None] by simp
      have "x = take (length x - length ?k) x @ ?k" by (auto simp: keep_tail_def)
      then have "drop (i + (length x - length ?k)) (x @ y) = drop i (?k @ y)"
        by (metis add_diff_cancel_left' append.assoc append_eq_conv_conj diff_le_self drop_drop length_take min.absorb2)
      then show ?thesis using parse_skip [OF f] parse_skip [OF Some] by simp
    qed
    then show ?thesis by (simp add: parse_none [OF None] case_prod_beta)
  next
    case (Some i)
    define b where "b = drop i x"
    have b0: "find_sub OGGS b = Some 0" "find_sub OGGS (b @ y) = Some 0"
      using find_sub_drop [OF Some] find_sub_append by (auto simp: b_def)
    have "drop i (x @ y) = b @ y" using find_sub_fits [OF Some] by (simp add: b_def)
    then have xy: "parse_pages (x @ y) = parse_pages (b @ y)" using parse_skip [OF find_sub_append [OF Some]] by simp
    have x: "parse_pages x = parse_pages b" using parse_skip [OF Some] by (simp add: b_def)
    show ?thesis
    proof (cases "complete_page b")
      case False
      then show ?thesis using xy x parse_incomplete [OF b0(1)] by (simp add: case_prod_beta)
    next
      case True
      obtain ps rem where u: "unlace [] (page_lacing b) (page_body b) = (ps, rem)" by fastforce
      note c = complete_append [OF True, of y]
      have whole: "parse_pages (b @ y) = (case parse_pages ((rem @ drop (page_end b) b) @ y) of (later, rest) \<Rightarrow> (ps @ later, rest))"
        using parse_complete [OF b0(2), of ps rem] c u True by (simp add: complete_page_def)
      have IH: "parse_pages ((rem @ drop (page_end b) b) @ y) =
          (case parse_pages (rem @ drop (page_end b) b) of (ps, b) \<Rightarrow> (case parse_pages (b @ y) of (qs, rest) \<Rightarrow> (ps @ qs, rest)))"
      proof -
        have "length rem \<le> body_length (page_lacing b)" using unlace_remainder [OF u] .
        then have "length (rem @ drop (page_end b) b) < length x"
          using True find_sub_fits [OF Some] by (auto simp: complete_page_def page_end_def b_def)
        then show ?thesis using "1.IH" by blast
      qed
      show ?thesis
        unfolding xy x whole IH parse_complete [OF b0(1) True u] by (simp add: case_prod_beta)
    qed
  qed
qed

section \<open>Packets in order\<close>

text \<open>What \<open>_read_exact\<close> delivers until its first empty result, and the packets still to be read.\<close>

definition ogg_stream :: "ogg_source \<Rightarrow> bytes" where
  "ogg_stream s = concat (takeWhile (\<lambda>c. c \<noteq> []) (og_chunks s))"

definition ogg_pending :: "ogg_source \<Rightarrow> bytes list" where
  "ogg_pending s =
     drop (2 - og_skipped_headers s)
       (og_packets s @ (if og_eof s then [] else fst (parse_pages (og_buffer s @ ogg_stream s))))"

lemma fill_pending: "\<not> og_eof s \<Longrightarrow> ogg_pending (ogg_fill s) = ogg_pending s"
proof (cases "og_chunks s = [] \<or> hd (og_chunks s) = []")
  case True
  then have "ogg_stream s = []" by (cases "og_chunks s") (auto simp: ogg_stream_def)
  moreover assume "\<not> og_eof s"
  ultimately show ?thesis using True
    by (auto simp: ogg_pending_def ogg_fill_def Let_def split: list.splits prod.splits)
next
  case False
  then obtain c cs where c: "og_chunks s = c # cs" "c \<noteq> []" by (cases "og_chunks s") auto
  obtain ps b where p: "parse_pages (og_buffer s @ c) = (ps, b)" by fastforce
  assume "\<not> og_eof s"
  then show ?thesis
    using c p parse_pages_incremental [of "og_buffer s @ c" "concat (takeWhile (\<lambda>c. c \<noteq> []) cs)"]
    by (simp add: ogg_pending_def ogg_stream_def ogg_fill_def case_prod_beta)
qed


section \<open>Pages that hold whole packets\<close>

text \<open>The lacing values of a packet, and a page as ffmpeg writes it (22 header bytes after the magic).\<close>

definition lace :: "bytes \<Rightarrow> bytes" where
  "lace packet = replicate (length packet div 255) 255 @ [of_nat (length packet mod 255)]"

definition page_of :: "bytes \<Rightarrow> bytes list \<Rightarrow> bytes" where
  "page_of header packets =
     OGGS @ header @ [of_nat (length (concat (map lace packets)))] @ concat (map lace packets) @ concat packets"

definition page_fits :: "bytes \<Rightarrow> bytes list \<Rightarrow> bool" where
  "page_fits header packets \<longleftrightarrow> length header = 22 \<and> length (concat (map lace packets)) < 256"

lemma unlace_full:
  "n * 255 \<le> length body \<Longrightarrow>
   unlace packet (replicate n 255 @ lacing) body = unlace (packet @ take (n * 255) body) lacing (drop (n * 255) body)"
proof (induction n arbitrary: packet body)
  case (Suc n)
  have "take 255 body @ take (n * 255) (drop 255 body) = take (255 + n * 255) body" by (simp only: take_add)
  moreover have "drop (n * 255 + 255) body = drop (255 + n * 255) body" by (simp only: add.commute)
  ultimately show ?case using Suc by (simp add: Let_def)
qed simp

lemma unat_byte: "n < 256 \<Longrightarrow> unat (of_nat n :: byte) = n"
  by (simp add: unat_of_nat)

lemma unlace_packet: "unlace [] (lace p @ lacing) (p @ body) = (case unlace [] lacing body of (ps, rem) \<Rightarrow> (p # ps, rem))"
proof -
  let ?q = "length p div 255" and ?m = "length p mod 255"
  have n: "?q * 255 + ?m = length p" by simp
  have m: "unat (of_nat ?m :: byte) = ?m" by (rule unat_byte) (simp add: less_trans [OF mod_less_divisor])
  have "take (?q * 255) p @ take ?m (drop (?q * 255) p) = take (?q * 255 + ?m) p" by (simp only: take_add)
  then have t: "take (?q * 255) p @ take ?m (drop (?q * 255) p) = p" unfolding n by simp
  have "unlace [] (lace p @ lacing) (p @ body) =
      unlace (take (?q * 255) p) (of_nat ?m # lacing) (drop (?q * 255) p @ body)"
    using unlace_full [of ?q "p @ body" "[]" "of_nat ?m # lacing"] n by (simp add: lace_def del: unlace.simps)
  also have "\<dots> = (case unlace [] lacing body of (ps, rem) \<Rightarrow> (p # ps, rem))"
    using n by (simp add: Let_def m t)
  finally show ?thesis .
qed

lemma unlace_packets: "unlace [] (concat (map lace ps)) (concat ps) = (ps, [])"
  by (induction ps) (simp_all add: unlace_packet)

lemma body_length_lace: "body_length (concat (map lace ps)) = length (concat ps)"
proof (induction ps)
  case (Cons p ps)
  have "unat (of_nat (length p mod 255) :: byte) = length p mod 255" by (rule unat_byte) (simp add: less_trans [OF mod_less_divisor])
  then have "body_length (lace p) = length p div 255 * 255 + length p mod 255"
    by (simp add: body_length_def lace_def sum_list_replicate)
  then show ?case using Cons by (simp add: body_length_def)
qed (simp add: body_length_def)

lemma page_parts:
  assumes "page_fits header ps"
  shows "find_sub OGGS (page_of header ps @ rest) = Some 0" "complete_page (page_of header ps @ rest)"
    "page_lacing (page_of header ps @ rest) = concat (map lace ps)" "page_body (page_of header ps @ rest) = concat ps"
    "page_end (page_of header ps @ rest) = length (page_of header ps)"
proof -
  let ?l = "concat (map lace ps)" and ?b = "page_of header ps @ rest"
  have h: "length header = 22" and l: "unat (of_nat (length ?l) :: byte) = length ?l"
    using assms unat_byte [of "length ?l"] by (simp_all add: page_fits_def)
  have n26: "unat (?b ! 26) = length ?l" using h l by (simp add: page_of_def nth_append)
  have d27: "drop 27 ?b = ?l @ concat ps @ rest" using h by (simp add: page_of_def)
  show lac: "page_lacing ?b = ?l" using n26 d27 by (simp add: page_lacing_def)
  show e: "page_end ?b = length (page_of header ps)" using n26 lac h body_length_lace [of ps] by (simp add: page_end_def page_of_def)
  have len: "length (page_of header ps) = 27 + length ?l + length (concat ps)" using h by (simp add: page_of_def)
  show "complete_page ?b" using n26 e len by (simp add: complete_page_def)
  have "drop (length ?l) (drop 27 ?b) = concat ps @ rest" unfolding d27 by simp
  then have db: "drop (27 + length ?l) ?b = concat ps @ rest" by (simp only: drop_drop add.commute)
  show "page_body ?b = concat ps" unfolding page_body_def n26 lac db body_length_lace by simp
  obtain a xs where "?b = a # xs" "take 4 (a # xs) = OGGS" by (simp add: page_of_def OGGS_def)
  then show "find_sub OGGS ?b = Some 0" by (simp add: OGGS_props(1))
qed

text \<open>
  The demultiplexer inverts the Ogg framing. A stream of pages that hold whole packets is
  parsed into exactly those packets, of any length (a packet of 255 bytes or more takes several
  lacing values, one of a multiple of 255 a closing zero), with nothing left in the buffer.
\<close>

theorem ogg_pages_roundtrip:
  assumes "list_all (\<lambda>(h, ps). page_fits h ps) pages"
  shows "parse_pages (concat (map (\<lambda>(h, ps). page_of h ps) pages)) = (concat (map snd pages), [])"
  using assms
proof (induction pages)
  case Nil
  show ?case by (simp add: parse_none keep_tail_def)
next
  case (Cons page pages)
  obtain h ps where page: "page = (h, ps)" by fastforce
  then have "page_fits h ps" using Cons.prems by simp
  note parts = page_parts [OF this, of "concat (map (\<lambda>(h, ps). page_of h ps) pages)"]
  show ?case
    using parse_complete [OF parts(1,2), of ps "[]"] parts unlace_packets [of ps] Cons page by simp
qed

theorem ogg_pages_roundtrip_witness:
  "parse_pages (page_of (replicate 22 0) [[1, 2], []] @ page_of (replicate 22 7) [[3]]) = ([[1, 2], [], [3]], [])"
proof -
  have "list_all (\<lambda>(h, ps). page_fits h ps) [(replicate 22 0, [[1, 2], []]), (replicate 22 7, [[3]])]"
    by (simp add: page_fits_def lace_def)
  from ogg_pages_roundtrip [OF this] show ?thesis by simp
qed

text \<open>
  A packet that continues on the next page loses its beginning: the open rest of the page is put
  before the next page's magic, and the search for the magic drops it.
\<close>

theorem continued_packet_truncated:
  assumes "find_sub OGGS (rest @ later) = Some (length rest)"
  shows "parse_pages (rest @ later) = parse_pages later"
  using parse_skip [OF assms] by simp

section \<open>Frames of PCM\<close>

text \<open>All frames until the end marker.\<close>

function pcm_frames :: "bytes \<Rightarrow> bytes list" where
  "pcm_frames stream =
     (case pcm_read stream of (frame, rest) \<Rightarrow> if frame = [] then [] else frame # pcm_frames rest)"
  by pat_completeness auto

termination
  by (relation "measure length") (auto simp: pcm_read_def FRAME_SIZE_def Let_def split: if_splits)

declare pcm_frames.simps [simp del]

lemma FRAME_SIZE_pos [simp]: "0 < FRAME_SIZE"
  by (simp add: FRAME_SIZE_def)

lemma pcm_read_frame: "stream \<noteq> [] \<Longrightarrow> length (fst (pcm_read stream)) = FRAME_SIZE"
  by (auto simp: pcm_read_def Let_def pad_frame_def)

text \<open>
  PCM framing loses nothing and ends. The frames read from a finite stream are all exactly one
  frame long, and put together they are the stream followed by less than a frame of zero bytes.
\<close>

theorem pcm_frames_cover:
  "list_all (\<lambda>f. length f = FRAME_SIZE) (pcm_frames stream) \<and>
   (\<exists>n < FRAME_SIZE. concat (pcm_frames stream) = stream @ replicate n 0)"
proof (induction stream rule: pcm_frames.induct)
  case (1 stream)
  show ?case
  proof (cases "stream = []")
    case True
    then show ?thesis by (auto simp: pcm_frames.simps [of "[]"] pcm_read_def Let_def intro!: exI [of _ 0])
  next
    case False
    obtain frame rest where r: "pcm_read stream = (frame, rest)" by fastforce
    then have "length frame = FRAME_SIZE" using pcm_read_frame [OF False] by simp
    then have f: "frame \<noteq> []" by (auto simp: FRAME_SIZE_def)
    note IH = "1.IH" [OF r [symmetric] f]
    have u: "pcm_frames stream = frame # pcm_frames rest" using r f by (simp add: pcm_frames.simps [of stream])
    show ?thesis
    proof (cases "length stream < FRAME_SIZE")
      case True
      then have "rest = []" "frame = stream @ replicate (FRAME_SIZE - length stream) 0"
        using r False by (auto simp: pcm_read_def Let_def pad_frame_def)
      moreover from this have "pcm_frames rest = []" by (simp add: pcm_frames.simps [of "[]"] pcm_read_def Let_def)
      ultimately show ?thesis using u False True \<open>length frame = FRAME_SIZE\<close> by (auto intro!: exI [of _ "FRAME_SIZE - length stream"])
    next
      case False
      then have "stream = frame @ rest" using r by (auto simp: pcm_read_def Let_def)
      then show ?thesis using u IH \<open>length frame = FRAME_SIZE\<close> by auto
    qed
  qed
qed

text \<open>However the pipe cuts the stream, ffmpeg's PCM comes in the frames that a file would give.\<close>

lemma read_exact_stream:
  "list_all (\<lambda>r. r \<noteq> []) reads \<Longrightarrow> length data < n \<Longrightarrow>
   fst (read_exact n data reads) = take n (data @ concat reads) \<and> concat (snd (read_exact n data reads)) = drop n (data @ concat reads)"
proof (induction n data reads rule: read_exact.induct)
  case (2 n data r reads)
  show ?case
  proof (cases "length data + length r < n")
    case True
    then show ?thesis using 2 by (simp add: Let_def)
  next
    case False
    then show ?thesis using "2.prems" by (auto simp: Let_def)
  qed
qed simp

theorem ffmpeg_pcm_agrees:
  assumes "list_all (\<lambda>r. r \<noteq> []) reads"
  shows "fst (ffmpeg_pcm_read None reads) = Inr (fst (pcm_read (concat reads))) \<and>
    concat (snd (ffmpeg_pcm_read None reads)) = snd (pcm_read (concat reads))"
  using read_exact_stream [OF assms, of "[]" FRAME_SIZE]
  by (auto simp: ffmpeg_pcm_read_def pcm_read_def Let_def case_prod_beta)

section \<open>Samples\<close>

fun samples :: "bytes \<Rightarrow> int list" where
  "samples (lo # hi # rest) = sample_of lo hi # samples rest"
| "samples _ = []"

lemma sample_roundtrip:
  assumes "-32768 \<le> v" "v \<le> 32767"
  shows "sample_of (word_of_int v) (word_of_int (v div 256)) = v"
proof -
  have lo: "int (unat (word_of_int v :: byte)) = v mod 256" and hi: "int (unat (word_of_int (v div 256) :: byte)) = v div 256 mod 256"
    by (simp_all add: uint_word_of_int flip: uint_nat)
  have "v mod 256 + 256 * (v div 256 mod 256) = v mod 65536"
    using zmod_zmult2_eq [of 256 v 256] by simp
  then have "sample_of (word_of_int v) (word_of_int (v div 256)) = signed_take_bit 15 (v mod 65536)"
    unfolding sample_of_def lo hi by simp
  also have "\<dots> = signed_take_bit 15 v"
    using signed_take_bit_take_bit [of 15 16 v] by (simp add: take_bit_eq_mod)
  also have "\<dots> = v" by (rule signed_take_bit_int_eq_self) (use assms in auto)
  finally show ?thesis .
qed

lemma scale_sample_bounds: "-32768 \<le> scale_sample mul volume v \<and> scale_sample mul volume v \<le> 32767"
  by (simp add: scale_sample_def)

text \<open>
  The volume transformer works sample by sample and saturates. A frame of an even number of
  bytes comes back with the same length, and sample \<open>i\<close> of the result is the scaled, truncated and
  clamped sample \<open>i\<close> of the frame; an odd number of bytes raises. This holds whatever the
  floating-point product \<open>mul\<close> returns: no sample wraps around.
\<close>

theorem volume_scales_samples:
  "case scale_frame mul volume frame of
     Inl e \<Rightarrow> odd (length frame)
   | Inr out \<Rightarrow> even (length frame) \<and> length out = length frame \<and>
       samples out = map (scale_sample mul volume) (samples frame)"
proof (induction mul volume frame rule: scale_frame.induct)
  case (3 mul volume lo hi rest)
  let ?v = "scale_sample mul volume (sample_of lo hi)"
  have "sample_of (word_of_int ?v) (word_of_int (?v div 256)) = ?v"
    using scale_sample_bounds [of mul volume] by (intro sample_roundtrip) blast+
  then show ?case using 3 by (cases "scale_frame mul volume rest") (simp_all add: sample_bytes_def)
qed simp_all

lemma volume_clamped: "0 \<le> set_volume v \<and> set_volume v \<le> 4 \<and> set_volume (set_volume v) = set_volume v"
  by (auto simp: set_volume_def)

lemma unit_volume_passthrough: "volume_read mul 1 frame = Inr frame"
  by (simp add: volume_read_def)

end
