(* ===== verification/FfmpegProcess.thy ===== *)
theory FfmpegProcess
  imports AudioSources PyText
begin

text \<open>
  The life of the ffmpeg process behind a source (src/vaidcord-py/src/vaidcord/voice/sources.py,
  \<open>_FFmpegSource\<close> and its two subclasses): command line, spawning on the first read, feeding of standard input,
  error reporting and cleanup. The operating system's processes are a list of objects; what they
  write and when they end is an argument. An operation of the source runs in one piece.
\<close>

section \<open>The source and its processes\<close>

datatype ffmpeg_kind = PcmOutput | OpusOutput int

record ffmpeg_source =
  fs_kind :: ffmpeg_kind
  fs_source :: string
  fs_pipe_stream :: "bool option"
  fs_before_options :: "string list"
  fs_options :: "string list"
  fs_executable :: string
  fs_process :: "nat option"
  fs_feeder :: "nat option"

text \<open>
  \<open>fs_pipe_stream\<close>: whether the stream to be piped in is still open. Of a process: its command line, whether it
  lives, the return code that asyncio knows of, what was written to its standard input and whether
  that was closed (None without a pipe).
\<close>

record os_process =
  op_argv :: "string list"
  op_alive :: bool
  op_returncode :: "int option"
  op_stdin :: "(bytes \<times> bool) option"

definition words_or_empty :: "string option \<Rightarrow> string list" where
  "words_or_empty v = (case v of None \<Rightarrow> [] | Some s \<Rightarrow> py_words s)"

definition new_ffmpeg ::
  "bool \<Rightarrow> ffmpeg_kind \<Rightarrow> string \<Rightarrow> bool \<Rightarrow> string option \<Rightarrow> string option \<Rightarrow> string \<Rightarrow> ffmpeg_source result" where
  "new_ffmpeg found kind source piped before_options options executable =
     (if \<not> found then Inl (OtherError ''MissingVoiceDependency'')
      else Inr \<lparr>fs_kind = kind, fs_source = source, fs_pipe_stream = (if piped then Some True else None),
                fs_before_options = words_or_empty before_options, fs_options = words_or_empty options,
                fs_executable = executable, fs_process = None, fs_feeder = None\<rparr>)"

definition output_args :: "ffmpeg_kind \<Rightarrow> string list" where
  "output_args k =
     (case k of
        PcmOutput \<Rightarrow> [''-f'', ''s16le'', ''-ar'', ''48000'', ''-ac'', ''2'']
      | OpusOutput kbps \<Rightarrow>
          [''-map_metadata'', ''-1'', ''-c:a'', ''libopus'', ''-b:a'', show_int kbps @ ''k'', ''-ar'', ''48000'', ''-ac'', ''2'', ''-f'', ''ogg''])"

definition ffmpeg_argv :: "ffmpeg_source \<Rightarrow> string list" where
  "ffmpeg_argv s =
     [fs_executable s, ''-hide_banner'', ''-loglevel'', ''error''] @ fs_before_options s @ [''-i'', fs_source s] @
     output_args (fs_kind s) @ fs_options s @ [''pipe:1'']"

definition spawn :: "exc option \<Rightarrow> ffmpeg_source \<Rightarrow> os_process list \<Rightarrow> nat result \<times> ffmpeg_source \<times> os_process list" where
  "spawn failed s ps =
     (case fs_process s of
        Some p \<Rightarrow> (Inr p, s, ps)
      | None \<Rightarrow>
          (case failed of
             Some e \<Rightarrow> (Inl e, s, ps)
           | None \<Rightarrow>
               (let p = length ps; piped = fs_pipe_stream s \<noteq> None in
                (Inr p, s\<lparr>fs_process := Some p, fs_feeder := (if piped then Some p else fs_feeder s)\<rparr>,
                 ps @ [\<lparr>op_argv = ffmpeg_argv s, op_alive = True, op_returncode = None,
                        op_stdin = (if piped then Some ([], False) else None)\<rparr>]))))"

text \<open>
  The feeder: chunks until the stream ends (an empty chunk), or until the pipe breaks; then it closes
  standard input. A chunk comes with whether its write still succeeded.
\<close>

fun feed :: "(bytes \<times> bool) list \<Rightarrow> bytes \<Rightarrow> bytes" where
  "feed [] written = written"
| "feed ((chunk, ok) # cs) written = (if chunk = [] then written else if ok then feed cs (written @ chunk) else written)"

definition feed_stdin :: "(bytes \<times> bool) list \<Rightarrow> os_process \<Rightarrow> os_process" where
  "feed_stdin cs p = p\<lparr>op_stdin := map_option (\<lambda>(w, _). (feed cs w, True)) (op_stdin p)\<rparr>"

text \<open>
  \<open>_read_exact\<close> on the process, and the check after an empty read: \<open>reaped\<close> is the return code that
  \<open>wait\<close> gives within five seconds.
\<close>

definition process_read ::
  "exc option \<Rightarrow> nat \<Rightarrow> bytes \<Rightarrow> bytes list \<Rightarrow> ffmpeg_source \<Rightarrow> os_process list \<Rightarrow>
   (bytes \<times> bytes list) result \<times> ffmpeg_source \<times> os_process list" where
  "process_read failed n data rest s ps =
     (case spawn failed s ps of
        (Inl e, s1, ps1) \<Rightarrow> (Inl e, s1, ps1)
      | (Inr p, s1, ps1) \<Rightarrow> (Inr (read_exact n data rest), s1, ps1))"

definition check_failed :: "int option \<Rightarrow> string \<Rightarrow> ffmpeg_source \<Rightarrow> os_process list \<Rightarrow> exc option \<times> os_process list" where
  "check_failed reaped stderr s ps =
     (case fs_process s of
        None \<Rightarrow> (None, ps)
      | Some p \<Rightarrow>
          (case op_returncode (ps ! p) of
             Some code \<Rightarrow> (raise_if_failed True (Some code) stderr, ps)
           | None \<Rightarrow>
               (case reaped of
                  None \<Rightarrow> (None, ps)
                | Some code \<Rightarrow>
                    (raise_if_failed True (Some code) stderr, ps[p := (ps ! p)\<lparr>op_alive := False, op_returncode := Some code\<rparr>]))))"

text \<open>
  \<open>cleanup\<close>; \<open>exits\<close>: the return code after a polite termination, None when five seconds are not enough.
  \<open>terminate\<close> raises for a process that has ended, which is ignored.
\<close>

definition ffmpeg_cleanup :: "int option \<Rightarrow> ffmpeg_source \<Rightarrow> os_process list \<Rightarrow> ffmpeg_source \<times> os_process list" where
  "ffmpeg_cleanup exits s ps =
     (let s1 = s\<lparr>fs_feeder := None, fs_process := None, fs_pipe_stream := map_option (\<lambda>_. False) (fs_pipe_stream s)\<rparr> in
      case fs_process s of
        None \<Rightarrow> (s1, ps)
      | Some p \<Rightarrow>
          if op_returncode (ps ! p) \<noteq> None then (s1, ps)
          else if \<not> op_alive (ps ! p) then (s1, ps)
          else (s1, ps[p := (ps ! p)\<lparr>op_alive := False, op_returncode := Some (case exits of Some code \<Rightarrow> code | None \<Rightarrow> - 9)\<rparr>]))"

section \<open>What can happen\<close>

datatype ffmpeg_event =
    SourceRead "exc option" nat bytes "bytes list"
  | CheckFailed "int option" string
  | FeederRuns "(bytes \<times> bool) list"
  | ProcessEnds nat
  | EndNoticed nat int
  | SourceCleanup "int option"

fun ffmpeg_happens :: "ffmpeg_event \<Rightarrow> ffmpeg_source \<times> os_process list \<Rightarrow> ffmpeg_source \<times> os_process list" where
  "ffmpeg_happens (SourceRead failed n data rest) (s, ps) = snd (process_read failed n data rest s ps)"
| "ffmpeg_happens (CheckFailed reaped stderr) (s, ps) = (s, snd (check_failed reaped stderr s ps))"
| "ffmpeg_happens (FeederRuns cs) (s, ps) =
     (case fs_feeder s of None \<Rightarrow> (s, ps) | Some p \<Rightarrow> (s, ps[p := feed_stdin cs (ps ! p)]))"
| "ffmpeg_happens (ProcessEnds p) (s, ps) = (s, ps[p := (ps ! p)\<lparr>op_alive := False\<rparr>])"
| "ffmpeg_happens (EndNoticed p code) (s, ps) =
     (if op_alive (ps ! p) then (s, ps) else (s, ps[p := (ps ! p)\<lparr>op_returncode := Some code\<rparr>]))"
| "ffmpeg_happens (SourceCleanup exits) (s, ps) = ffmpeg_cleanup exits s ps"

section \<open>No process is left behind\<close>

text \<open>Only the process of the source lives, and one whose return code is known does not.\<close>

definition owned_at :: "ffmpeg_source \<Rightarrow> nat \<Rightarrow> os_process \<Rightarrow> bool" where
  "owned_at s i x \<longleftrightarrow> (op_alive x \<longrightarrow> fs_process s = Some i \<and> op_returncode x = None \<and> op_argv x = ffmpeg_argv s)"

definition processes_owned :: "ffmpeg_source \<Rightarrow> os_process list \<Rightarrow> bool" where
  "processes_owned s ps \<longleftrightarrow>
     (\<forall>i < length ps. owned_at s i (ps ! i)) \<and> (case fs_process s of None \<Rightarrow> True | Some p \<Rightarrow> p < length ps)"

lemma argv_update [simp]:
  "ffmpeg_argv (s\<lparr>fs_process := p\<rparr>) = ffmpeg_argv s" "ffmpeg_argv (s\<lparr>fs_feeder := f\<rparr>) = ffmpeg_argv s"
  "ffmpeg_argv (s\<lparr>fs_pipe_stream := b\<rparr>) = ffmpeg_argv s"
  by (simp_all add: ffmpeg_argv_def)

lemma owned_nth: "processes_owned s ps \<Longrightarrow> i < length ps \<Longrightarrow> owned_at s i (ps ! i)"
  by (simp add: processes_owned_def)

lemma owned_update:
  assumes "processes_owned s ps" and "p < length ps \<Longrightarrow> owned_at s p x"
  shows "processes_owned s (ps[p := x])"
proof -
  have "owned_at s i (ps[p := x] ! i)" if "i < length ps" for i
    using assms(2) owned_nth [OF assms(1) that] that by (cases "p = i") simp_all
  then show ?thesis using assms(1) by (auto simp: processes_owned_def split: option.split)
qed

lemma owned_spawn:
  assumes "processes_owned s ps"
  shows "processes_owned (fst (snd (spawn failed s ps))) (snd (snd (spawn failed s ps)))"
proof (cases "fs_process s = None \<and> failed = None")
  case True
  then have dead: "\<not> op_alive (ps ! i)" if "i < length ps" for i
    using owned_nth [OF assms that] by (simp add: owned_at_def)
  show ?thesis using True dead by (simp add: spawn_def Let_def processes_owned_def owned_at_def nth_append less_Suc_eq)
next
  case False
  then show ?thesis using assms by (auto simp: spawn_def split: option.split)
qed

lemma owned_cleanup:
  assumes "processes_owned s ps"
  shows "processes_owned (fst (ffmpeg_cleanup exits s ps)) (snd (ffmpeg_cleanup exits s ps))"
    and "i < length ps \<Longrightarrow> \<not> op_alive (snd (ffmpeg_cleanup exits s ps) ! i)"
    and "length (snd (ffmpeg_cleanup exits s ps)) = length ps"
proof -
  show len: "length (snd (ffmpeg_cleanup exits s ps)) = length ps" by (simp add: ffmpeg_cleanup_def Let_def split: option.split)
  show dead: "\<not> op_alive (snd (ffmpeg_cleanup exits s ps) ! i)" if i: "i < length ps" for i
  proof (cases "fs_process s = Some i")
    case True
    then show ?thesis using owned_nth [OF assms i] i by (simp add: ffmpeg_cleanup_def Let_def owned_at_def)
  next
    case False
    then have "\<not> op_alive (ps ! i)" using owned_nth [OF assms i] by (simp add: owned_at_def)
    then show ?thesis using False by (cases "fs_process s") (simp_all add: ffmpeg_cleanup_def Let_def)
  qed
  have "fs_process (fst (ffmpeg_cleanup exits s ps)) = None" by (simp add: ffmpeg_cleanup_def Let_def split: option.split)
  then show "processes_owned (fst (ffmpeg_cleanup exits s ps)) (snd (ffmpeg_cleanup exits s ps))"
    using dead by (simp add: processes_owned_def len owned_at_def)
qed

lemma owned_happens:
  assumes "processes_owned s ps"
  shows "processes_owned (fst (ffmpeg_happens e (s, ps))) (snd (ffmpeg_happens e (s, ps)))"
proof (cases e)
  case (SourceRead failed n data rest)
  show ?thesis
    using owned_spawn [OF assms, of failed] unfolding SourceRead
    by (cases "spawn failed s ps") (simp add: process_read_def split: sum.split)
next
  case (CheckFailed reaped stderr)
  have "processes_owned s (ps[p := (ps ! p)\<lparr>op_alive := False, op_returncode := Some code\<rparr>])" for p code
    by (rule owned_update [OF assms]) (simp add: owned_at_def)
  then show ?thesis using assms unfolding CheckFailed by (simp add: check_failed_def split: option.split)
next
  case (FeederRuns cs)
  have "processes_owned s (ps[p := feed_stdin cs (ps ! p)])" for p
    using owned_nth [OF assms, of p] by (intro owned_update [OF assms]) (simp add: feed_stdin_def owned_at_def)
  then show ?thesis using assms unfolding FeederRuns by (simp split: option.split)
next
  case (ProcessEnds p)
  show ?thesis unfolding ProcessEnds by (simp add: owned_update [OF assms] owned_at_def)
next
  case (EndNoticed p code)
  show ?thesis unfolding EndNoticed using assms by (simp add: owned_update owned_at_def)
next
  case (SourceCleanup exits)
  show ?thesis unfolding SourceCleanup using owned_cleanup(1) [OF assms] by simp
qed

lemma owned_run: "processes_owned (fst w) (snd w) \<Longrightarrow> processes_owned (fst (fold ffmpeg_happens es w)) (snd (fold ffmpeg_happens es w))"
proof (induction es arbitrary: w)
  case (Cons e es)
  then show ?case using owned_happens [of "fst w" "snd w" e] by simp
qed simp

text \<open>
  C39: no ffmpeg process outlives its source. Whatever a new source goes through - reads that spawn, failing spawns, processes
  that end by themselves, earlier cleanups - at most the one process it holds lives, with the
  command line of the source, and after a cleanup none lives, no feeder runs and the piped
  stream is closed.
\<close>

theorem no_process_left_behind:
  assumes "new_ffmpeg found kind source piped before_options options executable = Inr s0"
    and "fold ffmpeg_happens es (s0, []) = (s, ps)"
  shows "list_all (\<lambda>i. op_alive (ps ! i) \<longrightarrow> fs_process s = Some i \<and> op_argv (ps ! i) = ffmpeg_argv s) [0..<length ps] \<and>
    list_all (\<lambda>p. \<not> op_alive p) (snd (ffmpeg_cleanup exits s ps)) \<and>
    fs_feeder (fst (ffmpeg_cleanup exits s ps)) = None \<and> fs_pipe_stream (fst (ffmpeg_cleanup exits s ps)) \<noteq> Some True"
proof -
  have "processes_owned s0 []" using assms(1) by (auto simp: new_ffmpeg_def processes_owned_def split: if_splits)
  then have own: "processes_owned s ps" using owned_run [of "(s0, [])" es] assms(2) by simp
  have "list_all (\<lambda>p. \<not> op_alive p) (snd (ffmpeg_cleanup exits s ps))"
    using owned_cleanup(2,3) [OF own] by (simp add: list_all_length)
  moreover have "fs_feeder (fst (ffmpeg_cleanup exits s ps)) = None \<and> fs_pipe_stream (fst (ffmpeg_cleanup exits s ps)) \<noteq> Some True"
    by (auto simp: ffmpeg_cleanup_def Let_def split: option.split)
  ultimately show ?thesis using own by (simp add: processes_owned_def owned_at_def list_all_iff)
qed

definition demo_events :: "ffmpeg_event list" where
  "demo_events =
     [SourceRead None 4 [1, 2] [[3, 4]], FeederRuns [([7], True), ([], True)], SourceCleanup None, SourceRead None 4 [] [], ProcessEnds 1]"

theorem no_process_left_behind_witness:
  "\<exists>s0 s ps. new_ffmpeg True PcmOutput ''pipe:0'' True (Some ''-re'') None ''ffmpeg'' = Inr s0 \<and>
     fold ffmpeg_happens demo_events (s0, []) = (s, ps) \<and> length ps = 2 \<and>
     list_all (\<lambda>p. \<not> op_alive p) (snd (ffmpeg_cleanup (Some 0) s ps))"
proof -
  obtain s0 where s0: "new_ffmpeg True PcmOutput ''pipe:0'' True (Some ''-re'') None ''ffmpeg'' = Inr s0"
    by (simp add: new_ffmpeg_def)
  obtain s ps where run: "fold ffmpeg_happens demo_events (s0, []) = (s, ps)" by fastforce
  have "length ps = 2"
    using run s0 by (auto simp: demo_events_def new_ffmpeg_def process_read_def spawn_def ffmpeg_cleanup_def Let_def feed_stdin_def)
  then show ?thesis using no_process_left_behind [OF s0 run, of "Some 0"] s0 run by blast
qed

text \<open>A read after the cleanup starts ffmpeg again.\<close>

lemma read_respawns:
  "\<exists>s2 ps2 x. ffmpeg_happens (SourceRead None n data rest) (ffmpeg_cleanup exits s ps) = (s2, ps2 @ [x]) \<and> op_alive x"
  by (cases "fs_process s") (simp_all add: ffmpeg_cleanup_def Let_def process_read_def spawn_def)

end
