(* ===== verification/AudioBackends.thy ===== *)
theory AudioBackends
  imports VoiceSession FfmpegProcess
begin

text \<open>
  The ctypes binding to libopus (src/vaidcord-py/src/vaidcord/voice/opus.py: \<open>Encoder\<close> and \<open>Decoder\<close>) and the
  helpers of voice/audio.py that play a file. What a function of libopus returns is an argument; every
  call of it is recorded with the pointer it is given, None being NULL.
\<close>

section \<open>Calls of libopus\<close>

datatype lib_call =
    EncoderCreate int int int
  | EncoderCtl "nat option" int int
  | EncodeCall "nat option" nat
  | EncoderDestroy "nat option"
  | DecoderCreate int int
  | DecodeCall "nat option" nat bool
  | DecoderDestroy "nat option"

primrec call_pointer :: "lib_call \<Rightarrow> nat option" where
  "call_pointer (EncoderCreate a b c) = None"
| "call_pointer (EncoderCtl p r v) = p"
| "call_pointer (EncodeCall p n) = p"
| "call_pointer (EncoderDestroy p) = p"
| "call_pointer (DecoderCreate a b) = None"
| "call_pointer (DecodeCall p n f) = p"
| "call_pointer (DecoderDestroy p) = p"

definition check_code :: "int \<Rightarrow> int result" where
  "check_code code = (if code < 0 then Inl (OtherError (''OpusError '' @ show_int code)) else Inr code)"

section \<open>The encoder\<close>

text \<open>\<open>en_state\<close>: the pointer, None after \<open>close\<close>.\<close>

record opus_encoder =
  en_state :: "nat option"
  en_channels :: nat
  en_calls :: "lib_call list"

definition encoder_ctl :: "int \<Rightarrow> int \<Rightarrow> int \<Rightarrow> opus_encoder \<Rightarrow> unit result \<times> opus_encoder" where
  "encoder_ctl code request v e =
     (map_sum id (\<lambda>_. ()) (check_code code), e\<lparr>en_calls := en_calls e @ [EncoderCtl (en_state e) request v]\<rparr>)"

definition clamp_bitrate :: "int \<Rightarrow> int" where
  "clamp_bitrate kbps = min 512 (max 16 kbps) * 1024"

definition clamp_loss :: "real \<Rightarrow> int" where
  "clamp_loss fraction = \<lfloor>min 1 (max 0 fraction) * 100\<rfloor>"

primrec encoder_ctls :: "(int \<times> int \<times> int) list \<Rightarrow> opus_encoder \<Rightarrow> unit result \<times> opus_encoder" where
  "encoder_ctls [] e = (Inr (), e)"
| "encoder_ctls (c # cs) e =
     (case encoder_ctl (fst c) (fst (snd c)) (snd (snd c)) e of
        (Inl x, e1) \<Rightarrow> (Inl x, e1)
      | (Inr _, e1) \<Rightarrow> encoder_ctls cs e1)"

text \<open>
  \<open>created\<close> is what \<open>opus_encoder_create\<close> returns with its error code, \<open>codes\<close> what the five settings return.
\<close>

definition new_encoder ::
  "nat option \<times> int \<Rightarrow> int \<times> int \<times> int \<times> int \<times> int \<Rightarrow> int \<Rightarrow> int \<Rightarrow> bool \<Rightarrow> real \<Rightarrow> int \<Rightarrow> int \<Rightarrow> nat \<Rightarrow> unit result \<times> opus_encoder" where
  "new_encoder created codes application bitrate_kbps fec expected_packet_loss signal sample_rate channels =
     (let e = \<lparr>en_state = fst created, en_channels = channels, en_calls = [EncoderCreate sample_rate (int channels) application]\<rparr> in
      case check_code (snd created) of
        Inl x \<Rightarrow> (Inl x, e)
      | Inr _ \<Rightarrow>
          if fst created = None then (Inl (OtherError ''opus_encoder_create returned NULL''), e)
          else
            (let (a, b, c, d, f) = codes in
             encoder_ctls [(a, 4002, clamp_bitrate bitrate_kbps), (b, 4008, 1105), (c, 4012, if fec then 1 else 0),
               (d, 4014, clamp_loss expected_packet_loss), (f, 4024, signal)] e))"

definition set_bitrate :: "int \<Rightarrow> int \<Rightarrow> opus_encoder \<Rightarrow> unit result \<times> opus_encoder" where
  "set_bitrate code kbps e = encoder_ctl code 4002 (clamp_bitrate kbps) e"

definition set_expected_packet_loss :: "int \<Rightarrow> real \<Rightarrow> opus_encoder \<Rightarrow> unit result \<times> opus_encoder" where
  "set_expected_packet_loss code fraction e = encoder_ctl code 4014 (clamp_loss fraction) e"

definition reset_encoder :: "int \<Rightarrow> opus_encoder \<Rightarrow> unit result \<times> opus_encoder" where
  "reset_encoder code e = encoder_ctl code 4028 0 e"

text \<open>\<open>out\<close> is what libopus writes, \<open>code\<close> what it returns; the input is padded to the frame.\<close>

definition padded_pcm :: "bytes \<Rightarrow> nat \<Rightarrow> opus_encoder \<Rightarrow> bytes" where
  "padded_pcm pcm frame_samples e = pcm @ replicate (frame_samples * en_channels e * 2 - length pcm) 0"

definition encoder_encode :: "int \<Rightarrow> bytes \<Rightarrow> bytes \<Rightarrow> nat \<Rightarrow> opus_encoder \<Rightarrow> bytes result \<times> opus_encoder" where
  "encoder_encode code out pcm frame_samples e =
     (case en_state e of
        None \<Rightarrow> (Inl (OtherError ''encoder is closed''), e)
      | Some p \<Rightarrow>
          (map_sum id (\<lambda>written. take (nat written) out) (check_code code),
           e\<lparr>en_calls := en_calls e @ [EncodeCall (Some p) (length (padded_pcm pcm frame_samples e))]\<rparr>))"

definition encoder_close :: "opus_encoder \<Rightarrow> opus_encoder" where
  "encoder_close e =
     (case en_state e of
        None \<Rightarrow> e
      | Some p \<Rightarrow> e\<lparr>en_state := None, en_calls := en_calls e @ [EncoderDestroy (Some p)]\<rparr>)"

section \<open>The decoder\<close>

record opus_decoder =
  de_state :: "nat option"
  de_channels :: nat
  de_calls :: "lib_call list"

definition new_decoder :: "nat option \<times> int \<Rightarrow> int \<Rightarrow> nat \<Rightarrow> unit result \<times> opus_decoder" where
  "new_decoder created sample_rate channels =
     (let d = \<lparr>de_state = fst created, de_channels = channels, de_calls = [DecoderCreate sample_rate (int channels)]\<rparr> in
      case check_code (snd created) of
        Inl x \<Rightarrow> (Inl x, d)
      | Inr _ \<Rightarrow> if fst created = None then (Inl (OtherError ''opus_decoder_create returned NULL''), d) else (Inr (), d))"

definition packet_frame_samples :: "int \<Rightarrow> int \<Rightarrow> int result" where
  "packet_frame_samples nb_frames per_frame =
     bind_result (check_code nb_frames) (\<lambda>frames. bind_result (check_code per_frame) (\<lambda>each. Inr (frames * each)))"

text \<open>\<open>buffer\<close>: the bytes of the sample buffer after the call, of which the decoded samples are returned.\<close>

definition decoder_decode ::
  "int \<Rightarrow> int \<Rightarrow> int \<Rightarrow> bytes \<Rightarrow> bytes option \<Rightarrow> bool \<Rightarrow> opus_decoder \<Rightarrow> bytes result \<times> opus_decoder" where
  "decoder_decode nb_frames per_frame code buffer packet fec d =
     (case de_state d of
        None \<Rightarrow> (Inl (OtherError ''decoder is closed''), d)
      | Some p \<Rightarrow>
          (case (case packet of None \<Rightarrow> Inr 960 | Some _ \<Rightarrow> map_sum id (min 5760) (packet_frame_samples nb_frames per_frame)) of
             Inl x \<Rightarrow> (Inl x, d)
           | Inr frame_samples \<Rightarrow>
               (map_sum id (\<lambda>n. take (nat n * de_channels d * 2) buffer) (check_code code),
                d\<lparr>de_calls := de_calls d @ [DecodeCall (Some p) (nat frame_samples) fec]\<rparr>)))"

definition decoder_close :: "opus_decoder \<Rightarrow> opus_decoder" where
  "decoder_close d =
     (case de_state d of
        None \<Rightarrow> d
      | Some p \<Rightarrow> d\<lparr>de_state := None, de_calls := de_calls d @ [DecoderDestroy (Some p)]\<rparr>)"

section \<open>Playing a file\<close>

record audio_backend_status =
  ab_ffmpeg :: bool
  ab_opuslib :: bool
  ab_pynacl :: bool
  ab_cryptography :: bool
  ab_libopus :: bool

definition opus_ready :: "audio_backend_status \<Rightarrow> bool" where
  "opus_ready s \<longleftrightarrow> ab_libopus s \<or> ab_opuslib s"

definition missing_playback :: "audio_backend_status \<Rightarrow> string list" where
  "missing_playback s = (if ab_ffmpeg s then [] else [''ffmpeg'']) @ (if opus_ready s then [] else [''libopus''])"

definition missing_encryption :: "audio_backend_status \<Rightarrow> string list" where
  "missing_encryption s = (if ab_pynacl s then [] else [''PyNaCl'']) @ (if ab_cryptography s then [] else [''cryptography''])"

definition playback_ready :: "audio_backend_status \<Rightarrow> bool" where
  "playback_ready s \<longleftrightarrow> missing_playback s = []"

definition encryption_ready :: "audio_backend_status \<Rightarrow> bool" where
  "encryption_ready s \<longleftrightarrow> missing_encryption s = []"

definition raise_for_playback :: "audio_backend_status \<Rightarrow> unit result" where
  "raise_for_playback s = (if playback_ready s then Inr () else Inl (OtherError ''MissingVoiceDependency''))"

function iter_file_chunks :: "nat \<Rightarrow> bytes \<Rightarrow> bytes list" where
  "iter_file_chunks n stream = (if n = 0 \<or> stream = [] then [] else take n stream # iter_file_chunks n (drop n stream))"
  by pat_completeness auto

termination
  by (relation "measure (\<lambda>(n, s). length s)") auto

declare iter_file_chunks.simps [simp del]

text \<open>One \<open>read(n)\<close> of a pipe: at most n bytes of what has arrived, which is the first piece.\<close>

fun pipe_read :: "nat \<Rightarrow> bytes list \<Rightarrow> bytes \<times> bytes list" where
  "pipe_read n [] = ([], [])"
| "pipe_read n (r # rs) =
     (if r = [] then pipe_read n rs else (take n r, if length r \<le> n then rs else drop n r # rs))"

lemma pipe_read_less: "0 < n \<Longrightarrow> fst (pipe_read n rs) \<noteq> [] \<Longrightarrow> length (concat (snd (pipe_read n rs))) < length (concat rs)"
  by (induction rs) auto

text \<open>The frames that \<open>iter_pcm_s16le_frames\<close> yields from the pieces that ffmpeg writes.\<close>

function pcm_pipe_frames :: "nat \<Rightarrow> bytes list \<Rightarrow> bytes list" where
  "pcm_pipe_frames n rs =
     (if n = 0 then []
      else
        (let (chunk, rest) = pipe_read n rs in
         if chunk = [] then [] else (chunk @ replicate (n - length chunk) 0) # pcm_pipe_frames n rest))"
  by pat_completeness auto

termination
  by (relation "measure (\<lambda>(n, rs). length (concat rs))") (auto, metis pipe_read_less fst_conv snd_conv)

declare pcm_pipe_frames.simps [simp del]

definition frame_bytes :: "nat \<Rightarrow> nat \<Rightarrow> nat \<Rightarrow> nat" where
  "frame_bytes sample_rate frame_duration_ms channels = sample_rate * frame_duration_ms div 1000 * channels * 2"

text \<open>\<open>iter_opus_frames\<close>: every non-empty packet; an exception of the encoder ends it.\<close>

fun opus_frames :: "(bytes \<Rightarrow> bytes result) \<Rightarrow> bytes list \<Rightarrow> exc option \<times> bytes list" where
  "opus_frames encode [] = (None, [])"
| "opus_frames encode (pcm # rest) =
     (case encode pcm of
        Inl e \<Rightarrow> (Some e, [])
      | Inr packet \<Rightarrow> (let (x, ps) = opus_frames encode rest in (x, if packet = [] then ps else packet # ps)))"

text \<open>\<open>play_file\<close>: an exception of the frames ends the stream after what was sent, in the finally block of \<open>stream_audio\<close>.\<close>

definition play_file ::
  "'b dave_ops \<Rightarrow> crypto_lib \<Rightarrow> audio_backend_status \<Rightarrow> int \<Rightarrow> int \<Rightarrow> exc option \<Rightarrow> (bytes \<times> exc option) list \<Rightarrow> ('b, nat) vprog" where
  "play_file ops lib status step ptype silence_sent fs c =
     (case raise_for_playback status of
        Inl e \<Rightarrow> (Inl (PyExn e), c)
      | Inr _ \<Rightarrow>
          (case stream_audio ops lib step ptype True silence_sent fs c of
             (Inl e, c1) \<Rightarrow> (Inl e, c1)
           | (Inr n, c1) \<Rightarrow> if n = 0 then (Inl (PyExn (OtherError ''Audio file produced no Opus frames'')), c1) else (Inr n, c1)))"

section \<open>Pointers\<close>

datatype encoder_op =
    SetBitrate int int
  | SetLoss int real
  | ResetState int
  | EncodeFrame int bytes bytes nat
  | CloseEncoder

primrec encoder_do :: "encoder_op \<Rightarrow> opus_encoder \<Rightarrow> opus_encoder" where
  "encoder_do (SetBitrate code kbps) e = snd (set_bitrate code kbps e)"
| "encoder_do (SetLoss code fraction) e = snd (set_expected_packet_loss code fraction e)"
| "encoder_do (ResetState code) e = snd (reset_encoder code e)"
| "encoder_do (EncodeFrame code out pcm frame_samples) e = snd (encoder_encode code out pcm frame_samples e)"
| "encoder_do CloseEncoder e = encoder_close e"

text \<open>
  \<open>pointer_discipline p cs\<close>: after the pointer is destroyed it is never given to libopus again. The calls are
  read from the left.
\<close>

fun pointer_discipline :: "nat \<Rightarrow> lib_call list \<Rightarrow> bool" where
  "pointer_discipline p [] = True"
| "pointer_discipline p (c # cs) =
     ((c = EncoderDestroy (Some p) \<or> c = DecoderDestroy (Some p) \<longrightarrow> list_all (\<lambda>d. call_pointer d \<noteq> Some p) cs) \<and> pointer_discipline p cs)"

definition destroys :: "nat \<Rightarrow> lib_call \<Rightarrow> bool" where
  "destroys p c \<longleftrightarrow> c = EncoderDestroy (Some p) \<or> c = DecoderDestroy (Some p)"

lemma discipline_append:
  "pointer_discipline p (cs @ [c]) \<longleftrightarrow> pointer_discipline p cs \<and> (list_ex (destroys p) cs \<longrightarrow> call_pointer c \<noteq> Some p)"
  by (induction cs) (auto simp: destroys_def)

definition encoder_inv :: "nat \<Rightarrow> opus_encoder \<Rightarrow> bool" where
  "encoder_inv p e \<longleftrightarrow>
     pointer_discipline p (en_calls e) \<and> list_all (\<lambda>c. call_pointer c \<in> {None, Some p}) (en_calls e) \<and> (en_state e = None \<or> en_state e = Some p) \<and>
     (en_state e = Some p \<longrightarrow> \<not> list_ex (destroys p) (en_calls e)) \<and>
     (en_state e = None \<longrightarrow> list_ex (destroys p) (en_calls e))"

lemma encoder_ctl_inv: "encoder_inv p e \<Longrightarrow> encoder_inv p (snd (encoder_ctl code request v e))"
  by (auto simp: encoder_inv_def encoder_ctl_def discipline_append destroys_def)

lemma encoder_ctls_inv: "encoder_inv p e \<Longrightarrow> encoder_inv p (snd (encoder_ctls cs e))"
proof (induction cs arbitrary: e)
  case (Cons c cs)
  then show ?case using encoder_ctl_inv [of p e "fst c" "fst (snd c)" "snd (snd c)"]
    by (cases "encoder_ctl (fst c) (fst (snd c)) (snd (snd c)) e") (simp split: sum.split)
qed simp

lemma encoder_do_inv:
  assumes "encoder_inv p e"
  shows "encoder_inv p (encoder_do op e)"
proof (cases op)
  case (EncodeFrame code out pcm n)
  then show ?thesis using assms
    by (auto simp: encoder_encode_def encoder_inv_def discipline_append destroys_def split: option.split)
next
  case CloseEncoder
  then show ?thesis using assms
    by (auto simp: encoder_close_def encoder_inv_def discipline_append destroys_def split: option.split)
qed (use encoder_ctl_inv [OF assms] in \<open>simp_all add: set_bitrate_def set_expected_packet_loss_def reset_encoder_def\<close>)

lemma encoder_run_inv: "encoder_inv p e \<Longrightarrow> encoder_inv p (fold encoder_do ops e)"
  by (induction ops arbitrary: e) (auto intro: encoder_do_inv)

lemma closed_stays: "en_state e = None \<Longrightarrow> en_state (fold encoder_do ops e) = None"
proof (induction ops arbitrary: e)
  case (Cons q ops)
  have "en_state (encoder_do q e) = None"
    using Cons.prems by (cases q) (simp_all add: set_bitrate_def set_expected_packet_loss_def reset_encoder_def encoder_ctl_def encoder_encode_def encoder_close_def)
  then show ?case using Cons.IH by simp
qed simp

lemma closed_by: "CloseEncoder \<in> set ops \<Longrightarrow> en_state (fold encoder_do ops e) = None"
proof (induction ops arbitrary: e)
  case (Cons q ops)
  show ?case
  proof (cases "q = CloseEncoder")
    case True
    have "en_state (encoder_close e) = None" by (simp add: encoder_close_def split: option.split)
    then show ?thesis using closed_stays True by simp
  next
    case False
    then show ?thesis using Cons by simp
  qed
qed simp

text \<open>
  C40: the encoder is safe to use and to close. Whatever is done to an encoder after its construction, in any order, a destroyed
  pointer is never given to libopus again, so it is neither used after its destruction nor
  destroyed twice, every pointer given is the one created or NULL, and once the encoder is closed
  encoding raises without a call.
\<close>

theorem encoder_pointer_safe:
  assumes "new_encoder (Some p, code) codes application kbps fec loss signal sample_rate channels = (x, e0)" and "0 \<le> code"
    and "e = fold encoder_do ops e0"
  shows "pointer_discipline p (en_calls e) \<and>
    list_all (\<lambda>c. call_pointer c \<in> {None, Some p}) (en_calls e) \<and>
    (CloseEncoder \<in> set ops \<longrightarrow> encoder_encode code' out pcm n e = (Inl (OtherError ''encoder is closed''), e))"
proof -
  let ?c = "\<lparr>en_state = Some p, en_channels = channels, en_calls = [EncoderCreate sample_rate (int channels) application]\<rparr>"
  have start: "encoder_inv p ?c" by (simp add: encoder_inv_def destroys_def)
  obtain a b c d f where codes: "codes = (a, b, c, d, f)" by (cases codes) auto
  have "e0 = snd (encoder_ctls [(a, 4002, clamp_bitrate kbps), (b, 4008, 1105), (c, 4012, if fec then 1 else 0),
      (d, 4014, clamp_loss loss), (f, 4024, signal)] ?c)"
    using assms(1,2) by (simp add: new_encoder_def check_code_def codes Let_def del: encoder_ctls.simps)
  then have "encoder_inv p e0" using encoder_ctls_inv [OF start] by (simp only:)
  then have "encoder_inv p e" using encoder_run_inv assms(3) by simp
  then show ?thesis using closed_by [of ops e0] assms(3) by (auto simp: encoder_inv_def encoder_encode_def)
qed

theorem encoder_pointer_safe_witness:
  "pointer_discipline 7 (en_calls (fold encoder_do [EncodeFrame 3 [1, 2, 3] [] 960, CloseEncoder, CloseEncoder]
     (snd (new_encoder (Some 7, 0) (0, 0, 0, 0, 0) 2049 128 True (15 / 100) 3002 48000 2))))"
  using encoder_pointer_safe [of 7 0 "(0, 0, 0, 0, 0)" 2049 128 True "15 / 100" 3002 48000 2 _ _ _ "[EncodeFrame 3 [1, 2, 3] [] 960, CloseEncoder, CloseEncoder]", OF surjective_pairing _ refl]
  by simp

text \<open>A setting after \<open>close\<close> is not guarded: libopus gets NULL.\<close>

lemma reset_after_close_passes_null:
  "en_calls (snd (reset_encoder code (encoder_close e))) = en_calls (encoder_close e) @ [EncoderCtl None 4028 0]"
  by (cases "en_state e") (simp_all add: reset_encoder_def encoder_ctl_def encoder_close_def)

section \<open>Frames of a file\<close>

lemma file_chunks_concat: "0 < n \<Longrightarrow> concat (iter_file_chunks n stream) = stream"
proof (induction n stream rule: iter_file_chunks.induct)
  case (1 n stream)
  then show ?case by (subst iter_file_chunks.simps) auto
qed

text \<open>
  A pipe read that comes back short is padded with silence in the middle of the audio; the source of the
  player reads on until the frame is complete.
\<close>

lemma short_read_inserts_silence:
  assumes "a \<noteq> []" and "b \<noteq> []" and "length a + length b = FRAME_SIZE"
  shows "pcm_pipe_frames FRAME_SIZE [a, b] = [pad_frame a, pad_frame b] \<and> ffmpeg_pcm_read None [a, b] = (Inr (a @ b), [])"
proof -
  have len: "length a < FRAME_SIZE" "length b < FRAME_SIZE" "0 < FRAME_SIZE"
    using assms(3) length_greater_0_conv [of a] length_greater_0_conv [of b] assms(1,2) unfolding FRAME_SIZE_def by linarith+
  have ends: "pcm_pipe_frames FRAME_SIZE [] = []" by (subst pcm_pipe_frames.simps) simp
  have "pcm_pipe_frames FRAME_SIZE [b] = [pad_frame b]"
    using assms(2) len ends by (subst pcm_pipe_frames.simps) (simp add: Let_def pad_frame_def)
  then have frames: "pcm_pipe_frames FRAME_SIZE [a, b] = [pad_frame a, pad_frame b]"
    using assms(1) len by (subst pcm_pipe_frames.simps) (simp add: Let_def pad_frame_def)
  have "read_exact FRAME_SIZE [] [a, b] = (a @ b, [])" using assms len by (simp add: Let_def)
  then show ?thesis using frames assms by (simp add: ffmpeg_pcm_read_def)
qed

end
