(* ===== verification/AudioPlayer.thy ===== *)
theory AudioPlayer
  imports AudioSources VoiceSession
begin

text \<open>
  Playback (src/vaidcord-py/src/vaidcord/voice/player.py): the loop of \<open>AudioPlayer._run\<close> over
  the operations of the voice connection, its deadline schedule and its \<open>finally\<close> block.
  Nothing in the package cancels the player's task, so cancellation is left out.
\<close>

section \<open>State and environment\<close>

definition SAMPLE_RATE :: int where
  "SAMPLE_RATE = 48000"

text \<open>
  \<open>pl_encoder\<close>: an encoder object exists; \<open>pl_cleanups\<close> counts the calls of \<open>source.cleanup\<close>,
  \<open>pl_after\<close> lists the arguments of the calls of the \<open>after\<close> callback.
\<close>

record player =
  pl_is_opus :: bool
  pl_speaking_flags :: int
  pl_frame_duration :: real
  pl_timestamp_step :: int
  pl_has_after :: bool
  pl_started :: bool
  pl_resumed :: bool
  pl_stopped :: bool
  pl_done :: bool
  pl_sent_frames :: nat
  pl_error :: "voice_exn option"
  pl_encoder :: bool
  pl_deadline :: real
  pl_cleanups :: nat
  pl_after :: "voice_exn option list"

definition new_player :: "bool \<Rightarrow> bool \<Rightarrow> int \<Rightarrow> int \<Rightarrow> player" where
  "new_player is_opus has_after speaking_flags frame_duration_ms =
     \<lparr>pl_is_opus = is_opus, pl_speaking_flags = speaking_flags, pl_frame_duration = real_of_int frame_duration_ms / 1000,
      pl_timestamp_step = SAMPLE_RATE * frame_duration_ms div 1000, pl_has_after = has_after, pl_started = False, pl_resumed = True,
      pl_stopped = False, pl_done = False, pl_sent_frames = 0, pl_error = None, pl_encoder = False, pl_deadline = 0,
      pl_cleanups = 0, pl_after = []\<rparr>"

definition player_start :: "player \<Rightarrow> player result" where
  "player_start p = (if pl_started p then Inl (RuntimeError ''AudioPlayer is already started'') else Inr (p\<lparr>pl_started := True\<rparr>))"

definition player_is_playing :: "player \<Rightarrow> bool" where
  "player_is_playing p \<longleftrightarrow> pl_started p \<and> \<not> pl_done p \<and> pl_resumed p"

definition player_is_paused :: "player \<Rightarrow> bool" where
  "player_is_paused p \<longleftrightarrow> \<not> pl_done p \<and> \<not> pl_resumed p"

text \<open>What the rest of the program calls on a player while the loop is suspended.\<close>

datatype control = Pause_call | Resume_call | Stop_call

primrec control_player :: "control \<Rightarrow> player \<Rightarrow> player" where
  "control_player Pause_call p = p\<lparr>pl_resumed := False\<rparr>"
| "control_player Resume_call p = p\<lparr>pl_resumed := True\<rparr>"
| "control_player Stop_call p = p\<lparr>pl_stopped := True, pl_resumed := True\<rparr>"

definition player_wait :: "player \<Rightarrow> (voice_exn + unit) option" where
  "player_wait p = (if \<not> pl_done p then None else Some (case pl_error p of Some e \<Rightarrow> Inl e | None \<Rightarrow> Inr ()))"

text \<open>
  One round of the loop as its environment sees it: the calls made on the player since the last
  round, and while it waits on \<open>_resumed\<close>; what the source returns; what the UDP socket raises;
  and the readings of the clock.
\<close>

record tick =
  tk_calls :: "control list"
  tk_silence :: "exc option"
  tk_wake_calls :: "control list"
  tk_wake :: real
  tk_read :: "bytes result"
  tk_send :: "exc option"
  tk_now :: real
  tk_resync :: real

section \<open>The loop\<close>

text \<open>\<open>_encode\<close>: the encoder (libopus) is created at the first PCM frame; \<open>encode\<close> is its call.\<close>

definition encode_frame :: "(bytes \<Rightarrow> int \<Rightarrow> bytes result) \<Rightarrow> bytes \<Rightarrow> player \<Rightarrow> bytes result \<times> player" where
  "encode_frame encode frame p =
     (if pl_is_opus p then (Inr frame, p) else (encode frame (pl_timestamp_step p), p\<lparr>pl_encoder := True\<rparr>))"

text \<open>The deadline after a frame, and how long the loop then sleeps.\<close>

definition pace :: "real \<Rightarrow> real \<Rightarrow> real \<Rightarrow> real \<Rightarrow> real" where
  "pace duration deadline now resync = (if deadline + duration - now < -1/10 then resync else deadline + duration)"

definition sleep_time :: "real \<Rightarrow> real \<Rightarrow> real \<Rightarrow> real" where
  "sleep_time duration deadline now = max 0 (deadline + duration - now)"

text \<open>Five frames of silence and the end of speaking; then, in a pause, waiting and speaking again.\<close>

definition quiet :: "'b dave_ops \<Rightarrow> crypto_lib \<Rightarrow> exc option \<Rightarrow> ('b, unit) vprog" where
  "quiet ops lib sent = vbind (send_silence_frames ops lib sent 5 SILENCE_FRAME 960 0x78) (\<lambda>_. set_speaking 0 0)"

datatype play_end = Play_over | Play_error voice_exn | Play_running

definition pause_round ::
  "'b dave_ops \<Rightarrow> crypto_lib \<Rightarrow> tick \<Rightarrow> player \<Rightarrow> 'b voice_connection \<Rightarrow> play_end \<times> player \<times> 'b voice_connection" where
  "pause_round ops lib t p c =
     (if pl_resumed p then (Play_running, p, c)
      else
        (case quiet ops lib (tk_silence t) c of
           (Inl e, c1) \<Rightarrow> (Play_error e, p, c1)
         | (Inr _, c1) \<Rightarrow>
             (let p1 = (fold control_player (tk_wake_calls t) p)\<lparr>pl_resumed := True\<rparr> in
              if pl_stopped p1 then (Play_over, p1, c1)
              else
                (case set_speaking (pl_speaking_flags p1) 0 c1 of
                   (Inl e, c2) \<Rightarrow> (Play_error e, p1, c2)
                 | (Inr _, c2) \<Rightarrow> (Play_running, p1\<lparr>pl_deadline := tk_wake t\<rparr>, c2)))))"

definition play_frame ::
  "'b dave_ops \<Rightarrow> crypto_lib \<Rightarrow> (bytes \<Rightarrow> int \<Rightarrow> bytes result) \<Rightarrow> tick \<Rightarrow> player \<Rightarrow> 'b voice_connection \<Rightarrow>
   play_end \<times> player \<times> 'b voice_connection" where
  "play_frame ops lib encode t p c =
     (case tk_read t of
        Inl e \<Rightarrow> (Play_error (PyExn e), p, c)
      | Inr frame \<Rightarrow>
          if frame = [] then (Play_over, p, c)
          else
            (case encode_frame encode frame p of
               (Inl e, p1) \<Rightarrow> (Play_error (PyExn e), p1, c)
             | (Inr packet, p1) \<Rightarrow>
                 (case send_audio_frame ops lib (tk_send t) packet (pl_timestamp_step p1) 0x78 True c of
                    (Inl e, c1) \<Rightarrow> (Play_error e, p1, c1)
                  | (Inr _, c1) \<Rightarrow>
                      (Play_running,
                       p1\<lparr>pl_sent_frames := pl_sent_frames p1 + 1,
                          pl_deadline := pace (pl_frame_duration p1) (pl_deadline p1) (tk_now t) (tk_resync t)\<rparr>, c1))))"

definition play_round ::
  "'b dave_ops \<Rightarrow> crypto_lib \<Rightarrow> (bytes \<Rightarrow> int \<Rightarrow> bytes result) \<Rightarrow> tick \<Rightarrow> player \<Rightarrow> 'b voice_connection \<Rightarrow>
   play_end \<times> player \<times> 'b voice_connection" where
  "play_round ops lib encode t p c =
     (let p1 = fold control_player (tk_calls t) p in
      if pl_stopped p1 then (Play_over, p1, c)
      else
        (case pause_round ops lib t p1 c of
           (Play_running, p2, c1) \<Rightarrow> play_frame ops lib encode t p2 c1
         | r \<Rightarrow> r))"

fun play_loop ::
  "'b dave_ops \<Rightarrow> crypto_lib \<Rightarrow> (bytes \<Rightarrow> int \<Rightarrow> bytes result) \<Rightarrow> tick list \<Rightarrow> player \<Rightarrow> 'b voice_connection \<Rightarrow>
   play_end \<times> player \<times> 'b voice_connection" where
  "play_loop ops lib encode [] p c = (Play_running, p, c)"
| "play_loop ops lib encode (t # ts) p c =
     (case play_round ops lib encode t p c of
        (Play_running, p1, c1) \<Rightarrow> play_loop ops lib encode ts p1 c1
      | r \<Rightarrow> r)"

text \<open>
  The \<open>finally\<close> block: \<open>last_sent\<close> is what the UDP socket raises for the closing silence; errors
  of the closing calls, of \<open>cleanup\<close> and of \<open>after\<close> are only logged.
\<close>

definition finish_player ::
  "'b dave_ops \<Rightarrow> crypto_lib \<Rightarrow> exc option \<Rightarrow> bool \<Rightarrow> voice_exn option \<Rightarrow> player \<Rightarrow> 'b voice_connection \<Rightarrow> player \<times> 'b voice_connection" where
  "finish_player ops lib last_sent started_speaking err p c =
     (p\<lparr>pl_error := err, pl_cleanups := pl_cleanups p + 1, pl_encoder := False, pl_done := True,
        pl_after := (if pl_has_after p then pl_after p @ [err] else pl_after p)\<rparr>,
      if started_speaking then snd (quiet ops lib last_sent c) else c)"

definition run_player ::
  "'b dave_ops \<Rightarrow> crypto_lib \<Rightarrow> (bytes \<Rightarrow> int \<Rightarrow> bytes result) \<Rightarrow> exc option \<Rightarrow> real \<Rightarrow> tick list \<Rightarrow> player \<Rightarrow> 'b voice_connection \<Rightarrow>
   player \<times> 'b voice_connection" where
  "run_player ops lib encode last_sent now ts p c =
     (case set_speaking (pl_speaking_flags p) 0 c of
        (Inl e, c1) \<Rightarrow> finish_player ops lib last_sent False (Some e) p c1
      | (Inr _, c1) \<Rightarrow>
          (case play_loop ops lib encode ts (p\<lparr>pl_deadline := now\<rparr>) c1 of
             (Play_running, p1, c2) \<Rightarrow> (p1, c2)
           | (Play_over, p1, c2) \<Rightarrow> finish_player ops lib last_sent True None p1 c2
           | (Play_error e, p1, c2) \<Rightarrow> finish_player ops lib last_sent True (Some e) p1 c2))"

text \<open>\<open>VoiceConnection.play\<close>, given the connection's current player.\<close>

definition connection_play :: "player option \<Rightarrow> player \<Rightarrow> player result" where
  "connection_play current fresh =
     (case current of
        Some p \<Rightarrow> if \<not> pl_done p then Inl (RuntimeError ''Already playing audio; call stop() first'') else player_start fresh
      | None \<Rightarrow> player_start fresh)"

section \<open>What a round keeps\<close>

text \<open>Fields the loop never touches.\<close>

definition same_ends :: "player \<Rightarrow> player \<Rightarrow> bool" where
  "same_ends p p' \<longleftrightarrow> pl_done p' = pl_done p \<and> pl_cleanups p' = pl_cleanups p \<and> pl_after p' = pl_after p \<and>
     pl_has_after p' = pl_has_after p \<and> pl_frame_duration p' = pl_frame_duration p \<and> pl_error p' = pl_error p"

lemma same_ends_refl [simp]: "same_ends p p"
  by (simp add: same_ends_def)

lemma same_ends_trans: "same_ends p q \<Longrightarrow> same_ends q r \<Longrightarrow> same_ends p r"
  by (simp add: same_ends_def)

lemma control_keeps:
  "same_ends p (fold control_player cs p) \<and> pl_sent_frames (fold control_player cs p) = pl_sent_frames p \<and>
   pl_deadline (fold control_player cs p) = pl_deadline p"
proof (induction cs arbitrary: p)
  case (Cons k cs)
  then show ?case using Cons [of "control_player k p"] by (cases k) (auto simp: same_ends_def)
qed simp

lemma stopped_stays: "pl_stopped p \<or> Stop_call \<in> set cs \<Longrightarrow> pl_stopped (fold control_player cs p)"
proof (induction cs arbitrary: p)
  case (Cons k cs)
  then show ?case by (cases k) auto
qed simp

lemma pause_keeps:
  assumes "pause_round ops lib t p c = (r, p', c')"
  shows "same_ends p p' \<and> pl_sent_frames p' = pl_sent_frames p \<and> (r = Play_running \<longrightarrow> pl_deadline p' = pl_deadline p \<or> pl_deadline p' = tk_wake t)"
  using assms control_keeps [of p "tk_wake_calls t"]
  by (auto simp: pause_round_def Let_def same_ends_def split: if_splits prod.splits sum.splits)

lemma frame_keeps:
  assumes "play_frame ops lib encode t p c = (r, p', c')"
  shows "same_ends p p' \<and> (r = Play_running \<longrightarrow> pl_sent_frames p' = pl_sent_frames p + 1 \<and>
    pl_deadline p' = pace (pl_frame_duration p) (pl_deadline p) (tk_now t) (tk_resync t))"
  using assms
  by (auto simp: play_frame_def encode_frame_def same_ends_def split: if_splits prod.splits sum.splits)

lemma round_keeps:
  assumes "play_round ops lib encode t p c = (r, p', c')"
  shows "same_ends p p'"
proof -
  let ?p = "fold control_player (tk_calls t) p"
  obtain x q d where q: "pause_round ops lib t ?p c = (x, q, d)" by (metis prod_cases3)
  have "same_ends ?p q" using pause_keeps [OF q] by blast
  then have "same_ends p q" using control_keeps same_ends_trans by blast
  moreover have "same_ends q p' \<or> p' = q \<or> p' = ?p"
    using assms q frame_keeps [of ops lib encode t q d r p' c']
    by (auto simp: play_round_def Let_def split: if_splits play_end.splits)
  ultimately show ?thesis using control_keeps [of p "tk_calls t"] same_ends_trans by auto
qed

text \<open>A round that goes on sent one frame, from the old deadline or from the time it woke up.\<close>

lemma round_running:
  assumes "play_round ops lib encode t p c = (Play_running, p', c')"
  obtains d where "d = pl_deadline p \<or> d = tk_wake t"
    "pl_deadline p' = pace (pl_frame_duration p) d (tk_now t) (tk_resync t)" "pl_sent_frames p' = pl_sent_frames p + 1"
proof -
  let ?p = "fold control_player (tk_calls t) p"
  obtain x q d where q: "pause_round ops lib t ?p c = (x, q, d)" by (metis prod_cases3)
  have x: "x = Play_running" and f: "play_frame ops lib encode t q d = (Play_running, p', c')"
    using assms q by (auto simp: play_round_def Let_def split: if_splits play_end.splits)
  have "pl_deadline q = pl_deadline p \<or> pl_deadline q = tk_wake t" "pl_sent_frames q = pl_sent_frames p" "pl_frame_duration q = pl_frame_duration p"
    using pause_keeps [OF q] control_keeps [of p "tk_calls t"] x by (auto simp: same_ends_def)
  then show thesis using frame_keeps [OF f] that by auto
qed

lemma loop_keeps: "play_loop ops lib encode ts p c = (r, p', c') \<Longrightarrow> same_ends p p'"
proof (induction ts arbitrary: p c)
  case (Cons t ts)
  obtain x q d where q: "play_round ops lib encode t p c = (x, q, d)" by (metis prod_cases3)
  have "same_ends p q" by (rule round_keeps [OF q])
  then show ?case using Cons q same_ends_trans by (cases x) auto
qed simp

theorem stop_ends_playback:
  assumes "Stop_call \<in> set (tk_calls t)"
  shows "play_loop ops lib encode (t # ts) p c = (Play_over, fold control_player (tk_calls t) p, c)"
  using stopped_stays [of p "tk_calls t"] assms by (simp add: play_round_def)

text \<open>
  Playback always releases what it holds. However the loop ends - the source is exhausted,
  \<open>stop\<close> was called (also during a pause), the source, the encoder, the websocket or the UDP
  socket raised, even the first speaking call - the source is cleaned up exactly once, the
  encoder is closed, waiters are released and the callback is called exactly once with the error
  of the playback; none of this happens while the loop still runs.
\<close>

theorem player_releases_everything:
  "case run_player ops lib encode last_sent now ts (new_player is_opus has_after flags ms) c of (p', c') \<Rightarrow>
     if pl_done p'
     then pl_cleanups p' = 1 \<and> \<not> pl_encoder p' \<and> pl_after p' = (if has_after then [pl_error p'] else []) \<and>
       player_wait p' = Some (case pl_error p' of Some e \<Rightarrow> Inl e | None \<Rightarrow> Inr ())
     else pl_cleanups p' = 0 \<and> pl_after p' = [] \<and> pl_error p' = None \<and>
       fst (play_loop ops lib encode ts ((new_player is_opus has_after flags ms)\<lparr>pl_deadline := now\<rparr>) (snd (set_speaking flags 0 c))) = Play_running"
proof -
  let ?p = "new_player is_opus has_after flags ms"
  obtain x c1 where s: "set_speaking flags 0 c = (x, c1)" by fastforce
  obtain r q d where l: "play_loop ops lib encode ts (?p\<lparr>pl_deadline := now\<rparr>) c1 = (r, q, d)" by (metis prod_cases3)
  have "same_ends (?p\<lparr>pl_deadline := now\<rparr>) q" by (rule loop_keeps [OF l])
  then have q: "\<not> pl_done q" "pl_cleanups q = 0" "pl_after q = []" "pl_has_after q = has_after" "pl_error q = None"
    by (simp_all add: same_ends_def new_player_def)
  have flags: "pl_speaking_flags ?p = flags" by (simp add: new_player_def)
  show ?thesis
  proof (cases x)
    case (Inl e)
    then show ?thesis by (simp add: run_player_def flags s finish_player_def player_wait_def new_player_def)
  next
    case (Inr u)
    then show ?thesis using q by (cases r) (simp_all add: run_player_def flags s l finish_player_def player_wait_def)
  qed
qed

section \<open>Pacing\<close>

text \<open>
  The clock: readings of a round come in order, and \<open>asyncio.sleep\<close> does not return before the
  deadline it was called for, so that the next round starts at \<open>max now deadline\<close> at the earliest.
\<close>

fun clock_ok ::
  "'b dave_ops \<Rightarrow> crypto_lib \<Rightarrow> (bytes \<Rightarrow> int \<Rightarrow> bytes result) \<Rightarrow> real \<Rightarrow> tick list \<Rightarrow> player \<Rightarrow> 'b voice_connection \<Rightarrow> bool" where
  "clock_ok ops lib encode earliest [] p c = True"
| "clock_ok ops lib encode earliest (t # ts) p c =
     (earliest \<le> tk_wake t \<and> tk_wake t \<le> tk_now t \<and> tk_now t \<le> tk_resync t \<and>
      (case play_round ops lib encode t p c of (_, p1, c1) \<Rightarrow> clock_ok ops lib encode (max (tk_now t) (pl_deadline p1)) ts p1 c1))"

lemma sleep_until_deadline:
  "now \<le> resync \<Longrightarrow>
   max now (pace duration d now resync) = (if d + duration - now < -1/10 then resync else now + sleep_time duration d now)"
  by (auto simp: pace_def sleep_time_def)

lemma pace_bounds:
  assumes "now \<le> resync"
  shows "d + duration \<le> pace duration d now resync" "now - 1/10 \<le> pace duration d now resync"
  using assms by (auto simp: pace_def)

lemma loop_deadlines:
  assumes "play_loop ops lib encode ts p c = (Play_running, p', c')" and "clock_ok ops lib encode earliest ts p c"
    and "pl_deadline p \<le> earliest" and "ts \<noteq> []" and "0 \<le> pl_frame_duration p"
  shows "pl_sent_frames p' = pl_sent_frames p + length ts \<and>
    pl_deadline p + (real (length ts) - 1) * pl_frame_duration p \<le> tk_now (List.last ts)"
  using assms
proof (induction ts arbitrary: p c earliest)
  case (Cons t ts)
  obtain q d where q: "play_round ops lib encode t p c = (Play_running, q, d)"
    and rest: "play_loop ops lib encode ts q d = (Play_running, p', c')"
    using Cons.prems(1) by (auto split: prod.splits play_end.splits)
  obtain e where e: "e = pl_deadline p \<or> e = tk_wake t" "pl_deadline q = pace (pl_frame_duration p) e (tk_now t) (tk_resync t)"
    "pl_sent_frames q = pl_sent_frames p + 1"
    using round_running [OF q] by blast
  have clock: "earliest \<le> tk_wake t" "tk_wake t \<le> tk_now t" "tk_now t \<le> tk_resync t"
    "clock_ok ops lib encode (max (tk_now t) (pl_deadline q)) ts q d"
    using Cons.prems(2) q by simp_all
  have "pl_deadline p + pl_frame_duration p \<le> pl_deadline q"
    using pace_bounds(1) [OF clock(3), of e "pl_frame_duration p"] e(1,2) clock(1) Cons.prems(3) by auto
  moreover have dur: "pl_frame_duration q = pl_frame_duration p" using round_keeps [OF q] by (simp add: same_ends_def)
  ultimately show ?case
  proof (cases "ts = []")
    case True
    then show ?thesis using rest e clock Cons.prems(3) by simp
  next
    case False
    have "pl_sent_frames p' = pl_sent_frames q + length ts \<and>
        pl_deadline q + (real (length ts) - 1) * pl_frame_duration q \<le> tk_now (List.last ts)"
      by (rule Cons.IH [OF rest clock(4)]) (use False dur Cons.prems in simp_all)
    then show ?thesis using False e(3) dur \<open>pl_deadline p + pl_frame_duration p \<le> pl_deadline q\<close> by (simp add: algebra_simps)
  qed
qed simp


definition example_tick :: "real \<Rightarrow> tick" where
  "example_tick now = \<lparr>tk_calls = [], tk_silence = None, tk_wake_calls = [], tk_wake = now, tk_read = Inr [1, 2], tk_send = None,
     tk_now = now, tk_resync = now\<rparr>"

lemmas example_send_simps =
  send_audio_frame_def described_connection_def demo_connection_def vbind_def vlift_def build_rtp_packet_def pack_uint_def
  on_dave_def encrypt_frame_def initial_dave_state_def encrypt_voice_payload_def transport_box_def create_voice_box_def
  voice_mode_name_def vret_def vmodify_def advance_sender_def

lemma example_round:
  assumes "\<not> pl_stopped p" "pl_resumed p" "pl_is_opus p" "pl_timestamp_step p = 960"
    and "send_audio_frame ops lib None [1, 2] 960 0x78 True c = (Inr (), c')"
  shows "play_round ops lib encode (example_tick now) p c =
    (Play_running, p\<lparr>pl_sent_frames := pl_sent_frames p + 1, pl_deadline := pace (pl_frame_duration p) (pl_deadline p) now now\<rparr>, c')"
  using assms by (simp add: play_round_def pause_round_def play_frame_def encode_frame_def example_tick_def)


end
