(* ===== verification/DaveCrypto.thy ===== *)
theory DaveCrypto
  imports Prelude
begin

text \<open>
  The primitives of the DAVE end-to-end encryption (src/vaidcord-py/src/vaidcord/voice/dave/
  crypto: kdf.py, frame.py, aead.py, ratchet.py). HKDF-Expand and AES-GCM are third-party
  functions and parameters; the label encoding, the nonce layout and the ratchet with its
  bounded cache of skipped keys are the code's own.
\<close>

section \<open>Key derivation\<close>

text \<open>
  HKDF-Expand as \<open>prk\<close>, \<open>info\<close> and length to that many bytes; the laws the code relies on
  are named where they are needed.
\<close>

type_synonym hkdf = "bytes \<Rightarrow> bytes \<Rightarrow> nat \<Rightarrow> bytes"

definition ascii :: "string \<Rightarrow> bytes" where
  "ascii s = map (\<lambda>c. word_of_nat (of_char c)) s"

definition DAVE_KDF_SENDER_LABEL :: bytes where
  "DAVE_KDF_SENDER_LABEL = ascii ''DAVE-sender''"

definition DAVE_KDF_RATCHET_LABEL :: bytes where
  "DAVE_KDF_RATCHET_LABEL = ascii ''DAVE-ratchet''"

definition hkdf_expand :: "hkdf \<Rightarrow> bytes \<Rightarrow> bytes \<Rightarrow> int \<Rightarrow> bytes result" where
  "hkdf_expand H prk info len =
     (if len \<le> 0 then Inl (ValueError ''hkdf_expand: length must be positive'')
      else Inr (H prk info (nat len)))"

definition hkdf_info :: "bytes \<Rightarrow> bytes \<Rightarrow> int \<Rightarrow> bytes result" where
  "hkdf_info label context len =
     bind_result (to_bytes_big len 2) (\<lambda>l.
     bind_result (to_bytes_big (int (length label)) 1) (\<lambda>ll.
     bind_result (to_bytes_big (int (length context)) 2) (\<lambda>lc.
       Inr (l @ ll @ label @ lc @ context))))"

definition hkdf_expand_label :: "hkdf \<Rightarrow> bytes \<Rightarrow> bytes \<Rightarrow> bytes \<Rightarrow> int \<Rightarrow> bytes result" where
  "hkdf_expand_label H secret label context len =
     bind_result (hkdf_info label context len) (\<lambda>info. hkdf_expand H secret info len)"

section \<open>Frame nonces\<close>

definition build_frame_nonce :: "int \<Rightarrow> int \<Rightarrow> int \<Rightarrow> bytes" where
  "build_frame_nonce ssrc generation counter =
     be_encode 4 (nat (ssrc mod 2 ^ 32)) @ be_encode 4 (nat (generation mod 2 ^ 32)) @
     be_encode 4 (nat (counter mod 2 ^ 32))"

definition parse_frame_nonce :: "bytes \<Rightarrow> (nat \<times> nat \<times> nat) result" where
  "parse_frame_nonce nonce =
     (if length nonce \<noteq> 12 then Inl (ValueError ''DAVE frame nonce must be 12 bytes'')
      else Inr (be_decode (take 4 nonce), be_decode (take 4 (drop 4 nonce)), be_decode (take 4 (drop 8 nonce))))"

definition build_frame_aad :: "int \<Rightarrow> int \<Rightarrow> int \<Rightarrow> bytes \<Rightarrow> bytes" where
  "build_frame_aad ssrc generation counter extra = build_frame_nonce ssrc generation counter @ extra"

section \<open>Frame AEAD\<close>

text \<open>AES-GCM: key, nonce, text, associated data; None is the library's InvalidTag.\<close>

record gcm =
  gcm_encrypt :: "bytes \<Rightarrow> bytes \<Rightarrow> bytes \<Rightarrow> bytes \<Rightarrow> bytes"
  gcm_decrypt :: "bytes \<Rightarrow> bytes \<Rightarrow> bytes \<Rightarrow> bytes \<Rightarrow> bytes option"

definition AES128_KEY_BYTES :: nat where
  "AES128_KEY_BYTES = 16"

definition GCM_NONCE_BYTES :: nat where
  "GCM_NONCE_BYTES = 12"

definition check_aead :: "bytes \<Rightarrow> bytes \<Rightarrow> unit result" where
  "check_aead key nonce =
     (if length key \<noteq> AES128_KEY_BYTES then Inl (ValueError ''AES-128-GCM key must be 16 bytes'')
      else if length nonce \<noteq> GCM_NONCE_BYTES then Inl (ValueError ''AES-128-GCM nonce must be 12 bytes'')
      else Inr ())"

definition aes128gcm_encrypt :: "gcm \<Rightarrow> bytes \<Rightarrow> bytes \<Rightarrow> bytes \<Rightarrow> bytes \<Rightarrow> bytes result" where
  "aes128gcm_encrypt G key nonce plaintext aad =
     bind_result (check_aead key nonce) (\<lambda>_. Inr (gcm_encrypt G key nonce plaintext aad))"

definition aes128gcm_decrypt :: "gcm \<Rightarrow> bytes \<Rightarrow> bytes \<Rightarrow> bytes \<Rightarrow> bytes \<Rightarrow> bytes result" where
  "aes128gcm_decrypt G key nonce ciphertext aad =
     bind_result (check_aead key nonce) (\<lambda>_.
       case gcm_decrypt G key nonce ciphertext aad of
         None \<Rightarrow> Inl (OtherError ''InvalidTag'')
       | Some pt \<Rightarrow> Inr pt)"

definition frame_aead :: "bytes \<Rightarrow> bytes result" where
  "frame_aead key = (if length key \<noteq> AES128_KEY_BYTES then Inl (ValueError ''FrameAEAD key must be 16 bytes'') else Inr key)"

section \<open>The ratchet\<close>

record ratchet_key =
  rk_generation :: nat
  rk_key :: bytes
  rk_nonce_seed :: bytes

record ratchet =
  rt_chain :: bytes
  rt_generation :: nat
  rt_max_skip :: nat
  rt_skipped :: "(nat, ratchet_key) dict"

definition CHAIN_SECRET_BYTES :: nat where
  "CHAIN_SECRET_BYTES = 32"

definition NONCE_SEED_BYTES :: nat where
  "NONCE_SEED_BYTES = 12"

definition new_ratchet :: "bytes \<Rightarrow> nat \<Rightarrow> ratchet result" where
  "new_ratchet base max_skip =
     (if length base \<noteq> CHAIN_SECRET_BYTES then Inl (ValueError ''base_secret must be 32 bytes'')
      else Inr \<lparr>rt_chain = base, rt_generation = 0, rt_max_skip = max_skip, rt_skipped = []\<rparr>)"

definition ratchet_step :: "hkdf \<Rightarrow> ratchet \<Rightarrow> (ratchet_key \<times> ratchet) result" where
  "ratchet_step H r =
     bind_result (to_bytes_big (int (rt_generation r)) 4) (\<lambda>gen4.
     bind_result (hkdf_expand_label H (rt_chain r) (DAVE_KDF_RATCHET_LABEL @ ascii ''-key'') gen4
         (int (AES128_KEY_BYTES + NONCE_SEED_BYTES))) (\<lambda>derived.
     bind_result (hkdf_expand_label H (rt_chain r) (DAVE_KDF_RATCHET_LABEL @ ascii ''-chain'') gen4
         (int CHAIN_SECRET_BYTES)) (\<lambda>chain.
       Inr (\<lparr>rk_generation = rt_generation r, rk_key = take AES128_KEY_BYTES derived,
             rk_nonce_seed = drop AES128_KEY_BYTES derived\<rparr>,
            r\<lparr>rt_chain := chain, rt_generation := Suc (rt_generation r)\<rparr>))))"

text \<open>\<open>del self._skipped[min(self._skipped)]\<close> when the cache is full, then the insertion.\<close>

definition drop_oldest :: "nat \<Rightarrow> (nat, ratchet_key) dict \<Rightarrow> (nat, ratchet_key) dict" where
  "drop_oldest max_skip d =
     (if max_skip \<le> length d \<and> d \<noteq> [] then dict_pop d (Min (fst ` set d)) else d)"

definition stash :: "ratchet_key \<Rightarrow> ratchet \<Rightarrow> ratchet" where
  "stash k r = r\<lparr>rt_skipped := dict_set (drop_oldest (rt_max_skip r) (rt_skipped r)) (rk_generation k) k\<rparr>"

text \<open>The loop of \<open>derive_for\<close>, with the number of steps left.\<close>

primrec derive_loop :: "hkdf \<Rightarrow> nat \<Rightarrow> nat \<Rightarrow> ratchet \<Rightarrow> (ratchet_key \<times> ratchet) result" where
  "derive_loop H target 0 r = ratchet_step H r"
| "derive_loop H target (Suc n) r =
     bind_result (ratchet_step H r) (\<lambda>(k, r1). derive_loop H target n (stash k r1))"

definition derive_for :: "hkdf \<Rightarrow> nat \<Rightarrow> ratchet \<Rightarrow> (ratchet_key \<times> ratchet) result" where
  "derive_for H generation r =
     (if generation < rt_generation r then
        (case map_of (rt_skipped r) generation of
           None \<Rightarrow> Inl (KeyError ''Ratchet generation is no longer available'')
         | Some k \<Rightarrow> Inr (k, r\<lparr>rt_skipped := dict_pop (rt_skipped r) generation\<rparr>))
      else if rt_max_skip r < generation - rt_generation r then
        Inl (ValueError ''Refusing to skip generations'')
      else derive_loop H generation (generation - rt_generation r) r)"

section \<open>The key schedule of a chain\<close>

definition ratchet_info :: "string \<Rightarrow> nat \<Rightarrow> nat \<Rightarrow> bytes" where
  "ratchet_info suffix n len =
     (let label = DAVE_KDF_RATCHET_LABEL @ ascii suffix in
      be_encode 2 len @ be_encode 1 (length label) @ label @ be_encode 2 4 @ be_encode 4 n)"

primrec chain_at :: "hkdf \<Rightarrow> bytes \<Rightarrow> nat \<Rightarrow> bytes" where
  "chain_at H base 0 = base"
| "chain_at H base (Suc n) = H (chain_at H base n) (ratchet_info ''-chain'' n 32) 32"

definition key_at :: "hkdf \<Rightarrow> bytes \<Rightarrow> nat \<Rightarrow> ratchet_key" where
  "key_at H base n =
     (let derived = H (chain_at H base n) (ratchet_info ''-key'' n 28) 28 in
      \<lparr>rk_generation = n, rk_key = take 16 derived, rk_nonce_seed = drop 16 derived\<rparr>)"

lemma rk_generation_key_at [simp]: "rk_generation (key_at H base n) = n"
  by (simp add: key_at_def Let_def)

definition ratchet_inv :: "hkdf \<Rightarrow> bytes \<Rightarrow> ratchet \<Rightarrow> bool" where
  "ratchet_inv H base r \<longleftrightarrow>
     rt_chain r = chain_at H base (rt_generation r) \<and> dict_wf (rt_skipped r) \<and>
     length (rt_skipped r) \<le> rt_max_skip r \<and>
     (\<forall>g k. map_of (rt_skipped r) g = Some k \<longrightarrow> g < rt_generation r \<and> k = key_at H base g)"

lemma length_ascii [simp]: "length (ascii s) = length s"
  by (simp add: ascii_def)

lemma hkdf_ratchet_label:
  assumes "n < 2 ^ 32" and "length suffix < 200" and "0 < len" and "len < 2 ^ 16"
  shows "hkdf_expand_label H secret (DAVE_KDF_RATCHET_LABEL @ ascii suffix) (be_encode 4 n) (int len) =
    Inr (H secret (ratchet_info suffix n len) len)"
  using assms
  by (simp add: hkdf_expand_label_def hkdf_info_def to_bytes_big_def hkdf_expand_def ratchet_info_def
      DAVE_KDF_RATCHET_LABEL_def Let_def nat_add_distrib)

lemma ratchet_step_eq:
  assumes "rt_generation r < 2 ^ 32" and "rt_chain r = chain_at H base (rt_generation r)"
  shows "ratchet_step H r = Inr (key_at H base (rt_generation r),
    r\<lparr>rt_chain := chain_at H base (Suc (rt_generation r)), rt_generation := Suc (rt_generation r)\<rparr>)"
  using assms hkdf_ratchet_label [of "rt_generation r" "''-key''" 28 H "rt_chain r"]
    hkdf_ratchet_label [of "rt_generation r" "''-chain''" 32 H "rt_chain r"]
  by (simp add: ratchet_step_def to_bytes_big_def key_at_def AES128_KEY_BYTES_def NONCE_SEED_BYTES_def
      CHAIN_SECRET_BYTES_def Let_def)

lemma ratchet_step_overflow: "2 ^ 32 \<le> rt_generation r \<Longrightarrow> ratchet_step H r = Inl OverflowError"
  by (simp add: ratchet_step_def to_bytes_big_def)

lemma length_dict_pop_less: "k \<in> fst ` set d \<Longrightarrow> length (dict_pop d k) < length d"
  unfolding dict_pop_def by (auto intro!: length_filter_less)

lemma length_dict_set_le: "length (dict_set d k v) \<le> Suc (length d)"
  by (induction d) auto

lemma drop_oldest_wf: "dict_wf d \<Longrightarrow> dict_wf (drop_oldest m d)"
  by (simp add: drop_oldest_def dict_wf_pop)

lemma drop_oldest_sub: "map_of (drop_oldest m d) g = Some k \<Longrightarrow> map_of d g = Some k"
  by (simp add: drop_oldest_def split: if_splits)

lemma drop_oldest_length:
  assumes "0 < m" and "length d \<le> m"
  shows "length (drop_oldest m d) < m"
proof (cases "m \<le> length d")
  case True
  then have ne: "d \<noteq> []" using assms(1) by auto
  then have "Min (fst ` set d) \<in> fst ` set d" by (intro Min_in) auto
  from length_dict_pop_less [OF this] show ?thesis using True ne assms(2) by (simp add: drop_oldest_def)
qed (simp add: drop_oldest_def)

lemma stash_inv:
  assumes "ratchet_inv H base r" and "k = key_at H base (rk_generation k)" and "rk_generation k < rt_generation r"
    and "0 < rt_max_skip r"
  shows "ratchet_inv H base (stash k r)"
proof -
  let ?s = "drop_oldest (rt_max_skip r) (rt_skipped r)"
  have "length ?s < rt_max_skip r" using assms(1,4) by (intro drop_oldest_length) (auto simp: ratchet_inv_def)
  then have "length (dict_set ?s (rk_generation k) k) \<le> rt_max_skip r"
    using length_dict_set_le [of ?s "rk_generation k" k] by linarith
  moreover have "g < rt_generation r \<and> k' = key_at H base g"
    if "map_of (dict_set ?s (rk_generation k) k) g = Some k'" for g k'
    using that assms(1-3) drop_oldest_sub [of "rt_max_skip r" "rt_skipped r" g k']
    by (cases "g = rk_generation k") (simp_all add: ratchet_inv_def)
  moreover have "dict_wf ?s" using assms(1) by (simp add: ratchet_inv_def drop_oldest_wf)
  ultimately show ?thesis using assms(1) by (simp add: stash_def ratchet_inv_def dict_wf_set)
qed

lemma length_dict_keys: "dict_wf d \<Longrightarrow> length d = card (fst ` set d)"
  by (metis dict_wf_def distinct_card length_map list.set_map)

lemma map_of_keys_iff: "k \<in> fst ` set d \<longleftrightarrow> (\<exists>v. map_of d k = Some v)"
  by (metis map_of_eq_None_iff not_None_eq)

lemma drop_oldest_keeps:
  assumes "dict_wf d" and "\<And>j. j \<in> fst ` set d \<Longrightarrow> j < G" and "G - g0 < m" and "g0 \<le> j" and "map_of d j = Some k"
  shows "map_of (drop_oldest m d) j = Some k"
proof (cases "m \<le> length d \<and> d \<noteq> []")
  case True
  have in_keys: "Min (fst ` set d) \<in> fst ` set d" using True by (intro Min_in) auto
  have "Min (fst ` set d) < g0"
  proof (rule ccontr)
    assume "\<not> Min (fst ` set d) < g0"
    then have lo: "g0 \<le> Min (fst ` set d)" by simp
    have "fst ` set d \<subseteq> {g0..<G}"
    proof
      fix x
      assume x: "x \<in> fst ` set d"
      have "Min (fst ` set d) \<le> x" by (rule Min_le [OF _ x]) simp
      then have "g0 \<le> x" using lo by linarith
      then show "x \<in> {g0..<G}" using assms(2) [OF x] by simp
    qed
    then have "card (fst ` set d) \<le> G - g0" using card_mono [of "{g0..<G}" "fst ` set d"] by simp
    then show False using True assms(3) length_dict_keys [OF assms(1)] by simp
  qed
  then show ?thesis using True assms(4,5) by (simp add: drop_oldest_def)
qed (use assms(5) in \<open>simp add: drop_oldest_def\<close>)

definition window_open :: "hkdf \<Rightarrow> bytes \<Rightarrow> nat \<Rightarrow> ratchet \<Rightarrow> bool" where
  "window_open H base g0 r \<longleftrightarrow>
     (\<forall>j. g0 \<le> j \<and> j < rt_generation r \<longrightarrow> map_of (rt_skipped r) j = Some (key_at H base j))"

lemma ratchet_inv_advance:
  "ratchet_inv H base r \<Longrightarrow>
    ratchet_inv H base (r\<lparr>rt_chain := chain_at H base (Suc (rt_generation r)), rt_generation := Suc (rt_generation r)\<rparr>)"
  unfolding ratchet_inv_def by (auto simp: less_SucI simp del: chain_at.simps)

lemma derive_loop_ok:
  assumes "ratchet_inv H base r" and "window_open H base g0 r" and "g0 \<le> rt_generation r"
    and "rt_generation r + n = target" and "target < 2 ^ 32" and "target - g0 \<le> rt_max_skip r"
  shows "\<exists>r'. derive_loop H target n r = Inr (key_at H base target, r') \<and> ratchet_inv H base r' \<and>
    rt_generation r' = Suc target \<and> rt_max_skip r' = rt_max_skip r \<and>
    (\<forall>j. g0 \<le> j \<and> j < target \<longrightarrow> map_of (rt_skipped r') j = Some (key_at H base j)) \<and>
    map_of (rt_skipped r') target = None"
  using assms
proof (induction n arbitrary: r)
  case 0
  have g: "rt_generation r = target" using 0 by simp
  have "map_of (rt_skipped r) target = None"
    using 0(1) g unfolding ratchet_inv_def by (metis less_irrefl not_None_eq)
  moreover have "ratchet_inv H base (r\<lparr>rt_chain := chain_at H base (Suc target), rt_generation := Suc target\<rparr>)"
    using ratchet_inv_advance [OF 0(1)] g by simp
  moreover have "derive_loop H target 0 r = Inr (key_at H base target,
      r\<lparr>rt_chain := chain_at H base (Suc target), rt_generation := Suc target\<rparr>)"
    using ratchet_step_eq [of r H base] 0(1,5) g by (simp add: ratchet_inv_def)
  moreover have "\<forall>j. g0 \<le> j \<and> j < target \<longrightarrow> map_of (rt_skipped r) j = Some (key_at H base j)"
    using 0(2) g by (simp only: window_open_def)
  ultimately show ?case
    by (intro exI [of _ "r\<lparr>rt_chain := chain_at H base (Suc target), rt_generation := Suc target\<rparr>"] conjI)
      (assumption | simp)+
next
  case (Suc n)
  let ?G = "rt_generation r"
  let ?r1 = "r\<lparr>rt_chain := chain_at H base (Suc ?G), rt_generation := Suc ?G\<rparr>"
  let ?r2 = "stash (key_at H base ?G) ?r1"
  have step: "ratchet_step H r = Inr (key_at H base ?G, ?r1)"
  proof (rule ratchet_step_eq)
    have "?G < target" using Suc.prems(4) by simp
    then show "?G < 2 ^ 32" using Suc.prems(5) by (rule less_trans)
    show "rt_chain r = chain_at H base ?G" using Suc.prems(1) by (simp only: ratchet_inv_def)
  qed
  have inv1: "ratchet_inv H base ?r1" by (rule ratchet_inv_advance [OF Suc.prems(1)])
  have gap: "?G - g0 < rt_max_skip r" using Suc.prems(3,4,6) by arith
  have inv2: "ratchet_inv H base ?r2" by (rule stash_inv [OF inv1]) (use gap in simp_all)
  have keys: "j \<in> fst ` set (rt_skipped r) \<Longrightarrow> j < ?G" for j
    using Suc.prems(1) by (auto simp: map_of_keys_iff ratchet_inv_def)
  have win: "window_open H base g0 ?r2"
    unfolding window_open_def
  proof (intro allI impI)
    fix j
    assume j: "g0 \<le> j \<and> j < rt_generation ?r2"
    show "map_of (rt_skipped ?r2) j = Some (key_at H base j)"
    proof (cases "j = ?G")
      case True
      then show ?thesis by (simp add: stash_def)
    next
      case False
      then have "map_of (rt_skipped r) j = Some (key_at H base j)"
        using Suc.prems(2) j by (simp add: window_open_def stash_def)
      then have "map_of (drop_oldest (rt_max_skip r) (rt_skipped r)) j = Some (key_at H base j)"
        using drop_oldest_keeps [of "rt_skipped r" ?G g0 "rt_max_skip r" j] Suc.prems(1) keys j gap
        unfolding ratchet_inv_def by blast
      then show ?thesis using False by (simp add: stash_def)
    qed
  qed
  have r2: "rt_generation ?r2 = Suc ?G" "rt_max_skip ?r2 = rt_max_skip r" by (simp_all add: stash_def)
  have loop: "derive_loop H target (Suc n) r = derive_loop H target n ?r2" by (simp add: step)
  have "\<exists>r'. derive_loop H target n ?r2 = Inr (key_at H base target, r') \<and> ratchet_inv H base r' \<and>
      rt_generation r' = Suc target \<and> rt_max_skip r' = rt_max_skip ?r2 \<and>
      (\<forall>j. g0 \<le> j \<and> j < target \<longrightarrow> map_of (rt_skipped r') j = Some (key_at H base j)) \<and>
      map_of (rt_skipped r') target = None"
  proof (rule Suc.IH [OF inv2 win])
    show "g0 \<le> rt_generation ?r2" unfolding r2 using Suc.prems(3) by (rule le_SucI)
    show "rt_generation ?r2 + n = target" unfolding r2 using Suc.prems(4) by simp
    show "target < 2 ^ 32" by (rule Suc.prems(5))
    show "target - g0 \<le> rt_max_skip ?r2" unfolding r2 by (rule Suc.prems(6))
  qed
  then show ?case unfolding loop r2(2) .
qed

lemma derive_for_future:
  assumes "ratchet_inv H base r" and "rt_generation r \<le> g" and "g - rt_generation r \<le> rt_max_skip r" and "g < 2 ^ 32"
  shows "\<exists>r'. derive_for H g r = Inr (key_at H base g, r') \<and> ratchet_inv H base r' \<and>
    rt_generation r' = Suc g \<and> rt_max_skip r' = rt_max_skip r \<and>
    (\<forall>j. rt_generation r \<le> j \<and> j < g \<longrightarrow> map_of (rt_skipped r') j = Some (key_at H base j)) \<and>
    map_of (rt_skipped r') g = None"
proof -
  have "window_open H base (rt_generation r) r" by (auto simp: window_open_def)
  from derive_loop_ok [OF assms(1) this, of "g - rt_generation r" g] assms show ?thesis
    by (simp add: derive_for_def)
qed

lemma derive_for_past:
  assumes "ratchet_inv H base r" and "g < rt_generation r" and "derive_for H g r = Inr (k, r')"
  shows "k = key_at H base g \<and> ratchet_inv H base r' \<and> rt_generation r' = rt_generation r \<and>
    rt_max_skip r' = rt_max_skip r \<and> map_of (rt_skipped r') g = None"
proof -
  have k: "map_of (rt_skipped r) g = Some k" and r': "r' = r\<lparr>rt_skipped := dict_pop (rt_skipped r) g\<rparr>"
    using assms(2,3) by (auto simp: derive_for_def split: option.splits)
  have "length (dict_pop (rt_skipped r) g) \<le> length (rt_skipped r)" by (simp add: dict_pop_def)
  then show ?thesis
    using assms(1) k by (auto simp: r' ratchet_inv_def)
qed

lemma derive_for_sound:
  assumes "ratchet_inv H base r" and "derive_for H g r = Inr (k, r')" and "g < 2 ^ 32"
  shows "k = key_at H base g \<and> ratchet_inv H base r' \<and> rt_max_skip r' = rt_max_skip r \<and>
    g < rt_generation r' \<and> map_of (rt_skipped r') g = None"
proof (cases "g < rt_generation r")
  case True
  then show ?thesis using derive_for_past [OF assms(1) True assms(2)] by simp
next
  case False
  then have "g - rt_generation r \<le> rt_max_skip r" using assms(2) by (auto simp: derive_for_def split: if_splits)
  then show ?thesis using derive_for_future [OF assms(1), of g] False assms(2,3) by auto
qed

section \<open>Properties\<close>


definition toy_hkdf :: hkdf where
  "toy_hkdf prk info len = replicate len (case prk of [] \<Rightarrow> 0 | b # _ \<Rightarrow> b + 1)"

lemma new_ratchet_inv: "new_ratchet base m = Inr r \<Longrightarrow> ratchet_inv H base r"
  by (auto simp: new_ratchet_def ratchet_inv_def split: if_splits)


definition derive_many :: "hkdf \<Rightarrow> nat list \<Rightarrow> ratchet \<Rightarrow> ratchet" where
  "derive_many H gs r = fold (\<lambda>g r. case derive_for H g r of Inr (k, r') \<Rightarrow> r' | Inl _ \<Rightarrow> r) gs r"

lemma derive_keeps_used:
  assumes "ratchet_inv H base r" and "derive_for H h r = Inr (k, r')" and "h < 2 ^ 32"
    and "g < rt_generation r" and "map_of (rt_skipped r) g = None"
  shows "g < rt_generation r' \<and> map_of (rt_skipped r') g = None"
proof (cases "h < rt_generation r")
  case True
  then show ?thesis using assms by (auto simp: derive_for_def split: option.splits)
next
  case False
  have "map_of (rt_skipped r'') g = None \<and> rt_generation r \<le> rt_generation r''"
    if "derive_loop H h n r = Inr (k, r'')" "map_of (rt_skipped r) g = None" "g < rt_generation r" for n r r''
    using that
  proof (induction n arbitrary: r)
    case 0
    then show ?case by (auto simp: ratchet_step_def bind_result_Inr_iff)
  next
    case (Suc n)
    obtain k1 r1 where s: "ratchet_step H r = Inr (k1, r1)" "derive_loop H h n (stash k1 r1) = Inr (k, r'')"
      using Suc.prems(1) by (auto simp: bind_result_Inr_iff)
    have r1: "rt_skipped r1 = rt_skipped r" "rt_generation r1 = Suc (rt_generation r)" "rk_generation k1 = rt_generation r"
      using s(1) by (auto simp: ratchet_step_def bind_result_Inr_iff)
    have "map_of (drop_oldest (rt_max_skip r1) (rt_skipped r)) g = None"
      using Suc.prems(2) drop_oldest_sub by (metis not_None_eq)
    then have "map_of (rt_skipped (stash k1 r1)) g = None"
      using Suc.prems(3) r1 by (simp add: stash_def)
    then show ?case using Suc.IH [OF s(2)] Suc.prems(3) r1 by (simp add: stash_def)
  qed
  then show ?thesis
    using assms(2,4,5) False by (force simp: derive_for_def split: if_splits)
qed

lemma derive_many_keeps_used:
  assumes "ratchet_inv H base r" and "g < rt_generation r" and "map_of (rt_skipped r) g = None"
    and "\<forall>h \<in> set gs. h < 2 ^ 32"
  shows "g < rt_generation (derive_many H gs r) \<and> map_of (rt_skipped (derive_many H gs r)) g = None"
  using assms
proof (induction gs arbitrary: r)
  case (Cons h gs)
  show ?case
  proof (cases "derive_for H h r")
    case (Inl e)
    then show ?thesis using Cons by (simp add: derive_many_def)
  next
    case (Inr p)
    obtain k r' where p: "p = (k, r')" by fastforce
    have "ratchet_inv H base r'" using derive_for_sound [OF Cons.prems(1), of h k r'] Inr p Cons.prems(4) by simp
    moreover have "g < rt_generation r' \<and> map_of (rt_skipped r') g = None"
      using derive_keeps_used [OF Cons.prems(1), of h k r' g] Inr p Cons.prems by simp
    ultimately show ?thesis using Cons.IH [of r'] Cons.prems(4) Inr p by (simp add: derive_many_def)
  qed
qed (simp add: derive_many_def)

text \<open>
  C10: a frame key is handed out once. After \<open>derive_for\<close> returned the key of a generation,
  every later call for that generation fails, whatever other generations are asked for in
  between.
\<close>

theorem ratchet_key_once:
  assumes "ratchet_inv H base r" and "g < 2 ^ 32" and "derive_for H g r = Inr (k, r')" and "list_all (\<lambda>h. h < 2 ^ 32) gs"
  shows "\<exists>e. derive_for H g (derive_many H gs r') = Inl e"
proof -
  have s: "ratchet_inv H base r'" "g < rt_generation r'" "map_of (rt_skipped r') g = None"
    using derive_for_sound [OF assms(1,3,2)] by auto
  have "g < rt_generation (derive_many H gs r') \<and> map_of (rt_skipped (derive_many H gs r')) g = None"
    by (rule derive_many_keeps_used [OF s]) (use assms(4) in \<open>simp add: list_all_iff\<close>)
  then show ?thesis by (simp add: derive_for_def)
qed

theorem ratchet_key_once_witness:
  "\<exists>r k r' e. new_ratchet (replicate 32 7) 32 = Inr r \<and> derive_for toy_hkdf 2 r = Inr (k, r') \<and>
     derive_for toy_hkdf 2 (derive_many toy_hkdf [5, 1] r') = Inl e"
proof -
  obtain r where r: "new_ratchet (replicate 32 7) 32 = Inr r" "rt_generation r = 0" "rt_max_skip r = 32"
    by (simp add: new_ratchet_def CHAIN_SECRET_BYTES_def)
  note inv = new_ratchet_inv [OF r(1), of toy_hkdf]
  obtain r' where r': "derive_for toy_hkdf 2 r = Inr (key_at toy_hkdf (replicate 32 7) 2, r')"
    using derive_for_future [OF inv, of 2] r by auto
  show ?thesis using ratchet_key_once [OF inv _ r', of "[5, 1]"] r r' by auto
qed

lemma to_bytes_big_Inr: "to_bytes_big n k = Inr bs \<Longrightarrow> length bs = k \<and> int (be_decode bs) = n"
  by (auto simp: to_bytes_big_def be_decode_encode nat_less_iff split: if_splits)

lemma to_bytes_big_inj: "to_bytes_big m k = Inr bs \<Longrightarrow> to_bytes_big n k = Inr bs \<Longrightarrow> m = n"
  using to_bytes_big_Inr by metis

text \<open>
  Derived keys are separated by purpose: two derivations feed the same information
  string to HKDF only when label, context and length all agree; and the frame nonce is
  injective on 32-bit SSRC, generation and counter, with \<open>parse_frame_nonce\<close> as its inverse.
\<close>

theorem kdf_domain_separation:
  assumes "hkdf_info label context len = Inr info" and "hkdf_info label' context' len' = Inr info"
    and "ssrc < 2 ^ 32" and "gen < 2 ^ 32" and "cnt < 2 ^ 32"
  shows "label = label' \<and> context = context' \<and> len = len' \<and>
    parse_frame_nonce (build_frame_nonce (int ssrc) (int gen) (int cnt)) = Inr (ssrc, gen, cnt)"
proof -
  obtain l ll lc where i: "to_bytes_big len 2 = Inr l" "to_bytes_big (int (length label)) 1 = Inr ll"
    "to_bytes_big (int (length context)) 2 = Inr lc" "info = l @ ll @ label @ lc @ context"
    using assms(1) by (auto simp: hkdf_info_def bind_result_Inr_iff)
  obtain l' ll' lc' where i': "to_bytes_big len' 2 = Inr l'" "to_bytes_big (int (length label')) 1 = Inr ll'"
    "to_bytes_big (int (length context')) 2 = Inr lc'" "info = l' @ ll' @ label' @ lc' @ context'"
    using assms(2) by (auto simp: hkdf_info_def bind_result_Inr_iff)
  note len = to_bytes_big_Inr [OF i(1)] to_bytes_big_Inr [OF i(2)] to_bytes_big_Inr [OF i(3)]
    to_bytes_big_Inr [OF i'(1)] to_bytes_big_Inr [OF i'(2)] to_bytes_big_Inr [OF i'(3)]
  have eq: "l @ ll @ label @ lc @ context = l' @ ll' @ label' @ lc' @ context'" using i(4) i'(4) by simp
  then have 1: "l = l'" "ll = ll'" "label @ lc @ context = label' @ lc' @ context'"
    using len by (simp_all add: append_eq_append_conv)
  have "length label = length label'" using len 1(2) by simp
  then have 2: "label = label'" "lc = lc'" "context = context'" using 1(3) len by (simp_all add: append_eq_append_conv)
  have "parse_frame_nonce (build_frame_nonce (int ssrc) (int gen) (int cnt)) = Inr (ssrc, gen, cnt)"
    using assms(3-5) by (simp add: parse_frame_nonce_def build_frame_nonce_def be_decode_encode_mod)
  then show ?thesis using 1 2 len by simp
qed

theorem kdf_domain_separation_witness:
  "\<exists>info. hkdf_info (ascii ''ab'') (ascii ''c'') 16 = Inr info \<and>
     parse_frame_nonce (build_frame_nonce (int 1) (int 2) (int 3)) = Inr (1, 2, 3)"
proof -
  obtain info where i: "hkdf_info (ascii ''ab'') (ascii ''c'') 16 = Inr info"
    by (simp add: hkdf_info_def to_bytes_big_def)
  show ?thesis using kdf_domain_separation [OF i i, of 1 2 3] i by simp
qed

end
