(* ===== verification/DaveBackend.thy ===== *)
theory DaveBackend
  imports DaveCrypto
begin

text \<open>
  The in-process MLS provider and the reference DAVE backend (src/vaidcord-py/src/vaidcord/
  voice/dave: mls/types.py, mls/inproc.py, reference.py). Operations that raise after they
  have changed state return the state beside the error.
\<close>

section \<open>MLS messages\<close>

record key_package =
  kp_member_id :: string
  kp_public_key :: bytes
  kp_signature :: bytes

record mls_welcome =
  wl_epoch :: int
  wl_group_id :: string
  wl_epoch_secret :: bytes
  wl_members :: "string list"

record mls_commit =
  cm_epoch :: int
  cm_group_id :: string
  cm_add_members :: "string list"
  cm_remove_members :: "string list"
  cm_welcomes :: "mls_welcome list"

record group_epoch =
  ge_epoch :: int
  ge_group_id :: string
  ge_epoch_secret :: bytes
  ge_members :: "string list"

section \<open>The in-process provider\<close>

record mls_provider =
  mp_member_id :: string
  mp_group_id :: string
  mp_identity_public_key :: bytes
  mp_initial_epoch_secret :: bytes
  mp_epoch :: "group_epoch option"
  mp_joined :: bool

definition new_provider :: "string \<Rightarrow> string \<Rightarrow> bytes \<Rightarrow> bytes \<Rightarrow> mls_provider" where
  "new_provider member group_id initial identity =
     \<lparr>mp_member_id = member, mp_group_id = group_id, mp_identity_public_key = identity,
      mp_initial_epoch_secret = initial, mp_epoch = None, mp_joined = False\<rparr>"

definition current_epoch :: "mls_provider \<Rightarrow> int option" where
  "current_epoch p = map_option ge_epoch (mp_epoch p)"

definition current_epoch_secret :: "mls_provider \<Rightarrow> bytes option" where
  "current_epoch_secret p = map_option ge_epoch_secret (mp_epoch p)"

definition generate_key_package :: "mls_provider \<Rightarrow> key_package" where
  "generate_key_package p =
     \<lparr>kp_member_id = mp_member_id p, kp_public_key = mp_identity_public_key p, kp_signature = []\<rparr>"

definition apply_welcome :: "mls_welcome \<Rightarrow> mls_provider \<Rightarrow> mls_provider result" where
  "apply_welcome w p =
     (if wl_group_id w \<noteq> mp_group_id p then Inl (OtherError ''DaveMLSError'')
      else Inr (p\<lparr>mp_epoch := Some \<lparr>ge_epoch = wl_epoch w, ge_group_id = wl_group_id w,
                    ge_epoch_secret = wl_epoch_secret w,
                    ge_members = (if wl_members w \<noteq> [] then wl_members w else [mp_member_id p])\<rparr>,
                  mp_joined := True\<rparr>))"

definition epoch_secret_after :: "hkdf \<Rightarrow> bytes \<Rightarrow> int \<Rightarrow> bytes result" where
  "epoch_secret_after H secret epoch =
     bind_result (to_bytes_big epoch 4) (\<lambda>ctx. hkdf_expand_label H secret (ascii ''DAVE-mls-epoch'') ctx 32)"

definition add_member :: "string \<Rightarrow> string list \<Rightarrow> string list" where
  "add_member x ms = (if x \<in> set ms then ms else ms @ [x])"

definition apply_commit :: "hkdf \<Rightarrow> mls_commit \<Rightarrow> mls_provider \<Rightarrow> mls_provider result" where
  "apply_commit H c p =
     (case (if mp_joined p then mp_epoch p else None) of
        None \<Rightarrow>
          Inr (p\<lparr>mp_epoch := Some \<lparr>ge_epoch = cm_epoch c, ge_group_id = cm_group_id c,
                   ge_epoch_secret = mp_initial_epoch_secret p, ge_members = [mp_member_id p]\<rparr>,
                 mp_joined := True\<rparr>)
      | Some e \<Rightarrow>
          bind_result (epoch_secret_after H (ge_epoch_secret e) (cm_epoch c)) (\<lambda>new_secret.
            Inr (p\<lparr>mp_epoch := Some \<lparr>ge_epoch = cm_epoch c, ge_group_id = cm_group_id c,
                     ge_epoch_secret = new_secret,
                     ge_members = fold remove1 (cm_remove_members c)
                       (fold add_member (cm_add_members c) (ge_members e))\<rparr>\<rparr>)))"

definition propose_add :: "hkdf \<Rightarrow> key_package \<Rightarrow> mls_provider \<Rightarrow> (mls_commit \<times> mls_provider) result" where
  "propose_add H kp p =
     (let next_epoch = (case mp_epoch p of Some e \<Rightarrow> ge_epoch e + 1 | None \<Rightarrow> 0);
          current_secret = (case mp_epoch p of Some e \<Rightarrow> ge_epoch_secret e | None \<Rightarrow> mp_initial_epoch_secret p)
      in bind_result (epoch_secret_after H current_secret next_epoch) (\<lambda>new_secret.
           let existing = add_member (mp_member_id p) (case mp_epoch p of Some e \<Rightarrow> ge_members e | None \<Rightarrow> []);
               added = (if kp_member_id kp \<in> set existing then [] else [kp_member_id kp]);
               w = \<lparr>wl_epoch = next_epoch, wl_group_id = mp_group_id p, wl_epoch_secret = new_secret,
                    wl_members = existing @ added\<rparr>;
               c = \<lparr>cm_epoch = next_epoch, cm_group_id = mp_group_id p, cm_add_members = added,
                    cm_remove_members = [], cm_welcomes = [w]\<rparr>
           in bind_result (apply_commit H c p) (\<lambda>p1. Inr (c, p1))))"

section \<open>The reference backend\<close>

record backend =
  bk_provider :: mls_provider
  bk_protocol_version :: int
  bk_send_ratchets :: "(int, ratchet) dict"
  bk_recv_ratchets :: "(int, ratchet) dict"
  bk_frame_counter :: "(int, nat) dict"
  bk_enabled :: bool

definition reseed_ratchets :: "backend \<Rightarrow> backend" where
  "reseed_ratchets b = b\<lparr>bk_send_ratchets := [], bk_recv_ratchets := [], bk_frame_counter := []\<rparr>"

definition backend_execute_transition :: "int option \<Rightarrow> backend \<Rightarrow> backend" where
  "backend_execute_transition protocol_version b = b\<lparr>bk_enabled := (protocol_version \<noteq> Some 0)\<rparr>"

definition backend_prepare_epoch :: "hkdf \<Rightarrow> backend \<Rightarrow> key_package result \<times> backend" where
  "backend_prepare_epoch H b =
     (let kp = generate_key_package (bk_provider b) in
      case (if current_epoch (bk_provider b) = None then map_sum id snd (propose_add H kp (bk_provider b))
            else Inr (bk_provider b)) of
        Inl e \<Rightarrow> (Inl e, b)
      | Inr p \<Rightarrow> (Inr kp, reseed_ratchets (b\<lparr>bk_provider := p\<rparr>)))"

definition backend_handle_proposals :: "hkdf \<Rightarrow> backend \<Rightarrow> mls_commit result \<times> backend" where
  "backend_handle_proposals H b =
     (case propose_add H (generate_key_package (bk_provider b)) (bk_provider b) of
        Inl e \<Rightarrow> (Inl e, b)
      | Inr (c, p) \<Rightarrow> (Inr c, reseed_ratchets (b\<lparr>bk_provider := p\<rparr>)))"

definition backend_handle_commit :: "hkdf \<Rightarrow> mls_commit option \<Rightarrow> backend \<Rightarrow> unit result \<times> backend" where
  "backend_handle_commit H cm b =
     (case cm of
        None \<Rightarrow> (Inr (), b)
      | Some c \<Rightarrow>
          (case apply_commit H c (bk_provider b) of
             Inl e \<Rightarrow> (Inl e, b)
           | Inr p \<Rightarrow> (Inr (), reseed_ratchets (b\<lparr>bk_provider := p\<rparr>))))"

definition backend_handle_welcome :: "mls_welcome option \<Rightarrow> backend \<Rightarrow> unit result \<times> backend" where
  "backend_handle_welcome w b =
     (case w of
        None \<Rightarrow> (Inl (OtherError ''DaveBackendError''), b)
      | Some wl \<Rightarrow>
          (case apply_welcome wl (bk_provider b) of
             Inl e \<Rightarrow> (Inl e, b)
           | Inr p \<Rightarrow> (Inr (), reseed_ratchets (b\<lparr>bk_provider := p\<rparr>))))"

definition backend_handle_invalid_commit :: "backend \<Rightarrow> backend" where
  "backend_handle_invalid_commit b = b\<lparr>bk_send_ratchets := [], bk_recv_ratchets := []\<rparr>"

definition make_ratchet :: "hkdf \<Rightarrow> int \<Rightarrow> mls_provider \<Rightarrow> ratchet result" where
  "make_ratchet H ssrc p =
     (case current_epoch_secret p of
        None \<Rightarrow> Inl (OtherError ''DaveBackendError'')
      | Some secret \<Rightarrow>
          bind_result (to_bytes_big ssrc 4) (\<lambda>ssrc4.
          bind_result (hkdf_expand_label H secret DAVE_KDF_SENDER_LABEL
              (ascii (mp_member_id p) @ ascii ''|'' @ ssrc4) (int CHAIN_SECRET_BYTES)) (\<lambda>base.
            new_ratchet base 32)))"

definition get_ratchet :: "hkdf \<Rightarrow> int \<Rightarrow> bool \<Rightarrow> backend \<Rightarrow> ratchet result \<times> backend" where
  "get_ratchet H ssrc sending b =
     (case map_of (if sending then bk_send_ratchets b else bk_recv_ratchets b) ssrc of
        Some r \<Rightarrow> (Inr r, b)
      | None \<Rightarrow>
          (case make_ratchet H ssrc (bk_provider b) of
             Inl e \<Rightarrow> (Inl e, b)
           | Inr r \<Rightarrow>
               (Inr r, if sending then b\<lparr>bk_send_ratchets := dict_set (bk_send_ratchets b) ssrc r\<rparr>
                       else b\<lparr>bk_recv_ratchets := dict_set (bk_recv_ratchets b) ssrc r\<rparr>)))"

definition next_frame_counter :: "int \<Rightarrow> backend \<Rightarrow> nat \<times> backend" where
  "next_frame_counter ssrc b =
     (let cur = dict_get (bk_frame_counter b) ssrc 0
      in (cur, b\<lparr>bk_frame_counter := dict_set (bk_frame_counter b) ssrc (Suc cur)\<rparr>))"

definition backend_encrypt_frame :: "hkdf \<Rightarrow> gcm \<Rightarrow> int \<Rightarrow> bytes \<Rightarrow> backend \<Rightarrow> bytes result \<times> backend" where
  "backend_encrypt_frame H G ssrc frame b =
     (case get_ratchet H ssrc True b of
        (Inl e, b1) \<Rightarrow> (Inl e, b1)
      | (Inr r, b1) \<Rightarrow>
          (case ratchet_step H r of
             Inl e \<Rightarrow> (Inl e, b1)
           | Inr (k, r1) \<Rightarrow>
               (case next_frame_counter ssrc (b1\<lparr>bk_send_ratchets := dict_set (bk_send_ratchets b1) ssrc r1\<rparr>) of
                  (counter, b2) \<Rightarrow>
                    (bind_result (frame_aead (rk_key k)) (\<lambda>key.
                       let g = int (rk_generation k); c = int counter in
                       bind_result (aes128gcm_encrypt G key (build_frame_nonce ssrc g c) frame (build_frame_aad ssrc g c [])) (\<lambda>ct.
                       bind_result (to_bytes_big g 4) (\<lambda>g4.
                       bind_result (to_bytes_big c 4) (\<lambda>c4. Inr (ct @ g4 @ c4))))), b2))))"

definition backend_decrypt_frame :: "hkdf \<Rightarrow> gcm \<Rightarrow> int \<Rightarrow> bytes \<Rightarrow> backend \<Rightarrow> bytes result \<times> backend" where
  "backend_decrypt_frame H G ssrc frame b =
     (if length frame < 24 then (Inl (OtherError ''DaveBackendError''), b)
      else
        (let n = length frame - 8; trailer = drop n frame; body = take n frame;
             g = be_decode (take 4 trailer); c = be_decode (drop 4 trailer)
         in case get_ratchet H ssrc False b of
              (Inl e, b1) \<Rightarrow> (Inl e, b1)
            | (Inr r, b1) \<Rightarrow>
                (case derive_for H g r of
                   Inl e \<Rightarrow> (Inl e, b1)
                 | Inr (k, r1) \<Rightarrow>
                     (bind_result (frame_aead (rk_key k)) (\<lambda>key.
                        aes128gcm_decrypt G key (build_frame_nonce ssrc (int g) (int c)) body (build_frame_aad ssrc (int g) (int c) [])),
                      b1\<lparr>bk_recv_ratchets := dict_set (bk_recv_ratchets b1) ssrc r1\<rparr>))))"

section \<open>Invariant\<close>

definition hkdf_sized :: "hkdf \<Rightarrow> bool" where
  "hkdf_sized H \<longleftrightarrow> (\<forall>prk info n. length (H prk info n) = n)"

definition gcm_sound :: "gcm \<Rightarrow> bool" where
  "gcm_sound G \<longleftrightarrow>
     (\<forall>key nonce pt ad. gcm_decrypt G key nonce (gcm_encrypt G key nonce pt ad) ad = Some pt \<and>
        length (gcm_encrypt G key nonce pt ad) = length pt + 16)"

definition seeded :: "hkdf \<Rightarrow> mls_provider \<Rightarrow> int \<Rightarrow> ratchet \<Rightarrow> bool" where
  "seeded H p ssrc r \<longleftrightarrow>
     (\<exists>r0. make_ratchet H ssrc p = Inr r0 \<and> ratchet_inv H (rt_chain r0) r \<and> rt_max_skip r = 32)"

definition backend_inv :: "hkdf \<Rightarrow> backend \<Rightarrow> bool" where
  "backend_inv H b \<longleftrightarrow>
     (\<forall>ssrc r. map_of (bk_send_ratchets b) ssrc = Some r \<longrightarrow> seeded H (bk_provider b) ssrc r) \<and>
     (\<forall>ssrc r. map_of (bk_recv_ratchets b) ssrc = Some r \<longrightarrow> seeded H (bk_provider b) ssrc r)"

definition generation_of :: "(int, ratchet) dict \<Rightarrow> int \<Rightarrow> nat" where
  "generation_of d ssrc = (case map_of d ssrc of None \<Rightarrow> 0 | Some r \<Rightarrow> rt_generation r)"

lemma new_ratchet_Inr: "new_ratchet base m = Inr r \<Longrightarrow> rt_chain r = base \<and> rt_generation r = 0 \<and> rt_max_skip r = m \<and> ratchet_inv H base r"
  using new_ratchet_inv by (auto simp: new_ratchet_def split: if_splits)

lemma make_ratchet_seeded: "make_ratchet H ssrc p = Inr r \<Longrightarrow> seeded H p ssrc r \<and> rt_generation r = 0"
  unfolding seeded_def using new_ratchet_Inr
  by (fastforce simp: make_ratchet_def bind_result_Inr_iff split: option.splits)

lemma get_ratchet_send:
  assumes "backend_inv H b" and "get_ratchet H ssrc True b = (Inr r, b1)"
  shows "seeded H (bk_provider b) ssrc r \<and> rt_generation r = generation_of (bk_send_ratchets b) ssrc \<and>
    bk_provider b1 = bk_provider b \<and> bk_recv_ratchets b1 = bk_recv_ratchets b \<and>
    bk_frame_counter b1 = bk_frame_counter b \<and> map_of (bk_send_ratchets b1) ssrc = Some r \<and> backend_inv H b1"
  using assms make_ratchet_seeded [of H ssrc "bk_provider b" r]
  by (auto simp: get_ratchet_def backend_inv_def generation_of_def split: option.splits sum.splits if_splits)

lemma get_ratchet_recv:
  assumes "backend_inv H b" and "get_ratchet H ssrc False b = (Inr r, b1)"
  shows "seeded H (bk_provider b) ssrc r \<and> rt_generation r = generation_of (bk_recv_ratchets b) ssrc \<and>
    bk_provider b1 = bk_provider b \<and> bk_send_ratchets b1 = bk_send_ratchets b \<and>
    map_of (bk_recv_ratchets b1) ssrc = Some r \<and> backend_inv H b1"
  using assms make_ratchet_seeded [of H ssrc "bk_provider b" r]
  by (auto simp: get_ratchet_def backend_inv_def generation_of_def split: option.splits sum.splits if_splits)

lemma get_ratchet_error: "get_ratchet H ssrc s b = (Inl e, b1) \<Longrightarrow> b1 = b"
  by (auto simp: get_ratchet_def split: option.splits sum.splits)

lemma seeded_step:
  assumes "seeded H p ssrc r" and "ratchet_step H r = Inr (k, r1)"
  shows "seeded H p ssrc r1 \<and> rt_generation r < 2 ^ 32 \<and> rt_generation r1 = Suc (rt_generation r) \<and>
    (\<exists>r0. make_ratchet H ssrc p = Inr r0 \<and> k = key_at H (rt_chain r0) (rt_generation r))"
proof -
  obtain r0 where r0: "make_ratchet H ssrc p = Inr r0" "ratchet_inv H (rt_chain r0) r" "rt_max_skip r = 32"
    using assms(1) by (auto simp: seeded_def)
  have lt: "rt_generation r < 2 ^ 32" using assms(2) ratchet_step_overflow [of r H] by force
  have "rt_chain r = chain_at H (rt_chain r0) (rt_generation r)" using r0(2) by (simp add: ratchet_inv_def)
  from ratchet_step_eq [OF lt this] assms(2)
  have e: "k = key_at H (rt_chain r0) (rt_generation r)"
    "r1 = r\<lparr>rt_chain := chain_at H (rt_chain r0) (Suc (rt_generation r)), rt_generation := Suc (rt_generation r)\<rparr>" by simp_all
  have "ratchet_inv H (rt_chain r0) r1" unfolding e by (rule ratchet_inv_advance [OF r0(2)])
  then have "seeded H p ssrc r1" unfolding seeded_def using r0 e(2) by simp
  then show ?thesis using lt e r0(1) by simp
qed

lemma seeded_derive:
  assumes "seeded H p ssrc r" and "derive_for H g r = Inr (k, r1)" and "g < 2 ^ 32"
  shows "seeded H p ssrc r1 \<and> g < rt_generation r1 \<and> map_of (rt_skipped r1) g = None \<and>
    (\<exists>r0. make_ratchet H ssrc p = Inr r0 \<and> k = key_at H (rt_chain r0) g)"
proof -
  obtain r0 where r0: "make_ratchet H ssrc p = Inr r0" "ratchet_inv H (rt_chain r0) r" "rt_max_skip r = 32"
    using assms(1) by (auto simp: seeded_def)
  show ?thesis using derive_for_sound [OF r0(2) assms(2,3)] r0 by (auto simp: seeded_def)
qed

lemma be_decode_4_less: "length bs = 4 \<Longrightarrow> be_decode bs < 2 ^ 32"
  using be_decode_bound [of bs] by simp

lemma backend_inv_send: "backend_inv H b \<Longrightarrow> seeded H (bk_provider b) ssrc r \<Longrightarrow>
    backend_inv H (b\<lparr>bk_send_ratchets := dict_set (bk_send_ratchets b) ssrc r\<rparr>)"
  by (simp add: backend_inv_def)

lemma backend_inv_recv: "backend_inv H b \<Longrightarrow> seeded H (bk_provider b) ssrc r \<Longrightarrow>
    backend_inv H (b\<lparr>bk_recv_ratchets := dict_set (bk_recv_ratchets b) ssrc r\<rparr>)"
  by (simp add: backend_inv_def)

lemma backend_inv_counter: "backend_inv H (b\<lparr>bk_frame_counter := c\<rparr>) = backend_inv H b"
  by (simp add: backend_inv_def)

lemma encrypt_inv:
  assumes "backend_inv H b"
  shows "backend_inv H (snd (backend_encrypt_frame H G ssrc frame b))"
proof (cases "get_ratchet H ssrc True b")
  case (Pair res b1)
  show ?thesis
  proof (cases res)
    case (Inl e)
    then show ?thesis using Pair assms get_ratchet_error [of H ssrc True b e b1] by (simp add: backend_encrypt_frame_def)
  next
    case (Inr r)
    then have r: "seeded H (bk_provider b1) ssrc r" "backend_inv H b1"
      using get_ratchet_send [OF assms, of ssrc r b1] Pair by auto
    show ?thesis
    proof (cases "ratchet_step H r")
      case (Inr kr)
      obtain k r1 where kr: "kr = (k, r1)" by fastforce
      have "seeded H (bk_provider b1) ssrc r1" using seeded_step [OF r(1)] Inr kr by blast
      from backend_inv_send [OF r(2) this] show ?thesis
        using Pair \<open>res = Inr r\<close> Inr kr by (simp add: backend_encrypt_frame_def next_frame_counter_def Let_def backend_inv_counter)
    qed (use r Pair Inr in \<open>simp add: backend_encrypt_frame_def\<close>)
  qed
qed

lemma decrypt_inv:
  assumes "backend_inv H b"
  shows "backend_inv H (snd (backend_decrypt_frame H G ssrc frame b))"
proof (cases "length frame < 24")
  case False
  let ?g = "be_decode (take 4 (drop (length frame - 8) frame))"
  have g: "?g < 2 ^ 32" using False by (intro be_decode_4_less) simp
  obtain res b1 where p: "get_ratchet H ssrc False b = (res, b1)" by fastforce
  show ?thesis
  proof (cases res)
    case (Inl e)
    then show ?thesis using p assms False get_ratchet_error [of H ssrc False b e b1]
      by (simp add: backend_decrypt_frame_def Let_def)
  next
    case (Inr r)
    then have r: "seeded H (bk_provider b1) ssrc r" "backend_inv H b1"
      using get_ratchet_recv [OF assms, of ssrc r b1] p by auto
    show ?thesis
    proof (cases "derive_for H ?g r")
      case (Inr kr)
      obtain k r1 where kr: "kr = (k, r1)" by fastforce
      have "seeded H (bk_provider b1) ssrc r1" using seeded_derive [OF r(1) _ g] Inr kr by blast
      from backend_inv_recv [OF r(2) this] show ?thesis
        using p \<open>res = Inr r\<close> Inr kr False by (simp add: backend_decrypt_frame_def Let_def)
    qed (use r p Inr False in \<open>simp add: backend_decrypt_frame_def Let_def\<close>)
  qed
qed (use assms in \<open>simp add: backend_decrypt_frame_def\<close>)

lemma backend_inv_reseed: "backend_inv H (reseed_ratchets b)"
  by (simp add: backend_inv_def reseed_ratchets_def)

section \<open>Properties\<close>

text \<open>
  C25: every operation of the reference backend, failing ones included, keeps its ratchets
  seeded from the current epoch: after any change of epoch no ratchet of the old epoch
  survives, and every ratchet in use follows the key schedule of the current secret, the
  member and the SSRC.
\<close>

theorem backend_ops_keep_seeding:
  assumes "backend_inv H b"
  shows "backend_inv H (snd (backend_prepare_epoch H b)) \<and> backend_inv H (snd (backend_handle_proposals H b)) \<and>
    backend_inv H (snd (backend_handle_commit H cm b)) \<and> backend_inv H (snd (backend_handle_welcome wl b)) \<and>
    backend_inv H (backend_handle_invalid_commit b) \<and> backend_inv H (backend_execute_transition v b) \<and>
    backend_inv H (snd (backend_encrypt_frame H G ssrc frame b)) \<and>
    backend_inv H (snd (backend_decrypt_frame H G ssrc frame b))"
proof -
  have "backend_inv H (snd (backend_prepare_epoch H b))" "backend_inv H (snd (backend_handle_proposals H b))"
    "backend_inv H (snd (backend_handle_commit H cm b))" "backend_inv H (snd (backend_handle_welcome wl b))"
    using assms backend_inv_reseed
    by (auto simp: backend_prepare_epoch_def backend_handle_proposals_def backend_handle_commit_def
        backend_handle_welcome_def Let_def split: sum.splits option.splits)
  moreover have "backend_inv H (backend_handle_invalid_commit b)" "backend_inv H (backend_execute_transition v b)"
    using assms by (auto simp: backend_inv_def backend_handle_invalid_commit_def backend_execute_transition_def)
  ultimately show ?thesis using encrypt_inv [OF assms] decrypt_inv [OF assms] by simp
qed

definition toy_gcm :: gcm where
  "toy_gcm = \<lparr>gcm_encrypt = (\<lambda>key nonce pt ad. pt @ replicate 16 9),
              gcm_decrypt = (\<lambda>key nonce ct ad. Some (take (length ct - 16) ct))\<rparr>"

definition demo_backend :: backend where
  "demo_backend =
     \<lparr>bk_provider = \<lparr>mp_member_id = ''bot'', mp_group_id = ''g'', mp_identity_public_key = [1],
        mp_initial_epoch_secret = replicate 32 5,
        mp_epoch = Some \<lparr>ge_epoch = 0, ge_group_id = ''g'', ge_epoch_secret = replicate 32 5, ge_members = [''bot'']\<rparr>,
        mp_joined = True\<rparr>,
      bk_protocol_version = 1, bk_send_ratchets = [], bk_recv_ratchets = [], bk_frame_counter = [], bk_enabled = True\<rparr>"

lemma demo_backend_inv: "backend_inv H demo_backend"
  by (simp add: backend_inv_def demo_backend_def)

theorem backend_ops_keep_seeding_witness:
  "backend_inv toy_hkdf (snd (backend_encrypt_frame toy_hkdf toy_gcm 7 [1, 2] demo_backend))"
  using backend_ops_keep_seeding [OF demo_backend_inv, of toy_hkdf None None None toy_gcm 7 "[1, 2]"] by simp

lemma key_at_length: "hkdf_sized H \<Longrightarrow> length (rk_key (key_at H base n)) = 16"
  by (simp add: key_at_def Let_def hkdf_sized_def)

lemma encrypt_frame_Inr:
  assumes "backend_inv H b" and "hkdf_sized H" and "backend_encrypt_frame H G ssrc frame b = (Inr wire, b1)"
  defines "g \<equiv> generation_of (bk_send_ratchets b) ssrc"
  obtains r0 c where "make_ratchet H ssrc (bk_provider b) = Inr r0" "c < 2 ^ 32" "g < 2 ^ 32"
    "wire = gcm_encrypt G (rk_key (key_at H (rt_chain r0) g)) (build_frame_nonce ssrc (int g) (int c)) frame
       (build_frame_aad ssrc (int g) (int c) []) @ be_encode 4 g @ be_encode 4 c"
    "bk_provider b1 = bk_provider b" "bk_recv_ratchets b1 = bk_recv_ratchets b"
proof -
  obtain r b0 where p: "get_ratchet H ssrc True b = (Inr r, b0)"
    using assms(3) by (cases "get_ratchet H ssrc True b"; cases "fst (get_ratchet H ssrc True b)")
      (auto simp: backend_encrypt_frame_def)
  note r = get_ratchet_send [OF assms(1) p]
  obtain k r1 where s: "ratchet_step H r = Inr (k, r1)"
    using assms(3) p by (cases "ratchet_step H r") (auto simp: backend_encrypt_frame_def)
  obtain r0 where r0: "make_ratchet H ssrc (bk_provider b) = Inr r0" "k = key_at H (rt_chain r0) g" "g < 2 ^ 32"
    using seeded_step [OF _ s, of "bk_provider b" ssrc] r unfolding g_def by auto
  define c where "c = dict_get (bk_frame_counter b0) ssrc 0"
  have wire: "bind_result (frame_aead (rk_key k)) (\<lambda>key.
      bind_result (aes128gcm_encrypt G key (build_frame_nonce ssrc (int g) (int c)) frame (build_frame_aad ssrc (int g) (int c) [])) (\<lambda>ct.
      bind_result (to_bytes_big (int g) 4) (\<lambda>g4.
      bind_result (to_bytes_big (int c) 4) (\<lambda>c4. Inr (ct @ g4 @ c4))))) = Inr wire"
    and b1: "b1 = b0\<lparr>bk_send_ratchets := dict_set (bk_send_ratchets b0) ssrc r1, bk_frame_counter := dict_set (bk_frame_counter b0) ssrc (Suc c)\<rparr>"
    using assms(3) p s r0(2) by (simp_all add: backend_encrypt_frame_def next_frame_counter_def Let_def c_def)
  have cl: "c < 2 ^ 32" using wire by (auto simp: bind_result_Inr_iff to_bytes_big_def split: if_splits)
  have "length (rk_key k) = 16" using r0(2) key_at_length [OF assms(2)] by simp
  then have "wire = gcm_encrypt G (rk_key k) (build_frame_nonce ssrc (int g) (int c)) frame
       (build_frame_aad ssrc (int g) (int c) []) @ be_encode 4 g @ be_encode 4 c"
    using wire cl r0(3)
    by (auto simp: bind_result_Inr_iff frame_aead_def aes128gcm_encrypt_def check_aead_def AES128_KEY_BYTES_def
        GCM_NONCE_BYTES_def build_frame_nonce_def to_bytes_big_def split: if_splits)
  then show thesis using that [of r0 c] r0 cl b1 r by simp
qed

lemma decrypt_frame_eq:
  assumes "length body \<ge> 16" and "g < 2 ^ 32" and "c < 2 ^ 32" and "get_ratchet H ssrc False b = (Inr r, b1)"
    and "derive_for H g r = Inr (k, r1)"
  shows "backend_decrypt_frame H G ssrc (body @ be_encode 4 g @ be_encode 4 c) b =
    (bind_result (frame_aead (rk_key k)) (\<lambda>key.
       aes128gcm_decrypt G key (build_frame_nonce ssrc (int g) (int c)) body (build_frame_aad ssrc (int g) (int c) [])),
     b1\<lparr>bk_recv_ratchets := dict_set (bk_recv_ratchets b1) ssrc r1\<rparr>)"
  using assms by (simp add: backend_decrypt_frame_def Let_def be_decode_encode_mod)

lemma get_ratchet_recv_ok:
  assumes "backend_inv H b" and "make_ratchet H ssrc (bk_provider b) = Inr r0"
  shows "\<exists>r b1. get_ratchet H ssrc False b = (Inr r, b1) \<and> ratchet_inv H (rt_chain r0) r \<and> rt_max_skip r = 32 \<and>
    rt_generation r = generation_of (bk_recv_ratchets b) ssrc"
proof -
  obtain r b1 where p: "get_ratchet H ssrc False b = (Inr r, b1)"
    using assms(2) by (cases "map_of (bk_recv_ratchets b) ssrc") (auto simp: get_ratchet_def)
  show ?thesis using get_ratchet_recv [OF assms(1) p] assms(2) p by (auto simp: seeded_def)
qed

lemma frame_decrypts:
  assumes "backend_inv H s" and "backend_inv H d" and "hkdf_sized H" and "gcm_sound G"
    and "bk_provider d = bk_provider s"
    and "backend_encrypt_frame H G ssrc frame s = (Inr wire, s1)"
    and "generation_of (bk_recv_ratchets d) ssrc \<le> generation_of (bk_send_ratchets s) ssrc"
    and "generation_of (bk_send_ratchets s) ssrc \<le> generation_of (bk_recv_ratchets d) ssrc + 32"
  shows "fst (backend_decrypt_frame H G ssrc wire d) = Inr frame"
proof -
  define g where "g = generation_of (bk_send_ratchets s) ssrc"
  obtain r0 c where e: "make_ratchet H ssrc (bk_provider s) = Inr r0" "c < 2 ^ 32" "g < 2 ^ 32"
    "wire = gcm_encrypt G (rk_key (key_at H (rt_chain r0) g)) (build_frame_nonce ssrc (int g) (int c)) frame
       (build_frame_aad ssrc (int g) (int c) []) @ be_encode 4 g @ be_encode 4 c"
    using encrypt_frame_Inr [OF assms(1,3,6)] unfolding g_def by blast
  obtain r b1 where r: "get_ratchet H ssrc False d = (Inr r, b1)" "ratchet_inv H (rt_chain r0) r" "rt_max_skip r = 32"
    "rt_generation r = generation_of (bk_recv_ratchets d) ssrc"
    using get_ratchet_recv_ok [OF assms(2)] e(1) assms(5) by fastforce
  have "rt_generation r \<le> g" "g - rt_generation r \<le> rt_max_skip r"
    using assms(7,8) r(3,4) unfolding g_def by linarith+
  then obtain r1 where d: "derive_for H g r = Inr (key_at H (rt_chain r0) g, r1)"
    using derive_for_future [OF r(2) _ _ e(3)] by blast
  have "16 \<le> length (gcm_encrypt G key nonce frame ad)" for key nonce ad
    using assms(4) by (simp add: gcm_sound_def)
  from decrypt_frame_eq [OF this e(3,2) r(1) d, of G] show ?thesis
    using assms(4) key_at_length [OF assms(3)]
    by (simp add: e(4) frame_aead_def aes128gcm_decrypt_def check_aead_def AES128_KEY_BYTES_def GCM_NONCE_BYTES_def
        build_frame_nonce_def gcm_sound_def)
qed

text \<open>
  What the backend encrypts it decrypts, in any order within the window. A frame
  encrypted for an SSRC, received by a backend of the same epoch whose ratchet for that SSRC
  is at most 32 generations behind, decrypts to the frame that was sent.
\<close>

theorem dave_frame_roundtrip:
  assumes "backend_inv H s" and "backend_inv H d" and "hkdf_sized H" and "gcm_sound G"
    and "bk_provider d = bk_provider s"
    and "backend_encrypt_frame H G ssrc frame s = (Inr wire, s1)"
    and "generation_of (bk_recv_ratchets d) ssrc \<le> generation_of (bk_send_ratchets s) ssrc"
    and "generation_of (bk_send_ratchets s) ssrc \<le> generation_of (bk_recv_ratchets d) ssrc + 32"
  shows "fst (backend_decrypt_frame H G ssrc wire d) = Inr frame"
  using frame_decrypts [OF assms] .

lemma toy_sound: "hkdf_sized toy_hkdf" "gcm_sound toy_gcm"
  by (simp_all add: hkdf_sized_def toy_hkdf_def gcm_sound_def toy_gcm_def)

lemma demo_make_ratchet: "\<exists>r0. make_ratchet toy_hkdf 7 (bk_provider demo_backend) = Inr r0"
  by (simp add: make_ratchet_def demo_backend_def current_epoch_secret_def to_bytes_big_def hkdf_expand_label_def
      hkdf_info_def DAVE_KDF_SENDER_LABEL_def CHAIN_SECRET_BYTES_def hkdf_expand_def new_ratchet_def toy_hkdf_def)

lemma demo_encrypts: "\<exists>wire s1. backend_encrypt_frame toy_hkdf toy_gcm 7 [1, 2] demo_backend = (Inr wire, s1)"
proof -
  obtain r0 where r0: "make_ratchet toy_hkdf 7 (bk_provider demo_backend) = Inr r0" using demo_make_ratchet by blast
  have i: "ratchet_inv toy_hkdf (rt_chain r0) r0" "rt_generation r0 = 0"
    using make_ratchet_seeded [OF r0] r0 by (auto simp: seeded_def)
  have s: "ratchet_step toy_hkdf r0 = Inr (key_at toy_hkdf (rt_chain r0) 0, r0\<lparr>rt_chain := chain_at toy_hkdf (rt_chain r0) (Suc 0), rt_generation := Suc 0\<rparr>)"
    using ratchet_step_eq [of r0 toy_hkdf "rt_chain r0"] i by (simp add: ratchet_inv_def)
  show ?thesis
    using r0 s key_at_length [OF toy_sound(1), of "rt_chain r0" 0]
    by (simp add: backend_encrypt_frame_def get_ratchet_def demo_backend_def next_frame_counter_def frame_aead_def
        aes128gcm_encrypt_def check_aead_def AES128_KEY_BYTES_def GCM_NONCE_BYTES_def build_frame_nonce_def
        to_bytes_big_def dict_get_def Let_def)
qed

theorem dave_frame_roundtrip_witness:
  "\<exists>wire s1. backend_encrypt_frame toy_hkdf toy_gcm 7 [1, 2] demo_backend = (Inr wire, s1) \<and>
     fst (backend_decrypt_frame toy_hkdf toy_gcm 7 wire demo_backend) = Inr [1, 2]"
proof -
  obtain wire s1 where w: "backend_encrypt_frame toy_hkdf toy_gcm 7 [1, 2] demo_backend = (Inr wire, s1)"
    using demo_encrypts by blast
  show ?thesis
    using dave_frame_roundtrip [OF demo_backend_inv demo_backend_inv toy_sound refl w] w
    by (auto simp: generation_of_def demo_backend_def)
qed

text \<open>
  The receiving ratchet moves before a frame is authenticated. A frame that fails
  authentication consumes the key of the generation its unprotected trailer names, and the
  genuine frame of that generation can no longer be decrypted.
\<close>

theorem forged_frame_burns_key:
  assumes "backend_inv H d" and "16 \<le> length forged" and "16 \<le> length body" and "g < 2 ^ 32" and "c < 2 ^ 32" and "c' < 2 ^ 32"
    and "make_ratchet H ssrc (bk_provider d) = Inr r0"
    and "generation_of (bk_recv_ratchets d) ssrc \<le> g" and "g \<le> generation_of (bk_recv_ratchets d) ssrc + 32"
    and "backend_decrypt_frame H G ssrc (forged @ be_encode 4 g @ be_encode 4 c) d = (res, d1)"
  shows "\<exists>e. fst (backend_decrypt_frame H G ssrc (body @ be_encode 4 g @ be_encode 4 c') d1) = Inl e"
proof -
  obtain r b1 where r: "get_ratchet H ssrc False d = (Inr r, b1)" "ratchet_inv H (rt_chain r0) r" "rt_max_skip r = 32"
    "rt_generation r = generation_of (bk_recv_ratchets d) ssrc"
    using get_ratchet_recv_ok [OF assms(1,7)] by fastforce
  have "rt_generation r \<le> g" "g - rt_generation r \<le> rt_max_skip r" using assms(8,9) r(3,4) by linarith+
  then obtain r1 where dv: "derive_for H g r = Inr (key_at H (rt_chain r0) g, r1)" "rt_generation r1 = Suc g" "map_of (rt_skipped r1) g = None"
    using derive_for_future [OF r(2) _ _ assms(4)] by blast
  have "map_of (bk_recv_ratchets d1) ssrc = Some r1"
    using decrypt_frame_eq [OF assms(2,4,5) r(1) dv(1), of G] assms(10) by auto
  then have "get_ratchet H ssrc False d1 = (Inr r1, d1)" by (simp add: get_ratchet_def)
  moreover have "derive_for H g r1 = Inl (KeyError ''Ratchet generation is no longer available'')"
    using dv(2,3) by (simp add: derive_for_def)
  moreover have "be_decode (be_encode 4 g) = g" using assms(4) by (intro be_decode_encode) simp
  ultimately show ?thesis using assms(3)
    by (simp add: backend_decrypt_frame_def Let_def)
qed

theorem forged_frame_burns_key_witness:
  "\<exists>e. fst (backend_decrypt_frame toy_hkdf toy_gcm 7 (replicate 20 1 @ be_encode 4 3 @ be_encode 4 0)
     (snd (backend_decrypt_frame toy_hkdf toy_gcm 7 (replicate 16 0 @ be_encode 4 3 @ be_encode 4 0) demo_backend))) = Inl e"
proof -
  obtain r0 where r0: "make_ratchet toy_hkdf 7 (bk_provider demo_backend) = Inr r0" using demo_make_ratchet by blast
  have g: "generation_of (bk_recv_ratchets demo_backend) 7 = 0" by (simp add: generation_of_def demo_backend_def)
  obtain res d1 where x: "backend_decrypt_frame toy_hkdf toy_gcm 7 (replicate 16 0 @ be_encode 4 3 @ be_encode 4 0) demo_backend = (res, d1)"
    by (rule prod.exhaust)
  have "\<exists>e. fst (backend_decrypt_frame toy_hkdf toy_gcm 7 (replicate 20 1 @ be_encode 4 3 @ be_encode 4 0) d1) = Inl e"
    by (rule forged_frame_burns_key [OF demo_backend_inv _ _ _ _ _ r0 _ _ x]) (simp_all add: g)
  then show ?thesis unfolding x snd_conv .
qed

lemma epoch_secret_after_eq:
  "0 \<le> epoch \<Longrightarrow> epoch < 2 ^ 32 \<Longrightarrow> \<exists>info. epoch_secret_after H secret epoch = Inr (H secret info 32)"
  by (auto simp: epoch_secret_after_def to_bytes_big_def hkdf_expand_label_def hkdf_info_def hkdf_expand_def)

text \<open>
  A commit by a joined member tells the newcomers the epoch the member itself enters:
  the welcome it emits carries exactly the member's new epoch, secret and membership. The
  very first commit does not: the welcome carries a derived secret while the provider adopts
  its initial secret.
\<close>

theorem commit_welcome_agreement:
  assumes "propose_add H kp p = Inr (cm, p')"
  shows "\<exists>w e'. cm_welcomes cm = [w] \<and> mp_epoch p' = Some e' \<and> wl_epoch w = ge_epoch e' \<and>
    (case mp_epoch p of
       None \<Rightarrow> ge_epoch_secret e' = mp_initial_epoch_secret p \<and> (\<exists>info. wl_epoch_secret w = H (mp_initial_epoch_secret p) info 32)
     | Some e \<Rightarrow> (if mp_joined p then wl_epoch_secret w = ge_epoch_secret e' \<and> ge_epoch e' = ge_epoch e + 1 \<and>
                    (mp_member_id p \<notin> set (ge_members e) \<or> wl_members w = ge_members e')
                  else ge_epoch_secret e' = mp_initial_epoch_secret p))"
proof (cases "mp_epoch p")
  case None
  then show ?thesis using assms epoch_secret_after_eq [of 0 H "mp_initial_epoch_secret p"]
    by (auto simp: propose_add_def Let_def bind_result_Inr_iff apply_commit_def split: if_splits)
next
  case (Some e)
  show ?thesis using assms Some
    by (auto simp: propose_add_def Let_def bind_result_Inr_iff apply_commit_def add_member_def split: if_splits)
qed

theorem commit_welcome_agreement_witness:
  "\<exists>cm p' w e'. propose_add toy_hkdf \<lparr>kp_member_id = ''new'', kp_public_key = [], kp_signature = []\<rparr> (bk_provider demo_backend) = Inr (cm, p') \<and>
     cm_welcomes cm = [w] \<and> mp_epoch p' = Some e' \<and> wl_epoch_secret w = ge_epoch_secret e'"
proof -
  obtain cm p' where c: "propose_add toy_hkdf \<lparr>kp_member_id = ''new'', kp_public_key = [], kp_signature = []\<rparr> (bk_provider demo_backend) = Inr (cm, p')"
    using epoch_secret_after_eq [of 1 toy_hkdf "replicate 32 5"]
    by (auto simp: propose_add_def demo_backend_def Let_def apply_commit_def)
  show ?thesis using commit_welcome_agreement [OF c] c by (auto simp: demo_backend_def)
qed

end
