(* ===== verification/JsonText.thy ===== *)
theory JsonText
  imports PyValue
begin

text \<open>
  The text of Python's \<open>json\<close> module, which the storages on database servers write into their
  columns and keys: \<open>dumps\<close> with the default separators and \<open>ensure_ascii\<close>, \<open>loads\<close> as a recursive
  descent on the text. The text of floats is a parameter of \<open>dumps\<close>, and \<open>loads\<close> refuses
  what is a float or a character above 255. The last lemma is the round trip on every other value.
\<close>

section \<open>Writing\<close>

definition low_hex :: "nat \<Rightarrow> char" where
  "low_hex d = (if d < 10 then char_of (48 + d) else char_of (87 + d))"

definition escape_char :: "char \<Rightarrow> string" where
  "escape_char c =
     (let n = of_char c :: nat in
      if n = 34 then [CHR 0x5C, CHR 0x22]
      else if n = 92 then [CHR 0x5C, CHR 0x5C]
      else if n = 10 then [CHR 0x5C, CHR ''n'']
      else if n = 13 then [CHR 0x5C, CHR ''r'']
      else if n = 9 then [CHR 0x5C, CHR ''t'']
      else if n = 12 then [CHR 0x5C, CHR ''f'']
      else if n = 8 then [CHR 0x5C, CHR ''b'']
      else if 32 \<le> n \<and> n < 127 then [c]
      else [CHR 0x5C, CHR ''u'', CHR ''0'', CHR ''0'', low_hex (n div 16), low_hex (n mod 16)])"

definition dump_string :: "string \<Rightarrow> string" where
  "dump_string s = CHR 0x22 # concat (map escape_char s) @ [CHR 0x22]"

fun joined :: "string list \<Rightarrow> string" where
  "joined [] = []"
| "joined [x] = x"
| "joined (x # y # ys) = x @ CHR '','' # CHR '' '' # joined (y # ys)"

fun json_dumps :: "(real \<Rightarrow> string) \<Rightarrow> json \<Rightarrow> string" where
  "json_dumps fl JNull = ''null''"
| "json_dumps fl (JBool b) = (if b then ''true'' else ''false'')"
| "json_dumps fl (JInt i) = show_int i"
| "json_dumps fl (JFloat x) = fl x"
| "json_dumps fl (JStr s) = dump_string s"
| "json_dumps fl (JList vs) = CHR ''['' # joined (map (json_dumps fl) vs) @ [CHR '']'']"
| "json_dumps fl (JDict d) =
     CHR ''{'' # joined (map (\<lambda>p. dump_string (fst p) @ CHR '':'' # CHR '' '' # json_dumps fl (snd p)) d) @ [CHR ''}'']"

section \<open>Reading\<close>

definition is_json_space :: "char \<Rightarrow> bool" where
  "is_json_space c \<longleftrightarrow> (of_char c :: nat) \<in> {32, 9, 10, 13}"

definition skip_space :: "string \<Rightarrow> string" where
  "skip_space s = dropWhile is_json_space s"

definition hex_digit :: "char \<Rightarrow> nat option" where
  "hex_digit c =
     (let n = of_char c :: nat in
      if 48 \<le> n \<and> n \<le> 57 then Some (n - 48) else if 97 \<le> n \<and> n \<le> 102 then Some (n - 87)
      else if 65 \<le> n \<and> n \<le> 70 then Some (n - 55) else None)"

definition hex4 :: "char \<Rightarrow> char \<Rightarrow> char \<Rightarrow> char \<Rightarrow> nat option" where
  "hex4 a b c d =
     (case (hex_digit a, hex_digit b, hex_digit c, hex_digit d) of
        (Some w, Some x, Some y, Some z) \<Rightarrow> Some (4096 * w + 256 * x + 16 * y + z)
      | _ \<Rightarrow> None)"

definition unescape :: "char \<Rightarrow> char option" where
  "unescape e =
     map_of [(CHR 0x22, CHR 0x22), (CHR 0x5C, CHR 0x5C), (CHR ''/'', CHR ''/''), (CHR ''b'', CHR 0x08), (CHR ''f'', CHR 0x0C),
             (CHR ''n'', CHR 0x0A), (CHR ''r'', CHR 0x0D), (CHR ''t'', CHR 0x09)] e"

definition cons_fst :: "'a \<Rightarrow> 'a list \<times> 'b \<Rightarrow> 'a list \<times> 'b" where
  "cons_fst x p = (x # fst p, snd p)"

fun scan_string :: "string \<Rightarrow> (string \<times> string) option" where
  "scan_string [] = None"
| "scan_string (c # r) =
     (if c = CHR 0x22 then Some ([], r)
      else if c = CHR 0x5C then
        (case r of
           [] \<Rightarrow> None
         | e # r1 \<Rightarrow>
             if e = CHR ''u'' then
               (case r1 of
                  w # x # y # z # r2 \<Rightarrow>
                    (case hex4 w x y z of
                       Some n \<Rightarrow> if n < 256 then map_option (cons_fst (char_of n)) (scan_string r2) else None
                     | None \<Rightarrow> None)
                | _ \<Rightarrow> None)
             else (case unescape e of Some u \<Rightarrow> map_option (cons_fst u) (scan_string r1) | None \<Rightarrow> None))
      else if (of_char c :: nat) < 32 then None
      else map_option (cons_fst c) (scan_string r))"

text \<open>The digits of a number, one only after a leading zero.\<close>

definition scan_digits :: "string \<Rightarrow> string" where
  "scan_digits s = (case s of [] \<Rightarrow> [] | c # _ \<Rightarrow> if c = CHR ''0'' then [c] else takeWhile (\<lambda>x. char_digit x \<noteq> None) s)"

definition scan_number :: "string \<Rightarrow> (json \<times> string) option" where
  "scan_number s =
     (let sign = takeWhile (\<lambda>c. c = CHR ''-'') (take 1 s); t = drop (length sign) s; ds = scan_digits t; r = drop (length ds) t in
      if ds = [] \<or> (r \<noteq> [] \<and> hd r \<in> {CHR ''.'', CHR ''e'', CHR ''E''}) then None
      else (case parse_int (sign @ ds) of Some i \<Rightarrow> Some (JInt i, r) | None \<Rightarrow> None))"

definition literal :: "string \<Rightarrow> json \<Rightarrow> string \<Rightarrow> (json \<times> string) option" where
  "literal w v s = (if take (length w) s = w then Some (v, drop (length w) s) else None)"

fun parse_value :: "nat \<Rightarrow> string \<Rightarrow> (json \<times> string) option"
and parse_elements :: "nat \<Rightarrow> string \<Rightarrow> (json list \<times> string) option"
and parse_members :: "nat \<Rightarrow> string \<Rightarrow> ((string \<times> json) list \<times> string) option" where
  "parse_value 0 s = None"
| "parse_value (Suc n) s =
     (case s of
        [] \<Rightarrow> None
      | c # r \<Rightarrow>
          if c = CHR 0x22 then map_option (\<lambda>(t, r). (JStr t, r)) (scan_string r)
          else if c = CHR ''['' then
            (case skip_space r of
               [] \<Rightarrow> None
             | d # r1 \<Rightarrow> if d = CHR '']'' then Some (JList [], r1) else map_option (\<lambda>(vs, r). (JList vs, r)) (parse_elements n (d # r1)))
          else if c = CHR ''{'' then
            (case skip_space r of
               [] \<Rightarrow> None
             | d # r1 \<Rightarrow> if d = CHR ''}'' then Some (JDict [], r1)
                 else map_option (\<lambda>(ps, r). (JDict (dict_of ps), r)) (parse_members n (d # r1)))
          else if c = CHR ''n'' then literal ''null'' JNull s
          else if c = CHR ''t'' then literal ''true'' (JBool True) s
          else if c = CHR ''f'' then literal ''false'' (JBool False) s
          else scan_number s)"
| "parse_elements 0 s = None"
| "parse_elements (Suc n) s =
     (case parse_value n s of
        None \<Rightarrow> None
      | Some (v, r) \<Rightarrow>
          (case skip_space r of
             [] \<Rightarrow> None
           | d # r1 \<Rightarrow>
               if d = CHR '']'' then Some ([v], r1)
               else if d = CHR '','' then map_option (cons_fst v) (parse_elements n (skip_space r1))
               else None))"
| "parse_members 0 s = None"
| "parse_members (Suc n) s =
     (case s of
        [] \<Rightarrow> None
      | q # s1 \<Rightarrow>
          if q \<noteq> CHR 0x22 then None
          else
            (case scan_string s1 of
               None \<Rightarrow> None
             | Some (key, s2) \<Rightarrow>
                 (case skip_space s2 of
                    [] \<Rightarrow> None
                  | m # s3 \<Rightarrow>
                      if m \<noteq> CHR '':'' then None
                      else
                        (case parse_value n (skip_space s3) of
                           None \<Rightarrow> None
                         | Some (v, r) \<Rightarrow>
                             (case skip_space r of
                                [] \<Rightarrow> None
                              | d # r1 \<Rightarrow>
                                  if d = CHR ''}'' then Some ([(key, v)], r1)
                                  else if d = CHR '','' then map_option (cons_fst (key, v)) (parse_members n (skip_space r1))
                                  else None)))))"

definition json_loads :: "string \<Rightarrow> json result" where
  "json_loads s =
     (case parse_value (Suc (length s)) (skip_space s) of
        Some (v, r) \<Rightarrow> if skip_space r = [] then Inr v else Inl (ValueError ''Extra data'')
      | None \<Rightarrow> Inl (ValueError ''Expecting value''))"

text \<open>The values without floats whose dictionaries have each key once.\<close>

fun plain_json :: "json \<Rightarrow> bool" where
  "plain_json JNull = True"
| "plain_json (JBool b) = True"
| "plain_json (JInt i) = True"
| "plain_json (JFloat x) = False"
| "plain_json (JStr s) = True"
| "plain_json (JList vs) = list_all plain_json vs"
| "plain_json (JDict d) = (distinct (map fst d) \<and> list_all (\<lambda>p. plain_json (snd p)) d)"

section \<open>Reading back\<close>

lemma hex_digit_low: "d < 16 \<Longrightarrow> hex_digit (low_hex d) = Some d"
proof (cases "d < 10")
  case True
  then have "(of_char (char_of (48 + d)) :: nat) = 48 + d" unfolding of_char_of by simp
  then show ?thesis using True by (simp only: hex_digit_def low_hex_def Let_def if_True) simp
next
  case False
  assume "d < 16"
  with False have "(of_char (char_of (87 + d)) :: nat) = 87 + d" unfolding of_char_of by simp
  then show ?thesis using False \<open>d < 16\<close> by (simp only: hex_digit_def low_hex_def Let_def if_False) simp
qed

lemma hex4_low: "n < 256 \<Longrightarrow> hex4 (CHR ''0'') (CHR ''0'') (low_hex (n div 16)) (low_hex (n mod 16)) = Some n"
  by (simp add: hex4_def hex_digit_low) (simp add: hex_digit_def)

lemma code_below: "(of_char c :: nat) < 256"
  using of_char_mod_256 [of c, where 'a = nat] by (metis mod_less_divisor zero_less_numeral)

lemma code_is: "(of_char c :: nat) = n \<Longrightarrow> c = char_of n"
  by (metis char_of_char)

lemma char_codes:
  "char_of (34 :: nat) = CHR 0x22" "char_of (92 :: nat) = CHR 0x5C" "char_of (10 :: nat) = CHR 0x0A" "char_of (13 :: nat) = CHR 0x0D"
  "char_of (9 :: nat) = CHR 0x09" "char_of (12 :: nat) = CHR 0x0C" "char_of (8 :: nat) = CHR 0x08" "char_of (48 :: nat) = CHR ''0''"
  by (simp_all add: char_of_eq_iff)

lemma scan_escape: "scan_string (escape_char c @ t) = map_option (cons_fst c) (scan_string t)"
proof -
  define n where "n = (of_char c :: nat)"
  have c: "c = char_of n" by (simp add: n_def)
  have below: "n < 256" using code_below by (simp add: n_def)
  have plain: "c \<noteq> CHR 0x22 \<and> c \<noteq> CHR 0x5C" if "n \<noteq> 34" "n \<noteq> 92"
    using that by (auto simp: n_def)
  consider "n \<in> {34, 92, 10, 13, 9, 12, 8}" | "n \<notin> {34, 92, 10, 13, 9, 12, 8}" "32 \<le> n \<and> n < 127"
    | "n \<notin> {34, 92, 10, 13, 9, 12, 8}" "\<not> (32 \<le> n \<and> n < 127)" by blast
  then show ?thesis
  proof cases
    case 1
    then show ?thesis
      by (elim insertE emptyE) (simp_all add: c escape_char_def Let_def unescape_def char_codes)
  next
    case 2
    then have "escape_char c = [c]" by (simp add: escape_char_def Let_def n_def)
    moreover have "\<not> (of_char c :: nat) < 32" using 2 by (simp add: n_def)
    ultimately show ?thesis using 2 plain by simp
  next
    case 3
    then have "escape_char c = [CHR 0x5C, CHR ''u'', CHR ''0'', CHR ''0'', low_hex (n div 16), low_hex (n mod 16)]"
      by (simp add: escape_char_def Let_def n_def)
    then show ?thesis using below c by (simp add: hex4_low)
  qed
qed

lemma scan_dump: "scan_string (concat (map escape_char s) @ CHR 0x22 # r) = Some (s, r)"
  by (induction s) (simp_all add: scan_escape cons_fst_def del: scan_string.simps(2), simp)

lemma skip_space_simps [simp]:
  "\<not> is_json_space c \<Longrightarrow> skip_space (c # s) = c # s"
  "is_json_space c \<Longrightarrow> skip_space (c # s) = skip_space s"
  "skip_space [] = []"
  by (simp_all add: skip_space_def)

definition ends :: "string \<Rightarrow> bool" where
  "ends r \<longleftrightarrow> r = [] \<or> hd r \<in> {CHR '','', CHR '']'', CHR ''}''}"

lemma char_digit_show_nat: "c \<in> set (show_nat n) \<Longrightarrow> char_digit c \<noteq> None"
  by (auto dest!: show_nat_digits)

lemma show_nat_head: "0 < n \<Longrightarrow> hd (show_nat n) \<noteq> CHR ''0''"
proof (induction n rule: show_nat.induct)
  case (1 n)
  show ?case
  proof (cases "n < 10")
    case True
    then show ?thesis using 1 of_char_digit_char [of n] by (subst show_nat.simps) auto
  next
    case False
    then show ?thesis using 1 by (subst show_nat.simps) (simp add: hd_append)
  qed
qed

lemma ends_no_digit: "ends r \<Longrightarrow> takeWhile (\<lambda>x. char_digit x \<noteq> None) r = []"
  by (cases r) (auto simp: ends_def char_digit_def)

lemma scan_digits_show_nat: "ends r \<Longrightarrow> scan_digits (show_nat n @ r) = show_nat n"
proof (cases "n = 0")
  case True
  then show ?thesis by (simp add: scan_digits_def show_nat.simps digit_char_def char_codes)
next
  case False
  assume r: "ends r"
  obtain c s where s: "show_nat n = c # s" by (cases "show_nat n") auto
  have "c \<noteq> CHR ''0''" using show_nat_head [of n] False s by simp
  then have "scan_digits (show_nat n @ r) = takeWhile (\<lambda>x. char_digit x \<noteq> None) (show_nat n @ r)"
    by (simp add: scan_digits_def s)
  also have "\<dots> = show_nat n"
    using takeWhile_append2 [where xs = "show_nat n" and P = "\<lambda>x. char_digit x \<noteq> None" and ys = r, OF char_digit_show_nat]
    by (simp only: ends_no_digit [OF r] append_Nil2)
  finally show ?thesis .
qed

lemma scan_number_show_int:
  assumes "ends r"
  shows "scan_number (show_int i @ r) = Some (JInt i, r)"
proof -
  have r: "\<not> (r \<noteq> [] \<and> hd r \<in> {CHR ''.'', CHR ''e'', CHR ''E''})" using assms by (auto simp: ends_def)
  show ?thesis
  proof (cases "i < 0")
    case True
    then have s: "show_int i = CHR ''-'' # show_nat (nat (- i))" by (simp add: show_int_def)
    have "parse_int (CHR ''-'' # show_nat (nat (- i))) = Some i" using s parse_int_show_int [of i] by simp
    then show ?thesis using r by (simp add: scan_number_def s Let_def scan_digits_show_nat assms)
  next
    case False
    then have s: "show_int i = show_nat (nat i)" by (simp add: show_int_def)
    obtain c t where c: "show_nat (nat i) = c # t" by (cases "show_nat (nat i)") auto
    have "c \<noteq> CHR ''-''" using show_nat_digits [of c "nat i"] digit_char_not_sign c by auto
    then have sign: "takeWhile (\<lambda>c. c = CHR ''-'') (take 1 (show_nat (nat i) @ r)) = []" by (simp add: c)
    have "parse_int (show_nat (nat i)) = Some i" using s parse_int_show_int [of i] by simp
    then show ?thesis using r unfolding scan_number_def Let_def s sign by (simp add: scan_digits_show_nat assms)
  qed
qed

lemma show_int_nonempty [simp]: "show_int i \<noteq> []"
  by (simp add: show_int_def)

lemma dump_nonempty: "plain_json v \<Longrightarrow> json_dumps fl v \<noteq> []"
  by (cases v) (auto simp: dump_string_def)

lemma show_int_head: "\<exists>c s. show_int i = c # s \<and> (c = CHR ''-'' \<or> (\<exists>d < 10. c = digit_char d))"
proof (cases "show_int i")
  case (Cons c s)
  then have "c = CHR ''-'' \<or> c \<in> set (show_nat (nat i))" by (auto simp: show_int_def split: if_splits)
  then show ?thesis using Cons show_nat_digits by blast
qed simp

text \<open>No value starts with white space, and a number starts like no other value.\<close>

definition number_start :: "char \<Rightarrow> bool" where
  "number_start c \<longleftrightarrow> c \<notin> {CHR 0x22, CHR ''['', CHR ''{'', CHR ''n'', CHR ''t'', CHR ''f'', CHR '']'', CHR ''}''} \<and> \<not> is_json_space c"

lemma show_int_start: "\<exists>c s. show_int i = c # s \<and> number_start c"
proof -
  have "number_start (digit_char d)" if "d < 10" for d
    using of_char_digit_char [OF that] that by (auto simp: number_start_def is_json_space_def)
  moreover have "number_start (CHR ''-'')" by (simp add: number_start_def is_json_space_def)
  ultimately show ?thesis using show_int_head [of i] by metis
qed

lemma dump_start:
  assumes "plain_json v"
  obtains c s where "json_dumps fl v = c # s" and "\<not> is_json_space c" and "c \<notin> {CHR '']'', CHR ''}''}"
proof -
  have "\<exists>c s. json_dumps fl v = c # s \<and> \<not> is_json_space c \<and> c \<notin> {CHR '']'', CHR ''}''}"
    using assms show_int_start by (cases v) (fastforce simp: dump_string_def is_json_space_def number_start_def)+
  then show ?thesis using that by blast
qed

lemma parse_int_value: "ends r \<Longrightarrow> parse_value (Suc n) (show_int i @ r) = Some (JInt i, r)"
proof -
  assume r: "ends r"
  obtain c s where c: "show_int i = c # s" "number_start c" using show_int_start by blast
  have "parse_value (Suc n) ((c # s) @ r) = scan_number ((c # s) @ r)"
    using c(2) by (simp add: number_start_def)
  then show ?thesis by (simp only: c(1) [symmetric] scan_number_show_int [OF r])
qed

lemma delimiters [simp]:
  "\<not> is_json_space (CHR '','')" "\<not> is_json_space (CHR '']'')" "\<not> is_json_space (CHR ''}'')" "\<not> is_json_space (CHR '':'')"
  "\<not> is_json_space (CHR 0x22)" "is_json_space (CHR '' '')" "ends (CHR '','' # r)" "ends (CHR '']'' # r)" "ends (CHR ''}'' # r)" "ends []"
  by (simp_all add: is_json_space_def ends_def)

lemma parse_elements_joined:
  assumes "\<forall>v \<in> set vs. plain_json v \<and> (\<forall>n r. length (json_dumps fl v) \<le> n \<longrightarrow> ends r \<longrightarrow> parse_value n (json_dumps fl v @ r) = Some (v, r))"
    and "vs \<noteq> []" and "length (joined (map (json_dumps fl) vs)) < n"
  shows "parse_elements n (joined (map (json_dumps fl) vs) @ CHR '']'' # r) = Some (vs, r)"
  using assms
proof (induction vs arbitrary: n)
  case (Cons v vs)
  obtain m where n: "n = Suc m" using Cons.prems(3) by (cases n) auto
  have v: "parse_value m (json_dumps fl v @ t) = Some (v, t)" if "ends t" "length (json_dumps fl v) \<le> m" for t
    using Cons.prems(1) that by simp
  show ?case
  proof (cases vs)
    case Nil
    then show ?thesis using Cons.prems(3) n by (simp add: v)
  next
    case (Cons w ws)
    have ne: "json_dumps fl v \<noteq> []" and pw: "plain_json w" using Cons.prems(1) dump_nonempty Cons by auto
    obtain c s where c: "json_dumps fl w = c # s" "\<not> is_json_space c" using dump_start [OF pw, of fl] by blast
    have joined: "\<exists>t. joined (map (json_dumps fl) vs) = c # t" using c by (cases ws) (simp_all add: Cons)
    then obtain t where t: "joined (map (json_dumps fl) vs) = c # t" by blast
    have len: "length (joined (map (json_dumps fl) vs)) < m" "length (json_dumps fl v) \<le> m"
      using Cons.prems(3) ne n by (simp_all add: Cons)
    have ih: "parse_elements m (joined (map (json_dumps fl) vs) @ CHR '']'' # r) = Some (vs, r)"
      using Cons.IH Cons.prems(1) len(1) Cons by simp
    have split: "joined (map (json_dumps fl) (v # vs)) = json_dumps fl v @ CHR '','' # CHR '' '' # joined (map (json_dumps fl) vs)"
      by (simp add: Cons)
    show ?thesis using ih len(2) c(2) unfolding split n t by (simp add: v cons_fst_def)
  qed
qed simp

abbreviation member_text :: "(real \<Rightarrow> string) \<Rightarrow> string \<times> json \<Rightarrow> string" where
  "member_text fl p \<equiv> dump_string (fst p) @ CHR '':'' # CHR '' '' # json_dumps fl (snd p)"

lemma parse_member:
  assumes "plain_json (snd p)" and "parse_value m (json_dumps fl (snd p) @ t) = Some (snd p, t)"
  shows "parse_members (Suc m) (member_text fl p @ t) =
     (case skip_space t of
        [] \<Rightarrow> None
      | d # r1 \<Rightarrow>
          if d = CHR ''}'' then Some ([p], r1)
          else if d = CHR '','' then map_option (cons_fst p) (parse_members m (skip_space r1))
          else None)"
proof -
  obtain c s where c: "json_dumps fl (snd p) = c # s" "\<not> is_json_space c" using dump_start [OF assms(1), of fl] by blast
  have v: "parse_value m (c # s @ t) = Some (snd p, t)" using assms(2) c(1) by simp
  show ?thesis by (cases "skip_space t") (simp_all add: dump_string_def scan_dump c v del: scan_string.simps cong: if_cong)
qed

lemma parse_members_joined:
  assumes "\<forall>p \<in> set d. plain_json (snd p) \<and> (\<forall>n r. length (json_dumps fl (snd p)) \<le> n \<longrightarrow> ends r \<longrightarrow> parse_value n (json_dumps fl (snd p) @ r) = Some (snd p, r))"
    and "d \<noteq> []" and "length (joined (map (member_text fl) d)) < n"
  shows "parse_members n (joined (map (member_text fl) d) @ CHR ''}'' # r) = Some (d, r)"
  using assms
proof (induction d arbitrary: n)
  case (Cons p d)
  obtain m where n: "n = Suc m" using Cons.prems(3) by (cases n) auto
  have p: "plain_json (snd p)" using Cons.prems(1) by simp
  have v: "parse_value m (json_dumps fl (snd p) @ t) = Some (snd p, t)" if "ends t" "length (json_dumps fl (snd p)) \<le> m" for t
    using Cons.prems(1) that by simp
  show ?case
  proof (cases d)
    case Nil
    have "parse_value m (json_dumps fl (snd p) @ CHR ''}'' # r) = Some (snd p, CHR ''}'' # r)"
      using Cons.prems(3) n Nil by (intro v) simp_all
    from parse_member [OF p this] show ?thesis by (simp add: Nil n)
  next
    case (Cons w ws)
    obtain t where t: "joined (map (member_text fl) d) = CHR 0x22 # t"
      by (cases ws) (simp_all add: Cons dump_string_def)
    have len: "length (joined (map (member_text fl) d)) < m" "length (json_dumps fl (snd p)) \<le> m"
      using Cons.prems(3) n by (simp_all add: Cons)
    have ih: "parse_members m (joined (map (member_text fl) d) @ CHR ''}'' # r) = Some (d, r)"
      using Cons.IH Cons.prems(1) len(1) Cons by simp
    have split: "joined (map (member_text fl) (p # d)) = member_text fl p @ CHR '','' # CHR '' '' # joined (map (member_text fl) d)"
      by (simp add: Cons)
    have "parse_value m (json_dumps fl (snd p) @ CHR '','' # CHR '' '' # joined (map (member_text fl) d) @ CHR ''}'' # r) =
        Some (snd p, CHR '','' # CHR '' '' # joined (map (member_text fl) d) @ CHR ''}'' # r)"
      using len(2) by (intro v) simp_all
    from parse_member [OF p this] show ?thesis using ih unfolding split n t by (simp add: cons_fst_def)
  qed
qed simp

lemma parse_dumps:
  "plain_json v \<Longrightarrow> length (json_dumps fl v) \<le> n \<Longrightarrow> ends r \<Longrightarrow> parse_value n (json_dumps fl v @ r) = Some (v, r)"
proof (induction v arbitrary: n r)
  case (JInt i)
  then obtain m where "n = Suc m" by (cases n) auto
  then show ?case using parse_int_value JInt.prems by simp
next
  case (JStr s)
  then obtain m where "n = Suc m" by (cases n) (auto simp: dump_string_def)
  then show ?case by (simp add: dump_string_def scan_dump del: scan_string.simps)
next
  case (JList vs)
  then obtain m where n: "n = Suc m" by (cases n) auto
  show ?case
  proof (cases vs)
    case Nil
    then show ?thesis by (simp add: n)
  next
    case (Cons w ws)
    have pw: "plain_json w" using JList.prems Cons by simp
    obtain c s where c: "json_dumps fl w = c # s" "\<not> is_json_space c" "c \<notin> {CHR '']'', CHR ''}''}" using dump_start [OF pw, of fl] by blast
    obtain t where t: "joined (map (json_dumps fl) vs) = c # t" using c by (cases ws) (simp_all add: Cons)
    have "parse_elements m (joined (map (json_dumps fl) vs) @ CHR '']'' # r) = Some (vs, r)"
      using JList.prems JList.IH n Cons by (intro parse_elements_joined) (auto simp: list_all_iff)
    then show ?thesis using c(2,3) unfolding json_dumps.simps n t by simp
  qed
next
  case (JDict d)
  then obtain m where n: "n = Suc m" by (cases n) auto
  show ?case
  proof (cases d)
    case Nil
    then show ?thesis by (simp add: n)
  next
    case (Cons w ws)
    obtain t where t: "joined (map (member_text fl) d) = CHR 0x22 # t"
      by (cases ws) (simp_all add: Cons dump_string_def)
    have "parse_members m (joined (map (member_text fl) d) @ CHR ''}'' # r) = Some (d, r)"
      using JDict.prems n Cons by (intro parse_members_joined) (auto simp: list_all_iff intro!: JDict.IH snds.intros)
    then show ?thesis using JDict.prems(1) unfolding json_dumps.simps n t by (simp add: dict_of_wf_id dict_wf_def)
  qed
next
  case JNull
  then obtain m where "n = Suc m" by (cases n) auto
  then show ?case by (simp add: literal_def)
next
  case (JBool b)
  then obtain m where "n = Suc m" by (cases n) (auto split: if_splits)
  then show ?case by (simp add: literal_def)
qed simp

lemma loads_dumps: "plain_json v \<Longrightarrow> json_loads (json_dumps fl v) = Inr v"
proof -
  assume p: "plain_json v"
  obtain c s where c: "json_dumps fl v = c # s" "\<not> is_json_space c" using dump_start [OF p, of fl] by blast
  have "skip_space (json_dumps fl v) = json_dumps fl v" using c by simp
  then show ?thesis using parse_dumps [OF p, of fl "Suc (length (json_dumps fl v))" "[]"] by (simp add: json_loads_def)
qed

end
