(* ===== verification/DavePayload.thy ===== *)
theory DavePayload
  imports DaveBackend JsonText
begin

text \<open>
  The wire payloads of the in-process MLS provider (src/vaidcord-py/src/vaidcord/voice/dave/mls/types.py,
  voice/dave/reference.py): hexadecimal bytes, \<open>to_payload\<close> of key packages, welcomes and commits, their
  conversion back, and the operations of the reference backend on payloads. The text of floats and
  containers is a parameter; member ids that are not strings are outside the model.
\<close>

section \<open>Hexadecimal bytes\<close>

definition hex_byte :: "byte \<Rightarrow> string" where
  "hex_byte b = [low_hex (unat b div 16), low_hex (unat b mod 16)]"

definition bytes_hex :: "bytes \<Rightarrow> string" where
  "bytes_hex bs = concat (map hex_byte bs)"

text \<open>\<open>bytes.fromhex\<close> skips white space between the bytes.\<close>

fun from_hex :: "string \<Rightarrow> bytes result" where
  "from_hex [] = Inr []"
| "from_hex (c # r) =
     (if is_space c then from_hex r
      else
        (case r of
           [] \<Rightarrow> Inl (ValueError ''non-hexadecimal number found in fromhex()'')
         | d # r1 \<Rightarrow>
             (case (hex_digit c, hex_digit d) of
                (Some x, Some y) \<Rightarrow> bind_result (from_hex r1) (\<lambda>bs. Inr (word_of_nat (16 * x + y) # bs))
              | _ \<Rightarrow> Inl (ValueError ''non-hexadecimal number found in fromhex()''))))"

section \<open>Payloads\<close>

definition key_package_payload :: "key_package \<Rightarrow> jdict" where
  "key_package_payload kp =
     [(''member_id'', JStr (kp_member_id kp)), (''key_package'', JStr (bytes_hex (kp_public_key kp))),
      (''signature'', JStr (bytes_hex (kp_signature kp)))]"

definition welcome_payload :: "mls_welcome \<Rightarrow> jdict" where
  "welcome_payload w =
     [(''epoch'', JInt (wl_epoch w)), (''group_id'', JStr (wl_group_id w)), (''epoch_secret'', JStr (bytes_hex (wl_epoch_secret w))),
      (''members'', JList (map JStr (wl_members w)))]"

definition commit_payload :: "mls_commit \<Rightarrow> jdict" where
  "commit_payload c =
     [(''epoch'', JInt (cm_epoch c)), (''group_id'', JStr (cm_group_id c)), (''add_members'', JList (map JStr (cm_add_members c))),
      (''remove_members'', JList (map JStr (cm_remove_members c))),
      (''welcomes'', JList (map (\<lambda>w. JDict (welcome_payload w)) (cm_welcomes c)))]"

definition text_of :: "(json \<Rightarrow> string) \<Rightarrow> json \<Rightarrow> string" where
  "text_of other v = (case py_str v of Some s \<Rightarrow> s | None \<Rightarrow> other v)"

text \<open>\<open>tuple(payload.get(key) or ())\<close> of member ids.\<close>

definition member_ids :: "jdict \<Rightarrow> string \<Rightarrow> string list result" where
  "member_ids d key =
     (let v = jget d key in
      if \<not> json_truthy v then Inr []
      else bind_result (json_iter v) (\<lambda>vs. Inr (map (\<lambda>x. case x of JStr s \<Rightarrow> s | _ \<Rightarrow> []) vs)))"

definition welcome_from_payload :: "(json \<Rightarrow> string) \<Rightarrow> json \<Rightarrow> mls_welcome option result" where
  "welcome_from_payload other v =
     (case v of
        JDict d \<Rightarrow>
          (let secret_hex = jget d ''epoch_secret'' in
           if secret_hex = JNull then Inr None
           else
             bind_result (py_int (dict_get d ''epoch'' (JInt 0))) (\<lambda>epoch.
             bind_result (from_hex (text_of other secret_hex)) (\<lambda>secret.
             bind_result (member_ids d ''members'') (\<lambda>members.
               Inr (Some \<lparr>wl_epoch = epoch, wl_group_id = text_of other (dict_get d ''group_id'' (JStr ''vaidcord-dave-group'')),
                          wl_epoch_secret = secret, wl_members = members\<rparr>)))))
      | _ \<Rightarrow> Inl (AttributeError ''get''))"

definition welcomes_from_payload :: "(json \<Rightarrow> string) \<Rightarrow> jdict \<Rightarrow> mls_welcome list result" where
  "welcomes_from_payload other d =
     (let v = jget d ''welcomes'' in
      if \<not> json_truthy v then Inr []
      else
        bind_result (json_iter v) (\<lambda>ws.
        bind_result (map_result (welcome_from_payload other) ws) (\<lambda>rs. Inr (concat (map (\<lambda>r. case r of None \<Rightarrow> [] | Some w \<Rightarrow> [w]) rs)))))"

definition commit_from_payload :: "(json \<Rightarrow> string) \<Rightarrow> jdict \<Rightarrow> mls_commit option result" where
  "commit_from_payload other d =
     (case map_of d ''epoch'' of
        None \<Rightarrow> Inr None
      | Some ep \<Rightarrow>
          bind_result (welcomes_from_payload other d) (\<lambda>welcomes.
          bind_result (py_int ep) (\<lambda>epoch.
          bind_result (member_ids d ''add_members'') (\<lambda>added.
          bind_result (member_ids d ''remove_members'') (\<lambda>removed.
            Inr (Some \<lparr>cm_epoch = epoch, cm_group_id = text_of other (dict_get d ''group_id'' (JStr ''vaidcord-dave-group'')),
                       cm_add_members = added, cm_remove_members = removed, cm_welcomes = welcomes\<rparr>))))))"

section \<open>The backend on payloads\<close>

definition prepare_epoch_payload :: "hkdf \<Rightarrow> backend \<Rightarrow> jdict result \<times> backend" where
  "prepare_epoch_payload H b = (let (r, b1) = backend_prepare_epoch H b in (map_sum id key_package_payload r, b1))"

definition proposals_payload :: "hkdf \<Rightarrow> backend \<Rightarrow> jdict result \<times> backend" where
  "proposals_payload H b = (let (r, b1) = backend_handle_proposals H b in (map_sum id commit_payload r, b1))"

definition handle_commit_payload :: "hkdf \<Rightarrow> (json \<Rightarrow> string) \<Rightarrow> jdict \<Rightarrow> backend \<Rightarrow> unit result \<times> backend" where
  "handle_commit_payload H other d b =
     (case commit_from_payload other d of
        Inl e \<Rightarrow> (Inl e, b)
      | Inr c \<Rightarrow> backend_handle_commit H c b)"

definition handle_welcome_payload :: "(json \<Rightarrow> string) \<Rightarrow> jdict \<Rightarrow> backend \<Rightarrow> unit result \<times> backend" where
  "handle_welcome_payload other d b =
     (case welcome_from_payload other (JDict d) of
        Inl e \<Rightarrow> (Inl e, b)
      | Inr w \<Rightarrow> backend_handle_welcome w b)"

section \<open>Round trips\<close>

lemma low_hex_no_space: "d < 16 \<Longrightarrow> \<not> is_space (low_hex d)"
  by (auto simp: is_space_def low_hex_def Let_def)

lemma from_hex_hex [simp]: "from_hex (bytes_hex bs) = Inr bs"
proof (induction bs)
  case (Cons b bs)
  have b: "unat b div 16 < 16" "unat b mod 16 < 16" using unsigned_less [of b, where ?'a = nat] by (simp_all add: less_mult_imp_div_less)
  have "word_of_nat (16 * (unat b div 16) + unat b mod 16) = b" by simp
  then show ?case using Cons b
    by (simp add: bytes_hex_def hex_byte_def low_hex_no_space hex_digit_low del: mult_div_mod_eq)
qed (simp add: bytes_hex_def)

lemma member_ids_payload: "map_of d key = Some (JList (map JStr ms)) \<Longrightarrow> member_ids d key = Inr ms"
  by (cases ms) (simp_all add: member_ids_def jget_def dict_get_def json_truthy_def json_iter_def comp_def)

lemma welcome_roundtrip: "welcome_from_payload other (JDict (welcome_payload w)) = Inr (Some w)"
proof -
  have "member_ids (welcome_payload w) ''members'' = Inr (wl_members w)"
    by (rule member_ids_payload) (simp add: welcome_payload_def)
  then show ?thesis
    by (simp add: welcome_from_payload_def welcome_payload_def jget_def dict_get_def text_of_def py_str_def)
qed

lemma welcomes_roundtrip:
  "map_of d ''welcomes'' = Some (JList (map (\<lambda>w. JDict (welcome_payload w)) ws)) \<Longrightarrow> welcomes_from_payload other d = Inr ws"
proof -
  assume d: "map_of d ''welcomes'' = Some (JList (map (\<lambda>w. JDict (welcome_payload w)) ws))"
  have "map_result (welcome_from_payload other) (map (\<lambda>w. JDict (welcome_payload w)) ws) = Inr (map Some ws)"
    by (induction ws) (simp_all add: welcome_roundtrip)
  moreover have "concat (map (\<lambda>r. case r of None \<Rightarrow> [] | Some w \<Rightarrow> [w]) (map Some ws)) = ws" by (induction ws) simp_all
  ultimately show ?thesis
    using d by (cases ws) (simp_all add: welcomes_from_payload_def jget_def dict_get_def json_truthy_def json_iter_def)
qed

lemma commit_roundtrip: "commit_from_payload other (commit_payload c) = Inr (Some c)"
proof -
  have "member_ids (commit_payload c) ''add_members'' = Inr (cm_add_members c)"
    "member_ids (commit_payload c) ''remove_members'' = Inr (cm_remove_members c)"
    by (rule member_ids_payload, simp add: commit_payload_def)+
  moreover have "welcomes_from_payload other (commit_payload c) = Inr (cm_welcomes c)"
    by (rule welcomes_roundtrip) (simp add: commit_payload_def)
  ultimately show ?thesis
    by (simp add: commit_from_payload_def) (simp add: commit_payload_def dict_get_def text_of_def py_str_def)
qed

text \<open>The payloads survive the JSON text of the websocket.\<close>

lemma plain_payloads: "plain_json (JDict (welcome_payload w))" "plain_json (JDict (commit_payload c))"
proof -
  show w: "plain_json (JDict (welcome_payload w))" for w by (simp add: welcome_payload_def list_all_iff)
  show "plain_json (JDict (commit_payload c))"
    using w by (simp add: commit_payload_def list_all_iff del: plain_json.simps(7)) (simp add: w list_all_iff)
qed

text \<open>
  C30: a welcome reaches a new participant through the wire. A member that is in the group answers proposals with a commit
  payload; the welcome in it, written as JSON text and read back by the other participant of the
  same group, puts that participant into the member's new epoch with the member's new secret.
\<close>

theorem welcome_travels:
  assumes "proposals_payload H a = (Inr d, a1)" and "mp_epoch (bk_provider a) = Some e" and "mp_joined (bk_provider a)"
    and "mp_group_id (bk_provider b) = mp_group_id (bk_provider a)"
  shows "\<exists>w b1. jget d ''welcomes'' = JList [JDict w] \<and> json_loads (json_dumps fl (JDict w)) = Inr (JDict w) \<and>
    handle_welcome_payload other w b = (Inr (), b1) \<and>
    current_epoch (bk_provider b1) = Some (ge_epoch e + 1) \<and>
    current_epoch (bk_provider a1) = current_epoch (bk_provider b1) \<and>
    current_epoch_secret (bk_provider a1) = current_epoch_secret (bk_provider b1)"
proof -
  obtain c p where c: "propose_add H (generate_key_package (bk_provider a)) (bk_provider a) = Inr (c, p)"
      "d = commit_payload c" "a1 = reseed_ratchets (a\<lparr>bk_provider := p\<rparr>)"
    using assms(1) by (auto simp: proposals_payload_def backend_handle_proposals_def split: sum.splits prod.splits)
  obtain w e1 where w: "cm_welcomes c = [w]" "mp_epoch p = Some e1" "wl_epoch w = ge_epoch e1"
      "wl_epoch_secret w = ge_epoch_secret e1" "ge_epoch e1 = ge_epoch e + 1"
    using commit_welcome_agreement [OF c(1)] assms(2,3) by auto
  have g: "wl_group_id w = mp_group_id (bk_provider b)"
    using c(1) w(1) assms(4) by (auto simp: propose_add_def Let_def bind_result_Inr_iff)
  have "jget d ''welcomes'' = JList [JDict (welcome_payload w)]"
    using c(2) w(1) by (simp add: commit_payload_def jget_def dict_get_def)
  moreover have "json_loads (json_dumps fl (JDict (welcome_payload w))) = Inr (JDict (welcome_payload w))"
    by (rule loads_dumps [OF plain_payloads(1)])
  moreover obtain b1 where "handle_welcome_payload other (welcome_payload w) b = (Inr (), b1)"
      "current_epoch (bk_provider b1) = Some (wl_epoch w)" "current_epoch_secret (bk_provider b1) = Some (wl_epoch_secret w)"
    using g by (auto simp: handle_welcome_payload_def welcome_roundtrip backend_handle_welcome_def apply_welcome_def reseed_ratchets_def
        current_epoch_def current_epoch_secret_def)
  ultimately show ?thesis
    using w c(3) by (auto simp: current_epoch_def current_epoch_secret_def reseed_ratchets_def)
qed

text \<open>A newcomer to the group of the demonstration backend, without an epoch of its own.\<close>

definition newcomer :: backend where
  "newcomer = demo_backend\<lparr>bk_provider := new_provider ''new'' (mp_group_id (bk_provider demo_backend)) [1] [2]\<rparr>"

theorem welcome_travels_witness:
  "\<exists>d a1 w b1. proposals_payload toy_hkdf demo_backend = (Inr d, a1) \<and> jget d ''welcomes'' = JList [JDict w] \<and>
     handle_welcome_payload (\<lambda>_. []) w newcomer = (Inr (), b1) \<and>
     current_epoch_secret (bk_provider a1) = current_epoch_secret (bk_provider b1)"
proof -
  obtain e where e: "mp_epoch (bk_provider demo_backend) = Some e" "0 \<le> ge_epoch e + 1" "ge_epoch e + 1 < 2 ^ 32"
      "mp_joined (bk_provider demo_backend)"
    by (simp add: demo_backend_def)
  obtain d a1 where d: "proposals_payload toy_hkdf demo_backend = (Inr d, a1)"
    using epoch_secret_after_eq [OF e(2,3), of toy_hkdf "ge_epoch_secret e"] e(1,4)
    by (auto simp: proposals_payload_def backend_handle_proposals_def propose_add_def apply_commit_def Let_def)
  have g: "mp_group_id (bk_provider newcomer) = mp_group_id (bk_provider demo_backend)" by (simp add: newcomer_def new_provider_def)
  show ?thesis using welcome_travels [OF d e(1,4) g, of "\<lambda>_. []" "\<lambda>_. []"] d by blast
qed

end
