(* ===== verification/Fsm.thy ===== *)
theory Fsm
  imports PyValue
begin

text \<open>
  The finite-state-machine storage (src/vaidcord-py/src/vaidcord/fsm: state.py,
  storage/base.py, storage/memory.py, storage/sqlite.py, context.py) and the state filter of
  router.py. Storage keys are records, both storages are dictionaries from keys; the JSON
  text of keys and data is identified with the value it denotes. Stored data values are an
  opaque type.
\<close>

section \<open>States and keys\<close>

record state_decl =
  st_explicit_state :: "string option"
  st_group_name :: "string option"
  st_name :: "string option"

definition state_str :: "state_decl \<Rightarrow> string result" where
  "state_str s =
     (case st_explicit_state s of
        Some x \<Rightarrow> Inr x
      | None \<Rightarrow>
          (case (st_group_name s, st_name s) of
             (Some g, Some n) \<Rightarrow> Inr (g @ '':'' @ n)
           | _ \<Rightarrow> Inl (RuntimeError ''State is not bound to a StatesGroup'')))"

definition set_name :: "string \<Rightarrow> string \<Rightarrow> state_decl \<Rightarrow> state_decl" where
  "set_name owner nm s = s\<lparr>st_group_name := Some owner, st_name := Some nm\<rparr>"

definition state_names :: "state_decl list \<Rightarrow> string list result" where
  "state_names ms = map_result state_str ms"

datatype state_value = StateText string | StateMember state_decl

definition normalize_state :: "state_value option \<Rightarrow> string option result" where
  "normalize_state v =
     (case v of
        None \<Rightarrow> Inr None
      | Some (StateText s) \<Rightarrow> Inr (Some s)
      | Some (StateMember d) \<Rightarrow> bind_result (state_str d) (\<lambda>s. Inr (Some s)))"

datatype fsm_scope = USER | CHANNEL | TOPIC | GUILD | MEMBER | CUSTOM

definition scope_text :: "fsm_scope \<Rightarrow> string" where
  "scope_text s = (case s of USER \<Rightarrow> ''user'' | CHANNEL \<Rightarrow> ''channel'' | TOPIC \<Rightarrow> ''topic'' | GUILD \<Rightarrow> ''guild''
     | MEMBER \<Rightarrow> ''member'' | CUSTOM \<Rightarrow> ''custom'')"

definition parse_scope :: "json \<Rightarrow> fsm_scope result" where
  "parse_scope v =
     (case find (\<lambda>s. v = JStr (scope_text s)) [USER, CHANNEL, TOPIC, GUILD, MEMBER, CUSTOM] of
        Some s \<Rightarrow> Inr s
      | None \<Rightarrow> Inl (ValueError ''is not a valid FSMScope''))"

record storage_key =
  sk_scope :: fsm_scope
  sk_guild_id :: "int option"
  sk_channel_id :: "int option"
  sk_topic_id :: "int option"
  sk_user_id :: "int option"
  sk_custom_id :: "string option"

definition blank_key :: "fsm_scope \<Rightarrow> storage_key" where
  "blank_key s = \<lparr>sk_scope = s, sk_guild_id = None, sk_channel_id = None, sk_topic_id = None, sk_user_id = None, sk_custom_id = None\<rparr>"

definition key_user :: "int \<Rightarrow> storage_key" where
  "key_user u = (blank_key USER)\<lparr>sk_user_id := Some u\<rparr>"

definition key_channel :: "int \<Rightarrow> storage_key" where
  "key_channel c = (blank_key CHANNEL)\<lparr>sk_channel_id := Some c\<rparr>"

definition key_topic :: "int \<Rightarrow> storage_key" where
  "key_topic t = (blank_key TOPIC)\<lparr>sk_topic_id := Some t\<rparr>"

definition key_guild :: "int \<Rightarrow> storage_key" where
  "key_guild g = (blank_key GUILD)\<lparr>sk_guild_id := Some g\<rparr>"

definition key_member :: "int \<Rightarrow> int \<Rightarrow> storage_key" where
  "key_member g u = (blank_key MEMBER)\<lparr>sk_guild_id := Some g, sk_user_id := Some u\<rparr>"

definition key_custom :: "string \<Rightarrow> storage_key" where
  "key_custom c = (blank_key CUSTOM)\<lparr>sk_custom_id := Some c\<rparr>"

definition key_from_legacy_ids :: "int \<Rightarrow> int \<Rightarrow> storage_key" where
  "key_from_legacy_ids user chat = key_member chat user"

section \<open>Operations shared by the storages\<close>

text \<open>
  \<open>set_many_states\<close>, \<open>get_many_states\<close> and \<open>transition_data\<close> are written the same way in
  every storage, over its own \<open>get_data\<close>, \<open>set_data\<close>, \<open>set_state\<close> and \<open>clear\<close>.
\<close>

definition set_many_states ::
  "(storage_key \<Rightarrow> string option \<Rightarrow> 's \<Rightarrow> 's) \<Rightarrow> (storage_key, string option) dict \<Rightarrow> 's \<Rightarrow> 's" where
  "set_many_states set_state assignments s = fold (\<lambda>(k, v) s. set_state k v s) assignments s"

definition get_many_states ::
  "(storage_key \<Rightarrow> 's \<Rightarrow> string option) \<Rightarrow> storage_key list \<Rightarrow> 's \<Rightarrow> (storage_key, string option) dict" where
  "get_many_states get_state ks s = dict_of (map (\<lambda>k. (k, get_state k s)) ks)"

definition transition_data ::
  "(storage_key \<Rightarrow> 's \<Rightarrow> (string, 'v) dict) \<Rightarrow> (storage_key \<Rightarrow> (string, 'v) dict \<Rightarrow> 's \<Rightarrow> 's) \<Rightarrow> (storage_key \<Rightarrow> 's \<Rightarrow> 's) \<Rightarrow>
   storage_key \<Rightarrow> storage_key \<Rightarrow> bool \<Rightarrow> bool \<Rightarrow> 's \<Rightarrow> (string, 'v) dict \<times> 's" where
  "transition_data get_data set_data clear from_key to_key clear_source merge s =
     (let source = get_data from_key s;
          result = (if merge then dict_update (get_data to_key s) source else source);
          s1 = set_data to_key result s
      in (result, if clear_source then clear from_key s1 else s1))"

section \<open>The memory storage\<close>

record 'v memory_storage =
  ms_states :: "(storage_key, string option) dict"
  ms_data :: "(storage_key, (string, 'v) dict) dict"

definition memory_empty :: "'v memory_storage" where
  "memory_empty = \<lparr>ms_states = [], ms_data = []\<rparr>"

definition memory_get_state :: "storage_key \<Rightarrow> 'v memory_storage \<Rightarrow> string option" where
  "memory_get_state k s = dict_get (ms_states s) k None"

definition memory_set_state :: "storage_key \<Rightarrow> string option \<Rightarrow> 'v memory_storage \<Rightarrow> 'v memory_storage" where
  "memory_set_state k v s =
     (case v of
        None \<Rightarrow> s\<lparr>ms_states := dict_pop (ms_states s) k\<rparr>
      | Some x \<Rightarrow> s\<lparr>ms_states := dict_set (ms_states s) k (Some x)\<rparr>)"

text \<open>The entry points take state members and enumeration values too; \<open>str\<close> of an unbound state raises.\<close>

definition memory_set_state_value :: "storage_key \<Rightarrow> state_value option \<Rightarrow> 'v memory_storage \<Rightarrow> 'v memory_storage result" where
  "memory_set_state_value k v s = bind_result (normalize_state v) (\<lambda>x. Inr (memory_set_state k x s))"

definition memory_set_state_for ::
  "fsm_scope \<Rightarrow> state_value option \<Rightarrow> int option \<Rightarrow> int option \<Rightarrow> int option \<Rightarrow> int option \<Rightarrow> string option \<Rightarrow>
   'v memory_storage \<Rightarrow> 'v memory_storage result" where
  "memory_set_state_for scope v guild_id channel_id topic_id user_id custom_id s =
     memory_set_state_value
       \<lparr>sk_scope = scope, sk_guild_id = guild_id, sk_channel_id = channel_id, sk_topic_id = topic_id,
        sk_user_id = user_id, sk_custom_id = custom_id\<rparr> v s"

definition memory_get_data :: "storage_key \<Rightarrow> 'v memory_storage \<Rightarrow> (string, 'v) dict" where
  "memory_get_data k s = dict_get (ms_data s) k []"

definition memory_set_data :: "storage_key \<Rightarrow> (string, 'v) dict \<Rightarrow> 'v memory_storage \<Rightarrow> 'v memory_storage" where
  "memory_set_data k d s = s\<lparr>ms_data := dict_set (ms_data s) k d\<rparr>"

definition memory_update_data ::
  "storage_key \<Rightarrow> (string, 'v) dict \<Rightarrow> 'v memory_storage \<Rightarrow> (string, 'v) dict \<times> 'v memory_storage" where
  "memory_update_data k kwargs s =
     (let current = dict_update (dict_get (ms_data s) k []) kwargs
      in (current, s\<lparr>ms_data := dict_set (ms_data s) k current\<rparr>))"

definition memory_clear :: "storage_key \<Rightarrow> 'v memory_storage \<Rightarrow> 'v memory_storage" where
  "memory_clear k s = s\<lparr>ms_states := dict_pop (ms_states s) k, ms_data := dict_pop (ms_data s) k\<rparr>"

definition opt_json :: "int option \<Rightarrow> json" where
  "opt_json v = (case v of None \<Rightarrow> JNull | Some i \<Rightarrow> JInt i)"

definition encode_key :: "storage_key \<Rightarrow> json" where
  "encode_key k =
     JDict [(''channel_id'', opt_json (sk_channel_id k)),
            (''custom_id'', case sk_custom_id k of None \<Rightarrow> JNull | Some s \<Rightarrow> JStr s),
            (''guild_id'', opt_json (sk_guild_id k)), (''scope'', JStr (scope_text (sk_scope k))),
            (''topic_id'', opt_json (sk_topic_id k)), (''user_id'', opt_json (sk_user_id k))]"

definition json_opt :: "json \<Rightarrow> int option" where
  "json_opt v = (case v of JInt i \<Rightarrow> Some i | _ \<Rightarrow> None)"

text \<open>Identifiers of a snapshot that are neither integers nor null are outside the model.\<close>

definition decode_key :: "json \<Rightarrow> storage_key result" where
  "decode_key raw =
     (case raw of
        JDict d \<Rightarrow>
          bind_result (dict_index d ''scope'') (\<lambda>sc.
          bind_result (parse_scope sc) (\<lambda>scope.
            Inr \<lparr>sk_scope = scope, sk_guild_id = json_opt (jget d ''guild_id''), sk_channel_id = json_opt (jget d ''channel_id''),
                 sk_topic_id = json_opt (jget d ''topic_id''), sk_user_id = json_opt (jget d ''user_id''),
                 sk_custom_id = (case jget d ''custom_id'' of JStr s \<Rightarrow> Some s | _ \<Rightarrow> None)\<rparr>))
      | _ \<Rightarrow> Inl (TypeError ''payload is not a mapping''))"

record 'v snapshot =
  sn_states :: "(json, string option) dict"
  sn_data :: "(json, (string, 'v) dict) dict"

definition memory_export :: "'v memory_storage \<Rightarrow> 'v snapshot" where
  "memory_export s =
     \<lparr>sn_states = dict_of (map (\<lambda>(k, v). (encode_key k, v)) (ms_states s)),
      sn_data = dict_of (map (\<lambda>(k, v). (encode_key k, v)) (ms_data s))\<rparr>"

definition decode_entries :: "(json, 'x) dict \<Rightarrow> (storage_key, 'x) dict result" where
  "decode_entries d =
     bind_result (map_result (\<lambda>(raw, v). bind_result (decode_key raw) (\<lambda>k. Inr (k, v))) d) (\<lambda>ps. Inr (dict_of ps))"

definition memory_import :: "'v snapshot \<Rightarrow> 'v memory_storage result" where
  "memory_import sn =
     bind_result (decode_entries (sn_states sn)) (\<lambda>st.
     bind_result (decode_entries (sn_data sn)) (\<lambda>dt. Inr \<lparr>ms_states = st, ms_data = dt\<rparr>))"

section \<open>The SQLite storage\<close>

text \<open>
  The table \<open>fsm_state(key PRIMARY KEY, state, data)\<close> as a dictionary of rows; the upsert
  replaces the row of the key.
\<close>

type_synonym 'v table = "(storage_key, string option \<times> (string, 'v) dict option) dict"

definition sqlite_get_state :: "storage_key \<Rightarrow> 'v table \<Rightarrow> string option" where
  "sqlite_get_state k t = (case map_of t k of None \<Rightarrow> None | Some row \<Rightarrow> fst row)"

definition sqlite_get_data :: "storage_key \<Rightarrow> 'v table \<Rightarrow> (string, 'v) dict" where
  "sqlite_get_data k t = (case map_of t k of Some (_, Some d) \<Rightarrow> d | _ \<Rightarrow> [])"

definition sqlite_set_state :: "storage_key \<Rightarrow> string option \<Rightarrow> 'v table \<Rightarrow> 'v table" where
  "sqlite_set_state k v t = dict_set t k (v, Some (sqlite_get_data k t))"

definition sqlite_set_state_value :: "storage_key \<Rightarrow> state_value option \<Rightarrow> 'v table \<Rightarrow> 'v table result" where
  "sqlite_set_state_value k v t = bind_result (normalize_state v) (\<lambda>x. Inr (sqlite_set_state k x t))"

definition sqlite_set_state_for ::
  "fsm_scope \<Rightarrow> state_value option \<Rightarrow> int option \<Rightarrow> int option \<Rightarrow> int option \<Rightarrow> int option \<Rightarrow> string option \<Rightarrow>
   'v table \<Rightarrow> 'v table result" where
  "sqlite_set_state_for scope v guild_id channel_id topic_id user_id custom_id t =
     sqlite_set_state_value
       \<lparr>sk_scope = scope, sk_guild_id = guild_id, sk_channel_id = channel_id, sk_topic_id = topic_id,
        sk_user_id = user_id, sk_custom_id = custom_id\<rparr> v t"

definition sqlite_set_data :: "storage_key \<Rightarrow> (string, 'v) dict \<Rightarrow> 'v table \<Rightarrow> 'v table" where
  "sqlite_set_data k d t = dict_set t k (sqlite_get_state k t, Some d)"

definition sqlite_update_data :: "storage_key \<Rightarrow> (string, 'v) dict \<Rightarrow> 'v table \<Rightarrow> (string, 'v) dict \<times> 'v table" where
  "sqlite_update_data k kwargs t =
     (let d = dict_update (sqlite_get_data k t) kwargs in (d, sqlite_set_data k d t))"

definition sqlite_clear :: "storage_key \<Rightarrow> 'v table \<Rightarrow> 'v table" where
  "sqlite_clear k t = dict_pop t k"

text \<open>
  Snapshots hold every column of every row. The import empties the table first and inserts the
  rows one by one; a key that comes twice violates the primary key and ends it there.
\<close>

record 'v snapshot_row =
  row_key :: storage_key
  row_state :: "string option"
  row_data :: "(string, 'v) dict option"

definition sqlite_export :: "'v table \<Rightarrow> 'v snapshot_row list" where
  "sqlite_export t = map (\<lambda>(k, st, d). \<lparr>row_key = k, row_state = st, row_data = d\<rparr>) t"

primrec insert_rows :: "'v snapshot_row list \<Rightarrow> 'v table \<Rightarrow> exc option \<times> 'v table" where
  "insert_rows [] t = (None, t)"
| "insert_rows (r # rs) t =
     (if map_of t (row_key r) \<noteq> None then (Some (OtherError ''IntegrityError''), t)
      else insert_rows rs (t @ [(row_key r, row_state r, row_data r)]))"

definition sqlite_import :: "'v snapshot_row list \<Rightarrow> 'v table \<Rightarrow> exc option \<times> 'v table" where
  "sqlite_import rows t = insert_rows rows []"

section \<open>Event scopes\<close>

record fsm_event =
  fe_user :: "int option"
  fe_channel :: "int option"
  fe_guild :: "int option"
  fe_message :: "(int \<times> int \<times> int option) option"
  fe_data :: jdict

text \<open>\<open>_to_int\<close>: every conversion error is None.\<close>

definition to_int :: "json \<Rightarrow> int option" where
  "to_int v = (if v = JNull then None else case py_int v of Inr i \<Rightarrow> Some i | Inl _ \<Rightarrow> None)"

record fsm_ids =
  id_user :: "int option"
  id_channel :: "int option"
  id_guild :: "int option"
  id_topic :: "int option"

definition resolve_ids :: "fsm_event \<Rightarrow> fsm_ids" where
  "resolve_ids e =
     \<lparr>id_user = (case fe_user e of Some u \<Rightarrow> Some u
        | None \<Rightarrow> (case fe_message e of Some (author, _, _) \<Rightarrow> Some author | None \<Rightarrow> to_int (jget (fe_data e) ''user_id''))),
      id_channel = (case fe_channel e of Some c \<Rightarrow> Some c
        | None \<Rightarrow> (case fe_message e of Some (_, ch, _) \<Rightarrow> Some ch | None \<Rightarrow> to_int (jget (fe_data e) ''channel_id''))),
      id_guild = (case fe_guild e of Some g \<Rightarrow> Some g
        | None \<Rightarrow> (case fe_message e of Some (_, _, Some g) \<Rightarrow> Some g | _ \<Rightarrow> to_int (jget (fe_data e) ''guild_id''))),
      id_topic = (case to_int (jget (fe_data e) ''topic_id'') of
          Some t \<Rightarrow> if t \<noteq> 0 then Some t else to_int (jget (fe_data e) ''thread_id'')
        | None \<Rightarrow> to_int (jget (fe_data e) ''thread_id''))\<rparr>"

definition scope_key :: "fsm_ids \<Rightarrow> fsm_scope \<Rightarrow> storage_key option" where
  "scope_key ids s =
     (case s of
        USER \<Rightarrow> map_option key_user (id_user ids)
      | CHANNEL \<Rightarrow> map_option key_channel (id_channel ids)
      | TOPIC \<Rightarrow> map_option key_topic (id_topic ids)
      | GUILD \<Rightarrow> map_option key_guild (id_guild ids)
      | MEMBER \<Rightarrow> (case (id_guild ids, id_user ids) of (Some g, Some u) \<Rightarrow> Some (key_member g u) | _ \<Rightarrow> None)
      | CUSTOM \<Rightarrow> None)"

definition build_fsm_map :: "fsm_scope list \<Rightarrow> fsm_ids \<Rightarrow> (fsm_scope, storage_key) dict" where
  "build_fsm_map scopes ids =
     fold (\<lambda>s m. case scope_key ids s of None \<Rightarrow> m | Some k \<Rightarrow> dict_set m s k) scopes []"

text \<open>What the middleware writes into the event context.\<close>

record fsm_context =
  fc_fsm_map :: "(fsm_scope, storage_key) dict"
  fc_fsm_states :: "(fsm_scope, string option) dict"
  fc_primary_scope :: fsm_scope
  fc_fsm :: storage_key
  fc_fsm_state :: "string option"

definition fsm_middleware ::
  "(storage_key \<Rightarrow> 's \<Rightarrow> string option) \<Rightarrow> fsm_scope \<Rightarrow> fsm_scope list \<Rightarrow> fsm_event \<Rightarrow> 's \<Rightarrow> fsm_context option" where
  "fsm_middleware get_state primary scopes e s =
     (let m = build_fsm_map scopes (resolve_ids e) in
      if m = [] then None
      else
        (let states = dict_of (map (\<lambda>(sc, k). (sc, get_state k s)) m);
             sc = (if map_of m primary \<noteq> None then primary else fst (hd m))
         in Some \<lparr>fc_fsm_map = m, fc_fsm_states = states, fc_primary_scope = sc,
                  fc_fsm = the (map_of m sc), fc_fsm_state = dict_get states sc None\<rparr>))"

definition default_scopes :: "fsm_scope list" where
  "default_scopes = [MEMBER, USER, CHANNEL, TOPIC, GUILD]"

text \<open>\<open>Router.state_filter\<close>: the context entries may be missing.\<close>

definition state_filter ::
  "(storage_key \<Rightarrow> 's \<Rightarrow> string option) \<Rightarrow> string list \<Rightarrow> fsm_scope option \<Rightarrow> fsm_context option \<Rightarrow> 's \<Rightarrow> bool" where
  "state_filter get_state states scope ctx s =
     (case ctx of
        None \<Rightarrow> False
      | Some c \<Rightarrow>
          (case (case scope of None \<Rightarrow> Some (fc_fsm c) | Some sc \<Rightarrow> map_of (fc_fsm_map c) sc) of
             None \<Rightarrow> False
           | Some fsm \<Rightarrow>
               (let sc = (case scope of None \<Rightarrow> fc_primary_scope c | Some sc \<Rightarrow> sc);
                    current = (case map_of (fc_fsm_states c) sc of Some v \<Rightarrow> v | None \<Rightarrow> get_state fsm s)
                in (case current of None \<Rightarrow> False | Some x \<Rightarrow> x \<in> set states))))"

section \<open>The storage contract\<close>

text \<open>
  The operations of a storage on its clients' terms: states and data per key, independent of
  each other and of other keys.
\<close>

datatype 'v fsm_op =
    SetState storage_key "string option"
  | SetData storage_key "(string, 'v) dict"
  | Update storage_key "(string, 'v) dict"
  | Clear storage_key
  | SetMany "(storage_key, string option) dict"
  | Transition storage_key storage_key bool bool

type_synonym 'v view = "storage_key \<Rightarrow> string option \<times> (string, 'v) dict"

primrec spec_op :: "'v fsm_op \<Rightarrow> 'v view \<Rightarrow> 'v view" where
  "spec_op (SetState k x) v = v(k := (x, snd (v k)))"
| "spec_op (SetData k d) v = v(k := (fst (v k), d))"
| "spec_op (Update k kwargs) v = v(k := (fst (v k), dict_update (snd (v k)) kwargs))"
| "spec_op (Clear k) v = v(k := (None, []))"
| "spec_op (SetMany as) v = fold (\<lambda>(k, x) v. v(k := (x, snd (v k)))) as v"
| "spec_op (Transition a b c m) v =
     (let result = (if m then dict_update (snd (v b)) (snd (v a)) else snd (v a)); v1 = v(b := (fst (v b), result))
      in if c then v1(a := (None, [])) else v1)"

locale fsm_storage =
  fixes get_state :: "storage_key \<Rightarrow> 's \<Rightarrow> string option"
    and set_state :: "storage_key \<Rightarrow> string option \<Rightarrow> 's \<Rightarrow> 's"
    and get_data :: "storage_key \<Rightarrow> 's \<Rightarrow> (string, 'v) dict"
    and set_data :: "storage_key \<Rightarrow> (string, 'v) dict \<Rightarrow> 's \<Rightarrow> 's"
    and update_data :: "storage_key \<Rightarrow> (string, 'v) dict \<Rightarrow> 's \<Rightarrow> (string, 'v) dict \<times> 's"
    and clear :: "storage_key \<Rightarrow> 's \<Rightarrow> 's"
  assumes state_set_state: "get_state k (set_state k' x s) = (if k = k' then x else get_state k s)"
    and data_set_state: "get_data k (set_state k' x s) = get_data k s"
    and state_set_data: "get_state k (set_data k' d s) = get_state k s"
    and data_set_data: "get_data k (set_data k' d s) = (if k = k' then d else get_data k s)"
    and state_update_data: "get_state k (snd (update_data k' kwargs s)) = get_state k s"
    and data_update_data:
      "get_data k (snd (update_data k' kwargs s)) = (if k = k' then dict_update (get_data k s) kwargs else get_data k s)"
    and update_data_result: "fst (update_data k kwargs s) = get_data k (snd (update_data k kwargs s))"
    and state_clear: "get_state k (clear k' s) = (if k = k' then None else get_state k s)"
    and data_clear: "get_data k (clear k' s) = (if k = k' then [] else get_data k s)"
begin

definition view :: "'s \<Rightarrow> 'v view" where
  "view s = (\<lambda>k. (get_state k s, get_data k s))"

primrec run_op :: "'v fsm_op \<Rightarrow> 's \<Rightarrow> 's" where
  "run_op (SetState k x) s = set_state k x s"
| "run_op (SetData k d) s = set_data k d s"
| "run_op (Update k kwargs) s = snd (update_data k kwargs s)"
| "run_op (Clear k) s = clear k s"
| "run_op (SetMany as) s = set_many_states set_state as s"
| "run_op (Transition a b c m) s = snd (transition_data get_data set_data clear a b c m s)"

lemma view_set_state: "view (set_state k x s) = (view s)(k := (x, snd (view s k)))"
  by (auto simp: view_def state_set_state data_set_state)

lemma view_set_data: "view (set_data k d s) = (view s)(k := (fst (view s k), d))"
  by (auto simp: view_def state_set_data data_set_data)

lemma view_update_data:
  "view (snd (update_data k kwargs s)) = (view s)(k := (fst (view s k), dict_update (snd (view s k)) kwargs))"
  by (auto simp: view_def state_update_data data_update_data)

lemma view_clear: "view (clear k s) = (view s)(k := (None, []))"
  by (auto simp: view_def state_clear data_clear)

lemma view_set_many: "view (set_many_states set_state as s) = fold (\<lambda>(k, x) v. v(k := (x, snd (v k)))) as (view s)"
  unfolding set_many_states_def by (induction as arbitrary: s) (auto simp: view_set_state)

lemma get_data_view: "get_data k s = snd (view s k)"
  by (simp add: view_def)

lemma view_transition:
  "view (snd (transition_data get_data set_data clear a b c m s)) = spec_op (Transition a b c m) (view s)"
  by (simp add: transition_data_def Let_def view_set_data view_clear get_data_view)

lemma view_run_op: "view (run_op p s) = spec_op p (view s)"
  by (cases p) (simp_all add: view_set_state view_set_data view_update_data view_clear view_set_many view_transition)

lemma view_run: "view (fold run_op ps s) = fold spec_op ps (view s)"
  by (induction ps arbitrary: s) (simp_all add: view_run_op)

end

interpretation memory: fsm_storage memory_get_state memory_set_state memory_get_data memory_set_data memory_update_data memory_clear
  by unfold_locales
    (auto simp: memory_get_state_def memory_set_state_def memory_get_data_def memory_set_data_def memory_update_data_def memory_clear_def
      dict_get_def Let_def split: option.split)

interpretation sqlite: fsm_storage sqlite_get_state sqlite_set_state sqlite_get_data sqlite_set_data sqlite_update_data sqlite_clear
  by unfold_locales
    (auto simp: sqlite_get_state_def sqlite_set_state_def sqlite_get_data_def sqlite_set_data_def sqlite_update_data_def sqlite_clear_def Let_def
      split: option.split)

primrec memory_run :: "'v fsm_op \<Rightarrow> 'v memory_storage \<Rightarrow> 'v memory_storage" where
  "memory_run (SetState k x) s = memory_set_state k x s"
| "memory_run (SetData k d) s = memory_set_data k d s"
| "memory_run (Update k kwargs) s = snd (memory_update_data k kwargs s)"
| "memory_run (Clear k) s = memory_clear k s"
| "memory_run (SetMany as) s = set_many_states memory_set_state as s"
| "memory_run (Transition a b c m) s = snd (transition_data memory_get_data memory_set_data memory_clear a b c m s)"

primrec sqlite_run :: "'v fsm_op \<Rightarrow> 'v table \<Rightarrow> 'v table" where
  "sqlite_run (SetState k x) s = sqlite_set_state k x s"
| "sqlite_run (SetData k d) s = sqlite_set_data k d s"
| "sqlite_run (Update k kwargs) s = snd (sqlite_update_data k kwargs s)"
| "sqlite_run (Clear k) s = sqlite_clear k s"
| "sqlite_run (SetMany as) s = set_many_states sqlite_set_state as s"
| "sqlite_run (Transition a b c m) s = snd (transition_data sqlite_get_data sqlite_set_data sqlite_clear a b c m s)"

lemma memory_run_eq: "memory.run_op = (memory_run :: 'v fsm_op \<Rightarrow> _)"
proof (intro ext)
  fix p :: "'v fsm_op" and s
  show "memory.run_op p s = memory_run p s" by (cases p) simp_all
qed

lemma sqlite_run_eq: "sqlite.run_op = (sqlite_run :: 'v fsm_op \<Rightarrow> _)"
proof (intro ext)
  fix p :: "'v fsm_op" and s
  show "sqlite.run_op p s = sqlite_run p s" by (cases p) simp_all
qed

section \<open>Properties\<close>

text \<open>
  The two storages are interchangeable and implement the contract. Any sequence of
  operations, run from empty storages, leaves the same state and the same data under every
  key in memory and in SQLite, namely those of a plain map from keys to state and data.
\<close>

theorem storages_agree:
  "memory_get_state k (fold memory_run ps memory_empty) = fst (fold spec_op ps (\<lambda>_. (None, [])) k) \<and>
   memory_get_data k (fold memory_run ps memory_empty) = snd (fold spec_op ps (\<lambda>_. (None, [])) k) \<and>
   sqlite_get_state k (fold sqlite_run ps []) = fst (fold spec_op ps (\<lambda>_. (None, [])) k) \<and>
   sqlite_get_data k (fold sqlite_run ps []) = snd (fold spec_op ps (\<lambda>_. (None, [])) k)"
proof -
  have m: "memory.view memory_empty = (\<lambda>_. (None, []))"
    by (simp add: memory.view_def memory_empty_def memory_get_state_def memory_get_data_def dict_get_def)
  have s: "sqlite.view [] = (\<lambda>_. (None, []))"
    by (simp add: sqlite.view_def sqlite_get_state_def sqlite_get_data_def)
  have "memory.view (fold memory_run ps memory_empty) k = fold spec_op ps (\<lambda>_. (None, [])) k"
    using memory.view_run [of ps memory_empty] by (simp add: memory_run_eq m)
  moreover have "sqlite.view (fold sqlite_run ps []) k = fold spec_op ps (\<lambda>_. (None, [])) k"
    using sqlite.view_run [of ps "[]"] by (simp add: sqlite_run_eq s)
  ultimately show ?thesis by (metis fst_conv memory.view_def snd_conv sqlite.view_def)
qed

lemma parse_scope_text [simp]: "parse_scope (JStr (scope_text s)) = Inr s"
  by (cases s) (simp_all add: parse_scope_def scope_text_def)

lemma json_opt_opt_json [simp]: "json_opt (opt_json v) = v"
  by (cases v) (simp_all add: json_opt_def opt_json_def)

lemma decode_encode_key [simp]: "decode_key (encode_key k) = Inr k"
  by (simp add: decode_key_def encode_key_def dict_index_def jget_def dict_get_def split: option.split)

lemma encode_key_inj: "encode_key k = encode_key k' \<Longrightarrow> k = k'"
  by (metis decode_encode_key sum.inject(2))

lemma dict_wf_encode: "dict_wf d \<Longrightarrow> dict_wf (map (\<lambda>(k, v). (encode_key k, v)) d)"
  unfolding dict_wf_def
  by (induction d) (force dest: encode_key_inj)+

lemma decode_entries_encode:
  "dict_wf d \<Longrightarrow> decode_entries (dict_of (map (\<lambda>(k, v). (encode_key k, v)) d)) = Inr d"
proof -
  assume wf: "dict_wf d"
  have "map_result (\<lambda>(raw, v). bind_result (decode_key raw) (\<lambda>k. Inr (k, v))) (map (\<lambda>(k, v). (encode_key k, v)) d) = Inr d"
    by (induction d) auto
  then show ?thesis using wf by (simp add: decode_entries_def dict_of_wf_id dict_wf_encode)
qed

lemma insert_rows_export:
  "dict_wf (t0 @ t) \<Longrightarrow> insert_rows (sqlite_export t) t0 = (None, t0 @ t)"
proof (induction t arbitrary: t0)
  case (Cons r t)
  then have "map_of t0 (fst r) = None" by (auto simp: dict_wf_def map_of_eq_None_iff)
  then show ?case using Cons.IH [of "t0 @ [r]"] Cons.prems by (cases r) (simp add: sqlite_export_def)
qed (simp add: sqlite_export_def)

lemma memory_set_state_wf:
  "dict_wf (ms_states s) \<and> dict_wf (ms_data s) \<Longrightarrow>
   dict_wf (ms_states (memory_set_state k v s)) \<and> dict_wf (ms_data (memory_set_state k v s))"
  by (cases v) (simp_all add: memory_set_state_def)

lemma memory_run_wf:
  "dict_wf (ms_states s) \<and> dict_wf (ms_data s) \<Longrightarrow>
   dict_wf (ms_states (memory_run p s)) \<and> dict_wf (ms_data (memory_run p s))"
proof (cases p)
  case (SetMany as)
  assume wf: "dict_wf (ms_states s) \<and> dict_wf (ms_data s)"
  have "dict_wf (ms_states (fold (\<lambda>(k, v). memory_set_state k v) as s)) \<and>
      dict_wf (ms_data (fold (\<lambda>(k, v). memory_set_state k v) as s))"
    using wf by (induction as arbitrary: s) (simp_all add: case_prod_beta memory_set_state_wf)
  then show ?thesis using SetMany by (simp add: set_many_states_def)
qed (auto simp: memory_set_state_def memory_set_data_def memory_update_data_def memory_clear_def
      transition_data_def Let_def split: option.split)

lemma sqlite_run_wf: "dict_wf t \<Longrightarrow> dict_wf (sqlite_run p t)"
proof (cases p)
  case (SetMany as)
  assume wf: "dict_wf t"
  have "dict_wf (fold (\<lambda>(k, v). sqlite_set_state k v) as t)"
    using wf by (induction as arbitrary: t) (auto simp: sqlite_set_state_def)
  then show ?thesis using SetMany by (simp add: set_many_states_def)
qed (auto simp: sqlite_set_state_def sqlite_set_data_def sqlite_update_data_def sqlite_clear_def transition_data_def Let_def)

lemma memory_reachable_wf:
  "dict_wf (ms_states (fold memory_run ps memory_empty)) \<and> dict_wf (ms_data (fold memory_run ps memory_empty))"
proof -
  have "dict_wf (ms_states s) \<and> dict_wf (ms_data s) \<Longrightarrow>
      dict_wf (ms_states (fold memory_run ps s)) \<and> dict_wf (ms_data (fold memory_run ps s))" for s :: "'a memory_storage"
    using memory_run_wf by (induction ps arbitrary: s) auto
  then show ?thesis by (simp add: memory_empty_def dict_wf_def)
qed

lemma sqlite_reachable_wf: "dict_wf (fold sqlite_run ps [])"
proof -
  have "dict_wf t \<Longrightarrow> dict_wf (fold sqlite_run ps t)" for t :: "'a table"
    using sqlite_run_wf by (induction ps arbitrary: t) auto
  then show ?thesis by (simp add: dict_wf_def)
qed

text \<open>
  Exporting a storage and importing the snapshot gives the storage back: for every memory
  storage and every SQLite table that operations can produce, whatever the importing SQLite
  table held before.
\<close>

theorem snapshot_roundtrip:
  "memory_import (memory_export (fold memory_run ps memory_empty)) = Inr (fold memory_run ps memory_empty) \<and>
   sqlite_import (sqlite_export (fold sqlite_run ps [])) t = (None, fold sqlite_run ps [])"
  using memory_reachable_wf [of ps] sqlite_reachable_wf [of ps] insert_rows_export [of "[]" "fold sqlite_run ps []"]
  by (simp add: memory_import_def memory_export_def decode_entries_encode sqlite_import_def)

lemma build_fsm_map_lookup:
  "map_of (build_fsm_map scopes ids) s = (if s \<in> set scopes then scope_key ids s else None)"
proof -
  have "map_of (fold (\<lambda>s m. case scope_key ids s of None \<Rightarrow> m | Some k \<Rightarrow> dict_set m s k) scopes m) s =
      (if s \<in> set scopes \<and> scope_key ids s \<noteq> None then scope_key ids s else map_of m s)" for m
    by (induction scopes arbitrary: m) (auto split: option.splits)
  then show ?thesis by (simp add: build_fsm_map_def)
qed

lemma build_fsm_map_wf: "dict_wf (build_fsm_map scopes ids)"
proof -
  have "dict_wf m \<Longrightarrow> dict_wf (fold (\<lambda>s m. case scope_key ids s of None \<Rightarrow> m | Some k \<Rightarrow> dict_set m s k) scopes m)" for m
    by (induction scopes arbitrary: m) (auto split: option.split)
  then show ?thesis by (simp add: build_fsm_map_def)
qed

text \<open>
  A state filter decides on the state stored when the event entered the FSM middleware:
  for a scope the event belongs to it passes exactly when the state then stored under the
  scope's key is one of the given states, whatever handlers have stored since, and for any
  other scope it never passes.
\<close>

theorem state_filter_sees_entry_state:
  assumes "scope \<in> set scopes"
  shows "state_filter get_state states (Some scope) (fsm_middleware get_state primary scopes e s) s' =
    (case scope_key (resolve_ids e) scope of
       None \<Rightarrow> False
     | Some k \<Rightarrow> (case get_state k s of None \<Rightarrow> False | Some x \<Rightarrow> x \<in> set states))"
proof -
  let ?m = "build_fsm_map scopes (resolve_ids e)"
  have look: "map_of ?m scope = scope_key (resolve_ids e) scope" using assms by (simp add: build_fsm_map_lookup)
  have wf: "dict_wf (map (\<lambda>(sc, k). (sc, get_state k s)) ?m)"
    using build_fsm_map_wf [of scopes "resolve_ids e"] by (simp add: dict_wf_def o_def case_prod_beta')
  have states: "map_of (dict_of (map (\<lambda>(sc, k). (sc, get_state k s)) ?m)) scope = map_option (\<lambda>k. get_state k s) (map_of ?m scope)"
    using wf by (simp add: dict_of_wf_id map_of_map)
  show ?thesis
    using look states by (cases "?m = []") (auto simp: state_filter_def fsm_middleware_def Let_def split: option.splits)
qed

theorem state_filter_sees_entry_state_witness:
  "state_filter memory_get_state [''Form:name''] (Some USER)
     (fsm_middleware memory_get_state MEMBER default_scopes
        \<lparr>fe_user = Some 9, fe_channel = None, fe_guild = None, fe_message = None, fe_data = []\<rparr>
        (memory_set_state (key_user 9) (Some ''Form:name'') (memory_empty :: nat memory_storage))) (memory_empty :: nat memory_storage)"
  using state_filter_sees_entry_state [of USER default_scopes memory_get_state "[''Form:name'']" MEMBER
      "\<lparr>fe_user = Some 9, fe_channel = None, fe_guild = None, fe_message = None, fe_data = []\<rparr>"
      "memory_set_state (key_user 9) (Some ''Form:name'') (memory_empty :: nat memory_storage)" "memory_empty :: nat memory_storage"]
  by (simp add: default_scopes_def scope_key_def resolve_ids_def memory_get_state_def memory_set_state_def memory_empty_def dict_get_def)

end
