(* ===== verification/FsmRemote.thy ===== *)
theory FsmRemote
  imports Fsm JsonText
begin

text \<open>
  The storages on database servers (src/vaidcord-py/src/vaidcord/fsm/storage: redis.py, mongo.py,
  postgres.py). The drivers are parameters: records of the calls that the storages make, with what
  the databases document about them as hypotheses (\<open>redis_ok\<close>, \<open>mongo_ok\<close>, \<open>postgres_ok\<close>), and JSON text is a
  parameter with its round trip on values without floats (\<open>codec_ok\<close>), which JsonText satisfies. Each
  storage simulates the plain map of Fsm, and so all five storages agree.
\<close>

section \<open>Shared parts\<close>

record json_codec =
  cd_dumps :: "json \<Rightarrow> string"
  cd_loads :: "string \<Rightarrow> json result"

definition no_nul :: "string \<Rightarrow> bool" where
  "no_nul s \<longleftrightarrow> CHR 0x00 \<notin> set s"

definition codec_ok :: "json_codec \<Rightarrow> bool" where
  "codec_ok cd \<longleftrightarrow> (\<forall>v. plain_json v \<longrightarrow> cd_loads cd (cd_dumps cd v) = Inr v \<and> no_nul (cd_dumps cd v))"

definition plain_data :: "jdict \<Rightarrow> bool" where
  "plain_data d = plain_json (JDict d)"

text \<open>The texts of a state and of a data column, read back as the storages do.\<close>

definition loaded_dict :: "json_codec \<Rightarrow> string \<Rightarrow> jdict result" where
  "loaded_dict cd t = bind_result (cd_loads cd t) (\<lambda>v. case v of JDict d \<Rightarrow> Inr d | _ \<Rightarrow> Inl (TypeError ''not a dictionary''))"

text \<open>\<open>update_data\<close>, \<open>set_many_states\<close> and \<open>transition_data\<close>, which the three storages share word for word.\<close>

definition remote_update_data ::
  "(storage_key \<Rightarrow> 'r \<Rightarrow> jdict result) \<Rightarrow> (storage_key \<Rightarrow> jdict \<Rightarrow> 'r \<Rightarrow> 'r result) \<Rightarrow> storage_key \<Rightarrow> jdict \<Rightarrow> 'r \<Rightarrow> (jdict \<times> 'r) result" where
  "remote_update_data get_data set_data k kwargs r =
     bind_result (get_data k r) (\<lambda>current.
       let d = dict_update current kwargs in bind_result (set_data k d r) (\<lambda>r1. Inr (d, r1)))"

primrec remote_set_many_states ::
  "(storage_key \<Rightarrow> string option \<Rightarrow> 'r \<Rightarrow> 'r result) \<Rightarrow> (storage_key, string option) dict \<Rightarrow> 'r \<Rightarrow> 'r result" where
  "remote_set_many_states set_state [] r = Inr r"
| "remote_set_many_states set_state (p # ps) r = bind_result (set_state (fst p) (snd p) r) (remote_set_many_states set_state ps)"

definition remote_transition_data ::
  "(storage_key \<Rightarrow> 'r \<Rightarrow> jdict result) \<Rightarrow> (storage_key \<Rightarrow> jdict \<Rightarrow> 'r \<Rightarrow> 'r result) \<Rightarrow> (storage_key \<Rightarrow> 'r \<Rightarrow> 'r) \<Rightarrow>
   storage_key \<Rightarrow> storage_key \<Rightarrow> bool \<Rightarrow> bool \<Rightarrow> 'r \<Rightarrow> (jdict \<times> 'r) result" where
  "remote_transition_data get_data set_data clear from_key to_key clear_source merge r =
     bind_result (get_data from_key r) (\<lambda>source.
     bind_result (if merge then bind_result (get_data to_key r) (\<lambda>target. Inr (dict_update target source)) else Inr source) (\<lambda>result.
     bind_result (set_data to_key result r) (\<lambda>r1.
       Inr (result, if clear_source then clear from_key r1 else r1))))"

section \<open>Redis\<close>

record 'r redis_client =
  rc_hget :: "string \<Rightarrow> string \<Rightarrow> 'r \<Rightarrow> string option"
  rc_hset :: "string \<Rightarrow> string \<Rightarrow> string \<Rightarrow> 'r \<Rightarrow> 'r"
  rc_hdel :: "string \<Rightarrow> string \<Rightarrow> 'r \<Rightarrow> 'r"
  rc_delete :: "string \<Rightarrow> 'r \<Rightarrow> 'r"

definition redis_ok :: "'r redis_client \<Rightarrow> bool" where
  "redis_ok c \<longleftrightarrow>
     (\<forall>k f k' f' v r. rc_hget c k f (rc_hset c k' f' v r) = (if k = k' \<and> f = f' then Some v else rc_hget c k f r)) \<and>
     (\<forall>k f k' f' r. rc_hget c k f (rc_hdel c k' f' r) = (if k = k' \<and> f = f' then None else rc_hget c k f r)) \<and>
     (\<forall>k f k' r. rc_hget c k f (rc_delete c k' r) = (if k = k' then None else rc_hget c k f r))"

definition redis_key :: "json_codec \<Rightarrow> string \<Rightarrow> storage_key \<Rightarrow> string" where
  "redis_key cd prefix k = prefix @ '':'' @ cd_dumps cd (encode_key k)"

definition redis_get_state :: "'r redis_client \<Rightarrow> json_codec \<Rightarrow> string \<Rightarrow> storage_key \<Rightarrow> 'r \<Rightarrow> string option" where
  "redis_get_state c cd p k r = rc_hget c (redis_key cd p k) ''state'' r"

definition redis_set_state :: "'r redis_client \<Rightarrow> json_codec \<Rightarrow> string \<Rightarrow> storage_key \<Rightarrow> string option \<Rightarrow> 'r \<Rightarrow> 'r result" where
  "redis_set_state c cd p k x r =
     Inr (case x of None \<Rightarrow> rc_hdel c (redis_key cd p k) ''state'' r | Some st \<Rightarrow> rc_hset c (redis_key cd p k) ''state'' st r)"

definition redis_set_state_value :: "'r redis_client \<Rightarrow> json_codec \<Rightarrow> string \<Rightarrow> storage_key \<Rightarrow> state_value option \<Rightarrow> 'r \<Rightarrow> 'r result" where
  "redis_set_state_value c cd p k v r = bind_result (normalize_state v) (\<lambda>x. redis_set_state c cd p k x r)"

definition redis_get_data :: "'r redis_client \<Rightarrow> json_codec \<Rightarrow> string \<Rightarrow> storage_key \<Rightarrow> 'r \<Rightarrow> jdict result" where
  "redis_get_data c cd p k r = (case rc_hget c (redis_key cd p k) ''data'' r of None \<Rightarrow> Inr [] | Some t \<Rightarrow> loaded_dict cd t)"

definition redis_set_data :: "'r redis_client \<Rightarrow> json_codec \<Rightarrow> string \<Rightarrow> storage_key \<Rightarrow> jdict \<Rightarrow> 'r \<Rightarrow> 'r result" where
  "redis_set_data c cd p k d r = Inr (rc_hset c (redis_key cd p k) ''data'' (cd_dumps cd (JDict d)) r)"

definition redis_clear :: "'r redis_client \<Rightarrow> json_codec \<Rightarrow> string \<Rightarrow> storage_key \<Rightarrow> 'r \<Rightarrow> 'r" where
  "redis_clear c cd p k r = rc_delete c (redis_key cd p k) r"

definition redis_update_data :: "'r redis_client \<Rightarrow> json_codec \<Rightarrow> string \<Rightarrow> storage_key \<Rightarrow> jdict \<Rightarrow> 'r \<Rightarrow> (jdict \<times> 'r) result" where
  "redis_update_data c cd p = remote_update_data (redis_get_data c cd p) (redis_set_data c cd p)"

definition redis_set_many_states :: "'r redis_client \<Rightarrow> json_codec \<Rightarrow> string \<Rightarrow> (storage_key, string option) dict \<Rightarrow> 'r \<Rightarrow> 'r result" where
  "redis_set_many_states c cd p = remote_set_many_states (redis_set_state c cd p)"

definition redis_get_many_states :: "'r redis_client \<Rightarrow> json_codec \<Rightarrow> string \<Rightarrow> storage_key list \<Rightarrow> 'r \<Rightarrow> (storage_key, string option) dict" where
  "redis_get_many_states c cd p ks r = get_many_states (redis_get_state c cd p) ks r"

definition redis_set_state_for ::
  "'r redis_client \<Rightarrow> json_codec \<Rightarrow> string \<Rightarrow> fsm_scope \<Rightarrow> state_value option \<Rightarrow> int option \<Rightarrow> int option \<Rightarrow> int option \<Rightarrow> int option \<Rightarrow> string option \<Rightarrow> 'r \<Rightarrow> 'r result" where
  "redis_set_state_for c cd p scope v guild_id channel_id topic_id user_id custom_id r =
     redis_set_state_value c cd p
       \<lparr>sk_scope = scope, sk_guild_id = guild_id, sk_channel_id = channel_id, sk_topic_id = topic_id, sk_user_id = user_id, sk_custom_id = custom_id\<rparr> v r"

definition redis_transition_data ::
  "'r redis_client \<Rightarrow> json_codec \<Rightarrow> string \<Rightarrow> storage_key \<Rightarrow> storage_key \<Rightarrow> bool \<Rightarrow> bool \<Rightarrow> 'r \<Rightarrow> (jdict \<times> 'r) result" where
  "redis_transition_data c cd p = remote_transition_data (redis_get_data c cd p) (redis_set_data c cd p) (redis_clear c cd p)"

section \<open>MongoDB\<close>

record mongo_doc =
  md_state :: "string option"
  md_data :: "jdict option"

text \<open>\<open>update_one\<close> with \<open>$set\<close> of one field and \<open>upsert\<close>; an absent field and a null one read the same.\<close>

record 'r mongo_collection =
  mc_find_one :: "string \<Rightarrow> 'r \<Rightarrow> mongo_doc option"
  mc_set_state :: "string \<Rightarrow> string option \<Rightarrow> 'r \<Rightarrow> 'r"
  mc_set_data :: "string \<Rightarrow> jdict \<Rightarrow> 'r \<Rightarrow> 'r"
  mc_delete_one :: "string \<Rightarrow> 'r \<Rightarrow> 'r"

definition upserted :: "mongo_doc option \<Rightarrow> mongo_doc" where
  "upserted d = (case d of Some m \<Rightarrow> m | None \<Rightarrow> \<lparr>md_state = None, md_data = None\<rparr>)"

text \<open>What a BSON document holds unchanged: 64-bit integers and keys without NUL, dots and a leading dollar.\<close>

definition bson_key :: "string \<Rightarrow> bool" where
  "bson_key k \<longleftrightarrow> no_nul k \<and> CHR ''.'' \<notin> set k \<and> take 1 k \<noteq> ''$''"

fun bson_json :: "json \<Rightarrow> bool" where
  "bson_json (JInt i) = (- (2 ^ 63) \<le> i \<and> i < 2 ^ 63)"
| "bson_json (JList vs) = list_all bson_json vs"
| "bson_json (JDict d) = list_all (\<lambda>p. bson_key (fst p) \<and> bson_json (snd p)) d"
| "bson_json v = True"

definition bson_data :: "jdict \<Rightarrow> bool" where
  "bson_data d \<longleftrightarrow> plain_data d \<and> bson_json (JDict d)"

definition mongo_ok :: "'r mongo_collection \<Rightarrow> bool" where
  "mongo_ok c \<longleftrightarrow>
     (\<forall>i j x r. mc_find_one c i (mc_set_state c j x r) =
        (if i = j then Some ((upserted (mc_find_one c i r))\<lparr>md_state := x\<rparr>) else mc_find_one c i r)) \<and>
     (\<forall>i j d r. bson_data d \<longrightarrow> mc_find_one c i (mc_set_data c j d r) =
        (if i = j then Some ((upserted (mc_find_one c i r))\<lparr>md_data := Some d\<rparr>) else mc_find_one c i r)) \<and>
     (\<forall>i j r. mc_find_one c i (mc_delete_one c j r) = (if i = j then None else mc_find_one c i r))"

definition none_or :: "('a \<Rightarrow> string) \<Rightarrow> 'a option \<Rightarrow> string" where
  "none_or f v = (case v of None \<Rightarrow> ''None'' | Some x \<Rightarrow> f x)"

definition doc_id :: "storage_key \<Rightarrow> string" where
  "doc_id k =
     scope_text (sk_scope k) @ '':'' @ none_or show_int (sk_guild_id k) @ '':'' @ none_or show_int (sk_channel_id k) @ '':'' @
     none_or show_int (sk_topic_id k) @ '':'' @ none_or show_int (sk_user_id k) @ '':'' @ none_or id (sk_custom_id k)"

definition mongo_get_state :: "'r mongo_collection \<Rightarrow> storage_key \<Rightarrow> 'r \<Rightarrow> string option" where
  "mongo_get_state c k r = (case mc_find_one c (doc_id k) r of None \<Rightarrow> None | Some d \<Rightarrow> md_state d)"

definition mongo_set_state :: "'r mongo_collection \<Rightarrow> storage_key \<Rightarrow> string option \<Rightarrow> 'r \<Rightarrow> 'r result" where
  "mongo_set_state c k x r = Inr (mc_set_state c (doc_id k) x r)"

definition mongo_set_state_value :: "'r mongo_collection \<Rightarrow> storage_key \<Rightarrow> state_value option \<Rightarrow> 'r \<Rightarrow> 'r result" where
  "mongo_set_state_value c k v r = bind_result (normalize_state v) (\<lambda>x. mongo_set_state c k x r)"

definition mongo_get_data :: "'r mongo_collection \<Rightarrow> storage_key \<Rightarrow> 'r \<Rightarrow> jdict result" where
  "mongo_get_data c k r =
     Inr (case mc_find_one c (doc_id k) r of None \<Rightarrow> [] | Some d \<Rightarrow> (case md_data d of None \<Rightarrow> [] | Some x \<Rightarrow> x))"

definition mongo_set_data :: "'r mongo_collection \<Rightarrow> storage_key \<Rightarrow> jdict \<Rightarrow> 'r \<Rightarrow> 'r result" where
  "mongo_set_data c k d r = Inr (mc_set_data c (doc_id k) d r)"

definition mongo_clear :: "'r mongo_collection \<Rightarrow> storage_key \<Rightarrow> 'r \<Rightarrow> 'r" where
  "mongo_clear c k r = mc_delete_one c (doc_id k) r"

definition mongo_update_data :: "'r mongo_collection \<Rightarrow> storage_key \<Rightarrow> jdict \<Rightarrow> 'r \<Rightarrow> (jdict \<times> 'r) result" where
  "mongo_update_data c = remote_update_data (mongo_get_data c) (mongo_set_data c)"

definition mongo_set_many_states :: "'r mongo_collection \<Rightarrow> (storage_key, string option) dict \<Rightarrow> 'r \<Rightarrow> 'r result" where
  "mongo_set_many_states c = remote_set_many_states (mongo_set_state c)"

definition mongo_get_many_states :: "'r mongo_collection \<Rightarrow> storage_key list \<Rightarrow> 'r \<Rightarrow> (storage_key, string option) dict" where
  "mongo_get_many_states c ks r = get_many_states (mongo_get_state c) ks r"

definition mongo_set_state_for ::
  "'r mongo_collection \<Rightarrow> fsm_scope \<Rightarrow> state_value option \<Rightarrow> int option \<Rightarrow> int option \<Rightarrow> int option \<Rightarrow> int option \<Rightarrow> string option \<Rightarrow> 'r \<Rightarrow> 'r result" where
  "mongo_set_state_for c scope v guild_id channel_id topic_id user_id custom_id r =
     mongo_set_state_value c
       \<lparr>sk_scope = scope, sk_guild_id = guild_id, sk_channel_id = channel_id, sk_topic_id = topic_id, sk_user_id = user_id, sk_custom_id = custom_id\<rparr> v r"

definition mongo_transition_data ::
  "'r mongo_collection \<Rightarrow> storage_key \<Rightarrow> storage_key \<Rightarrow> bool \<Rightarrow> bool \<Rightarrow> 'r \<Rightarrow> (jdict \<times> 'r) result" where
  "mongo_transition_data c = remote_transition_data (mongo_get_data c) (mongo_set_data c) (mongo_clear c)"

section \<open>PostgreSQL\<close>

text \<open>
  The data column, of type text or json, comes back as text or, with a decoder, as a mapping. Texts
  with NUL are outside what the database stores.
\<close>

datatype pg_column = PgText string | PgMapping jdict

record 'r pg_conn =
  pg_fetchrow :: "string \<Rightarrow> 'r \<Rightarrow> (string option \<times> pg_column option) option"
  pg_upsert :: "string \<Rightarrow> string option \<Rightarrow> string \<Rightarrow> 'r \<Rightarrow> 'r"
  pg_delete :: "string \<Rightarrow> 'r \<Rightarrow> 'r"

definition stored_as :: "json_codec \<Rightarrow> string \<Rightarrow> pg_column \<Rightarrow> bool" where
  "stored_as cd t x \<longleftrightarrow> (case x of PgText u \<Rightarrow> u = t | PgMapping d \<Rightarrow> loaded_dict cd t = Inr d)"

definition postgres_ok :: "json_codec \<Rightarrow> 'r pg_conn \<Rightarrow> bool" where
  "postgres_ok cd c \<longleftrightarrow>
     (\<forall>k st t r. no_nul k \<and> no_nul t \<and> (\<forall>s. st = Some s \<longrightarrow> no_nul s) \<longrightarrow>
        (\<exists>x. pg_fetchrow c k (pg_upsert c k st t r) = Some (st, Some x) \<and> stored_as cd t x)) \<and>
     (\<forall>k k' st t r. k \<noteq> k' \<longrightarrow> pg_fetchrow c k (pg_upsert c k' st t r) = pg_fetchrow c k r) \<and>
     (\<forall>k k' r. pg_fetchrow c k (pg_delete c k' r) = (if k = k' then None else pg_fetchrow c k r))"

definition key_text :: "json_codec \<Rightarrow> storage_key \<Rightarrow> string" where
  "key_text cd k = cd_dumps cd (encode_key k)"

definition postgres_get_state :: "'r pg_conn \<Rightarrow> json_codec \<Rightarrow> storage_key \<Rightarrow> 'r \<Rightarrow> string option" where
  "postgres_get_state c cd k r = (case pg_fetchrow c (key_text cd k) r of None \<Rightarrow> None | Some row \<Rightarrow> fst row)"

definition postgres_get_data :: "'r pg_conn \<Rightarrow> json_codec \<Rightarrow> storage_key \<Rightarrow> 'r \<Rightarrow> jdict result" where
  "postgres_get_data c cd k r =
     (case pg_fetchrow c (key_text cd k) r of
        Some (_, Some (PgText t)) \<Rightarrow> loaded_dict cd t
      | Some (_, Some (PgMapping d)) \<Rightarrow> Inr d
      | _ \<Rightarrow> Inr [])"

definition postgres_set_state :: "'r pg_conn \<Rightarrow> json_codec \<Rightarrow> storage_key \<Rightarrow> string option \<Rightarrow> 'r \<Rightarrow> 'r result" where
  "postgres_set_state c cd k x r =
     bind_result (postgres_get_data c cd k r) (\<lambda>d. Inr (pg_upsert c (key_text cd k) x (cd_dumps cd (JDict d)) r))"

definition postgres_set_state_value :: "'r pg_conn \<Rightarrow> json_codec \<Rightarrow> storage_key \<Rightarrow> state_value option \<Rightarrow> 'r \<Rightarrow> 'r result" where
  "postgres_set_state_value c cd k v r =
     bind_result (postgres_get_data c cd k r) (\<lambda>d.
     bind_result (normalize_state v) (\<lambda>x. Inr (pg_upsert c (key_text cd k) x (cd_dumps cd (JDict d)) r)))"

definition postgres_set_data :: "'r pg_conn \<Rightarrow> json_codec \<Rightarrow> storage_key \<Rightarrow> jdict \<Rightarrow> 'r \<Rightarrow> 'r result" where
  "postgres_set_data c cd k d r = Inr (pg_upsert c (key_text cd k) (postgres_get_state c cd k r) (cd_dumps cd (JDict d)) r)"

definition postgres_clear :: "'r pg_conn \<Rightarrow> json_codec \<Rightarrow> storage_key \<Rightarrow> 'r \<Rightarrow> 'r" where
  "postgres_clear c cd k r = pg_delete c (key_text cd k) r"

definition postgres_update_data :: "'r pg_conn \<Rightarrow> json_codec \<Rightarrow> storage_key \<Rightarrow> jdict \<Rightarrow> 'r \<Rightarrow> (jdict \<times> 'r) result" where
  "postgres_update_data c cd = remote_update_data (postgres_get_data c cd) (postgres_set_data c cd)"

definition postgres_set_many_states :: "'r pg_conn \<Rightarrow> json_codec \<Rightarrow> (storage_key, string option) dict \<Rightarrow> 'r \<Rightarrow> 'r result" where
  "postgres_set_many_states c cd = remote_set_many_states (postgres_set_state c cd)"

definition postgres_get_many_states :: "'r pg_conn \<Rightarrow> json_codec \<Rightarrow> storage_key list \<Rightarrow> 'r \<Rightarrow> (storage_key, string option) dict" where
  "postgres_get_many_states c cd ks r = get_many_states (postgres_get_state c cd) ks r"

definition postgres_set_state_for ::
  "'r pg_conn \<Rightarrow> json_codec \<Rightarrow> fsm_scope \<Rightarrow> state_value option \<Rightarrow> int option \<Rightarrow> int option \<Rightarrow> int option \<Rightarrow> int option \<Rightarrow> string option \<Rightarrow> 'r \<Rightarrow> 'r result" where
  "postgres_set_state_for c cd scope v guild_id channel_id topic_id user_id custom_id r =
     postgres_set_state_value c cd
       \<lparr>sk_scope = scope, sk_guild_id = guild_id, sk_channel_id = channel_id, sk_topic_id = topic_id, sk_user_id = user_id, sk_custom_id = custom_id\<rparr> v r"

definition postgres_transition_data ::
  "'r pg_conn \<Rightarrow> json_codec \<Rightarrow> storage_key \<Rightarrow> storage_key \<Rightarrow> bool \<Rightarrow> bool \<Rightarrow> 'r \<Rightarrow> (jdict \<times> 'r) result" where
  "postgres_transition_data c cd = remote_transition_data (postgres_get_data c cd) (postgres_set_data c cd) (postgres_clear c cd)"

section \<open>The contract of a storage over a driver\<close>

text \<open>The operations on a storage, as Fsm has them for the two local storages.\<close>

primrec remote_op ::
  "(storage_key \<Rightarrow> string option \<Rightarrow> 'r \<Rightarrow> 'r result) \<Rightarrow> (storage_key \<Rightarrow> 'r \<Rightarrow> jdict result) \<Rightarrow>
   (storage_key \<Rightarrow> jdict \<Rightarrow> 'r \<Rightarrow> 'r result) \<Rightarrow> (storage_key \<Rightarrow> 'r \<Rightarrow> 'r) \<Rightarrow> json fsm_op \<Rightarrow> 'r \<Rightarrow> 'r result" where
  "remote_op set_state get_data set_data clear (SetState k x) r = set_state k x r"
| "remote_op set_state get_data set_data clear (SetData k d) r = set_data k d r"
| "remote_op set_state get_data set_data clear (Update k kwargs) r =
     bind_result (remote_update_data get_data set_data k kwargs r) (\<lambda>p. Inr (snd p))"
| "remote_op set_state get_data set_data clear (Clear k) r = Inr (clear k r)"
| "remote_op set_state get_data set_data clear (SetMany as) r = remote_set_many_states set_state as r"
| "remote_op set_state get_data set_data clear (Transition a b c m) r =
     bind_result (remote_transition_data get_data set_data clear a b c m r) (\<lambda>p. Inr (snd p))"

primrec run_all :: "('o \<Rightarrow> 'r \<Rightarrow> 'r result) \<Rightarrow> 'o list \<Rightarrow> 'r \<Rightarrow> 'r result" where
  "run_all run [] r = Inr r"
| "run_all run (p # ps) r = bind_result (run p r) (run_all run ps)"

primrec op_within :: "(storage_key \<Rightarrow> bool) \<Rightarrow> (string option \<Rightarrow> bool) \<Rightarrow> (jdict \<Rightarrow> bool) \<Rightarrow> json fsm_op \<Rightarrow> bool" where
  "op_within kok sok dok (SetState k x) = (kok k \<and> sok x)"
| "op_within kok sok dok (SetData k d) = (kok k \<and> dok d)"
| "op_within kok sok dok (Update k kwargs) = (kok k \<and> dok kwargs)"
| "op_within kok sok dok (Clear k) = kok k"
| "op_within kok sok dok (SetMany as) = list_all (\<lambda>p. kok (fst p) \<and> sok (snd p)) as"
| "op_within kok sok dok (Transition a b c m) = (kok a \<and> kok b)"

lemma op_within_mono:
  "op_within kok sok dok p \<Longrightarrow> (\<And>k. kok k \<Longrightarrow> kok' k) \<Longrightarrow> (\<And>x. sok x \<Longrightarrow> sok' x) \<Longrightarrow> (\<And>d. dok d \<Longrightarrow> dok' d) \<Longrightarrow>
   op_within kok' sok' dok' p"
  by (cases p) (auto simp: list_all_iff)

locale remote_storage =
  fixes repr :: "'r \<Rightarrow> json view \<Rightarrow> bool"
    and kok :: "storage_key \<Rightarrow> bool"
    and sok :: "string option \<Rightarrow> bool"
    and dok :: "jdict \<Rightarrow> bool"
    and get_state :: "storage_key \<Rightarrow> 'r \<Rightarrow> string option"
    and set_state :: "storage_key \<Rightarrow> string option \<Rightarrow> 'r \<Rightarrow> 'r result"
    and get_data :: "storage_key \<Rightarrow> 'r \<Rightarrow> jdict result"
    and set_data :: "storage_key \<Rightarrow> jdict \<Rightarrow> 'r \<Rightarrow> 'r result"
    and clear :: "storage_key \<Rightarrow> 'r \<Rightarrow> 'r"
  assumes get_state_repr: "repr r v \<Longrightarrow> kok k \<Longrightarrow> get_state k r = fst (v k)"
    and get_data_repr: "repr r v \<Longrightarrow> kok k \<Longrightarrow> get_data k r = Inr (snd (v k))"
    and data_within: "repr r v \<Longrightarrow> kok k \<Longrightarrow> dok (snd (v k))"
    and update_within: "dok d \<Longrightarrow> dok e \<Longrightarrow> dok (dict_update d e)"
    and set_state_repr: "repr r v \<Longrightarrow> kok k \<Longrightarrow> sok x \<Longrightarrow> \<exists>r1. set_state k x r = Inr r1 \<and> repr r1 (v(k := (x, snd (v k))))"
    and set_data_repr: "repr r v \<Longrightarrow> kok k \<Longrightarrow> dok d \<Longrightarrow> \<exists>r1. set_data k d r = Inr r1 \<and> repr r1 (v(k := (fst (v k), d)))"
    and clear_repr: "repr r v \<Longrightarrow> kok k \<Longrightarrow> repr (clear k r) (v(k := (None, [])))"
begin

text \<open>What \<open>update_data\<close> and \<open>transition_data\<close> return is what they stored.\<close>

lemma update_repr:
  assumes "repr r v" and "kok k" and "dok kwargs"
  shows "\<exists>r1. remote_update_data get_data set_data k kwargs r = Inr (dict_update (snd (v k)) kwargs, r1) \<and>
    repr r1 (spec_op (Update k kwargs) v)"
proof -
  obtain r1 where "set_data k (dict_update (snd (v k)) kwargs) r = Inr r1"
      "repr r1 (v(k := (fst (v k), dict_update (snd (v k)) kwargs)))"
    using set_data_repr [OF assms(1,2)] update_within [OF data_within [OF assms(1,2)] assms(3)] by blast
  then show ?thesis by (simp add: remote_update_data_def get_data_repr [OF assms(1,2)] Let_def)
qed

lemma set_many_repr:
  assumes "repr r v" and "list_all (\<lambda>p. kok (fst p) \<and> sok (snd p)) as"
  shows "\<exists>r1. remote_set_many_states set_state as r = Inr r1 \<and> repr r1 (spec_op (SetMany as) v)"
  using assms
proof (induction as arbitrary: r v)
  case (Cons p as)
  then obtain r1 where "set_state (fst p) (snd p) r = Inr r1" "repr r1 (v(fst p := (snd p, snd (v (fst p)))))"
    using set_state_repr by fastforce
  then show ?case using Cons.IH [of r1 "v(fst p := (snd p, snd (v (fst p))))"] Cons.prems(2) by (simp add: case_prod_beta del: fun_upd_apply)
qed simp

lemma transition_repr:
  assumes r: "repr r v" and k: "kok a" "kok b"
  shows "\<exists>r1. remote_transition_data get_data set_data clear a b c m r =
      Inr (if m then dict_update (snd (v b)) (snd (v a)) else snd (v a), r1) \<and> repr r1 (spec_op (Transition a b c m) v)"
proof -
  define d where "d = (if m then dict_update (snd (v b)) (snd (v a)) else snd (v a))"
  have "dok d" using data_within [OF r] update_within k by (simp add: d_def)
  then obtain r1 where r1: "set_data b d r = Inr r1" "repr r1 (v(b := (fst (v b), d)))"
    using set_data_repr [OF r k(2)] by blast
  have merged: "(if m then bind_result (get_data b r) (\<lambda>target. Inr (dict_update target (snd (v a)))) else Inr (snd (v a))) = Inr d"
    using get_data_repr [OF r k(2)] by (simp add: d_def)
  show ?thesis
    using r1 clear_repr [OF r1(2) k(1)] merged
    by (auto simp: remote_transition_data_def get_data_repr [OF r k(1)] Let_def d_def [symmetric])
qed

lemma op_repr:
  assumes "repr r v" and "op_within kok sok dok p"
  shows "\<exists>r1. remote_op set_state get_data set_data clear p r = Inr r1 \<and> repr r1 (spec_op p v)"
proof (cases p)
  case (Update k kwargs)
  then show ?thesis using update_repr [of r v k kwargs] assms by (auto simp del: spec_op.simps)
next
  case (SetMany as)
  then show ?thesis using set_many_repr [of r v as] assms by (simp del: spec_op.simps)
next
  case (Transition a b c m)
  then show ?thesis using transition_repr [of r v a b c m] assms by (auto simp del: spec_op.simps)
qed (use assms set_state_repr set_data_repr clear_repr in auto)

lemma run_repr:
  assumes "repr r v" and "list_all (op_within kok sok dok) ps"
  shows "\<exists>r1. run_all (remote_op set_state get_data set_data clear) ps r = Inr r1 \<and> repr r1 (fold spec_op ps v)"
  using assms
proof (induction ps arbitrary: r v)
  case (Cons p ps)
  then obtain r1 where "remote_op set_state get_data set_data clear p r = Inr r1" "repr r1 (spec_op p v)"
    using op_repr [of r v p] by auto
  then show ?case using Cons.IH [of r1] Cons.prems(2) by simp
qed simp

lemma run_reads:
  assumes "repr r v" and "list_all (op_within kok sok dok) ps"
  shows "\<exists>r1. run_all (remote_op set_state get_data set_data clear) ps r = Inr r1 \<and>
    (\<forall>k. kok k \<longrightarrow> get_state k r1 = fst (fold spec_op ps v k) \<and> get_data k r1 = Inr (snd (fold spec_op ps v k)))"
  using run_repr [OF assms] get_state_repr get_data_repr by blast

end

section \<open>The three storages keep the contract\<close>

lemma list_all_dict_set: "list_all P d \<Longrightarrow> P (k, v) \<Longrightarrow> list_all P (dict_set d k v)"
  by (induction d) auto

lemma list_all_dict_update: "list_all P d \<Longrightarrow> list_all P e \<Longrightarrow> list_all P (dict_update d e)"
  unfolding dict_update_def by (induction e arbitrary: d) (simp_all add: list_all_dict_set case_prod_beta)

lemma plain_data_update: "plain_data d \<Longrightarrow> plain_data e \<Longrightarrow> plain_data (dict_update d e)"
  using dict_wf_update [of d e] list_all_dict_update [of "\<lambda>p. plain_json (snd p)" d e] by (simp add: plain_data_def dict_wf_def)

lemma bson_data_update: "bson_data d \<Longrightarrow> bson_data e \<Longrightarrow> bson_data (dict_update d e)"
  using plain_data_update [of d e] list_all_dict_update [of "\<lambda>p. bson_key (fst p) \<and> bson_json (snd p)" d e] by (simp add: bson_data_def)

lemma data_nil [simp]: "plain_data []" "bson_data []"
  by (simp_all add: bson_data_def plain_data_def)

lemma loaded_dumped: "codec_ok cd \<Longrightarrow> plain_data d \<Longrightarrow> loaded_dict cd (cd_dumps cd (JDict d)) = Inr d"
  by (simp add: codec_ok_def loaded_dict_def plain_data_def)

lemma plain_key: "plain_json (encode_key k)"
  by (cases "sk_custom_id k") (auto simp: encode_key_def opt_json_def split: option.split)

lemma dumped_key: "codec_ok cd \<Longrightarrow> cd_dumps cd (encode_key k) = cd_dumps cd (encode_key k') \<longleftrightarrow> k = k'"
  using plain_key [of k] plain_key [of k'] encode_key_inj unfolding codec_ok_def by (metis sum.inject(2))

lemma redis_key_inj: "codec_ok cd \<Longrightarrow> redis_key cd p k = redis_key cd p k' \<longleftrightarrow> k = k'"
  by (simp add: redis_key_def dumped_key)

definition redis_repr :: "'r redis_client \<Rightarrow> json_codec \<Rightarrow> string \<Rightarrow> 'r \<Rightarrow> json view \<Rightarrow> bool" where
  "redis_repr c cd p r v \<longleftrightarrow> redis_ok c \<and> codec_ok cd \<and>
     (\<forall>k. redis_get_state c cd p k r = fst (v k) \<and> redis_get_data c cd p k r = Inr (snd (v k)) \<and> plain_data (snd (v k)))"

lemma redis_reads:
  assumes "redis_ok c" and "codec_ok cd"
  shows "redis_get_state c cd p k (rc_hset c (redis_key cd p k') ''state'' x r) = (if k = k' then Some x else redis_get_state c cd p k r)"
    "redis_get_state c cd p k (rc_hset c (redis_key cd p k') ''data'' x r) = redis_get_state c cd p k r"
    "redis_get_state c cd p k (rc_hdel c (redis_key cd p k') ''state'' r) = (if k = k' then None else redis_get_state c cd p k r)"
    "redis_get_state c cd p k (redis_clear c cd p k' r) = (if k = k' then None else redis_get_state c cd p k r)"
    "redis_get_data c cd p k (rc_hset c (redis_key cd p k') ''state'' x r) = redis_get_data c cd p k r"
    "redis_get_data c cd p k (rc_hset c (redis_key cd p k') ''data'' x r) = (if k = k' then loaded_dict cd x else redis_get_data c cd p k r)"
    "redis_get_data c cd p k (rc_hdel c (redis_key cd p k') ''state'' r) = redis_get_data c cd p k r"
    "redis_get_data c cd p k (redis_clear c cd p k' r) = (if k = k' then Inr [] else redis_get_data c cd p k r)"
  using assms(1) by (simp_all add: redis_get_state_def redis_get_data_def redis_clear_def redis_ok_def redis_key_inj [OF assms(2)])

interpretation redis: remote_storage "redis_repr c cd p" "\<lambda>_. True" "\<lambda>_. True" plain_data
    "redis_get_state c cd p" "redis_set_state c cd p" "redis_get_data c cd p" "redis_set_data c cd p" "redis_clear c cd p"
  for c :: "'r redis_client" and cd p
proof unfold_locales
  fix r v k x
  assume "redis_repr c cd p r v"
  then show "\<exists>r1. redis_set_state c cd p k x r = Inr r1 \<and> redis_repr c cd p r1 (v(k := (x, snd (v k))))"
    by (cases x) (auto simp: redis_repr_def redis_set_state_def redis_reads)
qed (auto simp: redis_repr_def redis_set_data_def redis_reads loaded_dumped plain_data_update)

text \<open>The fields of a document id are separated by colons, which only the last one may contain.\<close>

definition id_key :: "storage_key \<Rightarrow> bool" where
  "id_key k \<longleftrightarrow> sk_custom_id k \<noteq> Some ''None''"

lemma colon_split: "CHR '':'' \<notin> set a \<Longrightarrow> CHR '':'' \<notin> set b \<Longrightarrow> a @ CHR '':'' # s = b @ CHR '':'' # t \<Longrightarrow> a = b \<and> s = t"
proof (induction a arbitrary: b)
  case Nil
  then show ?case by (cases b) auto
next
  case (Cons c a)
  then show ?case by (cases b) auto
qed

lemma show_int_chars: "c \<in> set (show_int i) \<Longrightarrow> c = CHR ''-'' \<or> (\<exists>d < 10. c = digit_char d)"
  using show_nat_digits by (auto simp: show_int_def split: if_splits)

lemma show_int_plain: "CHR '':'' \<notin> set (show_int i)" "show_int i \<noteq> ''None''"
proof -
  have d: "digit_char d \<noteq> CHR '':''" "digit_char d \<noteq> CHR ''N''" if "d < 10" for d
    using of_char_digit_char [OF that] that by auto
  have dash: "CHR '':'' \<noteq> CHR ''-''" "CHR ''N'' \<noteq> CHR ''-''" by simp_all
  show "CHR '':'' \<notin> set (show_int i)" using show_int_chars d(1) dash(1) by metis
  have "CHR ''N'' \<notin> set (show_int i)" using show_int_chars d(2) dash(2) by metis
  then show "show_int i \<noteq> ''None''" by auto
qed

lemma none_or_int: "CHR '':'' \<notin> set (none_or show_int v)" "none_or show_int v = none_or show_int w \<longleftrightarrow> v = w"
  using show_int_plain show_int_plain(2) [symmetric]
  by (auto simp: none_or_def dest: show_int_inj split: option.split)

lemma scope_text_plain: "CHR '':'' \<notin> set (scope_text s)" "scope_text s = scope_text t \<longleftrightarrow> s = t"
  by (cases s; simp add: scope_text_def) (cases s; cases t; simp add: scope_text_def)

lemma doc_id_inj: "id_key k \<Longrightarrow> id_key l \<Longrightarrow> doc_id k = doc_id l \<longleftrightarrow> k = l"
proof
  assume ok: "id_key k" "id_key l" and eq: "doc_id k = doc_id l"
  have sc: "scope_text (sk_scope k) = scope_text (sk_scope l) \<and>
      none_or show_int (sk_guild_id k) @ '':'' @ none_or show_int (sk_channel_id k) @ '':'' @ none_or show_int (sk_topic_id k) @ '':'' @
        none_or show_int (sk_user_id k) @ '':'' @ none_or id (sk_custom_id k) =
      none_or show_int (sk_guild_id l) @ '':'' @ none_or show_int (sk_channel_id l) @ '':'' @ none_or show_int (sk_topic_id l) @ '':'' @
        none_or show_int (sk_user_id l) @ '':'' @ none_or id (sk_custom_id l)"
    using eq by (intro colon_split) (simp_all add: doc_id_def scope_text_plain)
  then have "sk_scope k = sk_scope l" by (simp add: scope_text_plain)
  moreover have ids: "sk_guild_id k = sk_guild_id l \<and> sk_channel_id k = sk_channel_id l \<and> sk_topic_id k = sk_topic_id l \<and>
      sk_user_id k = sk_user_id l \<and> none_or id (sk_custom_id k) = none_or id (sk_custom_id l)"
    using sc by (simp add: none_or_int) (metis colon_split none_or_int)
  moreover have "sk_custom_id k = sk_custom_id l"
    using ids ok by (auto simp: none_or_def id_key_def split: option.splits)
  ultimately show "k = l" by simp
qed simp

definition mongo_repr :: "'r mongo_collection \<Rightarrow> 'r \<Rightarrow> json view \<Rightarrow> bool" where
  "mongo_repr c r v \<longleftrightarrow> mongo_ok c \<and>
     (\<forall>k. id_key k \<longrightarrow> mongo_get_state c k r = fst (v k) \<and> mongo_get_data c k r = Inr (snd (v k)) \<and> bson_data (snd (v k)))"

lemma mongo_reads:
  assumes "mongo_ok c" and "id_key k" and "id_key k'"
  shows "mongo_get_state c k (mc_set_state c (doc_id k') x r) = (if k = k' then x else mongo_get_state c k r)"
    "bson_data d \<Longrightarrow> mongo_get_state c k (mc_set_data c (doc_id k') d r) = mongo_get_state c k r"
    "mongo_get_state c k (mongo_clear c k' r) = (if k = k' then None else mongo_get_state c k r)"
    "mongo_get_data c k (mc_set_state c (doc_id k') x r) = mongo_get_data c k r"
    "bson_data d \<Longrightarrow> mongo_get_data c k (mc_set_data c (doc_id k') d r) = (if k = k' then Inr d else mongo_get_data c k r)"
    "mongo_get_data c k (mongo_clear c k' r) = (if k = k' then Inr [] else mongo_get_data c k r)"
  using assms(1) doc_id_inj [OF assms(2,3)]
  by (auto simp: mongo_get_state_def mongo_get_data_def mongo_clear_def mongo_ok_def upserted_def split: option.split)

interpretation mongo: remote_storage "mongo_repr c" id_key "\<lambda>_. True" bson_data
    "mongo_get_state c" "mongo_set_state c" "mongo_get_data c" "mongo_set_data c" "mongo_clear c"
  for c :: "'r mongo_collection"
  by unfold_locales
    (auto simp: mongo_repr_def mongo_set_state_def mongo_set_data_def mongo_reads bson_data_update)

definition nul_free :: "string option \<Rightarrow> bool" where
  "nul_free x \<longleftrightarrow> (case x of None \<Rightarrow> True | Some s \<Rightarrow> no_nul s)"

definition postgres_repr :: "'r pg_conn \<Rightarrow> json_codec \<Rightarrow> 'r \<Rightarrow> json view \<Rightarrow> bool" where
  "postgres_repr c cd r v \<longleftrightarrow> postgres_ok cd c \<and> codec_ok cd \<and>
     (\<forall>k. postgres_get_state c cd k r = fst (v k) \<and> postgres_get_data c cd k r = Inr (snd (v k)) \<and>
        nul_free (fst (v k)) \<and> plain_data (snd (v k)))"

lemma postgres_stored:
  assumes "postgres_ok cd c" and "codec_ok cd" and "nul_free x" and "plain_data d"
  shows "postgres_get_state c cd k (pg_upsert c (key_text cd k') x (cd_dumps cd (JDict d)) r) =
      (if k = k' then x else postgres_get_state c cd k r)"
    "postgres_get_data c cd k (pg_upsert c (key_text cd k') x (cd_dumps cd (JDict d)) r) =
      (if k = k' then Inr d else postgres_get_data c cd k r)"
proof -
  have nul: "no_nul (key_text cd k')" "no_nul (cd_dumps cd (JDict d))" "\<forall>s. x = Some s \<longrightarrow> no_nul s"
    using assms(2,3,4) plain_key [of k'] by (auto simp: codec_ok_def key_text_def plain_data_def nul_free_def)
  obtain y where y: "pg_fetchrow c (key_text cd k') (pg_upsert c (key_text cd k') x (cd_dumps cd (JDict d)) r) = Some (x, Some y)"
      "stored_as cd (cd_dumps cd (JDict d)) y"
    using assms(1) nul unfolding postgres_ok_def by blast
  have loaded: "loaded_dict cd (cd_dumps cd (JDict d)) = Inr d" using loaded_dumped assms(2,4) by blast
  have other: "pg_fetchrow c (key_text cd k) (pg_upsert c (key_text cd k') x (cd_dumps cd (JDict d)) r) = pg_fetchrow c (key_text cd k) r"
    if "k \<noteq> k'" using that assms(1) dumped_key [OF assms(2), of k k'] unfolding postgres_ok_def key_text_def by simp
  show "postgres_get_state c cd k (pg_upsert c (key_text cd k') x (cd_dumps cd (JDict d)) r) =
      (if k = k' then x else postgres_get_state c cd k r)"
    using y(1) other by (simp add: postgres_get_state_def)
  show "postgres_get_data c cd k (pg_upsert c (key_text cd k') x (cd_dumps cd (JDict d)) r) =
      (if k = k' then Inr d else postgres_get_data c cd k r)"
    using y loaded other by (auto simp: postgres_get_data_def stored_as_def split: pg_column.splits)
qed

lemma postgres_cleared:
  assumes "postgres_ok cd c" and "codec_ok cd"
  shows "postgres_get_state c cd k (postgres_clear c cd k' r) = (if k = k' then None else postgres_get_state c cd k r)"
    "postgres_get_data c cd k (postgres_clear c cd k' r) = (if k = k' then Inr [] else postgres_get_data c cd k r)"
  using assms(1) dumped_key [OF assms(2), of k k']
  by (simp_all add: postgres_get_state_def postgres_get_data_def postgres_clear_def postgres_ok_def key_text_def)

interpretation postgres: remote_storage "postgres_repr c cd" "\<lambda>_. True" nul_free plain_data
    "postgres_get_state c cd" "postgres_set_state c cd" "postgres_get_data c cd" "postgres_set_data c cd" "postgres_clear c cd"
  for c :: "'r pg_conn" and cd
  by unfold_locales
    (auto simp: postgres_repr_def postgres_set_state_def postgres_set_data_def postgres_stored postgres_cleared plain_data_update nul_free_def [of None])

section \<open>Sequences of operations\<close>

primrec redis_run :: "'r redis_client \<Rightarrow> json_codec \<Rightarrow> string \<Rightarrow> json fsm_op \<Rightarrow> 'r \<Rightarrow> 'r result" where
  "redis_run c cd p (SetState k x) r = redis_set_state c cd p k x r"
| "redis_run c cd p (SetData k d) r = redis_set_data c cd p k d r"
| "redis_run c cd p (Update k kwargs) r = bind_result (redis_update_data c cd p k kwargs r) (\<lambda>q. Inr (snd q))"
| "redis_run c cd p (Clear k) r = Inr (redis_clear c cd p k r)"
| "redis_run c cd p (SetMany as) r = redis_set_many_states c cd p as r"
| "redis_run c cd p (Transition a b cl m) r = bind_result (redis_transition_data c cd p a b cl m r) (\<lambda>q. Inr (snd q))"

primrec mongo_run :: "'r mongo_collection \<Rightarrow> json fsm_op \<Rightarrow> 'r \<Rightarrow> 'r result" where
  "mongo_run c (SetState k x) r = mongo_set_state c k x r"
| "mongo_run c (SetData k d) r = mongo_set_data c k d r"
| "mongo_run c (Update k kwargs) r = bind_result (mongo_update_data c k kwargs r) (\<lambda>q. Inr (snd q))"
| "mongo_run c (Clear k) r = Inr (mongo_clear c k r)"
| "mongo_run c (SetMany as) r = mongo_set_many_states c as r"
| "mongo_run c (Transition a b cl m) r = bind_result (mongo_transition_data c a b cl m r) (\<lambda>q. Inr (snd q))"

primrec postgres_run :: "'r pg_conn \<Rightarrow> json_codec \<Rightarrow> json fsm_op \<Rightarrow> 'r \<Rightarrow> 'r result" where
  "postgres_run c cd (SetState k x) r = postgres_set_state c cd k x r"
| "postgres_run c cd (SetData k d) r = postgres_set_data c cd k d r"
| "postgres_run c cd (Update k kwargs) r = bind_result (postgres_update_data c cd k kwargs r) (\<lambda>q. Inr (snd q))"
| "postgres_run c cd (Clear k) r = Inr (postgres_clear c cd k r)"
| "postgres_run c cd (SetMany as) r = postgres_set_many_states c cd as r"
| "postgres_run c cd (Transition a b cl m) r = bind_result (postgres_transition_data c cd a b cl m r) (\<lambda>q. Inr (snd q))"

lemma redis_run_eq:
  "redis_run c cd p = remote_op (redis_set_state c cd p) (redis_get_data c cd p) (redis_set_data c cd p) (redis_clear c cd p)"
proof (intro ext)
  show "redis_run c cd p q r = remote_op (redis_set_state c cd p) (redis_get_data c cd p) (redis_set_data c cd p) (redis_clear c cd p) q r" for q r
    by (cases q) (simp_all add: redis_update_data_def redis_set_many_states_def redis_transition_data_def)
qed

lemma mongo_run_eq: "mongo_run c = remote_op (mongo_set_state c) (mongo_get_data c) (mongo_set_data c) (mongo_clear c)"
proof (intro ext)
  show "mongo_run c q r = remote_op (mongo_set_state c) (mongo_get_data c) (mongo_set_data c) (mongo_clear c) q r" for q r
    by (cases q) (simp_all add: mongo_update_data_def mongo_set_many_states_def mongo_transition_data_def)
qed

lemma postgres_run_eq:
  "postgres_run c cd = remote_op (postgres_set_state c cd) (postgres_get_data c cd) (postgres_set_data c cd) (postgres_clear c cd)"
proof (intro ext)
  show "postgres_run c cd q r = remote_op (postgres_set_state c cd) (postgres_get_data c cd) (postgres_set_data c cd) (postgres_clear c cd) q r" for q r
    by (cases q) (simp_all add: postgres_update_data_def postgres_set_many_states_def postgres_transition_data_def)
qed

text \<open>Operations that every storage takes: no custom id \<open>None\<close>, no NUL in a state, data that BSON holds.\<close>

abbreviation portable :: "json fsm_op \<Rightarrow> bool" where
  "portable \<equiv> op_within id_key nul_free bson_data"

lemma portable_within:
  "list_all portable ps \<Longrightarrow> list_all (op_within (\<lambda>_. True) (\<lambda>_. True) plain_data) ps"
  "list_all portable ps \<Longrightarrow> list_all (op_within id_key (\<lambda>_. True) bson_data) ps"
  "list_all portable ps \<Longrightarrow> list_all (op_within (\<lambda>_. True) nul_free plain_data) ps"
  by (auto simp: list_all_iff bson_data_def elim!: op_within_mono)

lemma empty_repr:
  "redis_ok c \<Longrightarrow> codec_ok cd \<Longrightarrow> \<forall>k f. rc_hget c k f r = None \<Longrightarrow> redis_repr c cd p r (\<lambda>_. (None, []))"
  "mongo_ok m \<Longrightarrow> \<forall>i. mc_find_one m i s = None \<Longrightarrow> mongo_repr m s (\<lambda>_. (None, []))"
  "postgres_ok cd g \<Longrightarrow> codec_ok cd \<Longrightarrow> \<forall>k. pg_fetchrow g k t = None \<Longrightarrow> postgres_repr g cd t (\<lambda>_. (None, []))"
  by (simp_all add: redis_repr_def redis_get_state_def redis_get_data_def mongo_repr_def mongo_get_state_def mongo_get_data_def
      postgres_repr_def postgres_get_state_def postgres_get_data_def nul_free_def)

text \<open>
  C7: the five storages are interchangeable. Over drivers that behave as documented, any sequence of
  portable operations on empty databases succeeds on Redis, MongoDB and PostgreSQL, and afterwards
  every key has on each of them, and on SQLite, the state and the data it has in memory.
\<close>

theorem five_storages_agree:
  assumes "redis_ok c" and "mongo_ok m" and "postgres_ok cd g" and "codec_ok cd"
    and "\<forall>k f. rc_hget c k f r = None" and "\<forall>i. mc_find_one m i s = None" and "\<forall>k. pg_fetchrow g k t = None"
    and "list_all portable ps"
  shows "\<exists>r1 s1 t1. run_all (redis_run c cd p) ps r = Inr r1 \<and> run_all (mongo_run m) ps s = Inr s1 \<and>
    run_all (postgres_run g cd) ps t = Inr t1 \<and>
    (\<forall>k. id_key k \<longrightarrow>
       (let x = memory_get_state k (fold memory_run ps memory_empty); d = memory_get_data k (fold memory_run ps memory_empty) in
        redis_get_state c cd p k r1 = x \<and> mongo_get_state m k s1 = x \<and> postgres_get_state g cd k t1 = x \<and>
        sqlite_get_state k (fold sqlite_run ps []) = x \<and>
        redis_get_data c cd p k r1 = Inr d \<and> mongo_get_data m k s1 = Inr d \<and> postgres_get_data g cd k t1 = Inr d \<and>
        sqlite_get_data k (fold sqlite_run ps []) = d))"
proof -
  note within = portable_within [OF assms(8)]
  obtain r1 where r1: "run_all (redis_run c cd p) ps r = Inr r1"
      "\<forall>k. redis_get_state c cd p k r1 = fst (fold spec_op ps (\<lambda>_. (None, [])) k) \<and>
        redis_get_data c cd p k r1 = Inr (snd (fold spec_op ps (\<lambda>_. (None, [])) k))"
    using redis.run_reads [OF empty_repr(1) [OF assms(1,4,5)] within(1)] unfolding redis_run_eq by blast
  obtain s1 where s1: "run_all (mongo_run m) ps s = Inr s1"
      "\<forall>k. id_key k \<longrightarrow> mongo_get_state m k s1 = fst (fold spec_op ps (\<lambda>_. (None, [])) k) \<and>
        mongo_get_data m k s1 = Inr (snd (fold spec_op ps (\<lambda>_. (None, [])) k))"
    using mongo.run_reads [OF empty_repr(2) [OF assms(2,6)] within(2)] unfolding mongo_run_eq by blast
  obtain t1 where t1: "run_all (postgres_run g cd) ps t = Inr t1"
      "\<forall>k. postgres_get_state g cd k t1 = fst (fold spec_op ps (\<lambda>_. (None, [])) k) \<and>
        postgres_get_data g cd k t1 = Inr (snd (fold spec_op ps (\<lambda>_. (None, [])) k))"
    using postgres.run_reads [OF empty_repr(3) [OF assms(3,4,7)] within(3)] unfolding postgres_run_eq by blast
  show ?thesis
    using r1 s1 t1 storages_agree [where ps = ps] by (auto simp: Let_def)
qed

text \<open>Drivers over functions, and the JSON text of Python, satisfy the hypotheses.\<close>

definition python_codec :: json_codec where
  "python_codec = \<lparr>cd_dumps = json_dumps (\<lambda>_. ''0.0''), cd_loads = json_loads\<rparr>"

lemma no_nul_simps [simp]: "no_nul []" "no_nul (c # s) \<longleftrightarrow> c \<noteq> CHR 0x00 \<and> no_nul s" "no_nul (s @ t) \<longleftrightarrow> no_nul s \<and> no_nul t"
  by (auto simp: no_nul_def)

lemma no_nul_show_int [simp]: "no_nul (show_int i)"
proof -
  have "digit_char d \<noteq> CHR 0x00" if "d < 10" for d using of_char_digit_char [OF that] by auto
  moreover have "CHR 0x00 \<noteq> CHR ''-''" by simp
  ultimately show ?thesis unfolding no_nul_def using show_int_chars by metis
qed

lemma no_nul_escape [simp]: "no_nul (escape_char c)"
proof -
  have h: "low_hex d \<noteq> CHR 0x00" if "d < 16" for d
    using that by (auto simp: low_hex_def char_of_eq_iff take_bit_eq_mod)
  have "(of_char c :: nat) div 16 < 16" using code_below [of c] by (simp add: less_mult_imp_div_less)
  then show ?thesis by (auto simp: escape_char_def Let_def h)
qed

lemma no_nul_string [simp]: "no_nul (dump_string s)"
  by (induction s) (simp_all add: dump_string_def)

lemma no_nul_joined: "list_all no_nul ws \<Longrightarrow> no_nul (joined ws)"
  by (induction ws rule: joined.induct) simp_all

lemma no_nul_dumps: "plain_json v \<Longrightarrow> no_nul (json_dumps fl v)"
proof (induction v)
  case (JDict d)
  then have "no_nul (member_text fl p)" if "p \<in> set d" for p
    using that snds.intros by (fastforce simp: list_all_iff)
  then show ?case by (simp add: no_nul_joined list_all_iff)
qed (auto simp: list_all_iff intro!: no_nul_joined)

lemma python_codec_ok: "codec_ok python_codec"
  by (simp add: codec_ok_def python_codec_def loads_dumps no_nul_dumps)

definition hash_client :: "(string \<times> string \<Rightarrow> string option) redis_client" where
  "hash_client =
     \<lparr>rc_hget = (\<lambda>k f r. r (k, f)), rc_hset = (\<lambda>k f v r. r((k, f) \<mapsto> v)), rc_hdel = (\<lambda>k f r. r((k, f) := None)),
      rc_delete = (\<lambda>k r q. if fst q = k then None else r q)\<rparr>"

definition doc_collection :: "(string \<Rightarrow> mongo_doc option) mongo_collection" where
  "doc_collection =
     \<lparr>mc_find_one = (\<lambda>i r. r i), mc_set_state = (\<lambda>i x r. r(i \<mapsto> (upserted (r i))\<lparr>md_state := x\<rparr>)),
      mc_set_data = (\<lambda>i d r. r(i \<mapsto> (upserted (r i))\<lparr>md_data := Some d\<rparr>)), mc_delete_one = (\<lambda>i r. r(i := None))\<rparr>"

definition row_conn :: "(string \<Rightarrow> (string option \<times> pg_column option) option) pg_conn" where
  "row_conn =
     \<lparr>pg_fetchrow = (\<lambda>k r. r k), pg_upsert = (\<lambda>k x t r. r(k \<mapsto> (x, Some (PgText t)))), pg_delete = (\<lambda>k r. r(k := None))\<rparr>"

lemma drivers_ok: "redis_ok hash_client" "mongo_ok doc_collection" "postgres_ok cd row_conn"
  by (auto simp: redis_ok_def hash_client_def mongo_ok_def doc_collection_def postgres_ok_def row_conn_def stored_as_def)

definition demo_ops :: "json fsm_op list" where
  "demo_ops =
     [SetState (key_user 9) (Some ''Form:name''), Update (key_user 9) [(''name'', JStr ''Ann''), (''age'', JInt 30)],
      Transition (key_user 9) (key_custom ''done'') True True, SetMany [(key_member 1 9, Some ''Form:age''), (key_user 9, None)]]"

lemma demo_portable: "list_all portable demo_ops"
  by (simp add: demo_ops_def id_key_def nul_free_def bson_data_def plain_data_def bson_key_def no_nul_def key_user_def key_custom_def
      key_member_def blank_key_def)

theorem five_storages_agree_witness:
  "\<exists>r1 s1 t1. run_all (redis_run hash_client python_codec ''bot'') demo_ops (\<lambda>_. None) = Inr r1 \<and>
     run_all (mongo_run doc_collection) demo_ops (\<lambda>_. None) = Inr s1 \<and>
     run_all (postgres_run row_conn python_codec) demo_ops (\<lambda>_. None) = Inr t1 \<and>
     redis_get_data hash_client python_codec ''bot'' (key_custom ''done'') r1 =
       Inr (memory_get_data (key_custom ''done'') (fold memory_run demo_ops memory_empty)) \<and>
     mongo_get_state doc_collection (key_member 1 9) s1 =
       memory_get_state (key_member 1 9) (fold memory_run demo_ops (memory_empty :: json memory_storage)) \<and>
     postgres_get_data row_conn python_codec (key_user 9) t1 =
       Inr (memory_get_data (key_user 9) (fold memory_run demo_ops memory_empty))"
proof -
  have e: "\<forall>k f. rc_hget hash_client k f (\<lambda>_. None) = None" "\<forall>i. mc_find_one doc_collection i (\<lambda>_. None) = None"
      "\<forall>k. pg_fetchrow row_conn k (\<lambda>_. None) = None"
    by (simp_all add: hash_client_def doc_collection_def row_conn_def)
  have ok: "id_key (key_custom ''done'')" "id_key (key_member 1 9)" "id_key (key_user 9)"
    by (simp_all add: id_key_def key_user_def key_custom_def key_member_def blank_key_def)
  show ?thesis
    using five_storages_agree [OF drivers_ok(1,2) drivers_ok(3) python_codec_ok e demo_portable, of "''bot''"] ok
    unfolding Let_def by blast
qed

section \<open>What the storages do not keep apart\<close>

text \<open>A document id does not tell a missing custom id from the custom id \<open>None\<close>.\<close>

lemma doc_id_collision: "doc_id (key_custom ''None'') = doc_id (blank_key CUSTOM) \<and> key_custom ''None'' \<noteq> blank_key CUSTOM"
  by (simp add: doc_id_def none_or_def key_custom_def blank_key_def)

text \<open>
  \<open>set_state\<close> of PostgreSQL writes the data back that it read before: data that another coroutine has
  stored between its two statements is lost.
\<close>

lemma postgres_lost_update:
  assumes "postgres_repr g cd r v" and "plain_data d" and "nul_free x"
    and "postgres_set_data g cd k d r = Inr r1"
  shows "postgres_get_data g cd k (pg_upsert g (key_text cd k) x (cd_dumps cd (JDict (snd (v k)))) r1) = Inr (snd (v k))"
  using assms postgres_stored(2) [of cd g x "snd (v k)"] by (simp add: postgres_repr_def)

end
