(* ===== verification/Gateway.thy ===== *)
theory Gateway
  imports EventTypes
begin

text \<open>
  The gateway connection of a bot: gateway_runtime.py (\<open>GatewayRuntime\<close>) and the parts of
  bot.py that own the session (\<open>BotState\<close>, \<open>_handle_dispatch\<close>, \<open>_handle_ready\<close>, \<open>start\<close>,
  \<open>stop\<close>) under src/vaidcord-py/src/vaidcord. The state of the bot and of its runtime are one
  record; every operation is a function on it. What a call outside the model answers (the
  HTTP request for the gateway URL, the websocket, event parsing, voice, user handlers) is an
  argument. Two tasks run interleaved, the receive loop and the heartbeat: the step relation
  at the end runs one of them up to its next suspension.
\<close>

section \<open>State\<close>

datatype bot_state = IDLE | CONNECTING | IDENTIFYING | READY | RECONNECTING | STOPPING | STOPPED

record bot_config =
  bc_token :: string
  bc_intents :: int
  bc_shard_count :: int
  bc_shard_id :: int
  bc_presence :: "jdict option"
  bc_api_version :: string
  bc_gateway_url :: string
  bc_ignore_self_messages :: bool
  bc_compress :: bool

record websocket =
  ws_url :: "json \<times> string"
  ws_closed :: bool

text \<open>
  \<open>g_live\<close> holds the heartbeat tasks that are suspended in their sleep, \<open>g_sent\<close> every payload
  written to a websocket, \<open>g_propagated\<close> the events handed to the handlers, \<open>g_frames\<close> what
  the decompressor has been fed since the connection was opened.
\<close>

record gateway =
  g_running :: bool
  g_sequence :: json
  g_session_id :: json
  g_resume_gateway_url :: json
  g_state :: bot_state
  g_ready :: bool
  g_drop_pending_updates :: bool
  g_ws :: "websocket option"
  g_heartbeat_interval :: json
  g_heartbeat_task :: "nat option"
  g_last_heartbeat_sent_at :: "real option"
  g_heartbeat_ack_received :: bool
  g_resume_on_hello :: bool
  g_latency :: real
  g_inflating :: bool
  g_compressed_buffer :: bytes
  g_frames :: "bytes list"
  g_live :: "nat list"
  g_next_task :: nat
  g_sent :: "json list"
  g_propagated :: "string list"

definition new_gateway :: gateway where
  "new_gateway =
     \<lparr>g_running = False, g_sequence = JNull, g_session_id = JNull, g_resume_gateway_url = JNull, g_state = IDLE,
      g_ready = False, g_drop_pending_updates = False, g_ws = None, g_heartbeat_interval = JNull,
      g_heartbeat_task = None, g_last_heartbeat_sent_at = None, g_heartbeat_ack_received = True,
      g_resume_on_hello = False, g_latency = 0, g_inflating = False, g_compressed_buffer = [], g_frames = [],
      g_live = [], g_next_task = 0, g_sent = [], g_propagated = []\<rparr>"

text \<open>
  The answers of the outside during one operation: the body of \<open>GET /gateway/bot\<close>, failures of
  the websocket, the monotonic clock, and the exceptions of the voice manager, the event
  parser, the caching of READY and the handlers. \<open>io_close_suspends\<close> says whether closing the
  websocket waits for the peer. \<open>io_self_message\<close>: the event is a message of the bot's own user.
\<close>

record gateway_io =
  io_gateway_bot :: "jdict result"
  io_ws_connect :: "exc option"
  io_close_suspends :: bool
  io_send :: "exc option"
  io_now :: real
  io_voice :: "exc option"
  io_parse :: "exc option"
  io_ready :: "exc option"
  io_handlers :: "exc option"
  io_self_message :: bool

datatype outcome = Completed | Raised exc | Cancelled

definition ws_open :: "gateway \<Rightarrow> bool" where
  "ws_open s = (case g_ws s of None \<Rightarrow> False | Some w \<Rightarrow> \<not> ws_closed w)"

definition close_ws :: "gateway \<Rightarrow> gateway" where
  "close_ws s = s\<lparr>g_ws := map_option (\<lambda>w. w\<lparr>ws_closed := True\<rparr>) (g_ws s)\<rparr>"

section \<open>Connecting\<close>

definition open_websocket :: "bot_config \<Rightarrow> gateway_io \<Rightarrow> bool \<Rightarrow> json \<Rightarrow> gateway \<Rightarrow> gateway \<times> outcome" where
  "open_websocket cfg io doomed url s =
     (let query = ''?v='' @ bc_api_version cfg @ ''&encoding=json'' @ (if bc_compress cfg then ''&compress=zlib-stream'' else []);
          s1 = (if bc_compress cfg then s\<lparr>g_inflating := True, g_frames := [], g_compressed_buffer := []\<rparr>
                else s\<lparr>g_inflating := False\<rparr>)
      in if doomed then (s1, Cancelled)
         else (case io_ws_connect io of
                 Some e \<Rightarrow> (s1, Raised e)
               | None \<Rightarrow> (s1\<lparr>g_ws := Some \<lparr>ws_url = (url, query), ws_closed = False\<rparr>\<rparr>, Completed)))"

text \<open>
  \<open>doomed\<close>: the running task has a pending cancellation, which surfaces as CancelledError at
  its next suspension. Both the HTTP request and the opening of a websocket suspend.
\<close>

definition connect :: "bot_config \<Rightarrow> gateway_io \<Rightarrow> bool \<Rightarrow> bool \<Rightarrow> gateway \<Rightarrow> gateway \<times> outcome" where
  "connect cfg io doomed resume s =
     (let s1 = s\<lparr>g_state := CONNECTING\<rparr>
      in if resume \<and> g_resume_gateway_url s1 \<noteq> JNull
         then open_websocket cfg io doomed (g_resume_gateway_url s1) (s1\<lparr>g_resume_on_hello := True\<rparr>)
         else if doomed then (s1, Cancelled)
         else (case io_gateway_bot io of
                 Inl e \<Rightarrow> (s1, Raised e)
               | Inr info \<Rightarrow>
                   open_websocket cfg io doomed (dict_get info ''url'' (JStr (bc_gateway_url cfg))) (s1\<lparr>g_resume_on_hello := False\<rparr>)))"

definition runtime_send_payload :: "gateway_io \<Rightarrow> json \<Rightarrow> gateway \<Rightarrow> gateway \<times> outcome" where
  "runtime_send_payload io payload s =
     (if ws_open s
      then (case io_send io of
              Some e \<Rightarrow> (s, Raised e)
            | None \<Rightarrow> (s\<lparr>g_sent := g_sent s @ [payload]\<rparr>, Completed))
      else (s, Completed))"

definition identify_payload :: "bot_config \<Rightarrow> json" where
  "identify_payload cfg =
     JDict [(''op'', JInt 2),
            (''d'', JDict
               ([(''token'', JStr (bc_token cfg)), (''intents'', JInt (bc_intents cfg)),
                 (''properties'', JDict [(''os'', JStr ''linux''), (''browser'', JStr ''VaidCord''), (''device'', JStr ''VaidCord'')]),
                 (''compress'', JBool False), (''large_threshold'', JInt 250)] @
                (if bc_shard_count cfg > 1 then [(''shard'', JList [JInt (bc_shard_id cfg), JInt (bc_shard_count cfg)])] else []) @
                (case bc_presence cfg of None \<Rightarrow> [] | Some p \<Rightarrow> if p = [] then [] else [(''presence'', JDict p)])))]"

definition identify :: "bot_config \<Rightarrow> gateway_io \<Rightarrow> gateway \<Rightarrow> gateway \<times> outcome" where
  "identify cfg io s = runtime_send_payload io (identify_payload cfg) (s\<lparr>g_state := IDENTIFYING\<rparr>)"

definition resume_payload :: "bot_config \<Rightarrow> gateway \<Rightarrow> json" where
  "resume_payload cfg s =
     JDict [(''op'', JInt 6),
            (''d'', JDict [(''token'', JStr (bc_token cfg)), (''session_id'', g_session_id s), (''seq'', g_sequence s)])]"

definition resume_session :: "bot_config \<Rightarrow> gateway_io \<Rightarrow> gateway \<Rightarrow> gateway \<times> outcome" where
  "resume_session cfg io s =
     (if g_session_id s = JNull then identify cfg io s else runtime_send_payload io (resume_payload cfg s) s)"

text \<open>Cancelling a suspended task ends it; the task \<open>me\<close> that runs the code only gets doomed.\<close>

definition cancel_heartbeat :: "gateway \<Rightarrow> gateway" where
  "cancel_heartbeat s =
     (case g_heartbeat_task s of
        None \<Rightarrow> s
      | Some t \<Rightarrow> s\<lparr>g_live := removeAll t (g_live s)\<rparr>)"

definition reconnect :: "bot_config \<Rightarrow> gateway_io \<Rightarrow> nat option \<Rightarrow> bool \<Rightarrow> gateway \<Rightarrow> gateway \<times> outcome" where
  "reconnect cfg io me resume s =
     (let doomed = (g_heartbeat_task s \<noteq> None \<and> me = g_heartbeat_task s);
          s1 = (cancel_heartbeat (s\<lparr>g_state := RECONNECTING\<rparr>))\<lparr>g_heartbeat_task := None\<rparr>
      in if ws_open s1
         then (if doomed \<and> io_close_suspends io then (close_ws s1, Cancelled)
               else connect cfg io doomed resume (close_ws s1))
         else connect cfg io doomed resume s1)"

section \<open>Heartbeats\<close>

definition send_heartbeat :: "gateway_io \<Rightarrow> gateway \<Rightarrow> gateway \<times> outcome" where
  "send_heartbeat io s =
     runtime_send_payload io (JDict [(''op'', JInt 1), (''d'', g_sequence s)])
       (s\<lparr>g_heartbeat_ack_received := False, g_last_heartbeat_sent_at := Some (io_now io)\<rparr>)"

definition is_number :: "json \<Rightarrow> bool" where
  "is_number v = (case v of JInt _ \<Rightarrow> True | JFloat _ \<Rightarrow> True | JBool _ \<Rightarrow> True | _ \<Rightarrow> False)"

text \<open>
  The head of the loop of \<open>_heartbeat\<close> up to its sleep: the task goes on sleeping, or it ends
  because the bot is stopped, there is no interval, or the interval is no number.
\<close>

definition heartbeat_sleeps :: "gateway \<Rightarrow> bool" where
  "heartbeat_sleeps s = (g_running s \<and> is_number (g_heartbeat_interval s))"

definition end_task :: "nat \<Rightarrow> gateway \<Rightarrow> gateway" where
  "end_task i s = s\<lparr>g_live := removeAll i (g_live s)\<rparr>"

text \<open>Task \<open>i\<close> wakes up and runs to its next sleep or to its end.\<close>

definition heartbeat_wake :: "bot_config \<Rightarrow> gateway_io \<Rightarrow> nat \<Rightarrow> gateway \<Rightarrow> gateway \<times> outcome" where
  "heartbeat_wake cfg io i s =
     (if \<not> g_heartbeat_ack_received s
      then (let (s1, r) = reconnect cfg io (Some i) True s in (end_task i s1, r))
      else
        (let (s1, r) = send_heartbeat io s
         in (if r = Completed \<and> heartbeat_sleeps s1 then s1 else end_task i s1, r)))"

definition start_heartbeat :: "gateway \<Rightarrow> gateway" where
  "start_heartbeat s =
     (let s1 = cancel_heartbeat s;
          i = g_next_task s1;
          s2 = s1\<lparr>g_heartbeat_task := Some i, g_next_task := i + 1\<rparr>
      in if heartbeat_sleeps s2 then s2\<lparr>g_live := i # g_live s2\<rparr> else s2)"

section \<open>Dispatch\<close>

definition handle_ready :: "gateway_io \<Rightarrow> jdict \<Rightarrow> gateway \<Rightarrow> gateway \<times> outcome" where
  "handle_ready io d s =
     (case io_ready io of
        Some e \<Rightarrow> (s, Raised e)
      | None \<Rightarrow>
          (s\<lparr>g_session_id := jget d ''session_id'', g_resume_gateway_url := jget d ''resume_gateway_url'',
             g_state := READY, g_ready := True\<rparr>, Completed))"

definition propagate :: "gateway_io \<Rightarrow> string \<Rightarrow> gateway \<Rightarrow> gateway \<times> outcome" where
  "propagate io t s =
     (s\<lparr>g_propagated := g_propagated s @ [t]\<rparr>, case io_handlers io of Some e \<Rightarrow> Raised e | None \<Rightarrow> Completed)"

definition deliver_event :: "bot_config \<Rightarrow> gateway_io \<Rightarrow> string \<Rightarrow> json \<Rightarrow> gateway \<Rightarrow> gateway \<times> outcome" where
  "deliver_event cfg io t d s =
     (case io_parse io of
        Some e \<Rightarrow> (s, Raised e)
      | None \<Rightarrow>
          if t = ''READY'' then
            (case d of
               JDict dd \<Rightarrow>
                 (let (s1, r) = handle_ready io dd s
                  in if r = Completed then propagate io t (s1\<lparr>g_drop_pending_updates := False\<rparr>) else (s1, r))
             | _ \<Rightarrow> (s, Raised (AttributeError ''get'')))
          else if t = ''MESSAGE_CREATE'' \<and> bc_ignore_self_messages cfg \<and> io_self_message io then (s, Completed)
          else propagate io t s)"

definition handle_dispatch :: "bot_config \<Rightarrow> gateway_io \<Rightarrow> jdict \<Rightarrow> gateway \<Rightarrow> gateway \<times> outcome" where
  "handle_dispatch cfg io data s =
     (let t = jget data ''t''; d = jget data ''d''; n = jget data ''s'';
          s1 = (if n \<noteq> JNull then s\<lparr>g_sequence := n\<rparr> else s)
      in if t = JNull \<or> d = JNull then (s1, Completed)
         else (case io_voice io of
                 Some e \<Rightarrow> (s1, Raised e)
               | None \<Rightarrow>
                   (case t of
                      JStr name \<Rightarrow>
                        (case map_of event_type_members (py_upper name) of
                           None \<Rightarrow> (s1, Completed)
                         | Some ty \<Rightarrow>
                             if g_drop_pending_updates s1 \<and> \<not> g_ready s1 \<and> ty \<noteq> ''READY'' then (s1, Completed)
                             else deliver_event cfg io ty d s1)
                    | _ \<Rightarrow> (s1, Raised (AttributeError ''upper'')))))"

section \<open>The receive loop\<close>

text \<open>Python's \<open>v == n\<close> for a JSON value and an integer.\<close>

definition eq_int :: "json \<Rightarrow> int \<Rightarrow> bool" where
  "eq_int v n =
     (case v of
        JInt i \<Rightarrow> i = n
      | JFloat f \<Rightarrow> f = of_int n
      | JBool b \<Rightarrow> (if b then 1 else 0) = n
      | _ \<Rightarrow> False)"

definition handle_hello :: "bot_config \<Rightarrow> gateway_io \<Rightarrow> jdict \<Rightarrow> gateway \<Rightarrow> gateway \<times> outcome" where
  "handle_hello cfg io data s =
     (case bind_result (dict_index data ''d'') (\<lambda>d. case d of
             JDict dd \<Rightarrow> dict_index dd ''heartbeat_interval''
           | _ \<Rightarrow> Inl (TypeError ''not subscriptable'')) of
        Inl e \<Rightarrow> (s, Raised e)
      | Inr interval \<Rightarrow>
          (let s1 = s\<lparr>g_heartbeat_interval := interval\<rparr>;
               (s2, r) = (if g_resume_on_hello s1
                          then resume_session cfg io (s1\<lparr>g_resume_on_hello := False\<rparr>)
                          else identify cfg io s1)
           in if r = Completed then (start_heartbeat s2, Completed) else (s2, r)))"

text \<open>
  One payload; the flag is the returned \<open>True\<close>, the receive loop must exit. The pause of
  opcode 9 comes before any effect of its branch, so heartbeats during the pause are
  heartbeats before the payload.
\<close>

definition runtime_handle_payload :: "bot_config \<Rightarrow> gateway_io \<Rightarrow> jdict \<Rightarrow> gateway \<Rightarrow> (gateway \<times> outcome) \<times> bool" where
  "runtime_handle_payload cfg io data s =
     (let op = jget data ''op'' in
      if eq_int op 0 then (handle_dispatch cfg io data s, False)
      else if eq_int op 1 then (send_heartbeat io s, False)
      else if eq_int op 7 then (reconnect cfg io None True s, True)
      else if eq_int op 9 then (reconnect cfg io None (json_truthy (jget data ''d'')) s, True)
      else if eq_int op 10 then (handle_hello cfg io data s, False)
      else if eq_int op 11 then
        ((s\<lparr>g_heartbeat_ack_received := True,
            g_latency := (case g_last_heartbeat_sent_at s of None \<Rightarrow> g_latency s | Some t \<Rightarrow> io_now io - t)\<rparr>, Completed), False)
      else ((s, Completed), False))"

text \<open>
  Reassembly of a compressed frame. \<open>unzip\<close> stands for the decompressor and the JSON decoder:
  it maps all frames since the connection was opened to the payload of the last one.
\<close>

definition inflate :: "(bytes list \<Rightarrow> jdict result) \<Rightarrow> bytes \<Rightarrow> gateway \<Rightarrow> gateway \<times> jdict option result" where
  "inflate unzip chunk s =
     (if \<not> g_inflating s then (s, Inr None)
      else
        (let buffer = g_compressed_buffer s @ chunk in
         if length buffer < 4 \<or> drop (length buffer - 4) buffer \<noteq> [0, 0, 255, 255]
         then (s\<lparr>g_compressed_buffer := buffer\<rparr>, Inr None)
         else
           (let s1 = s\<lparr>g_compressed_buffer := [], g_frames := g_frames s @ [buffer]\<rparr>
            in (s1, bind_result (unzip (g_frames s1)) (\<lambda>p. Inr (Some p))))))"

datatype ws_message = Text "jdict result" | Binary bytes | Closed | ErrorMessage | OtherMessage

text \<open>One message of the websocket: the loop continues (\<open>None\<close>), or ends with an outcome.\<close>

definition process_payload :: "bot_config \<Rightarrow> gateway_io \<Rightarrow> jdict \<Rightarrow> gateway \<Rightarrow> gateway \<times> outcome option" where
  "process_payload cfg io data s =
     (let ((s1, r), leave) = runtime_handle_payload cfg io data s
      in (s1, if r = Completed then (if leave then Some Completed else None) else Some r))"

definition receive_one ::
  "(bytes list \<Rightarrow> jdict result) \<Rightarrow> bot_config \<Rightarrow> gateway_io \<Rightarrow> ws_message \<Rightarrow> gateway \<Rightarrow> gateway \<times> outcome option" where
  "receive_one unzip cfg io msg s =
     (case msg of
        Text (Inl e) \<Rightarrow> (s, Some (Raised e))
      | Text (Inr data) \<Rightarrow> process_payload cfg io data s
      | Binary chunk \<Rightarrow>
          if g_inflating s
          then (case inflate unzip chunk s of
                  (s1, Inl e) \<Rightarrow> (s1, Some (Raised e))
                | (s1, Inr None) \<Rightarrow> (s1, None)
                | (s1, Inr (Some data)) \<Rightarrow> process_payload cfg io data s1)
          else (s, None)
      | Closed \<Rightarrow> (s, Some Completed)
      | ErrorMessage \<Rightarrow> (s, Some Completed)
      | OtherMessage \<Rightarrow> (s, None))"

section \<open>Start and stop\<close>

definition runtime_stop :: "gateway \<Rightarrow> gateway" where
  "runtime_stop s = ((cancel_heartbeat s)\<lparr>g_heartbeat_task := None\<rparr>)\<lparr>g_ws := None\<rparr>"

definition bot_stop :: "gateway \<Rightarrow> gateway" where
  "bot_stop s = (runtime_stop (s\<lparr>g_running := False, g_state := STOPPING, g_ready := False\<rparr>))\<lparr>g_state := STOPPED\<rparr>"

definition bot_start_connect :: "bot_config \<Rightarrow> gateway_io \<Rightarrow> gateway \<Rightarrow> gateway \<times> outcome" where
  "bot_start_connect cfg io s = connect cfg io False False (s\<lparr>g_running := True, g_state := CONNECTING\<rparr>)"

definition update_presence :: "gateway_io \<Rightarrow> string \<Rightarrow> json list \<Rightarrow> bool \<Rightarrow> json \<Rightarrow> gateway \<Rightarrow> gateway \<times> outcome" where
  "update_presence io status activities afk since s =
     runtime_send_payload io
       (JDict [(''op'', JInt 3),
               (''d'', JDict [(''since'', since), (''activities'', JList activities), (''status'', JStr status), (''afk'', JBool afk)])]) s"

definition request_guild_members ::
  "gateway_io \<Rightarrow> int \<Rightarrow> string \<Rightarrow> int \<Rightarrow> bool \<Rightarrow> int list option \<Rightarrow> string option \<Rightarrow> gateway \<Rightarrow> gateway \<times> outcome" where
  "request_guild_members io guild_id query cap presences user_ids nonce s =
     runtime_send_payload io
       (JDict [(''op'', JInt 8),
               (''d'', JDict ([(''guild_id'', JStr (show_int guild_id)), (''limit'', JInt cap), (''presences'', JBool presences)] @
                  (case user_ids of Some us \<Rightarrow> [(''user_ids'', JList (map (\<lambda>u. JStr (show_int u)) us))] | None \<Rightarrow> [(''query'', JStr query)]) @
                  (case nonce of None \<Rightarrow> [] | Some n \<Rightarrow> [(''nonce'', JStr n)])))]) s"

text \<open>
  The interleaving. \<open>Outside\<close>: no \<open>start\<close> is running; \<open>Receiving\<close>: \<open>start\<close> is in its receive
  loop. A loop that ends, by a message, an exception, the end of the websocket or a
  cancellation, runs the \<open>finally\<close> of \<open>start\<close>, which stops the bot.
\<close>

datatype phase = Outside | Receiving

inductive gateway_step ::
  "(bytes list \<Rightarrow> jdict result) \<Rightarrow> bot_config \<Rightarrow> phase \<times> gateway \<Rightarrow> phase \<times> gateway \<Rightarrow> bool"
  for unzip cfg where
  Start: "\<not> g_running s \<Longrightarrow> bot_start_connect cfg io s = (s', r) \<Longrightarrow>
    gateway_step unzip cfg (Outside, s) (if r = Completed then (Receiving, s') else (Outside, bot_stop s'))"
| Message: "ws_open s \<Longrightarrow> receive_one unzip cfg io msg s = (s', None) \<Longrightarrow>
    gateway_step unzip cfg (Receiving, s) (Receiving, s')"
| Leave: "ws_open s \<Longrightarrow> receive_one unzip cfg io msg s = (s', Some r) \<Longrightarrow>
    gateway_step unzip cfg (Receiving, s) (Outside, bot_stop s')"
| Ended: "gateway_step unzip cfg (Receiving, s) (Outside, bot_stop s)"
| Heartbeat: "i \<in> set (g_live s) \<Longrightarrow> heartbeat_wake cfg io i s = (s', r) \<Longrightarrow>
    gateway_step unzip cfg (ph, s) (ph, s')"
| Stop: "gateway_step unzip cfg (ph, s) (ph, bot_stop s)"
| Presence: "update_presence io status activities afk since s = (s', r) \<Longrightarrow>
    gateway_step unzip cfg (ph, s) (ph, s')"
| Members: "request_guild_members io guild_id query cap presences user_ids nonce s = (s', r) \<Longrightarrow>
    gateway_step unzip cfg (ph, s) (ph, s')"
| Drop_Pending: "gateway_step unzip cfg (ph, s) (ph, s\<lparr>g_drop_pending_updates := True\<rparr>)"

abbreviation gateway_reachable :: "(bytes list \<Rightarrow> jdict result) \<Rightarrow> bot_config \<Rightarrow> phase \<times> gateway \<Rightarrow> bool" where
  "gateway_reachable unzip cfg \<equiv> reachable_from (gateway_step unzip cfg) (Outside, new_gateway)"

section \<open>Invariants\<close>

definition payload_op :: "json \<Rightarrow> json" where
  "payload_op p = (case p of JDict d \<Rightarrow> jget d ''op'' | _ \<Rightarrow> JNull)"

definition no_resume_sent :: "gateway \<Rightarrow> bool" where
  "no_resume_sent s = list_all (\<lambda>p. payload_op p \<noteq> JInt 6) (g_sent s)"

text \<open>At most one heartbeat task lives, the one the runtime knows.\<close>

definition single_heartbeat :: "gateway \<Rightarrow> bool" where
  "single_heartbeat s =
     (g_live s = [] \<or> map Some (g_live s) = [g_heartbeat_task s])"

definition session_inv :: "phase \<times> gateway \<Rightarrow> bool" where
  "session_inv x =
     (case x of (ph, s) \<Rightarrow>
        no_resume_sent s \<and> single_heartbeat s \<and>
        (if ph = Outside then g_live s = [] \<and> g_ws s = None
         else if g_resume_on_hello s then \<not> ws_open s else True))"

lemma payload_op_simps [simp]:
  "payload_op (JDict ((''op'', v) # d)) = v"
  by (simp add: payload_op_def jget_def dict_get_def)

text \<open>
  An operation that only talks on the open connection: it sends no RESUME and leaves the
  connection, the tasks and the resume flag as they are.
\<close>

definition talks :: "gateway \<Rightarrow> gateway \<Rightarrow> bool" where
  "talks s s' =
     (g_ws s' = g_ws s \<and> g_live s' = g_live s \<and> g_heartbeat_task s' = g_heartbeat_task s \<and>
      g_next_task s' = g_next_task s \<and> g_running s' = g_running s \<and>
      g_heartbeat_interval s' = g_heartbeat_interval s \<and>
      g_resume_on_hello s' = g_resume_on_hello s \<and> (if no_resume_sent s then no_resume_sent s' else True))"

lemma talks_refl [simp]: "talks s s"
  by (simp add: talks_def)

lemma talks_trans: "talks s s' \<Longrightarrow> talks s' s'' \<Longrightarrow> talks s s''"
  by (auto simp: talks_def split: if_splits)

lemma talks_update [simp]:
  "talks (s\<lparr>g_state := st\<rparr>) s' = talks s s'"
  "talks (s\<lparr>g_heartbeat_ack_received := b\<rparr>) s' = talks s s'"
  "talks (s\<lparr>g_last_heartbeat_sent_at := time\<rparr>) s' = talks s s'"
  "talks (s\<lparr>g_sequence := n\<rparr>) s' = talks s s'"
  "talks s (s'\<lparr>g_sequence := n\<rparr>) = talks s s'"
  by (simp_all add: talks_def no_resume_sent_def)

lemma runtime_send_payload_talks: "payload_op p \<noteq> JInt 6 \<Longrightarrow> talks s (fst (runtime_send_payload io p s))"
  by (simp add: runtime_send_payload_def talks_def no_resume_sent_def split: option.split)

lemma identify_talks: "talks s (fst (identify cfg io s))"
  using runtime_send_payload_talks [of "identify_payload cfg" "s\<lparr>g_state := IDENTIFYING\<rparr>" io]
  by (simp add: identify_def identify_payload_def)

lemma send_heartbeat_talks: "talks s (fst (send_heartbeat io s))"
  using runtime_send_payload_talks [of "JDict [(''op'', JInt 1), (''d'', g_sequence s)]"
      "s\<lparr>g_heartbeat_ack_received := False, g_last_heartbeat_sent_at := Some (io_now io)\<rparr>" io]
  by (simp add: send_heartbeat_def)

lemma update_presence_talks: "talks s (fst (update_presence io status activities afk since s))"
  by (simp add: update_presence_def runtime_send_payload_talks)

lemma request_guild_members_talks:
  "talks s (fst (request_guild_members io guild_id query cap presences user_ids nonce s))"
  by (simp add: request_guild_members_def runtime_send_payload_talks)

lemma deliver_event_talks: "talks s (fst (deliver_event cfg io t d s))"
  by (simp add: deliver_event_def handle_ready_def propagate_def talks_def no_resume_sent_def Let_def split: option.split json.split)

lemma handle_dispatch_talks: "talks s (fst (handle_dispatch cfg io data s))"
proof -
  define s1 where "s1 = (if jget data ''s'' \<noteq> JNull then s\<lparr>g_sequence := jget data ''s''\<rparr> else s)"
  have "fst (handle_dispatch cfg io data s) = s1 \<or>
      (\<exists>ty. fst (handle_dispatch cfg io data s) = fst (deliver_event cfg io ty (jget data ''d'') s1))"
    unfolding handle_dispatch_def Let_def s1_def [symmetric] by (auto split: option.split json.split)
  moreover have "talks s s1" by (simp add: s1_def)
  ultimately show ?thesis using deliver_event_talks talks_trans by metis
qed

lemma cancel_heartbeat_single: "single_heartbeat s \<Longrightarrow> g_live (cancel_heartbeat s) = []"
  by (cases "g_heartbeat_task s") (auto simp: single_heartbeat_def cancel_heartbeat_def)

lemma cancel_heartbeat_frame [simp]:
  "g_ws (cancel_heartbeat s) = g_ws s" "g_sent (cancel_heartbeat s) = g_sent s"
  "g_heartbeat_task (cancel_heartbeat s) = g_heartbeat_task s" "g_resume_on_hello (cancel_heartbeat s) = g_resume_on_hello s"
  "g_heartbeat_ack_received (cancel_heartbeat s) = g_heartbeat_ack_received s"
  by (simp_all add: cancel_heartbeat_def split: option.split)

lemma close_ws_frame [simp]:
  "g_live (close_ws s) = g_live s" "g_sent (close_ws s) = g_sent s" "g_heartbeat_task (close_ws s) = g_heartbeat_task s"
  "\<not> ws_open (close_ws s)"
  by (simp_all add: close_ws_def ws_open_def split: option.split)

lemma open_websocket_frame [simp]:
  "g_live (fst (open_websocket cfg io doomed url s)) = g_live s"
  "g_sent (fst (open_websocket cfg io doomed url s)) = g_sent s"
  "g_heartbeat_task (fst (open_websocket cfg io doomed url s)) = g_heartbeat_task s"
  "g_resume_on_hello (fst (open_websocket cfg io doomed url s)) = g_resume_on_hello s"
  "g_heartbeat_ack_received (fst (open_websocket cfg io doomed url s)) = g_heartbeat_ack_received s"
  by (simp_all add: open_websocket_def Let_def split: option.split)

lemma open_websocket_doomed [simp]:
  "snd (open_websocket cfg io True url s) = Cancelled" "g_ws (fst (open_websocket cfg io True url s)) = g_ws s"
  by (simp_all add: open_websocket_def Let_def)

lemma connect_frame [simp]:
  "g_live (fst (connect cfg io doomed resume s)) = g_live s"
  "g_sent (fst (connect cfg io doomed resume s)) = g_sent s"
  "g_heartbeat_task (fst (connect cfg io doomed resume s)) = g_heartbeat_task s"
  "g_heartbeat_ack_received (fst (connect cfg io doomed resume s)) = g_heartbeat_ack_received s"
  by (simp_all add: connect_def Let_def split: sum.split)

lemma connect_doomed [simp]:
  "snd (connect cfg io True resume s) = Cancelled" "g_ws (fst (connect cfg io True resume s)) = g_ws s"
  by (simp_all add: connect_def Let_def)

lemma connect_fresh: "snd (connect cfg io False False s) = Completed \<Longrightarrow> \<not> g_resume_on_hello (fst (connect cfg io False False s))"
  by (simp add: connect_def Let_def split: sum.splits)

lemma reconnect_frame:
  "g_sent (fst (reconnect cfg io me resume s)) = g_sent s"
  "g_heartbeat_task (fst (reconnect cfg io me resume s)) = None"
  by (simp_all add: reconnect_def Let_def)

lemma reconnect_live: "single_heartbeat s \<Longrightarrow> g_live (fst (reconnect cfg io me resume s)) = []"
proof -
  assume "single_heartbeat s"
  then have "g_live (cancel_heartbeat (s\<lparr>g_state := RECONNECTING\<rparr>)) = []"
    by (intro cancel_heartbeat_single) (simp add: single_heartbeat_def)
  then show ?thesis by (simp add: reconnect_def Let_def)
qed

text \<open>A heartbeat task that reconnects cancels itself: it never gets a new websocket.\<close>

lemma reconnect_doomed:
  assumes "g_heartbeat_task s = Some i"
  shows "snd (reconnect cfg io (Some i) resume s) = Cancelled" "\<not> ws_open (fst (reconnect cfg io (Some i) resume s))"
proof -
  have closed: "\<not> ws_open (fst (connect cfg io True resume s'))" if "\<not> ws_open s'" for s'
    using that by (simp add: ws_open_def)
  show "snd (reconnect cfg io (Some i) resume s) = Cancelled" "\<not> ws_open (fst (reconnect cfg io (Some i) resume s))"
    using assms closed by (simp_all add: reconnect_def Let_def)
qed

lemma start_heartbeat_single: "single_heartbeat s \<Longrightarrow> single_heartbeat (start_heartbeat s)"
  using cancel_heartbeat_single [of s] by (simp add: start_heartbeat_def Let_def single_heartbeat_def)

lemma start_heartbeat_frame [simp]:
  "g_ws (start_heartbeat s) = g_ws s" "g_sent (start_heartbeat s) = g_sent s" "g_resume_on_hello (start_heartbeat s) = g_resume_on_hello s"
  by (simp_all add: start_heartbeat_def Let_def)

lemma talks_keeps:
  "talks s s' \<Longrightarrow> single_heartbeat s \<Longrightarrow> no_resume_sent s \<Longrightarrow> single_heartbeat s' \<and> no_resume_sent s'"
  by (auto simp: talks_def single_heartbeat_def split: if_splits)

lemma talks_keeps_inv: "talks s s' \<Longrightarrow> session_inv (ph, s) \<Longrightarrow> session_inv (ph, s')"
  by (auto simp: talks_def session_inv_def single_heartbeat_def ws_open_def split: if_splits)

lemma handle_hello_cases:
  assumes "\<not> g_resume_on_hello s"
  shows "fst (handle_hello cfg io data s) = s \<or>
    (\<exists>v s2 r. identify cfg io (s\<lparr>g_heartbeat_interval := v\<rparr>) = (s2, r) \<and>
       fst (handle_hello cfg io data s) \<in> {s2, start_heartbeat s2})"
proof (cases "bind_result (dict_index data ''d'') (\<lambda>d. case d of JDict dd \<Rightarrow> dict_index dd ''heartbeat_interval''
           | _ \<Rightarrow> Inl (TypeError ''not subscriptable''))")
  case (Inl e)
  then show ?thesis by (simp add: handle_hello_def)
next
  case (Inr v)
  obtain s2 r where "identify cfg io (s\<lparr>g_heartbeat_interval := v\<rparr>) = (s2, r)" by (rule prod.exhaust)
  moreover from this have "fst (handle_hello cfg io data s) \<in> {s2, start_heartbeat s2}"
    using Inr assms by (simp add: handle_hello_def Let_def)
  ultimately show ?thesis by blast
qed

lemma handle_hello_keeps:
  assumes "single_heartbeat s" and "no_resume_sent s" and "\<not> g_resume_on_hello s"
  shows "single_heartbeat (fst (handle_hello cfg io data s)) \<and> no_resume_sent (fst (handle_hello cfg io data s)) \<and>
    \<not> g_resume_on_hello (fst (handle_hello cfg io data s))"
proof -
  have k: "single_heartbeat s2 \<and> no_resume_sent s2 \<and> \<not> g_resume_on_hello s2"
    if "identify cfg io (s\<lparr>g_heartbeat_interval := v\<rparr>) = (s2, r)" for s2 r v
    using identify_talks [of "s\<lparr>g_heartbeat_interval := v\<rparr>" cfg io] assms that
    by (simp add: single_heartbeat_def no_resume_sent_def talks_def)
  have "no_resume_sent (start_heartbeat s') = no_resume_sent s'" for s' by (simp add: no_resume_sent_def)
  then show ?thesis
    using handle_hello_cases [OF assms(3), of cfg io data] k start_heartbeat_single assms by fastforce
qed

lemma eq_int_inject: "eq_int v m \<Longrightarrow> eq_int v n \<Longrightarrow> m = n"
  by (cases v) (simp_all add: eq_int_def)

lemma reconnect_payload:
  assumes "eq_int (jget data ''op'') 7 \<or> eq_int (jget data ''op'') 9"
  shows "\<exists>b. runtime_handle_payload cfg io data s = (reconnect cfg io None b s, True)"
proof -
  have "\<not> eq_int (jget data ''op'') 0" "\<not> eq_int (jget data ''op'') 1"
    using assms eq_int_inject [of "jget data ''op''"] by fastforce+
  then show ?thesis
    using assms by (cases "eq_int (jget data ''op'') 7") (auto simp: runtime_handle_payload_def Let_def)
qed

lemma runtime_handle_payload_keeps:
  assumes "single_heartbeat s" and "no_resume_sent s" and "\<not> g_resume_on_hello s"
    and p: "runtime_handle_payload cfg io data s = ((s', r), leave)"
  shows "single_heartbeat s' \<and> no_resume_sent s' \<and> (leave \<or> \<not> g_resume_on_hello s')"
proof -
  have talk: ?thesis if "talks s s'" using talks_keeps [OF that] that assms by (simp add: talks_def)
  have quit: ?thesis if "reconnect cfg io None b s = (s', r)" leave for b
    using that assms reconnect_live [OF assms(1), of cfg io None b] reconnect_frame(1) [of cfg io None b s]
    by (simp add: single_heartbeat_def no_resume_sent_def)
  have ack: "talks s (s\<lparr>g_heartbeat_ack_received := True, g_latency := l\<rparr>)" for l
    by (simp add: talks_def no_resume_sent_def)
  let ?op = "jget data ''op''"
  show ?thesis
  proof (cases "eq_int ?op 0")
    case True
    then show ?thesis using p talk handle_dispatch_talks [of s cfg io data] by (simp add: runtime_handle_payload_def)
  next
    case n0: False
    show ?thesis
    proof (cases "eq_int ?op 1")
      case True
      then show ?thesis using n0 p talk send_heartbeat_talks [of s io] by (simp add: runtime_handle_payload_def)
    next
      case n1: False
      show ?thesis
      proof (cases "eq_int ?op 7 \<or> eq_int ?op 9")
        case True
        then obtain b where "reconnect cfg io None b s = (s', r)" leave using reconnect_payload [of data cfg io s] p by auto
        then show ?thesis by (rule quit)
      next
        case n79: False
        show ?thesis
        proof (cases "eq_int ?op 10")
          case True
          then show ?thesis using n0 n1 n79 p handle_hello_keeps [OF assms(1-3), of cfg io data] by (simp add: runtime_handle_payload_def)
        next
          case False
          then have "talks s s'" using n0 n1 n79 p ack by (auto simp: runtime_handle_payload_def split: if_splits)
          then show ?thesis by (rule talk)
        qed
      qed
    qed
  qed
qed

lemma receive_one_keeps:
  assumes "single_heartbeat s" and "no_resume_sent s" and "\<not> g_resume_on_hello s"
    and p: "receive_one unzip cfg io msg s = (s', r)"
  shows "single_heartbeat s' \<and> no_resume_sent s' \<and> (if r = None then \<not> g_resume_on_hello s' else True)"
proof -
  have quiet: "single_heartbeat s1 \<and> no_resume_sent s1 \<and> \<not> g_resume_on_hello s1" if "inflate unzip chunk s = (s1, x)" for s1 x chunk
    using that assms by (auto simp: inflate_def Let_def single_heartbeat_def no_resume_sent_def split: if_splits)
  have process: ?thesis if "single_heartbeat s1 \<and> no_resume_sent s1 \<and> \<not> g_resume_on_hello s1"
    and "process_payload cfg io data s1 = (s', r)" for s1 data
  proof -
    obtain s2 q leave where h: "runtime_handle_payload cfg io data s1 = ((s2, q), leave)" by (metis prod.exhaust)
    show ?thesis using runtime_handle_payload_keeps [OF _ _ _ h] that h by (auto simp: process_payload_def split: if_splits)
  qed
  show ?thesis
  proof (cases msg)
    case (Text d)
    show ?thesis
    proof (cases d)
      case (Inl e)
      then show ?thesis using p assms Text by (auto simp: receive_one_def)
    next
      case (Inr data)
      then have "process_payload cfg io data s = (s', r)" using p Text by (simp add: receive_one_def)
      then show ?thesis using process assms by blast
    qed
  next
    case (Binary chunk)
    obtain s1 x where x: "inflate unzip chunk s = (s1, x)" by (rule prod.exhaust)
    show ?thesis
    proof (cases "g_inflating s")
      case True
      show ?thesis
      proof (cases x)
        case (Inl e)
        then show ?thesis using p x quiet [OF x] True Binary by (auto simp: receive_one_def)
      next
        case (Inr d)
        show ?thesis
        proof (cases d)
          case None
          then show ?thesis using p x quiet [OF x] True Binary Inr by (auto simp: receive_one_def)
        next
          case (Some data)
          then have "process_payload cfg io data s1 = (s', r)" using p x True Binary Inr by (simp add: receive_one_def)
          then show ?thesis using process quiet [OF x] by blast
        qed
      qed
    qed (use p assms Binary in \<open>auto simp: receive_one_def\<close>)
  qed (use p assms in \<open>auto simp: receive_one_def\<close>)
qed

lemma bot_stop_keeps:
  "single_heartbeat s \<Longrightarrow> no_resume_sent s \<Longrightarrow> session_inv (ph, bot_stop s)"
  using cancel_heartbeat_single [of "s\<lparr>g_running := False, g_state := STOPPING, g_ready := False\<rparr>"]
  by (simp add: bot_stop_def runtime_stop_def session_inv_def single_heartbeat_def no_resume_sent_def ws_open_def)

lemma heartbeat_wake_keeps:
  assumes inv: "session_inv (ph, s)" and i: "i \<in> set (g_live s)" and p: "heartbeat_wake cfg io i s = (s', r)"
  shows "session_inv (ph, s')"
proof -
  have single: "single_heartbeat s" and nr: "no_resume_sent s" and ph: "ph = Receiving"
    using inv i by (cases ph; auto simp: session_inv_def split: if_splits)+
  have task: "g_heartbeat_task s = Some i" using single i by (auto simp: single_heartbeat_def)
  show ?thesis
  proof (cases "g_heartbeat_ack_received s")
    case True
    have "session_inv (ph, end_task i s1)" if "session_inv (ph, s1)" for s1
      using that by (auto simp: session_inv_def end_task_def single_heartbeat_def no_resume_sent_def ws_open_def split: if_splits)
    moreover have "session_inv (ph, fst (send_heartbeat io s))" by (rule talks_keeps_inv [OF send_heartbeat_talks inv])
    ultimately show ?thesis using p True by (auto simp: heartbeat_wake_def Let_def split: prod.splits if_splits)
  next
    case False
    then have s': "s' = end_task i (fst (reconnect cfg io (Some i) True s))"
      using p by (auto simp: heartbeat_wake_def Let_def split: prod.splits)
    show ?thesis
      using reconnect_doomed(2) [OF task, of cfg io True] reconnect_live [OF single, of cfg io "Some i" True] nr ph
        reconnect_frame(1) [of cfg io "Some i" True s]
      by (simp add: s' session_inv_def end_task_def single_heartbeat_def no_resume_sent_def ws_open_def)
  qed
qed

lemma session_step:
  assumes "gateway_step unzip cfg x y" and "session_inv x"
  shows "session_inv y"
  using assms
proof cases
  case (Start s io s' r)
  have frame: "single_heartbeat s'" "no_resume_sent s'" "g_live s' = []"
    using Start assms(2) connect_frame(1-3) [of cfg io False False "s\<lparr>g_running := True, g_state := CONNECTING\<rparr>"]
    by (simp_all add: bot_start_connect_def session_inv_def single_heartbeat_def no_resume_sent_def)
  then show ?thesis
    using Start bot_stop_keeps [of s' Outside] connect_fresh [of cfg io "s\<lparr>g_running := True, g_state := CONNECTING\<rparr>"]
    by (auto simp: bot_start_connect_def session_inv_def split: if_splits)
next
  case (Message s io msg s')
  then show ?thesis
    using assms(2) receive_one_keeps [of s unzip cfg io msg s' None] by (auto simp: session_inv_def split: if_splits)
next
  case (Leave s io msg s' r)
  then show ?thesis
    using assms(2) receive_one_keeps [of s unzip cfg io msg s' "Some r"] bot_stop_keeps [of s' Outside]
    by (auto simp: session_inv_def split: if_splits)
next
  case (Ended s)
  then show ?thesis using assms(2) bot_stop_keeps [of s Outside] by (simp add: session_inv_def)
next
  case (Heartbeat i s io s' r ph)
  then show ?thesis using assms(2) heartbeat_wake_keeps by simp
next
  case (Stop ph s)
  then show ?thesis using assms(2) bot_stop_keeps [of s ph] by (simp add: session_inv_def)
next
  case (Presence io status activities afk since s s' r ph)
  then show ?thesis using assms(2) talks_keeps_inv update_presence_talks by (metis fst_conv)
next
  case (Members io guild_id query cap presences user_ids nonce s s' r ph)
  then show ?thesis using assms(2) talks_keeps_inv request_guild_members_talks by (metis fst_conv)
next
  case (Drop_Pending ph s)
  then show ?thesis
    using assms(2) by (auto simp: session_inv_def single_heartbeat_def no_resume_sent_def ws_open_def split: if_splits)
qed

interpretation session: transition_invariant "gateway_step unzip cfg" "(Outside, new_gateway)" session_inv for unzip cfg
proof unfold_locales
  show "session_inv (Outside, new_gateway)"
    by (simp add: session_inv_def new_gateway_def single_heartbeat_def no_resume_sent_def)
qed (rule session_step)

section \<open>Properties\<close>

lemma reachable_single: "gateway_reachable unzip cfg (ph, s) \<Longrightarrow> single_heartbeat s"
  using session.reachable_inv [of unzip cfg "(ph, s)"] by (simp add: session_inv_def)

text \<open>A session to instantiate the theorems: connected, greeted, identified, one heartbeat sent.\<close>

definition example_config :: bot_config where
  "example_config =
     \<lparr>bc_token = ''t'', bc_intents = 513, bc_shard_count = 1, bc_shard_id = 0, bc_presence = None, bc_api_version = ''10'',
      bc_gateway_url = ''wss://gateway.discord.gg'', bc_ignore_self_messages = True, bc_compress = False\<rparr>"

definition example_io :: gateway_io where
  "example_io =
     \<lparr>io_gateway_bot = Inr [], io_ws_connect = None, io_close_suspends = True, io_send = None, io_now = 0, io_voice = None,
      io_parse = None, io_ready = None, io_handlers = None, io_self_message = False\<rparr>"

definition hello_message :: ws_message where
  "hello_message = Text (Inr [(''op'', JInt 10), (''d'', JDict [(''heartbeat_interval'', JInt 41250)])])"

definition example_connected :: gateway where
  "example_connected = fst (bot_start_connect example_config example_io new_gateway)"

definition example_greeted :: gateway where
  "example_greeted = fst (receive_one (\<lambda>_. Inl IndexError) example_config example_io hello_message example_connected)"

definition example_waiting :: gateway where
  "example_waiting = fst (heartbeat_wake example_config example_io 0 example_greeted)"

lemmas example_defs =
  example_config_def example_io_def hello_message_def example_connected_def example_greeted_def example_waiting_def
  bot_start_connect_def connect_def open_websocket_def new_gateway_def receive_one_def process_payload_def
  runtime_handle_payload_def handle_hello_def identify_def identify_payload_def runtime_send_payload_def start_heartbeat_def
  heartbeat_sleeps_def is_number_def cancel_heartbeat_def heartbeat_wake_def send_heartbeat_def ws_open_def
  jget_def dict_get_def dict_index_def eq_int_def Let_def

lemma example_facts:
  "g_live example_greeted = [0]" "g_sent example_greeted = [identify_payload example_config]" "ws_open example_connected"
  "g_heartbeat_ack_received example_greeted" "ws_open example_greeted" "g_sequence example_greeted = JNull"
  by (simp_all add: example_defs)

lemma example_outcomes:
  "bot_start_connect example_config example_io new_gateway = (example_connected, Completed)"
  "receive_one (\<lambda>_. Inl IndexError) example_config example_io hello_message example_connected = (example_greeted, None)"
  "heartbeat_wake example_config example_io 0 example_greeted = (example_waiting, Completed)"
  "g_live example_waiting = [0]" "\<not> g_heartbeat_ack_received example_waiting"
  by (simp_all add: example_defs)

lemma example_connected_reachable: "gateway_reachable (\<lambda>_. Inl IndexError) example_config (Receiving, example_connected)"
proof -
  have "gateway_step (\<lambda>_. Inl IndexError) example_config (Outside, new_gateway)
      (if Completed = Completed then (Receiving, example_connected) else (Outside, bot_stop example_connected))"
    by (rule gateway_step.Start [OF _ example_outcomes(1)]) (simp add: new_gateway_def)
  then show ?thesis using reachable_start by (fastforce intro: reachable_next)
qed

lemma example_greeted_reachable: "gateway_reachable (\<lambda>_. Inl IndexError) example_config (Receiving, example_greeted)"
  using example_connected_reachable
  by (rule reachable_next) (rule gateway_step.Message [OF example_facts(3) example_outcomes(2)])

lemma example_waiting_reachable: "gateway_reachable (\<lambda>_. Inl IndexError) example_config (Receiving, example_waiting)"
  using example_greeted_reachable
  by (rule reachable_next) (rule gateway_step.Heartbeat [OF _ example_outcomes(3)], simp add: example_facts)



text \<open>
  A heartbeat that was not acknowledged ends the connection for good. The heartbeat task
  that finds no acknowledgement cancels itself in \<open>reconnect\<close>: it raises CancelledError with
  no open websocket, nothing sent and no heartbeat task left, whatever the network does. And
  a RECONNECT or INVALID SESSION payload ends the receive loop, so that the \<open>finally\<close> of
  \<open>start\<close> stops the bot and drops the websocket \<open>reconnect\<close> has just opened.
\<close>

theorem reconnection_ends_session:
  assumes "gateway_reachable unzip cfg (ph, s)" and "i \<in> set (g_live s)" and "\<not> g_heartbeat_ack_received s"
    and "eq_int (jget data ''op'') 7 \<or> eq_int (jget data ''op'') 9"
  shows "(\<exists>s'. heartbeat_wake cfg io i s = (s', Cancelled) \<and> \<not> ws_open s' \<and> g_live s' = [] \<and> g_sent s' = g_sent s) \<and>
    (\<exists>s' r. receive_one unzip cfg io (Text (Inr data)) s = (s', Some r) \<and>
       g_state (bot_stop s') = STOPPED \<and> \<not> g_running (bot_stop s') \<and> g_ws (bot_stop s') = None \<and> g_live (bot_stop s') = [])"
proof -
  have single: "single_heartbeat s" using assms(1) by (rule reachable_single)
  then have task: "g_heartbeat_task s = Some i" using assms(2) by (auto simp: single_heartbeat_def)
  have "heartbeat_wake cfg io i s = (end_task i (fst (reconnect cfg io (Some i) True s)), Cancelled)"
    using assms(3) reconnect_doomed(1) [OF task, of cfg io True]
    by (cases "reconnect cfg io (Some i) True s") (simp add: heartbeat_wake_def)
  moreover have "\<not> ws_open (end_task i (fst (reconnect cfg io (Some i) True s)))"
    using reconnect_doomed(2) [OF task, of cfg io True] by (simp add: end_task_def ws_open_def)
  moreover obtain b where b: "runtime_handle_payload cfg io data s = (reconnect cfg io None b s, True)"
    using reconnect_payload [OF assms(4)] by blast
  obtain s1 r where r: "reconnect cfg io None b s = (s1, r)" by (rule prod.exhaust)
  have "g_live (bot_stop s1) = []"
    using reconnect_live [OF single, of cfg io None b] r by (simp add: bot_stop_def runtime_stop_def cancel_heartbeat_def split: option.split)
  moreover have "receive_one unzip cfg io (Text (Inr data)) s = (s1, Some r)"
    using b r by (simp add: receive_one_def process_payload_def)
  ultimately show ?thesis
    using reconnect_live [OF single, of cfg io "Some i" True] reconnect_frame(1) [of cfg io "Some i" True s]
    by (simp add: end_task_def bot_stop_def runtime_stop_def cancel_heartbeat_def split: option.split)
qed

theorem reconnection_ends_session_witness:
  "(\<exists>s'. heartbeat_wake example_config example_io 0 example_waiting = (s', Cancelled) \<and> \<not> ws_open s' \<and> g_live s' = [] \<and>
      g_sent s' = g_sent example_waiting) \<and>
   (\<exists>s' r. receive_one (\<lambda>_. Inl IndexError) example_config example_io (Text (Inr [(''op'', JInt 7)])) example_waiting = (s', Some r) \<and>
      g_state (bot_stop s') = STOPPED \<and> \<not> g_running (bot_stop s') \<and> g_ws (bot_stop s') = None \<and> g_live (bot_stop s') = [])"
  by (rule reconnection_ends_session [OF example_waiting_reachable])
    (simp_all add: example_outcomes eq_int_def jget_def dict_get_def)

text \<open>
  C20: heartbeat discipline. At most one heartbeat task lives, and none once \<open>start\<close> has
  returned, when there is no websocket either. A task that wakes with the last heartbeat
  acknowledged sends exactly one heartbeat, which carries the sequence number of the last
  dispatch, and waits for a new acknowledgement.
\<close>

theorem heartbeat_discipline:
  assumes "gateway_reachable unzip cfg (ph, s)"
  shows "length (g_live s) \<le> 1 \<and>
    (if ph = Outside then g_live s = [] \<and> g_ws s = None else True) \<and>
    (if i \<in> set (g_live s) \<and> g_heartbeat_ack_received s \<and> ws_open s \<and> io_send io = None
     then g_sent (fst (heartbeat_wake cfg io i s)) = g_sent s @ [JDict [(''op'', JInt 1), (''d'', g_sequence s)]] \<and>
       \<not> g_heartbeat_ack_received (fst (heartbeat_wake cfg io i s))
     else True)"
proof -
  have "length (g_live s) \<le> 1"
    using reachable_single [OF assms] by (auto simp: single_heartbeat_def map_eq_Cons_conv)
  moreover have "if ph = Outside then g_live s = [] \<and> g_ws s = None else True"
    using session.reachable_inv [OF assms] by (simp add: session_inv_def)
  moreover have "g_sent (fst (heartbeat_wake cfg io i s)) = g_sent s @ [JDict [(''op'', JInt 1), (''d'', g_sequence s)]] \<and>
       \<not> g_heartbeat_ack_received (fst (heartbeat_wake cfg io i s))"
    if "g_heartbeat_ack_received s" "ws_open s" "io_send io = None"
    using that by (simp add: heartbeat_wake_def send_heartbeat_def runtime_send_payload_def ws_open_def end_task_def)
  ultimately show ?thesis by simp
qed

theorem heartbeat_discipline_witness:
  "length (g_live example_greeted) \<le> 1 \<and>
   g_sent example_waiting = [identify_payload example_config, JDict [(''op'', JInt 1), (''d'', JNull)]]"
  using heartbeat_discipline [OF example_greeted_reachable, of 0 example_io] example_facts example_outcomes(3)
  by (simp add: example_io_def)

text \<open>
  The acknowledgement flag survives \<open>stop\<close> and the next \<open>start\<close>: a bot stopped between a
  heartbeat and its acknowledgement is restarted with the flag still cleared, and its first
  heartbeat is taken for a missed one.
\<close>

lemma stale_ack_survives_restart:
  "g_heartbeat_ack_received (fst (bot_start_connect cfg io (bot_stop s))) = g_heartbeat_ack_received s"
  by (simp add: bot_start_connect_def bot_stop_def runtime_stop_def)

end
