(* ===== verification/MockGateway.thy ===== *)
theory MockGateway
  imports Gateway
begin

unbundle bit_operations_syntax

text \<open>
  The gateway of the mock server (src/vaidcord-py/src/vaidcord/mock/ws_gateway.py), its snowflake
  generator (mock/snowflake.py) and its rate limiter (mock/server.py). Websockets are numbers;
  uuids, clocks, what the peers send and Python's \<open>str\<close> on JSON values are arguments.
\<close>

section \<open>Snowflakes\<close>

definition DISCORD_EPOCH_MS :: int where
  "DISCORD_EPOCH_MS = 1420070400000"

record snowflake_generator =
  sg_worker_id :: int
  sg_process_id :: int
  sg_increment :: int
  sg_last_id :: int

definition new_snowflakes :: "int \<Rightarrow> int \<Rightarrow> snowflake_generator" where
  "new_snowflakes worker_id process_id =
     \<lparr>sg_worker_id = worker_id AND 31, sg_process_id = process_id AND 31, sg_increment = 0, sg_last_id = 0\<rparr>"

text \<open>\<open>now_ms\<close> is \<open>int(time.time() * 1000)\<close>.\<close>

definition generate_snowflake :: "int \<Rightarrow> snowflake_generator \<Rightarrow> int \<times> snowflake_generator" where
  "generate_snowflake now_ms g =
     (let timestamp_ms = now_ms - DISCORD_EPOCH_MS;
          increment = (sg_increment g + 1) AND 4095;
          raw = push_bit 22 timestamp_ms OR push_bit 17 (sg_worker_id g) OR push_bit 12 (sg_process_id g) OR increment;
          snowflake = (if raw \<le> sg_last_id g then sg_last_id g + 1 else raw)
      in (snowflake, g\<lparr>sg_increment := increment, sg_last_id := snowflake\<rparr>))"

text \<open>The milliseconds since the Unix epoch that \<open>snowflake_time\<close> turns into a date.\<close>

definition snowflake_ms :: "int \<Rightarrow> int" where
  "snowflake_ms snowflake = drop_bit 22 snowflake + DISCORD_EPOCH_MS"

primrec generate_many :: "int list \<Rightarrow> snowflake_generator \<Rightarrow> int list \<times> snowflake_generator" where
  "generate_many [] g = ([], g)"
| "generate_many (t # ts) g =
     (case generate_snowflake t g of (i, g1) \<Rightarrow> (case generate_many ts g1 of (js, g2) \<Rightarrow> (i # js, g2)))"

section \<open>Rate limiter\<close>

text \<open>A window is its expiry and the number of hits counted in it.\<close>

type_synonym rate_windows = "(string, real \<times> int) dict"

definition rate_hit :: "real \<Rightarrow> string \<Rightarrow> int \<Rightarrow> real \<Rightarrow> rate_windows \<Rightarrow> (bool \<times> int \<times> real) \<times> rate_windows" where
  "rate_hit now key limit window ws =
     (let (expiry0, count0) = dict_get ws key (0, 0);
          (expiry, count) = (if expiry0 \<le> now then (now + window, 0) else (expiry0, count0))
      in if limit \<le> count then ((True, 0, max 0 (expiry - now)), dict_set ws key (expiry, count))
         else ((False, limit - (count + 1), max 0 (expiry - now)), dict_set ws key (expiry, count + 1)))"

section \<open>Sessions\<close>

definition OP_DISPATCH :: int where "OP_DISPATCH = 0"
definition OP_HEARTBEAT :: int where "OP_HEARTBEAT = 1"
definition OP_IDENTIFY :: int where "OP_IDENTIFY = 2"
definition OP_PRESENCE_UPDATE :: int where "OP_PRESENCE_UPDATE = 3"
definition OP_VOICE_STATE_UPDATE :: int where "OP_VOICE_STATE_UPDATE = 4"
definition OP_RESUME :: int where "OP_RESUME = 6"
definition OP_RECONNECT :: int where "OP_RECONNECT = 7"
definition OP_REQUEST_GUILD_MEMBERS :: int where "OP_REQUEST_GUILD_MEMBERS = 8"
definition OP_INVALID_SESSION :: int where "OP_INVALID_SESSION = 9"
definition OP_HELLO :: int where "OP_HELLO = 10"
definition OP_HEARTBEAT_ACK :: int where "OP_HEARTBEAT_ACK = 11"

lemmas mock_ops =
  OP_DISPATCH_def OP_HEARTBEAT_def OP_IDENTIFY_def OP_PRESENCE_UPDATE_def OP_VOICE_STATE_UPDATE_def OP_RESUME_def
  OP_RECONNECT_def OP_REQUEST_GUILD_MEMBERS_def OP_INVALID_SESSION_def OP_HELLO_def OP_HEARTBEAT_ACK_def

definition non_replayable :: "string list" where
  "non_replayable = [''READY'', ''RESUMED'']"

record buffered =
  bf_type :: string
  bf_seq :: int
  bf_data :: json

record mock_session =
  gs_user :: jdict
  gs_intents :: int
  gs_shard :: "json list"
  gs_seq :: int
  gs_ws :: "nat option"
  gs_buffer :: "buffered list"
  gs_maxlen :: nat
  gs_heartbeats :: nat
  gs_resume_count :: nat

text \<open>
  Session objects live in \<open>hb_objects\<close> under their session id, those that the hub knows are
  listed in \<open>hb_sessions\<close>. \<open>hb_handlers\<close> has the running handler of each websocket with its
  session, \<open>hb_open\<close> the open websockets, \<open>hb_broken\<close> those on which writing raises
  ConnectionError, \<open>hb_out\<close> everything written, \<open>hb_closed\<close> the close codes.
\<close>

record hub =
  hb_objects :: "(string, mock_session) dict"
  hb_sessions :: "string list"
  hb_events_dispatched :: nat
  hb_connections_seen :: nat
  hb_handlers :: "(nat, string option) dict"
  hb_open :: "nat list"
  hb_broken :: "nat list"
  hb_out :: "(nat \<times> json) list"
  hb_closed :: "(nat \<times> int) list"

definition new_hub :: hub where
  "new_hub = \<lparr>hb_objects = [], hb_sessions = [], hb_events_dispatched = 0, hb_connections_seen = 0, hb_handlers = [],
     hb_open = [], hb_broken = [], hb_out = [], hb_closed = []\<rparr>"

definition session_connected :: "hub \<Rightarrow> mock_session \<Rightarrow> bool" where
  "session_connected h s = (case gs_ws s of None \<Rightarrow> False | Some w \<Rightarrow> w \<in> set (hb_open h))"

definition hub_write :: "nat \<Rightarrow> json \<Rightarrow> hub \<Rightarrow> hub" where
  "hub_write w payload h = h\<lparr>hb_out := hb_out h @ [(w, payload)]\<rparr>"

definition hub_close :: "nat \<Rightarrow> int \<Rightarrow> hub \<Rightarrow> hub" where
  "hub_close w code h = h\<lparr>hb_open := removeAll w (hb_open h), hb_closed := hb_closed h @ [(w, code)]\<rparr>"

definition put_session :: "string \<Rightarrow> mock_session \<Rightarrow> hub \<Rightarrow> hub" where
  "put_session sid s h = h\<lparr>hb_objects := dict_set (hb_objects h) sid s\<rparr>"

text \<open>A \<open>deque\<close> with a maximal length drops its oldest entries.\<close>

definition ring_append :: "nat \<Rightarrow> 'a list \<Rightarrow> 'a \<Rightarrow> 'a list" where
  "ring_append n xs x = drop (Suc (length xs) - n) (xs @ [x])"

definition buffered_json :: "buffered \<Rightarrow> json" where
  "buffered_json b = JDict [(''op'', JInt OP_DISPATCH), (''t'', JStr (bf_type b)), (''s'', JInt (bf_seq b)), (''d'', bf_data b)]"

definition send_event :: "string \<Rightarrow> string \<Rightarrow> json \<Rightarrow> hub \<Rightarrow> hub" where
  "send_event sid event_type data h =
     (case map_of (hb_objects h) sid of
        None \<Rightarrow> h
      | Some s \<Rightarrow>
          (let payload = \<lparr>bf_type = event_type, bf_seq = gs_seq s + 1, bf_data = data\<rparr>;
               s1 = s\<lparr>gs_seq := gs_seq s + 1,
                      gs_buffer := (if event_type \<in> set non_replayable then gs_buffer s else ring_append (gs_maxlen s) (gs_buffer s) payload)\<rparr>;
               h1 = put_session sid s1 h
           in case gs_ws s of
                None \<Rightarrow> h1
              | Some w \<Rightarrow>
                  if w \<notin> set (hb_open h) then h1
                  else if w \<in> set (hb_broken h) then put_session sid (s1\<lparr>gs_ws := None\<rparr>) h
                  else hub_write w (buffered_json payload) h1))"

text \<open>\<open>me\<close> is the server's current user, \<open>guilds\<close> its guilds, \<open>url\<close> its \<open>ws_url\<close>.\<close>

record mock_view =
  mv_current_user :: jdict
  mv_guilds :: "jdict list"
  mv_ws_url :: string
  mv_heartbeat_interval_ms :: int
  mv_event_buffer_size :: nat

definition ready_data :: "mock_view \<Rightarrow> string \<Rightarrow> json list \<Rightarrow> string \<Rightarrow> json" where
  "ready_data v sid shard app_id =
     JDict [(''v'', JInt 10), (''user'', JDict (mv_current_user v)), (''session_id'', JStr sid),
            (''resume_gateway_url'', JStr (mv_ws_url v)), (''guilds'', JList (map JDict (mv_guilds v))),
            (''application'', JDict [(''id'', JStr app_id), (''flags'', JInt 0)]), (''shard'', JList shard)]"

text \<open>\<open>x or default\<close>.\<close>

definition json_or :: "json \<Rightarrow> json \<Rightarrow> json" where
  "json_or v dflt = (if json_truthy v then v else dflt)"

text \<open>\<open>sid\<close> is the new uuid.\<close>

definition create_session :: "mock_view \<Rightarrow> string \<Rightarrow> nat \<Rightarrow> jdict \<Rightarrow> mock_session result" where
  "create_session v sid w ident =
     bind_result (py_int (json_or (jget ident ''intents'') (JInt 0))) (\<lambda>intents.
     bind_result (json_iter (json_or (jget ident ''shard'') (JList [JInt 0, JInt 1]))) (\<lambda>shard.
       Inr \<lparr>gs_user = mv_current_user v, gs_intents = intents, gs_shard = shard, gs_seq = 0, gs_ws = Some w, gs_buffer = [],
            gs_maxlen = mv_event_buffer_size v, gs_heartbeats = 0, gs_resume_count = 0\<rparr>))"

definition hub_connect :: "mock_view \<Rightarrow> nat \<Rightarrow> hub \<Rightarrow> hub" where
  "hub_connect v w h =
     hub_write w
       (JDict [(''op'', JInt OP_HELLO),
               (''d'', JDict [(''heartbeat_interval'', JInt (mv_heartbeat_interval_ms v)), (''_trace'', JList [JStr ''vaidcord-mock''])])])
       (h\<lparr>hb_connections_seen := hb_connections_seen h + 1, hb_open := w # hb_open h, hb_handlers := dict_set (hb_handlers h) w None\<rparr>)"

definition handle_resume :: "(json \<Rightarrow> string) \<Rightarrow> nat \<Rightarrow> jdict \<Rightarrow> hub \<Rightarrow> string option \<times> hub" where
  "handle_resume str w resume h =
     (let sid = str (json_or (jget resume ''session_id'') (JStr [])) in
      if sid \<notin> set (hb_sessions h) then (None, hub_write w (JDict [(''op'', JInt OP_INVALID_SESSION), (''d'', JBool False)]) h)
      else
        (case map_of (hb_objects h) sid of
           None \<Rightarrow> (None, hub_write w (JDict [(''op'', JInt OP_INVALID_SESSION), (''d'', JBool False)]) h)
         | Some s \<Rightarrow>
             (let client_seq = (case py_int (json_or (jget resume ''seq'') (JInt 0)) of Inr n \<Rightarrow> n | Inl _ \<Rightarrow> 0);
                  replay = filter (\<lambda>b. client_seq < bf_seq b) (gs_buffer s);
                  h1 = put_session sid (s\<lparr>gs_ws := Some w, gs_resume_count := gs_resume_count s + 1\<rparr>) h;
                  h2 = h1\<lparr>hb_out := hb_out h1 @ map (\<lambda>b. (w, buffered_json b)) replay\<rparr>
              in (Some sid, send_event sid ''RESUMED'' (JDict [(''_trace'', JList [JStr ''vaidcord-mock''])]) h2))))"

definition identify_token :: "(json \<Rightarrow> string) \<Rightarrow> jdict \<Rightarrow> string" where
  "identify_token str d = str (json_or (jget d ''token'') (JStr []))"

definition as_dict :: "json \<Rightarrow> jdict" where
  "as_dict v = (case v of JDict d \<Rightarrow> d | _ \<Rightarrow> [])"

text \<open>One payload of the websocket \<open>w\<close> whose handler has the session \<open>cur\<close>.\<close>

definition handle_payload ::
  "(json \<Rightarrow> string) \<Rightarrow> mock_view \<Rightarrow> string \<Rightarrow> nat \<Rightarrow> string option \<Rightarrow> jdict \<Rightarrow> hub \<Rightarrow> string option result \<times> hub" where
  "handle_payload str v sid w cur payload h =
     (let op = jget payload ''op''; data = jget payload ''d'' in
      if eq_int op OP_HEARTBEAT then
        (let h1 = (case cur of
                     None \<Rightarrow> h
                   | Some c \<Rightarrow> (case map_of (hb_objects h) c of
                                 None \<Rightarrow> h
                               | Some s \<Rightarrow> put_session c (s\<lparr>gs_heartbeats := gs_heartbeats s + 1\<rparr>) h))
         in (Inr cur, hub_write w (JDict [(''op'', JInt OP_HEARTBEAT_ACK)]) h1))
      else if eq_int op OP_IDENTIFY then
        (if identify_token str (as_dict data) = [] then (Inr cur, hub_close w 4004 h)
         else
           (case create_session v sid w (as_dict data) of
              Inl e \<Rightarrow> (Inl e, h)
            | Inr s \<Rightarrow>
                (Inr (Some sid),
                 send_event sid ''READY'' (ready_data v sid (gs_shard s) (str (dict_get (mv_current_user v) ''id'' (JStr ''1''))))
                   (put_session sid s (h\<lparr>hb_sessions := hb_sessions h @ [sid]\<rparr>)))))
      else if eq_int op OP_RESUME then (case handle_resume str w (as_dict data) h of (c, h1) \<Rightarrow> (Inr c, h1))
      else if eq_int op OP_PRESENCE_UPDATE \<or> eq_int op OP_VOICE_STATE_UPDATE \<or> eq_int op OP_REQUEST_GUILD_MEMBERS then (Inr cur, h)
      else (Inr cur, hub_close w 4001 h))"

text \<open>The end of a handler: the session forgets the websocket, unless it has another one by now.\<close>

definition hub_disconnect :: "nat \<Rightarrow> hub \<Rightarrow> hub" where
  "hub_disconnect w h =
     (let h1 = h\<lparr>hb_open := removeAll w (hb_open h), hb_handlers := dict_pop (hb_handlers h) w\<rparr> in
      case dict_get (hb_handlers h) w None of
        None \<Rightarrow> h1
      | Some c \<Rightarrow>
          (case map_of (hb_objects h) c of
             Some s \<Rightarrow> if gs_ws s = Some w then put_session c (s\<lparr>gs_ws := None\<rparr>) h1 else h1
           | None \<Rightarrow> h1))"

text \<open>
  One message of the loop of \<open>handle\<close>: text that decodes to an object, or anything else, which
  ends the handler (undecodable text closes with 4002 first).
\<close>

datatype peer_message = PeerJson jdict | PeerGarbage | PeerGone

definition hub_receive :: "(json \<Rightarrow> string) \<Rightarrow> mock_view \<Rightarrow> string \<Rightarrow> nat \<Rightarrow> peer_message \<Rightarrow> hub \<Rightarrow> hub" where
  "hub_receive str v sid w msg h =
     (case msg of
        PeerGone \<Rightarrow> hub_disconnect w h
      | PeerGarbage \<Rightarrow> hub_disconnect w (hub_close w 4002 h)
      | PeerJson payload \<Rightarrow>
          (case handle_payload str v sid w (dict_get (hb_handlers h) w None) payload h of
             (Inl e, h1) \<Rightarrow> hub_disconnect w h1
           | (Inr cur, h1) \<Rightarrow>
               (let h2 = h1\<lparr>hb_handlers := dict_set (hb_handlers h1) w cur\<rparr>
                in if w \<in> set (hb_open h2) then h2 else hub_disconnect w h2)))"

section \<open>Broadcasting\<close>

definition hub_dispatch :: "string \<Rightarrow> json \<Rightarrow> hub \<Rightarrow> nat \<times> hub" where
  "hub_dispatch event_type data h =
     (let live = filter (\<lambda>sid. case map_of (hb_objects h) sid of Some s \<Rightarrow> session_connected h s | None \<Rightarrow> False) (hb_sessions h);
          h1 = fold (\<lambda>sid. send_event sid event_type data) (hb_sessions h) h
      in (length live, h1\<lparr>hb_events_dispatched := hb_events_dispatched h1 + 1\<rparr>))"

definition select_sessions :: "string option \<Rightarrow> hub \<Rightarrow> string list" where
  "select_sessions sid h = (case sid of None \<Rightarrow> hb_sessions h | Some s \<Rightarrow> if s \<in> set (hb_sessions h) then [s] else [])"

definition notify_session :: "json \<Rightarrow> string \<Rightarrow> hub \<Rightarrow> nat \<times> hub" where
  "notify_session payload sid h =
     (case map_of (hb_objects h) sid of
        Some s \<Rightarrow> (case gs_ws s of
                     Some w \<Rightarrow> if w \<in> set (hb_open h) then (1, hub_write w payload h) else (0, h)
                   | None \<Rightarrow> (0, h))
      | None \<Rightarrow> (0, h))"

primrec notify_sessions :: "json \<Rightarrow> bool \<Rightarrow> string list \<Rightarrow> hub \<Rightarrow> nat \<times> hub" where
  "notify_sessions payload forget [] h = (0, h)"
| "notify_sessions payload forget (sid # sids) h =
     (case notify_session payload sid h of
        (n, h1) \<Rightarrow>
          (case notify_sessions payload forget sids (if forget then h1\<lparr>hb_sessions := removeAll sid (hb_sessions h1)\<rparr> else h1) of
             (k, h2) \<Rightarrow> (n + k, h2)))"

definition request_reconnect :: "string option \<Rightarrow> hub \<Rightarrow> nat \<times> hub" where
  "request_reconnect sid h =
     notify_sessions (JDict [(''op'', JInt OP_RECONNECT), (''d'', JNull)]) False (select_sessions sid h) h"

definition invalidate_session :: "string option \<Rightarrow> bool \<Rightarrow> hub \<Rightarrow> nat \<times> hub" where
  "invalidate_session sid resumable h =
     notify_sessions (JDict [(''op'', JInt OP_INVALID_SESSION), (''d'', JBool resumable)]) (\<not> resumable) (select_sessions sid h) h"

definition close_one :: "string \<Rightarrow> hub \<Rightarrow> hub" where
  "close_one sid h =
     (case map_of (hb_objects h) sid of
        Some s \<Rightarrow> if session_connected h s then put_session sid (s\<lparr>gs_ws := None\<rparr>) (case gs_ws s of Some w \<Rightarrow> hub_close w 1000 h | None \<Rightarrow> h) else h
      | None \<Rightarrow> h)"

definition close_all :: "hub \<Rightarrow> hub" where
  "close_all h = fold close_one (hb_sessions h) h"

definition hub_reset :: "hub \<Rightarrow> hub" where
  "hub_reset h = h\<lparr>hb_sessions := [], hb_events_dispatched := 0\<rparr>"

section \<open>Snowflakes increase\<close>

definition generator_ok :: "snowflake_generator \<Rightarrow> bool" where
  "generator_ok g \<longleftrightarrow> 0 \<le> sg_worker_id g \<and> sg_worker_id g < 32 \<and> 0 \<le> sg_process_id g \<and> sg_process_id g < 32"

lemma mask_bounds: "0 \<le> x AND 31" "x AND 31 < 32" "0 \<le> x AND 4095" "x AND 4095 < 4096" for x :: int
proof -
  have "x AND 31 = x mod 32" "x AND 4095 = x mod 4096"
    using take_bit_eq_mask [of 5 x] take_bit_eq_mask [of 12 x] by (simp_all add: take_bit_eq_mod mask_eq_exp_minus_1)
  then show "0 \<le> x AND 31" "x AND 31 < 32" "0 \<le> x AND 4095" "x AND 4095 < 4096" by simp_all
qed

lemma new_generator_ok: "generator_ok (new_snowflakes w p)"
  using mask_bounds by (simp add: generator_ok_def new_snowflakes_def)

text \<open>The fields of a snowflake do not overlap: the bitwise or is a sum.\<close>

lemma disjoint_or: "0 \<le> b \<Longrightarrow> b < 2 ^ n \<Longrightarrow> push_bit n a OR b = a * 2 ^ n + b" for a b :: int
proof -
  assume b: "0 \<le> b" "b < 2 ^ n"
  have "bit b i \<Longrightarrow> i < n" for i
    using b by (metis bit_take_bit_iff take_bit_int_eq_self)
  then have "push_bit n a AND b = 0" by (intro bit_eqI) (use leD in \<open>fastforce simp: bit_simps\<close>)
  then show ?thesis by (simp add: push_bit_eq_mult disjunctive_add_eq_or)
qed

lemma raw_snowflake:
  assumes "generator_ok g" and "0 \<le> inc" and "inc < 4096"
  shows "push_bit 22 t OR push_bit 17 (sg_worker_id g) OR push_bit 12 (sg_process_id g) OR inc =
    t * 2 ^ 22 + (sg_worker_id g * 2 ^ 17 + (sg_process_id g * 2 ^ 12 + inc))"
proof -
  let ?w = "sg_worker_id g" and ?p = "sg_process_id g"
  have w: "0 \<le> ?w" "?w < 32" and p: "0 \<le> ?p" "?p < 32" using assms(1) by (simp_all add: generator_ok_def)
  have 1: "push_bit 12 ?p OR inc = ?p * 2 ^ 12 + inc" using assms(2,3) by (intro disjoint_or) simp_all
  have 2: "push_bit 17 ?w OR (?p * 2 ^ 12 + inc) = ?w * 2 ^ 17 + (?p * 2 ^ 12 + inc)" using p assms(2,3) by (intro disjoint_or) simp_all
  have 3: "push_bit 22 t OR (?w * 2 ^ 17 + (?p * 2 ^ 12 + inc)) = t * 2 ^ 22 + (?w * 2 ^ 17 + (?p * 2 ^ 12 + inc))"
    using w p assms(2,3) by (intro disjoint_or) simp_all
  show ?thesis unfolding 1 2 3 ..
qed

lemma generate_snowflake_bounds:
  assumes "generator_ok g" and "generate_snowflake now g = (i, g')"
  shows "sg_last_id g < i \<and> sg_last_id g' = i \<and> generator_ok g' \<and> now \<le> snowflake_ms i"
proof -
  define t where "t = now - DISCORD_EPOCH_MS"
  define inc where "inc = (sg_increment g + 1) AND 4095"
  define raw where "raw = push_bit 22 t OR push_bit 17 (sg_worker_id g) OR push_bit 12 (sg_process_id g) OR inc"
  have i: "i = (if raw \<le> sg_last_id g then sg_last_id g + 1 else raw)" and g': "g' = g\<lparr>sg_increment := inc, sg_last_id := i\<rparr>"
    using assms(2) by (auto simp: generate_snowflake_def Let_def raw_def inc_def t_def)
  have inc: "0 \<le> inc" "inc < 4096" using mask_bounds by (simp_all add: inc_def)
  have "t * 2 ^ 22 \<le> raw" using raw_snowflake [OF assms(1) inc, of t] assms(1) inc by (simp add: raw_def generator_ok_def)
  then have "t * 2 ^ 22 \<le> i" using i by simp
  then have "t \<le> i div 2 ^ 22" using zdiv_mono1 [of "t * 2 ^ 22" i "2 ^ 22"] by simp
  then have "now \<le> snowflake_ms i" by (simp add: snowflake_ms_def drop_bit_eq_div t_def)
  then show ?thesis using i g' assms(1) by (auto simp: generator_ok_def)
qed

lemma generate_many_bounds:
  assumes "generator_ok g" and "generate_many ts g = (ids, g')"
  shows "sorted_wrt (<) ids \<and> list_all (\<lambda>i. sg_last_id g < i) ids \<and> list_all2 (\<lambda>t i. t \<le> snowflake_ms i) ts ids"
  using assms
proof (induction ts arbitrary: g ids)
  case (Cons t ts)
  obtain i g1 where i: "generate_snowflake t g = (i, g1)" by fastforce
  obtain js where js: "generate_many ts g1 = (js, g')" "ids = i # js" using Cons.prems(2) i by (auto split: prod.splits)
  note b = generate_snowflake_bounds [OF Cons.prems(1) i]
  have "sorted_wrt (<) js \<and> list_all (\<lambda>k. sg_last_id g1 < k) js \<and> list_all2 (\<lambda>t i. t \<le> snowflake_ms i) ts js"
    by (rule Cons.IH [OF _ js(1)]) (use b in blast)
  then show ?case using b js(2) by (auto simp: list_all_iff)
qed simp

text \<open>
  Message ids of the mock server strictly increase, whatever the clock does: going backwards,
  standing still for more than 4096 ids, or before Discord's epoch. The creation time encoded in an
  id is never earlier than the clock reading it was made from.
\<close>

theorem snowflakes_increase:
  "case generate_many ts (new_snowflakes w p) of
     (ids, g) \<Rightarrow> sorted_wrt (<) ids \<and> list_all2 (\<lambda>t i. t \<le> snowflake_ms i) ts ids"
  using generate_many_bounds [OF new_generator_ok, of ts w p] by (cases "generate_many ts (new_snowflakes w p)") auto

section \<open>The rate limiter keeps its limit\<close>

text \<open>How many of the hits at the given times pass.\<close>

primrec passes_at :: "string \<Rightarrow> int \<Rightarrow> real \<Rightarrow> real list \<Rightarrow> rate_windows \<Rightarrow> int" where
  "passes_at key limit window [] ws = 0"
| "passes_at key limit window (t # ts) ws =
     (case rate_hit t key limit window ws of
        ((limited, _, _), ws1) \<Rightarrow> (if limited then 0 else 1) + passes_at key limit window ts ws1)"

definition windows_left :: "real \<Rightarrow> real \<Rightarrow> real \<Rightarrow> int" where
  "windows_left window expiry until = (if until < expiry then 0 else \<lfloor>(until - expiry) / window\<rfloor> + 1)"

lemma windows_left_nonneg: "0 < window \<Longrightarrow> 0 \<le> windows_left window expiry until"
  by (simp add: windows_left_def)

lemma windows_left_next:
  assumes "0 < window" and "expiry \<le> t" and "t \<le> until"
  shows "windows_left window (t + window) until + 1 \<le> windows_left window expiry until"
proof -
  have "(until - (t + window)) / window = (until - t) / window - 1" using assms(1) by (simp add: field_simps)
  then have "\<lfloor>(until - (t + window)) / window\<rfloor> = \<lfloor>(until - t) / window\<rfloor> - 1" by simp
  moreover have "0 \<le> (until - t) / window" using assms by simp
  then have "0 \<le> \<lfloor>(until - t) / window\<rfloor>" by simp
  moreover have "(until - t) / window \<le> (until - expiry) / window" using assms by (simp add: divide_right_mono)
  then have "\<lfloor>(until - t) / window\<rfloor> \<le> \<lfloor>(until - expiry) / window\<rfloor>" by (rule floor_mono)
  ultimately show ?thesis using assms by (simp add: windows_left_def)
qed

lemma passes_bound:
  assumes "list_all (\<lambda>t. t \<le> until) ts" and "0 < window" and "0 \<le> limit" and "dict_get ws key (0, 0) = (expiry, n)"
  shows "passes_at key limit window ts ws \<le> max 0 (limit - n) + limit * windows_left window expiry until"
  using assms
proof (induction ts arbitrary: ws expiry n)
  case Nil
  then show ?case using windows_left_nonneg [OF assms(2)] assms(3) by simp
next
  case (Cons t ts)
  define e m where "e = (if expiry \<le> t then t + window else expiry)" and "m = (if expiry \<le> t then 0 else n)"
  let ?ws = "dict_set ws key (e, if limit \<le> m then m else m + 1)"
  have hit: "passes_at key limit window (t # ts) ws = (if limit \<le> m then 0 else 1) + passes_at key limit window ts ?ws"
    using Cons.prems(4) by (simp add: rate_hit_def Let_def e_def m_def)
  have "dict_get ?ws key (0, 0) = (e, if limit \<le> m then m else m + 1)" by (simp add: dict_get_def)
  from Cons.IH [OF _ assms(2,3) this]
  have "passes_at key limit window ts ?ws \<le> max 0 (limit - (if limit \<le> m then m else m + 1)) + limit * windows_left window e until"
    using Cons.prems(1) by simp
  then have step: "passes_at key limit window (t # ts) ws \<le> max 0 (limit - m) + limit * windows_left window e until"
    unfolding hit by (auto split: if_splits)
  show ?case
  proof (cases "expiry \<le> t")
    case True
    then have "windows_left window e until + 1 \<le> windows_left window expiry until"
      using windows_left_next [OF assms(2) True] Cons.prems(1) by (simp add: e_def)
    then have "limit * (windows_left window e until + 1) \<le> limit * windows_left window expiry until"
      using assms(3) by (rule mult_left_mono)
    then show ?thesis using step True assms(3) by (simp add: m_def algebra_simps)
  next
    case False
    then show ?thesis using step by (simp add: e_def m_def)
  qed
qed

text \<open>
  The rate limiter of the mock server keeps its limit. Of any hits on one key, at times
  between the first hit and \<open>until\<close>, those that pass are at most \<open>limit\<close> for every window length
  begun in that time.
\<close>

theorem rate_limit_kept:
  assumes "list_all (\<lambda>x. t \<le> x \<and> x \<le> until) (t # ts)" and "0 \<le> t" and "0 < window" and "0 \<le> limit" and "map_of ws key = None"
  shows "passes_at key limit window (t # ts) ws \<le> limit * (\<lfloor>(until - t) / window\<rfloor> + 1)"
proof -
  let ?ws = "dict_set ws key (t + window, if limit \<le> 0 then 0 else 1)"
  have hit: "passes_at key limit window (t # ts) ws = (if limit \<le> 0 then 0 else 1) + passes_at key limit window ts ?ws"
    using assms(2,5) by (simp add: rate_hit_def Let_def dict_get_def)
  have "passes_at key limit window ts ?ws \<le> max 0 (limit - (if limit \<le> 0 then 0 else 1)) + limit * windows_left window (t + window) until"
    by (rule passes_bound) (use assms in \<open>auto simp: dict_get_def list_all_iff\<close>)
  then have "passes_at key limit window (t # ts) ws \<le> limit * (windows_left window (t + window) until + 1)"
    using assms(4) unfolding hit by (auto simp: algebra_simps split: if_splits)
  also have "\<dots> \<le> limit * windows_left window t until"
    using windows_left_next [OF assms(3), of t t until] assms(1,4) by (intro mult_left_mono) simp_all
  also have "windows_left window t until = \<lfloor>(until - t) / window\<rfloor> + 1" using assms(1) by (simp add: windows_left_def)
  finally show ?thesis .
qed

theorem rate_limit_kept_witness:
  "passes_at ''k'' 1 5 [0, 2, 6] [] \<le> 1 * (\<lfloor>(6 - 0 :: real) / 5\<rfloor> + 1)"
  using rate_limit_kept [of 0 6 "[2, 6]" 5 1 "[]" "''k''"] by simp

section \<open>Properties of sessions\<close>

text \<open>The session after an event, up to its websocket.\<close>

definition advance_session :: "string \<Rightarrow> json \<Rightarrow> mock_session \<Rightarrow> mock_session" where
  "advance_session t d s =
     s\<lparr>gs_seq := gs_seq s + 1,
       gs_buffer := (if t \<in> set non_replayable then gs_buffer s
         else ring_append (gs_maxlen s) (gs_buffer s) \<lparr>bf_type = t, bf_seq = gs_seq s + 1, bf_data = d\<rparr>)\<rparr>"

lemma send_event_eq:
  "send_event sid t d h =
     (case map_of (hb_objects h) sid of
        None \<Rightarrow> h
      | Some s \<Rightarrow>
          (case gs_ws s of
             None \<Rightarrow> put_session sid (advance_session t d s) h
           | Some w \<Rightarrow>
               if w \<notin> set (hb_open h) then put_session sid (advance_session t d s) h
               else if w \<in> set (hb_broken h) then put_session sid ((advance_session t d s)\<lparr>gs_ws := None\<rparr>) h
               else hub_write w (buffered_json \<lparr>bf_type = t, bf_seq = gs_seq s + 1, bf_data = d\<rparr>) (put_session sid (advance_session t d s) h)))"
  by (simp add: send_event_def advance_session_def Let_def split: option.split)

definition all_sessions :: "(mock_session \<Rightarrow> bool) \<Rightarrow> hub \<Rightarrow> bool" where
  "all_sessions P h \<longleftrightarrow> (\<forall>sid s. map_of (hb_objects h) sid = Some s \<longrightarrow> P s)"

lemma all_sessionsD: "all_sessions P h \<Longrightarrow> map_of (hb_objects h) sid = Some s \<Longrightarrow> P s"
  by (auto simp: all_sessions_def)

lemma all_sessions_put: "all_sessions P h \<Longrightarrow> P s \<Longrightarrow> all_sessions P (put_session sid s h)"
  by (auto simp: all_sessions_def put_session_def split: if_splits)

lemma all_sessions_frame [simp]:
  "all_sessions P (hub_write w p h) = all_sessions P h" "all_sessions P (hub_close w code h) = all_sessions P h"
  "all_sessions P (h\<lparr>hb_sessions := a\<rparr>) = all_sessions P h" "all_sessions P (h\<lparr>hb_handlers := b\<rparr>) = all_sessions P h"
  "all_sessions P (h\<lparr>hb_open := c\<rparr>) = all_sessions P h" "all_sessions P (h\<lparr>hb_out := d\<rparr>) = all_sessions P h"
  "all_sessions P (h\<lparr>hb_events_dispatched := e\<rparr>) = all_sessions P h" "all_sessions P (h\<lparr>hb_broken := f\<rparr>) = all_sessions P h"
  "all_sessions P (h\<lparr>hb_connections_seen := g\<rparr>) = all_sessions P h"
  by (simp_all add: all_sessions_def hub_write_def hub_close_def)

text \<open>
  The steps of the mock gateway: a websocket is accepted, a message of an open websocket is
  handled (a new session gets an id that was never used), a websocket breaks, and what the
  control plane asks for.
\<close>

inductive hub_step :: "(json \<Rightarrow> string) \<Rightarrow> mock_view \<Rightarrow> hub \<Rightarrow> hub \<Rightarrow> bool" for str v where
  accept: "w \<notin> fst ` set (hb_handlers h) \<Longrightarrow> hub_step str v h (hub_connect v w h)"
| receive: "w \<in> set (hb_open h) \<Longrightarrow> map_of (hb_objects h) sid = None \<Longrightarrow> hub_step str v h (hub_receive str v sid w msg h)"
| break: "hub_step str v h (h\<lparr>hb_broken := w # hb_broken h\<rparr>)"
| dispatch: "hub_step str v h (snd (hub_dispatch t d h))"
| reconnect_all: "hub_step str v h (snd (request_reconnect sid h))"
| invalidate_some: "hub_step str v h (snd (invalidate_session sid resumable h))"
| close_down: "hub_step str v h (close_all h)"
| reset_all: "hub_step str v h (hub_reset h)"

text \<open>
  A property of the session objects that a fresh session has, that an event keeps, and that does
  not depend on the websocket and the counters. Every step of the hub keeps it.
\<close>

locale session_property =
  fixes P :: "mock_session \<Rightarrow> bool"
  assumes fresh: "gs_seq s = 0 \<Longrightarrow> gs_buffer s = [] \<Longrightarrow> P s"
    and event: "P s \<Longrightarrow> P (advance_session t d s)"
    and frame: "P (s\<lparr>gs_ws := w\<rparr>) = P s" "P (s\<lparr>gs_heartbeats := n\<rparr>) = P s" "P (s\<lparr>gs_resume_count := k\<rparr>) = P s"
begin

lemma send_event_keeps: "all_sessions P h \<Longrightarrow> all_sessions P (send_event sid t d h)"
  by (auto simp: send_event_eq frame event intro!: all_sessions_put dest: all_sessionsD split: option.split)

lemma fold_send_keeps: "all_sessions P h \<Longrightarrow> all_sessions P (fold (\<lambda>sid. send_event sid t d) sids h)"
  by (induction sids arbitrary: h) (simp_all add: send_event_keeps)

lemma notify_keeps: "all_sessions P h \<Longrightarrow> all_sessions P (snd (notify_sessions payload forget sids h))"
proof (induction sids arbitrary: h)
  case (Cons sid sids)
  have "all_sessions P (snd (notify_session payload sid h))"
    using Cons.prems by (auto simp: notify_session_def split: option.split)
  then show ?case using Cons.IH by (auto simp: case_prod_beta)
qed simp

lemma close_one_keeps: "all_sessions P h \<Longrightarrow> all_sessions P (close_one sid h)"
  by (auto simp: close_one_def frame intro!: all_sessions_put dest: all_sessionsD split: option.split)

lemma close_all_keeps: "all_sessions P h \<Longrightarrow> all_sessions P (close_all h)"
proof -
  have "all_sessions P h \<Longrightarrow> all_sessions P (fold close_one sids h)" for sids
    by (induction sids arbitrary: h) (simp_all add: close_one_keeps)
  then show "all_sessions P h \<Longrightarrow> all_sessions P (close_all h)" by (simp add: close_all_def)
qed

lemma disconnect_keeps: "all_sessions P h \<Longrightarrow> all_sessions P (hub_disconnect w h)"
  by (auto simp: hub_disconnect_def Let_def frame intro!: all_sessions_put dest: all_sessionsD split: option.split)

lemma resume_keeps: "all_sessions P h \<Longrightarrow> all_sessions P (snd (handle_resume str w d h))"
  by (auto simp: handle_resume_def Let_def frame all_sessionsD intro!: send_event_keeps all_sessions_put split: option.split)

lemma create_fresh: "create_session v sid w d = Inr s \<Longrightarrow> P s"
  by (rule fresh) (auto simp: create_session_def result_simps)

lemma payload_keeps: "all_sessions P h \<Longrightarrow> all_sessions P (snd (handle_payload str v sid w cur payload h))"
  using resume_keeps [of h str w "as_dict (jget payload ''d'')"]
  by (auto simp: handle_payload_def Let_def frame case_prod_beta intro!: send_event_keeps all_sessions_put dest: all_sessionsD create_fresh
      split: option.split sum.split)

lemma receive_keeps: "all_sessions P h \<Longrightarrow> all_sessions P (hub_receive str v sid w msg h)"
  using payload_keeps [of h str v sid w "dict_get (hb_handlers h) w None"]
  by (auto simp: hub_receive_def Let_def disconnect_keeps case_prod_beta split: peer_message.split sum.split prod.split)

lemma step_keeps: "hub_step str v h h' \<Longrightarrow> all_sessions P h \<Longrightarrow> all_sessions P h'"
proof (induction rule: hub_step.induct)
  case (dispatch h t d)
  then show ?case by (simp add: hub_dispatch_def Let_def fold_send_keeps)
qed (simp_all add: hub_connect_def receive_keeps request_reconnect_def invalidate_session_def notify_keeps close_all_keeps hub_reset_def)

lemma keeps_reachable: "reachable_from (hub_step str v) new_hub h \<Longrightarrow> all_sessions P h"
proof (induction rule: reachable_from.induct)
  case reachable_start
  show ?case by (simp add: new_hub_def all_sessions_def)
next
  case (reachable_next h h')
  then show ?case using step_keeps by blast
qed

end

text \<open>The buffer of a session: ascending sequence numbers up to the session's, never too long.\<close>

definition buffer_ok :: "mock_session \<Rightarrow> bool" where
  "buffer_ok s \<longleftrightarrow> sorted_wrt (<) (map bf_seq (gs_buffer s)) \<and> list_all (\<lambda>b. bf_seq b \<le> gs_seq s) (gs_buffer s) \<and>
     length (gs_buffer s) \<le> gs_maxlen s \<and> 0 \<le> gs_seq s"

lemma advance_buffer_ok:
  assumes "buffer_ok s"
  shows "buffer_ok (advance_session t d s)"
proof (cases "t \<in> set non_replayable")
  case True
  then show ?thesis using assms by (auto simp: buffer_ok_def advance_session_def list_all_iff)
next
  case False
  define xs where "xs = gs_buffer s @ [\<lparr>bf_type = t, bf_seq = gs_seq s + 1, bf_data = d\<rparr>]"
  define k where "k = length xs - gs_maxlen s"
  have "sorted_wrt (<) (map bf_seq xs)" using assms by (auto simp: xs_def buffer_ok_def sorted_wrt_append list_all_iff)
  then have "sorted_wrt (<) (map bf_seq (drop k xs))" by (metis drop_map sorted_wrt_drop)
  moreover have "list_all (\<lambda>b. bf_seq b \<le> gs_seq s + 1) xs" using assms by (auto simp: xs_def buffer_ok_def list_all_iff)
  then have "list_all (\<lambda>b. bf_seq b \<le> gs_seq s + 1) (drop k xs)" by (auto simp: list_all_iff dest: in_set_dropD)
  moreover have "length (drop k xs) \<le> gs_maxlen s" by (simp add: k_def)
  moreover have "gs_buffer (advance_session t d s) = drop k xs" "gs_seq (advance_session t d s) = gs_seq s + 1"
    "gs_maxlen (advance_session t d s) = gs_maxlen s"
    using False by (simp_all add: advance_session_def ring_append_def xs_def k_def)
  ultimately show ?thesis using assms by (simp add: buffer_ok_def)
qed

interpretation buffers: session_property buffer_ok
  by unfold_locales (simp_all add: advance_buffer_ok, simp_all add: buffer_ok_def)

text \<open>The hub's list of sessions has no duplicates and names existing objects.\<close>

definition hub_ok :: "hub \<Rightarrow> bool" where
  "hub_ok h \<longleftrightarrow> distinct (hb_sessions h) \<and> (\<forall>sid \<in> set (hb_sessions h). map_of (hb_objects h) sid \<noteq> None)"

lemma send_event_ids: "hb_sessions (send_event sid t d h) = hb_sessions h" "dom (map_of (hb_objects (send_event sid t d h))) = dom (map_of (hb_objects h))"
  by (auto simp: send_event_eq put_session_def hub_write_def split: option.split)

lemma fold_send_ids:
  "hb_sessions (fold (\<lambda>sid. send_event sid t d) sids h) = hb_sessions h \<and>
   dom (map_of (hb_objects (fold (\<lambda>sid. send_event sid t d) sids h))) = dom (map_of (hb_objects h))"
  by (induction sids arbitrary: h) (simp_all add: send_event_ids)

lemma hub_ok_ids: "hub_ok h \<longleftrightarrow> distinct (hb_sessions h) \<and> set (hb_sessions h) \<subseteq> dom (map_of (hb_objects h))"
  by (auto simp: hub_ok_def)

lemma hub_ok_put: "hub_ok h \<Longrightarrow> hub_ok (put_session sid s h)"
  by (auto simp: hub_ok_def put_session_def)

lemma hub_ok_send: "hub_ok h \<Longrightarrow> hub_ok (send_event sid t d h)"
  by (simp add: hub_ok_ids send_event_ids)

lemma hub_ok_frame [simp]:
  "hub_ok (hub_write w p h) = hub_ok h" "hub_ok (hub_close w code h) = hub_ok h" "hub_ok (h\<lparr>hb_handlers := b\<rparr>) = hub_ok h"
  "hub_ok (h\<lparr>hb_open := c\<rparr>) = hub_ok h" "hub_ok (h\<lparr>hb_out := d\<rparr>) = hub_ok h" "hub_ok (h\<lparr>hb_events_dispatched := e\<rparr>) = hub_ok h"
  "hub_ok (h\<lparr>hb_broken := f\<rparr>) = hub_ok h" "hub_ok (h\<lparr>hb_connections_seen := g\<rparr>) = hub_ok h"
  by (simp_all add: hub_ok_def hub_write_def hub_close_def)

lemma notify_sessions_ok: "hub_ok h \<Longrightarrow> hub_ok (snd (notify_sessions payload forget sids h))"
proof (induction sids arbitrary: h)
  case (Cons sid sids)
  have "hub_ok (snd (notify_session payload sid h))" using Cons.prems by (auto simp: notify_session_def split: option.split)
  then have "hub_ok (if forget then (snd (notify_session payload sid h))\<lparr>hb_sessions := removeAll sid (hb_sessions (snd (notify_session payload sid h)))\<rparr>
      else snd (notify_session payload sid h))"
    by (auto simp: hub_ok_def distinct_removeAll)
  then show ?case using Cons.IH by (auto simp: case_prod_beta)
qed simp

lemma close_all_ok: "hub_ok h \<Longrightarrow> hub_ok (close_all h)"
proof -
  have one: "hub_ok h \<Longrightarrow> hub_ok (close_one sid h)" for h sid
    by (auto simp: close_one_def intro!: hub_ok_put split: option.split)
  have "hub_ok h \<Longrightarrow> hub_ok (fold close_one sids h)" for sids
    by (induction sids arbitrary: h) (simp_all add: one)
  then show "hub_ok h \<Longrightarrow> hub_ok (close_all h)" by (simp add: close_all_def)
qed

lemma disconnect_ok: "hub_ok h \<Longrightarrow> hub_ok (hub_disconnect w h)"
  by (auto simp: hub_disconnect_def Let_def intro!: hub_ok_put split: option.split)

lemma resume_ok: "hub_ok h \<Longrightarrow> hub_ok (snd (handle_resume str w d h))"
  by (auto simp: handle_resume_def Let_def intro!: hub_ok_send hub_ok_put split: option.split)

lemma identify_ok:
  "hub_ok h \<Longrightarrow> map_of (hb_objects h) sid = None \<Longrightarrow> hub_ok (put_session sid s (h\<lparr>hb_sessions := hb_sessions h @ [sid]\<rparr>))"
  by (auto simp: hub_ok_def put_session_def)

lemma payload_ok:
  "hub_ok h \<Longrightarrow> map_of (hb_objects h) sid = None \<Longrightarrow> hub_ok (snd (handle_payload str v sid w cur payload h))"
  using resume_ok [of h str w "as_dict (jget payload ''d'')"]
  by (auto simp: handle_payload_def Let_def case_prod_beta intro!: hub_ok_send intro: identify_ok hub_ok_put split: option.split sum.split)

lemma receive_ok: "hub_ok h \<Longrightarrow> map_of (hb_objects h) sid = None \<Longrightarrow> hub_ok (hub_receive str v sid w msg h)"
  using payload_ok [of h sid str v w "dict_get (hb_handlers h) w None"]
  by (auto simp: hub_receive_def Let_def disconnect_ok case_prod_beta split: peer_message.split sum.split prod.split)

lemma dispatch_ok: "hub_ok h \<Longrightarrow> hub_ok (snd (hub_dispatch t d h))"
  using fold_send_ids [of t d "hb_sessions h" h] by (simp add: hub_dispatch_def Let_def hub_ok_ids)

interpretation mock_hub: transition_invariant "hub_step str v" new_hub hub_ok
proof unfold_locales
  show "hub_ok new_hub" by (simp add: hub_ok_def new_hub_def)
next
  fix h h' assume "hub_ok h" "hub_step str v h h'"
  then show "hub_ok h'"
    by (auto elim!: hub_step.cases simp: hub_connect_def receive_ok dispatch_ok request_reconnect_def invalidate_session_def
        notify_sessions_ok close_all_ok hub_reset_def) (simp_all add: hub_ok_def)
qed

section \<open>Replay\<close>

primrec number :: "int \<Rightarrow> (string \<times> json) list \<Rightarrow> buffered list" where
  "number k [] = []"
| "number k (e # es) = \<lparr>bf_type = fst e, bf_seq = k + 1, bf_data = snd e\<rparr> # number (k + 1) es"

definition broadcast :: "(string \<times> json) list \<Rightarrow> hub \<Rightarrow> hub" where
  "broadcast es h = fold (\<lambda>e h. snd (hub_dispatch (fst e) (snd e) h)) es h"

definition advance_many :: "(string \<times> json) list \<Rightarrow> mock_session \<Rightarrow> mock_session" where
  "advance_many es s = fold (\<lambda>e. advance_session (fst e) (snd e)) es s"

lemma number_props: "length (number k es) = length es" "list_all (\<lambda>b. k < bf_seq b) (number k es)"
proof -
  show "length (number k es) = length es" by (induction es arbitrary: k) simp_all
  have "j \<le> k \<Longrightarrow> list_all (\<lambda>b. j < bf_seq b) (number k es)" for j by (induction es arbitrary: k) simp_all
  then show "list_all (\<lambda>b. k < bf_seq b) (number k es)" by simp
qed

lemma advance_ws: "advance_session t d (s\<lparr>gs_ws := w\<rparr>) = (advance_session t d s)\<lparr>gs_ws := w\<rparr>"
  by (simp add: advance_session_def)

lemma advance_many_buffer:
  assumes "list_all (\<lambda>e. fst e \<notin> set non_replayable) es" and "length (gs_buffer s) \<le> gs_maxlen s"
  shows "gs_seq (advance_many es s) = gs_seq s + int (length es) \<and> gs_maxlen (advance_many es s) = gs_maxlen s \<and>
    gs_buffer (advance_many es s) =
      drop (length (gs_buffer s) + length es - gs_maxlen s) (gs_buffer s @ number (gs_seq s) es)"
  using assms
proof (induction es arbitrary: s)
  case (Cons e es)
  define b where "b = \<lparr>bf_type = fst e, bf_seq = gs_seq s + 1, bf_data = snd e\<rparr>"
  define s1 where "s1 = advance_session (fst e) (snd e) s"
  define k where "k = Suc (length (gs_buffer s)) - gs_maxlen s"
  have s1: "gs_buffer s1 = drop k (gs_buffer s @ [b])" "gs_seq s1 = gs_seq s + 1" "gs_maxlen s1 = gs_maxlen s"
    using Cons.prems(1) by (simp_all add: s1_def advance_session_def ring_append_def b_def k_def)
  have len: "length (gs_buffer s1) = Suc (length (gs_buffer s)) - k" "k \<le> Suc (length (gs_buffer s))" by (simp_all add: s1 k_def)
  have IH: "gs_seq (advance_many es s1) = gs_seq s1 + int (length es) \<and> gs_maxlen (advance_many es s1) = gs_maxlen s1 \<and>
      gs_buffer (advance_many es s1) =
        drop (length (gs_buffer s1) + length es - gs_maxlen s1) (gs_buffer s1 @ number (gs_seq s1) es)"
    by (rule Cons.IH) (use Cons.prems s1 k_def in simp_all)
  have a: "length (gs_buffer s1) + length es - gs_maxlen s + k = length (gs_buffer s) + length (e # es) - gs_maxlen s"
    using len Cons.prems(2) by (simp add: k_def)
  let ?j = "length (gs_buffer s1) + length es - gs_maxlen s" and ?ys = "number (gs_seq s + 1) es"
  have "gs_buffer (advance_many es s1) = drop ?j (gs_buffer s1 @ ?ys)" using IH s1(2,3) by simp
  also have "\<dots> = drop ?j (drop k (gs_buffer s @ [b]) @ ?ys)" by (simp only: s1(1))
  also have "drop k (gs_buffer s @ [b]) @ ?ys = drop k ((gs_buffer s @ [b]) @ ?ys)"
    using len(2) drop_append [of k "gs_buffer s @ [b]" ?ys] by simp
  also have "drop ?j (drop k ((gs_buffer s @ [b]) @ ?ys)) = drop (?j + k) ((gs_buffer s @ [b]) @ ?ys)" by (simp only: drop_drop)
  finally have "gs_buffer (advance_many es s1) = drop (length (gs_buffer s) + length (e # es) - gs_maxlen s) ((gs_buffer s @ [b]) @ ?ys)"
    by (simp only: a)
  then show ?case using IH s1(2,3) by (simp add: advance_many_def s1_def b_def)
qed (simp add: advance_many_def)

lemma filter_new:
  assumes "list_all (\<lambda>b. bf_seq b \<le> q) xs" and "list_all (\<lambda>b. q < bf_seq b) ys"
  shows "filter (\<lambda>b. q < bf_seq b) (drop k (xs @ ys)) = drop (k - length xs) ys"
proof -
  have "filter (\<lambda>b. q < bf_seq b) (drop k xs) = []" using assms(1) by (auto simp: filter_empty_conv list_all_iff dest!: in_set_dropD)
  moreover have "filter (\<lambda>b. q < bf_seq b) (drop (k - length xs) ys) = drop (k - length xs) ys"
    using assms(2) by (auto simp: filter_id_conv list_all_iff dest!: in_set_dropD)
  ultimately show ?thesis by simp
qed

lemma int_or_zero: "py_int (json_or (JInt n) (JInt 0)) = Inr n"
  by (simp add: json_or_def json_truthy_def)

text \<open>An event reaches every session the hub knows.\<close>

lemma fold_send_other: "sid \<notin> set sids \<Longrightarrow> map_of (hb_objects (fold (\<lambda>sid. send_event sid t d) sids h)) sid = map_of (hb_objects h) sid"
proof (induction sids arbitrary: h)
  case (Cons x sids)
  then have "map_of (hb_objects (send_event x t d h)) sid = map_of (hb_objects h) sid"
    by (auto simp: send_event_eq put_session_def hub_write_def split: option.split)
  then show ?case using Cons by simp
qed simp

lemma some_ws: "\<exists>w. s = s\<lparr>gs_ws := w\<rparr>" for s :: mock_session
  by (rule exI [of _ "gs_ws s"]) simp

lemma send_event_own:
  assumes "map_of (hb_objects h) sid = Some s"
  shows "\<exists>w. map_of (hb_objects (send_event sid t d h)) sid = Some ((advance_session t d s)\<lparr>gs_ws := w\<rparr>)"
proof -
  have "map_of (hb_objects (send_event sid t d h)) sid \<in> {Some (advance_session t d s), Some ((advance_session t d s)\<lparr>gs_ws := None\<rparr>)}"
    using assms by (auto simp: send_event_eq put_session_def hub_write_def split: option.split)
  then show ?thesis using some_ws [of "advance_session t d s"] by auto
qed

lemma fold_send_member:
  assumes "distinct sids" and "sid \<in> set sids" and "map_of (hb_objects h) sid = Some s"
  shows "\<exists>w. map_of (hb_objects (fold (\<lambda>sid. send_event sid t d) sids h)) sid = Some ((advance_session t d s)\<lparr>gs_ws := w\<rparr>)"
  using assms
proof (induction sids arbitrary: h)
  case (Cons x sids)
  show ?case
  proof (cases "x = sid")
    case True
    then have "map_of (hb_objects (fold (\<lambda>sid. send_event sid t d) (x # sids) h)) sid = map_of (hb_objects (send_event sid t d h)) sid"
      using fold_send_other [of sid sids t d] Cons.prems(1) by simp
    then show ?thesis using send_event_own [OF Cons.prems(3), of t d] by simp
  next
    case False
    then have "map_of (hb_objects (send_event x t d h)) sid = Some s"
      using Cons.prems(3) by (auto simp: send_event_eq put_session_def hub_write_def split: option.split)
    then show ?thesis using Cons False by simp
  qed
qed simp

lemma broadcast_session:
  assumes "hub_ok h" and "sid \<in> set (hb_sessions h)" and "map_of (hb_objects h) sid = Some s"
  shows "hub_ok (broadcast es h) \<and> sid \<in> set (hb_sessions (broadcast es h)) \<and>
    (\<exists>w. map_of (hb_objects (broadcast es h)) sid = Some ((advance_many es s)\<lparr>gs_ws := w\<rparr>))"
  using assms
proof (induction es arbitrary: h s)
  case Nil
  then show ?case using some_ws [of s] by (simp add: broadcast_def advance_many_def)
next
  case (Cons e es)
  let ?h = "snd (hub_dispatch (fst e) (snd e) h)"
  obtain w where w: "map_of (hb_objects ?h) sid = Some ((advance_session (fst e) (snd e) s)\<lparr>gs_ws := w\<rparr>)"
    using fold_send_member [of "hb_sessions h" sid h s "fst e" "snd e"] Cons.prems by (auto simp: hub_dispatch_def Let_def hub_ok_def)
  have "sid \<in> set (hb_sessions ?h)"
    using Cons.prems(2) fold_send_ids [of "fst e" "snd e" "hb_sessions h" h] by (simp add: hub_dispatch_def Let_def)
  from Cons.IH [OF dispatch_ok [OF Cons.prems(1)] this w]
  have IH: "hub_ok (broadcast es ?h) \<and> sid \<in> set (hb_sessions (broadcast es ?h)) \<and>
      (\<exists>w'. map_of (hb_objects (broadcast es ?h)) sid = Some ((advance_many es ((advance_session (fst e) (snd e) s)\<lparr>gs_ws := w\<rparr>))\<lparr>gs_ws := w'\<rparr>))" .
  have many_ws: "(advance_many es (x\<lparr>gs_ws := w\<rparr>)) = (advance_many es x)\<lparr>gs_ws := w\<rparr>" for x
    unfolding advance_many_def by (induction es arbitrary: x) (simp_all add: advance_ws)
  show ?case using IH by (simp add: broadcast_def advance_many_def many_ws [unfolded advance_many_def])
qed


section \<open>A client against the mock gateway\<close>

text \<open>What a client that works reads and writes: \<open>as_dict\<close> decodes a text frame.\<close>

definition calm_io :: "gateway_io \<Rightarrow> bool" where
  "calm_io io \<longleftrightarrow> io_send io = None \<and> io_voice io = None \<and> io_parse io = None \<and> io_ready io = None \<and> io_handlers io = None"

definition hello_frame :: "mock_view \<Rightarrow> json" where
  "hello_frame v = JDict [(''op'', JInt OP_HELLO),
     (''d'', JDict [(''heartbeat_interval'', JInt (mv_heartbeat_interval_ms v)), (''_trace'', JList [JStr ''vaidcord-mock''])])]"

lemma start_heartbeat_same [simp]:
  "g_sent (start_heartbeat s) = g_sent s" "ws_open (start_heartbeat s) = ws_open s" "g_drop_pending_updates (start_heartbeat s) = g_drop_pending_updates s"
  "g_ready (start_heartbeat s) = g_ready s" "g_running (start_heartbeat s) = g_running s"
  by (simp_all add: start_heartbeat_def cancel_heartbeat_def Let_def ws_open_def split: option.split)

lemma client_hello:
  assumes "ws_open s" and "io_send io = None" and "\<not> g_resume_on_hello s"
  shows "\<exists>s'. receive_one unzip cfg io (Text (Inr (as_dict (hello_frame v)))) s = (s', None) \<and>
    g_sent s' = g_sent s @ [identify_payload cfg] \<and> ws_open s'"
  using assms
  by (simp add: receive_one_def process_payload_def runtime_handle_payload_def handle_hello_def hello_frame_def as_dict_def mock_ops eq_int_def
      jget_def dict_get_def dict_index_def identify_def runtime_send_payload_def ws_open_def Let_def)

lemma ready_member: "map_of event_type_members (py_upper ''READY'') = Some ''READY''"
  by code_simp

lemma client_ready:
  assumes "ws_open s" and "calm_io io"
  shows "\<exists>s'. receive_one unzip cfg io (Text (Inr (as_dict (buffered_json \<lparr>bf_type = ''READY'', bf_seq = n, bf_data = ready_data v sid shard app\<rparr>)))) s = (s', None) \<and>
    g_sequence s' = JInt n \<and> g_session_id s' = JStr sid \<and> g_resume_gateway_url s' = JStr (mv_ws_url v) \<and> g_state s' = READY \<and> g_ready s' \<and>
    g_sent s' = g_sent s \<and> ws_open s'"
  using assms
  by (simp add: receive_one_def process_payload_def runtime_handle_payload_def handle_dispatch_def deliver_event_def handle_ready_def propagate_def
      buffered_json_def ready_data_def as_dict_def mock_ops eq_int_def jget_def dict_get_def calm_io_def ready_member ws_open_def Let_def)

definition identify_data :: "bot_config \<Rightarrow> jdict" where
  "identify_data cfg = as_dict (jget (as_dict (identify_payload cfg)) ''d'')"

lemma identify_data_fields:
  "jget (as_dict (identify_payload cfg)) ''op'' = JInt 2" "jget (identify_data cfg) ''token'' = JStr (bc_token cfg)"
  "jget (identify_data cfg) ''intents'' = JInt (bc_intents cfg)"
  "jget (identify_data cfg) ''shard'' = (if bc_shard_count cfg > 1 then JList [JInt (bc_shard_id cfg), JInt (bc_shard_count cfg)] else JNull)"
  by (auto simp: identify_data_def identify_payload_def as_dict_def jget_def dict_get_def split: option.splits)

lemma hub_identify:
  assumes "w \<notin> set (hb_broken h)" and "w \<in> set (hb_open h)" and "\<And>x. str (JStr x) = x" and "bc_token cfg \<noteq> []"
  shows "\<exists>h' shard app. hub_receive str v sid w (PeerJson (as_dict (identify_payload cfg))) h = h' \<and>
    hb_out h' = hb_out h @ [(w, buffered_json \<lparr>bf_type = ''READY'', bf_seq = 1, bf_data = ready_data v sid shard app\<rparr>)] \<and>
    map_of (hb_objects h') sid = Some \<lparr>gs_user = mv_current_user v, gs_intents = bc_intents cfg, gs_shard = shard, gs_seq = 1,
      gs_ws = Some w, gs_buffer = [], gs_maxlen = mv_event_buffer_size v, gs_heartbeats = 0, gs_resume_count = 0\<rparr> \<and>
    hb_sessions h' = hb_sessions h @ [sid] \<and> hb_open h' = hb_open h \<and> hb_broken h' = hb_broken h"
proof -
  obtain shard where c: "create_session v sid w (identify_data cfg) =
      Inr \<lparr>gs_user = mv_current_user v, gs_intents = bc_intents cfg, gs_shard = shard, gs_seq = 0, gs_ws = Some w, gs_buffer = [],
           gs_maxlen = mv_event_buffer_size v, gs_heartbeats = 0, gs_resume_count = 0\<rparr>"
    by (cases "bc_shard_count cfg > 1")
      (auto simp: create_session_def identify_data_fields int_or_zero, auto simp: json_or_def json_truthy_def json_iter_def)
  have "identify_token str (identify_data cfg) = bc_token cfg"
    using assms(3,4) by (simp add: identify_token_def identify_data_fields json_or_def json_truthy_def)
  then have "handle_payload str v sid w cur (as_dict (identify_payload cfg)) h =
      (Inr (Some sid), send_event sid ''READY'' (ready_data v sid shard (str (dict_get (mv_current_user v) ''id'' (JStr ''1''))))
        (put_session sid \<lparr>gs_user = mv_current_user v, gs_intents = bc_intents cfg, gs_shard = shard, gs_seq = 0, gs_ws = Some w, gs_buffer = [],
           gs_maxlen = mv_event_buffer_size v, gs_heartbeats = 0, gs_resume_count = 0\<rparr> (h\<lparr>hb_sessions := hb_sessions h @ [sid]\<rparr>)))" for cur
    using assms(4) c identify_data_fields(1) [of cfg]
    by (simp add: handle_payload_def Let_def eq_int_def mock_ops flip: identify_data_def)
  then show ?thesis
    using assms(1,2) by (auto simp: hub_receive_def Let_def send_event_eq put_session_def hub_write_def advance_session_def non_replayable_def)
qed

lemma hub_heartbeat:
  assumes "w \<notin> set (hb_broken h)" and "w \<in> set (hb_open h)"
  shows "hb_out (hub_receive str v sid w (PeerJson [(''op'', JInt 1), (''d'', n)]) h) = hb_out h @ [(w, JDict [(''op'', JInt OP_HEARTBEAT_ACK)])]"
  using assms
  by (auto simp: hub_receive_def handle_payload_def Let_def jget_def dict_get_def eq_int_def mock_ops put_session_def hub_write_def split: option.split)

text \<open>
  C34: a bot gets a working session from the mock gateway. Any bot with a token that connects to
  the mock in any state answers the greeting with one IDENTIFY, for which the mock creates a
  session bound to its websocket with the bot's intents; the READY frame makes the bot ready with
  that session's id and sequence number 1; and its next heartbeat, which carries that number, is
  acknowledged.
\<close>

theorem mock_session_established:
  assumes "ws_open s" and "\<not> g_resume_on_hello s" and "calm_io io" and "bc_token cfg \<noteq> []"
    and "w \<notin> set (hb_broken h)" and "\<And>x. str (JStr x) = x"
  shows "let h1 = hub_connect v w h; s1 = fst (receive_one unzip cfg io (Text (Inr (as_dict (snd (List.last (hb_out h1)))))) s);
      h2 = hub_receive str v sid w (PeerJson (as_dict (List.last (g_sent s1)))) h1;
      s2 = fst (receive_one unzip cfg io (Text (Inr (as_dict (snd (List.last (hb_out h2)))))) s1);
      s3 = fst (send_heartbeat io s2);
      h3 = hub_receive str v sid2 w (PeerJson (as_dict (List.last (g_sent s3)))) h2;
      s4 = fst (receive_one unzip cfg io (Text (Inr (as_dict (snd (List.last (hb_out h3)))))) s3)
    in g_sent s1 = g_sent s @ [identify_payload cfg] \<and> hb_sessions h2 = hb_sessions h @ [sid] \<and>
       (\<exists>x. map_of (hb_objects h2) sid = Some x \<and> gs_ws x = Some w \<and> gs_intents x = bc_intents cfg \<and> g_sequence s2 = JInt (gs_seq x)) \<and>
       g_session_id s2 = JStr sid \<and> g_state s2 = READY \<and> g_ready s2 \<and>
       g_sent s3 = g_sent s1 @ [JDict [(''op'', JInt 1), (''d'', JInt 1)]] \<and> g_heartbeat_ack_received s4"
proof -
  let ?h1 = "hub_connect v w h"
  have h1: "snd (List.last (hb_out ?h1)) = hello_frame v" "w \<in> set (hb_open ?h1)" "w \<notin> set (hb_broken ?h1)" "hb_sessions ?h1 = hb_sessions h"
    using assms(5) by (simp_all add: hub_connect_def hub_write_def hello_frame_def)
  have io: "io_send io = None" using assms(3) by (simp add: calm_io_def)
  obtain s1 where s1: "receive_one unzip cfg io (Text (Inr (as_dict (hello_frame v)))) s = (s1, None)"
    "g_sent s1 = g_sent s @ [identify_payload cfg]" "ws_open s1"
    using client_hello [OF assms(1) io assms(2)] by blast
  obtain h2 shard app x where h2: "hub_receive str v sid w (PeerJson (as_dict (identify_payload cfg))) ?h1 = h2"
    "hb_out h2 = hb_out ?h1 @ [(w, buffered_json \<lparr>bf_type = ''READY'', bf_seq = 1, bf_data = ready_data v sid shard app\<rparr>)]"
    "map_of (hb_objects h2) sid = Some x" "gs_seq x = 1" "gs_ws x = Some w" "gs_intents x = bc_intents cfg"
    "hb_sessions h2 = hb_sessions h @ [sid]" "w \<in> set (hb_open h2)" "w \<notin> set (hb_broken h2)"
    using hub_identify [OF h1(3,2) assms(6,4), of v sid] h1(2-4) by auto
  obtain s2 where s2: "receive_one unzip cfg io (Text (Inr (as_dict (buffered_json \<lparr>bf_type = ''READY'', bf_seq = 1, bf_data = ready_data v sid shard app\<rparr>)))) s1 = (s2, None)"
    "g_sequence s2 = JInt 1" "g_session_id s2 = JStr sid" "g_state s2 = READY" "g_ready s2" "g_sent s2 = g_sent s1" "ws_open s2"
    using client_ready [OF s1(3) assms(3), of unzip cfg 1 v sid shard app] by blast
  define s3 where "s3 = fst (send_heartbeat io s2)"
  have s3: "g_sent s3 = g_sent s1 @ [JDict [(''op'', JInt 1), (''d'', JInt 1)]]"
    using s2 io by (simp add: s3_def send_heartbeat_def runtime_send_payload_def ws_open_def)
  have h3: "List.last (hb_out (hub_receive str v sid2 w (PeerJson [(''op'', JInt 1), (''d'', JInt 1)]) h2)) = (w, JDict [(''op'', JInt OP_HEARTBEAT_ACK)])"
    using hub_heartbeat [OF h2(9,8)] by simp
  have ack: "g_heartbeat_ack_received (fst (receive_one unzip cfg io (Text (Inr (as_dict (JDict [(''op'', JInt OP_HEARTBEAT_ACK)])))) s3))"
    by (simp add: receive_one_def process_payload_def runtime_handle_payload_def as_dict_def jget_def dict_get_def eq_int_def mock_ops Let_def)
  show ?thesis using s1 h2 s2 s3 ack by (simp add: Let_def h1(1) h3 as_dict_def flip: s3_def)
qed

definition plain_str :: "json \<Rightarrow> string" where
  "plain_str v = (case v of JStr x \<Rightarrow> x | _ \<Rightarrow> ''1'')"

definition demo_view :: mock_view where
  "demo_view = \<lparr>mv_current_user = [(''id'', JStr ''1'')], mv_guilds = [], mv_ws_url = ''ws://mock'', mv_heartbeat_interval_ms = 41250,
     mv_event_buffer_size = 1\<rparr>"

theorem mock_session_established_witness:
  "g_session_id
     (fst (receive_one (\<lambda>_. Inl IndexError) example_config example_io
        (Text (Inr (as_dict (snd (List.last (hb_out
          (hub_receive plain_str demo_view ''s'' 0 (PeerJson (as_dict (identify_payload example_config))) (hub_connect demo_view 0 new_hub))))))))
        (fst (receive_one (\<lambda>_. Inl IndexError) example_config example_io (Text (Inr (as_dict (hello_frame demo_view)))) example_connected)))) =
   JStr ''s''"
proof -
  have c: "ws_open example_connected" "\<not> g_resume_on_hello example_connected" "calm_io example_io" "bc_token example_config \<noteq> []"
    "0 \<notin> set (hb_broken new_hub)" "\<And>x. plain_str (JStr x) = x" "g_sent example_connected = []"
    by (simp_all add: example_facts example_defs calm_io_def new_hub_def plain_str_def)
  have h: "snd (List.last (hb_out (hub_connect demo_view 0 new_hub))) = hello_frame demo_view"
    by (simp add: hub_connect_def hub_write_def hello_frame_def)
  have "io_send example_io = None" using c(3) by (simp add: calm_io_def)
  then have g: "List.last (g_sent (fst (receive_one (\<lambda>_. Inl IndexError) example_config example_io (Text (Inr (as_dict (hello_frame demo_view))))
      example_connected))) = identify_payload example_config"
    using client_hello [OF c(1) _ c(2)] by (metis fst_conv last_snoc)
  show ?thesis
    using mock_session_established [OF c(1-6), where v = demo_view and sid = "''s''" and unzip = "\<lambda>_. Inl IndexError"]
    by (simp add: Let_def h g)
qed

lemma send_event_ports: "hb_open (send_event sid t d h) = hb_open h" "hb_broken (send_event sid t d h) = hb_broken h"
  by (auto simp: send_event_eq put_session_def hub_write_def split: option.split)

lemma fold_send_ports:
  "hb_open (fold (\<lambda>sid. send_event sid t d) sids h) = hb_open h \<and> hb_broken (fold (\<lambda>sid. send_event sid t d) sids h) = hb_broken h"
  by (induction sids arbitrary: h) (simp_all add: send_event_ports)

lemma broadcast_ports: "hb_open (broadcast es h) = hb_open h" "hb_broken (broadcast es h) = hb_broken h"
  by (induction es arbitrary: h) (simp_all add: broadcast_def hub_dispatch_def Let_def fold_send_ports)

definition demo_hub :: hub where
  "demo_hub = hub_receive plain_str demo_view ''s'' 0 (PeerJson (as_dict (identify_payload example_config))) (hub_connect demo_view 0 new_hub)"


end
