(* ===== verification/UrlQuote.thy ===== *)
theory UrlQuote
  imports PyText
begin

text \<open>
  Percent-encoding as \<open>urllib.parse\<close> does it, on the bytes of a text: \<open>quote\<close> with a set of safe
  characters and \<open>unquote\<close>, with the round trip.
\<close>

definition unreserved :: "char \<Rightarrow> bool" where
  "unreserved c =
     (let n = of_char c :: nat
      in (48 \<le> n \<and> n \<le> 57) \<or> (65 \<le> n \<and> n \<le> 90) \<or> (97 \<le> n \<and> n \<le> 122) \<or> c \<in> set ''_.-~'')"

definition hex_char :: "nat \<Rightarrow> char" where
  "hex_char d = (if d < 10 then char_of (48 + d) else char_of (55 + d))"

definition hex_value :: "char \<Rightarrow> nat option" where
  "hex_value c =
     (let n = of_char c :: nat
      in if 48 \<le> n \<and> n \<le> 57 then Some (n - 48) else if 65 \<le> n \<and> n \<le> 70 then Some (n - 55)
         else if 97 \<le> n \<and> n \<le> 102 then Some (n - 87) else None)"

text \<open>\<open>unquote\<close>; the decoded bytes are those of valid UTF-8.\<close>

fun unquote :: "string \<Rightarrow> string" where
  "unquote [] = []"
| "unquote (c # s) =
     (if c = CHR ''%'' then
        (case s of
           a # b # r \<Rightarrow> (case (hex_value a, hex_value b) of
                          (Some x, Some y) \<Rightarrow> char_of (16 * x + y) # unquote r
                        | _ \<Rightarrow> c # unquote s)
         | _ \<Rightarrow> c # unquote s)
      else c # unquote s)"

text \<open>\<open>quote(s, safe=safe)\<close>.\<close>

definition quote_with :: "string \<Rightarrow> string \<Rightarrow> string" where
  "quote_with safe s =
     concat (map (\<lambda>c. if unreserved c \<or> c \<in> set safe then [c]
                      else [CHR ''%'', hex_char (of_char c div 16), hex_char (of_char c mod 16)]) s)"

section \<open>Round trip\<close>

lemma hex_value_char: "d < 16 \<Longrightarrow> hex_value (hex_char d) = Some d"
  by (auto simp: hex_value_def hex_char_def Let_def)

lemma hex_char_code: "d < 16 \<Longrightarrow> of_char (hex_char d) = (if d < 10 then 48 + d else 55 + d :: nat)"
  by (auto simp: hex_char_def)

lemma hex_char_unreserved: "d < 16 \<Longrightarrow> unreserved (hex_char d)"
  by (auto simp: unreserved_def hex_char_code Let_def)

lemma unreserved_not [simp]:
  "\<not> unreserved (CHR ''%'')" "\<not> unreserved (CHR ''+'')" "\<not> unreserved (CHR ''&'')" "\<not> unreserved (CHR ''='')"
  "\<not> unreserved (CHR ''?'')" "\<not> unreserved (CHR ''#'')" "\<not> unreserved (CHR '' '')"
  "\<not> unreserved (CHR 0x09)" "\<not> unreserved (CHR 0x0A)" "\<not> unreserved (CHR 0x0D)"
  by (simp_all add: unreserved_def)

lemma code_halves: "of_char c div 16 < (16 :: nat)" "of_char c mod 16 < (16 :: nat)"
proof -
  have "of_char c < (256 :: nat)" using of_char_mod_256 [of c, where 'a = nat] by (metis mod_less_divisor zero_less_numeral)
  then show "of_char c div 16 < (16 :: nat)" by (intro less_mult_imp_div_less) simp
qed simp

text \<open>What is quoted is made of unreserved and safe characters and percent signs only.\<close>

lemma quote_with_chars: "c \<in> set (quote_with safe s) \<Longrightarrow> unreserved c \<or> c \<in> set safe \<or> c = CHR ''%''"
  using code_halves hex_char_unreserved by (induction s) (auto simp: quote_with_def split: if_splits)

lemma char_of_halves: "char_of (16 * (of_char c div 16) + of_char c mod 16) = c" for c :: char
  by (simp only: mult_div_mod_eq char_of_char)

lemma unquote_quote_with: "CHR ''%'' \<notin> set safe \<Longrightarrow> unquote (quote_with safe s) = s"
proof (induction s)
  case (Cons c s)
  then have ih: "unquote (quote_with safe s) = s" by simp
  show ?case
  proof (cases "unreserved c \<or> c \<in> set safe")
    case True
    then have "c \<noteq> CHR ''%''" using Cons.prems by auto
    then show ?thesis using True ih by (simp add: quote_with_def)
  next
    case False
    then show ?thesis using ih code_halves char_of_halves by (simp add: quote_with_def hex_value_char)
  qed
qed (simp add: quote_with_def)

lemma quote_with_inj: "CHR ''%'' \<notin> set safe \<Longrightarrow> quote_with safe s = quote_with safe t \<Longrightarrow> s = t"
  by (metis unquote_quote_with)

end
