(* ===== verification/OAuth2.thy ===== *)
theory OAuth2
  imports UrlQuote
begin

text \<open>
  The OAuth2 client (src/vaidcord-py/src/vaidcord/oauth2.py): tokens and their expiry, the
  authorization URL and the parsing of the redirect it ends in, the grant flows and the refresh
  of the current token. What the service answers, the clock and what other tasks do to the client
  while a request is under way are arguments. Times are seconds since \<open>datetime.min\<close>.
\<close>

section \<open>Enumerations\<close>

datatype oauth2_scope =
    ACTIVITIES_READ | ACTIVITIES_WRITE | APPLICATIONS_BUILDS_READ | APPLICATIONS_BUILDS_UPLOAD | APPLICATIONS_COMMANDS
  | APPLICATIONS_COMMANDS_UPDATE | APPLICATIONS_COMMANDS_PERMISSIONS_UPDATE | APPLICATIONS_ENTITLEMENTS
  | APPLICATIONS_STORE_UPDATE | BOT_SCOPE | CONNECTIONS | DM_CHANNELS_READ | EMAIL | GDM_JOIN | GUILDS_SCOPE | GUILDS_JOIN
  | GUILDS_MEMBERS_READ | IDENTIFY_SCOPE | MESSAGES_READ | RELATIONSHIPS_READ | ROLE_CONNECTIONS_WRITE | RPC
  | RPC_ACTIVITIES_WRITE | RPC_NOTIFICATIONS_READ | RPC_VOICE_READ | RPC_VOICE_WRITE | VOICE_SCOPE | WEBHOOK_INCOMING

primrec scope_value :: "oauth2_scope \<Rightarrow> string" where
  "scope_value ACTIVITIES_READ = ''activities.read''"
| "scope_value ACTIVITIES_WRITE = ''activities.write''"
| "scope_value APPLICATIONS_BUILDS_READ = ''applications.builds.read''"
| "scope_value APPLICATIONS_BUILDS_UPLOAD = ''applications.builds.upload''"
| "scope_value APPLICATIONS_COMMANDS = ''applications.commands''"
| "scope_value APPLICATIONS_COMMANDS_UPDATE = ''applications.commands.update''"
| "scope_value APPLICATIONS_COMMANDS_PERMISSIONS_UPDATE = ''applications.commands.permissions.update''"
| "scope_value APPLICATIONS_ENTITLEMENTS = ''applications.entitlements''"
| "scope_value APPLICATIONS_STORE_UPDATE = ''applications.store.update''"
| "scope_value BOT_SCOPE = ''bot''"
| "scope_value CONNECTIONS = ''connections''"
| "scope_value DM_CHANNELS_READ = ''dm_channels.read''"
| "scope_value EMAIL = ''email''"
| "scope_value GDM_JOIN = ''gdm.join''"
| "scope_value GUILDS_SCOPE = ''guilds''"
| "scope_value GUILDS_JOIN = ''guilds.join''"
| "scope_value GUILDS_MEMBERS_READ = ''guilds.members.read''"
| "scope_value IDENTIFY_SCOPE = ''identify''"
| "scope_value MESSAGES_READ = ''messages.read''"
| "scope_value RELATIONSHIPS_READ = ''relationships.read''"
| "scope_value ROLE_CONNECTIONS_WRITE = ''role_connections.write''"
| "scope_value RPC = ''rpc''"
| "scope_value RPC_ACTIVITIES_WRITE = ''rpc.activities.write''"
| "scope_value RPC_NOTIFICATIONS_READ = ''rpc.notifications.read''"
| "scope_value RPC_VOICE_READ = ''rpc.voice.read''"
| "scope_value RPC_VOICE_WRITE = ''rpc.voice.write''"
| "scope_value VOICE_SCOPE = ''voice''"
| "scope_value WEBHOOK_INCOMING = ''webhook.incoming''"

datatype grant_type = AUTHORIZATION_CODE | REFRESH_TOKEN | CLIENT_CREDENTIALS

primrec grant_value :: "grant_type \<Rightarrow> string" where
  "grant_value AUTHORIZATION_CODE = ''authorization_code''"
| "grant_value REFRESH_TOKEN = ''refresh_token''"
| "grant_value CLIENT_CREDENTIALS = ''client_credentials''"

datatype integration_type = GUILD_INSTALL | USER_INSTALL

primrec integration_value :: "integration_type \<Rightarrow> int" where
  "integration_value GUILD_INSTALL = 0"
| "integration_value USER_INSTALL = 1"

datatype prompt_type = PROMPT_CONSENT | PROMPT_NONE

primrec prompt_value :: "prompt_type \<Rightarrow> string" where
  "prompt_value PROMPT_CONSENT = ''consent''"
| "prompt_value PROMPT_NONE = ''none''"

section \<open>Tokens\<close>

text \<open>The response of the service is not validated: everything but the scope is kept as it came.\<close>

record oauth2_token =
  ot_access_token :: json
  ot_token_type :: json
  ot_expires_in :: json
  ot_refresh_token :: json
  ot_scope :: "string list"
  ot_webhook :: json
  ot_guild :: json
  ot_user :: json
  ot_expires_at :: "real option"

text \<open>\<open>timedelta(seconds=v)\<close>, of at most 999999999 days, and the range of \<open>datetime\<close>.\<close>

definition timedelta_seconds :: "json \<Rightarrow> real result" where
  "timedelta_seconds v =
     (let checked = (\<lambda>x. if x < -86399999913600 \<or> 86400000000000 \<le> x then Inl OverflowError else Inr x) in
      case v of
        JInt i \<Rightarrow> checked (of_int i)
      | JBool b \<Rightarrow> checked (if b then 1 else 0)
      | JFloat f \<Rightarrow> checked f
      | _ \<Rightarrow> Inl (TypeError ''unsupported type for timedelta seconds component''))"

definition DATETIME_SPAN :: real where
  "DATETIME_SPAN = 315537897600"

definition datetime_add :: "real \<Rightarrow> real \<Rightarrow> real result" where
  "datetime_add t delta = (if t + delta < 0 \<or> DATETIME_SPAN \<le> t + delta then Inl OverflowError else Inr (t + delta))"

definition token_post_init :: "real \<Rightarrow> oauth2_token \<Rightarrow> oauth2_token result" where
  "token_post_init now tok =
     (if json_truthy (ot_expires_in tok) \<and> ot_expires_at tok = None then
        bind_result (timedelta_seconds (ot_expires_in tok)) (\<lambda>delta.
        bind_result (datetime_add now delta) (\<lambda>due. Inr (tok\<lparr>ot_expires_at := Some due\<rparr>)))
      else Inr tok)"

definition is_expired :: "real \<Rightarrow> oauth2_token \<Rightarrow> bool" where
  "is_expired now tok = (case ot_expires_at tok of None \<Rightarrow> False | Some due \<Rightarrow> due \<le> now)"

definition expires_in_seconds :: "real \<Rightarrow> oauth2_token \<Rightarrow> int" where
  "expires_in_seconds now tok =
     (case ot_expires_at tok of
        None \<Rightarrow> 0
      | Some due \<Rightarrow> (let delta = due - now in max 0 (if delta < 0 then \<lceil>delta\<rceil> else \<lfloor>delta\<rfloor>)))"

definition token_to_dict :: "oauth2_token \<Rightarrow> jdict" where
  "token_to_dict tok =
     [(''access_token'', ot_access_token tok), (''token_type'', ot_token_type tok), (''expires_in'', ot_expires_in tok),
      (''refresh_token'', ot_refresh_token tok), (''scope'', JList (map JStr (ot_scope tok))), (''webhook'', ot_webhook tok),
      (''guild'', ot_guild tok), (''user'', ot_user tok)]"

definition token_from_dict :: "real \<Rightarrow> jdict \<Rightarrow> oauth2_token result" where
  "token_from_dict now data =
     bind_result (dict_index data ''access_token'') (\<lambda>access_token.
     bind_result (dict_index data ''token_type'') (\<lambda>token_type.
     bind_result (dict_index data ''expires_in'') (\<lambda>expires_in.
       (case dict_get data ''scope'' (JStr []) of
          JStr s \<Rightarrow>
            token_post_init now
              \<lparr>ot_access_token = access_token, ot_token_type = token_type, ot_expires_in = expires_in,
               ot_refresh_token = jget data ''refresh_token'', ot_scope = py_words s, ot_webhook = jget data ''webhook'',
               ot_guild = jget data ''guild'', ot_user = jget data ''user'', ot_expires_at = None\<rparr>
        | _ \<Rightarrow> Inl (AttributeError ''split'')))))"

section \<open>Configuration\<close>

record oauth2_config =
  oc_client_id :: string
  oc_client_secret :: string
  oc_redirect_uri :: string
  oc_api_version :: string
  oc_base_url :: string
  oc_authorize_url :: string
  oc_user_agent :: "string option"

text \<open>\<open>agent\<close> is the result of \<open>build_user_agent()\<close>.\<close>

definition config_post_init :: "string \<Rightarrow> oauth2_config \<Rightarrow> oauth2_config" where
  "config_post_init agent cfg = (if oc_user_agent cfg = None then cfg\<lparr>oc_user_agent := Some agent\<rparr> else cfg)"

definition api_url :: "oauth2_config \<Rightarrow> string \<Rightarrow> string" where
  "api_url cfg path = oc_base_url cfg @ ''/v'' @ oc_api_version cfg @ path"

definition token_url :: "oauth2_config \<Rightarrow> string" where
  "token_url cfg = api_url cfg ''/oauth2/token''"

definition revoke_url :: "oauth2_config \<Rightarrow> string" where
  "revoke_url cfg = api_url cfg ''/oauth2/token/revoke''"

definition app_info_url :: "oauth2_config \<Rightarrow> string" where
  "app_info_url cfg = api_url cfg ''/oauth2/applications/@me''"

definition auth_info_url :: "oauth2_config \<Rightarrow> string" where
  "auth_info_url cfg = api_url cfg ''/oauth2/@me''"

section \<open>Query strings\<close>

text \<open>\<open>urllib.parse.quote_plus\<close> on the bytes of a text.\<close>

definition quote_char :: "char \<Rightarrow> string" where
  "quote_char c =
     (if unreserved c then [c] else if c = CHR '' '' then ''+''
      else [CHR ''%'', hex_char (of_char c div 16), hex_char (of_char c mod 16)])"

definition quote_plus :: "string \<Rightarrow> string" where
  "quote_plus s = concat (map quote_char s)"

definition urlencode :: "(string \<times> string) list \<Rightarrow> string" where
  "urlencode ps = py_join (CHR ''&'') (map (\<lambda>(k, v). quote_plus k @ CHR ''='' # quote_plus v) ps)"

record authorization_params =
  ap_response_type :: string
  ap_client_id :: string
  ap_redirect_uri :: string
  ap_scope :: "oauth2_scope list"
  ap_state :: "string option"
  ap_prompt :: "prompt_type option"
  ap_integration_type :: "integration_type option"
  ap_permissions :: "int option"
  ap_guild_id :: "string option"
  ap_disable_guild_select :: bool

text \<open>A string that may be None, where the code tests its truth value.\<close>

definition opt_text :: "string \<Rightarrow> string option \<Rightarrow> (string \<times> string) list" where
  "opt_text k v = (case v of None \<Rightarrow> [] | Some s \<Rightarrow> if s = [] then [] else [(k, s)])"

definition query_params :: "authorization_params \<Rightarrow> (string \<times> string) list" where
  "query_params p =
     [(''response_type'', ap_response_type p), (''client_id'', ap_client_id p), (''redirect_uri'', ap_redirect_uri p)] @
     (if ap_scope p = [] then [] else [(''scope'', py_join (CHR '' '') (map scope_value (ap_scope p)))]) @
     opt_text ''state'' (ap_state p) @
     (case ap_prompt p of None \<Rightarrow> [] | Some q \<Rightarrow> [(''prompt'', prompt_value q)]) @
     (case ap_integration_type p of None \<Rightarrow> [] | Some i \<Rightarrow> [(''integration_type'', show_int (integration_value i))]) @
     (case ap_permissions p of None \<Rightarrow> [] | Some n \<Rightarrow> [(''permissions'', show_int n)]) @
     opt_text ''guild_id'' (ap_guild_id p) @
     (if ap_disable_guild_select p then [(''disable_guild_select'', ''true'')] else [])"

definition to_query_string :: "authorization_params \<Rightarrow> string" where
  "to_query_string p = urlencode (query_params p)"

text \<open>\<open>random\<close> is the result of \<open>secrets.token_urlsafe(32)\<close>; the other parameters are the caller's.\<close>

definition build_authorization_url :: "string \<Rightarrow> oauth2_config \<Rightarrow> authorization_params \<Rightarrow> string" where
  "build_authorization_url random cfg p =
     (let state = (case ap_state p of None \<Rightarrow> random | Some s \<Rightarrow> s)
      in oc_authorize_url cfg @ CHR ''?'' #
         to_query_string (p\<lparr>ap_client_id := oc_client_id cfg, ap_redirect_uri := oc_redirect_uri cfg, ap_state := Some state\<rparr>))"

section \<open>Parsing a redirect\<close>

definition unquote_plus :: "string \<Rightarrow> string" where
  "unquote_plus s = unquote (replace_char (CHR ''+'') '' '' s)"

text \<open>\<open>s.partition(c)\<close> without the separator: the text before it, and the text after it if it occurs.\<close>

definition cut_at :: "char \<Rightarrow> string \<Rightarrow> string \<times> string option" where
  "cut_at c s =
     (case dropWhile (\<lambda>x. x \<noteq> c) s of [] \<Rightarrow> (s, None) | _ # r \<Rightarrow> (takeWhile (\<lambda>x. x \<noteq> c) s, Some r))"

definition parse_qsl :: "string \<Rightarrow> (string \<times> string) list" where
  "parse_qsl query =
     concat (map (\<lambda>field. case cut_at (CHR ''='') field of
         (name, Some (x # v)) \<Rightarrow> [(unquote_plus name, unquote_plus (x # v))]
       | _ \<Rightarrow> []) (py_split (CHR ''&'') query))"

text \<open>\<open>{k: v[0] for k, v in parse_qs(query).items()}\<close>: the first value of each name.\<close>

definition first_values :: "(string \<times> string) list \<Rightarrow> (string, string) dict" where
  "first_values ps = fold (\<lambda>(k, v) d. dict_setdefault d k v) ps []"

text \<open>
  \<open>urlparse\<close> as far as the query and the fragment go: control characters and spaces in front and
  tabs and line ends anywhere are dropped; \<open>netloc_ok\<close> is the check of the authority, which is what
  follows \<open>//\<close> after a scheme.
\<close>

definition scheme_char :: "char \<Rightarrow> bool" where
  "scheme_char c =
     (let n = of_char c :: nat
      in (48 \<le> n \<and> n \<le> 57) \<or> (65 \<le> n \<and> n \<le> 90) \<or> (97 \<le> n \<and> n \<le> 122) \<or> c \<in> set ''+-.'')"

definition after_scheme :: "string \<Rightarrow> string" where
  "after_scheme url =
     (case cut_at (CHR '':'') url of
        (s, Some r) \<Rightarrow>
          if s \<noteq> [] \<and> list_all scheme_char s \<and> (let n = of_char (hd s) :: nat in (65 \<le> n \<and> n \<le> 90) \<or> (97 \<le> n \<and> n \<le> 122)) then r else url
      | _ \<Rightarrow> url)"

definition netloc_of :: "string \<Rightarrow> string" where
  "netloc_of url =
     (let r = after_scheme url in if take 2 r = ''//'' then takeWhile (\<lambda>c. c \<notin> set ''/?#'') (drop 2 r) else [])"

definition url_parts :: "(string \<Rightarrow> bool) \<Rightarrow> string \<Rightarrow> (string \<times> string) result" where
  "url_parts netloc_ok url0 =
     (let url = filter (\<lambda>c. c \<notin> set [CHR 0x09, CHR 0x0A, CHR 0x0D]) (dropWhile (\<lambda>c. of_char c \<le> (32 :: nat)) url0) in
      if \<not> netloc_ok (netloc_of url) then Inl (ValueError ''Invalid IPv6 URL'')
      else
        (case cut_at (CHR ''#'') url of
           (u, f) \<Rightarrow> Inr (case snd (cut_at (CHR ''?'') u) of None \<Rightarrow> [] | Some q \<Rightarrow> q, case f of None \<Rightarrow> [] | Some r \<Rightarrow> r)))"

definition fragment_params :: "string \<Rightarrow> (string, string) dict" where
  "fragment_params fragment =
     fold (\<lambda>param d. case cut_at (CHR ''='') param of (key, Some v) \<Rightarrow> dict_set d key v | _ \<Rightarrow> d) (py_split (CHR ''&'') fragment) []"

definition parse_redirect_url :: "(string \<Rightarrow> bool) \<Rightarrow> string \<Rightarrow> (string, string) dict result" where
  "parse_redirect_url netloc_ok url =
     bind_result (url_parts netloc_ok url) (\<lambda>(query, fragment).
       if fragment \<noteq> [] then Inr (fragment_params fragment) else Inr (first_values (parse_qsl query)))"

section \<open>Client\<close>

text \<open>\<open>base64.b64encode\<close>.\<close>

definition b64_char :: "nat \<Rightarrow> char" where
  "b64_char n =
     (if n < 26 then char_of (65 + n) else if n < 52 then char_of (71 + n) else if n < 62 then char_of (n - 4)
      else if n = 62 then CHR ''+'' else CHR ''/'')"

fun b64encode :: "string \<Rightarrow> string" where
  "b64encode [] = []"
| "b64encode [a] =
     (let x = of_char a :: nat in [b64_char (x div 4), b64_char (x mod 4 * 16), CHR ''='', CHR ''=''])"
| "b64encode [a, b] =
     (let x = of_char a :: nat; y = of_char b :: nat
      in [b64_char (x div 4), b64_char (x mod 4 * 16 + y div 16), b64_char (y mod 16 * 4), CHR ''=''])"
| "b64encode (a # b # c # s) =
     (let x = of_char a :: nat; y = of_char b :: nat; z = of_char c :: nat
      in b64_char (x div 4) # b64_char (x mod 4 * 16 + y div 16) # b64_char (y mod 16 * 4 + z div 64) # b64_char (z mod 64) # b64encode s)"

record oauth_request =
  rq_method :: string
  rq_url :: string
  rq_data :: jdict
  rq_params :: "(string \<times> string) list"
  rq_authorization :: string

text \<open>What a request ends in: an exception of aiohttp, or a status and what \<open>response.json()\<close> gives.\<close>

datatype oauth_reply = NoReply exc | Reply int "json result"

datatype oauth_exc = OAuth2Error int json json | Raised exc

type_synonym 'a oauth_result = "oauth_exc + 'a"

text \<open>\<open>cl_session\<close> says whether there is a session and whether it is open; \<open>cl_sent\<close> has the requests made.\<close>

record oauth2_client =
  cl_session :: "bool option"
  cl_current_token :: "oauth2_token option"
  cl_sent :: "oauth_request list"

definition new_oauth2_client :: oauth2_client where
  "new_oauth2_client = \<lparr>cl_session = None, cl_current_token = None, cl_sent = []\<rparr>"

definition get_session :: "oauth2_client \<Rightarrow> oauth2_client" where
  "get_session c = (if cl_session c = None \<or> cl_session c = Some False then c\<lparr>cl_session := Some True\<rparr> else c)"

definition close_oauth2 :: "oauth2_client \<Rightarrow> oauth2_client" where
  "close_oauth2 c = (if cl_session c = Some True then c\<lparr>cl_session := None\<rparr> else c)"

definition get_basic_auth :: "oauth2_config \<Rightarrow> string" where
  "get_basic_auth cfg = ''Basic '' @ b64encode (oc_client_id cfg @ '':'' @ oc_client_secret cfg)"

definition send_oauth :: "oauth_request \<Rightarrow> oauth2_client \<Rightarrow> oauth2_client" where
  "send_oauth r c = (let c1 = get_session c in c1\<lparr>cl_sent := cl_sent c1 @ [r]\<rparr>)"

definition oauth_failure :: "int \<Rightarrow> json result \<Rightarrow> oauth_exc" where
  "oauth_failure status body =
     (case body of
        Inl e \<Rightarrow> Raised e
      | Inr (JDict d) \<Rightarrow> OAuth2Error status (dict_get d ''code'' (JInt 0)) (dict_get d ''message'' (JStr ''Unknown error''))
      | Inr _ \<Rightarrow> Raised (AttributeError ''get''))"

definition oauth_body :: "oauth_reply \<Rightarrow> json oauth_result" where
  "oauth_body reply =
     (case reply of
        NoReply e \<Rightarrow> Inl (Raised e)
      | Reply status body \<Rightarrow>
          if status \<noteq> 200 then Inl (oauth_failure status body)
          else (case body of Inl e \<Rightarrow> Inl (Raised e) | Inr v \<Rightarrow> Inr v))"

definition token_of_body :: "real \<Rightarrow> json \<Rightarrow> oauth2_token result" where
  "token_of_body now body = (case body of JDict d \<Rightarrow> token_from_dict now d | _ \<Rightarrow> Inl (TypeError ''not subscriptable''))"

text \<open>
  The grants: \<open>data\<close> is posted to the token endpoint and the answer becomes the current token.
  \<open>during\<close> is what other tasks do to the client until the answer is there.
\<close>

definition post_token ::
  "oauth2_config \<Rightarrow> real \<Rightarrow> oauth_reply \<Rightarrow> (oauth2_client \<Rightarrow> oauth2_client) \<Rightarrow> jdict \<Rightarrow> oauth2_client \<Rightarrow> oauth2_token oauth_result \<times> oauth2_client" where
  "post_token cfg now reply during data c =
     (let c1 = during (send_oauth \<lparr>rq_method = ''POST'', rq_url = token_url cfg, rq_data = data, rq_params = [],
                                   rq_authorization = get_basic_auth cfg\<rparr> c)
      in case oauth_body reply of
           Inl e \<Rightarrow> (Inl e, c1)
         | Inr body \<Rightarrow>
             (case token_of_body now body of
                Inl e \<Rightarrow> (Inl (Raised e), c1)
              | Inr tok \<Rightarrow> (Inr tok, c1\<lparr>cl_current_token := Some tok\<rparr>)))"

definition exchange_code ::
  "oauth2_config \<Rightarrow> real \<Rightarrow> oauth_reply \<Rightarrow> (oauth2_client \<Rightarrow> oauth2_client) \<Rightarrow> string \<Rightarrow> string option \<Rightarrow> oauth2_client \<Rightarrow> oauth2_token oauth_result \<times> oauth2_client" where
  "exchange_code cfg now reply during code redirect_uri c =
     (let uri = (case redirect_uri of None \<Rightarrow> oc_redirect_uri cfg | Some u \<Rightarrow> if u = [] then oc_redirect_uri cfg else u)
      in post_token cfg now reply during
           [(''grant_type'', JStr (grant_value AUTHORIZATION_CODE)), (''code'', JStr code), (''redirect_uri'', JStr uri)] c)"

definition refresh_access_token ::
  "oauth2_config \<Rightarrow> real \<Rightarrow> oauth_reply \<Rightarrow> (oauth2_client \<Rightarrow> oauth2_client) \<Rightarrow> json \<Rightarrow> oauth2_client \<Rightarrow> oauth2_token oauth_result \<times> oauth2_client" where
  "refresh_access_token cfg now reply during refresh_token c =
     post_token cfg now reply during [(''grant_type'', JStr (grant_value REFRESH_TOKEN)), (''refresh_token'', refresh_token)] c"

definition get_client_credentials_token ::
  "oauth2_config \<Rightarrow> real \<Rightarrow> oauth_reply \<Rightarrow> (oauth2_client \<Rightarrow> oauth2_client) \<Rightarrow> oauth2_scope list option \<Rightarrow> oauth2_client \<Rightarrow> oauth2_token oauth_result \<times> oauth2_client" where
  "get_client_credentials_token cfg now reply during scope c =
     post_token cfg now reply during
       ((''grant_type'', JStr (grant_value CLIENT_CREDENTIALS)) #
        (case scope of None \<Rightarrow> [] | Some ss \<Rightarrow> if ss = [] then [] else [(''scope'', JStr (py_join (CHR '' '') (map scope_value ss)))])) c"

definition login_with_credentials ::
  "oauth2_config \<Rightarrow> real \<Rightarrow> oauth_reply \<Rightarrow> (oauth2_client \<Rightarrow> oauth2_client) \<Rightarrow> string \<Rightarrow> string \<Rightarrow> string option \<Rightarrow> oauth2_client \<Rightarrow> oauth2_token oauth_result \<times> oauth2_client" where
  "login_with_credentials cfg now reply during username password mfa_code c =
     post_token cfg now reply during
       ([(''grant_type'', JStr ''password''), (''username'', JStr username), (''password'', JStr password)] @
        map (\<lambda>(k, v). (k, JStr v)) (opt_text ''mfa_code'' mfa_code)) c"

definition revoke_token ::
  "oauth2_config \<Rightarrow> oauth_reply \<Rightarrow> string \<Rightarrow> string option \<Rightarrow> oauth2_client \<Rightarrow> unit oauth_result \<times> oauth2_client" where
  "revoke_token cfg reply tok hint c =
     (let c1 = send_oauth \<lparr>rq_method = ''POST'', rq_url = revoke_url cfg,
                 rq_data = (''token'', JStr tok) # map (\<lambda>(k, v). (k, JStr v)) (opt_text ''token_type_hint'' hint),
                 rq_params = [], rq_authorization = get_basic_auth cfg\<rparr> c
      in (case reply of
            NoReply e \<Rightarrow> Inl (Raised e)
          | Reply status body \<Rightarrow> if status \<noteq> 200 then Inl (oauth_failure status body) else Inr (), c1))"

definition bearer_get ::
  "string \<Rightarrow> oauth_reply \<Rightarrow> string \<Rightarrow> (string \<times> string) list \<Rightarrow> oauth2_client \<Rightarrow> json oauth_result \<times> oauth2_client" where
  "bearer_get url reply access_token params c =
     (oauth_body reply,
      send_oauth \<lparr>rq_method = ''GET'', rq_url = url, rq_data = [], rq_params = params, rq_authorization = ''Bearer '' @ access_token\<rparr> c)"

definition get_current_authorization :: "oauth2_config \<Rightarrow> oauth_reply \<Rightarrow> string \<Rightarrow> oauth2_client \<Rightarrow> json oauth_result \<times> oauth2_client" where
  "get_current_authorization cfg reply access_token c = bearer_get (auth_info_url cfg) reply access_token [] c"

definition get_bot_application_info :: "oauth2_config \<Rightarrow> oauth_reply \<Rightarrow> string \<Rightarrow> oauth2_client \<Rightarrow> json oauth_result \<times> oauth2_client" where
  "get_bot_application_info cfg reply access_token c = bearer_get (app_info_url cfg) reply access_token [] c"

definition get_user_connections :: "oauth2_config \<Rightarrow> oauth_reply \<Rightarrow> string \<Rightarrow> oauth2_client \<Rightarrow> json oauth_result \<times> oauth2_client" where
  "get_user_connections cfg reply access_token c = bearer_get (api_url cfg ''/users/@me/connections'') reply access_token [] c"

definition get_user_guilds ::
  "oauth2_config \<Rightarrow> oauth_reply \<Rightarrow> string \<Rightarrow> int \<Rightarrow> string option \<Rightarrow> string option \<Rightarrow> oauth2_client \<Rightarrow> json oauth_result \<times> oauth2_client" where
  "get_user_guilds cfg reply access_token limit before after c =
     bearer_get (api_url cfg ''/users/@me/guilds'') reply access_token
       ((''limit'', show_int limit) # opt_text ''before'' before @ opt_text ''after'' after) c"

definition get_current_user :: "oauth2_config \<Rightarrow> oauth_reply \<Rightarrow> string \<Rightarrow> oauth2_client \<Rightarrow> json oauth_result \<times> oauth2_client" where
  "get_current_user cfg reply access_token c = bearer_get (api_url cfg ''/users/@me'') reply access_token [] c"

text \<open>The body of the lock of \<open>ensure_valid_token\<close>; an answer arrives at the time \<open>later\<close>.\<close>

definition ensure_valid_token ::
  "oauth2_config \<Rightarrow> real \<Rightarrow> real \<Rightarrow> oauth_reply \<Rightarrow> (oauth2_client \<Rightarrow> oauth2_client) \<Rightarrow> oauth2_client \<Rightarrow> oauth2_token option oauth_result \<times> oauth2_client" where
  "ensure_valid_token cfg now later reply during c =
     (case cl_current_token c of
        None \<Rightarrow> (Inr None, c)
      | Some tok \<Rightarrow>
          if is_expired now tok \<and> json_truthy (ot_refresh_token tok) then
            (case refresh_access_token cfg later reply during (ot_refresh_token tok) c of
               (Inr tok', c1) \<Rightarrow> (Inr (Some tok'), c1)
             | (Inl (OAuth2Error status code message), c1) \<Rightarrow> (Inr None, c1\<lparr>cl_current_token := None\<rparr>)
             | (Inl (Raised e), c1) \<Rightarrow> (Inl (Raised e), c1))
          else (Inr (Some tok), c))"

text \<open>Tasks that wait for the lock run one after the other, each with its times and its answer.\<close>

primrec ensure_queue ::
  "oauth2_config \<Rightarrow> (real \<times> real \<times> oauth_reply) list \<Rightarrow> oauth2_client \<Rightarrow> oauth2_token option oauth_result list \<times> oauth2_client" where
  "ensure_queue cfg [] c = ([], c)"
| "ensure_queue cfg (t # ts) c =
     (case ensure_valid_token cfg (fst t) (fst (snd t)) (snd (snd t)) id c of
        (r, c1) \<Rightarrow> (case ensure_queue cfg ts c1 of (rs, c2) \<Rightarrow> (r # rs, c2)))"

section \<open>Query strings round-trip\<close>

definition query_char :: "char \<Rightarrow> bool" where
  "query_char c \<longleftrightarrow> unreserved c \<or> c = CHR ''%'' \<or> c = CHR ''+''"

lemma query_char_not [simp]:
  "\<not> query_char (CHR ''&'')" "\<not> query_char (CHR ''='')" "\<not> query_char (CHR ''?'')" "\<not> query_char (CHR ''#'')"
  "\<not> query_char (CHR 0x09)" "\<not> query_char (CHR 0x0A)" "\<not> query_char (CHR 0x0D)"
  by (simp_all add: query_char_def)

lemma quote_plus_chars: "list_all query_char (quote_plus s)"
proof -
  have "list_all query_char (quote_char c)" for c
    using code_halves by (auto simp: quote_char_def query_char_def hex_char_unreserved)
  then show ?thesis by (induction s) (auto simp: quote_plus_def)
qed

lemma quote_plus_free: "\<not> query_char c \<Longrightarrow> c \<notin> set (quote_plus s)"
  using quote_plus_chars [of s] by (auto simp: list_all_iff)

lemma quote_plus_Nil [simp]: "quote_plus s = [] \<longleftrightarrow> s = []"
  by (cases s) (auto simp: quote_plus_def quote_char_def)

lemma unquote_plus_quote [simp]: "unquote_plus (quote_plus s) = s"
proof (induction s)
  case (Cons c s)
  have ih: "unquote (replace_char (CHR ''+'') '' '' (quote_plus s)) = s" using Cons.IH by (simp add: unquote_plus_def)
  have h: "hex_char d \<noteq> CHR ''+''" if "d < 16" for d using hex_char_unreserved [OF that] by auto
  have "char_of (16 * (of_char c div 16) + of_char c mod 16) = c" by (simp only: mult_div_mod_eq char_of_char)
  note char = this
  show ?case
  proof (cases "unreserved c")
    case True
    then have "c \<noteq> CHR ''+''" "c \<noteq> CHR ''%''" by auto
    then show ?thesis using True ih by (simp add: unquote_plus_def quote_plus_def quote_char_def)
  next
    case False
    then show ?thesis
      using ih char h [OF code_halves(1)] h [OF code_halves(2)] hex_value_char [OF code_halves(1)] hex_value_char [OF code_halves(2)]
      by (cases "c = CHR '' ''") (simp_all add: unquote_plus_def quote_plus_def quote_char_def)
  qed
qed (simp add: unquote_plus_def quote_plus_def)

lemma cut_at_first: "c \<notin> set s \<Longrightarrow> cut_at c (s @ c # r) = (s, Some r)"
proof -
  assume "c \<notin> set s"
  then have "takeWhile (\<lambda>x. x \<noteq> c) (s @ c # r) = s" "dropWhile (\<lambda>x. x \<noteq> c) (s @ c # r) = c # r"
    by (induction s) auto
  then show ?thesis by (simp add: cut_at_def)
qed

lemma cut_at_none: "c \<notin> set s \<Longrightarrow> cut_at c s = (s, None)"
proof -
  assume "c \<notin> set s"
  then have d: "dropWhile (\<lambda>x. x \<noteq> c) s = []" by auto
  show ?thesis unfolding cut_at_def by (simp only: d list.case)
qed

definition query_field :: "string \<times> string \<Rightarrow> string" where
  "query_field p = quote_plus (fst p) @ CHR ''='' # quote_plus (snd p)"

lemma urlencode_fields: "urlencode ps = py_join (CHR ''&'') (map query_field ps)"
  by (simp add: urlencode_def query_field_def [abs_def] case_prod_beta')

lemma query_field_free: "CHR ''&'' \<notin> set (query_field p)"
  using quote_plus_free [of "CHR ''&''"] by (simp add: query_field_def)

lemma cut_query_field: "cut_at (CHR ''='') (query_field p) = (quote_plus (fst p), Some (quote_plus (snd p)))"
  unfolding query_field_def by (rule cut_at_first) (rule quote_plus_free, simp)

lemma split_urlencode: "ps \<noteq> [] \<Longrightarrow> py_split (CHR ''&'') (urlencode ps) = map query_field ps"
  unfolding urlencode_fields by (rule py_split_join) (simp_all add: list_all_iff query_field_free)

lemma parse_query_field:
  assumes "snd p \<noteq> []"
  shows "(case cut_at (CHR ''='') (query_field p) of
         (name, Some (x # v)) \<Rightarrow> [(unquote_plus name, unquote_plus (x # v))] | _ \<Rightarrow> []) = [p]"
proof -
  obtain x w where q: "quote_plus (snd p) = x # w" using assms by (metis list.exhaust quote_plus_Nil)
  have "unquote_plus (x # w) = snd p" using unquote_plus_quote [of "snd p"] by (simp only: q)
  then show ?thesis by (simp add: cut_query_field q)
qed

lemma parse_qsl_urlencode:
  assumes "ps \<noteq> []" and "list_all (\<lambda>p. snd p \<noteq> []) ps"
  shows "parse_qsl (urlencode ps) = ps"
proof -
  have "concat (map (\<lambda>field. case cut_at (CHR ''='') field of
         (name, Some (x # v)) \<Rightarrow> [(unquote_plus name, unquote_plus (x # v))] | _ \<Rightarrow> []) (map query_field ps)) = ps"
    using assms(2) by (induction ps) (simp_all add: parse_query_field)
  then show ?thesis unfolding parse_qsl_def split_urlencode [OF assms(1)] .
qed

lemma first_values_distinct:
  assumes "distinct (map fst ps)"
  shows "first_values ps = ps"
proof -
  have fresh: "k \<notin> fst ` set d \<Longrightarrow> dict_set d k v = d @ [(k, v)]" for d k v by (induction d) auto
  have "distinct (map fst (d @ ps)) \<Longrightarrow> fold (\<lambda>(k, v) d. dict_setdefault d k v) ps d = d @ ps" for d
  proof (induction ps arbitrary: d)
    case (Cons p ps)
    have "map_of d (fst p) = None" "fst p \<notin> fst ` set d" using Cons.prems by (auto simp: map_of_eq_None_iff)
    then show ?case using Cons by (cases p) (simp add: dict_setdefault_def fresh)
  qed simp
  then show ?thesis using assms by (simp add: first_values_def)
qed

definition plain_base :: "string \<Rightarrow> bool" where
  "plain_base u = list_all (\<lambda>c. 32 < (of_char c :: nat) \<and> c \<noteq> CHR ''?'' \<and> c \<noteq> CHR ''#'') u"

lemma urlencode_chars: "c \<in> set (urlencode ps) \<Longrightarrow> query_char c \<or> c = CHR ''&'' \<or> c = CHR ''=''"
proof (induction ps)
  case (Cons p ps)
  have "query_char x \<or> x = CHR ''=''" if "x \<in> set (query_field p)" for x
    using that quote_plus_chars by (auto simp: query_field_def list_all_iff)
  then show ?case using Cons by (auto simp: urlencode_fields split: if_splits)
qed (simp add: urlencode_fields)

lemma query_char_printable: "query_char c \<Longrightarrow> 32 < (of_char c :: nat)"
  by (auto simp: query_char_def unreserved_def Let_def)

lemma clean_url:
  assumes "plain_base u" and "sep = CHR ''?'' \<or> sep = CHR ''#''"
  shows "filter (\<lambda>c. c \<notin> set [CHR 0x09, CHR 0x0A, CHR 0x0D]) (dropWhile (\<lambda>c. of_char c \<le> (32 :: nat)) (u @ sep # urlencode ps)) = u @ sep # urlencode ps"
proof -
  have p: "32 < (of_char c :: nat)" if m: "c \<in> set (u @ sep # urlencode ps)" for c
  proof -
    consider "c \<in> set u" | "c = sep" | "c \<in> set (urlencode ps)" using m by auto
    then show ?thesis
    proof cases
      case 1 then show ?thesis using assms(1) by (auto simp: plain_base_def list_all_iff)
    next
      case 2 then show ?thesis using assms(2) by auto
    next
      case 3 then show ?thesis using urlencode_chars [OF 3] query_char_printable by auto
    qed
  qed
  have "dropWhile (\<lambda>c. of_char c \<le> (32 :: nat)) xs = xs" if "\<And>c. c \<in> set xs \<Longrightarrow> 32 < (of_char c :: nat)" for xs
    using that [of "hd xs"] by (cases xs) auto
  moreover have "filter (\<lambda>c. c \<notin> set [CHR 0x09, CHR 0x0A, CHR 0x0D]) xs = xs" if "\<And>c. c \<in> set xs \<Longrightarrow> 32 < (of_char c :: nat)" for xs
    using that by (intro filter_True) fastforce
  ultimately show ?thesis using p by presburger
qed

lemma plain_base_free: "plain_base u \<Longrightarrow> CHR ''#'' \<notin> set u" "plain_base u \<Longrightarrow> CHR ''?'' \<notin> set u"
  by (auto simp: plain_base_def list_all_iff)

lemma urlencode_free: "CHR ''#'' \<notin> set (urlencode ps)"
  using urlencode_chars [of "CHR ''#''" ps] by auto

lemma query_url_parts:
  assumes "plain_base u" and "netloc_ok (netloc_of (u @ CHR ''?'' # urlencode ps))"
  shows "url_parts netloc_ok (u @ CHR ''?'' # urlencode ps) = Inr (urlencode ps, [])"
proof -
  have "CHR ''#'' \<notin> set (u @ CHR ''?'' # urlencode ps)" using plain_base_free(1) [OF assms(1)] urlencode_free by auto
  from cut_at_none [OF this] show ?thesis
    unfolding url_parts_def clean_url [OF assms(1) disjI1 [OF refl]] Let_def
    using assms(2) cut_at_first [OF plain_base_free(2) [OF assms(1)]] by simp
qed

text \<open>An optional parameter contributes its name at most once.\<close>

lemma optional_names:
  "\<exists>n \<le> Suc 0. map fst (opt_text k v) = replicate n k"
  "\<exists>n \<le> Suc 0. map fst (case w of None \<Rightarrow> [] | Some x \<Rightarrow> [(k, f x)]) = replicate n k"
  "\<exists>n \<le> Suc 0. map fst (if b then [] else [(k, x)]) = replicate n k"
  "\<exists>n \<le> Suc 0. map fst (if b then [(k, x)] else []) = replicate n k"
proof -
  have r: "\<exists>n \<le> Suc 0. [] = replicate n k" "\<exists>n \<le> Suc 0. [k] = replicate n k"
    by (auto intro: exI [of _ 0] exI [of _ "Suc 0"])
  show "\<exists>n \<le> Suc 0. map fst (opt_text k v) = replicate n k" using r by (auto simp: opt_text_def split: option.split)
  show "\<exists>n \<le> Suc 0. map fst (case w of None \<Rightarrow> [] | Some x \<Rightarrow> [(k, f x)]) = replicate n k" using r by (auto split: option.split)
  show "\<exists>n \<le> Suc 0. map fst (if b then [] else [(k, x)]) = replicate n k" using r by auto
  show "\<exists>n \<le> Suc 0. map fst (if b then [(k, x)] else []) = replicate n k" using r by auto
qed

lemma query_params_distinct: "distinct (map fst (query_params p))"
proof -
  obtain a where a: "a \<le> Suc 0" "map fst (if ap_scope p = [] then [] else [(''scope'', py_join (CHR '' '') (map scope_value (ap_scope p)))]) = replicate a ''scope''"
    using optional_names(3) [of "ap_scope p = []" "''scope''" "py_join (CHR '' '') (map scope_value (ap_scope p))"] by blast
  obtain b where b: "b \<le> Suc 0" "map fst (opt_text ''state'' (ap_state p)) = replicate b ''state''"
    using optional_names(1) [of "''state''" "ap_state p"] by blast
  obtain c where c: "c \<le> Suc 0" "map fst (case ap_prompt p of None \<Rightarrow> [] | Some q \<Rightarrow> [(''prompt'', prompt_value q)]) = replicate c ''prompt''"
    using optional_names(2) [where w = "ap_prompt p" and k = "''prompt''" and f = prompt_value] by blast
  obtain d where d: "d \<le> Suc 0"
    "map fst (case ap_integration_type p of None \<Rightarrow> [] | Some i \<Rightarrow> [(''integration_type'', show_int (integration_value i))]) = replicate d ''integration_type''"
    using optional_names(2) [where w = "ap_integration_type p" and k = "''integration_type''" and f = "\<lambda>i. show_int (integration_value i)"] by blast
  obtain e where e: "e \<le> Suc 0" "map fst (case ap_permissions p of None \<Rightarrow> [] | Some n \<Rightarrow> [(''permissions'', show_int n)]) = replicate e ''permissions''"
    using optional_names(2) [where w = "ap_permissions p" and k = "''permissions''" and f = show_int] by blast
  obtain f where f: "f \<le> Suc 0" "map fst (opt_text ''guild_id'' (ap_guild_id p)) = replicate f ''guild_id''"
    using optional_names(1) [of "''guild_id''" "ap_guild_id p"] by blast
  obtain g where g: "g \<le> Suc 0"
    "map fst (if ap_disable_guild_select p then [(''disable_guild_select'', ''true'')] else []) = replicate g ''disable_guild_select''"
    using optional_names(4) [of "ap_disable_guild_select p" "''disable_guild_select''" "''true''"] by blast
  have "map fst (query_params p) = [''response_type'', ''client_id'', ''redirect_uri''] @ replicate a ''scope'' @ replicate b ''state'' @
      replicate c ''prompt'' @ replicate d ''integration_type'' @ replicate e ''permissions'' @ replicate f ''guild_id'' @
      replicate g ''disable_guild_select''"
    unfolding query_params_def map_append a(2) b(2) c(2) d(2) e(2) f(2) g(2) by simp
  moreover have "n \<le> Suc 0 \<Longrightarrow> distinct (replicate n x)" for n and x :: string by (cases n) auto
  ultimately show ?thesis using a(1) b(1) c(1) d(1) e(1) f(1) g(1) by (auto simp: disjoint_iff)
qed

lemma query_params_ok:
  assumes "ap_response_type p \<noteq> []" and "ap_client_id p \<noteq> []" and "ap_redirect_uri p \<noteq> []"
  shows "list_all (\<lambda>q. snd q \<noteq> []) (query_params p)" and "distinct (map fst (query_params p))" and "query_params p \<noteq> []"
proof -
  have "scope_value s \<noteq> []" for s by (cases s) simp_all
  then have "ss \<noteq> [] \<Longrightarrow> py_join (CHR '' '') (map scope_value ss) \<noteq> []" for ss by (cases ss) auto
  moreover have "prompt_value q \<noteq> []" for q by (cases q) simp_all
  moreover have "show_int n \<noteq> []" for n by (simp add: show_int_def)
  ultimately show "list_all (\<lambda>q. snd q \<noteq> []) (query_params p)"
    using assms by (auto simp: query_params_def opt_text_def split: option.split)
  show "distinct (map fst (query_params p))" by (rule query_params_distinct)
  show "query_params p \<noteq> []" by (simp add: query_params_def)
qed


definition demo_config :: oauth2_config where
  "demo_config = \<lparr>oc_client_id = ''1'', oc_client_secret = ''s'', oc_redirect_uri = ''http://h/a?b=c&d e'', oc_api_version = ''10'',
     oc_base_url = ''https://discord.com/api'', oc_authorize_url = ''https://discord.com/oauth2/authorize'', oc_user_agent = None\<rparr>"

definition demo_params :: authorization_params where
  "demo_params = \<lparr>ap_response_type = ''code'', ap_client_id = [], ap_redirect_uri = [], ap_scope = [IDENTIFY_SCOPE, EMAIL], ap_state = None,
     ap_prompt = None, ap_integration_type = None, ap_permissions = None, ap_guild_id = None, ap_disable_guild_select = False\<rparr>"


section \<open>Findings on redirects and tokens\<close>

text \<open>
  The parameters of a fragment are not decoded: what an implicit grant returns comes back with its
  percent signs.
\<close>

lemma fragment_not_decoded:
  assumes "plain_base u" and "netloc_ok (netloc_of (u @ CHR ''#'' # urlencode [(k, v)]))"
  shows "parse_redirect_url netloc_ok (u @ CHR ''#'' # urlencode [(k, v)]) = Inr [(quote_plus k, quote_plus v)]"
proof -
  have "url_parts netloc_ok (u @ CHR ''#'' # urlencode [(k, v)]) = Inr ([], urlencode [(k, v)])"
    unfolding url_parts_def clean_url [OF assms(1) disjI2 [OF refl]] Let_def
    using assms(2) cut_at_first [OF plain_base_free(1) [OF assms(1)]] cut_at_none [OF plain_base_free(2) [OF assms(1)]] by simp
  moreover have "urlencode [(k, v)] \<noteq> []" by (simp add: urlencode_fields query_field_def)
  ultimately show ?thesis
    using split_urlencode [of "[(k, v)]"] cut_query_field [of "(k, v)"] by (simp add: parse_redirect_url_def fragment_params_def)
qed

text \<open>\<open>from_dict\<close> refuses every dictionary that \<open>to_dict\<close> makes: it splits the scope, which is a list there.\<close>

lemma token_dict_does_not_load: "token_from_dict now (token_to_dict tok) = Inl (AttributeError ''split'')"
  by (simp add: token_from_dict_def token_to_dict_def dict_index_def dict_get_def)

text \<open>A token as the service sends it loads with its scopes and expires \<open>expires_in\<close> seconds later.\<close>

lemma service_token_loads:
  assumes "map_of d ''access_token'' = Some a" and "map_of d ''token_type'' = Some ty" and "map_of d ''expires_in'' = Some (JInt n)"
    and "map_of d ''scope'' = Some (JStr (py_join (CHR '' '') scopes))"
    and "list_all (\<lambda>w. w \<noteq> [] \<and> list_all (\<lambda>x. \<not> is_space x) w) scopes"
    and "0 < n" and "0 \<le> now" and "now + of_int n < DATETIME_SPAN"
  shows "\<exists>tok. token_from_dict now d = Inr tok \<and> ot_access_token tok = a \<and> ot_scope tok = scopes \<and>
    ot_refresh_token tok = jget d ''refresh_token'' \<and> (\<forall>t. is_expired t tok = (now + of_int n \<le> t))"
proof -
  have "timedelta_seconds (JInt n) = Inr (of_int n)" "datetime_add now (of_int n) = Inr (now + of_int n)"
    using assms(6-8) by (auto simp: timedelta_seconds_def datetime_add_def DATETIME_SPAN_def Let_def)
  then show ?thesis
    using assms(1-4,6) py_words_join [OF assms(5)]
    by (simp add: token_from_dict_def dict_index_def dict_get_def jget_def token_post_init_def json_truthy_def is_expired_def)
qed

section \<open>Keeping the token valid\<close>

definition refresh_request :: "oauth2_config \<Rightarrow> json \<Rightarrow> oauth_request" where
  "refresh_request cfg r =
     \<lparr>rq_method = ''POST'', rq_url = token_url cfg, rq_data = [(''grant_type'', JStr ''refresh_token''), (''refresh_token'', r)],
      rq_params = [], rq_authorization = get_basic_auth cfg\<rparr>"

lemma refresh_ok:
  assumes "token_from_dict later d = Inr tok"
  shows "refresh_access_token cfg later (Reply 200 (Inr (JDict d))) during r c =
    (Inr tok, (during (send_oauth (refresh_request cfg r) c))\<lparr>cl_current_token := Some tok\<rparr>)"
  using assms by (simp add: refresh_access_token_def post_token_def oauth_body_def token_of_body_def refresh_request_def Let_def)

lemma send_oauth_eq: "send_oauth r c = c\<lparr>cl_session := Some True, cl_sent := cl_sent c @ [r]\<rparr>"
proof (cases "cl_session c = Some True")
  case True
  then show ?thesis by (cases c) (simp add: send_oauth_def get_session_def Let_def)
next
  case False
  then have "cl_session c = None \<or> cl_session c = Some False" by (metis (full_types) option.exhaust)
  then show ?thesis by (simp add: send_oauth_def get_session_def Let_def)
qed

lemma ensure_unexpired:
  assumes "cl_current_token c = Some tok" and "list_all (\<lambda>t. \<not> is_expired (fst t) tok) ts"
  shows "ensure_queue cfg ts c = (replicate (length ts) (Inr (Some tok)), c)"
  using assms by (induction ts) (auto simp: ensure_valid_token_def)

text \<open>
  C17: tasks that need a token at the same time share one refresh. When the current token has
  expired and the service accepts its refresh token, the first task to get the lock posts one
  refresh request, authenticated as the client; every task that waited gets the new token, the client
  keeps it, and no second request is made as long as the new token has not expired.
\<close>

theorem concurrent_refresh_once:
  assumes "cl_current_token c = Some old" and "is_expired now old" and "json_truthy (ot_refresh_token old)"
    and "map_of d ''access_token'' = Some a" and "map_of d ''token_type'' = Some ty" and "map_of d ''expires_in'' = Some (JInt n)"
    and "map_of d ''scope'' = Some (JStr (py_join (CHR '' '') scopes))"
    and "list_all (\<lambda>w. w \<noteq> [] \<and> list_all (\<lambda>x. \<not> is_space x) w) scopes"
    and "0 < n" and "0 \<le> later" and "later + of_int n < DATETIME_SPAN" and "list_all (\<lambda>t. fst t < later + of_int n) rest"
  shows "\<exists>new. ot_access_token new = a \<and> ot_scope new = scopes \<and>
    ensure_queue cfg ((now, later, Reply 200 (Inr (JDict d))) # rest) c =
      (replicate (Suc (length rest)) (Inr (Some new)),
       c\<lparr>cl_session := Some True, cl_current_token := Some new, cl_sent := cl_sent c @ [refresh_request cfg (ot_refresh_token old)]\<rparr>)"
proof -
  obtain new where new: "token_from_dict later d = Inr new" "ot_access_token new = a" "ot_scope new = scopes"
    "\<And>t. is_expired t new = (later + of_int n \<le> t)"
    using service_token_loads [OF assms(4-11)] by blast
  let ?c = "c\<lparr>cl_session := Some True, cl_current_token := Some new, cl_sent := cl_sent c @ [refresh_request cfg (ot_refresh_token old)]\<rparr>"
  have "ensure_valid_token cfg now later (Reply 200 (Inr (JDict d))) id c = (Inr (Some new), ?c)"
    using assms(1-3) by (simp add: ensure_valid_token_def refresh_ok [OF new(1)] send_oauth_eq)
  moreover have "ensure_queue cfg rest ?c = (replicate (length rest) (Inr (Some new)), ?c)"
    using assms(12) new(4) by (intro ensure_unexpired) (auto simp: list_all_iff not_le)
  ultimately show ?thesis using new(2,3) by auto
qed

definition demo_client :: oauth2_client where
  "demo_client = \<lparr>cl_session = None, cl_current_token = Some \<lparr>ot_access_token = JStr ''a'', ot_token_type = JStr ''Bearer'', ot_expires_in = JInt 60,
     ot_refresh_token = JStr ''r'', ot_scope = [''identify''], ot_webhook = JNull, ot_guild = JNull, ot_user = JNull, ot_expires_at = Some 60\<rparr>, cl_sent = []\<rparr>"

theorem concurrent_refresh_once_witness:
  "length (cl_sent (snd (ensure_queue demo_config [(100, 101, Reply 200 (Inr (JDict [(''access_token'', JStr ''b''), (''token_type'', JStr ''Bearer''),
     (''expires_in'', JInt 60), (''scope'', JStr ''identify email'')]))), (110, 110, NoReply IndexError)] demo_client))) = 1"
proof -
  obtain old where old: "cl_current_token demo_client = Some old" "is_expired 100 old" "json_truthy (ot_refresh_token old)" "cl_sent demo_client = []"
    by (simp add: demo_client_def is_expired_def json_truthy_def)
  show ?thesis
    using concurrent_refresh_once [OF old(1-3), where d = "[(''access_token'', JStr ''b''), (''token_type'', JStr ''Bearer''),
        (''expires_in'', JInt 60), (''scope'', JStr ''identify email'')]" and a = "JStr ''b''" and ty = "JStr ''Bearer''" and n = 60
        and scopes = "[''identify'', ''email'']" and later = 101 and rest = "[(110, 110, NoReply IndexError)]" and cfg = demo_config] old(4)
    by (auto simp: DATETIME_SPAN_def is_space_def)
qed

text \<open>
  An expired token without refresh token, such as one of the client credentials grant, is returned
  although it is not valid any more.
\<close>

lemma expired_token_returned:
  "cl_current_token c = Some tok \<Longrightarrow> \<not> json_truthy (ot_refresh_token tok) \<Longrightarrow>
   ensure_valid_token cfg now later reply during c = (Inr (Some tok), c)"
  by (simp add: ensure_valid_token_def)

text \<open>
  A refused refresh drops the current token, also one that another task has just obtained with a
  new authorization code while the refresh was under way.
\<close>

lemma refused_refresh_drops_new_token:
  assumes "cl_current_token c = Some old" and "is_expired now old" and "json_truthy (ot_refresh_token old)" and "status \<noteq> 200"
    and "token_from_dict later d = Inr new"
    and "during = (\<lambda>c. snd (exchange_code cfg later (Reply 200 (Inr (JDict d))) id code None c))"
  shows "\<exists>c'. cl_current_token (during (send_oauth (refresh_request cfg (ot_refresh_token old)) c)) = Some new \<and>
    ensure_valid_token cfg now later (Reply status (Inr (JDict e))) during c = (Inr None, c') \<and> cl_current_token c' = None"
  using assms
  by (simp add: ensure_valid_token_def refresh_access_token_def exchange_code_def post_token_def oauth_body_def oauth_failure_def token_of_body_def Let_def)

section \<open>Client authentication\<close>

text \<open>The decoding a server applies to the Basic header.\<close>

definition b64_value :: "char \<Rightarrow> nat" where
  "b64_value c =
     (let n = of_char c :: nat
      in if 65 \<le> n \<and> n \<le> 90 then n - 65 else if 97 \<le> n \<and> n \<le> 122 then n - 71 else if 48 \<le> n \<and> n \<le> 57 then n + 4
         else if c = CHR ''+'' then 62 else 63)"

fun b64decode :: "string \<Rightarrow> string" where
  "b64decode (a # b # c # d # s) =
     (let w = b64_value a; x = b64_value b; y = b64_value c; z = b64_value d
      in if d = CHR ''='' then
           (if c = CHR ''='' then [char_of (w * 4 + x div 16)] else [char_of (w * 4 + x div 16), char_of (x mod 16 * 16 + y div 4)])
         else char_of (w * 4 + x div 16) # char_of (x mod 16 * 16 + y div 4) # char_of (y mod 4 * 64 + z) # b64decode s)"
| "b64decode s = []"

lemma b64_value_char: "n < 64 \<Longrightarrow> b64_value (b64_char n) = n"
  by (auto simp: b64_value_def b64_char_def Let_def)

lemma b64_char_pad: "n < 64 \<Longrightarrow> b64_char n \<noteq> CHR ''=''"
proof
  assume n: "n < 64" and e: "b64_char n = CHR ''=''"
  have "b64_value (CHR ''='') = 63" by (simp add: b64_value_def)
  then have "n = 63" using b64_value_char [OF n] e by simp
  then show False using e by (simp add: b64_char_def)
qed

lemma code_parts: "of_char c div 4 < (64 :: nat)" "of_char c div 16 < (16 :: nat)" "of_char c div 64 < (4 :: nat)"
proof -
  have "of_char c < (256 :: nat)" using of_char_mod_256 [of c, where 'a = nat] by (metis mod_less_divisor zero_less_numeral)
  then show "of_char c div 4 < (64 :: nat)" "of_char c div 16 < (16 :: nat)" "of_char c div 64 < (4 :: nat)"
    by (auto intro: less_mult_imp_div_less)
qed

lemma b64_roundtrip: "b64decode (b64encode s) = s"
proof (induction s rule: b64encode.induct)
  case 1 then show ?case by simp
next
  case (2 a)
  have "of_char a div 4 < (64 :: nat)" "of_char a mod 4 * 16 < (64 :: nat)" using code_parts(1) [of a] by auto
  then show ?case by (simp add: Let_def b64_value_char)
next
  case (3 a b)
  have "of_char a div 4 < (64 :: nat)" "of_char a mod 4 * 16 + of_char b div 16 < (64 :: nat)" "of_char b mod 16 * 4 < (64 :: nat)"
    using code_parts(1) [of a] code_parts(2) [of b] by auto
  then show ?case using code_parts(2) [of b] by (simp add: Let_def b64_value_char b64_char_pad)
next
  case (4 a b c s)
  have "of_char a div 4 < (64 :: nat)" "of_char a mod 4 * 16 + of_char b div 16 < (64 :: nat)"
    "of_char b mod 16 * 4 + of_char c div 64 < (64 :: nat)" "of_char c mod 64 < (64 :: nat)"
    using code_parts(1) [of a] code_parts(2) [of b] code_parts(3) [of c] by auto
  then show ?case using 4 code_parts(2) [of b] code_parts(3) [of c] by (simp add: Let_def b64_value_char b64_char_pad)
qed

lemma basic_auth_decodes: "b64decode (drop 6 (get_basic_auth cfg)) = oc_client_id cfg @ '':'' @ oc_client_secret cfg"
  by (simp add: get_basic_auth_def b64_roundtrip)

end
