(* ===== verification/LogFormat.thy ===== *)
theory LogFormat
  imports PyValue PyText
begin

text \<open>
  The logging helpers (src/vaidcord-py/src/vaidcord/logging.py): the context filter that fills in where a record
  comes from, the formatter, and the handlers that write to one file or to one file per bot. The text
  of floats and containers, and \<open>repr\<close>, are parameters; files are dictionaries from names to lines, and
  rotation by time is left out.
\<close>

section \<open>Records\<close>

text \<open>
  The event attached to a record, as far as the helpers look at it: ids of the bot and of its user, the event id, the id of its
  message and its type. A record may lack each of the four context attributes.
\<close>

record log_event =
  le_bot :: "(int option \<times> int option) option"
  le_event_id :: "string option"
  le_message_id :: "int option"
  le_type :: "string option"

datatype log_message = MessageText string | MessageFields jdict

record log_record =
  lr_name :: string
  lr_levelname :: string
  lr_msg :: log_message
  lr_event :: "log_event option"
  lr_category :: "string option"
  lr_bot_id :: "string option"
  lr_event_id :: "string option"
  lr_request_id :: "string option"

definition record_mapping :: "log_record \<Rightarrow> jdict option" where
  "record_mapping r = (case lr_msg r of MessageText _ \<Rightarrow> None | MessageFields d \<Rightarrow> Some d)"

definition log_text :: "(json \<Rightarrow> string) \<Rightarrow> json \<Rightarrow> string" where
  "log_text other v = (case py_str v of Some s \<Rightarrow> s | None \<Rightarrow> other v)"

section \<open>The context of a record\<close>

definition lower_char :: "char \<Rightarrow> char" where
  "lower_char c = (let n = of_char c :: nat in if 65 \<le> n \<and> n \<le> 90 then char_of (n + 32) else c)"

definition has_text :: "string \<Rightarrow> string \<Rightarrow> bool" where
  "has_text w s = list_ex (\<lambda>i. take (length w) (drop i s) = w) [0..<Suc (length s)]"

definition derive_category :: "string \<Rightarrow> string" where
  "derive_category logger_name =
     (let name = map lower_char logger_name in
      if has_text ''router'' name then ''ROUTING''
      else if has_text ''fsm'' name then ''FSM''
      else if has_text ''filter'' name then ''FILTERS''
      else if has_text ''middleware'' name then ''MIDDLEWARES''
      else if has_text ''gateway'' name then ''GATEWAY''
      else if has_text ''http'' name \<or> has_text ''api_client'' name \<or> has_text ''oauth'' name then ''API''
      else if has_text ''mock'' name then ''MOCK''
      else if has_text ''bot'' name then ''BOT''
      else ''GENERAL'')"

definition field_text :: "(json \<Rightarrow> string) \<Rightarrow> log_record \<Rightarrow> string \<Rightarrow> string option" where
  "field_text other r key =
     (case record_mapping r of
        None \<Rightarrow> None
      | Some d \<Rightarrow> (let v = jget d key in if v = JNull then None else Some (log_text other v)))"

definition derive_bot_id :: "(json \<Rightarrow> string) \<Rightarrow> string option \<Rightarrow> log_record \<Rightarrow> string" where
  "derive_bot_id other default_bot_id r =
     (case field_text other r ''bot_id'' of
        Some s \<Rightarrow> s
      | None \<Rightarrow>
          (let fallback = (case default_bot_id of Some s \<Rightarrow> s | None \<Rightarrow> ''-'') in
           case lr_event r of
             None \<Rightarrow> fallback
           | Some e \<Rightarrow>
               (case le_bot e of
                  Some (Some user, _) \<Rightarrow> show_int user
                | Some (None, Some bot_id) \<Rightarrow> show_int bot_id
                | _ \<Rightarrow> fallback)))"

definition derive_event_id :: "(json \<Rightarrow> string) \<Rightarrow> log_record \<Rightarrow> string" where
  "derive_event_id other r =
     (case field_text other r ''event_id'' of
        Some s \<Rightarrow> s
      | None \<Rightarrow>
          (case field_text other r ''message_id'' of
             Some s \<Rightarrow> s
           | None \<Rightarrow>
               (case lr_event r of
                  None \<Rightarrow> ''-''
                | Some e \<Rightarrow>
                    (case le_event_id e of
                       Some s \<Rightarrow> s
                     | None \<Rightarrow>
                         (case le_message_id e of
                            Some i \<Rightarrow> show_int i
                          | None \<Rightarrow> (case le_type e of Some s \<Rightarrow> s | None \<Rightarrow> ''-''))))))"

definition derive_request_id :: "(json \<Rightarrow> string) \<Rightarrow> log_record \<Rightarrow> string" where
  "derive_request_id other r = (case field_text other r ''request_id'' of Some s \<Rightarrow> s | None \<Rightarrow> ''-'')"

definition or_derived :: "string option \<Rightarrow> string \<Rightarrow> string option" where
  "or_derived v d = (case v of Some s \<Rightarrow> Some s | None \<Rightarrow> Some d)"

definition context_filter :: "(json \<Rightarrow> string) \<Rightarrow> string option \<Rightarrow> log_record \<Rightarrow> log_record" where
  "context_filter other default_bot_id r =
     (let r1 = r\<lparr>lr_category := or_derived (lr_category r) (derive_category (lr_name r))\<rparr>;
          r2 = r1\<lparr>lr_bot_id := or_derived (lr_bot_id r1) (derive_bot_id other default_bot_id r1)\<rparr>;
          r3 = r2\<lparr>lr_event_id := or_derived (lr_event_id r2) (derive_event_id other r2)\<rparr>
      in r3\<lparr>lr_request_id := or_derived (lr_request_id r3) (derive_request_id other r3)\<rparr>)"

section \<open>Formatting\<close>

definition hidden_fields :: "string list" where
  "hidden_fields = [''event'', ''bot_id'', ''event_id'', ''message_id'', ''request_id'']"

definition format_log_message :: "(json \<Rightarrow> string) \<Rightarrow> (json \<Rightarrow> string) \<Rightarrow> log_record \<Rightarrow> string" where
  "format_log_message other repr r =
     (case lr_msg r of
        MessageText s \<Rightarrow> s
      | MessageFields d \<Rightarrow>
          (let event = log_text other (dict_get d ''event'' (JStr ''event''));
               fs = map (\<lambda>(k, v). k @ ''='' @ repr v) (filter (\<lambda>(k, v). k \<notin> set hidden_fields) d)
           in if fs = [] then event else event @ '' '' @ py_join (CHR '' '') fs))"

definition esc :: "string \<Rightarrow> string" where
  "esc code = CHR 0x1B # CHR ''['' # code @ ''m''"

definition background_for_level :: "string \<Rightarrow> string" where
  "background_for_level level =
     (case map_of [(''DEBUG'', esc ''48;5;238'' @ esc ''38;5;250''), (''INFO'', esc ''48;5;24'' @ esc ''38;5;195''),
                   (''SUCCESS'', esc ''48;5;22'' @ esc ''38;5;194''), (''WARNING'', esc ''48;5;94'' @ esc ''38;5;230''),
                   (''ERROR'', esc ''48;5;88'' @ esc ''38;5;224''), (''CRITICAL'', esc ''48;5;52'' @ esc ''38;5;225'')] level of
        Some s \<Rightarrow> s
      | None \<Rightarrow> esc ''48;5;238'' @ esc ''38;5;250'')"

definition badge :: "string \<Rightarrow> string \<Rightarrow> string" where
  "badge text style = style @ esc ''1'' @ '' '' @ text @ '' '' @ esc ''0''"

definition paint :: "string \<Rightarrow> string \<Rightarrow> string" where
  "paint text color = color @ text @ esc ''0''"

definition quoted :: "string \<Rightarrow> string" where
  "quoted s = CHR 0x22 # s @ [CHR 0x22]"

definition format_record :: "(json \<Rightarrow> string) \<Rightarrow> (json \<Rightarrow> string) \<Rightarrow> bool \<Rightarrow> string \<Rightarrow> log_record \<Rightarrow> string" where
  "format_record other repr use_color prefix r =
     (let attr = (\<lambda>v d. case v of Some s \<Rightarrow> s | None \<Rightarrow> d);
          level = (if use_color then badge (lr_levelname r) (background_for_level (lr_levelname r)) else lr_levelname r);
          category = attr (lr_category r) ''GENERAL'';
          category = (if use_color then badge category (esc ''48;5;236'' @ esc ''38;5;159'') else category);
          bot_id = attr (lr_bot_id r) ''-''; bot_id = (if use_color then paint bot_id (esc ''38;5;120'') else bot_id);
          event_id = attr (lr_event_id r) ''-''; event_id = (if use_color then paint event_id (esc ''38;5;213'') else event_id);
          request_id = attr (lr_request_id r) ''-''; request_id = (if use_color then paint request_id (esc ''38;5;111'') else request_id)
      in prefix @ '' | ['' @ level @ ''] | ['' @ category @ ''] | Bot id='' @ quoted bot_id @ '' | Event id='' @ quoted event_id @
         '' | Request id='' @ quoted request_id @ '' | '' @ format_log_message other repr r)"

section \<open>Files\<close>

text \<open>The name of a path: \<open>stem\<close> and \<open>suffixes\<close> of pathlib.\<close>

definition path_suffixes :: "string \<Rightarrow> string list" where
  "path_suffixes name =
     (if name \<noteq> [] \<and> last name = CHR ''.'' then []
      else map (\<lambda>s. CHR ''.'' # s) (tl (py_split (CHR ''.'') (dropWhile (\<lambda>c. c = CHR ''.'') name))))"

definition path_stem :: "string \<Rightarrow> string" where
  "path_stem name =
     (let r = dropWhile (\<lambda>c. c \<noteq> CHR ''.'') (rev name); stem = rev (tl r) in
      if r = [] \<or> stem = [] \<or> last name = CHR ''.'' then name else stem)"

text \<open>\<open>with_name\<close> refuses a name with a separator.\<close>

definition bot_filename :: "string \<Rightarrow> string \<Rightarrow> string result" where
  "bot_filename base bot_id =
     (let suffix = (case concat (path_suffixes base) of [] \<Rightarrow> ''.log'' | s \<Rightarrow> s);
          name = path_stem base @ ''.bot-'' @ bot_id @ suffix
      in if CHR ''/'' \<in> set name then Inl (ValueError ''Invalid name'') else Inr name)"

type_synonym log_files = "(string, string list) dict"

definition append_line :: "string \<Rightarrow> string \<Rightarrow> log_files \<Rightarrow> log_files" where
  "append_line name line fs = dict_set fs name (dict_get fs name [] @ [line])"

text \<open>The handler that splits by bot; the handler of a bot is opened with its first record.\<close>

record bot_handler =
  bh_base :: string
  bh_handlers :: "(string, string) dict"
  bh_files :: log_files

definition bot_emit :: "(log_record \<Rightarrow> string) \<Rightarrow> log_record \<Rightarrow> bot_handler \<Rightarrow> unit result \<times> bot_handler" where
  "bot_emit format r h =
     (let bot_id = (case lr_bot_id r of Some s \<Rightarrow> s | None \<Rightarrow> ''unknown'') in
      case map_of (bh_handlers h) bot_id of
        Some name \<Rightarrow> (Inr (), h\<lparr>bh_files := append_line name (format r) (bh_files h)\<rparr>)
      | None \<Rightarrow>
          (case bot_filename (bh_base h) bot_id of
             Inl e \<Rightarrow> (Inl e, h)
           | Inr name \<Rightarrow>
               (Inr (), h\<lparr>bh_handlers := dict_set (bh_handlers h) bot_id name, bh_files := append_line name (format r) (bh_files h)\<rparr>)))"

definition close_bot_handler :: "bot_handler \<Rightarrow> bot_handler" where
  "close_bot_handler h = h\<lparr>bh_handlers := []\<rparr>"

text \<open>\<open>handle\<close> of logging runs the filter before \<open>emit\<close>.\<close>

definition log_to_bots ::
  "(json \<Rightarrow> string) \<Rightarrow> (json \<Rightarrow> string) \<Rightarrow> string option \<Rightarrow> string \<Rightarrow> log_record \<Rightarrow> bot_handler \<Rightarrow> bot_handler" where
  "log_to_bots other repr default_bot_id prefix r h =
     snd (bot_emit (format_record other repr False prefix) (context_filter other default_bot_id r) h)"

section \<open>Facts\<close>

lemma filtered_complete:
  "lr_category (context_filter other d r) \<noteq> None \<and> lr_bot_id (context_filter other d r) \<noteq> None \<and>
   lr_event_id (context_filter other d r) \<noteq> None \<and> lr_request_id (context_filter other d r) \<noteq> None"
  by (simp add: context_filter_def Let_def or_derived_def split: option.split)

lemma filtered_keeps: "lr_bot_id r = Some b \<Longrightarrow> lr_bot_id (context_filter other d r) = Some b"
  by (simp add: context_filter_def Let_def or_derived_def)

lemma filter_idempotent: "context_filter other d2 (context_filter other d r) = context_filter other d r"
  by (simp add: context_filter_def Let_def or_derived_def split: option.split)

lemma bot_filename_inj: "bot_filename base a = Inr n \<Longrightarrow> bot_filename base b = Inr n \<Longrightarrow> a = b"
  by (auto simp: bot_filename_def Let_def split: if_splits list.splits)

definition bot_handler_inv :: "bot_handler \<Rightarrow> bool" where
  "bot_handler_inv h \<longleftrightarrow> (\<forall>b n. map_of (bh_handlers h) b = Some n \<longrightarrow> bot_filename (bh_base h) b = Inr n)"

definition bot_lines :: "(log_record \<Rightarrow> string) \<Rightarrow> string \<Rightarrow> log_record list \<Rightarrow> string list" where
  "bot_lines format b rs = map format (filter (\<lambda>r. lr_bot_id r = Some b) rs)"

lemma emit_step:
  assumes inv: "bot_handler_inv h" and id: "lr_bot_id r = Some c" and b: "bot_filename (bh_base h) b = Inr name"
  shows "bot_handler_inv (snd (bot_emit format r h)) \<and> bh_base (snd (bot_emit format r h)) = bh_base h \<and>
    dict_get (bh_files (snd (bot_emit format r h))) name [] =
      dict_get (bh_files h) name [] @ (if c = b then [format r] else [])"
proof (cases "map_of (bh_handlers h) c")
  case (Some n)
  have "bot_filename (bh_base h) c = Inr n" using inv Some by (simp add: bot_handler_inv_def)
  then have "n = name \<longleftrightarrow> c = b" using b bot_filename_inj by auto
  then show ?thesis using inv id Some by (auto simp: bot_emit_def append_line_def dict_get_def bot_handler_inv_def)
next
  case None
  show ?thesis
  proof (cases "bot_filename (bh_base h) c")
    case (Inl e)
    then show ?thesis using inv id None b by (auto simp: bot_emit_def)
  next
    case (Inr n)
    then have "n = name \<longleftrightarrow> c = b" using b bot_filename_inj by auto
    then show ?thesis using inv id None Inr by (auto simp: bot_emit_def append_line_def dict_get_def bot_handler_inv_def)
  qed
qed

text \<open>
  The files of the bots are kept apart: after any records, the file of a bot has gained exactly the lines of the
  records whose bot id, given or derived, is that bot's, in order.
\<close>

theorem bot_logs_separated:
  assumes "bot_handler_inv h" and "bot_filename (bh_base h) b = Inr name"
  shows "dict_get (bh_files (fold (log_to_bots other repr d prefix) rs h)) name [] =
    dict_get (bh_files h) name [] @ bot_lines (format_record other repr False prefix) b (map (context_filter other d) rs)"
  using assms
proof (induction rs arbitrary: h)
  case (Cons r rs)
  obtain c where c: "lr_bot_id (context_filter other d r) = Some c" using filtered_complete by fastforce
  show ?case
    using emit_step [OF Cons.prems(1) c Cons.prems(2), of "format_record other repr False prefix"]
      Cons.IH [of "log_to_bots other repr d prefix r h"] Cons.prems(2) c
    by (simp add: log_to_bots_def bot_lines_def)
qed (simp add: bot_lines_def)

text \<open>With several suffixes all but the last come twice.\<close>

lemma repeated_suffix: "bot_filename ''bot.debug.log'' ''7'' = Inr ''bot.debug.bot-7.debug.log''"
  by code_simp

end
