(* ===== verification/ErrorText.thy ===== *)
theory ErrorText
  imports ErrorTypes PyText
begin

text \<open>
  The remaining error classes of src/vaidcord-py/src/vaidcord/errors.py and the texts and dictionaries that errors
  are shown as. The text of floats and containers is a parameter; \<open>str\<close> of an error fails where Python's
  \<open>join\<close> meets a message that is not a string.
\<close>

section \<open>Errors of the application\<close>

record validation_error = vaidcord_error +
  va_field :: "string option"
  va_value :: json

definition validation_error_of :: "json \<Rightarrow> string option \<Rightarrow> json \<Rightarrow> jdict \<Rightarrow> validation_error" where
  "validation_error_of message f v raw =
     vaidcord_error.extend (base_error ValidationError message (JInt 400) (Some 400) [] raw) (validation_error.fields f v)"

record oauth2_error = vaidcord_error +
  oe_error_type :: "string option"
  oe_error_description :: "string option"

definition oauth2_error_of :: "json \<Rightarrow> string option \<Rightarrow> string option \<Rightarrow> jdict \<Rightarrow> oauth2_error" where
  "oauth2_error_of message error_type description raw =
     vaidcord_error.extend (base_error OAuth2Error message JNull None [] raw) (oauth2_error.fields error_type description)"

record missing_permissions = vaidcord_error +
  mi_missing_permissions :: "string list"
  mi_required_permissions :: "string list"
  mi_channel_id :: json
  mi_guild_id :: json

definition list_or_empty :: "string list option \<Rightarrow> string list" where
  "list_or_empty v = (case v of Some xs \<Rightarrow> xs | None \<Rightarrow> [])"

definition missing_permissions_of ::
  "json \<Rightarrow> string list option \<Rightarrow> string list option \<Rightarrow> json \<Rightarrow> json \<Rightarrow> jdict \<Rightarrow> missing_permissions" where
  "missing_permissions_of message missing required channel_id guild_id raw =
     vaidcord_error.extend (base_error MissingPermissions message (JInt 50013) (Some 403) [] raw)
       (missing_permissions.fields (list_or_empty missing) (list_or_empty required) channel_id guild_id)"

record hierarchy_error = vaidcord_error +
  hi_action :: "string option"
  hi_target_id :: json
  hi_target_role_position :: "int option"
  hi_bot_highest_role_position :: "int option"
  hi_guild_id :: json

definition hierarchy_error_of ::
  "json \<Rightarrow> string option \<Rightarrow> json \<Rightarrow> int option \<Rightarrow> int option \<Rightarrow> json \<Rightarrow> jdict \<Rightarrow> hierarchy_error" where
  "hierarchy_error_of message action target_id target_position bot_position guild_id raw =
     vaidcord_error.extend (base_error HierarchyError message (JInt 50013) (Some 403) [] raw)
       (hierarchy_error.fields action target_id target_position bot_position guild_id)"

text \<open>The gateway errors with their close code given as a member of the enumeration.\<close>

definition gateway_error_of :: "json \<Rightarrow> string option \<Rightarrow> jdict \<Rightarrow> vaidcord_error" where
  "gateway_error_of message close_code raw =
     (base_error GatewayError message (case close_code of None \<Rightarrow> JNull | Some c \<Rightarrow> JInt (the (map_of gateway_close_codes c))) None [] raw)
       \<lparr>ve_close_code := close_code\<rparr>"

definition voice_gateway_error_of :: "json \<Rightarrow> string option \<Rightarrow> jdict \<Rightarrow> vaidcord_error" where
  "voice_gateway_error_of message close_code raw =
     (base_error VoiceGatewayError message (case close_code of None \<Rightarrow> JNull | Some c \<Rightarrow> JInt (the (map_of voice_close_codes c))) None [] raw)
       \<lparr>ve_close_code := close_code\<rparr>"

section \<open>Texts\<close>

definition value_text :: "(json \<Rightarrow> string) \<Rightarrow> json \<Rightarrow> string" where
  "value_text other v = (case py_str v of Some s \<Rightarrow> s | None \<Rightarrow> other v)"

primrec join_text :: "string \<Rightarrow> string list \<Rightarrow> string" where
  "join_text sep [] = []"
| "join_text sep (w # ws) = (if ws = [] then w else w @ sep @ join_text sep ws)"

text \<open>\<open>sep.join([message, *rest])\<close>; the message may be anything that the response had.\<close>

definition join_message :: "string \<Rightarrow> json \<Rightarrow> string list \<Rightarrow> string result" where
  "join_message sep message rest =
     (case message of
        JStr s \<Rightarrow> Inr (join_text sep (s # rest))
      | _ \<Rightarrow> Inl (TypeError ''sequence item 0: expected str instance''))"

definition base_str :: "(json \<Rightarrow> string) \<Rightarrow> vaidcord_error \<Rightarrow> string result" where
  "base_str other e =
     join_message '' '' (ve_message e)
       ((if ve_code e = JNull then [] else [''(Code: '' @ value_text other (ve_code e) @ '')'']) @
        (case ve_status e of None \<Rightarrow> [] | Some i \<Rightarrow> [''(Status: '' @ show_int i @ '')'']))"

definition formatted_details :: "(json \<Rightarrow> string) \<Rightarrow> vaidcord_error \<Rightarrow> string" where
  "formatted_details other e =
     (if ve_details e = [] then []
      else join_text [CHR 0x0A] (''Error Details:'' #
             map (\<lambda>d. ''  - '' @ join_text ''.'' (ed_path d) @ '': '' @ value_text other (ed_message d) @ '' ('' @
                    value_text other (ed_code d) @ '')'') (ve_details e)))"

definition bool_text :: "bool \<Rightarrow> string" where
  "bool_text b = (if b then ''True'' else ''False'')"

definition close_parts :: "vaidcord_error \<Rightarrow> string list" where
  "close_parts e =
     (case ve_close_code e of
        None \<Rightarrow> []
      | Some c \<Rightarrow>
          (let voice = (ve_class e = VoiceGatewayError) in
           [''Close Code: '' @ c @ '' ('' @ show_int (the (map_of (if voice then voice_close_codes else gateway_close_codes) c)) @ '')'',
            ''Description: '' @ (if voice then voice_close_description c else gateway_close_description c),
            ''Should Reconnect: '' @ bool_text (error_should_reconnect e)]))"

definition rate_limit_parts :: "(json \<Rightarrow> string) \<Rightarrow> string option \<Rightarrow> vaidcord_error \<Rightarrow> string list" where
  "rate_limit_parts other route e =
     (if ve_retry_after e = JNull then [] else [''Retry After: '' @ value_text other (ve_retry_after e) @ ''s'']) @
     (if json_truthy (ve_global_limit e) then [''(Global Rate Limit)''] else []) @
     (case route of None \<Rightarrow> [] | Some r \<Rightarrow> if r = [] then [] else [''Route: '' @ r])"

text \<open>\<open>str\<close> of an error, by class; \<open>route\<close> is the attribute of a rate limit error.\<close>

definition error_str :: "(json \<Rightarrow> string) \<Rightarrow> string option \<Rightarrow> vaidcord_error \<Rightarrow> string result" where
  "error_str other route e =
     (case ve_class e of
        DiscordAPIError \<Rightarrow>
          bind_result (base_str other e) (\<lambda>base.
            Inr (if formatted_details other e = [] then base else base @ CHR 0x0A # formatted_details other e))
      | GatewayError \<Rightarrow> join_message '' | '' (ve_message e) (close_parts e)
      | VoiceGatewayError \<Rightarrow> join_message '' | '' (ve_message e) (close_parts e)
      | RateLimitError \<Rightarrow> bind_result (base_str other e) (\<lambda>base. Inr (join_text '' | '' (base # rate_limit_parts other route e)))
      | _ \<Rightarrow> base_str other e)"

definition class_name :: "error_class \<Rightarrow> string" where
  "class_name c =
     (case c of
        VaidCordError \<Rightarrow> ''VaidCordError'' | DiscordAPIError \<Rightarrow> ''DiscordAPIError'' | GatewayError \<Rightarrow> ''GatewayError''
      | VoiceGatewayError \<Rightarrow> ''VoiceGatewayError'' | RateLimitError \<Rightarrow> ''RateLimitError'' | AuthenticationError \<Rightarrow> ''AuthenticationError''
      | ForbiddenError \<Rightarrow> ''ForbiddenError'' | NotFoundError \<Rightarrow> ''NotFoundError'' | ValidationError \<Rightarrow> ''ValidationError''
      | OAuth2Error \<Rightarrow> ''OAuth2Error'' | MockError \<Rightarrow> ''MockError'' | MissingPermissions \<Rightarrow> ''MissingPermissions''
      | HierarchyError \<Rightarrow> ''HierarchyError'')"

definition error_to_dict :: "vaidcord_error \<Rightarrow> jdict" where
  "error_to_dict e =
     [(''type'', JStr (class_name (ve_class e))), (''message'', ve_message e), (''code'', ve_code e),
      (''status'', case ve_status e of None \<Rightarrow> JNull | Some i \<Rightarrow> JInt i),
      (''details'', JList (map (\<lambda>d. JDict (details_to_dict d)) (ve_details e))), (''raw_data'', JDict (ve_raw_data e))]"

section \<open>Facts\<close>

lemma join_text_prefix: "\<exists>t. join_text sep (w # ws) = w @ t"
  by simp

text \<open>
  An error has a text exactly when its message is a string, and the text begins with the message. A
  response whose message is null makes an error that cannot be printed.
\<close>

lemma base_str_message: "base_str other e = Inr s \<Longrightarrow> \<exists>m t. ve_message e = JStr m \<and> s = m @ t"
  by (auto simp: base_str_def join_message_def split: json.splits if_splits)

theorem error_str_shows_message:
  "(case error_str other route e of
      Inr s \<Rightarrow> \<exists>m t. ve_message e = JStr m \<and> s = m @ t
    | Inl x \<Rightarrow> x = TypeError ''sequence item 0: expected str instance'' \<and> (\<nexists>m. ve_message e = JStr m))"
proof (cases "ve_message e")
  case (JStr m)
  have base: "\<exists>t. base_str other e = Inr (m @ t)" by (auto simp: base_str_def join_message_def JStr)
  have joined: "\<exists>t. join_message sep (ve_message e) rest = Inr (m @ t)" for sep rest by (auto simp: join_message_def JStr)
  have "\<exists>t. error_str other route e = Inr (m @ t)"
    using base joined by (cases "ve_class e") (auto simp: error_str_def)
  then show ?thesis using JStr by auto
qed (cases "ve_class e"; simp add: error_str_def base_str_def join_message_def)+

lemma null_message_has_no_text:
  "\<exists>x. error_str other None (base_error NotFoundError JNull (JInt 404) (Some 404) [] [(''message'', JNull)]) = Inl x \<and>
     create_discord_error 404 [(''message'', JNull)] = Inr (base_error NotFoundError JNull (JInt 404) (Some 404) [] [(''message'', JNull)])"
  by (simp add: error_str_def base_str_def join_message_def base_error_def create_discord_error_def not_found_error_def dict_get_def)

text \<open>An error made from a close code and one made from the member of the enumeration read the same.\<close>

lemma gateway_errors_agree:
  "enum_of gateway_close_codes code = Some c \<Longrightarrow> map_of gateway_close_codes c = Some code \<Longrightarrow> m \<noteq> [] \<Longrightarrow>
   create_gateway_error code (Some m) = gateway_error_of (JStr m) (Some c) []"
  by (simp add: create_gateway_error_def gateway_error_of_def)

end
