(* ===== verification/BotSession.thy ===== *)
theory BotSession
  imports Fsm
begin

text \<open>
  The parts of src/vaidcord-py/src/vaidcord/bot.py around the gateway: the intents of an IDENTIFY, the HTTP session
  that the API client and the websockets share, and waiting for READY; and \<open>FSMContext\<close> and
  \<open>FSMManager\<close> of fsm/context.py over any storage.
\<close>

section \<open>Intents\<close>

definition gateway_intents :: "(string \<times> nat) list" where
  "gateway_intents =
     [(''GUILDS'', 0), (''GUILD_MEMBERS'', 1), (''GUILD_MODERATION'', 2), (''GUILD_EMOJIS_AND_STICKERS'', 3), (''GUILD_INTEGRATIONS'', 4),
      (''GUILD_WEBHOOKS'', 5), (''GUILD_INVITES'', 6), (''GUILD_VOICE_STATES'', 7), (''GUILD_PRESENCES'', 8), (''GUILD_MESSAGES'', 9),
      (''GUILD_MESSAGE_REACTIONS'', 10), (''GUILD_MESSAGE_TYPING'', 11), (''DIRECT_MESSAGES'', 12), (''DIRECT_MESSAGE_REACTIONS'', 13),
      (''DIRECT_MESSAGE_TYPING'', 14), (''MESSAGE_CONTENT'', 15), (''GUILD_SCHEDULED_EVENTS'', 16), (''AUTO_MODERATION_CONFIGURATION'', 20),
      (''AUTO_MODERATION_EXECUTION'', 21), (''GUILD_MESSAGE_POLLS'', 24), (''DIRECT_MESSAGE_POLLS'', 25)]"

definition intent_value :: "string \<Rightarrow> int" where
  "intent_value name = (case map_of gateway_intents name of Some b \<Rightarrow> push_bit b 1 | None \<Rightarrow> 0)"

definition default_intents :: int where
  "default_intents = or (or (intent_value ''GUILDS'') (intent_value ''GUILD_MESSAGES'')) (intent_value ''DIRECT_MESSAGES'')"

definition all_intents :: int where
  "all_intents = sum_list (map (\<lambda>p. push_bit (snd p) 1) gateway_intents)"

text \<open>The sum of the flags is their union: no two share a bit.\<close>

lemma all_intents_union: "all_intents = fold or (map (\<lambda>p. intent_value (fst p)) gateway_intents) 0"
  by (simp add: all_intents_def intent_value_def gateway_intents_def push_bit_eq_mult)

lemma default_within_all: "and default_intents all_intents = default_intents"
  by (simp add: default_intents_def all_intents_def intent_value_def gateway_intents_def push_bit_eq_mult)

lemma privileged_not_default:
  "and default_intents (intent_value ''MESSAGE_CONTENT'') = 0 \<and> and default_intents (intent_value ''GUILD_MEMBERS'') = 0 \<and>
   and default_intents (intent_value ''GUILD_PRESENCES'') = 0"
  by (simp add: default_intents_def intent_value_def gateway_intents_def push_bit_eq_mult)

section \<open>The HTTP session\<close>

text \<open>
  aiohttp sessions as a list of objects, each with its headers and whether it is closed; the bot holds one of them.
\<close>

record http_session =
  hs_headers :: "(string \<times> string) list"
  hs_closed :: bool

record session_state =
  ss_session :: "nat option"
  ss_sessions :: "http_session list"

definition session_headers :: "string \<Rightarrow> string \<Rightarrow> string \<Rightarrow> (string \<times> string) list" where
  "session_headers token user_agent version =
     [(''Authorization'', ''Bot '' @ token), (''User-Agent'', user_agent), (''X-VaidCord-Version'', version)]"

definition session_open :: "session_state \<Rightarrow> bool" where
  "session_open s = (case ss_session s of None \<Rightarrow> False | Some i \<Rightarrow> \<not> hs_closed (ss_sessions s ! i))"

definition shared_session :: "(string \<times> string) list \<Rightarrow> session_state \<Rightarrow> nat \<times> session_state" where
  "shared_session headers s =
     (if session_open s then (the (ss_session s), s)
      else (length (ss_sessions s),
            s\<lparr>ss_session := Some (length (ss_sessions s)), ss_sessions := ss_sessions s @ [\<lparr>hs_headers = headers, hs_closed = False\<rparr>]\<rparr>))"

definition close_session :: "session_state \<Rightarrow> session_state" where
  "close_session s =
     (case ss_session s of
        None \<Rightarrow> s
      | Some i \<Rightarrow>
          if hs_closed (ss_sessions s ! i) then s
          else s\<lparr>ss_session := None, ss_sessions := (ss_sessions s)[i := (ss_sessions s ! i)\<lparr>hs_closed := True\<rparr>]\<rparr>)"

datatype session_event = CreateSession | CloseSession | ClosedOutside nat

primrec session_step :: "(string \<times> string) list \<Rightarrow> session_event \<Rightarrow> session_state \<Rightarrow> session_state" where
  "session_step headers CreateSession s = snd (shared_session headers s)"
| "session_step headers CloseSession s = close_session s"
| "session_step headers (ClosedOutside i) s =
     s\<lparr>ss_sessions := (ss_sessions s)[i := (ss_sessions s ! i)\<lparr>hs_closed := True\<rparr>]\<rparr>"

definition sessions_held :: "(string \<times> string) list \<Rightarrow> session_state \<Rightarrow> bool" where
  "sessions_held headers s \<longleftrightarrow>
     (\<forall>i < length (ss_sessions s). (hs_closed (ss_sessions s ! i) \<or> ss_session s = Some i) \<and> hs_headers (ss_sessions s ! i) = headers) \<and>
     (case ss_session s of None \<Rightarrow> True | Some i \<Rightarrow> i < length (ss_sessions s))"

lemma sessions_held_step:
  assumes "sessions_held headers s"
  shows "sessions_held headers (session_step headers e s)"
proof -
  have at: "hs_closed (ss_sessions s ! i) \<or> ss_session s = Some i" "hs_headers (ss_sessions s ! i) = headers"
    if "i < length (ss_sessions s)" for i
    using assms that by (simp_all add: sessions_held_def)
  have range: "i < length (ss_sessions s)" if "ss_session s = Some i" for i using assms that by (simp add: sessions_held_def)
  show ?thesis
  proof (cases e)
    case CreateSession
    show ?thesis
    proof (cases "session_open s")
      case False
      then have "hs_closed (ss_sessions s ! i)" if "i < length (ss_sessions s)" for i
        using at(1) [OF that] by (auto simp: session_open_def)
      then show ?thesis using at(2) False CreateSession
        by (simp add: shared_session_def sessions_held_def nth_append less_Suc_eq)
    qed (use assms CreateSession in \<open>simp add: shared_session_def\<close>)
  next
    case CloseSession
    show ?thesis
    proof (cases "ss_session s")
      case (Some j)
      have "hs_closed (((ss_sessions s)[j := (ss_sessions s ! j)\<lparr>hs_closed := True\<rparr>]) ! i) \<and>
          hs_headers (((ss_sessions s)[j := (ss_sessions s ! j)\<lparr>hs_closed := True\<rparr>]) ! i) = headers" if "i < length (ss_sessions s)" for i
        using at [OF that] Some that by (cases "i = j") auto
      then show ?thesis using assms Some CloseSession by (simp add: close_session_def sessions_held_def)
    qed (use assms CloseSession in \<open>simp add: close_session_def\<close>)
  next
    case (ClosedOutside j)
    have "(hs_closed (((ss_sessions s)[j := (ss_sessions s ! j)\<lparr>hs_closed := True\<rparr>]) ! i) \<or> ss_session s = Some i) \<and>
        hs_headers (((ss_sessions s)[j := (ss_sessions s ! j)\<lparr>hs_closed := True\<rparr>]) ! i) = headers" if "i < length (ss_sessions s)" for i
      using at [OF that] that by (cases "i = j") auto
    then show ?thesis using range ClosedOutside by (auto simp: sessions_held_def split: option.split)
  qed
qed

text \<open>
  At most one session of a bot is open at any time, the one it holds; all carry the same headers; and after
  \<open>_close_session\<close> none is open.
\<close>

theorem one_open_session:
  assumes "s = fold (session_step headers) es \<lparr>ss_session = None, ss_sessions = []\<rparr>"
  shows "list_all (\<lambda>i. \<not> hs_closed (ss_sessions s ! i) \<longrightarrow> ss_session s = Some i) [0..<length (ss_sessions s)] \<and>
    list_all (\<lambda>h. hs_headers h = headers) (ss_sessions s) \<and> list_all hs_closed (ss_sessions (close_session s))"
proof -
  have run: "sessions_held headers t \<Longrightarrow> sessions_held headers (fold (session_step headers) es t)" for t
    by (induction es arbitrary: t) (auto intro: sessions_held_step)
  have "sessions_held headers \<lparr>ss_session = None, ss_sessions = []\<rparr>" by (simp add: sessions_held_def)
  then have held: "sessions_held headers s" using run assms by simp
  have step: "sessions_held headers (close_session s)" using sessions_held_step [OF held, of CloseSession] by simp
  have "list_all hs_closed (ss_sessions (close_session s))"
  proof (cases "session_open s")
    case True
    then have "ss_session (close_session s) = None" by (auto simp: session_open_def close_session_def split: option.splits)
    then show ?thesis using step by (simp add: sessions_held_def list_all_length)
  next
    case False
    then have same: "close_session s = s" by (auto simp: session_open_def close_session_def split: option.splits)
    have "hs_closed (ss_sessions s ! i)" if "i < length (ss_sessions s)" for i
      using held that False by (auto simp: sessions_held_def session_open_def)
    then show ?thesis by (simp add: same list_all_length)
  qed
  then show ?thesis using held by (auto simp: sessions_held_def list_all_length list_all_iff)
qed

section \<open>Waiting for READY\<close>

text \<open>The states of the event at the successive looks of \<open>wait_for\<close>; the list ends with the timeout.\<close>

definition wait_until_ready :: "bool list \<Rightarrow> bool" where
  "wait_until_ready looks = list_ex (\<lambda>b. b) looks"

definition log_extra :: "int option \<Rightarrow> (string \<times> string) list" where
  "log_extra bot_id = (case bot_id of None \<Rightarrow> [] | Some i \<Rightarrow> [(''bot_id'', show_int i)])"

section \<open>Conversation contexts\<close>

text \<open>\<open>FSMContext\<close> fixes the key of a storage call, \<open>FSMManager\<close> the storage.\<close>

record 's fsm_ops =
  fo_get_state :: "storage_key \<Rightarrow> 's \<Rightarrow> string option"
  fo_set_state :: "storage_key \<Rightarrow> state_value option \<Rightarrow> 's \<Rightarrow> 's result"
  fo_get_data :: "storage_key \<Rightarrow> 's \<Rightarrow> jdict"
  fo_set_data :: "storage_key \<Rightarrow> jdict \<Rightarrow> 's \<Rightarrow> 's"
  fo_update_data :: "storage_key \<Rightarrow> jdict \<Rightarrow> 's \<Rightarrow> jdict \<times> 's"
  fo_clear :: "storage_key \<Rightarrow> 's \<Rightarrow> 's"

definition memory_ops :: "json memory_storage fsm_ops" where
  "memory_ops =
     \<lparr>fo_get_state = memory_get_state, fo_set_state = memory_set_state_value, fo_get_data = memory_get_data, fo_set_data = memory_set_data,
      fo_update_data = memory_update_data, fo_clear = memory_clear\<rparr>"

definition sqlite_ops :: "json table fsm_ops" where
  "sqlite_ops =
     \<lparr>fo_get_state = sqlite_get_state, fo_set_state = sqlite_set_state_value, fo_get_data = sqlite_get_data, fo_set_data = sqlite_set_data,
      fo_update_data = sqlite_update_data, fo_clear = sqlite_clear\<rparr>"

datatype context_op = PutState "state_value option" | PutData jdict | ChangeData jdict | ClearAll

primrec context_do :: "'s fsm_ops \<Rightarrow> storage_key \<Rightarrow> context_op \<Rightarrow> 's \<Rightarrow> 's result" where
  "context_do f k (PutState v) s = fo_set_state f k v s"
| "context_do f k (PutData d) s = Inr (fo_set_data f k d s)"
| "context_do f k (ChangeData kwargs) s = Inr (snd (fo_update_data f k kwargs s))"
| "context_do f k ClearAll s = Inr (fo_clear f k s)"

definition manager_key :: "fsm_scope \<Rightarrow> int \<Rightarrow> int \<Rightarrow> string \<Rightarrow> storage_key" where
  "manager_key scope a b custom =
     (case scope of
        USER \<Rightarrow> key_user a | CHANNEL \<Rightarrow> key_channel a | TOPIC \<Rightarrow> key_topic a | GUILD \<Rightarrow> key_guild a | MEMBER \<Rightarrow> key_member a b
      | CUSTOM \<Rightarrow> key_custom custom)"

text \<open>Contexts of different keys do not see each other, on either local storage.\<close>

theorem contexts_apart:
  assumes "k \<noteq> k'"
  shows "(context_do memory_ops k p s = Inr s1 \<longrightarrow> fo_get_state memory_ops k' s1 = fo_get_state memory_ops k' s \<and>
      fo_get_data memory_ops k' s1 = fo_get_data memory_ops k' s) \<and>
    (context_do sqlite_ops k p t = Inr t1 \<longrightarrow> fo_get_state sqlite_ops k' t1 = fo_get_state sqlite_ops k' t \<and>
      fo_get_data sqlite_ops k' t1 = fo_get_data sqlite_ops k' t)"
  using assms
  by (cases p)
    (auto simp: memory_ops_def sqlite_ops_def memory_set_state_value_def sqlite_set_state_value_def bind_result_Inr_iff
      memory.state_set_state memory.data_set_state memory.state_set_data memory.data_set_data memory.state_update_data memory.data_update_data
      memory.state_clear memory.data_clear sqlite.state_set_state sqlite.data_set_state sqlite.state_set_data sqlite.data_set_data
      sqlite.state_update_data sqlite.data_update_data sqlite.state_clear sqlite.data_clear)

text \<open>Keys of different scopes, or of different ids in a scope, are different.\<close>

lemma manager_keys_differ:
  "manager_key scope a b c = manager_key scope' a' b' c' \<Longrightarrow>
   scope = scope' \<and> (scope \<noteq> CUSTOM \<longrightarrow> a = a') \<and> (scope = MEMBER \<longrightarrow> b = b') \<and> (scope = CUSTOM \<longrightarrow> c = c')"
  by (cases scope; cases scope')
    (simp_all add: manager_key_def key_user_def key_channel_def key_topic_def key_guild_def key_member_def key_custom_def blank_key_def)

end
