(* ===== verification/Formatting.thy ===== *)
theory Formatting
  imports PyText
begin

text \<open>
  Discord's text formatting (src/vaidcord-py/src/vaidcord/formatting/__init__.py): styles, code,
  mentions, timestamps, links, quotes and escaping. A small reading of Discord's backslash escapes
  serves as the specification of \<open>escape\<close>.
\<close>

section \<open>Styles\<close>

datatype text_style = BOLD | ITALIC | UNDERLINE | STRIKETHROUGH | SPOILER

datatype code_block_language = PYTHON | JAVASCRIPT | TYPESCRIPT | JSON | YAML | SQL | BASH | DIFF | HTML | CSS | NO_LANGUAGE

primrec language_value :: "code_block_language \<Rightarrow> string" where
  "language_value PYTHON = ''python''"
| "language_value JAVASCRIPT = ''javascript''"
| "language_value TYPESCRIPT = ''typescript''"
| "language_value JSON = ''json''"
| "language_value YAML = ''yaml''"
| "language_value SQL = ''sql''"
| "language_value BASH = ''bash''"
| "language_value DIFF = ''diff''"
| "language_value HTML = ''html''"
| "language_value CSS = ''css''"
| "language_value NO_LANGUAGE = []"

datatype timestamp_style = SHORT_TIME | LONG_TIME | SHORT_DATE | LONG_DATE | SHORT_DATETIME | LONG_DATETIME | RELATIVE

primrec timestamp_style_value :: "timestamp_style \<Rightarrow> string" where
  "timestamp_style_value SHORT_TIME = ''t''"
| "timestamp_style_value LONG_TIME = ''T''"
| "timestamp_style_value SHORT_DATE = ''d''"
| "timestamp_style_value LONG_DATE = ''D''"
| "timestamp_style_value SHORT_DATETIME = ''f''"
| "timestamp_style_value LONG_DATETIME = ''F''"
| "timestamp_style_value RELATIVE = ''R''"

definition bold :: "string \<Rightarrow> string" where
  "bold text = ''**'' @ text @ ''**''"

definition italic :: "string \<Rightarrow> string" where
  "italic text = ''*'' @ text @ ''*''"

definition underline :: "string \<Rightarrow> string" where
  "underline text = ''__'' @ text @ ''__''"

definition strikethrough :: "string \<Rightarrow> string" where
  "strikethrough text = ''~~'' @ text @ ''~~''"

definition spoiler :: "string \<Rightarrow> string" where
  "spoiler text = ''||'' @ text @ ''||''"

definition apply_style :: "text_style \<Rightarrow> string \<Rightarrow> string" where
  "apply_style style text =
     (case style of BOLD \<Rightarrow> bold text | ITALIC \<Rightarrow> italic text | UNDERLINE \<Rightarrow> underline text
      | STRIKETHROUGH \<Rightarrow> strikethrough text | SPOILER \<Rightarrow> spoiler text)"

definition combine_styles :: "string \<Rightarrow> text_style list \<Rightarrow> string" where
  "combine_styles text styles = fold apply_style styles text"

section \<open>Mentions, timestamps and links\<close>

record mention =
  mn_id :: int
  mn_type :: string

definition mention_str :: "mention \<Rightarrow> string" where
  "mention_str mn =
     (if mn_type mn = ''user'' then ''<@'' @ show_int (mn_id mn) @ ''>''
      else if mn_type mn = ''role'' then ''<@&'' @ show_int (mn_id mn) @ ''>''
      else if mn_type mn = ''channel'' then ''<#'' @ show_int (mn_id mn) @ ''>''
      else ''<@'' @ show_int (mn_id mn) @ ''>'')"

definition mention_user :: "int \<Rightarrow> string" where
  "mention_user user_id = ''<@'' @ show_int user_id @ ''>''"

definition mention_role :: "int \<Rightarrow> string" where
  "mention_role role_id = ''<@&'' @ show_int role_id @ ''>''"

definition mention_channel :: "int \<Rightarrow> string" where
  "mention_channel channel_id = ''<#'' @ show_int channel_id @ ''>''"

definition user_mention_from_obj :: "int \<Rightarrow> mention" where
  "user_mention_from_obj user_id = \<lparr>mn_id = user_id, mn_type = ''user''\<rparr>"

definition role_mention_from_obj :: "int \<Rightarrow> mention" where
  "role_mention_from_obj role_id = \<lparr>mn_id = role_id, mn_type = ''role''\<rparr>"

definition channel_mention_from_obj :: "int \<Rightarrow> mention" where
  "channel_mention_from_obj channel_id = \<lparr>mn_id = channel_id, mn_type = ''channel''\<rparr>"

text \<open>A \<open>datetime\<close> and the present are given by their \<open>timestamp()\<close>.\<close>

definition format_timestamp :: "real \<Rightarrow> real option \<Rightarrow> int option \<Rightarrow> timestamp_style \<Rightarrow> string" where
  "format_timestamp now dt ts style =
     (let trunc = (\<lambda>x. if x < 0 then \<lceil>x\<rceil> else \<lfloor>x\<rfloor>);
          n = (case dt of Some d \<Rightarrow> trunc d | None \<Rightarrow> (case ts of Some i \<Rightarrow> i | None \<Rightarrow> trunc now))
      in ''<t:'' @ show_int n @ '':'' @ timestamp_style_value style @ ''>'')"

text \<open>
  \<open>_URL_PATTERN.match\<close> on ASCII text. The pattern ends in a starred group, so a match is a match
  of what is in front of it: the scheme, optionally \<open>www.\<close>, 1 to 256 host characters, a dot, 1 to 6
  characters and a word boundary.
\<close>

definition alnum :: "char \<Rightarrow> bool" where
  "alnum c = (let n = of_char c :: nat in (48 \<le> n \<and> n \<le> 57) \<or> (65 \<le> n \<and> n \<le> 90) \<or> (97 \<le> n \<and> n \<le> 122))"

definition word_char :: "char \<Rightarrow> bool" where
  "word_char c = (alnum c \<or> c = CHR ''_'')"

definition host_char :: "char \<Rightarrow> bool" where
  "host_char c = (alnum c \<or> c \<in> set ''-@:%._+~#='')"

definition tld_char :: "char \<Rightarrow> bool" where
  "tld_char c = (alnum c \<or> c = CHR ''('' \<or> c = CHR '')'')"

definition boundary_after :: "char \<Rightarrow> string \<Rightarrow> bool" where
  "boundary_after c rest = (word_char c \<noteq> (case rest of [] \<Rightarrow> False | d # _ \<Rightarrow> word_char d))"

definition tld_match :: "string \<Rightarrow> bool" where
  "tld_match s =
     list_ex (\<lambda>m. m \<le> length s \<and> list_all tld_char (take m s) \<and> boundary_after (s ! (m - 1)) (drop m s)) [1..<7]"

definition host_match :: "string \<Rightarrow> bool" where
  "host_match s =
     list_ex (\<lambda>n. n < length s \<and> list_all host_char (take n s) \<and> s ! n = CHR ''.'' \<and> tld_match (drop (Suc n) s)) [1..<257]"

definition url_match :: "string \<Rightarrow> bool" where
  "url_match url =
     list_ex (\<lambda>p. starts_with url p \<and> host_match (drop (length p) url))
       [''http://www.'', ''http://'', ''https://www.'', ''https://'']"

definition link :: "string \<Rightarrow> string \<Rightarrow> string result" where
  "link text url =
     (if \<not> url_match url then Inl (ValueError ''Invalid URL. Must start with http:// or https://'')
      else Inr (''['' @ text @ '']('' @ url @ '')''))"

section \<open>Code, quotes and escapes\<close>

definition BACKSLASH :: char where
  "BACKSLASH = CHR 0x5C"

definition TICK :: char where
  "TICK = CHR 0x60"

definition inline_code :: "string \<Rightarrow> string" where
  "inline_code text = [TICK] @ replace_char TICK [BACKSLASH, TICK] text @ [TICK]"

text \<open>\<open>code.replace("```", ...)\<close>: occurrences are taken from the left and do not overlap.\<close>

fun escape_fence :: "string \<Rightarrow> string" where
  "escape_fence [] = []"
| "escape_fence (c # s) =
     (if take 3 (c # s) = [TICK, TICK, TICK] then
        [BACKSLASH, TICK, BACKSLASH, TICK, BACKSLASH, TICK] @ escape_fence (drop 2 s)
      else c # escape_fence s)"

definition code_block :: "string \<Rightarrow> code_block_language + string \<Rightarrow> string" where
  "code_block code language =
     (let lang = (case language of Inl l \<Rightarrow> language_value l | Inr s \<Rightarrow> s)
      in [TICK, TICK, TICK] @ lang @ [CHR 0x0A] @ escape_fence code @ [CHR 0x0A] @ [TICK, TICK, TICK])"

definition quote :: "string \<Rightarrow> bool \<Rightarrow> string" where
  "quote text multiline =
     (let ls = py_split (CHR 0x0A) text
      in if multiline then py_join (CHR 0x0A) (map (\<lambda>(i, line). if i = 0 then ''>>> '' @ line else ''> '' @ line) (enumerate 0 ls))
         else py_join (CHR 0x0A) (map (\<lambda>line. ''> '' @ line) ls))"

definition special_chars :: "bool \<Rightarrow> string" where
  "special_chars code = ''*_~'' @ [TICK] @ ''|@'' @ (if code then [BACKSLASH] else [])"

definition escape :: "bool \<Rightarrow> string \<Rightarrow> string" where
  "escape code text = fold (\<lambda>c. replace_char c [BACKSLASH, c]) (special_chars code) text"

section \<open>Escaping\<close>

text \<open>
  How Discord reads a backslash: before a punctuation character that has a meaning, and before
  another backslash, it makes that character literal and is not shown. The result has each shown
  character and whether it is literal.
\<close>

fun read_escapes :: "string \<Rightarrow> (char \<times> bool) list" where
  "read_escapes [] = []"
| "read_escapes [c] = [(c, False)]"
| "read_escapes (c # d # s) =
     (if c = BACKSLASH \<and> d \<in> set (special_chars True) then (d, True) # read_escapes s
      else (c, False) # read_escapes (d # s))"

lemma special_chars_eq [simp]:
  "set (special_chars code) = {CHR ''*'', CHR ''_'', CHR ''~'', TICK, CHR ''|'', CHR ''@''} \<union> (if code then {BACKSLASH} else {})"
  by (auto simp: special_chars_def)

lemma backslash_plain [simp]: "BACKSLASH \<notin> set (special_chars False)"
  by (simp add: BACKSLASH_def TICK_def)

lemma fold_replace:
  assumes "distinct cs" and "BACKSLASH \<notin> set cs"
  shows "fold (\<lambda>c. replace_char c [BACKSLASH, c]) cs s = concat (map (\<lambda>c. if c \<in> set cs then [BACKSLASH, c] else [c]) s)"
  using assms
proof (induction cs arbitrary: s)
  case Nil
  then show ?case by simp
next
  case (Cons k cs)
  have "concat (map (\<lambda>c. if c \<in> set cs then [BACKSLASH, c] else [c]) (replace_char k [BACKSLASH, k] t)) =
      concat (map (\<lambda>c. if c \<in> set (k # cs) then [BACKSLASH, c] else [c]) t)" for t
    using Cons.prems by (induction t) auto
  then show ?case using Cons by simp
qed

lemma escape_one_pass: "escape False s = concat (map (\<lambda>c. if c \<in> set (special_chars False) then [BACKSLASH, c] else [c]) s)"
  unfolding escape_def by (rule fold_replace) (simp add: special_chars_def TICK_def, rule backslash_plain)

lemma escape_code_doubles:
  "escape True s = concat (map (\<lambda>c. if c \<in> set (special_chars False) then [BACKSLASH, BACKSLASH, c] else if c = BACKSLASH then [BACKSLASH, BACKSLASH] else [c]) s)"
proof -
  have sc: "special_chars True = special_chars False @ [BACKSLASH]" by (simp add: special_chars_def)
  have "escape True s = replace_char BACKSLASH [BACKSLASH, BACKSLASH] (escape False s)" by (simp add: escape_def sc)
  also have "\<dots> = concat (map (\<lambda>c. if c \<in> set (special_chars False) then [BACKSLASH, BACKSLASH, c] else if c = BACKSLASH then [BACKSLASH, BACKSLASH] else [c]) s)"
    unfolding escape_one_pass by (induction s) (auto simp del: special_chars_eq)
  finally show ?thesis .
qed

lemma read_escapes_plain: "BACKSLASH \<noteq> c \<Longrightarrow> read_escapes (c # s) = (c, False) # read_escapes s"
  by (cases s) auto

lemma special_both: "c \<in> set (special_chars False) \<Longrightarrow> c \<in> set (special_chars True)"
  by auto



text \<open>
  With \<open>code=True\<close> the backslashes put in front of the special characters are doubled again, so
  Discord shows a backslash and the character keeps its meaning.
\<close>

lemma escape_code_undoes_escaping:
  "c \<in> set (special_chars False) \<Longrightarrow> read_escapes (escape True [c]) = [(BACKSLASH, True), (c, False)]"
  by (simp add: escape_code_doubles del: special_chars_eq) (auto simp: BACKSLASH_def TICK_def)

text \<open>A backslash in the text before a special character takes the escape's backslash for itself.\<close>

lemma escape_backslash_undoes_escaping:
  "c \<in> set (special_chars False) \<Longrightarrow> read_escapes (escape False [BACKSLASH, c]) = [(BACKSLASH, True), (c, False)]"
  by (simp add: escape_one_pass del: special_chars_eq) (auto simp: BACKSLASH_def TICK_def)

section \<open>Code blocks\<close>

text \<open>No \<open>k\<close> consecutive backticks, \<open>run\<close> of which have been seen.\<close>

primrec tick_runs_below :: "nat \<Rightarrow> nat \<Rightarrow> string \<Rightarrow> bool" where
  "tick_runs_below k run [] = True"
| "tick_runs_below k run (c # s) =
     (if c = TICK then Suc run < k \<and> tick_runs_below k (Suc run) s else tick_runs_below k 0 s)"

definition leading_ticks :: "string \<Rightarrow> nat" where
  "leading_ticks s = length (takeWhile (\<lambda>c. c = TICK) s)"

lemma leading_ticks_simps [simp]:
  "leading_ticks [] = 0" "leading_ticks (c # s) = (if c = TICK then Suc (leading_ticks s) else 0)"
  by (simp_all add: leading_ticks_def)

lemma tick_runs_mono: "tick_runs_below k run s \<Longrightarrow> run' \<le> run \<Longrightarrow> tick_runs_below k run' s"
  by (induction s arbitrary: run run') auto

lemma tick_runs_leading: "tick_runs_below k run s \<Longrightarrow> run < k \<Longrightarrow> run + leading_ticks s < k"
proof (induction s arbitrary: run)
  case (Cons c s)
  then show ?case using Cons.IH [of "Suc run"] by (auto split: if_splits)
qed simp

lemma fence_start: "take 3 (c # s) = [TICK, TICK, TICK] \<longleftrightarrow> c = TICK \<and> (\<exists>r. s = TICK # TICK # r)"
proof (cases s)
  case (Cons d t)
  then show ?thesis by (cases t) auto
qed simp

lemma no_fence_leading: "take 3 s \<noteq> [TICK, TICK, TICK] \<Longrightarrow> leading_ticks s < 3"
proof (induction s)
  case (Cons c s)
  then show ?case by (cases s; cases "tl s") (auto split: if_splits)
qed simp

lemma escape_fence_runs:
  "tick_runs_below 5 0 s \<Longrightarrow> (if leading_ticks s < 3 then run + leading_ticks s < 3 else True) \<Longrightarrow> tick_runs_below 3 run (escape_fence s)"
proof (induction s arbitrary: run rule: escape_fence.induct)
  case 1
  then show ?case by simp
next
  case (2 c s)
  show ?case
  proof (cases "take 3 (c # s) = [TICK, TICK, TICK]")
    case True
    then obtain r where r: "c = TICK" "s = TICK # TICK # r" using fence_start [of c s] by blast
    have "tick_runs_below 5 3 r" using "2.prems"(1) r by (simp add: numeral_eq_Suc)
    then have "tick_runs_below 5 0 r" "1 + leading_ticks r < 3"
      using tick_runs_mono [of 5 3 r 0] tick_runs_leading [of 5 3 r] by auto
    then have "tick_runs_below 3 1 (escape_fence r)" using "2.IH"(1) [OF True, of 1] r by simp
    then show ?thesis using r by (simp add: BACKSLASH_def TICK_def)
  next
    case False
    note l = no_fence_leading [OF False]
    show ?thesis
    proof (cases "c = TICK")
      case True
      have "tick_runs_below 5 0 s" using "2.prems"(1) tick_runs_mono [of 5 "Suc 0" s 0] True by simp
      moreover have "Suc run + leading_ticks s < 3" using "2.prems"(2) l True by simp
      ultimately have "tick_runs_below 3 (Suc run) (escape_fence s)" using "2.IH"(2) [OF False, of "Suc run"] by simp
      then show ?thesis using False True \<open>Suc run + leading_ticks s < 3\<close> by simp
    next
      case neq: False
      then have "tick_runs_below 3 0 (escape_fence s)" using "2.IH"(2) [OF False, of 0] "2.prems"(1) by simp
      then show ?thesis using False neq by simp
    qed
  qed
qed

text \<open>
  Code cannot close its own code block, as long as it has no five backticks in a row: between
  the fences of the block there are no three consecutive backticks.
\<close>

theorem code_block_not_closed_early:
  assumes "tick_runs_below 5 0 code"
  shows "\<exists>body. code_block code language = [TICK, TICK, TICK] @ (case language of Inl l \<Rightarrow> language_value l | Inr s \<Rightarrow> s) @ [CHR 0x0A] @ body @ [CHR 0x0A, TICK, TICK, TICK] \<and>
    tick_runs_below 3 0 body"
  using assms escape_fence_runs [of code 0] by (auto simp: code_block_def Let_def)

theorem code_block_not_closed_early_witness:
  "\<exists>body. code_block (replicate 4 TICK) (Inl PYTHON) = [TICK, TICK, TICK] @ ''python'' @ [CHR 0x0A] @ body @ [CHR 0x0A, TICK, TICK, TICK] \<and>
    tick_runs_below 3 0 body"
  using code_block_not_closed_early [of "replicate 4 TICK" "Inl PYTHON"] by (simp add: numeral_eq_Suc)

text \<open>Five backticks in a row do close it: three are escaped, and the last of them joins the other two.\<close>

lemma five_ticks_close_block: "\<not> tick_runs_below 3 0 (escape_fence (replicate 5 TICK))"
  by (simp add: numeral_eq_Suc BACKSLASH_def TICK_def)

section \<open>Links and quotes\<close>

text \<open>
  Only a prefix of a link is checked: an accepted URL stays accepted with a space and any text behind
  it, which can close the link and open another one.
\<close>

lemma tld_match_extends: "tld_match s \<Longrightarrow> tld_match (s @ CHR '' '' # r)"
proof -
  assume "tld_match s"
  then obtain m where m: "m \<in> set [1..<7]" "m \<le> length s" "list_all tld_char (take m s)" "boundary_after (s ! (m - 1)) (drop m s)"
    by (auto simp: tld_match_def list_ex_iff)
  have "boundary_after ((s @ CHR '' '' # r) ! (m - 1)) (drop m (s @ CHR '' '' # r))"
  proof (cases "drop m s")
    case Nil
    have "\<not> word_char (CHR '' '')" by code_simp
    moreover have "m - 1 < length s" using m(1,2) by auto
    ultimately show ?thesis using m(4) Nil by (simp add: boundary_after_def nth_append)
  next
    case (Cons x xs)
    moreover have "m - 1 < length s" using m(1,2) by auto
    ultimately show ?thesis using m(2,4) by (simp add: boundary_after_def nth_append)
  qed
  moreover have "take m (s @ CHR '' '' # r) = take m s" using m(2) by simp
  ultimately show ?thesis using m by (auto simp: tld_match_def list_ex_iff intro!: bexI [of _ m])
qed

lemma host_match_extends: "host_match s \<Longrightarrow> host_match (s @ CHR '' '' # r)"
proof -
  assume "host_match s"
  then obtain n where n: "n \<in> set [1..<257]" "n < length s" "list_all host_char (take n s)" "s ! n = CHR ''.''" "tld_match (drop (Suc n) s)"
    by (auto simp: host_match_def list_ex_iff)
  have "drop (Suc n) (s @ CHR '' '' # r) = drop (Suc n) s @ CHR '' '' # r" using n(2) by simp
  then show ?thesis using n tld_match_extends [OF n(5)] by (auto simp: host_match_def list_ex_iff nth_append intro!: bexI [of _ n])
qed

lemma link_accepts_any_tail: "url_match url \<Longrightarrow> url_match (url @ CHR '' '' # r)"
proof -
  assume "url_match url"
  then obtain p where p: "p \<in> set [''http://www.'', ''http://'', ''https://www.'', ''https://'']" "starts_with url p" "host_match (drop (length p) url)"
    unfolding url_match_def list_ex_iff by blast
  have l: "length p \<le> length url" using p(2) unfolding starts_with_def by (metis length_take min.cobounded1 min_def)
  then have "starts_with (url @ CHR '' '' # r) p" using p(2) by (simp add: starts_with_def)
  moreover have "host_match (drop (length p) (url @ CHR '' '' # r))" using host_match_extends [OF p(3)] l by simp
  ultimately show ?thesis using p(1) unfolding url_match_def list_ex_iff by blast
qed

lemma link_starts_with_scheme: "link t url = Inr v \<Longrightarrow> starts_with url ''http://'' \<or> starts_with url ''https://''"
proof -
  assume "link t url = Inr v"
  then have "url_match url" by (simp add: link_def split: if_splits)
  moreover have pre: "starts_with url a" if "starts_with url (a @ b)" for a b
  proof -
    have "take (length a) (take (length (a @ b)) url) = take (length a) (a @ b)" using that by (simp only: starts_with_def)
    then show ?thesis by (simp add: starts_with_def)
  qed
  ultimately show ?thesis using pre [of "''http://''" "''www.''"] pre [of "''https://''" "''www.''"] by (auto simp: url_match_def)
qed

text \<open>Every line of a quoted text is marked, and the text is what is behind the marks.\<close>

lemma quote_marks_lines: "py_split (CHR 0x0A) (quote t False) = map (\<lambda>line. ''> '' @ line) (py_split (CHR 0x0A) t)"
  unfolding quote_def Let_def if_False
  by (rule py_split_join) (auto simp: list_all_iff dest: py_split_nth)

text \<open>
  In a multi-line quote the first line has the mark for all lines and the others a mark of their
  own, which is shown as text then.
\<close>

lemma multiline_quote_marks_twice: "quote [CHR ''a'', CHR 0x0A, CHR ''b''] True = ''>>> a'' @ [CHR 0x0A] @ ''> b''"
  by (simp add: quote_def)

text \<open>Mentions of the same kind are equal only for the same id, and no user mention is a channel mention.\<close>

lemma mentions_injective: "mention_user a = mention_user b \<Longrightarrow> a = b" "mention_role a = mention_role b \<Longrightarrow> a = b"
  "mention_channel a = mention_channel b \<Longrightarrow> a = b" "mention_user a \<noteq> mention_channel b"
  by (auto simp: mention_user_def mention_role_def mention_channel_def dest: show_int_inj)

lemma combined_styles_example: "combine_styles ''text'' [BOLD, ITALIC] = ''***text***''"
  by (simp add: combine_styles_def apply_style_def bold_def italic_def)

end
