(* ===== verification/Http.thy ===== *)
theory Http
  imports ErrorTypes
begin

text \<open>
  The HTTP layer (src/vaidcord-py/src/vaidcord/http): client.py (\<open>HTTPClient\<close>), rate_limit.py,
  retry.py, config.py and logging.py. The state holds the rate-limit bookkeeping, the clock,
  the requests put on the wire and the log. The network is an argument: what the n-th attempt
  of a call answers and how long it takes. Instants and durations are reals; a body is given
  by what decoding it yields.
\<close>

section \<open>Redaction\<close>

definition SENSITIVE_HEADERS :: "string list" where
  "SENSITIVE_HEADERS = [''authorization'', ''proxy-authorization'', ''x-api-key'', ''cookie'', ''set-cookie'']"

definition SENSITIVE_PAYLOAD_KEYS :: "string list" where
  "SENSITIVE_PAYLOAD_KEYS = [''token'', ''authorization'', ''password'', ''secret'', ''api_key'']"

type_synonym headers = "(string, string) dict"

definition sanitize_headers :: "headers option \<Rightarrow> headers" where
  "sanitize_headers hs =
     (case hs of
        None \<Rightarrow> []
      | Some d \<Rightarrow> map (\<lambda>(k, v). (k, if py_lower k \<in> set SENSITIVE_HEADERS then ''<redacted>'' else v)) d)"

fun sanitize_payload :: "json \<Rightarrow> json" where
  "sanitize_payload (JDict d) =
     JDict (map (\<lambda>kv. (fst kv, if py_lower (fst kv) \<in> set SENSITIVE_PAYLOAD_KEYS then JStr ''<redacted>''
                              else sanitize_payload (snd kv))) d)"
| "sanitize_payload (JList xs) = JList (map sanitize_payload xs)"
| "sanitize_payload v = v"

definition extract_rate_limit_fields :: "headers option \<Rightarrow> (string, string option) dict" where
  "extract_rate_limit_fields hs =
     (let h = (case hs of None \<Rightarrow> [] | Some d \<Rightarrow> d) in
      [(''limit'', map_of h ''X-RateLimit-Limit''), (''remaining'', map_of h ''X-RateLimit-Remaining''),
       (''reset_after'', map_of h ''X-RateLimit-Reset-After''), (''reset'', map_of h ''X-RateLimit-Reset''),
       (''bucket'', map_of h ''X-RateLimit-Bucket''), (''global'', map_of h ''X-RateLimit-Global'')])"

section \<open>State\<close>

record http_config =
  hc_api_version :: string
  hc_base_url :: string
  hc_max_retries :: int
  hc_retry_delay :: real

record rate_limit_info =
  ri_limit :: int
  ri_remaining :: int
  ri_reset_after :: real
  ri_reset :: real
  ri_bucket :: "string option"

datatype log_entry =
    LogStart nat headers "json option"
  | LogRetry nat real
  | LogDone nat int "(string, string option) dict"
  | LogError json
  | LogGlobalLimit real
  | LogRouteLimit real

text \<open>\<open>hs_sent\<close>: when which request was put on the wire. Locks are numbered in the order of their creation.\<close>

record http_state =
  hs_limits :: "(string, rate_limit_info) dict"
  hs_global_reset :: "real option"
  hs_route_locks :: "(string, nat) dict"
  hs_now :: real
  hs_sent :: "(real \<times> string \<times> string) list"
  hs_log :: "log_entry list"

datatype body = JsonBody json | TextBody string

datatype reply = NoReply exc | Reply int headers "exc + body"

record http_response =
  hr_status :: int
  hr_headers :: headers
  hr_body :: body

datatype http_failure = PythonError exc | ApiError vaidcord_error

definition sleep :: "real \<Rightarrow> http_state \<Rightarrow> http_state" where
  "sleep d s = s\<lparr>hs_now := hs_now s + max 0 d\<rparr>"

definition log_event :: "log_entry \<Rightarrow> http_state \<Rightarrow> http_state" where
  "log_event e s = s\<lparr>hs_log := hs_log s @ [e]\<rparr>"

section \<open>Rate limits\<close>

definition get_route_lock :: "string \<Rightarrow> http_state \<Rightarrow> nat \<times> http_state" where
  "get_route_lock endpoint s =
     (case map_of (hs_route_locks s) endpoint of
        Some l \<Rightarrow> (l, s)
      | None \<Rightarrow> (let l = length (hs_route_locks s) in (l, s\<lparr>hs_route_locks := dict_set (hs_route_locks s) endpoint l\<rparr>)))"

definition update_route :: "string \<Rightarrow> rate_limit_info \<Rightarrow> http_state \<Rightarrow> http_state" where
  "update_route endpoint info s = s\<lparr>hs_limits := dict_set (hs_limits s) endpoint info\<rparr>"

definition update_global :: "real \<Rightarrow> http_state \<Rightarrow> http_state" where
  "update_global reset s = s\<lparr>hs_global_reset := Some reset\<rparr>"

definition wait_for_global :: "http_state \<Rightarrow> http_state" where
  "wait_for_global s =
     (case hs_global_reset s of
        None \<Rightarrow> s
      | Some t \<Rightarrow> if hs_now s < t then sleep (t - hs_now s) s else s)"

text \<open>Response headers are looked up without regard to case.\<close>

definition header_get :: "headers \<Rightarrow> string \<Rightarrow> string option" where
  "header_get hs name = map_of (map (\<lambda>(k, v). (py_lower k, v)) hs) (py_lower name)"

definition header_int :: "headers \<Rightarrow> string \<Rightarrow> int result" where
  "header_int hs name =
     (case header_get hs name of
        None \<Rightarrow> Inr 0
      | Some t \<Rightarrow> (case parse_int t of Some i \<Rightarrow> Inr i | None \<Rightarrow> Inl (ValueError ''invalid literal for int()'')))"

definition header_float :: "headers \<Rightarrow> string \<Rightarrow> real result" where
  "header_float hs name =
     (case header_get hs name of
        None \<Rightarrow> Inr 0
      | Some t \<Rightarrow> (case parse_float t of Some f \<Rightarrow> Inr f | None \<Rightarrow> Inl (ValueError ''could not convert string to float'')))"

definition from_timestamp :: "real \<Rightarrow> real result" where
  "from_timestamp t =
     (if - 62135596800 \<le> t \<and> t < 253402300800 then Inr t else Inl (ValueError ''year is out of range''))"

definition read_rate_limit :: "real \<Rightarrow> headers \<Rightarrow> rate_limit_info result" where
  "read_rate_limit now hs =
     bind_result (header_int hs ''X-RateLimit-Limit'') (\<lambda>lim.
     bind_result (header_int hs ''X-RateLimit-Remaining'') (\<lambda>remaining.
     bind_result (header_float hs ''X-RateLimit-Reset-After'') (\<lambda>reset_after.
     bind_result (header_float hs ''X-RateLimit-Reset'') (\<lambda>reset_ts.
     bind_result (if reset_ts \<noteq> 0 then from_timestamp reset_ts else Inr now) (\<lambda>reset.
       Inr \<lparr>ri_limit = lim, ri_remaining = remaining, ri_reset_after = reset_after, ri_reset = reset,
            ri_bucket = header_get hs ''X-RateLimit-Bucket''\<rparr>)))))"

definition check_rate_limit :: "string \<Rightarrow> headers \<Rightarrow> http_state \<Rightarrow> exc option \<times> http_state" where
  "check_rate_limit route hs s =
     (case read_rate_limit (hs_now s) hs of
        Inl e \<Rightarrow> (Some e, s)
      | Inr info \<Rightarrow>
          (let s1 = (if header_get hs ''X-RateLimit-Global'' = Some ''true''
                     then log_event (LogGlobalLimit (ri_reset info)) (update_global (ri_reset info) s) else s);
               s2 = update_route route info s1
           in (None, if ri_remaining info = 0
                     then sleep (ri_reset_after info) (log_event (LogRouteLimit (ri_reset_after info)) s2) else s2)))"

section \<open>Retries\<close>

definition should_retry :: "http_config \<Rightarrow> int \<Rightarrow> int option \<Rightarrow> bool" where
  "should_retry cfg attempt status =
     (if hc_max_retries cfg \<le> attempt then False
      else (case status of Some st \<Rightarrow> \<not> st < 500 | None \<Rightarrow> True))"

definition delay_for :: "http_config \<Rightarrow> int \<Rightarrow> real" where
  "delay_for cfg attempt = hc_retry_delay cfg * 2 ^ nat (max 0 (attempt - 1))"

definition client_error :: "exc \<Rightarrow> bool" where
  "client_error e = (case e of TimeoutError \<Rightarrow> True | OtherError n \<Rightarrow> n = ''aiohttp.ClientError'' | _ \<Rightarrow> False)"

definition put_on_wire :: "http_config \<Rightarrow> string \<Rightarrow> string \<Rightarrow> real \<Rightarrow> http_state \<Rightarrow> http_state" where
  "put_on_wire cfg meth endpoint elapsed s =
     s\<lparr>hs_sent := hs_sent s @ [(hs_now s, meth, hc_base_url cfg @ ''/v'' @ hc_api_version cfg @ endpoint)],
       hs_now := hs_now s + max 0 elapsed\<rparr>"

text \<open>
  The loop of \<open>_request_with_retry\<close>: \<open>attempt\<close> counts from 0, \<open>left\<close> is what remains of
  \<open>range(max_retries)\<close>, \<open>net k\<close> the duration and answer of attempt k.
\<close>

primrec attempts ::
  "http_config \<Rightarrow> (nat \<Rightarrow> real \<times> reply) \<Rightarrow> string \<Rightarrow> string \<Rightarrow> headers \<Rightarrow> json option \<Rightarrow> nat \<Rightarrow> nat \<Rightarrow> exc option \<Rightarrow> http_state \<Rightarrow>
   http_response result \<times> http_state" where
  "attempts cfg net meth endpoint hdrs payload 0 attempt recent s =
     (Inl (case recent of Some e \<Rightarrow> e | None \<Rightarrow> RuntimeError ''Unexpected error in request loop''), s)"
| "attempts cfg net meth endpoint hdrs payload (Suc left) attempt recent s =
     (let number = int attempt + 1;
          s1 = put_on_wire cfg meth endpoint (fst (net attempt)) (log_event (LogStart (attempt + 1) hdrs payload) s);
          fail = (\<lambda>e s. if \<not> client_error e then (Inl e, s)
                        else if should_retry cfg number None
                        then attempts cfg net meth endpoint hdrs payload left (attempt + 1) (Some e)
                               (sleep (delay_for cfg number) (log_event (LogRetry (attempt + 1) (delay_for cfg number)) s))
                        else (Inl e, log_event (LogError JNull) s))
      in (case snd (net attempt) of
            NoReply e \<Rightarrow> fail e s1
          | Reply status hs content \<Rightarrow>
              (case check_rate_limit endpoint hs s1 of
                 (Some e, s2) \<Rightarrow> fail e s2
               | (None, s2) \<Rightarrow>
                   if 500 \<le> status \<and> should_retry cfg number (Some status)
                   then attempts cfg net meth endpoint hdrs payload left (attempt + 1) recent
                          (sleep (delay_for cfg number) (log_event (LogRetry (attempt + 1) (delay_for cfg number)) s2))
                   else (case content of
                           Inl e \<Rightarrow> fail e s2
                         | Inr b \<Rightarrow> (Inr \<lparr>hr_status = status, hr_headers = hs, hr_body = b\<rparr>,
                                    log_event (LogDone (attempt + 1) status (extract_rate_limit_fields (Some hs))) s2)))))"

definition request_with_retry ::
  "http_config \<Rightarrow> (nat \<Rightarrow> real \<times> reply) \<Rightarrow> string \<Rightarrow> string \<Rightarrow> headers option \<Rightarrow> json option \<Rightarrow> http_state \<Rightarrow> http_response result \<times> http_state" where
  "request_with_retry cfg net meth endpoint hdrs sanitized s =
     attempts cfg net meth endpoint (sanitize_headers hdrs) sanitized (nat (hc_max_retries cfg)) 0 None s"

section \<open>Requests\<close>

definition error_data :: "http_response \<Rightarrow> json" where
  "error_data r =
     (case hr_body r of
        JsonBody v \<Rightarrow> v
      | TextBody t \<Rightarrow> JDict [(''code'', JInt (hr_status r)), (''message'', JStr t)])"

definition response_result :: "http_response \<Rightarrow> http_failure + json" where
  "response_result r =
     (if 400 \<le> hr_status r then
        (case error_data r of
           JDict d \<Rightarrow> (case create_discord_error (hr_status r) d of Inl e \<Rightarrow> Inl (PythonError e) | Inr x \<Rightarrow> Inl (ApiError x))
         | _ \<Rightarrow> Inl (PythonError (AttributeError ''get'')))
      else if hr_status r = 204 then Inr (JDict [])
      else (case hr_body r of
              JsonBody v \<Rightarrow> Inr v
            | TextBody t \<Rightarrow> if t = [] then Inr (JDict []) else Inl (PythonError (ValueError ''JSONDecodeError''))))"

definition request ::
  "http_config \<Rightarrow> (nat \<Rightarrow> real \<times> reply) \<Rightarrow> string \<Rightarrow> string \<Rightarrow> headers option \<Rightarrow> json option \<Rightarrow> http_state \<Rightarrow>
   (http_failure + json) \<times> http_state" where
  "request cfg net meth endpoint hdrs payload s =
     (let s1 = wait_for_global s;
          sanitized = map_option sanitize_payload payload;
          s2 = snd (get_route_lock endpoint s1);
          (r, s3) = request_with_retry cfg net meth endpoint hdrs sanitized s2
      in (case r of
            Inl e \<Rightarrow> (Inl (PythonError e), s3)
          | Inr response \<Rightarrow>
              (response_result response,
               case response_result response of Inl (ApiError x) \<Rightarrow> log_event (LogError (ve_message x)) s3 | _ \<Rightarrow> s3)))"

section \<open>Redaction is complete\<close>

text \<open>All values that stand under a sensitive key, at any depth.\<close>

fun secret_values :: "json \<Rightarrow> json list" where
  "secret_values (JDict d) =
     concat (map (\<lambda>kv. if py_lower (fst kv) \<in> set SENSITIVE_PAYLOAD_KEYS then [snd kv] else secret_values (snd kv)) d)"
| "secret_values (JList xs) = concat (map secret_values xs)"
| "secret_values v = []"

lemma sanitized_secrets: "v \<in> set (secret_values (sanitize_payload p)) \<Longrightarrow> v = JStr ''<redacted>''"
  by (induction p rule: sanitize_payload.induct) (auto split: if_splits)

lemma sanitize_idem: "sanitize_payload (sanitize_payload p) = sanitize_payload p"
  by (induction p rule: sanitize_payload.induct) auto

lemma sanitize_identity: "secret_values p = [] \<Longrightarrow> sanitize_payload p = p"
proof (induction p rule: sanitize_payload.induct)
  case (1 d)
  have "(if py_lower (fst kv) \<in> set SENSITIVE_PAYLOAD_KEYS then [snd kv] else secret_values (snd kv)) = []" if "kv \<in> set d" for kv
    using 1(2) that unfolding secret_values.simps concat_eq_Nil_conv set_map by blast
  then have "py_lower (fst kv) \<notin> set SENSITIVE_PAYLOAD_KEYS \<and> secret_values (snd kv) = []" if "kv \<in> set d" for kv
    using that by (metis list.distinct(1))
  then show ?case using 1(1) by (auto intro!: map_idI)
qed (auto intro!: map_idI)


section \<open>The retry loop\<close>

definition rate_headers_ok :: "headers \<Rightarrow> bool" where
  "rate_headers_ok hs = (case read_rate_limit 0 hs of Inr _ \<Rightarrow> True | Inl _ \<Rightarrow> False)"

lemma read_rate_limit_now: "isl (read_rate_limit now hs) = isl (read_rate_limit 0 hs)"
  by (auto simp: read_rate_limit_def bind_result_def split: sum.split)

lemma rate_headers_ok_iff: "rate_headers_ok hs = (\<not> isl (read_rate_limit now hs))"
  using read_rate_limit_now [of now hs] by (simp add: rate_headers_ok_def split: sum.splits)

lemma check_rate_limit_ok: "fst (check_rate_limit route hs s) = None \<longleftrightarrow> rate_headers_ok hs"
  by (simp add: check_rate_limit_def rate_headers_ok_iff [of hs "hs_now s"] Let_def split: sum.split)

text \<open>A check only delays: it sends nothing, and the clock does not go back.\<close>

lemma check_rate_limit_frame:
  "hs_sent (snd (check_rate_limit route hs s)) = hs_sent s" "hs_now s \<le> hs_now (snd (check_rate_limit route hs s))"
  by (simp_all add: check_rate_limit_def Let_def log_event_def update_route_def update_global_def sleep_def split: sum.split)

text \<open>An answer after which the loop tries again while attempts are left.\<close>

definition transient :: "reply \<Rightarrow> bool" where
  "transient r =
     (case r of
        NoReply e \<Rightarrow> client_error e
      | Reply status hs content \<Rightarrow>
          rate_headers_ok hs \<and> (500 \<le> status \<or> (case content of Inl e \<Rightarrow> client_error e | Inr _ \<Rightarrow> False)))"

text \<open>What an attempt that is not repeated yields.\<close>

definition final_result :: "reply \<Rightarrow> http_response result" where
  "final_result r =
     (case r of
        NoReply e \<Rightarrow> Inl e
      | Reply status hs content \<Rightarrow>
          (case read_rate_limit 0 hs of
             Inl e \<Rightarrow> Inl e
           | Inr _ \<Rightarrow> (case content of Inl e \<Rightarrow> Inl e | Inr b \<Rightarrow> Inr \<lparr>hr_status = status, hr_headers = hs, hr_body = b\<rparr>)))"

lemma read_rate_limit_error: "read_rate_limit now hs = Inl e \<Longrightarrow> read_rate_limit 0 hs = Inl e"
  by (auto simp: read_rate_limit_def bind_result_def split: sum.splits if_splits)

lemma header_errors:
  "header_int hs name = Inl e \<Longrightarrow> \<not> client_error e" "header_float hs name = Inl e \<Longrightarrow> \<not> client_error e"
  "from_timestamp t = Inl e \<Longrightarrow> \<not> client_error e"
  by (auto simp: header_int_def header_float_def from_timestamp_def client_error_def split: option.splits if_splits)

lemma value_errors_final: "read_rate_limit now hs = Inl e \<Longrightarrow> \<not> client_error e"
  unfolding read_rate_limit_def bind_result_def
  by (auto split: sum.splits if_splits dest: header_errors)

lemma sleep_frame [simp]: "hs_sent (sleep d s) = hs_sent s" "hs_now (sleep d s) = hs_now s + max 0 d"
  by (simp_all add: sleep_def)

lemma log_event_frame [simp]: "hs_sent (log_event e s) = hs_sent s" "hs_now (log_event e s) = hs_now s"
  by (simp_all add: log_event_def)

lemma put_on_wire_frame [simp]:
  "hs_sent (put_on_wire cfg meth endpoint elapsed s) =
     hs_sent s @ [(hs_now s, meth, hc_base_url cfg @ ''/v'' @ hc_api_version cfg @ endpoint)]"
  "hs_now (put_on_wire cfg meth endpoint elapsed s) = hs_now s + max 0 elapsed"
  by (simp_all add: put_on_wire_def)

lemma attempt_repeats:
  assumes "transient (snd (net attempt))" and "int attempt + 1 < hc_max_retries cfg"
  shows "\<exists>recent' s'. attempts cfg net meth endpoint hdrs payload (Suc left) attempt recent s =
      attempts cfg net meth endpoint hdrs payload left (Suc attempt) recent' s' \<and>
      hs_sent s' = hs_sent s @ [(hs_now s, meth, hc_base_url cfg @ ''/v'' @ hc_api_version cfg @ endpoint)] \<and>
      hs_now s + max 0 (delay_for cfg (int attempt + 1)) \<le> hs_now s'"
proof -
  let ?s1 = "put_on_wire cfg meth endpoint (fst (net attempt)) (log_event (LogStart (attempt + 1) hdrs payload) s)"
  let ?next = "\<lambda>s. sleep (delay_for cfg (int attempt + 1)) (log_event (LogRetry (attempt + 1) (delay_for cfg (int attempt + 1))) s)"
  have retry: "should_retry cfg (int attempt + 1) None" "500 \<le> st \<Longrightarrow> should_retry cfg (int attempt + 1) (Some st)" for st
    using assms(2) by (simp_all add: should_retry_def)
  have later: "hs_now s + max 0 (delay_for cfg (int attempt + 1)) \<le> hs_now (?next s2)" if "hs_now s \<le> hs_now s2" for s2
    using that by simp
  show ?thesis
  proof (cases "snd (net attempt)")
    case (NoReply e)
    then show ?thesis
      using assms(1) retry(1) later [of ?s1]
      by (intro exI [of _ "Some e"] exI [of _ "?next ?s1"]) (simp add: transient_def Let_def)
  next
    case (Reply status hs content)
    obtain s2 where s2: "check_rate_limit endpoint hs ?s1 = (None, s2)"
      using check_rate_limit_ok [of endpoint hs ?s1] assms(1) Reply by (cases "check_rate_limit endpoint hs ?s1") (auto simp: transient_def)
    have frame: "hs_sent s2 = hs_sent ?s1" "hs_now s \<le> hs_now s2"
      using check_rate_limit_frame [where route = endpoint and hs = hs and s = ?s1] s2 by auto
    show ?thesis
    proof (cases "500 \<le> status")
      case True
      then show ?thesis
        using Reply s2 frame retry(2) later [of s2]
        by (intro exI [of _ recent] exI [of _ "?next s2"]) (simp add: Let_def)
    next
      case False
      then obtain e where e: "content = Inl e" "client_error e" using assms(1) Reply by (auto simp: transient_def split: sum.splits)
      then show ?thesis
        using False Reply s2 frame retry(1) later [of s2]
        by (intro exI [of _ "Some e"] exI [of _ "?next s2"]) (simp add: Let_def)
    qed
  qed
qed

lemma attempt_final:
  assumes "\<not> transient (snd (net attempt)) \<or> hc_max_retries cfg \<le> int attempt + 1"
  shows "fst (attempts cfg net meth endpoint hdrs payload (Suc left) attempt recent s) = final_result (snd (net attempt))"
    and "hs_sent (snd (attempts cfg net meth endpoint hdrs payload (Suc left) attempt recent s)) =
      hs_sent s @ [(hs_now s, meth, hc_base_url cfg @ ''/v'' @ hc_api_version cfg @ endpoint)]"
proof -
  let ?s1 = "put_on_wire cfg meth endpoint (fst (net attempt)) (log_event (LogStart (attempt + 1) hdrs payload) s)"
  let ?run = "attempts cfg net meth endpoint hdrs payload (Suc left) attempt recent s"
  have stop: "\<not> should_retry cfg (int attempt + 1) status" if "hc_max_retries cfg \<le> int attempt + 1" for status
    using that by (simp add: should_retry_def)
  have "fst ?run = final_result (snd (net attempt)) \<and> hs_sent (snd ?run) = hs_sent ?s1"
  proof (cases "snd (net attempt)")
    case (NoReply e)
    then show ?thesis using assms stop by (auto simp: transient_def final_result_def Let_def)
  next
    case (Reply status hs content)
    obtain c s2 where s2: "check_rate_limit endpoint hs ?s1 = (c, s2)" by (rule prod.exhaust)
    have frame: "hs_sent s2 = hs_sent ?s1" using check_rate_limit_frame(1) [of endpoint hs ?s1] s2 by simp
    show ?thesis
    proof (cases c)
      case (Some e)
      then have "read_rate_limit (hs_now ?s1) hs = Inl e"
        using s2 by (simp add: check_rate_limit_def Let_def split: sum.splits)
      then show ?thesis
        using Some Reply s2 frame value_errors_final [of "hs_now ?s1" hs e] read_rate_limit_error [of "hs_now ?s1" hs e]
        by (simp add: final_result_def Let_def)
    next
      case None
      then have ok: "rate_headers_ok hs" using check_rate_limit_ok [of endpoint hs ?s1] s2 by simp
      have no5: "\<not> (500 \<le> status \<and> should_retry cfg (int attempt + 1) (Some status))"
        using assms stop ok Reply by (auto simp: transient_def)
      have noc: "\<not> client_error e \<or> \<not> should_retry cfg (int attempt + 1) None" if "content = Inl e" for e
        using assms stop ok Reply that by (auto simp: transient_def)
      obtain info where "read_rate_limit 0 hs = Inr info" using ok by (auto simp: rate_headers_ok_def split: sum.splits)
      then show ?thesis
        using None Reply s2 frame no5 noc by (cases content) (auto simp: final_result_def Let_def)
    qed
  qed
  then show "fst ?run = final_result (snd (net attempt))"
    and "hs_sent (snd ?run) = hs_sent s @ [(hs_now s, meth, hc_base_url cfg @ ''/v'' @ hc_api_version cfg @ endpoint)]"
    by simp_all
qed

lemma attempts_policy:
  assumes "a + n < nat (hc_max_retries cfg)" and "\<And>k. a \<le> k \<Longrightarrow> k < a + n \<Longrightarrow> transient (snd (net k))"
    and "\<not> transient (snd (net (a + n))) \<or> Suc (a + n) = nat (hc_max_retries cfg)"
  shows "\<exists>times. length times = Suc n \<and> hd times = hs_now s \<and>
    fst (attempts cfg net meth endpoint hdrs payload (nat (hc_max_retries cfg) - a) a recent s) = final_result (snd (net (a + n))) \<and>
    hs_sent (snd (attempts cfg net meth endpoint hdrs payload (nat (hc_max_retries cfg) - a) a recent s)) =
      hs_sent s @ map (\<lambda>t. (t, meth, hc_base_url cfg @ ''/v'' @ hc_api_version cfg @ endpoint)) times \<and>
    (\<forall>k < n. times ! k + delay_for cfg (int (a + k) + 1) \<le> times ! Suc k)"
  using assms
proof (induction n arbitrary: a recent s)
  case 0
  then obtain left where left: "nat (hc_max_retries cfg) - a = Suc left" by (cases "nat (hc_max_retries cfg) - a") auto
  have "\<not> transient (snd (net a)) \<or> hc_max_retries cfg \<le> int a + 1" using 0(3) by auto
  from attempt_final [where net = net and attempt = a and cfg = cfg, OF this] show ?case unfolding left by (intro exI [of _ "[hs_now s]"]) simp
next
  case (Suc n)
  then obtain left where left: "nat (hc_max_retries cfg) - a = Suc left" by (cases "nat (hc_max_retries cfg) - a") auto
  then have left': "nat (hc_max_retries cfg) - Suc a = left" by simp
  have "transient (snd (net a))" "int a + 1 < hc_max_retries cfg" using Suc.prems(1,2) by auto
  from attempt_repeats [where net = net and attempt = a and cfg = cfg, OF this, of meth endpoint hdrs payload left recent s] obtain recent' s' where
    step: "attempts cfg net meth endpoint hdrs payload (Suc left) a recent s = attempts cfg net meth endpoint hdrs payload left (Suc a) recent' s'"
      "hs_sent s' = hs_sent s @ [(hs_now s, meth, hc_base_url cfg @ ''/v'' @ hc_api_version cfg @ endpoint)]"
      "hs_now s + max 0 (delay_for cfg (int a + 1)) \<le> hs_now s'" by blast
  from Suc.IH [of "Suc a" s' recent'] Suc.prems obtain times where
    times: "length times = Suc n" "hd times = hs_now s'"
      "fst (attempts cfg net meth endpoint hdrs payload left (Suc a) recent' s') = final_result (snd (net (Suc a + n)))"
      "hs_sent (snd (attempts cfg net meth endpoint hdrs payload left (Suc a) recent' s')) =
        hs_sent s' @ map (\<lambda>t. (t, meth, hc_base_url cfg @ ''/v'' @ hc_api_version cfg @ endpoint)) times"
      "\<forall>k < n. times ! k + delay_for cfg (int (Suc a + k) + 1) \<le> times ! Suc k"
    unfolding left' by auto
  have first: "times ! 0 = hs_now s'" using times(1,2) by (cases times) auto
  have gaps: "(hs_now s # times) ! k + delay_for cfg (int (a + k) + 1) \<le> (hs_now s # times) ! Suc k" if "k < Suc n" for k
    using that times(5) step(3) first by (cases k) (auto simp: add.assoc)
  show ?case
    unfolding left step(1) using times(1,3,4) step(2) gaps by (intro exI [of _ "hs_now s # times"]) auto
qed

lemma attempts_sends:
  "\<exists>xs. hs_sent (snd (attempts cfg net meth endpoint hdrs payload left attempt recent s)) = hs_sent s @ xs \<and>
    list_all (\<lambda>x. hs_now s \<le> fst x) xs"
proof (induction left arbitrary: attempt recent s)
  case (Suc left)
  show ?case
  proof (cases "transient (snd (net attempt)) \<and> int attempt + 1 < hc_max_retries cfg")
    case True
    then obtain recent' s' where
      step: "attempts cfg net meth endpoint hdrs payload (Suc left) attempt recent s = attempts cfg net meth endpoint hdrs payload left (Suc attempt) recent' s'"
        "hs_sent s' = hs_sent s @ [(hs_now s, meth, hc_base_url cfg @ ''/v'' @ hc_api_version cfg @ endpoint)]"
        "hs_now s + max 0 (delay_for cfg (int attempt + 1)) \<le> hs_now s'"
      using attempt_repeats [of net attempt cfg] by blast
    obtain xs where xs: "hs_sent (snd (attempts cfg net meth endpoint hdrs payload left (Suc attempt) recent' s')) = hs_sent s' @ xs"
      "list_all (\<lambda>x. hs_now s' \<le> fst x) xs" using Suc.IH by blast
    have "hs_now s \<le> hs_now s'" using step(3) by simp
    then have "list_all (\<lambda>x. hs_now s \<le> fst x) xs" using xs(2) by (auto simp: list_all_iff)
    then show ?thesis using step(1,2) xs(1) by auto
  next
    case False
    then show ?thesis using attempt_final(2) [of net attempt cfg meth endpoint hdrs payload left recent s] by auto
  qed
qed simp

lemma delay_for_attempt: "delay_for cfg (int k + 1) = hc_retry_delay cfg * 2 ^ k"
  by (simp add: delay_for_def)

section \<open>Properties\<close>

definition example_http_config :: http_config where
  "example_http_config = \<lparr>hc_api_version = ''10'', hc_base_url = ''https://discord.com/api'', hc_max_retries = 3, hc_retry_delay = 1\<rparr>"

definition example_http_state :: http_state where
  "example_http_state = \<lparr>hs_limits = [], hs_global_reset = Some 5, hs_route_locks = [], hs_now = 0, hs_sent = [], hs_log = []\<rparr>"

definition example_net :: "nat \<Rightarrow> real \<times> reply" where
  "example_net k = (0, if k = 0 then NoReply TimeoutError else Reply 200 [] (Inr (JsonBody (JDict []))))"

text \<open>
  C11: the retry policy. When the first n attempts fail transiently (a timeout, a connection
  error or a 5xx status) and attempt n does not, or is the last one allowed, exactly n + 1
  requests are sent, the pause after the k-th is at least the base delay times 2 to the k, and
  the result is what attempt n answered. Every status below 500, 429 included, ends the loop
  at once.
\<close>

theorem retry_policy:
  assumes "n < nat (hc_max_retries cfg)" and "\<forall>k < n. transient (snd (net k))"
    and "\<not> transient (snd (net n)) \<or> Suc n = nat (hc_max_retries cfg)"
  shows "\<exists>times. length times = Suc n \<and>
    fst (request_with_retry cfg net meth endpoint hdrs payload s) = final_result (snd (net n)) \<and>
    hs_sent (snd (request_with_retry cfg net meth endpoint hdrs payload s)) =
      hs_sent s @ map (\<lambda>t. (t, meth, hc_base_url cfg @ ''/v'' @ hc_api_version cfg @ endpoint)) times \<and>
    (\<forall>k < n. times ! k + hc_retry_delay cfg * 2 ^ k \<le> times ! Suc k)"
  using attempts_policy [of 0 n cfg net s meth endpoint "sanitize_headers hdrs" payload None] assms
  by (auto simp: request_with_retry_def delay_for_attempt)

theorem retry_policy_witness:
  "\<exists>times. length times = 2 \<and>
    fst (request_with_retry example_http_config example_net ''GET'' ''/users/@me'' None None example_http_state) =
      Inr \<lparr>hr_status = 200, hr_headers = [], hr_body = JsonBody (JDict [])\<rparr> \<and> times ! 0 + 1 \<le> (times ! 1 :: real)"
proof -
  have net: "\<forall>k < 1. transient (snd (example_net k))" "\<not> transient (snd (example_net 1))"
    "final_result (snd (example_net 1)) = Inr \<lparr>hr_status = 200, hr_headers = [], hr_body = JsonBody (JDict [])\<rparr>"
    by (simp_all add: example_net_def transient_def client_error_def final_result_def rate_headers_ok_def
        read_rate_limit_def header_int_def header_float_def header_get_def)
  have cfg: "1 < nat (hc_max_retries example_http_config)" "hc_retry_delay example_http_config = 1"
    by (simp_all add: example_http_config_def)
  obtain times where "length times = Suc 1"
    "fst (request_with_retry example_http_config example_net ''GET'' ''/users/@me'' None None example_http_state) = final_result (snd (example_net 1))"
    "\<forall>k < 1. times ! k + hc_retry_delay example_http_config * 2 ^ k \<le> times ! Suc k"
    using retry_policy [OF cfg(1) net(1), of "''GET''" "''/users/@me''" None None example_http_state] net(2) by blast
  then show ?thesis using net(3) cfg(2) by (intro exI [of _ times]) simp
qed

text \<open>
  While a global rate limit is in force no request is put on the wire. Whatever the network
  answers, every attempt of a request starts at or after the instant the limit was said to
  reset.
\<close>

theorem global_limit_respected:
  assumes "hs_global_reset s = Some t"
  shows "\<exists>xs. hs_sent (snd (request cfg net meth endpoint hdrs payload s)) = hs_sent s @ xs \<and> list_all (\<lambda>x. t \<le> fst x) xs"
proof -
  let ?s2 = "snd (get_route_lock endpoint (wait_for_global s))"
  have s2: "hs_sent ?s2 = hs_sent s" "t \<le> hs_now ?s2"
    using assms by (auto simp: wait_for_global_def get_route_lock_def Let_def split: option.split)
  obtain xs where "hs_sent (snd (request_with_retry cfg net meth endpoint hdrs (map_option sanitize_payload payload) ?s2)) = hs_sent ?s2 @ xs"
    "list_all (\<lambda>x. hs_now ?s2 \<le> fst x) xs"
    unfolding request_with_retry_def using attempts_sends by blast
  moreover have "hs_sent (snd (request cfg net meth endpoint hdrs payload s)) =
      hs_sent (snd (request_with_retry cfg net meth endpoint hdrs (map_option sanitize_payload payload) ?s2))"
    by (simp add: request_def Let_def split: prod.split sum.split http_failure.split)
  ultimately show ?thesis using s2 by (auto simp: list_all_iff intro: order_trans)
qed

theorem global_limit_respected_witness:
  "\<exists>xs. hs_sent (snd (request example_http_config example_net ''GET'' ''/users/@me'' None None example_http_state)) =
     hs_sent example_http_state @ xs \<and> list_all (\<lambda>x. 5 \<le> fst x) xs"
  by (rule global_limit_respected) (simp add: example_http_state_def)

text \<open>
  C32: error responses. A response with an error status and an error object never returns: it
  raises the exception class of its status (401, 403, 404, 429, any 5xx, any other 4xx), which
  carries the status, the message and the whole object; a success status returns the decoded
  body, and an empty body or a 204 an empty object.
\<close>

theorem error_status_raises:
  assumes "error_data r = JDict data" and "jget data ''errors'' = JNull \<or> jget data ''errors'' = JDict d" and "error_tree_ok d"
  shows "if 400 \<le> hr_status r
    then \<exists>e. response_result r = Inl (ApiError e) \<and> ve_status e = Some (hr_status r) \<and> ve_raw_data e = data \<and>
      ve_message e = dict_get data ''message'' (JStr ''Unknown error'') \<and>
      ve_class e = (if hr_status r = 401 then AuthenticationError else if hr_status r = 403 then ForbiddenError
        else if hr_status r = 404 then NotFoundError else if hr_status r = 429 then RateLimitError
        else if 500 \<le> hr_status r then VaidCordError else DiscordAPIError)
    else if hr_status r = 204 \<or> hr_body r = TextBody [] then response_result r = Inr (JDict [])
    else (case hr_body r of JsonBody v \<Rightarrow> response_result r = Inr v | TextBody _ \<Rightarrow> isl (response_result r))"
proof (cases "400 \<le> hr_status r")
  case True
  then show ?thesis
    using create_discord_error_class [OF True assms(3), of data] assms(1,2) by (auto simp: response_result_def)
next
  case False
  then show ?thesis by (auto simp: response_result_def split: body.split)
qed

theorem error_status_raises_witness:
  "\<exists>e. response_result \<lparr>hr_status = 429, hr_headers = [], hr_body = JsonBody (JDict [(''message'', JStr ''slow down'')])\<rparr> = Inl (ApiError e) \<and>
     ve_class e = RateLimitError \<and> ve_status e = Some 429 \<and> ve_message e = JStr ''slow down''"
  using error_status_raises [of "\<lparr>hr_status = 429, hr_headers = [], hr_body = JsonBody (JDict [(''message'', JStr ''slow down'')])\<rparr>"
      "[(''message'', JStr ''slow down'')]" "[]"]
  by (auto simp: error_data_def jget_def dict_get_def)

text \<open>With no attempts allowed the loop raises its own RuntimeError and sends nothing.\<close>

lemma no_attempts: "hc_max_retries cfg \<le> 0 \<Longrightarrow>
  request_with_retry cfg net meth endpoint hdrs payload s = (Inl (RuntimeError ''Unexpected error in request loop''), s)"
  by (simp add: request_with_retry_def)

end
