(* ===== verification/ApiClient.thy ===== *)
theory ApiClient
  imports UrlQuote Http
begin

text \<open>
  The REST facade (src/vaidcord-py/src/vaidcord/api_client.py): every endpoint method as the request
  it hands to the HTTP client, and the upload form of \<open>AttachmentFile\<close>s
  (types/resources.py). A path is a list of segments, so that the lemmas can speak of its shape;
  \<open>Num\<close> and \<open>Ref\<close> are ids, \<open>Quoted\<close> is \<open>quote(x, safe='')\<close>, \<open>Raw\<close> a string put into the path as it is.
\<close>

section \<open>Requests\<close>

type_synonym snowflake = "int + string"

definition ref_text :: "snowflake \<Rightarrow> string" where
  "ref_text r = (case r of Inl i \<Rightarrow> show_int i | Inr s \<Rightarrow> s)"

datatype segment = Lit string | Num int | Ref snowflake | Quoted string | Raw string

primrec segment_text :: "segment \<Rightarrow> string" where
  "segment_text (Lit s) = s"
| "segment_text (Num i) = show_int i"
| "segment_text (Ref r) = ref_text r"
| "segment_text (Quoted s) = quote_with [] s"
| "segment_text (Raw s) = s"

definition render_path :: "segment list \<Rightarrow> string" where
  "render_path segs = concat (map (\<lambda>s. CHR ''/'' # segment_text s) segs)"

text \<open>Files to upload: bytes, a file-like object with what its \<open>read()\<close> gives, or anything else.\<close>

datatype attachment_data = RawBytes bytes | FileLike "bytes result" | OtherData

record attachment_file =
  af_filename :: string
  af_data :: attachment_data
  af_description :: "string option"
  af_spoiler :: bool
  af_content_type :: string

definition upload_filename :: "attachment_file \<Rightarrow> string" where
  "upload_filename f =
     (if af_spoiler f \<and> \<not> starts_with (af_filename f) ''SPOILER_'' then ''SPOILER_'' @ af_filename f else af_filename f)"

definition read_bytes :: "attachment_file \<Rightarrow> bytes result" where
  "read_bytes f =
     (case af_data f of RawBytes b \<Rightarrow> Inr b | FileLike r \<Rightarrow> r | OtherData \<Rightarrow> Inl (TypeError ''Unsupported attachment data type''))"

datatype form_part = JsonPart string json | TextPart string string | FilePart string bytes string string

definition attachment_descriptor :: "nat \<times> attachment_file \<Rightarrow> json" where
  "attachment_descriptor p =
     JDict ([(''id'', JInt (int (fst p))), (''filename'', JStr (upload_filename (snd p)))] @
       (case af_description (snd p) of None \<Rightarrow> [] | Some d \<Rightarrow> [(''description'', JStr d)]))"

definition file_part :: "nat \<times> attachment_file \<Rightarrow> form_part result" where
  "file_part p =
     bind_result (read_bytes (snd p)) (\<lambda>b.
       Inr (FilePart (''files['' @ show_nat (fst p) @ '']'') b (upload_filename (snd p)) (af_content_type (snd p))))"

definition build_attachment_form :: "jdict \<Rightarrow> attachment_file list \<Rightarrow> form_part list result" where
  "build_attachment_form payload files =
     (let present = jget payload ''attachments'' in
      bind_result (if json_truthy present then json_iter present else Inr []) (\<lambda>attachments.
      bind_result (map_result file_part (enumerate 0 files)) (\<lambda>parts.
        Inr (JsonPart ''payload_json''
               (JDict (dict_set payload ''attachments'' (JList (attachments @ map attachment_descriptor (enumerate 0 files))))) # parts))))"

text \<open>The arguments of \<open>HTTPClient.request\<close>; a \<open>json\<close> or \<open>params\<close> of None is the same as none.\<close>

record api_request =
  ar_method :: string
  ar_path :: string
  ar_json :: "json option"
  ar_params :: "jdict option"
  ar_headers :: "(string \<times> string) list"
  ar_form :: "form_part list option"

definition api_call :: "string \<Rightarrow> segment list \<Rightarrow> api_request" where
  "api_call verb segs =
     \<lparr>ar_method = verb, ar_path = render_path segs, ar_json = None, ar_params = None, ar_headers = [], ar_form = None\<rparr>"

definition api_get :: "segment list \<Rightarrow> api_request" where
  "api_get segs = api_call ''GET'' segs"

definition api_post :: "segment list \<Rightarrow> api_request" where
  "api_post segs = api_call ''POST'' segs"

definition api_patch :: "segment list \<Rightarrow> api_request" where
  "api_patch segs = api_call ''PATCH'' segs"

definition api_put :: "segment list \<Rightarrow> api_request" where
  "api_put segs = api_call ''PUT'' segs"

definition api_delete :: "segment list \<Rightarrow> api_request" where
  "api_delete segs = api_call ''DELETE'' segs"

definition normalize_endpoint :: "string \<Rightarrow> string" where
  "normalize_endpoint endpoint = (if starts_with endpoint ''/'' then endpoint else CHR ''/'' # endpoint)"

definition perform :: "http_config \<Rightarrow> (nat \<Rightarrow> real \<times> reply) \<Rightarrow> api_request \<Rightarrow> http_state \<Rightarrow> (http_failure + json) \<times> http_state" where
  "perform cfg net r s =
     request cfg net (ar_method r) (normalize_endpoint (ar_path r)) (if ar_headers r = [] then None else Some (ar_headers r)) (ar_json r) s"

definition audit_kwargs :: "string option \<Rightarrow> (string \<times> string) list" where
  "audit_kwargs reason = (case reason of None \<Rightarrow> [] | Some r \<Rightarrow> [(''X-Audit-Log-Reason'', quote_with ''/ '' r)])"

definition nonempty :: "jdict \<Rightarrow> jdict option" where
  "nonempty params = (if params = [] then None else Some params)"

definition nonempty_json :: "jdict \<Rightarrow> json option" where
  "nonempty_json payload = (if payload = [] then None else Some (JDict payload))"

definition optional_param :: "string \<Rightarrow> ('a \<Rightarrow> json) \<Rightarrow> 'a option \<Rightarrow> jdict" where
  "optional_param k f v = (case v of None \<Rightarrow> [] | Some x \<Rightarrow> [(k, f x)])"

definition opt_segment :: "string option \<Rightarrow> segment list" where
  "opt_segment token = (case token of None \<Rightarrow> [] | Some t \<Rightarrow> [Raw t])"

section \<open>Endpoints\<close>

definition api_send_message :: "int \<Rightarrow> jdict \<Rightarrow> attachment_file list option \<Rightarrow> api_request result" where
  "api_send_message channel_id payload files =
     (case files of
        Some (f # fs) \<Rightarrow> bind_result (build_attachment_form payload (f # fs)) (\<lambda>form.
          Inr ((api_post [Lit ''channels'', Num channel_id, Lit ''messages''])\<lparr>ar_form := Some form\<rparr>))
      | _ \<Rightarrow> Inr ((api_post [Lit ''channels'', Num channel_id, Lit ''messages''])\<lparr>ar_json := Some (JDict payload)\<rparr>))"

definition api_list_messages :: "int \<Rightarrow> int \<Rightarrow> int option \<Rightarrow> int option \<Rightarrow> int option \<Rightarrow> api_request" where
  "api_list_messages channel_id limit before after around =
     (let params = [(''limit'', JInt limit)] @
           optional_param ''before'' JInt before @
           optional_param ''after'' JInt after @
           optional_param ''around'' JInt around
      in (api_get [Lit ''channels'', Num channel_id, Lit ''messages''])\<lparr>ar_params := Some params\<rparr>)"

definition api_fetch_message :: "int \<Rightarrow> int \<Rightarrow> api_request" where
  "api_fetch_message channel_id message_id = api_get [Lit ''channels'', Num channel_id, Lit ''messages'', Num message_id]"

definition api_edit_message :: "int \<Rightarrow> int \<Rightarrow> jdict \<Rightarrow> attachment_file list option \<Rightarrow> api_request result" where
  "api_edit_message channel_id message_id payload files =
     (case files of
        Some (f # fs) \<Rightarrow> bind_result (build_attachment_form payload (f # fs)) (\<lambda>form.
          Inr ((api_patch [Lit ''channels'', Num channel_id, Lit ''messages'', Num message_id])\<lparr>ar_form := Some form\<rparr>))
      | _ \<Rightarrow> Inr ((api_patch [Lit ''channels'', Num channel_id, Lit ''messages'', Num message_id])\<lparr>ar_json := Some (JDict payload)\<rparr>))"

definition api_delete_message :: "int \<Rightarrow> int \<Rightarrow> api_request" where
  "api_delete_message channel_id message_id = api_delete [Lit ''channels'', Num channel_id, Lit ''messages'', Num message_id]"

definition api_crosspost_message :: "int \<Rightarrow> int \<Rightarrow> api_request" where
  "api_crosspost_message channel_id message_id =
     api_post [Lit ''channels'', Num channel_id, Lit ''messages'', Num message_id, Lit ''crosspost'']"

definition api_add_reaction :: "int \<Rightarrow> int \<Rightarrow> string \<Rightarrow> api_request" where
  "api_add_reaction channel_id message_id emoji =
     api_put [Lit ''channels'', Num channel_id, Lit ''messages'', Num message_id, Lit ''reactions'', Quoted emoji, Lit ''@me'']"

definition api_delete_own_reaction :: "int \<Rightarrow> int \<Rightarrow> string \<Rightarrow> api_request" where
  "api_delete_own_reaction channel_id message_id emoji =
     api_delete [Lit ''channels'', Num channel_id, Lit ''messages'', Num message_id, Lit ''reactions'', Quoted emoji, Lit ''@me'']"

definition api_delete_user_reaction :: "int \<Rightarrow> int \<Rightarrow> string \<Rightarrow> int \<Rightarrow> api_request" where
  "api_delete_user_reaction channel_id message_id emoji user_id =
     api_delete [Lit ''channels'', Num channel_id, Lit ''messages'', Num message_id, Lit ''reactions'', Quoted emoji, Num user_id]"

definition api_list_reactions :: "int \<Rightarrow> int \<Rightarrow> string \<Rightarrow> jdict \<Rightarrow> api_request" where
  "api_list_reactions channel_id message_id emoji params =
     (api_get [Lit ''channels'', Num channel_id, Lit ''messages'', Num message_id, Lit ''reactions'', Quoted emoji])\<lparr>ar_params := nonempty params\<rparr>"

definition api_clear_reactions :: "int \<Rightarrow> int \<Rightarrow> api_request" where
  "api_clear_reactions channel_id message_id =
     api_delete [Lit ''channels'', Num channel_id, Lit ''messages'', Num message_id, Lit ''reactions'']"

definition api_clear_reaction :: "int \<Rightarrow> int \<Rightarrow> string \<Rightarrow> api_request" where
  "api_clear_reaction channel_id message_id emoji =
     api_delete [Lit ''channels'', Num channel_id, Lit ''messages'', Num message_id, Lit ''reactions'', Quoted emoji]"

definition api_bulk_delete_messages :: "int \<Rightarrow> int list \<Rightarrow> api_request" where
  "api_bulk_delete_messages channel_id message_ids =
     (api_post [Lit ''channels'', Num channel_id, Lit ''messages'', Lit ''bulk-delete''])\<lparr>ar_json := Some (JDict [(''messages'', JList (map (\<lambda>i. JStr (show_int i)) message_ids))])\<rparr>"

definition api_get_poll_answer_voters :: "int \<Rightarrow> int \<Rightarrow> int \<Rightarrow> jdict \<Rightarrow> api_request" where
  "api_get_poll_answer_voters channel_id message_id answer_id params =
     (api_get [Lit ''channels'', Num channel_id, Lit ''polls'', Num message_id, Lit ''answers'', Num answer_id])\<lparr>ar_params := nonempty params\<rparr>"

definition api_end_poll :: "int \<Rightarrow> int \<Rightarrow> api_request" where
  "api_end_poll channel_id message_id = api_post [Lit ''channels'', Num channel_id, Lit ''polls'', Num message_id, Lit ''expire'']"

definition api_list_pins :: "int \<Rightarrow> api_request" where
  "api_list_pins channel_id = api_get [Lit ''channels'', Num channel_id, Lit ''pins'']"

definition api_get_channel_pins :: "int \<Rightarrow> string option \<Rightarrow> int \<Rightarrow> api_request" where
  "api_get_channel_pins channel_id before limit =
     (let params = [(''limit'', JInt limit)] @
           optional_param ''before'' JStr before
      in (api_get [Lit ''channels'', Num channel_id, Lit ''messages'', Lit ''pins''])\<lparr>ar_params := Some params\<rparr>)"

definition api_pin_message :: "int \<Rightarrow> int \<Rightarrow> api_request" where
  "api_pin_message channel_id message_id = api_put [Lit ''channels'', Num channel_id, Lit ''pins'', Num message_id]"

definition api_unpin_message :: "int \<Rightarrow> int \<Rightarrow> api_request" where
  "api_unpin_message channel_id message_id = api_delete [Lit ''channels'', Num channel_id, Lit ''pins'', Num message_id]"

definition api_pin_channel_message :: "int \<Rightarrow> int \<Rightarrow> api_request" where
  "api_pin_channel_message channel_id message_id = api_put [Lit ''channels'', Num channel_id, Lit ''messages'', Lit ''pins'', Num message_id]"

definition api_unpin_channel_message :: "int \<Rightarrow> int \<Rightarrow> api_request" where
  "api_unpin_channel_message channel_id message_id = api_delete [Lit ''channels'', Num channel_id, Lit ''messages'', Lit ''pins'', Num message_id]"

definition api_trigger_typing :: "int \<Rightarrow> api_request" where
  "api_trigger_typing channel_id = api_post [Lit ''channels'', Num channel_id, Lit ''typing'']"

definition api_fetch_channel :: "int \<Rightarrow> api_request" where
  "api_fetch_channel channel_id = api_get [Lit ''channels'', Num channel_id]"

definition api_modify_channel :: "int \<Rightarrow> jdict \<Rightarrow> api_request" where
  "api_modify_channel channel_id payload = (api_patch [Lit ''channels'', Num channel_id])\<lparr>ar_json := Some (JDict payload)\<rparr>"

definition api_delete_channel :: "int \<Rightarrow> api_request" where
  "api_delete_channel channel_id = api_delete [Lit ''channels'', Num channel_id]"

definition api_list_channel_invites :: "int \<Rightarrow> api_request" where
  "api_list_channel_invites channel_id = api_get [Lit ''channels'', Num channel_id, Lit ''invites'']"

definition api_create_channel_invite :: "int \<Rightarrow> jdict \<Rightarrow> api_request" where
  "api_create_channel_invite channel_id payload =
     (api_post [Lit ''channels'', Num channel_id, Lit ''invites''])\<lparr>ar_json := Some (JDict payload)\<rparr>"

definition api_edit_channel_permissions :: "int \<Rightarrow> int \<Rightarrow> jdict \<Rightarrow> api_request" where
  "api_edit_channel_permissions channel_id overwrite_id payload =
     (api_put [Lit ''channels'', Num channel_id, Lit ''permissions'', Num overwrite_id])\<lparr>ar_json := Some (JDict payload)\<rparr>"

definition api_delete_channel_permission :: "int \<Rightarrow> int \<Rightarrow> api_request" where
  "api_delete_channel_permission channel_id overwrite_id = api_delete [Lit ''channels'', Num channel_id, Lit ''permissions'', Num overwrite_id]"

definition api_follow_news_channel :: "int \<Rightarrow> int \<Rightarrow> api_request" where
  "api_follow_news_channel channel_id webhook_channel_id =
     (api_post [Lit ''channels'', Num channel_id, Lit ''followers''])\<lparr>ar_json := Some (JDict [(''webhook_channel_id'', JStr (show_int webhook_channel_id))])\<rparr>"

definition api_start_thread_from_message :: "int \<Rightarrow> int \<Rightarrow> jdict \<Rightarrow> api_request" where
  "api_start_thread_from_message channel_id message_id payload =
     (api_post [Lit ''channels'', Num channel_id, Lit ''messages'', Num message_id, Lit ''threads''])\<lparr>ar_json := Some (JDict payload)\<rparr>"

definition api_start_thread_without_message :: "int \<Rightarrow> jdict \<Rightarrow> api_request" where
  "api_start_thread_without_message channel_id payload =
     (api_post [Lit ''channels'', Num channel_id, Lit ''threads''])\<lparr>ar_json := Some (JDict payload)\<rparr>"

definition api_join_thread :: "int \<Rightarrow> api_request" where
  "api_join_thread channel_id = api_put [Lit ''channels'', Num channel_id, Lit ''thread-members'', Lit ''@me'']"

definition api_leave_thread :: "int \<Rightarrow> api_request" where
  "api_leave_thread channel_id = api_delete [Lit ''channels'', Num channel_id, Lit ''thread-members'', Lit ''@me'']"

definition api_add_thread_member :: "int \<Rightarrow> int \<Rightarrow> api_request" where
  "api_add_thread_member channel_id user_id = api_put [Lit ''channels'', Num channel_id, Lit ''thread-members'', Num user_id]"

definition api_remove_thread_member :: "int \<Rightarrow> int \<Rightarrow> api_request" where
  "api_remove_thread_member channel_id user_id = api_delete [Lit ''channels'', Num channel_id, Lit ''thread-members'', Num user_id]"

definition api_list_public_archived_threads :: "int \<Rightarrow> jdict \<Rightarrow> api_request" where
  "api_list_public_archived_threads channel_id params =
     (api_get [Lit ''channels'', Num channel_id, Lit ''threads'', Lit ''archived'', Lit ''public''])\<lparr>ar_params := nonempty params\<rparr>"

definition api_list_private_archived_threads :: "int \<Rightarrow> jdict \<Rightarrow> api_request" where
  "api_list_private_archived_threads channel_id params =
     (api_get [Lit ''channels'', Num channel_id, Lit ''threads'', Lit ''archived'', Lit ''private''])\<lparr>ar_params := nonempty params\<rparr>"

definition api_list_joined_private_archived_threads :: "int \<Rightarrow> jdict \<Rightarrow> api_request" where
  "api_list_joined_private_archived_threads channel_id params =
     (api_get [Lit ''channels'', Num channel_id, Lit ''users'', Lit ''@me'', Lit ''threads'', Lit ''archived'', Lit ''private''])\<lparr>ar_params := nonempty params\<rparr>"

definition api_fetch_guild :: "int \<Rightarrow> api_request" where
  "api_fetch_guild guild_id = api_get [Lit ''guilds'', Num guild_id]"

definition api_fetch_guild_preview :: "int \<Rightarrow> api_request" where
  "api_fetch_guild_preview guild_id = api_get [Lit ''guilds'', Num guild_id, Lit ''preview'']"

definition api_list_guild_channels :: "int \<Rightarrow> api_request" where
  "api_list_guild_channels guild_id = api_get [Lit ''guilds'', Num guild_id, Lit ''channels'']"

definition api_list_guild_roles :: "int \<Rightarrow> api_request" where
  "api_list_guild_roles guild_id = api_get [Lit ''guilds'', Num guild_id, Lit ''roles'']"

definition api_create_guild_role :: "int \<Rightarrow> jdict \<Rightarrow> api_request" where
  "api_create_guild_role guild_id payload =
     (api_post [Lit ''guilds'', Num guild_id, Lit ''roles''])\<lparr>ar_json := Some (JDict payload)\<rparr>"

definition api_modify_guild_role_positions :: "int \<Rightarrow> jdict list \<Rightarrow> api_request" where
  "api_modify_guild_role_positions guild_id positions =
     (api_patch [Lit ''guilds'', Num guild_id, Lit ''roles''])\<lparr>ar_json := Some (JList (map JDict positions))\<rparr>"

definition api_modify_guild_role :: "int \<Rightarrow> int \<Rightarrow> jdict \<Rightarrow> api_request" where
  "api_modify_guild_role guild_id role_id payload =
     (api_patch [Lit ''guilds'', Num guild_id, Lit ''roles'', Num role_id])\<lparr>ar_json := Some (JDict payload)\<rparr>"

definition api_delete_guild_role :: "int \<Rightarrow> int \<Rightarrow> api_request" where
  "api_delete_guild_role guild_id role_id = api_delete [Lit ''guilds'', Num guild_id, Lit ''roles'', Num role_id]"

definition api_get_guild_member :: "int \<Rightarrow> int \<Rightarrow> api_request" where
  "api_get_guild_member guild_id user_id = api_get [Lit ''guilds'', Num guild_id, Lit ''members'', Num user_id]"

definition api_list_guild_members :: "int \<Rightarrow> jdict \<Rightarrow> api_request" where
  "api_list_guild_members guild_id params =
     (api_get [Lit ''guilds'', Num guild_id, Lit ''members''])\<lparr>ar_params := nonempty params\<rparr>"

definition api_add_guild_member :: "int \<Rightarrow> int \<Rightarrow> jdict \<Rightarrow> api_request" where
  "api_add_guild_member guild_id user_id payload =
     (api_put [Lit ''guilds'', Num guild_id, Lit ''members'', Num user_id])\<lparr>ar_json := Some (JDict payload)\<rparr>"

definition api_modify_guild_member :: "int \<Rightarrow> int \<Rightarrow> jdict \<Rightarrow> api_request" where
  "api_modify_guild_member guild_id user_id payload =
     (api_patch [Lit ''guilds'', Num guild_id, Lit ''members'', Num user_id])\<lparr>ar_json := Some (JDict payload)\<rparr>"

definition api_remove_guild_member :: "int \<Rightarrow> int \<Rightarrow> api_request" where
  "api_remove_guild_member guild_id user_id = api_delete [Lit ''guilds'', Num guild_id, Lit ''members'', Num user_id]"

definition api_ban_guild_member :: "int \<Rightarrow> int \<Rightarrow> jdict \<Rightarrow> api_request" where
  "api_ban_guild_member guild_id user_id payload =
     (api_put [Lit ''guilds'', Num guild_id, Lit ''bans'', Num user_id])\<lparr>ar_json := nonempty_json payload\<rparr>"

definition api_unban_guild_member :: "int \<Rightarrow> int \<Rightarrow> api_request" where
  "api_unban_guild_member guild_id user_id = api_delete [Lit ''guilds'', Num guild_id, Lit ''bans'', Num user_id]"

definition api_list_guild_bans :: "int \<Rightarrow> jdict \<Rightarrow> api_request" where
  "api_list_guild_bans guild_id params =
     (api_get [Lit ''guilds'', Num guild_id, Lit ''bans''])\<lparr>ar_params := nonempty params\<rparr>"

definition api_get_guild_ban :: "int \<Rightarrow> int \<Rightarrow> api_request" where
  "api_get_guild_ban guild_id user_id = api_get [Lit ''guilds'', Num guild_id, Lit ''bans'', Num user_id]"

definition api_list_guild_emojis :: "int \<Rightarrow> api_request" where
  "api_list_guild_emojis guild_id = api_get [Lit ''guilds'', Num guild_id, Lit ''emojis'']"

definition api_list_guild_stickers :: "int \<Rightarrow> api_request" where
  "api_list_guild_stickers guild_id = api_get [Lit ''guilds'', Num guild_id, Lit ''stickers'']"

definition api_list_scheduled_events :: "int \<Rightarrow> jdict \<Rightarrow> api_request" where
  "api_list_scheduled_events guild_id params =
     (api_get [Lit ''guilds'', Num guild_id, Lit ''scheduled-events''])\<lparr>ar_params := nonempty params\<rparr>"

definition api_create_scheduled_event :: "int \<Rightarrow> jdict \<Rightarrow> api_request" where
  "api_create_scheduled_event guild_id payload =
     (api_post [Lit ''guilds'', Num guild_id, Lit ''scheduled-events''])\<lparr>ar_json := Some (JDict payload)\<rparr>"

definition api_fetch_scheduled_event :: "int \<Rightarrow> int \<Rightarrow> jdict \<Rightarrow> api_request" where
  "api_fetch_scheduled_event guild_id event_id params =
     (api_get [Lit ''guilds'', Num guild_id, Lit ''scheduled-events'', Num event_id])\<lparr>ar_params := nonempty params\<rparr>"

definition api_modify_scheduled_event :: "int \<Rightarrow> int \<Rightarrow> jdict \<Rightarrow> api_request" where
  "api_modify_scheduled_event guild_id event_id payload =
     (api_patch [Lit ''guilds'', Num guild_id, Lit ''scheduled-events'', Num event_id])\<lparr>ar_json := Some (JDict payload)\<rparr>"

definition api_delete_scheduled_event :: "int \<Rightarrow> int \<Rightarrow> api_request" where
  "api_delete_scheduled_event guild_id event_id = api_delete [Lit ''guilds'', Num guild_id, Lit ''scheduled-events'', Num event_id]"

definition api_fetch_user :: "int \<Rightarrow> api_request" where
  "api_fetch_user user_id = api_get [Lit ''users'', Num user_id]"

definition api_get_current_user :: api_request where
  "api_get_current_user = api_get [Lit ''users'', Lit ''@me'']"

definition api_modify_current_user :: "jdict \<Rightarrow> api_request" where
  "api_modify_current_user payload = (api_patch [Lit ''users'', Lit ''@me''])\<lparr>ar_json := Some (JDict payload)\<rparr>"

definition api_get_current_user_guilds :: "jdict \<Rightarrow> api_request" where
  "api_get_current_user_guilds params = (api_get [Lit ''users'', Lit ''@me'', Lit ''guilds''])\<lparr>ar_params := Some params\<rparr>"

definition api_get_current_user_guild_member :: "int \<Rightarrow> api_request" where
  "api_get_current_user_guild_member guild_id = api_get [Lit ''users'', Lit ''@me'', Lit ''guilds'', Num guild_id, Lit ''member'']"

definition api_leave_guild :: "int \<Rightarrow> api_request" where
  "api_leave_guild guild_id = api_delete [Lit ''users'', Lit ''@me'', Lit ''guilds'', Num guild_id]"

definition api_create_dm :: "int \<Rightarrow> api_request" where
  "api_create_dm recipient_id =
     (api_post [Lit ''users'', Lit ''@me'', Lit ''channels''])\<lparr>ar_json := Some (JDict [(''recipient_id'', JStr (show_int recipient_id))])\<rparr>"

definition api_create_group_dm :: "string list \<Rightarrow> (string \<times> string) list \<Rightarrow> api_request" where
  "api_create_group_dm access_tokens nicks =
     (api_post [Lit ''users'', Lit ''@me'', Lit ''channels''])\<lparr>ar_json := Some (JDict [(''access_tokens'', JList (map JStr access_tokens)), (''nicks'', JDict (map (\<lambda>(k, v). (k, JStr v)) nicks))])\<rparr>"

definition api_get_current_user_connections :: api_request where
  "api_get_current_user_connections = api_get [Lit ''users'', Lit ''@me'', Lit ''connections'']"

definition api_get_current_user_application_role_connection :: "int \<Rightarrow> api_request" where
  "api_get_current_user_application_role_connection application_id =
     api_get [Lit ''users'', Lit ''@me'', Lit ''applications'', Num application_id, Lit ''role-connection'']"

definition api_update_current_user_application_role_connection :: "int \<Rightarrow> jdict \<Rightarrow> api_request" where
  "api_update_current_user_application_role_connection application_id payload =
     (api_put [Lit ''users'', Lit ''@me'', Lit ''applications'', Num application_id, Lit ''role-connection''])\<lparr>ar_json := Some (JDict payload)\<rparr>"

definition api_fetch_invite :: "string \<Rightarrow> jdict \<Rightarrow> api_request" where
  "api_fetch_invite invite_code params = (api_get [Lit ''invites'', Raw invite_code])\<lparr>ar_params := nonempty params\<rparr>"

definition api_delete_invite :: "string \<Rightarrow> api_request" where
  "api_delete_invite invite_code = api_delete [Lit ''invites'', Raw invite_code]"

definition api_create_webhook :: "int \<Rightarrow> jdict \<Rightarrow> api_request" where
  "api_create_webhook channel_id payload =
     (api_post [Lit ''channels'', Num channel_id, Lit ''webhooks''])\<lparr>ar_json := Some (JDict payload)\<rparr>"

definition api_list_channel_webhooks :: "int \<Rightarrow> api_request" where
  "api_list_channel_webhooks channel_id = api_get [Lit ''channels'', Num channel_id, Lit ''webhooks'']"

definition api_list_guild_webhooks :: "int \<Rightarrow> api_request" where
  "api_list_guild_webhooks guild_id = api_get [Lit ''guilds'', Num guild_id, Lit ''webhooks'']"

definition api_fetch_webhook :: "int \<Rightarrow> string option \<Rightarrow> api_request" where
  "api_fetch_webhook webhook_id token = api_get ([Lit ''webhooks'', Num webhook_id] @ opt_segment token)"

definition api_modify_webhook :: "int \<Rightarrow> jdict \<Rightarrow> string option \<Rightarrow> api_request" where
  "api_modify_webhook webhook_id payload token =
     (api_patch ([Lit ''webhooks'', Num webhook_id] @ opt_segment token))\<lparr>ar_json := Some (JDict payload)\<rparr>"

definition api_delete_webhook_resource :: "int \<Rightarrow> string option \<Rightarrow> api_request" where
  "api_delete_webhook_resource webhook_id token = api_delete ([Lit ''webhooks'', Num webhook_id] @ opt_segment token)"

definition api_execute_webhook :: "int \<Rightarrow> string \<Rightarrow> jdict \<Rightarrow> attachment_file list option \<Rightarrow> jdict \<Rightarrow> api_request result" where
  "api_execute_webhook webhook_id token payload files params =
     (case files of
        Some (f # fs) \<Rightarrow> bind_result (build_attachment_form payload (f # fs)) (\<lambda>form.
          Inr (((api_post [Lit ''webhooks'', Num webhook_id, Raw token])\<lparr>ar_params := nonempty params\<rparr>)\<lparr>ar_form := Some form\<rparr>))
      | _ \<Rightarrow> Inr ((api_post [Lit ''webhooks'', Num webhook_id, Raw token])\<lparr>ar_json := Some (JDict payload), ar_params := nonempty params\<rparr>))"

definition api_fetch_webhook_message :: "int \<Rightarrow> string \<Rightarrow> int \<Rightarrow> api_request" where
  "api_fetch_webhook_message webhook_id token message_id = api_get [Lit ''webhooks'', Num webhook_id, Raw token, Lit ''messages'', Num message_id]"

definition api_edit_webhook_message :: "int \<Rightarrow> string \<Rightarrow> int \<Rightarrow> jdict \<Rightarrow> attachment_file list option \<Rightarrow> api_request result" where
  "api_edit_webhook_message webhook_id token message_id payload files =
     (case files of
        Some (f # fs) \<Rightarrow> bind_result (build_attachment_form payload (f # fs)) (\<lambda>form.
          Inr ((api_patch [Lit ''webhooks'', Num webhook_id, Raw token, Lit ''messages'', Num message_id])\<lparr>ar_form := Some form\<rparr>))
      | _ \<Rightarrow> Inr ((api_patch [Lit ''webhooks'', Num webhook_id, Raw token, Lit ''messages'', Num message_id])\<lparr>ar_json := Some (JDict payload)\<rparr>))"

definition api_delete_webhook_message :: "int \<Rightarrow> string \<Rightarrow> int \<Rightarrow> api_request" where
  "api_delete_webhook_message webhook_id token message_id = api_delete [Lit ''webhooks'', Num webhook_id, Raw token, Lit ''messages'', Num message_id]"

definition api_list_global_commands :: "int \<Rightarrow> jdict \<Rightarrow> api_request" where
  "api_list_global_commands application_id params =
     (api_get [Lit ''applications'', Num application_id, Lit ''commands''])\<lparr>ar_params := nonempty params\<rparr>"

definition api_create_global_command :: "int \<Rightarrow> jdict \<Rightarrow> api_request" where
  "api_create_global_command application_id payload =
     (api_post [Lit ''applications'', Num application_id, Lit ''commands''])\<lparr>ar_json := Some (JDict payload)\<rparr>"

definition api_fetch_global_command :: "int \<Rightarrow> int \<Rightarrow> api_request" where
  "api_fetch_global_command application_id command_id = api_get [Lit ''applications'', Num application_id, Lit ''commands'', Num command_id]"

definition api_edit_global_command :: "int \<Rightarrow> int \<Rightarrow> jdict \<Rightarrow> api_request" where
  "api_edit_global_command application_id command_id payload =
     (api_patch [Lit ''applications'', Num application_id, Lit ''commands'', Num command_id])\<lparr>ar_json := Some (JDict payload)\<rparr>"

definition api_delete_global_command :: "int \<Rightarrow> int \<Rightarrow> api_request" where
  "api_delete_global_command application_id command_id = api_delete [Lit ''applications'', Num application_id, Lit ''commands'', Num command_id]"

definition api_bulk_overwrite_global_commands :: "int \<Rightarrow> jdict list \<Rightarrow> api_request" where
  "api_bulk_overwrite_global_commands application_id commands =
     (api_put [Lit ''applications'', Num application_id, Lit ''commands''])\<lparr>ar_json := Some (JList (map JDict commands))\<rparr>"

definition api_list_guild_commands :: "int \<Rightarrow> int \<Rightarrow> jdict \<Rightarrow> api_request" where
  "api_list_guild_commands application_id guild_id params =
     (api_get [Lit ''applications'', Num application_id, Lit ''guilds'', Num guild_id, Lit ''commands''])\<lparr>ar_params := nonempty params\<rparr>"

definition api_create_guild_command :: "int \<Rightarrow> int \<Rightarrow> jdict \<Rightarrow> api_request" where
  "api_create_guild_command application_id guild_id payload =
     (api_post [Lit ''applications'', Num application_id, Lit ''guilds'', Num guild_id, Lit ''commands''])\<lparr>ar_json := Some (JDict payload)\<rparr>"

definition api_bulk_overwrite_guild_commands :: "int \<Rightarrow> int \<Rightarrow> jdict list \<Rightarrow> api_request" where
  "api_bulk_overwrite_guild_commands application_id guild_id commands =
     (api_put [Lit ''applications'', Num application_id, Lit ''guilds'', Num guild_id, Lit ''commands''])\<lparr>ar_json := Some (JList (map JDict commands))\<rparr>"

definition api_create_interaction_response :: "int \<Rightarrow> string \<Rightarrow> jdict \<Rightarrow> attachment_file list option \<Rightarrow> api_request result" where
  "api_create_interaction_response interaction_id interaction_token payload files =
     (case files of
        Some (f # fs) \<Rightarrow> bind_result (build_attachment_form payload (f # fs)) (\<lambda>form.
          Inr ((api_post [Lit ''interactions'', Num interaction_id, Raw interaction_token, Lit ''callback''])\<lparr>ar_form := Some form\<rparr>))
      | _ \<Rightarrow> Inr ((api_post [Lit ''interactions'', Num interaction_id, Raw interaction_token, Lit ''callback''])\<lparr>ar_json := Some (JDict payload)\<rparr>))"

definition api_get_original_interaction_response :: "int \<Rightarrow> string \<Rightarrow> api_request" where
  "api_get_original_interaction_response application_id interaction_token =
     api_get [Lit ''webhooks'', Num application_id, Raw interaction_token, Lit ''messages'', Lit ''@original'']"

definition api_edit_original_interaction_response :: "int \<Rightarrow> string \<Rightarrow> jdict \<Rightarrow> attachment_file list option \<Rightarrow> api_request result" where
  "api_edit_original_interaction_response application_id interaction_token payload files =
     (case files of
        Some (f # fs) \<Rightarrow> bind_result (build_attachment_form payload (f # fs)) (\<lambda>form.
          Inr ((api_patch [Lit ''webhooks'', Num application_id, Raw interaction_token, Lit ''messages'', Lit ''@original''])\<lparr>ar_form := Some form\<rparr>))
      | _ \<Rightarrow> Inr ((api_patch [Lit ''webhooks'', Num application_id, Raw interaction_token, Lit ''messages'', Lit ''@original''])\<lparr>ar_json := Some (JDict payload)\<rparr>))"

definition api_delete_original_interaction_response :: "int \<Rightarrow> string \<Rightarrow> api_request" where
  "api_delete_original_interaction_response application_id interaction_token =
     api_delete [Lit ''webhooks'', Num application_id, Raw interaction_token, Lit ''messages'', Lit ''@original'']"

definition api_create_followup_message :: "int \<Rightarrow> string \<Rightarrow> jdict \<Rightarrow> attachment_file list option \<Rightarrow> api_request result" where
  "api_create_followup_message application_id interaction_token payload files =
     (case files of
        Some (f # fs) \<Rightarrow> bind_result (build_attachment_form payload (f # fs)) (\<lambda>form.
          Inr ((api_post [Lit ''webhooks'', Num application_id, Raw interaction_token])\<lparr>ar_form := Some form\<rparr>))
      | _ \<Rightarrow> Inr ((api_post [Lit ''webhooks'', Num application_id, Raw interaction_token])\<lparr>ar_json := Some (JDict payload)\<rparr>))"

definition api_edit_followup_message :: "int \<Rightarrow> string \<Rightarrow> int \<Rightarrow> jdict \<Rightarrow> attachment_file list option \<Rightarrow> api_request result" where
  "api_edit_followup_message application_id interaction_token message_id payload files =
     (case files of
        Some (f # fs) \<Rightarrow> bind_result (build_attachment_form payload (f # fs)) (\<lambda>form.
          Inr ((api_patch [Lit ''webhooks'', Num application_id, Raw interaction_token, Lit ''messages'', Num message_id])\<lparr>ar_form := Some form\<rparr>))
      | _ \<Rightarrow> Inr ((api_patch [Lit ''webhooks'', Num application_id, Raw interaction_token, Lit ''messages'', Num message_id])\<lparr>ar_json := Some (JDict payload)\<rparr>))"

definition api_delete_followup_message :: "int \<Rightarrow> string \<Rightarrow> int \<Rightarrow> api_request" where
  "api_delete_followup_message application_id interaction_token message_id =
     api_delete [Lit ''webhooks'', Num application_id, Raw interaction_token, Lit ''messages'', Num message_id]"

definition api_get_guild_emoji :: "snowflake \<Rightarrow> snowflake \<Rightarrow> api_request" where
  "api_get_guild_emoji guild_id emoji_id = api_get [Lit ''guilds'', Ref guild_id, Lit ''emojis'', Ref emoji_id]"

definition api_create_guild_emoji :: "snowflake \<Rightarrow> jdict \<Rightarrow> string option \<Rightarrow> api_request" where
  "api_create_guild_emoji guild_id payload reason =
     (api_post [Lit ''guilds'', Ref guild_id, Lit ''emojis''])\<lparr>ar_json := Some (JDict payload), ar_headers := audit_kwargs reason\<rparr>"

definition api_modify_guild_emoji :: "snowflake \<Rightarrow> snowflake \<Rightarrow> jdict \<Rightarrow> string option \<Rightarrow> api_request" where
  "api_modify_guild_emoji guild_id emoji_id payload reason =
     (api_patch [Lit ''guilds'', Ref guild_id, Lit ''emojis'', Ref emoji_id])\<lparr>ar_json := Some (JDict payload), ar_headers := audit_kwargs reason\<rparr>"

definition api_delete_guild_emoji :: "snowflake \<Rightarrow> snowflake \<Rightarrow> string option \<Rightarrow> api_request" where
  "api_delete_guild_emoji guild_id emoji_id reason =
     (api_delete [Lit ''guilds'', Ref guild_id, Lit ''emojis'', Ref emoji_id])\<lparr>ar_headers := audit_kwargs reason\<rparr>"

definition api_list_application_emojis :: "snowflake \<Rightarrow> api_request" where
  "api_list_application_emojis application_id = api_get [Lit ''applications'', Ref application_id, Lit ''emojis'']"

definition api_get_application_emoji :: "snowflake \<Rightarrow> snowflake \<Rightarrow> api_request" where
  "api_get_application_emoji application_id emoji_id = api_get [Lit ''applications'', Ref application_id, Lit ''emojis'', Ref emoji_id]"

definition api_create_application_emoji :: "snowflake \<Rightarrow> jdict \<Rightarrow> api_request" where
  "api_create_application_emoji application_id payload =
     (api_post [Lit ''applications'', Ref application_id, Lit ''emojis''])\<lparr>ar_json := Some (JDict payload)\<rparr>"

definition api_modify_application_emoji :: "snowflake \<Rightarrow> snowflake \<Rightarrow> jdict \<Rightarrow> api_request" where
  "api_modify_application_emoji application_id emoji_id payload =
     (api_patch [Lit ''applications'', Ref application_id, Lit ''emojis'', Ref emoji_id])\<lparr>ar_json := Some (JDict payload)\<rparr>"

definition api_delete_application_emoji :: "snowflake \<Rightarrow> snowflake \<Rightarrow> api_request" where
  "api_delete_application_emoji application_id emoji_id = api_delete [Lit ''applications'', Ref application_id, Lit ''emojis'', Ref emoji_id]"

definition api_get_sticker :: "snowflake \<Rightarrow> api_request" where
  "api_get_sticker sticker_id = api_get [Lit ''stickers'', Ref sticker_id]"

definition api_list_sticker_packs :: api_request where
  "api_list_sticker_packs = api_get [Lit ''sticker-packs'']"

definition api_get_sticker_pack :: "snowflake \<Rightarrow> api_request" where
  "api_get_sticker_pack pack_id = api_get [Lit ''sticker-packs'', Ref pack_id]"

definition api_get_guild_sticker :: "snowflake \<Rightarrow> snowflake \<Rightarrow> api_request" where
  "api_get_guild_sticker guild_id sticker_id = api_get [Lit ''guilds'', Ref guild_id, Lit ''stickers'', Ref sticker_id]"

definition api_modify_guild_sticker :: "snowflake \<Rightarrow> snowflake \<Rightarrow> jdict \<Rightarrow> string option \<Rightarrow> api_request" where
  "api_modify_guild_sticker guild_id sticker_id payload reason =
     (api_patch [Lit ''guilds'', Ref guild_id, Lit ''stickers'', Ref sticker_id])\<lparr>ar_json := Some (JDict payload), ar_headers := audit_kwargs reason\<rparr>"

definition api_delete_guild_sticker :: "snowflake \<Rightarrow> snowflake \<Rightarrow> string option \<Rightarrow> api_request" where
  "api_delete_guild_sticker guild_id sticker_id reason =
     (api_delete [Lit ''guilds'', Ref guild_id, Lit ''stickers'', Ref sticker_id])\<lparr>ar_headers := audit_kwargs reason\<rparr>"

definition api_list_auto_moderation_rules :: "snowflake \<Rightarrow> api_request" where
  "api_list_auto_moderation_rules guild_id = api_get [Lit ''guilds'', Ref guild_id, Lit ''auto-moderation'', Lit ''rules'']"

definition api_get_auto_moderation_rule :: "snowflake \<Rightarrow> snowflake \<Rightarrow> api_request" where
  "api_get_auto_moderation_rule guild_id rule_id = api_get [Lit ''guilds'', Ref guild_id, Lit ''auto-moderation'', Lit ''rules'', Ref rule_id]"

definition api_create_auto_moderation_rule :: "snowflake \<Rightarrow> jdict \<Rightarrow> string option \<Rightarrow> api_request" where
  "api_create_auto_moderation_rule guild_id payload reason =
     (api_post [Lit ''guilds'', Ref guild_id, Lit ''auto-moderation'', Lit ''rules''])\<lparr>ar_json := Some (JDict payload), ar_headers := audit_kwargs reason\<rparr>"

definition api_modify_auto_moderation_rule :: "snowflake \<Rightarrow> snowflake \<Rightarrow> jdict \<Rightarrow> string option \<Rightarrow> api_request" where
  "api_modify_auto_moderation_rule guild_id rule_id payload reason =
     (api_patch [Lit ''guilds'', Ref guild_id, Lit ''auto-moderation'', Lit ''rules'', Ref rule_id])\<lparr>ar_json := Some (JDict payload), ar_headers := audit_kwargs reason\<rparr>"

definition api_delete_auto_moderation_rule :: "snowflake \<Rightarrow> snowflake \<Rightarrow> string option \<Rightarrow> api_request" where
  "api_delete_auto_moderation_rule guild_id rule_id reason =
     (api_delete [Lit ''guilds'', Ref guild_id, Lit ''auto-moderation'', Lit ''rules'', Ref rule_id])\<lparr>ar_headers := audit_kwargs reason\<rparr>"

definition api_create_stage_instance :: "jdict \<Rightarrow> string option \<Rightarrow> api_request" where
  "api_create_stage_instance payload reason =
     (api_post [Lit ''stage-instances''])\<lparr>ar_json := Some (JDict payload), ar_headers := audit_kwargs reason\<rparr>"

definition api_get_stage_instance :: "snowflake \<Rightarrow> api_request" where
  "api_get_stage_instance channel_id = api_get [Lit ''stage-instances'', Ref channel_id]"

definition api_modify_stage_instance :: "snowflake \<Rightarrow> jdict \<Rightarrow> string option \<Rightarrow> api_request" where
  "api_modify_stage_instance channel_id payload reason =
     (api_patch [Lit ''stage-instances'', Ref channel_id])\<lparr>ar_json := Some (JDict payload), ar_headers := audit_kwargs reason\<rparr>"

definition api_delete_stage_instance :: "snowflake \<Rightarrow> string option \<Rightarrow> api_request" where
  "api_delete_stage_instance channel_id reason =
     (api_delete [Lit ''stage-instances'', Ref channel_id])\<lparr>ar_headers := audit_kwargs reason\<rparr>"

definition api_list_entitlements :: "snowflake \<Rightarrow> jdict \<Rightarrow> api_request" where
  "api_list_entitlements application_id params =
     (api_get [Lit ''applications'', Ref application_id, Lit ''entitlements''])\<lparr>ar_params := nonempty params\<rparr>"

definition api_get_entitlement :: "snowflake \<Rightarrow> snowflake \<Rightarrow> api_request" where
  "api_get_entitlement application_id entitlement_id = api_get [Lit ''applications'', Ref application_id, Lit ''entitlements'', Ref entitlement_id]"

definition api_consume_entitlement :: "snowflake \<Rightarrow> snowflake \<Rightarrow> api_request" where
  "api_consume_entitlement application_id entitlement_id =
     api_post [Lit ''applications'', Ref application_id, Lit ''entitlements'', Ref entitlement_id, Lit ''consume'']"

definition api_create_test_entitlement :: "snowflake \<Rightarrow> jdict \<Rightarrow> api_request" where
  "api_create_test_entitlement application_id payload =
     (api_post [Lit ''applications'', Ref application_id, Lit ''entitlements''])\<lparr>ar_json := Some (JDict payload)\<rparr>"

definition api_delete_test_entitlement :: "snowflake \<Rightarrow> snowflake \<Rightarrow> api_request" where
  "api_delete_test_entitlement application_id entitlement_id = api_delete [Lit ''applications'', Ref application_id, Lit ''entitlements'', Ref entitlement_id]"

definition api_list_skus :: "snowflake \<Rightarrow> api_request" where
  "api_list_skus application_id = api_get [Lit ''applications'', Ref application_id, Lit ''skus'']"

definition api_list_sku_subscriptions :: "snowflake \<Rightarrow> jdict \<Rightarrow> api_request" where
  "api_list_sku_subscriptions sku_id params =
     (api_get [Lit ''skus'', Ref sku_id, Lit ''subscriptions''])\<lparr>ar_params := nonempty params\<rparr>"

definition api_get_sku_subscription :: "snowflake \<Rightarrow> snowflake \<Rightarrow> api_request" where
  "api_get_sku_subscription sku_id subscription_id = api_get [Lit ''skus'', Ref sku_id, Lit ''subscriptions'', Ref subscription_id]"

definition api_list_default_soundboard_sounds :: api_request where
  "api_list_default_soundboard_sounds = api_get [Lit ''soundboard-default-sounds'']"

definition api_list_guild_soundboard_sounds :: "snowflake \<Rightarrow> api_request" where
  "api_list_guild_soundboard_sounds guild_id = api_get [Lit ''guilds'', Ref guild_id, Lit ''soundboard-sounds'']"

definition api_get_guild_soundboard_sound :: "snowflake \<Rightarrow> snowflake \<Rightarrow> api_request" where
  "api_get_guild_soundboard_sound guild_id sound_id = api_get [Lit ''guilds'', Ref guild_id, Lit ''soundboard-sounds'', Ref sound_id]"

definition api_create_guild_soundboard_sound :: "snowflake \<Rightarrow> jdict \<Rightarrow> string option \<Rightarrow> api_request" where
  "api_create_guild_soundboard_sound guild_id payload reason =
     (api_post [Lit ''guilds'', Ref guild_id, Lit ''soundboard-sounds''])\<lparr>ar_json := Some (JDict payload), ar_headers := audit_kwargs reason\<rparr>"

definition api_modify_guild_soundboard_sound :: "snowflake \<Rightarrow> snowflake \<Rightarrow> jdict \<Rightarrow> string option \<Rightarrow> api_request" where
  "api_modify_guild_soundboard_sound guild_id sound_id payload reason =
     (api_patch [Lit ''guilds'', Ref guild_id, Lit ''soundboard-sounds'', Ref sound_id])\<lparr>ar_json := Some (JDict payload), ar_headers := audit_kwargs reason\<rparr>"

definition api_delete_guild_soundboard_sound :: "snowflake \<Rightarrow> snowflake \<Rightarrow> string option \<Rightarrow> api_request" where
  "api_delete_guild_soundboard_sound guild_id sound_id reason =
     (api_delete [Lit ''guilds'', Ref guild_id, Lit ''soundboard-sounds'', Ref sound_id])\<lparr>ar_headers := audit_kwargs reason\<rparr>"

definition api_send_soundboard_sound :: "snowflake \<Rightarrow> snowflake \<Rightarrow> snowflake option \<Rightarrow> api_request" where
  "api_send_soundboard_sound channel_id sound_id source_guild_id =
     (let payload = [(''sound_id'', JStr (ref_text sound_id))] @
           optional_param ''source_guild_id'' (\<lambda>i. JStr (ref_text i)) source_guild_id
      in (api_post [Lit ''channels'', Ref channel_id, Lit ''send-soundboard-sound''])\<lparr>ar_json := Some (JDict payload)\<rparr>)"

definition api_create_guild :: "jdict \<Rightarrow> api_request" where
  "api_create_guild payload = (api_post [Lit ''guilds''])\<lparr>ar_json := Some (JDict payload)\<rparr>"

definition api_modify_guild :: "snowflake \<Rightarrow> jdict \<Rightarrow> string option \<Rightarrow> api_request" where
  "api_modify_guild guild_id payload reason =
     (api_patch [Lit ''guilds'', Ref guild_id])\<lparr>ar_json := Some (JDict payload), ar_headers := audit_kwargs reason\<rparr>"

definition api_delete_guild :: "snowflake \<Rightarrow> api_request" where
  "api_delete_guild guild_id = api_delete [Lit ''guilds'', Ref guild_id]"

definition api_get_guild_prune_count :: "snowflake \<Rightarrow> jdict \<Rightarrow> api_request" where
  "api_get_guild_prune_count guild_id params =
     (api_get [Lit ''guilds'', Ref guild_id, Lit ''prune''])\<lparr>ar_params := nonempty params\<rparr>"

definition api_begin_guild_prune :: "snowflake \<Rightarrow> jdict \<Rightarrow> string option \<Rightarrow> api_request" where
  "api_begin_guild_prune guild_id payload reason =
     (api_post [Lit ''guilds'', Ref guild_id, Lit ''prune''])\<lparr>ar_json := Some (JDict payload), ar_headers := audit_kwargs reason\<rparr>"

definition api_list_guild_voice_regions :: "snowflake \<Rightarrow> api_request" where
  "api_list_guild_voice_regions guild_id = api_get [Lit ''guilds'', Ref guild_id, Lit ''regions'']"

definition api_list_guild_integrations :: "snowflake \<Rightarrow> api_request" where
  "api_list_guild_integrations guild_id = api_get [Lit ''guilds'', Ref guild_id, Lit ''integrations'']"

definition api_delete_guild_integration :: "snowflake \<Rightarrow> snowflake \<Rightarrow> string option \<Rightarrow> api_request" where
  "api_delete_guild_integration guild_id integration_id reason =
     (api_delete [Lit ''guilds'', Ref guild_id, Lit ''integrations'', Ref integration_id])\<lparr>ar_headers := audit_kwargs reason\<rparr>"

definition api_get_guild_widget_settings :: "snowflake \<Rightarrow> api_request" where
  "api_get_guild_widget_settings guild_id = api_get [Lit ''guilds'', Ref guild_id, Lit ''widget'']"

definition api_modify_guild_widget :: "snowflake \<Rightarrow> jdict \<Rightarrow> string option \<Rightarrow> api_request" where
  "api_modify_guild_widget guild_id payload reason =
     (api_patch [Lit ''guilds'', Ref guild_id, Lit ''widget''])\<lparr>ar_json := Some (JDict payload), ar_headers := audit_kwargs reason\<rparr>"

definition api_get_guild_widget :: "snowflake \<Rightarrow> api_request" where
  "api_get_guild_widget guild_id = api_get [Lit ''guilds'', Ref guild_id, Lit ''widget.json'']"

definition api_get_guild_vanity_url :: "snowflake \<Rightarrow> api_request" where
  "api_get_guild_vanity_url guild_id = api_get [Lit ''guilds'', Ref guild_id, Lit ''vanity-url'']"

definition api_get_guild_welcome_screen :: "snowflake \<Rightarrow> api_request" where
  "api_get_guild_welcome_screen guild_id = api_get [Lit ''guilds'', Ref guild_id, Lit ''welcome-screen'']"

definition api_modify_guild_welcome_screen :: "snowflake \<Rightarrow> jdict \<Rightarrow> string option \<Rightarrow> api_request" where
  "api_modify_guild_welcome_screen guild_id payload reason =
     (api_patch [Lit ''guilds'', Ref guild_id, Lit ''welcome-screen''])\<lparr>ar_json := Some (JDict payload), ar_headers := audit_kwargs reason\<rparr>"

definition api_get_guild_onboarding :: "snowflake \<Rightarrow> api_request" where
  "api_get_guild_onboarding guild_id = api_get [Lit ''guilds'', Ref guild_id, Lit ''onboarding'']"

definition api_modify_guild_onboarding :: "snowflake \<Rightarrow> jdict \<Rightarrow> string option \<Rightarrow> api_request" where
  "api_modify_guild_onboarding guild_id payload reason =
     (api_put [Lit ''guilds'', Ref guild_id, Lit ''onboarding''])\<lparr>ar_json := Some (JDict payload), ar_headers := audit_kwargs reason\<rparr>"

definition api_modify_guild_mfa_level :: "snowflake \<Rightarrow> int \<Rightarrow> string option \<Rightarrow> api_request" where
  "api_modify_guild_mfa_level guild_id level reason =
     (api_post [Lit ''guilds'', Ref guild_id, Lit ''mfa''])\<lparr>ar_json := Some (JDict [(''level'', JInt level)]), ar_headers := audit_kwargs reason\<rparr>"

definition api_get_guild_audit_log :: "snowflake \<Rightarrow> snowflake option \<Rightarrow> int option \<Rightarrow> snowflake option \<Rightarrow> snowflake option \<Rightarrow> int option \<Rightarrow> api_request" where
  "api_get_guild_audit_log guild_id user_id action_type before after limit =
     (let params = optional_param ''user_id'' (\<lambda>i. JStr (ref_text i)) user_id @
           optional_param ''action_type'' JInt action_type @
           optional_param ''before'' (\<lambda>i. JStr (ref_text i)) before @
           optional_param ''after'' (\<lambda>i. JStr (ref_text i)) after @
           optional_param ''limit'' JInt limit
      in (api_get [Lit ''guilds'', Ref guild_id, Lit ''audit-logs''])\<lparr>ar_params := nonempty params\<rparr>)"

definition api_list_active_guild_threads :: "snowflake \<Rightarrow> api_request" where
  "api_list_active_guild_threads guild_id = api_get [Lit ''guilds'', Ref guild_id, Lit ''threads'', Lit ''active'']"

definition api_bulk_guild_ban :: "snowflake \<Rightarrow> snowflake list \<Rightarrow> int \<Rightarrow> string option \<Rightarrow> api_request" where
  "api_bulk_guild_ban guild_id user_ids delete_message_seconds reason =
     (let payload = [(''user_ids'', JList (map (\<lambda>i. JStr (ref_text i)) user_ids)), (''delete_message_seconds'', JInt delete_message_seconds)]
      in (api_post [Lit ''guilds'', Ref guild_id, Lit ''bulk-ban''])\<lparr>ar_json := Some (JDict payload), ar_headers := audit_kwargs reason\<rparr>)"

definition api_search_guild_members :: "snowflake \<Rightarrow> string \<Rightarrow> int \<Rightarrow> api_request" where
  "api_search_guild_members guild_id query limit =
     (api_get [Lit ''guilds'', Ref guild_id, Lit ''members'', Lit ''search''])\<lparr>ar_params := Some [(''query'', JStr query), (''limit'', JInt limit)]\<rparr>"

definition api_modify_current_member :: "snowflake \<Rightarrow> jdict \<Rightarrow> string option \<Rightarrow> api_request" where
  "api_modify_current_member guild_id payload reason =
     (api_patch [Lit ''guilds'', Ref guild_id, Lit ''members'', Lit ''@me''])\<lparr>ar_json := Some (JDict payload), ar_headers := audit_kwargs reason\<rparr>"

definition api_add_guild_member_role :: "snowflake \<Rightarrow> snowflake \<Rightarrow> snowflake \<Rightarrow> string option \<Rightarrow> api_request" where
  "api_add_guild_member_role guild_id user_id role_id reason =
     (api_put [Lit ''guilds'', Ref guild_id, Lit ''members'', Ref user_id, Lit ''roles'', Ref role_id])\<lparr>ar_headers := audit_kwargs reason\<rparr>"

definition api_remove_guild_member_role :: "snowflake \<Rightarrow> snowflake \<Rightarrow> snowflake \<Rightarrow> string option \<Rightarrow> api_request" where
  "api_remove_guild_member_role guild_id user_id role_id reason =
     (api_delete [Lit ''guilds'', Ref guild_id, Lit ''members'', Ref user_id, Lit ''roles'', Ref role_id])\<lparr>ar_headers := audit_kwargs reason\<rparr>"

definition api_get_guild_role :: "snowflake \<Rightarrow> snowflake \<Rightarrow> api_request" where
  "api_get_guild_role guild_id role_id = api_get [Lit ''guilds'', Ref guild_id, Lit ''roles'', Ref role_id]"

definition api_fetch_guild_command :: "snowflake \<Rightarrow> snowflake \<Rightarrow> snowflake \<Rightarrow> api_request" where
  "api_fetch_guild_command application_id guild_id command_id =
     api_get [Lit ''applications'', Ref application_id, Lit ''guilds'', Ref guild_id, Lit ''commands'', Ref command_id]"

definition api_edit_guild_command :: "snowflake \<Rightarrow> snowflake \<Rightarrow> snowflake \<Rightarrow> jdict \<Rightarrow> api_request" where
  "api_edit_guild_command application_id guild_id command_id payload =
     (api_patch [Lit ''applications'', Ref application_id, Lit ''guilds'', Ref guild_id, Lit ''commands'', Ref command_id])\<lparr>ar_json := Some (JDict payload)\<rparr>"

definition api_delete_guild_command :: "snowflake \<Rightarrow> snowflake \<Rightarrow> snowflake \<Rightarrow> api_request" where
  "api_delete_guild_command application_id guild_id command_id =
     api_delete [Lit ''applications'', Ref application_id, Lit ''guilds'', Ref guild_id, Lit ''commands'', Ref command_id]"

definition api_get_guild_command_permissions :: "snowflake \<Rightarrow> snowflake \<Rightarrow> api_request" where
  "api_get_guild_command_permissions application_id guild_id =
     api_get [Lit ''applications'', Ref application_id, Lit ''guilds'', Ref guild_id, Lit ''commands'', Lit ''permissions'']"

definition api_get_application_command_permissions :: "snowflake \<Rightarrow> snowflake \<Rightarrow> snowflake \<Rightarrow> api_request" where
  "api_get_application_command_permissions application_id guild_id command_id =
     api_get [Lit ''applications'', Ref application_id, Lit ''guilds'', Ref guild_id, Lit ''commands'', Ref command_id, Lit ''permissions'']"

definition api_edit_application_command_permissions :: "snowflake \<Rightarrow> snowflake \<Rightarrow> snowflake \<Rightarrow> jdict list \<Rightarrow> api_request" where
  "api_edit_application_command_permissions application_id guild_id command_id permissions =
     (api_put [Lit ''applications'', Ref application_id, Lit ''guilds'', Ref guild_id, Lit ''commands'', Ref command_id, Lit ''permissions''])\<lparr>ar_json := Some (JDict [(''permissions'', JList (map JDict permissions))])\<rparr>"

definition api_batch_edit_application_command_permissions :: "snowflake \<Rightarrow> snowflake \<Rightarrow> jdict list \<Rightarrow> api_request" where
  "api_batch_edit_application_command_permissions application_id guild_id payload =
     (api_put [Lit ''applications'', Ref application_id, Lit ''guilds'', Ref guild_id, Lit ''commands'', Lit ''permissions''])\<lparr>ar_json := Some (JList (map JDict payload))\<rparr>"

definition api_get_current_application :: api_request where
  "api_get_current_application = api_get [Lit ''applications'', Lit ''@me'']"

definition api_edit_current_application :: "jdict \<Rightarrow> api_request" where
  "api_edit_current_application payload = (api_patch [Lit ''applications'', Lit ''@me''])\<lparr>ar_json := Some (JDict payload)\<rparr>"

definition api_get_application_role_connection_metadata :: "snowflake \<Rightarrow> api_request" where
  "api_get_application_role_connection_metadata application_id = api_get [Lit ''applications'', Ref application_id, Lit ''role-connections'', Lit ''metadata'']"

definition api_update_application_role_connection_metadata :: "snowflake \<Rightarrow> jdict list \<Rightarrow> api_request" where
  "api_update_application_role_connection_metadata application_id records =
     (api_put [Lit ''applications'', Ref application_id, Lit ''role-connections'', Lit ''metadata''])\<lparr>ar_json := Some (JList (map JDict records))\<rparr>"

definition api_group_dm_add_recipient :: "snowflake \<Rightarrow> snowflake \<Rightarrow> string \<Rightarrow> string option \<Rightarrow> api_request" where
  "api_group_dm_add_recipient channel_id user_id access_token nick =
     (let payload = [(''access_token'', JStr access_token)] @
           optional_param ''nick'' JStr nick
      in (api_put [Lit ''channels'', Ref channel_id, Lit ''recipients'', Ref user_id])\<lparr>ar_json := Some (JDict payload)\<rparr>)"

definition api_group_dm_remove_recipient :: "snowflake \<Rightarrow> snowflake \<Rightarrow> api_request" where
  "api_group_dm_remove_recipient channel_id user_id = api_delete [Lit ''channels'', Ref channel_id, Lit ''recipients'', Ref user_id]"

definition api_modify_guild_channel_positions :: "snowflake \<Rightarrow> jdict list \<Rightarrow> api_request" where
  "api_modify_guild_channel_positions guild_id positions =
     (api_patch [Lit ''guilds'', Ref guild_id, Lit ''channels''])\<lparr>ar_json := Some (JList (map JDict positions))\<rparr>"

definition api_get_thread_member :: "snowflake \<Rightarrow> snowflake \<Rightarrow> bool \<Rightarrow> api_request" where
  "api_get_thread_member channel_id user_id with_member =
     (let params = if with_member then Some [(''with_member'', JStr ''true'')] else None
      in (api_get [Lit ''channels'', Ref channel_id, Lit ''thread-members'', Ref user_id])\<lparr>ar_params := params\<rparr>)"

definition api_list_thread_members :: "snowflake \<Rightarrow> bool \<Rightarrow> snowflake option \<Rightarrow> int option \<Rightarrow> api_request" where
  "api_list_thread_members channel_id with_member after limit =
     (let params = (if with_member then [(''with_member'', JStr ''true'')] else []) @
           optional_param ''after'' (\<lambda>i. JStr (ref_text i)) after @
           optional_param ''limit'' JInt limit
      in (api_get [Lit ''channels'', Ref channel_id, Lit ''thread-members''])\<lparr>ar_params := nonempty params\<rparr>)"

definition api_start_thread_in_forum :: "snowflake \<Rightarrow> jdict \<Rightarrow> attachment_file list option \<Rightarrow> string option \<Rightarrow> api_request result" where
  "api_start_thread_in_forum channel_id payload files reason =
     (case files of
        Some (f # fs) \<Rightarrow> bind_result (build_attachment_form payload (f # fs)) (\<lambda>form.
          Inr (((api_post [Lit ''channels'', Ref channel_id, Lit ''threads''])\<lparr>ar_headers := audit_kwargs reason\<rparr>)\<lparr>ar_form := Some form\<rparr>))
      | _ \<Rightarrow> Inr ((api_post [Lit ''channels'', Ref channel_id, Lit ''threads''])\<lparr>ar_json := Some (JDict payload), ar_headers := audit_kwargs reason\<rparr>))"

definition api_list_voice_regions :: api_request where
  "api_list_voice_regions = api_get [Lit ''voice'', Lit ''regions'']"

definition api_get_current_user_voice_state :: "snowflake \<Rightarrow> api_request" where
  "api_get_current_user_voice_state guild_id = api_get [Lit ''guilds'', Ref guild_id, Lit ''voice-states'', Lit ''@me'']"

definition api_get_user_voice_state :: "snowflake \<Rightarrow> snowflake \<Rightarrow> api_request" where
  "api_get_user_voice_state guild_id user_id = api_get [Lit ''guilds'', Ref guild_id, Lit ''voice-states'', Ref user_id]"

definition api_modify_current_user_voice_state :: "snowflake \<Rightarrow> jdict \<Rightarrow> api_request" where
  "api_modify_current_user_voice_state guild_id payload =
     (api_patch [Lit ''guilds'', Ref guild_id, Lit ''voice-states'', Lit ''@me''])\<lparr>ar_json := Some (JDict payload)\<rparr>"

definition api_modify_user_voice_state :: "snowflake \<Rightarrow> snowflake \<Rightarrow> jdict \<Rightarrow> api_request" where
  "api_modify_user_voice_state guild_id user_id payload =
     (api_patch [Lit ''guilds'', Ref guild_id, Lit ''voice-states'', Ref user_id])\<lparr>ar_json := Some (JDict payload)\<rparr>"

definition api_get_scheduled_event_users :: "snowflake \<Rightarrow> snowflake \<Rightarrow> int option \<Rightarrow> bool \<Rightarrow> snowflake option \<Rightarrow> snowflake option \<Rightarrow> api_request" where
  "api_get_scheduled_event_users guild_id event_id limit with_member before after =
     (let params = optional_param ''limit'' JInt limit @
           (if with_member then [(''with_member'', JStr ''true'')] else []) @
           optional_param ''before'' (\<lambda>i. JStr (ref_text i)) before @
           optional_param ''after'' (\<lambda>i. JStr (ref_text i)) after
      in (api_get [Lit ''guilds'', Ref guild_id, Lit ''scheduled-events'', Ref event_id, Lit ''users''])\<lparr>ar_params := nonempty params\<rparr>)"

definition api_create_guild_sticker ::
  "snowflake \<Rightarrow> string \<Rightarrow> string \<Rightarrow> string \<Rightarrow> attachment_file \<Rightarrow> string option \<Rightarrow> api_request result" where
  "api_create_guild_sticker guild_id name description tags file reason =
     bind_result (read_bytes file) (\<lambda>b.
       Inr ((api_post [Lit ''guilds'', Ref guild_id, Lit ''stickers''])
         \<lparr>ar_form := Some [TextPart ''name'' name, TextPart ''description'' description, TextPart ''tags'' tags,
            FilePart ''file'' b (upload_filename file) (af_content_type file)], ar_headers := audit_kwargs reason\<rparr>))"

definition guild_widget_image_url :: "string \<Rightarrow> string \<Rightarrow> snowflake \<Rightarrow> string option \<Rightarrow> string" where
  "guild_widget_image_url base_url api_version guild_id style =
     base_url @ ''/v'' @ api_version @ render_path [Lit ''guilds'', Ref guild_id, Lit ''widget.png''] @
     (case style of None \<Rightarrow> [] | Some s \<Rightarrow> ''?style='' @ quote_with [] s)"

section \<open>Paths\<close>

lemmas api_verbs = api_get_def api_post_def api_patch_def api_put_def api_delete_def api_call_def

text \<open>Segments that stay one segment: all but strings with a slash that are not quoted.\<close>

definition plain_segment :: "segment \<Rightarrow> bool" where
  "plain_segment s = (case s of Num i \<Rightarrow> True | Quoted x \<Rightarrow> True | Lit x \<Rightarrow> CHR ''/'' \<notin> set x | Raw x \<Rightarrow> CHR ''/'' \<notin> set x
     | Ref r \<Rightarrow> (case r of Inl i \<Rightarrow> True | Inr x \<Rightarrow> CHR ''/'' \<notin> set x))"

lemma show_int_no_slash: "CHR ''/'' \<notin> set (show_int i)"
proof -
  have "d < 10 \<Longrightarrow> digit_char d \<noteq> CHR ''/''" for d using of_char_digit_char [of d] by auto
  then have "CHR ''/'' \<notin> set (show_nat n)" for n using show_nat_digits [of "CHR ''/''" n] by metis
  then show ?thesis by (auto simp: show_int_def)
qed

lemma quoted_no_slash: "CHR ''/'' \<notin> set (quote_with [] s)"
  using quote_with_chars [of "CHR ''/''" "[]" s] by (auto simp: unreserved_def)

lemma plain_segment_text: "plain_segment s \<Longrightarrow> CHR ''/'' \<notin> set (segment_text s)"
  by (cases s) (auto simp: plain_segment_def ref_text_def show_int_no_slash quoted_no_slash split: sum.splits)

lemma split_render: "list_all plain_segment segs \<Longrightarrow> py_split (CHR ''/'') (render_path segs) = [] # map segment_text segs"
proof (induction segs)
  case (Cons s segs)
  have "py_split (CHR ''/'') (segment_text s @ render_path segs) = segment_text s # map segment_text segs"
  proof (cases segs)
    case Nil
    then show ?thesis using Cons.prems by (simp add: render_path_def py_split_word plain_segment_text)
  next
    case (Cons r rs)
    have "py_split (CHR ''/'') (render_path segs) = [] # map segment_text segs" using Cons.IH Cons.prems by simp
    then have "py_split (CHR ''/'') (segment_text r @ render_path rs) = map segment_text segs" using Cons by (simp add: render_path_def)
    then show ?thesis using Cons Cons.prems py_split_append [of "CHR ''/''" "segment_text s"] by (simp add: render_path_def plain_segment_text)
  qed
  then show ?case by (simp add: render_path_def)
qed (simp add: render_path_def)

lemma render_inj:
  assumes "list_all plain_segment xs" and "list_all plain_segment ys" and "render_path xs = render_path ys"
  shows "map segment_text xs = map segment_text ys"
  using split_render [OF assms(1)] split_render [OF assms(2)] assms(3) by simp

lemma perform_path: "fst (perform cfg net (api_call verb segs) s) = fst (request cfg net verb (if segs = [] then ''/'' else render_path segs) None None s)"
  by (cases segs) (simp_all add: perform_def api_call_def normalize_endpoint_def render_path_def starts_with_def)

text \<open>
  A reaction request reaches exactly the message and emoji it names. Whatever characters the
  emoji has, the path keeps its eight segments, the emoji's segment decodes to the emoji, and two
  requests have the same path only for the same channel, message and emoji.
\<close>

theorem reaction_paths_exact:
  "py_split (CHR ''/'') (ar_path (api_add_reaction c m e)) =
     [[], ''channels'', show_int c, ''messages'', show_int m, ''reactions'', quote_with [] e, ''@me''] \<and>
   unquote (quote_with [] e) = e \<and>
   (ar_path (api_add_reaction c m e) = ar_path (api_add_reaction c' m' e')) = (c = c' \<and> m = m' \<and> e = e')"
proof -
  let ?segs = "\<lambda>c m e. [Lit ''channels'', Num c, Lit ''messages'', Num m, Lit ''reactions'', Quoted e, Lit ''@me'']"
  have p: "ar_path (api_add_reaction c m e) = render_path (?segs c m e)" for c m e by (simp add: api_add_reaction_def api_verbs)
  have s: "list_all plain_segment (?segs c m e)" for c m e by (simp add: plain_segment_def)
  have "c = c' \<and> m = m' \<and> e = e'" if "render_path (?segs c m e) = render_path (?segs c' m' e')"
    using render_inj [OF s s that] by (auto dest: show_int_inj quote_with_inj [of "[]", simplified])
  then show ?thesis using split_render [OF s, of c m e] unquote_quote_with [of "[]" e] by (auto simp: p)
qed

text \<open>
  Tokens and invite codes are put into the path as they are: with a slash they name another
  endpoint.
\<close>

lemma webhook_token_changes_endpoint:
  "api_delete_webhook_resource w (Some (t @ ''/messages/'' @ show_int m)) = api_delete_webhook_message w t m"
  by (simp add: api_delete_webhook_resource_def api_delete_webhook_message_def opt_segment_def api_verbs render_path_def)

lemma invite_code_changes_endpoint: "py_split (CHR ''/'') (ar_path (api_delete_invite ''../guilds/1'')) = [[], ''invites'', ''..'', ''guilds'', ''1'']"
  by (simp add: api_delete_invite_def api_verbs render_path_def)

section \<open>Audit log reasons\<close>

text \<open>
  A reason cannot break its header: the value has only printable ASCII characters, so no line
  ends, and it decodes to the reason.
\<close>

theorem audit_reason_safe:
  "\<exists>v. ar_headers (api_modify_guild g payload (Some r)) = [(''X-Audit-Log-Reason'', v)] \<and>
     list_all (\<lambda>c. 32 \<le> (of_char c :: nat) \<and> (of_char c :: nat) < 127) v \<and> unquote v = r"
proof -
  have "32 \<le> (of_char c :: nat) \<and> (of_char c :: nat) < 127" if "c \<in> set (quote_with ''/ '' r)" for c
    using quote_with_chars [OF that] by (auto simp: unreserved_def Let_def)
  then have "list_all (\<lambda>c. 32 \<le> (of_char c :: nat) \<and> (of_char c :: nat) < 127) (quote_with ''/ '' r)" by (auto simp: list_all_iff)
  then show ?thesis by (simp add: api_modify_guild_def audit_kwargs_def api_verbs unquote_quote_with)
qed

section \<open>Uploads\<close>

lemma map_result_enumerate:
  assumes "list_all (\<lambda>f. read_bytes f = Inr (content f)) files"
  shows "map_result file_part (enumerate n files) =
    Inr (map (\<lambda>(i, f). FilePart (''files['' @ show_nat i @ '']'') (content f) (upload_filename f) (af_content_type f)) (enumerate n files))"
  using assms by (induction files arbitrary: n) (simp_all add: file_part_def)

text \<open>
  An upload describes every file it carries. When all files can be read, the form of a message has
  the JSON payload with one attachment entry per file behind the attachments already there, and the
  files follow in order under \<open>files[i]\<close>, where \<open>i\<close> is the id of the entry and both have the same file name.
\<close>

theorem upload_form_complete:
  assumes "list_all (\<lambda>f. read_bytes f = Inr (content f)) (f # fs)" and "map_of payload ''attachments'' = Some (JList old)"
  shows "\<exists>body. api_send_message c payload (Some (f # fs)) = Inr ((api_post [Lit ''channels'', Num c, Lit ''messages''])
      \<lparr>ar_form := Some (JsonPart ''payload_json'' (JDict body) #
         map (\<lambda>(i, f). FilePart (''files['' @ show_nat i @ '']'') (content f) (upload_filename f) (af_content_type f)) (enumerate 0 (f # fs)))\<rparr>) \<and>
    map_of body = (map_of payload)(''attachments'' \<mapsto> JList (old @ map attachment_descriptor (enumerate 0 (f # fs))))"
proof -
  have o: "(if json_truthy (JList old) then json_iter (JList old) else Inr []) = Inr old" by (auto simp: json_truthy_def json_iter_def)
  have "build_attachment_form payload (f # fs) = Inr (JsonPart ''payload_json''
      (JDict (dict_set payload ''attachments'' (JList (old @ map attachment_descriptor (enumerate 0 (f # fs)))))) #
      map (\<lambda>(i, f). FilePart (''files['' @ show_nat i @ '']'') (content f) (upload_filename f) (af_content_type f)) (enumerate 0 (f # fs)))"
    unfolding build_attachment_form_def Let_def jget_def dict_get_def assms(2) option.case o map_result_enumerate [OF assms(1)] by simp
  then show ?thesis unfolding api_send_message_def by (simp del: enumerate_simps) (metis map_of_dict_set)
qed

theorem upload_form_complete_witness:
  "\<exists>form. api_send_message 1 [(''attachments'', JList [])]
     (Some [\<lparr>af_filename = ''a.txt'', af_data = RawBytes [1], af_description = None, af_spoiler = True, af_content_type = ''text/plain''\<rparr>]) =
   Inr ((api_post [Lit ''channels'', Num 1, Lit ''messages''])\<lparr>ar_form := Some form\<rparr>) \<and>
   form ! 1 = FilePart ''files[0]'' [1] ''SPOILER_a.txt'' ''text/plain''"
proof -
  let ?f = "\<lparr>af_filename = ''a.txt'', af_data = RawBytes [1], af_description = None, af_spoiler = True, af_content_type = ''text/plain''\<rparr>"
  have u: "upload_filename ?f = ''SPOILER_a.txt''" by (simp add: upload_filename_def starts_with_def)
  have n: "show_nat 0 = ''0''" by code_simp
  have "list_all (\<lambda>f. read_bytes f = Inr [1]) [?f]" by (simp add: read_bytes_def)
  from upload_form_complete [OF this, of "[(''attachments'', JList [])]" "[]" 1] show ?thesis by (auto simp: u n)
qed

end
