(* ===== verification/Resources.thy ===== *)
theory Resources
  imports PyText
begin

text \<open>
  The typed REST resources (src/vaidcord-py/src/vaidcord/types/resources.py). \<open>_from_payload\<close> builds an
  instance by introspection of its dataclass, so a class is data here: its name, the fields that
  \<open>from_payload\<close> overrides, in the order of the call, and the other fields with their defaults. The
  theory also has the embed builder.
\<close>

section \<open>Classes\<close>

text \<open>Annotations; \<open>TObj\<close> is another class by name.\<close>

datatype rtype = TInt | TStr | TBool | TFloat | TDict | TList rtype | TOpt rtype | TObj string

datatype resource = Resource string "override list" "(string \<times> rtype \<times> json option) list"
  and override = Override string rtype coercion
  and coercion = IntKey | Snow | SnowList | OptSnowList | ItemsOf resource | OptItemOf resource

text \<open>Field values: JSON, an instance of a class with its raw data and fields, a list of instances.\<close>

datatype rvalue = RJson json | RInst string json "(string \<times> rvalue) list" | RItems "rvalue list"

section \<open>Parsing payloads\<close>

definition snowflake_value :: "json \<Rightarrow> json result" where
  "snowflake_value v = (case v of JNull \<Rightarrow> Inr JNull | _ \<Rightarrow> bind_result (py_int v) (\<lambda>i. Inr (JInt i)))"

definition snowflake_list :: "json \<Rightarrow> json result" where
  "snowflake_list values =
     (if \<not> json_truthy values then Inr (JList [])
      else bind_result (json_iter values) (\<lambda>xs. bind_result (map_result py_int xs) (\<lambda>is. Inr (JList (map JInt is)))))"

text \<open>\<open>name in data\<close> for data that is no dictionary: a list, a string, anything else.\<close>

fun has_infix :: "string \<Rightarrow> string \<Rightarrow> bool" where
  "has_infix p [] = (p = [])"
| "has_infix p (c # s) = (starts_with (c # s) p \<or> has_infix p s)"

definition json_contains :: "string \<Rightarrow> json \<Rightarrow> bool result" where
  "json_contains name data =
     (case data of
        JDict d \<Rightarrow> Inr (name \<in> fst ` set d)
      | JList xs \<Rightarrow> Inr (JStr name \<in> set xs)
      | JStr s \<Rightarrow> Inr (has_infix name s)
      | _ \<Rightarrow> Inl (TypeError ''argument is not iterable''))"

text \<open>A field that is not overridden: the value in the data, else the default.\<close>

definition kept_field :: "json \<Rightarrow> string \<times> rtype \<times> json option \<Rightarrow> (string \<times> rvalue option) result" where
  "kept_field data f =
     bind_result (json_contains (fst f) data) (\<lambda>present.
       if present then bind_result (json_index data (fst f)) (\<lambda>v. Inr (fst f, Some (RJson v)))
       else Inr (fst f, map_option RJson (snd (snd f))))"

text \<open>The constructor call: a field without value and default is a missing argument.\<close>

definition construct :: "string \<Rightarrow> json \<Rightarrow> (string \<times> rvalue) list \<Rightarrow> (string \<times> rvalue option) list \<Rightarrow> rvalue result" where
  "construct name data overridden kept =
     (if list_ex (\<lambda>p. snd p = None) kept then Inl (TypeError ''missing required argument'')
      else Inr (RInst name data (overridden @ map (\<lambda>p. (fst p, the (snd p))) kept)))"

primrec from_payload :: "resource \<Rightarrow> json \<Rightarrow> rvalue result"
  and override_value :: "override \<Rightarrow> json \<Rightarrow> (string \<times> rvalue) result"
  and coerce_field :: "coercion \<Rightarrow> string \<Rightarrow> json \<Rightarrow> rvalue result" where
  "from_payload (Resource name overrides kept) =
     (\<lambda>data. bind_result (map_result (\<lambda>f. f data) (map override_value overrides)) (\<lambda>overridden.
        bind_result (map_result (kept_field data) kept) (\<lambda>ks. construct name data overridden ks)))"
| "override_value (Override name ty c) = (\<lambda>data. bind_result (coerce_field c name data) (\<lambda>v. Inr (name, v)))"
| "coerce_field IntKey = (\<lambda>name data. bind_result (json_index data name) (\<lambda>v. bind_result (py_int v) (\<lambda>i. Inr (RJson (JInt i)))))"
| "coerce_field Snow = (\<lambda>name data. bind_result (json_get data name JNull) (\<lambda>v. bind_result (snowflake_value v) (\<lambda>w. Inr (RJson w))))"
| "coerce_field SnowList = (\<lambda>name data. bind_result (json_get data name JNull) (\<lambda>v. bind_result (snowflake_list v) (\<lambda>w. Inr (RJson w))))"
| "coerce_field OptSnowList =
     (\<lambda>name data. bind_result (json_get data name JNull) (\<lambda>v.
        if v = JNull then Inr (RJson JNull) else bind_result (snowflake_list v) (\<lambda>w. Inr (RJson w))))"
| "coerce_field (ItemsOf r) =
     (\<lambda>name data. bind_result (json_get data name (JList [])) (\<lambda>v. bind_result (json_iter v) (\<lambda>xs.
        bind_result (map_result (from_payload r) xs) (\<lambda>vs. Inr (RItems vs)))))"
| "coerce_field (OptItemOf r) =
     (\<lambda>name data. bind_result (json_get data name JNull) (\<lambda>v. if v = JNull then Inr (RJson JNull) else from_payload r v))"

section \<open>The classes\<close>

definition role_resource :: resource where
  "role_resource =
     Resource ''Role''
       [Override ''id'' TInt IntKey]
       [(''name'', TStr, Some (JStr [])), (''color'', TInt, Some (JInt 0)), (''hoist'', TBool, Some (JBool False)),
        (''icon'', TOpt TStr, Some JNull), (''unicode_emoji'', TOpt TStr, Some JNull), (''position'', TInt, Some (JInt 0)),
        (''permissions'', TStr, Some (JStr ''0'')), (''managed'', TBool, Some (JBool False)),
        (''mentionable'', TBool, Some (JBool False)), (''tags'', TOpt TDict, Some JNull), (''flags'', TInt, Some (JInt 0))]"

definition member_resource :: resource where
  "member_resource =
     Resource ''Member''
       [Override ''roles'' (TList TInt) SnowList]
       [(''user'', TOpt TDict, Some JNull), (''nick'', TOpt TStr, Some JNull), (''avatar'', TOpt TStr, Some JNull),
        (''banner'', TOpt TStr, Some JNull), (''joined_at'', TOpt TStr, Some JNull), (''premium_since'', TOpt TStr, Some JNull),
        (''deaf'', TBool, Some (JBool False)), (''mute'', TBool, Some (JBool False)), (''flags'', TInt, Some (JInt 0)),
        (''pending'', TBool, Some (JBool False)), (''permissions'', TOpt TStr, Some JNull),
        (''communication_disabled_until'', TOpt TStr, Some JNull), (''avatar_decoration_data'', TOpt TDict, Some JNull)]"

definition emoji_resource :: resource where
  "emoji_resource =
     Resource ''Emoji''
       [Override ''id'' (TOpt TInt) Snow, Override ''roles'' (TList TInt) SnowList]
       [(''name'', TOpt TStr, Some JNull), (''user'', TOpt TDict, Some JNull), (''require_colons'', TOpt TBool, Some JNull),
        (''managed'', TOpt TBool, Some JNull), (''animated'', TOpt TBool, Some JNull), (''available'', TOpt TBool, Some JNull)]"

definition sticker_resource :: resource where
  "sticker_resource =
     Resource ''Sticker''
       [Override ''id'' TInt IntKey, Override ''pack_id'' (TOpt TInt) Snow, Override ''guild_id'' (TOpt TInt) Snow]
       [(''name'', TStr, Some (JStr [])), (''description'', TOpt TStr, Some JNull), (''tags'', TStr, Some (JStr [])),
        (''type'', TOpt TInt, Some JNull), (''format_type'', TOpt TInt, Some JNull), (''available'', TOpt TBool, Some JNull),
        (''user'', TOpt TDict, Some JNull), (''sort_value'', TOpt TInt, Some JNull)]"

definition sticker_pack_resource :: resource where
  "sticker_pack_resource =
     Resource ''StickerPack''
       [Override ''id'' TInt IntKey, Override ''sku_id'' (TOpt TInt) Snow, Override ''cover_sticker_id'' (TOpt TInt) Snow,
        Override ''banner_asset_id'' (TOpt TInt) Snow, Override ''stickers'' (TList (TObj ''Sticker'')) (ItemsOf sticker_resource)]
       [(''name'', TStr, Some (JStr [])), (''description'', TOpt TStr, Some JNull)]"

definition attachment_resource :: resource where
  "attachment_resource =
     Resource ''Attachment''
       [Override ''id'' TInt IntKey]
       [(''filename'', TStr, Some (JStr [])), (''title'', TOpt TStr, Some JNull), (''description'', TOpt TStr, Some JNull),
        (''content_type'', TOpt TStr, Some JNull), (''size'', TInt, Some (JInt 0)), (''url'', TStr, Some (JStr [])),
        (''proxy_url'', TStr, Some (JStr [])), (''height'', TOpt TInt, Some JNull), (''width'', TOpt TInt, Some JNull),
        (''ephemeral'', TOpt TBool, Some JNull), (''duration_secs'', TOpt TFloat, Some JNull),
        (''waveform'', TOpt TStr, Some JNull), (''flags'', TOpt TInt, Some JNull)]"

definition embed_resource :: resource where
  "embed_resource =
     Resource ''Embed''
       []
       [(''title'', TOpt TStr, Some JNull), (''type'', TOpt TStr, Some JNull), (''description'', TOpt TStr, Some JNull),
        (''url'', TOpt TStr, Some JNull), (''timestamp'', TOpt TStr, Some JNull), (''color'', TOpt TInt, Some JNull),
        (''footer'', TOpt TDict, Some JNull), (''image'', TOpt TDict, Some JNull), (''thumbnail'', TOpt TDict, Some JNull),
        (''video'', TOpt TDict, Some JNull), (''provider'', TOpt TDict, Some JNull), (''author'', TOpt TDict, Some JNull),
        (''fields'', TList TDict, Some (JList []))]"

definition webhook_resource :: resource where
  "webhook_resource =
     Resource ''Webhook''
       [Override ''id'' TInt IntKey, Override ''guild_id'' (TOpt TInt) Snow, Override ''channel_id'' (TOpt TInt) Snow,
        Override ''application_id'' (TOpt TInt) Snow]
       [(''type'', TOpt TInt, Some JNull), (''user'', TOpt TDict, Some JNull), (''name'', TOpt TStr, Some JNull),
        (''avatar'', TOpt TStr, Some JNull), (''token'', TOpt TStr, Some JNull), (''source_guild'', TOpt TDict, Some JNull),
        (''source_channel'', TOpt TDict, Some JNull), (''url'', TOpt TStr, Some JNull)]"

definition invite_resource :: resource where
  "invite_resource =
     Resource ''Invite''
       []
       [(''code'', TStr, None), (''type'', TOpt TInt, Some JNull), (''guild'', TOpt TDict, Some JNull),
        (''channel'', TOpt TDict, Some JNull), (''inviter'', TOpt TDict, Some JNull), (''target_type'', TOpt TInt, Some JNull),
        (''target_user'', TOpt TDict, Some JNull), (''target_application'', TOpt TDict, Some JNull),
        (''approximate_presence_count'', TOpt TInt, Some JNull), (''approximate_member_count'', TOpt TInt, Some JNull),
        (''expires_at'', TOpt TStr, Some JNull), (''guild_scheduled_event'', TOpt TDict, Some JNull),
        (''uses'', TOpt TInt, Some JNull), (''max_uses'', TOpt TInt, Some JNull), (''max_age'', TOpt TInt, Some JNull),
        (''temporary'', TOpt TBool, Some JNull), (''created_at'', TOpt TStr, Some JNull)]"

definition thread_member_resource :: resource where
  "thread_member_resource =
     Resource ''ThreadMember''
       [Override ''id'' (TOpt TInt) Snow, Override ''user_id'' (TOpt TInt) Snow,
        Override ''member'' (TOpt (TObj ''Member'')) (OptItemOf member_resource)]
       [(''join_timestamp'', TOpt TStr, Some JNull), (''flags'', TInt, Some (JInt 0))]"

definition stage_instance_resource :: resource where
  "stage_instance_resource =
     Resource ''StageInstance''
       [Override ''id'' TInt IntKey, Override ''guild_id'' (TOpt TInt) Snow, Override ''channel_id'' (TOpt TInt) Snow,
        Override ''guild_scheduled_event_id'' (TOpt TInt) Snow]
       [(''topic'', TStr, Some (JStr [])), (''privacy_level'', TOpt TInt, Some JNull),
        (''discoverable_disabled'', TOpt TBool, Some JNull)]"

definition auto_moderation_rule_resource :: resource where
  "auto_moderation_rule_resource =
     Resource ''AutoModerationRule''
       [Override ''id'' TInt IntKey, Override ''guild_id'' (TOpt TInt) Snow, Override ''creator_id'' (TOpt TInt) Snow,
        Override ''exempt_roles'' (TList TInt) SnowList, Override ''exempt_channels'' (TList TInt) SnowList]
       [(''name'', TStr, Some (JStr [])), (''event_type'', TOpt TInt, Some JNull), (''trigger_type'', TOpt TInt, Some JNull),
        (''trigger_metadata'', TDict, Some (JDict [])), (''actions'', TList TDict, Some (JList [])),
        (''enabled'', TBool, Some (JBool False))]"

definition guild_scheduled_event_resource :: resource where
  "guild_scheduled_event_resource =
     Resource ''GuildScheduledEvent''
       [Override ''id'' TInt IntKey, Override ''guild_id'' (TOpt TInt) Snow, Override ''channel_id'' (TOpt TInt) Snow,
        Override ''creator_id'' (TOpt TInt) Snow, Override ''entity_id'' (TOpt TInt) Snow]
       [(''name'', TStr, Some (JStr [])), (''description'', TOpt TStr, Some JNull),
        (''scheduled_start_time'', TOpt TStr, Some JNull), (''scheduled_end_time'', TOpt TStr, Some JNull),
        (''privacy_level'', TOpt TInt, Some JNull), (''status'', TOpt TInt, Some JNull), (''entity_type'', TOpt TInt, Some JNull),
        (''entity_metadata'', TOpt TDict, Some JNull), (''creator'', TOpt TDict, Some JNull),
        (''user_count'', TOpt TInt, Some JNull), (''image'', TOpt TStr, Some JNull), (''recurrence_rule'', TOpt TDict, Some JNull)]"

definition entitlement_resource :: resource where
  "entitlement_resource =
     Resource ''Entitlement''
       [Override ''id'' TInt IntKey, Override ''sku_id'' (TOpt TInt) Snow, Override ''application_id'' (TOpt TInt) Snow,
        Override ''user_id'' (TOpt TInt) Snow, Override ''guild_id'' (TOpt TInt) Snow]
       [(''type'', TOpt TInt, Some JNull), (''deleted'', TBool, Some (JBool False)), (''consumed'', TOpt TBool, Some JNull),
        (''starts_at'', TOpt TStr, Some JNull), (''ends_at'', TOpt TStr, Some JNull)]"

definition sku_resource :: resource where
  "sku_resource =
     Resource ''SKU''
       [Override ''id'' TInt IntKey, Override ''application_id'' (TOpt TInt) Snow]
       [(''type'', TOpt TInt, Some JNull), (''name'', TStr, Some (JStr [])), (''slug'', TStr, Some (JStr [])),
        (''flags'', TInt, Some (JInt 0))]"

definition subscription_resource :: resource where
  "subscription_resource =
     Resource ''Subscription''
       [Override ''id'' TInt IntKey, Override ''user_id'' (TOpt TInt) Snow, Override ''sku_ids'' (TList TInt) SnowList,
        Override ''entitlement_ids'' (TList TInt) SnowList, Override ''renewal_sku_ids'' (TOpt (TList TInt)) OptSnowList]
       [(''current_period_start'', TOpt TStr, Some JNull), (''current_period_end'', TOpt TStr, Some JNull),
        (''status'', TOpt TInt, Some JNull), (''canceled_at'', TOpt TStr, Some JNull), (''country'', TOpt TStr, Some JNull)]"

definition soundboard_sound_resource :: resource where
  "soundboard_sound_resource =
     Resource ''SoundboardSound''
       [Override ''sound_id'' TInt IntKey, Override ''emoji_id'' (TOpt TInt) Snow, Override ''guild_id'' (TOpt TInt) Snow]
       [(''name'', TStr, Some (JStr [])), (''volume'', TFloat, Some (JFloat 1)), (''emoji_name'', TOpt TStr, Some JNull),
        (''available'', TBool, Some (JBool True)), (''user'', TOpt TDict, Some JNull)]"

definition audit_log_entry_resource :: resource where
  "audit_log_entry_resource =
     Resource ''AuditLogEntry''
       [Override ''id'' TInt IntKey, Override ''target_id'' (TOpt TInt) Snow, Override ''user_id'' (TOpt TInt) Snow]
       [(''action_type'', TOpt TInt, Some JNull), (''changes'', TList TDict, Some (JList [])),
        (''options'', TOpt TDict, Some JNull), (''reason'', TOpt TStr, Some JNull)]"

definition audit_log_resource :: resource where
  "audit_log_resource =
     Resource ''AuditLog''
       [Override ''audit_log_entries'' (TList (TObj ''AuditLogEntry'')) (ItemsOf audit_log_entry_resource),
        Override ''auto_moderation_rules'' (TList (TObj ''AutoModerationRule'')) (ItemsOf auto_moderation_rule_resource),
        Override ''guild_scheduled_events'' (TList (TObj ''GuildScheduledEvent'')) (ItemsOf guild_scheduled_event_resource)]
       [(''application_commands'', TList TDict, Some (JList [])), (''integrations'', TList TDict, Some (JList [])),
        (''threads'', TList TDict, Some (JList [])), (''users'', TList TDict, Some (JList [])),
        (''webhooks'', TList TDict, Some (JList []))]"

definition voice_region_resource :: resource where
  "voice_region_resource =
     Resource ''VoiceRegion''
       []
       [(''id'', TStr, None), (''name'', TStr, Some (JStr [])), (''optimal'', TBool, Some (JBool False)),
        (''deprecated'', TBool, Some (JBool False)), (''custom'', TBool, Some (JBool False))]"

definition application_resource :: resource where
  "application_resource =
     Resource ''Application''
       [Override ''id'' TInt IntKey, Override ''guild_id'' (TOpt TInt) Snow, Override ''primary_sku_id'' (TOpt TInt) Snow]
       [(''name'', TStr, Some (JStr [])), (''icon'', TOpt TStr, Some JNull), (''description'', TStr, Some (JStr [])),
        (''rpc_origins'', TOpt (TList TStr), Some JNull), (''bot_public'', TOpt TBool, Some JNull),
        (''bot_require_code_grant'', TOpt TBool, Some JNull), (''bot'', TOpt TDict, Some JNull),
        (''terms_of_service_url'', TOpt TStr, Some JNull), (''privacy_policy_url'', TOpt TStr, Some JNull),
        (''owner'', TOpt TDict, Some JNull), (''verify_key'', TOpt TStr, Some JNull), (''team'', TOpt TDict, Some JNull),
        (''guild'', TOpt TDict, Some JNull), (''slug'', TOpt TStr, Some JNull), (''cover_image'', TOpt TStr, Some JNull),
        (''flags'', TOpt TInt, Some JNull), (''approximate_guild_count'', TOpt TInt, Some JNull),
        (''approximate_user_install_count'', TOpt TInt, Some JNull), (''redirect_uris'', TOpt (TList TStr), Some JNull),
        (''interactions_endpoint_url'', TOpt TStr, Some JNull), (''role_connections_verification_url'', TOpt TStr, Some JNull),
        (''event_webhooks_url'', TOpt TStr, Some JNull), (''event_webhooks_status'', TOpt TInt, Some JNull),
        (''event_webhooks_types'', TOpt (TList TStr), Some JNull), (''tags'', TOpt (TList TStr), Some JNull),
        (''install_params'', TOpt TDict, Some JNull), (''integration_types_config'', TOpt TDict, Some JNull),
        (''custom_install_url'', TOpt TStr, Some JNull)]"

definition integration_resource :: resource where
  "integration_resource =
     Resource ''Integration''
       [Override ''id'' TInt IntKey, Override ''role_id'' (TOpt TInt) Snow]
       [(''name'', TStr, Some (JStr [])), (''type'', TStr, Some (JStr [])), (''enabled'', TBool, Some (JBool False)),
        (''syncing'', TOpt TBool, Some JNull), (''enable_emoticons'', TOpt TBool, Some JNull),
        (''expire_behavior'', TOpt TInt, Some JNull), (''expire_grace_period'', TOpt TInt, Some JNull),
        (''user'', TOpt TDict, Some JNull), (''account'', TOpt TDict, Some JNull), (''synced_at'', TOpt TStr, Some JNull),
        (''subscriber_count'', TOpt TInt, Some JNull), (''revoked'', TOpt TBool, Some JNull),
        (''application'', TOpt TDict, Some JNull), (''scopes'', TOpt (TList TStr), Some JNull)]"

definition welcome_screen_resource :: resource where
  "welcome_screen_resource =
     Resource ''WelcomeScreen''
       []
       [(''description'', TOpt TStr, Some JNull), (''welcome_channels'', TList TDict, Some (JList []))]"

definition poll_answer_resource :: resource where
  "poll_answer_resource =
     Resource ''PollAnswer''
       []
       [(''answer_id'', TOpt TInt, Some JNull), (''poll_media'', TDict, Some (JDict []))]"

definition poll_resource :: resource where
  "poll_resource =
     Resource ''Poll''
       [Override ''answers'' (TList (TObj ''PollAnswer'')) (ItemsOf poll_answer_resource)]
       [(''question'', TDict, Some (JDict [])), (''expiry'', TOpt TStr, Some JNull),
        (''allow_multiselect'', TBool, Some (JBool False)), (''layout_type'', TOpt TInt, Some JNull),
        (''results'', TOpt TDict, Some JNull)]"

definition resource_classes :: "resource list" where
  "resource_classes =
     [role_resource, member_resource, emoji_resource, sticker_resource, sticker_pack_resource, attachment_resource,
      embed_resource, webhook_resource, invite_resource, thread_member_resource, stage_instance_resource,
      auto_moderation_rule_resource, guild_scheduled_event_resource, entitlement_resource, sku_resource,
      subscription_resource, soundboard_sound_resource, audit_log_entry_resource, audit_log_resource, voice_region_resource,
      application_resource, integration_resource, welcome_screen_resource, poll_answer_resource, poll_resource]"

section \<open>Typing\<close>

primrec has_type :: "rtype \<Rightarrow> json \<Rightarrow> bool" where
  "has_type TInt = (\<lambda>v. case v of JInt _ \<Rightarrow> True | _ \<Rightarrow> False)"
| "has_type TStr = (\<lambda>v. case v of JStr _ \<Rightarrow> True | _ \<Rightarrow> False)"
| "has_type TBool = (\<lambda>v. case v of JBool _ \<Rightarrow> True | _ \<Rightarrow> False)"
| "has_type TFloat = (\<lambda>v. case v of JFloat _ \<Rightarrow> True | JInt _ \<Rightarrow> True | _ \<Rightarrow> False)"
| "has_type TDict = (\<lambda>v. case v of JDict _ \<Rightarrow> True | _ \<Rightarrow> False)"
| "has_type (TList t) = (\<lambda>v. case v of JList xs \<Rightarrow> list_all (has_type t) xs | _ \<Rightarrow> False)"
| "has_type (TOpt t) = (\<lambda>v. v = JNull \<or> has_type t v)"
| "has_type (TObj n) = (\<lambda>v. False)"

definition json_typed :: "rtype \<Rightarrow> rvalue \<Rightarrow> bool" where
  "json_typed ty v = (case v of RJson x \<Rightarrow> has_type ty x | _ \<Rightarrow> False)"

definition resource_name :: "resource \<Rightarrow> string" where
  "resource_name r = (case r of Resource n _ _ \<Rightarrow> n)"

definition override_name :: "override \<Rightarrow> string" where
  "override_name ov = (case ov of Override n _ _ \<Rightarrow> n)"

text \<open>An instance has every field of its class, each with a value of the annotated type.\<close>

primrec well_typed :: "resource \<Rightarrow> rvalue \<Rightarrow> bool"
  and override_typed :: "override \<Rightarrow> rvalue \<Rightarrow> bool"
  and coercion_typed :: "coercion \<Rightarrow> rtype \<Rightarrow> rvalue \<Rightarrow> bool" where
  "well_typed (Resource name overrides kept) =
     (\<lambda>v. case v of
        RInst n raw vals \<Rightarrow>
          n = name \<and>
          list_all (\<lambda>p. case map_of vals (fst p) of Some x \<Rightarrow> snd p x | None \<Rightarrow> False) (map (\<lambda>ov. (override_name ov, override_typed ov)) overrides) \<and>
          list_all (\<lambda>f. case map_of vals (fst f) of Some x \<Rightarrow> json_typed (fst (snd f)) x | None \<Rightarrow> False) kept
      | _ \<Rightarrow> False)"
| "override_typed (Override name ty c) = coercion_typed c ty"
| "coercion_typed IntKey = json_typed"
| "coercion_typed Snow = json_typed"
| "coercion_typed SnowList = json_typed"
| "coercion_typed OptSnowList = json_typed"
| "coercion_typed (ItemsOf r) = (\<lambda>ty v. ty = TList (TObj (resource_name r)) \<and> (case v of RItems vs \<Rightarrow> list_all (well_typed r) vs | _ \<Rightarrow> False))"
| "coercion_typed (OptItemOf r) = (\<lambda>ty v. ty = TOpt (TObj (resource_name r)) \<and> (v = RJson JNull \<or> well_typed r v))"

text \<open>The payloads Discord documents: ids are numbers or strings of digits, other fields are as annotated.\<close>

definition is_id :: "json \<Rightarrow> bool" where
  "is_id v = (case v of JInt _ \<Rightarrow> True | JStr s \<Rightarrow> parse_int s \<noteq> None | _ \<Rightarrow> False)"

definition opt_member :: "(json \<Rightarrow> bool) \<Rightarrow> string \<Rightarrow> jdict \<Rightarrow> bool" where
  "opt_member P k d = (case map_of d k of None \<Rightarrow> True | Some v \<Rightarrow> P v)"

definition id_list :: "json \<Rightarrow> bool" where
  "id_list v = (v = JNull \<or> (case v of JList xs \<Rightarrow> list_all is_id xs | _ \<Rightarrow> False))"

primrec payload_ok :: "resource \<Rightarrow> json \<Rightarrow> bool"
  and override_payload :: "override \<Rightarrow> jdict \<Rightarrow> bool"
  and coercion_payload :: "coercion \<Rightarrow> string \<Rightarrow> jdict \<Rightarrow> bool" where
  "payload_ok (Resource name overrides kept) =
     (\<lambda>data. case data of
        JDict d \<Rightarrow>
          list_all (\<lambda>P. P d) (map override_payload overrides) \<and>
          list_all (\<lambda>f. case map_of d (fst f) of Some x \<Rightarrow> has_type (fst (snd f)) x | None \<Rightarrow> snd (snd f) \<noteq> None) kept
      | _ \<Rightarrow> False)"
| "override_payload (Override name ty c) = coercion_payload c name"
| "coercion_payload IntKey = (\<lambda>k d. case map_of d k of None \<Rightarrow> False | Some v \<Rightarrow> is_id v)"
| "coercion_payload Snow = opt_member (\<lambda>v. v = JNull \<or> is_id v)"
| "coercion_payload SnowList = opt_member id_list"
| "coercion_payload OptSnowList = opt_member id_list"
| "coercion_payload (ItemsOf r) = opt_member (\<lambda>v. case v of JList xs \<Rightarrow> list_all (payload_ok r) xs | _ \<Rightarrow> False)"
| "coercion_payload (OptItemOf r) = opt_member (\<lambda>v. v = JNull \<or> payload_ok r v)"

text \<open>What the table of a class must satisfy: distinct names, coercions to the annotated type, typed defaults.\<close>

primrec class_ok :: "resource \<Rightarrow> bool"
  and override_ok :: "override \<Rightarrow> bool"
  and coercion_ok :: "coercion \<Rightarrow> rtype \<Rightarrow> bool" where
  "class_ok (Resource name overrides kept) =
     (distinct (map override_name overrides @ map fst kept) \<and> list_all id (map override_ok overrides) \<and>
      list_all (\<lambda>f. case snd (snd f) of None \<Rightarrow> True | Some x \<Rightarrow> has_type (fst (snd f)) x) kept)"
| "override_ok (Override name ty c) = coercion_ok c ty"
| "coercion_ok IntKey = (\<lambda>ty. ty = TInt)"
| "coercion_ok Snow = (\<lambda>ty. ty = TOpt TInt)"
| "coercion_ok SnowList = (\<lambda>ty. ty = TList TInt)"
| "coercion_ok OptSnowList = (\<lambda>ty. ty = TOpt (TList TInt))"
| "coercion_ok (ItemsOf r) = (\<lambda>ty. ty = TList (TObj (resource_name r)) \<and> class_ok r)"
| "coercion_ok (OptItemOf r) = (\<lambda>ty. ty = TOpt (TObj (resource_name r)) \<and> class_ok r)"

lemma is_id_int: "is_id v \<Longrightarrow> \<exists>i. py_int v = Inr i"
  by (cases v) (auto simp: is_id_def py_int_def)

lemma map_result_ints: "list_all is_id xs \<Longrightarrow> \<exists>is. map_result py_int xs = Inr is"
proof (induction xs)
  case (Cons x xs)
  then show ?case using is_id_int [of x] by auto
qed simp

lemma snowflake_list_ok: "id_list v \<Longrightarrow> \<exists>is. snowflake_list v = Inr (JList (map JInt is))"
proof (cases "json_truthy v")
  case True
  assume "id_list v"
  then obtain xs where "v = JList xs" "list_all is_id xs" using True by (auto simp: id_list_def json_truthy_def split: json.splits)
  then show ?thesis using True map_result_ints [of xs] by (auto simp: snowflake_list_def json_iter_def)
next
  case False
  then show ?thesis by (auto simp: snowflake_list_def intro: exI [of _ "[]"])
qed

lemma snowflake_value_ok: "v = JNull \<or> is_id v \<Longrightarrow> \<exists>w. snowflake_value v = Inr w \<and> has_type (TOpt TInt) w"
  using is_id_int [of v] by (cases v) (auto simp: snowflake_value_def is_id_def)

lemma ints_typed: "has_type (TList TInt) (JList (map JInt is))"
  by (simp add: list_all_iff)

lemma kept_field_ok:
  assumes "case map_of d (fst f) of Some x \<Rightarrow> has_type (fst (snd f)) x | None \<Rightarrow> snd (snd f) \<noteq> None"
    and "case snd (snd f) of None \<Rightarrow> True | Some x \<Rightarrow> has_type (fst (snd f)) x"
  shows "\<exists>x. kept_field (JDict d) f = Inr (fst f, Some (RJson x)) \<and> has_type (fst (snd f)) x"
proof (cases "map_of d (fst f)")
  case None
  then have "fst f \<notin> fst ` set d" by (simp add: map_of_eq_None_iff)
  then show ?thesis using assms None by (auto simp: kept_field_def json_contains_def)
next
  case (Some x)
  then have "fst f \<in> fst ` set d" by (force dest: map_of_SomeD)
  then show ?thesis using assms Some by (auto simp: kept_field_def json_contains_def json_index_def dict_index_def)
qed

lemma kept_fields_ok:
  assumes "list_all (\<lambda>f. case map_of d (fst f) of Some x \<Rightarrow> has_type (fst (snd f)) x | None \<Rightarrow> snd (snd f) \<noteq> None) kept"
    and "list_all (\<lambda>f. case snd (snd f) of None \<Rightarrow> True | Some x \<Rightarrow> has_type (fst (snd f)) x) kept"
  shows "\<exists>vs. map_result (kept_field (JDict d)) kept = Inr (map2 (\<lambda>f x. (fst f, Some (RJson x))) kept vs) \<and>
    list_all2 (\<lambda>f x. has_type (fst (snd f)) x) kept vs"
  using assms
proof (induction kept)
  case (Cons f kept)
  then obtain vs where vs: "map_result (kept_field (JDict d)) kept = Inr (map2 (\<lambda>f x. (fst f, Some (RJson x))) kept vs)"
    "list_all2 (\<lambda>f x. has_type (fst (snd f)) x) kept vs" by auto
  obtain x where x: "kept_field (JDict d) f = Inr (fst f, Some (RJson x))" "has_type (fst (snd f)) x"
    using kept_field_ok [where d = d and f = f] Cons.prems by auto
  show ?case using vs x by (intro exI [of _ "x # vs"]) simp
qed simp

lemma overrides_ok:
  assumes "\<And>ov. ov \<in> set ovs \<Longrightarrow> \<exists>v. override_value ov data = Inr (override_name ov, v) \<and> override_typed ov v"
  shows "\<exists>vs. map_result (\<lambda>f. f data) (map override_value ovs) = Inr (zip (map override_name ovs) vs) \<and> list_all2 override_typed ovs vs"
  using assms
proof (induction ovs)
  case (Cons ov ovs)
  have "\<exists>vs. map_result (\<lambda>f. f data) (map override_value ovs) = Inr (zip (map override_name ovs) vs) \<and> list_all2 override_typed ovs vs"
    by (rule Cons.IH) (rule Cons.prems, simp)
  then obtain vs where vs: "map_result (\<lambda>f. f data) (map override_value ovs) = Inr (zip (map override_name ovs) vs)" "list_all2 override_typed ovs vs"
    by blast
  obtain v where "override_value ov data = Inr (override_name ov, v)" "override_typed ov v" using Cons.prems [of ov] by auto
  then show ?case using vs by (intro exI [of _ "v # vs"]) simp
qed simp

text \<open>In a table with distinct names every name finds its value.\<close>

lemma lookup_zip:
  assumes "distinct (map fst table)" and "list_all2 P xs vs" and "set (zip (map k xs) vs) \<subseteq> set table"
  shows "list_all (\<lambda>x. case map_of table (k x) of Some v \<Rightarrow> P x v | None \<Rightarrow> False) xs"
proof -
  have "case map_of table (k x) of Some v \<Rightarrow> P x v | None \<Rightarrow> False" if m: "x \<in> set xs" for x
  proof -
    obtain i where i: "i < length xs" "x = xs ! i" using m by (auto simp: in_set_conv_nth)
    then have l: "i < length vs" "P x (vs ! i)" using assms(2) by (auto simp: list_all2_conv_all_nth)
    have "(k x, vs ! i) \<in> set (zip (map k xs) vs)" using i l by (force simp: in_set_zip)
    then have "map_of table (k x) = Some (vs ! i)" using assms(1,3) by (auto intro: map_of_is_SomeI)
    then show ?thesis using l by simp
  qed
  then show ?thesis by (auto simp: list_all_iff)
qed

lemma construct_ok:
  assumes "class_ok (Resource name ovs kept)" and "list_all2 override_typed ovs vs" and "list_all2 (\<lambda>f x. has_type (fst (snd f)) x) kept ks"
  shows "\<exists>v. construct name data (zip (map override_name ovs) vs) (map2 (\<lambda>f x. (fst f, Some (RJson x))) kept ks) = Inr v \<and>
    well_typed (Resource name ovs kept) v"
proof -
  have len: "length vs = length ovs" "length ks = length kept" using assms(2,3) by (simp_all add: list_all2_lengthD)
  let ?k2 = "zip (map fst kept) (map RJson ks)"
  have k2: "map (\<lambda>p. (fst p, the (snd p))) (map2 (\<lambda>f x. (fst f, Some (RJson x))) kept ks) = ?k2"
    using len(2) by (induction kept ks rule: list_induct2') auto
  let ?t = "zip (map override_name ovs) vs @ ?k2"
  have d: "distinct (map fst ?t)" using assms(1) len by (simp add: map_fst_zip)
  have "list_all2 (\<lambda>f. json_typed (fst (snd f))) kept (map RJson ks)"
    using assms(3) by (simp add: list_all2_map2 json_typed_def)
  from lookup_zip [OF d this, of fst] have b: "list_all (\<lambda>f. case map_of ?t (fst f) of Some x \<Rightarrow> json_typed (fst (snd f)) x | None \<Rightarrow> False) kept"
    by simp
  have a: "list_all (\<lambda>ov. case map_of ?t (override_name ov) of Some v \<Rightarrow> override_typed ov v | None \<Rightarrow> False) ovs"
    using lookup_zip [OF d assms(2), of override_name] by simp
  have "\<not> list_ex (\<lambda>p. snd p = None) (map2 (\<lambda>f x. (fst f, Some (RJson x))) kept ks)" by (auto simp: list_ex_iff)
  then have "construct name data (zip (map override_name ovs) vs) (map2 (\<lambda>f x. (fst f, Some (RJson x))) kept ks) = Inr (RInst name data ?t)"
    by (simp only: construct_def k2 if_False)
  moreover have "well_typed (Resource name ovs kept) (RInst name data ?t)"
    using a b by (simp add: list.pred_map comp_def cong: option.case_cong)
  ultimately show ?thesis by blast
qed

lemma from_payload_typed:
  "\<And>data. class_ok r \<Longrightarrow> payload_ok r data \<Longrightarrow> \<exists>v. from_payload r data = Inr v \<and> well_typed r v"
  "\<And>d. override_ok ov \<Longrightarrow> override_payload ov d \<Longrightarrow> \<exists>v. override_value ov (JDict d) = Inr (override_name ov, v) \<and> override_typed ov v"
  "\<And>ty k d. coercion_ok c ty \<Longrightarrow> coercion_payload c k d \<Longrightarrow> \<exists>v. coerce_field c k (JDict d) = Inr v \<and> coercion_typed c ty v"
proof (induction r and ov and c)
  case (Resource name ovs kept)
  then obtain d where d: "data = JDict d" by (cases data) auto
  have "\<exists>v. override_value ov (JDict d) = Inr (override_name ov, v) \<and> override_typed ov v" if "ov \<in> set ovs" for ov
    using Resource.IH [OF that, of d] Resource.prems that by (auto simp: d list_all_iff)
  then obtain vs where vs: "map_result (\<lambda>f. f data) (map override_value ovs) = Inr (zip (map override_name ovs) vs)" "list_all2 override_typed ovs vs"
    using overrides_ok [of ovs data] d by blast
  obtain ks where ks: "map_result (kept_field data) kept = Inr (map2 (\<lambda>f x. (fst f, Some (RJson x))) kept ks)"
    "list_all2 (\<lambda>f x. has_type (fst (snd f)) x) kept ks"
    using kept_fields_ok [of d kept] Resource.prems by (auto simp: d)
  show ?case using construct_ok [OF Resource.prems(1) vs(2) ks(2), of data] by (simp add: vs(1) ks(1))
next
  case (Override name ty c)
  have "\<exists>v. coerce_field c name (JDict d) = Inr v \<and> coercion_typed c ty v"
    by (rule Override.IH) (use Override.prems in simp_all)
  then obtain v where "coerce_field c name (JDict d) = Inr v" "coercion_typed c ty v" by blast
  then show ?case by (simp add: override_name_def)
next
  case IntKey
  then obtain v i where "map_of d k = Some v" "py_int v = Inr i" using is_id_int by (auto split: option.splits)
  then show ?case using IntKey.prems by (simp add: json_index_def dict_index_def json_typed_def)
next
  case Snow
  have "dict_get d k JNull = JNull \<or> is_id (dict_get d k JNull)" using Snow.prems by (auto simp: dict_get_def opt_member_def split: option.splits)
  then obtain w where "snowflake_value (dict_get d k JNull) = Inr w" "has_type (TOpt TInt) w" using snowflake_value_ok by blast
  then show ?case using Snow.prems by (simp add: json_get_def json_typed_def)
next
  case SnowList
  have "id_list (dict_get d k JNull)" using SnowList.prems by (auto simp: dict_get_def opt_member_def id_list_def split: option.splits)
  then show ?case using snowflake_list_ok [of "dict_get d k JNull"] ints_typed SnowList.prems by (auto simp: json_get_def json_typed_def)
next
  case OptSnowList
  have "id_list (dict_get d k JNull)" using OptSnowList.prems by (auto simp: dict_get_def opt_member_def id_list_def split: option.splits)
  then show ?case using snowflake_list_ok [of "dict_get d k JNull"] ints_typed OptSnowList.prems by (auto simp: json_get_def json_typed_def)
next
  case (ItemsOf r)
  obtain xs where xs: "dict_get d k (JList []) = JList xs" "list_all (payload_ok r) xs"
    using ItemsOf.prems by (auto simp: dict_get_def opt_member_def split: option.splits json.splits)
  have "\<exists>vs. map_result (from_payload r) xs = Inr vs \<and> list_all (well_typed r) vs"
    using xs(2)
  proof (induction xs)
    case (Cons x xs)
    then show ?case using ItemsOf.IH [of x] ItemsOf.prems(1) by auto
  qed simp
  then show ?case using xs ItemsOf.prems(1) by (auto simp: json_get_def json_iter_def)
next
  case (OptItemOf r)
  then show ?case by (auto simp: json_get_def dict_get_def opt_member_def split: option.splits)
qed

lemma classes_ok: "list_all class_ok resource_classes"
  by code_simp



section \<open>Embeds\<close>

definition inst_field :: "rvalue \<Rightarrow> string \<Rightarrow> json" where
  "inst_field v name = (case v of RInst _ _ vals \<Rightarrow> (case map_of vals name of Some (RJson x) \<Rightarrow> x | _ \<Rightarrow> JNull) | _ \<Rightarrow> JNull)"

definition embed_names :: "string list" where
  "embed_names = [''title'', ''type'', ''description'', ''url'', ''timestamp'', ''color'', ''footer'', ''image'', ''thumbnail'', ''video'',
     ''provider'', ''author'']"

definition embed_to_dict :: "rvalue \<Rightarrow> jdict" where
  "embed_to_dict v =
     concat (map (\<lambda>n. if inst_field v n = JNull then [] else [(n, inst_field v n)]) embed_names) @
     (if json_truthy (inst_field v ''fields'') then [(''fields'', inst_field v ''fields'')] else [])"

definition new_embed_builder :: jdict where
  "new_embed_builder = []"

definition set_title :: "string \<Rightarrow> jdict \<Rightarrow> jdict" where
  "set_title title b = dict_set b ''title'' (JStr title)"

definition set_description :: "string \<Rightarrow> jdict \<Rightarrow> jdict" where
  "set_description description b = dict_set b ''description'' (JStr description)"

definition set_url :: "string \<Rightarrow> jdict \<Rightarrow> jdict" where
  "set_url url b = dict_set b ''url'' (JStr url)"

definition set_color :: "int \<Rightarrow> jdict \<Rightarrow> jdict" where
  "set_color color b = dict_set b ''color'' (JInt color)"

definition set_timestamp :: "string \<Rightarrow> jdict \<Rightarrow> jdict" where
  "set_timestamp ts b = dict_set b ''timestamp'' (JStr ts)"

definition opt_entry :: "string \<Rightarrow> string option \<Rightarrow> jdict" where
  "opt_entry k v = (case v of None \<Rightarrow> [] | Some s \<Rightarrow> [(k, JStr s)])"

definition set_footer :: "string \<Rightarrow> string option \<Rightarrow> jdict \<Rightarrow> jdict" where
  "set_footer t icon_url b = dict_set b ''footer'' (JDict ((''text'', JStr t) # opt_entry ''icon_url'' icon_url))"

definition set_image :: "string \<Rightarrow> jdict \<Rightarrow> jdict" where
  "set_image url b = dict_set b ''image'' (JDict [(''url'', JStr url)])"

definition set_thumbnail :: "string \<Rightarrow> jdict \<Rightarrow> jdict" where
  "set_thumbnail url b = dict_set b ''thumbnail'' (JDict [(''url'', JStr url)])"

definition set_author :: "string \<Rightarrow> string option \<Rightarrow> string option \<Rightarrow> jdict \<Rightarrow> jdict" where
  "set_author name url icon_url b =
     dict_set b ''author'' (JDict ((''name'', JStr name) # opt_entry ''url'' url @ opt_entry ''icon_url'' icon_url))"

text \<open>The builder's \<open>fields\<close> are a list whenever they are there, since only this operation sets them.\<close>

definition add_field :: "string \<Rightarrow> string \<Rightarrow> bool \<Rightarrow> jdict \<Rightarrow> jdict" where
  "add_field name v inline b =
     (let entry = JDict [(''name'', JStr name), (''value'', JStr v), (''inline'', JBool inline)] in
      case map_of b ''fields'' of
        Some (JList xs) \<Rightarrow> dict_set b ''fields'' (JList (xs @ [entry]))
      | _ \<Rightarrow> dict_set b ''fields'' (JList [entry]))"

definition builder_to_dict :: "jdict \<Rightarrow> jdict" where
  "builder_to_dict b = b"

definition build_embed :: "jdict \<Rightarrow> rvalue result" where
  "build_embed b = from_payload embed_resource (JDict (builder_to_dict b))"

datatype embed_op =
    SetTitle string | SetDescription string | SetUrl string | SetColor int | SetTimestamp string | SetFooter string "string option"
  | SetImage string | SetThumbnail string | SetAuthor string "string option" "string option" | AddField string string bool

primrec embed_step :: "embed_op \<Rightarrow> jdict \<Rightarrow> jdict" where
  "embed_step (SetTitle s) = set_title s"
| "embed_step (SetDescription s) = set_description s"
| "embed_step (SetUrl s) = set_url s"
| "embed_step (SetColor c) = set_color c"
| "embed_step (SetTimestamp s) = set_timestamp s"
| "embed_step (SetFooter s i) = set_footer s i"
| "embed_step (SetImage u) = set_image u"
| "embed_step (SetThumbnail u) = set_thumbnail u"
| "embed_step (SetAuthor n u i) = set_author n u i"
| "embed_step (AddField n v i) = add_field n v i"

text \<open>What a builder holds: known keys, no null, a list of fields with at least one entry.\<close>

definition builder_ok :: "jdict \<Rightarrow> bool" where
  "builder_ok b \<longleftrightarrow> dom (map_of b) \<subseteq> insert ''fields'' (set embed_names) \<and> (\<forall>k. map_of b k \<noteq> Some JNull) \<and>
     (case map_of b ''fields'' of None \<Rightarrow> True | Some v \<Rightarrow> (\<exists>x xs. v = JList (x # xs)))"

lemma builder_ok_set: "builder_ok b \<Longrightarrow> k \<in> set embed_names \<Longrightarrow> v \<noteq> JNull \<Longrightarrow> k \<noteq> ''fields'' \<Longrightarrow> builder_ok (dict_set b k v)"
  by (auto simp: builder_ok_def)

lemma builder_ok_fields: "builder_ok b \<Longrightarrow> builder_ok (dict_set b ''fields'' (JList (xs @ [x])))"
  by (cases xs) (auto simp: builder_ok_def)

lemma embed_step_ok: "builder_ok b \<Longrightarrow> builder_ok (embed_step op b)"
proof (cases op)
  case (AddField n v i)
  assume "builder_ok b"
  then show ?thesis
    using AddField builder_ok_fields [of b] builder_ok_fields [of b "[]"] by (auto simp: add_field_def Let_def split: option.split json.split)
qed (simp_all add: builder_ok_set embed_names_def set_title_def set_description_def set_url_def set_color_def set_timestamp_def set_footer_def
    set_image_def set_thumbnail_def set_author_def)

lemma embed_run_ok: "builder_ok (fold embed_step ops new_embed_builder)"
proof -
  have "builder_ok b \<Longrightarrow> builder_ok (fold embed_step ops b)" for b by (induction ops arbitrary: b) (simp_all add: embed_step_ok)
  then show ?thesis by (simp add: builder_ok_def new_embed_builder_def)
qed

lemma from_payload_flat:
  assumes "list_all (\<lambda>f. snd (snd f) \<noteq> None) kept"
  shows "from_payload (Resource n [] kept) (JDict d) = Inr (RInst n (JDict d) (map (\<lambda>f. (fst f, RJson (dict_get d (fst f) (the (snd (snd f)))))) kept))"
proof -
  have "kept_field (JDict d) f = Inr (fst f, Some (RJson (dict_get d (fst f) (the (snd (snd f))))))" if "snd (snd f) \<noteq> None" for f
  proof (cases "map_of d (fst f)")
    case None
    then have "fst f \<notin> fst ` set d" by (simp add: map_of_eq_None_iff)
    then show ?thesis using that None by (auto simp: kept_field_def json_contains_def dict_get_def)
  next
    case (Some x)
    then have "fst f \<in> fst ` set d" by (force dest: map_of_SomeD)
    then show ?thesis using Some by (simp add: kept_field_def json_contains_def json_index_def dict_index_def dict_get_def)
  qed
  then have "map_result (kept_field (JDict d)) kept = Inr (map (\<lambda>f. (fst f, Some (RJson (dict_get d (fst f) (the (snd (snd f))))))) kept)"
    using assms by (induction kept) auto
  then show ?thesis by (simp add: construct_def list_ex_iff comp_def)
qed

lemma embed_inst:
  "\<exists>v. build_embed b = Inr v \<and> (\<forall>n \<in> set embed_names. inst_field v n = dict_get b n JNull) \<and> inst_field v ''fields'' = dict_get b ''fields'' (JList [])"
  unfolding build_embed_def builder_to_dict_def embed_resource_def
  by (subst from_payload_flat) (simp_all add: inst_field_def embed_names_def)

lemma map_of_present:
  "map_of (concat (map (\<lambda>n. if g n = JNull then [] else [(n, g n)]) ns)) k = (if k \<in> set ns \<and> g k \<noteq> JNull then Some (g k) else None)"
  by (induction ns) auto

text \<open>
  An embed is what its builder holds. After any sequence of builder calls, \<open>build\<close> succeeds, and
  serialising the embed gives the builder's dictionary back, entry by entry.
\<close>

theorem embed_roundtrip:
  "\<exists>v. build_embed (fold embed_step ops new_embed_builder) = Inr v \<and>
     map_of (embed_to_dict v) = map_of (builder_to_dict (fold embed_step ops new_embed_builder))"
proof -
  let ?b = "fold embed_step ops new_embed_builder"
  obtain v where v: "build_embed ?b = Inr v" "\<And>n. n \<in> set embed_names \<Longrightarrow> inst_field v n = dict_get ?b n JNull"
    "inst_field v ''fields'' = dict_get ?b ''fields'' (JList [])"
    using embed_inst by blast
  note ok = embed_run_ok [of ops, unfolded builder_ok_def]
  have "map_of (embed_to_dict v) k = map_of ?b k" for k
  proof (cases "k = ''fields''")
    case True
    have "k \<notin> set embed_names" using True by (simp add: embed_names_def)
    moreover have "case map_of ?b ''fields'' of None \<Rightarrow> True | Some v \<Rightarrow> (\<exists>x xs. v = JList (x # xs))" using ok by blast
    ultimately show ?thesis
      using True v(3) by (auto simp: embed_to_dict_def map_add_def map_of_present dict_get_def json_truthy_def split: option.splits)
  next
    case False
    have n: "map_of ?b k \<noteq> Some JNull" "k \<in> dom (map_of ?b) \<Longrightarrow> k \<in> set embed_names" using ok False by auto
    then show ?thesis
      using False v(2) [of k] by (cases "map_of ?b k") (auto simp: embed_to_dict_def map_add_def map_of_present dict_get_def)
  qed
  then show ?thesis using v(1) by (auto simp: builder_to_dict_def)
qed

section \<open>Properties of instances\<close>

definition role_mention :: "int \<Rightarrow> string" where
  "role_mention role_id = ''<@&'' @ show_int role_id @ ''>''"

definition emoji_mention :: "int option \<Rightarrow> string option \<Rightarrow> bool option \<Rightarrow> string" where
  "emoji_mention emoji_id name animated =
     (case emoji_id of
        None \<Rightarrow> (case name of None \<Rightarrow> [] | Some n \<Rightarrow> n)
      | Some i \<Rightarrow> ''<'' @ (if animated = Some True then ''a'' else []) @ '':'' @ (case name of None \<Rightarrow> ''None'' | Some n \<Rightarrow> n) @ '':'' @ show_int i @ ''>'')"

definition member_user_id :: "jdict option \<Rightarrow> int option result" where
  "member_user_id user =
     (case user of
        None \<Rightarrow> Inr None
      | Some u \<Rightarrow> (case map_of u ''id'' of None \<Rightarrow> Inr None | Some v \<Rightarrow> bind_result (py_int v) (\<lambda>i. Inr (Some i))))"

lemma emoji_mention_unnamed: "emoji_mention (Some i) None animated = ''<'' @ (if animated = Some True then ''a'' else []) @ '':None:'' @ show_int i @ ''>''"
  by (simp add: emoji_mention_def)

end
