(* ===== verification/Components.thy ===== *)
theory Components
  imports PyValue
begin

text \<open>
  Builders of message components (src/vaidcord-py/src/vaidcord/components.py): every builder as the
  dictionary it returns or the exception it raises, the limits they keep, and what the
  40-component check of \<open>components_v2_message\<close> counts.
\<close>

unbundle bit_operations_syntax

section \<open>Builders\<close>

definition IS_COMPONENTS_V2 :: int where
  "IS_COMPONENTS_V2 = push_bit 15 1"

datatype component_type =
    ACTION_ROW | BUTTON | STRING_SELECT | TEXT_INPUT | USER_SELECT | ROLE_SELECT | MENTIONABLE_SELECT | CHANNEL_SELECT | SECTION | TEXT_DISPLAY
  | THUMBNAIL | MEDIA_GALLERY | FILE | SEPARATOR | CONTAINER | LABEL | FILE_UPLOAD | RADIO_GROUP | CHECKBOX_GROUP | CHECKBOX

primrec component_type_value :: "component_type \<Rightarrow> int" where
  "component_type_value ACTION_ROW = 1"
| "component_type_value BUTTON = 2"
| "component_type_value STRING_SELECT = 3"
| "component_type_value TEXT_INPUT = 4"
| "component_type_value USER_SELECT = 5"
| "component_type_value ROLE_SELECT = 6"
| "component_type_value MENTIONABLE_SELECT = 7"
| "component_type_value CHANNEL_SELECT = 8"
| "component_type_value SECTION = 9"
| "component_type_value TEXT_DISPLAY = 10"
| "component_type_value THUMBNAIL = 11"
| "component_type_value MEDIA_GALLERY = 12"
| "component_type_value FILE = 13"
| "component_type_value SEPARATOR = 14"
| "component_type_value CONTAINER = 17"
| "component_type_value LABEL = 18"
| "component_type_value FILE_UPLOAD = 19"
| "component_type_value RADIO_GROUP = 21"
| "component_type_value CHECKBOX_GROUP = 22"
| "component_type_value CHECKBOX = 23"

datatype button_style = PRIMARY | SECONDARY | SUCCESS | DANGER | LINK | PREMIUM

primrec button_style_value :: "button_style \<Rightarrow> int" where
  "button_style_value PRIMARY = 1"
| "button_style_value SECONDARY = 2"
| "button_style_value SUCCESS = 3"
| "button_style_value DANGER = 4"
| "button_style_value LINK = 5"
| "button_style_value PREMIUM = 6"

definition set_optional :: "string \<Rightarrow> json option \<Rightarrow> jdict \<Rightarrow> jdict" where
  "set_optional key v payload = (case v of None \<Rightarrow> payload | Some x \<Rightarrow> dict_set payload key x)"

definition set_optionals :: "(string \<times> json option) list \<Rightarrow> jdict \<Rightarrow> jdict" where
  "set_optionals kvs payload = fold (\<lambda>(k, v). set_optional k v) kvs payload"

definition component :: "int \<Rightarrow> int option \<Rightarrow> jdict" where
  "component ty i = set_optional ''id'' (map_option JInt i) [(''type'', JInt ty)]"

abbreviation component_of :: "component_type \<Rightarrow> int option \<Rightarrow> jdict" where
  "component_of ty i \<equiv> component (component_type_value ty) i"

abbreviation dicts :: "jdict list \<Rightarrow> json" where
  "dicts ds \<equiv> JList (map JDict ds)"

definition components_v2_message :: "jdict list \<Rightarrow> int \<Rightarrow> jdict option \<Rightarrow> jdict result" where
  "components_v2_message components flags allowed_mentions =
     (if 40 < length components then Inl (ValueError ''Discord Components V2 messages allow up to 40 total components'')
      else Inr (set_optional ''allowed_mentions'' (map_option JDict allowed_mentions)
             [(''flags'', JInt (flags OR IS_COMPONENTS_V2)), (''components'', dicts components)]))"

definition modal_payload :: "string \<Rightarrow> string \<Rightarrow> jdict list \<Rightarrow> jdict" where
  "modal_payload custom_id title components =
     [(''type'', JInt 9), (''data'', JDict [(''custom_id'', JStr custom_id), (''title'', JStr title), (''components'', dicts components)])]"

definition action_row :: "jdict list \<Rightarrow> int option \<Rightarrow> jdict result" where
  "action_row components i =
     (if 5 < length components then Inl (ValueError ''Action rows allow up to 5 buttons or one select component'')
      else Inr (dict_set (component_of ACTION_ROW i) ''components'' (dicts components)))"

definition absent :: "string option \<Rightarrow> bool" where
  "absent v = (case v of None \<Rightarrow> True | Some x \<Rightarrow> x = [])"

definition button ::
  "int \<Rightarrow> string option \<Rightarrow> string option \<Rightarrow> jdict option \<Rightarrow> string option \<Rightarrow> string option \<Rightarrow> bool option \<Rightarrow> int option \<Rightarrow> jdict result" where
  "button style custom_id label emoji url sku_id disabled i =
     (if style = button_style_value LINK \<and> absent url then Inl (ValueError ''Link buttons require url'')
      else if style = button_style_value PREMIUM \<and> sku_id = None then Inl (ValueError ''Premium buttons require sku_id'')
      else if style \<notin> {button_style_value LINK, button_style_value PREMIUM} \<and> absent custom_id then Inl (ValueError ''Interactive buttons require custom_id'')
      else Inr (set_optionals
             [(''custom_id'', map_option JStr custom_id), (''label'', map_option JStr label), (''emoji'', map_option JDict emoji),
              (''url'', map_option JStr url), (''sku_id'', map_option JStr sku_id), (''disabled'', map_option JBool disabled)]
             (dict_set (component_of BUTTON i) ''style'' (JInt style))))"

definition select_menu ::
  "int \<Rightarrow> string \<Rightarrow> jdict list option \<Rightarrow> string option \<Rightarrow> int option \<Rightarrow> int option \<Rightarrow> bool option \<Rightarrow> bool option \<Rightarrow> jdict list option \<Rightarrow>
   int list option \<Rightarrow> int option \<Rightarrow> jdict" where
  "select_menu ty custom_id options placeholder min_values max_values required disabled default_values channel_types i =
     set_optionals
       [(''options'', map_option dicts options), (''placeholder'', map_option JStr placeholder), (''min_values'', map_option JInt min_values),
        (''max_values'', map_option JInt max_values), (''required'', map_option JBool required), (''disabled'', map_option JBool disabled),
        (''default_values'', map_option dicts default_values), (''channel_types'', map_option (\<lambda>ts. JList (map JInt ts)) channel_types)]
       (dict_set (component ty i) ''custom_id'' (JStr custom_id))"

definition select_option :: "string \<Rightarrow> string \<Rightarrow> string option \<Rightarrow> jdict option \<Rightarrow> bool option \<Rightarrow> jdict" where
  "select_option label v description emoji dflt =
     set_optionals [(''description'', map_option JStr description), (''emoji'', map_option JDict emoji), (''default'', map_option JBool dflt)]
       [(''label'', JStr label), (''value'', JStr v)]"

definition text_input ::
  "string \<Rightarrow> int \<Rightarrow> int option \<Rightarrow> int option \<Rightarrow> bool option \<Rightarrow> string option \<Rightarrow> string option \<Rightarrow> int option \<Rightarrow> jdict" where
  "text_input custom_id style min_length max_length required v placeholder i =
     set_optionals
       [(''min_length'', map_option JInt min_length), (''max_length'', map_option JInt max_length), (''required'', map_option JBool required),
        (''value'', map_option JStr v), (''placeholder'', map_option JStr placeholder)]
       (dict_update (component_of TEXT_INPUT i) [(''custom_id'', JStr custom_id), (''style'', JInt style)])"

definition text_display :: "string \<Rightarrow> int option \<Rightarrow> jdict" where
  "text_display content i = dict_set (component_of TEXT_DISPLAY i) ''content'' (JStr content)"

definition thumbnail :: "string \<Rightarrow> string option \<Rightarrow> bool option \<Rightarrow> int option \<Rightarrow> jdict" where
  "thumbnail url description spoiler i =
     set_optionals [(''description'', map_option JStr description), (''spoiler'', map_option JBool spoiler)]
       (dict_set (component_of THUMBNAIL i) ''media'' (JDict [(''url'', JStr url)]))"

definition media_gallery :: "jdict list \<Rightarrow> int option \<Rightarrow> jdict result" where
  "media_gallery items i =
     (if \<not> (1 \<le> length items \<and> length items \<le> 10) then Inl (ValueError ''Media gallery requires 1 to 10 items'')
      else Inr (dict_set (component_of MEDIA_GALLERY i) ''items'' (dicts items)))"

definition media_item :: "string \<Rightarrow> string option \<Rightarrow> bool option \<Rightarrow> jdict" where
  "media_item url description spoiler =
     set_optionals [(''description'', map_option JStr description), (''spoiler'', map_option JBool spoiler)] [(''media'', JDict [(''url'', JStr url)])]"

definition file_component :: "string \<Rightarrow> bool option \<Rightarrow> int option \<Rightarrow> jdict" where
  "file_component url spoiler i =
     set_optional ''spoiler'' (map_option JBool spoiler) (dict_set (component_of FILE i) ''file'' (JDict [(''url'', JStr url)]))"

definition separator :: "bool option \<Rightarrow> int option \<Rightarrow> int option \<Rightarrow> jdict" where
  "separator divider spacing i =
     set_optionals [(''divider'', map_option JBool divider), (''spacing'', map_option JInt spacing)] (component_of SEPARATOR i)"

definition section_component :: "jdict list \<Rightarrow> jdict \<Rightarrow> int option \<Rightarrow> jdict result" where
  "section_component components accessory i =
     (if \<not> (1 \<le> length components \<and> length components \<le> 3) then Inl (ValueError ''Section requires 1 to 3 text components'')
      else Inr (dict_set (dict_set (component_of SECTION i) ''components'' (dicts components)) ''accessory'' (JDict accessory)))"

definition container :: "jdict list \<Rightarrow> int option \<Rightarrow> bool option \<Rightarrow> int option \<Rightarrow> jdict" where
  "container components accent_color spoiler i =
     set_optionals [(''accent_color'', map_option JInt accent_color), (''spoiler'', map_option JBool spoiler)]
       (dict_set (component_of CONTAINER i) ''components'' (dicts components))"

definition label_component :: "string \<Rightarrow> jdict \<Rightarrow> string option \<Rightarrow> int option \<Rightarrow> jdict" where
  "label_component label inner description i =
     set_optional ''description'' (map_option JStr description)
       (dict_set (dict_set (component_of LABEL i) ''label'' (JStr label)) ''component'' (JDict inner))"

definition checkbox :: "string \<Rightarrow> bool option \<Rightarrow> int option \<Rightarrow> jdict" where
  "checkbox custom_id dflt i =
     set_optional ''default'' (map_option JBool dflt) (dict_set (component_of CHECKBOX i) ''custom_id'' (JStr custom_id))"

section \<open>Limits\<close>

text \<open>
  What Discord asks of a component tree, as far as the builders check it: rows, galleries and
  sections within their limits and buttons with what their style needs, at every level.
\<close>

definition list_len_ok :: "nat \<Rightarrow> nat \<Rightarrow> json option \<Rightarrow> bool" where
  "list_len_ok lo hi v = (case v of Some (JList xs) \<Rightarrow> lo \<le> length xs \<and> length xs \<le> hi | _ \<Rightarrow> False)"

definition node_ok :: "jdict \<Rightarrow> bool" where
  "node_ok d =
     (case map_of d ''type'' of
        Some (JInt t) \<Rightarrow>
          (t = 1 \<longrightarrow> list_len_ok 0 5 (map_of d ''components'')) \<and>
          (t = 9 \<longrightarrow> list_len_ok 1 3 (map_of d ''components'')) \<and>
          (t = 12 \<longrightarrow> list_len_ok 1 10 (map_of d ''items'')) \<and>
          (t = 2 \<longrightarrow> (case map_of d ''style'' of
             Some (JInt s) \<Rightarrow> if s = 5 then json_truthy (jget d ''url'') else if s = 6 then map_of d ''sku_id'' \<noteq> None else json_truthy (jget d ''custom_id'')
           | _ \<Rightarrow> False))
      | _ \<Rightarrow> False)"

text \<open>Components made by the builders from components made by the builders.\<close>

inductive built :: "jdict \<Rightarrow> bool" where
  built_row: "\<forall>c \<in> set cs. built c \<Longrightarrow> action_row cs i = Inr d \<Longrightarrow> built d"
| built_button: "button st cid lb em url sku dis i = Inr d \<Longrightarrow> built d"
| built_select: "ty \<in> {3, 5, 6, 7, 8} \<Longrightarrow> built (select_menu ty cid opts ph mn mx rq dis dv ct i)"
| built_text_input: "built (text_input cid st mn mx rq v ph i)"
| built_text_display: "built (text_display c i)"
| built_thumbnail: "built (thumbnail u ds sp i)"
| built_gallery: "media_gallery items i = Inr d \<Longrightarrow> built d"
| built_file: "built (file_component u sp i)"
| built_separator: "built (separator dv spc i)"
| built_section: "\<forall>c \<in> set cs. built c \<Longrightarrow> built acc \<Longrightarrow> section_component cs acc i = Inr d \<Longrightarrow> built d"
| built_container: "\<forall>c \<in> set cs. built c \<Longrightarrow> built (container cs ac sp i)"
| built_label: "built c \<Longrightarrow> built (label_component lb c ds i)"
| built_checkbox: "built (checkbox cid df i)"

definition dict_items :: "json option \<Rightarrow> jdict list" where
  "dict_items v = (case v of Some (JList xs) \<Rightarrow> concat (map (\<lambda>x. case x of JDict d \<Rightarrow> [d] | _ \<Rightarrow> []) xs) | _ \<Rightarrow> [])"

definition dict_item :: "json option \<Rightarrow> jdict list" where
  "dict_item v = (case v of Some (JDict d) \<Rightarrow> [d] | _ \<Rightarrow> [])"

definition children :: "jdict \<Rightarrow> jdict list" where
  "children d = dict_items (map_of d ''components'') @ dict_item (map_of d ''accessory'') @ dict_item (map_of d ''component'')"

inductive part_of :: "jdict \<Rightarrow> jdict \<Rightarrow> bool" where
  part_self: "part_of d d"
| part_child: "c \<in> set (children d) \<Longrightarrow> part_of e c \<Longrightarrow> part_of e d"

lemma dict_items_dicts [simp]: "dict_items (Some (dicts ds)) = ds"
  by (induction ds) (auto simp: dict_items_def)

lemma map_of_set_optional [simp]: "map_of (set_optional k v d) x = (if x = k \<and> v \<noteq> None then v else map_of d x)"
  by (auto simp: set_optional_def split: option.split)

lemma map_of_set_optionals [simp]:
  "map_of (set_optionals [] d) x = map_of d x"
  "map_of (set_optionals ((k, v) # kvs) d) x = map_of (set_optionals kvs (set_optional k v d)) x"
  by (simp_all add: set_optionals_def)

lemma map_of_component [simp]:
  "map_of (component ty i) x = (if x = ''type'' then Some (JInt ty) else if x = ''id'' then map_option JInt i else None)"
  by (auto simp: component_def)

lemma dicts_bounds [simp]: "list_len_ok lo hi (Some (dicts ds)) \<longleftrightarrow> lo \<le> length ds \<and> length ds \<le> hi"
  by (simp add: list_len_ok_def)

lemmas builders = action_row_def button_def select_menu_def text_input_def text_display_def thumbnail_def media_gallery_def file_component_def
  separator_def section_component_def container_def label_component_def checkbox_def dict_update_def

lemma button_fields:
  assumes "button st cid lb em url sku dis i = Inr d"
  shows "map_of d ''type'' = Some (JInt 2)" "map_of d ''style'' = Some (JInt st)" "map_of d ''url'' = map_option JStr url"
    "map_of d ''sku_id'' = map_option JStr sku" "map_of d ''custom_id'' = map_option JStr cid"
    "map_of d ''components'' = None" "map_of d ''accessory'' = None" "map_of d ''component'' = None"
    "if st = 5 then \<not> absent url else if st = 6 then sku \<noteq> None else \<not> absent cid"
proof -
  let ?d = "set_optionals [(''custom_id'', map_option JStr cid), (''label'', map_option JStr lb), (''emoji'', map_option JDict em),
    (''url'', map_option JStr url), (''sku_id'', map_option JStr sku), (''disabled'', map_option JBool dis)]
    (dict_set (component_of BUTTON i) ''style'' (JInt st))"
  have d: "d = ?d" and ok: "if st = 5 then \<not> absent url else if st = 6 then sku \<noteq> None else \<not> absent cid"
    using assms by (auto simp: button_def split: if_splits)
  show "if st = 5 then \<not> absent url else if st = 6 then sku \<noteq> None else \<not> absent cid" by (rule ok)
  show "map_of d ''type'' = Some (JInt 2)" "map_of d ''style'' = Some (JInt st)" "map_of d ''url'' = map_option JStr url"
    "map_of d ''sku_id'' = map_option JStr sku" "map_of d ''custom_id'' = map_option JStr cid"
    "map_of d ''components'' = None" "map_of d ''accessory'' = None" "map_of d ''component'' = None"
    unfolding d by simp_all
qed

lemma absent_truthy: "json_truthy (case v of None \<Rightarrow> JNull | Some x \<Rightarrow> ((\<lambda>w. w) \<circ> JStr) x) = (\<not> absent v)"
  by (simp add: absent_def json_truthy_def split: option.split)

lemma built_shape:
  assumes "built d"
  shows "node_ok d \<and> (\<forall>c \<in> set (children d). built c)"
  using assms
proof (cases rule: built.cases)
  case (built_button st cid lb em url sku dis i)
  note f = button_fields [OF built_button]
  show ?thesis using f(9) by (simp add: node_ok_def children_def dict_items_def dict_item_def jget_def dict_get_def f(1-8) absent_truthy split: if_splits)
qed (auto simp: builders node_ok_def children_def dict_items_def [of None] dict_item_def split: if_splits)



text \<open>The flag of a Components V2 message is added to the others.\<close>

lemma v2_flags:
  assumes "components_v2_message cs flags am = Inr p"
  shows "\<exists>f. map_of p ''flags'' = Some (JInt f) \<and> bit f 15 \<and> (\<forall>n. n \<noteq> 15 \<longrightarrow> bit f n = bit flags n)"
proof -
  have "bit IS_COMPONENTS_V2 n = (n = 15)" for n by (auto simp: IS_COMPONENTS_V2_def bit_push_bit_iff bit_1_iff simp del: push_bit_of_1 push_bit_numeral_minus_1)
  then show ?thesis using assms by (auto simp: components_v2_message_def bit_or_iff split: if_splits)
qed

text \<open>The limit of 40 components in total is tested on the top level only.\<close>

lemma v2_limit_counts_top_level:
  "\<exists>c p. built c \<and> 40 < length (children c) \<and> components_v2_message [c] 0 None = Inr p"
proof -
  let ?c = "container (replicate 41 (text_display ''x'' None)) None None None"
  have "built ?c" by (rule built_container) (auto intro: built_text_display)
  moreover have "length (children ?c) = 41" 
    by (simp add: container_def children_def dict_item_def del: map_replicate)
  ultimately have "built ?c \<and> 40 < length (children ?c) \<and> (\<exists>p. components_v2_message [?c] 0 None = Inr p)" by (simp add: components_v2_message_def)
  then show ?thesis by blast
qed

end
