(* ===== verification/MockServer.thy ===== *)
theory MockServer
  imports MockGateway EventParser
begin

text \<open>
  The REST side of the mock server (src/vaidcord-py/src/vaidcord/mock/server.py): its state, the
  simulation middleware, the control plane and the handlers of the Discord endpoints. User and
  message objects, which the code shares between tables, live in stores under addresses. A handler
  runs in one piece. What it hands to the gateway hub is logged in \<open>sv_dispatched\<close> with its contents
  at that time; the hub itself is in MockGateway. Clocks, random numbers, uuids and Python's \<open>str\<close> on
  JSON values are arguments.
\<close>

section \<open>State\<close>

record sim_config =
  sc_strict_validation :: bool
  sc_enforce_permissions :: bool
  sc_rate_limit_enabled :: bool
  sc_rate_limit_per_route :: int
  sc_rate_limit_window :: real
  sc_global_rate_limit :: int
  sc_global_rate_limit_window :: real
  sc_chaos_latency_ms :: real
  sc_chaos_jitter_ms :: real
  sc_chaos_error_rate :: real
  sc_chaos_error_status :: int
  sc_chaos_error_code :: int

definition default_sim_config :: sim_config where
  "default_sim_config =
     \<lparr>sc_strict_validation = True, sc_enforce_permissions = False, sc_rate_limit_enabled = False, sc_rate_limit_per_route = 5,
      sc_rate_limit_window = 5, sc_global_rate_limit = 50, sc_global_rate_limit_window = 1, sc_chaos_latency_ms = 0,
      sc_chaos_jitter_ms = 0, sc_chaos_error_rate = 0, sc_chaos_error_status = 500, sc_chaos_error_code = 0\<rparr>"

text \<open>A channel, with the address of the recipient that \<open>_create_dm\<close> puts into it.\<close>

record mock_channel =
  ch_data :: jdict
  ch_recipient :: "nat option"

record mock_server =
  sv_requests :: "(string \<times> string \<times> jdict option) list"
  sv_messages :: "nat list"
  sv_msg_objs :: "nat \<Rightarrow> jdict"
  sv_by_id :: "(string, nat) dict"
  sv_typing :: "jdict list"
  sv_users :: "(string, nat) dict"
  sv_user_objs :: "nat \<Rightarrow> jdict"
  sv_current :: nat
  sv_channels :: "(string, mock_channel) dict"
  sv_guilds :: "(string, jdict) dict"
  sv_denied :: "string list"
  sv_next :: nat
  sv_snowflakes :: snowflake_generator
  sv_windows :: rate_windows
  sv_config :: sim_config
  sv_initial_config :: sim_config
  sv_scenarios :: "(string, jdict) dict"
  sv_tasks :: "string list"
  sv_dispatched :: "(string \<times> json) list"

text \<open>What a handler ends in: a JSON response, HTTPNotFound with a text, or an exception, which is a 500.\<close>

datatype mock_response = Respond int json "(string \<times> string) list" | NotFound string | Crash exc

text \<open>\<open>mr_body\<close> of None stands for a body that is no JSON.\<close>

record mock_request =
  mr_method :: string
  mr_path :: string
  mr_query :: "(string, string) dict"
  mr_body :: "json option"

record mock_env =
  me_str :: "json \<Rightarrow> string"
  me_now_ms :: int
  me_unix :: int
  me_iso :: string

definition ERROR_MISSING_ACCESS :: int where "ERROR_MISSING_ACCESS = 50001"
definition ERROR_EMPTY_MESSAGE :: int where "ERROR_EMPTY_MESSAGE = 50006"
definition ERROR_INVALID_FORM_BODY :: int where "ERROR_INVALID_FORM_BODY = 50035"
definition ERROR_INVALID_JSON :: int where "ERROR_INVALID_JSON = 50109"
definition MAX_CONTENT_LENGTH :: nat where "MAX_CONTENT_LENGTH = 2000"

definition unknown_user :: mock_response where
  \<open>unknown_user = NotFound ''{"message":"Unknown User","code":10013}''\<close>

definition unknown_guild :: mock_response where
  \<open>unknown_guild = NotFound ''{"message":"Unknown Guild","code":10004}''\<close>

definition unknown_channel :: mock_response where
  \<open>unknown_channel = NotFound ''{"message":"Unknown Channel","code":10003}''\<close>

definition unknown_message :: mock_response where
  \<open>unknown_message = NotFound ''{"message":"Unknown Message","code":10008}''\<close>

definition unknown_scenario :: mock_response where
  \<open>unknown_scenario = NotFound ''{"message":"Unknown Scenario","code":0}''\<close>

definition discord_error :: "int \<Rightarrow> string \<Rightarrow> int \<Rightarrow> jdict \<Rightarrow> (string \<times> string) list \<Rightarrow> mock_response" where
  "discord_error status message code extra headers =
     Respond status (JDict (dict_update [(''message'', JStr message), (''code'', JInt code)] extra)) headers"

definition seed_user :: jdict where
  "seed_user = [(''id'', JStr ''1''), (''username'', JStr ''MockBot''), (''discriminator'', JStr ''0''), (''bot'', JBool True)]"

definition seed_state :: "mock_server \<Rightarrow> mock_server" where
  "seed_state s =
     s\<lparr>sv_requests := [], sv_messages := [], sv_typing := [], sv_by_id := [], sv_denied := [],
       sv_current := sv_next s,
       sv_user_objs := (sv_user_objs s)
         (sv_next s := seed_user, sv_next s + 1 := seed_user,
          sv_next s + 2 := [(''id'', JStr ''2''), (''username'', JStr ''MockUser''), (''discriminator'', JStr ''0''), (''bot'', JBool False)]),
       sv_users := [(''1'', sv_next s + 1), (''2'', sv_next s + 2)],
       sv_next := sv_next s + 3,
       sv_guilds := [(''999'', [(''id'', JStr ''999''), (''name'', JStr ''Mock Guild''), (''owner'', JBool True), (''owner_id'', JStr ''1''),
                                (''features'', JList []), (''member_count'', JInt 2)])],
       sv_channels := [(''123'', \<lparr>ch_data = [(''id'', JStr ''123''), (''type'', JInt 0), (''name'', JStr ''general''),
                                (''topic'', JStr ''Mock Discord workspace''), (''guild_id'', JStr ''999'')], ch_recipient = None\<rparr>)]\<rparr>"

definition new_mock_server :: "sim_config \<Rightarrow> mock_server" where
  "new_mock_server cfg =
     seed_state
       \<lparr>sv_requests = [], sv_messages = [], sv_msg_objs = (\<lambda>_. []), sv_by_id = [], sv_typing = [], sv_users = [], sv_user_objs = (\<lambda>_. []),
        sv_current = 0, sv_channels = [], sv_guilds = [], sv_denied = [], sv_next = 0, sv_snowflakes = new_snowflakes 1 1,
        sv_windows = [], sv_config = cfg, sv_initial_config = cfg, sv_scenarios = [], sv_tasks = [], sv_dispatched = []\<rparr>"

definition record_request :: "mock_request \<Rightarrow> jdict option \<Rightarrow> mock_server \<Rightarrow> mock_server" where
  "record_request r payload s = s\<lparr>sv_requests := sv_requests s @ [(mr_method r, mr_path r, payload)]\<rparr>"

definition invalid_json :: mock_response where
  "invalid_json = discord_error 400 ''The request body contains invalid JSON.'' ERROR_INVALID_JSON [] []"

text \<open>\<open>_read_json\<close>: the handler goes on with an object, anything else is recorded and refused.\<close>

definition read_json :: "mock_request \<Rightarrow> (jdict \<Rightarrow> mock_server \<Rightarrow> mock_response \<times> mock_server) \<Rightarrow> mock_server \<Rightarrow> mock_response \<times> mock_server" where
  "read_json r k s = (case mr_body r of Some (JDict payload) \<Rightarrow> k payload s | _ \<Rightarrow> (invalid_json, record_request r None s))"

definition hub_event :: "string \<Rightarrow> json \<Rightarrow> mock_server \<Rightarrow> mock_server" where
  "hub_event event_type data s = s\<lparr>sv_dispatched := sv_dispatched s @ [(event_type, data)]\<rparr>"

definition channel_json :: "mock_server \<Rightarrow> mock_channel \<Rightarrow> json" where
  "channel_json s c =
     JDict (ch_data c @ (case ch_recipient c of None \<Rightarrow> [] | Some a \<Rightarrow> [(''recipients'', JList [JDict (sv_user_objs s a)])]))"

section \<open>Entities\<close>

definition sync_guild_member_counts :: "mock_server \<Rightarrow> mock_server" where
  "sync_guild_member_counts s =
     s\<lparr>sv_guilds := map (\<lambda>(k, g). (k, dict_set g ''member_count'' (JInt (int (length (sv_users s)))))) (sv_guilds s)\<rparr>"

definition truthy_text :: "string option \<Rightarrow> string \<Rightarrow> string" where
  "truthy_text v dflt = (case v of None \<Rightarrow> dflt | Some x \<Rightarrow> if x = [] then dflt else x)"

definition opt_set :: "string \<Rightarrow> string option \<Rightarrow> jdict \<Rightarrow> jdict" where
  "opt_set k v d = (case v of None \<Rightarrow> d | Some x \<Rightarrow> dict_set d k (JStr x))"

definition ensure_user :: "string \<Rightarrow> string option \<Rightarrow> bool \<Rightarrow> string option \<Rightarrow> string option \<Rightarrow> mock_server \<Rightarrow> nat \<times> mock_server" where
  "ensure_user user_id username is_bot discriminator global_name s =
     (case map_of (sv_users s) user_id of
        Some a \<Rightarrow>
          (let u = sv_user_objs s a;
               u1 = (case username of None \<Rightarrow> u | Some n \<Rightarrow> if n = [] then u else dict_set u ''username'' (JStr n));
               u2 = opt_set ''global_name'' global_name (opt_set ''discriminator'' discriminator (dict_set u1 ''bot'' (JBool is_bot)))
           in (a, s\<lparr>sv_user_objs := (sv_user_objs s)(a := u2)\<rparr>))
      | None \<Rightarrow>
          (let a = sv_next s;
               u = opt_set ''global_name'' global_name
                     [(''id'', JStr user_id), (''username'', JStr (truthy_text username (''User'' @ user_id))),
                      (''discriminator'', JStr (truthy_text discriminator ''0'')), (''bot'', JBool is_bot)]
           in (a, sync_guild_member_counts
                    (s\<lparr>sv_users := dict_set (sv_users s) user_id a, sv_user_objs := (sv_user_objs s)(a := u), sv_next := a + 1\<rparr>))))"

definition upsert_profile :: "mock_env \<Rightarrow> string \<Rightarrow> jdict \<Rightarrow> mock_server \<Rightarrow> nat \<times> mock_server" where
  "upsert_profile env user_id payload s =
     (let username = me_str env (json_or (jget payload ''username'') (JStr (''User'' @ user_id)));
          global_name = (if jget payload ''global_name'' = JNull then None else Some (me_str env (jget payload ''global_name'')));
          (a, s1) = ensure_user user_id (Some username) (json_truthy (dict_get payload ''bot'' (JBool False)))
                      (Some (me_str env (dict_get payload ''discriminator'' (JStr ''0'')))) global_name s;
          s2 = (if map_of payload ''global_name'' \<in> {Some (JStr []), Some JNull}
                then s1\<lparr>sv_user_objs := (sv_user_objs s1)(a := dict_pop (sv_user_objs s1 a) ''global_name'')\<rparr> else s1)
      in (a, sync_guild_member_counts s2))"

definition ensure_guild :: "string \<Rightarrow> string option \<Rightarrow> mock_server \<Rightarrow> mock_server" where
  "ensure_guild guild_id name s =
     (case map_of (sv_guilds s) guild_id of
        Some g \<Rightarrow>
          (case name of
             None \<Rightarrow> s
           | Some n \<Rightarrow> if n = [] then s else s\<lparr>sv_guilds := dict_set (sv_guilds s) guild_id (dict_set g ''name'' (JStr n))\<rparr>)
      | None \<Rightarrow>
          s\<lparr>sv_guilds := dict_set (sv_guilds s) guild_id
             [(''id'', JStr guild_id), (''name'', JStr (truthy_text name (''Guild '' @ guild_id))), (''owner'', JBool False),
              (''owner_id'', JStr ''1''), (''features'', JList []), (''member_count'', JInt (int (length (sv_users s))))]\<rparr>)"

definition ensure_channel :: "string \<Rightarrow> int \<Rightarrow> string option \<Rightarrow> string option \<Rightarrow> mock_server \<Rightarrow> mock_server" where
  "ensure_channel channel_id channel_type name guild_id s =
     (case map_of (sv_channels s) channel_id of
        Some c \<Rightarrow>
          (let d1 = (case name of None \<Rightarrow> ch_data c | Some n \<Rightarrow> if n = [] then ch_data c else dict_set (ch_data c) ''name'' (JStr n))
           in s\<lparr>sv_channels := dict_set (sv_channels s) channel_id (c\<lparr>ch_data := opt_set ''guild_id'' guild_id d1\<rparr>)\<rparr>)
      | None \<Rightarrow>
          s\<lparr>sv_channels := dict_set (sv_channels s) channel_id
             \<lparr>ch_data = opt_set ''guild_id'' guild_id
                [(''id'', JStr channel_id), (''type'', JInt channel_type), (''name'', JStr (truthy_text name (''channel-'' @ channel_id)))],
              ch_recipient = None\<rparr>\<rparr>)"

definition build_message :: "mock_env \<Rightarrow> string \<Rightarrow> string \<Rightarrow> jdict \<Rightarrow> json \<Rightarrow> bool \<Rightarrow> mock_server \<Rightarrow> string \<times> jdict \<times> mock_server" where
  "build_message env channel_id content author guild_id tts s =
     (let (i, g) = generate_snowflake (me_now_ms env) (sv_snowflakes s)
      in (show_int i,
          [(''id'', JStr (show_int i)), (''channel_id'', JStr channel_id), (''content'', JStr content), (''tts'', JBool tts),
           (''timestamp'', JStr (me_iso env)), (''edited_timestamp'', JNull), (''author'', JDict author)] @
          (if guild_id = JNull then [] else [(''guild_id'', guild_id)]),
          s\<lparr>sv_snowflakes := g\<rparr>))"

text \<open>Append a new message object to the list and the index.\<close>

definition store_message :: "string \<Rightarrow> jdict \<Rightarrow> mock_server \<Rightarrow> mock_server" where
  "store_message message_id message s =
     s\<lparr>sv_msg_objs := (sv_msg_objs s)(sv_next s := message), sv_messages := sv_messages s @ [sv_next s],
       sv_by_id := dict_set (sv_by_id s) message_id (sv_next s), sv_next := sv_next s + 1\<rparr>"

definition validate_message_payload :: "(json \<Rightarrow> string) \<Rightarrow> sim_config \<Rightarrow> jdict \<Rightarrow> mock_response option" where
  "validate_message_payload str cfg payload =
     (if \<not> sc_strict_validation cfg then None
      else
        (let content = jget payload ''content'';
             has_content = (content \<noteq> JNull \<and> py_strip (str content) \<noteq> []);
             has_alternative = list_ex (\<lambda>k. json_truthy (jget payload k)) [''embeds'', ''components'', ''sticker_ids'', ''attachments'', ''poll'', ''files'']
         in if \<not> has_content \<and> \<not> has_alternative then Some (discord_error 400 ''Cannot send an empty message'' ERROR_EMPTY_MESSAGE [] [])
            else if has_content \<and> MAX_CONTENT_LENGTH < length (str content) then
              Some (discord_error 400 ''Invalid Form Body'' ERROR_INVALID_FORM_BODY
                [(''errors'', JDict [(''content'', JDict [(''_errors'', JList [JDict
                   [(''code'', JStr ''BASE_TYPE_MAX_LENGTH''), (''message'', JStr ''Must be 2000 or fewer in length.'')]])])])] [])
            else None))"

section \<open>Middleware\<close>

text \<open>
  \<open>_bucket_key\<close> takes the canonical route; \<open>retry_after\<close> is \<open>round(x, 3)\<close> and \<open>fmt\<close> the text of a number.
\<close>

definition bucket_key :: "string \<Rightarrow> string \<Rightarrow> string option \<Rightarrow> string option \<Rightarrow> string" where
  "bucket_key verb canonical channel_id guild_id =
     verb @ '':'' @ canonical @ '':'' @
     (case channel_id of Some c \<Rightarrow> if c = [] then truthy_text guild_id ''-'' else c | None \<Rightarrow> truthy_text guild_id ''-'')"

record rate_env =
  re_now :: real
  re_time :: real
  re_round :: "real \<Rightarrow> real"
  re_text :: "real \<Rightarrow> string"
  re_bucket :: "string \<Rightarrow> string"

definition rate_limited :: "rate_env \<Rightarrow> bool \<Rightarrow> real \<Rightarrow> (string \<times> string) list \<Rightarrow> mock_response" where
  "rate_limited env glob reset_after headers =
     discord_error 429 ''You are being rate limited.'' 0
       [(''retry_after'', JFloat (re_round env reset_after)), (''global'', JBool glob)] headers"

definition apply_rate_limits :: "rate_env \<Rightarrow> string \<Rightarrow> mock_server \<Rightarrow> (mock_response + (string \<times> string) list) \<times> mock_server" where
  "apply_rate_limits env key s =
     (let cfg = sv_config s;
          ((limited, _, reset_after), ws) = rate_hit (re_now env) ''__global__'' (sc_global_rate_limit cfg) (sc_global_rate_limit_window cfg) (sv_windows s)
      in if limited then
           (Inl (rate_limited env True reset_after
              [(''X-RateLimit-Global'', ''true''), (''X-RateLimit-Scope'', ''global''), (''Retry-After'', re_text env (re_round env reset_after))]),
            s\<lparr>sv_windows := ws\<rparr>)
         else
           (let ((limited, remaining, reset_after), ws2) = rate_hit (re_now env) key (sc_rate_limit_per_route cfg) (sc_rate_limit_window cfg) ws;
                headers = [(''X-RateLimit-Limit'', show_int (sc_rate_limit_per_route cfg)), (''X-RateLimit-Remaining'', show_int remaining),
                           (''X-RateLimit-Reset'', re_text env (re_time env + reset_after)), (''X-RateLimit-Reset-After'', re_text env reset_after),
                           (''X-RateLimit-Bucket'', re_bucket env key)]
            in if limited then
                 (Inl (rate_limited env False reset_after
                    (headers @ [(''Retry-After'', re_text env (re_round env reset_after)), (''X-RateLimit-Scope'', ''user'')])),
                  s\<lparr>sv_windows := ws2\<rparr>)
               else (Inr headers, s\<lparr>sv_windows := ws2\<rparr>)))"

definition add_headers :: "(string \<times> string) list \<Rightarrow> mock_response \<Rightarrow> mock_response" where
  "add_headers hs r = (case r of Respond st body hdrs \<Rightarrow> Respond st body (dict_update hdrs hs) | _ \<Rightarrow> r)"

text \<open>\<open>chance\<close> is the random number of the error injection; the injected latency only passes time.\<close>

definition simulation_middleware ::
  "rate_env \<Rightarrow> real \<Rightarrow> string \<Rightarrow> string option \<Rightarrow> mock_request \<Rightarrow> (mock_server \<Rightarrow> mock_response \<times> mock_server) \<Rightarrow> mock_server \<Rightarrow> mock_response \<times> mock_server" where
  "simulation_middleware env chance key channel_id r handler s =
     (if \<not> starts_with (mr_path r) ''/api/v10'' then handler s
      else if sc_enforce_permissions (sv_config s) \<and> (case channel_id of None \<Rightarrow> False | Some c \<Rightarrow> c \<in> set (sv_denied s)) then
        (discord_error 403 ''Missing Access'' ERROR_MISSING_ACCESS [] [], record_request r None s)
      else
        (case (if sc_rate_limit_enabled (sv_config s) then apply_rate_limits env key s else (Inr [], s)) of
           (Inl response, s1) \<Rightarrow> (response, record_request r None s1)
         | (Inr headers, s1) \<Rightarrow>
             if 0 < sc_chaos_error_rate (sv_config s1) \<and> chance < sc_chaos_error_rate (sv_config s1) then
               (discord_error (sc_chaos_error_status (sv_config s1)) ''Mock chaos error injected'' (sc_chaos_error_code (sv_config s1)) []
                  [(''X-Mock-Chaos'', ''error'')], record_request r None s1)
             else (case handler s1 of (response, s2) \<Rightarrow> (add_headers headers response, s2))))"

section \<open>Control plane\<close>

definition mock_reset :: "mock_request \<Rightarrow> mock_server \<Rightarrow> mock_response \<times> mock_server" where
  "mock_reset r s =
     (let s1 = seed_state (record_request r None s)
      in (Respond 200 (JDict [(''ok'', JBool True)]) [],
          s1\<lparr>sv_config := sv_initial_config s1, sv_windows := [], sv_tasks := [], sv_scenarios := []\<rparr>))"

definition opt_str :: "mock_env \<Rightarrow> json \<Rightarrow> string option" where
  "opt_str env v = (if v = JNull then None else Some (me_str env v))"

definition truthy_str :: "mock_env \<Rightarrow> json \<Rightarrow> string option" where
  "truthy_str env v = (if json_truthy v then Some (me_str env v) else None)"

definition inject_message :: "mock_env \<Rightarrow> jdict \<Rightarrow> mock_server \<Rightarrow> jdict \<times> mock_server" where
  "inject_message env payload s =
     (let channel_id = me_str env (dict_get payload ''channel_id'' (JStr ''123''));
          guild_id = jget payload ''guild_id'';
          s1 = (if guild_id = JNull then s else ensure_guild (me_str env guild_id) (truthy_str env (jget payload ''guild_name'')) s);
          s2 = ensure_channel channel_id (if guild_id = JNull \<and> starts_with channel_id ''dm-'' then 1 else 0)
                 (truthy_str env (jget payload ''channel_name'')) (opt_str env guild_id) s1;
          (a, s3) = ensure_user (me_str env (dict_get payload ''author_id'' (JStr ''2'')))
                      (Some (me_str env (dict_get payload ''author_username'' (JStr ''MockUser''))))
                      (json_truthy (dict_get payload ''author_bot'' (JBool False))) None None s2;
          (i, message, s4) = build_message env channel_id (me_str env (dict_get payload ''content'' (JStr []))) (sv_user_objs s3 a)
                      (if guild_id = JNull then JNull else JStr (me_str env guild_id)) False s3
      in (message, hub_event ''MESSAGE_CREATE'' (JDict message) (store_message i message s4)))"

definition mock_message :: "mock_env \<Rightarrow> mock_request \<Rightarrow> mock_server \<Rightarrow> mock_response \<times> mock_server" where
  "mock_message env r =
     read_json r (\<lambda>payload s. case inject_message env payload (record_request r (Some payload) s) of (m, s1) \<Rightarrow> (Respond 200 (JDict m) [], s1))"

definition create_profile :: "mock_env \<Rightarrow> mock_request \<Rightarrow> mock_server \<Rightarrow> mock_response \<times> mock_server" where
  "create_profile env r =
     read_json r (\<lambda>payload s0.
       let s = record_request r (Some payload) s0;
           user_id = me_str env (json_or (jget payload ''id'') (JInt (int (length (sv_users s)) + 1)));
           (a, s1) = upsert_profile env user_id payload s
       in (Respond 200 (JDict (sv_user_objs s1 a)) [], if json_truthy (jget payload ''set_current'') then s1\<lparr>sv_current := a\<rparr> else s1))"

definition update_profile :: "mock_env \<Rightarrow> string \<Rightarrow> mock_request \<Rightarrow> mock_server \<Rightarrow> mock_response \<times> mock_server" where
  "update_profile env user_id r =
     read_json r (\<lambda>payload s0.
       let s = record_request r (Some payload) s0 in
       case map_of (sv_users s) user_id of
         None \<Rightarrow> (unknown_user, s)
       | Some u \<Rightarrow>
           (let (a, s1) = upsert_profile env user_id (dict_update (sv_user_objs s u) payload) s
            in (case map_of (sv_user_objs s1 (sv_current s1)) ''id'' of
                  None \<Rightarrow> (Crash (KeyError ''id''), s1)
                | Some v \<Rightarrow> (Respond 200 (JDict (sv_user_objs s1 a)) [], if v = JStr user_id then s1\<lparr>sv_current := a\<rparr> else s1))))"

definition set_current_user :: "mock_env \<Rightarrow> mock_request \<Rightarrow> mock_server \<Rightarrow> mock_response \<times> mock_server" where
  "set_current_user env r =
     read_json r (\<lambda>payload s0.
       let s = record_request r (Some payload) s0 in
       case map_of (sv_users s) (me_str env (dict_get payload ''user_id'' (JStr []))) of
         None \<Rightarrow> (unknown_user, s)
       | Some a \<Rightarrow> (Respond 200 (JDict (sv_user_objs s a)) [], s\<lparr>sv_current := a\<rparr>))"

definition chaos_payload :: "sim_config \<Rightarrow> json" where
  "chaos_payload cfg =
     JDict [(''latency_ms'', JFloat (sc_chaos_latency_ms cfg)), (''jitter_ms'', JFloat (sc_chaos_jitter_ms cfg)),
            (''error_rate'', JFloat (sc_chaos_error_rate cfg)), (''error_status'', JInt (sc_chaos_error_status cfg)),
            (''error_code'', JInt (sc_chaos_error_code cfg))]"

text \<open>One setting: absent, applied, or the exception of its conversion; the settings before it stay applied.\<close>

definition setting :: "string \<Rightarrow> (json \<Rightarrow> 'a result) \<Rightarrow> ('a \<Rightarrow> sim_config \<Rightarrow> sim_config) \<Rightarrow> jdict \<Rightarrow> sim_config \<Rightarrow> exc option \<times> sim_config" where
  "setting key convert put payload cfg =
     (case map_of payload key of
        None \<Rightarrow> (None, cfg)
      | Some v \<Rightarrow> (case convert v of Inl e \<Rightarrow> (Some e, cfg) | Inr x \<Rightarrow> (None, put x cfg)))"

primrec settings :: "(jdict \<Rightarrow> sim_config \<Rightarrow> exc option \<times> sim_config) list \<Rightarrow> jdict \<Rightarrow> sim_config \<Rightarrow> exc option \<times> sim_config" where
  "settings [] payload cfg = (None, cfg)"
| "settings (f # fs) payload cfg = (case f payload cfg of (Some e, c) \<Rightarrow> (Some e, c) | (None, c) \<Rightarrow> settings fs payload c)"

definition apply_chaos_settings :: "jdict \<Rightarrow> sim_config \<Rightarrow> exc option \<times> sim_config" where
  "apply_chaos_settings =
     settings
       [setting ''latency_ms'' py_float (\<lambda>x c. c\<lparr>sc_chaos_latency_ms := max 0 x\<rparr>),
        setting ''jitter_ms'' py_float (\<lambda>x c. c\<lparr>sc_chaos_jitter_ms := max 0 x\<rparr>),
        setting ''error_rate'' py_float (\<lambda>x c. c\<lparr>sc_chaos_error_rate := min 1 (max 0 x)\<rparr>),
        setting ''error_status'' py_int (\<lambda>i c. c\<lparr>sc_chaos_error_status := i\<rparr>),
        setting ''error_code'' py_int (\<lambda>i c. c\<lparr>sc_chaos_error_code := i\<rparr>)]"

definition invalid_form :: mock_response where
  "invalid_form = discord_error 400 ''Invalid Form Body'' ERROR_INVALID_FORM_BODY [] []"

definition set_chaos :: "mock_request \<Rightarrow> mock_server \<Rightarrow> mock_response \<times> mock_server" where
  "set_chaos r =
     read_json r (\<lambda>payload s0.
       let s = record_request r (Some payload) s0 in
       case apply_chaos_settings payload (sv_config s) of
         (Some e, cfg) \<Rightarrow> (invalid_form, s\<lparr>sv_config := cfg\<rparr>)
       | (None, cfg) \<Rightarrow> (Respond 200 (chaos_payload cfg) [], s\<lparr>sv_config := cfg\<rparr>))"

definition ratelimit_payload :: "sim_config \<Rightarrow> json" where
  "ratelimit_payload cfg =
     JDict [(''enabled'', JBool (sc_rate_limit_enabled cfg)), (''per_route_limit'', JInt (sc_rate_limit_per_route cfg)),
            (''per_route_window'', JFloat (sc_rate_limit_window cfg)), (''global_limit'', JInt (sc_global_rate_limit cfg)),
            (''global_window'', JFloat (sc_global_rate_limit_window cfg))]"

definition apply_ratelimit_settings :: "jdict \<Rightarrow> sim_config \<Rightarrow> exc option \<times> sim_config" where
  "apply_ratelimit_settings =
     settings
       [setting ''enabled'' (\<lambda>v. Inr (json_truthy v)) (\<lambda>b c. c\<lparr>sc_rate_limit_enabled := b\<rparr>),
        setting ''per_route_limit'' py_int (\<lambda>i c. c\<lparr>sc_rate_limit_per_route := max 1 i\<rparr>),
        setting ''per_route_window'' py_float (\<lambda>x c. c\<lparr>sc_rate_limit_window := max (1 / 1000) x\<rparr>),
        setting ''global_limit'' py_int (\<lambda>i c. c\<lparr>sc_global_rate_limit := max 1 i\<rparr>),
        setting ''global_window'' py_float (\<lambda>x c. c\<lparr>sc_global_rate_limit_window := max (1 / 1000) x\<rparr>)]"

definition set_ratelimit :: "mock_request \<Rightarrow> mock_server \<Rightarrow> mock_response \<times> mock_server" where
  "set_ratelimit r =
     read_json r (\<lambda>payload s0.
       let s = record_request r (Some payload) s0 in
       case apply_ratelimit_settings payload (sv_config s) of
         (Some e, cfg) \<Rightarrow> (invalid_form, s\<lparr>sv_config := cfg\<rparr>)
       | (None, cfg) \<Rightarrow> (Respond 200 (ratelimit_payload cfg) [], s\<lparr>sv_config := cfg, sv_windows := []\<rparr>))"

text \<open>\<open>sorted\<close> on strings.\<close>

fun text_le :: "string \<Rightarrow> string \<Rightarrow> bool" where
  "text_le [] t = True"
| "text_le (a # s) [] = False"
| "text_le (a # s) (b # t) = ((of_char a :: nat) < of_char b \<or> (a = b \<and> text_le s t))"

primrec insert_text :: "string \<Rightarrow> string list \<Rightarrow> string list" where
  "insert_text x [] = [x]"
| "insert_text x (y # ys) = (if text_le x y then x # y # ys else y # insert_text x ys)"

definition permissions_payload :: "mock_server \<Rightarrow> json" where
  "permissions_payload s =
     JDict [(''enforce'', JBool (sc_enforce_permissions (sv_config s))), (''denied_channels'', JList (map JStr (foldr insert_text (sv_denied s) [])))]"

definition set_permissions :: "mock_env \<Rightarrow> mock_request \<Rightarrow> mock_server \<Rightarrow> mock_response \<times> mock_server" where
  "set_permissions env r =
     read_json r (\<lambda>payload s0.
       let s = record_request r (Some payload) s0;
           s1 = (case map_of payload ''enforce'' of None \<Rightarrow> s | Some v \<Rightarrow> s\<lparr>sv_config := (sv_config s)\<lparr>sc_enforce_permissions := json_truthy v\<rparr>\<rparr>);
           channel_id = jget payload ''channel_id'';
           s2 = (if channel_id = JNull then s1
                 else if json_truthy (dict_get payload ''allow'' (JBool False)) then s1\<lparr>sv_denied := removeAll (me_str env channel_id) (sv_denied s1)\<rparr>
                 else s1\<lparr>sv_denied := List.insert (me_str env channel_id) (sv_denied s1)\<rparr>)
       in (Respond 200 (permissions_payload s2) [], s2))"

section \<open>Snapshots\<close>

definition export_payload :: "string \<Rightarrow> mock_server \<Rightarrow> jdict" where
  "export_payload stamp s =
     [(''version'', JInt 1), (''exported_at'', JStr stamp), (''current_user'', JDict (sv_user_objs s (sv_current s))),
      (''users'', JList (map (\<lambda>p. JDict (sv_user_objs s (snd p))) (sv_users s))),
      (''channels'', JList (map (\<lambda>p. channel_json s (snd p)) (sv_channels s))),
      (''guilds'', JList (map (\<lambda>p. JDict (snd p)) (sv_guilds s))),
      (''messages'', JList (map (\<lambda>a. JDict (sv_msg_objs s a)) (sv_messages s))),
      (''typing_events'', JList (map JDict (sv_typing s)))]"

definition export_state :: "mock_env \<Rightarrow> mock_request \<Rightarrow> mock_server \<Rightarrow> mock_response \<times> mock_server" where
  "export_state env r s =
     (let s1 = record_request r None s in (Respond 200 (JDict (export_payload (me_iso env) s1)) [], s1))"

text \<open>
  \<open>dict(x)\<close> of a JSON value: a dictionary is copied, a sequence must hold pairs. (A pair whose key is
  no string would give a dictionary outside the model; it is refused here.)
\<close>

definition as_pair :: "json \<Rightarrow> (string \<times> json) result" where
  "as_pair v =
     (case v of
        JList [JStr k, x] \<Rightarrow> Inr (k, x)
      | JStr [a, b] \<Rightarrow> Inr ([a], JStr [b])
      | JList _ \<Rightarrow> Inl (ValueError ''dictionary update sequence'')
      | JStr _ \<Rightarrow> Inl (ValueError ''dictionary update sequence'')
      | JDict _ \<Rightarrow> Inl (ValueError ''dictionary update sequence'')
      | _ \<Rightarrow> Inl (TypeError ''cannot convert dictionary update sequence''))"

definition as_copy :: "json \<Rightarrow> jdict result" where
  "as_copy v = (case v of JDict d \<Rightarrow> Inr d | _ \<Rightarrow> bind_result (json_iter v) (\<lambda>xs. bind_result (map_result as_pair xs) (\<lambda>ps. Inr (dict_of ps))))"

definition import_table :: "mock_env \<Rightarrow> json \<Rightarrow> (string \<times> jdict) list result" where
  "import_table env v =
     bind_result (json_iter v) (map_result (\<lambda>x. bind_result (json_index x ''id'') (\<lambda>i. bind_result (as_copy x) (\<lambda>d. Inr (me_str env i, d)))))"

definition import_list :: "json \<Rightarrow> jdict list result" where
  "import_list v = bind_result (json_iter v) (map_result as_copy)"

definition import_index :: "mock_env \<Rightarrow> jdict list \<Rightarrow> (string \<times> jdict) list result" where
  "import_index env ms = map_result (\<lambda>d. bind_result (dict_index d ''id'') (\<lambda>i. Inr (me_str env i, d))) ms"

text \<open>Put the imported objects into the stores, each under a fresh address.\<close>

definition install ::
  "(string \<times> jdict) list \<Rightarrow> (string \<times> jdict) list \<Rightarrow> (string \<times> jdict) list \<Rightarrow> (string \<times> jdict) list \<Rightarrow> jdict list \<Rightarrow> mock_server \<Rightarrow> mock_server" where
  "install users channels guilds messages typing s =
     (let n = sv_next s;
          nu = length users;
          nm = length messages
      in s\<lparr>sv_user_objs := (\<lambda>a. if n \<le> a \<and> a < n + nu then snd (users ! (a - n)) else sv_user_objs s a),
           sv_users := dict_of (map (\<lambda>(i, p). (fst p, n + i)) (enumerate 0 users)),
           sv_channels := dict_of (map (\<lambda>p. (fst p, \<lparr>ch_data = snd p, ch_recipient = None\<rparr>)) channels),
           sv_guilds := dict_of guilds,
           sv_msg_objs := (\<lambda>a. if n + nu \<le> a \<and> a < n + nu + nm then snd (messages ! (a - (n + nu))) else sv_msg_objs s a),
           sv_messages := [n + nu..<n + nu + nm],
           sv_by_id := dict_of (map (\<lambda>(i, p). (fst p, n + nu + i)) (enumerate 0 messages)),
           sv_typing := typing,
           sv_next := n + nu + nm\<rparr>)"

text \<open>The user with the id, else the first one; a user object has an id, so it is never empty.\<close>

definition choose_current :: "string \<Rightarrow> mock_server \<Rightarrow> mock_server" where
  "choose_current current_id s =
     s\<lparr>sv_current := (case map_of (sv_users s) current_id of Some a \<Rightarrow> a | None \<Rightarrow> snd (hd (sv_users s)))\<rparr>"

definition import_state :: "mock_env \<Rightarrow> mock_request \<Rightarrow> mock_server \<Rightarrow> mock_response \<times> mock_server" where
  "import_state env r =
     read_json r (\<lambda>payload s0.
       let s = record_request r (Some [(''import'', JBool True)]) s0;
           field = (\<lambda>k. dict_get payload k (JList []));
           parsed = bind_result (import_table env (field ''users'')) (\<lambda>users.
                    bind_result (import_table env (field ''channels'')) (\<lambda>channels.
                    bind_result (import_table env (field ''guilds'')) (\<lambda>guilds.
                    bind_result (import_list (field ''messages'')) (\<lambda>ms.
                    bind_result (import_list (field ''typing_events'')) (\<lambda>typing.
                    bind_result (import_index env ms) (\<lambda>messages. Inr (users, channels, guilds, messages, typing)))))))
       in case parsed of
            Inl (TypeError x) \<Rightarrow> (invalid_form, s)
          | Inl (KeyError x) \<Rightarrow> (invalid_form, s)
          | Inl e \<Rightarrow> (Crash e, s)
          | Inr (users, channels, guilds, messages, typing) \<Rightarrow>
              if users = [] then
                (discord_error 400 ''Invalid Form Body'' ERROR_INVALID_FORM_BODY
                   [(''errors'', JDict [(''users'', JDict [(''_errors'', JList [JDict [(''code'', JStr ''REQUIRED''), (''message'', JStr ''Required'')]])])])] [], s)
              else
                (case json_or (jget payload ''current_user'') (JDict []) of
                   JDict current \<Rightarrow>
                     (let s1 = sync_guild_member_counts (choose_current (me_str env (dict_get current ''id'' (JStr [])))
                                 (install users channels guilds messages typing s))
                      in (Respond 200 (JDict [(''ok'', JBool True), (''users'', JInt (int (length (sv_users s1)))),
                            (''channels'', JInt (int (length (sv_channels s1)))), (''guilds'', JInt (int (length (sv_guilds s1)))),
                            (''messages'', JInt (int (length (sv_messages s1))))]) [], s1))
                 | _ \<Rightarrow> (Crash (AttributeError ''get''), install users channels guilds messages typing s)))"

section \<open>Scenarios\<close>

definition SCENARIO_ACTIONS :: "string list" where
  "SCENARIO_ACTIONS = [''message'', ''typing'', ''dispatch'', ''chaos'', ''reconnect'', ''invalidate'', ''wait'']"

definition scenario_step_ok :: "json \<Rightarrow> bool" where
  "scenario_step_ok step =
     (case step of JDict d \<Rightarrow> (case jget d ''action'' of JStr a \<Rightarrow> a \<in> set SCENARIO_ACTIONS | _ \<Rightarrow> False) | _ \<Rightarrow> False)"

text \<open>\<open>scenario_id\<close> is the start of a new uuid; an action that cannot be hashed raises TypeError.\<close>

definition unhashable_action :: "json \<Rightarrow> bool" where
  "unhashable_action step = (case step of JDict d \<Rightarrow> (case jget d ''action'' of JList _ \<Rightarrow> True | JDict _ \<Rightarrow> True | _ \<Rightarrow> False) | _ \<Rightarrow> False)"

definition start_scenario :: "mock_env \<Rightarrow> string \<Rightarrow> mock_request \<Rightarrow> mock_server \<Rightarrow> mock_response \<times> mock_server" where
  "start_scenario env scenario_id r =
     read_json r (\<lambda>payload s0.
       let s = record_request r (Some payload) s0 in
       case jget payload ''steps'' of
         JList (x # xs) \<Rightarrow>
           (case find (\<lambda>p. \<not> scenario_step_ok (snd p)) (enumerate 0 (x # xs)) of
              Some (i, step) \<Rightarrow>
                if unhashable_action step then (Crash (TypeError ''unhashable type''), s)
                else
                  (discord_error 400 ''Invalid Form Body'' ERROR_INVALID_FORM_BODY
                     [(''errors'', JDict [(''steps.'' @ show_nat i @ ''.action'', JDict [(''_errors'', JList [JDict
                        [(''code'', JStr ''ENUM_TYPE_COERCE''), (''message'', JStr ''Unknown scenario action'')]])])])] [], s)
            | None \<Rightarrow>
                (let entry = [(''id'', JStr scenario_id),
                              (''name'', JStr (me_str env (json_or (jget payload ''name'') (JStr (''scenario-'' @ scenario_id))))),
                              (''status'', JStr ''running''), (''steps_total'', JInt (int (length (x # xs)))), (''steps_done'', JInt 0),
                              (''started_at'', JStr (me_iso env))]
                 in (Respond 202 (JDict entry) [],
                     s\<lparr>sv_scenarios := dict_set (sv_scenarios s) scenario_id entry, sv_tasks := sv_tasks s @ [scenario_id]\<rparr>)))
       | _ \<Rightarrow>
           (discord_error 400 ''Invalid Form Body'' ERROR_INVALID_FORM_BODY
              [(''errors'', JDict [(''steps'', JDict [(''_errors'', JList [JDict
                 [(''code'', JStr ''REQUIRED''), (''message'', JStr ''steps must be a non-empty list'')]])])])] [], s))"

definition cancel_scenario :: "mock_env \<Rightarrow> string \<Rightarrow> mock_request \<Rightarrow> mock_server \<Rightarrow> mock_response \<times> mock_server" where
  "cancel_scenario env scenario_id r s0 =
     (let s = record_request r None s0 in
      case map_of (sv_scenarios s) scenario_id of
        None \<Rightarrow> (unknown_scenario, s)
      | Some entry \<Rightarrow>
          if scenario_id \<in> set (sv_tasks s) then (Respond 200 (JDict entry) [], s)
          else
            (let entry1 = dict_setdefault entry ''finished_at'' (JStr (me_iso env))
             in (Respond 200 (JDict entry1) [], s\<lparr>sv_scenarios := dict_set (sv_scenarios s) scenario_id entry1\<rparr>)))"

section \<open>REST handlers\<close>

definition filter_result :: "('a \<Rightarrow> bool result) \<Rightarrow> 'a list \<Rightarrow> 'a list result" where
  "filter_result P xs = bind_result (map_result (\<lambda>x. bind_result (P x) (\<lambda>b. Inr (if b then [x] else []))) xs) (\<lambda>yss. Inr (concat yss))"

definition gateway_plain :: "string \<Rightarrow> mock_request \<Rightarrow> mock_server \<Rightarrow> mock_response \<times> mock_server" where
  "gateway_plain url r s = (Respond 200 (JDict [(''url'', JStr url)]) [], record_request r None s)"

definition gateway_bot :: "string \<Rightarrow> mock_request \<Rightarrow> mock_server \<Rightarrow> mock_response \<times> mock_server" where
  "gateway_bot url r s =
     (Respond 200 (JDict [(''url'', JStr url), (''shards'', JInt 1),
        (''session_start_limit'', JDict [(''total'', JInt 1000), (''remaining'', JInt 999), (''reset_after'', JInt 14400000), (''max_concurrency'', JInt 1)])]) [],
      record_request r None s)"

definition server_current_user :: "mock_request \<Rightarrow> mock_server \<Rightarrow> mock_response \<times> mock_server" where
  "server_current_user r s = (Respond 200 (JDict (sv_user_objs s (sv_current s))) [], record_request r None s)"

definition server_get_user :: "string \<Rightarrow> mock_request \<Rightarrow> mock_server \<Rightarrow> mock_response \<times> mock_server" where
  "server_get_user user_id r s =
     (case map_of (sv_users s) user_id of
        None \<Rightarrow> (unknown_user, record_request r None s)
      | Some a \<Rightarrow> (Respond 200 (JDict (sv_user_objs s a)) [], record_request r None s))"

definition list_current_user_guilds :: "mock_request \<Rightarrow> mock_server \<Rightarrow> mock_response \<times> mock_server" where
  "list_current_user_guilds r s = (Respond 200 (JList (map (\<lambda>p. JDict (snd p)) (sv_guilds s))) [], record_request r None s)"

definition server_get_guild :: "string \<Rightarrow> mock_request \<Rightarrow> mock_server \<Rightarrow> mock_response \<times> mock_server" where
  "server_get_guild guild_id r s =
     (case map_of (sv_guilds s) guild_id of
        None \<Rightarrow> (unknown_guild, record_request r None s)
      | Some g \<Rightarrow> (Respond 200 (JDict g) [], record_request r None s))"

definition server_list_guild_channels :: "string \<Rightarrow> mock_request \<Rightarrow> mock_server \<Rightarrow> mock_response \<times> mock_server" where
  "server_list_guild_channels guild_id r s =
     (case map_of (sv_guilds s) guild_id of
        None \<Rightarrow> (unknown_guild, record_request r None s)
      | Some g \<Rightarrow>
          (Respond 200 (JList (map (\<lambda>p. channel_json s (snd p))
             (filter (\<lambda>p. jget (ch_data (snd p)) ''guild_id'' = JStr guild_id) (sv_channels s)))) [], record_request r None s))"

definition server_get_channel :: "string \<Rightarrow> mock_request \<Rightarrow> mock_server \<Rightarrow> mock_response \<times> mock_server" where
  "server_get_channel channel_id r s =
     (case map_of (sv_channels s) channel_id of
        None \<Rightarrow> (unknown_channel, record_request r None s)
      | Some c \<Rightarrow> (Respond 200 (channel_json s c) [], record_request r None s))"

definition copy_keys :: "string list \<Rightarrow> jdict \<Rightarrow> jdict \<Rightarrow> jdict" where
  "copy_keys ks payload d = fold (\<lambda>k d. case map_of payload k of None \<Rightarrow> d | Some v \<Rightarrow> dict_set d k v) ks d"

definition server_edit_channel :: "string \<Rightarrow> mock_request \<Rightarrow> mock_server \<Rightarrow> mock_response \<times> mock_server" where
  "server_edit_channel channel_id r =
     read_json r (\<lambda>payload s0.
       let s = record_request r (Some payload) s0 in
       case map_of (sv_channels s) channel_id of
         None \<Rightarrow> (unknown_channel, s)
       | Some c \<Rightarrow>
           (let c1 = c\<lparr>ch_data := copy_keys [''name'', ''topic'', ''position'', ''nsfw''] payload (ch_data c)\<rparr>;
                s1 = s\<lparr>sv_channels := dict_set (sv_channels s) channel_id c1\<rparr>
            in (Respond 200 (channel_json s1 c1) [], hub_event ''CHANNEL_UPDATE'' (channel_json s1 c1) s1)))"

text \<open>A message without the key, which only an import can bring in, raises KeyError.\<close>

definition in_channel :: "string \<Rightarrow> jdict \<Rightarrow> bool result" where
  "in_channel channel_id d = bind_result (dict_index d ''channel_id'') (\<lambda>v. Inr (v = JStr channel_id))"

definition server_delete_channel :: "string \<Rightarrow> mock_request \<Rightarrow> mock_server \<Rightarrow> mock_response \<times> mock_server" where
  "server_delete_channel channel_id r s0 =
     (let s = record_request r None s0 in
      case map_of (sv_channels s) channel_id of
        None \<Rightarrow> (unknown_channel, s)
      | Some c \<Rightarrow>
          (let s1 = s\<lparr>sv_channels := dict_pop (sv_channels s) channel_id\<rparr>;
               doomed = filter_result (\<lambda>a. in_channel channel_id (sv_msg_objs s1 a)) (sv_messages s1)
           in case doomed of
                Inl e \<Rightarrow> (Crash e, s1)
              | Inr gone \<Rightarrow>
                  (case map_result (\<lambda>a. dict_index (sv_msg_objs s1 a) ''id'') gone of
                     Inl e \<Rightarrow> (Crash e, s1)
                   | Inr ids \<Rightarrow>
                       (let s2 = s1\<lparr>sv_messages := filter (\<lambda>a. a \<notin> set gone) (sv_messages s1)\<rparr>
                        in case filter_result (\<lambda>d. bind_result (in_channel channel_id d) (\<lambda>b. Inr (\<not> b))) (sv_typing s2) of
                             Inl e \<Rightarrow> (Crash e, s2)
                           | Inr typing \<Rightarrow>
                               (let s3 = s2\<lparr>sv_typing := typing, sv_by_id := filter (\<lambda>p. JStr (fst p) \<notin> set ids) (sv_by_id s2)\<rparr>
                                in (Respond 200 (channel_json s3 c) [], hub_event ''CHANNEL_DELETE'' (channel_json s3 c) s3))))))"

text \<open>The comparison of \<open>int(msg["id"])\<close> with \<open>int(bound)\<close>, made for each message.\<close>

definition id_compare :: "(int \<Rightarrow> int \<Rightarrow> bool) \<Rightarrow> string \<Rightarrow> jdict \<Rightarrow> bool result" where
  "id_compare cmp bound d =
     bind_result (dict_index d ''id'') (\<lambda>v. bind_result (py_int v) (\<lambda>i. bind_result (py_int (JStr bound)) (\<lambda>b. Inr (cmp i b))))"

text \<open>\<open>xs[-limit:]\<close>.\<close>

definition last_slice :: "int \<Rightarrow> 'a list \<Rightarrow> 'a list" where
  "last_slice limit xs = (if 0 < limit then drop (length xs - nat limit) xs else drop (nat (- limit)) xs)"

definition around_slice :: "int \<Rightarrow> string \<Rightarrow> jdict list \<Rightarrow> jdict list result" where
  "around_slice limit around ms =
     bind_result (map_result (\<lambda>d. dict_index d ''id'') ms) (\<lambda>ids.
       Inr (case find (\<lambda>p. snd p = JStr around) (enumerate 0 ids) of
              None \<Rightarrow> []
            | Some (i, _) \<Rightarrow>
                (let radius = max 1 (limit div 2);
                     start = nat (max 0 (int i - radius));
                     stop = nat (int i + radius + 1)
                 in drop start (take stop ms))))"

definition opt_filter :: "(string \<Rightarrow> jdict list \<Rightarrow> jdict list result) \<Rightarrow> string option \<Rightarrow> jdict list \<Rightarrow> jdict list result" where
  "opt_filter f v ms = (case v of None \<Rightarrow> Inr ms | Some b \<Rightarrow> f b ms)"

definition server_list_messages :: "string \<Rightarrow> mock_request \<Rightarrow> mock_server \<Rightarrow> mock_response \<times> mock_server" where
  "server_list_messages channel_id r s0 =
     (let s = record_request r None s0;
          q = map_of (mr_query r);
          found = bind_result (py_int (JStr (dict_get (mr_query r) ''limit'' ''50''))) (\<lambda>limit.
                  bind_result (filter_result (in_channel channel_id) (map (sv_msg_objs s) (sv_messages s))) (\<lambda>ms.
                  bind_result (opt_filter (\<lambda>b. filter_result (id_compare (<) b)) (q ''before'') ms) (\<lambda>ms1.
                  bind_result (opt_filter (\<lambda>b. filter_result (id_compare (>) b)) (q ''after'') ms1) (\<lambda>ms2.
                  bind_result (opt_filter (around_slice limit) (q ''around'') ms2) (\<lambda>ms3. Inr (rev (last_slice limit ms3)))))))
      in (case found of Inl e \<Rightarrow> Crash e | Inr ms \<Rightarrow> Respond 200 (JList (map JDict ms)) [], s))"

text \<open>The message under the id, if its channel is the one of the path.\<close>

definition with_message ::
  "string \<Rightarrow> string \<Rightarrow> (nat \<Rightarrow> mock_server \<Rightarrow> mock_response \<times> mock_server) \<Rightarrow> mock_server \<Rightarrow> mock_response \<times> mock_server" where
  "with_message channel_id message_id k s =
     (case map_of (sv_by_id s) message_id of
        None \<Rightarrow> (unknown_message, s)
      | Some a \<Rightarrow>
          (case in_channel channel_id (sv_msg_objs s a) of
             Inl e \<Rightarrow> (Crash e, s)
           | Inr b \<Rightarrow> if b then k a s else (unknown_message, s)))"

definition server_get_message :: "string \<Rightarrow> string \<Rightarrow> mock_request \<Rightarrow> mock_server \<Rightarrow> mock_response \<times> mock_server" where
  "server_get_message channel_id message_id r s =
     with_message channel_id message_id (\<lambda>a s. (Respond 200 (JDict (sv_msg_objs s a)) [], s)) (record_request r None s)"

definition server_send_message :: "mock_env \<Rightarrow> string \<Rightarrow> mock_request \<Rightarrow> mock_server \<Rightarrow> mock_response \<times> mock_server" where
  "server_send_message env channel_id r =
     read_json r (\<lambda>payload s0.
       let s = record_request r (Some payload) s0 in
       case validate_message_payload (me_str env) (sv_config s) payload of
         Some response \<Rightarrow> (response, s)
       | None \<Rightarrow>
           (let s1 = (if map_of (sv_channels s) channel_id = None then ensure_channel channel_id 0 None None s else s);
                guild_id = (case map_of (sv_channels s1) channel_id of None \<Rightarrow> JNull | Some c \<Rightarrow> jget (ch_data c) ''guild_id'');
                (i, message, s2) = build_message env channel_id (me_str env (dict_get payload ''content'' (JStr []))) (sv_user_objs s1 (sv_current s1))
                                     guild_id (json_truthy (dict_get payload ''tts'' (JBool False))) s1;
                full = copy_keys [''embeds'', ''components'', ''flags'', ''message_reference'', ''poll''] payload message
            in (Respond 200 (JDict full) [], hub_event ''MESSAGE_CREATE'' (JDict full) (store_message i full s2))))"

definition server_edit_message :: "mock_env \<Rightarrow> string \<Rightarrow> string \<Rightarrow> mock_request \<Rightarrow> mock_server \<Rightarrow> mock_response \<times> mock_server" where
  "server_edit_message env channel_id message_id r =
     read_json r (\<lambda>payload s0.
       with_message channel_id message_id (\<lambda>a s.
         let m = dict_set (copy_keys [''content'', ''embeds'', ''components'', ''flags''] payload (sv_msg_objs s a)) ''edited_timestamp'' (JStr (me_iso env))
         in (Respond 200 (JDict m) [], hub_event ''MESSAGE_UPDATE'' (JDict m) (s\<lparr>sv_msg_objs := (sv_msg_objs s)(a := m)\<rparr>)))
       (record_request r (Some payload) s0))"

definition server_delete_message :: "string \<Rightarrow> string \<Rightarrow> mock_request \<Rightarrow> mock_server \<Rightarrow> mock_response \<times> mock_server" where
  "server_delete_message channel_id message_id r s0 =
     with_message channel_id message_id (\<lambda>a s.
       case map_result (\<lambda>b. dict_index (sv_msg_objs s b) ''id'') (sv_messages s) of
         Inl e \<Rightarrow> (Crash e, s)
       | Inr ids \<Rightarrow>
           (Respond 204 JNull [],
            hub_event ''MESSAGE_DELETE''
              (JDict ([(''id'', JStr message_id), (''channel_id'', JStr channel_id)] @
                 (case map_of (sv_msg_objs s a) ''guild_id'' of None \<Rightarrow> [] | Some g \<Rightarrow> [(''guild_id'', g)])))
              (s\<lparr>sv_messages := map fst (filter (\<lambda>p. snd p \<noteq> JStr message_id) (zip (sv_messages s) ids)),
                 sv_by_id := dict_pop (sv_by_id s) message_id\<rparr>)))
     (record_request r None s0)"

definition inject_typing :: "mock_env \<Rightarrow> string \<Rightarrow> json \<Rightarrow> mock_server \<Rightarrow> jdict result \<times> mock_server" where
  "inject_typing env channel_id user_id s0 =
     (let s = (if map_of (sv_channels s0) channel_id = None then ensure_channel channel_id 0 None None s0 else s0);
          known = (case user_id of JStr u \<Rightarrow> map_of (sv_users s) u | _ \<Rightarrow> None);
          user = sv_user_objs s (case known of Some a \<Rightarrow> a | None \<Rightarrow> sv_current s)
      in (case bind_result (dict_index user ''id'') (\<lambda>i. bind_result (dict_index user ''username'') (\<lambda>n. Inr (i, n))) of
            Inl e \<Rightarrow> (Inl e, s)
          | Inr (i, n) \<Rightarrow>
              (let event = [(''channel_id'', JStr channel_id), (''user_id'', i), (''username'', n), (''timestamp'', JStr (me_iso env))]
               in (Inr event,
                   hub_event ''TYPING_START'' (JDict [(''channel_id'', JStr channel_id), (''user_id'', i), (''timestamp'', JInt (me_unix env))])
                     (s\<lparr>sv_typing := sv_typing s @ [event]\<rparr>)))))"

definition server_trigger_typing :: "mock_env \<Rightarrow> string \<Rightarrow> mock_request \<Rightarrow> mock_server \<Rightarrow> mock_response \<times> mock_server" where
  "server_trigger_typing env channel_id r s0 =
     (let s = record_request r None s0 in
      case dict_index (sv_user_objs s (sv_current s)) ''id'' of
        Inl e \<Rightarrow> (Crash e, s)
      | Inr i \<Rightarrow> (case inject_typing env channel_id i s of (Inl e, s1) \<Rightarrow> (Crash e, s1) | (Inr _, s1) \<Rightarrow> (Respond 204 JNull [], s1)))"

definition server_create_dm :: "mock_env \<Rightarrow> mock_request \<Rightarrow> mock_server \<Rightarrow> mock_response \<times> mock_server" where
  "server_create_dm env r =
     read_json r (\<lambda>payload s0.
       let s = record_request r (Some payload) s0;
           recipient_id = me_str env (dict_get payload ''recipient_id'' (JStr ''0''));
           (a, s1) = ensure_user recipient_id None False None None s;
           channel_id = (case parse_int recipient_id of Some i \<Rightarrow> show_int (i + 1000) | None \<Rightarrow> ''dm-'' @ recipient_id)
       in case dict_index (sv_user_objs s1 a) ''username'' of
            Inl e \<Rightarrow> (Crash e, s1)
          | Inr n \<Rightarrow>
              (let s2 = ensure_channel channel_id 1 (Some (''dm-'' @ me_str env n)) None s1;
                   c = (case map_of (sv_channels s2) channel_id of Some c \<Rightarrow> c\<lparr>ch_data := dict_pop (ch_data c) ''recipients'', ch_recipient := Some a\<rparr>
                        | None \<Rightarrow> \<lparr>ch_data = [], ch_recipient = Some a\<rparr>)
               in (Respond 200 (JDict [(''id'', JStr channel_id), (''type'', JInt 1), (''recipients'', JList [JDict (sv_user_objs s2 a)])]) [],
                   s2\<lparr>sv_channels := dict_set (sv_channels s2) channel_id c\<rparr>)))"

text \<open>
  Scenario steps, as far as they act on the server; reconnects and invalidations go to the hub.
  The data of a step may be no object: its \<open>get\<close> is missing then, and the chaos settings test
  whether their keys are in it.
\<close>

definition chaos_keys :: "string list" where
  "chaos_keys = [''latency_ms'', ''jitter_ms'', ''error_rate'', ''error_status'', ''error_code'']"

definition chaos_no_object :: "json \<Rightarrow> unit result" where
  "chaos_no_object v =
     (case v of
        JList xs \<Rightarrow> if list_ex (\<lambda>k. JStr k \<in> set xs) chaos_keys then Inl (TypeError ''list indices'') else Inr ()
      | JStr x \<Rightarrow> if list_ex (\<lambda>k. is_infix k x) chaos_keys then Inl (TypeError ''string indices'') else Inr ()
      | _ \<Rightarrow> Inl (TypeError ''argument is not iterable''))"

definition scenario_typing :: "mock_env \<Rightarrow> jdict \<Rightarrow> mock_server \<Rightarrow> unit result \<times> mock_server" where
  "scenario_typing env data s =
     (case dict_index (sv_user_objs s (sv_current s)) ''id'' of
        Inl e \<Rightarrow> (Inl e, s)
      | Inr i \<Rightarrow>
          (case inject_typing env (me_str env (dict_get data ''channel_id'' (JStr ''123''))) (JStr (me_str env (dict_get data ''user_id'' i))) s of
             (Inl e, s1) \<Rightarrow> (Inl e, s1)
           | (Inr _, s1) \<Rightarrow> (Inr (), s1)))"

definition execute_scenario_step :: "mock_env \<Rightarrow> jdict \<Rightarrow> mock_server \<Rightarrow> unit result \<times> mock_server" where
  "execute_scenario_step env step s =
     (let action = jget step ''action''; v = json_or (jget step ''data'') (JDict []) in
      if action = JStr ''wait'' \<or> (\<forall>a \<in> set SCENARIO_ACTIONS. action \<noteq> JStr a) then (Inr (), s)
      else if action = JStr ''chaos'' then
        (case v of
           JDict data \<Rightarrow> (case apply_chaos_settings data (sv_config s) of
                            (Some e, cfg) \<Rightarrow> (Inl e, s\<lparr>sv_config := cfg\<rparr>)
                          | (None, cfg) \<Rightarrow> (Inr (), s\<lparr>sv_config := cfg\<rparr>))
         | _ \<Rightarrow> (chaos_no_object v, s))
      else
        (case v of
           JDict data \<Rightarrow>
             if action = JStr ''message'' then (Inr (), snd (inject_message env data s))
             else if action = JStr ''typing'' then scenario_typing env data s
             else if action = JStr ''dispatch'' then
               (Inr (), hub_event (me_str env (dict_get data ''t'' (JStr ''MOCK_EVENT''))) (json_or (jget data ''d'') (JDict [])) s)
             else (Inr (), s)
         | _ \<Rightarrow> (Inl (AttributeError ''get''), s)))"

definition set_scenario :: "string \<Rightarrow> string \<Rightarrow> json \<Rightarrow> mock_server \<Rightarrow> mock_server" where
  "set_scenario scenario_id k v s =
     s\<lparr>sv_scenarios := map (\<lambda>p. if fst p = scenario_id then (fst p, dict_set (snd p) k v) else p) (sv_scenarios s)\<rparr>"

primrec run_steps :: "(nat \<Rightarrow> mock_env) \<Rightarrow> string \<Rightarrow> nat \<Rightarrow> jdict list \<Rightarrow> mock_server \<Rightarrow> exc option \<times> mock_server" where
  "run_steps env scenario_id i [] s = (None, s)"
| "run_steps env scenario_id i (step # steps) s =
     (case execute_scenario_step (env i) step s of
        (Inl e, s1) \<Rightarrow> (Some e, s1)
      | (Inr _, s1) \<Rightarrow> run_steps env scenario_id (i + 1) steps (set_scenario scenario_id ''steps_done'' (JInt (int i + 1)) s1))"

text \<open>
  \<open>_run_scenario\<close> that is not cancelled: \<open>show_exc\<close> is \<open>str(exc)\<close>. The steps are sorted before the \<open>try\<close>,
  so a time that is no number ends the task at once.
\<close>

definition run_scenario :: "(nat \<Rightarrow> mock_env) \<Rightarrow> (exc \<Rightarrow> string) \<Rightarrow> string \<Rightarrow> jdict list \<Rightarrow> mock_server \<Rightarrow> unit result \<times> mock_server" where
  "run_scenario env show_exc scenario_id steps s =
     (case map_result (\<lambda>d. py_float (dict_get d ''at'' (JFloat 0))) steps of
        Inl e \<Rightarrow> (Inl e, s)
      | Inr ats \<Rightarrow>
          (let ordered = map snd (sort_key fst (zip ats steps));
               (r, s1) = run_steps env scenario_id 0 ordered s;
               s2 = (case r of
                       None \<Rightarrow> set_scenario scenario_id ''status'' (JStr ''completed'') s1
                     | Some e \<Rightarrow> set_scenario scenario_id ''error'' (JStr (show_exc e)) (set_scenario scenario_id ''status'' (JStr ''error'') s1));
               s3 = set_scenario scenario_id ''finished_at'' (JStr (me_iso (env (length ordered)))) s2
           in (Inr (), s3\<lparr>sv_tasks := removeAll scenario_id (sv_tasks s3)\<rparr>)))"

end
