(* ===== verification/MockServerLaws.thy ===== *)
theory MockServerLaws
  imports MockServer ApiClient
begin

text \<open>
  Laws of the mock server: the table of its REST routes, the coherence of the message list with the
  index by id in every reachable state, what a client that sends, fetches and lists messages sees,
  and snapshots.
\<close>

section \<open>Routes\<close>

datatype mock_call =
    CallInject | CallCreateProfile | CallUpdateProfile string | CallSetCurrent | CallReset | CallChaos | CallRateLimit | CallPermissions
  | CallExport | CallImport | CallStartScenario string | CallCancelScenario string
  | CallGateway | CallGatewayBot | CallMe | CallUser string | CallGuilds | CallGuild string | CallGuildChannels string | CallCreateDm
  | CallChannel string | CallEditChannel string | CallDeleteChannel string | CallListMessages string | CallSend string
  | CallGet string string | CallEdit string string | CallDelete string string | CallTyping string

text \<open>The REST routes below \<open>/api/v10\<close>, by the segments of the path.\<close>

definition route :: "string \<Rightarrow> string list \<Rightarrow> mock_call option" where
  "route verb segs =
     (case segs of
        [x] \<Rightarrow> if verb = ''GET'' \<and> x = ''gateway'' then Some CallGateway else None
      | [x, y] \<Rightarrow>
          if x = ''gateway'' \<and> y = ''bot'' \<and> verb = ''GET'' then Some CallGatewayBot
          else if x = ''users'' \<and> verb = ''GET'' then Some (if y = ''@me'' then CallMe else CallUser y)
          else if x = ''guilds'' \<and> verb = ''GET'' then Some (CallGuild y)
          else if x = ''channels'' then
            (if verb = ''GET'' then Some (CallChannel y) else if verb = ''PATCH'' then Some (CallEditChannel y)
             else if verb = ''DELETE'' then Some (CallDeleteChannel y) else None)
          else None
      | [x, y, z] \<Rightarrow>
          if x = ''users'' \<and> y = ''@me'' \<and> z = ''guilds'' \<and> verb = ''GET'' then Some CallGuilds
          else if x = ''users'' \<and> y = ''@me'' \<and> z = ''channels'' \<and> verb = ''POST'' then Some CallCreateDm
          else if x = ''guilds'' \<and> z = ''channels'' \<and> verb = ''GET'' then Some (CallGuildChannels y)
          else if x = ''channels'' \<and> z = ''messages'' \<and> verb = ''GET'' then Some (CallListMessages y)
          else if x = ''channels'' \<and> z = ''messages'' \<and> verb = ''POST'' then Some (CallSend y)
          else if x = ''channels'' \<and> z = ''typing'' \<and> verb = ''POST'' then Some (CallTyping y)
          else None
      | [x, y, z, w] \<Rightarrow>
          if x = ''channels'' \<and> z = ''messages'' then
            (if verb = ''GET'' then Some (CallGet y w) else if verb = ''PATCH'' then Some (CallEdit y w)
             else if verb = ''DELETE'' then Some (CallDelete y w) else None)
          else None
      | _ \<Rightarrow> None)"

text \<open>The handler of a call; \<open>url\<close> is the websocket URL of the server.\<close>

primrec serve :: "mock_env \<Rightarrow> string \<Rightarrow> mock_request \<Rightarrow> mock_call \<Rightarrow> mock_server \<Rightarrow> mock_response \<times> mock_server" where
  "serve env url r CallInject = mock_message env r"
| "serve env url r CallCreateProfile = create_profile env r"
| "serve env url r (CallUpdateProfile u) = update_profile env u r"
| "serve env url r CallSetCurrent = set_current_user env r"
| "serve env url r CallReset = mock_reset r"
| "serve env url r CallChaos = set_chaos r"
| "serve env url r CallRateLimit = set_ratelimit r"
| "serve env url r CallPermissions = set_permissions env r"
| "serve env url r CallExport = export_state env r"
| "serve env url r CallImport = import_state env r"
| "serve env url r (CallStartScenario i) = start_scenario env i r"
| "serve env url r (CallCancelScenario i) = cancel_scenario env i r"
| "serve env url r CallGateway = gateway_plain url r"
| "serve env url r CallGatewayBot = gateway_bot url r"
| "serve env url r CallMe = server_current_user r"
| "serve env url r (CallUser u) = server_get_user u r"
| "serve env url r CallGuilds = list_current_user_guilds r"
| "serve env url r (CallGuild g) = server_get_guild g r"
| "serve env url r (CallGuildChannels g) = server_list_guild_channels g r"
| "serve env url r CallCreateDm = server_create_dm env r"
| "serve env url r (CallChannel c) = server_get_channel c r"
| "serve env url r (CallEditChannel c) = server_edit_channel c r"
| "serve env url r (CallDeleteChannel c) = server_delete_channel c r"
| "serve env url r (CallListMessages c) = server_list_messages c r"
| "serve env url r (CallSend c) = server_send_message env c r"
| "serve env url r (CallGet c m) = server_get_message c m r"
| "serve env url r (CallEdit c m) = server_edit_message env c m r"
| "serve env url r (CallDelete c m) = server_delete_message c m r"
| "serve env url r (CallTyping c) = server_trigger_typing env c r"

text \<open>
  Whatever happens to a server: requests other than imports, through the middleware, and steps of
  scenarios.
\<close>

inductive server_step :: "mock_server \<Rightarrow> mock_server \<Rightarrow> bool" where
  request_served: "call \<noteq> CallImport \<Longrightarrow> server_step s (snd (simulation_middleware renv chance key channel r (serve env url r call) s))"
| scenario_acts: "server_step s (snd (execute_scenario_step env step s))"
| scenario_notes: "server_step s (set_scenario i k v s)"

section \<open>Message list and index agree\<close>

definition message_at :: "(nat \<Rightarrow> jdict) \<Rightarrow> int \<Rightarrow> nat \<Rightarrow> bool" where
  "message_at objs i a \<longleftrightarrow> map_of (objs a) ''id'' = Some (JStr (show_int i)) \<and> (\<exists>c. map_of (objs a) ''channel_id'' = Some (JStr c))"

definition indexed_by :: "mock_server \<Rightarrow> int list \<Rightarrow> bool" where
  "indexed_by s ids \<longleftrightarrow>
     sorted_wrt (<) ids \<and> list_all (\<lambda>i. i \<le> sg_last_id (sv_snowflakes s)) ids \<and> list_all2 (message_at (sv_msg_objs s)) ids (sv_messages s) \<and>
     map_of (sv_by_id s) = map_of (zip (map show_int ids) (sv_messages s)) \<and>
     distinct (sv_messages s) \<and> list_all (\<lambda>a. a < sv_next s) (sv_messages s)"

definition typing_ok :: "jdict list \<Rightarrow> bool" where
  "typing_ok ds \<longleftrightarrow> list_all (\<lambda>d. map_of d ''channel_id'' \<noteq> None) ds"

definition store_ok :: "mock_server \<Rightarrow> bool" where
  "store_ok s \<longleftrightarrow> generator_ok (sv_snowflakes s) \<and> typing_ok (sv_typing s) \<and> (\<exists>ids. indexed_by s ids)"

definition same_messages :: "mock_server \<Rightarrow> mock_server \<Rightarrow> bool" where
  "same_messages s s' \<longleftrightarrow> sv_messages s' = sv_messages s \<and> sv_msg_objs s' = sv_msg_objs s \<and> sv_by_id s' = sv_by_id s \<and>
     sv_snowflakes s' = sv_snowflakes s \<and> sv_next s \<le> sv_next s' \<and> (typing_ok (sv_typing s) \<longrightarrow> typing_ok (sv_typing s'))"

lemma same_messages_refl [simp]: "same_messages s s"
  by (simp add: same_messages_def)

lemma same_messages_trans: "same_messages s t \<Longrightarrow> same_messages t u \<Longrightarrow> same_messages s u"
  by (simp add: same_messages_def)

lemma store_ok_same: "store_ok s \<Longrightarrow> same_messages s s' \<Longrightarrow> store_ok s'"
  by (fastforce simp: store_ok_def same_messages_def indexed_by_def list_all_iff)

lemma record_same [simp]: "same_messages s (record_request r p s)"
  by (simp add: same_messages_def record_request_def)

lemma hub_event_same [simp]: "same_messages s (hub_event t d s)"
  by (simp add: same_messages_def hub_event_def)

lemma sync_same [simp]: "same_messages s (sync_guild_member_counts s)"
  by (simp add: same_messages_def sync_guild_member_counts_def)

lemma ensure_user_same [simp]: "same_messages s (snd (ensure_user u n b d g s))"
  by (simp add: ensure_user_def Let_def same_messages_def sync_guild_member_counts_def split: option.split)

lemma ensure_guild_same [simp]: "same_messages s (ensure_guild g n s)"
  by (simp add: ensure_guild_def same_messages_def split: option.split)

lemma ensure_channel_same [simp]: "same_messages s (ensure_channel c ty n g s)"
  by (simp add: ensure_channel_def Let_def same_messages_def split: option.split)

lemma upsert_profile_same [simp]: "same_messages s (snd (upsert_profile env u p s))"
proof -
  define e where "e = ensure_user u (Some (me_str env (json_or (jget p ''username'') (JStr (''User'' @ u)))))
    (json_truthy (dict_get p ''bot'' (JBool False))) (Some (me_str env (dict_get p ''discriminator'' (JStr ''0''))))
    (if jget p ''global_name'' = JNull then None else Some (me_str env (jget p ''global_name''))) s"
  have "same_messages s (snd e)" by (simp add: e_def)
  then show ?thesis
    unfolding upsert_profile_def Let_def e_def [symmetric]
    by (cases e) (auto simp: same_messages_def sync_guild_member_counts_def)
qed

lemma copy_keys_other: "k \<notin> set ks \<Longrightarrow> map_of (copy_keys ks payload d) k = map_of d k"
  unfolding copy_keys_def by (induction ks arbitrary: d) (auto split: option.split)

lemma map_result_Inr: "(\<And>x. x \<in> set xs \<Longrightarrow> f x = Inr (g x)) \<Longrightarrow> map_result f xs = Inr (map g xs)"
  by (rule map_result_total)

lemma filter_result_Inr: "(\<And>x. x \<in> set xs \<Longrightarrow> P x = Inr (p x)) \<Longrightarrow> filter_result P xs = Inr (filter p xs)"
proof -
  assume P: "\<And>x. x \<in> set xs \<Longrightarrow> P x = Inr (p x)"
  have "map_result (\<lambda>x. bind_result (P x) (\<lambda>b. Inr (if b then [x] else []))) xs = Inr (map (\<lambda>x. if p x then [x] else []) xs)"
    by (rule map_result_Inr) (simp add: P)
  moreover have "concat (map (\<lambda>x. if p x then [x] else []) xs) = filter p xs" by (induction xs) auto
  ultimately show ?thesis by (simp add: filter_result_def)
qed

lemma map_of_filter_keys: "map_of (filter (\<lambda>p. P (fst p)) d) k = (if P k then map_of d k else None)"
  by (induction d) auto

lemma zip_map_fst_snd: "zip (map f (map fst ps)) (map snd ps) = map (\<lambda>p. (f (fst p), snd p)) ps"
  by (induction ps) auto

lemma show_int_eq [simp]: "(show_int i = show_int j) = (i = j)"
  using show_int_inj by auto

lemma zip_map_keys: "zip (map f xs) ys = map (\<lambda>p. (f (fst p), snd p)) (zip xs ys)"
  by (induction xs ys rule: list_induct2') auto

lemma indexed_zip: "indexed_by s ids \<Longrightarrow> map_of (sv_by_id s) = map_of (map (\<lambda>p. (show_int (fst p), snd p)) (zip ids (sv_messages s)))"
  by (simp add: indexed_by_def zip_map_keys)

lemma sorted_filter_zip: "sorted_wrt (<) ids \<Longrightarrow> sorted_wrt (<) (map fst (filter Q (zip ids as)))" for ids :: "int list"
proof (induction ids arbitrary: as)
  case (Cons i ids)
  show ?case
  proof (cases as)
    case (Cons a bs)
    have "\<forall>x \<in> set (map fst (filter Q (zip ids bs))). i < x" using Cons.prems by (auto dest: set_zip_leftD)
    then show ?thesis using Cons Cons.IH [of bs] Cons.prems by auto
  qed simp
qed simp

lemma indexed_filter:
  assumes "indexed_by s ids" and "ps = filter Q (zip ids (sv_messages s))"
    and "sv_messages s' = map snd ps" and "sv_msg_objs s' = sv_msg_objs s" and "sv_next s' = sv_next s" and "sv_snowflakes s' = sv_snowflakes s"
    and "map_of (sv_by_id s') = map_of (map (\<lambda>p. (show_int (fst p), snd p)) ps)"
  shows "indexed_by s' (map fst ps)"
proof -
  have z: "set ps \<subseteq> set (zip ids (sv_messages s))" using assms(2) by auto
  have l: "length ids = length (sv_messages s)" using assms(1) by (auto simp: indexed_by_def list_all2_lengthD)
  have "distinct (map snd (zip ids (sv_messages s)))" using assms(1) l by (simp add: indexed_by_def)
  then have "distinct (map snd ps)" unfolding assms(2) by (rule distinct_map_filter)
  moreover have "list_all2 (message_at (sv_msg_objs s)) (map fst ps) (map snd ps)"
    using assms(1) z by (auto simp: indexed_by_def list_all2_iff in_set_zip zip_map_fst_snd [of id, simplified])
  moreover have "set (map fst ps) \<subseteq> set ids" "set (map snd ps) \<subseteq> set (sv_messages s)"
    using z by (force dest: set_zip_leftD) (use z in \<open>force dest: set_zip_rightD\<close>)
  then have "list_all (\<lambda>i. i \<le> sg_last_id (sv_snowflakes s)) (map fst ps)" "list_all (\<lambda>a. a < sv_next s) (map snd ps)"
    using assms(1) by (auto simp: indexed_by_def list_all_iff)
  moreover have "sorted_wrt (<) (map fst ps)" unfolding assms(2) using assms(1) by (intro sorted_filter_zip) (simp add: indexed_by_def)
  moreover have "zip (map show_int (map fst ps)) (map snd ps) = map (\<lambda>p. (show_int (fst p), snd p)) ps" by (rule zip_map_fst_snd)
  ultimately show ?thesis using assms(3-7) by (simp add: indexed_by_def)
qed


lemma map_of_snoc: "map_of xs k = None \<Longrightarrow> map_of (xs @ [(k, v)]) = (map_of xs)(k \<mapsto> v)"
  by (induction xs) (auto simp: fun_eq_iff split: if_splits)

lemma store_new_ok:
  assumes ok: "store_ok s" and gen: "generate_snowflake now (sv_snowflakes s) = (i, g)"
    and m: "map_of m ''id'' = Some (JStr (show_int i))" "map_of m ''channel_id'' = Some (JStr c)"
  shows "store_ok (store_message (show_int i) m (s\<lparr>sv_snowflakes := g\<rparr>))"
proof -
  obtain ids where ix: "indexed_by s ids" using ok by (auto simp: store_ok_def)
  have b: "sg_last_id (sv_snowflakes s) < i" "sg_last_id g = i" "generator_ok g"
    using generate_snowflake_bounds [OF _ gen] ok by (auto simp: store_ok_def)
  have fresh: "\<forall>j \<in> set ids. j < i" using ix b(1) by (force simp: indexed_by_def list_all_iff)
  have l: "length ids = length (sv_messages s)" using ix by (auto simp: indexed_by_def list_all2_lengthD)
  have "show_int i \<notin> set (map show_int ids)" using fresh by auto
  then have k: "map_of (zip (map show_int ids) (sv_messages s)) (show_int i) = None" using l by (simp add: map_of_zip_is_None)
  have "map_of (zip (map show_int (ids @ [i])) (sv_messages s @ [sv_next s])) = (map_of (zip (map show_int ids) (sv_messages s)))(show_int i \<mapsto> sv_next s)"
    using map_of_snoc [OF k, of "sv_next s"] l by simp
  moreover have "list_all2 (message_at ((sv_msg_objs s)(sv_next s := m))) ids (sv_messages s)"
    using ix by (auto simp: indexed_by_def message_at_def list_all_iff elim!: list.rel_mono_strong)
  ultimately have "indexed_by (store_message (show_int i) m (s\<lparr>sv_snowflakes := g\<rparr>)) (ids @ [i])"
    using ix fresh b m by (auto simp: indexed_by_def store_message_def sorted_wrt_append list_all_iff message_at_def intro!: list_all2_appendI)
  then show ?thesis using ok b by (auto simp: store_ok_def store_message_def)
qed


text \<open>What a request does to the stores: it leaves them, files one new message, or changes or drops messages.\<close>

lemma dict_index_Some: "map_of d k = Some v \<Longrightarrow> dict_index d k = Inr v"
  by (simp add: dict_index_def)

lemma message_obj:
  assumes "indexed_by s ids" and "a \<in> set (sv_messages s)"
  obtains i c where "i \<in> set ids" and "map_of (sv_msg_objs s a) ''id'' = Some (JStr (show_int i))" and "map_of (sv_msg_objs s a) ''channel_id'' = Some (JStr c)"
proof -
  have l2: "list_all2 (message_at (sv_msg_objs s)) ids (sv_messages s)" using assms(1) by (simp add: indexed_by_def)
  obtain n where n: "n < length (sv_messages s)" "sv_messages s ! n = a" using assms(2) by (auto simp: in_set_conv_nth)
  then have "message_at (sv_msg_objs s) (ids ! n) a" "ids ! n \<in> set ids" using l2 by (auto simp: list_all2_conv_all_nth)
  then show ?thesis using that by (auto simp: message_at_def)
qed

lemma index_obj:
  assumes "indexed_by s ids" and "map_of (sv_by_id s) k = Some a"
  shows "a \<in> set (sv_messages s) \<and> map_of (sv_msg_objs s a) ''id'' = Some (JStr k)"
proof -
  have "(k, a) \<in> set (map (\<lambda>p. (show_int (fst p), snd p)) (zip ids (sv_messages s)))"
    using assms indexed_zip [OF assms(1)] by (metis map_of_SomeD)
  then obtain i where i: "(i, a) \<in> set (zip ids (sv_messages s))" "k = show_int i" by auto
  then show ?thesis using assms(1) by (auto simp: indexed_by_def list_all2_iff message_at_def dest: set_zip_rightD)
qed

lemma read_json_keeps:
  "(\<And>p t. same_messages s t \<Longrightarrow> store_ok t \<Longrightarrow> store_ok (snd (k p t))) \<Longrightarrow> store_ok s \<Longrightarrow> store_ok (snd (read_json r k s))"
  by (auto simp: read_json_def split: option.split json.split intro: store_ok_same [OF _ record_same])

lemma build_message_id:
  "build_message env c content author gid tts s = (k, m, s') \<Longrightarrow>
   \<exists>i g. generate_snowflake (me_now_ms env) (sv_snowflakes s) = (i, g) \<and> s' = s\<lparr>sv_snowflakes := g\<rparr> \<and> k = show_int i \<and>
     map_of m ''id'' = Some (JStr k) \<and> map_of m ''channel_id'' = Some (JStr c)"
  by (auto simp: build_message_def split: prod.splits)

lemma build_store_ok:
  assumes "store_ok s" and "build_message env c content author gid tts s = (k, m, s')" and "''id'' \<notin> set ks" and "''channel_id'' \<notin> set ks"
  shows "store_ok (store_message k (copy_keys ks p m) s')"
proof -
  obtain i g where g: "generate_snowflake (me_now_ms env) (sv_snowflakes s) = (i, g)" "s' = s\<lparr>sv_snowflakes := g\<rparr>" "k = show_int i"
      "map_of m ''id'' = Some (JStr k)" "map_of m ''channel_id'' = Some (JStr c)"
    using build_message_id [OF assms(2)] by auto
  show ?thesis unfolding g(2,3)
    by (rule store_new_ok [OF assms(1) g(1)]) (use g(3-5) assms(3,4) in \<open>simp_all add: copy_keys_other\<close>)
qed

lemma hub_event_ok [simp]: "store_ok (hub_event t d s) = store_ok s"
  by (simp add: store_ok_def hub_event_def indexed_by_def)

lemma record_ok [simp]: "store_ok (record_request r p s) = store_ok s"
  by (simp add: store_ok_def record_request_def indexed_by_def)

lemma send_keeps: "store_ok s \<Longrightarrow> store_ok (snd (server_send_message env c r s))"
  unfolding server_send_message_def
proof (erule read_json_keeps [rotated], goal_cases)
  case (1 p t)
  define u where "u = (let s = record_request r (Some p) t in if map_of (sv_channels s) c = None then ensure_channel c 0 None None s else s)"
  have "store_ok u" using 1(2) store_ok_same [OF _ ensure_channel_same] by (simp add: u_def Let_def)
  then show ?case
    using 1(2) build_store_ok [of u env c] unfolding Let_def u_def [symmetric, unfolded Let_def]
    by (auto split: option.split prod.split)
qed

lemma copy_keys_Nil [simp]: "copy_keys [] p m = m"
  by (simp add: copy_keys_def)

lemma inject_keeps:
  assumes "store_ok s"
  shows "store_ok (snd (inject_message env p s))"
proof -
  define c where "c = me_str env (dict_get p ''channel_id'' (JStr ''123''))"
  define s1 where "s1 = (if jget p ''guild_id'' = JNull then s
    else ensure_guild (me_str env (jget p ''guild_id'')) (truthy_str env (jget p ''guild_name'')) s)"
  define s2 where "s2 = ensure_channel c (if jget p ''guild_id'' = JNull \<and> starts_with c ''dm-'' then 1 else 0)
    (truthy_str env (jget p ''channel_name'')) (opt_str env (jget p ''guild_id'')) s1"
  define e where "e = ensure_user (me_str env (dict_get p ''author_id'' (JStr ''2'')))
    (Some (me_str env (dict_get p ''author_username'' (JStr ''MockUser'')))) (json_truthy (dict_get p ''author_bot'' (JBool False))) None None s2"
  have "store_ok s1" using assms store_ok_same [OF _ ensure_guild_same] by (simp add: s1_def)
  then have "store_ok s2" unfolding s2_def by (rule store_ok_same) simp
  then have "store_ok (snd e)" unfolding e_def by (rule store_ok_same) simp
  then show ?thesis
    using build_store_ok [of "snd e" env c _ _ _ _ _ _ _ "[]"]
    unfolding inject_message_def Let_def c_def [symmetric] s1_def [symmetric] s2_def [symmetric] e_def [symmetric]
    by (auto split: prod.split)
qed

lemma with_message_keeps:
  assumes "store_ok s"
    and "\<And>a ids. indexed_by s ids \<Longrightarrow> a \<in> set (sv_messages s) \<Longrightarrow> map_of (sv_by_id s) m = Some a \<Longrightarrow>
       map_of (sv_msg_objs s a) ''id'' = Some (JStr m) \<Longrightarrow> store_ok (snd (k a s))"
  shows "store_ok (snd (with_message c m k s))"
proof -
  obtain ids where ix: "indexed_by s ids" using assms(1) by (auto simp: store_ok_def)
  show ?thesis using assms(1) assms(2) [OF ix] index_obj [OF ix, of m] by (auto simp: with_message_def split: option.split sum.split)
qed

lemma update_obj_ok:
  assumes "store_ok s" and "map_of m ''id'' = map_of (sv_msg_objs s a) ''id''" and "map_of m ''channel_id'' = map_of (sv_msg_objs s a) ''channel_id''"
  shows "store_ok (s\<lparr>sv_msg_objs := (sv_msg_objs s)(a := m)\<rparr>)"
proof -
  have "message_at ((sv_msg_objs s)(a := m)) = message_at (sv_msg_objs s)"
    using assms(2,3) by (auto simp: message_at_def fun_eq_iff)
  then show ?thesis using assms(1) by (simp add: store_ok_def indexed_by_def)
qed

lemma edit_keeps: "store_ok s \<Longrightarrow> store_ok (snd (server_edit_message env c m r s))"
  unfolding server_edit_message_def
  by (erule read_json_keeps [rotated], rule with_message_keeps) (auto simp: Let_def copy_keys_other intro!: update_obj_ok)

lemma map_of_shown_keys: "map_of (map (\<lambda>p. (show_int (fst p), snd p)) xs) (show_int i) = map_of xs i"
  by (induction xs) auto

lemma filtered_ok:
  assumes ok: "store_ok s" and ix: "indexed_by s ids"
    and ms: "sv_messages s' = map snd (filter (Q \<circ> fst) (zip ids (sv_messages s)))"
    and by_id: "\<And>i. i \<in> set ids \<Longrightarrow> map_of (sv_by_id s') (show_int i) = (if Q i then map_of (sv_by_id s) (show_int i) else None)"
    and other: "\<And>k. k \<notin> show_int ` set ids \<Longrightarrow> map_of (sv_by_id s') k = None"
    and rest: "sv_msg_objs s' = sv_msg_objs s" "sv_next s' = sv_next s" "sv_snowflakes s' = sv_snowflakes s" "typing_ok (sv_typing s')"
  shows "store_ok s'"
proof -
  let ?ps = "filter (Q \<circ> fst) (zip ids (sv_messages s))"
  have "map_of (sv_by_id s') k = map_of (map (\<lambda>p. (show_int (fst p), snd p)) ?ps) k" for k
  proof (cases "k \<in> show_int ` set ids")
    case True
    then obtain i where i: "i \<in> set ids" "k = show_int i" by auto
    have "map_of (map (\<lambda>p. (show_int (fst p), snd p)) ?ps) k = (if Q i then map_of (zip ids (sv_messages s)) i else None)"
      using map_of_filter_keys [of Q "zip ids (sv_messages s)" i] by (simp add: i(2) map_of_shown_keys comp_def)
    also have "map_of (zip ids (sv_messages s)) i = map_of (sv_by_id s) k" by (simp add: indexed_zip [OF ix] i(2) map_of_shown_keys)
    finally show ?thesis using by_id [OF i(1)] i(2) by (simp add: comp_def)
  next
    case False
    then have "k \<notin> fst ` set (map (\<lambda>p. (show_int (fst p), snd p)) ?ps)" by (auto dest: set_zip_leftD)
    then have "map_of (map (\<lambda>p. (show_int (fst p), snd p)) ?ps) k = None" by (simp only: map_of_eq_None_iff not_False_eq_True)
    then show ?thesis using other [OF False] by simp
  qed
  then have "map_of (sv_by_id s') = map_of (map (\<lambda>p. (show_int (fst p), snd p)) ?ps)" ..
  then have "indexed_by s' (map fst (filter (Q \<circ> fst) (zip ids (sv_messages s))))"
    by (intro indexed_filter [OF ix refl ms]) (use rest in auto)
  then show ?thesis using ok rest by (auto simp: store_ok_def)
qed

lemma messages_filter:
  assumes "length ids = length as" and "\<And>i a. (i, a) \<in> set (zip ids as) \<Longrightarrow> P a = Q i"
  shows "filter P as = map snd (filter (Q \<circ> fst) (zip ids as))"
  using assms by (induction rule: list_induct2) auto

lemma indexed_pairs:
  assumes "indexed_by s ids"
  shows "length ids = length (sv_messages s)" and "(i, a) \<in> set (zip ids (sv_messages s)) \<Longrightarrow> message_at (sv_msg_objs s) i a"
  using assms by (auto simp: indexed_by_def list_all2_iff)

lemma indexed_unknown:
  assumes "indexed_by s ids" and "k \<notin> show_int ` set ids"
  shows "map_of (sv_by_id s) k = None"
  using assms by (auto simp: indexed_zip [OF assms(1)] map_of_eq_None_iff dest: set_zip_leftD)

definition id_of :: "mock_server \<Rightarrow> nat \<Rightarrow> json" where
  "id_of s a = the (map_of (sv_msg_objs s a) ''id'')"

lemma ids_found:
  assumes "indexed_by s ids" and "set as \<subseteq> set (sv_messages s)"
  shows "map_result (\<lambda>b. dict_index (sv_msg_objs s b) ''id'') as = Inr (map (id_of s) as)"
proof (rule map_result_Inr)
  fix x assume "x \<in> set as"
  then have "x \<in> set (sv_messages s)" using assms(2) by auto
  then show "dict_index (sv_msg_objs s x) ''id'' = Inr (id_of s x)"
    by (rule message_obj [OF assms(1)]) (simp add: dict_index_Some id_of_def)
qed

lemma filter_by_mapped: "map fst (filter (\<lambda>p. P (snd p)) (zip xs (map f xs))) = filter (\<lambda>x. P (f x)) xs"
  by (induction xs) auto

lemma delete_keeps: "store_ok s \<Longrightarrow> store_ok (snd (server_delete_message c m r s))"
  unfolding server_delete_message_def
proof (rule with_message_keeps, goal_cases)
  case (2 a ids)
  let ?s = "record_request r None s"
  let ?s' = "?s\<lparr>sv_messages := filter (\<lambda>x. id_of ?s x \<noteq> JStr m) (sv_messages ?s), sv_by_id := dict_pop (sv_by_id ?s) m\<rparr>"
  have "store_ok ?s'"
  proof (rule filtered_ok [OF _ 2(2), where Q = "\<lambda>i. show_int i \<noteq> m"])
    show "store_ok ?s" using 2(1) by simp
    show "sv_messages ?s' = map snd (filter ((\<lambda>i. show_int i \<noteq> m) \<circ> fst) (zip ids (sv_messages ?s)))"
      using indexed_pairs [OF 2(2)] by (auto simp: message_at_def id_of_def intro!: messages_filter)
    show "typing_ok (sv_typing ?s')" using 2(1) by (simp add: store_ok_def record_request_def)
  qed (use indexed_unknown [OF 2(2)] in auto)
  then show ?case using ids_found [OF 2(2) subset_refl] by (simp add: filter_by_mapped [of "\<lambda>v. v \<noteq> JStr m"])
qed simp

lemma in_channel_total: "map_of d ''channel_id'' = Some v \<Longrightarrow> in_channel c d = Inr (v = JStr c)"
  by (simp add: in_channel_def dict_index_Some)

lemma drop_channel_ok:
  fixes s c
  assumes ok: "store_ok s"
  defines "here \<equiv> \<lambda>a. map_of (sv_msg_objs s a) ''channel_id'' = Some (JStr c)"
    and "elsewhere \<equiv> filter (\<lambda>d. map_of d ''channel_id'' \<noteq> Some (JStr c)) (sv_typing s)"
  defines "gone \<equiv> filter here (sv_messages s)"
  shows "filter_result (\<lambda>a. in_channel c (sv_msg_objs s a)) (sv_messages s) = Inr gone"
    and "map_result (\<lambda>a. dict_index (sv_msg_objs s a) ''id'') gone = Inr (map (id_of s) gone)"
    and "filter_result (\<lambda>d. bind_result (in_channel c d) (\<lambda>b. Inr (\<not> b))) (sv_typing s) = Inr elsewhere"
    and "store_ok (s\<lparr>sv_messages := filter (\<lambda>a. a \<notin> set gone) (sv_messages s), sv_typing := elsewhere,
           sv_by_id := filter (\<lambda>p. JStr (fst p) \<notin> set (map (id_of s) gone)) (sv_by_id s)\<rparr>)"
proof -
  obtain ids where ix: "indexed_by s ids" using ok by (auto simp: store_ok_def)
  note len = indexed_pairs(1) [OF ix] and at_pair = indexed_pairs(2) [OF ix]
  have sub: "set gone \<subseteq> set (sv_messages s)" by (auto simp: gone_def)
  show "filter_result (\<lambda>a. in_channel c (sv_msg_objs s a)) (sv_messages s) = Inr gone"
    unfolding gone_def by (rule filter_result_Inr) (auto elim!: message_obj [OF ix] simp: in_channel_total here_def)
  show "map_result (\<lambda>a. dict_index (sv_msg_objs s a) ''id'') gone = Inr (map (id_of s) gone)" by (rule ids_found [OF ix sub])
  show "filter_result (\<lambda>d. bind_result (in_channel c d) (\<lambda>b. Inr (\<not> b))) (sv_typing s) = Inr elsewhere"
    unfolding elsewhere_def using ok by (intro filter_result_Inr) (auto simp: store_ok_def typing_ok_def list_all_iff in_channel_total)
  have inj: "a = b" if m: "(i, a) \<in> set (zip ids (sv_messages s))" "b \<in> set (sv_messages s)" "id_of s b = JStr (show_int i)" for i a b
  proof -
    obtain j where j: "(j, b) \<in> set (zip ids (sv_messages s))" using m(2) len by (metis in_set_impl_in_set_zip2)
    have "j = i" using at_pair [OF j] m(3) by (simp add: message_at_def id_of_def)
    moreover have "distinct ids" using ix by (auto simp: indexed_by_def strict_sorted_iff)
    ultimately show ?thesis using m(1) j len by (metis map_of_zip_is_None eq_key_imp_eq_value map_fst_zip)
  qed
  have keep: "filter (\<lambda>a. a \<notin> set gone) (sv_messages s) = map snd (filter ((\<lambda>i. JStr (show_int i) \<notin> id_of s ` set gone) \<circ> fst) (zip ids (sv_messages s)))"
  proof (rule messages_filter [OF len])
    fix i a assume p: "(i, a) \<in> set (zip ids (sv_messages s))"
    have i: "id_of s a = JStr (show_int i)" using at_pair [OF p] by (simp add: message_at_def id_of_def)
    have "a \<in> set gone" if m: "JStr (show_int i) \<in> id_of s ` set gone"
    proof -
      obtain b where b: "b \<in> set gone" "id_of s b = JStr (show_int i)" using m by (metis imageE)
      then show ?thesis using inj [OF p _ b(2)] subsetD [OF sub b(1)] by simp
    qed
    then show "(a \<notin> set gone) = (JStr (show_int i) \<notin> id_of s ` set gone)" using imageI [of a "set gone" "id_of s"] i by auto
  qed
  show "store_ok (s\<lparr>sv_messages := filter (\<lambda>a. a \<notin> set gone) (sv_messages s), sv_typing := elsewhere,
           sv_by_id := filter (\<lambda>p. JStr (fst p) \<notin> set (map (id_of s) gone)) (sv_by_id s)\<rparr>)"
    using ok by (intro filtered_ok [OF ok ix, where Q = "\<lambda>i. JStr (show_int i) \<notin> id_of s ` set gone"])
      (use keep indexed_unknown [OF ix] map_of_filter_keys [of "\<lambda>k. JStr k \<notin> id_of s ` set gone" "sv_by_id s"]
       in \<open>auto simp: elsewhere_def store_ok_def typing_ok_def list_all_iff\<close>)
qed

lemma delete_channel_keeps:
  assumes ok: "store_ok s0"
  shows "store_ok (snd (server_delete_channel c r s0))"
proof -
  let ?s = "(record_request r None s0)\<lparr>sv_channels := dict_pop (sv_channels (record_request r None s0)) c\<rparr>"
  have "store_ok ?s" using ok by (rule store_ok_same) (simp add: same_messages_def record_request_def)
  note d = drop_channel_ok [OF this, of c]
  show ?thesis
    using ok d(4) unfolding server_delete_channel_def Let_def d(1) sum.case d(2)
    using d(3) by (simp split: option.split)
qed


lemma seed_ok: "generator_ok (sv_snowflakes s) \<Longrightarrow> store_ok (seed_state s)"
  by (auto simp: store_ok_def seed_state_def typing_ok_def indexed_by_def intro!: exI [of _ "[]"])

lemma reset_keeps: "store_ok s \<Longrightarrow> store_ok (snd (mock_reset r s))"
proof -
  assume "store_ok s"
  then have "store_ok (seed_state (record_request r None s))" by (intro seed_ok) (simp add: store_ok_def record_request_def)
  then show ?thesis by (rule store_ok_same) (simp add: mock_reset_def Let_def same_messages_def)
qed

lemma inject_typing_keeps: "store_ok s \<Longrightarrow> store_ok (snd (inject_typing env c u s))"
proof -
  assume ok: "store_ok s"
  define t where "t = (if map_of (sv_channels s) c = None then ensure_channel c 0 None None s else s)"
  have t: "same_messages s t" by (simp add: t_def)
  have "same_messages t (snd (inject_typing env c u s))"
    unfolding inject_typing_def t_def [symmetric] Let_def
    by (simp add: same_messages_def hub_event_def typing_ok_def split: sum.split prod.split)
  then show ?thesis using ok t store_ok_same by blast
qed

lemma upsert_keeps: "upsert_profile env u p s = (a, s') \<Longrightarrow> store_ok s \<Longrightarrow> store_ok s'"
  using upsert_profile_same [of s env u p] store_ok_same by fastforce

lemma profile_keeps:
  assumes "store_ok s"
  shows "store_ok (snd (create_profile env r s))" and "store_ok (snd (update_profile env u r s))" and "store_ok (snd (set_current_user env r s))"
proof -
  have c: "store_ok (t\<lparr>sv_current := a\<rparr>) = store_ok t" for t a by (simp add: store_ok_def indexed_by_def)
  show "store_ok (snd (create_profile env r s))" unfolding create_profile_def using assms
    by (intro read_json_keeps) (auto simp: Let_def c split: prod.split dest: upsert_keeps)
  show "store_ok (snd (update_profile env u r s))" unfolding update_profile_def using assms
    by (intro read_json_keeps) (auto simp: Let_def c split: prod.split option.split dest: upsert_keeps)
  show "store_ok (snd (set_current_user env r s))" unfolding set_current_user_def using assms
    by (intro read_json_keeps) (auto simp: Let_def c split: option.split)
qed

lemma config_keeps:
  assumes "store_ok s"
  shows "store_ok (snd (set_chaos r s))" and "store_ok (snd (set_ratelimit r s))" and "store_ok (snd (set_permissions env r s))"
proof -
  have c: "store_ok (t\<lparr>sv_config := a\<rparr>) = store_ok t" "store_ok (t\<lparr>sv_windows := w\<rparr>) = store_ok t" "store_ok (t\<lparr>sv_denied := d\<rparr>) = store_ok t"
    "store_ok (t\<lparr>sv_config := a, sv_windows := w\<rparr>) = store_ok t" for t a w d
    by (simp_all add: store_ok_def indexed_by_def)
  show "store_ok (snd (set_chaos r s))" unfolding set_chaos_def using assms
    by (intro read_json_keeps) (auto simp: Let_def c split: prod.split option.split)
  show "store_ok (snd (set_ratelimit r s))" unfolding set_ratelimit_def using assms
    by (intro read_json_keeps) (auto simp: Let_def c split: prod.split option.split)
  show "store_ok (snd (set_permissions env r s))" unfolding set_permissions_def using assms
    by (intro read_json_keeps) (auto simp: Let_def c split: option.split)
qed

lemma scenario_keeps:
  assumes "store_ok s"
  shows "store_ok (snd (start_scenario env i r s))" and "store_ok (snd (cancel_scenario env i r s))" and "store_ok (set_scenario i k v s)"
proof -
  have c: "store_ok (t\<lparr>sv_scenarios := a\<rparr>) = store_ok t" "store_ok (t\<lparr>sv_scenarios := a, sv_tasks := w\<rparr>) = store_ok t" for t a w
    by (simp_all add: store_ok_def indexed_by_def)
  show "store_ok (snd (start_scenario env i r s))" unfolding start_scenario_def using assms
    by (intro read_json_keeps) (auto simp: Let_def c split: option.split json.split list.split)
  show "store_ok (snd (cancel_scenario env i r s))" unfolding cancel_scenario_def using assms by (auto simp: Let_def c split: option.split)
  show "store_ok (set_scenario i k v s)" using assms by (simp add: set_scenario_def c)
qed

lemma channel_keeps:
  assumes "store_ok s"
  shows "store_ok (snd (server_edit_channel ch r s))" and "store_ok (snd (server_create_dm env r s))" and "store_ok (snd (server_trigger_typing env ch r s))"
proof -
  have c: "store_ok (t\<lparr>sv_channels := a\<rparr>) = store_ok t" for t a by (simp add: store_ok_def indexed_by_def)
  show "store_ok (snd (server_edit_channel ch r s))" unfolding server_edit_channel_def using assms
    by (intro read_json_keeps) (auto simp: Let_def c split: option.split)
  have e: "store_ok (ensure_channel x y z w t)" "store_ok (snd (ensure_user x1 x2 x3 x4 x5 t))" if "store_ok t" for x y z w t x1 x2 x3 x4 x5
    using that store_ok_same ensure_channel_same ensure_user_same by blast+
  show "store_ok (snd (server_create_dm env r s))" unfolding server_create_dm_def using assms
    by (intro read_json_keeps) (auto simp: Let_def c case_prod_beta e split: sum.split)
  show "store_ok (snd (server_trigger_typing env ch r s))"
  proof -
    have "store_ok (snd (inject_typing env ch i (record_request r None s)))" for i using assms by (simp add: inject_typing_keeps)
    then show ?thesis using assms unfolding server_trigger_typing_def Let_def
      by (auto split: sum.split prod.split) (metis snd_conv)+
  qed
qed

lemma serve_keeps:
  assumes "store_ok s" and "call \<noteq> CallImport"
  shows "store_ok (snd (serve env url r call s))"
proof (cases call)
  case CallInject
  then show ?thesis using assms(1) unfolding serve.simps CallInject mock_message_def
    by (intro read_json_keeps) (simp_all add: case_prod_beta inject_keeps)
qed (use assms in \<open>auto simp: profile_keeps config_keeps scenario_keeps channel_keeps reset_keeps send_keeps edit_keeps delete_keeps delete_channel_keeps
   export_state_def gateway_plain_def gateway_bot_def server_current_user_def server_get_user_def list_current_user_guilds_def server_get_guild_def
   server_list_guild_channels_def server_get_channel_def server_list_messages_def server_get_message_def Let_def split: option.split
   intro!: with_message_keeps\<close>)


lemma rate_limits_same: "same_messages s (snd (apply_rate_limits env key s))"
  by (auto simp: apply_rate_limits_def Let_def same_messages_def split: prod.split)

lemma middleware_keeps:
  assumes "store_ok s" and "\<And>t. store_ok t \<Longrightarrow> store_ok (snd (handler t))"
  shows "store_ok (snd (simulation_middleware env chance key c r handler s))"
proof -
  define e where "e = (if sc_rate_limit_enabled (sv_config s) then apply_rate_limits env key s else (Inr [], s))"
  have "store_ok (snd e)" using assms(1) store_ok_same [OF _ rate_limits_same] by (simp add: e_def)
  then show ?thesis
    using assms unfolding simulation_middleware_def e_def [symmetric] by (cases e) (auto simp: case_prod_beta split: sum.split)
qed

lemma scenario_step_keeps:
  assumes "store_ok s"
  shows "store_ok (snd (execute_scenario_step env step s))"
proof -
  have c: "store_ok (t\<lparr>sv_config := a\<rparr>) = store_ok t" for t a by (simp add: store_ok_def indexed_by_def)
  have "store_ok (snd (scenario_typing env data s))" for data
    using assms inject_typing_keeps [OF assms] unfolding scenario_typing_def
    by (auto split: sum.split prod.split) (metis snd_conv)+
  moreover have "store_ok (snd (inject_message env data s))" for data by (rule inject_keeps [OF assms])
  ultimately show ?thesis using assms unfolding execute_scenario_step_def Let_def
    by (auto simp: c split: json.split prod.split option.split)
qed

lemma server_step_keeps: "store_ok s \<Longrightarrow> server_step s s' \<Longrightarrow> store_ok s'"
  by (auto elim!: server_step.cases intro!: middleware_keeps serve_keeps scenario_step_keeps scenario_keeps)

interpretation mock_store: transition_invariant server_step "new_mock_server cfg" store_ok for cfg
  by unfold_locales (auto simp: new_mock_server_def new_generator_ok intro: seed_ok server_step_keeps)


section \<open>What a client sees\<close>

text \<open>
  A request of the API client as it arrives at the server, and the answer when no fault is
  simulated: the path below \<open>/api/v10\<close> picks the handler.
\<close>

definition query_text :: "json \<Rightarrow> string" where
  "query_text v = (case v of JInt i \<Rightarrow> show_int i | JStr x \<Rightarrow> x | _ \<Rightarrow> [])"

definition wire_request :: "api_request \<Rightarrow> mock_request" where
  "wire_request q =
     \<lparr>mr_method = ar_method q, mr_path = ''/api/v10'' @ ar_path q,
      mr_query = (case ar_params q of None \<Rightarrow> [] | Some ps \<Rightarrow> map (\<lambda>(k, v). (k, query_text v)) ps), mr_body = ar_json q\<rparr>"

definition answer :: "mock_env \<Rightarrow> string \<Rightarrow> api_request \<Rightarrow> mock_server \<Rightarrow> mock_response \<times> mock_server" where
  "answer env url q s =
     (case route (ar_method q) (tl (py_split (CHR ''/'') (ar_path q))) of
        None \<Rightarrow> (NotFound [], s)
      | Some call \<Rightarrow> serve env url (wire_request q) call s)"

lemma message_routes:
  "answer env url ((api_post [Lit ''channels'', Num c, Lit ''messages''])\<lparr>ar_json := b\<rparr>) s =
     server_send_message env (show_int c) (wire_request ((api_post [Lit ''channels'', Num c, Lit ''messages''])\<lparr>ar_json := b\<rparr>)) s"
  "answer env url (api_fetch_message c m) s = server_get_message (show_int c) (show_int m) (wire_request (api_fetch_message c m)) s"
  "answer env url (api_list_messages c l be af ar) s = server_list_messages (show_int c) (wire_request (api_list_messages c l be af ar)) s"
  by (simp_all add: answer_def api_verbs api_fetch_message_def api_list_messages_def Let_def split_render plain_segment_def route_def)

text \<open>A successful send, taken apart.\<close>

lemma ensure_channel_users [simp]:
  "sv_user_objs (ensure_channel c ty n g s) = sv_user_objs s" "sv_current (ensure_channel c ty n g s) = sv_current s"
  by (simp_all add: ensure_channel_def Let_def split: option.split)

lemma ensure_channel_new: "map_of (sv_channels s) c = None \<Longrightarrow> map_of (sv_channels (ensure_channel c 0 None None s)) c =
    Some \<lparr>ch_data = [(''id'', JStr c), (''type'', JInt 0), (''name'', JStr (''channel-'' @ c))], ch_recipient = None\<rparr>"
  by (simp add: ensure_channel_def opt_set_def truthy_text_def)

lemma validation_fails: "validate_message_payload str cfg p = Some x \<Longrightarrow> \<exists>j hs. x = Respond 400 j hs"
  by (auto simp: validate_message_payload_def Let_def discord_error_def split: if_splits)

lemma send_success:
  assumes sent: "server_send_message env c r s = (Respond 200 (JDict m) hs, s')"
  obtains payload content tts k m0 u u' where "same_messages s u"
    and "build_message env c content (sv_user_objs s (sv_current s))
      (case map_of (sv_channels s) c of None \<Rightarrow> JNull | Some ch \<Rightarrow> jget (ch_data ch) ''guild_id'') tts u = (k, m0, u')"
    and "m = copy_keys [''embeds'', ''components'', ''flags'', ''message_reference'', ''poll''] payload m0"
    and "s' = hub_event ''MESSAGE_CREATE'' (JDict m) (store_message k m u')"
proof -
  obtain p where p: "mr_body r = Some (JDict p)" using sent
    by (auto simp: server_send_message_def read_json_def invalid_json_def discord_error_def split: option.splits json.splits)
  define s1 where "s1 = record_request r (Some p) s"
  define u where "u = (if map_of (sv_channels s1) c = None then ensure_channel c 0 None None s1 else s1)"
  define g where "g = (case map_of (sv_channels u) c of None \<Rightarrow> JNull | Some ch \<Rightarrow> jget (ch_data ch) ''guild_id'')"
  obtain k m0 u' where b: "build_message env c (me_str env (dict_get p ''content'' (JStr []))) (sv_user_objs u (sv_current u)) g
      (json_truthy (dict_get p ''tts'' (JBool False))) u = (k, m0, u')" by (metis prod_cases3)
  have same: "same_messages s u" unfolding u_def s1_def using same_messages_trans [OF record_same ensure_channel_same] by simp
  have user: "sv_user_objs u (sv_current u) = sv_user_objs s (sv_current s)" by (simp add: u_def s1_def record_request_def)
  have guild: "g = (case map_of (sv_channels s) c of None \<Rightarrow> JNull | Some ch \<Rightarrow> jget (ch_data ch) ''guild_id'')"
    using ensure_channel_new [of s1 c] by (auto simp: g_def u_def s1_def record_request_def jget_def dict_get_def)
  have v: "validate_message_payload (me_str env) (sv_config s1) p = None"
    using sent validation_fails [of "me_str env" "sv_config s1" p]
    by (cases "validate_message_payload (me_str env) (sv_config s1) p") (auto simp: server_send_message_def read_json_def p Let_def s1_def [symmetric])
  have "m = copy_keys [''embeds'', ''components'', ''flags'', ''message_reference'', ''poll''] p m0 \<and>
      s' = hub_event ''MESSAGE_CREATE'' (JDict m) (store_message k m u')"
    using sent unfolding server_send_message_def read_json_def p option.case json.case Let_def s1_def [symmetric] v
      u_def [symmetric] g_def [symmetric] b prod.case by auto
  then show ?thesis using that same b [unfolded user guild] by blast
qed

lemma last_slice_snoc: "0 < l \<Longrightarrow> \<exists>ys. last_slice l (xs @ [x]) = ys @ [x] \<and> int (length ys) < l"
  by (auto simp: last_slice_def)

lemma list_newest:
  assumes ok: "store_ok s" and last: "sv_messages s = as @ [a]" and here: "map_of (sv_msg_objs s a) ''channel_id'' = Some (JStr c)"
    and q: "mr_query r = [(''limit'', show_int l)]" and l: "0 < l"
  shows "\<exists>older. fst (server_list_messages c r s) = Respond 200 (JList (JDict (sv_msg_objs s a) # older)) [] \<and> int (length older) < l"
proof -
  obtain ids where ix: "indexed_by s ids" using ok by (auto simp: store_ok_def)
  let ?objs = "map (sv_msg_objs s) (sv_messages s)"
  let ?P = "\<lambda>d. map_of d ''channel_id'' = Some (JStr c)"
  have f: "filter_result (in_channel c) ?objs = Inr (filter ?P ?objs)"
  proof (rule filter_result_Inr)
    fix d assume "d \<in> set ?objs"
    then obtain b where b: "b \<in> set (sv_messages s)" "d = sv_msg_objs s b" by auto
    show "in_channel c d = Inr (?P d)" by (rule message_obj [OF ix b(1)]) (simp add: in_channel_total b(2))
  qed
  have "filter ?P ?objs = filter ?P (map (sv_msg_objs s) as) @ [sv_msg_objs s a]" using last here by simp
  then obtain ys where ys: "last_slice l (filter ?P ?objs) = ys @ [sv_msg_objs s a]" "int (length ys) < l"
    using last_slice_snoc [OF l, of "filter ?P (map (sv_msg_objs s) as)" "sv_msg_objs s a"] by (simp only:) (elim exE conjE, simp)
  have "fst (server_list_messages c r s) = Respond 200 (JList (map JDict (rev (last_slice l (filter ?P ?objs))))) []"
    using f by (simp add: server_list_messages_def q opt_filter_def record_request_def dict_get_def)
  then show ?thesis using ys by simp
qed

lemma send_stored:
  assumes ok: "store_ok s" and sent: "server_send_message env c r s = (Respond 200 (JDict m) hs, s')"
  obtains i n where "map_of m ''id'' = Some (JStr (show_int i))" and "map_of m ''channel_id'' = Some (JStr c)" and "map_of (sv_by_id s) (show_int i) = None"
    and "store_ok s'" and "sv_messages s' = sv_messages s @ [n]" and "sv_msg_objs s' n = m" and "map_of (sv_by_id s') (show_int i) = Some n"
proof -
  obtain p content author gid tts k m0 u u' where u: "same_messages s u" and b: "build_message env c content author gid tts u = (k, m0, u')"
    and m: "m = copy_keys [''embeds'', ''components'', ''flags'', ''message_reference'', ''poll''] p m0"
    and s': "s' = hub_event ''MESSAGE_CREATE'' (JDict m) (store_message k m u')"
    using send_success [OF sent] by metis
  obtain i g where g: "generate_snowflake (me_now_ms env) (sv_snowflakes u) = (i, g)" "u' = u\<lparr>sv_snowflakes := g\<rparr>" "k = show_int i"
      "map_of m0 ''id'' = Some (JStr k)" "map_of m0 ''channel_id'' = Some (JStr c)"
    using build_message_id [OF b] by auto
  have id: "map_of m ''id'' = Some (JStr (show_int i))" "map_of m ''channel_id'' = Some (JStr c)" using g m by (simp_all add: copy_keys_other)
  have ok': "store_ok s'" using send_keeps [OF ok, of env c r] sent by simp
  have st: "sv_messages s' = sv_messages s @ [sv_next u]" "sv_msg_objs s' (sv_next u) = m" "map_of (sv_by_id s') (show_int i) = Some (sv_next u)"
    using s' g(2,3) u by (simp_all add: hub_event_def store_message_def same_messages_def)
  have "sg_last_id (sv_snowflakes s) < i" using generate_snowflake_bounds [OF _ g(1)] ok u by (simp add: same_messages_def store_ok_def)
  then have fresh: "map_of (sv_by_id s) (show_int i) = None"
  proof -
    assume late: "sg_last_id (sv_snowflakes s) < i"
    obtain ids where ix: "indexed_by s ids" using ok by (auto simp: store_ok_def)
    have "j \<noteq> i" if "j \<in> set ids" for j using ix that late by (force simp: indexed_by_def list_all_iff)
    then have "i \<notin> set ids" by blast
    then show ?thesis by (intro indexed_unknown [OF ix]) auto
  qed
  show ?thesis by (rule that [OF id fresh ok' st])
qed

lemma fetch_stored:
  assumes "map_of (sv_by_id s) (show_int i) = Some n" and "map_of (sv_msg_objs s n) ''channel_id'' = Some (JStr (show_int c))"
  shows "answer env url (api_fetch_message c i) s =
    (Respond 200 (JDict (sv_msg_objs s n)) [], record_request (wire_request (api_fetch_message c i)) None s)"
  using assms by (simp add: message_routes server_get_message_def with_message_def record_request_def in_channel_total)

text \<open>
  A message sent through the API client is found again. In every state the mock server can
  reach, when it answers the client's send request with a message, that message has a fresh id, the
  client's fetch of that id returns it unchanged, and it is the first of the messages that the
  client lists, whatever the limit, of which there are at most that many.
\<close>

theorem sent_message_found:
  assumes "reachable_from server_step (new_mock_server cfg) s" and "api_send_message c payload None = Inr q"
    and "answer env url q s = (Respond 200 (JDict m) hs, s')"
  shows "\<exists>i. map_of m ''id'' = Some (JStr (show_int i)) \<and> map_of m ''channel_id'' = Some (JStr (show_int c)) \<and> map_of (sv_by_id s) (show_int i) = None \<and>
    fst (answer env' url (api_fetch_message c i) s') = Respond 200 (JDict m) [] \<and>
    (\<forall>l > 0. \<exists>older. fst (answer env' url (api_list_messages c l None None None) s') = Respond 200 (JList (JDict m # older)) [] \<and> int (length older) < l)"
proof -
  have ok: "store_ok s" using mock_store.reachable_inv [OF assms(1)] .
  have q: "q = (api_post [Lit ''channels'', Num c, Lit ''messages''])\<lparr>ar_json := Some (JDict payload)\<rparr>" using assms(2) by (simp add: api_send_message_def)
  have sent: "server_send_message env (show_int c) (wire_request q) s = (Respond 200 (JDict m) hs, s')"
    using assms(3) by (simp add: q message_routes)
  obtain i n where id: "map_of m ''id'' = Some (JStr (show_int i))" "map_of m ''channel_id'' = Some (JStr (show_int c))"
    and fresh: "map_of (sv_by_id s) (show_int i) = None" and ok': "store_ok s'"
    and st: "sv_messages s' = sv_messages s @ [n]" "sv_msg_objs s' n = m" "map_of (sv_by_id s') (show_int i) = Some n"
    using send_stored [OF ok sent] by blast
  have fetch: "fst (answer env' url (api_fetch_message c i) s') = Respond 200 (JDict m) []"
    using fetch_stored [OF st(3)] st(2) id(2) by simp
  have "\<exists>older. fst (answer env' url (api_list_messages c l None None None) s') = Respond 200 (JList (JDict m # older)) [] \<and> int (length older) < l"
    if "0 < l" for l
  proof -
    have "mr_query (wire_request (api_list_messages c l None None None)) = [(''limit'', show_int l)]"
      by (simp add: wire_request_def api_list_messages_def optional_param_def query_text_def)
    from list_newest [OF ok' st(1) _ this that] show ?thesis using st(2) id(2) by (simp add: message_routes)
  qed
  then show ?thesis using id fresh fetch by blast
qed

definition plain_env :: mock_env where
  "plain_env = \<lparr>me_str = (\<lambda>v. case v of JStr x \<Rightarrow> x | _ \<Rightarrow> []), me_now_ms = 1420070400001, me_unix = 0, me_iso = ''2025-01-01T00:00:00+00:00''\<rparr>"

lemma plain_send:
  "\<exists>m s'. answer plain_env [] ((api_post [Lit ''channels'', Num 123, Lit ''messages''])\<lparr>ar_json := Some (JDict [(''content'', JStr ''hi'')])\<rparr>)
     (new_mock_server default_sim_config) = (Respond 200 (JDict m) [], s')"
proof -
  have v: "validate_message_payload (me_str plain_env) cfg [(''content'', JStr ''hi'')] = None" for cfg
    by (simp add: validate_message_payload_def Let_def jget_def dict_get_def plain_env_def py_strip_def is_space_def MAX_CONTENT_LENGTH_def)
  show ?thesis by (simp add: message_routes server_send_message_def read_json_def wire_request_def v Let_def split: prod.split)
qed

theorem sent_message_found_witness:
  "\<exists>m s' i. fst (answer plain_env [] (api_fetch_message 123 i) s') = Respond 200 (JDict m) [] \<and> map_of m ''id'' = Some (JStr (show_int i))"
proof -
  let ?p = "[(''content'', JStr ''hi'')]"
  obtain m s' where a: "answer plain_env [] ((api_post [Lit ''channels'', Num 123, Lit ''messages''])\<lparr>ar_json := Some (JDict ?p)\<rparr>)
     (new_mock_server default_sim_config) = (Respond 200 (JDict m) [], s')" using plain_send by blast
  show ?thesis
    using sent_message_found [OF reachable_start _ a, where c = 123 and payload = ?p and env' = plain_env] by (auto simp: api_send_message_def)
qed

lemma last_dispatched: "sv_dispatched (hub_event t d s) = sv_dispatched s @ [(t, d)]"
  by (simp add: hub_event_def)

lemma build_message_fields:
  "build_message env c content author gid tts s = (k, m, s') \<Longrightarrow>
   map_of m ''timestamp'' = Some (JStr (me_iso env)) \<and> map_of m ''edited_timestamp'' = Some JNull \<and> map_of m ''author'' = Some (JDict author) \<and>
   map_of m ''guild_id'' = (if gid = JNull then None else Some gid) \<and>
   (\<forall>x. x \<notin> set [''id'', ''channel_id'', ''content'', ''tts'', ''timestamp'', ''edited_timestamp'', ''author'', ''guild_id''] \<longrightarrow> map_of m x = None)"
  by (auto simp: build_message_def split: prod.splits if_splits)

lemma sent_message_ok:
  assumes sent: "server_send_message env (show_int c) r s = (Respond 200 (JDict m) hs, s')"
    and user: "user_ok (JDict (sv_user_objs s (sv_current s)))"
    and guild: "case map_of (sv_channels s) (show_int c) of None \<Rightarrow> True | Some ch \<Rightarrow> jget (ch_data ch) ''guild_id'' = JNull \<or> int_ok (jget (ch_data ch) ''guild_id'')"
    and clock: "time_ok fromiso (JStr (me_iso env))"
  shows "message_ok fromiso m" and "map_of m ''user'' = None" and "\<exists>i. map_of m ''id'' = Some (JStr (show_int i))"
    and "List.last (sv_dispatched s') = (''MESSAGE_CREATE'', JDict m)"
proof -
  define gid where "gid = (case map_of (sv_channels s) (show_int c) of None \<Rightarrow> JNull | Some ch \<Rightarrow> jget (ch_data ch) ''guild_id'')"
  let ?ks = "[''embeds'', ''components'', ''flags'', ''message_reference'', ''poll'']"
  obtain p content tts k m0 u u' where b: "build_message env (show_int c) content (sv_user_objs s (sv_current s)) gid tts u = (k, m0, u')"
    and m: "m = copy_keys ?ks p m0" and s': "s' = hub_event ''MESSAGE_CREATE'' (JDict m) (store_message k m u')"
    using send_success [OF sent] unfolding gid_def by metis
  obtain i where i: "map_of m0 ''id'' = Some (JStr (show_int i))" "map_of m0 ''channel_id'' = Some (JStr (show_int c))"
    using build_message_id [OF b] by auto
  have other: "map_of m x = map_of m0 x" if "x \<notin> set ?ks" for x unfolding m by (rule copy_keys_other [OF that])
  note f = build_message_fields [OF b]
  have g: "gid = JNull \<or> int_ok gid" using guild unfolding gid_def by (cases "map_of (sv_channels s) (show_int c)") simp_all
  have "own_part_ok fromiso m" unfolding own_part_ok_def jget_def dict_get_def req_ok_def opt_ok_def list_ok_def
    using f i user clock g by (auto simp: other int_ok_def json_truthy_def)
  then show "message_ok fromiso m" using f by (subst message_ok.simps) (simp add: other)
  show "map_of m ''user'' = None" using f by (simp add: other)
  show "\<exists>i. map_of m ''id'' = Some (JStr (show_int i))" using i by (auto simp: other)
  show "List.last (sv_dispatched s') = (''MESSAGE_CREATE'', JDict m)" by (simp add: s' last_dispatched)
qed

text \<open>
  What the mock server dispatches, the client's event parser understands. When the current user
  and the channel's guild have numeric ids and the clock prints times that \<open>fromisoformat\<close> reads, the
  last event handed to the gateway hub by a successful send is a MESSAGE\_CREATE that the client
  parses into an event whose message has the id that the send returned.
\<close>

theorem sent_message_delivered:
  assumes "reachable_from server_step (new_mock_server cfg) s" and "api_send_message c payload None = Inr q"
    and "answer env url q s = (Respond 200 (JDict m) hs, s')"
    and "user_ok (JDict (sv_user_objs s (sv_current s)))"
    and "case map_of (sv_channels s) (show_int c) of None \<Rightarrow> True | Some ch \<Rightarrow> jget (ch_data ch) ''guild_id'' = JNull \<or> int_ok (jget (ch_data ch) ''guild_id'')"
    and "time_ok fromiso (JStr (me_iso env))"
  shows "\<exists>i ev. map_of m ''id'' = Some (JStr (show_int i)) \<and> List.last (sv_dispatched s') = (''MESSAGE_CREATE'', JDict m) \<and>
    parse_event fromiso now uuid h ''MESSAGE_CREATE'' (JDict m) = Inr ev \<and> pe_slot ev = Some ''message'' \<and> obj_id (pe_object ev) = i"
proof -
  have q: "q = (api_post [Lit ''channels'', Num c, Lit ''messages''])\<lparr>ar_json := Some (JDict payload)\<rparr>" using assms(2) by (simp add: api_send_message_def)
  have sent: "server_send_message env (show_int c) (wire_request q) s = (Respond 200 (JDict m) hs, s')"
    using assms(3) by (simp add: q message_routes)
  note ok = sent_message_ok [OF sent assms(4-6)]
  obtain i where id: "map_of m ''id'' = Some (JStr (show_int i))" using ok(3) by blast
  obtain as where pm: "parse_message fromiso now h (JDict m) = Inr (AObj ''Message'' as)" using message_total [OF ok(1)] by blast
  obtain ch gd where "message_channel h (JDict m) = Inr ch" "cached_guild h m = Inr gd" using parse_message_parts [OF pm] by metis
  moreover have "req_ok m ''channel_id''" using ok(1) by (simp add: message_ok.simps own_part_ok_def)
  ultimately obtain cc where cc: "cached_channel h m = Inr cc" "cached_guild h m = Inr gd" using message_channel_cached by blast
  have "\<exists>ev. parse_event fromiso now uuid h ''MESSAGE_CREATE'' (JDict m) = Inr ev \<and> pe_slot ev = Some ''message'' \<and> pe_object ev = AObj ''Message'' as"
    using parse_event_message [OF _ pm, of "''MESSAGE_CREATE''" uuid] cc ok(2) by (simp add: message_events_def)
  moreover have "obj_id (AObj ''Message'' as) = i" using message_id [OF pm id] by simp
  ultimately show ?thesis using id ok(4) by auto
qed

theorem sent_message_delivered_witness:
  "\<exists>m ev. parse_event (\<lambda>_. Inr 0) 0 ''u'' new_host ''MESSAGE_CREATE'' (JDict m) = Inr ev \<and> pe_slot ev = Some ''message''"
proof -
  let ?p = "[(''content'', JStr ''hi'')]"
  obtain m s' where a: "answer plain_env [] ((api_post [Lit ''channels'', Num 123, Lit ''messages''])\<lparr>ar_json := Some (JDict ?p)\<rparr>)
     (new_mock_server default_sim_config) = (Respond 200 (JDict m) [], s')" using plain_send by blast
  have one: "int_ok (JStr ''1'')" "int_ok (JStr ''999'')" by code_simp+
  have "user_ok (JDict (sv_user_objs (new_mock_server default_sim_config) (sv_current (new_mock_server default_sim_config))))"
    using one by (simp add: new_mock_server_def seed_state_def seed_user_def user_ok_def req_ok_def)
  moreover have "show_int 123 = ''123''" by code_simp
  ultimately show ?thesis
    using sent_message_delivered [OF reachable_start _ a, where c = 123 and payload = ?p and fromiso = "\<lambda>_. Inr 0" and now = 0 and uuid = "''u''" and h = new_host] one
    by (fastforce simp: api_send_message_def new_mock_server_def seed_state_def jget_def dict_get_def time_ok_def)
qed



end
