(* ===== verification/MessageService.thy ===== *)
theory MessageService
  imports Components MockServerLaws
begin

text \<open>
  The message service of the bot (src/vaidcord-py/src/vaidcord/_internal/services/messages.py) over
  the API client: sending, replies, direct messages, polls, reading, reactions and pins. The
  requests go through a caller \<open>api\<close>; it is the HTTP client in one theorem and the mock server, seen
  through the HTTP status mapping, in another.
\<close>

section \<open>Operations\<close>

type_synonym 's caller = "api_request \<Rightarrow> 's \<Rightarrow> (http_failure + json) \<times> 's"

definition of_result :: "'a result \<Rightarrow> http_failure + 'a" where
  "of_result r = (case r of Inl e \<Rightarrow> Inl (PythonError e) | Inr x \<Rightarrow> Inr x)"

text \<open>One request whose answer is parsed.\<close>

definition parsed :: "'s caller \<Rightarrow> (json \<Rightarrow> 'a result) \<Rightarrow> api_request \<Rightarrow> 's \<Rightarrow> (http_failure + 'a) \<times> 's" where
  "parsed api f q s = (case api q s of (Inl e, s1) \<Rightarrow> (Inl e, s1) | (Inr v, s1) \<Rightarrow> (of_result (f v), s1))"

definition parse_all :: "(json \<Rightarrow> 'a result) \<Rightarrow> json \<Rightarrow> 'a list result" where
  "parse_all f v = bind_result (json_iter v) (map_result f)"

record message_args =
  ma_content :: "string option"
  ma_tts :: bool
  ma_embeds :: "jdict list option"
  ma_allowed_mentions :: "jdict option"
  ma_components :: "jdict list option"
  ma_sticker_ids :: "int list option"
  ma_message_reference :: "jdict option"
  ma_flags :: "int option"
  ma_poll :: "jdict option"

definition no_args :: message_args where
  "no_args = \<lparr>ma_content = None, ma_tts = False, ma_embeds = None, ma_allowed_mentions = None, ma_components = None, ma_sticker_ids = None,
     ma_message_reference = None, ma_flags = None, ma_poll = None\<rparr>"

definition truthy_list :: "('a \<Rightarrow> json) \<Rightarrow> 'a list option \<Rightarrow> json option" where
  "truthy_list f v = (case v of Some (x # xs) \<Rightarrow> Some (JList (map f (x # xs))) | _ \<Rightarrow> None)"

definition message_payload :: "message_args \<Rightarrow> jdict" where
  "message_payload a =
     set_optionals
       [(''content'', map_option JStr (ma_content a)), (''embeds'', truthy_list JDict (ma_embeds a)),
        (''allowed_mentions'', map_option JDict (ma_allowed_mentions a)), (''components'', truthy_list JDict (ma_components a)),
        (''sticker_ids'', truthy_list JInt (ma_sticker_ids a)), (''message_reference'', map_option JDict (ma_message_reference a)),
        (''flags'', map_option JInt (ma_flags a)), (''poll'', map_option JDict (ma_poll a))]
       [(''tts'', JBool (ma_tts a))]"

definition has_sendable_content :: "message_args \<Rightarrow> bool" where
  "has_sendable_content a \<longleftrightarrow>
     list_ex (\<lambda>k. json_truthy (jget (message_payload a) k)) [''content'', ''embeds'', ''components'', ''sticker_ids'', ''poll''] \<or>
     ma_message_reference a \<noteq> None"

definition service_send_message :: "'s caller \<Rightarrow> int \<Rightarrow> message_args \<Rightarrow> 's \<Rightarrow> (http_failure + json) \<times> 's" where
  "service_send_message api channel_id a s =
     (if \<not> has_sendable_content a then
        (Inl (PythonError (ValueError
           ''send_message requires at least one of content/embeds/components/sticker_ids/message_reference'')), s)
      else api ((api_post [Lit ''channels'', Num channel_id, Lit ''messages''])\<lparr>ar_json := Some (JDict (message_payload a))\<rparr>) s)"

definition service_reply ::
  "'s caller \<Rightarrow> int \<Rightarrow> int \<Rightarrow> string \<Rightarrow> bool \<Rightarrow> jdict option \<Rightarrow> bool \<Rightarrow> 's \<Rightarrow> (http_failure + json) \<times> 's" where
  "service_reply api channel_id message_id content tts allowed_mentions mention_author =
     (let mentions = (if mention_author then allowed_mentions
                      else Some (dict_set (case allowed_mentions of None \<Rightarrow> [] | Some d \<Rightarrow> d) ''replied_user'' (JBool False)))
      in service_send_message api channel_id
           (no_args\<lparr>ma_content := Some content, ma_tts := tts, ma_allowed_mentions := mentions,
                    ma_message_reference := Some [(''message_id'', JStr (show_int message_id))]\<rparr>))"

definition send_components_v2 :: "'s caller \<Rightarrow> int \<Rightarrow> jdict list \<Rightarrow> jdict option \<Rightarrow> int \<Rightarrow> 's \<Rightarrow> (http_failure + json) \<times> 's" where
  "send_components_v2 api channel_id components allowed_mentions flags =
     service_send_message api channel_id
       (no_args\<lparr>ma_components := Some components, ma_allowed_mentions := allowed_mentions, ma_flags := Some (or flags IS_COMPONENTS_V2)\<rparr>)"

text \<open>
  The \<open>except DiscordAPIError\<close> clauses of \<open>send_dm\<close>; no other class derives from DiscordAPIError.
\<close>

definition dm_failure :: "string \<Rightarrow> string \<Rightarrow> http_failure \<Rightarrow> http_failure" where
  "dm_failure limited forbidden e =
     (case e of
        ApiError x \<Rightarrow>
          if ve_class x \<noteq> DiscordAPIError then e
          else if ve_status x = Some 429 then ApiError (rate_limit_error (JStr limited) (JFloat 0) (JBool False) (ve_raw_data x))
          else if ve_status x = Some 403 then ApiError (forbidden_error (JStr forbidden) (ve_raw_data x))
          else e
      | PythonError _ \<Rightarrow> e)"

definition open_dm :: "int \<Rightarrow> api_request" where
  "open_dm user_id =
     (api_post [Lit ''users'', Lit ''@me'', Lit ''channels''])\<lparr>ar_json := Some (JDict [(''recipient_id'', JStr (show_int user_id))])\<rparr>"

definition cache_message :: "attr \<Rightarrow> host \<Rightarrow> host" where
  "cache_message message h =
     h\<lparr>ho_channels := dict_set (ho_channels h) (obj_id (attr_get message ''channel'')) (attr_get message ''channel''),
       ho_users := dict_set (ho_users h) (obj_id (attr_get message ''author'')) (attr_get message ''author'')\<rparr>"

definition send_dm ::
  "'s caller \<Rightarrow> (string \<Rightarrow> real result) \<Rightarrow> real \<Rightarrow> int \<Rightarrow> message_args \<Rightarrow> host \<Rightarrow> 's \<Rightarrow> (http_failure + attr) \<times> host \<times> 's" where
  "send_dm api fromiso now user_id a h s =
     (case api (open_dm user_id) s of
        (Inl e, s1) \<Rightarrow>
          (Inl (dm_failure ''Rate limited while opening DM channel''
             ''Cannot open DM channel. User may have DMs disabled or no shared server/permissions.'' e), h, s1)
      | (Inr dm_channel, s1) \<Rightarrow>
          (case bind_result (json_index dm_channel ''id'') py_int of
             Inl e \<Rightarrow> (Inl (PythonError e), h, s1)
           | Inr channel_id \<Rightarrow>
               (case service_send_message api channel_id a s1 of
                  (Inl e, s2) \<Rightarrow>
                    (Inl (dm_failure ''Rate limited while sending DM message''
                       ''Cannot send DM. User may have DMs disabled or no shared server/permissions.'' e), h, s2)
                | (Inr message_data, s2) \<Rightarrow>
                    (case parse_message fromiso now h message_data of
                       Inl e \<Rightarrow> (Inl (PythonError e), h, s2)
                     | Inr message \<Rightarrow> (Inr message, cache_message message h, s2)))))"

definition poll_answers :: "string list \<Rightarrow> json list result" where
  "poll_answers answers =
     map_result (\<lambda>answer. if py_strip answer = [] then Inl (ValueError ''Poll answers cannot be empty'')
       else Inr (JDict [(''poll_media'', JDict [(''text'', JStr (py_strip answer))])])) answers"

definition build_poll :: "string \<Rightarrow> string list \<Rightarrow> int \<Rightarrow> bool \<Rightarrow> jdict result" where
  "build_poll question answers duration_hours allow_multiselect =
     (if py_strip question = [] then Inl (ValueError ''Poll question cannot be empty'')
      else if length answers < 2 then Inl (ValueError ''Poll requires at least 2 answers'')
      else if 10 < length answers then Inl (ValueError ''Poll supports at most 10 answers'')
      else if duration_hours < 1 \<or> 768 < duration_hours then Inl (ValueError ''Poll duration must be between 1 and 768 hours'')
      else bind_result (poll_answers answers) (\<lambda>normalized.
             Inr [(''question'', JDict [(''text'', JStr (py_strip question))]), (''answers'', JList normalized), (''duration'', JInt duration_hours),
                  (''allow_multiselect'', JBool allow_multiselect)]))"

definition send_poll ::
  "'s caller \<Rightarrow> int \<Rightarrow> string \<Rightarrow> string list \<Rightarrow> int \<Rightarrow> bool \<Rightarrow> string option \<Rightarrow> 's \<Rightarrow> (http_failure + json) \<times> 's" where
  "send_poll api channel_id question answers duration_hours allow_multiselect content s =
     (case build_poll question answers duration_hours allow_multiselect of
        Inl e \<Rightarrow> (Inl (PythonError e), s)
      | Inr poll \<Rightarrow> service_send_message api channel_id (no_args\<lparr>ma_content := content, ma_poll := Some poll\<rparr>) s)"

definition service_get_poll_answer_voters :: "'s caller \<Rightarrow> host \<Rightarrow> int \<Rightarrow> int \<Rightarrow> int \<Rightarrow> jdict \<Rightarrow> 's \<Rightarrow> (http_failure + attr list) \<times> 's" where
  "service_get_poll_answer_voters api h channel_id message_id answer_id params =
     parsed api (\<lambda>data. bind_result (json_get data ''users'' (JList [])) (parse_all (parse_user h)))
       (api_get_poll_answer_voters channel_id message_id answer_id params)"

definition service_end_poll :: "'s caller \<Rightarrow> (string \<Rightarrow> real result) \<Rightarrow> real \<Rightarrow> host \<Rightarrow> int \<Rightarrow> int \<Rightarrow> 's \<Rightarrow> (http_failure + attr) \<times> 's" where
  "service_end_poll api fromiso now h channel_id message_id = parsed api (parse_message fromiso now h) (api_end_poll channel_id message_id)"

definition service_trigger_typing :: "'s caller \<Rightarrow> int \<Rightarrow> 's \<Rightarrow> (http_failure + unit) \<times> 's" where
  "service_trigger_typing api channel_id = parsed api (\<lambda>_. Inr ()) (api_trigger_typing channel_id)"

definition service_list_messages ::
  "'s caller \<Rightarrow> (string \<Rightarrow> real result) \<Rightarrow> real \<Rightarrow> host \<Rightarrow> int \<Rightarrow> int \<Rightarrow> int option \<Rightarrow> int option \<Rightarrow> int option \<Rightarrow> 's \<Rightarrow> (http_failure + attr list) \<times> 's" where
  "service_list_messages api fromiso now h channel_id limit before after around =
     parsed api (parse_all (parse_message fromiso now h)) (api_list_messages channel_id limit before after around)"

definition service_fetch_message :: "'s caller \<Rightarrow> (string \<Rightarrow> real result) \<Rightarrow> real \<Rightarrow> host \<Rightarrow> int \<Rightarrow> int \<Rightarrow> 's \<Rightarrow> (http_failure + attr) \<times> 's" where
  "service_fetch_message api fromiso now h channel_id message_id = parsed api (parse_message fromiso now h) (api_fetch_message channel_id message_id)"

definition service_edit_message :: "'s caller \<Rightarrow> (string \<Rightarrow> real result) \<Rightarrow> real \<Rightarrow> host \<Rightarrow> int \<Rightarrow> int \<Rightarrow> jdict \<Rightarrow> 's \<Rightarrow> (http_failure + attr) \<times> 's" where
  "service_edit_message api fromiso now h channel_id message_id payload s =
     (case api_edit_message channel_id message_id payload None of
        Inl e \<Rightarrow> (Inl (PythonError e), s)
      | Inr q \<Rightarrow> parsed api (parse_message fromiso now h) q s)"

definition service_delete_message :: "'s caller \<Rightarrow> int \<Rightarrow> int \<Rightarrow> 's \<Rightarrow> (http_failure + json) \<times> 's" where
  "service_delete_message api channel_id message_id = api (api_delete_message channel_id message_id)"

definition service_crosspost_message :: "'s caller \<Rightarrow> int \<Rightarrow> int \<Rightarrow> 's \<Rightarrow> (http_failure + json) \<times> 's" where
  "service_crosspost_message api channel_id message_id = api (api_crosspost_message channel_id message_id)"

definition service_bulk_delete_messages :: "'s caller \<Rightarrow> int \<Rightarrow> int list \<Rightarrow> 's \<Rightarrow> (http_failure + json) \<times> 's" where
  "service_bulk_delete_messages api channel_id message_ids = api (api_bulk_delete_messages channel_id message_ids)"

definition service_add_reaction :: "'s caller \<Rightarrow> int \<Rightarrow> int \<Rightarrow> string \<Rightarrow> 's \<Rightarrow> (http_failure + json) \<times> 's" where
  "service_add_reaction api channel_id message_id emoji = api (api_add_reaction channel_id message_id emoji)"

definition service_delete_own_reaction :: "'s caller \<Rightarrow> int \<Rightarrow> int \<Rightarrow> string \<Rightarrow> 's \<Rightarrow> (http_failure + json) \<times> 's" where
  "service_delete_own_reaction api channel_id message_id emoji = api (api_delete_own_reaction channel_id message_id emoji)"

definition service_delete_user_reaction :: "'s caller \<Rightarrow> int \<Rightarrow> int \<Rightarrow> string \<Rightarrow> int \<Rightarrow> 's \<Rightarrow> (http_failure + json) \<times> 's" where
  "service_delete_user_reaction api channel_id message_id emoji user_id = api (api_delete_user_reaction channel_id message_id emoji user_id)"

definition service_list_reactions :: "'s caller \<Rightarrow> host \<Rightarrow> int \<Rightarrow> int \<Rightarrow> string \<Rightarrow> jdict \<Rightarrow> 's \<Rightarrow> (http_failure + attr list) \<times> 's" where
  "service_list_reactions api h channel_id message_id emoji params =
     parsed api (parse_all (parse_user h)) (api_list_reactions channel_id message_id emoji params)"

definition service_clear_reactions :: "'s caller \<Rightarrow> int \<Rightarrow> int \<Rightarrow> 's \<Rightarrow> (http_failure + json) \<times> 's" where
  "service_clear_reactions api channel_id message_id = api (api_clear_reactions channel_id message_id)"

definition service_clear_reaction :: "'s caller \<Rightarrow> int \<Rightarrow> int \<Rightarrow> string \<Rightarrow> 's \<Rightarrow> (http_failure + json) \<times> 's" where
  "service_clear_reaction api channel_id message_id emoji = api (api_clear_reaction channel_id message_id emoji)"

definition service_list_pins :: "'s caller \<Rightarrow> (string \<Rightarrow> real result) \<Rightarrow> real \<Rightarrow> host \<Rightarrow> int \<Rightarrow> 's \<Rightarrow> (http_failure + attr list) \<times> 's" where
  "service_list_pins api fromiso now h channel_id = parsed api (parse_all (parse_message fromiso now h)) (api_list_pins channel_id)"

text \<open>The dictionary of the answer, with its \<open>items\<close> replaced by the parsed pins.\<close>

definition service_get_channel_pins ::
  "'s caller \<Rightarrow> (string \<Rightarrow> real result) \<Rightarrow> real \<Rightarrow> host \<Rightarrow> int \<Rightarrow> string option \<Rightarrow> int \<Rightarrow> 's \<Rightarrow> (http_failure + (jdict \<times> attr list)) \<times> 's" where
  "service_get_channel_pins api fromiso now h channel_id before limit =
     parsed api (\<lambda>data.
       case data of
         JDict d \<Rightarrow> bind_result (parse_all (parse_message_pin fromiso now h) (dict_get d ''items'' (JList []))) (\<lambda>pins. Inr (dict_pop d ''items'', pins))
       | _ \<Rightarrow> Inl (AttributeError ''get''))
     (api_get_channel_pins channel_id before limit)"

definition service_pin_message :: "'s caller \<Rightarrow> int \<Rightarrow> int \<Rightarrow> 's \<Rightarrow> (http_failure + json) \<times> 's" where
  "service_pin_message api channel_id message_id = api (api_pin_message channel_id message_id)"

definition service_unpin_message :: "'s caller \<Rightarrow> int \<Rightarrow> int \<Rightarrow> 's \<Rightarrow> (http_failure + json) \<times> 's" where
  "service_unpin_message api channel_id message_id = api (api_unpin_message channel_id message_id)"

definition service_pin_channel_message :: "'s caller \<Rightarrow> int \<Rightarrow> int \<Rightarrow> 's \<Rightarrow> (http_failure + json) \<times> 's" where
  "service_pin_channel_message api channel_id message_id = api (api_pin_channel_message channel_id message_id)"

definition service_unpin_channel_message :: "'s caller \<Rightarrow> int \<Rightarrow> int \<Rightarrow> 's \<Rightarrow> (http_failure + json) \<times> 's" where
  "service_unpin_channel_message api channel_id message_id = api (api_unpin_channel_message channel_id message_id)"

section \<open>Direct messages\<close>

text \<open>\<open>send_dm\<close> without its exception clauses.\<close>

definition send_dm_plain ::
  "'s caller \<Rightarrow> (string \<Rightarrow> real result) \<Rightarrow> real \<Rightarrow> int \<Rightarrow> message_args \<Rightarrow> host \<Rightarrow> 's \<Rightarrow> (http_failure + attr) \<times> host \<times> 's" where
  "send_dm_plain api fromiso now user_id a h s =
     (case api (open_dm user_id) s of
        (Inl e, s1) \<Rightarrow> (Inl e, h, s1)
      | (Inr dm_channel, s1) \<Rightarrow>
          (case bind_result (json_index dm_channel ''id'') py_int of
             Inl e \<Rightarrow> (Inl (PythonError e), h, s1)
           | Inr channel_id \<Rightarrow>
               (case service_send_message api channel_id a s1 of
                  (Inl e, s2) \<Rightarrow> (Inl e, h, s2)
                | (Inr message_data, s2) \<Rightarrow>
                    (case parse_message fromiso now h message_data of
                       Inl e \<Rightarrow> (Inl (PythonError e), h, s2)
                     | Inr message \<Rightarrow> (Inr message, cache_message message h, s2)))))"

lemma api_error_status:
  assumes "create_discord_error status d = Inr x" and "ve_class x = DiscordAPIError"
  shows "ve_status x \<noteq> Some 403 \<and> ve_status x \<noteq> Some 429"
  using assms
  by (auto simp: create_discord_error_def Let_def authentication_error_def forbidden_error_def not_found_error_def rate_limit_error_def base_error_def
      discord_api_error_def bind_result_def split: if_splits sum.splits json.splits)

lemma response_failure: "response_result r = Inl e \<Longrightarrow> dm_failure l f e = e"
  by (auto simp: response_result_def dm_failure_def split: if_splits json.splits sum.splits body.splits dest: api_error_status)

lemma request_failure:
  assumes "fst (request cfg net verb path hdrs payload s) = Inl e"
  shows "dm_failure l f e = e"
  using assms by (auto simp: request_def Let_def dm_failure_def [of _ _ "PythonError _"] response_failure split: prod.splits sum.splits)

lemma service_failure:
  assumes "\<And>q s e s'. api q s = (Inl e, s') \<Longrightarrow> dm_failure l f e = e" and "service_send_message api c a s = (Inl e, s')"
  shows "dm_failure l f e = e"
  using assms(2) assms(1) by (auto simp: service_send_message_def dm_failure_def [of _ _ "PythonError _"] split: if_splits)

text \<open>
  The exception clauses of \<open>send_dm\<close> do nothing. Over the HTTP client, \<open>send_dm\<close> with its
  handlers for statuses 429 and 403 behaves like \<open>send_dm\<close> without them, for every answer of the
  network: the client raises RateLimitError and ForbiddenError for these statuses, which are no
  DiscordAPIError. So the caller gets the client's errors, with the true retry time, and never the
  messages written here.
\<close>

theorem send_dm_clauses_dead:
  "send_dm (perform cfg net) fromiso now user_id a h s = send_dm_plain (perform cfg net) fromiso now user_id a h s"
proof -
  have api: "perform cfg net q s = (Inl e, s') \<Longrightarrow> dm_failure l f e = e" for q s e s' l f
  proof -
    assume "perform cfg net q s = (Inl e, s')"
    then have "fst (request cfg net (ar_method q) (normalize_endpoint (ar_path q)) (if ar_headers q = [] then None else Some (ar_headers q)) (ar_json q) s) = Inl e"
      by (simp add: perform_def)
    then show "dm_failure l f e = e" by (rule request_failure)
  qed
  have sent: "service_send_message (perform cfg net) c a s = (Inl e, s') \<Longrightarrow> dm_failure l f e = e" for c s e s' l f
    by (rule service_failure [OF api])
  obtain r s1 where r: "perform cfg net (open_dm user_id) s = (r, s1)" by fastforce
  show ?thesis
  proof (cases r)
    case (Inl e)
    then show ?thesis using api r by (simp add: send_dm_def send_dm_plain_def)
  next
    case dm: (Inr v)
    show ?thesis
    proof (cases "bind_result (json_index v ''id'') py_int")
      case (Inr c)
      obtain r2 s2 where r2: "service_send_message (perform cfg net) c a s1 = (r2, s2)" by fastforce
      show ?thesis using sent [of c s1] r dm Inr r2 by (cases r2) (simp_all add: send_dm_def send_dm_plain_def)
    qed (simp add: send_dm_def send_dm_plain_def r dm)
  qed
qed

section \<open>Polls\<close>

definition poll_ok :: "jdict \<Rightarrow> bool" where
  "poll_ok p \<longleftrightarrow>
     (\<exists>qt as d m. p = [(''question'', JDict [(''text'', JStr qt)]), (''answers'', JList (map (\<lambda>x. JDict [(''poll_media'', JDict [(''text'', JStr x)])]) as)),
        (''duration'', JInt d), (''allow_multiselect'', JBool m)] \<and>
      qt \<noteq> [] \<and> py_strip qt = qt \<and> 2 \<le> length as \<and> length as \<le> 10 \<and> (\<forall>x \<in> set as. x \<noteq> [] \<and> py_strip x = x) \<and> 1 \<le> d \<and> d \<le> 768)"

lemma py_strip_ends: "py_strip s \<noteq> [] \<Longrightarrow> \<not> is_space (List.last (py_strip s)) \<and> \<not> is_space (hd (py_strip s))"
proof -
  let ?l = "dropWhile is_space s"
  assume ne: "py_strip s \<noteq> []"
  then have e: "dropWhile is_space (rev ?l) \<noteq> []" unfolding py_strip_def by (simp only: rev_is_Nil_conv not_False_eq_True)
  then have l: "?l \<noteq> []" by (metis dropWhile.simps(1) rev.simps(1))
  obtain ys where ys: "?l = py_strip s @ ys"
    using takeWhile_dropWhile_id [of is_space "rev ?l"] by (metis py_strip_def rev_append rev_rev_ident)
  have "hd (py_strip s) = hd ?l" using ne by (subst ys) simp
  then show ?thesis using hd_dropWhile [OF e] hd_dropWhile [OF l] by (simp add: py_strip_def last_rev)
qed

lemma py_strip_idem [simp]: "py_strip (py_strip s) = py_strip s"
proof (cases "py_strip s = []")
  case True
  then show ?thesis by (simp add: py_strip_def [of "[]"])
qed (use py_strip_ends [of s] py_strip_id [of "py_strip s"] in blast)

lemma poll_answers_ok:
  assumes "poll_answers answers = Inr js"
  shows "js = map (\<lambda>x. JDict [(''poll_media'', JDict [(''text'', JStr x)])]) (map py_strip answers) \<and> (\<forall>x \<in> set (map py_strip answers). x \<noteq> [])"
  using assms unfolding poll_answers_def by (induction answers arbitrary: js) (auto simp: bind_result_def split: if_splits sum.splits)

lemma build_poll_ok: "build_poll qt answers d m = Inr p \<Longrightarrow> poll_ok p"
  unfolding build_poll_def poll_ok_def
  by (auto simp: bind_result_def split: if_splits sum.splits dest!: poll_answers_ok intro!: exI [of _ "py_strip qt"] exI [of _ "map py_strip answers"])

lemma build_poll_errors: "build_poll qt answers d m = Inl e \<Longrightarrow> \<exists>x. e = ValueError x"
proof -
  have "poll_answers answers = Inl e \<Longrightarrow> \<exists>x. e = ValueError x" for e
    unfolding poll_answers_def by (induction answers) (auto simp: bind_result_def split: if_splits sum.splits)
  then show "build_poll qt answers d m = Inl e \<Longrightarrow> \<exists>x. e = ValueError x"
    by (auto simp: build_poll_def bind_result_def split: if_splits sum.splits)
qed

text \<open>
  \<open>send_poll\<close> sends a valid poll or nothing. Either it raises ValueError and makes no request, or
  it makes exactly one request, to the channel, whose payload has a poll with a question and two to ten
  answers, all not empty and without surrounding space, and a duration of 1 to 768 hours.
\<close>

theorem send_poll_valid_or_refused:
  "(\<exists>x. send_poll api c qt answers d multi content s = (Inl (PythonError (ValueError x)), s)) \<or>
   (\<exists>payload p. send_poll api c qt answers d multi content s =
      api ((api_post [Lit ''channels'', Num c, Lit ''messages''])\<lparr>ar_json := Some (JDict payload)\<rparr>) s \<and>
      map_of payload ''poll'' = Some (JDict p) \<and> poll_ok p \<and> map_of payload ''content'' = map_option JStr content)"
proof (cases "build_poll qt answers d multi")
  case (Inl e)
  then show ?thesis using build_poll_errors [OF Inl] by (auto simp: send_poll_def)
next
  case (Inr p)
  let ?a = "no_args\<lparr>ma_content := content, ma_poll := Some p\<rparr>"
  have ok: "poll_ok p" by (rule build_poll_ok [OF Inr])
  then have "p \<noteq> []" by (auto simp: poll_ok_def)
  then have "has_sendable_content ?a" by (simp add: has_sendable_content_def message_payload_def jget_def dict_get_def json_truthy_def no_args_def)
  then have "send_poll api c qt answers d multi content s =
      api ((api_post [Lit ''channels'', Num c, Lit ''messages''])\<lparr>ar_json := Some (JDict (message_payload ?a))\<rparr>) s"
    by (simp add: send_poll_def Inr service_send_message_def)
  moreover have "map_of (message_payload ?a) ''poll'' = Some (JDict p)" "map_of (message_payload ?a) ''content'' = map_option JStr content"
    by (simp_all add: message_payload_def no_args_def truthy_list_def)
  ultimately show ?thesis using ok by blast
qed

section \<open>Against the mock server\<close>

text \<open>
  The mock server as a caller: its answer as an HTTP response, turned into a result or an exception
  the way the HTTP client does. \<open>decode\<close> reads the text body of a 404.
\<close>

definition as_response :: "(string \<Rightarrow> body) \<Rightarrow> mock_response \<Rightarrow> http_response" where
  "as_response decode r =
     (case r of
        Respond st v hs \<Rightarrow> \<lparr>hr_status = st, hr_headers = hs, hr_body = JsonBody v\<rparr>
      | NotFound t \<Rightarrow> \<lparr>hr_status = 404, hr_headers = [], hr_body = decode t\<rparr>
      | Crash e \<Rightarrow> \<lparr>hr_status = 500, hr_headers = [], hr_body = TextBody ''Internal Server Error''\<rparr>)"

definition mock_api :: "(string \<Rightarrow> body) \<Rightarrow> mock_env \<Rightarrow> string \<Rightarrow> mock_server caller" where
  "mock_api decode env url q s = (case answer env url q s of (r, s') \<Rightarrow> (response_result (as_response decode r), s'))"

text \<open>What the server asks of a message beyond what the client asks.\<close>

definition server_accepts :: "message_args \<Rightarrow> bool" where
  "server_accepts a \<longleftrightarrow>
     (case ma_content a of None \<Rightarrow> False | Some t \<Rightarrow> py_strip t \<noteq> []) \<or>
     list_ex (\<lambda>k. json_truthy (jget (message_payload a) k)) [''embeds'', ''components'', ''sticker_ids'', ''poll'']"

lemma payload_fields:
  "map_of (message_payload a) ''content'' = map_option JStr (ma_content a)" "map_of (message_payload a) ''tts'' = Some (JBool (ma_tts a))"
  by (simp_all add: message_payload_def)

lemma accepted_sendable: "server_accepts a \<Longrightarrow> has_sendable_content a"
  by (auto simp: server_accepts_def has_sendable_content_def payload_fields jget_def dict_get_def json_truthy_def py_strip_def split: option.splits)

lemma validation_passes:
  assumes "server_accepts a" and "\<And>t. str (JStr t) = t" and "\<And>t. ma_content a = Some t \<Longrightarrow> length t \<le> MAX_CONTENT_LENGTH"
  shows "validate_message_payload str cfg (message_payload a) = None"
  using assms
  by (cases "ma_content a") (auto simp: validate_message_payload_def Let_def jget_def dict_get_def payload_fields server_accepts_def)

lemma send_accepted:
  assumes body: "mr_body r = Some (JDict p)" and ok: "\<And>cfg. validate_message_payload (me_str env) cfg p = None"
  shows "\<exists>m s'. server_send_message env c r s = (Respond 200 (JDict m) [], s') \<and>
    map_of m ''content'' = Some (JStr (me_str env (dict_get p ''content'' (JStr []))))"
proof -
  define s0 where "s0 = record_request r (Some p) s"
  define s1 where "s1 = (if map_of (sv_channels s0) c = None then ensure_channel c 0 None None s0 else s0)"
  define g where "g = (case map_of (sv_channels s1) c of None \<Rightarrow> JNull | Some ch \<Rightarrow> jget (ch_data ch) ''guild_id'')"
  obtain i m s2 where b: "build_message env c (me_str env (dict_get p ''content'' (JStr []))) (sv_user_objs s1 (sv_current s1)) g
      (json_truthy (dict_get p ''tts'' (JBool False))) s1 = (i, m, s2)"
    by (metis prod_cases3)
  let ?m = "copy_keys [''embeds'', ''components'', ''flags'', ''message_reference'', ''poll''] p m"
  have "server_send_message env c r s = (Respond 200 (JDict ?m) [], hub_event ''MESSAGE_CREATE'' (JDict ?m) (store_message i ?m s2))"
    by (simp only: server_send_message_def read_json_def body option.case json.case Let_def ok
        s0_def [symmetric] s1_def [symmetric] g_def [symmetric] b prod.case)
  moreover have "map_of ?m ''content'' = map_of m ''content''" by (rule copy_keys_other) simp
  moreover have "map_of m ''content'' = Some (JStr (me_str env (dict_get p ''content'' (JStr []))))"
    using b by (cases "generate_snowflake (me_now_ms env) (sv_snowflakes s1)") (auto simp: build_message_def)
  ultimately show ?thesis by metis
qed

lemma send_answered:
  assumes "server_accepts a" and str: "\<And>t. me_str env (JStr t) = t" and "\<And>t. ma_content a = Some t \<Longrightarrow> length t \<le> MAX_CONTENT_LENGTH"
  shows "\<exists>m s'. answer env url ((api_post [Lit ''channels'', Num c, Lit ''messages''])\<lparr>ar_json := Some (JDict (message_payload a))\<rparr>) s
    = (Respond 200 (JDict m) [], s') \<and> map_of m ''content'' = Some (JStr (case ma_content a of None \<Rightarrow> [] | Some t \<Rightarrow> t))"
proof -
  have content: "me_str env (dict_get (message_payload a) ''content'' (JStr [])) = (case ma_content a of None \<Rightarrow> [] | Some t \<Rightarrow> t)"
    by (simp add: dict_get_def payload_fields str split: option.split)
  let ?q = "(api_post [Lit ''channels'', Num c, Lit ''messages''])\<lparr>ar_json := Some (JDict (message_payload a))\<rparr>"
  have "mr_body (wire_request ?q) = Some (JDict (message_payload a))" by (simp add: wire_request_def)
  from send_accepted [OF this validation_passes [OF assms], of "show_int c" s] show ?thesis
    by (simp only: message_routes content)
qed



text \<open>
  What the client lets pass and the server refuses: content of spaces only, and a reference alone.
\<close>

lemma client_accepts_server_refuses:
  assumes "a = no_args\<lparr>ma_content := Some '' ''\<rparr> \<or> a = no_args\<lparr>ma_message_reference := Some [(''message_id'', JStr ''1'')]\<rparr>"
  shows "has_sendable_content a \<and>
    validate_message_payload (me_str plain_env) default_sim_config (message_payload a) = Some (discord_error 400 ''Cannot send an empty message'' ERROR_EMPTY_MESSAGE [] [])"
proof -
  have "has_sendable_content (no_args\<lparr>ma_content := Some '' ''\<rparr>)" "has_sendable_content (no_args\<lparr>ma_message_reference := Some [(''message_id'', JStr ''1'')]\<rparr>)"
    by code_simp+
  moreover have "validate_message_payload (me_str plain_env) default_sim_config (message_payload (no_args\<lparr>ma_content := Some '' ''\<rparr>)) =
      Some (discord_error 400 ''Cannot send an empty message'' ERROR_EMPTY_MESSAGE [] [])"
    "validate_message_payload (me_str plain_env) default_sim_config (message_payload (no_args\<lparr>ma_message_reference := Some [(''message_id'', JStr ''1'')]\<rparr>)) =
      Some (discord_error 400 ''Cannot send an empty message'' ERROR_EMPTY_MESSAGE [] [])"
    by code_simp+
  ultimately show ?thesis using assms by (elim disjE) (simp_all only: conj_absorb simp_thms)
qed

end
