(* ===== verification/BotFacade.thy ===== *)
theory BotFacade
  imports MessageService Gateway
begin

text \<open>
  The REST side of the bot (src/vaidcord-py/src/vaidcord/bot.py): the methods that only forward to
  the API client or the message service, the ones that parse the answer and keep the caches, and
  application metadata (application.py). The caches are those of the event parser's host. Methods
  that forward in one line with the same arguments are left to the service they call.
\<close>

section \<open>Forwarding\<close>

definition call_result :: "'s caller \<Rightarrow> api_request result \<Rightarrow> 's \<Rightarrow> (http_failure + json) \<times> 's" where
  "call_result api r s = (case r of Inl e \<Rightarrow> (Inl (PythonError e), s) | Inr q \<Rightarrow> api q s)"

definition bot_list_channel_invites :: "'s caller \<Rightarrow> int \<Rightarrow> 's \<Rightarrow> (http_failure + json) \<times> 's" where
  "bot_list_channel_invites api channel_id = api (api_list_channel_invites channel_id)"

definition bot_create_channel_invite :: "'s caller \<Rightarrow> int \<Rightarrow> jdict \<Rightarrow> 's \<Rightarrow> (http_failure + json) \<times> 's" where
  "bot_create_channel_invite api channel_id payload = api (api_create_channel_invite channel_id payload)"

definition bot_edit_channel_permissions :: "'s caller \<Rightarrow> int \<Rightarrow> int \<Rightarrow> jdict \<Rightarrow> 's \<Rightarrow> (http_failure + json) \<times> 's" where
  "bot_edit_channel_permissions api channel_id overwrite_id payload = api (api_edit_channel_permissions channel_id overwrite_id payload)"

definition bot_delete_channel_permission :: "'s caller \<Rightarrow> int \<Rightarrow> int \<Rightarrow> 's \<Rightarrow> (http_failure + json) \<times> 's" where
  "bot_delete_channel_permission api channel_id overwrite_id = api (api_delete_channel_permission channel_id overwrite_id)"

definition bot_follow_news_channel :: "'s caller \<Rightarrow> int \<Rightarrow> int \<Rightarrow> 's \<Rightarrow> (http_failure + json) \<times> 's" where
  "bot_follow_news_channel api channel_id webhook_channel_id = api (api_follow_news_channel channel_id webhook_channel_id)"

definition bot_join_thread :: "'s caller \<Rightarrow> int \<Rightarrow> 's \<Rightarrow> (http_failure + json) \<times> 's" where
  "bot_join_thread api channel_id = api (api_join_thread channel_id)"

definition bot_leave_thread :: "'s caller \<Rightarrow> int \<Rightarrow> 's \<Rightarrow> (http_failure + json) \<times> 's" where
  "bot_leave_thread api channel_id = api (api_leave_thread channel_id)"

definition bot_add_thread_member :: "'s caller \<Rightarrow> int \<Rightarrow> int \<Rightarrow> 's \<Rightarrow> (http_failure + json) \<times> 's" where
  "bot_add_thread_member api channel_id user_id = api (api_add_thread_member channel_id user_id)"

definition bot_remove_thread_member :: "'s caller \<Rightarrow> int \<Rightarrow> int \<Rightarrow> 's \<Rightarrow> (http_failure + json) \<times> 's" where
  "bot_remove_thread_member api channel_id user_id = api (api_remove_thread_member channel_id user_id)"

definition bot_list_public_archived_threads :: "'s caller \<Rightarrow> int \<Rightarrow> jdict \<Rightarrow> 's \<Rightarrow> (http_failure + json) \<times> 's" where
  "bot_list_public_archived_threads api channel_id params = api (api_list_public_archived_threads channel_id params)"

definition bot_list_private_archived_threads :: "'s caller \<Rightarrow> int \<Rightarrow> jdict \<Rightarrow> 's \<Rightarrow> (http_failure + json) \<times> 's" where
  "bot_list_private_archived_threads api channel_id params = api (api_list_private_archived_threads channel_id params)"

definition bot_list_joined_private_archived_threads :: "'s caller \<Rightarrow> int \<Rightarrow> jdict \<Rightarrow> 's \<Rightarrow> (http_failure + json) \<times> 's" where
  "bot_list_joined_private_archived_threads api channel_id params = api (api_list_joined_private_archived_threads channel_id params)"

definition bot_fetch_guild_preview :: "'s caller \<Rightarrow> int \<Rightarrow> 's \<Rightarrow> (http_failure + json) \<times> 's" where
  "bot_fetch_guild_preview api guild_id = api (api_fetch_guild_preview guild_id)"

definition bot_list_guild_roles :: "'s caller \<Rightarrow> int \<Rightarrow> 's \<Rightarrow> (http_failure + json) \<times> 's" where
  "bot_list_guild_roles api guild_id = api (api_list_guild_roles guild_id)"

definition bot_create_guild_role :: "'s caller \<Rightarrow> int \<Rightarrow> jdict \<Rightarrow> 's \<Rightarrow> (http_failure + json) \<times> 's" where
  "bot_create_guild_role api guild_id payload = api (api_create_guild_role guild_id payload)"

definition bot_modify_guild_role_positions :: "'s caller \<Rightarrow> int \<Rightarrow> jdict list \<Rightarrow> 's \<Rightarrow> (http_failure + json) \<times> 's" where
  "bot_modify_guild_role_positions api guild_id positions = api (api_modify_guild_role_positions guild_id positions)"

definition bot_modify_guild_role :: "'s caller \<Rightarrow> int \<Rightarrow> int \<Rightarrow> jdict \<Rightarrow> 's \<Rightarrow> (http_failure + json) \<times> 's" where
  "bot_modify_guild_role api guild_id role_id payload = api (api_modify_guild_role guild_id role_id payload)"

definition bot_delete_guild_role :: "'s caller \<Rightarrow> int \<Rightarrow> int \<Rightarrow> 's \<Rightarrow> (http_failure + json) \<times> 's" where
  "bot_delete_guild_role api guild_id role_id = api (api_delete_guild_role guild_id role_id)"

definition bot_get_guild_member :: "'s caller \<Rightarrow> int \<Rightarrow> int \<Rightarrow> 's \<Rightarrow> (http_failure + json) \<times> 's" where
  "bot_get_guild_member api guild_id user_id = api (api_get_guild_member guild_id user_id)"

definition bot_list_guild_members :: "'s caller \<Rightarrow> int \<Rightarrow> jdict \<Rightarrow> 's \<Rightarrow> (http_failure + json) \<times> 's" where
  "bot_list_guild_members api guild_id params = api (api_list_guild_members guild_id params)"

definition bot_add_guild_member :: "'s caller \<Rightarrow> int \<Rightarrow> int \<Rightarrow> jdict \<Rightarrow> 's \<Rightarrow> (http_failure + json) \<times> 's" where
  "bot_add_guild_member api guild_id user_id payload = api (api_add_guild_member guild_id user_id payload)"

definition bot_modify_guild_member :: "'s caller \<Rightarrow> int \<Rightarrow> int \<Rightarrow> jdict \<Rightarrow> 's \<Rightarrow> (http_failure + json) \<times> 's" where
  "bot_modify_guild_member api guild_id user_id payload = api (api_modify_guild_member guild_id user_id payload)"

definition bot_remove_guild_member :: "'s caller \<Rightarrow> int \<Rightarrow> int \<Rightarrow> 's \<Rightarrow> (http_failure + json) \<times> 's" where
  "bot_remove_guild_member api guild_id user_id = api (api_remove_guild_member guild_id user_id)"

definition bot_ban_guild_member :: "'s caller \<Rightarrow> int \<Rightarrow> int \<Rightarrow> jdict \<Rightarrow> 's \<Rightarrow> (http_failure + json) \<times> 's" where
  "bot_ban_guild_member api guild_id user_id payload = api (api_ban_guild_member guild_id user_id payload)"

definition bot_unban_guild_member :: "'s caller \<Rightarrow> int \<Rightarrow> int \<Rightarrow> 's \<Rightarrow> (http_failure + json) \<times> 's" where
  "bot_unban_guild_member api guild_id user_id = api (api_unban_guild_member guild_id user_id)"

definition bot_list_guild_bans :: "'s caller \<Rightarrow> int \<Rightarrow> jdict \<Rightarrow> 's \<Rightarrow> (http_failure + json) \<times> 's" where
  "bot_list_guild_bans api guild_id params = api (api_list_guild_bans guild_id params)"

definition bot_get_guild_ban :: "'s caller \<Rightarrow> int \<Rightarrow> int \<Rightarrow> 's \<Rightarrow> (http_failure + json) \<times> 's" where
  "bot_get_guild_ban api guild_id user_id = api (api_get_guild_ban guild_id user_id)"

definition bot_list_guild_emojis :: "'s caller \<Rightarrow> int \<Rightarrow> 's \<Rightarrow> (http_failure + json) \<times> 's" where
  "bot_list_guild_emojis api guild_id = api (api_list_guild_emojis guild_id)"

definition bot_list_guild_stickers :: "'s caller \<Rightarrow> int \<Rightarrow> 's \<Rightarrow> (http_failure + json) \<times> 's" where
  "bot_list_guild_stickers api guild_id = api (api_list_guild_stickers guild_id)"

definition bot_list_scheduled_events :: "'s caller \<Rightarrow> int \<Rightarrow> jdict \<Rightarrow> 's \<Rightarrow> (http_failure + json) \<times> 's" where
  "bot_list_scheduled_events api guild_id params = api (api_list_scheduled_events guild_id params)"

definition bot_create_scheduled_event :: "'s caller \<Rightarrow> int \<Rightarrow> jdict \<Rightarrow> 's \<Rightarrow> (http_failure + json) \<times> 's" where
  "bot_create_scheduled_event api guild_id payload = api (api_create_scheduled_event guild_id payload)"

definition bot_fetch_scheduled_event :: "'s caller \<Rightarrow> int \<Rightarrow> int \<Rightarrow> jdict \<Rightarrow> 's \<Rightarrow> (http_failure + json) \<times> 's" where
  "bot_fetch_scheduled_event api guild_id event_id params = api (api_fetch_scheduled_event guild_id event_id params)"

definition bot_modify_scheduled_event :: "'s caller \<Rightarrow> int \<Rightarrow> int \<Rightarrow> jdict \<Rightarrow> 's \<Rightarrow> (http_failure + json) \<times> 's" where
  "bot_modify_scheduled_event api guild_id event_id payload = api (api_modify_scheduled_event guild_id event_id payload)"

definition bot_delete_scheduled_event :: "'s caller \<Rightarrow> int \<Rightarrow> int \<Rightarrow> 's \<Rightarrow> (http_failure + json) \<times> 's" where
  "bot_delete_scheduled_event api guild_id event_id = api (api_delete_scheduled_event guild_id event_id)"

definition bot_get_current_user_guild_member :: "'s caller \<Rightarrow> int \<Rightarrow> 's \<Rightarrow> (http_failure + json) \<times> 's" where
  "bot_get_current_user_guild_member api guild_id = api (api_get_current_user_guild_member guild_id)"

definition bot_get_current_user_connections :: "'s caller \<Rightarrow> 's \<Rightarrow> (http_failure + json) \<times> 's" where
  "bot_get_current_user_connections api = api api_get_current_user_connections"

definition bot_get_current_user_application_role_connection :: "'s caller \<Rightarrow> int \<Rightarrow> 's \<Rightarrow> (http_failure + json) \<times> 's" where
  "bot_get_current_user_application_role_connection api application_id = api (api_get_current_user_application_role_connection application_id)"

definition bot_update_current_user_application_role_connection :: "'s caller \<Rightarrow> int \<Rightarrow> jdict \<Rightarrow> 's \<Rightarrow> (http_failure + json) \<times> 's" where
  "bot_update_current_user_application_role_connection api application_id payload = api (api_update_current_user_application_role_connection application_id payload)"

definition bot_fetch_invite :: "'s caller \<Rightarrow> string \<Rightarrow> jdict \<Rightarrow> 's \<Rightarrow> (http_failure + json) \<times> 's" where
  "bot_fetch_invite api invite_code params = api (api_fetch_invite invite_code params)"

definition bot_delete_invite :: "'s caller \<Rightarrow> string \<Rightarrow> 's \<Rightarrow> (http_failure + json) \<times> 's" where
  "bot_delete_invite api invite_code = api (api_delete_invite invite_code)"

definition bot_create_webhook :: "'s caller \<Rightarrow> int \<Rightarrow> jdict \<Rightarrow> 's \<Rightarrow> (http_failure + json) \<times> 's" where
  "bot_create_webhook api channel_id payload = api (api_create_webhook channel_id payload)"

definition bot_list_channel_webhooks :: "'s caller \<Rightarrow> int \<Rightarrow> 's \<Rightarrow> (http_failure + json) \<times> 's" where
  "bot_list_channel_webhooks api channel_id = api (api_list_channel_webhooks channel_id)"

definition bot_list_guild_webhooks :: "'s caller \<Rightarrow> int \<Rightarrow> 's \<Rightarrow> (http_failure + json) \<times> 's" where
  "bot_list_guild_webhooks api guild_id = api (api_list_guild_webhooks guild_id)"

definition bot_execute_webhook :: "'s caller \<Rightarrow> int \<Rightarrow> string \<Rightarrow> jdict \<Rightarrow> 's \<Rightarrow> (http_failure + json) \<times> 's" where
  "bot_execute_webhook api webhook_id token payload = call_result api (api_execute_webhook webhook_id token payload None [])"

definition bot_create_interaction_response :: "'s caller \<Rightarrow> int \<Rightarrow> string \<Rightarrow> jdict \<Rightarrow> 's \<Rightarrow> (http_failure + json) \<times> 's" where
  "bot_create_interaction_response api interaction_id interaction_token payload = call_result api (api_create_interaction_response interaction_id interaction_token payload None)"

definition bot_create_followup_message :: "'s caller \<Rightarrow> int \<Rightarrow> string \<Rightarrow> jdict \<Rightarrow> 's \<Rightarrow> (http_failure + json) \<times> 's" where
  "bot_create_followup_message api application_id interaction_token payload = call_result api (api_create_followup_message application_id interaction_token payload None)"

definition bot_send_message :: "'s caller \<Rightarrow> int \<Rightarrow> message_args \<Rightarrow> 's \<Rightarrow> (http_failure + json) \<times> 's" where
  "bot_send_message api channel_id a = service_send_message api channel_id a"

definition bot_reply :: "'s caller \<Rightarrow> int \<Rightarrow> int \<Rightarrow> string \<Rightarrow> bool \<Rightarrow> jdict option \<Rightarrow> bool \<Rightarrow> 's \<Rightarrow> (http_failure + json) \<times> 's" where
  "bot_reply api channel_id message_id content tts allowed_mentions mention_author =
     service_reply api channel_id message_id content tts allowed_mentions mention_author"

definition bot_send_components_v2 :: "'s caller \<Rightarrow> int \<Rightarrow> jdict list \<Rightarrow> jdict option \<Rightarrow> int \<Rightarrow> 's \<Rightarrow> (http_failure + json) \<times> 's" where
  "bot_send_components_v2 api channel_id components allowed_mentions flags = send_components_v2 api channel_id components allowed_mentions flags"

definition bot_send_poll :: "'s caller \<Rightarrow> int \<Rightarrow> string \<Rightarrow> string list \<Rightarrow> int \<Rightarrow> bool \<Rightarrow> string option \<Rightarrow> 's \<Rightarrow> (http_failure + json) \<times> 's" where
  "bot_send_poll api channel_id question answers duration_hours allow_multiselect content =
     send_poll api channel_id question answers duration_hours allow_multiselect content"

definition bot_list_messages ::
  "'s caller \<Rightarrow> (string \<Rightarrow> real result) \<Rightarrow> real \<Rightarrow> host \<Rightarrow> int \<Rightarrow> int \<Rightarrow> int option \<Rightarrow> int option \<Rightarrow> int option \<Rightarrow> 's \<Rightarrow> (http_failure + attr list) \<times> 's" where
  "bot_list_messages api fromiso now h channel_id limit before after around =
     service_list_messages api fromiso now h channel_id limit before after around"

definition bot_delete_user_reaction :: "'s caller \<Rightarrow> int \<Rightarrow> int \<Rightarrow> string \<Rightarrow> int \<Rightarrow> 's \<Rightarrow> (http_failure + json) \<times> 's" where
  "bot_delete_user_reaction api channel_id message_id emoji user_id = service_delete_user_reaction api channel_id message_id emoji user_id"

definition bot_get_channel_pins ::
  "'s caller \<Rightarrow> (string \<Rightarrow> real result) \<Rightarrow> real \<Rightarrow> host \<Rightarrow> int \<Rightarrow> string option \<Rightarrow> int \<Rightarrow> 's \<Rightarrow> (http_failure + (jdict \<times> attr list)) \<times> 's" where
  "bot_get_channel_pins api fromiso now h channel_id before limit = service_get_channel_pins api fromiso now h channel_id before limit"

definition bot_get_poll_answer_voters :: "'s caller \<Rightarrow> host \<Rightarrow> int \<Rightarrow> int \<Rightarrow> int \<Rightarrow> jdict \<Rightarrow> 's \<Rightarrow> (http_failure + attr list) \<times> 's" where
  "bot_get_poll_answer_voters api h channel_id message_id answer_id params =
     service_get_poll_answer_voters api h channel_id message_id answer_id params"

section \<open>Fetching into the caches\<close>

definition fetched ::
  "'s caller \<Rightarrow> api_request \<Rightarrow> (json \<Rightarrow> 'a result) \<Rightarrow> ('a \<Rightarrow> host \<Rightarrow> host) \<Rightarrow> host \<Rightarrow> 's \<Rightarrow> (http_failure + 'a) \<times> host \<times> 's" where
  "fetched api q f cache h s =
     (case parsed api f q s of (Inl e, s1) \<Rightarrow> (Inl e, h, s1) | (Inr x, s1) \<Rightarrow> (Inr x, cache x h, s1))"

definition cache_channel :: "attr \<Rightarrow> host \<Rightarrow> host" where
  "cache_channel c h = h\<lparr>ho_channels := dict_set (ho_channels h) (obj_id c) c\<rparr>"

definition cache_user :: "attr \<Rightarrow> host \<Rightarrow> host" where
  "cache_user u h = h\<lparr>ho_users := dict_set (ho_users h) (obj_id u) u\<rparr>"

definition bot_fetch_channel :: "'s caller \<Rightarrow> int \<Rightarrow> host \<Rightarrow> 's \<Rightarrow> (http_failure + attr) \<times> host \<times> 's" where
  "bot_fetch_channel api channel_id h = fetched api (api_fetch_channel channel_id) (parse_channel h) cache_channel h"

definition bot_modify_channel :: "'s caller \<Rightarrow> int \<Rightarrow> jdict \<Rightarrow> host \<Rightarrow> 's \<Rightarrow> (http_failure + attr) \<times> host \<times> 's" where
  "bot_modify_channel api channel_id payload h = fetched api (api_modify_channel channel_id payload) (parse_channel h) cache_channel h"

definition bot_delete_channel :: "'s caller \<Rightarrow> int \<Rightarrow> host \<Rightarrow> 's \<Rightarrow> (http_failure + json) \<times> host \<times> 's" where
  "bot_delete_channel api channel_id h =
     fetched api (api_delete_channel channel_id) Inr (\<lambda>_ h. h\<lparr>ho_channels := dict_pop (ho_channels h) channel_id\<rparr>) h"

definition bot_start_thread_from_message :: "'s caller \<Rightarrow> int \<Rightarrow> int \<Rightarrow> jdict \<Rightarrow> host \<Rightarrow> 's \<Rightarrow> (http_failure + attr) \<times> 's" where
  "bot_start_thread_from_message api channel_id message_id payload h =
     parsed api (parse_channel h) (api_start_thread_from_message channel_id message_id payload)"

definition bot_start_thread_without_message :: "'s caller \<Rightarrow> int \<Rightarrow> jdict \<Rightarrow> host \<Rightarrow> 's \<Rightarrow> (http_failure + attr) \<times> 's" where
  "bot_start_thread_without_message api channel_id payload h = parsed api (parse_channel h) (api_start_thread_without_message channel_id payload)"

definition bot_fetch_guild :: "'s caller \<Rightarrow> int \<Rightarrow> host \<Rightarrow> 's \<Rightarrow> (http_failure + attr) \<times> host \<times> 's" where
  "bot_fetch_guild api guild_id h = fetched api (api_fetch_guild guild_id) (parse_guild h) cache_guild h"

definition bot_list_guild_channels :: "'s caller \<Rightarrow> int \<Rightarrow> host \<Rightarrow> 's \<Rightarrow> (http_failure + attr list) \<times> host \<times> 's" where
  "bot_list_guild_channels api guild_id h =
     fetched api (api_list_guild_channels guild_id) (parse_all (parse_channel h)) (fold cache_channel) h"

definition bot_fetch_user :: "'s caller \<Rightarrow> int \<Rightarrow> host \<Rightarrow> 's \<Rightarrow> (http_failure + attr) \<times> host \<times> 's" where
  "bot_fetch_user api user_id h = fetched api (api_fetch_user user_id) (parse_user h) cache_user h"

definition bot_get_current_user_guilds :: "'s caller \<Rightarrow> jdict \<Rightarrow> host \<Rightarrow> 's \<Rightarrow> (http_failure + attr list) \<times> host \<times> 's" where
  "bot_get_current_user_guilds api params h =
     fetched api (api_get_current_user_guilds params) (parse_all (parse_guild h)) (fold cache_guild) h"

definition bot_leave_guild :: "'s caller \<Rightarrow> int \<Rightarrow> host \<Rightarrow> 's \<Rightarrow> (http_failure + json) \<times> host \<times> 's" where
  "bot_leave_guild api guild_id h = fetched api (api_leave_guild guild_id) Inr (\<lambda>_ h. h\<lparr>ho_guilds := dict_pop (ho_guilds h) guild_id\<rparr>) h"

definition bot_create_group_dm :: "'s caller \<Rightarrow> string list \<Rightarrow> (string \<times> string) list \<Rightarrow> host \<Rightarrow> 's \<Rightarrow> (http_failure + attr) \<times> 's" where
  "bot_create_group_dm api access_tokens nicks h = parsed api (parse_channel h) (api_create_group_dm access_tokens nicks)"

text \<open>The bot's own user: the cache, the identity and the id that the logs carry.\<close>

record bot_identity =
  bi_host :: host
  bi_user :: "attr option"
  bi_log_id :: "int option"

definition remember_bot_user :: "attr \<Rightarrow> bot_identity \<Rightarrow> bot_identity" where
  "remember_bot_user u b = b\<lparr>bi_user := Some u, bi_host := cache_user u (bi_host b), bi_log_id := Some (obj_id u)\<rparr>"

definition own_user :: "'s caller \<Rightarrow> api_request \<Rightarrow> bot_identity \<Rightarrow> 's \<Rightarrow> (http_failure + attr) \<times> bot_identity \<times> 's" where
  "own_user api q b s =
     (case parsed api (parse_user (bi_host b)) q s of (Inl e, s1) \<Rightarrow> (Inl e, b, s1) | (Inr u, s1) \<Rightarrow> (Inr u, remember_bot_user u b, s1))"

definition bot_get_current_user :: "'s caller \<Rightarrow> bot_identity \<Rightarrow> 's \<Rightarrow> (http_failure + attr) \<times> bot_identity \<times> 's" where
  "bot_get_current_user api = own_user api api_get_current_user"

definition bot_modify_current_user :: "'s caller \<Rightarrow> jdict \<Rightarrow> bot_identity \<Rightarrow> 's \<Rightarrow> (http_failure + attr) \<times> bot_identity \<times> 's" where
  "bot_modify_current_user api payload = own_user api (api_modify_current_user payload)"

definition bot_id :: "bot_identity \<Rightarrow> int option" where
  "bot_id b = map_option obj_id (bi_user b)"

text \<open>
  \<open>delete_webhook\<close>: the clause for the \<open>DiscordError\<close> of vaidcord.http has no counterpart, since no
  failure of a caller is of that class.
\<close>

definition bot_delete_webhook :: "'s caller \<Rightarrow> string \<Rightarrow> bool \<Rightarrow> 's \<Rightarrow> (http_failure + json) \<times> 's" where
  "bot_delete_webhook api base_url drop_pending_updates s =
     (if is_infix ''discord.com/api'' base_url then (Inr (JDict []), s)
      else api ((api_post [Lit ''webhooks''])\<lparr>ar_json := Some (JDict [(''drop_pending_updates'', JBool drop_pending_updates)])\<rparr>) s)"

definition bot_update_presence :: "gateway_io \<Rightarrow> string \<Rightarrow> json list \<Rightarrow> bool \<Rightarrow> json \<Rightarrow> gateway \<Rightarrow> gateway \<times> outcome" where
  "bot_update_presence io status activities afk since = update_presence io status activities afk since"

definition bot_request_guild_members ::
  "gateway_io \<Rightarrow> int \<Rightarrow> string \<Rightarrow> int \<Rightarrow> bool \<Rightarrow> int list option \<Rightarrow> string option \<Rightarrow> gateway \<Rightarrow> gateway \<times> outcome" where
  "bot_request_guild_members io guild_id query cap presences user_ids nonce = request_guild_members io guild_id query cap presences user_ids nonce"

section \<open>Applications\<close>

datatype metadata_type =
    INTEGER_LESS_THAN_OR_EQUAL | INTEGER_GREATER_THAN_OR_EQUAL | INTEGER_EQUAL | INTEGER_NOT_EQUAL
  | DATETIME_LESS_THAN_OR_EQUAL | DATETIME_GREATER_THAN_OR_EQUAL | BOOLEAN_EQUAL | BOOLEAN_NOT_EQUAL

definition metadata_types :: "(metadata_type \<times> int) list" where
  "metadata_types =
     [(INTEGER_LESS_THAN_OR_EQUAL, 1), (INTEGER_GREATER_THAN_OR_EQUAL, 2), (INTEGER_EQUAL, 3), (INTEGER_NOT_EQUAL, 4),
      (DATETIME_LESS_THAN_OR_EQUAL, 5), (DATETIME_GREATER_THAN_OR_EQUAL, 6), (BOOLEAN_EQUAL, 7), (BOOLEAN_NOT_EQUAL, 8)]"

definition metadata_type_of :: "int \<Rightarrow> metadata_type result" where
  "metadata_type_of i =
     (case find (\<lambda>p. snd p = i) metadata_types of Some (t, _) \<Rightarrow> Inr t | None \<Rightarrow> Inl (ValueError ''not a valid ApplicationRoleConnectionMetadataType''))"

definition metadata_type_value :: "metadata_type \<Rightarrow> int" where
  "metadata_type_value t = (case map_of metadata_types t of Some i \<Rightarrow> i | None \<Rightarrow> 0)"

record role_metadata =
  rm_type :: metadata_type
  rm_key :: json
  rm_name :: json
  rm_description :: json
  rm_name_localizations :: json
  rm_description_localizations :: json

definition role_metadata_from_dict :: "json \<Rightarrow> role_metadata result" where
  "role_metadata_from_dict data =
     bind_result (bind_result (bind_result (json_index data ''type'') py_int) metadata_type_of) (\<lambda>t.
     bind_result (json_index data ''key'') (\<lambda>key.
     bind_result (json_index data ''name'') (\<lambda>name.
     bind_result (json_index data ''description'') (\<lambda>description.
     bind_result (json_get data ''name_localizations'' (JDict [])) (\<lambda>nl.
     bind_result (json_get data ''description_localizations'' (JDict [])) (\<lambda>dl.
       Inr \<lparr>rm_type = t, rm_key = key, rm_name = name, rm_description = description,
            rm_name_localizations = json_or nl (JDict []), rm_description_localizations = json_or dl (JDict [])\<rparr>))))))"

definition role_metadata_to_dict :: "role_metadata \<Rightarrow> jdict" where
  "role_metadata_to_dict r =
     [(''type'', JInt (metadata_type_value (rm_type r))), (''key'', rm_key r), (''name'', rm_name r), (''description'', rm_description r)] @
     (if json_truthy (rm_name_localizations r) then [(''name_localizations'', rm_name_localizations r)] else []) @
     (if json_truthy (rm_description_localizations r) then [(''description_localizations'', rm_description_localizations r)] else [])"

record bot_application =
  ba_id :: int
  ba_name :: json
  ba_description :: json
  ba_icon :: json
  ba_bot_public :: json
  ba_bot_require_code_grant :: json
  ba_verification_url :: json
  ba_interactions_url :: json
  ba_flags :: json
  ba_raw :: json

definition application_from_dict :: "json \<Rightarrow> bot_application result" where
  "application_from_dict data =
     bind_result (bind_result (json_index data ''id'') py_int) (\<lambda>i.
       case data of
         JDict d \<Rightarrow>
           Inr \<lparr>ba_id = i, ba_name = dict_get d ''name'' (JStr []), ba_description = dict_get d ''description'' (JStr []), ba_icon = jget d ''icon'',
                ba_bot_public = dict_get d ''bot_public'' (JBool True), ba_bot_require_code_grant = dict_get d ''bot_require_code_grant'' (JBool False),
                ba_verification_url = jget d ''role_connections_verification_url'', ba_interactions_url = jget d ''interactions_endpoint_url'',
                ba_flags = jget d ''flags'', ba_raw = data\<rparr>
       | _ \<Rightarrow> Inl (AttributeError ''get''))"

definition bot_get_current_application :: "'s caller \<Rightarrow> 's \<Rightarrow> (http_failure + bot_application) \<times> 's" where
  "bot_get_current_application api = parsed api application_from_dict (api_get [Lit ''applications'', Lit ''@me''])"

definition bot_edit_current_application :: "'s caller \<Rightarrow> jdict \<Rightarrow> 's \<Rightarrow> (http_failure + bot_application) \<times> 's" where
  "bot_edit_current_application api payload =
     parsed api application_from_dict ((api_patch [Lit ''applications'', Lit ''@me''])\<lparr>ar_json := Some (JDict payload)\<rparr>)"

definition metadata_path :: "int \<Rightarrow> segment list" where
  "metadata_path application_id = [Lit ''applications'', Num application_id, Lit ''role-connections'', Lit ''metadata'']"

definition bot_get_role_connection_metadata :: "'s caller \<Rightarrow> int \<Rightarrow> 's \<Rightarrow> (http_failure + role_metadata list) \<times> 's" where
  "bot_get_role_connection_metadata api application_id = parsed api (parse_all role_metadata_from_dict) (api_get (metadata_path application_id))"

definition bot_update_role_connection_metadata :: "'s caller \<Rightarrow> int \<Rightarrow> role_metadata list \<Rightarrow> 's \<Rightarrow> (http_failure + role_metadata list) \<times> 's" where
  "bot_update_role_connection_metadata api application_id records s =
     (if 5 < length records then (Inl (PythonError (ValueError ''Discord allows at most 5 role connection metadata records'')), s)
      else parsed api (parse_all role_metadata_from_dict)
             ((api_put (metadata_path application_id))\<lparr>ar_json := Some (JList (map (JDict \<circ> role_metadata_to_dict) records))\<rparr>) s)"

section \<open>Caches and metadata\<close>

text \<open>Every cached object stands under its own id.\<close>

definition keyed :: "(int, attr) dict \<Rightarrow> bool" where
  "keyed d \<longleftrightarrow> (\<forall>k v. map_of d k = Some v \<longrightarrow> obj_id v = k)"

definition caches_keyed :: "host \<Rightarrow> bool" where
  "caches_keyed h \<longleftrightarrow> keyed (ho_guilds h) \<and> keyed (ho_channels h) \<and> keyed (ho_users h)"

text \<open>What happens to the caches: gateway events, REST methods and direct messages.\<close>

inductive cache_step :: "(string \<Rightarrow> real result) \<Rightarrow> 's caller \<Rightarrow> host \<Rightarrow> host \<Rightarrow> bool" for fromiso api where
  step_event: "gateway_event fromiso h h' \<Longrightarrow> cache_step fromiso api h h'"
| step_fetch_channel: "bot_fetch_channel api c h s = (r, h', s') \<Longrightarrow> cache_step fromiso api h h'"
| step_modify_channel: "bot_modify_channel api c p h s = (r, h', s') \<Longrightarrow> cache_step fromiso api h h'"
| step_delete_channel: "bot_delete_channel api c h s = (r2, h', s') \<Longrightarrow> cache_step fromiso api h h'"
| step_fetch_guild: "bot_fetch_guild api g h s = (r, h', s') \<Longrightarrow> cache_step fromiso api h h'"
| step_channels: "bot_list_guild_channels api g h s = (rs, h', s') \<Longrightarrow> cache_step fromiso api h h'"
| step_fetch_user: "bot_fetch_user api u h s = (r, h', s') \<Longrightarrow> cache_step fromiso api h h'"
| step_guilds: "bot_get_current_user_guilds api p h s = (rs, h', s') \<Longrightarrow> cache_step fromiso api h h'"
| step_leave_guild: "bot_leave_guild api g h s = (r2, h', s') \<Longrightarrow> cache_step fromiso api h h'"
| step_own_user: "own_user api q b s = (r, b', s') \<Longrightarrow> bi_host b = h \<Longrightarrow> bi_host b' = h' \<Longrightarrow> cache_step fromiso api h h'"
| step_dm: "send_dm api fromiso now u a h s = (r, h', s') \<Longrightarrow> cache_step fromiso api h h'"

lemma keyed_set: "keyed d \<Longrightarrow> keyed (dict_set d (obj_id x) x)"
  by (simp add: keyed_def)

lemma keyed_pop: "keyed d \<Longrightarrow> keyed (dict_pop d k)"
  by (simp add: keyed_def)

lemma cache_keyed:
  assumes "caches_keyed h"
  shows "caches_keyed (cache_channel x h)" "caches_keyed (cache_user x h)" "caches_keyed (cache_guild x h)" "caches_keyed (cache_message x h)"
    "caches_keyed (h\<lparr>ho_channels := dict_pop (ho_channels h) k\<rparr>)" "caches_keyed (h\<lparr>ho_guilds := dict_pop (ho_guilds h) k\<rparr>)"
  using assms by (simp_all add: caches_keyed_def cache_channel_def cache_user_def cache_guild_def cache_message_def keyed_set keyed_pop)

lemma fold_keyed: "(\<And>x h. caches_keyed h \<Longrightarrow> caches_keyed (f x h)) \<Longrightarrow> caches_keyed h \<Longrightarrow> caches_keyed (fold f xs h)"
  by (induction xs arbitrary: h) auto

lemma fetched_keyed:
  assumes "fetched api q f cache h s = (r, h', s')" and "caches_keyed h" and "\<And>x h. caches_keyed h \<Longrightarrow> caches_keyed (cache x h)"
  shows "caches_keyed h'"
  using assms by (auto simp: fetched_def split: prod.splits sum.splits)

lemma send_dm_keyed: "send_dm api fromiso now u a h s = (r, h', s') \<Longrightarrow> caches_keyed h \<Longrightarrow> caches_keyed h'"
  by (auto simp: send_dm_def cache_keyed split: prod.splits sum.splits)

lemma cache_guilds_keyed: "cache_guilds xs h = Inr h' \<Longrightarrow> caches_keyed h \<Longrightarrow> caches_keyed h'"
  by (induction xs arbitrary: h) (auto simp: bind_result_Inr_iff cache_keyed)

lemma message_keyed: "handle_message_create fromiso now data h = Inr h' \<Longrightarrow> caches_keyed h \<Longrightarrow> caches_keyed h'"
  by (auto simp: handle_message_create_def bind_result_Inr_iff Let_def caches_keyed_def keyed_set split: if_splits)

lemma ready_keyed: "cache_ready data h = Inr h' \<Longrightarrow> caches_keyed h \<Longrightarrow> caches_keyed h'"
  by (auto simp: cache_ready_def bind_result_Inr_iff caches_keyed_def keyed_set dest!: cache_guilds_keyed)

lemma event_keyed: "gateway_event fromiso h h' \<Longrightarrow> caches_keyed h \<Longrightarrow> caches_keyed h'"
  by (auto simp: gateway_event_def dispatch_caches_def bind_result_Inr_iff split: if_splits dest: ready_keyed message_keyed)

lemmas cache_ops = bot_fetch_channel_def bot_modify_channel_def bot_delete_channel_def bot_fetch_guild_def bot_list_guild_channels_def bot_fetch_user_def
  bot_get_current_user_guilds_def bot_leave_guild_def

lemma cache_step_keyed: "cache_step fromiso api h h' \<Longrightarrow> caches_keyed h \<Longrightarrow> caches_keyed h'"
proof (induction rule: cache_step.induct)
  case (step_own_user q b s r b' s' h h')
  then show ?case by (auto simp: own_user_def remember_bot_user_def cache_keyed split: prod.splits sum.splits)
qed (auto simp: cache_ops cache_keyed fold_keyed elim!: fetched_keyed event_keyed send_dm_keyed)

interpretation facade_caches: transition_invariant "cache_step fromiso api" "h0\<lparr>ho_guilds := [], ho_channels := [], ho_users := []\<rparr>" caches_keyed for fromiso api h0
  by unfold_locales (auto simp: caches_keyed_def [of "_\<lparr>ho_guilds := [], ho_channels := [], ho_users := []\<rparr>"] keyed_def [of "[]"] intro: cache_step_keyed)

text \<open>
  C38: the caches of the bot are keyed by id. However gateway events, REST methods that fetch, change
  or delete channels, guilds and users, and direct messages follow each other, whatever the service
  answers, every cached guild, channel and user stands under its own id.
\<close>

theorem cached_under_own_id:
  assumes "reachable_from (cache_step fromiso api) (h0\<lparr>ho_guilds := [], ho_channels := [], ho_users := []\<rparr>) h"
    and "map_of (ho_guilds h) k = Some x \<or> map_of (ho_channels h) k = Some x \<or> map_of (ho_users h) k = Some x"
  shows "obj_id x = k"
  using facade_caches.reachable_inv [OF assms(1)] assms(2) by (auto simp: caches_keyed_def keyed_def)

theorem cached_under_own_id_witness:
  "\<exists>h k x. reachable_from (cache_step (\<lambda>_. Inr 0) (\<lambda>q (s :: unit). (Inr (JDict [(''id'', JStr ''7'')]), s)))
     (new_host\<lparr>ho_guilds := [], ho_channels := [], ho_users := []\<rparr>) h \<and> map_of (ho_users h) k = Some x \<and> obj_id x = k"
proof -
  let ?h0 = "new_host\<lparr>ho_guilds := [], ho_channels := [], ho_users := []\<rparr>"
  let ?api = "\<lambda>q (s :: unit). (Inr (JDict [(''id'', JStr ''7'')]), s)"
  have "int_ok (JStr ''7'')" by code_simp
  then obtain as where "parse_user ?h0 (JDict [(''id'', JStr ''7'')]) = Inr (AObj ''User'' as)"
    using user_total [of "JDict [(''id'', JStr ''7'')]" ?h0] by (auto simp: user_ok_def req_ok_def)
  then have "bot_fetch_user ?api 7 ?h0 () = (Inr (AObj ''User'' as), cache_user (AObj ''User'' as) ?h0, ())"
    by (simp add: bot_fetch_user_def fetched_def parsed_def of_result_def)
  then have "cache_step (\<lambda>_. Inr 0) ?api ?h0 (cache_user (AObj ''User'' as) ?h0)" by (rule step_fetch_user)
  then have r: "reachable_from (cache_step (\<lambda>_. Inr 0) ?api) ?h0 (cache_user (AObj ''User'' as) ?h0)"
    by (rule reachable_next [OF reachable_start])
  have m: "map_of (ho_users (cache_user (AObj ''User'' as) ?h0)) (obj_id (AObj ''User'' as)) = Some (AObj ''User'' as)" by (simp add: cache_user_def)
  from cached_under_own_id [OF r disjI2 [OF disjI2 [OF m]]] r m show ?thesis by blast
qed

lemma metadata_type_roundtrip: "metadata_type_of (metadata_type_value t) = Inr t"
  by (cases t) (simp_all add: metadata_type_of_def metadata_type_value_def metadata_types_def)

lemma role_metadata_roundtrip:
  assumes "role_metadata_from_dict data = Inr r"
  shows "role_metadata_from_dict (JDict (role_metadata_to_dict r)) = Inr r"
proof -
  obtain nl dl where "rm_name_localizations r = json_or nl (JDict [])" "rm_description_localizations r = json_or dl (JDict [])"
    using assms by (auto simp: role_metadata_from_dict_def bind_result_Inr_iff)
  then have "json_truthy (rm_name_localizations r) \<or> rm_name_localizations r = JDict []" "json_truthy (rm_description_localizations r) \<or> rm_description_localizations r = JDict []"
    by (simp_all add: json_or_def)
  then show ?thesis
    by (cases r) (auto simp: role_metadata_from_dict_def role_metadata_to_dict_def json_index_def dict_index_def json_get_def dict_get_def
        metadata_type_roundtrip json_or_def json_truthy_def)
qed

text \<open>A sixth record is refused before any request.\<close>

lemma metadata_limit: "5 < length records \<Longrightarrow> snd (bot_update_role_connection_metadata api i records s) = s"
  by (simp add: bot_update_role_connection_metadata_def)

end
