(* ===== verification/Dispatcher.thy ===== *)
theory Dispatcher
  imports RouterResolution
begin

text \<open>
  The dispatcher (src/vaidcord-py/src/vaidcord/dispatcher.py): a router with FSM middleware that is
  attached to bots and runs the startup and shutdown handlers around their polling. Bots are routers
  at addresses of the store. \<open>start_polling\<close> is cut at its \<open>await\<close>s, so that several bots can
  interleave.
\<close>

section \<open>Wiring\<close>

definition plain_layer :: "'c \<Rightarrow> 'c layer_config" where
  "plain_layer item = \<lparr>lc_item = item, lc_priority = 0, lc_event_types = None\<rparr>"

definition new_dispatcher :: "nat \<Rightarrow> nat \<Rightarrow> string \<Rightarrow> 'c \<Rightarrow> 'd option \<Rightarrow> ('c, 'd) store \<Rightarrow> ('c, 'd) store option" where
  "new_dispatcher n self nm fsm bot_value st =
     (case add_outer_middleware n self (plain_layer fsm) (st(self := new_router nm)) of
        None \<Rightarrow> None
      | Some st1 \<Rightarrow> (case bot_value of None \<Rightarrow> Some st1 | Some v \<Rightarrow> provide n self ''bot'' v st1))"

definition setup_fsm :: "nat \<Rightarrow> nat \<Rightarrow> 'c \<Rightarrow> ('c, 'd) store \<Rightarrow> ('c, 'd) store option" where
  "setup_fsm n self fsm st = add_outer_middleware n self (plain_layer fsm) st"

definition dispatcher_startup :: "('c \<Rightarrow> 'u \<Rightarrow> unit result \<times> 'u) \<Rightarrow> nat \<Rightarrow> ('c, 'd) store \<Rightarrow> nat \<Rightarrow> 'u \<Rightarrow> unit result \<times> 'u" where
  "dispatcher_startup = emit_startup"

definition dispatcher_shutdown :: "('c \<Rightarrow> 'u \<Rightarrow> unit result \<times> 'u) \<Rightarrow> nat \<Rightarrow> ('c, 'd) store \<Rightarrow> nat \<Rightarrow> 'u \<Rightarrow> unit result \<times> 'u" where
  "dispatcher_shutdown = emit_shutdown"

definition dispatcher_reconnect :: "('c \<Rightarrow> 'u \<Rightarrow> unit result \<times> 'u) \<Rightarrow> nat \<Rightarrow> ('c, 'd) store \<Rightarrow> nat \<Rightarrow> 'u \<Rightarrow> unit result \<times> 'u" where
  "dispatcher_reconnect = emit_reconnect"

definition dispatcher_include_router :: "nat \<Rightarrow> nat \<Rightarrow> (nat \<Rightarrow> bool) \<Rightarrow> nat \<Rightarrow> ('c, 'd) store \<Rightarrow> ('c, 'd) store option result" where
  "dispatcher_include_router n self is_dispatcher child st =
     (if is_dispatcher child then Inl (ValueError ''Dispatcher cannot include another Dispatcher'') else include_router n self child st)"

definition attach_to_bot :: "nat \<Rightarrow> nat \<Rightarrow> nat \<Rightarrow> ('c, 'd) store \<Rightarrow> ('c, 'd) store option result" where
  "attach_to_bot n self b st =
     (if self \<in> set (r_routers (st b)) then Inr (Some st)
      else if r_parent (st self) = None then include_router n b self st
      else Inr (Some (st(b := (st b)\<lparr>r_routers := r_routers (st b) @ [self]\<rparr>))))"

text \<open>The synchronous beginning of \<open>start_polling\<close>: \<open>v\<close> is the bot as an injected value.\<close>

definition wire_bot :: "nat \<Rightarrow> nat \<Rightarrow> nat \<Rightarrow> 'd \<Rightarrow> ('c, 'd) store \<Rightarrow> ('c, 'd) store option result" where
  "wire_bot n self b v st = (case provide n self ''bot'' v st of None \<Rightarrow> Inr None | Some st1 \<Rightarrow> attach_to_bot n self b st1)"

section \<open>Polling\<close>

datatype poll_phase = NotStarted | StartingUp | Polling | ShuttingDown | Finished | StartupFailed

datatype lifecycle_run = StartupRun nat | ShutdownRun nat

record polling =
  po_active :: "nat list"
  po_started :: bool
  po_phase :: "nat \<Rightarrow> poll_phase"
  po_runs :: "lifecycle_run list"

definition no_polling :: polling where
  "no_polling = \<lparr>po_active = [], po_started = False, po_phase = (\<lambda>_. NotStarted), po_runs = []\<rparr>"

definition set_phase :: "nat \<Rightarrow> poll_phase \<Rightarrow> polling \<Rightarrow> polling" where
  "set_phase b p s = s\<lparr>po_phase := (po_phase s)(b := p)\<rparr>"

text \<open>The bot is added to the active ones; the first one runs the startup handlers.\<close>

definition enter_polling :: "nat \<Rightarrow> polling \<Rightarrow> polling" where
  "enter_polling b s =
     (let s1 = s\<lparr>po_active := List.insert b (po_active s)\<rparr>
      in if po_started s1 then set_phase b Polling s1 else set_phase b StartingUp (s1\<lparr>po_runs := po_runs s1 @ [StartupRun b]\<rparr>))"

definition startup_done :: "nat \<Rightarrow> polling \<Rightarrow> polling" where
  "startup_done b s = set_phase b Polling (s\<lparr>po_started := True\<rparr>)"

text \<open>A startup handler raises: this is before the \<open>try\<close>.\<close>

definition startup_raises :: "nat \<Rightarrow> polling \<Rightarrow> polling" where
  "startup_raises b s = set_phase b StartupFailed s"

definition bot_ended :: "nat \<Rightarrow> polling \<Rightarrow> polling" where
  "bot_ended b s =
     (let s1 = s\<lparr>po_active := removeAll b (po_active s)\<rparr>
      in if po_active s1 = [] \<and> po_started s1 then set_phase b ShuttingDown (s1\<lparr>po_runs := po_runs s1 @ [ShutdownRun b]\<rparr>)
         else set_phase b Finished s1)"

definition shutdown_done :: "nat \<Rightarrow> polling \<Rightarrow> polling" where
  "shutdown_done b s = set_phase b Finished (s\<lparr>po_started := False\<rparr>)"

inductive poll_step :: "polling \<Rightarrow> polling \<Rightarrow> bool" where
  poll_startup_done: "po_phase s b = StartingUp \<Longrightarrow> poll_step s (startup_done b s)"
| poll_ended: "po_phase s b = Polling \<Longrightarrow> poll_step s (bot_ended b s)"
| poll_shutdown_done: "po_phase s b = ShuttingDown \<Longrightarrow> poll_step s (shutdown_done b s)"

text \<open>
  \<open>start_polling_many\<close>: \<open>gather\<close> runs each coroutine to its first \<open>await\<close> before any of them goes on.
\<close>

definition start_polling_many :: "nat list \<Rightarrow> polling result" where
  "start_polling_many bots =
     (if bots = [] then Inl (ValueError ''start_polling_many requires at least one bot'') else Inr (fold enter_polling bots no_polling))"

definition shutdowns :: "polling \<Rightarrow> nat list" where
  "shutdowns s = concat (map (\<lambda>r. case r of ShutdownRun b \<Rightarrow> [b] | _ \<Rightarrow> []) (po_runs s))"

definition startups :: "polling \<Rightarrow> nat list" where
  "startups s = concat (map (\<lambda>r. case r of StartupRun b \<Rightarrow> [b] | _ \<Rightarrow> []) (po_runs s))"

text \<open>What holds while the bots of one \<open>gather\<close> run.\<close>

definition gather_inv :: "nat set \<Rightarrow> polling \<Rightarrow> bool" where
  "gather_inv bs s \<longleftrightarrow>
     bs \<noteq> {} \<and> set (po_active s) = {b \<in> bs. po_phase s b \<in> {StartingUp, Polling}} \<and>
     (\<forall>b. b \<notin> bs \<longrightarrow> po_phase s b = NotStarted) \<and> (\<forall>b \<in> bs. po_phase s b \<in> {StartingUp, Polling, ShuttingDown, Finished}) \<and>
     (po_active s \<noteq> [] \<longrightarrow> shutdowns s = [] \<and> (\<forall>b \<in> bs. po_phase s b \<noteq> ShuttingDown) \<and> (po_started s \<longleftrightarrow> (\<exists>b \<in> bs. po_phase s b \<noteq> StartingUp))) \<and>
     (po_active s = [] \<longrightarrow> length (shutdowns s) = 1 \<and> (po_started s \<longleftrightarrow> (\<exists>b \<in> bs. po_phase s b = ShuttingDown)) \<and>
        (\<forall>b \<in> bs. \<forall>c \<in> bs. po_phase s b = ShuttingDown \<longrightarrow> po_phase s c = ShuttingDown \<longrightarrow> b = c))"

lemma enter_all:
  "po_started s = False \<Longrightarrow> fold enter_polling bots s =
     s\<lparr>po_active := fold List.insert bots (po_active s), po_phase := (\<lambda>b. if b \<in> set bots then StartingUp else po_phase s b),
       po_runs := po_runs s @ map StartupRun bots\<rparr>"
proof (induction bots arbitrary: s)
  case (Cons b bots)
  then show ?case by (simp add: enter_polling_def Let_def set_phase_def) (auto simp: fun_eq_iff)
qed simp

lemma fold_insert_set: "set (fold List.insert xs ys) = set xs \<union> set ys"
  by (induction xs arbitrary: ys) auto

lemma shutdowns_simps [simp]:
  "shutdowns (s\<lparr>po_active := a\<rparr>) = shutdowns s" "shutdowns (s\<lparr>po_started := st\<rparr>) = shutdowns s" "shutdowns (set_phase b p s) = shutdowns s"
  "shutdowns (s\<lparr>po_runs := po_runs s @ [ShutdownRun b]\<rparr>) = shutdowns s @ [b]"
  by (simp_all add: shutdowns_def set_phase_def)

lemma gather_start: "start_polling_many bots = Inr s \<Longrightarrow> gather_inv (set bots) s"
proof -
  assume s: "start_polling_many bots = Inr s"
  then have ne: "bots \<noteq> []" and e: "s = fold enter_polling bots no_polling" by (auto simp: start_polling_many_def split: if_splits)
  have f: "fold enter_polling bots no_polling = no_polling\<lparr>po_active := fold List.insert bots [], po_phase := (\<lambda>b. if b \<in> set bots then StartingUp else NotStarted),
      po_runs := map StartupRun bots\<rparr>"
    using enter_all [of no_polling bots] by (simp add: no_polling_def fun_eq_iff)
  have a: "set (po_active s) = set bots" using fold_insert_set [of bots "[]"] by (simp add: e f)
  have sd: "concat (map (\<lambda>r. case r of ShutdownRun b \<Rightarrow> [b] | StartupRun _ \<Rightarrow> []) (map StartupRun bots)) = []" by (induction bots) auto
  have "shutdowns s = []" using sd by (simp add: e f shutdowns_def)
  moreover have "po_phase s = (\<lambda>b. if b \<in> set bots then StartingUp else NotStarted)" "\<not> po_started s" by (simp_all add: e f) (simp add: no_polling_def)
  moreover have "po_active s \<noteq> []" using a ne by auto
  ultimately show ?thesis using ne a by (auto simp: gather_inv_def)
qed


lemma inv_startup_done:
  assumes inv: "gather_inv bs s" and p: "po_phase s b = StartingUp"
  shows "gather_inv bs (startup_done b s)"
proof -
  have b: "b \<in> bs" using inv p by (auto simp: gather_inv_def)
  then have "b \<in> set (po_active s)" using inv p by (simp add: gather_inv_def)
  then have "po_active s \<noteq> []" by auto
  then show ?thesis using inv p b by (auto simp: gather_inv_def startup_done_def set_phase_def shutdowns_def)
qed

lemma inv_ended:
  assumes inv: "gather_inv bs s" and p: "po_phase s b = Polling"
  shows "gather_inv bs (bot_ended b s)"
proof -
  have b: "b \<in> bs" using inv p by (auto simp: gather_inv_def)
  then have ba: "b \<in> set (po_active s)" using inv p by (simp add: gather_inv_def)
  then have ne: "po_active s \<noteq> []" by auto
  then have st: "po_started s" "shutdowns s = []" "\<forall>c \<in> bs. po_phase s c \<noteq> ShuttingDown" using inv b p by (auto simp: gather_inv_def)
  have phases: "\<forall>c. c \<notin> bs \<longrightarrow> po_phase s c = NotStarted" "\<forall>c \<in> bs. po_phase s c \<in> {StartingUp, Polling, ShuttingDown, Finished}"
    and active: "set (po_active s) = {c \<in> bs. po_phase s c \<in> {StartingUp, Polling}}" and "bs \<noteq> {}"
    using inv by (simp_all add: gather_inv_def)
  show ?thesis
  proof (cases "removeAll b (po_active s) = []")
    case True
    then have "set (po_active s) \<subseteq> {b}" by (metis set_removeAll set_empty Diff_eq_empty_iff)
    then have fin: "\<forall>c \<in> bs. c \<noteq> b \<longrightarrow> po_phase s c = Finished" using active phases(2) st(3) by blast
    have f: "po_active (bot_ended b s) = []" "po_started (bot_ended b s) = True" "po_phase (bot_ended b s) = (po_phase s)(b := ShuttingDown)" "shutdowns (bot_ended b s) = [b]"
      using True st by (simp_all add: bot_ended_def set_phase_def shutdowns_def)
    show ?thesis unfolding gather_inv_def f using b fin phases(1) \<open>bs \<noteq> {}\<close> by auto
  next
    case False
    have f: "po_active (bot_ended b s) = removeAll b (po_active s)" "po_started (bot_ended b s) = True" "po_phase (bot_ended b s) = (po_phase s)(b := Finished)"
        "shutdowns (bot_ended b s) = []"
      using False st by (simp_all add: bot_ended_def set_phase_def shutdowns_def)
    have "set (removeAll b (po_active s)) = {c \<in> bs. ((po_phase s)(b := Finished)) c \<in> {StartingUp, Polling}}" using active by auto
    moreover have "\<exists>c \<in> bs. ((po_phase s)(b := Finished)) c \<noteq> StartingUp" using b by (intro bexI [of _ b]) auto
    ultimately show ?thesis unfolding gather_inv_def f using b phases st(3) False \<open>bs \<noteq> {}\<close> by simp
  qed
qed

lemma inv_shutdown_done:
  assumes inv: "gather_inv bs s" and p: "po_phase s b = ShuttingDown"
  shows "gather_inv bs (shutdown_done b s)"
proof -
  have b: "b \<in> bs" using inv p by (auto simp: gather_inv_def)
  then have "po_active s = []" using inv p by (auto simp: gather_inv_def)
  then show ?thesis using inv p b by (auto simp: gather_inv_def shutdown_done_def set_phase_def shutdowns_def)
qed

lemma gather_step: "gather_inv bs s \<Longrightarrow> poll_step s s' \<Longrightarrow> gather_inv bs s'"
  by (auto elim!: poll_step.cases intro: inv_startup_done inv_ended inv_shutdown_done)



text \<open>The startup handlers, however, run once per bot: none of them sees that another has begun.\<close>

lemma startup_runs_per_bot: "start_polling_many bots = Inr s \<Longrightarrow> startups s = bots"
proof -
  have "concat (map (\<lambda>r. case r of StartupRun b \<Rightarrow> [b] | ShutdownRun _ \<Rightarrow> []) (map StartupRun bots)) = bots" by (induction bots) auto
  moreover have runs: "po_runs (fold enter_polling bots no_polling) = map StartupRun bots"
    using enter_all [of no_polling bots] by (simp add: no_polling_def)
  ultimately show "start_polling_many bots = Inr s \<Longrightarrow> startups s = bots"
    using runs by (auto simp: start_polling_many_def startups_def split: if_splits)
qed

text \<open>After a startup handler has raised, the bot stays among the active ones and no later run shuts down.\<close>

lemma failed_startup_blocks_shutdown:
  "let s1 = startup_raises 1 (enter_polling 1 no_polling);
       s2 = bot_ended 2 (startup_done 2 (enter_polling 2 s1))
   in po_phase s2 2 = Finished \<and> shutdowns s2 = [] \<and> po_started s2"
  by (simp add: Let_def startup_raises_def enter_polling_def no_polling_def bot_ended_def startup_done_def set_phase_def shutdowns_def)

section \<open>Shared dispatchers\<close>

lemma invalidate_keeps:
  assumes "invalidate n i st = Some st'"
  shows "r_dependencies (st' j) = r_dependencies (st j)" "r_routers (st' j) = r_routers (st j)" "r_parent (st' j) = r_parent (st j)"
    "r_outer_middlewares (st' j) = r_outer_middlewares (st j)"
  using invalidate_cleared [OF assms] by (simp_all add: cleared_def clear_caches_def)

text \<open>A bot that is wired has the dispatcher among its routers, whichever way it was attached.\<close>

lemma wired_bot_has_dispatcher:
  assumes "wire_bot n self b v st = Inr (Some st')"
  shows "self \<in> set (r_routers (st' b)) \<and> map_of (r_dependencies (st' self)) ''bot'' = Some v"
proof -
  obtain st1 where p: "provide n self ''bot'' v st = Some st1" and a: "attach_to_bot n self b st1 = Inr (Some st')"
    using assms by (auto simp: wire_bot_def split: option.splits)
  have d: "map_of (r_dependencies (st1 self)) ''bot'' = Some v" using p by (simp add: provide_def invalidate_keeps)
  show ?thesis
    using a d by (auto simp: attach_to_bot_def include_router_def link_router_def Let_def invalidate_keeps split: if_splits)
qed

text \<open>
  Handlers that ask for the bot get the one wired last, and the tree of a shared dispatcher is no
  longer consistent: the second bot lists a child whose parent is the first one.
\<close>

lemma last_bot_is_injected:
  assumes "wire_bot n self b1 v1 st = Inr (Some st1)" and "wire_bot m self b2 v2 st1 = Inr (Some st2)"
  shows "map_of (r_dependencies (st2 self)) ''bot'' = Some v2"
  using wired_bot_has_dispatcher [OF assms(2)] by simp

lemma wire_first_parent:
  assumes "wire_bot n self b v st = Inr (Some st')" and "r_parent (st self) = None" and "self \<notin> set (r_routers (st b))"
  shows "r_parent (st' self) = Some b"
proof -
  obtain st1 where p: "provide n self ''bot'' v st = Some st1" and a: "attach_to_bot n self b st1 = Inr (Some st')"
    using assms(1) by (auto simp: wire_bot_def split: option.splits)
  have "r_parent (st1 self) = None" "r_routers (st1 b) = r_routers (st b)" using p assms(2) by (simp_all add: provide_def invalidate_keeps)
  then show ?thesis
    using a assms(3) by (auto simp: attach_to_bot_def include_router_def link_router_def Let_def invalidate_keeps split: if_splits)
qed

lemma wire_next_parent:
  assumes "wire_bot n self b v st = Inr (Some st')" and "r_parent (st self) = Some p"
  shows "r_parent (st' self) = Some p"
  using assms by (auto simp: wire_bot_def attach_to_bot_def provide_def invalidate_keeps split: option.splits if_splits)

lemma shared_dispatcher_inconsistent:
  assumes "wire_bot n self b1 v1 st = Inr (Some st1)" and "r_parent (st self) = None" and "self \<notin> set (r_routers (st b1))"
    and "wire_bot m self b2 v2 st1 = Inr (Some st2)" and "b1 \<noteq> b2"
  shows "r_parent (st2 self) = Some b1 \<and> \<not> tree_consistent st2"
proof -
  have "r_parent (st2 self) = Some b1" using wire_next_parent [OF assms(4) wire_first_parent [OF assms(1-3)]] .
  moreover have "self \<in> set (r_routers (st2 b2))" using wired_bot_has_dispatcher [OF assms(4)] by simp
  ultimately show ?thesis using assms(5) unfolding tree_consistent_def by fastforce
qed

text \<open>Another FSM middleware does not replace the first one.\<close>

lemma setup_fsm_keeps_old:
  assumes "new_dispatcher n self nm f1 None st = Some st1" and "setup_fsm m self f2 st1 = Some st2"
  shows "plain_layer f1 \<in> set (r_outer_middlewares (st2 self)) \<and> plain_layer f2 \<in> set (r_outer_middlewares (st2 self))"
  using assms by (auto simp: new_dispatcher_def setup_fsm_def add_outer_middleware_def invalidate_keeps split: option.splits)

end
