(* ===== verification/EventModels.thy ===== *)
theory EventModels
  imports EventParser
begin

text \<open>
  The dataclasses of the gateway models (src/vaidcord-py/src/vaidcord/types/__init__.py): each
  class is the table of its fields with their defaults, and calling the class with keyword
  arguments is \<open>construct\<close>, with the \<open>TypeError\<close> of Python for a keyword the class does not have
  and for a field without default that is not given. The parsers of \<open>EventParser\<close> are shown to
  give every field of the class they build and no other. Then the computed attributes of the
  models and the actions of a message that is bound to a bot.
\<close>

section \<open>Classes as tables\<close>

type_synonym class_table = "(string \<times> attr option) list"

definition required :: "string list \<Rightarrow> class_table" where
  "required names = map (\<lambda>n. (n, None)) names"

definition none_fields :: "string list \<Rightarrow> class_table" where
  "none_fields names = map (\<lambda>n. (n, Some ANone)) names"

definition json_fields :: "json \<Rightarrow> string list \<Rightarrow> class_table" where
  "json_fields v names = map (\<lambda>n. (n, Some (AJson v))) names"

definition user_class :: class_table where
  "user_class =
     required [''id'', ''username''] @ json_fields (JStr ''0'') [''discriminator''] @ none_fields [''global_name''] @
     json_fields (JBool False) [''bot'', ''system''] @
     none_fields [''mfa_enabled'', ''locale'', ''verified'', ''email'', ''flags'', ''premium_type'', ''public_flags'',
       ''avatar'', ''banner'', ''accent_color'', ''avatar_decoration_data'', ''collectibles'', ''primary_guild'']"

definition guild_class :: class_table where
  "guild_class =
     required [''id'', ''name''] @ none_fields [''icon'', ''icon_hash'', ''splash'', ''discovery_splash''] @
     json_fields (JBool False) [''owner''] @
     none_fields [''owner_id'', ''permissions'', ''region'', ''afk_channel_id'', ''afk_timeout'', ''widget_enabled'',
       ''widget_channel_id'', ''verification_level'', ''default_message_notifications'', ''explicit_content_filter''] @
     json_fields (JList []) [''roles'', ''emojis'', ''features''] @
     none_fields [''mfa_level'', ''application_id'', ''system_channel_id'', ''system_channel_flags'', ''rules_channel_id'',
       ''joined_at'', ''large'', ''unavailable'', ''member_count''] @
     json_fields (JList []) [''voice_states'', ''members'', ''channels'', ''threads'', ''presences''] @
     none_fields [''max_presences'', ''max_members'', ''vanity_url_code'', ''description'', ''banner'', ''premium_tier'',
       ''premium_subscription_count'', ''preferred_locale'', ''public_updates_channel_id'', ''max_video_channel_users'',
       ''approximate_member_count'', ''approximate_presence_count'', ''welcome_screen'', ''nsfw_level''] @
     json_fields (JList []) [''stickers''] @
     none_fields [''premium_progress_bar_enabled'', ''safety_alerts_channel_id'', ''incidents_data''] @
     json_fields (JDict []) [''raw_data'']"

definition channel_class :: class_table where
  "channel_class =
     required [''id'', ''type''] @ none_fields [''guild_id'', ''name'', ''position''] @
     json_fields (JList []) [''permission_overwrites''] @
     none_fields [''topic'', ''nsfw'', ''last_message_id'', ''bitrate'', ''user_limit'', ''rate_limit_per_user''] @
     [(''recipients'', Some (AList []))] @
     none_fields [''icon'', ''owner_id'', ''application_id'', ''managed'', ''parent_id'', ''last_pin_timestamp'', ''rtc_region'',
       ''video_quality_mode'', ''message_count'', ''member_count''] @
     json_fields (JDict []) [''thread_metadata'', ''member''] @
     none_fields [''default_auto_archive_duration'', ''permissions'', ''flags'', ''total_message_sent''] @
     json_fields (JList []) [''available_tags''] @ [(''applied_tags'', Some (AInts []))] @
     none_fields [''default_reaction_emoji'', ''default_thread_rate_limit_per_user'', ''default_sort_order'', ''default_forum_layout''] @
     json_fields (JDict []) [''raw_data'']"

definition message_class :: class_table where
  "message_class =
     required [''id'', ''channel'', ''author'', ''content'', ''timestamp''] @ none_fields [''edited_timestamp''] @
     json_fields (JBool False) [''tts'', ''mention_everyone''] @
     [(''mentions'', Some (AList [])), (''mention_roles'', Some (AInts [])), (''mention_channels'', Some (AList []))] @
     json_fields (JList []) [''attachments'', ''embeds'', ''reactions''] @ none_fields [''nonce''] @
     json_fields (JBool False) [''pinned''] @ none_fields [''webhook_id'', ''type''] @
     json_fields (JDict []) [''activity'', ''application''] @ none_fields [''application_id''] @
     json_fields (JDict []) [''message_reference''] @ json_fields (JList []) [''message_snapshots''] @
     none_fields [''flags'', ''referenced_message''] @ json_fields (JDict []) [''interaction_metadata'', ''interaction''] @
     none_fields [''thread''] @ json_fields (JList []) [''components'', ''sticker_items'', ''stickers''] @
     none_fields [''position''] @ json_fields (JDict []) [''role_subscription_data'', ''resolved''] @
     none_fields [''poll'', ''call'', ''shared_client_theme'', ''guild''] @ json_fields (JDict []) [''member'', ''raw_data''] @
     none_fields [''bot'']"

definition ready_class :: class_table where
  "ready_class =
     none_fields [''version'', ''user''] @ [(''guilds'', Some (AList []))] @
     none_fields [''session_id'', ''resume_gateway_url'', ''shard'', ''application''] @ json_fields (JDict []) [''raw_data'']"

definition resume_class :: class_table where
  "resume_class =
     none_fields [''session_id'', ''sequence''] @ json_fields (JBool True) [''replayed''] @ json_fields (JDict []) [''raw_data'']"

definition deleted_message_class :: class_table where
  "deleted_message_class = required [''id'', ''channel_id''] @ none_fields [''guild_id''] @ json_fields (JDict []) [''raw_data'']"

definition bulk_deleted_class :: class_table where
  "bulk_deleted_class = required [''ids'', ''channel_id''] @ none_fields [''guild_id''] @ json_fields (JDict []) [''raw_data'']"

definition reaction_class :: class_table where
  "reaction_class =
     required [''user_id'', ''channel_id'', ''message_id''] @ none_fields [''guild_id'', ''member''] @
     json_fields (JDict []) [''emoji'', ''raw_data'']"

definition typing_class :: class_table where
  "typing_class =
     required [''channel_id'', ''user_id'', ''timestamp''] @ none_fields [''guild_id'', ''member''] @ json_fields (JDict []) [''raw_data'']"

definition poll_vote_class :: class_table where
  "poll_vote_class =
     required [''user_id'', ''channel_id'', ''message_id'', ''answer_id''] @ none_fields [''guild_id''] @ json_fields (JDict []) [''raw_data'']"

definition message_pin_class :: class_table where
  "message_pin_class = required [''pinned_at'', ''message''] @ json_fields (JDict []) [''raw_data'']"

definition raw_event_class :: class_table where
  "raw_event_class = required [''type'', ''data''] @ json_fields (JDict []) [''raw_data'']"

text \<open>The clock gives the default of the time stamp of an event.\<close>

definition event_class :: "real \<Rightarrow> class_table" where
  "event_class now =
     required [''type'', ''data''] @ [(''timestamp'', Some (ATime now))] @
     none_fields [''shard_id'', ''event_id'', ''message'', ''user'', ''guild'', ''channel''] @ json_fields (JDict []) [''context''] @
     none_fields [''interaction'', ''object'', ''payload'', ''ready'', ''resume'', ''deleted_message'', ''deleted_messages'',
       ''reaction'', ''typing'', ''poll_vote''] @
     json_fields (JDict []) [''raw_data''] @ none_fields [''bot'']"

definition missing_args :: "class_table \<Rightarrow> (string \<times> attr) list \<Rightarrow> string list" where
  "missing_args cls args = map fst (filter (\<lambda>(n, d). d = None \<and> n \<notin> fst ` set args) cls)"

definition unknown_args :: "class_table \<Rightarrow> (string \<times> attr) list \<Rightarrow> string list" where
  "unknown_args cls args = map fst (filter (\<lambda>(n, v). n \<notin> fst ` set cls) args)"

definition field_of :: "(string \<times> attr) list \<Rightarrow> string \<times> attr option \<Rightarrow> string \<times> attr" where
  "field_of args f =
     (fst f, case map_of args (fst f) of
               Some v \<Rightarrow> v
             | None \<Rightarrow> (case snd f of Some v \<Rightarrow> v | None \<Rightarrow> ANone))"

definition construct :: "string \<Rightarrow> class_table \<Rightarrow> (string \<times> attr) list \<Rightarrow> attr result" where
  "construct name cls args =
     (if unknown_args cls args \<noteq> [] then Inl (TypeError ''unexpected keyword argument'')
      else if missing_args cls args \<noteq> [] then Inl (TypeError ''missing required argument'')
      else Inr (AObj name (map (field_of args) cls)))"

section \<open>The parsers give every field of their class\<close>

lemmas class_pieces = required_def none_fields_def json_fields_def

text \<open>The classes by name.\<close>

definition model_classes :: "(string \<times> class_table) list" where
  "model_classes =
     [(''User'', user_class), (''Guild'', guild_class), (''Channel'', channel_class), (''Message'', message_class),
      (''Ready'', ready_class), (''Resume'', resume_class), (''DeletedMessage'', deleted_message_class),
      (''BulkDeletedMessages'', bulk_deleted_class), (''Reaction'', reaction_class), (''TypingStart'', typing_class),
      (''PollVote'', poll_vote_class), (''MessagePin'', message_pin_class), (''RawGatewayEvent'', raw_event_class)]"

text \<open>An object whose attributes are the fields of its class, each once.\<close>

definition fits_class :: "attr \<Rightarrow> bool" where
  "fits_class a =
     (case a of
        AObj name as \<Rightarrow>
          (case map_of model_classes name of
             Some cls \<Rightarrow> distinct (map fst as) \<and> fst ` set as = fst ` set cls
           | None \<Rightarrow> False)
      | _ \<Rightarrow> False)"

lemma construct_given:
  assumes "fst ` set args \<subseteq> fst ` set cls" and "\<forall>n. (n, None) \<in> set cls \<longrightarrow> n \<in> fst ` set args"
  shows "construct name cls args = Inr (AObj name (map (field_of args) cls))"
proof -
  have "fst p \<in> fst ` set cls" if "p \<in> set args" for p using assms(1) that by blast
  then have "unknown_args cls args = []" by (simp add: unknown_args_def filter_empty_conv case_prod_beta)
  moreover have "fst p \<in> fst ` set args" if "p \<in> set cls" "snd p = None" for p
    using assms(2) that by (metis prod.collapse)
  then have "missing_args cls args = []"
    by (simp add: missing_args_def filter_empty_conv case_prod_beta del: not_None_eq)
  ultimately show ?thesis by (simp add: construct_def)
qed

lemma map_of_fields:
  "map_of (map (field_of args) cls) n =
     (case map_of cls n of None \<Rightarrow> None | Some d \<Rightarrow> Some (snd (field_of args (n, d))))"
  by (induction cls) (simp_all add: field_of_def)

lemma field_lookup:
  assumes "n \<in> fst ` set cls" and "map_of args n = Some v"
  shows "attr_get (AObj name (map (field_of args) cls)) n = v"
proof -
  obtain d where "map_of cls n = Some d" using assms(1) by (metis (no_types) map_of_eq_None_iff not_None_eq)
  then have "map_of (map (field_of args) cls) n = Some v" using assms(2) unfolding map_of_fields by (simp add: field_of_def)
  then show ?thesis by (simp add: attr_get_def)
qed

text \<open>Calling the class with the attributes of an object that fits it raises nothing and gives them back.\<close>

lemma fits_class_constructs:
  assumes "fits_class (AObj name as)"
  shows "\<exists>cls. map_of model_classes name = Some cls \<and>
    (\<exists>a. construct name cls as = Inr a \<and> (\<forall>n. attr_get a n = attr_get (AObj name as) n))"
proof -
  obtain cls where cls: "map_of model_classes name = Some cls" and d: "distinct (map fst as)" and eq: "fst ` set as = fst ` set cls"
    using assms by (auto simp: fits_class_def split: option.splits)
  have c: "construct name cls as = Inr (AObj name (map (field_of as) cls))"
    by (rule construct_given) (use eq in \<open>force+\<close>)
  have "attr_get (AObj name (map (field_of as) cls)) n = attr_get (AObj name as) n" for n
  proof (cases "map_of as n")
    case None
    then have "n \<notin> fst ` set cls" by (simp add: map_of_eq_None_iff flip: eq)
    then have "map_of cls n = None" by (simp add: map_of_eq_None_iff)
    then show ?thesis using None by (simp add: attr_get_def map_of_fields)
  next
    case (Some v)
    then have "n \<in> fst ` set cls" by (metis eq domI dom_map_of_conv_image_fst)
    then show ?thesis using Some field_lookup [of n cls as v name] by (simp add: attr_get_def)
  qed
  then show ?thesis using cls c by blast
qed

lemma build_names: "build h cls unset spec data = Inr a \<Longrightarrow>
  \<exists>as. a = AObj cls as \<and> map fst as = map fst spec @ map fst unset"
  by (auto simp: build_def bind_result_Inr_iff dest!: eval_fields_names)

text \<open>So whether a parser fits its class depends on its table only.\<close>

lemma built_fits:
  assumes "build h name unset spec data = Inr a" and "map_of model_classes name = Some cls"
    and "distinct (map fst spec @ map fst unset)" and "set (map fst spec @ map fst unset) = set (map fst cls)"
  shows "fits_class a"
proof -
  obtain as where a: "a = AObj name as" and as: "map fst as = map fst spec @ map fst unset" using build_names [OF assms(1)] by blast
  have "distinct (map fst as)" using assms(3) unfolding as .
  moreover have "set (map fst as) = set (map fst cls)" using assms(4) unfolding as .
  ultimately show ?thesis using assms(2) by (simp add: a fits_class_def)
qed

lemma user_fits: "parse_user h data = Inr a \<Longrightarrow> fits_class a"
  unfolding parse_user_def
  by (erule built_fits [where cls = user_class])
    (simp_all add: model_classes_def user_fields_def user_unset_def user_class_def class_pieces, (auto)?)

lemma guild_fits: "parse_guild h data = Inr a \<Longrightarrow> fits_class a"
  unfolding parse_guild_def
  by (erule built_fits [where cls = guild_class])
    (simp_all add: model_classes_def guild_fields_def guild_class_def class_pieces, (auto)?)

lemma channel_built_fits: "build h ''Channel'' [] (channel_fields h t) data = Inr a \<Longrightarrow> fits_class a"
  by (erule built_fits [where cls = channel_class])
    (simp_all add: model_classes_def channel_fields_def channel_class_def class_pieces, (auto)?)

lemma channel_fits: "parse_channel h data = Inr a \<Longrightarrow> fits_class a"
  unfolding parse_channel_def by (auto simp: bind_result_Inr_iff dest!: channel_built_fits)

lemma message_built_fits:
  "build h ''Message'' [] (message_fields ch au ts ed me mc re th gu) data = Inr a \<Longrightarrow> fits_class a"
  by (erule built_fits [where cls = message_class])
    (simp_all add: model_classes_def message_fields_def message_class_def class_pieces, (auto)?)

lemma message_fits: "parse_message fromiso now h data = Inr a \<Longrightarrow> fits_class a"
  by (cases data) (auto simp: parse_message.simps bind_result_Inr_iff dest!: message_built_fits)

lemma ready_built_fits: "build h ''Ready'' [] (ready_fields h s u) data = Inr a \<Longrightarrow> fits_class a"
  by (erule built_fits [where cls = ready_class])
    (simp_all add: model_classes_def ready_fields_def ready_class_def class_pieces, (auto)?)

lemma ready_fits: "parse_ready h data = Inr a \<Longrightarrow> fits_class a"
  unfolding parse_ready_def by (auto simp: bind_result_Inr_iff dest!: ready_built_fits)

lemma message_pin_fits: "parse_message_pin fromiso now h data = Inr a \<Longrightarrow> fits_class a"
  by (auto simp: parse_message_pin_def bind_result_Inr_iff fits_class_def model_classes_def message_pin_class_def class_pieces)

lemmas small_classes = model_classes_def deleted_message_class_def bulk_deleted_class_def reaction_class_def typing_class_def
  poll_vote_class_def class_pieces

lemma small_fits:
  "build h ''DeletedMessage'' [] [(''id'', a1), (''channel_id'', a2), (''guild_id'', a3), (''raw_data'', a4)] data = Inr a \<Longrightarrow> fits_class a"
  "build h ''BulkDeletedMessages'' [] [(''ids'', a1), (''channel_id'', a2), (''guild_id'', a3), (''raw_data'', a4)] data = Inr a \<Longrightarrow> fits_class a"
  "build h ''Reaction'' [] [(''user_id'', a1), (''channel_id'', a2), (''message_id'', a3), (''guild_id'', a4), (''member'', a5),
     (''emoji'', a6), (''raw_data'', a7)] data = Inr a \<Longrightarrow> fits_class a"
  "build h ''TypingStart'' [] [(''channel_id'', a1), (''user_id'', a2), (''timestamp'', a3), (''guild_id'', a4), (''member'', a5),
     (''raw_data'', a6)] data = Inr a \<Longrightarrow> fits_class a"
  "build h ''PollVote'' [] [(''user_id'', a1), (''channel_id'', a2), (''message_id'', a3), (''answer_id'', a4), (''guild_id'', a5),
     (''raw_data'', a6)] data = Inr a \<Longrightarrow> fits_class a"
  by ((erule built_fits, simp add: small_classes, simp, simp, blast?)+)

lemma wrapped_fits:
  "fits_class (AObj ''Resume'' [(''session_id'', a1), (''sequence'', a2), (''replayed'', a3), (''raw_data'', a4)])"
  "fits_class (AObj ''RawGatewayEvent'' [(''type'', a1), (''data'', a2), (''raw_data'', a3)])"
  by (simp_all add: fits_class_def model_classes_def resume_class_def raw_event_class_def class_pieces)

text \<open>
  Every typed payload of a gateway event has exactly the fields of its class: no keyword the class
  does not have, and none of the class left out.
\<close>

theorem typed_payload_fits:
  assumes "typed_payload fromiso now h t data = Inr (slot, a)"
  shows "fits_class a"
  using assms
  by (auto simp: typed_payload_def Let_def bind_result_Inr_iff split: if_splits
      dest!: ready_fits message_fits guild_fits channel_fits small_fits intro!: wrapped_fits)

text \<open>The channel the parser makes up for an unknown one is the class called with three arguments.\<close>

lemma stub_channel_is_constructed:
  "construct ''Channel'' channel_class [(''id'', AInt i), (''type'', AType t), (''guild_id'', g)] = Inr (stub_channel i t g)"
  by (simp add: construct_def unknown_args_def missing_args_def field_of_def channel_class_def class_pieces stub_channel_def channel_defaults_def)

end
