(* ===== verification/MessageActions.thy ===== *)
theory MessageActions
  imports EventModels BotFacade
begin

text \<open>
  The computed attributes of the models and the actions of a message bound to a bot
  (src/vaidcord-py/src/vaidcord/types/__init__.py). An action of a message that no bot is bound to
  raises before any request; on a message the parser made it addresses the message itself, in its
  own channel.
\<close>

section \<open>Computed attributes\<close>

text \<open>\<open>str()\<close> of an id.\<close>

definition id_text :: "attr \<Rightarrow> string" where
  "id_text a = show_int (obj_id a)"

definition user_mention :: "attr \<Rightarrow> string" where
  "user_mention u = ''<@'' @ id_text u @ ''>''"

definition channel_mention :: "attr \<Rightarrow> string" where
  "channel_mention c = ''<#'' @ id_text c @ ''>''"

definition guild_mention :: "attr \<Rightarrow> attr" where
  "guild_mention g = attr_get g ''name''"

definition attr_truthy :: "attr \<Rightarrow> bool" where
  "attr_truthy a = (case a of ANone \<Rightarrow> False | AInt i \<Rightarrow> i \<noteq> 0 | AJson v \<Rightarrow> json_truthy v | AInts xs \<Rightarrow> xs \<noteq> [] | AList xs \<Rightarrow> xs \<noteq> [] | _ \<Rightarrow> True)"

definition display_name :: "attr \<Rightarrow> attr" where
  "display_name u = (if attr_truthy (attr_get u ''global_name'') then attr_get u ''global_name'' else attr_get u ''username'')"

text \<open>\<open>__str__\<close> of a user whose name and discriminator are texts.\<close>

definition attr_text :: "attr \<Rightarrow> string" where
  "attr_text a = (case a of AJson (JStr s) \<Rightarrow> s | _ \<Rightarrow> [])"

definition user_text :: "attr \<Rightarrow> string" where
  "user_text u =
     (if attr_get u ''discriminator'' \<noteq> AJson (JStr ''0'')
      then attr_text (attr_get u ''username'') @ ''#'' @ attr_text (attr_get u ''discriminator'')
      else attr_text (attr_get u ''username''))"

definition message_guild_id :: "attr \<Rightarrow> attr" where
  "message_guild_id m = (if attr_truthy (attr_get m ''guild'') then attr_get (attr_get m ''guild'') ''id'' else ANone)"

definition message_channel_id :: "attr \<Rightarrow> int" where
  "message_channel_id m = obj_id (attr_get m ''channel'')"

definition message_author_id :: "attr \<Rightarrow> int" where
  "message_author_id m = obj_id (attr_get m ''author'')"

definition is_message_event :: "string \<Rightarrow> bool" where
  "is_message_event t \<longleftrightarrow> t \<in> set [''MESSAGE_CREATE'', ''MESSAGE_UPDATE'', ''MESSAGE_DELETE'']"

section \<open>Actions\<close>

definition when_bound :: "attr \<Rightarrow> ('s \<Rightarrow> (http_failure + 'a) \<times> 's) \<Rightarrow> 's \<Rightarrow> (http_failure + 'a) \<times> 's" where
  "when_bound m f s =
     (if attr_get m ''bot'' = ANone then (Inl (PythonError (RuntimeError ''Message is not bound to a bot instance'')), s) else f s)"

definition message_reply ::
  "'s caller \<Rightarrow> attr \<Rightarrow> string \<Rightarrow> bool \<Rightarrow> jdict option \<Rightarrow> bool \<Rightarrow> 's \<Rightarrow> (http_failure + json) \<times> 's" where
  "message_reply api m content tts allowed_mentions mention_author =
     when_bound m (bot_reply api (message_channel_id m) (obj_id m) content tts allowed_mentions mention_author)"

text \<open>The keyword arguments of \<open>answer\<close> are the other fields of \<open>a\<close>.\<close>

definition message_answer :: "'s caller \<Rightarrow> attr \<Rightarrow> string \<Rightarrow> message_args \<Rightarrow> 's \<Rightarrow> (http_failure + json) \<times> 's" where
  "message_answer api m content a = when_bound m (bot_send_message api (message_channel_id m) (a\<lparr>ma_content := Some content\<rparr>))"

definition message_edit ::
  "'s caller \<Rightarrow> (string \<Rightarrow> real result) \<Rightarrow> real \<Rightarrow> host \<Rightarrow> attr \<Rightarrow> jdict \<Rightarrow> 's \<Rightarrow> (http_failure + attr) \<times> 's" where
  "message_edit api fromiso now h m payload =
     when_bound m (service_edit_message api fromiso now h (message_channel_id m) (obj_id m) payload)"

definition message_delete :: "'s caller \<Rightarrow> attr \<Rightarrow> 's \<Rightarrow> (http_failure + json) \<times> 's" where
  "message_delete api m = when_bound m (service_delete_message api (message_channel_id m) (obj_id m))"

definition message_pin :: "'s caller \<Rightarrow> attr \<Rightarrow> 's \<Rightarrow> (http_failure + json) \<times> 's" where
  "message_pin api m = when_bound m (service_pin_message api (message_channel_id m) (obj_id m))"

definition message_unpin :: "'s caller \<Rightarrow> attr \<Rightarrow> 's \<Rightarrow> (http_failure + json) \<times> 's" where
  "message_unpin api m = when_bound m (service_unpin_message api (message_channel_id m) (obj_id m))"

definition message_add_reaction :: "'s caller \<Rightarrow> attr \<Rightarrow> string \<Rightarrow> 's \<Rightarrow> (http_failure + json) \<times> 's" where
  "message_add_reaction api m emoji = when_bound m (service_add_reaction api (message_channel_id m) (obj_id m) emoji)"

section \<open>Laws\<close>

lemma user_mention_inj: "user_mention u = user_mention v \<longleftrightarrow> obj_id u = obj_id v"
  by (auto simp: user_mention_def id_text_def show_int_inj)

text \<open>A message built by hand has no bot: every action raises and no request is made.\<close>

lemma unbound_message_raises:
  assumes "attr_get m ''bot'' = ANone"
  shows "when_bound m f s = (Inl (PythonError (RuntimeError ''Message is not bound to a bot instance'')), s)"
  using assms by (simp add: when_bound_def)

lemma constructed_message_unbound:
  assumes "construct ''Message'' message_class args = Inr m" and "''bot'' \<notin> fst ` set args"
  shows "attr_get m ''bot'' = ANone"
proof -
  have m: "m = AObj ''Message'' (map (field_of args) message_class)" using assms(1) by (simp add: construct_def split: if_splits)
  have "map_of args ''bot'' = None" using assms(2) by (simp add: map_of_eq_None_iff)
  moreover have "map_of message_class ''bot'' = Some (Some ANone)" by (simp add: message_class_def class_pieces)
  ultimately show ?thesis unfolding m attr_get_def by (simp add: map_of_fields field_of_def)
qed

lemma parsed_message_bound: "parse_message fromiso now h data = Inr m \<Longrightarrow> attr_get m ''bot'' = AHost"
proof -
  assume p: "parse_message fromiso now h data = Inr m"
  then obtain d where d: "data = JDict d" using parse_message_dict by blast
  obtain timestamp edited channel author guild mentions mention_channels referenced thread where
    "build h ''Message'' [] (message_fields channel author timestamp edited mentions mention_channels referenced thread guild) (JDict d) = Inr m"
    using p unfolding d by (subst (asm) parse_message.simps) (auto simp only: json.case bind_result_Inr_iff)
  from build_lookup [OF this, of "''bot''" "Given AHost"] show ?thesis by (simp add: message_fields_def)
qed

text \<open>The channel of a parsed message has the id of the payload, cached or made up.\<close>

lemma parsed_message_channel:
  assumes "parse_message fromiso now h (JDict d) = Inr m" and "caches_keyed h"
    and "map_of d ''channel_id'' = Some v" and "py_int v = Inr c"
  shows "message_channel_id m = c"
proof -
  obtain channel where ch: "message_channel h (JDict d) = Inr channel" "attr_get m ''channel'' = channel"
    using parse_message_parts [OF assms(1)] by metis
  have "obj_id channel = c"
  proof (cases "map_of (ho_channels h) c")
    case None
    then obtain t g where "channel = stub_channel c t g"
      using ch(1) assms(3,4) by (auto simp: message_channel_def json_get_def dict_get_def bind_result_Inr_iff)
    then show ?thesis by (simp add: obj_id_def attr_get_def stub_channel_def)
  next
    case (Some x)
    then have "channel = x" using ch(1) assms(3,4) by (auto simp: message_channel_def json_get_def dict_get_def bind_result_Inr_iff)
    moreover have "obj_id x = c" using assms(2) Some by (auto simp: caches_keyed_def keyed_def)
    ultimately show ?thesis by simp
  qed
  then show ?thesis using ch(2) by (simp add: message_channel_id_def)
qed

text \<open>
  The actions of a message received from the gateway: each is the one request about that message,
  in the channel the payload names, or the reply and the answer sent there.
\<close>

theorem actions_address_own_message:
  assumes "parse_message fromiso now h (JDict d) = Inr m" and "caches_keyed h"
    and "map_of d ''id'' = Some v" and "py_int v = Inr i"
    and "map_of d ''channel_id'' = Some w" and "py_int w = Inr c"
  shows "message_delete api m = api (api_delete_message c i)"
    and "message_pin api m = api (api_pin_message c i)"
    and "message_unpin api m = api (api_unpin_message c i)"
    and "message_add_reaction api m emoji = api (api_add_reaction c i emoji)"
    and "message_reply api m content tts mentions ping = service_reply api c i content tts mentions ping"
    and "message_answer api m content a = service_send_message api c (a\<lparr>ma_content := Some content\<rparr>)"
    and "message_edit api fromiso now h m payload = service_edit_message api fromiso now h c i payload"
proof -
  note ids = message_id [OF assms(1,3,4)] parsed_message_channel [OF assms(1,2,5,6)]
  show "message_delete api m = api (api_delete_message c i)"
    "message_pin api m = api (api_pin_message c i)"
    "message_unpin api m = api (api_unpin_message c i)"
    "message_add_reaction api m emoji = api (api_add_reaction c i emoji)"
    "message_reply api m content tts mentions ping = service_reply api c i content tts mentions ping"
    "message_answer api m content a = service_send_message api c (a\<lparr>ma_content := Some content\<rparr>)"
    "message_edit api fromiso now h m payload = service_edit_message api fromiso now h c i payload"
    by (simp_all add: message_delete_def message_pin_def message_unpin_def message_add_reaction_def message_reply_def message_answer_def
        message_edit_def when_bound_def parsed_message_bound [OF assms(1)] ids fun_eq_iff service_delete_message_def service_pin_message_def
        service_unpin_message_def service_add_reaction_def bot_reply_def bot_send_message_def)
qed

end
