(* ===== verification/MockHelpers.thy ===== *)
theory MockHelpers
  imports MessageActions ErrorTypes
begin

text \<open>
  The in-process mocks for tests (src/vaidcord-py/src/vaidcord/mock/): the scripted gateway
  (gateway.py), the recording HTTP client (http.py), the payload builders (builders.py) and the
  tables of the mock bot (bot.py). The settings object is shared by the bot, its gateway and its
  client, so the operations read it as an argument; a response is a mutable object that several
  routes can share, so the client holds addresses into a store. A sleep is the number of seconds
  in the result. The clock and the router are not part of the model: the handlers of the mock bot
  are those of \<open>Dispatch\<close>.
\<close>

record mock_settings =
  auto_ready_event :: bool
  default_http_status :: int
  default_rate_limit :: int
  network_delay :: real

definition default_mock_settings :: mock_settings where
  "default_mock_settings = \<lparr>auto_ready_event = True, default_http_status = 200, default_rate_limit = 5, network_delay = 0\<rparr>"

text \<open>\<open>configure\<close> sets the attributes that exist and ignores other keywords.\<close>

datatype mock_setting = SetReady bool | SetStatus int | SetLimit int | SetDelay real | UnknownKey string

primrec set_setting :: "mock_setting \<Rightarrow> mock_settings \<Rightarrow> mock_settings" where
  "set_setting (SetReady v) st = st\<lparr>auto_ready_event := v\<rparr>"
| "set_setting (SetStatus v) st = st\<lparr>default_http_status := v\<rparr>"
| "set_setting (SetLimit v) st = st\<lparr>default_rate_limit := v\<rparr>"
| "set_setting (SetDelay v) st = st\<lparr>network_delay := v\<rparr>"
| "set_setting (UnknownKey _) st = st"

definition configure :: "mock_setting list \<Rightarrow> mock_settings \<Rightarrow> mock_settings" where
  "configure kwargs st = fold set_setting kwargs st"

section \<open>The scripted gateway\<close>

record mock_event =
  me_type :: string
  me_data :: jdict
  me_delay :: real

record mock_gateway =
  mg_events :: "mock_event list"
  mg_event_index :: nat
  mg_connected :: bool
  mg_sequence :: int

definition mock_session_id :: string where
  "mock_session_id = ''mock_session_123''"

definition new_mock_gateway :: mock_gateway where
  "new_mock_gateway = \<lparr>mg_events = [], mg_event_index = 0, mg_connected = False, mg_sequence = 0\<rparr>"

definition add_event :: "mock_event \<Rightarrow> mock_gateway \<Rightarrow> mock_gateway" where
  "add_event e g = g\<lparr>mg_events := mg_events g @ [e]\<rparr>"

definition add_events :: "mock_event list \<Rightarrow> mock_gateway \<Rightarrow> mock_gateway" where
  "add_events es g = g\<lparr>mg_events := mg_events g @ es\<rparr>"

definition clear_events :: "mock_gateway \<Rightarrow> mock_gateway" where
  "clear_events g = g\<lparr>mg_events := [], mg_event_index := 0\<rparr>"

text \<open>The payload, the seconds slept and the new state; None is the None of the source.\<close>

definition receive_event :: "mock_gateway \<Rightarrow> jdict option \<times> real \<times> mock_gateway" where
  "receive_event g =
     (if \<not> mg_connected g \<or> length (mg_events g) \<le> mg_event_index g then (None, 0, g)
      else
        (let e = mg_events g ! mg_event_index g;
             n = mg_sequence g + 1
         in (Some [(''op'', JInt 0), (''t'', JStr (me_type e)), (''s'', JInt n), (''d'', JDict (me_data e))],
             max 0 (me_delay e), g\<lparr>mg_event_index := mg_event_index g + 1, mg_sequence := n\<rparr>)))"

definition mock_ready :: mock_event where
  "mock_ready =
     \<lparr>me_type = ''READY'',
      me_data =
        [(''user'', JDict [(''id'', JStr ''999999999999999999''), (''username'', JStr ''TestBot''), (''discriminator'', JStr ''0000''),
           (''bot'', JBool True)]),
         (''session_id'', JStr mock_session_id), (''guilds'', JList [])],
      me_delay = 0\<rparr>"

definition mock_connect :: "mock_settings \<Rightarrow> mock_gateway \<Rightarrow> mock_gateway" where
  "mock_connect st g =
     g\<lparr>mg_connected := True, mg_sequence := 0,
       mg_events := (if auto_ready_event st then mock_ready # mg_events g else mg_events g)\<rparr>"

definition mock_disconnect :: "mock_gateway \<Rightarrow> mock_gateway" where
  "mock_disconnect g = g\<lparr>mg_connected := False\<rparr>"

section \<open>The recording client\<close>

text \<open>A response object; the client and the tests share it through its address.\<close>

record mock_reply =
  mr_status :: int
  mr_data :: jdict
  mr_headers :: "(string, string) dict"
  mr_error_code :: "int option"
  mr_error_message :: "string option"
  mr_delay :: real

record mock_client =
  mc_heap :: "nat \<Rightarrow> mock_reply"
  mc_responses :: "(string, nat) dict"
  mc_default_response :: nat
  mc_request_history :: "(string \<times> string \<times> jdict) list"
  mc_rate_limit_remaining :: int

text \<open>The constructor makes the default response at the address \<open>new\<close>, with the settings of that moment.\<close>

definition new_mock_client :: "mock_settings \<Rightarrow> nat \<Rightarrow> (nat \<Rightarrow> mock_reply) \<Rightarrow> mock_client" where
  "new_mock_client st new heap =
     \<lparr>mc_heap = heap(new := \<lparr>mr_status = default_http_status st, mr_data = [], mr_headers = [], mr_error_code = None, mr_error_message = None, mr_delay = 0\<rparr>),
      mc_responses = [], mc_default_response = new, mc_request_history = [], mc_rate_limit_remaining = default_rate_limit st\<rparr>"

definition response_key :: "string \<Rightarrow> string \<Rightarrow> string" where
  "response_key m endpoint = py_upper m @ '':'' @ endpoint"

definition set_response :: "string \<Rightarrow> string \<Rightarrow> nat \<Rightarrow> mock_client \<Rightarrow> mock_client" where
  "set_response m endpoint a c = c\<lparr>mc_responses := dict_set (mc_responses c) (response_key m endpoint) a\<rparr>"

definition set_default_response :: "nat \<Rightarrow> mock_client \<Rightarrow> mock_client" where
  "set_default_response a c = c\<lparr>mc_default_response := a\<rparr>"

definition clear_responses :: "mock_client \<Rightarrow> mock_client" where
  "clear_responses c = c\<lparr>mc_responses := [], mc_request_history := []\<rparr>"

definition response_of :: "mock_client \<Rightarrow> string \<Rightarrow> string \<Rightarrow> nat" where
  "response_of c m endpoint = dict_get (mc_responses c) (response_key m endpoint) (mc_default_response c)"

definition mock_limit_headers :: "mock_settings \<Rightarrow> int \<Rightarrow> (string, string) dict \<Rightarrow> (string, string) dict" where
  "mock_limit_headers st remaining hs =
     (if map_of hs ''X-RateLimit-Remaining'' = None
      then dict_set (dict_set hs ''X-RateLimit-Remaining'' (show_int remaining)) ''X-RateLimit-Limit'' (show_int (default_rate_limit st))
      else hs)"

definition mock_error_data :: "mock_reply \<Rightarrow> jdict" where
  "mock_error_data r =
     (let d = [(''code'', JInt (case mr_error_code r of None \<Rightarrow> mr_status r | Some e \<Rightarrow> if e = 0 then mr_status r else e)),
               (''message'', JStr (case mr_error_message r of None \<Rightarrow> ''Mock error'' | Some e \<Rightarrow> if e = [] then ''Mock error'' else e))]
      in if mr_status r = 429 \<and> map_of d ''retry_after'' = None
         then dict_set d ''retry_after'' (case map_of (mr_headers r) ''Retry-After'' of None \<Rightarrow> JNull | Some s \<Rightarrow> JStr s)
         else d)"

datatype mock_failure = MockRaised vaidcord_error | MockCrashed exc

text \<open>The answer, the seconds slept and the new state.\<close>

definition mock_request :: "mock_settings \<Rightarrow> string \<Rightarrow> string \<Rightarrow> jdict \<Rightarrow> mock_client \<Rightarrow> (mock_failure + jdict) \<times> real \<times> mock_client" where
  "mock_request st m endpoint kwargs c =
     (let a = response_of c m endpoint;
          r = mc_heap c a;
          r1 = r\<lparr>mr_headers := mock_limit_headers st (mc_rate_limit_remaining c) (mr_headers r)\<rparr>;
          c1 = c\<lparr>mc_request_history := mc_request_history c @ [(m, endpoint, kwargs)], mc_heap := (mc_heap c)(a := r1)\<rparr>
      in (if 400 \<le> mr_status r1
          then Inl (case create_discord_error (mr_status r1) (mock_error_data r1) of Inr e \<Rightarrow> MockRaised e | Inl e \<Rightarrow> MockCrashed e)
          else Inr (mr_data r1),
          max 0 (network_delay st) + max 0 (mr_delay r), c1))"

section \<open>Payload builders\<close>

definition mock_user :: "int \<Rightarrow> string \<Rightarrow> bool \<Rightarrow> jdict" where
  "mock_user user_id username is_bot =
     [(''id'', JStr (show_int user_id)), (''username'', JStr username), (''discriminator'', JStr ''0000''), (''public_flags'', JInt 0),
      (''bot'', JBool is_bot)]"

definition mock_guild :: "int \<Rightarrow> string \<Rightarrow> int \<Rightarrow> jdict" where
  "mock_guild guild_id name member_count =
     [(''id'', JStr (show_int guild_id)), (''name'', JStr name), (''icon'', JNull), (''owner_id'', JStr (show_int 123456789012345678)),
      (''member_count'', JInt member_count), (''features'', JList [])]"

definition mock_channel_payload :: "int \<Rightarrow> string \<Rightarrow> int \<Rightarrow> jdict" where
  "mock_channel_payload channel_id name channel_type =
     [(''id'', JStr (show_int channel_id)), (''name'', JStr name), (''type'', JInt channel_type), (''position'', JInt 0)]"

text \<open>\<open>stamp\<close> is \<open>datetime.now().isoformat()\<close>.\<close>

definition mock_message_payload :: "string \<Rightarrow> int \<Rightarrow> string \<Rightarrow> int \<Rightarrow> int \<Rightarrow> jdict" where
  "mock_message_payload stamp message_id content author_id channel_id =
     [(''id'', JStr (show_int message_id)), (''content'', JStr content), (''channel_id'', JStr (show_int channel_id)),
      (''author'', JDict (mock_user author_id ''TestUser'' False)), (''timestamp'', JStr stamp), (''edited_timestamp'', JNull),
      (''tts'', JBool False), (''mention_everyone'', JBool False), (''mentions'', JList []), (''mention_roles'', JList []),
      (''attachments'', JList []), (''embeds'', JList []), (''pinned'', JBool False), (''type'', JInt 0)]"

definition mock_error :: "int \<Rightarrow> string \<Rightarrow> jdict \<Rightarrow> jdict" where
  "mock_error code message errors =
     [(''code'', JInt code), (''message'', JStr message)] @ (if errors \<noteq> [] then [(''errors'', JDict errors)] else [])"

section \<open>Objects for tests\<close>

definition new_user :: "int \<Rightarrow> string \<Rightarrow> bool \<Rightarrow> attr result" where
  "new_user i username is_bot =
     construct ''User'' user_class
       [(''id'', AInt i), (''username'', AJson (JStr username)), (''discriminator'', AJson (JStr ''0000'')), (''bot'', AJson (JBool is_bot))]"

definition create_mock_message :: "real \<Rightarrow> string \<Rightarrow> int \<Rightarrow> int \<Rightarrow> int option \<Rightarrow> attr result" where
  "create_mock_message now content author_id channel_id guild_id =
     bind_result (construct ''User'' user_class
       [(''id'', AInt author_id), (''username'', AJson (JStr ''TestUser'')), (''discriminator'', AJson (JStr ''0000''))]) (\<lambda>author.
     bind_result (construct ''Channel'' channel_class
       [(''id'', AInt channel_id), (''type'', AType ''TEXT''), (''name'', AJson (JStr ''test''))]) (\<lambda>channel.
     bind_result (case guild_id of
         Some g \<Rightarrow> if g \<noteq> 0 then construct ''Guild'' guild_class [(''id'', AInt g), (''name'', AJson (JStr ''Test Guild''))] else Inr ANone
       | None \<Rightarrow> Inr ANone) (\<lambda>guild.
       construct ''Message'' message_class
         [(''id'', AInt 555555555555555555), (''channel'', channel), (''author'', author), (''content'', AJson (JStr content)),
          (''timestamp'', ATime now), (''guild'', guild)])))"

definition create_mock_event :: "real \<Rightarrow> real \<Rightarrow> string \<Rightarrow> string \<Rightarrow> attr result" where
  "create_mock_event now later event_type content =
     bind_result (create_mock_message now content 123456789012345678 111111111111111111 None) (\<lambda>message.
       construct ''Event'' (event_class later)
         [(''type'', AType event_type), (''data'', AJson (JDict [(''content'', JStr content)])), (''message'', message),
          (''user'', attr_get message ''author''), (''channel'', attr_get message ''channel''), (''guild'', attr_get message ''guild'')])"

record mock_bot =
  mb_users :: "(int, attr) dict"
  mb_guilds :: "(int, attr) dict"
  mb_channels :: "(int, attr) dict"
  mb_gateway :: mock_gateway
  mb_client :: mock_client

definition bot_user_id :: int where
  "bot_user_id = 999999999999999999"

definition new_mock_bot :: "mock_settings \<Rightarrow> nat \<Rightarrow> (nat \<Rightarrow> mock_reply) \<Rightarrow> mock_bot result" where
  "new_mock_bot st new heap =
     bind_result (new_user bot_user_id ''TestBot'' True) (\<lambda>u.
       Inr \<lparr>mb_users = [(bot_user_id, u)], mb_guilds = [], mb_channels = [], mb_gateway = new_mock_gateway, mb_client = new_mock_client st new heap\<rparr>)"

definition given_or_next :: "int option \<Rightarrow> int \<Rightarrow> (int, attr) dict \<Rightarrow> int" where
  "given_or_next given first table = (case given of Some i \<Rightarrow> i | None \<Rightarrow> first + int (length table))"

definition create_test_user :: "int option \<Rightarrow> string \<Rightarrow> bool \<Rightarrow> mock_bot \<Rightarrow> (attr \<times> mock_bot) result" where
  "create_test_user user_id username is_bot b =
     (let i = given_or_next user_id 123456789012345678 (mb_users b)
      in bind_result (new_user i username is_bot) (\<lambda>u. Inr (u, b\<lparr>mb_users := dict_set (mb_users b) i u\<rparr>)))"

definition create_test_guild :: "int option \<Rightarrow> string \<Rightarrow> mock_bot \<Rightarrow> (attr \<times> mock_bot) result" where
  "create_test_guild guild_id name b =
     (let i = given_or_next guild_id 333333333333333333 (mb_guilds b)
      in bind_result (construct ''Guild'' guild_class [(''id'', AInt i), (''name'', AJson (JStr name))]) (\<lambda>g.
           Inr (g, b\<lparr>mb_guilds := dict_set (mb_guilds b) i g\<rparr>)))"

definition create_test_channel :: "int option \<Rightarrow> string \<Rightarrow> string \<Rightarrow> mock_bot \<Rightarrow> (attr \<times> mock_bot) result" where
  "create_test_channel channel_id name channel_type b =
     (let i = given_or_next channel_id 444444444444444444 (mb_channels b)
      in bind_result (construct ''Channel'' channel_class [(''id'', AInt i), (''type'', AType channel_type), (''name'', AJson (JStr name))]) (\<lambda>c.
           Inr (c, b\<lparr>mb_channels := dict_set (mb_channels b) i c\<rparr>)))"

definition mock_start :: "mock_settings \<Rightarrow> mock_bot \<Rightarrow> mock_bot" where
  "mock_start st b = b\<lparr>mb_gateway := mock_connect st (mb_gateway b)\<rparr>"

definition mock_stop :: "mock_bot \<Rightarrow> mock_bot" where
  "mock_stop b = b\<lparr>mb_gateway := mock_disconnect (mb_gateway b)\<rparr>"

definition mock_is_ready :: "mock_bot \<Rightarrow> bool" where
  "mock_is_ready b = mg_connected (mb_gateway b)"

section \<open>Laws of the gateway\<close>

definition event_payload :: "mock_event \<Rightarrow> int \<Rightarrow> jdict" where
  "event_payload e n = [(''op'', JInt 0), (''t'', JStr (me_type e)), (''s'', JInt n), (''d'', JDict (me_data e))]"

text \<open>A client that reads \<open>n\<close> times.\<close>

primrec drain :: "nat \<Rightarrow> mock_gateway \<Rightarrow> jdict option list" where
  "drain 0 g = []"
| "drain (Suc n) g = fst (receive_event g) # drain n (snd (snd (receive_event g)))"

lemma receive_event_next:
  assumes "mg_connected g" and "mg_event_index g < length (mg_events g)"
  shows "fst (receive_event g) = Some (event_payload (mg_events g ! mg_event_index g) (mg_sequence g + 1))"
    and "snd (snd (receive_event g)) = g\<lparr>mg_event_index := Suc (mg_event_index g), mg_sequence := mg_sequence g + 1\<rparr>"
  using assms by (simp_all add: receive_event_def Let_def event_payload_def)

lemma receive_event_empty:
  "\<not> mg_connected g \<or> length (mg_events g) \<le> mg_event_index g \<Longrightarrow> receive_event g = (None, 0, g)"
  by (auto simp: receive_event_def)

lemma drain_scripted:
  assumes "mg_connected g" and "n \<le> length (mg_events g) - mg_event_index g"
  shows "drain n g = map (\<lambda>k. Some (event_payload (mg_events g ! (mg_event_index g + k)) (mg_sequence g + 1 + int k))) [0..<n]"
  using assms
proof (induction n arbitrary: g)
  case (Suc n)
  let ?g = "snd (snd (receive_event g))"
  have lt: "mg_event_index g < length (mg_events g)" using Suc.prems(2) by linarith
  note g = receive_event_next [OF Suc.prems(1) lt]
  have "drain n ?g = map (\<lambda>k. Some (event_payload (mg_events g ! (mg_event_index g + Suc k)) (mg_sequence g + 1 + int (Suc k)))) [0..<n]"
    using Suc.IH [of ?g] Suc.prems by (simp add: g algebra_simps)
  then show ?case by (simp add: g(1) upt_conv_Cons map_Suc_upt [symmetric] del: upt_Suc)
qed simp

text \<open>
  A bot that connects reads READY and then the scripted events in their order, numbered from 1.
\<close>

theorem scripted_events_in_order:
  assumes "auto_ready_event st"
  shows "drain (Suc (length es)) (mock_connect st (add_events es new_mock_gateway)) =
    map (\<lambda>k. Some (event_payload ((mock_ready # es) ! k) (1 + int k))) [0..<Suc (length es)]"
  by (subst drain_scripted) (simp_all add: mock_connect_def add_events_def new_mock_gateway_def assms)

text \<open>
  The second connection of a gateway that was read to its end: READY is put in front of events
  already read, so the index points at the last of them again, and no READY arrives.
\<close>

lemma reconnect_repeats_last:
  assumes "auto_ready_event st" and "mg_events g \<noteq> []" and "mg_event_index g = length (mg_events g)"
  shows "drain 2 (mock_connect st (mock_disconnect g)) = [Some (event_payload (last (mg_events g)) 1), None]"
proof -
  let ?g = "mock_connect st (mock_disconnect g)"
  have e: "mg_events ?g = mock_ready # mg_events g" "mg_event_index ?g = length (mg_events g)" "mg_connected ?g" "mg_sequence ?g = 0"
    using assms by (simp_all add: mock_connect_def mock_disconnect_def)
  have lt: "mg_event_index ?g < length (mg_events ?g)" by (simp add: e)
  have l: "(mock_ready # mg_events g) ! length (mg_events g) = last (mg_events g)"
    using assms(2) by (simp add: nth_Cons' last_conv_nth)
  show ?thesis
    by (simp add: numeral_2_eq_2 receive_event_next [OF e(3) lt] receive_event_empty e l)
qed

section \<open>Laws of the client\<close>

text \<open>Every request is recorded, whatever its answer.\<close>

lemma request_recorded:
  "mc_request_history (snd (snd (mock_request st m endpoint kwargs c))) = mc_request_history c @ [(m, endpoint, kwargs)]"
  by (simp add: mock_request_def Let_def)

text \<open>The method is compared in upper case.\<close>

lemma split_at_mark: "c \<notin> set xs \<Longrightarrow> c \<notin> set ys \<Longrightarrow> xs @ c # us = ys @ c # vs \<longleftrightarrow> xs = ys \<and> us = vs"
proof (induction xs arbitrary: ys)
  case Nil
  then show ?case by (cases ys) auto
next
  case (Cons x xs)
  then show ?case by (cases ys) auto
qed

lemma response_found:
  assumes "CHR '':'' \<notin> set (py_upper m)" and "CHR '':'' \<notin> set (py_upper m')"
  shows "response_of (set_response m endpoint a c) m' endpoint' =
    (if py_upper m = py_upper m' \<and> endpoint = endpoint' then a else response_of c m' endpoint')"
proof -
  have "response_key m endpoint = response_key m' endpoint' \<longleftrightarrow> py_upper m = py_upper m' \<and> endpoint = endpoint'"
    using split_at_mark [OF assms] by (simp add: response_key_def)
  then show ?thesis by (auto simp: response_of_def set_response_def dict_get_def)
qed

lemma scripted_error_data: "jget (mock_error_data r) ''errors'' = JNull"
  by (simp add: mock_error_data_def Let_def jget_def dict_get_def)

definition status_class :: "int \<Rightarrow> error_class" where
  "status_class status =
     (if status = 401 then AuthenticationError else if status = 403 then ForbiddenError
      else if status = 404 then NotFoundError else if status = 429 then RateLimitError
      else if 500 \<le> status then VaidCordError else DiscordAPIError)"

text \<open>An answer of 400 or more raises the exception of its class and never crashes; any other gives its data.\<close>

theorem mock_request_answers:
  assumes "r = mc_heap c (response_of c m endpoint)"
  shows "400 \<le> mr_status r \<Longrightarrow> \<exists>e. fst (mock_request st m endpoint kwargs c) = Inl (MockRaised e) \<and>
      ve_status e = Some (mr_status r) \<and> ve_class e = status_class (mr_status r)"
    and "mr_status r < 400 \<Longrightarrow> fst (mock_request st m endpoint kwargs c) = Inr (mr_data r)"
proof -
  have ok: "error_tree_ok []" by (simp add: error_tree_ok.simps)
  show "\<exists>e. fst (mock_request st m endpoint kwargs c) = Inl (MockRaised e) \<and> ve_status e = Some (mr_status r) \<and>
      ve_class e = status_class (mr_status r)" if failed: "400 \<le> mr_status r"
  proof -
    let ?r = "r\<lparr>mr_headers := mock_limit_headers st (mc_rate_limit_remaining c) (mr_headers r)\<rparr>"
    have none: "jget (mock_error_data ?r) ''errors'' = JNull \<or> jget (mock_error_data ?r) ''errors'' = JDict []"
      using scripted_error_data by simp
    obtain e where "create_discord_error (mr_status r) (mock_error_data ?r) = Inr e" "ve_status e = Some (mr_status r)"
      "ve_class e = status_class (mr_status r)"
      using create_discord_error_class [OF failed ok none] unfolding status_class_def by blast
    then show ?thesis using failed by (simp add: mock_request_def Let_def assms [symmetric])
  qed
  show "fst (mock_request st m endpoint kwargs c) = Inr (mr_data r)" if "mr_status r < 400"
    using that by (simp add: mock_request_def Let_def assms [symmetric])
qed

text \<open>The default status is read by the constructor only: configuring it later changes no answer.\<close>

lemma default_status_frozen: "mock_request (configure [SetStatus v] st) m endpoint kwargs c = mock_request st m endpoint kwargs c"
  by (simp add: mock_request_def Let_def configure_def mock_limit_headers_def)

text \<open>The remaining requests never run down.\<close>

lemma remaining_never_falls: "mc_rate_limit_remaining (snd (snd (mock_request st m endpoint kwargs c))) = mc_rate_limit_remaining c"
  by (simp add: mock_request_def Let_def)

section \<open>Laws of the builders\<close>

lemma int_ok_show [simp]: "int_ok (JStr (show_int i))"
  by (simp add: int_ok_def)

lemma mock_user_ok: "user_ok (JDict (mock_user i name is_bot))"
  by (simp add: user_ok_def mock_user_def req_ok_def)

text \<open>The message of the builder is one the event parser accepts, with the ids it was given.\<close>

theorem built_message_parses:
  assumes "fromiso (replace_z stamp) = Inr time"
  shows "\<exists>m. parse_message fromiso now h (JDict (mock_message_payload stamp message_id content author_id channel_id)) = Inr m \<and>
    obj_id m = message_id \<and> message_author_id m = author_id"
proof -
  let ?d = "mock_message_payload stamp message_id content author_id channel_id"
  have "message_ok fromiso ?d"
    using assms mock_user_ok
    by (simp add: message_ok.simps own_part_ok_def mock_message_payload_def jget_def dict_get_def time_ok_def req_ok_def opt_ok_def list_ok_def
        json_truthy_def)
  then obtain as where m: "parse_message fromiso now h (JDict ?d) = Inr (AObj ''Message'' as)" using message_total by blast
  have "obj_id (AObj ''Message'' as) = message_id"
    by (rule message_id [OF m, where v = "JStr (show_int message_id)"]) (simp_all add: mock_message_payload_def)
  moreover have author: "jget ?d ''author'' = JDict (mock_user author_id ''TestUser'' False)" "json_truthy (jget ?d ''author'')"
    by (simp_all add: mock_message_payload_def jget_def dict_get_def json_truthy_def mock_user_def)
  obtain a where a: "parse_user h (JDict (mock_user author_id ''TestUser'' False)) = Inr a" "attr_get (AObj ''Message'' as) ''author'' = a"
    using parse_message_parts [OF m] unfolding author(1) if_P [OF author(2) [unfolded author(1)]] by blast
  have "message_author_id (AObj ''Message'' as) = author_id"
    using build_lookup [OF a(1) [unfolded parse_user_def], of "''id''" "ReqInt ''id''", symmetric] a(2)
    by (simp add: user_fields_def eval_source_def json_index_def dict_index_def mock_user_def message_author_id_def obj_id_def)
  ultimately show ?thesis using m by blast
qed

lemma built_error_is_read:
  assumes "400 \<le> status" and "error_tree_ok errors"
  shows "\<exists>e. create_discord_error status (mock_error code message errors) = Inr e \<and> ve_message e = JStr message"
proof -
  have "jget (mock_error code message errors) ''errors'' = JNull \<or> jget (mock_error code message errors) ''errors'' = JDict errors"
    by (simp add: mock_error_def jget_def dict_get_def)
  moreover have "dict_get (mock_error code message errors) ''message'' (JStr ''Unknown error'') = JStr message"
    by (simp add: mock_error_def dict_get_def)
  ultimately show ?thesis using create_discord_error_class [OF assms, of "mock_error code message errors"] by auto
qed

section \<open>Laws of the mock bot\<close>

lemma test_user_made: "\<exists>u. new_user i name is_bot = Inr u \<and> obj_id u = i"
  by (simp add: new_user_def construct_def unknown_args_def missing_args_def user_class_def class_pieces obj_id_def attr_get_def field_of_def)

text \<open>The messages for tests can be made, and are bound to no bot: replying to one raises.\<close>

theorem test_message_unbound:
  "\<exists>m. create_mock_message now content author_id channel_id guild_id = Inr m \<and> obj_id m = 555555555555555555 \<and>
     (\<forall>(api :: 's caller) s. fst (message_delete api m s) = Inl (PythonError (RuntimeError ''Message is not bound to a bot instance'')))"
proof -
  have "\<exists>u. construct ''User'' user_class [(''id'', AInt author_id), (''username'', AJson (JStr ''TestUser'')), (''discriminator'', AJson (JStr ''0000''))] = Inr u"
    by (simp add: construct_def unknown_args_def missing_args_def user_class_def class_pieces)
  moreover have "\<exists>c. construct ''Channel'' channel_class [(''id'', AInt channel_id), (''type'', AType ''TEXT''), (''name'', AJson (JStr ''test''))] = Inr c"
    by (simp add: construct_def unknown_args_def missing_args_def channel_class_def class_pieces)
  moreover have "\<exists>x. (case guild_id of
         Some g \<Rightarrow> if g \<noteq> 0 then construct ''Guild'' guild_class [(''id'', AInt g), (''name'', AJson (JStr ''Test Guild''))] else Inr ANone
       | None \<Rightarrow> Inr ANone) = Inr x"
    by (simp add: construct_def unknown_args_def missing_args_def guild_class_def class_pieces split: option.split)
  ultimately obtain u c x where parts: "create_mock_message now content author_id channel_id guild_id =
      construct ''Message'' message_class [(''id'', AInt 555555555555555555), (''channel'', c), (''author'', u), (''content'', AJson (JStr content)),
          (''timestamp'', ATime now), (''guild'', x)]"
    by (auto simp: create_mock_message_def)
  also have "\<dots> = Inr (AObj ''Message'' (map (field_of [(''id'', AInt 555555555555555555), (''channel'', c), (''author'', u), (''content'', AJson (JStr content)),
          (''timestamp'', ATime now), (''guild'', x)]) message_class))" (is "_ = Inr ?m")
    by (simp add: construct_def unknown_args_def missing_args_def message_class_def class_pieces)
  finally have made: "create_mock_message now content author_id channel_id guild_id = Inr ?m" .
  have "attr_get ?m ''bot'' = ANone"
    by (rule constructed_message_unbound [OF made [unfolded parts]]) simp
  moreover have "obj_id ?m = 555555555555555555" by (simp add: obj_id_def attr_get_def field_of_def message_class_def class_pieces)
  ultimately show ?thesis using made by (auto simp: message_delete_def when_bound_def)
qed

text \<open>An id that the bot makes up can be one that a test has given: the older object is lost.\<close>

lemma made_up_id_overwrites:
  assumes "mb_users b = [(bot_user_id, u0)]" and "create_test_user (Some (123456789012345678 + 2)) name is_bot b = Inr (u, b1)"
    and "create_test_user None name' is_bot' b1 = Inr (u', b2)"
  shows "obj_id u' = obj_id u \<and> map_of (mb_users b2) (obj_id u) = Some u'"
proof -
  have "mb_users b1 = [(bot_user_id, u0), (123456789012345680, u)]" "obj_id u = 123456789012345680"
    using assms(1,2) test_user_made [of 123456789012345680 name is_bot]
    by (auto simp: create_test_user_def given_or_next_def bind_result_Inr_iff bot_user_id_def)
  then show ?thesis
    using assms(3) test_user_made [of 123456789012345680 name' is_bot']
    by (auto simp: create_test_user_def given_or_next_def bind_result_Inr_iff)
qed

lemma started_bot_is_ready: "mock_is_ready (mock_start st b)" "\<not> mock_is_ready (mock_stop b)"
  by (simp_all add: mock_is_ready_def mock_start_def mock_stop_def mock_connect_def mock_disconnect_def)

end
