(* ===== verification/HttpTransport.thy ===== *)
theory HttpTransport
  imports BotSession ApiClient ErrorText JsonText
begin

text \<open>
  The rest of the HTTP layer: the owner of the aiohttp session (src/vaidcord-py/src/vaidcord/http/transport.py),
  which either keeps a session of its own or asks the bot for its shared one, the form of a file
  upload (http/client.py) and the legacy error type (http/errors.py). The sessions themselves are
  those of \<open>BotSession\<close>; aiohttp's objects are numbers.
\<close>

section \<open>The transport\<close>

text \<open>
  The provider and the closer work on the state \<open>'w\<close> of whoever gave them; \<open>tp_own\<close> are the sessions
  the transport made itself.
\<close>

record 'w transport =
  tp_own :: session_state
  tp_provider :: "('w \<Rightarrow> nat \<times> 'w) option"
  tp_closer :: "('w \<Rightarrow> 'w) option"

definition new_transport :: "('w \<Rightarrow> nat \<times> 'w) option \<Rightarrow> ('w \<Rightarrow> 'w) option \<Rightarrow> 'w transport" where
  "new_transport provider closer =
     \<lparr>tp_own = \<lparr>ss_session = None, ss_sessions = []\<rparr>, tp_provider = provider, tp_closer = closer\<rparr>"

definition transport_headers :: "string \<Rightarrow> string option \<Rightarrow> string \<Rightarrow> string \<Rightarrow> (string \<times> string) list" where
  "transport_headers token user_agent built version =
     [(''Authorization'', ''Bot '' @ token),
      (''User-Agent'', case user_agent of None \<Rightarrow> built | Some u \<Rightarrow> if u = [] then built else u),
      (''X-VaidCord-Version'', version)]"

definition transport_session :: "(string \<times> string) list \<Rightarrow> 'w transport \<Rightarrow> 'w \<Rightarrow> nat \<times> 'w transport \<times> 'w" where
  "transport_session headers t w =
     (case tp_provider t of
        Some p \<Rightarrow> (let (i, w1) = p w in (i, t, w1))
      | None \<Rightarrow> (let (i, own) = shared_session headers (tp_own t) in (i, t\<lparr>tp_own := own\<rparr>, w)))"

definition close_transport :: "'w transport \<Rightarrow> 'w \<Rightarrow> 'w transport \<times> 'w" where
  "close_transport t w =
     (case tp_closer t of
        Some c \<Rightarrow> (t, c w)
      | None \<Rightarrow> (t\<lparr>tp_own := close_session (tp_own t)\<rparr>, w))"

text \<open>\<open>build_user_agent\<close> of metadata.py: the project, the version and the version of Python.\<close>

definition build_user_agent :: "string \<Rightarrow> string \<Rightarrow> string" where
  "build_user_agent version python =
     ''DiscordBot (https://github.com/Vadim-Khristenko/vaidcord, '' @ version @ '') vaidcord/'' @ version @ '' Python/'' @ python"

text \<open>The transport of a bot's client, as \<open>Bot\<close> builds it.\<close>

definition bot_transport :: "(string \<times> string) list \<Rightarrow> session_state transport" where
  "bot_transport headers = new_transport (Some (shared_session headers)) (Some close_session)"

datatype transport_event = Request | CloseIt | Outside nat

primrec transport_step ::
  "(string \<times> string) list \<Rightarrow> transport_event \<Rightarrow> session_state transport \<times> session_state \<Rightarrow> session_state transport \<times> session_state" where
  "transport_step headers Request p = snd (transport_session headers (fst p) (snd p))"
| "transport_step headers CloseIt p = close_transport (fst p) (snd p)"
| "transport_step headers (Outside i) p = (fst p, session_step headers (ClosedOutside i) (snd p))"

primrec as_session_event :: "transport_event \<Rightarrow> session_event" where
  "as_session_event Request = CreateSession"
| "as_session_event CloseIt = CloseSession"
| "as_session_event (Outside i) = ClosedOutside i"

lemma bot_transport_step:
  "transport_step headers e (bot_transport hs, s) = (bot_transport hs, session_step hs (as_session_event e) s)"
  by (cases e) (simp_all add: transport_session_def close_transport_def bot_transport_def new_transport_def split: prod.split)

text \<open>
  A bot and its HTTP client share one session: the transport opens none of its own, and every
  request and close through it is one of the bot's. So whatever is requested, closed or lost, at most one session is
  open and closing the client leaves none.
\<close>

theorem client_shares_bot_session:
  assumes "(t, s) = fold (transport_step headers) es (bot_transport headers, \<lparr>ss_session = None, ss_sessions = []\<rparr>)"
  shows "ss_sessions (tp_own t) = [] \<and>
    list_all (\<lambda>i. \<not> hs_closed (ss_sessions s ! i) \<longrightarrow> ss_session s = Some i) [0..<length (ss_sessions s)] \<and>
    list_all hs_closed (ss_sessions (snd (close_transport t s)))"
proof -
  have run: "fold (transport_step headers) es (bot_transport headers, s0) =
      (bot_transport headers, fold (session_step headers) (map as_session_event es) s0)" for s0
    by (induction es arbitrary: s0) (simp_all add: bot_transport_step)
  then have t: "t = bot_transport headers"
    and s: "s = fold (session_step headers) (map as_session_event es) \<lparr>ss_session = None, ss_sessions = []\<rparr>"
    using assms by simp_all
  have "snd (close_transport t s) = close_session s" by (simp add: t close_transport_def bot_transport_def new_transport_def)
  moreover have "ss_sessions (tp_own t) = []" by (simp add: t bot_transport_def new_transport_def)
  ultimately show ?thesis using one_open_session [OF s] by simp
qed

text \<open>A provider without a closer: closing the transport leaves the provider's session open.\<close>

lemma provider_alone_stays_open:
  "close_transport (new_transport (Some p) None) w = (new_transport (Some p) None, w)"
  by (simp add: close_transport_def new_transport_def close_session_def)

section \<open>File uploads\<close>

text \<open>\<open>container_text\<close> is \<open>str\<close> of what \<open>py_str\<close> leaves open: floats and containers.\<close>

definition upload_form :: "(json \<Rightarrow> string) \<Rightarrow> bytes \<Rightarrow> string \<Rightarrow> string \<Rightarrow> jdict \<Rightarrow> form_part list" where
  "upload_form container_text file_data filename content_type kwargs =
     FilePart ''file'' file_data filename content_type #
     (case map_of kwargs ''payload_json'' of
        Some v \<Rightarrow> [JsonPart ''payload_json'' v]
      | None \<Rightarrow> []) @
     map (\<lambda>p. TextPart (fst p) (value_text container_text (snd p))) (dict_pop kwargs ''payload_json'')"

definition upload_file :: "(json \<Rightarrow> string) \<Rightarrow> string \<Rightarrow> bytes \<Rightarrow> string \<Rightarrow> string \<Rightarrow> jdict \<Rightarrow> api_request" where
  "upload_file container_text endpoint file_data filename content_type kwargs =
     \<lparr>ar_method = ''POST'', ar_path = endpoint, ar_json = None, ar_params = None, ar_headers = [],
      ar_form = Some (upload_form container_text file_data filename content_type kwargs)\<rparr>"

definition part_name :: "form_part \<Rightarrow> string" where
  "part_name p = (case p of JsonPart n _ \<Rightarrow> n | TextPart n _ \<Rightarrow> n | FilePart n _ _ _ \<Rightarrow> n)"

text \<open>Every keyword becomes one part, the file comes first, and names collide only if a keyword is called file.\<close>

lemma upload_parts_distinct:
  assumes "dict_wf kwargs" and "''file'' \<notin> fst ` set kwargs"
  shows "distinct (map part_name (upload_form ct d f c kwargs)) \<and>
    set (map part_name (upload_form ct d f c kwargs)) = insert ''file'' (fst ` set kwargs)"
proof -
  have rest: "map part_name (map (\<lambda>p. TextPart (fst p) (value_text ct (snd p))) (dict_pop kwargs ''payload_json'')) =
      map fst (dict_pop kwargs ''payload_json'')"
    by (simp add: part_name_def)
  have d: "distinct (map fst (dict_pop kwargs ''payload_json''))"
    using assms(1) by (simp add: dict_wf_def dict_pop_def distinct_map_filter)
  have keys: "fst ` set (dict_pop kwargs ''payload_json'') = fst ` set kwargs - {''payload_json''}"
    by (auto simp: dict_pop_def)
  show ?thesis
  proof (cases "map_of kwargs ''payload_json''")
    case None
    then have "''payload_json'' \<notin> fst ` set kwargs" by (simp add: map_of_eq_None_iff)
    then show ?thesis using None rest d keys assms(2)
      by (simp add: upload_form_def part_name_def [of "FilePart _ _ _ _"] del: map_map)
  next
    case (Some v)
    then have "''payload_json'' \<in> fst ` set kwargs" by (metis domI dom_map_of_conv_image_fst)
    then show ?thesis using Some rest d keys assms(2)
      by (auto simp: upload_form_def part_name_def [of "FilePart _ _ _ _"] part_name_def [of "JsonPart _ _"] simp del: map_map)
  qed
qed

section \<open>The legacy error type\<close>

definition legacy_error_codes :: "(string \<times> int) list" where
  "legacy_error_codes =
     [(''UNKNOWN_ACCOUNT'', 10001), (''UNKNOWN_APPLICATION'', 10002), (''UNKNOWN_CHANNEL'', 10003),
      (''UNKNOWN_GUILD'', 10004), (''UNKNOWN_INTEGRATION'', 10005), (''UNKNOWN_INVITE'', 10006),
      (''UNKNOWN_MEMBER'', 10007), (''UNKNOWN_MESSAGE'', 10008), (''UNKNOWN_OVERWRITE'', 10009),
      (''UNKNOWN_PROVIDER'', 10010), (''UNKNOWN_ROLE_1'', 10011), (''UNKNOWN_TOKEN'', 10012), (''UNKNOWN_USER'', 10013),
      (''UNKNOWN_EMOJI'', 10014), (''UNKNOWN_WEBHOOK'', 10015), (''UNKNOWN_BOT'', 10016), (''BOTS_NOT_ALLOWED'', 20001),
      (''BOT_ONLY_ENDPOINT'', 20002), (''MAX_CHANNELS_EXCEEDED'', 30003), (''UNAUTHORIZED'', 40001),
      (''USER_BANNED'', 40004), (''CONNECTION_REVOKED'', 40005), (''MISSING_ACCESS'', 50001),
      (''INVALID_ACCOUNT_TYPE'', 50002), (''CANNOT_EXECUTE_ON_DM'', 50003), (''EMBED_DISABLED'', 50004),
      (''CANNOT_EDIT_MESSAGE_BY_OTHER'', 50005), (''CANNOT_SEND_EMPTY_MESSAGE'', 50006),
      (''CANNOT_MESSAGE_USER'', 50007), (''CANNOT_SEND_MESSAGES_IN_VOICE_CHANNEL'', 50008),
      (''CHANNEL_VERIFICATION_LEVEL_TOO_HIGH'', 50009), (''OAUTH2_APPLICATION_HAS_NO_BOT'', 50010),
      (''OAUTH2_APPLICATION_LIMIT_REACHED'', 50011), (''INVALID_OAUTH_STATE'', 50012), (''MISSING_PERMISSIONS'', 50013),
      (''INVALID_AUTHENTICATION_TOKEN'', 50014), (''NOTE_TOO_LONG'', 50015),
      (''BULK_DELETE_AMOUNT_OUT_OF_RANGE'', 50016), (''CANNOT_PIN_MESSAGE_IN_OTHER_CHANNEL'', 50019),
      (''INVITE_CODE_INVALID_OR_TAKEN'', 50020), (''CANNOT_EXECUTE_ON_SYSTEM_MESSAGE'', 50021),
      (''CANNOT_EXECUTE_ON_CHANNEL_TYPE'', 50024), (''INVALID_OAUTH2_ACCESS_TOKEN'', 50025),
      (''MISSING_REQUIRED_OAUTH2_SCOPE'', 50026), (''INVALID_WEBHOOK_TOKEN'', 50027), (''UNKNOWN_ROLE_2'', 50028),
      (''INVALID_FORM_BODY'', 50035), (''APPLICATION_COMMAND_TOO_LARGE'', 50038)]"


record legacy_error =
  le_code :: json
  le_message :: json
  le_errors :: json

definition legacy_from_response :: "int \<Rightarrow> jdict \<Rightarrow> legacy_error" where
  "legacy_from_response status data =
     \<lparr>le_code = dict_get data ''code'' (JInt status), le_message = dict_get data ''message'' (JStr ''Unknown error''), le_errors = jget data ''errors''\<rparr>"

definition legacy_str :: "(real \<Rightarrow> string) \<Rightarrow> (json \<Rightarrow> string) \<Rightarrow> legacy_error \<Rightarrow> string" where
  "legacy_str float_text container_text e =
     (let head = value_text container_text (le_code e) @ '': '' @ value_text container_text (le_message e)
      in if json_truthy (le_errors e) then head @ '' - Errors: '' @ json_dumps float_text (le_errors e) else head)"

text \<open>Both error types read the same code and message from an answer with an error status.\<close>

lemma legacy_agrees:
  assumes "create_discord_error status data = Inr e" and "400 \<le> status" and "status < 500" and "status \<notin> {401, 403, 404, 429}"
  shows "le_code (legacy_from_response status data) = ve_code e \<and> le_message (legacy_from_response status data) = ve_message e"
  using assms by (auto simp: create_discord_error_def Let_def discord_api_error_def base_error_def legacy_from_response_def bind_result_Inr_iff
      split: if_splits)

text \<open>
  The two enumerations disagree: numbers that stand for different things.
\<close>

lemma legacy_codes_disagree:
  "enum_of legacy_error_codes 40005 = Some ''CONNECTION_REVOKED''" "enum_of discord_error_codes 40005 = Some ''REQUEST_ENTITY_TOO_LARGE''"
  "enum_of legacy_error_codes 30003 = Some ''MAX_CHANNELS_EXCEEDED''" "enum_of discord_error_codes 30003 = Some ''MAX_PINS_REACHED''"
  by code_simp+

end
