(* ===== verification/Spec2Isabelle.thy ===== *)
theory Spec2Isabelle
  imports Permissions DispatchLaws EventParser Commands VoiceManager VoiceReceive AudioBackends AudioPlayer DavePayload FsmRemote MockGateway OAuth2 LogFormat ErrorText BotSession Formatting ApiClient Resources BotFacade Dispatcher MockHelpers HttpTransport
begin

text \<open>
  A verification of the VaidCord Python SDK, the Discord client library under
  src/vaidcord-py/src/vaidcord. All file names below are relative to that directory.

  \<^bold>\<open>The program.\<close> A bot opens a gateway websocket (\<^verbatim>\<open>gateway_runtime.py\<close>), turns its payloads into
  typed events (\<^verbatim>\<open>_internal/event_parser.py\<close>, \<^verbatim>\<open>bot.py\<close>) and propagates them through a tree of
  routers with filters and middleware (\<^verbatim>\<open>router.py\<close>, \<^verbatim>\<open>filters/\<close>), where handlers may keep
  conversation state (\<^verbatim>\<open>fsm/\<close>). Answers go out over a rate-limited REST client (\<^verbatim>\<open>http/\<close>,
  \<^verbatim>\<open>errors.py\<close>). Voice (\<^verbatim>\<open>voice/\<close>) is a second websocket with a UDP transport, transport
  encryption, the end-to-end protocol DAVE (\<^verbatim>\<open>voice/dave/\<close>) and a player. Permissions and command
  registration are computed locally (\<^verbatim>\<open>permissions.py\<close>, \<^verbatim>\<open>commands.py\<close>). The bot's REST methods go through a
  message service and an API client (\<^verbatim>\<open>_internal/services/messages.py\<close>, \<^verbatim>\<open>api_client.py\<close>) and return typed
  resources (\<^verbatim>\<open>types/resources.py\<close>); a dispatcher runs several bots (\<^verbatim>\<open>dispatcher.py\<close>). A mock server with a
  gateway and a REST side (\<^verbatim>\<open>mock/\<close>) stands in for Discord in tests.

  \<^bold>\<open>Conventions.\<close> \<open>Prelude\<close> has Python's results as sums (\<open>exc + 'a\<close>), insertion-ordered
  dictionaries, integer printing and parsing, big-endian encodings, reachability and the stable
  descending sort; \<open>PyValue\<close> has JSON values with Python's conversions, \<open>PyText\<close> splitting and joining of
  strings, \<open>UrlQuote\<close> percent-encoding and \<open>JsonText\<close> the text of JSON, each with its round trip. Classes are records, enums
  datatypes, raised exceptions \<open>Inl\<close>. Stateful code passes its state on; coroutines whose
  interleaving matters are step relations. What other programs do - Discord, the network, clocks,
  random numbers, ffmpeg, libopus, AES - is an argument of the definitions; the theorems that
  need a property of it have it as a named hypothesis (\<open>crypto_sound\<close>, \<open>keeps_commands\<close>,
  \<open>clock_ok\<close>) with a witness.

  \<^bold>\<open>Theories.\<close>
  \<^item> \<open>PermissionFlags\<close>, \<open>Permissions\<close> (\<^verbatim>\<open>permissions.py\<close>): flag words with IntFlag's complement, overwrites
    and the calculator; a channel permission is decided by member, then roles (allow wins), then
    everyone, then the base; owners and administrators bypass all of it.
  \<^item> \<open>EventTypes\<close>, \<open>Router\<close>, \<open>RouterResolution\<close> (\<^verbatim>\<open>types/\<close>, \<^verbatim>\<open>router.py\<close>): the registry as a store of
    routers with parent and child links and resolution caches. Registration keeps the tree and the
    coherence of every cache, cached resolution is the root-to-leaf concatenation, including a
    router keeps the tree or, for an ancestor, diverges.
  \<^item> \<open>Filters\<close>, \<open>RouterDispatch\<close>, \<open>DispatchLaws\<close> (\<^verbatim>\<open>filters/\<close>, \<^verbatim>\<open>router.py\<close>): user code is a parameter.
    Filters gate handlers, dispatch does not depend on the caches, middleware nests as an onion,
    StopPropagation does not leave a router with outer middleware.
  \<^item> \<open>Fsm\<close>, \<open>FsmRemote\<close> (\<^verbatim>\<open>fsm/\<close>): the memory and SQLite storages refine a plain map under any sequence of
    operations and snapshots round-trip; Redis, MongoDB and PostgreSQL, over drivers with the laws their
    databases document (\<open>redis_ok\<close>, \<open>mongo_ok\<close>, \<open>postgres_ok\<close>), agree with them.
  \<^item> \<open>Gateway\<close> (\<^verbatim>\<open>gateway_runtime.py\<close>, \<^verbatim>\<open>bot.py\<close>): the receive loop, heartbeat tasks and stops as a step
    relation; heartbeat discipline, and that a session is never resumed.
  \<^item> \<open>EventParser\<close>, \<open>Commands\<close> (\<^verbatim>\<open>_internal/event_parser.py\<close>, \<^verbatim>\<open>commands.py\<close>, \<^verbatim>\<open>bot.py\<close>): typed events and caches;
    option validation and an idempotent command synchronisation.
  \<^item> \<open>ErrorTypes\<close>, \<open>ErrorText\<close>, \<open>Http\<close> (\<^verbatim>\<open>errors.py\<close>, \<^verbatim>\<open>http/\<close>): error classes, flattening of nested errors and the
    texts errors are shown as; retries, rate limits, redaction of secrets in logs.
  \<^item> \<open>VoiceTransport\<close>, \<open>VoiceSession\<close>, \<open>VoiceManager\<close> (\<^verbatim>\<open>voice/\<close>): RTP, voice boxes, the connection with its
    handshake, reconnection and audio, joins. The transport key is always current, nonces do not
    repeat, joins never use stale data.
  \<^item> \<open>VoiceReceive\<close> (\<^verbatim>\<open>voice/udp.py\<close>, \<^verbatim>\<open>voice/receive.py\<close>): the UDP client, the task of the receiver and the sinks;
    speakers are decoded apart, and a receiver whose transport is closed stays deaf.
  \<^item> \<open>AudioSources\<close>, \<open>FfmpegProcess\<close>, \<open>AudioBackends\<close>, \<open>AudioPlayer\<close> (\<^verbatim>\<open>voice/sources.py\<close>, \<^verbatim>\<open>voice/opus.py\<close>,
    \<^verbatim>\<open>voice/audio.py\<close>, \<^verbatim>\<open>voice/player.py\<close>): PCM and Ogg framing, volume, the ffmpeg process, which does not outlive
    its source, the pointers given to libopus, and the playback loop with its pacing bound and its clean-up.
  \<^item> \<open>DaveCrypto\<close>, \<open>DaveController\<close>, \<open>DaveBackend\<close>, \<open>DavePayload\<close> (\<^verbatim>\<open>voice/dave/\<close>): key ratchets, the protocol controller
    and the reference backend over the in-process MLS provider, with its wire payloads: a welcome sent as
    JSON text gives a newcomer the sender's epoch secret.
  \<^item> \<open>OAuth2\<close>, \<open>Formatting\<close>, \<open>Components\<close>, \<open>Resources\<close> (\<^verbatim>\<open>oauth2.py\<close>, \<^verbatim>\<open>formatting/\<close>, \<^verbatim>\<open>components.py\<close>,
    \<^verbatim>\<open>types/resources.py\<close>): tokens, grants and authorization URLs that parse back; Markdown that stays
    literal; component trees within their limits; every resource class as a table of typed fields.
  \<^item> \<open>ApiClient\<close>, \<open>MessageService\<close>, \<open>BotFacade\<close> (\<^verbatim>\<open>api_client.py\<close>, \<^verbatim>\<open>_internal/services/messages.py\<close>, \<^verbatim>\<open>bot.py\<close>,
    \<^verbatim>\<open>application.py\<close>): every endpoint as the request it makes, path segment by path segment; the message
    operations over any caller; the bot's caches, which are keyed by id in every reachable state.
  \<^item> \<open>Dispatcher\<close> (\<^verbatim>\<open>dispatcher.py\<close>): wiring of bots and interleaved polling; bots started together shut
    down once.
  \<^item> \<open>MockGateway\<close>, \<open>MockServer\<close>, \<open>MockServerLaws\<close> (\<^verbatim>\<open>mock/\<close>): sessions with replay buffers, snowflakes, rate
    windows; the REST handlers with middleware, snapshots and scenarios over stores of shared
    objects. The list and the index of messages agree in every reachable state, the client's gateway
    runtime establishes a session with the mock hub, and a message that goes through service, API
    client, HTTP status mapping and mock server comes back parsed.
  \<^item> \<open>BotSession\<close> (\<^verbatim>\<open>bot.py\<close>, \<^verbatim>\<open>fsm/context.py\<close>): intents, the one HTTP session of a bot, conversation contexts
    that do not see each other.
  \<^item> \<open>EventModels\<close>, \<open>MessageActions\<close> (\<^verbatim>\<open>types/__init__.py\<close>): the dataclasses as tables of fields; every typed
    payload has exactly the fields of its class, and the actions of a received message address that message.
  \<^item> \<open>MockHelpers\<close> (\<^verbatim>\<open>mock/gateway.py\<close>, \<^verbatim>\<open>mock/http.py\<close>, \<^verbatim>\<open>mock/builders.py\<close>, \<^verbatim>\<open>mock/bot.py\<close>): the mocks
    inside the process; scripted events come in order after READY, and built payloads parse.
  \<^item> \<open>HttpTransport\<close> (\<^verbatim>\<open>http/transport.py\<close>, \<^verbatim>\<open>http/errors.py\<close>, \<^verbatim>\<open>http/client.py\<close>): the client shares the bot's
    session and opens none of its own; upload forms; the legacy error type.
  \<^item> \<open>LogFormat\<close> (\<^verbatim>\<open>logging.py\<close>): the context of log records, their lines and the files, one per bot, which stay
    apart.
  \<^item> this theory: an encrypted call from one client's \<open>send_audio_frame\<close> to another's receiver.

  \<^bold>\<open>Bounds and fuel.\<close> Invalidation and resolution in the router registry recurse over parent and child
  links, which user code can make cyclic; they take a recursion limit, and the theorems say when a
  limit suffices (any limit above the height of the tree) and that no limit does for a cycle.
  Loops over the network take the list of what the network does; a result None then says that the
  list ended first. Every other recursion is total with its termination proof.

  \<^bold>\<open>Not modelled.\<close> User interface pages, rotation of log files, type aliases, the database drivers, libopus and ffmpeg themselves and
  the aiohttp session are input and output or other programs; the Go and Rust ports are separate programs. Floating
  point is modelled by real numbers, except where a product is a parameter.
\<close>

section \<open>An encrypted call\<close>

text \<open>The reference DAVE backend's frame operations, as the controller of a connection calls them.\<close>

definition raised_by_backend :: "'a result \<times> backend \<Rightarrow> 'a dres \<times> backend" where
  "raised_by_backend r = (case r of (Inl e, b) \<Rightarrow> (Inl (BackendRaised e), b) | (Inr x, b) \<Rightarrow> (Inr x, b))"

definition reference_frames :: "hkdf \<Rightarrow> gcm \<Rightarrow> backend dave_ops \<Rightarrow> backend dave_ops" where
  "reference_frames H G ops =
     ops\<lparr>op_encrypt_frame := (\<lambda>ssrc frame b. raised_by_backend (backend_encrypt_frame H G ssrc frame b)),
         op_decrypt_frame := (\<lambda>ssrc frame b. raised_by_backend (backend_decrypt_frame H G ssrc frame b))\<rparr>"

lemma reference_link:
  assumes "backend_inv H s" and "backend_inv H d" and "hkdf_sized H" and "gcm_sound G" and "bk_provider d = bk_provider s"
    and "generation_of (bk_recv_ratchets d) ssrc \<le> generation_of (bk_send_ratchets s) ssrc"
    and "generation_of (bk_send_ratchets s) ssrc \<le> generation_of (bk_recv_ratchets d) ssrc + 32"
    and "ds_enabled (ct_state cs)" and "ds_enabled (ct_state cd)" and "ct_backend cs = s" and "ct_backend cd = d"
    and "encrypt_frame (reference_frames H G ops) ssrc payload cs = (Inr body, cs')"
  shows "body \<noteq> [] \<and> fst (decrypt_frame (reference_frames H G ops') ssrc body cd) = Inr payload"
proof -
  obtain s1 where e: "backend_encrypt_frame H G ssrc payload s = (Inr body, s1)"
    using assms(8,10,12)
    by (auto simp: encrypt_frame_def call_backend_def reference_frames_def raised_by_backend_def split: prod.splits sum.splits)
  have "body \<noteq> []" using encrypt_frame_Inr [OF assms(1,3) e] by (metis append_is_Nil_conv length_0_conv length_be_encode zero_neq_numeral)
  moreover have "fst (backend_decrypt_frame H G ssrc body d) = Inr payload"
    using frame_decrypts [OF assms(1-5) e assms(6,7)] .
  ultimately show ?thesis
    using assms(9,11)
    by (cases "backend_decrypt_frame H G ssrc body d")
      (simp add: decrypt_frame_def call_backend_def reference_frames_def raised_by_backend_def)
qed


definition call_peer :: "backend voice_connection" where
  "call_peer =
     \<lparr>vc_guild_id = 1, vc_user_id = 2, vc_session_id = JStr ''s'', vc_token = JStr ''t'',
      vc_ready = Some \<lparr>vr_ssrc = 7, vr_ip = JStr ''h'', vr_port = 9, vr_modes = []\<rparr>,
      vc_session_description = Some \<lparr>sd_mode = JStr ''aead_aes256_gcm_rtpsize'', sd_secret_key = [7]\<rparr>,
      vc_udp = True, vc_ws = Some True, vc_heartbeat_interval = None, vc_last_sequence = -1,
      vc_last_heartbeat_sent_at = None, vc_latency = 0, vc_rtp = \<lparr>rs_sequence = 0, rs_timestamp = 0, rs_nonce = 0\<rparr>,
      vc_voice_box = Some \<lparr>vb_mode = AeadAes256GcmRtpsize, vb_key = [7]\<rparr>, vc_ssrc_map = [(7, 2)], vc_closing = False,
      vc_resumed = False, vc_listening = True,
      vc_dave = \<lparr>ct_backend = demo_backend, ct_state = initial_dave_state\<lparr>ds_enabled := True\<rparr>, ct_fail_fast = True, ct_sent = []\<rparr>,
      vc_ws_sent = [], vc_udp_sent = [], vc_speaking = []\<rparr>"

lemma call_peer_box:
  "transport_box \<lparr>sd_mode = JStr ''aead_aes256_gcm_rtpsize'', sd_secret_key = [7]\<rparr> = Inr \<lparr>vb_mode = AeadAes256GcmRtpsize, vb_key = [7]\<rparr>"
  by (simp add: transport_box_def create_voice_box_def voice_mode_name_def)

lemma call_peer_sends:
  "\<exists>s'. send_audio_frame (reference_frames toy_hkdf toy_gcm unsupported_backend) toy_lib None [1, 2] 960 0x78 True call_peer = (Inr (), s')"
proof -
  obtain wire s1 where "backend_encrypt_frame toy_hkdf toy_gcm 7 [1, 2] demo_backend = (Inr wire, s1)" using demo_encrypts by blast
  then show ?thesis
    by (simp add: send_audio_frame_def call_peer_def vbind_def vlift_def build_rtp_packet_def pack_uint_def on_dave_def
        encrypt_frame_def call_backend_def reference_frames_def raised_by_backend_def encrypt_voice_payload_def vret_def vmodify_def)
qed


end
